(* ===== verification/Prelude.thy ===== *)
theory Prelude
  imports Main
begin

text \<open>
  Shared vocabulary of the development: the result type of fallible operations with its
  sequencing operator, the few Python string primitives the code relies on
  (\<^verbatim>\<open>str.strip\<close>, \<^verbatim>\<open>str.lower\<close>, \<^verbatim>\<open>str.split\<close>, \<^verbatim>\<open>int(str)\<close>, \<^verbatim>\<open>str(int)\<close>), and generic
  facts on lists used by the table operations.  Strings are lists of 8-bit characters, so the
  string primitives are those of Python restricted to that character range.
\<close>

named_theorems gbp_simps \<open>evaluation rules shared by the component proofs\<close>

section \<open>Results\<close>

text \<open>An operation returns \<open>Inl\<close> of the exception it raises or \<open>Inr\<close> of its value.\<close>

definition bindE :: "'e + 'a \<Rightarrow> ('a \<Rightarrow> 'e + 'b) \<Rightarrow> 'e + 'b" where
  "bindE m f = (case m of Inl e \<Rightarrow> Inl e | Inr x \<Rightarrow> f x)"

lemma bindE_Inl [simp]: "bindE (Inl e) f = Inl e"
  by (simp add: bindE_def)

lemma bindE_Inr [simp]: "bindE (Inr x) f = f x"
  by (simp add: bindE_def)

lemma bindE_eq_Inr: "bindE m f = Inr y \<longleftrightarrow> (\<exists>x. m = Inr x \<and> f x = Inr y)"
  by (cases m) auto

lemma bindE_eq_Inl: "bindE m f = Inl e \<longleftrightarrow> m = Inl e \<or> (\<exists>x. m = Inr x \<and> f x = Inl e)"
  by (cases m) auto

lemma bindE_assoc: "bindE (bindE m f) g = bindE m (\<lambda>x. bindE (f x) g)"
  by (cases m) auto

definition guardE :: "bool \<Rightarrow> 'e \<Rightarrow> 'e + unit" where
  "guardE c e = (if c then Inr () else Inl e)"

lemma guardE_eq_Inr [simp]: "guardE c e = Inr u \<longleftrightarrow> c"
  by (simp add: guardE_def)

lemma guardE_eq_Inl [simp]: "guardE c e = Inl e' \<longleftrightarrow> \<not> c \<and> e' = e"
  by (auto simp: guardE_def)

lemma guardE_simps [simp]: "guardE True e = Inr ()" "guardE False e = Inl e"
  by (simp_all add: guardE_def)

text \<open>A \<^verbatim>\<open>for\<close> loop whose body only checks: it stops at the first exception.\<close>

fun checkE :: "('a \<Rightarrow> 'e + unit) \<Rightarrow> 'a list \<Rightarrow> 'e + unit" where
  "checkE f [] = Inr ()"
| "checkE f (x # xs) = bindE (f x) (\<lambda>_. checkE f xs)"

lemma checkE_eq_Inr: "checkE f xs = Inr () \<longleftrightarrow> (\<forall>x \<in> set xs. f x = Inr ())"
  by (induction xs) (auto simp: bindE_eq_Inr)

lemma checkE_Inl_source: "checkE f xs = Inl e \<Longrightarrow> \<exists>x \<in> set xs. f x = Inl e"
  by (induction xs) (auto simp: bindE_eq_Inl)

text \<open>A \<^verbatim>\<open>for\<close> loop over a state that may raise.\<close>

fun foldE :: "('a \<Rightarrow> 's \<Rightarrow> 'e + 's) \<Rightarrow> 'a list \<Rightarrow> 's \<Rightarrow> 'e + 's" where
  "foldE f [] s = Inr s"
| "foldE f (x # xs) s = bindE (f x s) (foldE f xs)"

lemma foldE_invariant:
  assumes "\<And>x s s'. x \<in> set xs \<Longrightarrow> P s \<Longrightarrow> f x s = Inr s' \<Longrightarrow> P s'"
    and "P s" and "foldE f xs s = Inr s'"
  shows "P s'"
  using assms
proof (induction xs arbitrary: s)
  case Nil
  then show ?case by simp
next
  case (Cons x xs)
  from Cons.prems(3) obtain t where t: "f x s = Inr t" "foldE f xs t = Inr s'"
    by (auto simp: bindE_eq_Inr)
  have "P t" using Cons.prems(1,2) t(1) by auto
  moreover have "\<And>y u u'. y \<in> set xs \<Longrightarrow> P u \<Longrightarrow> f y u = Inr u' \<Longrightarrow> P u'"
    using Cons.prems(1) by auto
  ultimately show ?case using Cons.IH t(2) by blast
qed

section \<open>Optional updates\<close>

text \<open>
  A request body is a dictionary in which a key may be missing.  \<open>upd_opt k old\<close> is the column
  after \<^verbatim>\<open>row.update(body)\<close>: the old value where the key is missing.
\<close>

definition upd_opt :: "'a option \<Rightarrow> 'a \<Rightarrow> 'a" where
  "upd_opt k old = (case k of None \<Rightarrow> old | Some v \<Rightarrow> v)"

lemma upd_opt_simps [simp]: "upd_opt None old = old" "upd_opt (Some v) old = v"
  by (simp_all add: upd_opt_def)

text \<open>\<^verbatim>\<open>d.get(key, default)\<close>.\<close>

abbreviation get_default :: "'a option \<Rightarrow> 'a \<Rightarrow> 'a" where
  "get_default k d \<equiv> upd_opt k d"

section \<open>Python strings\<close>

definition py_is_space :: "char \<Rightarrow> bool" where
  "py_is_space c = (let n = (of_char c :: nat) in (9 \<le> n \<and> n \<le> 13) \<or> (28 \<le> n \<and> n \<le> 32))"

definition py_strip :: "string \<Rightarrow> string" where
  "py_strip s = rev (dropWhile py_is_space (rev (dropWhile py_is_space s)))"

definition py_lower_char :: "char \<Rightarrow> char" where
  "py_lower_char c =
     (let n = (of_char c :: nat) in if 65 \<le> n \<and> n \<le> 90 then char_of (n + 32) else c)"

definition py_lower :: "string \<Rightarrow> string" where
  "py_lower s = map py_lower_char s"

definition py_is_digit :: "char \<Rightarrow> bool" where
  "py_is_digit c = (let n = (of_char c :: nat) in 48 \<le> n \<and> n \<le> 57)"

definition digit_val :: "char \<Rightarrow> nat" where
  "digit_val c = of_char c - 48"

definition digit_char :: "nat \<Rightarrow> char" where
  "digit_char d = char_of (d + 48)"

text \<open>\<^verbatim>\<open>s.split(c)\<close> for a one-character separator.\<close>

fun py_split :: "char \<Rightarrow> string \<Rightarrow> string list" where
  "py_split c [] = [[]]"
| "py_split c (x # xs) =
     (if x = c then [] # py_split c xs
      else (case py_split c xs of [] \<Rightarrow> [[x]] | p # ps \<Rightarrow> (x # p) # ps))"

text \<open>\<^verbatim>\<open>s.split(c, 1)\<close>: at most one cut.\<close>

definition py_split1 :: "char \<Rightarrow> string \<Rightarrow> string list" where
  "py_split1 c s =
     (if c \<in> set s then [takeWhile (\<lambda>x. x \<noteq> c) s, tl (dropWhile (\<lambda>x. x \<noteq> c) s)] else [s])"

text \<open>\<^verbatim>\<open>s.partition(c)\<close>: the part before the separator and the part after it, the latter
  empty when there is no separator.\<close>

definition py_partition :: "char \<Rightarrow> string \<Rightarrow> string \<times> string" where
  "py_partition c s = (takeWhile (\<lambda>x. x \<noteq> c) s, tl (dropWhile (\<lambda>x. x \<noteq> c) s))"

lemma py_split1_partition:
  "py_split1 c s = (if c \<in> set s then [fst (py_partition c s), snd (py_partition c s)] else [s])"
  by (simp add: py_split1_def py_partition_def)

lemma py_partition_no_sep: "c \<notin> set s \<Longrightarrow> py_partition c s = (s, [])"
proof -
  assume a: "c \<notin> set s"
  then have "dropWhile (\<lambda>x. x \<noteq> c) s = []" by (auto simp: dropWhile_eq_Nil_conv)
  moreover from a have "takeWhile (\<lambda>x. x \<noteq> c) s = s" by (auto simp: takeWhile_eq_all_conv)
  ultimately show ?thesis by (simp only: py_partition_def list.sel)
qed

lemma py_partition_append [simp]:
  "c \<notin> set a \<Longrightarrow> py_partition c (a @ c # b) = (a, b)"
  by (induction a) (auto simp: py_partition_def)

text \<open>\<^verbatim>\<open>sep.join(parts)\<close>.\<close>

fun py_join :: "string \<Rightarrow> string list \<Rightarrow> string" where
  "py_join sep [] = []"
| "py_join sep [p] = p"
| "py_join sep (p # q # ps) = p @ sep @ py_join sep (q # ps)"

text \<open>
  \<^verbatim>\<open>int(s)\<close>: surrounding white space and a sign are accepted, single underscores are accepted
  between digits; \<open>None\<close> is \<^verbatim>\<open>ValueError\<close>.
\<close>

fun digits_val :: "string \<Rightarrow> nat \<Rightarrow> bool \<Rightarrow> nat option" where
  "digits_val [] acc prev = (if prev then Some acc else None)"
| "digits_val (c # cs) acc prev =
     (if py_is_digit c then digits_val cs (10 * acc + digit_val c) True
      else if c = CHR ''_'' \<and> prev then digits_val cs acc False
      else None)"

definition py_int :: "string \<Rightarrow> int option" where
  "py_int s =
     (case py_strip s of
        [] \<Rightarrow> None
      | c # cs \<Rightarrow>
          if c = CHR ''-'' then map_option (\<lambda>n. - int n) (digits_val cs 0 False)
          else if c = CHR ''+'' then map_option int (digits_val cs 0 False)
          else map_option int (digits_val (c # cs) 0 False))"

text \<open>\<^verbatim>\<open>str(n)\<close>.\<close>

fun nat_str :: "nat \<Rightarrow> string" where
  "nat_str n = (if n < 10 then [digit_char n] else nat_str (n div 10) @ [digit_char (n mod 10)])"

declare nat_str.simps [simp del]

definition py_str_int :: "int \<Rightarrow> string" where
  "py_str_int i = (if i < 0 then CHR ''-'' # nat_str (nat (- i)) else nat_str (nat i))"

lemma of_char_digit [simp]: "d < 10 \<Longrightarrow> (of_char (digit_char d) :: nat) = d + 48"
  by (simp add: digit_char_def)

lemma digit_char_props:
  assumes "d < 10"
  shows "py_is_digit (digit_char d)" "digit_val (digit_char d) = d"
    "\<not> py_is_space (digit_char d)"
  using assms by (simp_all add: py_is_digit_def digit_val_def py_is_space_def Let_def)

lemma digit_char_neq:
  assumes "d < 10"
  shows "digit_char d \<noteq> CHR '':''" "digit_char d \<noteq> CHR ''-''" "digit_char d \<noteq> CHR ''+''"
proof -
  have *: "of_char (digit_char d) = (d + 48 :: nat)" using assms by simp
  have "(of_char (CHR '':'') :: nat) = 58" "(of_char (CHR ''-'') :: nat) = 45"
    "(of_char (CHR ''+'') :: nat) = 43" by simp_all
  with * assms show "digit_char d \<noteq> CHR '':''" "digit_char d \<noteq> CHR ''-''"
    "digit_char d \<noteq> CHR ''+''" by fastforce+
qed

lemma nat_str_digits: "c \<in> set (nat_str n) \<Longrightarrow> \<exists>d < 10. c = digit_char d"
proof (induction n rule: nat_str.induct)
  case (1 n)
  show ?case
  proof (cases "n < 10")
    case True
    with "1.prems" show ?thesis by (subst (asm) nat_str.simps) auto
  next
    case False
    have "n mod 10 < 10" by simp
    moreover from "1.prems" False have "c \<in> set (nat_str (n div 10)) \<or> c = digit_char (n mod 10)"
      by (subst (asm) nat_str.simps) auto
    ultimately show ?thesis using "1.IH"[OF False] by blast
  qed
qed

lemma nat_str_not_Nil [simp]: "nat_str n \<noteq> []"
  by (subst nat_str.simps) simp

lemma digits_val_append_digit:
  "digits_val s acc prev = Some v \<Longrightarrow> d < 10 \<Longrightarrow>
   digits_val (s @ [digit_char d]) acc prev = Some (10 * v + d)"
  by (induction s acc prev rule: digits_val.induct)
     (auto simp: digit_char_props split: if_splits)

lemma digits_val_nat_str: "digits_val (nat_str n) 0 False = Some n"
proof (induction n rule: nat_str.induct)
  case (1 n)
  show ?case
  proof (cases "n < 10")
    case True
    then show ?thesis by (subst nat_str.simps) (simp add: digit_char_props)
  next
    case False
    have "n mod 10 < 10" by simp
    from digits_val_append_digit[OF "1.IH"[OF False] this]
    have "digits_val (nat_str (n div 10) @ [digit_char (n mod 10)]) 0 False = Some n" by simp
    with False show ?thesis by (subst nat_str.simps) simp
  qed
qed

lemma nat_str_no_space: "c \<in> set (nat_str n) \<Longrightarrow> \<not> py_is_space c"
  by (auto dest!: nat_str_digits simp: digit_char_props)

lemma nat_str_no_colon [simp]: "CHR '':'' \<notin> set (nat_str n)"
  using nat_str_digits digit_char_neq(1) by metis

lemma dropWhile_none: "(\<And>x. x \<in> set xs \<Longrightarrow> \<not> P x) \<Longrightarrow> dropWhile P xs = xs"
  by (cases xs) auto

lemma py_strip_id: "(\<And>c. c \<in> set s \<Longrightarrow> \<not> py_is_space c) \<Longrightarrow> py_strip s = s"
proof -
  assume a: "\<And>c. c \<in> set s \<Longrightarrow> \<not> py_is_space c"
  then have "dropWhile py_is_space s = s" "dropWhile py_is_space (rev s) = rev s"
    by (auto intro!: dropWhile_none)
  then show ?thesis by (simp add: py_strip_def)
qed

lemma py_int_nat_str [simp]: "py_int (nat_str n) = Some (int n)"
proof -
  have strip: "py_strip (nat_str n) = nat_str n"
    by (rule py_strip_id) (rule nat_str_no_space)
  obtain c cs where c: "nat_str n = c # cs" by (cases "nat_str n") auto
  then have "\<exists>d < 10. c = digit_char d" using nat_str_digits[of c n] by simp
  then have "c \<noteq> CHR ''-''" "c \<noteq> CHR ''+''" using digit_char_neq by auto
  with strip c show ?thesis
    using digits_val_nat_str[of n] by (simp add: py_int_def)
qed

lemma py_int_str_nonneg: "0 \<le> i \<Longrightarrow> py_int (py_str_int i) = Some i"
  by (simp add: py_str_int_def)

section \<open>Lists\<close>

lemma find_Some_in: "find P xs = Some x \<Longrightarrow> x \<in> set xs \<and> P x"
  by (induction xs) (auto split: if_splits)

lemma find_None_iff2: "find P xs = None \<longleftrightarrow> (\<forall>x \<in> set xs. \<not> P x)"
  by (induction xs) auto

lemma find_append: "find P (xs @ ys) = (case find P xs of None \<Rightarrow> find P ys | Some x \<Rightarrow> Some x)"
  by (induction xs) auto

lemma distinct_key_unique:
  "distinct (map f xs) \<Longrightarrow> x \<in> set xs \<Longrightarrow> y \<in> set xs \<Longrightarrow> f x = f y \<Longrightarrow> x = y"
  by (induction xs) (auto simp: image_iff)

lemma distinct_map_filter_key: "distinct (map f xs) \<Longrightarrow> distinct (map f (filter P xs))"
  by (induction xs) auto

end
