(* ===== verification/Validators.thy ===== *)
theory Validators
  imports Prelude
begin

text \<open>
  Input conversion and validation of the REST API, from
  \<^verbatim>\<open>gbpservice/neutron/extensions/group_policy.py\<close>, and the string utilities of
  \<^verbatim>\<open>services/grouppolicy/common/utils.py\<close> and \<^verbatim>\<open>gbpservice/common/utils.py\<close>.
  Request data is untyped JSON: \<open>pyval\<close>.  A validator returns \<open>None\<close> for valid data and
  \<open>Some\<close> of its message otherwise, a converter may raise.  Validators of neutron-lib and
  oslo.utils that the code calls are arguments of the definitions.
\<close>

section \<open>Request data\<close>

datatype pyval =
    PyNone
  | PyBool bool
  | PyInt int
  | PyStr string
  | PyList "pyval list"
  | PyDict "(string \<times> pyval) list"

text \<open>A dictionary has each key once, so the first entry of a key is its entry.\<close>

fun py_get :: "pyval \<Rightarrow> string \<Rightarrow> pyval option" where
  "py_get (PyDict kvs) k = map_of kvs k"
| "py_get _ k = None"

fun py_keys :: "pyval \<Rightarrow> string list" where
  "py_keys (PyDict kvs) = map fst kvs"
| "py_keys _ = []"

fun py_truthy :: "pyval \<Rightarrow> bool" where
  "py_truthy PyNone = False"
| "py_truthy (PyBool b) = b"
| "py_truthy (PyInt i) = (i \<noteq> 0)"
| "py_truthy (PyStr s) = (s \<noteq> [])"
| "py_truthy (PyList xs) = (xs \<noteq> [])"
| "py_truthy (PyDict kvs) = (kvs \<noteq> [])"

section \<open>Converters\<close>

datatype conv_error =
    GroupPolicyInvalidProtocol
  | PyAttributeError
  | PyTypeError

definition gp_supported_protocols :: "string list" where
  "gp_supported_protocols = [''tcp'', ''udp'', ''icmp'']"

text \<open>
  \<^verbatim>\<open>convert_protocol\<close>: \<^verbatim>\<open>int(value)\<close> succeeds on integers, booleans and numeric strings; on
  any other string it raises \<^verbatim>\<open>ValueError\<close> and the name is looked up in lower case; on a
  list or a dictionary it raises \<^verbatim>\<open>TypeError\<close>, whose handler then calls
  \<^verbatim>\<open>value.lower()\<close>.  The \<^verbatim>\<open>AttributeError\<close> of that call is raised inside a handler, so the
  third \<^verbatim>\<open>except\<close> clause of the same \<^verbatim>\<open>try\<close> does not catch it.
\<close>

definition proto_in_range :: "int \<Rightarrow> bool" where
  "proto_in_range v \<longleftrightarrow> 0 \<le> v \<and> v \<le> 255"

fun convert_protocol :: "pyval \<Rightarrow> conv_error + pyval" where
  "convert_protocol PyNone = Inr PyNone"
| "convert_protocol (PyInt i) =
     (if proto_in_range i then Inr (PyInt i) else Inl GroupPolicyInvalidProtocol)"
| "convert_protocol (PyBool b) = Inr (PyBool b)"
| "convert_protocol (PyStr s) =
     (case py_int s of
        Some v \<Rightarrow> if proto_in_range v then Inr (PyStr s) else Inl GroupPolicyInvalidProtocol
      | None \<Rightarrow>
          let protocol = py_lower s
          in if protocol \<in> set gp_supported_protocols then Inr (PyStr protocol)
             else Inl GroupPolicyInvalidProtocol)"
| "convert_protocol (PyList xs) = Inl PyAttributeError"
| "convert_protocol (PyDict kvs) = Inl PyAttributeError"

fun convert_action_to_case_insensitive :: "pyval \<Rightarrow> conv_error + pyval" where
  "convert_action_to_case_insensitive PyNone = Inr PyNone"
| "convert_action_to_case_insensitive (PyStr s) = Inr (PyStr (py_lower s))"
| "convert_action_to_case_insensitive _ = Inl PyAttributeError"

text \<open>The values of a port range that reach the plugin: an integer or a string.\<close>

datatype port_value = PortInt int | PortStr string

fun port_str :: "port_value \<Rightarrow> string" where
  "port_str (PortInt i) = py_str_int i"
| "port_str (PortStr s) = s"

definition convert_port_to_string :: "port_value option \<Rightarrow> string option" where
  "convert_port_to_string value = map_option port_str value"

section \<open>Port ranges\<close>

datatype port_msg =
    InvalidPort string
  | InvalidPortRange int int
  | PortNotANumber string

fun check_ports :: "int \<Rightarrow> string list \<Rightarrow> port_msg option" where
  "check_ports lower_range [] = None"
| "check_ports lower_range (p # ps) =
     (case py_int p of
        None \<Rightarrow> Some (PortNotANumber p)
      | Some val \<Rightarrow>
          if val \<le> 0 \<or> val > 65535 then Some (InvalidPort p)
          else if val \<le> lower_range then Some (InvalidPortRange lower_range val)
          else check_ports val ps)"

definition validate_gbp_port_range :: "port_value option \<Rightarrow> port_msg option" where
  "validate_gbp_port_range data =
     (case data of
        None \<Rightarrow> None
      | Some d \<Rightarrow> check_ports 0 (py_split1 CHR '':'' (port_str d)))"

section \<open>Network service parameters\<close>

definition gp_network_service_param_types :: "string list" where
  "gp_network_service_param_types =
     [''ip_single'', ''ip_pool'', ''qos_maxrate'', ''qos_burstrate'', ''string'']"

definition gp_network_service_param_keys :: "string list" where
  "gp_network_service_param_keys = [''type'', ''name'', ''value'']"

definition gp_network_service_param_values :: "string list" where
  "gp_network_service_param_values = [''self_subnet'', ''nat_pool'']"

datatype nsp_msg =
    NotAList
  | NotADictionary
  | UnknownKeys "string list"
  | TypeNotSupported "pyval option"
  | ValueNotSupported "pyval option"

definition py_is_one_of :: "pyval option \<Rightarrow> string list \<Rightarrow> bool" where
  "py_is_one_of v names = (case v of Some (PyStr s) \<Rightarrow> s \<in> set names | _ \<Rightarrow> False)"

definition validate_network_svc_param :: "pyval \<Rightarrow> nsp_msg option" where
  "validate_network_svc_param d =
     (case d of
        PyDict kvs \<Rightarrow>
          if set (map fst kvs) \<noteq> set gp_network_service_param_keys
          then Some (UnknownKeys
                 (filter (\<lambda>k. k \<notin> set gp_network_service_param_keys) (map fst kvs)))
          else if \<not> py_is_one_of (py_get d ''type'') gp_network_service_param_types
          then Some (TypeNotSupported (py_get d ''type''))
          else if \<not> py_is_one_of (py_get d ''type'') [''string'', ''qos_maxrate'', ''qos_burstrate'']
             \<and> \<not> py_is_one_of (py_get d ''value'') gp_network_service_param_values
          then Some (ValueNotSupported (py_get d ''value''))
          else None
      | _ \<Rightarrow> Some NotADictionary)"

fun first_msg :: "('a \<Rightarrow> 'm option) \<Rightarrow> 'a list \<Rightarrow> 'm option" where
  "first_msg f [] = None"
| "first_msg f (x # xs) = (case f x of None \<Rightarrow> first_msg f xs | Some m \<Rightarrow> Some m)"

lemma first_msg_None: "first_msg f xs = None \<longleftrightarrow> (\<forall>x \<in> set xs. f x = None)"
  by (induction xs) (auto split: option.splits)

definition validate_network_svc_params :: "pyval \<Rightarrow> nsp_msg option" where
  "validate_network_svc_params data =
     (case data of
        PyNone \<Rightarrow> None
      | PyList ds \<Rightarrow> first_msg validate_network_svc_param ds
      | _ \<Rightarrow> Some NotAList)"

section \<open>External segments of an L3 policy, host routes, names, identifiers\<close>

datatype ext_msg = ExtNotADictionary | ExtNotUuid string | ExtNotAList string

definition validate_external_entry :: "(string \<Rightarrow> bool) \<Rightarrow> string \<times> pyval \<Rightarrow> ext_msg option" where
  "validate_external_entry is_uuid_like e =
     (if \<not> is_uuid_like (fst e) then Some (ExtNotUuid (fst e))
      else (case snd e of PyList _ \<Rightarrow> None | _ \<Rightarrow> Some (ExtNotAList (fst e))))"

text \<open>\<open>is_uuid_like\<close> stands for \<^verbatim>\<open>oslo_utils.uuidutils.is_uuid_like\<close>.\<close>

definition validate_external_dict :: "(string \<Rightarrow> bool) \<Rightarrow> pyval \<Rightarrow> ext_msg option" where
  "validate_external_dict is_uuid_like data =
     (case data of
        PyNone \<Rightarrow> None
      | PyDict kvs \<Rightarrow> first_msg (validate_external_entry is_uuid_like) kvs
      | _ \<Rightarrow> Some ExtNotADictionary)"

text \<open>
  The three validators of neutron-lib that \<^verbatim>\<open>_validate_gbproutes\<close> calls, each returning a
  message or nothing.
\<close>

record route_validators =
  rv_dict_keys :: "string list \<Rightarrow> pyval \<Rightarrow> string option"
  rv_subnet :: "pyval \<Rightarrow> string option"
  rv_ip_address :: "pyval \<Rightarrow> string option"

datatype route_msg =
    RoutesBadFormat
  | RouteMsg string
  | RouteKeyError string
  | DuplicateHostroute "pyval \<times> pyval"

text \<open>
  The loop of \<^verbatim>\<open>_validate_gbproutes\<close>.  A host route has exactly the keys
  \<^verbatim>\<open>destination\<close> and \<^verbatim>\<open>nexthop\<close> once \<^verbatim>\<open>_verify_dict_keys\<close> has passed, so two of them are
  equal dictionaries when both values are equal; a missing key is a \<^verbatim>\<open>KeyError\<close>.
\<close>

fun check_routes ::
  "route_validators \<Rightarrow> (pyval \<times> pyval) list \<Rightarrow> pyval list \<Rightarrow> route_msg option" where
  "check_routes rv seen [] = None"
| "check_routes rv seen (hostroute # rest) =
     (case rv_dict_keys rv [''destination'', ''nexthop''] hostroute of
        Some m \<Rightarrow> Some (RouteMsg m)
      | None \<Rightarrow>
       (case py_get hostroute ''destination'' of
          None \<Rightarrow> Some (RouteKeyError ''destination'')
        | Some dest \<Rightarrow>
         (case rv_subnet rv dest of
            Some m \<Rightarrow> Some (RouteMsg m)
          | None \<Rightarrow>
           (case py_get hostroute ''nexthop'' of
              None \<Rightarrow> Some (RouteKeyError ''nexthop'')
            | Some nh \<Rightarrow>
             (case (if py_truthy nh then rv_ip_address rv nh else None) of
                Some m \<Rightarrow> Some (RouteMsg m)
              | None \<Rightarrow>
                  if (dest, nh) \<in> set seen then Some (DuplicateHostroute (dest, nh))
                  else check_routes rv (seen @ [(dest, nh)]) rest)))))"

definition validate_gbproutes :: "route_validators \<Rightarrow> pyval \<Rightarrow> route_msg option" where
  "validate_gbproutes rv data =
     (case data of PyList rs \<Rightarrow> check_routes rv [] rs | _ \<Rightarrow> Some RoutesBadFormat)"

text \<open>\<open>validate_string data max_len\<close> stands for \<^verbatim>\<open>neutron_lib.api.validators.validate_string\<close>.\<close>

definition validate_gbp_resource_name ::
  "(pyval \<Rightarrow> nat \<Rightarrow> string option) \<Rightarrow> pyval \<Rightarrow> string option" where
  "validate_gbp_resource_name validate_string data = validate_string data 128"

definition is_hex_char :: "char \<Rightarrow> bool" where
  "is_hex_char c =
     (py_is_digit c \<or> (let n = (of_char (py_lower_char c) :: nat) in 97 \<le> n \<and> n \<le> 102))"

text \<open>The regular expression \<^verbatim>\<open>auto[0-9a-f]{32}\Z\<close>, matched ignoring case.\<close>

definition auto_ptg_regex :: "string \<Rightarrow> bool" where
  "auto_ptg_regex s \<longleftrightarrow>
     length s = 36 \<and> py_lower (take 4 s) = ''auto'' \<and> list_all is_hex_char (drop 4 s)"

definition validate_gbp_uuid_or_none ::
  "(string option \<Rightarrow> string option) \<Rightarrow> string option \<Rightarrow> string option" where
  "validate_gbp_uuid_or_none validate_uuid_or_none data =
     (case data of
        None \<Rightarrow> None
      | Some s \<Rightarrow> if \<not> auto_ptg_regex s then validate_uuid_or_none data else None)"

section \<open>String utilities\<close>

text \<open>\<^verbatim>\<open>convert_ip_pool_list_to_string\<close>, on a list (any other type is a \<^verbatim>\<open>ValueError\<close>).\<close>

definition convert_ip_pool_list_to_string :: "string list \<Rightarrow> string" where
  "convert_ip_pool_list_to_string ip_pool = py_join '', '' ip_pool"

definition convert_ip_pool_string_to_list :: "string option \<Rightarrow> string list" where
  "convert_ip_pool_string_to_list ip_pool_string =
     (case ip_pool_string of
        None \<Rightarrow> []
      | Some s \<Rightarrow> if s = [] then [] else map py_strip (py_split CHR '','' s))"

text \<open>\<^verbatim>\<open>resource.replace('y', 'ies')\<close> replaces every \<^verbatim>\<open>y\<close>, not only the last one.\<close>

definition replace_y :: "string \<Rightarrow> string" where
  "replace_y s = concat (map (\<lambda>c. if c = CHR ''y'' then ''ies'' else [c]) s)"

definition get_resource_plural :: "string \<Rightarrow> string" where
  "get_resource_plural resource =
     (if resource \<noteq> [] \<and> last resource = CHR ''y'' then replace_y resource
      else resource @ ''s'')"

text \<open>\<^verbatim>\<open>set_difference\<close>: both one-sided differences, as duplicate-free lists.\<close>

definition set_difference :: "'a list \<Rightarrow> 'a list \<Rightarrow> 'a list \<times> 'a list" where
  "set_difference xs ys =
     (filter (\<lambda>x. x \<notin> set ys) (remdups xs), filter (\<lambda>y. y \<notin> set xs) (remdups ys))"

section \<open>Storing a port range\<close>

text \<open>
  \<^verbatim>\<open>_get_min_max_ports_from_range\<close> and \<^verbatim>\<open>_get_port_range_from_min_max_ports\<close> of
  \<^verbatim>\<open>group_policy_db.py\<close>; \<open>None\<close> is the \<^verbatim>\<open>ValueError\<close> of \<^verbatim>\<open>int\<close>.
\<close>

definition get_min_max_ports_from_range ::
  "string option \<Rightarrow> (int option \<times> int option) option" where
  "get_min_max_ports_from_range port_range =
     (case port_range of
        None \<Rightarrow> Some (None, None)
      | Some s \<Rightarrow>
          if s = [] then Some (None, None)
          else
            let (min_port, max_port0) = py_partition CHR '':'' s;
                max_port = (if max_port0 = [] then min_port else max_port0)
            in (case (py_int min_port, py_int max_port) of
                  (Some lo, Some hi) \<Rightarrow> Some (Some lo, Some hi)
                | _ \<Rightarrow> None))"

text \<open>
  \<open>None\<close> as \<open>min_port\<close> and the integer 0 are both falsy.  With a minimum but no maximum
  \<^verbatim>\<open>'%d' % None\<close> would raise; the rows the plugin writes have both or none.
\<close>

definition get_port_range_from_min_max_ports ::
  "int option \<Rightarrow> int option \<Rightarrow> conv_error + string option" where
  "get_port_range_from_min_max_ports min_port max_port =
     (case min_port of
        None \<Rightarrow> Inr None
      | Some lo \<Rightarrow>
          if lo = 0 then Inr None
          else if max_port = Some lo then Inr (Some (py_str_int lo))
          else (case max_port of
                  None \<Rightarrow> Inl PyTypeError
                | Some hi \<Rightarrow> Inr (Some (py_str_int lo @ CHR '':'' # py_str_int hi))))"

section \<open>Lemmas\<close>

lemma check_ports_None_single:
  "check_ports lo [p] = None \<longleftrightarrow>
     (\<exists>v. py_int p = Some v \<and> 0 < v \<and> v \<le> 65535 \<and> lo < v)"
  by (auto split: option.splits if_splits)

lemma check_ports_None_pair:
  "check_ports lo [p, q] = None \<longleftrightarrow>
     (\<exists>v w. py_int p = Some v \<and> py_int q = Some w \<and> 0 < v \<and> lo < v \<and> v < w \<and> w \<le> 65535)"
  by (auto split: option.splits if_splits)

lemma py_int_Nil [simp]: "py_int [] = None"
  by (simp add: py_int_def py_strip_def)

lemma valid_range_cases:
  assumes "validate_gbp_port_range (Some d) = None"
  shows "(\<exists>v. CHR '':'' \<notin> set (port_str d) \<and> py_int (port_str d) = Some v \<and> 0 < v \<and> v \<le> 65535)
    \<or> (\<exists>v w. CHR '':'' \<in> set (port_str d) \<and>
         py_int (fst (py_partition CHR '':'' (port_str d))) = Some v \<and>
         py_int (snd (py_partition CHR '':'' (port_str d))) = Some w \<and>
         0 < v \<and> v < w \<and> w \<le> 65535)"
proof (cases "CHR '':'' \<in> set (port_str d)")
  case True
  with assms show ?thesis
    by (simp add: validate_gbp_port_range_def py_split1_partition check_ports_None_pair
        del: check_ports.simps)
next
  case False
  with assms show ?thesis
    by (auto simp: validate_gbp_port_range_def py_split1_partition check_ports_None_single
        simp del: check_ports.simps)
qed

lemma str_int_no_colon: "0 \<le> i \<Longrightarrow> CHR '':'' \<notin> set (py_str_int i)"
  by (simp add: py_str_int_def)

lemma str_int_not_Nil [simp]: "py_str_int i \<noteq> []"
  by (simp add: py_str_int_def)

lemma ports_of_single:
  "0 < v \<Longrightarrow> get_min_max_ports_from_range (Some (py_str_int v)) = Some (Some v, Some v)"
  by (simp add: get_min_max_ports_from_range_def py_partition_no_sep str_int_no_colon
      py_int_str_nonneg Let_def)

lemma ports_of_pair:
  "0 < v \<Longrightarrow> 0 < w \<Longrightarrow>
   get_min_max_ports_from_range (Some (py_str_int v @ CHR '':'' # py_str_int w))
     = Some (Some v, Some w)"
  by (simp add: get_min_max_ports_from_range_def str_int_no_colon py_int_str_nonneg Let_def)

lemma py_split_no_sep: "c \<notin> set s \<Longrightarrow> py_split c s = [s]"
  by (induction s) auto

lemma py_split_append: "c \<notin> set a \<Longrightarrow> py_split c (a @ c # b) = a # py_split c b"
  by (induction a) (auto split: list.splits)

lemma py_split_not_Nil [simp]: "py_split c s \<noteq> []"
  by (cases s) (auto split: list.splits)

lemma py_strip_Cons_space: "py_is_space c \<Longrightarrow> py_strip (c # s) = py_strip s"
  by (simp add: py_strip_def)

text \<open>A prefix as it stands in a pool: no comma, no space at either end.\<close>

definition clean_prefix :: "string \<Rightarrow> bool" where
  "clean_prefix p \<longleftrightarrow> p \<noteq> [] \<and> CHR '','' \<notin> set p \<and> py_strip p = p"

lemma split_join_prefixes:
  assumes "ps \<noteq> []" and "\<forall>p \<in> set ps. clean_prefix p"
  shows "map py_strip (py_split CHR '','' (py_join '', '' ps)) = ps"
    and "map py_strip (py_split CHR '','' (CHR '' '' # py_join '', '' ps)) = ps"
proof -
  have both: "map py_strip (py_split CHR '','' (py_join '', '' ps)) = ps \<and>
        map py_strip (py_split CHR '','' (CHR '' '' # py_join '', '' ps)) = ps"
    using assms
  proof (induction ps rule: induct_list012)
    case 1
    then show ?case by simp
  next
    case (2 p)
    have "py_strip (CHR '' '' # p) = p" using 2 by (simp add: clean_prefix_def py_strip_Cons_space py_is_space_def)
    with 2 show ?case by (simp add: clean_prefix_def py_split_no_sep)
  next
    case (3 p q ps)
    have p: "CHR '','' \<notin> set p" "py_strip p = p" using 3 by (simp_all add: clean_prefix_def)
    have sp: "py_strip (CHR '' '' # p) = p" using p by (simp add: py_strip_Cons_space py_is_space_def)
    have IH: "map py_strip (py_split CHR '','' (CHR '' '' # py_join '', '' (q # ps))) = q # ps"
      using 3 by simp
    have "py_split CHR '','' (p @ CHR '','' # CHR '' '' # py_join '', '' (q # ps))
        = p # py_split CHR '','' (CHR '' '' # py_join '', '' (q # ps))"
      using p(1) by (rule py_split_append)
    moreover have "py_split CHR '','' ((CHR '' '' # p) @ CHR '','' # CHR '' '' # py_join '', '' (q # ps))
        = (CHR '' '' # p) # py_split CHR '','' (CHR '' '' # py_join '', '' (q # ps))"
      using p(1) by (intro py_split_append) simp
    ultimately show ?case using IH p sp by simp
  qed
  then show "map py_strip (py_split CHR '','' (py_join '', '' ps)) = ps"
    and "map py_strip (py_split CHR '','' (CHR '' '' # py_join '', '' ps)) = ps" by blast+
qed

lemma py_join_eq_Nil: "py_join sep ps = [] \<Longrightarrow> ps \<noteq> [] \<Longrightarrow> hd ps = []"
  by (induction sep ps rule: py_join.induct) auto

lemma supported_protocol_fixed:
  "p \<in> set gp_supported_protocols \<Longrightarrow> py_lower p = p \<and> py_int p = None"
  by (auto simp: gp_supported_protocols_def py_lower_def py_lower_char_def py_int_def
      py_strip_def py_is_space_def py_is_digit_def)

lemma check_routes_sound:
  assumes "check_routes rv seen rs = None" and "distinct seen"
  shows "\<exists>new. length new = length rs \<and> distinct (seen @ new) \<and>
    (\<forall>i < length rs.
       rv_dict_keys rv [''destination'', ''nexthop''] (rs ! i) = None \<and>
       py_get (rs ! i) ''destination'' = Some (fst (new ! i)) \<and>
       py_get (rs ! i) ''nexthop'' = Some (snd (new ! i)) \<and>
       rv_subnet rv (fst (new ! i)) = None \<and>
       (py_truthy (snd (new ! i)) \<longrightarrow> rv_ip_address rv (snd (new ! i)) = None))"
  using assms
proof (induction rs arbitrary: seen)
  case Nil
  then show ?case by (intro exI[of _ "[]"]) simp
next
  case (Cons r rs)
  obtain dest nh where r: "rv_dict_keys rv [''destination'', ''nexthop''] r = None"
    "py_get r ''destination'' = Some dest" "py_get r ''nexthop'' = Some nh"
    "rv_subnet rv dest = None" "py_truthy nh \<longrightarrow> rv_ip_address rv nh = None"
    "(dest, nh) \<notin> set seen" "check_routes rv (seen @ [(dest, nh)]) rs = None"
    using Cons.prems(1) by (auto split: option.splits if_splits)
  have "distinct (seen @ [(dest, nh)])" using r(6) Cons.prems(2) by simp
  from Cons.IH[OF r(7) this] obtain new where
    new: "length new = length rs" "distinct ((seen @ [(dest, nh)]) @ new)"
    "\<forall>i < length rs.
       rv_dict_keys rv [''destination'', ''nexthop''] (rs ! i) = None \<and>
       py_get (rs ! i) ''destination'' = Some (fst (new ! i)) \<and>
       py_get (rs ! i) ''nexthop'' = Some (snd (new ! i)) \<and>
       rv_subnet rv (fst (new ! i)) = None \<and>
       (py_truthy (snd (new ! i)) \<longrightarrow> rv_ip_address rv (snd (new ! i)) = None)" by blast
  show ?case
  proof (intro exI[of _ "(dest, nh) # new"] conjI allI impI)
    show "length ((dest, nh) # new) = length (r # rs)" using new(1) by simp
    show "distinct (seen @ (dest, nh) # new)" using new(2) by simp
  qed (use r new(3) in \<open>auto simp: nth_Cons split: nat.splits\<close>)
qed

section \<open>Properties\<close>

text \<open>C36: Every port range the validator accepts is stored without an exception, as two ports
  between 1 and 65535 in order (a single port is stored as an equal pair).\<close>

theorem accepted_port_range_bounds:
  assumes "validate_gbp_port_range (Some d) = None"
  shows "\<exists>lo hi. get_min_max_ports_from_range (convert_port_to_string (Some d)) = Some (Some lo, Some hi)
    \<and> 0 < lo \<and> lo \<le> hi \<and> hi \<le> 65535"
proof -
  have ne: "port_str d \<noteq> []"
  proof
    assume "port_str d = []"
    with assms show False by (simp add: validate_gbp_port_range_def py_split1_def)
  qed
  from valid_range_cases[OF assms] show ?thesis
  proof (elim disjE exE conjE)
    fix v assume "CHR '':'' \<notin> set (port_str d)" "py_int (port_str d) = Some v" "0 < v" "v \<le> 65535"
    with ne show ?thesis
      by (simp add: convert_port_to_string_def get_min_max_ports_from_range_def py_partition_no_sep)
  next
    fix v w assume h: "py_int (fst (py_partition CHR '':'' (port_str d))) = Some v"
      "py_int (snd (py_partition CHR '':'' (port_str d))) = Some w" "0 < v" "v < w" "w \<le> 65535"
    obtain a b where ab: "py_partition CHR '':'' (port_str d) = (a, b)" by fastforce
    with h have "b \<noteq> []" by auto
    with ne h ab show ?thesis
      by (simp add: convert_port_to_string_def get_min_max_ports_from_range_def)
  qed
qed

theorem accepted_port_range_bounds_witness:
  "\<exists>lo hi. get_min_max_ports_from_range (convert_port_to_string (Some (PortStr ''80:443'')))
      = Some (Some lo, Some hi) \<and> 0 < lo \<and> lo \<le> hi \<and> hi \<le> 65535"
  by (rule accepted_port_range_bounds) code_simp

text \<open>C37: Showing a stored pair of ports and parsing what is shown gives the pair back, and
  the shown text is one the validator accepts.\<close>

theorem port_range_roundtrip:
  assumes "0 < lo" "lo \<le> hi" "hi \<le> 65535"
  shows "\<exists>s. get_port_range_from_min_max_ports (Some lo) (Some hi) = Inr (Some s)
    \<and> get_min_max_ports_from_range (Some s) = Some (Some lo, Some hi)
    \<and> validate_gbp_port_range (Some (PortStr s)) = None"
proof (cases "lo = hi")
  case True
  with assms have "check_ports 0 [py_str_int lo] = None"
    by (simp add: py_int_str_nonneg)
  with True assms show ?thesis
    by (auto simp: get_port_range_from_min_max_ports_def ports_of_single
        validate_gbp_port_range_def py_split1_partition str_int_no_colon)
next
  case False
  with assms have "check_ports 0 [py_str_int lo, py_str_int hi] = None"
    by (simp add: py_int_str_nonneg)
  with False assms show ?thesis
    by (auto simp: get_port_range_from_min_max_ports_def ports_of_pair
        validate_gbp_port_range_def py_split1_partition str_int_no_colon)
qed

theorem port_range_roundtrip_witness:
  "\<exists>s. get_port_range_from_min_max_ports (Some 80) (Some 443) = Inr (Some s)
    \<and> get_min_max_ports_from_range (Some s) = Some (Some 80, Some 443)
    \<and> validate_gbp_port_range (Some (PortStr s)) = None"
  by (rule port_range_roundtrip) simp_all

text \<open>The protocol converter is idempotent and its result is nothing, an integer or numeric
  string between 0 and 255, a boolean, or one of the supported names in lower case.\<close>

theorem convert_protocol_canonical:
  assumes "convert_protocol v = Inr w"
  shows "convert_protocol w = Inr w
    \<and> (w = PyNone \<or> (\<exists>b. w = PyBool b) \<or> (\<exists>i. w = PyInt i \<and> 0 \<le> i \<and> i \<le> 255)
       \<or> (\<exists>s i. w = PyStr s \<and> py_int s = Some i \<and> 0 \<le> i \<and> i \<le> 255)
       \<or> (\<exists>s. w = PyStr s \<and> s \<in> set gp_supported_protocols))"
  using assms supported_protocol_fixed
  by (cases v) (auto simp: proto_in_range_def Let_def split: if_splits option.splits)

theorem convert_protocol_canonical_witness:
  "convert_protocol (PyStr ''TCP'') = Inr (PyStr ''tcp'') \<and>
   convert_protocol (PyStr ''tcp'') = Inr (PyStr ''tcp'')"
proof -
  have h: "convert_protocol (PyStr ''TCP'') = Inr (PyStr ''tcp'')" by code_simp
  show ?thesis using h convert_protocol_canonical[OF h] by simp
qed

text \<open>Writing a non-empty list of prefixes as a pool string and splitting it again gives
  the same list.\<close>

theorem ip_pool_roundtrip:
  assumes "ps \<noteq> []" and "\<forall>p \<in> set ps. clean_prefix p"
  shows "convert_ip_pool_string_to_list (Some (convert_ip_pool_list_to_string ps)) = ps"
proof -
  have "py_join '', '' ps \<noteq> []"
  proof
    assume "py_join '', '' ps = []"
    then have "hd ps = []" using assms(1) by (rule py_join_eq_Nil)
    with assms show False by (auto simp: clean_prefix_def dest: bspec[of _ _ "hd ps"])
  qed
  then show ?thesis using split_join_prefixes(1)[OF assms]
    by (simp add: convert_ip_pool_string_to_list_def convert_ip_pool_list_to_string_def)
qed

theorem ip_pool_roundtrip_witness:
  "convert_ip_pool_string_to_list
     (Some (convert_ip_pool_list_to_string [''10.0.0.0/8'', ''fd00::/64''])) = [''10.0.0.0/8'', ''fd00::/64'']"
  by (rule ip_pool_roundtrip) (simp_all add: clean_prefix_def py_strip_def py_is_space_def)

text \<open>External routes that pass the validator are lists of dictionaries with pairwise
  different (destination, next hop) pairs, every destination accepted as a subnet and every
  next hop that is set accepted as an address.\<close>

theorem gbproutes_sound:
  assumes "validate_gbproutes rv data = None"
  shows "\<exists>rs pairs. data = PyList rs \<and> length pairs = length rs \<and> distinct pairs \<and>
    (\<forall>i < length rs.
       py_get (rs ! i) ''destination'' = Some (fst (pairs ! i)) \<and>
       py_get (rs ! i) ''nexthop'' = Some (snd (pairs ! i)) \<and>
       rv_subnet rv (fst (pairs ! i)) = None \<and>
       (py_truthy (snd (pairs ! i)) \<longrightarrow> rv_ip_address rv (snd (pairs ! i)) = None))"
proof -
  from assms obtain rs where rs: "data = PyList rs" "check_routes rv [] rs = None"
    by (auto simp: validate_gbproutes_def split: pyval.splits)
  from check_routes_sound[OF rs(2)] obtain new where
    "length new = length rs" "distinct ([] @ new)"
    "\<forall>i < length rs.
       rv_dict_keys rv [''destination'', ''nexthop''] (rs ! i) = None \<and>
       py_get (rs ! i) ''destination'' = Some (fst (new ! i)) \<and>
       py_get (rs ! i) ''nexthop'' = Some (snd (new ! i)) \<and>
       rv_subnet rv (fst (new ! i)) = None \<and>
       (py_truthy (snd (new ! i)) \<longrightarrow> rv_ip_address rv (snd (new ! i)) = None)" by auto
  with rs show ?thesis by auto
qed

definition demo_route_validators :: route_validators where
  "demo_route_validators =
     \<lparr> rv_dict_keys = (\<lambda>ks d. if set (py_keys d) = set ks then None else Some ''keys''),
       rv_subnet = (\<lambda>v. if v = PyStr ''0.0.0.0/0'' then None else Some ''subnet''),
       rv_ip_address = (\<lambda>v. if v = PyStr ''10.0.0.1'' then None else Some ''address'') \<rparr>"

definition demo_route :: pyval where
  "demo_route = PyDict [(''destination'', PyStr ''0.0.0.0/0''), (''nexthop'', PyStr ''10.0.0.1'')]"

theorem gbproutes_sound_witness:
  "\<exists>rs pairs. PyList [demo_route] = PyList rs \<and> length pairs = length rs \<and> distinct pairs \<and>
    (\<forall>i < length rs.
       py_get (rs ! i) ''destination'' = Some (fst (pairs ! i)) \<and>
       py_get (rs ! i) ''nexthop'' = Some (snd (pairs ! i)) \<and>
       rv_subnet demo_route_validators (fst (pairs ! i)) = None \<and>
       (py_truthy (snd (pairs ! i)) \<longrightarrow> rv_ip_address demo_route_validators (snd (pairs ! i)) = None))"
  by (rule gbproutes_sound)
     (simp add: validate_gbproutes_def demo_route_validators_def demo_route_def)

end
