(* ===== verification/Schema.thy ===== *)
theory Schema
  imports Validators
begin

text \<open>
  The persistent state of the policy database: the mapped classes of
  \<^verbatim>\<open>db/grouppolicy/group_policy_db.py\<close> with the columns that
  \<^verbatim>\<open>group_policy_mapping_db.py\<close> adds to the same tables (single-table inheritance), one record
  per class and one list of rows per table, and the exceptions of the layers above it.

  A row extends the row of the class it inherits from, as in the source.  A relationship of
  the object-relational mapper is read through the association or child table that backs it:
  \<open>targets\<close> of an association table are the right-hand ids of the rows of one owner.  The
  declared primary keys are enforced when association rows are added (\<open>append_pk\<close>), and
  deleting a row follows the declared cascades: association rows of a relationship with
  \<^verbatim>\<open>cascade='all'\<close> go with it, the foreign key of the children of a relationship without
  cascade is set to \<^verbatim>\<open>NULL\<close>.  Foreign key constraints of the database engine are not
  modelled: what the development shows about references, the code checks itself.  In particular a row
  of another module's table that refers to a row here without a cascade
  (\<^verbatim>\<open>apic_reuse_bd_db.py\<close> to L2 policies, \<^verbatim>\<open>nsp_manager.py\<close> to service policies and groups,
  \<^verbatim>\<open>group_proxy_db.py\<close> to groups) makes the engine refuse a deletion, which the deletions here do not.
\<close>

section \<open>Exceptions\<close>

datatype res_type =
    L3Policy | L2Policy | PolicyTargetGroup | NetworkServicePolicy | PolicyRule
  | PolicyAction | PolicyClassifier | PolicyRuleSet | ExternalSegment | ExternalPolicy
  | NatPool | PolicyTarget | ApplicationPolicyGroup

datatype gbp_error =
    AdminRequired
  | NotFound res_type string
  | InUse res_type string
  | GbpResourceNotFound res_type "string list"
  | ManagementPolicyTargetGroupExists
  | InvalidDefaultSubnetPrefixLength int int
  | SubnetPrefixLengthExceedsIpPool string int
  | InvalidIpPoolVersion string int
  | InvalidIpPoolSize string int
  | InvalidIpPoolPrefixLength string int
  | AddrFormatError string
  | ThreeLevelPolicyRuleSetHierarchyNotSupported string
  | BadPolicyRuleSetRelationship string string
  | IpAddressOverlappingInExternalSegment string
  | InvalidPortExtraAttributes string string
  | AddressScopeUpdateForL3PNotSupported
  | SharedResourceReferenceError res_type string string string
  | InvalidCrossTenantReference res_type string string string
  | InvalidSharedAttributeUpdate string string
  | L2PolicyUpdateOfPolicyTargetGroupNotSupported
  | PolicyTargetGroupInUse string
  | ExternalRouteOverlapsWithL3PIpPool "string list" string string
  | ExternalRouteNextHopNotInExternalSegment string
  | ExternalSegmentSubnetOverlapsWithL3PIpPool string string string
  | InvalidL3PExternalIPAddress string string string string
  | IdenticalExternalRoute string string string
  | GroupPolicyDriverError string
  | DefaultL3PolicyAlreadyExists string
  | DefaultExternalSegmentAlreadyExists string
  | BadRequest string "string list"
  | NeutronError string "string list"
  | DBDuplicateEntry
  | BlankPrimaryKey
  | PyValueError
  | ConvError conv_error
  | PyKeyError string
  | PyAttributeError string

section \<open>Request context\<close>

text \<open>
  The neutron request context.  \<open>ctx_scope\<close> is the row visibility rule of neutron-lib's query
  layer: whether a request with the given admin flag and project sees a row of the given
  tenant and shared flag.  It is not defined here; theorems that need a law of it name it.
\<close>

record ctx =
  ctx_is_admin :: bool
  ctx_project :: string
  ctx_scope :: "bool \<Rightarrow> string \<Rightarrow> string \<Rightarrow> bool \<Rightarrow> bool"

definition elevated :: "ctx \<Rightarrow> ctx" where
  "elevated c = c\<lparr>ctx_is_admin := True\<rparr>"

definition sees :: "ctx \<Rightarrow> string \<Rightarrow> bool \<Rightarrow> bool" where
  "sees c tenant shared \<longleftrightarrow> ctx_scope c (ctx_is_admin c) (ctx_project c) tenant shared"

section \<open>Rows\<close>

record gbp_row =
  row_id :: string
  row_tenant :: string
  row_name :: string
  row_description :: string
  row_status :: "string option"
  row_status_details :: "string option"

record shared_row = gbp_row +
  row_shared :: bool

record policy_target = gbp_row +
  pt_ptg_id :: "string option"
  pt_cluster_id :: string
  pt_port_id :: "string option"

record policy_target_group = shared_row +
  ptg_apg_id :: "string option"
  ptg_l2p_id :: "string option"
  ptg_nsp_id :: "string option"
  ptg_service_management :: bool

type_synonym application_policy_group = shared_row

record l2_policy = shared_row +
  l2p_l3p_id :: "string option"
  l2p_inject_default_route :: bool
  l2p_network_id :: "string option"

record l3_policy = shared_row +
  l3p_ip_version :: int
  l3p_ip_pool :: "string option"
  l3p_subnet_prefix_length :: int
  l3p_address_scope_v4_id :: "string option"
  l3p_address_scope_v6_id :: "string option"

type_synonym network_service_policy = shared_row

record network_service_param =
  nsparam_type :: string
  nsparam_name :: string
  nsparam_value :: string
  nsparam_nsp_id :: string

record policy_rule = shared_row +
  pr_enabled :: bool
  pr_classifier_id :: string

record policy_classifier = shared_row +
  pc_protocol :: "string option"
  pc_port_range_min :: "int option"
  pc_port_range_max :: "int option"
  pc_direction :: "string option"

record policy_action = shared_row +
  pa_action_type :: "string option"
  pa_action_value :: "string option"

record policy_rule_set = shared_row +
  prs_parent_id :: "string option"

record nat_pool = shared_row +
  np_ip_version :: int
  np_ip_pool :: string
  np_es_id :: "string option"
  np_subnet_id :: "string option"

record external_route =
  er_es_id :: string
  er_destination :: string
  er_nexthop :: string

record external_segment = shared_row +
  es_ip_version :: int
  es_cidr :: string
  es_pat :: bool
  es_subnet_id :: "string option"

type_synonym external_policy = shared_row

record es_to_l3p =
  esl_l3p_id :: string
  esl_es_id :: string
  esl_address :: string

text \<open>
  The association classes with two columns, both in the primary key: pairs of the id of the
  owner of the relationship and the id it is associated with.
\<close>

type_synonym assoc = "string \<times> string"

definition ADDRESS_NOT_SPECIFIED :: string where
  "ADDRESS_NOT_SPECIFIED = []"

section \<open>The database\<close>

record gbp_db =
  tb_pts :: "policy_target list"
  tb_ptgs :: "policy_target_group list"
  tb_apgs :: "application_policy_group list"
  tb_l2ps :: "l2_policy list"
  tb_l3ps :: "l3_policy list"
  tb_nsps :: "network_service_policy list"
  tb_nsparams :: "network_service_param list"
  tb_rules :: "policy_rule list"
  tb_classifiers :: "policy_classifier list"
  tb_actions :: "policy_action list"
  tb_prss :: "policy_rule_set list"
  tb_nps :: "nat_pool list"
  tb_routes :: "external_route list"
  tb_ess :: "external_segment list"
  tb_eps :: "external_policy list"
  as_es_l3p :: "es_to_l3p list"
  as_ptg_prov :: "assoc list"
  as_ptg_cons :: "assoc list"
  as_ep_prov :: "assoc list"
  as_ep_cons :: "assoc list"
  as_prs_pr :: "assoc list"
  as_pr_pa :: "assoc list"
  as_ep_es :: "assoc list"
  as_ptg_subnet :: "assoc list"
  as_l3p_router :: "assoc list"
  as_l3p_sp4 :: "assoc list"
  as_l3p_sp6 :: "assoc list"

definition empty_db :: gbp_db where
  "empty_db =
     \<lparr> tb_pts = [], tb_ptgs = [], tb_apgs = [], tb_l2ps = [], tb_l3ps = [], tb_nsps = [],
       tb_nsparams = [], tb_rules = [], tb_classifiers = [], tb_actions = [], tb_prss = [],
       tb_nps = [], tb_routes = [], tb_ess = [], tb_eps = [], as_es_l3p = [],
       as_ptg_prov = [], as_ptg_cons = [], as_ep_prov = [], as_ep_cons = [], as_prs_pr = [],
       as_pr_pa = [], as_ep_es = [], as_ptg_subnet = [], as_l3p_router = [], as_l3p_sp4 = [],
       as_l3p_sp6 = [] \<rparr>"

section \<open>Table operations\<close>

definition ids :: "'a gbp_row_scheme list \<Rightarrow> string list" where
  "ids t = map row_id t"

definition tshared :: "'a shared_row_scheme \<Rightarrow> bool" where
  "tshared r = row_shared r"

text \<open>Visibility of a row; \<^verbatim>\<open>PolicyTarget\<close> has no \<^verbatim>\<open>shared\<close> column.\<close>

definition sees_row :: "ctx \<Rightarrow> 'a shared_row_scheme \<Rightarrow> bool" where
  "sees_row c r = sees c (row_tenant r) (row_shared r)"

definition sees_pt :: "ctx \<Rightarrow> 'a gbp_row_scheme \<Rightarrow> bool" where
  "sees_pt c r = sees c (row_tenant r) False"

text \<open>\<^verbatim>\<open>get_by_id\<close> with the \<^verbatim>\<open>NoResultFound\<close> handler of the calling method.\<close>

definition get_by_id ::
  "('a gbp_row_scheme \<Rightarrow> bool) \<Rightarrow> res_type \<Rightarrow> 'a gbp_row_scheme list \<Rightarrow> string
    \<Rightarrow> gbp_error + 'a gbp_row_scheme" where
  "get_by_id vis rt t i =
     (case find (\<lambda>r. row_id r = i \<and> vis r) t of
        None \<Rightarrow> Inl (NotFound rt i)
      | Some r \<Rightarrow> Inr r)"

definition upd_row ::
  "string \<Rightarrow> ('a gbp_row_scheme \<Rightarrow> 'a gbp_row_scheme) \<Rightarrow> 'a gbp_row_scheme list
    \<Rightarrow> 'a gbp_row_scheme list" where
  "upd_row i f t = map (\<lambda>r. if row_id r = i then f r else r) t"

definition del_row :: "string \<Rightarrow> 'a gbp_row_scheme list \<Rightarrow> 'a gbp_row_scheme list" where
  "del_row i t = filter (\<lambda>r. row_id r \<noteq> i) t"

definition targets :: "assoc list \<Rightarrow> string \<Rightarrow> string list" where
  "targets a i = map snd (filter (\<lambda>p. fst p = i) a)"

definition sources :: "assoc list \<Rightarrow> string \<Rightarrow> string list" where
  "sources a j = map fst (filter (\<lambda>p. snd p = j) a)"

definition drop_sources :: "string \<Rightarrow> assoc list \<Rightarrow> assoc list" where
  "drop_sources i a = filter (\<lambda>p. fst p \<noteq> i) a"

definition drop_targets :: "string \<Rightarrow> assoc list \<Rightarrow> assoc list" where
  "drop_targets j a = filter (\<lambda>p. snd p \<noteq> j) a"

text \<open>Adding rows to a table whose primary key is the whole row.\<close>

fun append_pk :: "'a list \<Rightarrow> 'a list \<Rightarrow> gbp_error + 'a list" where
  "append_pk t [] = Inr t"
| "append_pk t (x # xs) = (if x \<in> set t then Inl DBDuplicateEntry else append_pk (t @ [x]) xs)"

text \<open>Assigning a relationship: the owner's rows are dropped and the new ones added.\<close>

definition set_targets :: "string \<Rightarrow> string list \<Rightarrow> assoc list \<Rightarrow> gbp_error + assoc list" where
  "set_targets i js a = append_pk (drop_sources i a) (map (Pair i) js)"

section \<open>Lemmas on tables\<close>

lemma append_pk_eq:
  "append_pk t xs =
     (if distinct xs \<and> set xs \<inter> set t = {} then Inr (t @ xs) else Inl DBDuplicateEntry)"
  by (induction xs arbitrary: t) auto

lemma append_pk_Inr:
  "append_pk t xs = Inr t' \<longleftrightarrow> distinct xs \<and> set xs \<inter> set t = {} \<and> t' = t @ xs"
  by (auto simp: append_pk_eq)

lemma distinct_append_pk: "append_pk t xs = Inr t' \<Longrightarrow> distinct t \<Longrightarrow> distinct t'"
  by (auto simp: append_pk_Inr)

lemma ids_append [simp]: "ids (t @ u) = ids t @ ids u"
  by (simp add: ids_def)

lemma ids_Nil [simp]: "ids [] = []"
  by (simp add: ids_def)

lemma ids_Cons [simp]: "ids (r # t) = row_id r # ids t"
  by (simp add: ids_def)

lemma ids_upd_row [simp]:
  "(\<And>r. row_id (f r) = row_id r) \<Longrightarrow> ids (upd_row i f t) = ids t"
  by (simp add: ids_def upd_row_def)

lemma ids_del_row: "ids (del_row i t) = filter (\<lambda>j. j \<noteq> i) (ids t)"
  by (induction t) (auto simp: ids_def del_row_def)

lemma set_ids_del_row [simp]: "set (ids (del_row i t)) = set (ids t) - {i}"
  by (auto simp: ids_del_row)

lemma distinct_ids_del_row [simp]: "distinct (ids t) \<Longrightarrow> distinct (ids (del_row i t))"
  by (simp add: ids_del_row)

lemma get_by_id_Inr:
  "get_by_id vis rt t i = Inr r \<Longrightarrow> r \<in> set t \<and> row_id r = i \<and> vis r"
  by (auto simp: get_by_id_def dest!: find_Some_in split: option.splits)

lemma get_by_id_id: "get_by_id vis rt t i = Inr r \<Longrightarrow> row_id r = i"
  by (simp add: get_by_id_Inr)

lemma get_by_id_in_ids: "get_by_id vis rt t i = Inr r \<Longrightarrow> i \<in> set (ids t)"
  by (auto simp: ids_def dest!: get_by_id_Inr)

lemma get_by_id_absent: "i \<notin> set (ids t) \<Longrightarrow> get_by_id vis rt t i = Inl (NotFound rt i)"
  by (auto simp: get_by_id_def ids_def find_None_iff2 split: option.splits dest!: find_Some_in)

lemma get_by_id_Inl: "get_by_id vis rt t i = Inl e \<Longrightarrow> e = NotFound rt i"
  by (auto simp: get_by_id_def split: option.splits)

lemma get_by_id_append:
  "i \<notin> set (ids t) \<Longrightarrow> row_id r = i \<Longrightarrow>
   get_by_id vis rt (t @ [r]) i = (if vis r then Inr r else Inl (NotFound rt i))"
  by (induction t) (auto simp: get_by_id_def)

lemma get_by_id_del_row [simp]: "get_by_id vis rt (del_row i t) i = Inl (NotFound rt i)"
  by (rule get_by_id_absent) simp

lemma find_absent: "i \<notin> set (ids t) \<Longrightarrow> find (\<lambda>r. row_id r = i \<and> vis r) t = None"
  by (auto simp: ids_def find_None_iff2)

lemma get_by_id_upd_row:
  "(\<And>r. row_id (f r) = row_id r) \<Longrightarrow> distinct (ids t) \<Longrightarrow> get_by_id vis rt t i = Inr r \<Longrightarrow>
   get_by_id vis rt (upd_row i f t) i
     = (if vis (f r) then Inr (f r) else Inl (NotFound rt i))"
proof (induction t)
  case Nil
  then show ?case by (simp add: get_by_id_def)
next
  case (Cons x t)
  show ?case
  proof (cases "row_id x = i")
    case True
    with Cons.prems(2) have ni: "i \<notin> set (ids t)" by auto
    with True Cons.prems(3) have "x = r"
      by (auto simp: get_by_id_def ids_def image_iff split: if_splits option.splits
          dest!: find_Some_in)
    moreover have "find (\<lambda>r. row_id r = i \<and> vis r) (upd_row i f t) = None"
      by (rule find_absent) (simp add: ids_upd_row[OF Cons.prems(1)] ni)
    ultimately show ?thesis using True Cons.prems(1)
      by (auto simp: get_by_id_def upd_row_def)
  next
    case False
    with Cons show ?thesis by (auto simp: get_by_id_def upd_row_def)
  qed
qed

lemma targets_drop_sources [simp]: "targets (drop_sources i a) i = []"
  by (auto simp: targets_def drop_sources_def filter_empty_conv)

lemma targets_drop_sources_other [simp]: "k \<noteq> i \<Longrightarrow> targets (drop_sources i a) k = targets a k"
  by (induction a) (auto simp: targets_def drop_sources_def)

lemma targets_append [simp]: "targets (a @ b) k = targets a k @ targets b k"
  by (simp add: targets_def)

lemma targets_Pair_same [simp]: "targets (map (Pair i) js) i = js"
  by (induction js) (auto simp: targets_def)

lemma targets_Pair_other [simp]: "k \<noteq> i \<Longrightarrow> targets (map (Pair i) js) k = []"
  by (induction js) (auto simp: targets_def)

lemma set_targets_Inr:
  "set_targets i js a = Inr a' \<longleftrightarrow> distinct js \<and> a' = drop_sources i a @ map (Pair i) js"
  by (auto simp: set_targets_def append_pk_Inr drop_sources_def distinct_map inj_on_def)

lemma set_targets_targets: "set_targets i js a = Inr a' \<Longrightarrow> targets a' i = js"
  by (simp add: set_targets_Inr)

lemma set_targets_frame: "set_targets i js a = Inr a' \<Longrightarrow> k \<noteq> i \<Longrightarrow> targets a' k = targets a k"
  by (simp add: set_targets_Inr)

lemma set_targets_distinct: "set_targets i js a = Inr a' \<Longrightarrow> distinct a \<Longrightarrow> distinct a'"
  by (auto simp: set_targets_def drop_sources_def intro: distinct_append_pk)

lemma sources_Nil: "sources a j = [] \<longleftrightarrow> j \<notin> snd ` set a"
  by (auto simp: sources_def filter_empty_conv)

lemma set_sources: "i \<in> set (sources a j) \<longleftrightarrow> (i, j) \<in> set a"
  by (force simp: sources_def)

lemma set_targets_iff: "j \<in> set (targets a i) \<longleftrightarrow> (i, j) \<in> set a"
  by (force simp: targets_def)

lemma set_drop_sources [simp]: "set (drop_sources i a) = {p \<in> set a. fst p \<noteq> i}"
  by (simp add: drop_sources_def)

lemma set_drop_targets [simp]: "set (drop_targets j a) = {p \<in> set a. snd p \<noteq> j}"
  by (simp add: drop_targets_def)

lemma distinct_drop_sources [simp]: "distinct a \<Longrightarrow> distinct (drop_sources i a)"
  by (simp add: drop_sources_def)

lemma distinct_drop_targets [simp]: "distinct a \<Longrightarrow> distinct (drop_targets i a)"
  by (simp add: drop_targets_def)

text \<open>Referential integrity of an association table.\<close>

definition assoc_ok :: "string list \<Rightarrow> string list \<Rightarrow> assoc list \<Rightarrow> bool" where
  "assoc_ok ls rs a \<longleftrightarrow> distinct a \<and> (\<forall>p \<in> set a. fst p \<in> set ls \<and> snd p \<in> set rs)"

lemma assoc_ok_Nil [simp]: "assoc_ok ls rs []"
  by (simp add: assoc_ok_def)

lemma assoc_ok_mono:
  "assoc_ok ls rs a \<Longrightarrow> set ls \<subseteq> set ls' \<Longrightarrow> set rs \<subseteq> set rs' \<Longrightarrow> assoc_ok ls' rs' a"
  by (auto simp: assoc_ok_def)

lemma assoc_ok_set_targets:
  "set_targets i js a = Inr a' \<Longrightarrow> assoc_ok ls rs a \<Longrightarrow> i \<in> set ls \<Longrightarrow> set js \<subseteq> set rs
    \<Longrightarrow> assoc_ok ls rs a'"
  using set_targets_distinct[of i js a a'] by (auto simp: assoc_ok_def set_targets_Inr)

lemma assoc_ok_drop_source:
  "assoc_ok ls rs a \<Longrightarrow> set ls' = set ls - {i} \<Longrightarrow> assoc_ok ls' rs (drop_sources i a)"
  by (auto simp: assoc_ok_def)

lemma assoc_ok_drop_target:
  "assoc_ok ls rs a \<Longrightarrow> set rs' = set rs - {j} \<Longrightarrow> assoc_ok ls rs' (drop_targets j a)"
  by (auto simp: assoc_ok_def)

lemma assoc_ok_drop_sources_same: "assoc_ok ls rs a \<Longrightarrow> assoc_ok ls rs (drop_sources i a)"
  by (auto simp: assoc_ok_def)

lemmas assoc_ok_intros =
  assoc_ok_set_targets assoc_ok_drop_source assoc_ok_drop_target assoc_ok_drop_sources_same

end
