(* ===== verification/Db_Common.thy ===== *)
theory Db_Common
  imports Schema
begin

text \<open>
  The parts of the database plugin (\<^verbatim>\<open>GroupPolicyDbPlugin\<close>, \<^verbatim>\<open>group_policy_db.py\<close>) that every
  resource shares: the tenant of a new resource, the common columns in request bodies, rows and
  result dictionaries, and scoped collection queries.  A create body carries every key the
  code reads with \<^verbatim>\<open>body['key']\<close>; a key read with \<^verbatim>\<open>body.get\<close> or tested with \<^verbatim>\<open>in\<close> is optional.
  An update body has every key optional.  The requested \<^verbatim>\<open>fields\<close>, sorting and pagination of
  neutron-lib are left out: operations return full dictionaries and whole collections, and the
  filters of a collection query are the predicate on rows that they denote.
\<close>

section \<open>Bodies and dictionaries\<close>

record gbp_body =
  bd_tenant_id :: "string option"
  bd_name :: string
  bd_description :: string
  bd_status :: "string option"
  bd_status_details :: "string option"

record shared_body = gbp_body +
  bd_shared :: "bool option"

record gbp_upd =
  ud_name :: "string option"
  ud_description :: "string option"
  ud_status :: "string option option"
  ud_status_details :: "string option option"

record shared_upd = gbp_upd +
  ud_shared :: "bool option"

record gbp_dict =
  d_id :: string
  d_tenant_id :: string
  d_name :: string
  d_description :: string
  d_status :: "string option"
  d_status_details :: "string option"

record shared_dict = gbp_dict +
  d_shared :: bool

section \<open>Common operations\<close>

definition get_tenant_id_for_create :: "ctx \<Rightarrow> 'a gbp_body_scheme \<Rightarrow> gbp_error + string" where
  "get_tenant_id_for_create c b =
     (case bd_tenant_id b of
        None \<Rightarrow> Inr (ctx_project c)
      | Some t \<Rightarrow>
          if ctx_is_admin c then Inr t
          else if t \<noteq> ctx_project c then Inl AdminRequired
          else Inr (ctx_project c))"

text \<open>The columns of \<^verbatim>\<open>BaseSharedGbpResource\<close> as every constructor call sets them.\<close>

definition new_shared_row :: "string \<Rightarrow> string \<Rightarrow> 'a shared_body_scheme \<Rightarrow> shared_row" where
  "new_shared_row i tenant b =
     \<lparr> row_id = i, row_tenant = tenant, row_name = bd_name b,
       row_description = bd_description b, row_status = bd_status b,
       row_status_details = bd_status_details b, row_shared = get_default (bd_shared b) False \<rparr>"

text \<open>The mapping classes' constructor calls, which leave the two status columns unset.\<close>

definition new_mapping_row :: "string \<Rightarrow> string \<Rightarrow> 'a shared_body_scheme \<Rightarrow> shared_row" where
  "new_mapping_row i tenant b =
     (new_shared_row i tenant b)\<lparr> row_status := None, row_status_details := None \<rparr>"

text \<open>\<^verbatim>\<open>row.update(body)\<close> on the common columns.\<close>

definition upd_common :: "'a gbp_upd_scheme \<Rightarrow> 'b gbp_row_scheme \<Rightarrow> 'b gbp_row_scheme" where
  "upd_common u r =
     r\<lparr> row_name := upd_opt (ud_name u) (row_name r),
       row_description := upd_opt (ud_description u) (row_description r),
       row_status := upd_opt (ud_status u) (row_status r),
       row_status_details := upd_opt (ud_status_details u) (row_status_details r) \<rparr>"

definition upd_shared :: "'a shared_upd_scheme \<Rightarrow> 'b shared_row_scheme \<Rightarrow> 'b shared_row_scheme" where
  "upd_shared u r = (upd_common u r)\<lparr> row_shared := upd_opt (ud_shared u) (row_shared r) \<rparr>"

definition populate_common_fields_in_dict :: "'a shared_row_scheme \<Rightarrow> shared_dict" where
  "populate_common_fields_in_dict r =
     \<lparr> d_id = row_id r, d_tenant_id = row_tenant r, d_name = row_name r,
       d_description = row_description r, d_status = row_status r,
       d_status_details = row_status_details r, d_shared = row_shared r \<rparr>"

definition get_collection :: "('r \<Rightarrow> bool) \<Rightarrow> ('r \<Rightarrow> bool) \<Rightarrow> 'r list \<Rightarrow> 'r list" where
  "get_collection vis flt t = filter (\<lambda>r. vis r \<and> flt r) t"

text \<open>The ids of a requested list that a scoped query by id finds.\<close>

definition query_ids ::
  "('a gbp_row_scheme \<Rightarrow> bool) \<Rightarrow> string list \<Rightarrow> 'a gbp_row_scheme list \<Rightarrow> 'a gbp_row_scheme list" where
  "query_ids vis js t = get_collection vis (\<lambda>r. row_id r \<in> set js) t"

text \<open>The check loops of the set methods: the first id of the list the query did not find.\<close>

definition require_ids ::
  "('a gbp_row_scheme \<Rightarrow> bool) \<Rightarrow> res_type \<Rightarrow> string list \<Rightarrow> 'a gbp_row_scheme list
    \<Rightarrow> gbp_error + unit" where
  "require_ids vis rt js t =
     (case find (\<lambda>j. j \<notin> set (ids (query_ids vis js t))) js of
        None \<Rightarrow> Inr ()
      | Some j \<Rightarrow> Inl (NotFound rt j))"

text \<open>A key of the body is processed only where it is present.\<close>

definition if_present :: "'k option \<Rightarrow> ('k \<Rightarrow> gbp_db \<Rightarrow> gbp_error + gbp_db) \<Rightarrow> gbp_db \<Rightarrow> gbp_error + gbp_db" where
  "if_present k f db = (case k of None \<Rightarrow> Inr db | Some v \<Rightarrow> f v db)"

section \<open>Lemmas\<close>

lemma if_present_cases:
  "if_present k f db = Inr db' \<Longrightarrow> (k = None \<and> db' = db) \<or> (\<exists>v. k = Some v \<and> f v db = Inr db')"
  by (auto simp: if_present_def split: option.splits)

lemma row_id_upd_common [simp]: "row_id (upd_common u r) = row_id r"
  by (simp add: upd_common_def)

lemma row_id_upd_shared [simp]: "row_id (upd_shared u r) = row_id r"
  by (simp add: upd_shared_def)

lemma row_tenant_upd_common [simp]: "row_tenant (upd_common u r) = row_tenant r"
  by (simp add: upd_common_def)

lemma row_tenant_upd_shared [simp]: "row_tenant (upd_shared u r) = row_tenant r"
  by (simp add: upd_shared_def)

lemma row_id_new_shared_row [simp]: "row_id (new_shared_row i t b) = i"
  by (simp add: new_shared_row_def)

lemma row_id_new_mapping_row [simp]: "row_id (new_mapping_row i t b) = i"
  by (simp add: new_mapping_row_def)

lemma d_id_populate [simp]: "d_id (populate_common_fields_in_dict r) = row_id r"
  by (simp add: populate_common_fields_in_dict_def)

lemma shared_row_extend [simp]:
  "row_id (shared_row.extend r m) = row_id r"
  "row_tenant (shared_row.extend r m) = row_tenant r"
  "row_shared (shared_row.extend r m) = row_shared r"
  by (simp_all add: shared_row.defs)

lemma shared_dict_extend [simp]:
  "d_id (shared_dict.extend r m) = d_id r"
  "d_tenant_id (shared_dict.extend r m) = d_tenant_id r"
  "d_shared (shared_dict.extend r m) = d_shared r"
  by (simp_all add: shared_dict.defs)

lemma populate_simps [simp]:
  "d_tenant_id (populate_common_fields_in_dict r) = row_tenant r"
  "d_shared (populate_common_fields_in_dict r) = row_shared r"
  by (simp_all add: populate_common_fields_in_dict_def)

lemma tenant_for_create_cases:
  "get_tenant_id_for_create c b = Inr t \<Longrightarrow>
     t = ctx_project c \<or> (ctx_is_admin c \<and> bd_tenant_id b = Some t)"
  by (auto simp: get_tenant_id_for_create_def split: option.splits if_splits)

lemma set_query_ids:
  "r \<in> set (query_ids vis js t) \<longleftrightarrow> r \<in> set t \<and> vis r \<and> row_id r \<in> set js"
  by (auto simp: query_ids_def get_collection_def)

lemma query_ids_subset: "set (ids (query_ids vis js t)) \<subseteq> set js \<inter> set (ids t)"
  by (auto simp: ids_def set_query_ids)

lemma require_ids_Inr:
  "require_ids vis rt js t = Inr u \<longleftrightarrow> set js \<subseteq> set (ids (query_ids vis js t))"
  by (auto simp: require_ids_def find_None_iff2 split: option.splits dest!: find_Some_in)

lemma require_ids_exist: "require_ids vis rt js t = Inr u \<Longrightarrow> set js \<subseteq> set (ids t)"
  using query_ids_subset require_ids_Inr by fast

lemma require_ids_visible:
  "require_ids vis rt js t = Inr u \<Longrightarrow> j \<in> set js \<Longrightarrow> \<exists>r \<in> set t. row_id r = j \<and> vis r"
  by (force simp: require_ids_Inr ids_def set_query_ids)

lemma require_ids_Inl: "require_ids vis rt js t = Inl e \<Longrightarrow> \<exists>j \<in> set js. e = NotFound rt j"
  by (auto simp: require_ids_def split: option.splits dest!: find_Some_in)

end
