(* ===== verification/Policy_Db.thy ===== *)
theory Policy_Db
  imports Db_Common
begin

text \<open>
  Policy classifiers, actions, rules and rule sets: the operations of
  \<^verbatim>\<open>GroupPolicyDbPlugin\<close> (\<^verbatim>\<open>group_policy_db.py\<close>) on the policy half of the data model.  Each
  operation takes the request context, the id that \<^verbatim>\<open>uuidutils.generate_uuid\<close> returned where
  it creates a row, and the database, and returns the new database with the result, or the
  exception (the transaction is then rolled back, so there is no new database).
\<close>

section \<open>Policy classifiers\<close>

record pc_body = shared_body +
  pcb_protocol :: "string option"
  pcb_port_range :: "string option"
  pcb_direction :: "string option"

record pc_upd = shared_upd +
  pcu_protocol :: "string option option"
  pcu_port_range :: "string option option"
  pcu_direction :: "string option option"

record pc_dict = shared_dict +
  pcd_protocol :: "string option"
  pcd_port_range :: "string option"
  pcd_direction :: "string option"
  pcd_policy_rules :: "string list"

text \<open>The two port conversions with their Python exceptions in the plugin's error type.\<close>

definition ports_of_range :: "string option \<Rightarrow> gbp_error + (int option \<times> int option)" where
  "ports_of_range s =
     (case get_min_max_ports_from_range s of None \<Rightarrow> Inl PyValueError | Some p \<Rightarrow> Inr p)"

definition range_of_ports :: "int option \<Rightarrow> int option \<Rightarrow> gbp_error + string option" where
  "range_of_ports lo hi =
     (case get_port_range_from_min_max_ports lo hi of
        Inl e \<Rightarrow> Inl (ConvError e) | Inr s \<Rightarrow> Inr s)"

definition get_policy_classifier_rules :: "gbp_db \<Rightarrow> string \<Rightarrow> string list" where
  "get_policy_classifier_rules db i = ids (filter (\<lambda>r. pr_classifier_id r = i) (tb_rules db))"

definition get_policy_classifier_row :: "ctx \<Rightarrow> string \<Rightarrow> gbp_db \<Rightarrow> gbp_error + policy_classifier" where
  "get_policy_classifier_row c i db = get_by_id (sees_row c) PolicyClassifier (tb_classifiers db) i"

definition make_policy_classifier_dict :: "gbp_db \<Rightarrow> policy_classifier \<Rightarrow> gbp_error + pc_dict" where
  "make_policy_classifier_dict db pc =
     bindE (range_of_ports (pc_port_range_min pc) (pc_port_range_max pc)) (\<lambda>port_range.
       Inr (shared_dict.extend (populate_common_fields_in_dict pc)
              (pc_dict.fields (pc_protocol pc) port_range (pc_direction pc)
                 (get_policy_classifier_rules db (row_id pc)))))"

definition create_policy_classifier ::
  "ctx \<Rightarrow> string \<Rightarrow> pc_body \<Rightarrow> gbp_db \<Rightarrow> gbp_error + gbp_db \<times> pc_dict" where
  "create_policy_classifier c new_id pc db =
     bindE (get_tenant_id_for_create c pc) (\<lambda>tenant_id.
     bindE (ports_of_range (pcb_port_range pc)) (\<lambda>(port_min, port_max).
       let pc_db = shared_row.extend (new_shared_row new_id tenant_id pc)
             (policy_classifier.fields (pcb_protocol pc) port_min port_max (pcb_direction pc));
           db' = db\<lparr>tb_classifiers := tb_classifiers db @ [pc_db]\<rparr>
       in bindE (make_policy_classifier_dict db' pc_db) (\<lambda>d. Inr (db', d))))"

definition upd_classifier ::
  "pc_upd \<Rightarrow> (int option \<times> int option) option \<Rightarrow> policy_classifier \<Rightarrow> policy_classifier" where
  "upd_classifier u ports r =
     (upd_shared u r)\<lparr>
        pc_protocol := upd_opt (pcu_protocol u) (pc_protocol r),
        pc_direction := upd_opt (pcu_direction u) (pc_direction r),
        pc_port_range_min := upd_opt (map_option fst ports) (pc_port_range_min r),
        pc_port_range_max := upd_opt (map_option snd ports) (pc_port_range_max r) \<rparr>"

definition update_policy_classifier ::
  "ctx \<Rightarrow> string \<Rightarrow> pc_upd \<Rightarrow> gbp_db \<Rightarrow> gbp_error + gbp_db \<times> pc_dict" where
  "update_policy_classifier c i pc db =
     bindE (get_policy_classifier_row c i db) (\<lambda>pc_db.
     bindE (case pcu_port_range pc of
              None \<Rightarrow> Inr None
            | Some rng \<Rightarrow> bindE (ports_of_range rng) (\<lambda>p. Inr (Some p))) (\<lambda>ports.
       let pc_db' = upd_classifier pc ports pc_db;
           db' = db\<lparr>tb_classifiers := upd_row i (upd_classifier pc ports) (tb_classifiers db)\<rparr>
       in bindE (make_policy_classifier_dict db' pc_db') (\<lambda>d. Inr (db', d))))"

definition delete_policy_classifier :: "ctx \<Rightarrow> string \<Rightarrow> gbp_db \<Rightarrow> gbp_error + gbp_db" where
  "delete_policy_classifier c i db =
     bindE (get_policy_classifier_row c i db) (\<lambda>_.
       if get_policy_classifier_rules db i \<noteq> [] then Inl (InUse PolicyClassifier i)
       else Inr (db\<lparr>tb_classifiers := del_row i (tb_classifiers db)\<rparr>))"

definition get_policy_classifier :: "ctx \<Rightarrow> string \<Rightarrow> gbp_db \<Rightarrow> gbp_error + pc_dict" where
  "get_policy_classifier c i db =
     bindE (get_policy_classifier_row c i db) (make_policy_classifier_dict db)"

section \<open>Policy actions\<close>

record pa_body = shared_body +
  pab_action_type :: "string option"
  pab_action_value :: "string option"

record pa_upd = shared_upd +
  pau_action_type :: "string option option"
  pau_action_value :: "string option option"

record pa_dict = shared_dict +
  pad_action_type :: "string option"
  pad_action_value :: "string option"
  pad_policy_rules :: "string list"

definition get_policy_action_rules :: "gbp_db \<Rightarrow> string \<Rightarrow> string list" where
  "get_policy_action_rules db i = sources (as_pr_pa db) i"

definition get_policy_action_row :: "ctx \<Rightarrow> string \<Rightarrow> gbp_db \<Rightarrow> gbp_error + policy_action" where
  "get_policy_action_row c i db = get_by_id (sees_row c) PolicyAction (tb_actions db) i"

definition make_policy_action_dict :: "gbp_db \<Rightarrow> policy_action \<Rightarrow> pa_dict" where
  "make_policy_action_dict db pa =
     shared_dict.extend (populate_common_fields_in_dict pa)
       (pa_dict.fields (pa_action_type pa) (pa_action_value pa)
          (get_policy_action_rules db (row_id pa)))"

definition create_policy_action ::
  "ctx \<Rightarrow> string \<Rightarrow> pa_body \<Rightarrow> gbp_db \<Rightarrow> gbp_error + gbp_db \<times> pa_dict" where
  "create_policy_action c new_id pa db =
     bindE (get_tenant_id_for_create c pa) (\<lambda>tenant_id.
       let pa_db = shared_row.extend (new_shared_row new_id tenant_id pa)
             (policy_action.fields (pab_action_type pa) (pab_action_value pa));
           db' = db\<lparr>tb_actions := tb_actions db @ [pa_db]\<rparr>
       in Inr (db', make_policy_action_dict db' pa_db))"

definition upd_action :: "pa_upd \<Rightarrow> policy_action \<Rightarrow> policy_action" where
  "upd_action u r =
     (upd_shared u r)\<lparr>
        pa_action_type := upd_opt (pau_action_type u) (pa_action_type r),
        pa_action_value := upd_opt (pau_action_value u) (pa_action_value r) \<rparr>"

definition update_policy_action ::
  "ctx \<Rightarrow> string \<Rightarrow> pa_upd \<Rightarrow> gbp_db \<Rightarrow> gbp_error + gbp_db \<times> pa_dict" where
  "update_policy_action c i pa db =
     bindE (get_policy_action_row c i db) (\<lambda>pa_db.
       let db' = db\<lparr>tb_actions := upd_row i (upd_action pa) (tb_actions db)\<rparr>
       in Inr (db', make_policy_action_dict db' (upd_action pa pa_db)))"

definition delete_policy_action :: "ctx \<Rightarrow> string \<Rightarrow> gbp_db \<Rightarrow> gbp_error + gbp_db" where
  "delete_policy_action c i db =
     bindE (get_policy_action_row c i db) (\<lambda>_.
       if get_policy_action_rules db i \<noteq> [] then Inl (InUse PolicyAction i)
       else Inr (db\<lparr>tb_actions := del_row i (tb_actions db)\<rparr>))"

definition get_policy_action :: "ctx \<Rightarrow> string \<Rightarrow> gbp_db \<Rightarrow> gbp_error + pa_dict" where
  "get_policy_action c i db =
     bindE (get_policy_action_row c i db) (\<lambda>r. Inr (make_policy_action_dict db r))"

section \<open>Policy rules\<close>

record pr_body = shared_body +
  prb_enabled :: bool
  prb_policy_classifier_id :: string
  prb_policy_actions :: "string list"

record pr_upd = shared_upd +
  pru_enabled :: "bool option"
  pru_policy_classifier_id :: "string option"
  pru_policy_actions :: "string list option"

record pr_dict = shared_dict +
  prd_enabled :: bool
  prd_policy_classifier_id :: string
  prd_policy_actions :: "string list"
  prd_policy_rule_sets :: "string list"

definition get_policy_rule_row :: "ctx \<Rightarrow> string \<Rightarrow> gbp_db \<Rightarrow> gbp_error + policy_rule" where
  "get_policy_rule_row c i db = get_by_id (sees_row c) PolicyRule (tb_rules db) i"

definition get_policy_rule_policy_rule_sets :: "gbp_db \<Rightarrow> string \<Rightarrow> string list" where
  "get_policy_rule_policy_rule_sets db i = sources (as_prs_pr db) i"

text \<open>
  The relationship \<^verbatim>\<open>PolicyRule.policy_actions\<close> has \<^verbatim>\<open>cascade='all'\<close> without
  \<^verbatim>\<open>delete-orphan\<close>.  Emptying it by assignment makes the mapper set the rule id of the removed
  association rows to \<^verbatim>\<open>NULL\<close>, and as that column is in their primary key the flush raises
  (\<open>BlankPrimaryKey\<close>).  The branch for a non-empty list deletes the rows itself first.
\<close>

definition set_actions_for_rule ::
  "ctx \<Rightarrow> string \<Rightarrow> string list \<Rightarrow> gbp_db \<Rightarrow> gbp_error + gbp_db" where
  "set_actions_for_rule c rule_id action_id_list db =
     (if action_id_list = [] then
        (if targets (as_pr_pa db) rule_id = [] then Inr db else Inl BlankPrimaryKey)
      else
        bindE (require_ids (sees_row c) PolicyAction action_id_list (tb_actions db)) (\<lambda>_.
        bindE (set_targets rule_id action_id_list (as_pr_pa db)) (\<lambda>a.
          Inr (db\<lparr>as_pr_pa := a\<rparr>))))"

definition make_policy_rule_dict :: "gbp_db \<Rightarrow> policy_rule \<Rightarrow> pr_dict" where
  "make_policy_rule_dict db pr =
     shared_dict.extend (populate_common_fields_in_dict pr)
       (pr_dict.fields (pr_enabled pr) (pr_classifier_id pr)
          (targets (as_pr_pa db) (row_id pr)) (sources (as_prs_pr db) (row_id pr)))"

definition create_policy_rule ::
  "ctx \<Rightarrow> string \<Rightarrow> pr_body \<Rightarrow> gbp_db \<Rightarrow> gbp_error + gbp_db \<times> pr_dict" where
  "create_policy_rule c new_id pr db =
     bindE (get_tenant_id_for_create c pr) (\<lambda>tenant_id.
       let pr_db = shared_row.extend (new_shared_row new_id tenant_id pr)
             (policy_rule.fields (prb_enabled pr) (prb_policy_classifier_id pr));
           db1 = db\<lparr>tb_rules := tb_rules db @ [pr_db]\<rparr>
       in bindE (set_actions_for_rule c new_id (prb_policy_actions pr) db1) (\<lambda>db2.
            Inr (db2, make_policy_rule_dict db2 pr_db)))"

definition upd_rule :: "pr_upd \<Rightarrow> policy_rule \<Rightarrow> policy_rule" where
  "upd_rule u r =
     (upd_shared u r)\<lparr>
        pr_enabled := upd_opt (pru_enabled u) (pr_enabled r),
        pr_classifier_id := upd_opt (pru_policy_classifier_id u) (pr_classifier_id r) \<rparr>"

definition update_policy_rule ::
  "ctx \<Rightarrow> string \<Rightarrow> pr_upd \<Rightarrow> gbp_db \<Rightarrow> gbp_error + gbp_db \<times> pr_dict" where
  "update_policy_rule c i pr db =
     bindE (get_policy_rule_row c i db) (\<lambda>pr_db.
     bindE (if_present (pru_policy_actions pr) (set_actions_for_rule c i) db) (\<lambda>db1.
       let db2 = db1\<lparr>tb_rules := upd_row i (upd_rule pr) (tb_rules db1)\<rparr>
       in Inr (db2, make_policy_rule_dict db2 (upd_rule pr pr_db))))"

text \<open>Deleting a rule cascades to its action associations.\<close>

definition delete_policy_rule :: "ctx \<Rightarrow> string \<Rightarrow> gbp_db \<Rightarrow> gbp_error + gbp_db" where
  "delete_policy_rule c i db =
     bindE (get_policy_rule_row c i db) (\<lambda>_.
       if get_policy_rule_policy_rule_sets db i \<noteq> [] then Inl (InUse PolicyRule i)
       else Inr (db\<lparr>tb_rules := del_row i (tb_rules db),
                    as_pr_pa := drop_sources i (as_pr_pa db)\<rparr>))"

definition get_policy_rule :: "ctx \<Rightarrow> string \<Rightarrow> gbp_db \<Rightarrow> gbp_error + pr_dict" where
  "get_policy_rule c i db =
     bindE (get_policy_rule_row c i db) (\<lambda>r. Inr (make_policy_rule_dict db r))"

section \<open>Policy rule sets\<close>

record prs_body = shared_body +
  prsb_policy_rules :: "string list"
  prsb_child_policy_rule_sets :: "string list"

record prs_upd = shared_upd +
  prsu_policy_rules :: "string list option"
  prsu_child_policy_rule_sets :: "string list option"

record prs_dict = shared_dict +
  prsd_parent_id :: "string option"
  prsd_child_policy_rule_sets :: "string list"
  prsd_policy_rules :: "string list"
  prsd_providing_policy_target_groups :: "string list"
  prsd_consuming_policy_target_groups :: "string list"
  prsd_providing_external_policies :: "string list"
  prsd_consuming_external_policies :: "string list"

definition get_policy_rule_set_row :: "ctx \<Rightarrow> string \<Rightarrow> gbp_db \<Rightarrow> gbp_error + policy_rule_set" where
  "get_policy_rule_set_row c i db = get_by_id (sees_row c) PolicyRuleSet (tb_prss db) i"

definition get_ptgs_for_providing_policy_rule_set :: "gbp_db \<Rightarrow> string \<Rightarrow> string list" where
  "get_ptgs_for_providing_policy_rule_set db i = sources (as_ptg_prov db) i"

definition get_ptgs_for_consuming_policy_rule_set :: "gbp_db \<Rightarrow> string \<Rightarrow> string list" where
  "get_ptgs_for_consuming_policy_rule_set db i = sources (as_ptg_cons db) i"

definition get_eps_for_providing_policy_rule_set :: "gbp_db \<Rightarrow> string \<Rightarrow> string list" where
  "get_eps_for_providing_policy_rule_set db i = sources (as_ep_prov db) i"

definition get_eps_for_consuming_policy_rule_set :: "gbp_db \<Rightarrow> string \<Rightarrow> string list" where
  "get_eps_for_consuming_policy_rule_set db i = sources (as_ep_cons db) i"

text \<open>The relationship \<^verbatim>\<open>child_policy_rule_sets\<close>, and assigning it.\<close>

definition children_of :: "policy_rule_set list \<Rightarrow> string \<Rightarrow> string list" where
  "children_of t i = ids (filter (\<lambda>r. prs_parent_id r = Some i) t)"

definition clear_children :: "string \<Rightarrow> policy_rule_set list \<Rightarrow> policy_rule_set list" where
  "clear_children i t =
     map (\<lambda>r. if prs_parent_id r = Some i then r\<lparr>prs_parent_id := None\<rparr> else r) t"

definition adopt :: "string \<Rightarrow> string list \<Rightarrow> policy_rule_set list \<Rightarrow> policy_rule_set list" where
  "adopt i js t = map (\<lambda>r. if row_id r \<in> set js then r\<lparr>prs_parent_id := Some i\<rparr> else r) t"

definition validate_policy_rule_set_list ::
  "ctx \<Rightarrow> string list \<Rightarrow> gbp_db \<Rightarrow> gbp_error + policy_rule_set list" where
  "validate_policy_rule_set_list c js db =
     bindE (require_ids (sees_row c) PolicyRuleSet js (tb_prss db)) (\<lambda>_.
       Inr (query_ids (sees_row c) js (tb_prss db)))"

definition set_children_for_policy_rule_set ::
  "ctx \<Rightarrow> policy_rule_set \<Rightarrow> string list \<Rightarrow> gbp_db \<Rightarrow> gbp_error + gbp_db" where
  "set_children_for_policy_rule_set c prs_db child_id_list db =
     (let i = row_id prs_db in
      if child_id_list = [] then Inr (db\<lparr>tb_prss := clear_children i (tb_prss db)\<rparr>)
      else if prs_parent_id prs_db \<noteq> None
      then Inl (ThreeLevelPolicyRuleSetHierarchyNotSupported i)
      else
        bindE (validate_policy_rule_set_list c child_id_list db) (\<lambda>children.
        bindE (checkE (\<lambda>child.
                 guardE (\<not> (children_of (tb_prss db) (row_id child) \<noteq> [] \<or> row_id child = i))
                   (BadPolicyRuleSetRelationship i (row_id child))) children) (\<lambda>_.
          Inr (db\<lparr>tb_prss := adopt i (ids children) (clear_children i (tb_prss db))\<rparr>))))"

definition set_rules_for_policy_rule_set ::
  "ctx \<Rightarrow> string \<Rightarrow> string list \<Rightarrow> gbp_db \<Rightarrow> gbp_error + gbp_db" where
  "set_rules_for_policy_rule_set c i rule_id_list db =
     (if rule_id_list = [] then Inr (db\<lparr>as_prs_pr := drop_sources i (as_prs_pr db)\<rparr>)
      else
        bindE (require_ids (sees_row c) PolicyRule rule_id_list (tb_rules db)) (\<lambda>_.
        bindE (set_targets i rule_id_list (as_prs_pr db)) (\<lambda>a.
          Inr (db\<lparr>as_prs_pr := a\<rparr>))))"

definition make_policy_rule_set_dict :: "gbp_db \<Rightarrow> policy_rule_set \<Rightarrow> prs_dict" where
  "make_policy_rule_set_dict db prs =
     shared_dict.extend (populate_common_fields_in_dict prs)
       (prs_dict.fields
          (case prs_parent_id prs of
             None \<Rightarrow> None
           | Some p \<Rightarrow> if p \<in> set (ids (tb_prss db)) then Some p else None)
          (children_of (tb_prss db) (row_id prs))
          (targets (as_prs_pr db) (row_id prs))
          (sources (as_ptg_prov db) (row_id prs))
          (sources (as_ptg_cons db) (row_id prs))
          (sources (as_ep_prov db) (row_id prs))
          (sources (as_ep_cons db) (row_id prs)))"

definition create_policy_rule_set ::
  "ctx \<Rightarrow> string \<Rightarrow> prs_body \<Rightarrow> gbp_db \<Rightarrow> gbp_error + gbp_db \<times> prs_dict" where
  "create_policy_rule_set c new_id prs db =
     bindE (get_tenant_id_for_create c prs) (\<lambda>tenant_id.
       let prs_db = shared_row.extend (new_shared_row new_id tenant_id prs)
             (policy_rule_set.fields None);
           db1 = db\<lparr>tb_prss := tb_prss db @ [prs_db]\<rparr>
       in bindE (set_rules_for_policy_rule_set c new_id (prsb_policy_rules prs) db1) (\<lambda>db2.
          bindE (set_children_for_policy_rule_set c prs_db
                   (prsb_child_policy_rule_sets prs) db2) (\<lambda>db3.
            Inr (db3, make_policy_rule_set_dict db3 prs_db))))"

text \<open>The update body has no \<^verbatim>\<open>parent_id\<close>: the attribute map does not allow it.\<close>

definition upd_rule_set :: "prs_upd \<Rightarrow> policy_rule_set \<Rightarrow> policy_rule_set" where
  "upd_rule_set u r = upd_shared u r"

definition update_policy_rule_set ::
  "ctx \<Rightarrow> string \<Rightarrow> prs_upd \<Rightarrow> gbp_db \<Rightarrow> gbp_error + gbp_db \<times> prs_dict" where
  "update_policy_rule_set c i prs db =
     bindE (get_policy_rule_set_row c i db) (\<lambda>prs_db.
     bindE (if_present (prsu_policy_rules prs) (set_rules_for_policy_rule_set c i) db) (\<lambda>db1.
     bindE (if_present (prsu_child_policy_rule_sets prs)
              (set_children_for_policy_rule_set c prs_db) db1) (\<lambda>db2.
       let db3 = db2\<lparr>tb_prss := upd_row i (upd_rule_set prs) (tb_prss db2)\<rparr>
       in Inr (db3, make_policy_rule_set_dict db3 (upd_rule_set prs prs_db)))))"

text \<open>
  Deleting a rule set cascades to its rule associations and sets the parent of its children
  to \<^verbatim>\<open>NULL\<close>.
\<close>

definition delete_policy_rule_set :: "ctx \<Rightarrow> string \<Rightarrow> gbp_db \<Rightarrow> gbp_error + gbp_db" where
  "delete_policy_rule_set c i db =
     bindE (get_policy_rule_set_row c i db) (\<lambda>_.
       if get_ptgs_for_providing_policy_rule_set db i \<noteq> []
        \<or> get_ptgs_for_consuming_policy_rule_set db i \<noteq> []
        \<or> get_eps_for_providing_policy_rule_set db i \<noteq> []
        \<or> get_eps_for_consuming_policy_rule_set db i \<noteq> []
       then Inl (InUse PolicyRuleSet i)
       else Inr (db\<lparr>tb_prss := del_row i (clear_children i (tb_prss db)),
                    as_prs_pr := drop_sources i (as_prs_pr db)\<rparr>))"

definition get_policy_rule_set :: "ctx \<Rightarrow> string \<Rightarrow> gbp_db \<Rightarrow> gbp_error + prs_dict" where
  "get_policy_rule_set c i db =
     bindE (get_policy_rule_set_row c i db) (\<lambda>r. Inr (make_policy_rule_set_dict db r))"

end
