(* ===== verification/Group_Db.thy ===== *)
theory Group_Db
  imports Policy_Db
begin

text \<open>
  Policy targets, policy target groups, application policy groups, L2 policies and network
  service policies: the database operations the plugin runs for them, from
  \<^verbatim>\<open>group_policy_mapping_db.py\<close> where \<^verbatim>\<open>GroupPolicyMappingDbPlugin\<close> overrides them and from
  \<^verbatim>\<open>group_policy_db.py\<close> otherwise.
\<close>

section \<open>Policy target groups\<close>

record ptg_body = shared_body +
  ptgb_id :: "string option"
  ptgb_l2_policy_id :: "string option"
  ptgb_apg_id :: "string option"
  ptgb_nsp_id :: "string option"
  ptgb_service_management :: bool
  ptgb_subnets :: "string list option"
  ptgb_provided :: "string list option"
  ptgb_consumed :: "string list option"

record ptg_upd = shared_upd +
  ptgu_l2_policy_id :: "string option option"
  ptgu_apg_id :: "string option option"
  ptgu_nsp_id :: "string option option"
  ptgu_service_management :: "bool option"
  ptgu_subnets :: "string list option"
  ptgu_provided :: "string list option"
  ptgu_consumed :: "string list option"

record ptg_dict = shared_dict +
  ptgd_l2_policy_id :: "string option"
  ptgd_apg_id :: "string option"
  ptgd_nsp_id :: "string option"
  ptgd_service_management :: bool
  ptgd_policy_targets :: "string list"
  ptgd_provided :: "string list"
  ptgd_consumed :: "string list"

record ptgm_dict = ptg_dict +
  ptgd_subnets :: "string list"

definition get_policy_target_group_row ::
  "ctx \<Rightarrow> string \<Rightarrow> gbp_db \<Rightarrow> gbp_error + policy_target_group" where
  "get_policy_target_group_row c i db = get_by_id (sees_row c) PolicyTargetGroup (tb_ptgs db) i"

text \<open>
  \<^verbatim>\<open>_set_providers_or_consumers_for_res\<close> on the association table of the resource; the
  requested rule sets are the keys of the request's dictionary.
\<close>

definition set_providers_or_consumers_for_res ::
  "ctx \<Rightarrow> string \<Rightarrow> string list \<Rightarrow> gbp_db \<Rightarrow> assoc list \<Rightarrow> gbp_error + assoc list" where
  "set_providers_or_consumers_for_res c i prs_ids db a =
     (if prs_ids = [] then Inr (drop_sources i a)
      else bindE (validate_policy_rule_set_list c prs_ids db) (\<lambda>_. set_targets i prs_ids a))"

definition set_providers_or_consumers_for_policy_target_group ::
  "ctx \<Rightarrow> string \<Rightarrow> string list \<Rightarrow> bool \<Rightarrow> gbp_db \<Rightarrow> gbp_error + gbp_db" where
  "set_providers_or_consumers_for_policy_target_group c i prs_ids provider db =
     (if provider
      then bindE (set_providers_or_consumers_for_res c i prs_ids db (as_ptg_prov db)) (\<lambda>a.
             Inr (db\<lparr>as_ptg_prov := a\<rparr>))
      else bindE (set_providers_or_consumers_for_res c i prs_ids db (as_ptg_cons db)) (\<lambda>a.
             Inr (db\<lparr>as_ptg_cons := a\<rparr>)))"

definition process_policy_rule_sets_for_ptg ::
  "ctx \<Rightarrow> string \<Rightarrow> string list option \<Rightarrow> string list option \<Rightarrow> gbp_db \<Rightarrow> gbp_error + gbp_db" where
  "process_policy_rule_sets_for_ptg c i provided consumed db =
     bindE (if_present provided
              (\<lambda>js. set_providers_or_consumers_for_policy_target_group c i js True) db)
       (if_present consumed
          (\<lambda>js. set_providers_or_consumers_for_policy_target_group c i js False))"

definition make_policy_target_group_dict :: "gbp_db \<Rightarrow> policy_target_group \<Rightarrow> ptg_dict" where
  "make_policy_target_group_dict db ptg =
     shared_dict.extend (populate_common_fields_in_dict ptg)
       (ptg_dict.fields (ptg_l2p_id ptg) (ptg_apg_id ptg) (ptg_nsp_id ptg)
          (ptg_service_management ptg)
          (ids (filter (\<lambda>pt. pt_ptg_id pt = Some (row_id ptg)) (tb_pts db)))
          (targets (as_ptg_prov db) (row_id ptg)) (targets (as_ptg_cons db) (row_id ptg)))"

definition map_make_policy_target_group_dict :: "gbp_db \<Rightarrow> policy_target_group \<Rightarrow> ptgm_dict" where
  "map_make_policy_target_group_dict db ptg =
     ptg_dict.extend (make_policy_target_group_dict db ptg)
       (ptgm_dict.fields (targets (as_ptg_subnet db) (row_id ptg)))"

definition get_policy_target_groups ::
  "ctx \<Rightarrow> (policy_target_group \<Rightarrow> bool) \<Rightarrow> gbp_db \<Rightarrow> ptgm_dict list" where
  "get_policy_target_groups c flt db =
     map (map_make_policy_target_group_dict db) (get_collection (sees_row c) flt (tb_ptgs db))"

definition validate_service_management_ptg :: "ctx \<Rightarrow> string \<Rightarrow> gbp_db \<Rightarrow> gbp_error + unit" where
  "validate_service_management_ptg c tenant_id db =
     (if get_policy_target_groups c
           (\<lambda>r. row_tenant r = tenant_id \<and> ptg_service_management r) db \<noteq> []
      then Inl ManagementPolicyTargetGroupExists else Inr ())"

definition add_ptg_subnets :: "string \<Rightarrow> string list \<Rightarrow> gbp_db \<Rightarrow> gbp_error + gbp_db" where
  "add_ptg_subnets i subnets db =
     bindE (append_pk (as_ptg_subnet db) (map (Pair i) subnets)) (\<lambda>a.
       Inr (db\<lparr>as_ptg_subnet := a\<rparr>))"

text \<open>The caller may choose the id of a group; the primary key of the table refuses one in use.\<close>

definition create_policy_target_group ::
  "ctx \<Rightarrow> string \<Rightarrow> ptg_body \<Rightarrow> gbp_db \<Rightarrow> gbp_error + gbp_db \<times> ptgm_dict" where
  "create_policy_target_group c new_id ptg db =
     bindE (get_tenant_id_for_create c ptg) (\<lambda>tenant_id.
     bindE (if ptgb_service_management ptg
            then validate_service_management_ptg c tenant_id db else Inr ()) (\<lambda>_.
       let uuid = (case ptgb_id ptg of
                     None \<Rightarrow> new_id | Some i \<Rightarrow> if i = [] then new_id else i);
           ptg_db = shared_row.extend (new_mapping_row uuid tenant_id ptg)
             (policy_target_group.fields (ptgb_apg_id ptg) (ptgb_l2_policy_id ptg)
                (ptgb_nsp_id ptg) (ptgb_service_management ptg));
           db1 = db\<lparr>tb_ptgs := tb_ptgs db @ [ptg_db]\<rparr>
       in if uuid \<in> set (ids (tb_ptgs db)) then Inl DBDuplicateEntry else
          bindE (if_present (ptgb_subnets ptg) (add_ptg_subnets uuid) db1) (\<lambda>db2.
          bindE (process_policy_rule_sets_for_ptg c uuid
                   (ptgb_provided ptg) (ptgb_consumed ptg) db2) (\<lambda>db3.
            Inr (db3, map_make_policy_target_group_dict db3 ptg_db)))))"

text \<open>
  Bringing the association rows of one owner in line with a requested set: the missing ones
  are added, the ones no longer requested deleted.
\<close>

definition sync_targets :: "string \<Rightarrow> string list \<Rightarrow> assoc list \<Rightarrow> assoc list" where
  "sync_targets i new a =
     filter (\<lambda>p. \<not> (fst p = i \<and> snd p \<notin> set new))
       (a @ map (Pair i) (filter (\<lambda>s. s \<notin> set (targets a i)) (remdups new)))"

definition upd_ptg :: "ptg_upd \<Rightarrow> policy_target_group \<Rightarrow> policy_target_group" where
  "upd_ptg u r =
     (upd_shared u r)\<lparr>
        ptg_l2p_id := upd_opt (ptgu_l2_policy_id u) (ptg_l2p_id r),
        ptg_apg_id := upd_opt (ptgu_apg_id u) (ptg_apg_id r),
        ptg_nsp_id := upd_opt (ptgu_nsp_id u) (ptg_nsp_id r),
        ptg_service_management := upd_opt (ptgu_service_management u) (ptg_service_management r) \<rparr>"

definition update_policy_target_group ::
  "ctx \<Rightarrow> string \<Rightarrow> ptg_upd \<Rightarrow> gbp_db \<Rightarrow> gbp_error + gbp_db \<times> ptgm_dict" where
  "update_policy_target_group c i ptg db =
     bindE (get_policy_target_group_row c i db) (\<lambda>ptg_db.
     bindE (process_policy_rule_sets_for_ptg c i (ptgu_provided ptg) (ptgu_consumed ptg) db) (\<lambda>db1.
       let db2 = (case ptgu_subnets ptg of
                    None \<Rightarrow> db1
                  | Some subnets \<Rightarrow> db1\<lparr>as_ptg_subnet := sync_targets i subnets (as_ptg_subnet db1)\<rparr>);
           db3 = db2\<lparr>tb_ptgs := upd_row i (upd_ptg ptg) (tb_ptgs db2)\<rparr>
       in Inr (db3, map_make_policy_target_group_dict db3 (upd_ptg ptg ptg_db))))"

text \<open>
  Deleting a group cascades to its rule set and subnet associations; the foreign key of its
  policy targets is set to \<^verbatim>\<open>NULL\<close>.
\<close>

definition orphan_pts :: "string \<Rightarrow> policy_target list \<Rightarrow> policy_target list" where
  "orphan_pts i t = map (\<lambda>r. if pt_ptg_id r = Some i then r\<lparr>pt_ptg_id := None\<rparr> else r) t"

definition delete_policy_target_group :: "ctx \<Rightarrow> string \<Rightarrow> gbp_db \<Rightarrow> gbp_error + gbp_db" where
  "delete_policy_target_group c i db =
     bindE (get_policy_target_group_row c i db) (\<lambda>_.
       Inr (db\<lparr>tb_ptgs := del_row i (tb_ptgs db),
               tb_pts := orphan_pts i (tb_pts db),
               as_ptg_prov := drop_sources i (as_ptg_prov db),
               as_ptg_cons := drop_sources i (as_ptg_cons db),
               as_ptg_subnet := drop_sources i (as_ptg_subnet db)\<rparr>))"

definition get_policy_target_group :: "ctx \<Rightarrow> string \<Rightarrow> gbp_db \<Rightarrow> gbp_error + ptgm_dict" where
  "get_policy_target_group c i db =
     bindE (get_policy_target_group_row c i db) (\<lambda>r. Inr (map_make_policy_target_group_dict db r))"

definition set_l2_policy_for_policy_target_group ::
  "ctx \<Rightarrow> string \<Rightarrow> string option \<Rightarrow> gbp_db \<Rightarrow> gbp_error + gbp_db" where
  "set_l2_policy_for_policy_target_group c ptg_id l2p_id db =
     bindE (get_policy_target_group_row c ptg_id db) (\<lambda>_.
       Inr (db\<lparr>tb_ptgs := upd_row ptg_id (\<lambda>r. r\<lparr>ptg_l2p_id := l2p_id\<rparr>) (tb_ptgs db)\<rparr>))"

definition set_application_policy_group_for_policy_target_group ::
  "ctx \<Rightarrow> string \<Rightarrow> string option \<Rightarrow> gbp_db \<Rightarrow> gbp_error + gbp_db" where
  "set_application_policy_group_for_policy_target_group c ptg_id apg_id db =
     bindE (get_policy_target_group_row c ptg_id db) (\<lambda>_.
       Inr (db\<lparr>tb_ptgs := upd_row ptg_id (\<lambda>r. r\<lparr>ptg_apg_id := apg_id\<rparr>) (tb_ptgs db)\<rparr>))"

definition set_network_service_policy_for_policy_target_group ::
  "ctx \<Rightarrow> string \<Rightarrow> string option \<Rightarrow> gbp_db \<Rightarrow> gbp_error + gbp_db" where
  "set_network_service_policy_for_policy_target_group c ptg_id nsp_id db =
     bindE (get_policy_target_group_row c ptg_id db) (\<lambda>_.
       Inr (db\<lparr>tb_ptgs := upd_row ptg_id (\<lambda>r. r\<lparr>ptg_nsp_id := nsp_id\<rparr>) (tb_ptgs db)\<rparr>))"

definition add_subnet_to_policy_target_group ::
  "ctx \<Rightarrow> string \<Rightarrow> string \<Rightarrow> gbp_db \<Rightarrow> gbp_error + gbp_db \<times> string list" where
  "add_subnet_to_policy_target_group c ptg_id subnet_id db =
     bindE (get_policy_target_group_row c ptg_id db) (\<lambda>_.
     bindE (add_ptg_subnets ptg_id [subnet_id] db) (\<lambda>db1.
       Inr (db1, targets (as_ptg_subnet db1) ptg_id)))"

definition remove_subnets_from_policy_target_groups :: "string list \<Rightarrow> gbp_db \<Rightarrow> gbp_db" where
  "remove_subnets_from_policy_target_groups subnet_ids db =
     db\<lparr>as_ptg_subnet := filter (\<lambda>p. snd p \<notin> set subnet_ids) (as_ptg_subnet db)\<rparr>"

definition remove_subnets_from_policy_target_group ::
  "ctx \<Rightarrow> string \<Rightarrow> gbp_db \<Rightarrow> gbp_error + gbp_db \<times> string list" where
  "remove_subnets_from_policy_target_group c ptg_id db =
     bindE (get_policy_target_group_row c ptg_id db) (\<lambda>_.
       Inr (db\<lparr>as_ptg_subnet := drop_sources ptg_id (as_ptg_subnet db)\<rparr>, []))"

definition get_ptgs_for_subnet :: "string \<Rightarrow> gbp_db \<Rightarrow> string list" where
  "get_ptgs_for_subnet subnet_id db = sources (as_ptg_subnet db) subnet_id"

section \<open>Policy targets\<close>

record fixed_ip =
  fip_subnet_id :: "string option"
  fip_address :: "string option"

text \<open>The keys of \<^verbatim>\<open>port_attributes\<close> that the code looks at.\<close>

record port_attrs =
  at_has_network_id :: bool
  at_fixed_ips :: "fixed_ip list option"
  at_has_allowed_address_pairs :: bool

definition no_port_attrs :: port_attrs where
  "no_port_attrs =
     \<lparr> at_has_network_id = False, at_fixed_ips = None, at_has_allowed_address_pairs = False \<rparr>"

record pt_body = gbp_body +
  ptb_ptg_id :: "string option"
  ptb_port_id :: "string option"
  ptb_cluster_id :: string
  ptb_port_attributes :: "port_attrs option"

record pt_upd = gbp_upd +
  ptu_ptg_id :: "string option option"
  ptu_port_id :: "string option option"
  ptu_cluster_id :: "string option"

record pt_dict = gbp_dict +
  ptd_ptg_id :: "string option"
  ptd_cluster_id :: string

record ptm_dict = pt_dict +
  ptd_port_id :: "string option"
  ptd_port_attributes :: "port_attrs option"

definition get_policy_target_row :: "ctx \<Rightarrow> string \<Rightarrow> gbp_db \<Rightarrow> gbp_error + policy_target" where
  "get_policy_target_row c i db = get_by_id (sees_pt c) PolicyTarget (tb_pts db) i"

definition make_policy_target_dict :: "policy_target \<Rightarrow> pt_dict" where
  "make_policy_target_dict pt =
     \<lparr> d_id = row_id pt, d_tenant_id = row_tenant pt, d_name = row_name pt,
       d_description = row_description pt, d_status = row_status pt,
       d_status_details = row_status_details pt, ptd_ptg_id = pt_ptg_id pt,
       ptd_cluster_id = pt_cluster_id pt \<rparr>"

definition map_make_policy_target_dict :: "policy_target \<Rightarrow> port_attrs option \<Rightarrow> ptm_dict" where
  "map_make_policy_target_dict pt attrs =
     pt_dict.extend (make_policy_target_dict pt) (ptm_dict.fields (pt_port_id pt) attrs)"

definition validate_pt_port_exta_attributes :: "ctx \<Rightarrow> pt_body \<Rightarrow> gbp_db \<Rightarrow> gbp_error + unit" where
  "validate_pt_port_exta_attributes c pt db =
     (case ptb_port_attributes pt of
        None \<Rightarrow> Inr ()
      | Some attributes \<Rightarrow>
          if at_has_network_id attributes
          then Inl (InvalidPortExtraAttributes ''network_id'' ''read only attribute'')
          else
            bindE (case at_fixed_ips attributes of
                     None \<Rightarrow> Inr ()
                   | Some fips \<Rightarrow>
                       bindE (case ptb_ptg_id pt of
                                None \<Rightarrow> Inl (NotFound PolicyTargetGroup [])
                              | Some g \<Rightarrow> get_policy_target_group c g db) (\<lambda>ptg.
                       checkE (\<lambda>fip.
                         case fip_subnet_id fip of
                           None \<Rightarrow> Inr ()
                         | Some s \<Rightarrow>
                             guardE (s \<in> set (ptgd_subnets ptg))
                               (InvalidPortExtraAttributes ''fixed_ips:subnet_id''
                                  ''subnet not in PTG'')) fips)) (\<lambda>_.
            if at_has_allowed_address_pairs attributes
            then Inl (InvalidPortExtraAttributes ''allowed_address_pairs'' ''read only attribute'')
            else Inr ()))"

definition create_policy_target ::
  "ctx \<Rightarrow> string \<Rightarrow> pt_body \<Rightarrow> gbp_db \<Rightarrow> gbp_error + gbp_db \<times> ptm_dict" where
  "create_policy_target c new_id pt db =
     bindE (get_tenant_id_for_create c pt) (\<lambda>tenant_id.
     bindE (validate_pt_port_exta_attributes c pt db) (\<lambda>_.
       let pt_db = \<lparr> row_id = new_id, row_tenant = tenant_id, row_name = bd_name pt,
             row_description = bd_description pt, row_status = None, row_status_details = None,
             pt_ptg_id = ptb_ptg_id pt, pt_cluster_id = ptb_cluster_id pt,
             pt_port_id = ptb_port_id pt \<rparr>
       in Inr (db\<lparr>tb_pts := tb_pts db @ [pt_db]\<rparr>,
               map_make_policy_target_dict pt_db
                 (Some (get_default (ptb_port_attributes pt) no_port_attrs)))))"

definition upd_pt :: "pt_upd \<Rightarrow> policy_target \<Rightarrow> policy_target" where
  "upd_pt u r =
     (upd_common u r)\<lparr>
        pt_ptg_id := upd_opt (ptu_ptg_id u) (pt_ptg_id r),
        pt_port_id := upd_opt (ptu_port_id u) (pt_port_id r),
        pt_cluster_id := upd_opt (ptu_cluster_id u) (pt_cluster_id r) \<rparr>"

definition update_policy_target ::
  "ctx \<Rightarrow> string \<Rightarrow> pt_upd \<Rightarrow> gbp_db \<Rightarrow> gbp_error + gbp_db \<times> ptm_dict" where
  "update_policy_target c i pt db =
     bindE (get_policy_target_row c i db) (\<lambda>pt_db.
       Inr (db\<lparr>tb_pts := upd_row i (upd_pt pt) (tb_pts db)\<rparr>,
            map_make_policy_target_dict (upd_pt pt pt_db) None))"

definition delete_policy_target :: "ctx \<Rightarrow> string \<Rightarrow> gbp_db \<Rightarrow> gbp_error + gbp_db" where
  "delete_policy_target c i db =
     bindE (get_policy_target_row c i db) (\<lambda>_. Inr (db\<lparr>tb_pts := del_row i (tb_pts db)\<rparr>))"

definition get_policy_target :: "ctx \<Rightarrow> string \<Rightarrow> gbp_db \<Rightarrow> gbp_error + ptm_dict" where
  "get_policy_target c i db =
     bindE (get_policy_target_row c i db) (\<lambda>r. Inr (map_make_policy_target_dict r None))"

definition get_policy_targets :: "ctx \<Rightarrow> (policy_target \<Rightarrow> bool) \<Rightarrow> gbp_db \<Rightarrow> ptm_dict list" where
  "get_policy_targets c flt db =
     map (\<lambda>r. map_make_policy_target_dict r None) (get_collection (sees_pt c) flt (tb_pts db))"

definition set_port_for_policy_target ::
  "ctx \<Rightarrow> string \<Rightarrow> string option \<Rightarrow> gbp_db \<Rightarrow> gbp_error + gbp_db" where
  "set_port_for_policy_target c pt_id port_id db =
     bindE (get_policy_target_row c pt_id db) (\<lambda>_.
       Inr (db\<lparr>tb_pts := upd_row pt_id (\<lambda>r. r\<lparr>pt_port_id := port_id\<rparr>) (tb_pts db)\<rparr>))"

section \<open>Application policy groups\<close>

record apg_dict = shared_dict +
  apgd_policy_target_groups :: "string list"

definition get_application_policy_group_row ::
  "ctx \<Rightarrow> string \<Rightarrow> gbp_db \<Rightarrow> gbp_error + application_policy_group" where
  "get_application_policy_group_row c i db =
     get_by_id (sees_row c) ApplicationPolicyGroup (tb_apgs db) i"

definition make_application_policy_group_dict ::
  "gbp_db \<Rightarrow> application_policy_group \<Rightarrow> apg_dict" where
  "make_application_policy_group_dict db apg =
     shared_dict.extend (populate_common_fields_in_dict apg)
       (apg_dict.fields (ids (filter (\<lambda>g. ptg_apg_id g = Some (row_id apg)) (tb_ptgs db))))"

definition create_application_policy_group ::
  "ctx \<Rightarrow> string \<Rightarrow> shared_body \<Rightarrow> gbp_db \<Rightarrow> gbp_error + gbp_db \<times> apg_dict" where
  "create_application_policy_group c new_id apg db =
     bindE (get_tenant_id_for_create c apg) (\<lambda>tenant_id.
       let apg_db = new_shared_row new_id tenant_id apg;
           db' = db\<lparr>tb_apgs := tb_apgs db @ [apg_db]\<rparr>
       in Inr (db', make_application_policy_group_dict db' apg_db))"

definition update_application_policy_group ::
  "ctx \<Rightarrow> string \<Rightarrow> shared_upd \<Rightarrow> gbp_db \<Rightarrow> gbp_error + gbp_db \<times> apg_dict" where
  "update_application_policy_group c i apg db =
     bindE (get_application_policy_group_row c i db) (\<lambda>apg_db.
       let db' = db\<lparr>tb_apgs := upd_row i (upd_shared apg) (tb_apgs db)\<rparr>
       in Inr (db', make_application_policy_group_dict db' (upd_shared apg apg_db)))"

definition orphan_apg_ptgs :: "string \<Rightarrow> policy_target_group list \<Rightarrow> policy_target_group list" where
  "orphan_apg_ptgs i t = map (\<lambda>r. if ptg_apg_id r = Some i then r\<lparr>ptg_apg_id := None\<rparr> else r) t"

definition delete_application_policy_group :: "ctx \<Rightarrow> string \<Rightarrow> gbp_db \<Rightarrow> gbp_error + gbp_db" where
  "delete_application_policy_group c i db =
     bindE (get_application_policy_group_row c i db) (\<lambda>_.
       Inr (db\<lparr>tb_apgs := del_row i (tb_apgs db), tb_ptgs := orphan_apg_ptgs i (tb_ptgs db)\<rparr>))"

definition get_application_policy_group :: "ctx \<Rightarrow> string \<Rightarrow> gbp_db \<Rightarrow> gbp_error + apg_dict" where
  "get_application_policy_group c i db =
     bindE (get_application_policy_group_row c i db) (\<lambda>r.
       Inr (make_application_policy_group_dict db r))"

section \<open>L2 policies\<close>

record l2p_body = shared_body +
  l2pb_l3_policy_id :: "string option"
  l2pb_network_id :: "string option"
  l2pb_inject_default_route :: "bool option"

record l2p_upd = shared_upd +
  l2pu_l3_policy_id :: "string option option"
  l2pu_inject_default_route :: "bool option"

record l2p_dict = shared_dict +
  l2pd_l3_policy_id :: "string option"
  l2pd_inject_default_route :: bool
  l2pd_policy_target_groups :: "string list"

record l2pm_dict = l2p_dict +
  l2pd_network_id :: "string option"

definition get_l2_policy_row :: "ctx \<Rightarrow> string \<Rightarrow> gbp_db \<Rightarrow> gbp_error + l2_policy" where
  "get_l2_policy_row c i db = get_by_id (sees_row c) L2Policy (tb_l2ps db) i"

text \<open>The relationship \<^verbatim>\<open>L2Policy.policy_target_groups\<close>.\<close>

definition ptgs_of_l2p :: "gbp_db \<Rightarrow> string \<Rightarrow> string list" where
  "ptgs_of_l2p db i = ids (filter (\<lambda>g. ptg_l2p_id g = Some i) (tb_ptgs db))"

definition make_l2_policy_dict :: "gbp_db \<Rightarrow> l2_policy \<Rightarrow> l2p_dict" where
  "make_l2_policy_dict db l2p =
     shared_dict.extend (populate_common_fields_in_dict l2p)
       (l2p_dict.fields (l2p_l3p_id l2p) (l2p_inject_default_route l2p)
          (ptgs_of_l2p db (row_id l2p)))"

definition map_make_l2_policy_dict :: "gbp_db \<Rightarrow> l2_policy \<Rightarrow> l2pm_dict" where
  "map_make_l2_policy_dict db l2p =
     l2p_dict.extend (make_l2_policy_dict db l2p) (l2pm_dict.fields (l2p_network_id l2p))"

definition create_l2_policy ::
  "ctx \<Rightarrow> string \<Rightarrow> l2p_body \<Rightarrow> gbp_db \<Rightarrow> gbp_error + gbp_db \<times> l2pm_dict" where
  "create_l2_policy c new_id l2p db =
     bindE (get_tenant_id_for_create c l2p) (\<lambda>tenant_id.
       let l2p_db = shared_row.extend (new_mapping_row new_id tenant_id l2p)
             (l2_policy.fields (l2pb_l3_policy_id l2p)
                (get_default (l2pb_inject_default_route l2p) True) (l2pb_network_id l2p));
           db' = db\<lparr>tb_l2ps := tb_l2ps db @ [l2p_db]\<rparr>
       in Inr (db', map_make_l2_policy_dict db' l2p_db))"

definition upd_l2p :: "l2p_upd \<Rightarrow> l2_policy \<Rightarrow> l2_policy" where
  "upd_l2p u r =
     (upd_shared u r)\<lparr>
        l2p_l3p_id := upd_opt (l2pu_l3_policy_id u) (l2p_l3p_id r),
        l2p_inject_default_route := upd_opt (l2pu_inject_default_route u) (l2p_inject_default_route r) \<rparr>"

definition update_l2_policy ::
  "ctx \<Rightarrow> string \<Rightarrow> l2p_upd \<Rightarrow> gbp_db \<Rightarrow> gbp_error + gbp_db \<times> l2pm_dict" where
  "update_l2_policy c i l2p db =
     bindE (get_l2_policy_row c i db) (\<lambda>l2p_db.
       let db' = db\<lparr>tb_l2ps := upd_row i (upd_l2p l2p) (tb_l2ps db)\<rparr>
       in Inr (db', map_make_l2_policy_dict db' (upd_l2p l2p l2p_db)))"

text \<open>
  The deletion as far as the policy database goes: a row of \<^verbatim>\<open>apic_reuse_bd_db.py\<close> that reuses the
  L2 policy would make the engine refuse it.
\<close>

definition delete_l2_policy :: "ctx \<Rightarrow> string \<Rightarrow> gbp_db \<Rightarrow> gbp_error + gbp_db" where
  "delete_l2_policy c i db =
     bindE (get_l2_policy_row c i db) (\<lambda>_.
       if ptgs_of_l2p db i \<noteq> [] then Inl (InUse L2Policy i)
       else Inr (db\<lparr>tb_l2ps := del_row i (tb_l2ps db)\<rparr>))"

definition get_l2_policy :: "ctx \<Rightarrow> string \<Rightarrow> gbp_db \<Rightarrow> gbp_error + l2pm_dict" where
  "get_l2_policy c i db =
     bindE (get_l2_policy_row c i db) (\<lambda>r. Inr (map_make_l2_policy_dict db r))"

definition set_l3_policy_for_l2_policy ::
  "ctx \<Rightarrow> string \<Rightarrow> string option \<Rightarrow> gbp_db \<Rightarrow> gbp_error + gbp_db" where
  "set_l3_policy_for_l2_policy c l2p_id l3p_id db =
     bindE (get_l2_policy_row c l2p_id db) (\<lambda>_.
       Inr (db\<lparr>tb_l2ps := upd_row l2p_id (\<lambda>r. r\<lparr>l2p_l3p_id := l3p_id\<rparr>) (tb_l2ps db)\<rparr>))"

definition set_network_for_l2_policy ::
  "ctx \<Rightarrow> string \<Rightarrow> string option \<Rightarrow> gbp_db \<Rightarrow> gbp_error + gbp_db" where
  "set_network_for_l2_policy c l2p_id network_id db =
     bindE (get_l2_policy_row c l2p_id db) (\<lambda>_.
       Inr (db\<lparr>tb_l2ps := upd_row l2p_id (\<lambda>r. r\<lparr>l2p_network_id := network_id\<rparr>) (tb_l2ps db)\<rparr>))"

section \<open>Network service policies\<close>

record nsp_param =
  prm_type :: string
  prm_name :: string
  prm_value :: string

record nsp_body = shared_body +
  nspb_params :: "nsp_param list"

record nsp_dict = shared_dict +
  nspd_policy_target_groups :: "string list"
  nspd_params :: "nsp_param list"

definition get_network_service_policy_row ::
  "ctx \<Rightarrow> string \<Rightarrow> gbp_db \<Rightarrow> gbp_error + network_service_policy" where
  "get_network_service_policy_row c i db =
     get_by_id (sees_row c) NetworkServicePolicy (tb_nsps db) i"

definition ptgs_of_nsp :: "gbp_db \<Rightarrow> string \<Rightarrow> string list" where
  "ptgs_of_nsp db i = ids (filter (\<lambda>g. ptg_nsp_id g = Some i) (tb_ptgs db))"

definition make_network_service_policy_dict :: "gbp_db \<Rightarrow> network_service_policy \<Rightarrow> nsp_dict" where
  "make_network_service_policy_dict db nsp =
     shared_dict.extend (populate_common_fields_in_dict nsp)
       (nsp_dict.fields (ptgs_of_nsp db (row_id nsp))
          (map (\<lambda>p. \<lparr> prm_type = nsparam_type p, prm_name = nsparam_name p,
                      prm_value = nsparam_value p \<rparr>)
             (filter (\<lambda>p. nsparam_nsp_id p = row_id nsp) (tb_nsparams db))))"

text \<open>Parameters have an id of their own, so the same parameter may be stored twice.\<close>

definition set_params_for_network_service_policy ::
  "string \<Rightarrow> nsp_param list \<Rightarrow> gbp_db \<Rightarrow> gbp_db" where
  "set_params_for_network_service_policy i params db =
     db\<lparr>tb_nsparams :=
          filter (\<lambda>p. nsparam_nsp_id p \<noteq> i) (tb_nsparams db) @
          map (\<lambda>p. \<lparr> nsparam_type = prm_type p, nsparam_name = prm_name p,
                      nsparam_value = prm_value p, nsparam_nsp_id = i \<rparr>) params\<rparr>"

definition create_network_service_policy ::
  "ctx \<Rightarrow> string \<Rightarrow> nsp_body \<Rightarrow> gbp_db \<Rightarrow> gbp_error + gbp_db \<times> nsp_dict" where
  "create_network_service_policy c new_id nsp db =
     bindE (get_tenant_id_for_create c nsp) (\<lambda>tenant_id.
       let nsp_db = new_shared_row new_id tenant_id nsp;
           db1 = db\<lparr>tb_nsps := tb_nsps db @ [nsp_db]\<rparr>;
           db2 = set_params_for_network_service_policy new_id (nspb_params nsp) db1
       in Inr (db2, make_network_service_policy_dict db2 nsp_db))"

text \<open>
  \<^verbatim>\<open>update_network_service_policy\<close> looks for \<^verbatim>\<open>network_service_params\<close> in the outer
  dictionary, whose only key is \<^verbatim>\<open>network_service_policy\<close>, so the parameters are never set
  again; the attribute map does not let a request carry them either.
\<close>

definition nsp_request_keys :: "string list" where
  "nsp_request_keys = [''network_service_policy'']"

definition update_network_service_policy ::
  "ctx \<Rightarrow> string \<Rightarrow> shared_upd \<Rightarrow> nsp_param list \<Rightarrow> gbp_db \<Rightarrow> gbp_error + gbp_db \<times> nsp_dict" where
  "update_network_service_policy c i nsp params db =
     bindE (get_network_service_policy_row c i db) (\<lambda>nsp_db.
       let db1 = (if ''network_service_params'' \<in> set nsp_request_keys
                  then set_params_for_network_service_policy i params db else db);
           db2 = db1\<lparr>tb_nsps := upd_row i (upd_shared nsp) (tb_nsps db1)\<rparr>
       in Inr (db2, make_network_service_policy_dict db2 (upd_shared nsp nsp_db)))"

definition delete_network_service_policy :: "ctx \<Rightarrow> string \<Rightarrow> gbp_db \<Rightarrow> gbp_error + gbp_db" where
  "delete_network_service_policy c i db =
     bindE (get_network_service_policy_row c i db) (\<lambda>_.
       if ptgs_of_nsp db i \<noteq> [] then Inl (InUse NetworkServicePolicy i)
       else Inr (db\<lparr>tb_nsps := del_row i (tb_nsps db),
                    tb_nsparams := filter (\<lambda>p. nsparam_nsp_id p \<noteq> i) (tb_nsparams db)\<rparr>))"

definition get_network_service_policy :: "ctx \<Rightarrow> string \<Rightarrow> gbp_db \<Rightarrow> gbp_error + nsp_dict" where
  "get_network_service_policy c i db =
     bindE (get_network_service_policy_row c i db) (\<lambda>r.
       Inr (make_network_service_policy_dict db r))"

end
