(* ===== verification/External_Db.thy ===== *)
theory External_Db
  imports Group_Db
begin

text \<open>
  L3 policies, external segments, external policies and NAT pools: the database operations the
  plugin runs for them (\<^verbatim>\<open>group_policy_mapping_db.py\<close> over \<^verbatim>\<open>group_policy_db.py\<close>), with the
  validation of address pools.  Two things outside the repository are arguments: the reading of
  a network by \<^verbatim>\<open>netaddr.IPNetwork\<close> (\<open>None\<close> where it raises \<^verbatim>\<open>AddrFormatError\<close>), and the
  prefixes of the neutron subnet pools with given ids.
\<close>

section \<open>Address pools\<close>

record ipnet =
  net_version :: int
  net_size :: int
  net_prefixlen :: int

type_synonym net_parser = "string \<Rightarrow> ipnet option"

definition check_pool :: "net_parser \<Rightarrow> int \<Rightarrow> string \<Rightarrow> gbp_error + unit" where
  "check_pool ip_network ip_version pool =
     (case ip_network pool of
        None \<Rightarrow> Inl (AddrFormatError pool)
      | Some ip_net \<Rightarrow>
          if net_version ip_net \<notin> set (if ip_version = 46 then [4, 6] else [ip_version])
          then Inl (InvalidIpPoolVersion pool ip_version)
          else if net_size ip_net \<le> 3 then Inl (InvalidIpPoolSize pool (net_size ip_net))
          else if net_prefixlen ip_net = 0
          then Inl (InvalidIpPoolPrefixLength pool (net_prefixlen ip_net))
          else Inr ())"

text \<open>
  The result of \<^verbatim>\<open>validators.validate_subnet\<close>, a message or nothing, is dropped by the code,
  so it has no part in the definition.
\<close>

definition validate_ip_pool :: "net_parser \<Rightarrow> string option \<Rightarrow> int \<Rightarrow> gbp_error + unit" where
  "validate_ip_pool ip_network ip_pool ip_version =
     (if ip_pool = None \<or> ip_pool = Some [] then Inr ()
      else checkE (check_pool ip_network ip_version) (convert_ip_pool_string_to_list ip_pool))"

definition MAX_IPV4_SUBNET_PREFIX_LENGTH :: int where
  "MAX_IPV4_SUBNET_PREFIX_LENGTH = 31"

definition validate_subnet_prefix_length ::
  "net_parser \<Rightarrow> int \<Rightarrow> int \<Rightarrow> string option \<Rightarrow> gbp_error + unit" where
  "validate_subnet_prefix_length ip_network ip_version new_prefix_length ip_pool =
     (if (ip_version = 4 \<or> ip_version = 46)
         \<and> (new_prefix_length > MAX_IPV4_SUBNET_PREFIX_LENGTH \<or> new_prefix_length < 2)
      then Inl (InvalidDefaultSubnetPrefixLength new_prefix_length ip_version)
      else
        checkE (\<lambda>pool.
          case ip_network pool of
            None \<Rightarrow> Inl (AddrFormatError pool)
          | Some n \<Rightarrow>
              if net_version n = 4 \<and> net_prefixlen n > new_prefix_length
              then Inl (SubnetPrefixLengthExceedsIpPool pool new_prefix_length)
              else Inr ()) (convert_ip_pool_string_to_list ip_pool))"

section \<open>L3 policies\<close>

text \<open>
  \<open>external_segments\<close> maps segment ids to requested addresses; its value \<open>None\<close> stands for
  \<^verbatim>\<open>ATTR_NOT_SPECIFIED\<close>, and a \<^verbatim>\<open>None\<close> of the request is the empty list.
\<close>

type_synonym es_request = "(string \<times> string list) list option"

record l3p_body = shared_body +
  l3pb_ip_version :: int
  l3pb_ip_pool :: "string option"
  l3pb_subnet_prefix_length :: int
  l3pb_address_scope_v4_id :: "string option"
  l3pb_address_scope_v6_id :: "string option"
  l3pb_subnetpools_v4 :: "string list"
  l3pb_subnetpools_v6 :: "string list"
  l3pb_routers :: "string list option"
  l3pb_external_segments :: "es_request option"

record l3p_upd = shared_upd +
  l3pu_subnet_prefix_length :: "int option"
  l3pu_address_scope_v4_id :: "string option option"
  l3pu_address_scope_v6_id :: "string option option"
  l3pu_subnetpools_v4 :: "string list"
  l3pu_subnetpools_v6 :: "string list"
  l3pu_routers :: "string list option"
  l3pu_external_segments :: "es_request option"

record l3p_dict = shared_dict +
  l3pd_ip_version :: int
  l3pd_ip_pool :: "string option"
  l3pd_subnet_prefix_length :: int
  l3pd_l2_policies :: "string list"
  l3pd_external_segments :: "(string \<times> string list) list"

record l3pm_dict = l3p_dict +
  l3pd_routers :: "string list"
  l3pd_address_scope_v4_id :: "string option"
  l3pd_address_scope_v6_id :: "string option"
  l3pd_subnetpools_v4 :: "string list"
  l3pd_subnetpools_v6 :: "string list"

definition get_l3_policy_row :: "ctx \<Rightarrow> string \<Rightarrow> gbp_db \<Rightarrow> gbp_error + l3_policy" where
  "get_l3_policy_row c i db = get_by_id (sees_row c) L3Policy (tb_l3ps db) i"

text \<open>The body of the loop over the segments found in the database.\<close>

definition allocate_es ::
  "string \<Rightarrow> (string \<times> string list) list \<Rightarrow> external_segment \<Rightarrow> es_to_l3p list
    \<Rightarrow> gbp_error + es_to_l3p list" where
  "allocate_es l3p_id es_dict es a =
     (let requested = (case map_of es_dict (row_id es) of None \<Rightarrow> [] | Some xs \<Rightarrow> xs);
          ips = filter (\<lambda>x. x \<noteq> []) requested
      in if ips = [] then
           append_pk a [\<lparr> esl_l3p_id = l3p_id, esl_es_id = row_id es,
                          esl_address = ADDRESS_NOT_SPECIFIED \<rparr>]
         else if filter (\<lambda>x. esl_es_id x = row_id es \<and> esl_address x \<in> set ips) a \<noteq> []
         then Inl (IpAddressOverlappingInExternalSegment (row_id es))
         else append_pk a (map (\<lambda>ip. \<lparr> esl_l3p_id = l3p_id, esl_es_id = row_id es,
                                        esl_address = ip \<rparr>) requested))"

definition drop_l3p_ess :: "string \<Rightarrow> es_to_l3p list \<Rightarrow> es_to_l3p list" where
  "drop_l3p_ess i a = filter (\<lambda>x. esl_l3p_id x \<noteq> i) a"

definition set_ess_for_l3p :: "ctx \<Rightarrow> string \<Rightarrow> es_request \<Rightarrow> gbp_db \<Rightarrow> gbp_error + gbp_db" where
  "set_ess_for_l3p c i es_req db =
     (case es_req of
        None \<Rightarrow> Inr db
      | Some es_dict \<Rightarrow>
          if es_dict = [] then Inr (db\<lparr>as_es_l3p := drop_l3p_ess i (as_es_l3p db)\<rparr>)
          else
            bindE (require_ids (sees_row c) ExternalSegment (map fst es_dict) (tb_ess db)) (\<lambda>_.
            bindE (foldE (allocate_es i es_dict)
                     (query_ids (sees_row c) (map fst es_dict) (tb_ess db))
                     (drop_l3p_ess i (as_es_l3p db))) (\<lambda>a.
              Inr (db\<lparr>as_es_l3p := a\<rparr>))))"

definition es_dict_of :: "string \<Rightarrow> es_to_l3p list \<Rightarrow> (string \<times> string list) list" where
  "es_dict_of i a =
     (let mine = filter (\<lambda>x. esl_l3p_id x = i) a
      in map (\<lambda>e. (e, map esl_address (filter (\<lambda>x. esl_es_id x = e) mine)))
           (remdups (map esl_es_id mine)))"

text \<open>The relationship \<^verbatim>\<open>L3Policy.l2_policies\<close>.\<close>

definition l2ps_of_l3p :: "gbp_db \<Rightarrow> string \<Rightarrow> string list" where
  "l2ps_of_l3p db i = ids (filter (\<lambda>r. l2p_l3p_id r = Some i) (tb_l2ps db))"

definition make_l3_policy_dict :: "gbp_db \<Rightarrow> l3_policy \<Rightarrow> l3p_dict" where
  "make_l3_policy_dict db l3p =
     shared_dict.extend (populate_common_fields_in_dict l3p)
       (l3p_dict.fields (l3p_ip_version l3p) (l3p_ip_pool l3p) (l3p_subnet_prefix_length l3p)
          (l2ps_of_l3p db (row_id l3p)) (es_dict_of (row_id l3p) (as_es_l3p db)))"

text \<open>
  The pool shown is the one of the row, replaced by a non-empty pool given by the caller, and
  then by the prefixes of the associated subnet pools if they have any.
\<close>

definition map_make_l3_policy_dict ::
  "(string list \<Rightarrow> string list) \<Rightarrow> gbp_db \<Rightarrow> l3_policy \<Rightarrow> string option \<Rightarrow> l3pm_dict" where
  "map_make_l3_policy_dict prefixes_of db l3p ip_pool =
     (let v4 = targets (as_l3p_sp4 db) (row_id l3p);
          v6 = targets (as_l3p_sp6 db) (row_id l3p);
          base = make_l3_policy_dict db l3p;
          base = (case ip_pool of
                    None \<Rightarrow> base
                  | Some p \<Rightarrow> if p = [] then base else base\<lparr>l3pd_ip_pool := Some p\<rparr>);
          pool_list = prefixes_of (v4 @ v6);
          base = (if pool_list = [] then base
                  else base\<lparr>l3pd_ip_pool := Some (convert_ip_pool_list_to_string pool_list)\<rparr>)
      in l3p_dict.extend base
           (l3pm_dict.fields (targets (as_l3p_router db) (row_id l3p))
              (l3p_address_scope_v4_id l3p) (l3p_address_scope_v6_id l3p) v4 v6))"

text \<open>A falsy address scope leaves the column unset.\<close>

definition scope_or_none :: "string option \<Rightarrow> string option" where
  "scope_or_none s = (if s = Some [] then None else s)"

definition create_l3_policy ::
  "net_parser \<Rightarrow> (string list \<Rightarrow> string list) \<Rightarrow> ctx \<Rightarrow> string \<Rightarrow> l3p_body \<Rightarrow> gbp_db
    \<Rightarrow> gbp_error + gbp_db \<times> l3pm_dict" where
  "create_l3_policy ip_network prefixes_of c new_id l3p db =
     bindE (validate_ip_pool ip_network (l3pb_ip_pool l3p) (l3pb_ip_version l3p)) (\<lambda>_.
     bindE (get_tenant_id_for_create c l3p) (\<lambda>tenant_id.
     bindE (validate_subnet_prefix_length ip_network (l3pb_ip_version l3p)
              (l3pb_subnet_prefix_length l3p) (l3pb_ip_pool l3p)) (\<lambda>_.
       let l3p_db = shared_row.extend (new_mapping_row new_id tenant_id l3p)
             (l3_policy.fields (l3pb_ip_version l3p) (l3pb_ip_pool l3p)
                (l3pb_subnet_prefix_length l3p)
                (scope_or_none (l3pb_address_scope_v4_id l3p))
                (scope_or_none (l3pb_address_scope_v6_id l3p)))
       in bindE (append_pk (as_l3p_sp4 db) (map (Pair new_id) (l3pb_subnetpools_v4 l3p))) (\<lambda>sp4.
          bindE (append_pk (as_l3p_sp6 db) (map (Pair new_id) (l3pb_subnetpools_v6 l3p))) (\<lambda>sp6.
          bindE (append_pk (as_l3p_router db)
                   (map (Pair new_id) (get_default (l3pb_routers l3p) []))) (\<lambda>rts.
          let db1 = db\<lparr>as_l3p_sp4 := sp4, as_l3p_sp6 := sp6, as_l3p_router := rts\<rparr>
          in bindE (if_present (l3pb_external_segments l3p) (set_ess_for_l3p c new_id) db1) (\<lambda>db2.
          let db3 = db2\<lparr>tb_l3ps := tb_l3ps db2 @ [l3p_db]\<rparr>
          in Inr (db3, map_make_l3_policy_dict prefixes_of db3 l3p_db (l3pb_ip_pool l3p)))))))))"

text \<open>The base class version, which the mapping plugin overrides: the row is added to the
  session only inside the test for \<^verbatim>\<open>external_segments\<close>.\<close>

definition base_create_l3_policy ::
  "net_parser \<Rightarrow> ctx \<Rightarrow> string \<Rightarrow> l3p_body \<Rightarrow> gbp_db \<Rightarrow> gbp_error + gbp_db \<times> l3p_dict" where
  "base_create_l3_policy ip_network c new_id l3p db =
     bindE (get_tenant_id_for_create c l3p) (\<lambda>tenant_id.
     bindE (validate_ip_pool ip_network (l3pb_ip_pool l3p) (l3pb_ip_version l3p)) (\<lambda>_.
     bindE (validate_subnet_prefix_length ip_network (l3pb_ip_version l3p)
              (l3pb_subnet_prefix_length l3p) (l3pb_ip_pool l3p)) (\<lambda>_.
       let l3p_db = shared_row.extend (new_shared_row new_id tenant_id l3p)
             (l3_policy.fields (l3pb_ip_version l3p) (l3pb_ip_pool l3p)
                (l3pb_subnet_prefix_length l3p) None None)
       in case l3pb_external_segments l3p of
            None \<Rightarrow> Inr (db, make_l3_policy_dict db l3p_db)
          | Some es \<Rightarrow>
              bindE (set_ess_for_l3p c new_id es db) (\<lambda>db1.
              let db2 = db1\<lparr>tb_l3ps := tb_l3ps db1 @ [l3p_db]\<rparr>
              in Inr (db2, make_l3_policy_dict db2 l3p_db)))))"

definition upd_l3p :: "l3p_upd \<Rightarrow> l3_policy \<Rightarrow> l3_policy" where
  "upd_l3p u r =
     (upd_shared u r)\<lparr>
        l3p_subnet_prefix_length := upd_opt (l3pu_subnet_prefix_length u) (l3p_subnet_prefix_length r) \<rparr>"

text \<open>\<^verbatim>\<open>_update_subnetpools_for_l3_policy\<close>: an empty request changes nothing.\<close>

definition update_subnetpools :: "string \<Rightarrow> string list \<Rightarrow> assoc list \<Rightarrow> assoc list" where
  "update_subnetpools i subnetpools a = (if subnetpools = [] then a else sync_targets i subnetpools a)"

definition update_l3_policy ::
  "net_parser \<Rightarrow> (string list \<Rightarrow> string list) \<Rightarrow> ctx \<Rightarrow> string \<Rightarrow> l3p_upd \<Rightarrow> gbp_db
    \<Rightarrow> gbp_error + gbp_db \<times> l3pm_dict" where
  "update_l3_policy ip_network prefixes_of c i l3p db =
     (if l3pu_address_scope_v4_id l3p \<noteq> None \<or> l3pu_address_scope_v6_id l3p \<noteq> None
      then Inl AddressScopeUpdateForL3PNotSupported
      else
     bindE (get_l3_policy_row c i db) (\<lambda>l3p_db.
       let db1 = db\<lparr>as_l3p_sp4 := update_subnetpools i (l3pu_subnetpools_v4 l3p) (as_l3p_sp4 db),
                     as_l3p_sp6 := update_subnetpools i (l3pu_subnetpools_v6 l3p) (as_l3p_sp6 db)\<rparr>
       in bindE (case l3pu_subnet_prefix_length l3p of
                   None \<Rightarrow> Inr ()
                 | Some len \<Rightarrow> validate_subnet_prefix_length ip_network (l3p_ip_version l3p_db) len
                     (l3p_ip_pool l3p_db)) (\<lambda>_.
          let db2 = (case l3pu_routers l3p of
                       None \<Rightarrow> db1
                     | Some rs \<Rightarrow> db1\<lparr>as_l3p_router := sync_targets i rs (as_l3p_router db1)\<rparr>)
          in bindE (if_present (l3pu_external_segments l3p) (set_ess_for_l3p c i) db2) (\<lambda>db3.
          let db4 = db3\<lparr>tb_l3ps := upd_row i (upd_l3p l3p) (tb_l3ps db3)\<rparr>
          in Inr (db4, map_make_l3_policy_dict prefixes_of db4 (upd_l3p l3p l3p_db) None)))))"

text \<open>Deleting an L3 policy cascades to its external segment, router and subnet pool
  associations.\<close>

definition delete_l3_policy :: "ctx \<Rightarrow> string \<Rightarrow> gbp_db \<Rightarrow> gbp_error + gbp_db" where
  "delete_l3_policy c i db =
     bindE (get_l3_policy_row c i db) (\<lambda>_.
       if l2ps_of_l3p db i \<noteq> [] then Inl (InUse L3Policy i)
       else Inr (db\<lparr>tb_l3ps := del_row i (tb_l3ps db),
                    as_es_l3p := drop_l3p_ess i (as_es_l3p db),
                    as_l3p_router := drop_sources i (as_l3p_router db),
                    as_l3p_sp4 := drop_sources i (as_l3p_sp4 db),
                    as_l3p_sp6 := drop_sources i (as_l3p_sp6 db)\<rparr>))"

definition get_l3_policy ::
  "(string list \<Rightarrow> string list) \<Rightarrow> ctx \<Rightarrow> string \<Rightarrow> gbp_db \<Rightarrow> gbp_error + l3pm_dict" where
  "get_l3_policy prefixes_of c i db =
     bindE (get_l3_policy_row c i db) (\<lambda>r. Inr (map_make_l3_policy_dict prefixes_of db r None))"

definition add_router_to_l3_policy ::
  "ctx \<Rightarrow> string \<Rightarrow> string \<Rightarrow> gbp_db \<Rightarrow> gbp_error + gbp_db \<times> string list" where
  "add_router_to_l3_policy c l3p_id router_id db =
     bindE (get_l3_policy_row c l3p_id db) (\<lambda>_.
     bindE (append_pk (as_l3p_router db) [(l3p_id, router_id)]) (\<lambda>a.
       Inr (db\<lparr>as_l3p_router := a\<rparr>, targets a l3p_id)))"

text \<open>\<^verbatim>\<open>query.one()\<close> raises \<^verbatim>\<open>NoResultFound\<close> where the association does not exist.\<close>

definition remove_router_from_l3_policy ::
  "ctx \<Rightarrow> string \<Rightarrow> string \<Rightarrow> gbp_db \<Rightarrow> gbp_error + gbp_db \<times> string list" where
  "remove_router_from_l3_policy c l3p_id router_id db =
     bindE (get_l3_policy_row c l3p_id db) (\<lambda>_.
       if (l3p_id, router_id) \<notin> set (as_l3p_router db)
       then Inl (PyKeyError ''NoResultFound'')
       else let a = filter (\<lambda>p. p \<noteq> (l3p_id, router_id)) (as_l3p_router db)
            in Inr (db\<lparr>as_l3p_router := a\<rparr>, targets a l3p_id))"

definition get_l3p_id_from_router_id :: "string \<Rightarrow> gbp_db \<Rightarrow> string option" where
  "get_l3p_id_from_router_id router_id db =
     (case sources (as_l3p_router db) router_id of [] \<Rightarrow> None | x # _ \<Rightarrow> Some x)"

definition get_l3p_ptgs :: "string \<Rightarrow> gbp_db \<Rightarrow> ptgm_dict list" where
  "get_l3p_ptgs l3p_id db =
     map (map_make_policy_target_group_dict db)
       (filter (\<lambda>g. \<exists>l2p \<in> set (tb_l2ps db). ptg_l2p_id g = Some (row_id l2p)
                    \<and> l2p_l3p_id l2p = Some l3p_id \<and> l3p_id \<in> set (ids (tb_l3ps db)))
          (tb_ptgs db))"

text \<open>Setters of the mapping columns, called by the drivers through the operation contexts.\<close>

definition set_address_scope_for_l3_policy :: "string option \<Rightarrow> int \<Rightarrow> l3_policy \<Rightarrow> l3_policy" where
  "set_address_scope_for_l3_policy address_scope_id ip_version r =
     (if scope_or_none address_scope_id = None then r
      else if ip_version = 4 then r\<lparr>l3p_address_scope_v4_id := address_scope_id\<rparr>
      else r\<lparr>l3p_address_scope_v6_id := address_scope_id\<rparr>)"

definition set_address_scope_for_l3_policy_by_id ::
  "ctx \<Rightarrow> string \<Rightarrow> string option \<Rightarrow> int \<Rightarrow> gbp_db \<Rightarrow> gbp_error + gbp_db" where
  "set_address_scope_for_l3_policy_by_id c l3p_id address_scope_id ip_version db =
     bindE (get_l3_policy_row c l3p_id db) (\<lambda>_.
       Inr (db\<lparr>tb_l3ps := upd_row l3p_id
         (set_address_scope_for_l3_policy address_scope_id ip_version) (tb_l3ps db)\<rparr>))"

definition add_subnetpools_to_l3_policy ::
  "string \<Rightarrow> string list \<Rightarrow> int \<Rightarrow> gbp_db \<Rightarrow> gbp_error + gbp_db" where
  "add_subnetpools_to_l3_policy l3p_id subnetpools ip_version db =
     (if ip_version = 4
      then bindE (append_pk (as_l3p_sp4 db) (map (Pair l3p_id) subnetpools)) (\<lambda>a.
             Inr (db\<lparr>as_l3p_sp4 := a\<rparr>))
      else bindE (append_pk (as_l3p_sp6 db) (map (Pair l3p_id) subnetpools)) (\<lambda>a.
             Inr (db\<lparr>as_l3p_sp6 := a\<rparr>)))"

definition add_subnetpools_to_l3_policy_by_id ::
  "ctx \<Rightarrow> string \<Rightarrow> string list \<Rightarrow> int \<Rightarrow> gbp_db \<Rightarrow> gbp_error + gbp_db" where
  "add_subnetpools_to_l3_policy_by_id c l3p_id subnetpools ip_version db =
     bindE (get_l3_policy_row c l3p_id db) (\<lambda>_.
       add_subnetpools_to_l3_policy l3p_id subnetpools ip_version db)"

definition remove_subnetpool_from_l3_policy ::
  "ctx \<Rightarrow> string \<Rightarrow> string \<Rightarrow> int \<Rightarrow> gbp_db \<Rightarrow> gbp_error + gbp_db" where
  "remove_subnetpool_from_l3_policy c l3p_id subnetpool_id ip_version db =
     bindE (get_l3_policy_row c l3p_id db) (\<lambda>_.
       if (l3p_id, subnetpool_id) \<notin> set (if ip_version = 4 then as_l3p_sp4 db else as_l3p_sp6 db)
       then Inl (PyKeyError ''NoResultFound'')
       else if ip_version = 4
       then Inr (db\<lparr>as_l3p_sp4 := filter (\<lambda>p. p \<noteq> (l3p_id, subnetpool_id)) (as_l3p_sp4 db)\<rparr>)
       else Inr (db\<lparr>as_l3p_sp6 := filter (\<lambda>p. p \<noteq> (l3p_id, subnetpool_id)) (as_l3p_sp6 db)\<rparr>))"

definition update_ess_for_l3p :: "ctx \<Rightarrow> string \<Rightarrow> es_request \<Rightarrow> gbp_db \<Rightarrow> gbp_error + gbp_db" where
  "update_ess_for_l3p c l3p_id ess db =
     bindE (get_l3_policy_row c l3p_id db) (\<lambda>_. set_ess_for_l3p c l3p_id ess db)"

section \<open>External segments\<close>

record route =
  rt_destination :: string
  rt_nexthop :: "string option"

text \<open>\<open>external_routes\<close>: missing, \<^verbatim>\<open>ATTR_NOT_SPECIFIED\<close> (\<open>Some None\<close>), or a list of routes.\<close>

record es_body = shared_body +
  esb_ip_version :: int
  esb_cidr :: string
  esb_pat :: bool
  esb_subnet_id :: "string option"
  esb_external_routes :: "route list option option"

record es_upd = shared_upd +
  esu_pat :: "bool option"
  esu_subnet_id :: "string option option"
  esu_external_routes :: "route list option option"

record es_dict = shared_dict +
  esd_ip_version :: int
  esd_cidr :: string
  esd_pat :: bool
  esd_external_routes :: "(string \<times> string) list"
  esd_nat_pools :: "string list"
  esd_external_policies :: "string list"
  esd_l3_policies :: "string list"

record esm_dict = es_dict +
  esd_subnet_id :: "string option"

definition get_external_segment_row :: "ctx \<Rightarrow> string \<Rightarrow> gbp_db \<Rightarrow> gbp_error + external_segment" where
  "get_external_segment_row c i db = get_by_id (sees_row c) ExternalSegment (tb_ess db) i"

definition get_external_segment_external_policies :: "gbp_db \<Rightarrow> string \<Rightarrow> string list" where
  "get_external_segment_external_policies db i = sources (as_ep_es db) i"

definition process_segment_ers ::
  "string \<Rightarrow> route list option \<Rightarrow> gbp_db \<Rightarrow> gbp_error + gbp_db" where
  "process_segment_ers i routes db =
     (case routes of
        None \<Rightarrow> Inr db
      | Some rts \<Rightarrow>
          bindE (append_pk (filter (\<lambda>r. er_es_id r \<noteq> i) (tb_routes db))
                   (map (\<lambda>rt. \<lparr> er_es_id = i, er_destination = rt_destination rt,
                                er_nexthop = (case rt_nexthop rt of
                                    None \<Rightarrow> ADDRESS_NOT_SPECIFIED | Some n \<Rightarrow> n) \<rparr>) rts)) (\<lambda>t.
            Inr (db\<lparr>tb_routes := t\<rparr>)))"

definition routes_of_es :: "gbp_db \<Rightarrow> string \<Rightarrow> (string \<times> string) list" where
  "routes_of_es db i =
     map (\<lambda>r. (er_destination r, er_nexthop r)) (filter (\<lambda>r. er_es_id r = i) (tb_routes db))"

definition make_external_segment_dict :: "gbp_db \<Rightarrow> external_segment \<Rightarrow> es_dict" where
  "make_external_segment_dict db es =
     shared_dict.extend (populate_common_fields_in_dict es)
       (es_dict.fields (es_ip_version es) (es_cidr es) (es_pat es)
          (routes_of_es db (row_id es))
          (ids (filter (\<lambda>np. np_es_id np = Some (row_id es)) (tb_nps db)))
          (sources (as_ep_es db) (row_id es))
          (map esl_l3p_id (filter (\<lambda>x. esl_es_id x = row_id es) (as_es_l3p db))))"

definition map_make_external_segment_dict :: "gbp_db \<Rightarrow> external_segment \<Rightarrow> esm_dict" where
  "map_make_external_segment_dict db es =
     es_dict.extend (make_external_segment_dict db es) (esm_dict.fields (es_subnet_id es))"

definition create_external_segment ::
  "ctx \<Rightarrow> string \<Rightarrow> es_body \<Rightarrow> gbp_db \<Rightarrow> gbp_error + gbp_db \<times> esm_dict" where
  "create_external_segment c new_id es db =
     bindE (get_tenant_id_for_create c es) (\<lambda>tenant_id.
       let es_db = shared_row.extend (new_mapping_row new_id tenant_id es)
             (external_segment.fields (esb_ip_version es) (esb_cidr es) (esb_pat es)
                (esb_subnet_id es));
           db1 = db\<lparr>tb_ess := tb_ess db @ [es_db]\<rparr>
       in bindE (if_present (esb_external_routes es) (process_segment_ers new_id) db1) (\<lambda>db2.
            Inr (db2, map_make_external_segment_dict db2 es_db)))"

definition upd_es :: "es_upd \<Rightarrow> external_segment \<Rightarrow> external_segment" where
  "upd_es u r =
     (upd_shared u r)\<lparr>
        es_pat := upd_opt (esu_pat u) (es_pat r),
        es_subnet_id := upd_opt (esu_subnet_id u) (es_subnet_id r) \<rparr>"

definition update_external_segment ::
  "ctx \<Rightarrow> string \<Rightarrow> es_upd \<Rightarrow> gbp_db \<Rightarrow> gbp_error + gbp_db \<times> esm_dict" where
  "update_external_segment c i es db =
     bindE (get_external_segment_row c i db) (\<lambda>es_db.
     bindE (if_present (esu_external_routes es) (process_segment_ers i) db) (\<lambda>db1.
       let db2 = db1\<lparr>tb_ess := upd_row i (upd_es es) (tb_ess db1)\<rparr>
       in Inr (db2, map_make_external_segment_dict db2 (upd_es es es_db))))"

text \<open>
  Deleting a segment cascades to its external policy and L3 policy associations and its
  routes; the foreign key of its NAT pools is set to \<^verbatim>\<open>NULL\<close>.
\<close>

definition orphan_nps :: "string \<Rightarrow> nat_pool list \<Rightarrow> nat_pool list" where
  "orphan_nps i t = map (\<lambda>r. if np_es_id r = Some i then r\<lparr>np_es_id := None\<rparr> else r) t"

definition delete_external_segment :: "ctx \<Rightarrow> string \<Rightarrow> gbp_db \<Rightarrow> gbp_error + gbp_db" where
  "delete_external_segment c i db =
     bindE (get_external_segment_row c i db) (\<lambda>_.
       Inr (db\<lparr>tb_ess := del_row i (tb_ess db),
               tb_nps := orphan_nps i (tb_nps db),
               tb_routes := filter (\<lambda>r. er_es_id r \<noteq> i) (tb_routes db),
               as_ep_es := drop_targets i (as_ep_es db),
               as_es_l3p := filter (\<lambda>x. esl_es_id x \<noteq> i) (as_es_l3p db)\<rparr>))"

definition get_external_segment :: "ctx \<Rightarrow> string \<Rightarrow> gbp_db \<Rightarrow> gbp_error + esm_dict" where
  "get_external_segment c i db =
     bindE (get_external_segment_row c i db) (\<lambda>r. Inr (map_make_external_segment_dict db r))"

definition set_subnet_to_es :: "ctx \<Rightarrow> string \<Rightarrow> string option \<Rightarrow> gbp_db \<Rightarrow> gbp_error + gbp_db" where
  "set_subnet_to_es c es_id subnet_id db =
     bindE (get_external_segment_row c es_id db) (\<lambda>_.
       Inr (db\<lparr>tb_ess := upd_row es_id (\<lambda>r. r\<lparr>es_subnet_id := subnet_id\<rparr>) (tb_ess db)\<rparr>))"

section \<open>External policies\<close>

record ep_body = shared_body +
  epb_external_segments :: "string list option"
  epb_provided :: "string list option"
  epb_consumed :: "string list option"

record ep_upd = shared_upd +
  epu_external_segments :: "string list option"
  epu_provided :: "string list option"
  epu_consumed :: "string list option"

record ep_dict = shared_dict +
  epd_external_segments :: "string list"
  epd_provided :: "string list"
  epd_consumed :: "string list"

definition get_external_policy_row :: "ctx \<Rightarrow> string \<Rightarrow> gbp_db \<Rightarrow> gbp_error + external_policy" where
  "get_external_policy_row c i db = get_by_id (sees_row c) ExternalPolicy (tb_eps db) i"

text \<open>
  \<^verbatim>\<open>not_found.pop()\<close> reports an arbitrary missing id; the model reports the first one.
\<close>

definition set_ess_for_ep :: "ctx \<Rightarrow> string \<Rightarrow> string list \<Rightarrow> gbp_db \<Rightarrow> gbp_error + gbp_db" where
  "set_ess_for_ep c i es_id_list db =
     (if es_id_list = [] then Inr (db\<lparr>as_ep_es := drop_sources i (as_ep_es db)\<rparr>)
      else
        bindE (require_ids (sees_row c) ExternalSegment es_id_list (tb_ess db)) (\<lambda>_.
        bindE (set_targets i es_id_list (as_ep_es db)) (\<lambda>a. Inr (db\<lparr>as_ep_es := a\<rparr>))))"

definition set_providers_or_consumers_for_ep ::
  "ctx \<Rightarrow> string \<Rightarrow> string list \<Rightarrow> bool \<Rightarrow> gbp_db \<Rightarrow> gbp_error + gbp_db" where
  "set_providers_or_consumers_for_ep c i prs_ids provider db =
     (if provider
      then bindE (set_providers_or_consumers_for_res c i prs_ids db (as_ep_prov db)) (\<lambda>a.
             Inr (db\<lparr>as_ep_prov := a\<rparr>))
      else bindE (set_providers_or_consumers_for_res c i prs_ids db (as_ep_cons db)) (\<lambda>a.
             Inr (db\<lparr>as_ep_cons := a\<rparr>)))"

definition process_policy_rule_sets_for_ep ::
  "ctx \<Rightarrow> string \<Rightarrow> string list option \<Rightarrow> string list option \<Rightarrow> gbp_db \<Rightarrow> gbp_error + gbp_db" where
  "process_policy_rule_sets_for_ep c i provided consumed db =
     bindE (if_present provided (\<lambda>js. set_providers_or_consumers_for_ep c i js True) db)
       (if_present consumed (\<lambda>js. set_providers_or_consumers_for_ep c i js False))"

definition make_external_policy_dict :: "gbp_db \<Rightarrow> external_policy \<Rightarrow> ep_dict" where
  "make_external_policy_dict db ep =
     shared_dict.extend (populate_common_fields_in_dict ep)
       (ep_dict.fields (targets (as_ep_es db) (row_id ep)) (targets (as_ep_prov db) (row_id ep))
          (targets (as_ep_cons db) (row_id ep)))"

definition create_external_policy ::
  "ctx \<Rightarrow> string \<Rightarrow> ep_body \<Rightarrow> gbp_db \<Rightarrow> gbp_error + gbp_db \<times> ep_dict" where
  "create_external_policy c new_id ep db =
     bindE (get_tenant_id_for_create c ep) (\<lambda>tenant_id.
       let ep_db = new_shared_row new_id tenant_id ep;
           db1 = db\<lparr>tb_eps := tb_eps db @ [ep_db]\<rparr>
       in bindE (if_present (epb_external_segments ep) (set_ess_for_ep c new_id) db1) (\<lambda>db2.
          bindE (process_policy_rule_sets_for_ep c new_id
                   (epb_provided ep) (epb_consumed ep) db2) (\<lambda>db3.
            Inr (db3, make_external_policy_dict db3 ep_db))))"

definition update_external_policy ::
  "ctx \<Rightarrow> string \<Rightarrow> ep_upd \<Rightarrow> gbp_db \<Rightarrow> gbp_error + gbp_db \<times> ep_dict" where
  "update_external_policy c i ep db =
     bindE (get_external_policy_row c i db) (\<lambda>ep_db.
     bindE (if_present (epu_external_segments ep) (set_ess_for_ep c i) db) (\<lambda>db1.
     bindE (process_policy_rule_sets_for_ep c i (epu_provided ep) (epu_consumed ep) db1) (\<lambda>db2.
       let db3 = db2\<lparr>tb_eps := upd_row i (upd_shared ep) (tb_eps db2)\<rparr>
       in Inr (db3, make_external_policy_dict db3 (upd_shared ep ep_db)))))"

definition delete_external_policy :: "ctx \<Rightarrow> string \<Rightarrow> gbp_db \<Rightarrow> gbp_error + gbp_db" where
  "delete_external_policy c i db =
     bindE (get_external_policy_row c i db) (\<lambda>_.
       Inr (db\<lparr>tb_eps := del_row i (tb_eps db),
               as_ep_es := drop_sources i (as_ep_es db),
               as_ep_prov := drop_sources i (as_ep_prov db),
               as_ep_cons := drop_sources i (as_ep_cons db)\<rparr>))"

definition get_external_policy :: "ctx \<Rightarrow> string \<Rightarrow> gbp_db \<Rightarrow> gbp_error + ep_dict" where
  "get_external_policy c i db =
     bindE (get_external_policy_row c i db) (\<lambda>r. Inr (make_external_policy_dict db r))"

section \<open>NAT pools\<close>

record np_body = shared_body +
  npb_ip_version :: int
  npb_ip_pool :: string
  npb_external_segment_id :: "string option"
  npb_subnet_id :: "string option"

record np_upd = shared_upd +
  npu_external_segment_id :: "string option option"
  npu_subnet_id :: "string option option"

record np_dict = shared_dict +
  npd_ip_version :: int
  npd_ip_pool :: string
  npd_external_segment_id :: "string option"

record npm_dict = np_dict +
  npd_subnet_id :: "string option"

definition get_nat_pool_row :: "ctx \<Rightarrow> string \<Rightarrow> gbp_db \<Rightarrow> gbp_error + nat_pool" where
  "get_nat_pool_row c i db = get_by_id (sees_row c) NatPool (tb_nps db) i"

definition make_nat_pool_dict :: "nat_pool \<Rightarrow> np_dict" where
  "make_nat_pool_dict np =
     shared_dict.extend (populate_common_fields_in_dict np)
       (np_dict.fields (np_ip_version np) (np_ip_pool np) (np_es_id np))"

definition map_make_nat_pool_dict :: "nat_pool \<Rightarrow> npm_dict" where
  "map_make_nat_pool_dict np =
     np_dict.extend (make_nat_pool_dict np) (npm_dict.fields (np_subnet_id np))"

definition create_nat_pool ::
  "ctx \<Rightarrow> string \<Rightarrow> np_body \<Rightarrow> gbp_db \<Rightarrow> gbp_error + gbp_db \<times> npm_dict" where
  "create_nat_pool c new_id np db =
     bindE (get_tenant_id_for_create c np) (\<lambda>tenant_id.
       let np_db = shared_row.extend (new_mapping_row new_id tenant_id np)
             (nat_pool.fields (npb_ip_version np) (npb_ip_pool np) (npb_external_segment_id np)
                (npb_subnet_id np))
       in Inr (db\<lparr>tb_nps := tb_nps db @ [np_db]\<rparr>, map_make_nat_pool_dict np_db))"

definition upd_np :: "np_upd \<Rightarrow> nat_pool \<Rightarrow> nat_pool" where
  "upd_np u r =
     (upd_shared u r)\<lparr>
        np_es_id := upd_opt (npu_external_segment_id u) (np_es_id r),
        np_subnet_id := upd_opt (npu_subnet_id u) (np_subnet_id r) \<rparr>"

definition update_nat_pool ::
  "ctx \<Rightarrow> string \<Rightarrow> np_upd \<Rightarrow> gbp_db \<Rightarrow> gbp_error + gbp_db \<times> npm_dict" where
  "update_nat_pool c i np db =
     bindE (get_nat_pool_row c i db) (\<lambda>np_db.
       Inr (db\<lparr>tb_nps := upd_row i (upd_np np) (tb_nps db)\<rparr>,
            map_make_nat_pool_dict (upd_np np np_db)))"

definition delete_nat_pool :: "ctx \<Rightarrow> string \<Rightarrow> gbp_db \<Rightarrow> gbp_error + gbp_db" where
  "delete_nat_pool c i db =
     bindE (get_nat_pool_row c i db) (\<lambda>_. Inr (db\<lparr>tb_nps := del_row i (tb_nps db)\<rparr>))"

definition get_nat_pool :: "ctx \<Rightarrow> string \<Rightarrow> gbp_db \<Rightarrow> gbp_error + npm_dict" where
  "get_nat_pool c i db =
     bindE (get_nat_pool_row c i db) (\<lambda>r. Inr (map_make_nat_pool_dict r))"

definition set_subnet_to_np :: "ctx \<Rightarrow> string \<Rightarrow> string option \<Rightarrow> gbp_db \<Rightarrow> gbp_error + gbp_db" where
  "set_subnet_to_np c np_id subnet_id db =
     bindE (get_nat_pool_row c np_id db) (\<lambda>_.
       Inr (db\<lparr>tb_nps := upd_row np_id (\<lambda>r. r\<lparr>np_subnet_id := subnet_id\<rparr>) (tb_nps db)\<rparr>))"

end
