(* ===== verification/Db_Invariants.thy ===== *)
theory Db_Invariants
  imports External_Db
begin

text \<open>
  The invariant of the policy database and its preservation by every operation of the database
  plugin: ids are unique per table, every association row connects existing rows (each
  association once), the rule set hierarchy has at most two levels and no loops, and no two
  L3 policies hold the same address of an external segment.  Each helper that writes a
  relationship gets one lemma that says what it leaves in the database; the lemma of an
  operation follows from those of its helpers.
\<close>

named_theorems inv_defs \<open>definitions of the parts of the invariant\<close>

section \<open>The invariant\<close>

definition ids_inv :: "gbp_db \<Rightarrow> bool" where
  "ids_inv db \<longleftrightarrow>
     distinct (ids (tb_pts db)) \<and> distinct (ids (tb_ptgs db)) \<and> distinct (ids (tb_apgs db)) \<and>
     distinct (ids (tb_l2ps db)) \<and> distinct (ids (tb_l3ps db)) \<and> distinct (ids (tb_nsps db)) \<and>
     distinct (ids (tb_rules db)) \<and> distinct (ids (tb_classifiers db)) \<and>
     distinct (ids (tb_actions db)) \<and> distinct (ids (tb_prss db)) \<and> distinct (ids (tb_nps db)) \<and>
     distinct (ids (tb_ess db)) \<and> distinct (ids (tb_eps db))"

definition assoc_inv :: "gbp_db \<Rightarrow> bool" where
  "assoc_inv db \<longleftrightarrow>
     assoc_ok (ids (tb_ptgs db)) (ids (tb_prss db)) (as_ptg_prov db) \<and>
     assoc_ok (ids (tb_ptgs db)) (ids (tb_prss db)) (as_ptg_cons db) \<and>
     assoc_ok (ids (tb_eps db)) (ids (tb_prss db)) (as_ep_prov db) \<and>
     assoc_ok (ids (tb_eps db)) (ids (tb_prss db)) (as_ep_cons db) \<and>
     assoc_ok (ids (tb_prss db)) (ids (tb_rules db)) (as_prs_pr db) \<and>
     assoc_ok (ids (tb_rules db)) (ids (tb_actions db)) (as_pr_pa db) \<and>
     assoc_ok (ids (tb_eps db)) (ids (tb_ess db)) (as_ep_es db)"

text \<open>Two levels: the parent of a rule set exists, is another one, and has no parent.\<close>

definition prs_tree :: "policy_rule_set list \<Rightarrow> bool" where
  "prs_tree t \<longleftrightarrow>
     (\<forall>r \<in> set t. \<forall>p. prs_parent_id r = Some p \<longrightarrow>
        p \<noteq> row_id r \<and> (\<exists>q \<in> set t. row_id q = p) \<and>
        (\<forall>q \<in> set t. row_id q = p \<longrightarrow> prs_parent_id q = None))"

definition es_alloc_ok :: "string list \<Rightarrow> string list \<Rightarrow> es_to_l3p list \<Rightarrow> bool" where
  "es_alloc_ok l3ps ess a \<longleftrightarrow>
     distinct a \<and>
     (\<forall>x \<in> set a. esl_l3p_id x \<in> set l3ps \<and> esl_es_id x \<in> set ess) \<and>
     (\<forall>x \<in> set a. \<forall>y \<in> set a. esl_es_id x = esl_es_id y \<and> esl_address x = esl_address y \<and>
        esl_address x \<noteq> ADDRESS_NOT_SPECIFIED \<longrightarrow> x = y)"

definition prs_inv :: "gbp_db \<Rightarrow> bool" where
  "prs_inv db \<longleftrightarrow> prs_tree (tb_prss db)"

definition es_inv :: "gbp_db \<Rightarrow> bool" where
  "es_inv db \<longleftrightarrow> es_alloc_ok (ids (tb_l3ps db)) (ids (tb_ess db)) (as_es_l3p db)"

definition db_inv :: "gbp_db \<Rightarrow> bool" where
  "db_inv db \<longleftrightarrow> ids_inv db \<and> assoc_inv db \<and> prs_inv db \<and> es_inv db"

lemmas db_inv_defs = db_inv_def ids_inv_def assoc_inv_def prs_inv_def es_inv_def

lemma db_inv_empty: "db_inv empty_db"
  by (simp add: db_inv_defs empty_db_def prs_tree_def es_alloc_ok_def)

section \<open>Rule set hierarchy\<close>

lemma ids_clear_children [simp]: "ids (clear_children i t) = ids t"
  by (simp add: ids_def clear_children_def)

lemma ids_adopt [simp]: "ids (adopt i js t) = ids t"
  by (simp add: ids_def adopt_def)

lemma prs_tree_append:
  assumes "prs_tree t" "prs_parent_id r = None" "row_id r \<notin> set (ids t)"
  shows "prs_tree (t @ [r])"
  using assms by (auto simp: prs_tree_def ids_def)

lemma prs_tree_clear: "prs_tree t \<Longrightarrow> prs_tree (clear_children i t)"
  unfolding prs_tree_def clear_children_def by fastforce

lemma prs_tree_del:
  assumes "prs_tree t"
  shows "prs_tree (del_row i (clear_children i t))"
proof -
  let ?t = "clear_children i t"
  have tree: "prs_tree ?t" using assms by (rule prs_tree_clear)
  have "\<forall>r \<in> set ?t. prs_parent_id r \<noteq> Some i" by (auto simp: clear_children_def)
  then have other: "p \<noteq> i" if "r \<in> set ?t" "prs_parent_id r = Some p" for r p using that by auto
  have sub: "r \<in> set (del_row i ?t) \<longleftrightarrow> r \<in> set ?t \<and> row_id r \<noteq> i" for r
    by (simp add: del_row_def)
  show ?thesis unfolding prs_tree_def
  proof (intro ballI allI impI)
    fix r p assume r: "r \<in> set (del_row i ?t)" "prs_parent_id r = Some p"
    then have r': "r \<in> set ?t" using sub by simp
    from bspec[OF tree[unfolded prs_tree_def] r'] r(2)
    have n: "p \<noteq> row_id r" and e: "\<exists>q \<in> set ?t. row_id q = p"
      and q: "\<forall>q \<in> set ?t. row_id q = p \<longrightarrow> prs_parent_id q = None" by simp_all
    have "p \<noteq> i" using other r' r(2) .
    obtain q0 where q0: "q0 \<in> set ?t" "row_id q0 = p" using e by auto
    with \<open>p \<noteq> i\<close> have "q0 \<in> set (del_row i ?t)" by (simp add: sub)
    then have "\<exists>q \<in> set (del_row i ?t). row_id q = p" using q0(2) by (rule rev_bexI)
    moreover have "\<forall>q \<in> set (del_row i ?t). row_id q = p \<longrightarrow> prs_parent_id q = None"
      using q by (simp add: sub)
    ultimately show "p \<noteq> row_id r \<and> (\<exists>q \<in> set (del_row i ?t). row_id q = p) \<and>
        (\<forall>q \<in> set (del_row i ?t). row_id q = p \<longrightarrow> prs_parent_id q = None)"
      using n by (intro conjI)
  qed
qed

lemma prs_tree_upd:
  assumes "prs_tree t" "\<And>r. row_id (f r) = row_id r" "\<And>r. prs_parent_id (f r) = prs_parent_id r"
  shows "prs_tree (upd_row i f t)"
proof -
  define g where "g r = (if row_id r = i then f r else r)" for r
  have g: "row_id (g r) = row_id r" "prs_parent_id (g r) = prs_parent_id r" for r
    using assms(2,3) by (simp_all add: g_def)
  have "prs_tree (map g t) = prs_tree t" by (simp only: prs_tree_def set_map ball_simps bex_simps g)
  moreover have "upd_row i f t = map g t" by (auto simp: upd_row_def g_def)
  ultimately show ?thesis using assms(1) by simp
qed

lemma children_of_Nil: "children_of t i = [] \<longleftrightarrow> (\<forall>r \<in> set t. prs_parent_id r \<noteq> Some i)"
  by (auto simp: children_of_def ids_def filter_empty_conv)

lemma prs_tree_adopt:
  assumes tree: "prs_tree t" and self: "i \<in> set (ids t)" "i \<notin> set js"
    and root: "\<And>r. r \<in> set t \<Longrightarrow> row_id r = i \<Longrightarrow> prs_parent_id r = None"
    and leaf: "\<And>j. j \<in> set js \<Longrightarrow> children_of t j = []"
  shows "prs_tree (adopt i js (clear_children i t))"
proof -
  define f where "f r = (let r' = (if prs_parent_id r = Some i then r\<lparr>prs_parent_id := None\<rparr> else r)
     in if row_id r' \<in> set js then r'\<lparr>prs_parent_id := Some i\<rparr> else r')" for r :: policy_rule_set
  have map: "adopt i js (clear_children i t) = map f t"
    by (simp add: adopt_def clear_children_def f_def Let_def)
  have id [simp]: "row_id (f r) = row_id r" for r by (simp add: f_def Let_def)
  have par: "prs_parent_id (f r) =
      (if row_id r \<in> set js then Some i
       else if prs_parent_id r = Some i then None else prs_parent_id r)" for r
    by (auto simp: f_def Let_def)
  have rooted: "prs_parent_id (f q) = None" if "q \<in> set t" "row_id q = i" for q
    using that self(2) root[OF that] by (auto simp: par)
  show ?thesis unfolding map prs_tree_def
  proof (intro ballI allI impI)
    fix r' p assume "r' \<in> set (map f t)" and p: "prs_parent_id r' = Some p"
    then obtain r where r: "r \<in> set t" "r' = f r" by auto
    show "p \<noteq> row_id r' \<and> (\<exists>q \<in> set (map f t). row_id q = p) \<and>
      (\<forall>q \<in> set (map f t). row_id q = p \<longrightarrow> prs_parent_id q = None)"
    proof (cases "row_id r \<in> set js")
      case True
      with p r have "p = i" by (simp add: par)
      with True self r rooted show ?thesis by (auto simp: ids_def)
    next
      case False
      with p r have old: "prs_parent_id r = Some p" "p \<noteq> i" by (auto simp: par split: if_splits)
      then have "p \<notin> set js" using leaf r(1) by (auto simp: children_of_Nil)
      with tree old r show ?thesis unfolding prs_tree_def by (fastforce simp: par)
    qed
  qed
qed

section \<open>What the relationship helpers leave\<close>

lemma set_targets_ok:
  assumes "set_targets i js a = Inr a'" "set js \<subseteq> set rs"
  shows "targets a' i = js \<and> (assoc_ok ls rs a \<and> i \<in> set ls \<longrightarrow> assoc_ok ls rs a')"
  using assms set_targets_targets assoc_ok_set_targets by blast

lemma drop_sources_ok:
  "targets (drop_sources i a) i = [] \<and> (assoc_ok ls rs a \<and> i \<in> set ls \<longrightarrow> assoc_ok ls rs (drop_sources i a))"
  using assoc_ok_drop_sources_same by auto

lemma set_actions_for_rule_Inr:
  assumes "set_actions_for_rule c i js db = Inr db'"
  shows "\<exists>a. db' = db\<lparr>as_pr_pa := a\<rparr> \<and> targets a i = js \<and>
    (assoc_ok (ids (tb_rules db)) (ids (tb_actions db)) (as_pr_pa db) \<and> i \<in> set (ids (tb_rules db))
      \<longrightarrow> assoc_ok (ids (tb_rules db)) (ids (tb_actions db)) a)"
proof (cases "js = []")
  case True
  with assms show ?thesis
    by (intro exI[of _ "as_pr_pa db"]) (auto simp: set_actions_for_rule_def split: if_splits)
next
  case False
  with assms obtain a where "set js \<subseteq> set (ids (tb_actions db))"
    "set_targets i js (as_pr_pa db) = Inr a" "db' = db\<lparr>as_pr_pa := a\<rparr>"
    by (auto simp: set_actions_for_rule_def bindE_eq_Inr dest!: require_ids_exist)
  then show ?thesis using set_targets_ok by blast
qed

lemma set_rules_for_policy_rule_set_Inr:
  assumes "set_rules_for_policy_rule_set c i js db = Inr db'"
  shows "\<exists>a. db' = db\<lparr>as_prs_pr := a\<rparr> \<and> targets a i = js \<and>
    (assoc_ok (ids (tb_prss db)) (ids (tb_rules db)) (as_prs_pr db) \<and> i \<in> set (ids (tb_prss db))
      \<longrightarrow> assoc_ok (ids (tb_prss db)) (ids (tb_rules db)) a)"
proof (cases "js = []")
  case True
  with assms have "db' = db\<lparr>as_prs_pr := drop_sources i (as_prs_pr db)\<rparr>"
    by (simp add: set_rules_for_policy_rule_set_def)
  then show ?thesis using drop_sources_ok True by blast
next
  case False
  with assms obtain a where "set js \<subseteq> set (ids (tb_rules db))"
    "set_targets i js (as_prs_pr db) = Inr a" "db' = db\<lparr>as_prs_pr := a\<rparr>"
    by (auto simp: set_rules_for_policy_rule_set_def bindE_eq_Inr dest!: require_ids_exist)
  then show ?thesis using set_targets_ok by blast
qed

lemma set_children_Inr:
  assumes "set_children_for_policy_rule_set c r js db = Inr db'"
  shows "\<exists>t. db' = db\<lparr>tb_prss := t\<rparr> \<and> ids t = ids (tb_prss db) \<and>
    (prs_tree (tb_prss db) \<and> distinct (ids (tb_prss db)) \<and> r \<in> set (tb_prss db) \<longrightarrow> prs_tree t)"
proof (cases "js = []")
  case True
  with assms show ?thesis
    by (auto simp: set_children_for_policy_rule_set_def Let_def intro!: exI prs_tree_clear)
next
  case False
  with assms obtain ch where root: "prs_parent_id r = None"
    and ch: "validate_policy_rule_set_list c js db = Inr ch"
    and chk: "\<forall>child \<in> set ch. children_of (tb_prss db) (row_id child) = [] \<and> row_id child \<noteq> row_id r"
    and db': "db' = db\<lparr>tb_prss := adopt (row_id r) (ids ch) (clear_children (row_id r) (tb_prss db))\<rparr>"
    by (auto simp: set_children_for_policy_rule_set_def Let_def bindE_eq_Inr checkE_eq_Inr
        split: if_splits)
  have "prs_tree (adopt (row_id r) (ids ch) (clear_children (row_id r) (tb_prss db)))"
    if "prs_tree (tb_prss db)" "distinct (ids (tb_prss db))" "r \<in> set (tb_prss db)"
  proof (rule prs_tree_adopt)
    show "prs_tree (tb_prss db)" by fact
    show "row_id r \<in> set (ids (tb_prss db))" using that(3) by (auto simp: ids_def)
    show "row_id r \<notin> set (ids ch)" using chk by (auto simp: ids_def)
    show "prs_parent_id q = None" if "q \<in> set (tb_prss db)" "row_id q = row_id r" for q
      using that root \<open>distinct (ids (tb_prss db))\<close> \<open>r \<in> set (tb_prss db)\<close>
        distinct_key_unique[of row_id "tb_prss db" q r] by (auto simp: ids_def)
    show "children_of (tb_prss db) j = []" if "j \<in> set (ids ch)" for j
      using that chk by (auto simp: ids_def)
  qed
  with db' show ?thesis by auto
qed

lemma set_prs_for_res_ok:
  assumes "set_providers_or_consumers_for_res c i js db a = Inr a'"
    and "assoc_ok ls (ids (tb_prss db)) a" and "i \<in> set ls"
  shows "assoc_ok ls (ids (tb_prss db)) a'"
proof (cases "js = []")
  case True
  with assms show ?thesis
    by (auto simp: set_providers_or_consumers_for_res_def intro: assoc_ok_drop_sources_same)
next
  case False
  with assms have "set js \<subseteq> set (ids (tb_prss db))" "set_targets i js a = Inr a'"
    by (auto simp: set_providers_or_consumers_for_res_def validate_policy_rule_set_list_def
        bindE_eq_Inr dest!: require_ids_exist)
  with assms(2,3) show ?thesis using assoc_ok_set_targets by blast
qed

lemma set_prs_for_res_targets:
  "set_providers_or_consumers_for_res c i js db a = Inr a' \<Longrightarrow> targets a' i = js"
  by (auto simp: set_providers_or_consumers_for_res_def bindE_eq_Inr dest: set_targets_targets
      split: if_splits)

lemma set_prs_for_ptg_Inr:
  assumes "set_providers_or_consumers_for_policy_target_group c i js provider db = Inr db'"
  shows "\<exists>a b. db' = db\<lparr>as_ptg_prov := a, as_ptg_cons := b\<rparr> \<and>
    (\<forall>ls. assoc_ok ls (ids (tb_prss db)) (as_ptg_prov db) \<and> i \<in> set ls \<longrightarrow> assoc_ok ls (ids (tb_prss db)) a) \<and>
    (\<forall>ls. assoc_ok ls (ids (tb_prss db)) (as_ptg_cons db) \<and> i \<in> set ls \<longrightarrow> assoc_ok ls (ids (tb_prss db)) b)"
proof (cases provider)
  case True
  with assms obtain a where "set_providers_or_consumers_for_res c i js db (as_ptg_prov db) = Inr a"
    "db' = db\<lparr>as_ptg_prov := a\<rparr>" by (auto simp: set_providers_or_consumers_for_policy_target_group_def bindE_eq_Inr)
  then show ?thesis
    by (intro exI[of _ a] exI[of _ "as_ptg_cons db"]) (auto intro: set_prs_for_res_ok)
next
  case False
  with assms obtain b where "set_providers_or_consumers_for_res c i js db (as_ptg_cons db) = Inr b"
    "db' = db\<lparr>as_ptg_cons := b\<rparr>" by (auto simp: set_providers_or_consumers_for_policy_target_group_def bindE_eq_Inr)
  then show ?thesis
    by (intro exI[of _ "as_ptg_prov db"] exI[of _ b]) (auto intro: set_prs_for_res_ok)
qed

lemma process_prs_ptg_Inr:
  assumes "process_policy_rule_sets_for_ptg c i prov cons db = Inr db'"
  shows "\<exists>a b. db' = db\<lparr>as_ptg_prov := a, as_ptg_cons := b\<rparr> \<and>
    (\<forall>ls. assoc_ok ls (ids (tb_prss db)) (as_ptg_prov db) \<and> i \<in> set ls \<longrightarrow> assoc_ok ls (ids (tb_prss db)) a) \<and>
    (\<forall>ls. assoc_ok ls (ids (tb_prss db)) (as_ptg_cons db) \<and> i \<in> set ls \<longrightarrow> assoc_ok ls (ids (tb_prss db)) b)"
proof -
  have step: "\<exists>a b. d' = d\<lparr>as_ptg_prov := a, as_ptg_cons := b\<rparr> \<and>
    (\<forall>ls. assoc_ok ls (ids (tb_prss d)) (as_ptg_prov d) \<and> i \<in> set ls \<longrightarrow> assoc_ok ls (ids (tb_prss d)) a) \<and>
    (\<forall>ls. assoc_ok ls (ids (tb_prss d)) (as_ptg_cons d) \<and> i \<in> set ls \<longrightarrow> assoc_ok ls (ids (tb_prss d)) b)"
    if "if_present k (\<lambda>js. set_providers_or_consumers_for_policy_target_group c i js provider) d = Inr d'" for k provider d d'
  proof (cases k)
    case None
    with that show ?thesis
      by (intro exI[of _ "as_ptg_prov d"] exI[of _ "as_ptg_cons d"]) (simp add: if_present_def)
  next
    case (Some js)
    with that show ?thesis using set_prs_for_ptg_Inr by (simp add: if_present_def)
  qed
  obtain db1 where
    1: "if_present prov (\<lambda>js. set_providers_or_consumers_for_policy_target_group c i js True) db = Inr db1"
    and 2: "if_present cons (\<lambda>js. set_providers_or_consumers_for_policy_target_group c i js False) db1 = Inr db'"
    using assms by (auto simp: process_policy_rule_sets_for_ptg_def bindE_eq_Inr)
  obtain a b where 3: "db1 = db\<lparr>as_ptg_prov := a, as_ptg_cons := b\<rparr>"
    "\<And>ls. assoc_ok ls (ids (tb_prss db)) (as_ptg_prov db) \<Longrightarrow> i \<in> set ls \<Longrightarrow> assoc_ok ls (ids (tb_prss db)) a"
    "\<And>ls. assoc_ok ls (ids (tb_prss db)) (as_ptg_cons db) \<Longrightarrow> i \<in> set ls \<Longrightarrow> assoc_ok ls (ids (tb_prss db)) b"
    using step[OF 1] by blast
  obtain a' b' where 4: "db' = db1\<lparr>as_ptg_prov := a', as_ptg_cons := b'\<rparr>"
    "\<And>ls. assoc_ok ls (ids (tb_prss db1)) (as_ptg_prov db1) \<Longrightarrow> i \<in> set ls \<Longrightarrow> assoc_ok ls (ids (tb_prss db1)) a'"
    "\<And>ls. assoc_ok ls (ids (tb_prss db1)) (as_ptg_cons db1) \<Longrightarrow> i \<in> set ls \<Longrightarrow> assoc_ok ls (ids (tb_prss db1)) b'"
    using step[OF 2] by blast
  from 3 4 show ?thesis by (intro exI[of _ a'] exI[of _ b']) simp
qed

lemma set_prs_for_ep_Inr:
  assumes "set_providers_or_consumers_for_ep c i js provider db = Inr db'"
  shows "\<exists>a b. db' = db\<lparr>as_ep_prov := a, as_ep_cons := b\<rparr> \<and>
    (\<forall>ls. assoc_ok ls (ids (tb_prss db)) (as_ep_prov db) \<and> i \<in> set ls \<longrightarrow> assoc_ok ls (ids (tb_prss db)) a) \<and>
    (\<forall>ls. assoc_ok ls (ids (tb_prss db)) (as_ep_cons db) \<and> i \<in> set ls \<longrightarrow> assoc_ok ls (ids (tb_prss db)) b)"
proof (cases provider)
  case True
  with assms obtain a where "set_providers_or_consumers_for_res c i js db (as_ep_prov db) = Inr a"
    "db' = db\<lparr>as_ep_prov := a\<rparr>" by (auto simp: set_providers_or_consumers_for_ep_def bindE_eq_Inr)
  then show ?thesis
    by (intro exI[of _ a] exI[of _ "as_ep_cons db"]) (auto intro: set_prs_for_res_ok)
next
  case False
  with assms obtain b where "set_providers_or_consumers_for_res c i js db (as_ep_cons db) = Inr b"
    "db' = db\<lparr>as_ep_cons := b\<rparr>" by (auto simp: set_providers_or_consumers_for_ep_def bindE_eq_Inr)
  then show ?thesis
    by (intro exI[of _ "as_ep_prov db"] exI[of _ b]) (auto intro: set_prs_for_res_ok)
qed

lemma process_prs_ep_Inr:
  assumes "process_policy_rule_sets_for_ep c i prov cons db = Inr db'"
  shows "\<exists>a b. db' = db\<lparr>as_ep_prov := a, as_ep_cons := b\<rparr> \<and>
    (\<forall>ls. assoc_ok ls (ids (tb_prss db)) (as_ep_prov db) \<and> i \<in> set ls \<longrightarrow> assoc_ok ls (ids (tb_prss db)) a) \<and>
    (\<forall>ls. assoc_ok ls (ids (tb_prss db)) (as_ep_cons db) \<and> i \<in> set ls \<longrightarrow> assoc_ok ls (ids (tb_prss db)) b)"
proof -
  have step: "\<exists>a b. d' = d\<lparr>as_ep_prov := a, as_ep_cons := b\<rparr> \<and>
    (\<forall>ls. assoc_ok ls (ids (tb_prss d)) (as_ep_prov d) \<and> i \<in> set ls \<longrightarrow> assoc_ok ls (ids (tb_prss d)) a) \<and>
    (\<forall>ls. assoc_ok ls (ids (tb_prss d)) (as_ep_cons d) \<and> i \<in> set ls \<longrightarrow> assoc_ok ls (ids (tb_prss d)) b)"
    if "if_present k (\<lambda>js. set_providers_or_consumers_for_ep c i js provider) d = Inr d'" for k provider d d'
  proof (cases k)
    case None
    with that show ?thesis
      by (intro exI[of _ "as_ep_prov d"] exI[of _ "as_ep_cons d"]) (simp add: if_present_def)
  next
    case (Some js)
    with that show ?thesis using set_prs_for_ep_Inr by (simp add: if_present_def)
  qed
  obtain db1 where
    1: "if_present prov (\<lambda>js. set_providers_or_consumers_for_ep c i js True) db = Inr db1"
    and 2: "if_present cons (\<lambda>js. set_providers_or_consumers_for_ep c i js False) db1 = Inr db'"
    using assms by (auto simp: process_policy_rule_sets_for_ep_def bindE_eq_Inr)
  obtain a b where 3: "db1 = db\<lparr>as_ep_prov := a, as_ep_cons := b\<rparr>"
    "\<And>ls. assoc_ok ls (ids (tb_prss db)) (as_ep_prov db) \<Longrightarrow> i \<in> set ls \<Longrightarrow> assoc_ok ls (ids (tb_prss db)) a"
    "\<And>ls. assoc_ok ls (ids (tb_prss db)) (as_ep_cons db) \<Longrightarrow> i \<in> set ls \<Longrightarrow> assoc_ok ls (ids (tb_prss db)) b"
    using step[OF 1] by blast
  obtain a' b' where 4: "db' = db1\<lparr>as_ep_prov := a', as_ep_cons := b'\<rparr>"
    "\<And>ls. assoc_ok ls (ids (tb_prss db1)) (as_ep_prov db1) \<Longrightarrow> i \<in> set ls \<Longrightarrow> assoc_ok ls (ids (tb_prss db1)) a'"
    "\<And>ls. assoc_ok ls (ids (tb_prss db1)) (as_ep_cons db1) \<Longrightarrow> i \<in> set ls \<Longrightarrow> assoc_ok ls (ids (tb_prss db1)) b'"
    using step[OF 2] by blast
  from 3 4 show ?thesis by (intro exI[of _ a'] exI[of _ b']) simp
qed

lemma set_ess_for_ep_Inr:
  assumes "set_ess_for_ep c i js db = Inr db'"
  shows "\<exists>a. db' = db\<lparr>as_ep_es := a\<rparr> \<and> targets a i = js \<and>
    (assoc_ok (ids (tb_eps db)) (ids (tb_ess db)) (as_ep_es db) \<and> i \<in> set (ids (tb_eps db))
      \<longrightarrow> assoc_ok (ids (tb_eps db)) (ids (tb_ess db)) a)"
proof (cases "js = []")
  case True
  with assms have "db' = db\<lparr>as_ep_es := drop_sources i (as_ep_es db)\<rparr>"
    by (simp add: set_ess_for_ep_def)
  then show ?thesis using drop_sources_ok True by blast
next
  case False
  with assms obtain a where "set js \<subseteq> set (ids (tb_ess db))"
    "set_targets i js (as_ep_es db) = Inr a" "db' = db\<lparr>as_ep_es := a\<rparr>"
    by (auto simp: set_ess_for_ep_def bindE_eq_Inr dest!: require_ids_exist)
  then show ?thesis using set_targets_ok by blast
qed

section \<open>External segment addresses\<close>

lemma es_alloc_ok_append:
  assumes "es_alloc_ok ls es a" "append_pk a xs = Inr a'"
    and "\<forall>x \<in> set xs. esl_l3p_id x \<in> set ls \<and> esl_es_id x \<in> set es"
    and "\<forall>x \<in> set xs. \<forall>y \<in> set a. esl_address x \<noteq> ADDRESS_NOT_SPECIFIED \<longrightarrow>
      \<not> (esl_es_id x = esl_es_id y \<and> esl_address x = esl_address y)"
    and "\<forall>x \<in> set xs. \<forall>y \<in> set xs. esl_address x = esl_address y \<longrightarrow> x = y"
  shows "es_alloc_ok ls es a'"
proof -
  from assms(2) have a': "a' = a @ xs" "distinct xs" "set xs \<inter> set a = {}"
    by (auto simp: append_pk_Inr)
  have "x = y" if "x \<in> set a'" "y \<in> set a'" "esl_es_id x = esl_es_id y"
    "esl_address x = esl_address y" "esl_address x \<noteq> ADDRESS_NOT_SPECIFIED" for x y
  proof -
    from that(1,2) a'(1) consider "x \<in> set a" "y \<in> set a" | "x \<in> set xs" "y \<in> set xs"
      | "x \<in> set xs" "y \<in> set a" | "x \<in> set a" "y \<in> set xs" by auto
    then show ?thesis
    proof cases
      case 1
      with assms(1) that(3-) show ?thesis unfolding es_alloc_ok_def by blast
    next
      case 2
      with assms(5) that(4) show ?thesis by blast
    next
      case 3
      with assms(4) that(3-) show ?thesis by blast
    next
      case 4
      with assms(4) that(3-) show ?thesis by metis
    qed
  qed
  moreover have "distinct a'" using assms(1) a' by (auto simp: es_alloc_ok_def)
  moreover have "\<forall>x \<in> set a'. esl_l3p_id x \<in> set ls \<and> esl_es_id x \<in> set es"
    using assms(1,3) a'(1) by (auto simp: es_alloc_ok_def)
  ultimately show ?thesis unfolding es_alloc_ok_def by blast
qed

lemma allocate_es_ok:
  assumes "allocate_es i req es a = Inr a'" "es_alloc_ok ls ess a" "i \<in> set ls" "row_id es \<in> set ess"
  shows "es_alloc_ok ls ess a'"
proof -
  define requested where "requested = (case map_of req (row_id es) of None \<Rightarrow> [] | Some xs \<Rightarrow> xs)"
  define ips where "ips = filter (\<lambda>x. x \<noteq> []) requested"
  note def = allocate_es_def[of i req es a, folded requested_def, unfolded Let_def, folded ips_def]
  show ?thesis
  proof (cases "ips = []")
    case True
    with assms def have "append_pk a [\<lparr> esl_l3p_id = i, esl_es_id = row_id es,
        esl_address = ADDRESS_NOT_SPECIFIED \<rparr>] = Inr a'" by simp
    from assms(2) this show ?thesis by (rule es_alloc_ok_append) (use assms(3,4) in auto)
  next
    case False
    with assms(1) def have none: "\<forall>x \<in> set a. \<not> (esl_es_id x = row_id es \<and> esl_address x \<in> set ips)"
      and app: "append_pk a (map (\<lambda>ip. \<lparr> esl_l3p_id = i, esl_es_id = row_id es,
        esl_address = ip \<rparr>) requested) = Inr a'"
      by (auto simp: filter_empty_conv split: if_splits)
    show ?thesis
    proof (rule es_alloc_ok_append[OF assms(2) app])
      show "\<forall>x \<in> set (map (\<lambda>ip. \<lparr> esl_l3p_id = i, esl_es_id = row_id es, esl_address = ip \<rparr>) requested).
          esl_l3p_id x \<in> set ls \<and> esl_es_id x \<in> set ess"
        using assms(3,4) by simp
      show "\<forall>x \<in> set (map (\<lambda>ip. \<lparr> esl_l3p_id = i, esl_es_id = row_id es, esl_address = ip \<rparr>) requested).
          \<forall>y \<in> set a. esl_address x \<noteq> ADDRESS_NOT_SPECIFIED \<longrightarrow>
            \<not> (esl_es_id x = esl_es_id y \<and> esl_address x = esl_address y)"
        using none by (fastforce simp: ips_def ADDRESS_NOT_SPECIFIED_def)
    qed simp
  qed
qed

lemma es_alloc_ok_drop: "es_alloc_ok ls ess a \<Longrightarrow> es_alloc_ok ls ess (drop_l3p_ess i a)"
  by (auto simp: es_alloc_ok_def drop_l3p_ess_def)

lemma set_ess_for_l3p_Inr:
  assumes "set_ess_for_l3p c i req db = Inr db'"
  shows "\<exists>a. db' = db\<lparr>as_es_l3p := a\<rparr> \<and>
    (\<forall>ls. es_alloc_ok ls (ids (tb_ess db)) (as_es_l3p db) \<and> i \<in> set ls
      \<longrightarrow> es_alloc_ok ls (ids (tb_ess db)) a)"
proof (cases req)
  case None
  with assms show ?thesis by (auto simp: set_ess_for_l3p_def intro!: exI[of _ "as_es_l3p db"])
next
  case (Some d)
  show ?thesis
  proof (cases "d = []")
    case True
    with assms Some show ?thesis by (auto simp: set_ess_for_l3p_def es_alloc_ok_drop)
  next
    case False
    with assms Some obtain a where
      a: "foldE (allocate_es i d) (query_ids (sees_row c) (map fst d) (tb_ess db))
            (drop_l3p_ess i (as_es_l3p db)) = Inr a" "db' = db\<lparr>as_es_l3p := a\<rparr>"
      by (auto simp: set_ess_for_l3p_def bindE_eq_Inr)
    have "es_alloc_ok ls (ids (tb_ess db)) a"
      if "es_alloc_ok ls (ids (tb_ess db)) (as_es_l3p db)" "i \<in> set ls" for ls
    proof (rule foldE_invariant[OF _ _ a(1)])
      show "es_alloc_ok ls (ids (tb_ess db)) (drop_l3p_ess i (as_es_l3p db))"
        using that(1) by (rule es_alloc_ok_drop)
      show "es_alloc_ok ls (ids (tb_ess db)) s'"
        if "es \<in> set (query_ids (sees_row c) (map fst d) (tb_ess db))"
          "es_alloc_ok ls (ids (tb_ess db)) s" "allocate_es i d es s = Inr s'" for es s s'
        using that \<open>i \<in> set ls\<close>
        by (intro allocate_es_ok[OF that(3,2)]) (auto simp: set_query_ids ids_def)
    qed
    with a(2) show ?thesis by auto
  qed
qed

lemma process_segment_ers_Inr:
  "process_segment_ers i rts db = Inr db' \<Longrightarrow> \<exists>t. db' = db\<lparr>tb_routes := t\<rparr>"
  by (auto simp: process_segment_ers_def bindE_eq_Inr split: option.splits
      intro: exI[of _ "tb_routes db"])

end
