(* ===== verification/Db_Preserve.thy ===== *)
theory Db_Preserve
  imports Db_Invariants
begin

text \<open>Every operation of the database plugin keeps the invariant.\<close>

section \<open>Row ids\<close>

lemma row_id_upds [simp]:
  "row_id (upd_classifier u1 p r1) = row_id r1"
  "row_id (upd_action u2 r2) = row_id r2"
  "row_id (upd_rule u3 r3) = row_id r3"
  "row_id (upd_rule_set u4 r4) = row_id r4"
  "row_id (upd_ptg u5 r5) = row_id r5"
  "row_id (upd_pt u6 r6) = row_id r6"
  "row_id (upd_l2p u7 r7) = row_id r7"
  "row_id (upd_l3p u8 r8) = row_id r8"
  "row_id (upd_es u9 r9) = row_id r9"
  "row_id (upd_np u10 r10) = row_id r10"
  by (simp_all add: upd_classifier_def upd_action_def upd_rule_def upd_rule_set_def upd_ptg_def
      upd_pt_def upd_l2p_def upd_l3p_def upd_es_def upd_np_def)

lemma prs_parent_upd_rule_set [simp]: "prs_parent_id (upd_rule_set u r) = prs_parent_id r"
  by (simp add: upd_rule_set_def upd_shared_def upd_common_def)

lemma prs_parent_extend [simp]:
  "prs_parent_id (shared_row.extend r (policy_rule_set.fields p)) = p"
  by (simp add: shared_row.defs policy_rule_set.defs)

lemma ids_orphans [simp]:
  "ids (orphan_pts i t1) = ids t1" "ids (orphan_apg_ptgs i t2) = ids t2"
  "ids (orphan_nps i t3) = ids t3"
  by (simp_all add: ids_def orphan_pts_def orphan_apg_ptgs_def orphan_nps_def)

lemma assoc_ok_grow [simp]:
  "assoc_ok ls rs a \<Longrightarrow> assoc_ok (ls @ [x]) rs a"
  "assoc_ok ls rs a \<Longrightarrow> assoc_ok ls (rs @ [x]) a"
  by (auto simp: assoc_ok_def)

lemma es_alloc_ok_grow [simp]:
  "es_alloc_ok ls rs a \<Longrightarrow> es_alloc_ok (ls @ [x]) rs a"
  "es_alloc_ok ls rs a \<Longrightarrow> es_alloc_ok ls (rs @ [x]) a"
  by (auto simp: es_alloc_ok_def)

section \<open>Policy classifiers and actions\<close>

lemma create_policy_classifier_inv:
  assumes "create_policy_classifier c i b db = Inr (db', d)" "i \<notin> set (ids (tb_classifiers db))"
    "db_inv db"
  shows "db_inv db'"
  using assms by (auto simp: create_policy_classifier_def Let_def bindE_eq_Inr db_inv_defs)

lemma update_policy_classifier_inv:
  assumes "update_policy_classifier c i u db = Inr (db', d)" "db_inv db"
  shows "db_inv db'"
  using assms by (auto simp: update_policy_classifier_def Let_def bindE_eq_Inr db_inv_defs)

lemma delete_policy_classifier_inv:
  assumes "delete_policy_classifier c i db = Inr db'" "db_inv db"
  shows "db_inv db'"
  using assms
  by (auto simp: delete_policy_classifier_def Let_def bindE_eq_Inr db_inv_defs split: if_splits)


lemma assoc_ok_unused_target:
  assumes "assoc_ok ls (ids t) a" "sources a j = []"
  shows "assoc_ok ls (ids (del_row j t)) a"
  using assms by (auto simp: assoc_ok_def sources_Nil image_iff)

lemma create_policy_action_inv:
  assumes "create_policy_action c i b db = Inr (db', d)" "i \<notin> set (ids (tb_actions db))" "db_inv db"
  shows "db_inv db'"
  using assms by (auto simp: create_policy_action_def Let_def bindE_eq_Inr db_inv_defs)

lemma update_policy_action_inv:
  assumes "update_policy_action c i u db = Inr (db', d)" "db_inv db"
  shows "db_inv db'"
  using assms by (auto simp: update_policy_action_def Let_def bindE_eq_Inr db_inv_defs)

lemma delete_policy_action_inv:
  assumes "delete_policy_action c i db = Inr db'" "db_inv db"
  shows "db_inv db'"
  using assms
  by (auto simp: delete_policy_action_def get_policy_action_rules_def bindE_eq_Inr db_inv_defs
      split: if_splits intro: assoc_ok_unused_target)

section \<open>Policy rules and rule sets\<close>

lemma create_policy_rule_inv:
  assumes op: "create_policy_rule c i b db = Inr (db', d)" and "i \<notin> set (ids (tb_rules db))" "db_inv db"
  shows "db_inv db'"
proof -
  from op obtain r where
    s: "set_actions_for_rule c i (prb_policy_actions b) (db\<lparr>tb_rules := tb_rules db @ [r]\<rparr>) = Inr db'"
    and r: "row_id r = i"
    by (auto simp: create_policy_rule_def Let_def bindE_eq_Inr)
  have "db_inv (db\<lparr>tb_rules := tb_rules db @ [r]\<rparr>)" using r assms(2,3) by (simp add: db_inv_defs)
  with set_actions_for_rule_Inr[OF s] r show ?thesis by (auto simp: db_inv_defs)
qed

lemma update_policy_rule_inv:
  assumes op: "update_policy_rule c i u db = Inr (db', d)" and "db_inv db"
  shows "db_inv db'"
proof -
  from op obtain r db1 where r: "get_policy_rule_row c i db = Inr r"
    and s: "if_present (pru_policy_actions u) (set_actions_for_rule c i) db = Inr db1"
    and d: "db' = db1\<lparr>tb_rules := upd_row i (upd_rule u) (tb_rules db1)\<rparr>"
    by (auto simp: update_policy_rule_def Let_def bindE_eq_Inr)
  have "i \<in> set (ids (tb_rules db))" using r by (simp add: get_policy_rule_row_def get_by_id_in_ids)
  with s assms(2) have "db_inv db1"
    by (auto simp: db_inv_defs dest!: if_present_cases set_actions_for_rule_Inr)
  with d show ?thesis by (simp add: db_inv_defs)
qed

lemma delete_policy_rule_inv:
  assumes "delete_policy_rule c i db = Inr db'" "db_inv db"
  shows "db_inv db'"
  using assms
  by (auto simp: delete_policy_rule_def get_policy_rule_policy_rule_sets_def bindE_eq_Inr db_inv_defs
      split: if_splits intro: assoc_ok_unused_target intro!: assoc_ok_drop_source)

lemma create_policy_rule_set_inv:
  assumes op: "create_policy_rule_set c i b db = Inr (db', d)" and "i \<notin> set (ids (tb_prss db))" "db_inv db"
  shows "db_inv db'"
proof -
  from op obtain r db2 where
    s: "set_rules_for_policy_rule_set c i (prsb_policy_rules b) (db\<lparr>tb_prss := tb_prss db @ [r]\<rparr>) = Inr db2"
    and t: "set_children_for_policy_rule_set c r (prsb_child_policy_rule_sets b) db2 = Inr db'"
    and r: "row_id r = i" "prs_parent_id r = None"
    by (auto simp: create_policy_rule_set_def Let_def bindE_eq_Inr)
  have "db_inv (db\<lparr>tb_prss := tb_prss db @ [r]\<rparr>)"
    using r assms(2,3) by (simp add: db_inv_defs prs_tree_append)
  with set_rules_for_policy_rule_set_Inr[OF s] r have "db_inv db2" "r \<in> set (tb_prss db2)"
    by (auto simp: db_inv_defs)
  with set_children_Inr[OF t] show ?thesis by (auto simp: db_inv_defs)
qed

lemma update_policy_rule_set_inv:
  assumes op: "update_policy_rule_set c i u db = Inr (db', d)" and "db_inv db"
  shows "db_inv db'"
proof -
  from op obtain r db1 db2 where r: "get_policy_rule_set_row c i db = Inr r"
    and s: "if_present (prsu_policy_rules u) (set_rules_for_policy_rule_set c i) db = Inr db1"
    and t: "if_present (prsu_child_policy_rule_sets u) (set_children_for_policy_rule_set c r) db1 = Inr db2"
    and d: "db' = db2\<lparr>tb_prss := upd_row i (upd_rule_set u) (tb_prss db2)\<rparr>"
    by (auto simp: update_policy_rule_set_def Let_def bindE_eq_Inr)
  from r have ri: "i \<in> set (ids (tb_prss db))" "r \<in> set (tb_prss db)"
    by (auto simp: get_policy_rule_set_row_def get_by_id_in_ids dest!: get_by_id_Inr)
  with s assms(2) have "db_inv db1" "r \<in> set (tb_prss db1)"
    by (auto simp: db_inv_defs dest!: if_present_cases set_rules_for_policy_rule_set_Inr)
  with t have "db_inv db2" by (auto simp: db_inv_defs dest!: if_present_cases set_children_Inr)
  with d show ?thesis by (simp add: db_inv_defs prs_tree_upd)
qed

lemma assoc_ok_del_prs:
  assumes "assoc_ok ls (ids t) a" "sources a j = []"
  shows "assoc_ok ls (ids (del_row j (clear_children k t))) a"
  using assms by (auto simp: assoc_ok_def sources_Nil image_iff)

lemma delete_policy_rule_set_inv:
  assumes op: "delete_policy_rule_set c i db = Inr db'" and inv: "db_inv db"
  shows "db_inv db'"
proof -
  from op have db': "db' = db\<lparr>tb_prss := del_row i (clear_children i (tb_prss db)),
      as_prs_pr := drop_sources i (as_prs_pr db)\<rparr>"
    and n: "sources (as_ptg_prov db) i = []" "sources (as_ptg_cons db) i = []"
      "sources (as_ep_prov db) i = []" "sources (as_ep_cons db) i = []"
    by (auto simp: delete_policy_rule_set_def get_ptgs_for_providing_policy_rule_set_def
        get_ptgs_for_consuming_policy_rule_set_def get_eps_for_providing_policy_rule_set_def
        get_eps_for_consuming_policy_rule_set_def bindE_eq_Inr split: if_splits)
  have "assoc_ok (ids (del_row i (clear_children i (tb_prss db)))) (ids (tb_rules db))
      (drop_sources i (as_prs_pr db))"
    using inv by (intro assoc_ok_drop_source[of "ids (tb_prss db)"]) (simp_all add: db_inv_defs)
  with inv n show ?thesis unfolding db' by (simp add: db_inv_defs assoc_ok_del_prs prs_tree_del)
qed

section \<open>Groups and targets\<close>

lemma add_ptg_subnets_Inr: "add_ptg_subnets i js db = Inr db' \<Longrightarrow> \<exists>a. db' = db\<lparr>as_ptg_subnet := a\<rparr>"
  by (auto simp: add_ptg_subnets_def bindE_eq_Inr)

lemma create_policy_target_group_inv:
  assumes op: "create_policy_target_group c i b db = Inr (db', d)" and "db_inv db"
  shows "db_inv db'"
proof -
  define u where "u = (case ptgb_id b of None \<Rightarrow> i | Some j \<Rightarrow> if j = [] then i else j)"
  from op obtain r db2 where u: "u \<notin> set (ids (tb_ptgs db))" and
    s: "if_present (ptgb_subnets b) (add_ptg_subnets u) (db\<lparr>tb_ptgs := tb_ptgs db @ [r]\<rparr>) = Inr db2"
    and t: "process_policy_rule_sets_for_ptg c u (ptgb_provided b) (ptgb_consumed b) db2 = Inr db'"
    and r: "row_id r = u"
    by (auto simp: create_policy_target_group_def Let_def bindE_eq_Inr u_def[symmetric] split: if_splits)
  have "db_inv (db\<lparr>tb_ptgs := tb_ptgs db @ [r]\<rparr>)" using r u assms(2) by (simp add: db_inv_defs)
  with s r have "db_inv db2" "u \<in> set (ids (tb_ptgs db2))"
    by (auto simp: db_inv_defs dest!: if_present_cases add_ptg_subnets_Inr)
  with process_prs_ptg_Inr[OF t] show ?thesis by (auto simp: db_inv_defs)
qed

lemma update_policy_target_group_inv:
  assumes op: "update_policy_target_group c i u db = Inr (db', d)" and "db_inv db"
  shows "db_inv db'"
proof -
  from op obtain r db1 where r: "get_policy_target_group_row c i db = Inr r"
    and t: "process_policy_rule_sets_for_ptg c i (ptgu_provided u) (ptgu_consumed u) db = Inr db1"
    and d: "db' = (let db2 = (case ptgu_subnets u of None \<Rightarrow> db1
         | Some js \<Rightarrow> db1\<lparr>as_ptg_subnet := sync_targets i js (as_ptg_subnet db1)\<rparr>)
       in db2\<lparr>tb_ptgs := upd_row i (upd_ptg u) (tb_ptgs db2)\<rparr>)"
    by (auto simp: update_policy_target_group_def Let_def bindE_eq_Inr)
  have "i \<in> set (ids (tb_ptgs db))"
    using r by (simp add: get_policy_target_group_row_def get_by_id_in_ids)
  with process_prs_ptg_Inr[OF t] assms(2) have "db_inv db1" by (auto simp: db_inv_defs)
  with d show ?thesis by (auto simp: db_inv_defs Let_def split: option.splits)
qed

lemma delete_policy_target_group_inv:
  assumes "delete_policy_target_group c i db = Inr db'" "db_inv db"
  shows "db_inv db'"
  using assms
  by (auto simp: delete_policy_target_group_def bindE_eq_Inr db_inv_defs intro!: assoc_ok_drop_source)

lemma ptg_setters_inv:
  assumes "db_inv db"
  shows "set_l2_policy_for_policy_target_group c i x db = Inr db' \<Longrightarrow> db_inv db'"
    and "set_application_policy_group_for_policy_target_group c i x db = Inr db' \<Longrightarrow> db_inv db'"
    and "set_network_service_policy_for_policy_target_group c i x db = Inr db' \<Longrightarrow> db_inv db'"
  using assms
  by (auto simp: set_l2_policy_for_policy_target_group_def
      set_application_policy_group_for_policy_target_group_def
      set_network_service_policy_for_policy_target_group_def bindE_eq_Inr db_inv_defs)

lemma create_policy_target_inv:
  assumes "create_policy_target c i b db = Inr (db', d)" "i \<notin> set (ids (tb_pts db))" "db_inv db"
  shows "db_inv db'"
  using assms by (auto simp: create_policy_target_def Let_def bindE_eq_Inr db_inv_defs)

lemma update_policy_target_inv:
  assumes "update_policy_target c i u db = Inr (db', d)" "db_inv db"
  shows "db_inv db'"
  using assms by (auto simp: update_policy_target_def bindE_eq_Inr db_inv_defs)

lemma delete_policy_target_inv:
  assumes "delete_policy_target c i db = Inr db'" "db_inv db"
  shows "db_inv db'"
  using assms by (auto simp: delete_policy_target_def bindE_eq_Inr db_inv_defs)

lemma set_port_for_policy_target_inv:
  assumes "set_port_for_policy_target c i x db = Inr db'" "db_inv db"
  shows "db_inv db'"
  using assms by (auto simp: set_port_for_policy_target_def bindE_eq_Inr db_inv_defs)

lemma create_application_policy_group_inv:
  assumes "create_application_policy_group c i b db = Inr (db', d)" "i \<notin> set (ids (tb_apgs db))"
    "db_inv db"
  shows "db_inv db'"
  using assms by (auto simp: create_application_policy_group_def Let_def bindE_eq_Inr db_inv_defs)

lemma update_application_policy_group_inv:
  assumes "update_application_policy_group c i u db = Inr (db', d)" "db_inv db"
  shows "db_inv db'"
  using assms by (auto simp: update_application_policy_group_def Let_def bindE_eq_Inr db_inv_defs)

lemma delete_application_policy_group_inv:
  assumes "delete_application_policy_group c i db = Inr db'" "db_inv db"
  shows "db_inv db'"
  using assms by (auto simp: delete_application_policy_group_def bindE_eq_Inr db_inv_defs)

section \<open>L2 policies and network service policies\<close>

lemma create_l2_policy_inv:
  assumes "create_l2_policy c i b db = Inr (db', d)" "i \<notin> set (ids (tb_l2ps db))" "db_inv db"
  shows "db_inv db'"
  using assms by (auto simp: create_l2_policy_def Let_def bindE_eq_Inr db_inv_defs)

lemma update_l2_policy_inv:
  assumes "update_l2_policy c i u db = Inr (db', d)" "db_inv db"
  shows "db_inv db'"
  using assms by (auto simp: update_l2_policy_def Let_def bindE_eq_Inr db_inv_defs)

lemma delete_l2_policy_inv:
  assumes "delete_l2_policy c i db = Inr db'" "db_inv db"
  shows "db_inv db'"
  using assms by (auto simp: delete_l2_policy_def bindE_eq_Inr db_inv_defs split: if_splits)

lemma l2p_setters_inv:
  assumes "db_inv db"
  shows "set_l3_policy_for_l2_policy c i x db = Inr db' \<Longrightarrow> db_inv db'"
    and "set_network_for_l2_policy c i x db = Inr db' \<Longrightarrow> db_inv db'"
  using assms
  by (auto simp: set_l3_policy_for_l2_policy_def set_network_for_l2_policy_def bindE_eq_Inr db_inv_defs)

lemma create_network_service_policy_inv:
  assumes "create_network_service_policy c i b db = Inr (db', d)" "i \<notin> set (ids (tb_nsps db))"
    "db_inv db"
  shows "db_inv db'"
  using assms
  by (auto simp: create_network_service_policy_def set_params_for_network_service_policy_def Let_def
      bindE_eq_Inr db_inv_defs)

lemma update_network_service_policy_inv:
  assumes "update_network_service_policy c i u ps db = Inr (db', d)" "db_inv db"
  shows "db_inv db'"
  using assms
  by (auto simp: update_network_service_policy_def set_params_for_network_service_policy_def Let_def
      bindE_eq_Inr db_inv_defs split: if_splits)

lemma delete_network_service_policy_inv:
  assumes "delete_network_service_policy c i db = Inr db'" "db_inv db"
  shows "db_inv db'"
  using assms
  by (auto simp: delete_network_service_policy_def bindE_eq_Inr db_inv_defs split: if_splits)

section \<open>L3 policies, external segments, external policies, NAT pools\<close>

lemma create_l3_policy_inv:
  assumes op: "create_l3_policy nw pf c i b db = Inr (db', d)" and "i \<notin> set (ids (tb_l3ps db))"
    "db_inv db"
  shows "db_inv db'"
proof -
  from op obtain sp4 sp6 rts db2 r where
    2: "if_present (l3pb_external_segments b) (set_ess_for_l3p c i)
          (db\<lparr>as_l3p_sp4 := sp4, as_l3p_sp6 := sp6, as_l3p_router := rts\<rparr>) = Inr db2"
    and 3: "db' = db2\<lparr>tb_l3ps := tb_l3ps db2 @ [r]\<rparr>" "row_id r = i"
    by (auto simp: create_l3_policy_def Let_def bindE_eq_Inr)
  define db1 where "db1 = db\<lparr>as_l3p_sp4 := sp4, as_l3p_sp6 := sp6, as_l3p_router := rts\<rparr>"
  have inv1: "db_inv db1" "tb_l3ps db1 = tb_l3ps db"
    using assms(3) by (simp_all add: db_inv_defs db1_def)
  have 2: "db2 = db1 \<or> (\<exists>q. set_ess_for_l3p c i q db1 = Inr db2)"
    using if_present_cases[OF 2] by (auto simp: db1_def)
  have "ids_inv db2 \<and> assoc_inv db2 \<and> prs_inv db2 \<and> tb_l3ps db2 = tb_l3ps db \<and>
      es_alloc_ok (ids (tb_l3ps db2) @ [i]) (ids (tb_ess db2)) (as_es_l3p db2)"
    using 2
  proof
    assume "db2 = db1"
    with inv1 show ?thesis by (simp add: db_inv_def es_inv_def)
  next
    assume "\<exists>q. set_ess_for_l3p c i q db1 = Inr db2"
    then obtain a where "db2 = db1\<lparr>as_es_l3p := a\<rparr>"
      "\<forall>ls. es_alloc_ok ls (ids (tb_ess db1)) (as_es_l3p db1) \<and> i \<in> set ls
        \<longrightarrow> es_alloc_ok ls (ids (tb_ess db1)) a" using set_ess_for_l3p_Inr by blast
    with inv1 show ?thesis by (simp add: db_inv_defs)
  qed
  with 3 assms(2) show ?thesis by (auto simp: db_inv_defs)
qed

lemma update_l3_policy_inv:
  assumes op: "update_l3_policy nw pf c i u db = Inr (db', d)" and "db_inv db"
  shows "db_inv db'"
proof -
  define db1 where "db1 = db\<lparr>as_l3p_sp4 := update_subnetpools i (l3pu_subnetpools_v4 u) (as_l3p_sp4 db),
    as_l3p_sp6 := update_subnetpools i (l3pu_subnetpools_v6 u) (as_l3p_sp6 db)\<rparr>"
  define db2 where "db2 = (case l3pu_routers u of None \<Rightarrow> db1
    | Some rs \<Rightarrow> db1\<lparr>as_l3p_router := sync_targets i rs (as_l3p_router db1)\<rparr>)"
  from op obtain r db3 where r: "get_l3_policy_row c i db = Inr r"
    and 3: "if_present (l3pu_external_segments u) (set_ess_for_l3p c i) db2 = Inr db3"
    and 4: "db' = db3\<lparr>tb_l3ps := upd_row i (upd_l3p u) (tb_l3ps db3)\<rparr>"
    unfolding update_l3_policy_def Let_def db1_def[symmetric] db2_def[symmetric]
    by (auto simp: bindE_eq_Inr split: if_splits)
  have "i \<in> set (ids (tb_l3ps db))" using r by (simp add: get_l3_policy_row_def get_by_id_in_ids)
  with assms(2) have "db_inv db2" "i \<in> set (ids (tb_l3ps db2))"
    by (auto simp: db_inv_defs db1_def db2_def split: option.splits)
  with 3 have "db_inv db3"
    by (auto simp: db_inv_defs dest!: if_present_cases set_ess_for_l3p_Inr)
  with 4 show ?thesis by (simp add: db_inv_defs)
qed

lemma delete_l3_policy_inv:
  assumes "delete_l3_policy c i db = Inr db'" "db_inv db"
  shows "db_inv db'"
  using assms
  by (auto simp: delete_l3_policy_def bindE_eq_Inr db_inv_defs es_alloc_ok_def drop_l3p_ess_def
      split: if_splits)

lemma router_setters_inv:
  assumes "db_inv db"
  shows "add_router_to_l3_policy c i x db = Inr (db', y) \<Longrightarrow> db_inv db'"
    and "remove_router_from_l3_policy c i x db = Inr (db', y) \<Longrightarrow> db_inv db'"
  using assms
  by (auto simp: add_router_to_l3_policy_def remove_router_from_l3_policy_def Let_def bindE_eq_Inr
      db_inv_defs split: if_splits)

lemma create_external_segment_inv:
  assumes "create_external_segment c i b db = Inr (db', d)" "i \<notin> set (ids (tb_ess db))" "db_inv db"
  shows "db_inv db'"
  using assms
  by (auto simp: create_external_segment_def Let_def bindE_eq_Inr db_inv_defs
      dest!: if_present_cases process_segment_ers_Inr)

lemma update_external_segment_inv:
  assumes "update_external_segment c i u db = Inr (db', d)" "db_inv db"
  shows "db_inv db'"
  using assms
  by (auto simp: update_external_segment_def Let_def bindE_eq_Inr db_inv_defs
      dest!: if_present_cases process_segment_ers_Inr)

lemma delete_external_segment_inv:
  assumes "delete_external_segment c i db = Inr db'" "db_inv db"
  shows "db_inv db'"
  using assms
  by (auto simp: delete_external_segment_def bindE_eq_Inr db_inv_defs es_alloc_ok_def
      intro!: assoc_ok_drop_target)

lemma create_external_policy_inv:
  assumes op: "create_external_policy c i b db = Inr (db', d)" and "i \<notin> set (ids (tb_eps db))"
    "db_inv db"
  shows "db_inv db'"
proof -
  from op obtain r db2 where
    s: "if_present (epb_external_segments b) (set_ess_for_ep c i) (db\<lparr>tb_eps := tb_eps db @ [r]\<rparr>) = Inr db2"
    and t: "process_policy_rule_sets_for_ep c i (epb_provided b) (epb_consumed b) db2 = Inr db'"
    and r: "row_id r = i"
    by (auto simp: create_external_policy_def Let_def bindE_eq_Inr)
  have "db_inv (db\<lparr>tb_eps := tb_eps db @ [r]\<rparr>)" using r assms(2,3) by (simp add: db_inv_defs)
  with s r have "db_inv db2" "i \<in> set (ids (tb_eps db2))"
    by (auto simp: db_inv_defs dest!: if_present_cases set_ess_for_ep_Inr)
  with process_prs_ep_Inr[OF t] show ?thesis by (auto simp: db_inv_defs)
qed

lemma update_external_policy_inv:
  assumes op: "update_external_policy c i u db = Inr (db', d)" and "db_inv db"
  shows "db_inv db'"
proof -
  from op obtain r db1 db2 where r: "get_external_policy_row c i db = Inr r"
    and s: "if_present (epu_external_segments u) (set_ess_for_ep c i) db = Inr db1"
    and t: "process_policy_rule_sets_for_ep c i (epu_provided u) (epu_consumed u) db1 = Inr db2"
    and d: "db' = db2\<lparr>tb_eps := upd_row i (upd_shared u) (tb_eps db2)\<rparr>"
    by (auto simp: update_external_policy_def Let_def bindE_eq_Inr)
  have "i \<in> set (ids (tb_eps db))"
    using r by (simp add: get_external_policy_row_def get_by_id_in_ids)
  with s assms(2) have "db_inv db1" "i \<in> set (ids (tb_eps db1))"
    by (auto simp: db_inv_defs dest!: if_present_cases set_ess_for_ep_Inr)
  with process_prs_ep_Inr[OF t] have "db_inv db2" by (auto simp: db_inv_defs)
  with d show ?thesis by (simp add: db_inv_defs)
qed

lemma delete_external_policy_inv:
  assumes "delete_external_policy c i db = Inr db'" "db_inv db"
  shows "db_inv db'"
  using assms
  by (auto simp: delete_external_policy_def bindE_eq_Inr db_inv_defs intro!: assoc_ok_drop_source)

lemma create_nat_pool_inv:
  assumes "create_nat_pool c i b db = Inr (db', d)" "i \<notin> set (ids (tb_nps db))" "db_inv db"
  shows "db_inv db'"
  using assms by (auto simp: create_nat_pool_def Let_def bindE_eq_Inr db_inv_defs)

lemma update_nat_pool_inv:
  assumes "update_nat_pool c i u db = Inr (db', d)" "db_inv db"
  shows "db_inv db'"
  using assms by (auto simp: update_nat_pool_def bindE_eq_Inr db_inv_defs)

lemma delete_nat_pool_inv:
  assumes "delete_nat_pool c i db = Inr db'" "db_inv db"
  shows "db_inv db'"
  using assms by (auto simp: delete_nat_pool_def bindE_eq_Inr db_inv_defs)

section \<open>Mapping columns\<close>

lemma row_id_set_address_scope [simp]: "row_id (set_address_scope_for_l3_policy s v r) = row_id r"
  by (simp add: set_address_scope_for_l3_policy_def)

lemma mapping_setters_inv:
  assumes "db_inv db"
  shows "set_address_scope_for_l3_policy_by_id c i s v db = Inr db' \<Longrightarrow> db_inv db'"
    and "add_subnetpools_to_l3_policy_by_id c i sps v db = Inr db' \<Longrightarrow> db_inv db'"
    and "remove_subnetpool_from_l3_policy c i sp v db = Inr db' \<Longrightarrow> db_inv db'"
    and "set_subnet_to_es c i s db = Inr db' \<Longrightarrow> db_inv db'"
    and "set_subnet_to_np c i s db = Inr db' \<Longrightarrow> db_inv db'"
  using assms
  by (auto simp: set_address_scope_for_l3_policy_by_id_def add_subnetpools_to_l3_policy_by_id_def
      add_subnetpools_to_l3_policy_def remove_subnetpool_from_l3_policy_def set_subnet_to_es_def
      set_subnet_to_np_def bindE_eq_Inr db_inv_defs split: if_splits)

lemma update_ess_for_l3p_inv:
  assumes "update_ess_for_l3p c i q db = Inr db'" "db_inv db"
  shows "db_inv db'"
  using assms
  by (auto simp: update_ess_for_l3p_def get_l3_policy_row_def bindE_eq_Inr db_inv_defs
      dest!: get_by_id_in_ids set_ess_for_l3p_Inr)

lemma ptg_subnet_setters_inv:
  assumes "db_inv db"
  shows "add_subnet_to_policy_target_group c i s db = Inr (db', y) \<Longrightarrow> db_inv db'"
    and "remove_subnets_from_policy_target_group c i db = Inr (db', y) \<Longrightarrow> db_inv db'"
    and "db_inv (remove_subnets_from_policy_target_groups ss db)"
  using assms
  by (auto simp: add_subnet_to_policy_target_group_def add_ptg_subnets_def
      remove_subnets_from_policy_target_group_def remove_subnets_from_policy_target_groups_def
      bindE_eq_Inr db_inv_defs)

end
