(* ===== verification/Db_Steps.thy ===== *)
theory Db_Steps
  imports Db_Preserve
begin

text \<open>
  The database plugin as a state machine.  A request of one of the thirteen resources, or a
  setter that a driver calls through its operation context, is a value of \<open>db_op\<close>;
  \<open>exec_op\<close> runs it as the plugin does.  A step of the machine runs one operation inside its
  transaction, which a raised exception rolls back, and the reachable databases are those that
  steps lead to from the empty tables.  A new row gets an id no row of its table has, as
  \<^verbatim>\<open>uuidutils.generate_uuid\<close> provides.
\<close>

section \<open>Operations\<close>

datatype create_req =
    NewPolicyClassifier pc_body
  | NewPolicyAction pa_body
  | NewPolicyRule pr_body
  | NewPolicyRuleSet prs_body
  | NewPolicyTarget pt_body
  | NewPolicyTargetGroup ptg_body
  | NewApplicationPolicyGroup shared_body
  | NewL2Policy l2p_body
  | NewNetworkServicePolicy nsp_body
  | NewL3Policy l3p_body
  | NewExternalSegment es_body
  | NewExternalPolicy ep_body
  | NewNatPool np_body

datatype update_req =
    UpdPolicyClassifier pc_upd
  | UpdPolicyAction pa_upd
  | UpdPolicyRule pr_upd
  | UpdPolicyRuleSet prs_upd
  | UpdPolicyTarget pt_upd
  | UpdPolicyTargetGroup ptg_upd
  | UpdApplicationPolicyGroup shared_upd
  | UpdL2Policy l2p_upd
  | UpdNetworkServicePolicy shared_upd "nsp_param list"
  | UpdL3Policy l3p_upd
  | UpdExternalSegment es_upd
  | UpdExternalPolicy ep_upd
  | UpdNatPool np_upd

datatype set_req =
    SetL2pOfPtg string "string option"
  | SetApgOfPtg string "string option"
  | SetNspOfPtg string "string option"
  | AddSubnetToPtg string string
  | RemoveSubnetsFromPtg string
  | RemoveSubnetsFromPtgs "string list"
  | SetPortOfPt string "string option"
  | SetL3pOfL2p string "string option"
  | SetNetworkOfL2p string "string option"
  | SetAddressScopeOfL3p string "string option" int
  | AddSubnetpoolsToL3p string "string list" int
  | RemoveSubnetpoolFromL3p string string int
  | AddRouterToL3p string string
  | RemoveRouterFromL3p string string
  | SetEssOfL3p string es_request
  | SetSubnetOfEs string "string option"
  | SetSubnetOfNp string "string option"

datatype db_op =
    Create create_req
  | Update string update_req
  | Delete res_type string
  | Set set_req

text \<open>The ids in use in the table of a resource.\<close>

fun table_ids :: "res_type \<Rightarrow> gbp_db \<Rightarrow> string list" where
  "table_ids PolicyClassifier db = ids (tb_classifiers db)"
| "table_ids PolicyAction db = ids (tb_actions db)"
| "table_ids PolicyRule db = ids (tb_rules db)"
| "table_ids PolicyRuleSet db = ids (tb_prss db)"
| "table_ids PolicyTarget db = ids (tb_pts db)"
| "table_ids PolicyTargetGroup db = ids (tb_ptgs db)"
| "table_ids ApplicationPolicyGroup db = ids (tb_apgs db)"
| "table_ids L2Policy db = ids (tb_l2ps db)"
| "table_ids NetworkServicePolicy db = ids (tb_nsps db)"
| "table_ids L3Policy db = ids (tb_l3ps db)"
| "table_ids ExternalSegment db = ids (tb_ess db)"
| "table_ids ExternalPolicy db = ids (tb_eps db)"
| "table_ids NatPool db = ids (tb_nps db)"

fun create_type :: "create_req \<Rightarrow> res_type" where
  "create_type (NewPolicyClassifier b) = PolicyClassifier"
| "create_type (NewPolicyAction b) = PolicyAction"
| "create_type (NewPolicyRule b) = PolicyRule"
| "create_type (NewPolicyRuleSet b) = PolicyRuleSet"
| "create_type (NewPolicyTarget b) = PolicyTarget"
| "create_type (NewPolicyTargetGroup b) = PolicyTargetGroup"
| "create_type (NewApplicationPolicyGroup b) = ApplicationPolicyGroup"
| "create_type (NewL2Policy b) = L2Policy"
| "create_type (NewNetworkServicePolicy b) = NetworkServicePolicy"
| "create_type (NewL3Policy b) = L3Policy"
| "create_type (NewExternalSegment b) = ExternalSegment"
| "create_type (NewExternalPolicy b) = ExternalPolicy"
| "create_type (NewNatPool b) = NatPool"

fun update_type :: "update_req \<Rightarrow> res_type" where
  "update_type (UpdPolicyClassifier u) = PolicyClassifier"
| "update_type (UpdPolicyAction u) = PolicyAction"
| "update_type (UpdPolicyRule u) = PolicyRule"
| "update_type (UpdPolicyRuleSet u) = PolicyRuleSet"
| "update_type (UpdPolicyTarget u) = PolicyTarget"
| "update_type (UpdPolicyTargetGroup u) = PolicyTargetGroup"
| "update_type (UpdApplicationPolicyGroup u) = ApplicationPolicyGroup"
| "update_type (UpdL2Policy u) = L2Policy"
| "update_type (UpdNetworkServicePolicy u ps) = NetworkServicePolicy"
| "update_type (UpdL3Policy u) = L3Policy"
| "update_type (UpdExternalSegment u) = ExternalSegment"
| "update_type (UpdExternalPolicy u) = ExternalPolicy"
| "update_type (UpdNatPool u) = NatPool"

definition db_of :: "gbp_error + gbp_db \<times> 'd \<Rightarrow> gbp_error + gbp_db" where
  "db_of m = bindE m (\<lambda>(db, d). Inr db)"

text \<open>What is outside the repository and the operations need: the reading of networks and the
  prefixes of subnet pools.\<close>

record db_env =
  env_ip_network :: net_parser
  env_prefixes_of :: "string list \<Rightarrow> string list"

fun exec_create :: "db_env \<Rightarrow> ctx \<Rightarrow> string \<Rightarrow> create_req \<Rightarrow> gbp_db \<Rightarrow> gbp_error + gbp_db" where
  "exec_create e c i (NewPolicyClassifier b) db = db_of (create_policy_classifier c i b db)"
| "exec_create e c i (NewPolicyAction b) db = db_of (create_policy_action c i b db)"
| "exec_create e c i (NewPolicyRule b) db = db_of (create_policy_rule c i b db)"
| "exec_create e c i (NewPolicyRuleSet b) db = db_of (create_policy_rule_set c i b db)"
| "exec_create e c i (NewPolicyTarget b) db = db_of (create_policy_target c i b db)"
| "exec_create e c i (NewPolicyTargetGroup b) db = db_of (create_policy_target_group c i b db)"
| "exec_create e c i (NewApplicationPolicyGroup b) db = db_of (create_application_policy_group c i b db)"
| "exec_create e c i (NewL2Policy b) db = db_of (create_l2_policy c i b db)"
| "exec_create e c i (NewNetworkServicePolicy b) db = db_of (create_network_service_policy c i b db)"
| "exec_create e c i (NewL3Policy b) db = db_of (create_l3_policy (env_ip_network e) (env_prefixes_of e) c i b db)"
| "exec_create e c i (NewExternalSegment b) db = db_of (create_external_segment c i b db)"
| "exec_create e c i (NewExternalPolicy b) db = db_of (create_external_policy c i b db)"
| "exec_create e c i (NewNatPool b) db = db_of (create_nat_pool c i b db)"

fun exec_update :: "db_env \<Rightarrow> ctx \<Rightarrow> string \<Rightarrow> update_req \<Rightarrow> gbp_db \<Rightarrow> gbp_error + gbp_db" where
  "exec_update e c i (UpdPolicyClassifier u) db = db_of (update_policy_classifier c i u db)"
| "exec_update e c i (UpdPolicyAction u) db = db_of (update_policy_action c i u db)"
| "exec_update e c i (UpdPolicyRule u) db = db_of (update_policy_rule c i u db)"
| "exec_update e c i (UpdPolicyRuleSet u) db = db_of (update_policy_rule_set c i u db)"
| "exec_update e c i (UpdPolicyTarget u) db = db_of (update_policy_target c i u db)"
| "exec_update e c i (UpdPolicyTargetGroup u) db = db_of (update_policy_target_group c i u db)"
| "exec_update e c i (UpdApplicationPolicyGroup u) db = db_of (update_application_policy_group c i u db)"
| "exec_update e c i (UpdL2Policy u) db = db_of (update_l2_policy c i u db)"
| "exec_update e c i (UpdNetworkServicePolicy u ps) db = db_of (update_network_service_policy c i u ps db)"
| "exec_update e c i (UpdL3Policy u) db = db_of (update_l3_policy (env_ip_network e) (env_prefixes_of e) c i u db)"
| "exec_update e c i (UpdExternalSegment u) db = db_of (update_external_segment c i u db)"
| "exec_update e c i (UpdExternalPolicy u) db = db_of (update_external_policy c i u db)"
| "exec_update e c i (UpdNatPool u) db = db_of (update_nat_pool c i u db)"

fun exec_delete :: "ctx \<Rightarrow> res_type \<Rightarrow> string \<Rightarrow> gbp_db \<Rightarrow> gbp_error + gbp_db" where
  "exec_delete c PolicyClassifier i db = delete_policy_classifier c i db"
| "exec_delete c PolicyAction i db = delete_policy_action c i db"
| "exec_delete c PolicyRule i db = delete_policy_rule c i db"
| "exec_delete c PolicyRuleSet i db = delete_policy_rule_set c i db"
| "exec_delete c PolicyTarget i db = delete_policy_target c i db"
| "exec_delete c PolicyTargetGroup i db = delete_policy_target_group c i db"
| "exec_delete c ApplicationPolicyGroup i db = delete_application_policy_group c i db"
| "exec_delete c L2Policy i db = delete_l2_policy c i db"
| "exec_delete c NetworkServicePolicy i db = delete_network_service_policy c i db"
| "exec_delete c L3Policy i db = delete_l3_policy c i db"
| "exec_delete c ExternalSegment i db = delete_external_segment c i db"
| "exec_delete c ExternalPolicy i db = delete_external_policy c i db"
| "exec_delete c NatPool i db = delete_nat_pool c i db"

fun exec_set :: "ctx \<Rightarrow> set_req \<Rightarrow> gbp_db \<Rightarrow> gbp_error + gbp_db" where
  "exec_set c (SetL2pOfPtg i x) db = set_l2_policy_for_policy_target_group c i x db"
| "exec_set c (SetApgOfPtg i x) db = set_application_policy_group_for_policy_target_group c i x db"
| "exec_set c (SetNspOfPtg i x) db = set_network_service_policy_for_policy_target_group c i x db"
| "exec_set c (AddSubnetToPtg i s) db = db_of (add_subnet_to_policy_target_group c i s db)"
| "exec_set c (RemoveSubnetsFromPtg i) db = db_of (remove_subnets_from_policy_target_group c i db)"
| "exec_set c (RemoveSubnetsFromPtgs ss) db = Inr (remove_subnets_from_policy_target_groups ss db)"
| "exec_set c (SetPortOfPt i x) db = set_port_for_policy_target c i x db"
| "exec_set c (SetL3pOfL2p i x) db = set_l3_policy_for_l2_policy c i x db"
| "exec_set c (SetNetworkOfL2p i x) db = set_network_for_l2_policy c i x db"
| "exec_set c (SetAddressScopeOfL3p i x v) db = set_address_scope_for_l3_policy_by_id c i x v db"
| "exec_set c (AddSubnetpoolsToL3p i xs v) db = add_subnetpools_to_l3_policy_by_id c i xs v db"
| "exec_set c (RemoveSubnetpoolFromL3p i x v) db = remove_subnetpool_from_l3_policy c i x v db"
| "exec_set c (AddRouterToL3p i x) db = db_of (add_router_to_l3_policy c i x db)"
| "exec_set c (RemoveRouterFromL3p i x) db = db_of (remove_router_from_l3_policy c i x db)"
| "exec_set c (SetEssOfL3p i q) db = update_ess_for_l3p c i q db"
| "exec_set c (SetSubnetOfEs i x) db = set_subnet_to_es c i x db"
| "exec_set c (SetSubnetOfNp i x) db = set_subnet_to_np c i x db"

fun exec_op :: "db_env \<Rightarrow> ctx \<Rightarrow> string \<Rightarrow> db_op \<Rightarrow> gbp_db \<Rightarrow> gbp_error + gbp_db" where
  "exec_op e c i (Create r) db = exec_create e c i r db"
| "exec_op e c i (Update j u) db = exec_update e c j u db"
| "exec_op e c i (Delete rt j) db = exec_delete c rt j db"
| "exec_op e c i (Set s) db = exec_set c s db"

section \<open>Steps\<close>

text \<open>The new id is one that the table does not hold; only creations use it.\<close>

fun op_fresh :: "string \<Rightarrow> db_op \<Rightarrow> gbp_db \<Rightarrow> bool" where
  "op_fresh i (Create r) db \<longleftrightarrow> i \<notin> set (table_ids (create_type r) db)"
| "op_fresh i op db \<longleftrightarrow> True"

inductive db_step :: "db_env \<Rightarrow> gbp_db \<Rightarrow> db_op \<Rightarrow> gbp_db \<Rightarrow> bool" for e where
  commit: "op_fresh i op db \<Longrightarrow> exec_op e c i op db = Inr db' \<Longrightarrow> db_step e db op db'"
| rollback: "exec_op e c i op db = Inl err \<Longrightarrow> db_step e db op db"

inductive db_reachable :: "db_env \<Rightarrow> gbp_db \<Rightarrow> bool" for e where
  init: "db_reachable e empty_db"
| step: "db_reachable e db \<Longrightarrow> db_step e db op db' \<Longrightarrow> db_reachable e db'"

inductive_cases db_stepE: "db_step e db op db'"

lemma db_of_Inr [simp]: "db_of m = Inr db \<longleftrightarrow> (\<exists>d. m = Inr (db, d))"
  by (auto simp: db_of_def bindE_eq_Inr)

lemma db_of_Inl [simp]: "db_of m = Inl e \<longleftrightarrow> m = Inl e"
  by (auto simp: db_of_def bindE_eq_Inl)

section \<open>The invariant holds in every reachable database\<close>

lemmas create_invs =
  create_policy_classifier_inv create_policy_action_inv create_policy_rule_inv create_policy_rule_set_inv create_policy_target_inv create_policy_target_group_inv create_application_policy_group_inv create_l2_policy_inv create_network_service_policy_inv create_l3_policy_inv create_external_segment_inv create_external_policy_inv create_nat_pool_inv

lemmas update_invs =
  update_policy_classifier_inv update_policy_action_inv update_policy_rule_inv update_policy_rule_set_inv update_policy_target_inv update_policy_target_group_inv update_application_policy_group_inv update_l2_policy_inv update_network_service_policy_inv update_l3_policy_inv update_external_segment_inv update_external_policy_inv update_nat_pool_inv

lemmas delete_invs =
  delete_policy_classifier_inv delete_policy_action_inv delete_policy_rule_inv delete_policy_rule_set_inv delete_policy_target_inv delete_policy_target_group_inv delete_application_policy_group_inv delete_l2_policy_inv delete_network_service_policy_inv delete_l3_policy_inv delete_external_segment_inv delete_external_policy_inv delete_nat_pool_inv

lemmas set_invs =
  ptg_setters_inv set_port_for_policy_target_inv l2p_setters_inv router_setters_inv
  mapping_setters_inv update_ess_for_l3p_inv ptg_subnet_setters_inv

lemma exec_create_inv:
  "exec_create e c i r db = Inr db' \<Longrightarrow> i \<notin> set (table_ids (create_type r) db) \<Longrightarrow> db_inv db \<Longrightarrow> db_inv db'"
  by (cases r) (auto intro: create_invs)

lemma exec_update_inv: "exec_update e c i u db = Inr db' \<Longrightarrow> db_inv db \<Longrightarrow> db_inv db'"
  by (cases u) (auto intro: update_invs)

lemma exec_delete_inv: "exec_delete c rt i db = Inr db' \<Longrightarrow> db_inv db \<Longrightarrow> db_inv db'"
  by (cases rt) (auto intro: delete_invs)

lemma exec_set_inv: "exec_set c s db = Inr db' \<Longrightarrow> db_inv db \<Longrightarrow> db_inv db'"
  by (cases s) (auto intro: set_invs)

lemma db_step_inv: "db_step e db op db' \<Longrightarrow> db_inv db \<Longrightarrow> db_inv db'"
  by (erule db_stepE; cases op)
     (auto intro: exec_create_inv exec_update_inv exec_delete_inv exec_set_inv)

lemma reachable_inv: "db_reachable e db \<Longrightarrow> db_inv db"
  by (induction rule: db_reachable.induct) (auto intro: db_inv_empty db_step_inv)

end
