(* ===== verification/Db_Ownership.thy ===== *)
theory Db_Ownership
  imports Db_Steps
begin

text \<open>
  What the operations of the database plugin mean for the inventory of resources: the
  refinement of the thirteen tables to one map from a resource type and an id to the tenant
  that owns the resource.  A creation adds one entry, a deletion removes one, and nothing else
  changes an entry.
\<close>

section \<open>Keys of a table\<close>

definition keys :: "'a gbp_row_scheme list \<Rightarrow> (string \<times> string) list" where
  "keys t = map (\<lambda>r. (row_id r, row_tenant r)) t"

fun table_keys :: "res_type \<Rightarrow> gbp_db \<Rightarrow> (string \<times> string) list" where
  "table_keys PolicyClassifier db = keys (tb_classifiers db)"
| "table_keys PolicyAction db = keys (tb_actions db)"
| "table_keys PolicyRule db = keys (tb_rules db)"
| "table_keys PolicyRuleSet db = keys (tb_prss db)"
| "table_keys PolicyTarget db = keys (tb_pts db)"
| "table_keys PolicyTargetGroup db = keys (tb_ptgs db)"
| "table_keys ApplicationPolicyGroup db = keys (tb_apgs db)"
| "table_keys L2Policy db = keys (tb_l2ps db)"
| "table_keys NetworkServicePolicy db = keys (tb_nsps db)"
| "table_keys L3Policy db = keys (tb_l3ps db)"
| "table_keys ExternalSegment db = keys (tb_ess db)"
| "table_keys ExternalPolicy db = keys (tb_eps db)"
| "table_keys NatPool db = keys (tb_nps db)"

lemma fst_keys: "map fst (keys t) = ids t"
  by (simp add: keys_def ids_def)

lemma map_fst_table_keys: "map fst (table_keys rt db) = table_ids rt db"
  by (cases rt) (simp_all add: fst_keys)

lemma keys_append [simp]: "keys (t @ u) = keys t @ keys u"
  by (simp add: keys_def)

lemma keys_Cons [simp]: "keys (r # t) = (row_id r, row_tenant r) # keys t"
  by (simp add: keys_def)

lemma keys_Nil [simp]: "keys [] = []"
  by (simp add: keys_def)

lemma keys_upd_row [simp]:
  "(\<And>r. row_id (f r) = row_id r) \<Longrightarrow> (\<And>r. row_tenant (f r) = row_tenant r) \<Longrightarrow>
   keys (upd_row i f t) = keys t"
  by (simp add: keys_def upd_row_def)

lemma keys_del_row [simp]: "keys (del_row i t) = filter (\<lambda>k. fst k \<noteq> i) (keys t)"
  by (induction t) (auto simp: keys_def del_row_def)

lemma keys_orphans [simp]:
  "keys (orphan_pts i t1) = keys t1" "keys (orphan_apg_ptgs i t2) = keys t2"
  "keys (orphan_nps i t3) = keys t3" "keys (clear_children i t4) = keys t4"
  "keys (adopt i js t4) = keys t4"
  by (simp_all add: keys_def orphan_pts_def orphan_apg_ptgs_def orphan_nps_def clear_children_def
      adopt_def)

lemma row_tenant_upds [simp]:
  "row_tenant (upd_classifier u1 p r1) = row_tenant r1"
  "row_tenant (upd_action u2 r2) = row_tenant r2"
  "row_tenant (upd_rule u3 r3) = row_tenant r3"
  "row_tenant (upd_rule_set u4 r4) = row_tenant r4"
  "row_tenant (upd_ptg u5 r5) = row_tenant r5"
  "row_tenant (upd_pt u6 r6) = row_tenant r6"
  "row_tenant (upd_l2p u7 r7) = row_tenant r7"
  "row_tenant (upd_l3p u8 r8) = row_tenant r8"
  "row_tenant (upd_es u9 r9) = row_tenant r9"
  "row_tenant (upd_np u10 r10) = row_tenant r10"
  "row_tenant (set_address_scope_for_l3_policy s v r8) = row_tenant r8"
  by (simp_all add: upd_classifier_def upd_action_def upd_rule_def upd_rule_set_def upd_ptg_def
      upd_pt_def upd_l2p_def upd_l3p_def upd_es_def upd_np_def set_address_scope_for_l3_policy_def)

lemma row_tenant_new [simp]:
  "row_tenant (new_shared_row i t b) = t" "row_tenant (new_mapping_row i t b) = t"
  by (simp_all add: new_shared_row_def new_mapping_row_def)

section \<open>Helpers keep the keys\<close>

definition same_keys :: "gbp_db \<Rightarrow> gbp_db \<Rightarrow> bool" where
  "same_keys db db' \<longleftrightarrow> (\<forall>rt. table_keys rt db' = table_keys rt db)"

lemma same_keysI: "(\<And>rt. table_keys rt db' = table_keys rt db) \<Longrightarrow> same_keys db db'"
  by (simp add: same_keys_def)

lemma same_keys_refl [simp]: "same_keys db db"
  by (simp add: same_keys_def)

lemma same_keys_trans: "same_keys a b \<Longrightarrow> same_keys b c \<Longrightarrow> same_keys a c"
  by (simp add: same_keys_def)

lemma same_keys_table: "same_keys db db' \<Longrightarrow> table_keys rt db' = table_keys rt db"
  by (simp add: same_keys_def)

lemma same_keys_assocs [simp]:
  "same_keys db (db\<lparr>as_ptg_prov := a\<rparr>)" "same_keys db (db\<lparr>as_ptg_cons := a\<rparr>)"
  "same_keys db (db\<lparr>as_ep_prov := a\<rparr>)" "same_keys db (db\<lparr>as_ep_cons := a\<rparr>)"
  "same_keys db (db\<lparr>as_prs_pr := a\<rparr>)" "same_keys db (db\<lparr>as_pr_pa := a\<rparr>)"
  "same_keys db (db\<lparr>as_ep_es := a\<rparr>)" "same_keys db (db\<lparr>as_ptg_subnet := a\<rparr>)"
  "same_keys db (db\<lparr>as_l3p_router := a\<rparr>)" "same_keys db (db\<lparr>as_l3p_sp4 := a\<rparr>)"
  "same_keys db (db\<lparr>as_l3p_sp6 := a\<rparr>)" "same_keys db (db\<lparr>as_es_l3p := x\<rparr>)"
  "same_keys db (db\<lparr>tb_routes := y\<rparr>)" "same_keys db (db\<lparr>tb_nsparams := z\<rparr>)"
  by (rule same_keysI, case_tac rt, simp_all)+

lemma same_keys_prss [simp]: "keys t = keys (tb_prss db) \<Longrightarrow> same_keys db (db\<lparr>tb_prss := t\<rparr>)"
  by (rule same_keysI, case_tac rt, simp_all)

lemma if_present_same_keys:
  "if_present k f db = Inr db' \<Longrightarrow> (\<And>v d. f v db = Inr d \<Longrightarrow> same_keys db d) \<Longrightarrow> same_keys db db'"
  by (auto dest!: if_present_cases)

named_theorems keeps \<open>helpers that keep the keys of every table\<close>

lemma set_actions_keeps [keeps]: "set_actions_for_rule c i js db = Inr db' \<Longrightarrow> same_keys db db'"
  by (auto dest!: set_actions_for_rule_Inr)

lemma set_rules_keeps [keeps]: "set_rules_for_policy_rule_set c i js db = Inr db' \<Longrightarrow> same_keys db db'"
  by (auto dest!: set_rules_for_policy_rule_set_Inr)

lemma set_children_keeps [keeps]:
  "set_children_for_policy_rule_set c r js db = Inr db' \<Longrightarrow> same_keys db db'"
  by (auto simp: set_children_for_policy_rule_set_def Let_def bindE_eq_Inr split: if_splits)

lemma set_prs_keeps [keeps]:
  "set_providers_or_consumers_for_policy_target_group c i js p db = Inr db' \<Longrightarrow> same_keys db db'"
  by (auto simp: set_providers_or_consumers_for_policy_target_group_def bindE_eq_Inr split: if_splits)

lemma set_prs_ep_keeps [keeps]:
  "set_providers_or_consumers_for_ep c i js p db = Inr db' \<Longrightarrow> same_keys db db'"
  by (auto simp: set_providers_or_consumers_for_ep_def bindE_eq_Inr split: if_splits)

lemma process_prs_ptg_keeps [keeps]:
  "process_policy_rule_sets_for_ptg c i ps cs db = Inr db' \<Longrightarrow> same_keys db db'"
  by (auto simp: process_policy_rule_sets_for_ptg_def bindE_eq_Inr dest!: if_present_cases
      intro: keeps same_keys_trans)

lemma process_prs_ep_keeps [keeps]:
  "process_policy_rule_sets_for_ep c i ps cs db = Inr db' \<Longrightarrow> same_keys db db'"
  by (auto simp: process_policy_rule_sets_for_ep_def bindE_eq_Inr dest!: if_present_cases
      intro: keeps same_keys_trans)

lemma add_ptg_subnets_keeps [keeps]: "add_ptg_subnets i js db = Inr db' \<Longrightarrow> same_keys db db'"
  by (auto dest!: add_ptg_subnets_Inr)

lemma set_ess_for_l3p_keeps [keeps]: "set_ess_for_l3p c i q db = Inr db' \<Longrightarrow> same_keys db db'"
  by (auto dest!: set_ess_for_l3p_Inr)

lemma set_ess_for_ep_keeps [keeps]: "set_ess_for_ep c i js db = Inr db' \<Longrightarrow> same_keys db db'"
  by (auto dest!: set_ess_for_ep_Inr)

lemma process_segment_ers_keeps [keeps]: "process_segment_ers i rs db = Inr db' \<Longrightarrow> same_keys db db'"
  by (auto dest!: process_segment_ers_Inr)

lemma set_params_keeps [simp]: "same_keys db (set_params_for_network_service_policy i ps db)"
  by (simp add: set_params_for_network_service_policy_def)

lemma if_present_keeps [keeps]:
  "if_present k (set_actions_for_rule c i) db = Inr db' \<Longrightarrow> same_keys db db'"
  "if_present k (set_rules_for_policy_rule_set c i) db = Inr db' \<Longrightarrow> same_keys db db'"
  "if_present k (set_children_for_policy_rule_set c r) db = Inr db' \<Longrightarrow> same_keys db db'"
  "if_present k (add_ptg_subnets i) db = Inr db' \<Longrightarrow> same_keys db db'"
  "if_present k' (set_ess_for_l3p c i) db = Inr db' \<Longrightarrow> same_keys db db'"
  "if_present k (set_ess_for_ep c i) db = Inr db' \<Longrightarrow> same_keys db db'"
  "if_present k'' (process_segment_ers i) db = Inr db' \<Longrightarrow> same_keys db db'"
  by (erule if_present_same_keys, rule keeps, assumption)+


section \<open>The operations\<close>

definition adds_key :: "res_type \<Rightarrow> string \<Rightarrow> string \<Rightarrow> gbp_db \<Rightarrow> gbp_db \<Rightarrow> bool" where
  "adds_key rt i t db db' \<longleftrightarrow>
     (\<forall>rt'. table_keys rt' db' = table_keys rt' db @ (if rt' = rt then [(i, t)] else []))"

definition removes_key :: "res_type \<Rightarrow> string \<Rightarrow> gbp_db \<Rightarrow> gbp_db \<Rightarrow> bool" where
  "removes_key rt i db db' \<longleftrightarrow>
     (\<forall>rt'. table_keys rt' db' =
        (if rt' = rt then filter (\<lambda>k. fst k \<noteq> i) (table_keys rt db) else table_keys rt' db))"

lemma adds_key_same: "adds_key rt i t db db1 \<Longrightarrow> same_keys db1 db2 \<Longrightarrow> adds_key rt i t db db2"
  by (simp add: adds_key_def same_keys_def)

lemma same_adds_key: "same_keys db db1 \<Longrightarrow> adds_key rt i t db1 db2 \<Longrightarrow> adds_key rt i t db db2"
  by (simp add: adds_key_def same_keys_def)

lemma same_keys_iff:
  "same_keys db db' \<longleftrightarrow>
     keys (tb_classifiers db') = keys (tb_classifiers db) \<and>
     keys (tb_actions db') = keys (tb_actions db) \<and>
     keys (tb_rules db') = keys (tb_rules db) \<and>
     keys (tb_prss db') = keys (tb_prss db) \<and>
     keys (tb_pts db') = keys (tb_pts db) \<and>
     keys (tb_ptgs db') = keys (tb_ptgs db) \<and>
     keys (tb_apgs db') = keys (tb_apgs db) \<and>
     keys (tb_l2ps db') = keys (tb_l2ps db) \<and>
     keys (tb_nsps db') = keys (tb_nsps db) \<and>
     keys (tb_l3ps db') = keys (tb_l3ps db) \<and>
     keys (tb_ess db') = keys (tb_ess db) \<and>
     keys (tb_eps db') = keys (tb_eps db) \<and>
     keys (tb_nps db') = keys (tb_nps db)"
  unfolding same_keys_def
  by (rule iffI, metis table_keys.simps, rule allI, case_tac rt, simp_all)

lemma adds_key_tables [simp]:
  "row_id r_pc = i \<Longrightarrow> row_tenant r_pc = t \<Longrightarrow> adds_key PolicyClassifier i t db (db\<lparr>tb_classifiers := tb_classifiers db @ [r_pc]\<rparr>)"
  "row_id r_pa = i \<Longrightarrow> row_tenant r_pa = t \<Longrightarrow> adds_key PolicyAction i t db (db\<lparr>tb_actions := tb_actions db @ [r_pa]\<rparr>)"
  "row_id r_pr = i \<Longrightarrow> row_tenant r_pr = t \<Longrightarrow> adds_key PolicyRule i t db (db\<lparr>tb_rules := tb_rules db @ [r_pr]\<rparr>)"
  "row_id r_prs = i \<Longrightarrow> row_tenant r_prs = t \<Longrightarrow> adds_key PolicyRuleSet i t db (db\<lparr>tb_prss := tb_prss db @ [r_prs]\<rparr>)"
  "row_id r_pt = i \<Longrightarrow> row_tenant r_pt = t \<Longrightarrow> adds_key PolicyTarget i t db (db\<lparr>tb_pts := tb_pts db @ [r_pt]\<rparr>)"
  "row_id r_ptg = i \<Longrightarrow> row_tenant r_ptg = t \<Longrightarrow> adds_key PolicyTargetGroup i t db (db\<lparr>tb_ptgs := tb_ptgs db @ [r_ptg]\<rparr>)"
  "row_id r_apg = i \<Longrightarrow> row_tenant r_apg = t \<Longrightarrow> adds_key ApplicationPolicyGroup i t db (db\<lparr>tb_apgs := tb_apgs db @ [r_apg]\<rparr>)"
  "row_id r_l2p = i \<Longrightarrow> row_tenant r_l2p = t \<Longrightarrow> adds_key L2Policy i t db (db\<lparr>tb_l2ps := tb_l2ps db @ [r_l2p]\<rparr>)"
  "row_id r_nsp = i \<Longrightarrow> row_tenant r_nsp = t \<Longrightarrow> adds_key NetworkServicePolicy i t db (db\<lparr>tb_nsps := tb_nsps db @ [r_nsp]\<rparr>)"
  "row_id r_l3p = i \<Longrightarrow> row_tenant r_l3p = t \<Longrightarrow> adds_key L3Policy i t db (db\<lparr>tb_l3ps := tb_l3ps db @ [r_l3p]\<rparr>)"
  "row_id r_es = i \<Longrightarrow> row_tenant r_es = t \<Longrightarrow> adds_key ExternalSegment i t db (db\<lparr>tb_ess := tb_ess db @ [r_es]\<rparr>)"
  "row_id r_ep = i \<Longrightarrow> row_tenant r_ep = t \<Longrightarrow> adds_key ExternalPolicy i t db (db\<lparr>tb_eps := tb_eps db @ [r_ep]\<rparr>)"
  "row_id r_np = i \<Longrightarrow> row_tenant r_np = t \<Longrightarrow> adds_key NatPool i t db (db\<lparr>tb_nps := tb_nps db @ [r_np]\<rparr>)"
  unfolding adds_key_def by (rule allI, case_tac rt', simp_all)+

lemma create_policy_classifier_key:
  assumes "create_policy_classifier c i b db = Inr (db', d)"
  shows "\<exists>t. get_tenant_id_for_create c b = Inr t \<and> adds_key PolicyClassifier i t db db'"
  using assms by (auto simp: create_policy_classifier_def Let_def bindE_eq_Inr)

lemma create_policy_action_key:
  assumes "create_policy_action c i b db = Inr (db', d)"
  shows "\<exists>t. get_tenant_id_for_create c b = Inr t \<and> adds_key PolicyAction i t db db'"
  using assms by (auto simp: create_policy_action_def Let_def bindE_eq_Inr)

lemma create_policy_rule_key:
  assumes "create_policy_rule c i b db = Inr (db', d)"
  shows "\<exists>t. get_tenant_id_for_create c b = Inr t \<and> adds_key PolicyRule i t db db'"
proof -
  let ?k = "i"
  from assms obtain t r db1 where g: "get_tenant_id_for_create c b = Inr t"
    and r: "row_id r = ?k" "row_tenant r = t"
    and k: "same_keys (db\<lparr>tb_rules := tb_rules db @ [r]\<rparr>) db'"
    by (auto simp: create_policy_rule_def Let_def bindE_eq_Inr split: if_splits dest!: keeps
        intro: same_keys_trans intro!: that)
  have "adds_key PolicyRule ?k t db (db\<lparr>tb_rules := tb_rules db @ [r]\<rparr>)"
    using r by (rule adds_key_tables)
  with g adds_key_same[OF _ k] show ?thesis by blast
qed

lemma create_policy_rule_set_key:
  assumes "create_policy_rule_set c i b db = Inr (db', d)"
  shows "\<exists>t. get_tenant_id_for_create c b = Inr t \<and> adds_key PolicyRuleSet i t db db'"
proof -
  let ?k = "i"
  from assms obtain t r db1 where g: "get_tenant_id_for_create c b = Inr t"
    and r: "row_id r = ?k" "row_tenant r = t"
    and k: "same_keys (db\<lparr>tb_prss := tb_prss db @ [r]\<rparr>) db'"
    by (auto simp: create_policy_rule_set_def Let_def bindE_eq_Inr split: if_splits dest!: keeps
        intro: same_keys_trans intro!: that)
  have "adds_key PolicyRuleSet ?k t db (db\<lparr>tb_prss := tb_prss db @ [r]\<rparr>)"
    using r by (rule adds_key_tables)
  with g adds_key_same[OF _ k] show ?thesis by blast
qed

lemma create_policy_target_key:
  assumes "create_policy_target c i b db = Inr (db', d)"
  shows "\<exists>t. get_tenant_id_for_create c b = Inr t \<and> adds_key PolicyTarget i t db db'"
  using assms by (auto simp: create_policy_target_def Let_def bindE_eq_Inr)

lemma create_policy_target_group_key:
  assumes "create_policy_target_group c i b db = Inr (db', d)"
  shows "\<exists>t. get_tenant_id_for_create c b = Inr t \<and> adds_key PolicyTargetGroup (case ptgb_id b of None \<Rightarrow> i | Some j \<Rightarrow> if j = [] then i else j) t db db'"
proof -
  let ?k = "(case ptgb_id b of None \<Rightarrow> i | Some j \<Rightarrow> if j = [] then i else j)"
  from assms obtain t r db1 where g: "get_tenant_id_for_create c b = Inr t"
    and r: "row_id r = ?k" "row_tenant r = t"
    and k: "same_keys (db\<lparr>tb_ptgs := tb_ptgs db @ [r]\<rparr>) db'"
    by (auto simp: create_policy_target_group_def Let_def bindE_eq_Inr split: if_splits dest!: keeps
        intro: same_keys_trans intro!: that)
  have "adds_key PolicyTargetGroup ?k t db (db\<lparr>tb_ptgs := tb_ptgs db @ [r]\<rparr>)"
    using r by (rule adds_key_tables)
  with g adds_key_same[OF _ k] show ?thesis by blast
qed

lemma create_application_policy_group_key:
  assumes "create_application_policy_group c i b db = Inr (db', d)"
  shows "\<exists>t. get_tenant_id_for_create c b = Inr t \<and> adds_key ApplicationPolicyGroup i t db db'"
  using assms by (auto simp: create_application_policy_group_def Let_def bindE_eq_Inr)

lemma create_l2_policy_key:
  assumes "create_l2_policy c i b db = Inr (db', d)"
  shows "\<exists>t. get_tenant_id_for_create c b = Inr t \<and> adds_key L2Policy i t db db'"
  using assms by (auto simp: create_l2_policy_def Let_def bindE_eq_Inr)

lemma create_network_service_policy_key:
  assumes "create_network_service_policy c i b db = Inr (db', d)"
  shows "\<exists>t. get_tenant_id_for_create c b = Inr t \<and> adds_key NetworkServicePolicy i t db db'"
  using assms
  by (auto simp: create_network_service_policy_def Let_def bindE_eq_Inr
      intro!: adds_key_same[OF adds_key_tables(9) set_params_keeps])

lemma create_l3_policy_key:
  assumes "create_l3_policy nw pf c i b db = Inr (db', d)"
  shows "\<exists>t. get_tenant_id_for_create c b = Inr t \<and> adds_key L3Policy i t db db'"
proof -
  from assms obtain t sp4 sp6 rts db2 r where g: "get_tenant_id_for_create c b = Inr t"
    and 2: "if_present (l3pb_external_segments b) (set_ess_for_l3p c i)
          (db\<lparr>as_l3p_sp4 := sp4, as_l3p_sp6 := sp6, as_l3p_router := rts\<rparr>) = Inr db2"
    and 3: "db' = db2\<lparr>tb_l3ps := tb_l3ps db2 @ [r]\<rparr>" "row_id r = i" "row_tenant r = t"
    by (auto simp: create_l3_policy_def Let_def bindE_eq_Inr)
  have "same_keys db (db\<lparr>as_l3p_sp4 := sp4, as_l3p_sp6 := sp6, as_l3p_router := rts\<rparr>)"
    by (intro same_keysI, case_tac rt) simp_all
  then have "same_keys db db2" using if_present_keeps(5)[OF 2] by (rule same_keys_trans)
  then have "adds_key L3Policy i t db db'"
    using 3 by (auto intro: same_adds_key adds_key_tables)
  with g show ?thesis by blast
qed

lemma create_external_segment_key:
  assumes "create_external_segment c i b db = Inr (db', d)"
  shows "\<exists>t. get_tenant_id_for_create c b = Inr t \<and> adds_key ExternalSegment i t db db'"
proof -
  let ?k = "i"
  from assms obtain t r db1 where g: "get_tenant_id_for_create c b = Inr t"
    and r: "row_id r = ?k" "row_tenant r = t"
    and k: "same_keys (db\<lparr>tb_ess := tb_ess db @ [r]\<rparr>) db'"
    by (auto simp: create_external_segment_def Let_def bindE_eq_Inr split: if_splits dest!: keeps
        intro: same_keys_trans intro!: that)
  have "adds_key ExternalSegment ?k t db (db\<lparr>tb_ess := tb_ess db @ [r]\<rparr>)"
    using r by (rule adds_key_tables)
  with g adds_key_same[OF _ k] show ?thesis by blast
qed

lemma create_external_policy_key:
  assumes "create_external_policy c i b db = Inr (db', d)"
  shows "\<exists>t. get_tenant_id_for_create c b = Inr t \<and> adds_key ExternalPolicy i t db db'"
proof -
  let ?k = "i"
  from assms obtain t r db1 where g: "get_tenant_id_for_create c b = Inr t"
    and r: "row_id r = ?k" "row_tenant r = t"
    and k: "same_keys (db\<lparr>tb_eps := tb_eps db @ [r]\<rparr>) db'"
    by (auto simp: create_external_policy_def Let_def bindE_eq_Inr split: if_splits dest!: keeps
        intro: same_keys_trans intro!: that)
  have "adds_key ExternalPolicy ?k t db (db\<lparr>tb_eps := tb_eps db @ [r]\<rparr>)"
    using r by (rule adds_key_tables)
  with g adds_key_same[OF _ k] show ?thesis by blast
qed

lemma create_nat_pool_key:
  assumes "create_nat_pool c i b db = Inr (db', d)"
  shows "\<exists>t. get_tenant_id_for_create c b = Inr t \<and> adds_key NatPool i t db db'"
  using assms by (auto simp: create_nat_pool_def Let_def bindE_eq_Inr)

lemma update_policy_classifier_keys:
  "update_policy_classifier c i u db = Inr (db', d) \<Longrightarrow> same_keys db db'"
  by (auto simp: update_policy_classifier_def Let_def bindE_eq_Inr same_keys_iff
      dest!: keeps split: if_splits option.splits)

lemma update_policy_action_keys:
  "update_policy_action c i u db = Inr (db', d) \<Longrightarrow> same_keys db db'"
  by (auto simp: update_policy_action_def Let_def bindE_eq_Inr same_keys_iff
      dest!: keeps split: if_splits option.splits)

lemma update_policy_rule_keys:
  "update_policy_rule c i u db = Inr (db', d) \<Longrightarrow> same_keys db db'"
  by (auto simp: update_policy_rule_def Let_def bindE_eq_Inr same_keys_iff
      dest!: keeps split: if_splits option.splits)

lemma update_policy_rule_set_keys:
  "update_policy_rule_set c i u db = Inr (db', d) \<Longrightarrow> same_keys db db'"
  by (auto simp: update_policy_rule_set_def Let_def bindE_eq_Inr same_keys_iff
      dest!: keeps split: if_splits option.splits)

lemma update_policy_target_keys:
  "update_policy_target c i u db = Inr (db', d) \<Longrightarrow> same_keys db db'"
  by (auto simp: update_policy_target_def Let_def bindE_eq_Inr same_keys_iff
      dest!: keeps split: if_splits option.splits)

lemma update_policy_target_group_keys:
  "update_policy_target_group c i u db = Inr (db', d) \<Longrightarrow> same_keys db db'"
  by (auto simp: update_policy_target_group_def Let_def bindE_eq_Inr same_keys_iff
      dest!: keeps split: if_splits option.splits)

lemma update_application_policy_group_keys:
  "update_application_policy_group c i u db = Inr (db', d) \<Longrightarrow> same_keys db db'"
  by (auto simp: update_application_policy_group_def Let_def bindE_eq_Inr same_keys_iff
      dest!: keeps split: if_splits option.splits)

lemma update_l2_policy_keys:
  "update_l2_policy c i u db = Inr (db', d) \<Longrightarrow> same_keys db db'"
  by (auto simp: update_l2_policy_def Let_def bindE_eq_Inr same_keys_iff
      dest!: keeps split: if_splits option.splits)

lemma update_network_service_policy_keys:
  "update_network_service_policy c i u ps db = Inr (db', d) \<Longrightarrow> same_keys db db'"
  by (auto simp: update_network_service_policy_def Let_def bindE_eq_Inr same_keys_iff set_params_for_network_service_policy_def
      dest!: keeps split: if_splits option.splits)

lemma update_l3_policy_keys:
  "update_l3_policy nw pf c i u db = Inr (db', d) \<Longrightarrow> same_keys db db'"
  by (auto simp: update_l3_policy_def Let_def bindE_eq_Inr same_keys_iff
      dest!: keeps split: if_splits option.splits)

lemma update_external_segment_keys:
  "update_external_segment c i u db = Inr (db', d) \<Longrightarrow> same_keys db db'"
  by (auto simp: update_external_segment_def Let_def bindE_eq_Inr same_keys_iff
      dest!: keeps split: if_splits option.splits)

lemma update_external_policy_keys:
  "update_external_policy c i u db = Inr (db', d) \<Longrightarrow> same_keys db db'"
  by (auto simp: update_external_policy_def Let_def bindE_eq_Inr same_keys_iff
      dest!: keeps split: if_splits option.splits)

lemma update_nat_pool_keys:
  "update_nat_pool c i u db = Inr (db', d) \<Longrightarrow> same_keys db db'"
  by (auto simp: update_nat_pool_def Let_def bindE_eq_Inr same_keys_iff
      dest!: keeps split: if_splits option.splits)

lemma delete_policy_classifier_key:
  "delete_policy_classifier c i db = Inr db' \<Longrightarrow> i \<in> set (ids (tb_classifiers db)) \<and> removes_key PolicyClassifier i db db'"
  by (auto simp: delete_policy_classifier_def get_policy_classifier_row_def bindE_eq_Inr removes_key_def
      dest: get_by_id_in_ids split: if_splits res_type.splits) (case_tac rt', simp_all)+

lemma delete_policy_action_key:
  "delete_policy_action c i db = Inr db' \<Longrightarrow> i \<in> set (ids (tb_actions db)) \<and> removes_key PolicyAction i db db'"
  by (auto simp: delete_policy_action_def get_policy_action_row_def bindE_eq_Inr removes_key_def
      dest: get_by_id_in_ids split: if_splits res_type.splits) (case_tac rt', simp_all)+

lemma delete_policy_rule_key:
  "delete_policy_rule c i db = Inr db' \<Longrightarrow> i \<in> set (ids (tb_rules db)) \<and> removes_key PolicyRule i db db'"
  by (auto simp: delete_policy_rule_def get_policy_rule_row_def bindE_eq_Inr removes_key_def
      dest: get_by_id_in_ids split: if_splits res_type.splits) (case_tac rt', simp_all)+

lemma delete_policy_rule_set_key:
  "delete_policy_rule_set c i db = Inr db' \<Longrightarrow> i \<in> set (ids (tb_prss db)) \<and> removes_key PolicyRuleSet i db db'"
  by (auto simp: delete_policy_rule_set_def get_policy_rule_set_row_def bindE_eq_Inr removes_key_def
      dest: get_by_id_in_ids split: if_splits res_type.splits) (case_tac rt', simp_all)+

lemma delete_policy_target_key:
  "delete_policy_target c i db = Inr db' \<Longrightarrow> i \<in> set (ids (tb_pts db)) \<and> removes_key PolicyTarget i db db'"
  by (auto simp: delete_policy_target_def get_policy_target_row_def bindE_eq_Inr removes_key_def
      dest: get_by_id_in_ids split: if_splits res_type.splits) (case_tac rt', simp_all)+

lemma delete_policy_target_group_key:
  "delete_policy_target_group c i db = Inr db' \<Longrightarrow> i \<in> set (ids (tb_ptgs db)) \<and> removes_key PolicyTargetGroup i db db'"
  by (auto simp: delete_policy_target_group_def get_policy_target_group_row_def bindE_eq_Inr removes_key_def
      dest: get_by_id_in_ids split: if_splits res_type.splits) (case_tac rt', simp_all)+

lemma delete_application_policy_group_key:
  "delete_application_policy_group c i db = Inr db' \<Longrightarrow> i \<in> set (ids (tb_apgs db)) \<and> removes_key ApplicationPolicyGroup i db db'"
  by (auto simp: delete_application_policy_group_def get_application_policy_group_row_def bindE_eq_Inr removes_key_def
      dest: get_by_id_in_ids split: if_splits res_type.splits) (case_tac rt', simp_all)+

lemma delete_l2_policy_key:
  "delete_l2_policy c i db = Inr db' \<Longrightarrow> i \<in> set (ids (tb_l2ps db)) \<and> removes_key L2Policy i db db'"
  by (auto simp: delete_l2_policy_def get_l2_policy_row_def bindE_eq_Inr removes_key_def
      dest: get_by_id_in_ids split: if_splits res_type.splits) (case_tac rt', simp_all)+

lemma delete_network_service_policy_key:
  "delete_network_service_policy c i db = Inr db' \<Longrightarrow> i \<in> set (ids (tb_nsps db)) \<and> removes_key NetworkServicePolicy i db db'"
  by (auto simp: delete_network_service_policy_def get_network_service_policy_row_def bindE_eq_Inr removes_key_def
      dest: get_by_id_in_ids split: if_splits res_type.splits) (case_tac rt', simp_all)+

lemma delete_l3_policy_key:
  "delete_l3_policy c i db = Inr db' \<Longrightarrow> i \<in> set (ids (tb_l3ps db)) \<and> removes_key L3Policy i db db'"
  by (auto simp: delete_l3_policy_def get_l3_policy_row_def bindE_eq_Inr removes_key_def
      dest: get_by_id_in_ids split: if_splits res_type.splits) (case_tac rt', simp_all)+

lemma delete_external_segment_key:
  "delete_external_segment c i db = Inr db' \<Longrightarrow> i \<in> set (ids (tb_ess db)) \<and> removes_key ExternalSegment i db db'"
  by (auto simp: delete_external_segment_def get_external_segment_row_def bindE_eq_Inr removes_key_def
      dest: get_by_id_in_ids split: if_splits res_type.splits) (case_tac rt', simp_all)+

lemma delete_external_policy_key:
  "delete_external_policy c i db = Inr db' \<Longrightarrow> i \<in> set (ids (tb_eps db)) \<and> removes_key ExternalPolicy i db db'"
  by (auto simp: delete_external_policy_def get_external_policy_row_def bindE_eq_Inr removes_key_def
      dest: get_by_id_in_ids split: if_splits res_type.splits) (case_tac rt', simp_all)+

lemma delete_nat_pool_key:
  "delete_nat_pool c i db = Inr db' \<Longrightarrow> i \<in> set (ids (tb_nps db)) \<and> removes_key NatPool i db db'"
  by (auto simp: delete_nat_pool_def get_nat_pool_row_def bindE_eq_Inr removes_key_def
      dest: get_by_id_in_ids split: if_splits res_type.splits) (case_tac rt', simp_all)+

lemma exec_set_keys: "exec_set c s db = Inr db' \<Longrightarrow> same_keys db db'"
  by (cases s)
     (auto simp: bindE_eq_Inr same_keys_iff set_l2_policy_for_policy_target_group_def
      set_application_policy_group_for_policy_target_group_def
      set_network_service_policy_for_policy_target_group_def add_subnet_to_policy_target_group_def
      remove_subnets_from_policy_target_group_def remove_subnets_from_policy_target_groups_def
      set_port_for_policy_target_def set_l3_policy_for_l2_policy_def set_network_for_l2_policy_def
      set_address_scope_for_l3_policy_by_id_def add_subnetpools_to_l3_policy_by_id_def
      add_subnetpools_to_l3_policy_def remove_subnetpool_from_l3_policy_def
      add_router_to_l3_policy_def remove_router_from_l3_policy_def Let_def update_ess_for_l3p_def
      set_subnet_to_es_def set_subnet_to_np_def dest!: keeps split: if_splits)

text \<open>The id and the tenant of the row a creation adds.\<close>

fun create_body :: "create_req \<Rightarrow> gbp_body" where
  "create_body (NewPolicyClassifier b) = gbp_body.truncate b"
| "create_body (NewPolicyAction b) = gbp_body.truncate b"
| "create_body (NewPolicyRule b) = gbp_body.truncate b"
| "create_body (NewPolicyRuleSet b) = gbp_body.truncate b"
| "create_body (NewPolicyTarget b) = gbp_body.truncate b"
| "create_body (NewPolicyTargetGroup b) = gbp_body.truncate b"
| "create_body (NewApplicationPolicyGroup b) = gbp_body.truncate b"
| "create_body (NewL2Policy b) = gbp_body.truncate b"
| "create_body (NewNetworkServicePolicy b) = gbp_body.truncate b"
| "create_body (NewL3Policy b) = gbp_body.truncate b"
| "create_body (NewExternalSegment b) = gbp_body.truncate b"
| "create_body (NewExternalPolicy b) = gbp_body.truncate b"
| "create_body (NewNatPool b) = gbp_body.truncate b"

fun create_id :: "string \<Rightarrow> create_req \<Rightarrow> string" where
  "create_id i (NewPolicyTargetGroup b) =
     (case ptgb_id b of None \<Rightarrow> i | Some j \<Rightarrow> if j = [] then i else j)"
| "create_id i r = i"

lemma tenant_truncate [simp]:
  "get_tenant_id_for_create c (gbp_body.truncate b) = get_tenant_id_for_create c b"
  by (simp add: get_tenant_id_for_create_def gbp_body.defs)

lemmas create_keys =
  create_policy_classifier_key create_policy_action_key create_policy_rule_key create_policy_rule_set_key create_policy_target_key create_policy_target_group_key create_application_policy_group_key create_l2_policy_key create_network_service_policy_key create_l3_policy_key create_external_segment_key create_external_policy_key create_nat_pool_key

lemmas update_keys =
  update_policy_classifier_keys update_policy_action_keys update_policy_rule_keys update_policy_rule_set_keys update_policy_target_keys update_policy_target_group_keys update_application_policy_group_keys update_l2_policy_keys update_network_service_policy_keys update_l3_policy_keys update_external_segment_keys update_external_policy_keys update_nat_pool_keys

lemmas delete_keys =
  delete_policy_classifier_key delete_policy_action_key delete_policy_rule_key delete_policy_rule_set_key delete_policy_target_key delete_policy_target_group_key delete_application_policy_group_key delete_l2_policy_key delete_network_service_policy_key delete_l3_policy_key delete_external_segment_key delete_external_policy_key delete_nat_pool_key

lemma exec_create_key:
  assumes "exec_create e c i r db = Inr db'"
  shows "\<exists>t. get_tenant_id_for_create c (create_body r) = Inr t \<and>
    adds_key (create_type r) (create_id i r) t db db'"
  using assms by (cases r) (auto dest!: create_keys)

lemma exec_update_keys: "exec_update e c i u db = Inr db' \<Longrightarrow> same_keys db db'"
  by (cases u) (auto dest!: update_keys)

lemma exec_delete_key:
  "exec_delete c rt i db = Inr db' \<Longrightarrow> i \<in> set (table_ids rt db) \<and> removes_key rt i db db'"
  by (cases rt) (auto dest!: delete_keys)

lemma create_id_fresh:
  assumes "exec_create e c i r db = Inr db'" "i \<notin> set (table_ids (create_type r) db)"
  shows "create_id i r \<notin> set (table_ids (create_type r) db)"
  using assms by (cases r) (auto simp: create_policy_target_group_def Let_def bindE_eq_Inr split: if_splits)
end

