(* ===== verification/Db_Contracts.thy ===== *)
theory Db_Contracts
  imports Db_Ownership
begin

text \<open>
  The contract every resource of the database plugin fulfils, as a locale interpreted on the
  operations of the thirteen resources, and the properties of the whole database machine: the
  invariant in every reachable database, the refinement to the inventory of owners, and the
  absence of dangling references after a deletion.
\<close>

section \<open>The contract of a resource table\<close>

locale resource_table =
  fixes rt :: res_type
    and new_key :: "string \<Rightarrow> 'b \<Rightarrow> string"
    and create :: "ctx \<Rightarrow> string \<Rightarrow> 'b \<Rightarrow> gbp_db \<Rightarrow> gbp_error + gbp_db \<times> 'd"
    and get :: "ctx \<Rightarrow> string \<Rightarrow> gbp_db \<Rightarrow> gbp_error + 'd"
    and delete :: "ctx \<Rightarrow> string \<Rightarrow> gbp_db \<Rightarrow> gbp_error + gbp_db"
  assumes create_adds: "create c i b db = Inr (db', d) \<Longrightarrow> \<exists>t. adds_key rt (new_key i b) t db db'"
    and delete_removes:
      "delete c i db = Inr db' \<Longrightarrow> i \<in> set (table_ids rt db) \<and> removes_key rt i db db'"
    and delete_absent: "i \<notin> set (table_ids rt db) \<Longrightarrow> delete c i db = Inl (NotFound rt i)"
    and get_absent: "i \<notin> set (table_ids rt db) \<Longrightarrow> get c i db = Inl (NotFound rt i)"
begin

lemma ids_create:
  assumes "create c i b db = Inr (db', d)"
  shows "table_ids rt db' = table_ids rt db @ [new_key i b]"
  using create_adds[OF assms]
  by (auto simp: adds_key_def map_fst_table_keys[symmetric])

lemma ids_delete:
  assumes "delete c i db = Inr db'"
  shows "table_ids rt db' = filter (\<lambda>j. j \<noteq> i) (table_ids rt db)"
  using delete_removes[OF assms]
  by (simp add: removes_key_def map_fst_table_keys[symmetric] filter_map comp_def)

lemma get_after_delete: "delete c i db = Inr db' \<Longrightarrow> get c' i db' = Inl (NotFound rt i)"
  by (rule get_absent) (simp add: ids_delete)

lemma delete_twice: "delete c i db = Inr db' \<Longrightarrow> delete c' i db' = Inl (NotFound rt i)"
  by (rule delete_absent) (simp add: ids_delete)

lemma create_delete_ids:
  assumes "create c i b db = Inr (db1, d)" "delete c' (new_key i b) db1 = Inr db2"
    and "new_key i b \<notin> set (table_ids rt db)"
  shows "table_ids rt db2 = table_ids rt db"
  using assms by (auto simp: ids_create ids_delete filter_id_conv)

lemma others_kept:
  assumes "delete c i db = Inr db'" "rt' \<noteq> rt"
  shows "table_ids rt' db' = table_ids rt' db"
  using delete_removes[OF assms(1)] assms(2)
  by (simp add: removes_key_def map_fst_table_keys[symmetric])

end

interpretation pc: resource_table PolicyClassifier "\<lambda>i b. i" create_policy_classifier get_policy_classifier delete_policy_classifier
  by unfold_locales
    (use create_policy_classifier_key in blast, use delete_policy_classifier_key in fastforce,
     simp_all add: delete_policy_classifier_def get_policy_classifier_def get_policy_classifier_row_def get_by_id_absent)

interpretation pa: resource_table PolicyAction "\<lambda>i b. i" create_policy_action get_policy_action delete_policy_action
  by unfold_locales
    (use create_policy_action_key in blast, use delete_policy_action_key in fastforce,
     simp_all add: delete_policy_action_def get_policy_action_def get_policy_action_row_def get_by_id_absent)

interpretation pr: resource_table PolicyRule "\<lambda>i b. i" create_policy_rule get_policy_rule delete_policy_rule
  by unfold_locales
    (use create_policy_rule_key in blast, use delete_policy_rule_key in fastforce,
     simp_all add: delete_policy_rule_def get_policy_rule_def get_policy_rule_row_def get_by_id_absent)

interpretation prs: resource_table PolicyRuleSet "\<lambda>i b. i" create_policy_rule_set get_policy_rule_set delete_policy_rule_set
  by unfold_locales
    (use create_policy_rule_set_key in blast, use delete_policy_rule_set_key in fastforce,
     simp_all add: delete_policy_rule_set_def get_policy_rule_set_def get_policy_rule_set_row_def get_by_id_absent)

interpretation pt: resource_table PolicyTarget "\<lambda>i b. i" create_policy_target get_policy_target delete_policy_target
  by unfold_locales
    (use create_policy_target_key in blast, use delete_policy_target_key in fastforce,
     simp_all add: delete_policy_target_def get_policy_target_def get_policy_target_row_def get_by_id_absent)

interpretation ptg: resource_table PolicyTargetGroup "(\<lambda>i b. case ptgb_id b of None \<Rightarrow> i | Some j \<Rightarrow> if j = [] then i else j)" create_policy_target_group get_policy_target_group delete_policy_target_group
  by unfold_locales
    (use create_policy_target_group_key in blast, use delete_policy_target_group_key in fastforce,
     simp_all add: delete_policy_target_group_def get_policy_target_group_def get_policy_target_group_row_def get_by_id_absent)

interpretation apg: resource_table ApplicationPolicyGroup "\<lambda>i b. i" create_application_policy_group get_application_policy_group delete_application_policy_group
  by unfold_locales
    (use create_application_policy_group_key in blast, use delete_application_policy_group_key in fastforce,
     simp_all add: delete_application_policy_group_def get_application_policy_group_def get_application_policy_group_row_def get_by_id_absent)

interpretation l2p: resource_table L2Policy "\<lambda>i b. i" create_l2_policy get_l2_policy delete_l2_policy
  by unfold_locales
    (use create_l2_policy_key in blast, use delete_l2_policy_key in fastforce,
     simp_all add: delete_l2_policy_def get_l2_policy_def get_l2_policy_row_def get_by_id_absent)

interpretation nsp: resource_table NetworkServicePolicy "\<lambda>i b. i" create_network_service_policy get_network_service_policy delete_network_service_policy
  by unfold_locales
    (use create_network_service_policy_key in blast, use delete_network_service_policy_key in fastforce,
     simp_all add: delete_network_service_policy_def get_network_service_policy_def get_network_service_policy_row_def get_by_id_absent)

interpretation l3p: resource_table L3Policy "\<lambda>i b. i" "create_l3_policy nw pf" "get_l3_policy pf" delete_l3_policy
  by unfold_locales
    (use create_l3_policy_key in blast, use delete_l3_policy_key in fastforce,
     simp_all add: delete_l3_policy_def get_l3_policy_def get_l3_policy_row_def get_by_id_absent)

interpretation es: resource_table ExternalSegment "\<lambda>i b. i" create_external_segment get_external_segment delete_external_segment
  by unfold_locales
    (use create_external_segment_key in blast, use delete_external_segment_key in fastforce,
     simp_all add: delete_external_segment_def get_external_segment_def get_external_segment_row_def get_by_id_absent)

interpretation ep: resource_table ExternalPolicy "\<lambda>i b. i" create_external_policy get_external_policy delete_external_policy
  by unfold_locales
    (use create_external_policy_key in blast, use delete_external_policy_key in fastforce,
     simp_all add: delete_external_policy_def get_external_policy_def get_external_policy_row_def get_by_id_absent)

interpretation np: resource_table NatPool "\<lambda>i b. i" create_nat_pool get_nat_pool delete_nat_pool
  by unfold_locales
    (use create_nat_pool_key in blast, use delete_nat_pool_key in fastforce,
     simp_all add: delete_nat_pool_def get_nat_pool_def get_nat_pool_row_def get_by_id_absent)


section \<open>Reading back what was created\<close>

locale readable_resource = resource_table +
  fixes visible :: "ctx \<Rightarrow> 'c \<Rightarrow> bool" and view :: "'c \<Rightarrow> 'c"
  assumes create_get:
    "create c i b db = Inr (db', d) \<Longrightarrow> new_key i b \<notin> set (table_ids rt db) \<Longrightarrow> visible c d \<Longrightarrow>
     get c (new_key i b) db' = Inr (view d)"
begin

lemma create_get_delete:
  assumes "create c i b db = Inr (db1, d)" "new_key i b \<notin> set (table_ids rt db)" "visible c d"
  shows "get c (new_key i b) db1 = Inr (view d)"
    and "delete c (new_key i b) db1 = Inr db2 \<Longrightarrow> get c (new_key i b) db2 = Inl (NotFound rt (new_key i b))"
  using create_get[OF assms] get_after_delete by auto

end

definition visible_dict :: "ctx \<Rightarrow> 'a shared_dict_scheme \<Rightarrow> bool" where
  "visible_dict c d \<longleftrightarrow> sees c (d_tenant_id d) (d_shared d)"

definition visible_pt :: "ctx \<Rightarrow> 'a gbp_dict_scheme \<Rightarrow> bool" where
  "visible_pt c d \<longleftrightarrow> sees c (d_tenant_id d) False"

text \<open>Only the dictionary of a creation shows the port attributes of a policy target.\<close>

definition stored_view :: "ptm_dict \<Rightarrow> ptm_dict" where
  "stored_view d = d\<lparr>ptd_port_attributes := None\<rparr>"

lemma dict_extends [simp]:
  "d_id (ptg_dict.extend d_ptg m_ptg) = d_id d_ptg"
  "d_tenant_id (ptg_dict.extend d_ptg m_ptg) = d_tenant_id d_ptg"
  "d_shared (ptg_dict.extend d_ptg m_ptg) = d_shared d_ptg"
  "d_id (l2p_dict.extend d_l2p m_l2p) = d_id d_l2p"
  "d_tenant_id (l2p_dict.extend d_l2p m_l2p) = d_tenant_id d_l2p"
  "d_shared (l2p_dict.extend d_l2p m_l2p) = d_shared d_l2p"
  "d_id (l3p_dict.extend d_l3p m_l3p) = d_id d_l3p"
  "d_tenant_id (l3p_dict.extend d_l3p m_l3p) = d_tenant_id d_l3p"
  "d_shared (l3p_dict.extend d_l3p m_l3p) = d_shared d_l3p"
  "d_id (es_dict.extend d_es m_es) = d_id d_es"
  "d_tenant_id (es_dict.extend d_es m_es) = d_tenant_id d_es"
  "d_shared (es_dict.extend d_es m_es) = d_shared d_es"
  "d_id (np_dict.extend d_np m_np) = d_id d_np"
  "d_tenant_id (np_dict.extend d_np m_np) = d_tenant_id d_np"
  "d_shared (np_dict.extend d_np m_np) = d_shared d_np"
  "d_id (pt_dict.extend d_pt m_pt) = d_id d_pt"
  "d_tenant_id (pt_dict.extend d_pt m_pt) = d_tenant_id d_pt"
  by (simp_all add: ptg_dict.defs l2p_dict.defs l3p_dict.defs es_dict.defs np_dict.defs pt_dict.defs)

lemma make_dict_heads [simp]:
  "d_tenant_id (make_policy_action_dict db x_policy_action) = row_tenant x_policy_action"
  "d_shared (make_policy_action_dict db x_policy_action) = row_shared x_policy_action"
  "d_tenant_id (make_policy_rule_dict db x_policy_rule) = row_tenant x_policy_rule"
  "d_shared (make_policy_rule_dict db x_policy_rule) = row_shared x_policy_rule"
  "d_tenant_id (make_policy_rule_set_dict db x_policy_rule_set) = row_tenant x_policy_rule_set"
  "d_shared (make_policy_rule_set_dict db x_policy_rule_set) = row_shared x_policy_rule_set"
  "d_tenant_id (make_policy_target_group_dict db x_policy_target_group) = row_tenant x_policy_target_group"
  "d_shared (make_policy_target_group_dict db x_policy_target_group) = row_shared x_policy_target_group"
  "d_tenant_id (make_application_policy_group_dict db x_application_policy_group) = row_tenant x_application_policy_group"
  "d_shared (make_application_policy_group_dict db x_application_policy_group) = row_shared x_application_policy_group"
  "d_tenant_id (make_l2_policy_dict db x_l2_policy) = row_tenant x_l2_policy"
  "d_shared (make_l2_policy_dict db x_l2_policy) = row_shared x_l2_policy"
  "d_tenant_id (make_network_service_policy_dict db x_network_service_policy) = row_tenant x_network_service_policy"
  "d_shared (make_network_service_policy_dict db x_network_service_policy) = row_shared x_network_service_policy"
  "d_tenant_id (make_l3_policy_dict db x_l3_policy) = row_tenant x_l3_policy"
  "d_shared (make_l3_policy_dict db x_l3_policy) = row_shared x_l3_policy"
  "d_tenant_id (make_external_segment_dict db x_external_segment) = row_tenant x_external_segment"
  "d_shared (make_external_segment_dict db x_external_segment) = row_shared x_external_segment"
  "d_tenant_id (make_external_policy_dict db x_external_policy) = row_tenant x_external_policy"
  "d_shared (make_external_policy_dict db x_external_policy) = row_shared x_external_policy"
  "d_tenant_id (make_nat_pool_dict x_np) = row_tenant x_np"
  "d_shared (make_nat_pool_dict x_np) = row_shared x_np"
  "d_tenant_id (make_policy_target_dict x_pt) = row_tenant x_pt"
  by (simp_all add: make_policy_action_dict_def make_policy_rule_dict_def make_policy_rule_set_dict_def
      make_policy_target_group_dict_def make_application_policy_group_dict_def make_l2_policy_dict_def
      make_network_service_policy_dict_def make_l3_policy_dict_def make_external_segment_dict_def
      make_external_policy_dict_def make_nat_pool_dict_def make_policy_target_dict_def)

lemma map_make_dict_heads [simp]:
  "d_tenant_id (map_make_policy_target_group_dict db g) = row_tenant g"
  "d_shared (map_make_policy_target_group_dict db g) = row_shared g"
  "d_tenant_id (map_make_l2_policy_dict db l2) = row_tenant l2"
  "d_shared (map_make_l2_policy_dict db l2) = row_shared l2"
  "d_tenant_id (map_make_l3_policy_dict pf db l3 p) = row_tenant l3"
  "d_shared (map_make_l3_policy_dict pf db l3 p) = row_shared l3"
  "d_tenant_id (map_make_external_segment_dict db s) = row_tenant s"
  "d_shared (map_make_external_segment_dict db s) = row_shared s"
  "d_tenant_id (map_make_nat_pool_dict n) = row_tenant n"
  "d_shared (map_make_nat_pool_dict n) = row_shared n"
  "d_tenant_id (map_make_policy_target_dict t a) = row_tenant t"
  by (simp_all add: map_make_policy_target_group_dict_def map_make_l2_policy_dict_def
      map_make_l3_policy_dict_def map_make_external_segment_dict_def map_make_nat_pool_dict_def
      map_make_policy_target_dict_def Let_def split: option.splits)

lemma make_classifier_heads:
  "make_policy_classifier_dict db r = Inr d \<Longrightarrow> d_tenant_id d = row_tenant r \<and> d_shared d = row_shared r"
  by (auto simp: make_policy_classifier_dict_def bindE_eq_Inr)

lemmas read_back = get_by_id_append visible_dict_def sees_row_def bindE_eq_Inr Let_def

lemma map_make_l3_stored:
  "map_make_l3_policy_dict pf db
      (shared_row.extend x (l3_policy.fields v p n s4 s6)) p =
   map_make_l3_policy_dict pf db (shared_row.extend x (l3_policy.fields v p n s4 s6)) None"
  by (auto simp: map_make_l3_policy_dict_def make_l3_policy_dict_def Let_def shared_row.defs
      l3_policy.defs shared_dict.defs l3p_dict.defs split: option.splits)

lemma create_policy_classifier_get:
  assumes op: "create_policy_classifier c i b db = Inr (db', d)"
    and fresh: "i \<notin> set (table_ids PolicyClassifier db)" and vis: "visible_dict c d"
  shows "get_policy_classifier c i db' = Inr d"
proof -
  from op obtain t lo hi where g: "get_tenant_id_for_create c b = Inr t"
    and p: "ports_of_range (pcb_port_range b) = Inr (lo, hi)"
    by (auto simp: create_policy_classifier_def bindE_eq_Inr Let_def)
  define r where "r = shared_row.extend (new_shared_row i t b)
        (policy_classifier.fields (pcb_protocol b) lo hi (pcb_direction b))"
  from op g p have m: "make_policy_classifier_dict db' r = Inr d"
    and db': "db' = db\<lparr>tb_classifiers := tb_classifiers db @ [r]\<rparr>" and "row_id r = i"
    by (auto simp: create_policy_classifier_def bindE_eq_Inr Let_def r_def)
  with fresh vis make_classifier_heads[OF m]
  have "get_by_id (sees_row c) PolicyClassifier (tb_classifiers db') i = Inr r"
    by (simp add: get_by_id_append visible_dict_def sees_row_def)
  with m show ?thesis by (simp add: get_policy_classifier_def get_policy_classifier_row_def)
qed

lemma get_by_id_map:
  assumes "\<And>r. row_id (f r) = row_id r" "\<And>r. r \<in> set t \<Longrightarrow> row_id r = i \<Longrightarrow> f r = r"
  shows "get_by_id vis rt (map f t) i = get_by_id vis rt t i"
proof -
  have "find (\<lambda>r. row_id r = i \<and> vis r) (map f t) = find (\<lambda>r. row_id r = i \<and> vis r) t"
    using assms(2) by (induction t) (auto simp: assms(1))
  then show ?thesis by (simp add: get_by_id_def)
qed

lemma get_set_children:
  assumes op: "set_children_for_policy_rule_set c r js db = Inr db'"
    and root: "\<And>q. q \<in> set (tb_prss db) \<Longrightarrow> row_id q = row_id r \<Longrightarrow> prs_parent_id q = None"
  shows "get_by_id vis rt (tb_prss db') (row_id r) = get_by_id vis rt (tb_prss db) (row_id r)"
proof -
  let ?clear = "\<lambda>q. if prs_parent_id q = Some (row_id r) then q\<lparr>prs_parent_id := None\<rparr> else q"
  let ?adopt = "\<lambda>ks q. if row_id q \<in> set ks then q\<lparr>prs_parent_id := Some (row_id r)\<rparr> else q"
  have 1: "get_by_id vis rt (clear_children (row_id r) (tb_prss db)) (row_id r)
      = get_by_id vis rt (tb_prss db) (row_id r)"
    unfolding clear_children_def by (rule get_by_id_map) (use root in auto)
  have 2: "get_by_id vis rt (adopt (row_id r) ks t) (row_id r) = get_by_id vis rt t (row_id r)"
    if "row_id r \<notin> set ks" for ks and t :: "policy_rule_set list"
    unfolding adopt_def by (rule get_by_id_map) (use that in auto)
  show ?thesis
  proof (cases "js = []")
    case True
    with op 1 show ?thesis by (auto simp: set_children_for_policy_rule_set_def Let_def)
  next
    case False
    with op obtain ch where "validate_policy_rule_set_list c js db = Inr ch"
      and chk: "\<forall>child \<in> set ch. row_id child \<noteq> row_id r"
      and db': "db' = db\<lparr>tb_prss := adopt (row_id r) (ids ch) (clear_children (row_id r) (tb_prss db))\<rparr>"
      by (auto simp: set_children_for_policy_rule_set_def Let_def bindE_eq_Inr checkE_eq_Inr
          split: if_splits)
    from chk have "row_id r \<notin> set (ids ch)" by (auto simp: ids_def)
    with 1 2 show ?thesis by (simp add: db')
  qed
qed

lemma create_policy_rule_set_get:
  assumes op: "create_policy_rule_set c i b db = Inr (db', d)"
    and fresh: "i \<notin> set (table_ids PolicyRuleSet db)" and vis: "visible_dict c d"
  shows "get_policy_rule_set c i db' = Inr d"
proof -
  from op obtain r db2 where
    s: "set_rules_for_policy_rule_set c i (prsb_policy_rules b) (db\<lparr>tb_prss := tb_prss db @ [r]\<rparr>) = Inr db2"
    and t: "set_children_for_policy_rule_set c r (prsb_child_policy_rule_sets b) db2 = Inr db'"
    and r: "row_id r = i" "prs_parent_id r = None" and d: "d = make_policy_rule_set_dict db' r"
    by (auto simp: create_policy_rule_set_def Let_def bindE_eq_Inr)
  have t2: "tb_prss db2 = tb_prss db @ [r]" using set_rules_for_policy_rule_set_Inr[OF s] by auto
  have "get_by_id (sees_row c) PolicyRuleSet (tb_prss db') i
      = get_by_id (sees_row c) PolicyRuleSet (tb_prss db2) i"
    unfolding r(1)[symmetric] by (rule get_set_children[OF t]) (use t2 r fresh in \<open>auto simp: ids_def\<close>)
  also have "\<dots> = Inr r"
    using r fresh vis d by (simp add: t2 get_by_id_append visible_dict_def sees_row_def)
  finally show ?thesis using d by (simp add: get_policy_rule_set_def get_policy_rule_set_row_def)
qed

lemma create_policy_action_get:
  assumes "create_policy_action c i b db = Inr (db', d)" "i \<notin> set (table_ids PolicyAction db)" "visible_dict c d"
  shows "get_policy_action c i db' = Inr d"
  using assms
  by (auto simp: create_policy_action_def get_policy_action_def get_policy_action_row_def read_back)

lemma create_policy_rule_get:
  assumes "create_policy_rule c i b db = Inr (db', d)" "i \<notin> set (table_ids PolicyRule db)" "visible_dict c d"
  shows "get_policy_rule c i db' = Inr d"
  using assms
  by (auto simp: create_policy_rule_def get_policy_rule_def get_policy_rule_row_def read_back
      dest!: set_actions_for_rule_Inr)

lemma create_policy_target_get:
  assumes "create_policy_target c i b db = Inr (db', d)" "i \<notin> set (table_ids PolicyTarget db)" "visible_pt c d"
  shows "get_policy_target c i db' = Inr (stored_view d)"
  using assms
  by (auto simp: create_policy_target_def get_policy_target_def get_policy_target_row_def read_back visible_pt_def sees_pt_def stored_view_def map_make_policy_target_dict_def pt_dict.defs ptm_dict.defs)

lemma create_policy_target_group_get:
  assumes "create_policy_target_group c i b db = Inr (db', d)" "(case ptgb_id b of None \<Rightarrow> i | Some j \<Rightarrow> if j = [] then i else j) \<notin> set (table_ids PolicyTargetGroup db)" "visible_dict c d"
  shows "get_policy_target_group c (case ptgb_id b of None \<Rightarrow> i | Some j \<Rightarrow> if j = [] then i else j) db' = Inr d"
  using assms
  by (auto simp: create_policy_target_group_def get_policy_target_group_def get_policy_target_group_row_def read_back
      dest!: if_present_cases add_ptg_subnets_Inr process_prs_ptg_Inr split: if_splits)

lemma create_application_policy_group_get:
  assumes "create_application_policy_group c i b db = Inr (db', d)" "i \<notin> set (table_ids ApplicationPolicyGroup db)" "visible_dict c d"
  shows "get_application_policy_group c i db' = Inr d"
  using assms
  by (auto simp: create_application_policy_group_def get_application_policy_group_def get_application_policy_group_row_def read_back)

lemma create_l2_policy_get:
  assumes "create_l2_policy c i b db = Inr (db', d)" "i \<notin> set (table_ids L2Policy db)" "visible_dict c d"
  shows "get_l2_policy c i db' = Inr d"
  using assms
  by (auto simp: create_l2_policy_def get_l2_policy_def get_l2_policy_row_def read_back)

lemma create_network_service_policy_get:
  assumes "create_network_service_policy c i b db = Inr (db', d)" "i \<notin> set (table_ids NetworkServicePolicy db)" "visible_dict c d"
  shows "get_network_service_policy c i db' = Inr d"
  using assms
  by (auto simp: create_network_service_policy_def get_network_service_policy_def get_network_service_policy_row_def read_back set_params_for_network_service_policy_def)

lemma create_l3_policy_get:
  assumes "create_l3_policy nw pf c i b db = Inr (db', d)" "i \<notin> set (table_ids L3Policy db)" "visible_dict c d"
  shows "get_l3_policy pf c i db' = Inr d"
  using assms
  by (auto simp: create_l3_policy_def get_l3_policy_def get_l3_policy_row_def read_back map_make_l3_stored
      dest!: if_present_cases set_ess_for_l3p_Inr)

lemma create_external_segment_get:
  assumes "create_external_segment c i b db = Inr (db', d)" "i \<notin> set (table_ids ExternalSegment db)" "visible_dict c d"
  shows "get_external_segment c i db' = Inr d"
  using assms
  by (auto simp: create_external_segment_def get_external_segment_def get_external_segment_row_def read_back
      dest!: if_present_cases process_segment_ers_Inr)

lemma create_external_policy_get:
  assumes "create_external_policy c i b db = Inr (db', d)" "i \<notin> set (table_ids ExternalPolicy db)" "visible_dict c d"
  shows "get_external_policy c i db' = Inr d"
  using assms
  by (auto simp: create_external_policy_def get_external_policy_def get_external_policy_row_def read_back
      dest!: if_present_cases set_ess_for_ep_Inr process_prs_ep_Inr)

lemma create_nat_pool_get:
  assumes "create_nat_pool c i b db = Inr (db', d)" "i \<notin> set (table_ids NatPool db)" "visible_dict c d"
  shows "get_nat_pool c i db' = Inr d"
  using assms
  by (auto simp: create_nat_pool_def get_nat_pool_def get_nat_pool_row_def read_back)

interpretation pc_read: readable_resource PolicyClassifier "\<lambda>i b. i" create_policy_classifier get_policy_classifier delete_policy_classifier
  visible_dict "\<lambda>d. d"
  by unfold_locales (rule create_policy_classifier_get)

interpretation pa_read: readable_resource PolicyAction "\<lambda>i b. i" create_policy_action get_policy_action delete_policy_action
  visible_dict "\<lambda>d. d"
  by unfold_locales (rule create_policy_action_get)

interpretation pr_read: readable_resource PolicyRule "\<lambda>i b. i" create_policy_rule get_policy_rule delete_policy_rule
  visible_dict "\<lambda>d. d"
  by unfold_locales (rule create_policy_rule_get)

interpretation prs_read: readable_resource PolicyRuleSet "\<lambda>i b. i" create_policy_rule_set get_policy_rule_set delete_policy_rule_set
  visible_dict "\<lambda>d. d"
  by unfold_locales (rule create_policy_rule_set_get)

interpretation pt_read: readable_resource PolicyTarget "\<lambda>i b. i" create_policy_target get_policy_target delete_policy_target
  visible_pt stored_view
  by unfold_locales (rule create_policy_target_get)

interpretation ptg_read: readable_resource PolicyTargetGroup "(\<lambda>i b. case ptgb_id b of None \<Rightarrow> i | Some j \<Rightarrow> if j = [] then i else j)" create_policy_target_group get_policy_target_group delete_policy_target_group
  visible_dict "\<lambda>d. d"
  by unfold_locales (rule create_policy_target_group_get)

interpretation apg_read: readable_resource ApplicationPolicyGroup "\<lambda>i b. i" create_application_policy_group get_application_policy_group delete_application_policy_group
  visible_dict "\<lambda>d. d"
  by unfold_locales (rule create_application_policy_group_get)

interpretation l2p_read: readable_resource L2Policy "\<lambda>i b. i" create_l2_policy get_l2_policy delete_l2_policy
  visible_dict "\<lambda>d. d"
  by unfold_locales (rule create_l2_policy_get)

interpretation nsp_read: readable_resource NetworkServicePolicy "\<lambda>i b. i" create_network_service_policy get_network_service_policy delete_network_service_policy
  visible_dict "\<lambda>d. d"
  by unfold_locales (rule create_network_service_policy_get)

interpretation l3p_read: readable_resource L3Policy "\<lambda>i b. i" "create_l3_policy nw pf" "get_l3_policy pf" delete_l3_policy
  visible_dict "\<lambda>d. d"
  by unfold_locales (rule create_l3_policy_get)

interpretation es_read: readable_resource ExternalSegment "\<lambda>i b. i" create_external_segment get_external_segment delete_external_segment
  visible_dict "\<lambda>d. d"
  by unfold_locales (rule create_external_segment_get)

interpretation ep_read: readable_resource ExternalPolicy "\<lambda>i b. i" create_external_policy get_external_policy delete_external_policy
  visible_dict "\<lambda>d. d"
  by unfold_locales (rule create_external_policy_get)

interpretation np_read: readable_resource NatPool "\<lambda>i b. i" create_nat_pool get_nat_pool delete_nat_pool
  visible_dict "\<lambda>d. d"
  by unfold_locales (rule create_nat_pool_get)

end
