(* ===== verification/Db_Safety.thy ===== *)
theory Db_Safety
  imports Db_Contracts
begin

text \<open>
  Properties of the whole database machine: its invariant in every reachable database and what
  follows for the rule set hierarchy and the external addresses, the refinement to an inventory
  of owners, and what a deletion refuses and leaves.
\<close>

section \<open>Inventory of owners\<close>

type_synonym inventory = "res_type \<Rightarrow> string \<Rightarrow> string option"

text \<open>The abstraction: which resources exist, and the tenant of each.\<close>

definition inventory_of :: "gbp_db \<Rightarrow> inventory" where
  "inventory_of db = (\<lambda>rt. map_of (table_keys rt db))"

text \<open>The specification of an operation on inventories.\<close>

fun inventory_op :: "ctx \<Rightarrow> string \<Rightarrow> db_op \<Rightarrow> inventory \<Rightarrow> gbp_error + inventory" where
  "inventory_op c i (Create r) own =
     bindE (get_tenant_id_for_create c (create_body r)) (\<lambda>t.
       Inr (own(create_type r := (own (create_type r))(create_id i r \<mapsto> t))))"
| "inventory_op c i (Delete rt j) own =
     (if own rt j = None then Inl (NotFound rt j) else Inr (own(rt := (own rt)(j := None))))"
| "inventory_op c i op own = Inr own"

lemma map_of_filter_key: "map_of (filter (\<lambda>k. fst k \<noteq> i) xs) = (map_of xs)(i := None)"
  by (induction xs) auto

lemma map_of_append_key:
  "k \<notin> fst ` set xs \<Longrightarrow> map_of (xs @ [(k, v)]) = (map_of xs)(k \<mapsto> v)"
  by (induction xs) (auto simp: fun_eq_iff)

lemma inventory_same: "same_keys db db' \<Longrightarrow> inventory_of db' = inventory_of db"
  by (simp add: inventory_of_def same_keys_def)

lemma inventory_adds:
  "adds_key rt k t db db' \<Longrightarrow> k \<notin> set (table_ids rt db) \<Longrightarrow>
   inventory_of db' = (inventory_of db)(rt := (inventory_of db rt)(k \<mapsto> t))"
  by (rule ext)
     (auto simp: inventory_of_def adds_key_def map_of_append_key map_fst_table_keys[symmetric]
       simp del: map_of_append)

lemma inventory_removes:
  "removes_key rt k db db' \<Longrightarrow>
   inventory_of db' = (inventory_of db)(rt := (inventory_of db rt)(k := None))"
  by (auto simp: inventory_of_def removes_key_def map_of_filter_key)

lemma inventory_None: "inventory_of db rt i = None \<longleftrightarrow> i \<notin> set (table_ids rt db)"
  by (simp add: inventory_of_def map_of_eq_None_iff map_fst_table_keys[symmetric])

text \<open>C4: The database refines the inventory of owners: an operation that commits changes which
  resources exist and who owns them exactly as the specification says.  A creation adds one
  resource, owned by the tenant the request may create for; a deletion removes one existing
  resource; updates and the drivers' setters neither add, remove nor re-assign any.\<close>

theorem inventory_refinement:
  assumes "exec_op e c i op db = Inr db'" and "op_fresh i op db"
  shows "inventory_op c i op (inventory_of db) = Inr (inventory_of db')"
proof (cases op)
  case (Create r)
  with assms have x: "exec_create e c i r db = Inr db'"
    and f: "i \<notin> set (table_ids (create_type r) db)" by simp_all
  from exec_create_key[OF x] inventory_adds create_id_fresh[OF x f] Create show ?thesis by fastforce
next
  case (Update j u)
  with assms show ?thesis by (simp add: inventory_same[OF exec_update_keys])
next
  case (Delete rt j)
  with assms exec_delete_key[of c rt j db db'] inventory_None[of db rt j] inventory_removes[of rt j db db']
  show ?thesis by auto
next
  case (Set s)
  with assms show ?thesis by (simp add: inventory_same[OF exec_set_keys])
qed

section \<open>References to a resource\<close>


fun refers :: "res_type \<Rightarrow> string \<Rightarrow> gbp_db \<Rightarrow> bool" where
  "refers PolicyClassifier i db \<longleftrightarrow> (\<exists>r \<in> set (tb_rules db). pr_classifier_id r = i)"
| "refers PolicyAction i db \<longleftrightarrow> i \<in> snd ` set (as_pr_pa db)"
| "refers PolicyRule i db \<longleftrightarrow> i \<in> snd ` set (as_prs_pr db) \<union> fst ` set (as_pr_pa db)"
| "refers PolicyRuleSet i db \<longleftrightarrow>
     (\<exists>r \<in> set (tb_prss db). prs_parent_id r = Some i) \<or>
     i \<in> fst ` set (as_prs_pr db) \<union> snd ` set (as_ptg_prov db) \<union> snd ` set (as_ptg_cons db)
        \<union> snd ` set (as_ep_prov db) \<union> snd ` set (as_ep_cons db)"
| "refers PolicyTarget i db \<longleftrightarrow> False"
| "refers PolicyTargetGroup i db \<longleftrightarrow>
     (\<exists>r \<in> set (tb_pts db). pt_ptg_id r = Some i) \<or>
     i \<in> fst ` set (as_ptg_prov db) \<union> fst ` set (as_ptg_cons db) \<union> fst ` set (as_ptg_subnet db)"
| "refers ApplicationPolicyGroup i db \<longleftrightarrow> (\<exists>r \<in> set (tb_ptgs db). ptg_apg_id r = Some i)"
| "refers L2Policy i db \<longleftrightarrow> (\<exists>r \<in> set (tb_ptgs db). ptg_l2p_id r = Some i)"
| "refers NetworkServicePolicy i db \<longleftrightarrow>
     (\<exists>r \<in> set (tb_ptgs db). ptg_nsp_id r = Some i) \<or> i \<in> nsparam_nsp_id ` set (tb_nsparams db)"
| "refers L3Policy i db \<longleftrightarrow>
     (\<exists>r \<in> set (tb_l2ps db). l2p_l3p_id r = Some i) \<or>
     i \<in> esl_l3p_id ` set (as_es_l3p db) \<union> fst ` set (as_l3p_router db)
        \<union> fst ` set (as_l3p_sp4 db) \<union> fst ` set (as_l3p_sp6 db)"
| "refers ExternalSegment i db \<longleftrightarrow>
     (\<exists>r \<in> set (tb_nps db). np_es_id r = Some i) \<or>
     i \<in> er_es_id ` set (tb_routes db) \<union> snd ` set (as_ep_es db) \<union> esl_es_id ` set (as_es_l3p db)"
| "refers ExternalPolicy i db \<longleftrightarrow>
     i \<in> fst ` set (as_ep_prov db) \<union> fst ` set (as_ep_cons db) \<union> fst ` set (as_ep_es db)"
| "refers NatPool i db \<longleftrightarrow> False"

lemma sources_empty: "sources a i = [] \<longleftrightarrow> i \<notin> snd ` set a"
  by (rule sources_Nil)

lemma ids_filter_Nil: "ids (filter P t) = [] \<longleftrightarrow> (\<forall>r \<in> set t. \<not> P r)"
  by (auto simp: ids_def filter_empty_conv)

lemmas delete_defs =
  delete_policy_classifier_def delete_policy_action_def delete_policy_rule_def
  delete_policy_rule_set_def delete_policy_target_def delete_policy_target_group_def
  delete_application_policy_group_def delete_l2_policy_def delete_network_service_policy_def
  delete_l3_policy_def delete_external_segment_def delete_external_policy_def delete_nat_pool_def

lemmas user_defs =
  get_policy_classifier_rules_def get_policy_action_rules_def get_policy_rule_policy_rule_sets_def
  get_ptgs_for_providing_policy_rule_set_def get_ptgs_for_consuming_policy_rule_set_def
  get_eps_for_providing_policy_rule_set_def get_eps_for_consuming_policy_rule_set_def
  ptgs_of_l2p_def ptgs_of_nsp_def l2ps_of_l3p_def

lemmas cascade_defs =
  clear_children_def orphan_pts_def orphan_apg_ptgs_def orphan_nps_def drop_l3p_ess_def

lemmas row_defs =
  get_policy_classifier_row_def get_policy_action_row_def get_policy_rule_row_def
  get_policy_rule_set_row_def get_policy_target_row_def get_policy_target_group_row_def
  get_application_policy_group_row_def get_l2_policy_row_def get_network_service_policy_row_def
  get_l3_policy_row_def get_external_segment_row_def get_external_policy_row_def
  get_nat_pool_row_def

lemma delete_unreferred:
  "exec_delete c rt i db = Inr db' \<Longrightarrow> \<not> refers rt i db'"
  by (cases rt)
     (auto simp: delete_defs user_defs cascade_defs bindE_eq_Inr sources_empty ids_filter_Nil
       image_iff del_row_def split: if_splits)

text \<open>C14: A deletion that commits leaves nothing in the database that refers to the deleted
  resource: no foreign key column of another row and no association row still holds its id.\<close>

theorem delete_leaves_no_reference:
  assumes "exec_delete c rt i db = Inr db'"
  shows "\<not> refers rt i db'"
  by (rule delete_unreferred[OF assms])

text \<open>C15: As far as the tables of the group policy database decide it, a deletion is refused only with
  one of two errors: the resource is not found by the request, or it is in use, and then something in
  those tables does refer to it.  Tables of other modules that have foreign keys into them without a
  cascade (the bridge domains that L2 policies reuse, the addresses of service policies, proxied groups)
  are not modelled, and a row of theirs makes the engine refuse the deletion too.\<close>

theorem delete_refusals:
  assumes "exec_delete c rt i db = Inl err"
  shows "err = NotFound rt i \<or> (err = InUse rt i \<and> refers rt i db)"
  using assms
  by (cases rt)
     (auto simp: delete_defs user_defs bindE_eq_Inl sources_empty ids_filter_Nil row_defs
       split: if_splits dest!: get_by_id_Inl)

section \<open>Running requests one after the other\<close>

fun run_ops :: "db_env \<Rightarrow> ctx \<Rightarrow> (string \<times> db_op) list \<Rightarrow> gbp_db \<Rightarrow> gbp_error + gbp_db" where
  "run_ops e c [] db = Inr db"
| "run_ops e c ((i, op) # rest) db =
     (if op_fresh i op db then bindE (exec_op e c i op db) (run_ops e c rest)
      else Inl DBDuplicateEntry)"

lemma run_ops_reachable:
  "run_ops e c ops db = Inr db' \<Longrightarrow> db_reachable e db \<Longrightarrow> db_reachable e db'"
proof (induction ops arbitrary: db)
  case Nil
  then show ?case by simp
next
  case (Cons x ops)
  obtain i op where x: "x = (i, op)" by (cases x)
  with Cons.prems obtain db1 where f: "op_fresh i op db" "exec_op e c i op db = Inr db1"
    and rest: "run_ops e c ops db1 = Inr db'" by (auto simp: bindE_eq_Inr split: if_splits)
  from Cons.prems(2) f have "db_reachable e db1" by (auto intro: db_reachable.step db_step.commit)
  with rest show ?case by (rule Cons.IH)
qed

text \<open>A scenario that the witnesses evaluate: a tenant builds a rule set with a child and an L3
  policy that takes an address of an external segment.\<close>

definition demo_ctx :: ctx where
  "demo_ctx = \<lparr> ctx_is_admin = False, ctx_project = ''t1'',
     ctx_scope = (\<lambda>adm prj ten sh. adm \<or> prj = ten \<or> sh) \<rparr>"

definition demo_net :: net_parser where
  "demo_net s = (if s = ''10.0.0.0/8''
     then Some \<lparr> net_version = 4, net_size = 16777216, net_prefixlen = 8 \<rparr> else None)"

definition demo_env :: db_env where
  "demo_env = \<lparr> env_ip_network = demo_net, env_prefixes_of = (\<lambda>_. []) \<rparr>"

definition demo_body :: "string \<Rightarrow> shared_body" where
  "demo_body n = \<lparr> bd_tenant_id = None, bd_name = n, bd_description = [], bd_status = None,
     bd_status_details = None, bd_shared = None \<rparr>"

definition demo_rule :: "string \<Rightarrow> pr_body" where
  "demo_rule cl = shared_body.extend (demo_body ''rule'') (pr_body.fields True cl [''a1''])"

definition demo_rule_set :: "string list \<Rightarrow> string list \<Rightarrow> prs_body" where
  "demo_rule_set rules kids = shared_body.extend (demo_body ''set'') (prs_body.fields rules kids)"

definition demo_l3p :: l3p_body where
  "demo_l3p = shared_body.extend (demo_body ''l3p'')
     (l3p_body.fields 4 (Some ''10.0.0.0/8'') 24 None None [] [] None
        (Some (Some [(''e1'', [''7.7.7.7''])])))"

definition demo_script :: "(string \<times> db_op) list" where
  "demo_script =
     [(''a1'', Create (NewPolicyAction (shared_body.extend (demo_body ''act'')
                 (pa_body.fields (Some ''allow'') None)))),
      (''c1'', Create (NewPolicyClassifier (shared_body.extend (demo_body ''cls'')
                 (pc_body.fields (Some ''tcp'') (Some ''80:90'') (Some ''in''))))),
      (''r1'', Create (NewPolicyRule (demo_rule ''c1''))),
      (''s1'', Create (NewPolicyRuleSet (demo_rule_set [''r1''] []))),
      (''s2'', Create (NewPolicyRuleSet (demo_rule_set [] [''s1'']))),
      (''e1'', Create (NewExternalSegment (shared_body.extend (demo_body ''es'')
                 (es_body.fields 4 ''7.7.0.0/16'' False None None)))),
      (''l1'', Create (NewL3Policy demo_l3p))]"

definition demo_db :: gbp_db where
  "demo_db = (case run_ops demo_env demo_ctx demo_script empty_db of Inl e \<Rightarrow> empty_db | Inr db \<Rightarrow> db)"

lemma demo_runs: "\<not> isl (run_ops demo_env demo_ctx demo_script empty_db)"
  by code_simp

lemma demo_reachable: "db_reachable demo_env demo_db"
proof -
  from demo_runs obtain db where r: "run_ops demo_env demo_ctx demo_script empty_db = Inr db"
    by (cases "run_ops demo_env demo_ctx demo_script empty_db") auto
  then have "demo_db = db" by (simp add: demo_db_def)
  with r run_ops_reachable db_reachable.init show ?thesis by blast
qed

lemma demo_facts:
  "map row_id (tb_prss demo_db) = [''s1'', ''s2'']"
  "map prs_parent_id (tb_prss demo_db) = [Some ''s2'', None]"
  "as_es_l3p demo_db = [\<lparr> esl_l3p_id = ''l1'', esl_es_id = ''e1'', esl_address = ''7.7.7.7'' \<rparr>]"
  by code_simp+

section \<open>Reachable databases\<close>

text \<open>C3: In every database the plugin can reach from the empty one, by any sequence of requests
  and driver calls of any tenants, ids are unique in each table and every association row joins
  two existing rows, each pair at most once.\<close>

theorem reachable_integrity:
  assumes "db_reachable e db"
  shows "ids_inv db \<and> assoc_inv db"
  using reachable_inv[OF assms] by (simp add: db_inv_def)

lemma reachable_integrity_witness: "ids_inv demo_db \<and> assoc_inv demo_db \<and> tb_rules demo_db \<noteq> []"
proof -
  have "tb_rules demo_db \<noteq> []" by code_simp
  with reachable_integrity[OF demo_reachable] show ?thesis by blast
qed

text \<open>C10: The rule set hierarchy of a reachable database has two levels and no cycle: the parent
  of a rule set is another existing rule set that has no parent itself, and a rule set with a
  parent has no children.\<close>

theorem rule_set_hierarchy:
  assumes "db_reachable e db" and "r \<in> set (tb_prss db)" and "prs_parent_id r = Some p"
  shows "p \<noteq> row_id r \<and> children_of (tb_prss db) (row_id r) = [] \<and>
    (\<exists>q \<in> set (tb_prss db). row_id q = p \<and> prs_parent_id q = None)"
proof -
  have tree: "prs_tree (tb_prss db)"
    using reachable_inv[OF assms(1)] by (simp add: db_inv_def prs_inv_def)
  from bspec[OF tree[unfolded prs_tree_def] assms(2)] assms(3)
  have p: "p \<noteq> row_id r" "\<exists>q \<in> set (tb_prss db). row_id q = p"
    "\<forall>q \<in> set (tb_prss db). row_id q = p \<longrightarrow> prs_parent_id q = None" by simp_all
  have "prs_parent_id s \<noteq> Some (row_id r)" if "s \<in> set (tb_prss db)" for s
    using bspec[OF tree[unfolded prs_tree_def] that] assms(2,3) by auto
  with p show ?thesis by (auto simp: children_of_Nil)
qed

lemma rule_set_hierarchy_witness:
  "\<exists>r p. r \<in> set (tb_prss demo_db) \<and> prs_parent_id r = Some p \<and> p \<noteq> row_id r \<and>
     children_of (tb_prss demo_db) (row_id r) = []"
proof -
  obtain r where r: "r \<in> set (tb_prss demo_db)" "prs_parent_id r = Some ''s2''"
    using demo_facts(2) by (cases "tb_prss demo_db") auto
  with rule_set_hierarchy[OF demo_reachable r] show ?thesis by blast
qed

text \<open>C13: No two L3 policies of a reachable database hold the same address of an external
  segment: rows of the allocation table that agree on segment and (specified) address are the
  same row.\<close>

theorem external_addresses_unique:
  assumes "db_reachable e db" and "x \<in> set (as_es_l3p db)" "y \<in> set (as_es_l3p db)"
    and "esl_es_id x = esl_es_id y" "esl_address x = esl_address y"
    and "esl_address x \<noteq> ADDRESS_NOT_SPECIFIED"
  shows "esl_l3p_id x = esl_l3p_id y"
  using reachable_inv[OF assms(1)] assms(2-6)
  by (auto simp: db_inv_def es_inv_def es_alloc_ok_def)

lemma external_addresses_unique_witness:
  "length (as_es_l3p demo_db) = 1 \<and> esl_address (hd (as_es_l3p demo_db)) = ''7.7.7.7'' \<and>
   esl_l3p_id (hd (as_es_l3p demo_db)) = esl_l3p_id (last (as_es_l3p demo_db))"
proof -
  have "esl_l3p_id (hd (as_es_l3p demo_db)) = esl_l3p_id (last (as_es_l3p demo_db))"
    by (rule external_addresses_unique[OF demo_reachable])
      (simp_all add: demo_facts(3) ADDRESS_NOT_SPECIFIED_def)
  then show ?thesis by (simp add: demo_facts(3))
qed

section \<open>Tenancy\<close>

text \<open>The row of a resource that a request sees.\<close>

definition seen_in :: "('a gbp_row_scheme \<Rightarrow> bool) \<Rightarrow> string \<Rightarrow> 'a gbp_row_scheme list \<Rightarrow> bool" where
  "seen_in vis i t \<longleftrightarrow> (\<exists>r \<in> set t. row_id r = i \<and> vis r)"

fun sees_id :: "ctx \<Rightarrow> res_type \<Rightarrow> string \<Rightarrow> gbp_db \<Rightarrow> bool" where
  "sees_id c PolicyClassifier i db \<longleftrightarrow> seen_in (sees_row c) i (tb_classifiers db)"
| "sees_id c PolicyAction i db \<longleftrightarrow> seen_in (sees_row c) i (tb_actions db)"
| "sees_id c PolicyRule i db \<longleftrightarrow> seen_in (sees_row c) i (tb_rules db)"
| "sees_id c PolicyRuleSet i db \<longleftrightarrow> seen_in (sees_row c) i (tb_prss db)"
| "sees_id c PolicyTarget i db \<longleftrightarrow> seen_in (sees_pt c) i (tb_pts db)"
| "sees_id c PolicyTargetGroup i db \<longleftrightarrow> seen_in (sees_row c) i (tb_ptgs db)"
| "sees_id c ApplicationPolicyGroup i db \<longleftrightarrow> seen_in (sees_row c) i (tb_apgs db)"
| "sees_id c L2Policy i db \<longleftrightarrow> seen_in (sees_row c) i (tb_l2ps db)"
| "sees_id c NetworkServicePolicy i db \<longleftrightarrow> seen_in (sees_row c) i (tb_nsps db)"
| "sees_id c L3Policy i db \<longleftrightarrow> seen_in (sees_row c) i (tb_l3ps db)"
| "sees_id c ExternalSegment i db \<longleftrightarrow> seen_in (sees_row c) i (tb_ess db)"
| "sees_id c ExternalPolicy i db \<longleftrightarrow> seen_in (sees_row c) i (tb_eps db)"
| "sees_id c NatPool i db \<longleftrightarrow> seen_in (sees_row c) i (tb_nps db)"

lemma get_by_id_seen: "get_by_id vis rt t i = Inr r \<Longrightarrow> seen_in vis i t"
  by (auto simp: seen_in_def dest: get_by_id_Inr)

lemmas update_defs =
  update_policy_classifier_def update_policy_action_def update_policy_rule_def
  update_policy_rule_set_def update_policy_target_def update_policy_target_group_def
  update_application_policy_group_def update_l2_policy_def update_network_service_policy_def
  update_l3_policy_def update_external_segment_def update_external_policy_def update_nat_pool_def

lemma exec_update_sees: "exec_update e c i u db = Inr db' \<Longrightarrow> sees_id c (update_type u) i db"
  by (cases u)
     (auto simp: update_defs row_defs bindE_eq_Inr Let_def split: if_splits dest: get_by_id_seen)

lemma exec_delete_sees: "exec_delete c rt i db = Inr db' \<Longrightarrow> sees_id c rt i db"
  by (cases rt) (auto simp: delete_defs row_defs bindE_eq_Inr dest: get_by_id_seen)

text \<open>C16: A request that is not an administrator's acts for its own tenant only: whatever it
  creates belongs to its project, and it updates or deletes only resources that the visibility
  rule of the query layer shows it.\<close>

theorem tenant_confinement:
  assumes "\<not> ctx_is_admin c" and "op_fresh i op db" and "exec_op e c i op db = Inr db'"
  shows "case op of
      Create r \<Rightarrow> inventory_of db' (create_type r) (create_id i r) = Some (ctx_project c)
    | Update j u \<Rightarrow> sees_id c (update_type u) j db
    | Delete rt j \<Rightarrow> sees_id c rt j db
    | Set s \<Rightarrow> inventory_of db' = inventory_of db"
proof (cases op)
  case (Create r)
  with assms have x: "exec_create e c i r db = Inr db'"
    and f: "i \<notin> set (table_ids (create_type r) db)" by simp_all
  from exec_create_key[OF x] obtain t where t: "get_tenant_id_for_create c (create_body r) = Inr t"
    and k: "adds_key (create_type r) (create_id i r) t db db'" by blast
  from tenant_for_create_cases[OF t] assms(1) have "t = ctx_project c" by blast
  with inventory_adds[OF k create_id_fresh[OF x f]] Create show ?thesis by simp
next
  case (Update j u)
  with assms show ?thesis by (simp add: exec_update_sees)
next
  case (Delete rt j)
  with assms show ?thesis by (simp add: exec_delete_sees)
next
  case (Set s)
  with assms show ?thesis by (simp add: inventory_same[OF exec_set_keys])
qed

section \<open>Witnesses in the scenario\<close>

lemma not_isl: "\<not> isl m \<Longrightarrow> \<exists>x. m = Inr x"
  by (cases m) auto

definition demo_act :: create_req where
  "demo_act = NewPolicyAction (shared_body.extend (demo_body ''act'') (pa_body.fields (Some ''allow'') None))"

lemma demo_create: "\<not> isl (exec_op demo_env demo_ctx ''a2'' (Create demo_act) demo_db)"
  by code_simp

lemma demo_fresh: "op_fresh ''a2'' (Create demo_act) demo_db"
  by code_simp

lemma inventory_refinement_witness:
  "\<exists>db'. inventory_op demo_ctx ''a2'' (Create demo_act) (inventory_of demo_db) = Inr (inventory_of db')"
  using not_isl[OF demo_create] inventory_refinement demo_fresh by blast

lemma demo_delete: "\<not> isl (exec_delete demo_ctx PolicyRuleSet ''s2'' demo_db)"
  by code_simp

lemma delete_leaves_no_reference_witness:
  "\<exists>db'. exec_delete demo_ctx PolicyRuleSet ''s2'' demo_db = Inr db' \<and>
     \<not> refers PolicyRuleSet ''s2'' db' \<and> refers PolicyRuleSet ''s2'' demo_db"
proof -
  have "refers PolicyRuleSet ''s2'' demo_db" by code_simp
  with not_isl[OF demo_delete] delete_leaves_no_reference show ?thesis by blast
qed

lemma delete_refusals_witness:
  "\<exists>err. exec_delete demo_ctx PolicyRule ''r1'' demo_db = Inl err \<and> err = InUse PolicyRule ''r1'' \<and>
     refers PolicyRule ''r1'' demo_db"
proof -
  have "exec_delete demo_ctx PolicyRule ''r1'' demo_db = Inl (InUse PolicyRule ''r1'')" by code_simp
  with delete_refusals[OF this] show ?thesis by auto
qed

lemma tenant_confinement_witness:
  "\<exists>db'. exec_op demo_env demo_ctx ''a2'' (Create demo_act) demo_db = Inr db' \<and>
     inventory_of db' PolicyAction ''a2'' = Some ''t1''"
proof -
  obtain db' where r: "exec_op demo_env demo_ctx ''a2'' (Create demo_act) demo_db = Inr db'"
    using not_isl[OF demo_create] by blast
  have "\<not> ctx_is_admin demo_ctx" by (simp add: demo_ctx_def)
  from tenant_confinement[OF this demo_fresh r] r show ?thesis
    by (auto simp: demo_act_def demo_ctx_def)
qed

end
