(* ===== verification/Db_Relations.thy ===== *)
theory Db_Relations
  imports Db_Safety
begin

text \<open>
  The functional behaviour of the operations that write relationships: the children of a rule
  set, the rule sets a group provides and consumes, associations brought in line with a
  requested set, external segments of an L3 policy, and what the validation of an L3 policy
  admits.
\<close>

section \<open>Children of a rule set\<close>

lemma require_ids_iff:
  "(\<exists>u. require_ids vis rt js t = Inr u) \<longleftrightarrow> (\<forall>j \<in> set js. seen_in vis j t)"
  by (force simp: require_ids_Inr seen_in_def ids_def set_query_ids)

lemma require_ids_query:
  "require_ids vis rt js t = Inr u \<Longrightarrow> set (ids (query_ids vis js t)) = set js"
  using query_ids_subset require_ids_Inr by fast

lemma children_of_set: "j \<in> set (children_of t i) \<longleftrightarrow> (\<exists>r \<in> set t. row_id r = j \<and> prs_parent_id r = Some i)"
  by (auto simp: children_of_def ids_def)

lemma children_after_adopt:
  "children_of (adopt i ks (clear_children i t)) i = filter (\<lambda>j. j \<in> set ks) (ids t)"
  by (induction t) (auto simp: children_of_def adopt_def clear_children_def ids_def)

lemma children_after_clear: "children_of (clear_children i t) i = []"
  by (auto simp: children_of_Nil clear_children_def)

definition may_adopt :: "ctx \<Rightarrow> policy_rule_set \<Rightarrow> string list \<Rightarrow> gbp_db \<Rightarrow> bool" where
  "may_adopt c r js db \<longleftrightarrow>
     prs_parent_id r = None \<and>
     (\<forall>j \<in> set js. seen_in (sees_row c) j (tb_prss db) \<and> children_of (tb_prss db) j = [] \<and> j \<noteq> row_id r)"

lemma set_children_ok:
  assumes "set_children_for_policy_rule_set c r js db = Inr db'" "js \<noteq> []"
  shows "may_adopt c r js db \<and> set (children_of (tb_prss db') (row_id r)) = set js"
proof -
  from assms obtain ch u where q: "require_ids (sees_row c) PolicyRuleSet js (tb_prss db) = Inr u"
    and ch: "ch = query_ids (sees_row c) js (tb_prss db)" and root: "prs_parent_id r = None"
    and chk: "\<forall>child \<in> set ch. children_of (tb_prss db) (row_id child) = [] \<and> row_id child \<noteq> row_id r"
    and db': "tb_prss db' = adopt (row_id r) (ids ch) (clear_children (row_id r) (tb_prss db))"
    by (auto simp: set_children_for_policy_rule_set_def validate_policy_rule_set_list_def Let_def
        bindE_eq_Inr checkE_eq_Inr split: if_splits)
  have ids: "set (ids ch) = set js" using require_ids_query[OF q] ch by simp
  have sub: "set js \<subseteq> set (ids (tb_prss db))" using q by (rule require_ids_exist)
  have "\<forall>j \<in> set js. seen_in (sees_row c) j (tb_prss db)" using q require_ids_iff by blast
  moreover have "\<forall>j \<in> set (ids ch). children_of (tb_prss db) j = [] \<and> j \<noteq> row_id r"
    using chk by (simp add: ids_def)
  ultimately have "may_adopt c r js db" using ids root by (auto simp: may_adopt_def)
  with db' ids sub show ?thesis by (auto simp: children_after_adopt)
qed

lemma set_children_complete:
  assumes "may_adopt c r js db"
  shows "\<exists>db'. set_children_for_policy_rule_set c r js db = Inr db'"
proof -
  have q: "require_ids (sees_row c) PolicyRuleSet js (tb_prss db) = Inr ()"
    using assms require_ids_iff[of "sees_row c" PolicyRuleSet js "tb_prss db"]
    by (auto simp: may_adopt_def)
  have "checkE (\<lambda>child. guardE (\<not> (children_of (tb_prss db) (row_id child) \<noteq> [] \<or> row_id child = row_id r))
      (BadPolicyRuleSetRelationship (row_id r) (row_id child))) (query_ids (sees_row c) js (tb_prss db)) = Inr ()"
    using assms by (auto simp: checkE_eq_Inr may_adopt_def set_query_ids)
  with q assms show ?thesis
    by (auto simp: set_children_for_policy_rule_set_def validate_policy_rule_set_list_def Let_def
        may_adopt_def)
qed

text \<open>Assigning children to a rule set succeeds exactly when the list is empty, or the rule set
  has no parent and every requested child is a rule set that the request sees, that has no
  children of its own and is another rule set; afterwards its children are exactly the requested
  ones.\<close>

theorem set_children_spec:
  "case set_children_for_policy_rule_set c r js db of
     Inr db' \<Rightarrow> (js = [] \<or> may_adopt c r js db) \<and> set (children_of (tb_prss db') (row_id r)) = set js
   | Inl e \<Rightarrow> js \<noteq> [] \<and> \<not> may_adopt c r js db"
proof (cases "js = []")
  case True
  then show ?thesis by (simp add: set_children_for_policy_rule_set_def Let_def children_after_clear)
next
  case False
  then show ?thesis
    using set_children_ok[of c r js db] set_children_complete[of c r js db]
    by (cases "set_children_for_policy_rule_set c r js db") auto
qed

section \<open>Provided and consumed rule sets\<close>

lemma set_prs_for_res_frame:
  "set_providers_or_consumers_for_res c i js db a = Inr a' \<Longrightarrow> j \<noteq> i \<Longrightarrow> targets a' j = targets a j"
  by (auto simp: set_providers_or_consumers_for_res_def bindE_eq_Inr dest: set_targets_frame
      split: if_splits)

lemma set_prs_for_res_upd:
  assumes "set_providers_or_consumers_for_res c i js db a = Inr a'"
  shows "targets a' j = (if j = i then js else targets a j)"
  using assms by (simp add: set_prs_for_res_targets set_prs_for_res_frame)

lemma process_prs_ptg_targets:
  assumes "process_policy_rule_sets_for_ptg c i ps cs db = Inr db'"
  shows "targets (as_ptg_prov db') j = (if j = i then get_default ps (targets (as_ptg_prov db) i)
           else targets (as_ptg_prov db) j)"
    and "targets (as_ptg_cons db') j = (if j = i then get_default cs (targets (as_ptg_cons db) i)
           else targets (as_ptg_cons db) j)"
  using assms
  by (auto simp: process_policy_rule_sets_for_ptg_def bindE_eq_Inr
      set_providers_or_consumers_for_policy_target_group_def set_prs_for_res_upd
      dest!: if_present_cases)

text \<open>An update of a policy target group sets the rule sets it provides and consumes to exactly
  the requested ones, in the requested order, keeps those the request does not mention, and
  leaves every other group as it was.\<close>

theorem update_group_rule_sets:
  assumes "update_policy_target_group c i u db = Inr (db', d)"
  shows "targets (as_ptg_prov db') j =
           (if j = i then get_default (ptgu_provided u) (targets (as_ptg_prov db) i)
            else targets (as_ptg_prov db) j) \<and>
         targets (as_ptg_cons db') j =
           (if j = i then get_default (ptgu_consumed u) (targets (as_ptg_cons db) i)
            else targets (as_ptg_cons db) j)"
  using assms
  by (auto simp: update_policy_target_group_def Let_def bindE_eq_Inr process_prs_ptg_targets
      split: option.splits)

section \<open>Associations brought in line with a requested set\<close>

lemma sync_targets_set:
  "(j, s) \<in> set (sync_targets i new a) \<longleftrightarrow> (if j = i then s \<in> set new else (j, s) \<in> set a)"
  by (auto simp: sync_targets_def set_targets_iff)

lemma sync_targets_distinct: "distinct a \<Longrightarrow> distinct (sync_targets i new a)"
  by (auto simp: sync_targets_def distinct_map inj_on_def set_targets_iff)

text \<open>An update of an L3 policy that names routers makes the policy's routers exactly the named
  ones, and a non-empty list of subnet pools does the same for the pools of each version; an
  empty list of pools changes nothing, and no other policy's associations change.\<close>

theorem update_l3p_associations:
  assumes "update_l3_policy nw pf c i u db = Inr (db', d)"
  shows "set (targets (as_l3p_router db') j) =
           (if j = i then get_default (map_option set (l3pu_routers u)) (set (targets (as_l3p_router db) i))
            else set (targets (as_l3p_router db) j)) \<and>
         set (targets (as_l3p_sp4 db') j) =
           (if j = i \<and> l3pu_subnetpools_v4 u \<noteq> [] then set (l3pu_subnetpools_v4 u)
            else set (targets (as_l3p_sp4 db) j)) \<and>
         set (targets (as_l3p_sp6 db') j) =
           (if j = i \<and> l3pu_subnetpools_v6 u \<noteq> [] then set (l3pu_subnetpools_v6 u)
            else set (targets (as_l3p_sp6 db) j))"
proof -
  define db1 where "db1 = db\<lparr>as_l3p_sp4 := update_subnetpools i (l3pu_subnetpools_v4 u) (as_l3p_sp4 db),
    as_l3p_sp6 := update_subnetpools i (l3pu_subnetpools_v6 u) (as_l3p_sp6 db)\<rparr>"
  define db2 where "db2 = (case l3pu_routers u of None \<Rightarrow> db1
    | Some rs \<Rightarrow> db1\<lparr>as_l3p_router := sync_targets i rs (as_l3p_router db1)\<rparr>)"
  from assms obtain db3 where
    3: "if_present (l3pu_external_segments u) (set_ess_for_l3p c i) db2 = Inr db3"
    and 4: "db' = db3\<lparr>tb_l3ps := upd_row i (upd_l3p u) (tb_l3ps db3)\<rparr>"
    unfolding update_l3_policy_def Let_def db1_def[symmetric] db2_def[symmetric]
    by (auto simp: bindE_eq_Inr split: if_splits)
  have "as_l3p_router db' = as_l3p_router db2 \<and> as_l3p_sp4 db' = as_l3p_sp4 db2 \<and>
      as_l3p_sp6 db' = as_l3p_sp6 db2"
    using 3 4 by (auto dest!: if_present_cases set_ess_for_l3p_Inr)
  then show ?thesis
    by (auto simp: db2_def db1_def update_subnetpools_def set_targets_iff sync_targets_set
        split: option.splits)
qed

section \<open>What the validation of an L3 policy admits\<close>

definition pool_ok :: "net_parser \<Rightarrow> int \<Rightarrow> int \<Rightarrow> string \<Rightarrow> bool" where
  "pool_ok ip_network ip_version len pool =
     (case ip_network pool of
        None \<Rightarrow> False
      | Some n \<Rightarrow>
          (if ip_version = 46 then net_version n = 4 \<or> net_version n = 6 else net_version n = ip_version)
          \<and> 3 < net_size n \<and> net_prefixlen n \<noteq> 0 \<and> (net_version n = 4 \<longrightarrow> net_prefixlen n \<le> len))"

lemma check_pool_Inr:
  "check_pool nw v p = Inr u \<longleftrightarrow>
     (\<exists>n. nw p = Some n \<and> (if v = 46 then net_version n = 4 \<or> net_version n = 6 else net_version n = v)
        \<and> 3 < net_size n \<and> net_prefixlen n \<noteq> 0)"
  by (auto simp: check_pool_def split: option.splits if_splits)

lemma validate_subnet_prefix_length_Inr:
  "validate_subnet_prefix_length nw v len pool = Inr u \<longleftrightarrow>
     (v = 4 \<or> v = 46 \<longrightarrow> 2 \<le> len \<and> len \<le> 31) \<and>
     (\<forall>p \<in> set (convert_ip_pool_string_to_list pool).
        \<exists>n. nw p = Some n \<and> (net_version n = 4 \<longrightarrow> net_prefixlen n \<le> len))"
  by (auto simp: validate_subnet_prefix_length_def MAX_IPV4_SUBNET_PREFIX_LENGTH_def checkE_eq_Inr
      split: option.splits if_splits) (metis not_less)+

lemma validate_ip_pool_Inr:
  "validate_ip_pool nw pool v = Inr u \<longleftrightarrow>
     pool = None \<or> pool = Some [] \<or> (\<forall>p \<in> set (convert_ip_pool_string_to_list pool).
        check_pool nw v p = Inr ())"
  by (auto simp: validate_ip_pool_def checkE_eq_Inr)

lemma empty_pool_list: "convert_ip_pool_string_to_list None = []" "convert_ip_pool_string_to_list (Some []) = []"
  by (auto simp: convert_ip_pool_string_to_list_def)

text \<open>The two validations an L3 policy passes before it is stored accept exactly these
  requests: an IPv4 or dual-stack policy has a default prefix length from 2 to 31, and every
  entry of the address pool is a network of an admitted IP version with more than three
  addresses, not the whole address space, and, for IPv4, at least as large as the subnets to be
  carved from it.\<close>

theorem l3p_validation_exact:
  "(validate_ip_pool nw pool v = Inr () \<and> validate_subnet_prefix_length nw v len pool = Inr ()) \<longleftrightarrow>
     (v = 4 \<or> v = 46 \<longrightarrow> 2 \<le> len \<and> len \<le> 31) \<and>
     list_all (pool_ok nw v len) (convert_ip_pool_string_to_list pool)"
  unfolding validate_ip_pool_Inr validate_subnet_prefix_length_Inr check_pool_Inr list_all_iff pool_ok_def
  by (auto simp: empty_pool_list split: option.splits if_splits)

section \<open>Witnesses\<close>

lemma l3p_validation_exact_witness:
  "validate_ip_pool demo_net (Some ''10.0.0.0/8,10.0.0.0/8'') 4 = Inr () \<and>
   validate_subnet_prefix_length demo_net 4 24 (Some ''10.0.0.0/8,10.0.0.0/8'') = Inr ()"
proof -
  have "list_all (pool_ok demo_net 4 24) (convert_ip_pool_string_to_list (Some ''10.0.0.0/8,10.0.0.0/8''))"
    by code_simp
  then show ?thesis by (simp only: l3p_validation_exact) simp
qed

definition demo_group :: ptg_body where
  "demo_group = shared_body.extend (demo_body ''web'')
     (ptg_body.fields None None None None False None (Some [''s2'']) None)"

definition demo_group_db :: gbp_db where
  "demo_group_db = (case exec_op demo_env demo_ctx ''g1'' (Create (NewPolicyTargetGroup demo_group)) demo_db
     of Inl e \<Rightarrow> empty_db | Inr db \<Rightarrow> db)"

definition demo_group_upd :: ptg_upd where
  "demo_group_upd = \<lparr> ud_name = None, ud_description = None, ud_status = None, ud_status_details = None,
     ud_shared = None, ptgu_l2_policy_id = None, ptgu_apg_id = None, ptgu_nsp_id = None,
     ptgu_service_management = None, ptgu_subnets = None, ptgu_provided = None,
     ptgu_consumed = Some [''s1'', ''s2''] \<rparr>"

lemma demo_group_update:
  "\<not> isl (update_policy_target_group demo_ctx ''g1'' demo_group_upd demo_group_db)"
  by code_simp

lemma update_group_rule_sets_witness:
  "\<exists>db' d. update_policy_target_group demo_ctx ''g1'' demo_group_upd demo_group_db = Inr (db', d) \<and>
     targets (as_ptg_prov db') ''g1'' = [''s2''] \<and> targets (as_ptg_cons db') ''g1'' = [''s1'', ''s2'']"
proof -
  obtain db' d where r: "update_policy_target_group demo_ctx ''g1'' demo_group_upd demo_group_db = Inr (db', d)"
    using not_isl[OF demo_group_update] by auto
  have "targets (as_ptg_prov demo_group_db) ''g1'' = [''s2'']" by code_simp
  with update_group_rule_sets[OF r, of "''g1''"] r show ?thesis by (simp add: demo_group_upd_def)
qed

definition demo_l3p_upd :: l3p_upd where
  "demo_l3p_upd = \<lparr> ud_name = None, ud_description = None, ud_status = None, ud_status_details = None,
     ud_shared = None, l3pu_subnet_prefix_length = Some 26, l3pu_address_scope_v4_id = None,
     l3pu_address_scope_v6_id = None, l3pu_subnetpools_v4 = [''p1''], l3pu_subnetpools_v6 = [],
     l3pu_routers = Some [''rt1'', ''rt2''], l3pu_external_segments = None \<rparr>"

lemma demo_l3p_update:
  "\<not> isl (update_l3_policy demo_net (\<lambda>_. []) demo_ctx ''l1'' demo_l3p_upd demo_db)"
  by code_simp

lemma update_l3p_associations_witness:
  "\<exists>db' d. update_l3_policy demo_net (\<lambda>_. []) demo_ctx ''l1'' demo_l3p_upd demo_db = Inr (db', d) \<and>
     set (targets (as_l3p_router db') ''l1'') = {''rt1'', ''rt2''} \<and>
     set (targets (as_l3p_sp4 db') ''l1'') = {''p1''}"
proof -
  obtain db' d where r: "update_l3_policy demo_net (\<lambda>_. []) demo_ctx ''l1'' demo_l3p_upd demo_db = Inr (db', d)"
    using not_isl[OF demo_l3p_update] by auto
  with update_l3p_associations[OF r, of "''l1''"] show ?thesis by (simp add: demo_l3p_upd_def)
qed

end
