(* ===== verification/Plugin_Sharing.thy ===== *)
theory Plugin_Sharing
  imports Db_Relations
begin

text \<open>
  The sharing and routing validations of the plugin (\<^verbatim>\<open>services/grouppolicy/plugin.py\<close>): what a
  resource may refer to, given who owns it and whether it is shared, when it may stop being
  shared, and the overlap checks between external routes, external segments and L3 policies.

  A validated resource is its result dictionary, seen through its id, tenant, shared flag and
  the attributes the code looks up by name (\<open>obj_view\<close>).  The plugin's own query methods
  \<^verbatim>\<open>get_*s\<close> add extension attributes and driver status to the rows a request sees; neither
  is an attribute the validations read, so the queries here return the rows' views.
\<close>

section \<open>Views of resources\<close>

record res_view =
  rv_id :: string
  rv_tenant :: string
  rv_shared :: bool

record obj_view = res_view +
  ov_attrs :: "(string \<times> string list) list"

definition view_row :: "'a shared_row_scheme \<Rightarrow> res_view" where
  "view_row r = \<lparr> rv_id = row_id r, rv_tenant = row_tenant r, rv_shared = row_shared r \<rparr>"

definition view_pt :: "'a gbp_row_scheme \<Rightarrow> res_view" where
  "view_pt r = \<lparr> rv_id = row_id r, rv_tenant = row_tenant r, rv_shared = False \<rparr>"

text \<open>The query methods with a filter on a column, or on the id.\<close>

definition query_rows ::
  "ctx \<Rightarrow> ('a shared_row_scheme \<Rightarrow> bool) \<Rightarrow> 'a shared_row_scheme list \<Rightarrow> res_view list" where
  "query_rows c flt t = map view_row (get_collection (sees_row c) flt t)"

fun query_by_ids :: "ctx \<Rightarrow> res_type \<Rightarrow> string list \<Rightarrow> gbp_db \<Rightarrow> res_view list" where
  "query_by_ids c PolicyClassifier js db = query_rows c (\<lambda>r. row_id r \<in> set js) (tb_classifiers db)"
| "query_by_ids c PolicyAction js db = query_rows c (\<lambda>r. row_id r \<in> set js) (tb_actions db)"
| "query_by_ids c PolicyRule js db = query_rows c (\<lambda>r. row_id r \<in> set js) (tb_rules db)"
| "query_by_ids c PolicyRuleSet js db = query_rows c (\<lambda>r. row_id r \<in> set js) (tb_prss db)"
| "query_by_ids c PolicyTarget js db =
     map view_pt (get_collection (sees_pt c) (\<lambda>r. row_id r \<in> set js) (tb_pts db))"
| "query_by_ids c PolicyTargetGroup js db = query_rows c (\<lambda>r. row_id r \<in> set js) (tb_ptgs db)"
| "query_by_ids c ApplicationPolicyGroup js db = query_rows c (\<lambda>r. row_id r \<in> set js) (tb_apgs db)"
| "query_by_ids c L2Policy js db = query_rows c (\<lambda>r. row_id r \<in> set js) (tb_l2ps db)"
| "query_by_ids c NetworkServicePolicy js db = query_rows c (\<lambda>r. row_id r \<in> set js) (tb_nsps db)"
| "query_by_ids c L3Policy js db = query_rows c (\<lambda>r. row_id r \<in> set js) (tb_l3ps db)"
| "query_by_ids c ExternalSegment js db = query_rows c (\<lambda>r. row_id r \<in> set js) (tb_ess db)"
| "query_by_ids c ExternalPolicy js db = query_rows c (\<lambda>r. row_id r \<in> set js) (tb_eps db)"
| "query_by_ids c NatPool js db = query_rows c (\<lambda>r. row_id r \<in> set js) (tb_nps db)"

text \<open>A reference attribute as a list: a falsy value is the empty list, a string one element.\<close>

definition ref_list :: "string option \<Rightarrow> string list" where
  "ref_list x = (case x of None \<Rightarrow> [] | Some s \<Rightarrow> if s = [] then [] else [s])"

definition obj_of :: "'a shared_dict_scheme \<Rightarrow> (string \<times> string list) list \<Rightarrow> obj_view" where
  "obj_of d attrs =
     \<lparr> rv_id = d_id d, rv_tenant = d_tenant_id d, rv_shared = d_shared d, ov_attrs = attrs \<rparr>"

definition obj_l3p :: "l3pm_dict \<Rightarrow> obj_view" where
  "obj_l3p d = obj_of d [(''external_segments'', map fst (l3pd_external_segments d))]"

definition obj_l2p :: "l2pm_dict \<Rightarrow> obj_view" where
  "obj_l2p d = obj_of d [(''l3_policy_id'', ref_list (l2pd_l3_policy_id d))]"

definition obj_ptg :: "ptgm_dict \<Rightarrow> obj_view" where
  "obj_ptg d = obj_of d
     [(''network_service_policy_id'', ref_list (ptgd_nsp_id d)),
      (''l2_policy_id'', ref_list (ptgd_l2_policy_id d)),
      (''provided_policy_rule_sets'', ptgd_provided d),
      (''consumed_policy_rule_sets'', ptgd_consumed d)]"

definition obj_pr :: "pr_dict \<Rightarrow> obj_view" where
  "obj_pr d = obj_of d
     [(''policy_classifier_id'', ref_list (Some (prd_policy_classifier_id d))),
      (''policy_actions'', prd_policy_actions d)]"

definition obj_prs :: "prs_dict \<Rightarrow> obj_view" where
  "obj_prs d = obj_of d
     [(''parent_id'', ref_list (prsd_parent_id d)),
      (''policy_rules'', prsd_policy_rules d),
      (''providing_policy_target_groups'', prsd_providing_policy_target_groups d),
      (''consuming_policy_target_groups'', prsd_consuming_policy_target_groups d),
      (''providing_external_policies'', prsd_providing_external_policies d),
      (''consuming_external_policies'', prsd_consuming_external_policies d)]"

definition obj_es :: "esm_dict \<Rightarrow> obj_view" where
  "obj_es d = obj_of d
     [(''l3_policies'', esd_l3_policies d), (''external_policies'', esd_external_policies d)]"

definition obj_ep :: "ep_dict \<Rightarrow> obj_view" where
  "obj_ep d = obj_of d
     [(''external_segments'', epd_external_segments d),
      (''provided_policy_rule_sets'', epd_provided d),
      (''consumed_policy_rule_sets'', epd_consumed d)]"

definition obj_np :: "npm_dict \<Rightarrow> obj_view" where
  "obj_np d = obj_of d [(''external_segment_id'', ref_list (npd_external_segment_id d))]"

definition obj_pt :: "ptm_dict \<Rightarrow> obj_view" where
  "obj_pt d = \<lparr> rv_id = d_id d, rv_tenant = d_tenant_id d, rv_shared = False,
     ov_attrs = [(''policy_target_group_id'', ref_list (ptd_ptg_id d))] \<rparr>"

definition obj_plain :: "'a shared_dict_scheme \<Rightarrow> obj_view" where
  "obj_plain d = obj_of d []"

section \<open>References\<close>

text \<open>\<^verbatim>\<open>usage_graph\<close>.\<close>

fun usage_graph :: "res_type \<Rightarrow> (string \<times> res_type) list" where
  "usage_graph L3Policy = [(''external_segments'', ExternalSegment)]"
| "usage_graph L2Policy = [(''l3_policy_id'', L3Policy)]"
| "usage_graph PolicyTargetGroup =
     [(''network_service_policy_id'', NetworkServicePolicy), (''l2_policy_id'', L2Policy),
      (''provided_policy_rule_sets'', PolicyRuleSet), (''consumed_policy_rule_sets'', PolicyRuleSet)]"
| "usage_graph NetworkServicePolicy = []"
| "usage_graph PolicyRule = [(''policy_classifier_id'', PolicyClassifier), (''policy_actions'', PolicyAction)]"
| "usage_graph PolicyAction = []"
| "usage_graph PolicyClassifier = []"
| "usage_graph PolicyRuleSet = [(''parent_id'', PolicyRuleSet), (''policy_rules'', PolicyRule)]"
| "usage_graph ExternalSegment = []"
| "usage_graph ExternalPolicy =
     [(''external_segments'', ExternalSegment), (''provided_policy_rule_sets'', PolicyRuleSet),
      (''consumed_policy_rule_sets'', PolicyRuleSet)]"
| "usage_graph NatPool = [(''external_segment_id'', ExternalSegment)]"
| "usage_graph PolicyTarget = [(''policy_target_group_id'', PolicyTargetGroup)]"
| "usage_graph ApplicationPolicyGroup = []"

text \<open>\<^verbatim>\<open>obj[attr]\<close>.\<close>

definition attr_ids :: "obj_view \<Rightarrow> string \<Rightarrow> gbp_error + string list" where
  "attr_ids obj attr =
     (case map_of (ov_attrs obj) attr of None \<Rightarrow> Inl (PyKeyError attr) | Some js \<Rightarrow> Inr js)"

definition verify_sharing_consistency ::
  "'a res_view_scheme \<Rightarrow> res_view \<Rightarrow> res_type \<Rightarrow> string \<Rightarrow> bool \<Rightarrow> gbp_error + unit" where
  "verify_sharing_consistency primary reference primary_type reference_type is_admin =
     (if \<not> rv_shared reference then
        if rv_shared primary then
          Inl (SharedResourceReferenceError primary_type (rv_id primary) reference_type (rv_id reference))
        else if \<not> is_admin \<and> rv_tenant primary \<noteq> rv_tenant reference then
          Inl (InvalidCrossTenantReference primary_type (rv_id primary) reference_type (rv_id reference))
        else Inr ()
      else Inr ())"

text \<open>The type names of the graph, as messages show them.\<close>

fun type_name :: "res_type \<Rightarrow> string" where
  "type_name L3Policy = ''l3_policy''"
| "type_name L2Policy = ''l2_policy''"
| "type_name PolicyTargetGroup = ''policy_target_group''"
| "type_name NetworkServicePolicy = ''network_service_policy''"
| "type_name PolicyRule = ''policy_rule''"
| "type_name PolicyAction = ''policy_action''"
| "type_name PolicyClassifier = ''policy_classifier''"
| "type_name PolicyRuleSet = ''policy_rule_set''"
| "type_name ExternalSegment = ''external_segment''"
| "type_name ExternalPolicy = ''external_policy''"
| "type_name NatPool = ''nat_pool''"
| "type_name PolicyTarget = ''policy_target''"
| "type_name ApplicationPolicyGroup = ''application_policy_group''"

definition validate_link ::
  "ctx \<Rightarrow> gbp_db \<Rightarrow> obj_view \<Rightarrow> res_type \<Rightarrow> string \<times> res_type \<Rightarrow> gbp_error + unit" where
  "validate_link c db obj identity link =
     (case link of (attr, ref_type) \<Rightarrow>
       bindE (attr_ids obj attr) (\<lambda>js.
         if js = [] then Inr ()
         else let linked_objects = query_by_ids c ref_type js db in
           bindE (checkE (\<lambda>linked. verify_sharing_consistency obj linked identity
                            (type_name ref_type) (ctx_is_admin c)) linked_objects) (\<lambda>_.
             let missing = filter (\<lambda>j. j \<notin> rv_id ` set linked_objects) (remdups js)
             in if missing \<noteq> [] then Inl (GbpResourceNotFound ref_type missing) else Inr ())))"

definition validate_shared_create ::
  "ctx \<Rightarrow> gbp_db \<Rightarrow> obj_view \<Rightarrow> res_type \<Rightarrow> gbp_error + unit" where
  "validate_shared_create c db obj identity =
     checkE (validate_link c db obj identity) (usage_graph identity)"

section \<open>Ending the sharing of a resource\<close>

definition check_shared_or_different_tenant :: "obj_view \<Rightarrow> res_view list \<Rightarrow> gbp_error + unit" where
  "check_shared_or_different_tenant obj refs =
     checkE (\<lambda>ref.
       if rv_shared ref \<or> rv_tenant obj \<noteq> rv_tenant ref
       then Inl (InvalidSharedAttributeUpdate (rv_id obj) (rv_id ref)) else Inr ()) refs"

text \<open>\<^verbatim>\<open>value or [obj['id']]\<close>: with nothing to look up, the resource's own id is.\<close>

definition ids_or_self :: "string list \<Rightarrow> obj_view \<Rightarrow> string list" where
  "ids_or_self js obj = (if js = [] then [rv_id obj] else js)"

definition validate_policy_rule_set_unshare :: "ctx \<Rightarrow> gbp_db \<Rightarrow> obj_view \<Rightarrow> gbp_error + unit" where
  "validate_policy_rule_set_unshare c db obj =
     bindE (attr_ids obj ''providing_policy_target_groups'') (\<lambda>pg.
     bindE (attr_ids obj ''consuming_policy_target_groups'') (\<lambda>cg.
     bindE (check_shared_or_different_tenant obj
              (query_by_ids c PolicyTargetGroup (ids_or_self (pg @ cg) obj) db)) (\<lambda>_.
     bindE (attr_ids obj ''providing_external_policies'') (\<lambda>pe.
     bindE (attr_ids obj ''consuming_external_policies'') (\<lambda>ce.
       check_shared_or_different_tenant obj
         (query_by_ids c ExternalPolicy (ids_or_self (pe @ ce) obj) db))))))"

definition validate_external_segment_unshare :: "ctx \<Rightarrow> gbp_db \<Rightarrow> obj_view \<Rightarrow> gbp_error + unit" where
  "validate_external_segment_unshare c db obj =
     bindE (attr_ids obj ''l3_policies'') (\<lambda>ls.
     bindE (check_shared_or_different_tenant obj
              (query_by_ids c L3Policy (ids_or_self ls obj) db)) (\<lambda>_.
     bindE (attr_ids obj ''external_policies'') (\<lambda>es.
     bindE (check_shared_or_different_tenant obj
              (query_by_ids c ExternalPolicy (ids_or_self es obj) db)) (\<lambda>_.
       check_shared_or_different_tenant obj
         (query_rows c (\<lambda>r. np_es_id r = Some (rv_id obj)) (tb_nps db))))))"

text \<open>
  The dispatch on \<^verbatim>\<open>'_validate_%s_unshare'\<close>.  The plugin has no such method for policy targets
  and for application policy groups; the lookup raises \<^verbatim>\<open>AttributeError\<close> then.
\<close>

fun validate_unshare :: "ctx \<Rightarrow> gbp_db \<Rightarrow> res_type \<Rightarrow> obj_view \<Rightarrow> gbp_error + unit" where
  "validate_unshare c db L3Policy obj =
     check_shared_or_different_tenant obj
       (query_rows c (\<lambda>r. l2p_l3p_id r = Some (rv_id obj)) (tb_l2ps db))"
| "validate_unshare c db L2Policy obj =
     check_shared_or_different_tenant obj
       (query_rows c (\<lambda>r. ptg_l2p_id r = Some (rv_id obj)) (tb_ptgs db))"
| "validate_unshare c db PolicyTargetGroup obj =
     check_shared_or_different_tenant obj
       (map view_pt (get_collection (sees_pt c) (\<lambda>r. pt_ptg_id r = Some (rv_id obj)) (tb_pts db)))"
| "validate_unshare c db NetworkServicePolicy obj =
     check_shared_or_different_tenant obj
       (query_rows c (\<lambda>r. ptg_nsp_id r = Some (rv_id obj)) (tb_ptgs db))"
| "validate_unshare c db PolicyRuleSet obj = validate_policy_rule_set_unshare c db obj"
| "validate_unshare c db PolicyClassifier obj =
     check_shared_or_different_tenant obj
       (query_rows c (\<lambda>r. pr_classifier_id r = rv_id obj) (tb_rules db))"
| "validate_unshare c db PolicyRule obj =
     check_shared_or_different_tenant obj
       (query_by_ids c PolicyRuleSet
          (ids_or_self (get_policy_rule_policy_rule_sets db (rv_id obj)) obj) db)"
| "validate_unshare c db PolicyAction obj =
     check_shared_or_different_tenant obj
       (query_by_ids c PolicyRule (ids_or_self (get_policy_action_rules db (rv_id obj)) obj) db)"
| "validate_unshare c db ExternalSegment obj = validate_external_segment_unshare c db obj"
| "validate_unshare c db ExternalPolicy obj = Inr ()"
| "validate_unshare c db NatPool obj = Inr ()"
| "validate_unshare c db PolicyTarget obj = Inl (PyAttributeError ''_validate_policy_target_unshare'')"
| "validate_unshare c db ApplicationPolicyGroup obj =
     Inl (PyAttributeError ''_validate_application_policy_group_unshare'')"

definition validate_shared_update ::
  "ctx \<Rightarrow> gbp_db \<Rightarrow> obj_view \<Rightarrow> obj_view \<Rightarrow> res_type \<Rightarrow> gbp_error + unit" where
  "validate_shared_update c db original updated identity =
     bindE (validate_shared_create c db updated identity) (\<lambda>_.
       if rv_shared updated \<noteq> rv_shared original
       then validate_unshare (elevated c) db identity updated else Inr ())"

end
