(* ===== verification/Plugin_Requests.thy ===== *)
theory Plugin_Requests
  imports Plugin_Sharing
begin

text \<open>
  The database half of the plugin's request handlers: the database operation followed by the
  sharing validation of its result, inside the transaction that an exception rolls back.  The
  states these requests reach keep every reference of the usage graph resolved, and keep a
  shared resource from using one that is not shared.
\<close>

section \<open>Validated operations\<close>

definition with_obj ::
  "('d \<Rightarrow> obj_view) \<Rightarrow> gbp_error + gbp_db \<times> 'd \<Rightarrow> gbp_error + gbp_db \<times> obj_view" where
  "with_obj f m = bindE m (\<lambda>(db, d). Inr (db, f d))"

fun create_obj :: "db_env \<Rightarrow> ctx \<Rightarrow> string \<Rightarrow> create_req \<Rightarrow> gbp_db \<Rightarrow> gbp_error + gbp_db \<times> obj_view" where
  "create_obj e c i (NewPolicyClassifier b) db = with_obj obj_plain (create_policy_classifier c i b db)"
| "create_obj e c i (NewPolicyAction b) db = with_obj obj_plain (create_policy_action c i b db)"
| "create_obj e c i (NewPolicyRule b) db = with_obj obj_pr (create_policy_rule c i b db)"
| "create_obj e c i (NewPolicyRuleSet b) db = with_obj obj_prs (create_policy_rule_set c i b db)"
| "create_obj e c i (NewPolicyTarget b) db = with_obj obj_pt (create_policy_target c i b db)"
| "create_obj e c i (NewPolicyTargetGroup b) db = with_obj obj_ptg (create_policy_target_group c i b db)"
| "create_obj e c i (NewApplicationPolicyGroup b) db = with_obj obj_plain (create_application_policy_group c i b db)"
| "create_obj e c i (NewL2Policy b) db = with_obj obj_l2p (create_l2_policy c i b db)"
| "create_obj e c i (NewNetworkServicePolicy b) db = with_obj obj_plain (create_network_service_policy c i b db)"
| "create_obj e c i (NewL3Policy b) db = with_obj obj_l3p (create_l3_policy (env_ip_network e) (env_prefixes_of e) c i b db)"
| "create_obj e c i (NewExternalSegment b) db = with_obj obj_es (create_external_segment c i b db)"
| "create_obj e c i (NewExternalPolicy b) db = with_obj obj_ep (create_external_policy c i b db)"
| "create_obj e c i (NewNatPool b) db = with_obj obj_np (create_nat_pool c i b db)"

fun update_obj :: "db_env \<Rightarrow> ctx \<Rightarrow> string \<Rightarrow> update_req \<Rightarrow> gbp_db \<Rightarrow> gbp_error + gbp_db \<times> obj_view" where
  "update_obj e c i (UpdPolicyClassifier u) db = with_obj obj_plain (update_policy_classifier c i u db)"
| "update_obj e c i (UpdPolicyAction u) db = with_obj obj_plain (update_policy_action c i u db)"
| "update_obj e c i (UpdPolicyRule u) db = with_obj obj_pr (update_policy_rule c i u db)"
| "update_obj e c i (UpdPolicyRuleSet u) db = with_obj obj_prs (update_policy_rule_set c i u db)"
| "update_obj e c i (UpdPolicyTarget u) db = with_obj obj_pt (update_policy_target c i u db)"
| "update_obj e c i (UpdPolicyTargetGroup u) db = with_obj obj_ptg (update_policy_target_group c i u db)"
| "update_obj e c i (UpdApplicationPolicyGroup u) db = with_obj obj_plain (update_application_policy_group c i u db)"
| "update_obj e c i (UpdL2Policy u) db = with_obj obj_l2p (update_l2_policy c i u db)"
| "update_obj e c i (UpdNetworkServicePolicy u ps) db = with_obj obj_plain (update_network_service_policy c i u ps db)"
| "update_obj e c i (UpdL3Policy u) db = with_obj obj_l3p (update_l3_policy (env_ip_network e) (env_prefixes_of e) c i u db)"
| "update_obj e c i (UpdExternalSegment u) db = with_obj obj_es (update_external_segment c i u db)"
| "update_obj e c i (UpdExternalPolicy u) db = with_obj obj_ep (update_external_policy c i u db)"
| "update_obj e c i (UpdNatPool u) db = with_obj obj_np (update_nat_pool c i u db)"

fun get_obj :: "db_env \<Rightarrow> ctx \<Rightarrow> res_type \<Rightarrow> string \<Rightarrow> gbp_db \<Rightarrow> gbp_error + obj_view" where
  "get_obj e c PolicyClassifier i db = bindE (get_policy_classifier c i db) (\<lambda>d. Inr (obj_plain d))"
| "get_obj e c PolicyAction i db = bindE (get_policy_action c i db) (\<lambda>d. Inr (obj_plain d))"
| "get_obj e c PolicyRule i db = bindE (get_policy_rule c i db) (\<lambda>d. Inr (obj_pr d))"
| "get_obj e c PolicyRuleSet i db = bindE (get_policy_rule_set c i db) (\<lambda>d. Inr (obj_prs d))"
| "get_obj e c PolicyTarget i db = bindE (get_policy_target c i db) (\<lambda>d. Inr (obj_pt d))"
| "get_obj e c PolicyTargetGroup i db = bindE (get_policy_target_group c i db) (\<lambda>d. Inr (obj_ptg d))"
| "get_obj e c ApplicationPolicyGroup i db = bindE (get_application_policy_group c i db) (\<lambda>d. Inr (obj_plain d))"
| "get_obj e c L2Policy i db = bindE (get_l2_policy c i db) (\<lambda>d. Inr (obj_l2p d))"
| "get_obj e c NetworkServicePolicy i db = bindE (get_network_service_policy c i db) (\<lambda>d. Inr (obj_plain d))"
| "get_obj e c L3Policy i db = bindE (get_l3_policy (env_prefixes_of e) c i db) (\<lambda>d. Inr (obj_l3p d))"
| "get_obj e c ExternalSegment i db = bindE (get_external_segment c i db) (\<lambda>d. Inr (obj_es d))"
| "get_obj e c ExternalPolicy i db = bindE (get_external_policy c i db) (\<lambda>d. Inr (obj_ep d))"
| "get_obj e c NatPool i db = bindE (get_nat_pool c i db) (\<lambda>d. Inr (obj_np d))"

definition checked_create ::
  "db_env \<Rightarrow> ctx \<Rightarrow> string \<Rightarrow> create_req \<Rightarrow> gbp_db \<Rightarrow> gbp_error + gbp_db \<times> obj_view" where
  "checked_create e c i r db =
     bindE (create_obj e c i r db) (\<lambda>(db', result).
     bindE (validate_shared_create c db' result (create_type r)) (\<lambda>_. Inr (db', result)))"

text \<open>An update of a group that has an L2 policy may not give it another one.\<close>

fun l2p_update_guard :: "update_req \<Rightarrow> obj_view \<Rightarrow> obj_view \<Rightarrow> gbp_error + unit" where
  "l2p_update_guard (UpdPolicyTargetGroup u) original updated =
     bindE (attr_ids original ''l2_policy_id'') (\<lambda>old_l2p.
     bindE (attr_ids updated ''l2_policy_id'') (\<lambda>new_l2p.
       if old_l2p \<noteq> [] \<and> old_l2p \<noteq> new_l2p
       then Inl L2PolicyUpdateOfPolicyTargetGroupNotSupported else Inr ()))"
| "l2p_update_guard u original updated = Inr ()"

definition checked_update ::
  "db_env \<Rightarrow> ctx \<Rightarrow> string \<Rightarrow> update_req \<Rightarrow> gbp_db \<Rightarrow> gbp_error + gbp_db \<times> obj_view" where
  "checked_update e c i u db =
     bindE (get_obj e c (update_type u) i db) (\<lambda>original.
     bindE (update_obj e c i u db) (\<lambda>(db', updated).
     bindE (l2p_update_guard u original updated) (\<lambda>_.
     bindE (validate_shared_update c db' original updated (update_type u)) (\<lambda>_.
       Inr (db', updated)))))"

text \<open>The plugin's deletion of an external segment refuses one that is still associated.\<close>

definition checked_delete :: "db_env \<Rightarrow> ctx \<Rightarrow> res_type \<Rightarrow> string \<Rightarrow> gbp_db \<Rightarrow> gbp_error + gbp_db" where
  "checked_delete e c rt i db =
     (if rt = ExternalSegment then
        bindE (get_external_segment c i db) (\<lambda>es.
          if esd_l3_policies es \<noteq> [] \<or> esd_nat_pools es \<noteq> [] \<or> esd_external_policies es \<noteq> []
          then Inl (InUse ExternalSegment i) else exec_delete c rt i db)
      else exec_delete c rt i db)"

section \<open>References between resources\<close>

text \<open>
  \<open>uses db rt i rt' j\<close>: resource \<open>i\<close> of type \<open>rt\<close> refers to \<open>j\<close> of type \<open>rt'\<close> through an attribute of
  the usage graph, other than the parent of a rule set.  The graph does name the parent, but it is the
  parent's request that sets it, without validating the child; that parents exist is part of the
  invariant of the rule sets (\<open>prs_tree\<close>).  The application policy group of a group is no attribute of
  the graph.
\<close>

fun uses :: "gbp_db \<Rightarrow> res_type \<Rightarrow> string \<Rightarrow> res_type \<Rightarrow> string \<Rightarrow> bool" where
  "uses db L3Policy i rt j \<longleftrightarrow>
     rt = ExternalSegment \<and> (\<exists>x \<in> set (as_es_l3p db). esl_l3p_id x = i \<and> esl_es_id x = j)"
| "uses db L2Policy i rt j \<longleftrightarrow>
     rt = L3Policy \<and> j \<noteq> [] \<and> (\<exists>r \<in> set (tb_l2ps db). row_id r = i \<and> l2p_l3p_id r = Some j)"
| "uses db PolicyTargetGroup i rt j \<longleftrightarrow>
     (rt = NetworkServicePolicy \<and> j \<noteq> [] \<and>
        (\<exists>r \<in> set (tb_ptgs db). row_id r = i \<and> ptg_nsp_id r = Some j)) \<or>
     (rt = L2Policy \<and> j \<noteq> [] \<and> (\<exists>r \<in> set (tb_ptgs db). row_id r = i \<and> ptg_l2p_id r = Some j)) \<or>
     (rt = PolicyRuleSet \<and> ((i, j) \<in> set (as_ptg_prov db) \<or> (i, j) \<in> set (as_ptg_cons db)))"
| "uses db PolicyRule i rt j \<longleftrightarrow>
     (rt = PolicyClassifier \<and> j \<noteq> [] \<and> (\<exists>r \<in> set (tb_rules db). row_id r = i \<and> pr_classifier_id r = j)) \<or>
     (rt = PolicyAction \<and> (i, j) \<in> set (as_pr_pa db))"
| "uses db PolicyRuleSet i rt j \<longleftrightarrow> rt = PolicyRule \<and> (i, j) \<in> set (as_prs_pr db)"
| "uses db ExternalPolicy i rt j \<longleftrightarrow>
     (rt = ExternalSegment \<and> (i, j) \<in> set (as_ep_es db)) \<or>
     (rt = PolicyRuleSet \<and> ((i, j) \<in> set (as_ep_prov db) \<or> (i, j) \<in> set (as_ep_cons db)))"
| "uses db NatPool i rt j \<longleftrightarrow>
     rt = ExternalSegment \<and> j \<noteq> [] \<and> (\<exists>r \<in> set (tb_nps db). row_id r = i \<and> np_es_id r = Some j)"
| "uses db PolicyTarget i rt j \<longleftrightarrow>
     rt = PolicyTargetGroup \<and> j \<noteq> [] \<and> (\<exists>r \<in> set (tb_pts db). row_id r = i \<and> pt_ptg_id r = Some j)"
| "uses db rt0 i rt j \<longleftrightarrow> False"

fun views :: "res_type \<Rightarrow> gbp_db \<Rightarrow> res_view list" where
  "views PolicyClassifier db = map view_row (tb_classifiers db)"
| "views PolicyAction db = map view_row (tb_actions db)"
| "views PolicyRule db = map view_row (tb_rules db)"
| "views PolicyRuleSet db = map view_row (tb_prss db)"
| "views PolicyTarget db = map view_pt (tb_pts db)"
| "views PolicyTargetGroup db = map view_row (tb_ptgs db)"
| "views ApplicationPolicyGroup db = map view_row (tb_apgs db)"
| "views L2Policy db = map view_row (tb_l2ps db)"
| "views NetworkServicePolicy db = map view_row (tb_nsps db)"
| "views L3Policy db = map view_row (tb_l3ps db)"
| "views ExternalSegment db = map view_row (tb_ess db)"
| "views ExternalPolicy db = map view_row (tb_eps db)"
| "views NatPool db = map view_row (tb_nps db)"

definition shared_in :: "gbp_db \<Rightarrow> res_type \<Rightarrow> string \<Rightarrow> bool" where
  "shared_in db rt i \<longleftrightarrow> (\<exists>v \<in> set (views rt db). rv_id v = i \<and> rv_shared v)"

text \<open>The invariant of the validated requests.\<close>

definition use_inv :: "gbp_db \<Rightarrow> bool" where
  "use_inv db \<longleftrightarrow>
     (\<forall>rt i rt' j. uses db rt i rt' j \<longrightarrow>
        j \<in> set (table_ids rt' db) \<and> (shared_in db rt i \<longrightarrow> shared_in db rt' j))"

section \<open>What the validation of a creation establishes\<close>

lemma query_by_ids_views:
  "query_by_ids c rt js db =
     filter (\<lambda>v. rv_id v \<in> set js \<and> sees c (rv_tenant v) (rv_shared v)) (views rt db)"
  by (cases rt)
     (auto simp: query_rows_def get_collection_def view_row_def view_pt_def sees_row_def sees_pt_def
       filter_map comp_def intro!: arg_cong[where f = "map f" for f] filter_cong)

definition may_refer :: "ctx \<Rightarrow> obj_view \<Rightarrow> res_view \<Rightarrow> bool" where
  "may_refer c obj v \<longleftrightarrow>
     rv_shared v \<or> (\<not> rv_shared obj \<and> (ctx_is_admin c \<or> rv_tenant obj = rv_tenant v))"

lemma verify_sharing_Inr: "verify_sharing_consistency obj v rt n (ctx_is_admin c) = Inr () \<longleftrightarrow> may_refer c obj v"
  by (auto simp: verify_sharing_consistency_def may_refer_def)

definition visible_view :: "ctx \<Rightarrow> res_type \<Rightarrow> string \<Rightarrow> gbp_db \<Rightarrow> res_view \<Rightarrow> bool" where
  "visible_view c rt j db v \<longleftrightarrow> v \<in> set (views rt db) \<and> rv_id v = j \<and> sees c (rv_tenant v) (rv_shared v)"

lemma validate_link_Inr:
  "validate_link c db obj rt (attr, ref) = Inr () \<longleftrightarrow>
     (\<exists>js. attr_ids obj attr = Inr js \<and>
        (\<forall>j \<in> set js. (\<exists>v. visible_view c ref j db v) \<and> (\<forall>v. visible_view c ref j db v \<longrightarrow> may_refer c obj v)))"
  by (cases "attr_ids obj attr")
     (auto simp: validate_link_def Let_def bindE_eq_Inr checkE_eq_Inr verify_sharing_Inr
       query_by_ids_views filter_empty_conv visible_view_def image_iff split: if_splits,
       metis (full_types))

lemma validate_shared_create_Inr:
  "validate_shared_create c db obj rt = Inr () \<longleftrightarrow>
     (\<forall>(attr, ref) \<in> set (usage_graph rt). validate_link c db obj rt (attr, ref) = Inr ())"
  by (auto simp: validate_shared_create_def checkE_eq_Inr)

end
