(* ===== verification/Plugin_Frame.thy ===== *)
theory Plugin_Frame
  imports Plugin_Requests
begin

text \<open>
  What a validated request changes of the references between resources: nothing but those of
  the resource it creates or updates, and for that resource the reference attributes of the
  result dictionary are the references stored in the database.
\<close>

section \<open>Frames\<close>

definition frame :: "res_type \<Rightarrow> string \<Rightarrow> gbp_db \<Rightarrow> gbp_db \<Rightarrow> bool" where
  "frame X i db db' \<longleftrightarrow>
     (\<forall>rt k rt' j. (rt, k) \<noteq> (X, i) \<longrightarrow> uses db' rt k rt' j = uses db rt k rt' j) \<and>
     (\<forall>rt k. (rt, k) \<noteq> (X, i) \<longrightarrow> shared_in db' rt k = shared_in db rt k)"

definition obj_uses :: "res_type \<Rightarrow> obj_view \<Rightarrow> res_type \<Rightarrow> string \<Rightarrow> bool" where
  "obj_uses X obj rt' j \<longleftrightarrow>
     (\<exists>(attr, ref) \<in> set (usage_graph X). ref = rt' \<and> attr \<noteq> ''parent_id'' \<and>
        (\<exists>js. map_of (ov_attrs obj) attr = Some js \<and> j \<in> set js))"

definition describes :: "res_type \<Rightarrow> string \<Rightarrow> obj_view \<Rightarrow> gbp_db \<Rightarrow> bool" where
  "describes X i obj db \<longleftrightarrow>
     rv_id obj = i \<and> shared_in db X i = rv_shared obj \<and> (\<forall>rt' j. uses db X i rt' j = obj_uses X obj rt' j)"

definition assoc_frame :: "string \<Rightarrow> assoc list \<Rightarrow> assoc list \<Rightarrow> bool" where
  "assoc_frame i a a' \<longleftrightarrow> (\<forall>k j. k \<noteq> i \<longrightarrow> ((k, j) \<in> set a' \<longleftrightarrow> (k, j) \<in> set a))"

lemma assoc_frame_refl [simp]: "assoc_frame i a a"
  by (simp add: assoc_frame_def)

lemma assoc_frame_drop [simp]: "assoc_frame i a (drop_sources i a)"
  by (auto simp: assoc_frame_def)

lemma assoc_frame_set: "set_targets i js a = Inr a' \<Longrightarrow> assoc_frame i a a'"
  by (auto simp: assoc_frame_def set_targets_Inr)

definition esl_frame :: "string \<Rightarrow> es_to_l3p list \<Rightarrow> es_to_l3p list \<Rightarrow> bool" where
  "esl_frame i a a' \<longleftrightarrow> (\<forall>x. esl_l3p_id x \<noteq> i \<longrightarrow> (x \<in> set a' \<longleftrightarrow> x \<in> set a))"

section \<open>Helpers\<close>

lemma set_actions_frame:
  assumes "set_actions_for_rule c i js db = Inr db'"
  shows "\<exists>a. db' = db\<lparr>as_pr_pa := a\<rparr> \<and> assoc_frame i (as_pr_pa db) a"
proof (cases "js = []")
  case True
  with assms show ?thesis
    by (intro exI[of _ "as_pr_pa db"]) (auto simp: set_actions_for_rule_def split: if_splits)
next
  case False
  with assms show ?thesis
    by (auto simp: set_actions_for_rule_def bindE_eq_Inr dest!: assoc_frame_set)
qed

lemma set_rules_frame:
  "set_rules_for_policy_rule_set c i js db = Inr db' \<Longrightarrow>
   \<exists>a. db' = db\<lparr>as_prs_pr := a\<rparr> \<and> assoc_frame i (as_prs_pr db) a"
  by (auto simp: set_rules_for_policy_rule_set_def bindE_eq_Inr split: if_splits dest!: assoc_frame_set)

lemma set_ess_for_ep_frame:
  "set_ess_for_ep c i js db = Inr db' \<Longrightarrow> \<exists>a. db' = db\<lparr>as_ep_es := a\<rparr> \<and> assoc_frame i (as_ep_es db) a"
  by (auto simp: set_ess_for_ep_def bindE_eq_Inr split: if_splits dest!: assoc_frame_set)

lemma set_prs_for_res_assoc_frame:
  "set_providers_or_consumers_for_res c i js db a = Inr a' \<Longrightarrow> assoc_frame i a a'"
  by (auto simp: set_providers_or_consumers_for_res_def bindE_eq_Inr split: if_splits
      dest!: assoc_frame_set)

lemma set_providers_or_consumers_for_policy_target_group_frame:
  assumes "set_providers_or_consumers_for_policy_target_group c i js p db = Inr db'"
  shows "\<exists>a. db' = (if p then db\<lparr>as_ptg_prov := a\<rparr> else db\<lparr>as_ptg_cons := a\<rparr>) \<and>
    assoc_frame i (if p then as_ptg_prov db else as_ptg_cons db) a"
  using assms
  by (auto simp: set_providers_or_consumers_for_policy_target_group_def bindE_eq_Inr dest: set_prs_for_res_assoc_frame split: if_splits)

lemma process_policy_rule_sets_for_ptg_frame:
  assumes "process_policy_rule_sets_for_ptg c i ps cs db = Inr db'"
  shows "\<exists>a b. db' = db\<lparr>as_ptg_prov := a, as_ptg_cons := b\<rparr> \<and>
    assoc_frame i (as_ptg_prov db) a \<and> assoc_frame i (as_ptg_cons db) b"
proof -
  from assms obtain db1 where
    1: "if_present ps (\<lambda>js. set_providers_or_consumers_for_policy_target_group c i js True) db = Inr db1"
    and 2: "if_present cs (\<lambda>js. set_providers_or_consumers_for_policy_target_group c i js False) db1 = Inr db'"
    by (auto simp: process_policy_rule_sets_for_ptg_def bindE_eq_Inr)
  obtain a where a: "db1 = db\<lparr>as_ptg_prov := a\<rparr>" "assoc_frame i (as_ptg_prov db) a"
    using if_present_cases[OF 1]
    by (auto dest!: set_providers_or_consumers_for_policy_target_group_frame intro: that[of "as_ptg_prov db"])
  obtain b where b: "db' = db1\<lparr>as_ptg_cons := b\<rparr>" "assoc_frame i (as_ptg_cons db1) b"
    using if_present_cases[OF 2]
    by (auto dest!: set_providers_or_consumers_for_policy_target_group_frame intro: that[of "as_ptg_cons db1"])
  from a b show ?thesis by (intro exI[of _ a] exI[of _ b]) simp
qed

lemma set_providers_or_consumers_for_ep_frame:
  assumes "set_providers_or_consumers_for_ep c i js p db = Inr db'"
  shows "\<exists>a. db' = (if p then db\<lparr>as_ep_prov := a\<rparr> else db\<lparr>as_ep_cons := a\<rparr>) \<and>
    assoc_frame i (if p then as_ep_prov db else as_ep_cons db) a"
  using assms
  by (auto simp: set_providers_or_consumers_for_ep_def bindE_eq_Inr dest: set_prs_for_res_assoc_frame split: if_splits)

lemma process_policy_rule_sets_for_ep_frame:
  assumes "process_policy_rule_sets_for_ep c i ps cs db = Inr db'"
  shows "\<exists>a b. db' = db\<lparr>as_ep_prov := a, as_ep_cons := b\<rparr> \<and>
    assoc_frame i (as_ep_prov db) a \<and> assoc_frame i (as_ep_cons db) b"
proof -
  from assms obtain db1 where
    1: "if_present ps (\<lambda>js. set_providers_or_consumers_for_ep c i js True) db = Inr db1"
    and 2: "if_present cs (\<lambda>js. set_providers_or_consumers_for_ep c i js False) db1 = Inr db'"
    by (auto simp: process_policy_rule_sets_for_ep_def bindE_eq_Inr)
  obtain a where a: "db1 = db\<lparr>as_ep_prov := a\<rparr>" "assoc_frame i (as_ep_prov db) a"
    using if_present_cases[OF 1]
    by (auto dest!: set_providers_or_consumers_for_ep_frame intro: that[of "as_ep_prov db"])
  obtain b where b: "db' = db1\<lparr>as_ep_cons := b\<rparr>" "assoc_frame i (as_ep_cons db1) b"
    using if_present_cases[OF 2]
    by (auto dest!: set_providers_or_consumers_for_ep_frame intro: that[of "as_ep_cons db1"])
  from a b show ?thesis by (intro exI[of _ a] exI[of _ b]) simp
qed

lemma esl_frame_append:
  "append_pk a ys = Inr a' \<Longrightarrow> \<forall>y \<in> set ys. esl_l3p_id y = i \<Longrightarrow> esl_frame i a a'"
  by (auto simp: append_pk_Inr esl_frame_def)

lemma allocate_es_frame:
  assumes "allocate_es i d es a = Inr a'"
  shows "esl_frame i a a'"
proof -
  from assms obtain ys where "append_pk a ys = Inr a'" "\<forall>y \<in> set ys. esl_l3p_id y = i"
    unfolding allocate_es_def Let_def
    by (simp only: sum.distinct split: if_split_asm) (rule that, assumption, simp)+
  then show ?thesis by (rule esl_frame_append)
qed

lemma foldE_allocate_frame: "foldE (allocate_es i d) ess a = Inr a' \<Longrightarrow> esl_frame i a a'"
proof (induction ess arbitrary: a)
  case Nil
  then show ?case by (simp add: esl_frame_def)
next
  case (Cons es ess)
  then obtain a1 where "allocate_es i d es a = Inr a1" "foldE (allocate_es i d) ess a1 = Inr a'"
    by (auto simp: bindE_eq_Inr)
  with Cons.IH have "esl_frame i a a1" "esl_frame i a1 a'" by (auto dest: allocate_es_frame)
  then show ?case by (simp add: esl_frame_def)
qed

lemma set_ess_for_l3p_frame:
  assumes "set_ess_for_l3p c i req db = Inr db'"
  shows "\<exists>a. db' = db\<lparr>as_es_l3p := a\<rparr> \<and> esl_frame i (as_es_l3p db) a"
proof -
  have drop: "esl_frame i (as_es_l3p db) (drop_l3p_ess i (as_es_l3p db))"
    by (simp add: esl_frame_def drop_l3p_ess_def)
  have trans: "esl_frame i (as_es_l3p db) a" if "esl_frame i (drop_l3p_ess i (as_es_l3p db)) a" for a
    using drop that by (simp add: esl_frame_def)
  show ?thesis
  proof (cases req)
    case None
    with assms show ?thesis
      by (intro exI[of _ "as_es_l3p db"]) (simp add: set_ess_for_l3p_def esl_frame_def)
  next
    case (Some d)
    with assms show ?thesis
      by (auto simp: set_ess_for_l3p_def bindE_eq_Inr drop dest!: foldE_allocate_frame intro: trans
          split: if_splits)
  qed
qed

lemma if_present_elim:
  "if_present k f db = Inr db' \<Longrightarrow> Q db \<Longrightarrow> (\<And>v d. f v db = Inr d \<Longrightarrow> Q d) \<Longrightarrow> Q db'"
  by (auto dest!: if_present_cases)

lemma esl_frame_refl [simp]: "esl_frame i a a"
  by (simp add: esl_frame_def)

lemma set_actions_frame_opt:
  assumes "if_present k (set_actions_for_rule c i) db = Inr db'"
  shows "\<exists>a. db' = db\<lparr>as_pr_pa := a\<rparr> \<and> assoc_frame i (as_pr_pa db) a"
  using assms by (rule if_present_elim) (rule exI[of _ "as_pr_pa db"], simp, rule set_actions_frame)

lemma set_rules_frame_opt:
  assumes "if_present k (set_rules_for_policy_rule_set c i) db = Inr db'"
  shows "\<exists>a. db' = db\<lparr>as_prs_pr := a\<rparr> \<and> assoc_frame i (as_prs_pr db) a"
  using assms by (rule if_present_elim) (rule exI[of _ "as_prs_pr db"], simp, rule set_rules_frame)

lemma set_ess_for_ep_frame_opt:
  assumes "if_present k (set_ess_for_ep c i) db = Inr db'"
  shows "\<exists>a. db' = db\<lparr>as_ep_es := a\<rparr> \<and> assoc_frame i (as_ep_es db) a"
  using assms by (rule if_present_elim) (rule exI[of _ "as_ep_es db"], simp, rule set_ess_for_ep_frame)

lemma set_ess_for_l3p_frame_opt:
  assumes "if_present k (set_ess_for_l3p c i) db = Inr db'"
  shows "\<exists>a. db' = db\<lparr>as_es_l3p := a\<rparr> \<and> esl_frame i (as_es_l3p db) a"
  using assms by (rule if_present_elim) (rule exI[of _ "as_es_l3p db"], simp, rule set_ess_for_l3p_frame)

lemma add_ptg_subnets_Inr_opt:
  assumes "if_present k (add_ptg_subnets i) db = Inr db'"
  shows "\<exists>a. db' = db\<lparr>as_ptg_subnet := a\<rparr>"
  using assms by (rule if_present_elim) (rule exI[of _ "as_ptg_subnet db"], simp, rule add_ptg_subnets_Inr)

lemma process_segment_ers_Inr_opt:
  assumes "if_present k (process_segment_ers i) db = Inr db'"
  shows "\<exists>a. db' = db\<lparr>tb_routes := a\<rparr>"
  using assms by (rule if_present_elim) (rule exI[of _ "tb_routes db"], simp, rule process_segment_ers_Inr)

lemmas opt_frames =
  set_actions_frame_opt set_rules_frame_opt set_ess_for_ep_frame_opt set_ess_for_l3p_frame_opt
  add_ptg_subnets_Inr_opt process_segment_ers_Inr_opt process_policy_rule_sets_for_ptg_frame
  process_policy_rule_sets_for_ep_frame set_actions_frame set_rules_frame

text \<open>The hierarchy of rule sets: assigning children touches only parent columns.\<close>

lemma set_children_rows:
  assumes "set_children_for_policy_rule_set c r js db = Inr db'"
  shows "\<exists>f. db' = db\<lparr>tb_prss := map f (tb_prss db)\<rparr> \<and> (\<forall>q. row_id (f q) = row_id q \<and>
    row_shared (f q) = row_shared q \<and> row_tenant (f q) = row_tenant q)"
proof -
  let ?i = "row_id r"
  define f where "f q = (if prs_parent_id q = Some ?i then q\<lparr>prs_parent_id := None\<rparr> else q)" for q :: policy_rule_set
  define g where "g ks q = (if row_id q \<in> set ks then q\<lparr>prs_parent_id := Some ?i\<rparr> else q)"
    for ks and q :: policy_rule_set
  have "db' = db\<lparr>tb_prss := map f (tb_prss db)\<rparr> \<or>
      (\<exists>ks. db' = db\<lparr>tb_prss := map (\<lambda>q. g ks (f q)) (tb_prss db)\<rparr>)"
    using assms
    by (auto simp: set_children_for_policy_rule_set_def Let_def bindE_eq_Inr clear_children_def adopt_def
        f_def g_def comp_def split: if_splits)
  then show ?thesis
  proof
    assume "db' = db\<lparr>tb_prss := map f (tb_prss db)\<rparr>"
    then show ?thesis by (intro exI[of _ f]) (simp add: f_def)
  next
    assume "\<exists>ks. db' = db\<lparr>tb_prss := map (\<lambda>q. g ks (f q)) (tb_prss db)\<rparr>"
    then obtain ks where "db' = db\<lparr>tb_prss := map (\<lambda>q. g ks (f q)) (tb_prss db)\<rparr>" by blast
    then show ?thesis by (intro exI[of _ "\<lambda>q. g ks (f q)"]) (simp add: f_def g_def)
  qed
qed

end
