(* ===== verification/Plugin_Invariant.thy ===== *)
theory Plugin_Invariant
  imports Plugin_Frame
begin

text \<open>
  The invariant of the validated requests: every reference of the usage graph points to an
  existing resource, and a shared resource uses shared resources only.
\<close>

section \<open>Frames of the database operations\<close>

lemma frameI:
  assumes "\<And>rt k rt' j. (rt, k) \<noteq> (X, i) \<Longrightarrow> uses db' rt k rt' j = uses db rt k rt' j"
    and "\<And>rt k. (rt, k) \<noteq> (X, i) \<Longrightarrow> shared_in db' rt k = shared_in db rt k"
  shows "frame X i db db'"
  using assms by (auto simp: frame_def)

lemma in_upd_row_other [simp]:
  assumes "row_id r \<noteq> i" "\<And>r. row_id (f r) = row_id r"
  shows "r \<in> set (upd_row i f t) \<longleftrightarrow> r \<in> set t"
  using assms by (force simp: upd_row_def)

lemma shared_in_rows:
  "shared_in db PolicyClassifier k = (\<exists>r \<in> set (tb_classifiers db). row_id r = k \<and> row_shared r)"
  "shared_in db PolicyAction k = (\<exists>r \<in> set (tb_actions db). row_id r = k \<and> row_shared r)"
  "shared_in db PolicyRule k = (\<exists>r \<in> set (tb_rules db). row_id r = k \<and> row_shared r)"
  "shared_in db PolicyRuleSet k = (\<exists>r \<in> set (tb_prss db). row_id r = k \<and> row_shared r)"
  "shared_in db PolicyTarget k = False"
  "shared_in db PolicyTargetGroup k = (\<exists>r \<in> set (tb_ptgs db). row_id r = k \<and> row_shared r)"
  "shared_in db ApplicationPolicyGroup k = (\<exists>r \<in> set (tb_apgs db). row_id r = k \<and> row_shared r)"
  "shared_in db L2Policy k = (\<exists>r \<in> set (tb_l2ps db). row_id r = k \<and> row_shared r)"
  "shared_in db NetworkServicePolicy k = (\<exists>r \<in> set (tb_nsps db). row_id r = k \<and> row_shared r)"
  "shared_in db L3Policy k = (\<exists>r \<in> set (tb_l3ps db). row_id r = k \<and> row_shared r)"
  "shared_in db ExternalSegment k = (\<exists>r \<in> set (tb_ess db). row_id r = k \<and> row_shared r)"
  "shared_in db ExternalPolicy k = (\<exists>r \<in> set (tb_eps db). row_id r = k \<and> row_shared r)"
  "shared_in db NatPool k = (\<exists>r \<in> set (tb_nps db). row_id r = k \<and> row_shared r)"
  by (auto simp: shared_in_def view_row_def view_pt_def)

lemma no_row: "i \<notin> set (ids t) \<Longrightarrow> (\<exists>r \<in> set t. row_id r = i \<and> P r) = False"
  by (auto simp: ids_def)

lemmas frame_simps = shared_in_rows bex_Un assoc_frame_def esl_frame_def

lemma create_policy_classifier_frame:
  assumes "create_policy_classifier c i b db = Inr (db', d)"
  shows "frame PolicyClassifier i db db'"
  by (use assms in \<open>auto simp: create_policy_classifier_def bindE_eq_Inr Let_def 
        dest!: opt_frames split: if_splits\<close>,
      (rule frameI; case_tac rt; auto simp: frame_simps)+)

lemma update_policy_classifier_frame:
  assumes "update_policy_classifier c i u db = Inr (db', d)"
  shows "frame PolicyClassifier i db db'"
  by (use assms in \<open>auto simp: update_policy_classifier_def bindE_eq_Inr Let_def 
        dest!: opt_frames split: if_splits option.splits\<close>,
      (rule frameI; case_tac rt; auto simp: frame_simps)+)

lemma create_policy_action_frame:
  assumes "create_policy_action c i b db = Inr (db', d)"
  shows "frame PolicyAction i db db'"
  by (use assms in \<open>auto simp: create_policy_action_def bindE_eq_Inr Let_def 
        dest!: opt_frames split: if_splits\<close>,
      (rule frameI; case_tac rt; auto simp: frame_simps)+)

lemma update_policy_action_frame:
  assumes "update_policy_action c i u db = Inr (db', d)"
  shows "frame PolicyAction i db db'"
  by (use assms in \<open>auto simp: update_policy_action_def bindE_eq_Inr Let_def 
        dest!: opt_frames split: if_splits option.splits\<close>,
      (rule frameI; case_tac rt; auto simp: frame_simps)+)

lemma create_policy_rule_frame:
  assumes "create_policy_rule c i b db = Inr (db', d)"
  shows "frame PolicyRule i db db'"
  by (use assms in \<open>auto simp: create_policy_rule_def bindE_eq_Inr Let_def 
        dest!: opt_frames split: if_splits\<close>,
      (rule frameI; case_tac rt; auto simp: frame_simps)+)

lemma update_policy_rule_frame:
  assumes "update_policy_rule c i u db = Inr (db', d)"
  shows "frame PolicyRule i db db'"
  by (use assms in \<open>auto simp: update_policy_rule_def bindE_eq_Inr Let_def 
        dest!: opt_frames split: if_splits option.splits\<close>,
      (rule frameI; case_tac rt; auto simp: frame_simps)+)

lemma create_policy_target_frame:
  assumes "create_policy_target c i b db = Inr (db', d)"
  shows "frame PolicyTarget i db db'"
  by (use assms in \<open>auto simp: create_policy_target_def bindE_eq_Inr Let_def 
        dest!: opt_frames split: if_splits\<close>,
      (rule frameI; case_tac rt; auto simp: frame_simps)+)

lemma update_policy_target_frame:
  assumes "update_policy_target c i u db = Inr (db', d)"
  shows "frame PolicyTarget i db db'"
  by (use assms in \<open>auto simp: update_policy_target_def bindE_eq_Inr Let_def 
        dest!: opt_frames split: if_splits option.splits\<close>,
      (rule frameI; case_tac rt; auto simp: frame_simps)+)

lemma create_policy_target_group_frame:
  assumes "create_policy_target_group c i b db = Inr (db', d)"
  shows "frame PolicyTargetGroup (create_id i (NewPolicyTargetGroup b)) db db'"
  by (use assms in \<open>auto simp: create_policy_target_group_def bindE_eq_Inr Let_def 
        dest!: opt_frames split: if_splits\<close>,
      (rule frameI; case_tac rt; auto simp: frame_simps)+)

lemma update_policy_target_group_frame:
  assumes op: "update_policy_target_group c i u db = Inr (db', d)"
  shows "frame PolicyTargetGroup i db db'"
proof -
  from op obtain db1 where
    t: "process_policy_rule_sets_for_ptg c i (ptgu_provided u) (ptgu_consumed u) db = Inr db1"
    and d: "db' = (let db2 = (case ptgu_subnets u of None \<Rightarrow> db1
         | Some js \<Rightarrow> db1\<lparr>as_ptg_subnet := sync_targets i js (as_ptg_subnet db1)\<rparr>)
       in db2\<lparr>tb_ptgs := upd_row i (upd_ptg u) (tb_ptgs db2)\<rparr>)"
    by (auto simp: update_policy_target_group_def Let_def bindE_eq_Inr)
  from process_policy_rule_sets_for_ptg_frame[OF t] obtain p q where
    1: "db1 = db\<lparr>as_ptg_prov := p, as_ptg_cons := q\<rparr>"
    and f: "assoc_frame i (as_ptg_prov db) p" "assoc_frame i (as_ptg_cons db) q" by blast
  have "\<exists>s. db' = db\<lparr>as_ptg_prov := p, as_ptg_cons := q, as_ptg_subnet := s,
      tb_ptgs := upd_row i (upd_ptg u) (tb_ptgs db)\<rparr>"
    unfolding d 1 by (cases "ptgu_subnets u") (auto simp: Let_def intro: exI[of _ "as_ptg_subnet db"])
  then obtain s where db': "db' = db\<lparr>as_ptg_prov := p, as_ptg_cons := q, as_ptg_subnet := s,
      tb_ptgs := upd_row i (upd_ptg u) (tb_ptgs db)\<rparr>" by blast
  show ?thesis unfolding db'
    by (rule frameI; case_tac rt; use f in \<open>auto simp: frame_simps\<close>)
qed

lemma create_application_policy_group_frame:
  assumes "create_application_policy_group c i b db = Inr (db', d)"
  shows "frame ApplicationPolicyGroup i db db'"
  by (use assms in \<open>auto simp: create_application_policy_group_def bindE_eq_Inr Let_def 
        dest!: opt_frames split: if_splits\<close>,
      (rule frameI; case_tac rt; auto simp: frame_simps)+)

lemma update_application_policy_group_frame:
  assumes "update_application_policy_group c i u db = Inr (db', d)"
  shows "frame ApplicationPolicyGroup i db db'"
  by (use assms in \<open>auto simp: update_application_policy_group_def bindE_eq_Inr Let_def 
        dest!: opt_frames split: if_splits option.splits\<close>,
      (rule frameI; case_tac rt; auto simp: frame_simps)+)

lemma create_l2_policy_frame:
  assumes "create_l2_policy c i b db = Inr (db', d)"
  shows "frame L2Policy i db db'"
  by (use assms in \<open>auto simp: create_l2_policy_def bindE_eq_Inr Let_def 
        dest!: opt_frames split: if_splits\<close>,
      (rule frameI; case_tac rt; auto simp: frame_simps)+)

lemma update_l2_policy_frame:
  assumes "update_l2_policy c i u db = Inr (db', d)"
  shows "frame L2Policy i db db'"
  by (use assms in \<open>auto simp: update_l2_policy_def bindE_eq_Inr Let_def 
        dest!: opt_frames split: if_splits option.splits\<close>,
      (rule frameI; case_tac rt; auto simp: frame_simps)+)

lemma create_network_service_policy_frame:
  assumes "create_network_service_policy c i b db = Inr (db', d)"
  shows "frame NetworkServicePolicy i db db'"
  by (use assms in \<open>auto simp: create_network_service_policy_def bindE_eq_Inr Let_def set_params_for_network_service_policy_def 
        dest!: opt_frames split: if_splits\<close>,
      (rule frameI; case_tac rt; auto simp: frame_simps)+)

lemma update_network_service_policy_frame:
  assumes "update_network_service_policy c i u ps db = Inr (db', d)"
  shows "frame NetworkServicePolicy i db db'"
  by (use assms in \<open>auto simp: update_network_service_policy_def bindE_eq_Inr Let_def set_params_for_network_service_policy_def 
        dest!: opt_frames split: if_splits option.splits\<close>,
      (rule frameI; case_tac rt; auto simp: frame_simps)+)

lemma create_l3_policy_frame:
  assumes "create_l3_policy nw pf c i b db = Inr (db', d)"
  shows "frame L3Policy i db db'"
  by (use assms in \<open>auto simp: create_l3_policy_def bindE_eq_Inr Let_def 
        dest!: opt_frames split: if_splits\<close>,
      (rule frameI; case_tac rt; auto simp: frame_simps)+)

lemma update_l3_policy_frame:
  assumes op: "update_l3_policy nw pf c i u db = Inr (db', d)"
  shows "frame L3Policy i db db'"
proof -
  define db1 where "db1 = db\<lparr>as_l3p_sp4 := update_subnetpools i (l3pu_subnetpools_v4 u) (as_l3p_sp4 db),
    as_l3p_sp6 := update_subnetpools i (l3pu_subnetpools_v6 u) (as_l3p_sp6 db)\<rparr>"
  define db2 where "db2 = (case l3pu_routers u of None \<Rightarrow> db1
    | Some rs \<Rightarrow> db1\<lparr>as_l3p_router := sync_targets i rs (as_l3p_router db1)\<rparr>)"
  from op obtain db3 where
    3: "if_present (l3pu_external_segments u) (set_ess_for_l3p c i) db2 = Inr db3"
    and 4: "db' = db3\<lparr>tb_l3ps := upd_row i (upd_l3p u) (tb_l3ps db3)\<rparr>"
    unfolding update_l3_policy_def Let_def db1_def[symmetric] db2_def[symmetric]
    by (auto simp: bindE_eq_Inr split: if_splits)
  from set_ess_for_l3p_frame_opt[OF 3] obtain a where
    a: "db3 = db2\<lparr>as_es_l3p := a\<rparr>" "esl_frame i (as_es_l3p db2) a" by blast
  have 2: "as_es_l3p db2 = as_es_l3p db" "tb_l3ps db2 = tb_l3ps db"
    by (simp_all add: db2_def db1_def split: option.splits)
  have "db' = db\<lparr>as_l3p_sp4 := as_l3p_sp4 db2, as_l3p_sp6 := as_l3p_sp6 db2,
      as_l3p_router := as_l3p_router db2, as_es_l3p := a,
      tb_l3ps := upd_row i (upd_l3p u) (tb_l3ps db)\<rparr>"
    unfolding 4 a(1) by (cases "l3pu_routers u") (simp_all add: db2_def db1_def)
  then obtain x y z where db': "db' = db\<lparr>as_l3p_sp4 := x, as_l3p_sp6 := y, as_l3p_router := z,
      as_es_l3p := a, tb_l3ps := upd_row i (upd_l3p u) (tb_l3ps db)\<rparr>" by blast
  show ?thesis unfolding db'
    by (rule frameI; case_tac rt; use a(2) 2 in \<open>auto simp: frame_simps\<close>)
qed

lemma create_external_segment_frame:
  assumes "create_external_segment c i b db = Inr (db', d)"
  shows "frame ExternalSegment i db db'"
  by (use assms in \<open>auto simp: create_external_segment_def bindE_eq_Inr Let_def 
        dest!: opt_frames split: if_splits\<close>,
      (rule frameI; case_tac rt; auto simp: frame_simps)+)

lemma update_external_segment_frame:
  assumes "update_external_segment c i u db = Inr (db', d)"
  shows "frame ExternalSegment i db db'"
  by (use assms in \<open>auto simp: update_external_segment_def bindE_eq_Inr Let_def 
        dest!: opt_frames split: if_splits option.splits\<close>,
      (rule frameI; case_tac rt; auto simp: frame_simps)+)

lemma create_external_policy_frame:
  assumes "create_external_policy c i b db = Inr (db', d)"
  shows "frame ExternalPolicy i db db'"
  by (use assms in \<open>auto simp: create_external_policy_def bindE_eq_Inr Let_def 
        dest!: opt_frames split: if_splits\<close>,
      (rule frameI; case_tac rt; auto simp: frame_simps)+)

lemma update_external_policy_frame:
  assumes "update_external_policy c i u db = Inr (db', d)"
  shows "frame ExternalPolicy i db db'"
  by (use assms in \<open>auto simp: update_external_policy_def bindE_eq_Inr Let_def 
        dest!: opt_frames split: if_splits option.splits\<close>,
      (rule frameI; case_tac rt; auto simp: frame_simps)+)

lemma create_nat_pool_frame:
  assumes "create_nat_pool c i b db = Inr (db', d)"
  shows "frame NatPool i db db'"
  by (use assms in \<open>auto simp: create_nat_pool_def bindE_eq_Inr Let_def 
        dest!: opt_frames split: if_splits\<close>,
      (rule frameI; case_tac rt; auto simp: frame_simps)+)

lemma update_nat_pool_frame:
  assumes "update_nat_pool c i u db = Inr (db', d)"
  shows "frame NatPool i db db'"
  by (use assms in \<open>auto simp: update_nat_pool_def bindE_eq_Inr Let_def 
        dest!: opt_frames split: if_splits option.splits\<close>,
      (rule frameI; case_tac rt; auto simp: frame_simps)+)

lemma frame_trans: "frame X i a b \<Longrightarrow> frame X i b c \<Longrightarrow> frame X i a c"
  by (simp add: frame_def)

lemma map_rows_in [simp]:
  "(\<And>q. row_id (f q) = row_id q) \<Longrightarrow> (\<And>q. row_shared (f q) = row_shared q) \<Longrightarrow>
   (\<exists>r \<in> set (map f t). row_id r = k \<and> row_shared r) \<longleftrightarrow> (\<exists>r \<in> set t. row_id r = k \<and> row_shared r)"
  by auto

lemma create_policy_rule_set_frame:
  assumes op: "create_policy_rule_set c i b db = Inr (db', d)"
  shows "frame PolicyRuleSet i db db'"
proof -
  from op obtain r db2 where
    s: "set_rules_for_policy_rule_set c i (prsb_policy_rules b) (db\<lparr>tb_prss := tb_prss db @ [r]\<rparr>) = Inr db2"
    and t: "set_children_for_policy_rule_set c r (prsb_child_policy_rule_sets b) db2 = Inr db'"
    and r: "row_id r = i"
    by (auto simp: create_policy_rule_set_def Let_def bindE_eq_Inr)
  from set_rules_frame[OF s] obtain a where a: "assoc_frame i (as_prs_pr db) a"
    and 2: "db2 = db\<lparr>tb_prss := tb_prss db @ [r], as_prs_pr := a\<rparr>" by auto
  from set_children_rows[OF t] obtain f where f: "\<And>q. row_id (f q) = row_id q" "\<And>q. row_shared (f q) = row_shared q"
    and 3: "db' = db2\<lparr>tb_prss := map f (tb_prss db2)\<rparr>" by blast
  show ?thesis unfolding 3 2
    by (rule frameI; case_tac rt; use a r f in \<open>auto simp: frame_simps\<close>)
qed

lemma update_policy_rule_set_frame:
  assumes op: "update_policy_rule_set c i u db = Inr (db', d)"
  shows "frame PolicyRuleSet i db db'"
proof -
  from op obtain r db1 db2 where
    s: "if_present (prsu_policy_rules u) (set_rules_for_policy_rule_set c i) db = Inr db1"
    and t: "if_present (prsu_child_policy_rule_sets u) (set_children_for_policy_rule_set c r) db1 = Inr db2"
    and d: "db' = db2\<lparr>tb_prss := upd_row i (upd_rule_set u) (tb_prss db2)\<rparr>"
    by (auto simp: update_policy_rule_set_def Let_def bindE_eq_Inr)
  from set_rules_frame_opt[OF s] obtain a where a: "assoc_frame i (as_prs_pr db) a"
    and 1: "db1 = db\<lparr>as_prs_pr := a\<rparr>" by auto
  have "\<exists>f. db2 = db1\<lparr>tb_prss := map f (tb_prss db1)\<rparr> \<and> (\<forall>q. row_id (f q) = row_id q \<and>
      row_shared (f q) = row_shared q \<and> row_tenant (f q) = row_tenant q)"
    using t by (rule if_present_elim) (rule exI[of _ id], simp, rule set_children_rows)
  then obtain f where f: "\<And>q. row_id (f q) = row_id q" "\<And>q. row_shared (f q) = row_shared q"
    and 2: "db2 = db1\<lparr>tb_prss := map f (tb_prss db1)\<rparr>" by blast
  have "frame PolicyRuleSet i db db2" unfolding 2 1
    by (rule frameI; case_tac rt; use a f in \<open>auto simp: frame_simps\<close>)
  moreover have "frame PolicyRuleSet i db2 db'" unfolding d
    by (rule frameI; case_tac rt; auto simp: frame_simps)
  ultimately show ?thesis by (rule frame_trans)
qed

lemmas create_frames =
  create_policy_classifier_frame create_policy_action_frame create_policy_rule_frame create_policy_rule_set_frame create_policy_target_frame create_policy_target_group_frame create_application_policy_group_frame create_l2_policy_frame create_network_service_policy_frame create_l3_policy_frame create_external_segment_frame create_external_policy_frame create_nat_pool_frame

lemmas update_frames =
  update_policy_classifier_frame update_policy_action_frame update_policy_rule_frame update_policy_rule_set_frame update_policy_target_frame update_policy_target_group_frame update_application_policy_group_frame update_l2_policy_frame update_network_service_policy_frame update_l3_policy_frame update_external_segment_frame update_external_policy_frame update_nat_pool_frame

lemma with_obj_Inr: "with_obj f m = Inr (db, ob) \<longleftrightarrow> (\<exists>d. m = Inr (db, d) \<and> ob = f d)"
  by (auto simp: with_obj_def bindE_eq_Inr)

lemma create_obj_frame:
  "create_obj e c i r db = Inr (db', ob) \<Longrightarrow> frame (create_type r) (create_id i r) db db'"
  by (cases r) (auto simp: with_obj_Inr intro: create_frames dest: create_policy_target_group_frame)

lemma update_obj_frame:
  "update_obj e c i u db = Inr (db', ob) \<Longrightarrow> frame (update_type u) i db db'"
  by (cases u) (auto simp: with_obj_Inr intro: update_frames)

section \<open>The result dictionary describes the stored references\<close>

lemma row_at:
  assumes "r \<in> set t" "row_id r = i" "distinct (ids t)"
  shows "(\<exists>x \<in> set t. row_id x = i \<and> P x) \<longleftrightarrow> P r"
proof -
  have "x = r" if "x \<in> set t" "row_id x = i" for x
    using assms that distinct_key_unique[of row_id t x r] by (simp add: ids_def)
  with assms show ?thesis by blast
qed

lemma fst_es_dict: "set (map fst (es_dict_of i a)) = {e. \<exists>x \<in> set a. esl_l3p_id x = i \<and> esl_es_id x = e}"
  by (auto simp: es_dict_of_def Let_def image_iff)

lemmas obj_defs =
  obj_l3p_def obj_l2p_def obj_ptg_def obj_pr_def obj_prs_def obj_es_def obj_ep_def obj_np_def
  obj_pt_def obj_plain_def obj_of_def

lemmas describe_simps = describes_def obj_uses_def obj_defs shared_in_rows row_at set_targets_iff
  shared_dict.defs

lemma ref_list_in: "j \<in> set (ref_list x) \<longleftrightarrow> x = Some j \<and> j \<noteq> []"
  by (auto simp: ref_list_def split: option.splits)

lemma describes_policy_classifier:
  assumes "make_policy_classifier_dict db r = Inr d" and "r \<in> set (tb_classifiers db)" "row_id r = i" "distinct (ids (tb_classifiers db))"
  shows "describes PolicyClassifier i (obj_plain d) db"
proof -
  have "d_id d = row_id r" "d_shared d = row_shared r"
    using assms(1) by (auto simp: make_policy_classifier_dict_def bindE_eq_Inr)
  then show ?thesis unfolding describes_def
    using assms(3) row_at[OF assms(2-4)] by (simp add: obj_plain_def obj_of_def obj_uses_def shared_in_rows)
qed

lemma describes_policy_action:
  assumes "r \<in> set (tb_actions db)" "row_id r = i" "distinct (ids (tb_actions db))"
  shows "describes PolicyAction i (obj_plain (make_policy_action_dict db r)) db"
proof -
  let ?d = "make_policy_action_dict db r"
  have head: "rv_id (obj_plain ?d) = i \<and> shared_in db PolicyAction i = rv_shared (obj_plain ?d)"
    using assms row_at[OF assms(1-3)]
    by (simp add: obj_defs shared_in_rows make_policy_action_dict_def pa_dict.defs shared_dict.defs)
  have "uses db PolicyAction i rt' j = obj_uses PolicyAction (obj_plain ?d) rt' j" for rt' j
    using assms row_at[OF assms(1-3)]
    by (simp add: obj_uses_def obj_defs make_policy_action_dict_def pa_dict.defs shared_dict.defs set_targets_iff ref_list_in) blast?
  with head show ?thesis by (simp add: describes_def)
qed

lemma describes_policy_rule:
  assumes "r \<in> set (tb_rules db)" "row_id r = i" "distinct (ids (tb_rules db))"
  shows "describes PolicyRule i (obj_pr (make_policy_rule_dict db r)) db"
proof -
  let ?d = "make_policy_rule_dict db r"
  have head: "rv_id (obj_pr ?d) = i \<and> shared_in db PolicyRule i = rv_shared (obj_pr ?d)"
    using assms row_at[OF assms(1-3)]
    by (simp add: obj_defs shared_in_rows make_policy_rule_dict_def pr_dict.defs shared_dict.defs)
  have "uses db PolicyRule i rt' j = obj_uses PolicyRule (obj_pr ?d) rt' j" for rt' j
    using assms row_at[OF assms(1-3)]
    by (simp add: obj_uses_def obj_defs make_policy_rule_dict_def pr_dict.defs shared_dict.defs set_targets_iff ref_list_in) blast?
  with head show ?thesis by (simp add: describes_def)
qed

lemma describes_policy_rule_set:
  assumes "r \<in> set (tb_prss db)" "row_id r = i" "distinct (ids (tb_prss db))" and "row_id x = i" "row_shared x = row_shared r"
  shows "describes PolicyRuleSet i (obj_prs (make_policy_rule_set_dict db x)) db"
proof -
  let ?d = "make_policy_rule_set_dict db x"
  have head: "rv_id (obj_prs ?d) = i \<and> shared_in db PolicyRuleSet i = rv_shared (obj_prs ?d)"
    using assms row_at[OF assms(1-3)]
    by (simp add: obj_defs shared_in_rows make_policy_rule_set_dict_def prs_dict.defs shared_dict.defs)
  have "uses db PolicyRuleSet i rt' j = obj_uses PolicyRuleSet (obj_prs ?d) rt' j" for rt' j
    using assms row_at[OF assms(1-3)]
    by (simp add: obj_uses_def obj_defs make_policy_rule_set_dict_def prs_dict.defs shared_dict.defs set_targets_iff ref_list_in) blast?
  with head show ?thesis by (simp add: describes_def)
qed

lemma describes_policy_target:
  assumes "r \<in> set (tb_pts db)" "row_id r = i" "distinct (ids (tb_pts db))"
  shows "describes PolicyTarget i (obj_pt (map_make_policy_target_dict r a)) db"
proof -
  let ?d = "map_make_policy_target_dict r a"
  have head: "rv_id (obj_pt ?d) = i \<and> shared_in db PolicyTarget i = rv_shared (obj_pt ?d)"
    using assms row_at[OF assms(1-3)]
    by (simp add: obj_defs shared_in_rows map_make_policy_target_dict_def make_policy_target_dict_def pt_dict.defs ptm_dict.defs shared_dict.defs)
  have "uses db PolicyTarget i rt' j = obj_uses PolicyTarget (obj_pt ?d) rt' j" for rt' j
    using assms row_at[OF assms(1-3)]
    by (simp add: obj_uses_def obj_defs map_make_policy_target_dict_def make_policy_target_dict_def pt_dict.defs ptm_dict.defs shared_dict.defs set_targets_iff ref_list_in) blast?
  with head show ?thesis by (simp add: describes_def)
qed

lemma describes_policy_target_group:
  assumes "r \<in> set (tb_ptgs db)" "row_id r = i" "distinct (ids (tb_ptgs db))"
  shows "describes PolicyTargetGroup i (obj_ptg (map_make_policy_target_group_dict db r)) db"
proof -
  let ?d = "map_make_policy_target_group_dict db r"
  have head: "rv_id (obj_ptg ?d) = i \<and> shared_in db PolicyTargetGroup i = rv_shared (obj_ptg ?d)"
    using assms row_at[OF assms(1-3)]
    by (simp add: obj_defs shared_in_rows map_make_policy_target_group_dict_def make_policy_target_group_dict_def ptg_dict.defs ptgm_dict.defs shared_dict.defs)
  have "uses db PolicyTargetGroup i rt' j = obj_uses PolicyTargetGroup (obj_ptg ?d) rt' j" for rt' j
    using assms row_at[OF assms(1-3)]
    by (simp add: obj_uses_def obj_defs map_make_policy_target_group_dict_def make_policy_target_group_dict_def ptg_dict.defs ptgm_dict.defs shared_dict.defs set_targets_iff ref_list_in) blast?
  with head show ?thesis by (simp add: describes_def)
qed

lemma describes_application_policy_group:
  assumes "r \<in> set (tb_apgs db)" "row_id r = i" "distinct (ids (tb_apgs db))"
  shows "describes ApplicationPolicyGroup i (obj_plain (make_application_policy_group_dict db r)) db"
proof -
  let ?d = "make_application_policy_group_dict db r"
  have head: "rv_id (obj_plain ?d) = i \<and> shared_in db ApplicationPolicyGroup i = rv_shared (obj_plain ?d)"
    using assms row_at[OF assms(1-3)]
    by (simp add: obj_defs shared_in_rows make_application_policy_group_dict_def apg_dict.defs shared_dict.defs)
  have "uses db ApplicationPolicyGroup i rt' j = obj_uses ApplicationPolicyGroup (obj_plain ?d) rt' j" for rt' j
    using assms row_at[OF assms(1-3)]
    by (simp add: obj_uses_def obj_defs make_application_policy_group_dict_def apg_dict.defs shared_dict.defs set_targets_iff ref_list_in) blast?
  with head show ?thesis by (simp add: describes_def)
qed

lemma describes_l2_policy:
  assumes "r \<in> set (tb_l2ps db)" "row_id r = i" "distinct (ids (tb_l2ps db))"
  shows "describes L2Policy i (obj_l2p (map_make_l2_policy_dict db r)) db"
proof -
  let ?d = "map_make_l2_policy_dict db r"
  have head: "rv_id (obj_l2p ?d) = i \<and> shared_in db L2Policy i = rv_shared (obj_l2p ?d)"
    using assms row_at[OF assms(1-3)]
    by (simp add: obj_defs shared_in_rows map_make_l2_policy_dict_def make_l2_policy_dict_def l2p_dict.defs l2pm_dict.defs shared_dict.defs)
  have "uses db L2Policy i rt' j = obj_uses L2Policy (obj_l2p ?d) rt' j" for rt' j
    using assms row_at[OF assms(1-3)]
    by (simp add: obj_uses_def obj_defs map_make_l2_policy_dict_def make_l2_policy_dict_def l2p_dict.defs l2pm_dict.defs shared_dict.defs set_targets_iff ref_list_in) blast?
  with head show ?thesis by (simp add: describes_def)
qed

lemma describes_network_service_policy:
  assumes "r \<in> set (tb_nsps db)" "row_id r = i" "distinct (ids (tb_nsps db))"
  shows "describes NetworkServicePolicy i (obj_plain (make_network_service_policy_dict db r)) db"
proof -
  let ?d = "make_network_service_policy_dict db r"
  have head: "rv_id (obj_plain ?d) = i \<and> shared_in db NetworkServicePolicy i = rv_shared (obj_plain ?d)"
    using assms row_at[OF assms(1-3)]
    by (simp add: obj_defs shared_in_rows make_network_service_policy_dict_def nsp_dict.defs shared_dict.defs)
  have "uses db NetworkServicePolicy i rt' j = obj_uses NetworkServicePolicy (obj_plain ?d) rt' j" for rt' j
    using assms row_at[OF assms(1-3)]
    by (simp add: obj_uses_def obj_defs make_network_service_policy_dict_def nsp_dict.defs shared_dict.defs set_targets_iff ref_list_in) blast?
  with head show ?thesis by (simp add: describes_def)
qed

lemma describes_l3_policy:
  assumes "r \<in> set (tb_l3ps db)" "row_id r = i" "distinct (ids (tb_l3ps db))"
  shows "describes L3Policy i (obj_l3p (map_make_l3_policy_dict pf db r p)) db"
proof -
  let ?d = "map_make_l3_policy_dict pf db r p"
  have head: "rv_id (obj_l3p ?d) = i \<and> shared_in db L3Policy i = rv_shared (obj_l3p ?d)"
    using assms row_at[OF assms(1-3)]
    by (simp add: obj_defs shared_in_rows map_make_l3_policy_dict_def make_l3_policy_dict_def l3p_dict.defs l3pm_dict.defs Let_def fst_es_dict[simplified] shared_dict.defs split: option.splits)
  have "uses db L3Policy i rt' j = obj_uses L3Policy (obj_l3p ?d) rt' j" for rt' j
    using assms row_at[OF assms(1-3)]
    by (simp add: obj_uses_def obj_defs map_make_l3_policy_dict_def make_l3_policy_dict_def l3p_dict.defs l3pm_dict.defs Let_def fst_es_dict[simplified] shared_dict.defs set_targets_iff ref_list_in split: option.splits) blast?
  with head show ?thesis by (simp add: describes_def)
qed

lemma describes_external_segment:
  assumes "r \<in> set (tb_ess db)" "row_id r = i" "distinct (ids (tb_ess db))"
  shows "describes ExternalSegment i (obj_es (map_make_external_segment_dict db r)) db"
proof -
  let ?d = "map_make_external_segment_dict db r"
  have head: "rv_id (obj_es ?d) = i \<and> shared_in db ExternalSegment i = rv_shared (obj_es ?d)"
    using assms row_at[OF assms(1-3)]
    by (simp add: obj_defs shared_in_rows map_make_external_segment_dict_def make_external_segment_dict_def es_dict.defs esm_dict.defs shared_dict.defs)
  have "uses db ExternalSegment i rt' j = obj_uses ExternalSegment (obj_es ?d) rt' j" for rt' j
    using assms row_at[OF assms(1-3)]
    by (simp add: obj_uses_def obj_defs map_make_external_segment_dict_def make_external_segment_dict_def es_dict.defs esm_dict.defs shared_dict.defs set_targets_iff ref_list_in) blast?
  with head show ?thesis by (simp add: describes_def)
qed

lemma describes_external_policy:
  assumes "r \<in> set (tb_eps db)" "row_id r = i" "distinct (ids (tb_eps db))"
  shows "describes ExternalPolicy i (obj_ep (make_external_policy_dict db r)) db"
proof -
  let ?d = "make_external_policy_dict db r"
  have head: "rv_id (obj_ep ?d) = i \<and> shared_in db ExternalPolicy i = rv_shared (obj_ep ?d)"
    using assms row_at[OF assms(1-3)]
    by (simp add: obj_defs shared_in_rows make_external_policy_dict_def ep_dict.defs shared_dict.defs)
  have "uses db ExternalPolicy i rt' j = obj_uses ExternalPolicy (obj_ep ?d) rt' j" for rt' j
    using assms row_at[OF assms(1-3)]
    by (simp add: obj_uses_def obj_defs make_external_policy_dict_def ep_dict.defs shared_dict.defs set_targets_iff ref_list_in) blast?
  with head show ?thesis by (simp add: describes_def)
qed

lemma describes_nat_pool:
  assumes "r \<in> set (tb_nps db)" "row_id r = i" "distinct (ids (tb_nps db))"
  shows "describes NatPool i (obj_np (map_make_nat_pool_dict r)) db"
proof -
  let ?d = "map_make_nat_pool_dict r"
  have head: "rv_id (obj_np ?d) = i \<and> shared_in db NatPool i = rv_shared (obj_np ?d)"
    using assms row_at[OF assms(1-3)]
    by (simp add: obj_defs shared_in_rows map_make_nat_pool_dict_def make_nat_pool_dict_def np_dict.defs npm_dict.defs shared_dict.defs)
  have "uses db NatPool i rt' j = obj_uses NatPool (obj_np ?d) rt' j" for rt' j
    using assms row_at[OF assms(1-3)]
    by (simp add: obj_uses_def obj_defs map_make_nat_pool_dict_def make_nat_pool_dict_def np_dict.defs npm_dict.defs shared_dict.defs set_targets_iff ref_list_in) blast?
  with head show ?thesis by (simp add: describes_def)
qed

lemma create_policy_action_row:
  "create_policy_action c i b db = Inr (db', d) \<Longrightarrow>
   \<exists>r. r \<in> set (tb_actions db') \<and> row_id r = i \<and> d = make_policy_action_dict db' r"
  by (auto simp: create_policy_action_def bindE_eq_Inr Let_def dest!: opt_frames split: if_splits)

lemma create_policy_rule_row:
  "create_policy_rule c i b db = Inr (db', d) \<Longrightarrow>
   \<exists>r. r \<in> set (tb_rules db') \<and> row_id r = i \<and> d = make_policy_rule_dict db' r"
  by (auto simp: create_policy_rule_def bindE_eq_Inr Let_def dest!: opt_frames split: if_splits)

lemma create_policy_target_row:
  "create_policy_target c i b db = Inr (db', d) \<Longrightarrow>
   \<exists>r a. r \<in> set (tb_pts db') \<and> row_id r = i \<and> d = map_make_policy_target_dict r a"
  by (auto simp: create_policy_target_def bindE_eq_Inr Let_def dest!: opt_frames split: if_splits)

lemma create_policy_target_group_row:
  "create_policy_target_group c i b db = Inr (db', d) \<Longrightarrow>
   \<exists>r. r \<in> set (tb_ptgs db') \<and> row_id r = (create_id i (NewPolicyTargetGroup b)) \<and> d = map_make_policy_target_group_dict db' r"
  by (auto simp: create_policy_target_group_def bindE_eq_Inr Let_def dest!: opt_frames split: if_splits)

lemma create_application_policy_group_row:
  "create_application_policy_group c i b db = Inr (db', d) \<Longrightarrow>
   \<exists>r. r \<in> set (tb_apgs db') \<and> row_id r = i \<and> d = make_application_policy_group_dict db' r"
  by (auto simp: create_application_policy_group_def bindE_eq_Inr Let_def dest!: opt_frames split: if_splits)

lemma create_l2_policy_row:
  "create_l2_policy c i b db = Inr (db', d) \<Longrightarrow>
   \<exists>r. r \<in> set (tb_l2ps db') \<and> row_id r = i \<and> d = map_make_l2_policy_dict db' r"
  by (auto simp: create_l2_policy_def bindE_eq_Inr Let_def dest!: opt_frames split: if_splits)

lemma create_network_service_policy_row:
  "create_network_service_policy c i b db = Inr (db', d) \<Longrightarrow>
   \<exists>r. r \<in> set (tb_nsps db') \<and> row_id r = i \<and> d = make_network_service_policy_dict db' r"
  by (auto simp: create_network_service_policy_def bindE_eq_Inr Let_def set_params_for_network_service_policy_def dest!: opt_frames split: if_splits)

lemma create_l3_policy_row:
  "create_l3_policy nw pf c i b db = Inr (db', d) \<Longrightarrow>
   \<exists>r p. r \<in> set (tb_l3ps db') \<and> row_id r = i \<and> d = map_make_l3_policy_dict pf db' r p"
  by (auto simp: create_l3_policy_def bindE_eq_Inr Let_def dest!: opt_frames split: if_splits)

lemma create_external_segment_row:
  "create_external_segment c i b db = Inr (db', d) \<Longrightarrow>
   \<exists>r. r \<in> set (tb_ess db') \<and> row_id r = i \<and> d = map_make_external_segment_dict db' r"
  by (auto simp: create_external_segment_def bindE_eq_Inr Let_def dest!: opt_frames split: if_splits)

lemma create_external_policy_row:
  "create_external_policy c i b db = Inr (db', d) \<Longrightarrow>
   \<exists>r. r \<in> set (tb_eps db') \<and> row_id r = i \<and> d = make_external_policy_dict db' r"
  by (auto simp: create_external_policy_def bindE_eq_Inr Let_def dest!: opt_frames split: if_splits)

lemma create_nat_pool_row:
  "create_nat_pool c i b db = Inr (db', d) \<Longrightarrow>
   \<exists>r. r \<in> set (tb_nps db') \<and> row_id r = i \<and> d = map_make_nat_pool_dict r"
  by (auto simp: create_nat_pool_def bindE_eq_Inr Let_def dest!: opt_frames split: if_splits)

lemma upd_row_in: "get_by_id vis rt t i = Inr r \<Longrightarrow> f r \<in> set (upd_row i f t)"
  by (auto simp: upd_row_def dest!: get_by_id_Inr)

lemma update_policy_action_row:
  "update_policy_action c i u db = Inr (db', d) \<Longrightarrow>
   \<exists>r. d = make_policy_action_dict db' r \<and> r \<in> set (tb_actions db') \<and> row_id r = i"
  by (auto simp: update_policy_action_def row_defs bindE_eq_Inr Let_def dest!: opt_frames
      split: if_splits option.splits,
      (intro exI conjI, rule refl, auto intro: upd_row_in dest: get_by_id_id)+)

lemma update_policy_rule_row:
  "update_policy_rule c i u db = Inr (db', d) \<Longrightarrow>
   \<exists>r. d = make_policy_rule_dict db' r \<and> r \<in> set (tb_rules db') \<and> row_id r = i"
  by (auto simp: update_policy_rule_def row_defs bindE_eq_Inr Let_def dest!: opt_frames
      split: if_splits option.splits,
      (intro exI conjI, rule refl, auto intro: upd_row_in dest: get_by_id_id)+)

lemma update_policy_target_row:
  "update_policy_target c i u db = Inr (db', d) \<Longrightarrow>
   \<exists>r a. d = map_make_policy_target_dict r a \<and> r \<in> set (tb_pts db') \<and> row_id r = i"
  by (auto simp: update_policy_target_def row_defs bindE_eq_Inr Let_def dest!: opt_frames
      split: if_splits option.splits,
      (intro exI conjI, rule refl, auto intro: upd_row_in dest: get_by_id_id)+)

lemma update_policy_target_group_row:
  "update_policy_target_group c i u db = Inr (db', d) \<Longrightarrow>
   \<exists>r. d = map_make_policy_target_group_dict db' r \<and> r \<in> set (tb_ptgs db') \<and> row_id r = i"
  by (auto simp: update_policy_target_group_def row_defs bindE_eq_Inr Let_def dest!: opt_frames
      split: if_splits option.splits,
      (intro exI conjI, rule refl, auto intro: upd_row_in dest: get_by_id_id)+)

lemma update_application_policy_group_row:
  "update_application_policy_group c i u db = Inr (db', d) \<Longrightarrow>
   \<exists>r. d = make_application_policy_group_dict db' r \<and> r \<in> set (tb_apgs db') \<and> row_id r = i"
  by (auto simp: update_application_policy_group_def row_defs bindE_eq_Inr Let_def dest!: opt_frames
      split: if_splits option.splits,
      (intro exI conjI, rule refl, auto intro: upd_row_in dest: get_by_id_id)+)

lemma update_l2_policy_row:
  "update_l2_policy c i u db = Inr (db', d) \<Longrightarrow>
   \<exists>r. d = map_make_l2_policy_dict db' r \<and> r \<in> set (tb_l2ps db') \<and> row_id r = i"
  by (auto simp: update_l2_policy_def row_defs bindE_eq_Inr Let_def dest!: opt_frames
      split: if_splits option.splits,
      (intro exI conjI, rule refl, auto intro: upd_row_in dest: get_by_id_id)+)

lemma update_network_service_policy_row:
  "update_network_service_policy c i u ps db = Inr (db', d) \<Longrightarrow>
   \<exists>r. d = make_network_service_policy_dict db' r \<and> r \<in> set (tb_nsps db') \<and> row_id r = i"
  by (auto simp: update_network_service_policy_def row_defs bindE_eq_Inr Let_def set_params_for_network_service_policy_def dest!: opt_frames
      split: if_splits option.splits,
      (intro exI conjI, rule refl, auto intro: upd_row_in dest: get_by_id_id)+)

lemma update_l3_policy_row:
  "update_l3_policy nw pf c i u db = Inr (db', d) \<Longrightarrow>
   \<exists>r p. d = map_make_l3_policy_dict pf db' r p \<and> r \<in> set (tb_l3ps db') \<and> row_id r = i"
  by (auto simp: update_l3_policy_def row_defs bindE_eq_Inr Let_def dest!: opt_frames
      split: if_splits option.splits,
      (intro exI conjI, rule refl, auto intro: upd_row_in dest: get_by_id_id)+)

lemma update_external_segment_row:
  "update_external_segment c i u db = Inr (db', d) \<Longrightarrow>
   \<exists>r. d = map_make_external_segment_dict db' r \<and> r \<in> set (tb_ess db') \<and> row_id r = i"
  by (auto simp: update_external_segment_def row_defs bindE_eq_Inr Let_def dest!: opt_frames
      split: if_splits option.splits,
      (intro exI conjI, rule refl, auto intro: upd_row_in dest: get_by_id_id)+)

lemma update_external_policy_row:
  "update_external_policy c i u db = Inr (db', d) \<Longrightarrow>
   \<exists>r. d = make_external_policy_dict db' r \<and> r \<in> set (tb_eps db') \<and> row_id r = i"
  by (auto simp: update_external_policy_def row_defs bindE_eq_Inr Let_def dest!: opt_frames
      split: if_splits option.splits,
      (intro exI conjI, rule refl, auto intro: upd_row_in dest: get_by_id_id)+)

lemma update_nat_pool_row:
  "update_nat_pool c i u db = Inr (db', d) \<Longrightarrow>
   \<exists>r. d = map_make_nat_pool_dict r \<and> r \<in> set (tb_nps db') \<and> row_id r = i"
  by (auto simp: update_nat_pool_def row_defs bindE_eq_Inr Let_def dest!: opt_frames
      split: if_splits option.splits,
      (intro exI conjI, rule refl, auto intro: upd_row_in dest: get_by_id_id)+)

lemma create_policy_classifier_row:
  "create_policy_classifier c i b db = Inr (db', d) \<Longrightarrow>
   \<exists>r. make_policy_classifier_dict db' r = Inr d \<and> r \<in> set (tb_classifiers db') \<and> row_id r = i"
  by (auto simp: create_policy_classifier_def bindE_eq_Inr Let_def)

lemma update_policy_classifier_row:
  "update_policy_classifier c i u db = Inr (db', d) \<Longrightarrow>
   \<exists>r. make_policy_classifier_dict db' r = Inr d \<and> r \<in> set (tb_classifiers db') \<and> row_id r = i"
  by (auto simp: update_policy_classifier_def row_defs bindE_eq_Inr Let_def split: option.splits,
      (intro exI conjI, assumption, auto intro: upd_row_in dest: get_by_id_id)+)

lemma create_policy_rule_set_row:
  assumes op: "create_policy_rule_set c i b db = Inr (db', d)"
  shows "\<exists>r x. d = make_policy_rule_set_dict db' x \<and> r \<in> set (tb_prss db') \<and> row_id r = i \<and>
    row_id x = i \<and> row_shared x = row_shared r"
proof -
  from op obtain r db2 where
    s: "set_rules_for_policy_rule_set c i (prsb_policy_rules b) (db\<lparr>tb_prss := tb_prss db @ [r]\<rparr>) = Inr db2"
    and t: "set_children_for_policy_rule_set c r (prsb_child_policy_rule_sets b) db2 = Inr db'"
    and r: "row_id r = i" "d = make_policy_rule_set_dict db' r"
    by (auto simp: create_policy_rule_set_def Let_def bindE_eq_Inr)
  from set_children_rows[OF t] obtain f where f: "\<And>q. row_id (f q) = row_id q \<and> row_shared (f q) = row_shared q"
    and 3: "db' = db2\<lparr>tb_prss := map f (tb_prss db2)\<rparr>" by blast
  have "f r \<in> set (tb_prss db')" using set_rules_frame[OF s] 3 by auto
  with r f show ?thesis by (intro exI[of _ "f r"] exI[of _ r]) simp
qed

lemma update_policy_rule_set_row:
  assumes op: "update_policy_rule_set c i u db = Inr (db', d)"
  shows "\<exists>r x. d = make_policy_rule_set_dict db' x \<and> r \<in> set (tb_prss db') \<and> row_id r = i \<and>
    row_id x = i \<and> row_shared x = row_shared r"
proof -
  from op obtain r db1 db2 where g: "get_policy_rule_set_row c i db = Inr r"
    and s: "if_present (prsu_policy_rules u) (set_rules_for_policy_rule_set c i) db = Inr db1"
    and t: "if_present (prsu_child_policy_rule_sets u) (set_children_for_policy_rule_set c r) db1 = Inr db2"
    and d: "db' = db2\<lparr>tb_prss := upd_row i (upd_rule_set u) (tb_prss db2)\<rparr>"
      "d = make_policy_rule_set_dict db' (upd_rule_set u r)"
    by (auto simp: update_policy_rule_set_def Let_def bindE_eq_Inr)
  have "\<exists>f. db2 = db1\<lparr>tb_prss := map f (tb_prss db1)\<rparr> \<and> (\<forall>q. row_id (f q) = row_id q \<and>
      row_shared (f q) = row_shared q \<and> row_tenant (f q) = row_tenant q)"
    using t by (rule if_present_elim) (rule exI[of _ id], simp, rule set_children_rows)
  then obtain f where f: "\<And>q. row_id (f q) = row_id q" "\<And>q. row_shared (f q) = row_shared q"
    and 2: "db2 = db1\<lparr>tb_prss := map f (tb_prss db1)\<rparr>" by blast
  have r: "r \<in> set (tb_prss db)" "row_id r = i"
    using g by (auto simp: get_policy_rule_set_row_def dest!: get_by_id_Inr)
  have "f r \<in> set (tb_prss db2)" using set_rules_frame_opt[OF s] 2 r by auto
  then have "upd_rule_set u (f r) \<in> set (tb_prss db')" using d f r by (force simp: upd_row_def)
  then show ?thesis using d f r
    by (intro exI[of _ "upd_rule_set u (f r)"] exI[of _ "upd_rule_set u r"])
      (simp add: upd_rule_set_def upd_shared_def upd_common_def)
qed

lemmas describes_rows =
  describes_policy_classifier describes_policy_action describes_policy_rule describes_policy_rule_set describes_policy_target describes_policy_target_group describes_application_policy_group describes_l2_policy describes_network_service_policy describes_l3_policy describes_external_segment describes_external_policy describes_nat_pool

lemmas op_rows =
  create_policy_classifier_row update_policy_classifier_row create_policy_action_row update_policy_action_row create_policy_rule_row update_policy_rule_row create_policy_rule_set_row update_policy_rule_set_row create_policy_target_row update_policy_target_row create_policy_target_group_row update_policy_target_group_row create_application_policy_group_row update_application_policy_group_row create_l2_policy_row update_l2_policy_row create_network_service_policy_row update_network_service_policy_row create_l3_policy_row update_l3_policy_row create_external_segment_row update_external_segment_row create_external_policy_row update_external_policy_row create_nat_pool_row update_nat_pool_row

lemma create_obj_describes:
  assumes "create_obj e c i r db = Inr (db', ob)" "ids_inv db'"
  shows "describes (create_type r) (create_id i r) ob db'"
  using assms
  by (cases r) (auto simp: with_obj_Inr ids_inv_def dest!: op_rows intro: describes_rows)

lemma update_obj_describes:
  assumes "update_obj e c i u db = Inr (db', ob)" "ids_inv db'"
  shows "describes (update_type u) i ob db'"
  using assms
  by (cases u) (auto simp: with_obj_Inr ids_inv_def dest!: op_rows intro: describes_rows)

end
