(* ===== verification/Plugin_Safety.thy ===== *)
theory Plugin_Safety
  imports Plugin_Invariant
begin

text \<open>
  The sharing rules of the plugin hold in every database its validated requests reach: each
  reference of the usage graph points to an existing resource, and a shared resource uses
  shared resources only.  The creation and update validations establish the rule for the
  resource of the request; the validation of an unshare keeps it for the resources that use it,
  provided that an administrator's query sees every row (\<open>admin_sees_all\<close>).
\<close>

section \<open>What a validated resource may use\<close>

text \<open>The sharing validation of a creation succeeds exactly when every reference of the
  resource names a row that the request sees, and every such row is one the resource may refer
  to: a shared one, or one of the same tenant (any, for an administrator) if the resource itself
  is not shared.\<close>

theorem validate_shared_create_spec:
  "validate_shared_create c db obj rt = Inr () \<longleftrightarrow>
     (\<forall>(attr, ref) \<in> set (usage_graph rt).
        \<exists>js. attr_ids obj attr = Inr js \<and>
          (\<forall>j \<in> set js. (\<exists>v. visible_view c ref j db v) \<and>
             (\<forall>v. visible_view c ref j db v \<longrightarrow> may_refer c obj v)))"
  by (auto simp: validate_shared_create_Inr validate_link_Inr)

lemma validated_use:
  assumes "validate_shared_create c db ob X = Inr ()" and "obj_uses X ob rt j"
  shows "\<exists>v \<in> set (views rt db). rv_id v = j \<and> may_refer c ob v"
proof -
  from assms(2) obtain attr js where a: "(attr, rt) \<in> set (usage_graph X)"
    and m: "map_of (ov_attrs ob) attr = Some js" "j \<in> set js"
    by (auto simp: obj_uses_def)
  from assms(1) a have "validate_link c db ob X (attr, rt) = Inr ()"
    by (auto simp: validate_shared_create_Inr)
  with m obtain v where "visible_view c rt j db v" "may_refer c ob v"
    by (auto simp: validate_link_Inr attr_ids_def)
  then show ?thesis by (auto simp: visible_view_def)
qed

lemma view_in_ids: "v \<in> set (views rt db) \<Longrightarrow> rv_id v \<in> set (table_ids rt db)"
  by (cases rt) (auto simp: view_row_def view_pt_def ids_def)

lemma shared_in_ids: "shared_in db rt i \<Longrightarrow> i \<in> set (table_ids rt db)"
  by (auto simp: shared_in_def dest: view_in_ids)

lemma validated_use_inv:
  assumes "validate_shared_create c db ob X = Inr ()" and "obj_uses X ob rt j"
  shows "j \<in> set (table_ids rt db) \<and> (rv_shared ob \<longrightarrow> shared_in db rt j)"
  using validated_use[OF assms] by (auto simp: may_refer_def shared_in_def dest: view_in_ids)

section \<open>Creation\<close>

lemma use_inv_create:
  assumes inv: "use_inv db" and f: "frame X i db db'" and d: "describes X i ob db'"
    and v: "validate_shared_create c db' ob X = Inr ()" and new: "i \<notin> set (table_ids X db)"
    and grow: "\<And>rt. set (table_ids rt db) \<subseteq> set (table_ids rt db')"
  shows "use_inv db'"
  unfolding use_inv_def
proof (intro allI impI)
  fix rt k rt' j
  assume u: "uses db' rt k rt' j"
  show "j \<in> set (table_ids rt' db') \<and> (shared_in db' rt k \<longrightarrow> shared_in db' rt' j)"
  proof (cases "(rt, k) = (X, i)")
    case True
    with u d have "obj_uses X ob rt' j" and "shared_in db' rt k = rv_shared ob"
      by (auto simp: describes_def)
    with validated_use_inv[OF v] show ?thesis by blast
  next
    case False
    with f u have "uses db rt k rt' j" and s: "shared_in db' rt k = shared_in db rt k"
      by (auto simp: frame_def)
    with inv have j: "j \<in> set (table_ids rt' db)" "shared_in db rt k \<longrightarrow> shared_in db rt' j"
      unfolding use_inv_def by blast+
    with new have "(rt', j) \<noteq> (X, i)" by auto
    with f have "shared_in db' rt' j = shared_in db rt' j" by (auto simp: frame_def)
    with j grow[of rt'] s show ?thesis by auto
  qed
qed

section \<open>Update\<close>

definition no_shared_user :: "res_type \<Rightarrow> string \<Rightarrow> gbp_db \<Rightarrow> bool" where
  "no_shared_user X i db \<longleftrightarrow> (\<forall>rt k. (rt, k) \<noteq> (X, i) \<longrightarrow> uses db rt k X i \<longrightarrow> \<not> shared_in db rt k)"

lemma use_inv_update:
  assumes inv: "use_inv db" and f: "frame X i db db'" and d: "describes X i ob db'"
    and v: "validate_shared_create c db' ob X = Inr ()"
    and same: "\<And>rt. set (table_ids rt db') = set (table_ids rt db)"
    and unshare: "shared_in db X i \<Longrightarrow> \<not> rv_shared ob \<Longrightarrow> no_shared_user X i db'"
  shows "use_inv db'"
  unfolding use_inv_def
proof (intro allI impI)
  fix rt k rt' j
  assume u: "uses db' rt k rt' j"
  show "j \<in> set (table_ids rt' db') \<and> (shared_in db' rt k \<longrightarrow> shared_in db' rt' j)"
  proof (cases "(rt, k) = (X, i)")
    case True
    with u d have "obj_uses X ob rt' j" and "shared_in db' rt k = rv_shared ob"
      by (auto simp: describes_def)
    with validated_use_inv[OF v] show ?thesis by blast
  next
    case False
    with f u have u0: "uses db rt k rt' j" and s: "shared_in db' rt k = shared_in db rt k"
      by (auto simp: frame_def)
    with inv have j: "j \<in> set (table_ids rt' db)" "shared_in db rt k \<longrightarrow> shared_in db rt' j"
      unfolding use_inv_def by blast+
    show ?thesis
    proof (cases "(rt', j) = (X, i)")
      case True
      have "shared_in db' X i" if "shared_in db' rt k"
      proof (rule ccontr)
        assume n: "\<not> shared_in db' X i"
        have "shared_in db X i" using that j s True by auto
        moreover have "\<not> rv_shared ob" using n d by (simp add: describes_def)
        ultimately have "no_shared_user X i db'" by (rule unshare)
        with u True False that show False by (auto simp: no_shared_user_def)
      qed
      with j same True show ?thesis by auto
    next
      case False
      with f have "shared_in db' rt' j = shared_in db rt' j" by (auto simp: frame_def)
      with j same s show ?thesis by auto
    qed
  qed
qed

section \<open>Ending the sharing of a resource\<close>

definition admin_sees_all :: "ctx \<Rightarrow> bool" where
  "admin_sees_all c \<longleftrightarrow> (\<forall>project tenant shared. ctx_scope c True project tenant shared)"

lemma sees_elevated: "admin_sees_all c \<Longrightarrow> sees (elevated c) t s"
  by (simp add: admin_sees_all_def sees_def elevated_def)

lemma check_shared_Inr:
  "check_shared_or_different_tenant ob vs = Inr () \<longleftrightarrow>
     (\<forall>v \<in> set vs. \<not> rv_shared v \<and> rv_tenant ob = rv_tenant v)"
  by (auto simp: check_shared_or_different_tenant_def checkE_eq_Inr)

lemma unshare_rows:
  assumes "admin_sees_all c"
    and "check_shared_or_different_tenant ob (query_rows (elevated c) P t) = Inr ()"
  shows "\<forall>r \<in> set t. P r \<longrightarrow> \<not> row_shared r"
  using assms
  by (auto simp: check_shared_Inr query_rows_def get_collection_def sees_row_def sees_elevated view_row_def)

lemma unshare_ids:
  assumes "admin_sees_all c"
    and "check_shared_or_different_tenant ob (query_by_ids (elevated c) rt (ids_or_self js ob) db) = Inr ()"
    and "k \<in> set js"
  shows "\<not> shared_in db rt k"
  using assms
  by (auto simp: check_shared_Inr query_by_ids_views sees_elevated shared_in_def ids_or_self_def split: if_splits)

text \<open>The attributes of a result through which its users are found.\<close>

fun user_attrs :: "res_type \<Rightarrow> string \<Rightarrow> obj_view \<Rightarrow> gbp_db \<Rightarrow> bool" where
  "user_attrs PolicyRuleSet i ob db \<longleftrightarrow>
     map_of (ov_attrs ob) ''providing_policy_target_groups'' = Some (sources (as_ptg_prov db) i) \<and>
     map_of (ov_attrs ob) ''consuming_policy_target_groups'' = Some (sources (as_ptg_cons db) i) \<and>
     map_of (ov_attrs ob) ''providing_external_policies'' = Some (sources (as_ep_prov db) i) \<and>
     map_of (ov_attrs ob) ''consuming_external_policies'' = Some (sources (as_ep_cons db) i)"
| "user_attrs ExternalSegment i ob db \<longleftrightarrow>
     (\<exists>ls es. map_of (ov_attrs ob) ''l3_policies'' = Some ls \<and> map_of (ov_attrs ob) ''external_policies'' = Some es \<and>
        set ls = {k. \<exists>x \<in> set (as_es_l3p db). esl_l3p_id x = k \<and> esl_es_id x = i} \<and>
        set es = set (sources (as_ep_es db) i))"
| "user_attrs rt i ob db \<longleftrightarrow> True"

lemma update_obj_user_attrs:
  assumes "update_obj e c i u db = Inr (db', ob)"
  shows "user_attrs (update_type u) i ob db'"
proof (cases u)
  case (UpdPolicyRuleSet v)
  with assms show ?thesis
    by (auto simp: with_obj_Inr obj_prs_def obj_of_def make_policy_rule_set_dict_def shared_dict.defs
        prs_dict.defs dest!: update_policy_rule_set_row)
next
  case (UpdExternalSegment v)
  with assms show ?thesis
    by (auto simp: with_obj_Inr obj_es_def obj_of_def map_make_external_segment_dict_def
        make_external_segment_dict_def shared_dict.defs es_dict.defs esm_dict.defs image_iff
        dest!: update_external_segment_row)
qed simp_all

lemma shared_row_unique:
  assumes "distinct (ids t)" "r \<in> set t" "q \<in> set t" "row_id r = row_id q"
  shows "r = q"
  using assms distinct_key_unique[of row_id t r q] by (simp add: ids_def)

lemma row_user_not_shared:
  assumes "\<forall>r \<in> set t. P r \<longrightarrow> \<not> row_shared r" and "distinct (ids t)"
    and "\<exists>r \<in> set t. row_id r = k \<and> P r" and "\<exists>r \<in> set t. row_id r = k \<and> row_shared r"
  shows False
  using assms shared_row_unique[of t] by metis

lemma no_shared_user_row:
  assumes "\<forall>r \<in> set t. P r \<longrightarrow> \<not> row_shared r" and "distinct (ids t)"
    and "\<And>rt k. uses db rt k X i \<Longrightarrow> rt = Y \<and> (\<exists>r \<in> set t. row_id r = k \<and> P r)"
    and "\<And>k. shared_in db Y k = (\<exists>r \<in> set t. row_id r = k \<and> row_shared r)"
  shows "no_shared_user X i db"
  unfolding no_shared_user_def using assms(3,4) row_user_not_shared[OF assms(1,2)] by blast

lemma no_shared_user_ids:
  assumes "\<And>rt k. uses db rt k X i \<Longrightarrow> \<not> shared_in db rt k"
  shows "no_shared_user X i db"
  using assms by (simp add: no_shared_user_def)

lemma uses_target_cases:
  "uses db rt k PolicyRuleSet i \<longleftrightarrow>
     (rt = PolicyTargetGroup \<and> (k \<in> set (sources (as_ptg_prov db) i) \<or> k \<in> set (sources (as_ptg_cons db) i))) \<or>
     (rt = ExternalPolicy \<and> (k \<in> set (sources (as_ep_prov db) i) \<or> k \<in> set (sources (as_ep_cons db) i)))"
  "uses db rt k PolicyRule i \<longleftrightarrow> rt = PolicyRuleSet \<and> k \<in> set (sources (as_prs_pr db) i)"
  "uses db rt k PolicyAction i \<longleftrightarrow> rt = PolicyRule \<and> k \<in> set (sources (as_pr_pa db) i)"
  "uses db rt k ExternalSegment i \<longleftrightarrow>
     (rt = L3Policy \<and> (\<exists>x \<in> set (as_es_l3p db). esl_l3p_id x = k \<and> esl_es_id x = i)) \<or>
     (rt = ExternalPolicy \<and> k \<in> set (sources (as_ep_es db) i)) \<or>
     (rt = NatPool \<and> i \<noteq> [] \<and> (\<exists>r \<in> set (tb_nps db). row_id r = k \<and> np_es_id r = Some i))"
  "uses db rt k L3Policy i \<longleftrightarrow>
     rt = L2Policy \<and> i \<noteq> [] \<and> (\<exists>r \<in> set (tb_l2ps db). row_id r = k \<and> l2p_l3p_id r = Some i)"
  "uses db rt k L2Policy i \<longleftrightarrow>
     rt = PolicyTargetGroup \<and> i \<noteq> [] \<and> (\<exists>r \<in> set (tb_ptgs db). row_id r = k \<and> ptg_l2p_id r = Some i)"
  "uses db rt k NetworkServicePolicy i \<longleftrightarrow>
     rt = PolicyTargetGroup \<and> i \<noteq> [] \<and> (\<exists>r \<in> set (tb_ptgs db). row_id r = k \<and> ptg_nsp_id r = Some i)"
  "uses db rt k PolicyClassifier i \<longleftrightarrow>
     rt = PolicyRule \<and> i \<noteq> [] \<and> (\<exists>r \<in> set (tb_rules db). row_id r = k \<and> pr_classifier_id r = i)"
  by (cases rt; auto simp: set_sources)+

lemma unshare_rule_set:
  assumes v: "validate_policy_rule_set_unshare (elevated c) db ob = Inr ()" and all: "admin_sees_all c"
    and ua: "user_attrs PolicyRuleSet i ob db"
  shows "no_shared_user PolicyRuleSet i db"
proof (rule no_shared_user_ids)
  fix rt k assume u: "uses db rt k PolicyRuleSet i"
  from v ua have
    g: "check_shared_or_different_tenant ob (query_by_ids (elevated c) PolicyTargetGroup
          (ids_or_self (sources (as_ptg_prov db) i @ sources (as_ptg_cons db) i) ob) db) = Inr ()"
    and p: "check_shared_or_different_tenant ob (query_by_ids (elevated c) ExternalPolicy
          (ids_or_self (sources (as_ep_prov db) i @ sources (as_ep_cons db) i) ob) db) = Inr ()"
    by (simp_all add: validate_policy_rule_set_unshare_def attr_ids_def bindE_eq_Inr)
  from u show "\<not> shared_in db rt k"
    using unshare_ids[OF all g, of k] unshare_ids[OF all p, of k]
    by (auto simp: uses_target_cases)
qed

lemma unshare_segment:
  assumes v: "validate_external_segment_unshare (elevated c) db ob = Inr ()" and all: "admin_sees_all c"
    and i: "rv_id ob = i" and ua: "user_attrs ExternalSegment i ob db" and inv: "ids_inv db"
  shows "no_shared_user ExternalSegment i db"
proof (rule no_shared_user_ids)
  fix rt k assume u: "uses db rt k ExternalSegment i"
  from ua obtain ls es where m: "map_of (ov_attrs ob) ''l3_policies'' = Some ls"
      "map_of (ov_attrs ob) ''external_policies'' = Some es"
    and s: "set ls = {k. \<exists>x \<in> set (as_es_l3p db). esl_l3p_id x = k \<and> esl_es_id x = i}"
      "set es = set (sources (as_ep_es db) i)" by auto
  from v m have
    l: "check_shared_or_different_tenant ob (query_by_ids (elevated c) L3Policy (ids_or_self ls ob) db) = Inr ()"
    and p: "check_shared_or_different_tenant ob
          (query_by_ids (elevated c) ExternalPolicy (ids_or_self es ob) db) = Inr ()"
    and n: "check_shared_or_different_tenant ob
          (query_rows (elevated c) (\<lambda>r. np_es_id r = Some (rv_id ob)) (tb_nps db)) = Inr ()"
    by (simp_all add: validate_external_segment_unshare_def attr_ids_def bindE_eq_Inr)
  show "\<not> shared_in db rt k"
  proof
    assume sh: "shared_in db rt k"
    with u s unshare_ids[OF all l, of k] unshare_ids[OF all p, of k]
    have "rt = NatPool" "\<exists>r \<in> set (tb_nps db). row_id r = k \<and> np_es_id r = Some i"
      by (auto simp: uses_target_cases)
    with sh inv i show False using row_user_not_shared[OF unshare_rows[OF all n]]
      by (auto simp: shared_in_rows ids_inv_def)
  qed
qed

lemma validated_unshare:
  assumes v: "validate_unshare (elevated c) db X ob = Inr ()" and all: "admin_sees_all c"
    and i: "rv_id ob = i" and ua: "user_attrs X i ob db" and inv: "ids_inv db"
  shows "no_shared_user X i db"
proof -
  have d: "distinct (ids (tb_l2ps db))" "distinct (ids (tb_ptgs db))" "distinct (ids (tb_rules db))"
    using inv by (simp_all add: ids_inv_def)
  show ?thesis
proof (cases X)
  case L3Policy
  have "\<forall>r \<in> set (tb_l2ps db). l2p_l3p_id r = Some i \<longrightarrow> \<not> row_shared r"
    using v i by (intro unshare_rows[OF all, of ob]) (simp add: L3Policy)
  then show ?thesis unfolding L3Policy
    by (rule no_shared_user_row[where Y = L2Policy, OF _ d(1)])
      (auto simp: uses_target_cases shared_in_rows)
next
  case L2Policy
  have "\<forall>r \<in> set (tb_ptgs db). ptg_l2p_id r = Some i \<longrightarrow> \<not> row_shared r"
    using v i by (intro unshare_rows[OF all, of ob]) (simp add: L2Policy)
  then show ?thesis unfolding L2Policy
    by (rule no_shared_user_row[where Y = PolicyTargetGroup, OF _ d(2)])
      (auto simp: uses_target_cases shared_in_rows)
next
  case NetworkServicePolicy
  have "\<forall>r \<in> set (tb_ptgs db). ptg_nsp_id r = Some i \<longrightarrow> \<not> row_shared r"
    using v i by (intro unshare_rows[OF all, of ob]) (simp add: NetworkServicePolicy)
  then show ?thesis unfolding NetworkServicePolicy
    by (rule no_shared_user_row[where Y = PolicyTargetGroup, OF _ d(2)])
      (auto simp: uses_target_cases shared_in_rows)
next
  case PolicyClassifier
  have "\<forall>r \<in> set (tb_rules db). pr_classifier_id r = i \<longrightarrow> \<not> row_shared r"
    using v i by (intro unshare_rows[OF all, of ob]) (simp add: PolicyClassifier)
  then show ?thesis unfolding PolicyClassifier
    by (rule no_shared_user_row[where Y = PolicyRule, OF _ d(3)])
      (auto simp: uses_target_cases shared_in_rows)
next
  case PolicyTargetGroup
  then show ?thesis
    by (intro no_shared_user_ids, case_tac rt) (auto simp: shared_in_rows)
next
  case PolicyRule
  with v i show ?thesis
    by (intro no_shared_user_ids) (auto simp: uses_target_cases get_policy_rule_policy_rule_sets_def
      simp del: query_by_ids.simps dest: unshare_ids[OF all])
next
  case PolicyAction
  with v i show ?thesis
    by (intro no_shared_user_ids) (auto simp: uses_target_cases get_policy_action_rules_def
      simp del: query_by_ids.simps dest: unshare_ids[OF all])
next
  case PolicyRuleSet
  with unshare_rule_set[OF _ all] v ua show ?thesis by simp
next
  case ExternalSegment
  with unshare_segment[OF _ all i] v ua inv show ?thesis by simp
next
  case ExternalPolicy
  then show ?thesis by (intro no_shared_user_ids, case_tac rt) auto
next
  case NatPool
  then show ?thesis by (intro no_shared_user_ids, case_tac rt) auto
qed (use v in simp_all)
qed

section \<open>Deletion\<close>

lemma kept_rows:
  "r \<in> set (del_row i t) \<Longrightarrow> r \<in> set t"
  "q \<in> set (orphan_nps i ns) \<Longrightarrow> np_es_id q = Some j \<Longrightarrow> q \<in> set ns"
  "g \<in> set (orphan_apg_ptgs i gs) \<Longrightarrow> \<exists>h \<in> set gs. row_id h = row_id g \<and> ptg_nsp_id h = ptg_nsp_id g
     \<and> ptg_l2p_id h = ptg_l2p_id g"
  "p \<in> set (orphan_pts i ps) \<Longrightarrow> pt_ptg_id p = Some j \<Longrightarrow> p \<in> set ps"
  "x \<in> set (drop_l3p_ess i es) \<Longrightarrow> x \<in> set es"
  by (auto simp: del_row_def orphan_nps_def orphan_apg_ptgs_def orphan_pts_def drop_l3p_ess_def
      split: if_splits)

lemma delete_uses:
  assumes "exec_delete c X i db = Inr db'" and "uses db' rt k rt' j"
  shows "uses db rt k rt' j"
  by (use assms in \<open>cases X\<close>; (simp add: delete_defs bindE_eq_Inr split: if_splits, elim conjE exE)?;
      hypsubst?; cases rt; (fastforce dest: kept_rows)?)

lemma shared_row_kept:
  "(\<exists>r \<in> set (del_row i t). row_id r = k \<and> row_shared r) \<longleftrightarrow>
     k \<noteq> i \<and> (\<exists>r \<in> set t. row_id r = k \<and> row_shared r)"
  "(\<exists>r \<in> set (clear_children i ps). row_id r = k \<and> row_shared r) \<longleftrightarrow>
     (\<exists>r \<in> set ps. row_id r = k \<and> row_shared r)"
  "(\<exists>r \<in> set (orphan_nps i ns). row_id r = k \<and> row_shared r) \<longleftrightarrow>
     (\<exists>r \<in> set ns. row_id r = k \<and> row_shared r)"
  "(\<exists>r \<in> set (orphan_apg_ptgs i gs). row_id r = k \<and> row_shared r) \<longleftrightarrow>
     (\<exists>r \<in> set gs. row_id r = k \<and> row_shared r)"
proof -
  have *: "(\<exists>r \<in> set (map f t). row_id r = k \<and> row_shared r) \<longleftrightarrow> (\<exists>r \<in> set t. row_id r = k \<and> row_shared r)"
    if "\<And>r. row_id (f r) = row_id r" "\<And>r. row_shared (f r) = row_shared r"
    for f :: "'x shared_row_scheme \<Rightarrow> 'x shared_row_scheme" and t
    using that by auto
  show "(\<exists>r \<in> set (clear_children i ps). row_id r = k \<and> row_shared r) \<longleftrightarrow>
      (\<exists>r \<in> set ps. row_id r = k \<and> row_shared r)"
    unfolding clear_children_def by (rule *) simp_all
  show "(\<exists>r \<in> set (orphan_nps i ns). row_id r = k \<and> row_shared r) \<longleftrightarrow>
      (\<exists>r \<in> set ns. row_id r = k \<and> row_shared r)"
    unfolding orphan_nps_def by (rule *) simp_all
  show "(\<exists>r \<in> set (orphan_apg_ptgs i gs). row_id r = k \<and> row_shared r) \<longleftrightarrow>
      (\<exists>r \<in> set gs. row_id r = k \<and> row_shared r)"
    unfolding orphan_apg_ptgs_def by (rule *) simp_all
qed (auto simp: del_row_def)

lemma delete_shared_in:
  assumes "exec_delete c X i db = Inr db'" and "(rt, k) \<noteq> (X, i)"
  shows "shared_in db' rt k = shared_in db rt k"
proof -
  have "shared_in db' rt k \<longleftrightarrow> (rt, k) \<noteq> (X, i) \<and> shared_in db rt k"
    by (use assms(1) in \<open>cases X\<close>; (simp add: delete_defs bindE_eq_Inr split: if_splits, elim conjE exE)?;
        hypsubst?; cases rt; simp add: shared_in_rows shared_row_kept)
  with assms(2) show ?thesis by blast
qed

lemma in_snd: "(k, i) \<in> A \<Longrightarrow> i \<in> snd ` A"
  by force

lemma uses_refers: "uses db rt k X i \<Longrightarrow> refers X i db"
  by (cases rt) (auto intro: in_snd)

lemma delete_table_ids:
  assumes "exec_delete c X i db = Inr db'"
  shows "set (table_ids rt db') = set (table_ids rt db) - (if rt = X then {i} else {})"
  using exec_delete_key[OF assms]
  by (auto simp: removes_key_def map_fst_table_keys[symmetric])

lemma use_inv_delete:
  assumes inv: "use_inv db" and x: "exec_delete c X i db = Inr db'"
  shows "use_inv db'"
  unfolding use_inv_def
proof (intro allI impI)
  fix rt k rt' j assume u: "uses db' rt k rt' j"
  with inv delete_uses[OF x] have j: "j \<in> set (table_ids rt' db)" "shared_in db rt k \<longrightarrow> shared_in db rt' j"
    unfolding use_inv_def by blast+
  have "(rt', j) \<noteq> (X, i)" using u delete_unreferred[OF x] uses_refers by auto
  moreover have "shared_in db rt k" if "shared_in db' rt k"
  proof -
    have "(rt, k) \<noteq> (X, i)" using shared_in_ids[OF that] delete_table_ids[OF x] by auto
    with that delete_shared_in[OF x] show ?thesis by simp
  qed
  ultimately show "j \<in> set (table_ids rt' db') \<and> (shared_in db' rt k \<longrightarrow> shared_in db' rt' j)"
    using j delete_shared_in[OF x] by (auto simp: delete_table_ids[OF x])
qed

section \<open>The databases that validated requests reach\<close>

lemma create_obj_exec: "create_obj e c i r db = Inr (db', ob) \<Longrightarrow> exec_create e c i r db = Inr db'"
  by (cases r) (auto simp: with_obj_Inr)

lemma update_obj_exec: "update_obj e c i u db = Inr (db', ob) \<Longrightarrow> exec_update e c i u db = Inr db'"
  by (cases u) (auto simp: with_obj_Inr)

lemmas get_defs =
  get_policy_classifier_def get_policy_action_def get_policy_rule_def get_policy_rule_set_def
  get_policy_target_def get_policy_target_group_def get_application_policy_group_def
  get_l2_policy_def get_network_service_policy_def get_l3_policy_def get_external_segment_def
  get_external_policy_def get_nat_pool_def

lemma get_obj_describes:
  assumes "get_obj e c rt i db = Inr ob" "ids_inv db"
  shows "describes rt i ob db"
  using assms
  by (cases rt)
     (auto simp: bindE_eq_Inr get_defs row_defs ids_inv_def
       dest!: get_by_id_Inr intro: describes_rows)

lemma exec_create_id_inv:
  "exec_create e c i r db = Inr db' \<Longrightarrow> create_id i r \<notin> set (table_ids (create_type r) db) \<Longrightarrow>
   db_inv db \<Longrightarrow> db_inv db'"
  by (cases r) (auto intro: create_invs)

inductive plugin_step :: "db_env \<Rightarrow> ctx \<Rightarrow> gbp_db \<Rightarrow> gbp_db \<Rightarrow> bool" for e c where
  create: "create_id i r \<notin> set (table_ids (create_type r) db) \<Longrightarrow> checked_create e c i r db = Inr (db', ob) \<Longrightarrow>
     plugin_step e c db db'"
| update: "checked_update e c i u db = Inr (db', ob) \<Longrightarrow> plugin_step e c db db'"
| delete: "checked_delete e c rt i db = Inr db' \<Longrightarrow> plugin_step e c db db'"

inductive plugin_reachable :: "db_env \<Rightarrow> ctx set \<Rightarrow> gbp_db \<Rightarrow> bool" for e cs where
  init: "plugin_reachable e cs empty_db"
| step: "plugin_reachable e cs db \<Longrightarrow> c \<in> cs \<Longrightarrow> plugin_step e c db db' \<Longrightarrow> plugin_reachable e cs db'"

lemma checked_create_use_inv:
  assumes x: "checked_create e c i r db = Inr (db', ob)" and new: "create_id i r \<notin> set (table_ids (create_type r) db)"
    and inv: "db_inv db" "use_inv db"
  shows "db_inv db' \<and> use_inv db'"
proof -
  from x have o: "create_obj e c i r db = Inr (db', ob)"
    and v: "validate_shared_create c db' ob (create_type r) = Inr ()"
    by (auto simp: checked_create_def bindE_eq_Inr)
  note exec = create_obj_exec[OF o]
  have db': "db_inv db'" using exec_create_id_inv[OF exec new inv(1)] .
  obtain t where k: "adds_key (create_type r) (create_id i r) t db db'" using exec_create_key[OF exec] by blast
  have "set (table_ids rt db) \<subseteq> set (table_ids rt db')" for rt
    using k by (auto simp: adds_key_def map_fst_table_keys[symmetric])
  with use_inv_create[OF inv(2) create_obj_frame[OF o] create_obj_describes[OF o] v new] db'
  show ?thesis by (simp add: db_inv_def)
qed

lemma checked_update_use_inv:
  assumes x: "checked_update e c i u db = Inr (db', ob)" and all: "admin_sees_all c"
    and inv: "db_inv db" "use_inv db"
  shows "db_inv db' \<and> use_inv db'"
proof -
  from x obtain orig where g: "get_obj e c (update_type u) i db = Inr orig"
    and o: "update_obj e c i u db = Inr (db', ob)"
    and v: "validate_shared_update c db' orig ob (update_type u) = Inr ()"
    by (auto simp: checked_update_def bindE_eq_Inr)
  note exec = update_obj_exec[OF o]
  have db': "db_inv db'" using exec_update_inv[OF exec inv(1)] .
  then have ids: "ids_inv db" "ids_inv db'" using inv(1) by (simp_all add: db_inv_def)
  note d = update_obj_describes[OF o ids(2)]
  have orig: "rv_shared orig = shared_in db (update_type u) i"
    using get_obj_describes[OF g ids(1)] by (simp add: describes_def)
  have "no_shared_user (update_type u) i db'"
    if "shared_in db (update_type u) i" "\<not> rv_shared ob"
  proof (rule validated_unshare[OF _ all])
    show "validate_unshare (elevated c) db' (update_type u) ob = Inr ()"
      using v that orig by (simp add: validate_shared_update_def bindE_eq_Inr)
    show "rv_id ob = i" using d by (simp add: describes_def)
  qed (use update_obj_user_attrs[OF o] ids in simp_all)
  moreover have "set (table_ids rt db') = set (table_ids rt db)" for rt
    using exec_update_keys[OF exec] by (simp add: same_keys_def map_fst_table_keys[symmetric])
  ultimately have "use_inv db'"
    using v by (intro use_inv_update[OF inv(2) update_obj_frame[OF o] d])
      (auto simp: validate_shared_update_def bindE_eq_Inr)
  with db' show ?thesis by simp
qed

lemma checked_delete_use_inv:
  assumes "checked_delete e c rt i db = Inr db'" and "db_inv db" "use_inv db"
  shows "db_inv db' \<and> use_inv db'"
proof -
  from assms(1) have "exec_delete c rt i db = Inr db'"
    by (auto simp: checked_delete_def bindE_eq_Inr split: if_splits)
  with use_inv_delete exec_delete_inv assms(2,3) show ?thesis by blast
qed

lemma plugin_reachable_inv:
  assumes "plugin_reachable e cs db" and "\<forall>c \<in> cs. admin_sees_all c"
  shows "db_inv db \<and> use_inv db"
  using assms(1)
proof induction
  case init
  have "\<not> uses empty_db rt k rt' j" for rt k rt' j by (cases rt) (simp_all add: empty_db_def)
  then show ?case by (simp add: use_inv_def db_inv_empty)
next
  case (step db c db')
  from step.hyps(3) step.IH assms(2) step.hyps(2) show ?case
    by cases (auto dest: checked_create_use_inv checked_update_use_inv checked_delete_use_inv)
qed

text \<open>In every database that requests with the plugin's validations reach, each reference
  from one resource to another that the usage graph knows points to an existing resource, and a
  shared resource refers to shared resources only.  It rests on the visibility rule showing an
  administrator every row.\<close>

theorem shared_uses_shared:
  assumes "plugin_reachable e cs db" and "\<forall>c \<in> cs. admin_sees_all c" and "uses db rt i rt' j"
  shows "j \<in> set (table_ids rt' db) \<and> (shared_in db rt i \<longrightarrow> shared_in db rt' j)"
  using plugin_reachable_inv[OF assms(1,2)] assms(3) unfolding use_inv_def by blast

fun run_creates :: "db_env \<Rightarrow> ctx \<Rightarrow> (string \<times> db_op) list \<Rightarrow> gbp_db \<Rightarrow> gbp_error + gbp_db" where
  "run_creates e c ((i, Create r) # rest) db =
     (if create_id i r \<in> set (table_ids (create_type r) db) then Inl DBDuplicateEntry
      else bindE (checked_create e c i r db) (\<lambda>(db', ob). run_creates e c rest db'))"
| "run_creates e c ops db = Inr db"

lemma run_creates_reachable:
  "run_creates e c ops db = Inr db' \<Longrightarrow> c \<in> cs \<Longrightarrow> plugin_reachable e cs db \<Longrightarrow> plugin_reachable e cs db'"
proof (induction e c ops db rule: run_creates.induct)
  case (1 e c i r rest db)
  then obtain db1 ob where new: "create_id i r \<notin> set (table_ids (create_type r) db)"
    and x: "checked_create e c i r db = Inr (db1, ob)" and rest: "run_creates e c rest db1 = Inr db'"
    by (auto simp: bindE_eq_Inr split: if_splits)
  have "plugin_reachable e cs db1"
    using "1.prems"(2,3) plugin_step.create[OF new x] by (blast intro: plugin_reachable.step)
  with "1.IH"[OF new] x rest "1.prems"(2) show ?case by simp
qed auto

lemma demo_admin: "admin_sees_all demo_ctx"
  by (simp add: admin_sees_all_def demo_ctx_def)

lemma demo_validated: "run_creates demo_env demo_ctx demo_script empty_db = Inr demo_db"
proof -
  have "case run_creates demo_env demo_ctx demo_script empty_db of Inl e \<Rightarrow> False | Inr db \<Rightarrow> db = demo_db"
    by code_simp
  then show ?thesis by (simp split: sum.splits)
qed

lemma shared_uses_shared_witness:
  "''e1'' \<in> set (table_ids ExternalSegment demo_db) \<and> ''a1'' \<in> set (table_ids PolicyAction demo_db)"
proof -
  have r: "plugin_reachable demo_env {demo_ctx} demo_db"
    by (rule run_creates_reachable[OF demo_validated _ plugin_reachable.init]) simp
  have u: "uses demo_db L3Policy ''l1'' ExternalSegment ''e1''" "uses demo_db PolicyRule ''r1'' PolicyAction ''a1''"
    by code_simp+
  show ?thesis
    using shared_uses_shared[OF r _ u(1)] shared_uses_shared[OF r _ u(2)] demo_admin by simp
qed

definition demo_rule_view :: obj_view where
  "demo_rule_view = \<lparr> rv_id = ''r1'', rv_tenant = ''t1'', rv_shared = False,
     ov_attrs = [(''policy_classifier_id'', [''c1'']), (''policy_actions'', [''a1''])] \<rparr>"

lemma validate_shared_create_spec_witness:
  "\<exists>v. visible_view demo_ctx PolicyAction ''a1'' demo_db v \<and> may_refer demo_ctx demo_rule_view v"
proof -
  have "validate_shared_create demo_ctx demo_db demo_rule_view PolicyRule = Inr ()" by code_simp
  then show ?thesis
    by (auto simp: validate_shared_create_spec demo_rule_view_def attr_ids_def)
qed

end
