(* ===== verification/Plugin_Routes.thy ===== *)
theory Plugin_Routes
  imports Plugin_Sharing
begin

text \<open>
  The validations of routes and addresses in the plugin (\<^verbatim>\<open>services/grouppolicy/plugin.py\<close>):
  \<^verbatim>\<open>_validate_routes\<close>, \<^verbatim>\<open>_validate_l3p_es\<close>, \<^verbatim>\<open>_validate_identical_external_routes\<close> and
  \<^verbatim>\<open>_validate_action_value\<close>.  The library netaddr reads a prefix or address as a range of
  addresses of one IP version (\<open>range_parser\<close>, a parameter; nothing for text it rejects); a set of
  prefixes is the list of their ranges, and two sets have a common address exactly if two of
  their ranges have.  The CIDR of a subnet and the specification of a redirect action come from
  other plugins and are parameters.
\<close>

section \<open>Address ranges\<close>

record ip_range =
  rg_version :: int
  rg_first :: int
  rg_last :: int

type_synonym range_parser = "string \<Rightarrow> ip_range option"

definition ip_network_range :: "range_parser \<Rightarrow> string \<Rightarrow> gbp_error + ip_range" where
  "ip_network_range parse p = (case parse p of None \<Rightarrow> Inl (AddrFormatError p) | Some r \<Rightarrow> Inr r)"

text \<open>\<^verbatim>\<open>netaddr.IPSet\<close> of a collection of prefixes.\<close>

fun ip_set :: "range_parser \<Rightarrow> string list \<Rightarrow> gbp_error + ip_range list" where
  "ip_set parse [] = Inr []"
| "ip_set parse (p # ps) =
     bindE (ip_network_range parse p) (\<lambda>r. bindE (ip_set parse ps) (\<lambda>rs. Inr (r # rs)))"

definition ranges_meet :: "ip_range \<Rightarrow> ip_range \<Rightarrow> bool" where
  "ranges_meet r s \<longleftrightarrow>
     rg_version r = rg_version s \<and> rg_first r \<le> rg_last s \<and> rg_first s \<le> rg_last r"

definition range_within :: "ip_range \<Rightarrow> ip_range \<Rightarrow> bool" where
  "range_within r s \<longleftrightarrow>
     rg_version r = rg_version s \<and> rg_first s \<le> rg_first r \<and> rg_last r \<le> rg_last s"

text \<open>Whether the intersection of two sets is not empty.\<close>

definition sets_meet :: "ip_range list \<Rightarrow> ip_range list \<Rightarrow> bool" where
  "sets_meet rs ss \<longleftrightarrow> (\<exists>r \<in> set rs. \<exists>s \<in> set ss. ranges_meet r s)"

section \<open>Routes\<close>

definition default_routes :: "string list" where
  "default_routes = [''0.0.0.0/0'', ''::/0'']"

definition without_default :: "string list \<Rightarrow> string list" where
  "without_default ds = filter (\<lambda>d. d \<notin> set default_routes) (remdups ds)"

text \<open>
  \<^verbatim>\<open>_validate_identical_external_routes\<close>: the dictionary of the other segments' routes, where a
  later segment replaces an earlier one, and the check of the first segment's routes.
\<close>

fun route_dict ::
  "range_parser \<Rightarrow> (string \<times> esm_dict) list \<Rightarrow> (ip_range \<Rightarrow> esm_dict option) \<Rightarrow>
    gbp_error + (ip_range \<Rightarrow> esm_dict option)" where
  "route_dict parse [] m = Inr m"
| "route_dict parse ((dest, es) # rest) m =
     bindE (ip_network_range parse dest) (\<lambda>cidr. route_dict parse rest (m(cidr \<mapsto> es)))"

definition routes_of_segments :: "esm_dict list \<Rightarrow> (string \<times> esm_dict) list" where
  "routes_of_segments ess = concat (map (\<lambda>es. map (\<lambda>(d, n). (d, es)) (esd_external_routes es)) ess)"

definition validate_identical_external_routes ::
  "range_parser \<Rightarrow> esm_dict list \<Rightarrow> gbp_error + unit" where
  "validate_identical_external_routes parse es_list =
     (case es_list of
        es1 # es2 # rest \<Rightarrow>
          bindE (route_dict parse (routes_of_segments (es2 # rest)) Map.empty) (\<lambda>m.
            checkE (\<lambda>(dest, nexthop).
              bindE (ip_network_range parse dest) (\<lambda>cidr.
                case m cidr of
                  None \<Rightarrow> Inr ()
                | Some es \<Rightarrow> Inl (IdenticalExternalRoute (d_id es1) (d_id es) dest)))
              (esd_external_routes es1))
      | _ \<Rightarrow> Inr ())"

definition query_segments :: "ctx \<Rightarrow> string list \<Rightarrow> gbp_db \<Rightarrow> esm_dict list" where
  "query_segments c js db = map (map_make_external_segment_dict db) (query_ids (sees_row c) js (tb_ess db))"

definition query_l3ps :: "(string list \<Rightarrow> string list) \<Rightarrow> ctx \<Rightarrow> string list \<Rightarrow> gbp_db \<Rightarrow> l3pm_dict list" where
  "query_l3ps prefixes_of c js db =
     map (\<lambda>r. map_make_l3_policy_dict prefixes_of db r None) (query_ids (sees_row c) js (tb_l3ps db))"

definition validate_routes ::
  "range_parser \<Rightarrow> (string list \<Rightarrow> string list) \<Rightarrow> ctx \<Rightarrow> gbp_db \<Rightarrow> esm_dict \<Rightarrow> esm_dict option
    \<Rightarrow> gbp_error + unit" where
  "validate_routes parse prefixes_of c db current original =
     (let added = (case original of
            Some o' \<Rightarrow> filter (\<lambda>x. x \<notin> set (esd_external_routes o')) (esd_external_routes current)
          | None \<Rightarrow> esd_external_routes current)
      in if added = [] then Inr ()
         else
           let added_dest = without_default (map fst added)
           in bindE (ip_set parse added_dest) (\<lambda>added_ipset.
              bindE (if esd_l3_policies current = [] then Inr ()
                     else checkE (\<lambda>l3p.
                       bindE (ip_set parse (convert_ip_pool_string_to_list (l3pd_ip_pool l3p))) (\<lambda>pool.
                         if sets_meet pool added_ipset
                         then Inl (ExternalRouteOverlapsWithL3PIpPool added_dest (d_id l3p) (d_id current))
                         else validate_identical_external_routes parse
                                (current # query_segments (elevated c)
                                   (filter (\<lambda>e. e \<noteq> d_id current) (map fst (l3pd_external_segments l3p))) db)))
                       (query_l3ps prefixes_of c (esd_l3_policies current) db)) (\<lambda>_.
              bindE (ip_set parse (filter (\<lambda>n. n \<noteq> []) (map snd added))) (\<lambda>added_nexthop.
              bindE (ip_network_range parse (esd_cidr current)) (\<lambda>es_subnet.
                if list_all (\<lambda>n. range_within n es_subnet) added_nexthop then Inr ()
                else Inl (ExternalRouteNextHopNotInExternalSegment (esd_cidr current)))))))"

section \<open>L3 policies and the segments they use\<close>

text \<open>The body of the loop over the added segments.\<close>

definition validate_l3p_segment ::
  "range_parser \<Rightarrow> (string \<Rightarrow> gbp_error + string) \<Rightarrow> l3pm_dict \<Rightarrow> ip_range list \<Rightarrow> esm_dict
    \<Rightarrow> gbp_error + unit" where
  "validate_l3p_segment parse subnet_cidr current l3p_ipset es =
     (let dest_set = without_default (map fst (esd_external_routes es))
      in bindE (ip_set parse dest_set) (\<lambda>dests.
         if sets_meet l3p_ipset dests
         then Inl (ExternalRouteOverlapsWithL3PIpPool dest_set (d_id current) (d_id es))
         else
           bindE (case ref_list (esd_subnet_id es) of
                    [] \<Rightarrow> Inr (esd_cidr es)
                  | subnet # _ \<Rightarrow> subnet_cidr subnet) (\<lambda>cidr.
           bindE (ip_network_range parse cidr) (\<lambda>net.
             if sets_meet l3p_ipset [net]
             then Inl (ExternalSegmentSubnetOverlapsWithL3PIpPool cidr (d_id current) (d_id current))
             else
               checkE (\<lambda>addr.
                 if addr = ADDRESS_NOT_SPECIFIED then Inr ()
                 else bindE (ip_network_range parse addr) (\<lambda>a.
                   if range_within a net then Inr ()
                   else Inl (InvalidL3PExternalIPAddress addr (d_id es) (d_id current) cidr)))
                 (case map_of (l3pd_external_segments current) (d_id es) of
                    None \<Rightarrow> [] | Some addrs \<Rightarrow> addrs)))))"

definition validate_l3p_es ::
  "range_parser \<Rightarrow> (string \<Rightarrow> gbp_error + string) \<Rightarrow> ctx \<Rightarrow> gbp_db \<Rightarrow> l3pm_dict \<Rightarrow> l3pm_dict option
    \<Rightarrow> gbp_error + unit" where
  "validate_l3p_es parse subnet_cidr c db current original =
     (let keys = map fst (l3pd_external_segments current);
          added = (case original of
            Some o' \<Rightarrow> filter (\<lambda>k. k \<notin> set (map fst (l3pd_external_segments o'))) keys
          | None \<Rightarrow> keys)
      in if added = [] then Inr ()
         else
           bindE (ip_set parse (convert_ip_pool_string_to_list (l3pd_ip_pool current))) (\<lambda>l3p_ipset.
           bindE (checkE (validate_l3p_segment parse subnet_cidr current l3p_ipset)
                    (query_segments c added db)) (\<lambda>_.
             validate_identical_external_routes parse (query_segments (elevated c) keys db))))"

section \<open>Redirect actions\<close>

definition validate_action_value ::
  "(string \<Rightarrow> gbp_error + res_view) \<Rightarrow> ctx \<Rightarrow> pa_dict \<Rightarrow> gbp_error + unit" where
  "validate_action_value get_servicechain_spec c action =
     (if pad_action_type action = Some ''redirect'' then
        (case ref_list (pad_action_value action) of
           [] \<Rightarrow> Inr ()
         | value # _ \<Rightarrow>
             bindE (get_servicechain_spec value) (\<lambda>spec.
               verify_sharing_consistency (obj_plain action) spec PolicyAction ''servicechain_spec''
                 (ctx_is_admin c)))
      else Inr ())"

section \<open>What the validations establish\<close>

text \<open>Addresses of a range, to state what the interval tests mean.\<close>

definition in_range :: "int \<times> int \<Rightarrow> ip_range \<Rightarrow> bool" where
  "in_range a r \<longleftrightarrow> fst a = rg_version r \<and> rg_first r \<le> snd a \<and> snd a \<le> rg_last r"

definition proper :: "range_parser \<Rightarrow> bool" where
  "proper parse \<longleftrightarrow> (\<forall>p r. parse p = Some r \<longrightarrow> rg_first r \<le> rg_last r)"

lemma ranges_meet_common:
  "rg_first r \<le> rg_last r \<Longrightarrow> rg_first s \<le> rg_last s \<Longrightarrow>
   ranges_meet r s \<longleftrightarrow> (\<exists>a. in_range a r \<and> in_range a s)"
proof
  assume w: "rg_first r \<le> rg_last r" "rg_first s \<le> rg_last s" and "ranges_meet r s"
  then show "\<exists>a. in_range a r \<and> in_range a s"
    by (intro exI[of _ "(rg_version r, max (rg_first r) (rg_first s))"])
      (auto simp: ranges_meet_def in_range_def)
qed (auto simp: ranges_meet_def in_range_def)

lemma range_within_all: "range_within r s \<Longrightarrow> in_range a r \<Longrightarrow> in_range a s"
  by (auto simp: range_within_def in_range_def)

lemma ip_network_range_Inr [simp]: "ip_network_range parse p = Inr r \<longleftrightarrow> parse p = Some r"
  by (auto simp: ip_network_range_def split: option.splits)

lemma ip_set_Inr: "ip_set parse ps = Inr rs \<longleftrightarrow> map parse ps = map Some rs"
proof (induction ps arbitrary: rs)
  case Nil
  show ?case by auto
next
  case (Cons p ps)
  then show ?case by (cases rs) (auto simp: bindE_eq_Inr)
qed

lemma set_without_default: "set (without_default ds) = set ds - set default_routes"
  by (auto simp: without_default_def)

text \<open>Whether some address is in a prefix of both lists.\<close>

definition common_address :: "range_parser \<Rightarrow> string list \<Rightarrow> string list \<Rightarrow> bool" where
  "common_address parse ps qs \<longleftrightarrow>
     (\<exists>p \<in> set ps. \<exists>q \<in> set qs. \<exists>r s a. parse p = Some r \<and> parse q = Some s \<and> in_range a r \<and> in_range a s)"

lemma sets_meet_common:
  assumes "proper parse" "ip_set parse ps = Inr rs" "ip_set parse qs = Inr ss"
  shows "sets_meet rs ss \<longleftrightarrow> common_address parse ps qs"
proof -
  have *: "(\<exists>r \<in> set xs. P r) \<longleftrightarrow> (\<exists>p \<in> set us. \<exists>r. parse p = Some r \<and> P r)"
    if "map parse us = map Some xs" for us xs P
    using that
  proof (induction us arbitrary: xs)
    case (Cons u us)
    then show ?case by (cases xs) auto
  qed simp
  from assms(2,3) have m: "map parse ps = map Some rs" "map parse qs = map Some ss"
    by (simp_all add: ip_set_Inr)
  have "sets_meet rs ss \<longleftrightarrow>
      (\<exists>p \<in> set ps. \<exists>r. parse p = Some r \<and> (\<exists>q \<in> set qs. \<exists>s. parse q = Some s \<and> ranges_meet r s))"
    unfolding sets_meet_def *[OF m(1)] *[OF m(2)] ..
  then show ?thesis using assms(1) ranges_meet_common
    unfolding common_address_def proper_def by meson
qed

text \<open>The prefix of a segment that the validation uses: its subnet's where it has one.\<close>

definition segment_cidr :: "(string \<Rightarrow> gbp_error + string) \<Rightarrow> esm_dict \<Rightarrow> gbp_error + string" where
  "segment_cidr subnet_cidr es =
     (case ref_list (esd_subnet_id es) of [] \<Rightarrow> Inr (esd_cidr es) | subnet # _ \<Rightarrow> subnet_cidr subnet)"

text \<open>What the validation promises about one segment.\<close>

definition segment_ok ::
  "range_parser \<Rightarrow> (string \<Rightarrow> gbp_error + string) \<Rightarrow> l3pm_dict \<Rightarrow> esm_dict \<Rightarrow> bool" where
  "segment_ok parse subnet_cidr l3p es \<longleftrightarrow>
     (let pool = convert_ip_pool_string_to_list (l3pd_ip_pool l3p) in
      \<not> common_address parse pool (without_default (map fst (esd_external_routes es))) \<and>
      (\<exists>cidr net. segment_cidr subnet_cidr es = Inr cidr \<and> parse cidr = Some net \<and>
         \<not> common_address parse pool [cidr] \<and>
         (\<forall>addrs. map_of (l3pd_external_segments l3p) (d_id es) = Some addrs \<longrightarrow>
            (\<forall>addr \<in> set addrs. addr \<noteq> ADDRESS_NOT_SPECIFIED \<longrightarrow>
               (\<exists>a. parse addr = Some a \<and> range_within a net)))))"

lemma validate_l3p_segment_ok:
  assumes "proper parse" and pool: "ip_set parse (convert_ip_pool_string_to_list (l3pd_ip_pool l3p)) = Inr pool"
    and v: "validate_l3p_segment parse subnet_cidr l3p pool es = Inr ()"
  shows "segment_ok parse subnet_cidr l3p es"
proof -
  from v obtain dests cidr net where
    d: "ip_set parse (without_default (map fst (esd_external_routes es))) = Inr dests"
      "\<not> sets_meet pool dests"
    and c: "segment_cidr subnet_cidr es = Inr cidr" "parse cidr = Some net" "\<not> sets_meet pool [net]"
    and a: "checkE (\<lambda>addr. if addr = ADDRESS_NOT_SPECIFIED then Inr ()
                 else bindE (ip_network_range parse addr) (\<lambda>a. if range_within a net then Inr ()
                   else Inl (InvalidL3PExternalIPAddress addr (d_id es) (d_id l3p) cidr)))
             (case map_of (l3pd_external_segments l3p) (d_id es) of None \<Rightarrow> [] | Some xs \<Rightarrow> xs) = Inr ()"
    by (auto simp: validate_l3p_segment_def Let_def bindE_eq_Inr segment_cidr_def split: if_splits)
  have "ip_set parse [cidr] = Inr [net]" using c(2) by (simp add: ip_network_range_def)
  with assms(1) pool d c sets_meet_common
  have "\<not> common_address parse (convert_ip_pool_string_to_list (l3pd_ip_pool l3p))
      (without_default (map fst (esd_external_routes es)))"
    "\<not> common_address parse (convert_ip_pool_string_to_list (l3pd_ip_pool l3p)) [cidr]" by blast+
  moreover have "\<exists>a. parse addr = Some a \<and> range_within a net"
    if "map_of (l3pd_external_segments l3p) (d_id es) = Some addrs" "addr \<in> set addrs"
      "addr \<noteq> ADDRESS_NOT_SPECIFIED" for addrs addr
    using a that by (auto simp: checkE_eq_Inr bindE_eq_Inr split: if_splits)
  ultimately show ?thesis using c by (auto simp: segment_ok_def Let_def)
qed

text \<open>When the validation of a new L3 policy's segments passes, then no address of its pool
  is in a route (other than a default route) or in the prefix of a segment it is associated with
  and that the request sees, and every address allocated on such a segment lies in the
  segment's prefix.\<close>

theorem validated_l3p_segments:
  assumes "proper parse" and "validate_l3p_es parse subnet_cidr c db l3p None = Inr ()"
    and "es \<in> set (query_segments c (map fst (l3pd_external_segments l3p)) db)"
  shows "segment_ok parse subnet_cidr l3p es"
proof -
  have "map fst (l3pd_external_segments l3p) \<noteq> []"
    using assms(3) by (auto simp: query_segments_def query_ids_def get_collection_def)
  with assms(2) obtain pool where
    "ip_set parse (convert_ip_pool_string_to_list (l3pd_ip_pool l3p)) = Inr pool"
    "checkE (validate_l3p_segment parse subnet_cidr l3p pool)
       (query_segments c (map fst (l3pd_external_segments l3p)) db) = Inr ()"
    by (auto simp: validate_l3p_es_def Let_def bindE_eq_Inr split: if_splits)
  with validate_l3p_segment_ok[OF assms(1)] assms(3) show ?thesis by (auto simp: checkE_eq_Inr)
qed

text \<open>When the validation of a new external segment's routes passes, then no route other
  than a default route has an address of the pool of an L3 policy on the segment, and every next
  hop that is given lies in the segment's prefix.\<close>

theorem validated_segment_routes:
  assumes "proper parse" and v: "validate_routes parse prefixes_of c db es None = Inr ()"
  shows "(\<forall>l3p \<in> set (query_l3ps prefixes_of c (esd_l3_policies es) db).
            esd_external_routes es = [] \<or>
            \<not> common_address parse (convert_ip_pool_string_to_list (l3pd_ip_pool l3p))
                (without_default (map fst (esd_external_routes es)))) \<and>
         (\<forall>(dest, nexthop) \<in> set (esd_external_routes es). nexthop \<noteq> [] \<longrightarrow>
            (\<exists>n net. parse nexthop = Some n \<and> parse (esd_cidr es) = Some net \<and> range_within n net))"
proof (cases "esd_external_routes es = []")
  case False
  with v obtain dests nhs net where
    d: "ip_set parse (without_default (map fst (esd_external_routes es))) = Inr dests"
    and n: "ip_set parse (filter (\<lambda>n. n \<noteq> []) (map snd (esd_external_routes es))) = Inr nhs"
    and net: "parse (esd_cidr es) = Some net" "list_all (\<lambda>n. range_within n net) nhs"
    by (auto simp: validate_routes_def Let_def bindE_eq_Inr split: if_splits)
  have l: "\<exists>pool. ip_set parse (convert_ip_pool_string_to_list (l3pd_ip_pool l3p)) = Inr pool \<and>
      \<not> sets_meet pool dests" if "l3p \<in> set (query_l3ps prefixes_of c (esd_l3_policies es) db)" for l3p
  proof -
    from that have "esd_l3_policies es \<noteq> []" by (auto simp: query_l3ps_def query_ids_def get_collection_def)
    with v False d that show ?thesis
      by (auto simp: validate_routes_def Let_def bindE_eq_Inr checkE_eq_Inr dest!: bspec split: if_splits)
  qed
  have "\<exists>n. parse nexthop = Some n \<and> range_within n net"
    if "(dest, nexthop) \<in> set (esd_external_routes es)" "nexthop \<noteq> []" for dest nexthop
  proof -
    let ?ns = "filter (\<lambda>n. n \<noteq> []) (map snd (esd_external_routes es))"
    have "parse nexthop \<in> set (map parse ?ns)" using that by force
    with n have "parse nexthop \<in> set (map Some nhs)" by (simp add: ip_set_Inr del: set_map)
    with net show ?thesis by (auto simp: list_all_iff)
  qed
  moreover have "\<not> common_address parse (convert_ip_pool_string_to_list (l3pd_ip_pool l3p))
      (without_default (map fst (esd_external_routes es)))"
    if "l3p \<in> set (query_l3ps prefixes_of c (esd_l3_policies es) db)" for l3p
    using l[OF that] sets_meet_common[OF assms(1) _ d] by auto
  ultimately show ?thesis using net by fast
qed simp

section \<open>Witnesses\<close>

definition demo_parse :: range_parser where
  "demo_parse p =
     (if p = ''10.0.0.0/8'' then Some \<lparr> rg_version = 4, rg_first = 167772160, rg_last = 184549375 \<rparr>
      else if p = ''7.7.0.0/16'' then Some \<lparr> rg_version = 4, rg_first = 117899264, rg_last = 117964799 \<rparr>
      else if p = ''7.7.7.7'' then Some \<lparr> rg_version = 4, rg_first = 117901063, rg_last = 117901063 \<rparr>
      else None)"

lemma demo_parse_proper: "proper demo_parse"
  by (auto simp: proper_def demo_parse_def split: if_splits)

definition demo_l3p_dict :: l3pm_dict where
  "demo_l3p_dict = (case get_l3_policy (\<lambda>_. []) demo_ctx ''l1'' demo_db of Inr d \<Rightarrow> d | Inl e \<Rightarrow> undefined)"

definition demo_es_dict :: esm_dict where
  "demo_es_dict = hd (query_segments demo_ctx [''e1''] demo_db)"

lemma validated_l3p_segments_witness:
  "segment_ok demo_parse (\<lambda>_. Inl BlankPrimaryKey) demo_l3p_dict demo_es_dict"
proof (rule validated_l3p_segments[OF demo_parse_proper])
  show "validate_l3p_es demo_parse (\<lambda>_. Inl BlankPrimaryKey) demo_ctx demo_db demo_l3p_dict None = Inr ()"
    by code_simp
  show "demo_es_dict \<in> set (query_segments demo_ctx (map fst (l3pd_external_segments demo_l3p_dict)) demo_db)"
    by code_simp
qed

definition demo_routed_es :: esm_dict where
  "demo_routed_es = demo_es_dict\<lparr> esd_external_routes := [(''0.0.0.0/0'', ''7.7.7.7'')] \<rparr>"

lemma validated_segment_routes_witness:
  "\<exists>n net. demo_parse ''7.7.7.7'' = Some n \<and> demo_parse (esd_cidr demo_routed_es) = Some net \<and> range_within n net"
proof -
  have "validate_routes demo_parse (\<lambda>_. []) demo_ctx demo_db demo_routed_es None = Inr ()" by code_simp
  from validated_segment_routes[OF demo_parse_proper this] show ?thesis
    by (auto simp: demo_routed_es_def)
qed

end
