(* ===== verification/Effects.thy ===== *)
theory Effects
  imports Schema
begin

text \<open>
  Code with effects: an action takes the state and returns the outcome, a Python exception or a
  value, with the state it leaves behind.  An exception does not undo effects; only a database
  transaction restores what it covers.  The exceptions that reach the plugin from the drivers
  are those the code tells apart.
\<close>

section \<open>Exceptions\<close>

text \<open>
  \<open>GbpExn\<close> stands for the subclasses of \<^verbatim>\<open>GroupPolicyException\<close> and \<^verbatim>\<open>NeutronException\<close>; the others
  are \<^verbatim>\<open>oslo_policy.PolicyNotAuthorized\<close>, \<^verbatim>\<open>sqlalchemy.exc.InvalidRequestError\<close>,
  \<^verbatim>\<open>oslo_db.exception.RetryRequest\<close> with its inner exception, and anything else.
\<close>

datatype py_exn =
    GbpExn gbp_error
  | PolicyNotAuthorized string
  | InvalidRequestError string
  | RetryRequest py_exn
  | OtherExn string

section \<open>Actions\<close>

type_synonym ('s, 'a) act = "'s \<Rightarrow> (py_exn + 'a) \<times> 's"

definition act_return :: "'a \<Rightarrow> ('s, 'a) act" where
  "act_return x s = (Inr x, s)"

definition act_raise :: "py_exn \<Rightarrow> ('s, 'a) act" where
  "act_raise e s = (Inl e, s)"

definition act_bind :: "('s, 'a) act \<Rightarrow> ('a \<Rightarrow> ('s, 'b) act) \<Rightarrow> ('s, 'b) act" where
  "act_bind m f s = (case m s of (Inl e, s') \<Rightarrow> (Inl e, s') | (Inr x, s') \<Rightarrow> f x s')"

text \<open>\<^verbatim>\<open>try: m except Exception as e: h(e)\<close>.\<close>

definition act_catch :: "('s, 'a) act \<Rightarrow> (py_exn \<Rightarrow> ('s, 'a) act) \<Rightarrow> ('s, 'a) act" where
  "act_catch m h s = (case m s of (Inl e, s') \<Rightarrow> h e s' | (Inr x, s') \<Rightarrow> (Inr x, s'))"

definition act_when :: "bool \<Rightarrow> ('s, unit) act \<Rightarrow> ('s, unit) act" where
  "act_when b m = (if b then m else act_return ())"

fun act_each :: "('a \<Rightarrow> ('s, unit) act) \<Rightarrow> 'a list \<Rightarrow> ('s, unit) act" where
  "act_each f [] = act_return ()"
| "act_each f (x # xs) = act_bind (f x) (\<lambda>_. act_each f xs)"

text \<open>A pure check or database operation inside an action.\<close>

definition act_lift :: "gbp_error + 'a \<Rightarrow> ('s, 'a) act" where
  "act_lift m s = ((case m of Inl e \<Rightarrow> Inl (GbpExn e) | Inr x \<Rightarrow> Inr x), s)"

lemma act_return_simps [simp]:
  "act_return x s = (Inr x, s)"
  "act_raise e s = (Inl e, s)"
  by (simp_all add: act_return_def act_raise_def)

lemma act_lift_simps [simp]:
  "act_lift (Inr x) s = (Inr x, s)"
  "act_lift (Inl e) s = (Inl (GbpExn e), s)"
  by (simp_all add: act_lift_def)

lemma act_bind_Inr:
  "act_bind m f s = (Inr y, s'') \<longleftrightarrow> (\<exists>x s'. m s = (Inr x, s') \<and> f x s' = (Inr y, s''))"
  by (auto simp: act_bind_def split: prod.splits sum.splits)

lemma act_bind_Inl:
  "act_bind m f s = (Inl e, s'') \<longleftrightarrow>
     m s = (Inl e, s'') \<or> (\<exists>x s'. m s = (Inr x, s') \<and> f x s' = (Inl e, s''))"
  by (auto simp: act_bind_def split: prod.splits sum.splits)

lemma act_bind_return [simp]: "act_bind (act_return x) f = f x"
  by (rule ext) (simp add: act_bind_def)

lemma act_bind_assoc: "act_bind (act_bind m f) g = act_bind m (\<lambda>x. act_bind (f x) g)"
  by (rule ext) (simp add: act_bind_def split: prod.splits sum.splits)

section \<open>Predicates that an action keeps\<close>

definition keeps :: "('s \<Rightarrow> bool) \<Rightarrow> ('s, 'a) act \<Rightarrow> bool" where
  "keeps P m \<longleftrightarrow> (\<forall>s. P s \<longrightarrow> P (snd (m s)))"

named_theorems keeps

lemma keepsD: "keeps P m \<Longrightarrow> P s \<Longrightarrow> m s = (r, s') \<Longrightarrow> P s'"
  by (metis keeps_def snd_conv)

lemma keepsI: "(\<And>s r s'. P s \<Longrightarrow> m s = (r, s') \<Longrightarrow> P s') \<Longrightarrow> keeps P m"
  by (metis keeps_def prod.collapse)

lemma keeps_return [keeps]: "keeps P (act_return x)"
  by (simp add: keeps_def)

lemma keeps_raise [keeps]: "keeps P (act_raise e)"
  by (simp add: keeps_def)

lemma keeps_lift [keeps]: "keeps P (act_lift m)"
  by (simp add: keeps_def act_lift_def)

lemma keeps_bind [keeps]:
  assumes "keeps P m" and "\<And>x. keeps P (f x)"
  shows "keeps P (act_bind m f)"
proof (rule keepsI)
  fix s r s'
  assume "P s" and r: "act_bind m f s = (r, s')"
  then obtain r1 s1 where m: "m s = (r1, s1)" "P s1" using keepsD[OF assms(1)] by (cases "m s") auto
  with r show "P s'" using keepsD[OF assms(2)] by (cases r1) (auto simp: act_bind_def)
qed

lemma keeps_catch [keeps]:
  assumes "keeps P m" and "\<And>e. keeps P (h e)"
  shows "keeps P (act_catch m h)"
proof (rule keepsI)
  fix s r s'
  assume "P s" and r: "act_catch m h s = (r, s')"
  then obtain r1 s1 where m: "m s = (r1, s1)" "P s1" using keepsD[OF assms(1)] by (cases "m s") auto
  with r show "P s'" using keepsD[OF assms(2)] by (cases r1) (auto simp: act_catch_def)
qed

lemma keeps_when [keeps]: "keeps P m \<Longrightarrow> keeps P (act_when b m)"
  by (simp add: act_when_def keeps_return)

lemma keeps_each [keeps]: "(\<And>x. x \<in> set xs \<Longrightarrow> keeps P (f x)) \<Longrightarrow> keeps P (act_each f xs)"
  by (induction xs) (simp_all add: keeps_return keeps_bind)

end
