(* ===== verification/Driver_Manager.thy ===== *)
theory Driver_Manager
  imports Effects "HOL-Library.Sublist"
begin

text \<open>
  The managers that pass a request on to the configured drivers: \<^verbatim>\<open>PolicyDriverManager\<close>
  (\<^verbatim>\<open>services/grouppolicy/policy_driver_manager.py\<close>) and \<^verbatim>\<open>ExtensionManager\<close>
  (\<^verbatim>\<open>extension_manager.py\<close>).  A driver is a record of its methods; \<open>pd_call\<close> is
  \<^verbatim>\<open>getattr(driver.obj, method_name)(context)\<close>, where the state \<open>'s\<close> holds the context object the
  method may change.  Which exceptions neutron-lib calls retriable is a parameter, as is
  everything a driver does.  Loading the drivers by name is stevedore's; a manager is given its
  drivers in the configured order.
\<close>

section \<open>Policy drivers\<close>

record 's policy_driver =
  pd_name :: string
  pd_is_policy_driver :: bool
  pd_call :: "string \<Rightarrow> ('s, unit) act"
  pd_ensure_tenant :: "ctx \<Rightarrow> string \<Rightarrow> ('s, unit) act"
  pd_start_rpc_listeners :: "('s, string list) act"
  pd_validate_state :: "bool \<Rightarrow> string list \<Rightarrow> string list \<Rightarrow> ('s, string) act"

record 's driver_manager =
  ordered_policy_drivers :: "'s policy_driver list"
  reverse_ordered_policy_drivers :: "'s policy_driver list"
  mgr_is_retriable :: "py_exn \<Rightarrow> bool"

text \<open>\<^verbatim>\<open>_register_policy_drivers\<close>.\<close>

definition register_policy_drivers ::
  "(py_exn \<Rightarrow> bool) \<Rightarrow> 's policy_driver list \<Rightarrow> 's driver_manager" where
  "register_policy_drivers is_retriable loaded =
     \<lparr> ordered_policy_drivers = loaded, reverse_ordered_policy_drivers = rev loaded,
       mgr_is_retriable = is_retriable \<rparr>"

text \<open>One call: \<^verbatim>\<open>start_rpc_listeners\<close> yields servers, the other methods nothing.\<close>

definition driver_call :: "string \<Rightarrow> 's policy_driver \<Rightarrow> ('s, string list) act" where
  "driver_call method_name driver =
     (if method_name = ''start_rpc_listeners'' then pd_start_rpc_listeners driver
      else act_bind (pd_call driver method_name) (\<lambda>_. act_return []))"

text \<open>
  Which errors of the plugin are exceptions of neutron or of group policy.  The others come from the
  database layer, from \<^verbatim>\<open>netaddr\<close> and from Python itself, which the managers tell apart.
\<close>

definition is_gbp_or_neutron :: "gbp_error \<Rightarrow> bool" where
  "is_gbp_or_neutron e =
     (case e of
        AddrFormatError p \<Rightarrow> False
      | DBDuplicateEntry \<Rightarrow> False
      | BlankPrimaryKey \<Rightarrow> False
      | PyValueError \<Rightarrow> False
      | PyKeyError k \<Rightarrow> False
      | Schema.PyAttributeError a \<Rightarrow> False
      | ConvError x \<Rightarrow> x = GroupPolicyInvalidProtocol
      | _ \<Rightarrow> True)"

fun reraised :: "py_exn \<Rightarrow> bool" where
  "reraised (GbpExn e) = is_gbp_or_neutron e"
| "reraised (PolicyNotAuthorized m) = True"
| "reraised e = False"

text \<open>
  The loop of \<^verbatim>\<open>_call_on_drivers\<close>; the flag and the servers are its local variables.  The
  exception handler tells four cases apart: retriable errors and those of the plugin or of
  neutron leave at once, an invalid-request error of the mapper is turned into a retry request,
  and any other exception sets the flag and ends the loop unless the caller wants to continue.
\<close>

fun call_loop ::
  "(py_exn \<Rightarrow> bool) \<Rightarrow> string \<Rightarrow> bool \<Rightarrow> 's policy_driver list \<Rightarrow> bool \<Rightarrow> string list
    \<Rightarrow> ('s, bool \<times> string list) act" where
  "call_loop is_retriable m continue_on_failure [] error servers s = (Inr (error, servers), s)"
| "call_loop is_retriable m continue_on_failure (driver # rest) error servers s =
     (case driver_call m driver s of
        (Inr new, s') \<Rightarrow>
          call_loop is_retriable m continue_on_failure rest error (servers @ new) s'
      | (Inl e, s') \<Rightarrow>
          if is_retriable e then (Inl e, s')
          else if reraised e then (Inl e, s')
          else (case e of
                  InvalidRequestError msg \<Rightarrow> (Inl (RetryRequest e), s')
                | _ \<Rightarrow>
                  if continue_on_failure
                  then call_loop is_retriable m continue_on_failure rest True servers s'
                  else (Inr (True, servers), s')))"

definition call_on_drivers :: "'s driver_manager \<Rightarrow> string \<Rightarrow> bool \<Rightarrow> ('s, string list) act" where
  "call_on_drivers M method_name continue_on_failure =
     act_bind (call_loop (mgr_is_retriable M) method_name continue_on_failure
        (if prefix ''delete'' method_name then reverse_ordered_policy_drivers M
         else ordered_policy_drivers M) False [])
       (\<lambda>(error, servers).
          if error then act_raise (GbpExn (GroupPolicyDriverError method_name))
          else act_return servers)"

definition manager_ensure_tenant :: "'s driver_manager \<Rightarrow> ctx \<Rightarrow> string \<Rightarrow> ('s, unit) act" where
  "manager_ensure_tenant M c tenant_id =
     act_each (\<lambda>driver.
       act_when (pd_is_policy_driver driver)
         (act_catch (pd_ensure_tenant driver c tenant_id) (\<lambda>e.
            if mgr_is_retriable M e then act_raise e
            else act_raise (GbpExn (GroupPolicyDriverError ''ensure_tenant'')))))
       (ordered_policy_drivers M)"

definition start_rpc_listeners :: "'s driver_manager \<Rightarrow> ('s, string list) act" where
  "start_rpc_listeners M = call_on_drivers M ''start_rpc_listeners'' False"

text \<open>\<^verbatim>\<open>VALIDATION_RESULT_PRECEDENCE\<close> of \<^verbatim>\<open>group_policy_driver_api.py\<close>.\<close>

definition VALIDATION_PASSED :: string where
  "VALIDATION_PASSED = ''passed''"

definition VALIDATION_FAILED_WITH_EXCEPTION :: string where
  "VALIDATION_FAILED_WITH_EXCEPTION = ''failed with exception''"

definition VALIDATION_RESULT_PRECEDENCE :: "string list" where
  "VALIDATION_RESULT_PRECEDENCE =
     [VALIDATION_PASSED, ''repaired'', ''failed repairable'', ''failed binding ports'',
      ''failed unrepairable'', VALIDATION_FAILED_WITH_EXCEPTION]"

text \<open>\<^verbatim>\<open>list.index\<close> of an element of the list.\<close>

fun py_index :: "'a list \<Rightarrow> 'a \<Rightarrow> nat" where
  "py_index [] y = 0"
| "py_index (x # xs) y = (if x = y then 0 else Suc (py_index xs y))"

definition worse_result :: "string \<Rightarrow> string \<Rightarrow> string" where
  "worse_result result this_result =
     (let this = (if this_result \<in> set VALIDATION_RESULT_PRECEDENCE then this_result
                  else VALIDATION_FAILED_WITH_EXCEPTION)
      in if py_index VALIDATION_RESULT_PRECEDENCE this > py_index VALIDATION_RESULT_PRECEDENCE result
         then this else result)"

fun validate_loop ::
  "'s policy_driver list \<Rightarrow> bool \<Rightarrow> string list \<Rightarrow> string list \<Rightarrow> string \<Rightarrow> ('s, string) act" where
  "validate_loop [] repair resources tenants result = act_return result"
| "validate_loop (driver # rest) repair resources tenants result =
     act_bind (pd_validate_state driver repair resources tenants) (\<lambda>this_result.
       validate_loop rest repair resources tenants (worse_result result this_result))"

definition validate_state ::
  "'s driver_manager \<Rightarrow> bool \<Rightarrow> string list \<Rightarrow> string list \<Rightarrow> ('s, string) act" where
  "validate_state M repair resources tenants =
     validate_loop (ordered_policy_drivers M) repair resources tenants VALIDATION_PASSED"

section \<open>The hooks of each resource\<close>

datatype hook =
    CreatePrecommit | CreatePostcommit | UpdatePrecommit | UpdatePostcommit
  | DeletePrecommit | DeletePostcommit | GetStatus

fun policy_target_hooks :: "'s driver_manager \<Rightarrow> hook \<Rightarrow> ('s, string list) act" where
  "policy_target_hooks M CreatePrecommit = call_on_drivers M ''create_policy_target_precommit'' False"
| "policy_target_hooks M CreatePostcommit = call_on_drivers M ''create_policy_target_postcommit'' False"
| "policy_target_hooks M UpdatePrecommit = call_on_drivers M ''update_policy_target_precommit'' False"
| "policy_target_hooks M UpdatePostcommit = call_on_drivers M ''update_policy_target_postcommit'' False"
| "policy_target_hooks M DeletePrecommit = call_on_drivers M ''delete_policy_target_precommit'' False"
| "policy_target_hooks M DeletePostcommit = call_on_drivers M ''delete_policy_target_postcommit'' True"
| "policy_target_hooks M GetStatus = call_on_drivers M ''get_policy_target_status'' False"

fun policy_target_group_hooks :: "'s driver_manager \<Rightarrow> hook \<Rightarrow> ('s, string list) act" where
  "policy_target_group_hooks M CreatePrecommit = call_on_drivers M ''create_policy_target_group_precommit'' False"
| "policy_target_group_hooks M CreatePostcommit = call_on_drivers M ''create_policy_target_group_postcommit'' False"
| "policy_target_group_hooks M UpdatePrecommit = call_on_drivers M ''update_policy_target_group_precommit'' False"
| "policy_target_group_hooks M UpdatePostcommit = call_on_drivers M ''update_policy_target_group_postcommit'' False"
| "policy_target_group_hooks M DeletePrecommit = call_on_drivers M ''delete_policy_target_group_precommit'' False"
| "policy_target_group_hooks M DeletePostcommit = call_on_drivers M ''delete_policy_target_group_postcommit'' True"
| "policy_target_group_hooks M GetStatus = call_on_drivers M ''get_policy_target_group_status'' False"

fun application_policy_group_hooks :: "'s driver_manager \<Rightarrow> hook \<Rightarrow> ('s, string list) act" where
  "application_policy_group_hooks M CreatePrecommit = call_on_drivers M ''create_application_policy_group_precommit'' False"
| "application_policy_group_hooks M CreatePostcommit = call_on_drivers M ''create_application_policy_group_postcommit'' False"
| "application_policy_group_hooks M UpdatePrecommit = call_on_drivers M ''update_application_policy_group_precommit'' False"
| "application_policy_group_hooks M UpdatePostcommit = call_on_drivers M ''update_application_policy_group_postcommit'' False"
| "application_policy_group_hooks M DeletePrecommit = call_on_drivers M ''delete_application_policy_group_precommit'' False"
| "application_policy_group_hooks M DeletePostcommit = call_on_drivers M ''delete_application_policy_group_postcommit'' True"
| "application_policy_group_hooks M GetStatus = call_on_drivers M ''get_application_policy_group_status'' False"

fun l2_policy_hooks :: "'s driver_manager \<Rightarrow> hook \<Rightarrow> ('s, string list) act" where
  "l2_policy_hooks M CreatePrecommit = call_on_drivers M ''create_l2_policy_precommit'' False"
| "l2_policy_hooks M CreatePostcommit = call_on_drivers M ''create_l2_policy_postcommit'' False"
| "l2_policy_hooks M UpdatePrecommit = call_on_drivers M ''update_l2_policy_precommit'' False"
| "l2_policy_hooks M UpdatePostcommit = call_on_drivers M ''update_l2_policy_postcommit'' False"
| "l2_policy_hooks M DeletePrecommit = call_on_drivers M ''delete_l2_policy_precommit'' False"
| "l2_policy_hooks M DeletePostcommit = call_on_drivers M ''delete_l2_policy_postcommit'' True"
| "l2_policy_hooks M GetStatus = call_on_drivers M ''get_l2_policy_status'' False"

fun l3_policy_hooks :: "'s driver_manager \<Rightarrow> hook \<Rightarrow> ('s, string list) act" where
  "l3_policy_hooks M CreatePrecommit = call_on_drivers M ''create_l3_policy_precommit'' False"
| "l3_policy_hooks M CreatePostcommit = call_on_drivers M ''create_l3_policy_postcommit'' False"
| "l3_policy_hooks M UpdatePrecommit = call_on_drivers M ''update_l3_policy_precommit'' False"
| "l3_policy_hooks M UpdatePostcommit = call_on_drivers M ''update_l3_policy_postcommit'' False"
| "l3_policy_hooks M DeletePrecommit = call_on_drivers M ''delete_l3_policy_precommit'' False"
| "l3_policy_hooks M DeletePostcommit = call_on_drivers M ''delete_l3_policy_postcommit'' True"
| "l3_policy_hooks M GetStatus = call_on_drivers M ''get_l3_policy_status'' False"

fun network_service_policy_hooks :: "'s driver_manager \<Rightarrow> hook \<Rightarrow> ('s, string list) act" where
  "network_service_policy_hooks M CreatePrecommit = call_on_drivers M ''create_network_service_policy_precommit'' False"
| "network_service_policy_hooks M CreatePostcommit = call_on_drivers M ''create_network_service_policy_postcommit'' False"
| "network_service_policy_hooks M UpdatePrecommit = call_on_drivers M ''update_network_service_policy_precommit'' False"
| "network_service_policy_hooks M UpdatePostcommit = call_on_drivers M ''update_network_service_policy_postcommit'' False"
| "network_service_policy_hooks M DeletePrecommit = call_on_drivers M ''delete_network_service_policy_precommit'' False"
| "network_service_policy_hooks M DeletePostcommit = call_on_drivers M ''delete_network_service_policy_postcommit'' True"
| "network_service_policy_hooks M GetStatus = call_on_drivers M ''get_network_service_policy_status'' False"

fun policy_classifier_hooks :: "'s driver_manager \<Rightarrow> hook \<Rightarrow> ('s, string list) act" where
  "policy_classifier_hooks M CreatePrecommit = call_on_drivers M ''create_policy_classifier_precommit'' False"
| "policy_classifier_hooks M CreatePostcommit = call_on_drivers M ''create_policy_classifier_postcommit'' False"
| "policy_classifier_hooks M UpdatePrecommit = call_on_drivers M ''update_policy_classifier_precommit'' False"
| "policy_classifier_hooks M UpdatePostcommit = call_on_drivers M ''update_policy_classifier_postcommit'' False"
| "policy_classifier_hooks M DeletePrecommit = call_on_drivers M ''delete_policy_classifier_precommit'' False"
| "policy_classifier_hooks M DeletePostcommit = call_on_drivers M ''delete_policy_classifier_postcommit'' True"
| "policy_classifier_hooks M GetStatus = call_on_drivers M ''get_policy_classifier_status'' False"

fun policy_action_hooks :: "'s driver_manager \<Rightarrow> hook \<Rightarrow> ('s, string list) act" where
  "policy_action_hooks M CreatePrecommit = call_on_drivers M ''create_policy_action_precommit'' False"
| "policy_action_hooks M CreatePostcommit = call_on_drivers M ''create_policy_action_postcommit'' False"
| "policy_action_hooks M UpdatePrecommit = call_on_drivers M ''update_policy_action_precommit'' False"
| "policy_action_hooks M UpdatePostcommit = call_on_drivers M ''update_policy_action_postcommit'' False"
| "policy_action_hooks M DeletePrecommit = call_on_drivers M ''delete_policy_action_precommit'' False"
| "policy_action_hooks M DeletePostcommit = call_on_drivers M ''delete_policy_action_postcommit'' True"
| "policy_action_hooks M GetStatus = call_on_drivers M ''get_policy_action_status'' False"

fun policy_rule_hooks :: "'s driver_manager \<Rightarrow> hook \<Rightarrow> ('s, string list) act" where
  "policy_rule_hooks M CreatePrecommit = call_on_drivers M ''create_policy_rule_precommit'' False"
| "policy_rule_hooks M CreatePostcommit = call_on_drivers M ''create_policy_rule_postcommit'' False"
| "policy_rule_hooks M UpdatePrecommit = call_on_drivers M ''update_policy_rule_precommit'' False"
| "policy_rule_hooks M UpdatePostcommit = call_on_drivers M ''update_policy_rule_postcommit'' False"
| "policy_rule_hooks M DeletePrecommit = call_on_drivers M ''delete_policy_rule_precommit'' False"
| "policy_rule_hooks M DeletePostcommit = call_on_drivers M ''delete_policy_rule_postcommit'' True"
| "policy_rule_hooks M GetStatus = call_on_drivers M ''get_policy_rule_status'' False"

fun policy_rule_set_hooks :: "'s driver_manager \<Rightarrow> hook \<Rightarrow> ('s, string list) act" where
  "policy_rule_set_hooks M CreatePrecommit = call_on_drivers M ''create_policy_rule_set_precommit'' False"
| "policy_rule_set_hooks M CreatePostcommit = call_on_drivers M ''create_policy_rule_set_postcommit'' False"
| "policy_rule_set_hooks M UpdatePrecommit = call_on_drivers M ''update_policy_rule_set_precommit'' False"
| "policy_rule_set_hooks M UpdatePostcommit = call_on_drivers M ''update_policy_rule_set_postcommit'' False"
| "policy_rule_set_hooks M DeletePrecommit = call_on_drivers M ''delete_policy_rule_set_precommit'' False"
| "policy_rule_set_hooks M DeletePostcommit = call_on_drivers M ''delete_policy_rule_set_postcommit'' True"
| "policy_rule_set_hooks M GetStatus = call_on_drivers M ''get_policy_rule_set_status'' False"

fun external_segment_hooks :: "'s driver_manager \<Rightarrow> hook \<Rightarrow> ('s, string list) act" where
  "external_segment_hooks M CreatePrecommit = call_on_drivers M ''create_external_segment_precommit'' False"
| "external_segment_hooks M CreatePostcommit = call_on_drivers M ''create_external_segment_postcommit'' False"
| "external_segment_hooks M UpdatePrecommit = call_on_drivers M ''update_external_segment_precommit'' False"
| "external_segment_hooks M UpdatePostcommit = call_on_drivers M ''update_external_segment_postcommit'' False"
| "external_segment_hooks M DeletePrecommit = call_on_drivers M ''delete_external_segment_precommit'' False"
| "external_segment_hooks M DeletePostcommit = call_on_drivers M ''delete_external_segment_postcommit'' True"
| "external_segment_hooks M GetStatus = call_on_drivers M ''get_external_segment_status'' False"

fun external_policy_hooks :: "'s driver_manager \<Rightarrow> hook \<Rightarrow> ('s, string list) act" where
  "external_policy_hooks M CreatePrecommit = call_on_drivers M ''create_external_policy_precommit'' False"
| "external_policy_hooks M CreatePostcommit = call_on_drivers M ''create_external_policy_postcommit'' False"
| "external_policy_hooks M UpdatePrecommit = call_on_drivers M ''update_external_policy_precommit'' False"
| "external_policy_hooks M UpdatePostcommit = call_on_drivers M ''update_external_policy_postcommit'' False"
| "external_policy_hooks M DeletePrecommit = call_on_drivers M ''delete_external_policy_precommit'' False"
| "external_policy_hooks M DeletePostcommit = call_on_drivers M ''delete_external_policy_postcommit'' True"
| "external_policy_hooks M GetStatus = call_on_drivers M ''get_external_policy_status'' False"

fun nat_pool_hooks :: "'s driver_manager \<Rightarrow> hook \<Rightarrow> ('s, string list) act" where
  "nat_pool_hooks M CreatePrecommit = call_on_drivers M ''create_nat_pool_precommit'' False"
| "nat_pool_hooks M CreatePostcommit = call_on_drivers M ''create_nat_pool_postcommit'' False"
| "nat_pool_hooks M UpdatePrecommit = call_on_drivers M ''update_nat_pool_precommit'' False"
| "nat_pool_hooks M UpdatePostcommit = call_on_drivers M ''update_nat_pool_postcommit'' False"
| "nat_pool_hooks M DeletePrecommit = call_on_drivers M ''delete_nat_pool_precommit'' False"
| "nat_pool_hooks M DeletePostcommit = call_on_drivers M ''delete_nat_pool_postcommit'' True"
| "nat_pool_hooks M GetStatus = call_on_drivers M ''get_nat_pool_status'' False"

fun manager_hook :: "'s driver_manager \<Rightarrow> res_type \<Rightarrow> hook \<Rightarrow> ('s, string list) act" where
  "manager_hook M PolicyTarget h = policy_target_hooks M h"
| "manager_hook M PolicyTargetGroup h = policy_target_group_hooks M h"
| "manager_hook M ApplicationPolicyGroup h = application_policy_group_hooks M h"
| "manager_hook M L2Policy h = l2_policy_hooks M h"
| "manager_hook M L3Policy h = l3_policy_hooks M h"
| "manager_hook M NetworkServicePolicy h = network_service_policy_hooks M h"
| "manager_hook M PolicyClassifier h = policy_classifier_hooks M h"
| "manager_hook M PolicyAction h = policy_action_hooks M h"
| "manager_hook M PolicyRule h = policy_rule_hooks M h"
| "manager_hook M PolicyRuleSet h = policy_rule_set_hooks M h"
| "manager_hook M ExternalSegment h = external_segment_hooks M h"
| "manager_hook M ExternalPolicy h = external_policy_hooks M h"
| "manager_hook M NatPool h = nat_pool_hooks M h"

section \<open>Extension drivers\<close>

record ('d, 's) ext_driver =
  xd_alias :: string
  xd_process :: "string \<Rightarrow> 'd \<Rightarrow> ('s, unit) act"
  xd_extend :: "string \<Rightarrow> ('s, unit) act"

definition extension_aliases :: "('d, 's) ext_driver list \<Rightarrow> string list" where
  "extension_aliases D = map xd_alias D"

fun gbp_or_neutron :: "py_exn \<Rightarrow> bool" where
  "gbp_or_neutron (GbpExn e) = True"
| "gbp_or_neutron e = False"

definition call_on_ext_drivers ::
  "('d, 's) ext_driver list \<Rightarrow> string \<Rightarrow> 'd \<Rightarrow> ('s, unit) act" where
  "call_on_ext_drivers D method_name data =
     act_each (\<lambda>driver.
       act_catch (xd_process driver method_name data) (\<lambda>e.
         if gbp_or_neutron e then act_raise e
         else act_raise (GbpExn (GroupPolicyDriverError method_name)))) D"

text \<open>The \<^verbatim>\<open>extend_*_dict\<close> methods call the drivers without a handler.\<close>

definition extend_dict :: "('d, 's) ext_driver list \<Rightarrow> string \<Rightarrow> ('s, unit) act" where
  "extend_dict D method_name = act_each (\<lambda>driver. xd_extend driver method_name) D"

datatype ext_hook = ProcessCreate | ProcessUpdate | ExtendDict

fun policy_target_ext_hooks :: "('d, 's) ext_driver list \<Rightarrow> ext_hook \<Rightarrow> 'd \<Rightarrow> ('s, unit) act" where
  "policy_target_ext_hooks D ProcessCreate data = call_on_ext_drivers D ''process_create_policy_target'' data"
| "policy_target_ext_hooks D ProcessUpdate data = call_on_ext_drivers D ''process_update_policy_target'' data"
| "policy_target_ext_hooks D ExtendDict data = extend_dict D ''extend_policy_target_dict''"

fun policy_target_group_ext_hooks :: "('d, 's) ext_driver list \<Rightarrow> ext_hook \<Rightarrow> 'd \<Rightarrow> ('s, unit) act" where
  "policy_target_group_ext_hooks D ProcessCreate data = call_on_ext_drivers D ''process_create_policy_target_group'' data"
| "policy_target_group_ext_hooks D ProcessUpdate data = call_on_ext_drivers D ''process_update_policy_target_group'' data"
| "policy_target_group_ext_hooks D ExtendDict data = extend_dict D ''extend_policy_target_group_dict''"

fun application_policy_group_ext_hooks :: "('d, 's) ext_driver list \<Rightarrow> ext_hook \<Rightarrow> 'd \<Rightarrow> ('s, unit) act" where
  "application_policy_group_ext_hooks D ProcessCreate data = call_on_ext_drivers D ''process_create_application_policy_group'' data"
| "application_policy_group_ext_hooks D ProcessUpdate data = call_on_ext_drivers D ''process_update_application_policy_group'' data"
| "application_policy_group_ext_hooks D ExtendDict data = extend_dict D ''extend_application_policy_group_dict''"

fun l2_policy_ext_hooks :: "('d, 's) ext_driver list \<Rightarrow> ext_hook \<Rightarrow> 'd \<Rightarrow> ('s, unit) act" where
  "l2_policy_ext_hooks D ProcessCreate data = call_on_ext_drivers D ''process_create_l2_policy'' data"
| "l2_policy_ext_hooks D ProcessUpdate data = call_on_ext_drivers D ''process_update_l2_policy'' data"
| "l2_policy_ext_hooks D ExtendDict data = extend_dict D ''extend_l2_policy_dict''"

fun l3_policy_ext_hooks :: "('d, 's) ext_driver list \<Rightarrow> ext_hook \<Rightarrow> 'd \<Rightarrow> ('s, unit) act" where
  "l3_policy_ext_hooks D ProcessCreate data = call_on_ext_drivers D ''process_create_l3_policy'' data"
| "l3_policy_ext_hooks D ProcessUpdate data = call_on_ext_drivers D ''process_update_l3_policy'' data"
| "l3_policy_ext_hooks D ExtendDict data = extend_dict D ''extend_l3_policy_dict''"

fun network_service_policy_ext_hooks :: "('d, 's) ext_driver list \<Rightarrow> ext_hook \<Rightarrow> 'd \<Rightarrow> ('s, unit) act" where
  "network_service_policy_ext_hooks D ProcessCreate data = call_on_ext_drivers D ''process_create_network_service_policy'' data"
| "network_service_policy_ext_hooks D ProcessUpdate data = call_on_ext_drivers D ''process_update_network_service_policy'' data"
| "network_service_policy_ext_hooks D ExtendDict data = extend_dict D ''extend_network_service_policy_dict''"

fun policy_classifier_ext_hooks :: "('d, 's) ext_driver list \<Rightarrow> ext_hook \<Rightarrow> 'd \<Rightarrow> ('s, unit) act" where
  "policy_classifier_ext_hooks D ProcessCreate data = call_on_ext_drivers D ''process_create_policy_classifier'' data"
| "policy_classifier_ext_hooks D ProcessUpdate data = call_on_ext_drivers D ''process_update_policy_classifier'' data"
| "policy_classifier_ext_hooks D ExtendDict data = extend_dict D ''extend_policy_classifier_dict''"

fun policy_action_ext_hooks :: "('d, 's) ext_driver list \<Rightarrow> ext_hook \<Rightarrow> 'd \<Rightarrow> ('s, unit) act" where
  "policy_action_ext_hooks D ProcessCreate data = call_on_ext_drivers D ''process_create_policy_action'' data"
| "policy_action_ext_hooks D ProcessUpdate data = call_on_ext_drivers D ''process_update_policy_action'' data"
| "policy_action_ext_hooks D ExtendDict data = extend_dict D ''extend_policy_action_dict''"

fun policy_rule_ext_hooks :: "('d, 's) ext_driver list \<Rightarrow> ext_hook \<Rightarrow> 'd \<Rightarrow> ('s, unit) act" where
  "policy_rule_ext_hooks D ProcessCreate data = call_on_ext_drivers D ''process_create_policy_rule'' data"
| "policy_rule_ext_hooks D ProcessUpdate data = call_on_ext_drivers D ''process_update_policy_rule'' data"
| "policy_rule_ext_hooks D ExtendDict data = extend_dict D ''extend_policy_rule_dict''"

fun policy_rule_set_ext_hooks :: "('d, 's) ext_driver list \<Rightarrow> ext_hook \<Rightarrow> 'd \<Rightarrow> ('s, unit) act" where
  "policy_rule_set_ext_hooks D ProcessCreate data = call_on_ext_drivers D ''process_create_policy_rule_set'' data"
| "policy_rule_set_ext_hooks D ProcessUpdate data = call_on_ext_drivers D ''process_update_policy_rule_set'' data"
| "policy_rule_set_ext_hooks D ExtendDict data = extend_dict D ''extend_policy_rule_set_dict''"

fun external_segment_ext_hooks :: "('d, 's) ext_driver list \<Rightarrow> ext_hook \<Rightarrow> 'd \<Rightarrow> ('s, unit) act" where
  "external_segment_ext_hooks D ProcessCreate data = call_on_ext_drivers D ''process_create_external_segment'' data"
| "external_segment_ext_hooks D ProcessUpdate data = call_on_ext_drivers D ''process_update_external_segment'' data"
| "external_segment_ext_hooks D ExtendDict data = extend_dict D ''extend_external_segment_dict''"

fun external_policy_ext_hooks :: "('d, 's) ext_driver list \<Rightarrow> ext_hook \<Rightarrow> 'd \<Rightarrow> ('s, unit) act" where
  "external_policy_ext_hooks D ProcessCreate data = call_on_ext_drivers D ''process_create_external_policy'' data"
| "external_policy_ext_hooks D ProcessUpdate data = call_on_ext_drivers D ''process_update_external_policy'' data"
| "external_policy_ext_hooks D ExtendDict data = extend_dict D ''extend_external_policy_dict''"

fun nat_pool_ext_hooks :: "('d, 's) ext_driver list \<Rightarrow> ext_hook \<Rightarrow> 'd \<Rightarrow> ('s, unit) act" where
  "nat_pool_ext_hooks D ProcessCreate data = call_on_ext_drivers D ''process_create_nat_pool'' data"
| "nat_pool_ext_hooks D ProcessUpdate data = call_on_ext_drivers D ''process_update_nat_pool'' data"
| "nat_pool_ext_hooks D ExtendDict data = extend_dict D ''extend_nat_pool_dict''"

fun ext_manager_hook :: "('d, 's) ext_driver list \<Rightarrow> res_type \<Rightarrow> ext_hook \<Rightarrow> 'd \<Rightarrow> ('s, unit) act" where
  "ext_manager_hook D PolicyTarget h data = policy_target_ext_hooks D h data"
| "ext_manager_hook D PolicyTargetGroup h data = policy_target_group_ext_hooks D h data"
| "ext_manager_hook D ApplicationPolicyGroup h data = application_policy_group_ext_hooks D h data"
| "ext_manager_hook D L2Policy h data = l2_policy_ext_hooks D h data"
| "ext_manager_hook D L3Policy h data = l3_policy_ext_hooks D h data"
| "ext_manager_hook D NetworkServicePolicy h data = network_service_policy_ext_hooks D h data"
| "ext_manager_hook D PolicyClassifier h data = policy_classifier_ext_hooks D h data"
| "ext_manager_hook D PolicyAction h data = policy_action_ext_hooks D h data"
| "ext_manager_hook D PolicyRule h data = policy_rule_ext_hooks D h data"
| "ext_manager_hook D PolicyRuleSet h data = policy_rule_set_ext_hooks D h data"
| "ext_manager_hook D ExternalSegment h data = external_segment_ext_hooks D h data"
| "ext_manager_hook D ExternalPolicy h data = external_policy_ext_hooks D h data"
| "ext_manager_hook D NatPool h data = nat_pool_ext_hooks D h data"

end
