(* ===== verification/Manager_Contracts.thy ===== *)
theory Manager_Contracts
  imports Driver_Manager
begin

text \<open>
  What the managers guarantee: the loop over the drivers is a fail-fast iteration with the
  exceptions translated, deletions visit the drivers in reverse, and whatever predicate every
  driver keeps, a call through the manager keeps (\<open>driver_contract\<close>, interpreted on the drivers of
  the repository that do nothing, \<^verbatim>\<open>drivers/dummy_driver.py\<close>).
\<close>

section \<open>The loop as a fail-fast iteration\<close>

definition translate :: "(py_exn \<Rightarrow> bool) \<Rightarrow> string \<Rightarrow> py_exn \<Rightarrow> py_exn" where
  "translate is_retriable m e =
     (if is_retriable e \<or> reraised e then e
      else case e of InvalidRequestError msg \<Rightarrow> RetryRequest e
           | _ \<Rightarrow> GbpExn (GroupPolicyDriverError m))"

definition manager_order :: "'s driver_manager \<Rightarrow> string \<Rightarrow> 's policy_driver list" where
  "manager_order M m =
     (if prefix ''delete'' m then reverse_ordered_policy_drivers M else ordered_policy_drivers M)"

lemma not_rpc_call:
  "m \<noteq> ''start_rpc_listeners'' \<Longrightarrow>
   driver_call m d s = (case pd_call d m s of (Inl e, s') \<Rightarrow> (Inl e, s') | (Inr u, s') \<Rightarrow> (Inr [], s'))"
  by (auto simp: driver_call_def act_bind_def split: prod.splits sum.splits)

lemma fail_fast_loop:
  assumes "m \<noteq> ''start_rpc_listeners''"
  shows "act_bind (call_loop R m False ds False [])
      (\<lambda>(error, servers). if error then act_raise (GbpExn (GroupPolicyDriverError m))
                          else act_return servers) s =
    act_bind (act_each (\<lambda>d. act_catch (pd_call d m) (\<lambda>e. act_raise (translate R m e))) ds)
      (\<lambda>_. act_return []) s"
proof (induction ds arbitrary: s)
  case Nil
  show ?case by (simp add: act_bind_def)
next
  case (Cons d ds)
  show ?case
  proof (cases "pd_call d m s")
    case (Pair r s')
    show ?thesis
    proof (cases r)
      case (Inr u)
      with Pair Cons[of s'] assms show ?thesis
        by (simp add: act_bind_assoc act_bind_def[of "act_catch _ _"] act_catch_def not_rpc_call)
          (simp add: act_bind_def not_rpc_call)
    next
      case (Inl e)
      with Pair assms show ?thesis
        by (auto simp: act_bind_def act_catch_def not_rpc_call translate_def split: py_exn.splits)
    qed
  qed
qed


section \<open>Calls that continue on failure\<close>

text \<open>Whether a driver's exception ends the loop at once.\<close>

definition ends_loop :: "(py_exn \<Rightarrow> bool) \<Rightarrow> py_exn \<Rightarrow> bool" where
  "ends_loop is_retriable e \<longleftrightarrow>
     is_retriable e \<or> reraised e \<or> (\<exists>msg. e = InvalidRequestError msg)"

text \<open>Calling every driver whatever happens: the final state, and whether one raised.\<close>

fun call_all :: "string \<Rightarrow> 's policy_driver list \<Rightarrow> 's \<Rightarrow> bool \<times> 's" where
  "call_all m [] s = (False, s)"
| "call_all m (d # ds) s =
     (let (r, s') = pd_call d m s; (failed, s'') = call_all m ds s' in (isl r \<or> failed, s''))"

lemma continue_loop:
  assumes "m \<noteq> ''start_rpc_listeners''"
    and "\<And>d s e s'. d \<in> set ds \<Longrightarrow> pd_call d m s = (Inl e, s') \<Longrightarrow> \<not> ends_loop R e"
  shows "call_loop R m True ds failed [] s =
    (Inr (failed \<or> fst (call_all m ds s), []), snd (call_all m ds s))"
  using assms(2)
proof (induction ds arbitrary: s failed)
  case Nil
  show ?case by simp
next
  case (Cons d ds)
  have IH: "call_loop R m True ds failed [] s =
      (Inr (failed \<or> fst (call_all m ds s), []), snd (call_all m ds s))" for failed s
    using Cons.prems by (intro Cons.IH) (meson list.set_intros(2))
  obtain r s' where c: "pd_call d m s = (r, s')" by (cases "pd_call d m s")
  show ?case
  proof (cases r)
    case (Inr u)
    with c IH show ?thesis by (simp add: not_rpc_call[OF assms(1)] split: prod.splits)
  next
    case (Inl e)
    with c Cons.prems[of d s e s'] have "\<not> ends_loop R e" by simp
    with c Inl IH show ?thesis
      by (auto simp: not_rpc_call[OF assms(1)] ends_loop_def split: prod.splits py_exn.splits)
  qed
qed

text \<open>A call that continues on failure reaches every driver, as long as none raises one of the
  exceptions that leave the manager at once; it then fails with the driver error of the method
  exactly if some driver raised.\<close>

theorem call_on_drivers_continues:
  assumes "m \<noteq> ''start_rpc_listeners''"
    and "\<forall>d \<in> set (manager_order M m). \<forall>s e s'.
       pd_call d m s = (Inl e, s') \<longrightarrow> \<not> ends_loop (mgr_is_retriable M) e"
  shows "call_on_drivers M m True s =
    (if fst (call_all m (manager_order M m) s) then Inl (GbpExn (GroupPolicyDriverError m)) else Inr [],
     snd (call_all m (manager_order M m) s))"
  using continue_loop[OF assms(1), of "manager_order M m" "mgr_is_retriable M" False s] assms(2)
  by (auto simp: call_on_drivers_def manager_order_def act_bind_def)

section \<open>Contracts of drivers\<close>

lemma loop_keeps:
  "(\<And>d. d \<in> set ds \<Longrightarrow> keeps P (driver_call m d)) \<Longrightarrow> keeps P (call_loop R m b ds er sv)"
proof (induction ds arbitrary: er sv)
  case Nil
  show ?case by (simp add: keeps_def)
next
  case (Cons d ds)
  show ?case
  proof (rule keepsI)
    fix s r s'
    assume "P s" and r: "call_loop R m b (d # ds) er sv s = (r, s')"
    obtain o1 s1 where c: "driver_call m d s = (o1, s1)" by (cases "driver_call m d s")
    with \<open>P s\<close> Cons.prems have "P s1" by (auto dest: keepsD)
    moreover have "\<And>er sv. keeps P (call_loop R m b ds er sv)" using Cons by simp
    ultimately show "P s'" using r c
      by (auto dest: keepsD split: sum.splits if_splits py_exn.splits)
  qed
qed

locale driver_contract =
  fixes P :: "'s \<Rightarrow> bool" and M :: "'s driver_manager"
  assumes call_keeps: "d \<in> set (ordered_policy_drivers M) \<Longrightarrow> keeps P (pd_call d m)"
    and tenant_keeps: "d \<in> set (ordered_policy_drivers M) \<Longrightarrow> keeps P (pd_ensure_tenant d c t)"
    and rpc_keeps: "d \<in> set (ordered_policy_drivers M) \<Longrightarrow> keeps P (pd_start_rpc_listeners d)"
    and reverse_order: "reverse_ordered_policy_drivers M = rev (ordered_policy_drivers M)"
begin

lemma driver_call_keeps: "d \<in> set (ordered_policy_drivers M) \<Longrightarrow> keeps P (driver_call m d)"
  by (auto simp: driver_call_def intro!: keeps call_keeps rpc_keeps)

lemma call_loop_keeps:
  "set ds \<subseteq> set (ordered_policy_drivers M) \<Longrightarrow> keeps P (call_loop R m b ds er sv)"
  using driver_call_keeps by (intro loop_keeps) blast

lemma call_on_drivers_keeps: "keeps P (call_on_drivers M m b)"
  unfolding call_on_drivers_def
  by (intro keeps_bind call_loop_keeps) (auto simp: reverse_order split: prod.splits intro: keeps)

lemma ensure_tenant_keeps: "keeps P (manager_ensure_tenant M c t)"
  unfolding manager_ensure_tenant_def by (intro keeps) (auto intro: keeps tenant_keeps)

lemma hook_keeps: "keeps P (manager_hook M rt h)"
  by (cases rt; cases h) (simp_all add: call_on_drivers_keeps)

end

section \<open>The drivers of the repository that do nothing\<close>

text \<open>\<^verbatim>\<open>NoopDriver\<close>, with the methods it inherits from \<^verbatim>\<open>PolicyDriver\<close>.\<close>

definition noop_driver :: "string \<Rightarrow> 's policy_driver" where
  "noop_driver name =
     \<lparr> pd_name = name, pd_is_policy_driver = True, pd_call = (\<lambda>m. act_return ()),
       pd_ensure_tenant = (\<lambda>c t. act_return ()), pd_start_rpc_listeners = act_return [],
       pd_validate_state = (\<lambda>repair resources tenants. act_return VALIDATION_PASSED) \<rparr>"

interpretation noop: driver_contract P "register_policy_drivers R (map noop_driver names)"
  by unfold_locales (auto simp: register_policy_drivers_def noop_driver_def keeps_return)

section \<open>Witnesses\<close>

text \<open>Drivers over a log of calls: one that only records the call, and one that also fails.\<close>

definition demo_driver :: "string \<Rightarrow> py_exn option \<Rightarrow> string list policy_driver" where
  "demo_driver name fails =
     (noop_driver name)\<lparr> pd_call := (\<lambda>m s. (case fails of None \<Rightarrow> Inr () | Some e \<Rightarrow> Inl e, s @ [name @ '':'' @ m])) \<rparr>"

definition demo_manager :: "string list driver_manager" where
  "demo_manager = register_policy_drivers (\<lambda>e. False)
     [demo_driver ''a'' None, demo_driver ''b'' (Some (OtherExn ''boom'')), demo_driver ''c'' None]"


lemma call_on_drivers_continues_witness:
  "call_on_drivers demo_manager ''delete_l2_policy_postcommit'' True [] =
     (Inl (GbpExn (GroupPolicyDriverError ''delete_l2_policy_postcommit'')),
      [''c:delete_l2_policy_postcommit'', ''b:delete_l2_policy_postcommit'',
       ''a:delete_l2_policy_postcommit''])"
proof -
  have "manager_order demo_manager ''delete_l2_policy_postcommit'' =
      [demo_driver ''c'' None, demo_driver ''b'' (Some (OtherExn ''boom'')), demo_driver ''a'' None]"
    by (simp add: manager_order_def demo_manager_def register_policy_drivers_def)
  moreover have "mgr_is_retriable demo_manager = (\<lambda>e. False)"
    by (simp add: demo_manager_def register_policy_drivers_def)
  ultimately have "\<forall>d \<in> set (manager_order demo_manager ''delete_l2_policy_postcommit''). \<forall>s e s'.
      pd_call d ''delete_l2_policy_postcommit'' s = (Inl e, s') \<longrightarrow>
      \<not> ends_loop (mgr_is_retriable demo_manager) e"
    by (auto simp: demo_driver_def ends_loop_def)
  from call_on_drivers_continues[OF _ this, of "[]"] show ?thesis
    by (simp add: \<open>manager_order _ _ = _\<close> demo_driver_def)
qed

end
