(* ===== verification/Plugin_World.thy ===== *)
theory Plugin_World
  imports Plugin_Safety Plugin_Routes Manager_Contracts
begin

text \<open>
  The state the plugin's request handlers work on, and the parts all handlers share
  (\<^verbatim>\<open>services/grouppolicy/plugin.py\<close>): result dictionaries of any kind of resource, the policy
  context handed to the drivers (\<^verbatim>\<open>group_policy_context.py\<close>), database transactions,
  \<^verbatim>\<open>_get_resource\<close>, \<^verbatim>\<open>_get_resources\<close> and \<^verbatim>\<open>_get_status_from_drivers\<close>.

  The state has the policy database, the tables that drivers keep in the same database
  (\<open>'t\<close>, rolled back with it) and everything else (\<open>'o\<close>, never rolled back: neutron, the fabric).
  Drivers and extension drivers change the dictionary at hand through the policy context, so
  the current context is part of the state.  The decorator \<^verbatim>\<open>retry_if_session_inactive\<close> runs a
  handler again after a retriable exception; a handler here is one such attempt.
\<close>

section \<open>Result dictionaries\<close>

datatype res_dict =
    PcDict pc_dict
  | PaDict pa_dict
  | PrDict pr_dict
  | PrsDict prs_dict
  | PtDict ptm_dict
  | PtgDict ptgm_dict
  | ApgDict apg_dict
  | L2pDict l2pm_dict
  | NspDict nsp_dict
  | L3pDict l3pm_dict
  | EsDict esm_dict
  | EpDict ep_dict
  | NpDict npm_dict

fun view_of :: "res_dict \<Rightarrow> obj_view" where
  "view_of (PcDict d) = obj_plain d"
| "view_of (PaDict d) = obj_plain d"
| "view_of (PrDict d) = obj_pr d"
| "view_of (PrsDict d) = obj_prs d"
| "view_of (PtDict d) = obj_pt d"
| "view_of (PtgDict d) = obj_ptg d"
| "view_of (ApgDict d) = obj_plain d"
| "view_of (L2pDict d) = obj_l2p d"
| "view_of (NspDict d) = obj_plain d"
| "view_of (L3pDict d) = obj_l3p d"
| "view_of (EsDict d) = obj_es d"
| "view_of (EpDict d) = obj_ep d"
| "view_of (NpDict d) = obj_np d"

fun dict_status :: "res_dict \<Rightarrow> string option \<times> string option" where
  "dict_status (PcDict d) = (d_status d, d_status_details d)"
| "dict_status (PaDict d) = (d_status d, d_status_details d)"
| "dict_status (PrDict d) = (d_status d, d_status_details d)"
| "dict_status (PrsDict d) = (d_status d, d_status_details d)"
| "dict_status (PtDict d) = (d_status d, d_status_details d)"
| "dict_status (PtgDict d) = (d_status d, d_status_details d)"
| "dict_status (ApgDict d) = (d_status d, d_status_details d)"
| "dict_status (L2pDict d) = (d_status d, d_status_details d)"
| "dict_status (NspDict d) = (d_status d, d_status_details d)"
| "dict_status (L3pDict d) = (d_status d, d_status_details d)"
| "dict_status (EsDict d) = (d_status d, d_status_details d)"
| "dict_status (EpDict d) = (d_status d, d_status_details d)"
| "dict_status (NpDict d) = (d_status d, d_status_details d)"

definition with_dict :: "('d \<Rightarrow> res_dict) \<Rightarrow> gbp_error + gbp_db \<times> 'd \<Rightarrow> gbp_error + gbp_db \<times> res_dict" where
  "with_dict f m = bindE m (\<lambda>(db, d). Inr (db, f d))"

fun create_dict :: "db_env \<Rightarrow> ctx \<Rightarrow> string \<Rightarrow> create_req \<Rightarrow> gbp_db \<Rightarrow> gbp_error + gbp_db \<times> res_dict" where
  "create_dict e c i (NewPolicyClassifier b) db = with_dict PcDict (create_policy_classifier c i b db)"
| "create_dict e c i (NewPolicyAction b) db = with_dict PaDict (create_policy_action c i b db)"
| "create_dict e c i (NewPolicyRule b) db = with_dict PrDict (create_policy_rule c i b db)"
| "create_dict e c i (NewPolicyRuleSet b) db = with_dict PrsDict (create_policy_rule_set c i b db)"
| "create_dict e c i (NewPolicyTarget b) db = with_dict PtDict (create_policy_target c i b db)"
| "create_dict e c i (NewPolicyTargetGroup b) db = with_dict PtgDict (create_policy_target_group c i b db)"
| "create_dict e c i (NewApplicationPolicyGroup b) db = with_dict ApgDict (create_application_policy_group c i b db)"
| "create_dict e c i (NewL2Policy b) db = with_dict L2pDict (create_l2_policy c i b db)"
| "create_dict e c i (NewNetworkServicePolicy b) db = with_dict NspDict (create_network_service_policy c i b db)"
| "create_dict e c i (NewL3Policy b) db = with_dict L3pDict (create_l3_policy (env_ip_network e) (env_prefixes_of e) c i b db)"
| "create_dict e c i (NewExternalSegment b) db = with_dict EsDict (create_external_segment c i b db)"
| "create_dict e c i (NewExternalPolicy b) db = with_dict EpDict (create_external_policy c i b db)"
| "create_dict e c i (NewNatPool b) db = with_dict NpDict (create_nat_pool c i b db)"

fun update_dict :: "db_env \<Rightarrow> ctx \<Rightarrow> string \<Rightarrow> update_req \<Rightarrow> gbp_db \<Rightarrow> gbp_error + gbp_db \<times> res_dict" where
  "update_dict e c i (UpdPolicyClassifier u) db = with_dict PcDict (update_policy_classifier c i u db)"
| "update_dict e c i (UpdPolicyAction u) db = with_dict PaDict (update_policy_action c i u db)"
| "update_dict e c i (UpdPolicyRule u) db = with_dict PrDict (update_policy_rule c i u db)"
| "update_dict e c i (UpdPolicyRuleSet u) db = with_dict PrsDict (update_policy_rule_set c i u db)"
| "update_dict e c i (UpdPolicyTarget u) db = with_dict PtDict (update_policy_target c i u db)"
| "update_dict e c i (UpdPolicyTargetGroup u) db = with_dict PtgDict (update_policy_target_group c i u db)"
| "update_dict e c i (UpdApplicationPolicyGroup u) db = with_dict ApgDict (update_application_policy_group c i u db)"
| "update_dict e c i (UpdL2Policy u) db = with_dict L2pDict (update_l2_policy c i u db)"
| "update_dict e c i (UpdNetworkServicePolicy u ps) db = with_dict NspDict (update_network_service_policy c i u ps db)"
| "update_dict e c i (UpdL3Policy u) db = with_dict L3pDict (update_l3_policy (env_ip_network e) (env_prefixes_of e) c i u db)"
| "update_dict e c i (UpdExternalSegment u) db = with_dict EsDict (update_external_segment c i u db)"
| "update_dict e c i (UpdExternalPolicy u) db = with_dict EpDict (update_external_policy c i u db)"
| "update_dict e c i (UpdNatPool u) db = with_dict NpDict (update_nat_pool c i u db)"

fun get_dict :: "db_env \<Rightarrow> ctx \<Rightarrow> res_type \<Rightarrow> string \<Rightarrow> gbp_db \<Rightarrow> gbp_error + res_dict" where
  "get_dict e c PolicyClassifier i db = bindE (get_policy_classifier c i db) (\<lambda>d. Inr (PcDict d))"
| "get_dict e c PolicyAction i db = bindE (get_policy_action c i db) (\<lambda>d. Inr (PaDict d))"
| "get_dict e c PolicyRule i db = bindE (get_policy_rule c i db) (\<lambda>d. Inr (PrDict d))"
| "get_dict e c PolicyRuleSet i db = bindE (get_policy_rule_set c i db) (\<lambda>d. Inr (PrsDict d))"
| "get_dict e c PolicyTarget i db = bindE (get_policy_target c i db) (\<lambda>d. Inr (PtDict d))"
| "get_dict e c PolicyTargetGroup i db = bindE (get_policy_target_group c i db) (\<lambda>d. Inr (PtgDict d))"
| "get_dict e c ApplicationPolicyGroup i db = bindE (get_application_policy_group c i db) (\<lambda>d. Inr (ApgDict d))"
| "get_dict e c L2Policy i db = bindE (get_l2_policy c i db) (\<lambda>d. Inr (L2pDict d))"
| "get_dict e c NetworkServicePolicy i db = bindE (get_network_service_policy c i db) (\<lambda>d. Inr (NspDict d))"
| "get_dict e c L3Policy i db = bindE (get_l3_policy (env_prefixes_of e) c i db) (\<lambda>d. Inr (L3pDict d))"
| "get_dict e c ExternalSegment i db = bindE (get_external_segment c i db) (\<lambda>d. Inr (EsDict d))"
| "get_dict e c ExternalPolicy i db = bindE (get_external_policy c i db) (\<lambda>d. Inr (EpDict d))"
| "get_dict e c NatPool i db = bindE (get_nat_pool c i db) (\<lambda>d. Inr (NpDict d))"


text \<open>The body \<^verbatim>\<open>{'status': ..., 'status_details': ...}\<close> as an update of each resource.\<close>

definition status_upd :: "string option \<times> string option \<Rightarrow> gbp_upd" where
  "status_upd st = \<lparr> ud_name = None, ud_description = None, ud_status = Some (fst st),
     ud_status_details = Some (snd st) \<rparr>"

definition shared_status_upd :: "string option \<times> string option \<Rightarrow> shared_upd" where
  "shared_status_upd st = gbp_upd.extend (status_upd st) (shared_upd.fields None)"

fun status_update :: "res_type \<Rightarrow> string option \<times> string option \<Rightarrow> update_req" where
  "status_update PolicyClassifier st =
     UpdPolicyClassifier (shared_upd.extend (shared_status_upd st) (pc_upd.fields None None None))"
| "status_update PolicyAction st =
     UpdPolicyAction (shared_upd.extend (shared_status_upd st) (pa_upd.fields None None))"
| "status_update PolicyRule st =
     UpdPolicyRule (shared_upd.extend (shared_status_upd st) (pr_upd.fields None None None))"
| "status_update PolicyRuleSet st =
     UpdPolicyRuleSet (shared_upd.extend (shared_status_upd st) (prs_upd.fields None None))"
| "status_update PolicyTarget st =
     UpdPolicyTarget (gbp_upd.extend (status_upd st) (pt_upd.fields None None None))"
| "status_update PolicyTargetGroup st =
     UpdPolicyTargetGroup (shared_upd.extend (shared_status_upd st) (ptg_upd.fields None None None None None None None))"
| "status_update ApplicationPolicyGroup st = UpdApplicationPolicyGroup (shared_status_upd st)"
| "status_update L2Policy st =
     UpdL2Policy (shared_upd.extend (shared_status_upd st) (l2p_upd.fields None None))"
| "status_update NetworkServicePolicy st = UpdNetworkServicePolicy (shared_status_upd st) []"
| "status_update L3Policy st =
     UpdL3Policy (shared_upd.extend (shared_status_upd st) (l3p_upd.fields None None None [] [] None None))"
| "status_update ExternalSegment st =
     UpdExternalSegment (shared_upd.extend (shared_status_upd st) (es_upd.fields None None None))"
| "status_update ExternalPolicy st =
     UpdExternalPolicy (shared_upd.extend (shared_status_upd st) (ep_upd.fields None None None))"
| "status_update NatPool st =
     UpdNatPool (shared_upd.extend (shared_status_upd st) (np_upd.fields None None))"

section \<open>The state of a request\<close>

record policy_context =
  cx_plugin_context :: ctx
  cx_current :: res_dict
  cx_original :: "res_dict option"

record ('t, 'o) world =
  w_db :: gbp_db
  w_tables :: 't
  w_outside :: 'o
  w_context :: "policy_context option"

datatype request = CreateRequest create_req | UpdateRequest update_req | NoRequest

record port_info =
  po_vif_type :: "string option"
  po_host_id :: "string option"
  po_device_owner :: string
  po_device_id :: string

text \<open>The plugin: its managers, and the other plugins and libraries it calls.\<close>

record ('t, 'o) plugin =
  pl_env :: db_env
  pl_manager :: "('t, 'o) world driver_manager"
  pl_extensions :: "(request, ('t, 'o) world) ext_driver list"
  pl_parse :: range_parser
  pl_subnet_cidr :: "string \<Rightarrow> gbp_error + string"
  pl_servicechain_spec :: "string \<Rightarrow> gbp_error + res_view"
  pl_get_port :: "'o \<Rightarrow> string \<Rightarrow> gbp_error + port_info"
  pl_proxy_group_id :: "'t \<Rightarrow> string \<Rightarrow> string option"

text \<open>An exception inside a transaction restores the database, not the rest of the state.\<close>

definition transaction :: "(('t, 'o) world, 'a) act \<Rightarrow> (('t, 'o) world, 'a) act" where
  "transaction m w =
     (case m w of
        (Inl e, w') \<Rightarrow> (Inl e, w'\<lparr> w_db := w_db w, w_tables := w_tables w \<rparr>)
      | (Inr x, w') \<Rightarrow> (Inr x, w'))"

definition db_act :: "(gbp_db \<Rightarrow> gbp_error + gbp_db \<times> 'a) \<Rightarrow> (('t, 'o) world, 'a) act" where
  "db_act f w =
     (case f (w_db w) of
        Inl e \<Rightarrow> (Inl (GbpExn e), w)
      | Inr (db, x) \<Rightarrow> (Inr x, w\<lparr> w_db := db \<rparr>))"

definition db_read :: "(gbp_db \<Rightarrow> gbp_error + 'a) \<Rightarrow> (('t, 'o) world, 'a) act" where
  "db_read f w = act_lift (f (w_db w)) w"

definition db_write :: "(gbp_db \<Rightarrow> gbp_error + gbp_db) \<Rightarrow> (('t, 'o) world, unit) act" where
  "db_write f = db_act (\<lambda>db. bindE (f db) (\<lambda>db'. Inr (db', ())))"

definition set_context :: "ctx \<Rightarrow> res_dict \<Rightarrow> res_dict option \<Rightarrow> (('t, 'o) world, unit) act" where
  "set_context c current original w =
     (Inr (), w\<lparr> w_context := Some \<lparr> cx_plugin_context = c, cx_current = current, cx_original = original \<rparr> \<rparr>)"

text \<open>The dictionary at hand after the drivers had it; \<open>d\<close> where no context was set.\<close>

definition current_dict :: "res_dict \<Rightarrow> (('t, 'o) world, res_dict) act" where
  "current_dict d w =
     (Inr (case w_context w of None \<Rightarrow> d | Some cx \<Rightarrow> cx_current cx), w)"

section \<open>Reading resources\<close>

definition policy_hook ::
  "('t, 'o) plugin \<Rightarrow> res_type \<Rightarrow> hook \<Rightarrow> (('t, 'o) world, unit) act" where
  "policy_hook P rt h = act_bind (manager_hook (pl_manager P) rt h) (\<lambda>_. act_return ())"

definition ext_hook_on ::
  "('t, 'o) plugin \<Rightarrow> ctx \<Rightarrow> res_type \<Rightarrow> ext_hook \<Rightarrow> request \<Rightarrow> res_dict \<Rightarrow> (('t, 'o) world, res_dict) act" where
  "ext_hook_on P c rt h data result =
     act_bind (set_context c result None) (\<lambda>_.
     act_bind (ext_manager_hook (pl_extensions P) rt h data) (\<lambda>_. current_dict result))"

definition get_status_from_drivers ::
  "('t, 'o) plugin \<Rightarrow> ctx \<Rightarrow> res_type \<Rightarrow> res_dict \<Rightarrow> (('t, 'o) world, res_dict) act" where
  "get_status_from_drivers P c rt resource =
     act_bind (set_context c resource (Some resource)) (\<lambda>_.
     act_bind (policy_hook P rt GetStatus) (\<lambda>_.
     act_bind (current_dict resource) (\<lambda>updated.
       if dict_status updated \<noteq> dict_status resource
       then act_bind (transaction (db_act (update_dict (pl_env P) c (rv_id (view_of updated))
                        (status_update rt (dict_status updated))))) (\<lambda>_. act_return updated)
       else act_return updated)))"

definition get_resource ::
  "('t, 'o) plugin \<Rightarrow> ctx \<Rightarrow> res_type \<Rightarrow> string \<Rightarrow> (('t, 'o) world, res_dict) act" where
  "get_resource P c rt i =
     transaction (
       act_bind (db_read (get_dict (pl_env P) c rt i)) (\<lambda>result.
       act_bind (ext_hook_on P c rt ExtendDict NoRequest result) (\<lambda>result'.
         get_status_from_drivers P c rt result')))"

text \<open>\<^verbatim>\<open>_filter_extended_result\<close>: a field the result does not have is ignored.\<close>

definition filter_extended_result ::
  "(string \<Rightarrow> string option) \<Rightarrow> (string \<times> string list) list \<Rightarrow> bool" where
  "filter_extended_result result filters =
     list_all (\<lambda>(field, allowed). case result field of None \<Rightarrow> True | Some v \<Rightarrow> v \<in> set allowed) filters"

text \<open>The attributes of a result that the queries of this program filter on.\<close>

fun dict_name :: "res_dict \<Rightarrow> string" where
  "dict_name (PcDict d) = d_name d"
| "dict_name (PaDict d) = d_name d"
| "dict_name (PrDict d) = d_name d"
| "dict_name (PrsDict d) = d_name d"
| "dict_name (PtDict d) = d_name d"
| "dict_name (PtgDict d) = d_name d"
| "dict_name (ApgDict d) = d_name d"
| "dict_name (L2pDict d) = d_name d"
| "dict_name (NspDict d) = d_name d"
| "dict_name (L3pDict d) = d_name d"
| "dict_name (EsDict d) = d_name d"
| "dict_name (EpDict d) = d_name d"
| "dict_name (NpDict d) = d_name d"

definition dict_field :: "res_dict \<Rightarrow> string \<Rightarrow> string option" where
  "dict_field d field =
     (if field = ''id'' then Some (rv_id (view_of d))
      else if field = ''tenant_id'' then Some (rv_tenant (view_of d))
      else if field = ''name'' then Some (dict_name d) else None)"

text \<open>
  The query of the database layer: the rows that the request sees, as dictionaries, filtered on
  the columns of the filter (unknown ones are ignored there as well).
\<close>

fun get_all :: "(string \<Rightarrow> gbp_error + 'a) \<Rightarrow> string list \<Rightarrow> gbp_error + 'a list" where
  "get_all f [] = Inr []"
| "get_all f (i # is) = bindE (f i) (\<lambda>x. bindE (get_all f is) (\<lambda>xs. Inr (x # xs)))"

definition query_dicts ::
  "db_env \<Rightarrow> ctx \<Rightarrow> res_type \<Rightarrow> (string \<times> string list) list \<Rightarrow> gbp_db \<Rightarrow> gbp_error + res_dict list" where
  "query_dicts e c rt filters db =
     bindE (get_all (\<lambda>i. get_dict e c rt i db) (map rv_id (query_by_ids c rt (table_ids rt db) db))) (\<lambda>dicts.
       Inr (filter (\<lambda>d. filter_extended_result (dict_field d) filters) dicts))"

fun act_map :: "('a \<Rightarrow> ('s, 'b) act) \<Rightarrow> 'a list \<Rightarrow> ('s, 'b list) act" where
  "act_map f [] = act_return []"
| "act_map f (x # xs) = act_bind (f x) (\<lambda>y. act_bind (act_map f xs) (\<lambda>ys. act_return (y # ys)))"

text \<open>\<^verbatim>\<open>_get_resources\<close> without pagination and selection of fields.\<close>

definition get_resources ::
  "('t, 'o) plugin \<Rightarrow> ctx \<Rightarrow> res_type \<Rightarrow> (string \<times> string list) list \<Rightarrow> (('t, 'o) world, res_dict list) act" where
  "get_resources P c rt filters =
     act_bind (transaction (
       act_bind (db_read (query_dicts (pl_env P) c rt filters)) (\<lambda>dicts.
       act_bind (act_map (ext_hook_on P c rt ExtendDict NoRequest) dicts) (\<lambda>results.
         act_return (filter (\<lambda>d. filter_extended_result (dict_field d) filters) results))))) (\<lambda>results.
       act_map (get_status_from_drivers P c rt) results)"

definition is_port_bound :: "('t, 'o) plugin \<Rightarrow> string \<Rightarrow> (('t, 'o) world, bool) act" where
  "is_port_bound P port_id w =
     act_bind (act_lift (pl_get_port P (w_outside w) port_id)) (\<lambda>port.
       act_return (po_vif_type port \<notin> {Some ''unbound'', Some ''binding_failed''}
         \<and> ref_list (po_host_id port) \<noteq> []
         \<and> (po_device_owner port \<noteq> [] \<or> po_device_id port \<noteq> []))) w"

definition ensure_tenant :: "('t, 'o) plugin \<Rightarrow> ctx \<Rightarrow> string option \<Rightarrow> (('t, 'o) world, unit) act" where
  "ensure_tenant P c tenant_id =
     (case tenant_id of None \<Rightarrow> act_return () | Some t \<Rightarrow> manager_ensure_tenant (pl_manager P) c t)"

end
