(* ===== verification/Plugin_Workflow.thy ===== *)
theory Plugin_Workflow
  imports Plugin_World
begin

text \<open>
  The request handlers of the plugin (\<^verbatim>\<open>services/grouppolicy/plugin.py\<close>): creation, update and
  deletion of each kind of resource with the calls to the extension drivers, the validations and
  the policy drivers in the order of the code.  The handlers share three shapes; what differs
  between resources are the arguments of these shapes: the checks before and after the drivers'
  precommit call, where an update reads the original, and what a deletion checks.
\<close>

section \<open>The shapes of the handlers\<close>

text \<open>The primary key of a table refuses a new row whose id is in use.\<close>

definition create_row ::
  "db_env \<Rightarrow> ctx \<Rightarrow> string \<Rightarrow> create_req \<Rightarrow> gbp_db \<Rightarrow> gbp_error + gbp_db \<times> res_dict" where
  "create_row e c i r db =
     (if create_id i r \<in> set (table_ids (create_type r) db) then Inl DBDuplicateEntry
      else create_dict e c i r db)"

text \<open>
  A creation: the database operation, the extension drivers, the validations and the precommit
  call in one transaction; then the postcommit call, whose failure deletes the resource again and
  is raised after that (an exception of the deletion replaces it).
\<close>

definition create_handler ::
  "('t, 'o) plugin \<Rightarrow> ctx \<Rightarrow> string \<Rightarrow> create_req \<Rightarrow>
   (gbp_db \<Rightarrow> res_dict \<Rightarrow> gbp_error + unit) \<Rightarrow> (gbp_db \<Rightarrow> res_dict \<Rightarrow> gbp_error + unit) \<Rightarrow>
   (string \<Rightarrow> (('t, 'o) world, unit) act) \<Rightarrow> (('t, 'o) world, res_dict) act" where
  "create_handler P c i r checks late_checks delete_it =
     (let rt = create_type r in
      act_bind (ensure_tenant P c (bd_tenant_id (create_body r))) (\<lambda>_.
      act_bind (transaction (
        act_bind (db_act (create_row (pl_env P) c i r)) (\<lambda>created.
        act_bind (ext_hook_on P c rt ProcessCreate (CreateRequest r) created) (\<lambda>result.
        act_bind (db_read (\<lambda>db. validate_shared_create c db (view_of result) rt)) (\<lambda>_.
        act_bind (db_read (\<lambda>db. checks db result)) (\<lambda>_.
        act_bind (set_context c result None) (\<lambda>_.
        act_bind (policy_hook P rt CreatePrecommit) (\<lambda>_.
        act_bind (current_dict result) (\<lambda>result'.
        act_bind (db_read (\<lambda>db. late_checks db result')) (\<lambda>_.
          act_return result')))))))))) (\<lambda>result.
      act_bind (act_catch (policy_hook P rt CreatePostcommit) (\<lambda>e.
                  act_bind (delete_it (rv_id (view_of result))) (\<lambda>_. act_raise e))) (\<lambda>_.
        get_resource P c rt (rv_id (view_of result))))))"

text \<open>
  An update: reading the original, the database operation, the extension drivers, the
  validations and the precommit call in one transaction; then the postcommit call, whose failure
  is raised without undoing anything.
\<close>

definition update_handler ::
  "('t, 'o) plugin \<Rightarrow> ctx \<Rightarrow> string \<Rightarrow> update_req \<Rightarrow> (('t, 'o) world, res_dict) act \<Rightarrow>
   (res_dict \<Rightarrow> res_dict \<Rightarrow> gbp_error + unit) \<Rightarrow>
   (gbp_db \<Rightarrow> res_dict \<Rightarrow> res_dict \<Rightarrow> gbp_error + unit) \<Rightarrow> (('t, 'o) world, res_dict) act" where
  "update_handler P c i u get_original guard checks =
     (let rt = update_type u in
      act_bind (transaction (
        act_bind get_original (\<lambda>original.
        act_bind (db_act (update_dict (pl_env P) c i u)) (\<lambda>changed.
        act_bind (act_lift (guard original changed)) (\<lambda>_.
        act_bind (ext_hook_on P c rt ProcessUpdate (UpdateRequest u) changed) (\<lambda>updated.
        act_bind (db_read (\<lambda>db. validate_shared_update c db (view_of original) (view_of updated) rt)) (\<lambda>_.
        act_bind (db_read (\<lambda>db. checks db updated original)) (\<lambda>_.
        act_bind (set_context c updated (Some original)) (\<lambda>_.
          policy_hook P rt UpdatePrecommit)))))))) ) (\<lambda>_.
      act_bind (policy_hook P rt UpdatePostcommit) (\<lambda>_.
        get_resource P c rt i)))"

text \<open>
  A deletion: reading the resource, the precommit call and the database operation in one
  transaction; then the postcommit call, whose exceptions are only logged.
\<close>

definition delete_handler ::
  "('t, 'o) plugin \<Rightarrow> ctx \<Rightarrow> res_type \<Rightarrow> string \<Rightarrow> (res_dict \<Rightarrow> gbp_error + unit)
    \<Rightarrow> (('t, 'o) world, unit) act" where
  "delete_handler P c rt i guard =
     act_bind (transaction (
       act_bind (get_resource P c rt i) (\<lambda>resource.
       act_bind (act_lift (guard resource)) (\<lambda>_.
       act_bind (set_context c resource None) (\<lambda>_.
       act_bind (policy_hook P rt DeletePrecommit) (\<lambda>_.
         db_write (exec_delete c rt i))))))) (\<lambda>_.
     act_catch (policy_hook P rt DeletePostcommit) (\<lambda>e. act_return ()))"

definition no_check :: "gbp_db \<Rightarrow> res_dict \<Rightarrow> gbp_error + unit" where
  "no_check db d = Inr ()"

definition no_update_check :: "gbp_db \<Rightarrow> res_dict \<Rightarrow> res_dict \<Rightarrow> gbp_error + unit" where
  "no_update_check db d original = Inr ()"

definition no_guard :: "res_dict \<Rightarrow> res_dict \<Rightarrow> gbp_error + unit" where
  "no_guard original updated = Inr ()"

definition no_delete_guard :: "res_dict \<Rightarrow> gbp_error + unit" where
  "no_delete_guard d = Inr ()"

section \<open>The checks of single resources\<close>

fun check_l3p :: "('t, 'o) plugin \<Rightarrow> ctx \<Rightarrow> gbp_db \<Rightarrow> res_dict \<Rightarrow> res_dict option \<Rightarrow> gbp_error + unit" where
  "check_l3p P c db (L3pDict d) None = validate_l3p_es (pl_parse P) (pl_subnet_cidr P) c db d None"
| "check_l3p P c db (L3pDict d) (Some (L3pDict original)) =
     validate_l3p_es (pl_parse P) (pl_subnet_cidr P) c db d (Some original)"
| "check_l3p P c db d original = Inr ()"

fun check_action :: "('t, 'o) plugin \<Rightarrow> ctx \<Rightarrow> res_dict \<Rightarrow> gbp_error + unit" where
  "check_action P c (PaDict d) = validate_action_value (pl_servicechain_spec P) c d"
| "check_action P c d = Inr ()"

fun check_routes_of :: "('t, 'o) plugin \<Rightarrow> ctx \<Rightarrow> gbp_db \<Rightarrow> res_dict \<Rightarrow> res_dict option \<Rightarrow> gbp_error + unit" where
  "check_routes_of P c db (EsDict d) None =
     validate_routes (pl_parse P) (env_prefixes_of (pl_env P)) c db d None"
| "check_routes_of P c db (EsDict d) (Some (EsDict original)) =
     validate_routes (pl_parse P) (env_prefixes_of (pl_env P)) c db d (Some original)"
| "check_routes_of P c db d original = Inr ()"

fun segment_unused :: "res_dict \<Rightarrow> gbp_error + unit" where
  "segment_unused (EsDict es) =
     (if esd_l3_policies es \<noteq> [] \<or> esd_nat_pools es \<noteq> [] \<or> esd_external_policies es \<noteq> []
      then Inl (InUse ExternalSegment (d_id es)) else Inr ())"
| "segment_unused d = Inr ()"

fun ptg_l2p_kept :: "res_dict \<Rightarrow> res_dict \<Rightarrow> gbp_error + unit" where
  "ptg_l2p_kept (PtgDict original) (PtgDict updated) =
     (if ref_list (ptgd_l2_policy_id original) \<noteq> []
         \<and> ptgd_l2_policy_id original \<noteq> ptgd_l2_policy_id updated
      then Inl L2PolicyUpdateOfPolicyTargetGroupNotSupported else Inr ())"
| "ptg_l2p_kept d d' = Inr ()"

text \<open>The handlers read the original through the plugin's own get or the database layer's.\<close>

definition own_get :: "('t, 'o) plugin \<Rightarrow> ctx \<Rightarrow> res_type \<Rightarrow> string \<Rightarrow> (('t, 'o) world, res_dict) act" where
  "own_get P c rt i = get_resource P c rt i"

definition super_get :: "('t, 'o) plugin \<Rightarrow> ctx \<Rightarrow> res_type \<Rightarrow> string \<Rightarrow> (('t, 'o) world, res_dict) act" where
  "super_get P c rt i = db_read (get_dict (pl_env P) c rt i)"


section \<open>Policy target\<close>

text \<open>\<^verbatim>\<open>_add_fixed_ips_to_port_attributes\<close>; an update's port attributes are not a column.\<close>

definition add_fixed_ips_to_port_attributes :: "fixed_ip list option \<Rightarrow> pt_body \<Rightarrow> pt_body" where
  "add_fixed_ips_to_port_attributes fixed_ips b =
     (case fixed_ips of
        None \<Rightarrow> b
      | Some ips \<Rightarrow> b\<lparr> ptb_port_attributes := Some (no_port_attrs\<lparr> at_fixed_ips := Some ips \<rparr>) \<rparr>)"

definition plugin_delete_policy_target :: "('t, 'o) plugin \<Rightarrow> ctx \<Rightarrow> string \<Rightarrow> (('t, 'o) world, unit) act" where
  "plugin_delete_policy_target P c i = delete_handler P c PolicyTarget i no_delete_guard"

definition plugin_create_policy_target ::
  "('t, 'o) plugin \<Rightarrow> ctx \<Rightarrow> string \<Rightarrow> pt_body \<Rightarrow> fixed_ip list option \<Rightarrow> (('t, 'o) world, res_dict) act" where
  "plugin_create_policy_target P c i b fixed_ips =
     create_handler P c i (NewPolicyTarget (add_fixed_ips_to_port_attributes fixed_ips b)) no_check no_check
       (plugin_delete_policy_target P c)"

definition plugin_update_policy_target ::
  "('t, 'o) plugin \<Rightarrow> ctx \<Rightarrow> string \<Rightarrow> pt_upd \<Rightarrow> (('t, 'o) world, res_dict) act" where
  "plugin_update_policy_target P c i u =
     update_handler P c i (UpdPolicyTarget u) (own_get P c PolicyTarget i) no_guard
       no_update_check"

section \<open>Policy target group\<close>

definition plugin_update_policy_target_group ::
  "('t, 'o) plugin \<Rightarrow> ctx \<Rightarrow> string \<Rightarrow> ptg_upd \<Rightarrow> (('t, 'o) world, res_dict) act" where
  "plugin_update_policy_target_group P c i u =
     update_handler P c i (UpdPolicyTargetGroup u) (own_get P c PolicyTargetGroup i) ptg_l2p_kept
       no_update_check"

text \<open>
  The deletion of a group: it clears the group's rule sets through the update handler, deletes
  its proxy group first if it has one, then its policy targets, then the group.  The recursion
  follows the proxy groups; its depth is bounded by the interpreter, which raises
  \<^verbatim>\<open>RecursionError\<close> where \<open>fuel\<close> ends.
\<close>

fun ptg_targets :: "res_dict \<Rightarrow> string list" where
  "ptg_targets (PtgDict d) = ptgd_policy_targets d"
| "ptg_targets d = []"

fun pt_port :: "res_dict \<Rightarrow> string list" where
  "pt_port (PtDict d) = ref_list (ptd_port_id d)"
| "pt_port d = []"

fun without_rule_sets :: "res_dict \<Rightarrow> res_dict" where
  "without_rule_sets (PtgDict d) = PtgDict (d\<lparr> ptgd_provided := [], ptgd_consumed := [] \<rparr>)"
| "without_rule_sets d = d"

definition clear_rule_sets :: ptg_upd where
  "clear_rule_sets = \<lparr> ud_name = None, ud_description = None, ud_status = None, ud_status_details = None,
     ud_shared = None, ptgu_l2_policy_id = None, ptgu_apg_id = None, ptgu_nsp_id = None,
     ptgu_service_management = None, ptgu_subnets = None, ptgu_provided = Some [], ptgu_consumed = Some [] \<rparr>"

text \<open>\<^verbatim>\<open>policy_target_group.get('proxy_group_id')\<close>, an attribute of an extension driver.\<close>

definition proxy_group_of :: "('t, 'o) plugin \<Rightarrow> string \<Rightarrow> (('t, 'o) world, string option) act" where
  "proxy_group_of P i w = (Inr (pl_proxy_group_id P (w_tables w) i), w)"

definition delete_ptg_precommit ::
  "('t, 'o) plugin \<Rightarrow> ctx \<Rightarrow> string \<Rightarrow> (('t, 'o) world, res_dict \<times> string option) act" where
  "delete_ptg_precommit P c i =
     transaction (
       act_bind (get_resource P c PolicyTargetGroup i) (\<lambda>ptg.
       act_bind (proxy_group_of P i) (\<lambda>proxy.
       act_bind (get_resources P (elevated c) PolicyTarget [(''id'', ptg_targets ptg)]) (\<lambda>pts.
       act_bind (act_each (\<lambda>pt.
         case pt_port pt of
           [] \<Rightarrow> act_return ()
         | port # _ \<Rightarrow>
             act_bind (is_port_bound P port) (\<lambda>bound.
               if bound then act_raise (GbpExn (PolicyTargetGroupInUse i)) else act_return ())) pts) (\<lambda>_.
       act_bind (set_context c ptg None) (\<lambda>_.
       act_bind (policy_hook P PolicyTargetGroup DeletePrecommit) (\<lambda>_.
       act_bind (current_dict ptg) (\<lambda>ptg'. act_return (ptg', proxy)))))))))"

fun plugin_delete_policy_target_group ::
  "nat \<Rightarrow> ('t, 'o) plugin \<Rightarrow> ctx \<Rightarrow> string \<Rightarrow> (('t, 'o) world, unit) act" where
  "plugin_delete_policy_target_group 0 P c i = act_raise (OtherExn ''RecursionError'')"
| "plugin_delete_policy_target_group (Suc fuel) P c i =
     act_bind (delete_ptg_precommit P c i) (\<lambda>(ptg, proxy).
     act_bind (plugin_update_policy_target_group P c i clear_rule_sets) (\<lambda>_.
     act_bind (case ref_list proxy of
                 [] \<Rightarrow> act_return ()
               | proxy_group # _ \<Rightarrow>
                   act_catch (plugin_delete_policy_target_group fuel P c proxy_group) (\<lambda>e.
                     case e of
                       GbpExn (NotFound PolicyTargetGroup j) \<Rightarrow> act_return ()
                     | _ \<Rightarrow> act_raise e)) (\<lambda>_.
     act_bind (get_resources P c PolicyTarget [(''id'', ptg_targets ptg)]) (\<lambda>pts.
     act_bind (act_each (\<lambda>pt. plugin_delete_policy_target P c (rv_id (view_of pt))) pts) (\<lambda>_.
     act_bind (transaction (db_write (exec_delete c PolicyTargetGroup i))) (\<lambda>_.
     act_bind (set_context c (without_rule_sets ptg) None) (\<lambda>_.
       act_catch (policy_hook P PolicyTargetGroup DeletePostcommit) (\<lambda>e. act_return ()))))))))"

definition plugin_create_policy_target_group ::
  "nat \<Rightarrow> ('t, 'o) plugin \<Rightarrow> ctx \<Rightarrow> string \<Rightarrow> ptg_body \<Rightarrow> (('t, 'o) world, res_dict) act" where
  "plugin_create_policy_target_group fuel P c i b =
     create_handler P c i (NewPolicyTargetGroup b) no_check no_check
       (plugin_delete_policy_target_group fuel P c)"

section \<open>Application policy group\<close>

definition plugin_delete_application_policy_group :: "('t, 'o) plugin \<Rightarrow> ctx \<Rightarrow> string \<Rightarrow> (('t, 'o) world, unit) act" where
  "plugin_delete_application_policy_group P c i = delete_handler P c ApplicationPolicyGroup i no_delete_guard"

definition plugin_create_application_policy_group ::
  "('t, 'o) plugin \<Rightarrow> ctx \<Rightarrow> string \<Rightarrow> shared_body \<Rightarrow> (('t, 'o) world, res_dict) act" where
  "plugin_create_application_policy_group P c i b =
     create_handler P c i (NewApplicationPolicyGroup b) no_check no_check
       (plugin_delete_application_policy_group P c)"

definition plugin_update_application_policy_group ::
  "('t, 'o) plugin \<Rightarrow> ctx \<Rightarrow> string \<Rightarrow> shared_upd \<Rightarrow> (('t, 'o) world, res_dict) act" where
  "plugin_update_application_policy_group P c i u =
     update_handler P c i (UpdApplicationPolicyGroup u) (own_get P c ApplicationPolicyGroup i) no_guard
       no_update_check"

section \<open>L2 policy\<close>

definition plugin_delete_l2_policy :: "('t, 'o) plugin \<Rightarrow> ctx \<Rightarrow> string \<Rightarrow> (('t, 'o) world, unit) act" where
  "plugin_delete_l2_policy P c i = delete_handler P c L2Policy i no_delete_guard"

definition plugin_create_l2_policy ::
  "('t, 'o) plugin \<Rightarrow> ctx \<Rightarrow> string \<Rightarrow> l2p_body \<Rightarrow> (('t, 'o) world, res_dict) act" where
  "plugin_create_l2_policy P c i b =
     create_handler P c i (NewL2Policy b) no_check no_check
       (plugin_delete_l2_policy P c)"

definition plugin_update_l2_policy ::
  "('t, 'o) plugin \<Rightarrow> ctx \<Rightarrow> string \<Rightarrow> l2p_upd \<Rightarrow> (('t, 'o) world, res_dict) act" where
  "plugin_update_l2_policy P c i u =
     update_handler P c i (UpdL2Policy u) (own_get P c L2Policy i) no_guard
       no_update_check"

section \<open>Network service policy\<close>

definition plugin_delete_network_service_policy :: "('t, 'o) plugin \<Rightarrow> ctx \<Rightarrow> string \<Rightarrow> (('t, 'o) world, unit) act" where
  "plugin_delete_network_service_policy P c i = delete_handler P c NetworkServicePolicy i no_delete_guard"

definition plugin_create_network_service_policy ::
  "('t, 'o) plugin \<Rightarrow> ctx \<Rightarrow> string \<Rightarrow> nsp_body \<Rightarrow> (('t, 'o) world, res_dict) act" where
  "plugin_create_network_service_policy P c i b =
     create_handler P c i (NewNetworkServicePolicy b) no_check no_check
       (plugin_delete_network_service_policy P c)"

definition plugin_update_network_service_policy ::
  "('t, 'o) plugin \<Rightarrow> ctx \<Rightarrow> string \<Rightarrow> shared_upd \<Rightarrow> nsp_param list \<Rightarrow> (('t, 'o) world, res_dict) act" where
  "plugin_update_network_service_policy P c i u params =
     update_handler P c i (UpdNetworkServicePolicy u params) (super_get P c NetworkServicePolicy i) no_guard no_update_check"

section \<open>L3 policy\<close>

definition plugin_delete_l3_policy ::
  "('t, 'o) plugin \<Rightarrow> ctx \<Rightarrow> string \<Rightarrow> bool \<Rightarrow> (('t, 'o) world, bool) act" where
  "plugin_delete_l3_policy P c i check_unused =
     act_bind (db_read (\<lambda>db. Inr (l2ps_of_l3p db i))) (\<lambda>l2ps.
       if check_unused \<and> l2ps \<noteq> [] then act_return False
       else act_bind (delete_handler P c L3Policy i no_delete_guard) (\<lambda>_. act_return True))"

definition plugin_create_l3_policy ::
  "('t, 'o) plugin \<Rightarrow> ctx \<Rightarrow> string \<Rightarrow> l3p_body \<Rightarrow> (('t, 'o) world, res_dict) act" where
  "plugin_create_l3_policy P c i b =
     create_handler P c i (NewL3Policy b) (\<lambda>db d. check_l3p P c db d None) no_check
       (\<lambda>j. act_bind (plugin_delete_l3_policy P c j False) (\<lambda>_. act_return ()))"

definition plugin_update_l3_policy ::
  "('t, 'o) plugin \<Rightarrow> ctx \<Rightarrow> string \<Rightarrow> l3p_upd \<Rightarrow> (('t, 'o) world, res_dict) act" where
  "plugin_update_l3_policy P c i u =
     update_handler P c i (UpdL3Policy u) (own_get P c L3Policy i) no_guard
       (\<lambda>db d original. check_l3p P c db d (Some original))"

section \<open>Policy classifier\<close>

definition plugin_delete_policy_classifier :: "('t, 'o) plugin \<Rightarrow> ctx \<Rightarrow> string \<Rightarrow> (('t, 'o) world, unit) act" where
  "plugin_delete_policy_classifier P c i = delete_handler P c PolicyClassifier i no_delete_guard"

definition plugin_create_policy_classifier ::
  "('t, 'o) plugin \<Rightarrow> ctx \<Rightarrow> string \<Rightarrow> pc_body \<Rightarrow> (('t, 'o) world, res_dict) act" where
  "plugin_create_policy_classifier P c i b =
     create_handler P c i (NewPolicyClassifier b) no_check no_check
       (plugin_delete_policy_classifier P c)"

definition plugin_update_policy_classifier ::
  "('t, 'o) plugin \<Rightarrow> ctx \<Rightarrow> string \<Rightarrow> pc_upd \<Rightarrow> (('t, 'o) world, res_dict) act" where
  "plugin_update_policy_classifier P c i u =
     update_handler P c i (UpdPolicyClassifier u) (super_get P c PolicyClassifier i) no_guard
       no_update_check"

section \<open>Policy action\<close>

definition plugin_delete_policy_action :: "('t, 'o) plugin \<Rightarrow> ctx \<Rightarrow> string \<Rightarrow> (('t, 'o) world, unit) act" where
  "plugin_delete_policy_action P c i = delete_handler P c PolicyAction i no_delete_guard"

definition plugin_create_policy_action ::
  "('t, 'o) plugin \<Rightarrow> ctx \<Rightarrow> string \<Rightarrow> pa_body \<Rightarrow> (('t, 'o) world, res_dict) act" where
  "plugin_create_policy_action P c i b =
     create_handler P c i (NewPolicyAction b) (\<lambda>db d. check_action P c d) no_check
       (plugin_delete_policy_action P c)"

definition plugin_update_policy_action ::
  "('t, 'o) plugin \<Rightarrow> ctx \<Rightarrow> string \<Rightarrow> pa_upd \<Rightarrow> (('t, 'o) world, res_dict) act" where
  "plugin_update_policy_action P c i u =
     update_handler P c i (UpdPolicyAction u) (super_get P c PolicyAction i) no_guard
       (\<lambda>db d original. check_action P c d)"

section \<open>Policy rule\<close>

definition plugin_delete_policy_rule :: "('t, 'o) plugin \<Rightarrow> ctx \<Rightarrow> string \<Rightarrow> (('t, 'o) world, unit) act" where
  "plugin_delete_policy_rule P c i = delete_handler P c PolicyRule i no_delete_guard"

definition plugin_create_policy_rule ::
  "('t, 'o) plugin \<Rightarrow> ctx \<Rightarrow> string \<Rightarrow> pr_body \<Rightarrow> (('t, 'o) world, res_dict) act" where
  "plugin_create_policy_rule P c i b =
     create_handler P c i (NewPolicyRule b) no_check no_check
       (plugin_delete_policy_rule P c)"

definition plugin_update_policy_rule ::
  "('t, 'o) plugin \<Rightarrow> ctx \<Rightarrow> string \<Rightarrow> pr_upd \<Rightarrow> (('t, 'o) world, res_dict) act" where
  "plugin_update_policy_rule P c i u =
     update_handler P c i (UpdPolicyRule u) (super_get P c PolicyRule i) no_guard
       no_update_check"

section \<open>Policy rule set\<close>

definition plugin_delete_policy_rule_set :: "('t, 'o) plugin \<Rightarrow> ctx \<Rightarrow> string \<Rightarrow> (('t, 'o) world, unit) act" where
  "plugin_delete_policy_rule_set P c i = delete_handler P c PolicyRuleSet i no_delete_guard"

definition plugin_create_policy_rule_set ::
  "('t, 'o) plugin \<Rightarrow> ctx \<Rightarrow> string \<Rightarrow> prs_body \<Rightarrow> (('t, 'o) world, res_dict) act" where
  "plugin_create_policy_rule_set P c i b =
     create_handler P c i (NewPolicyRuleSet b) no_check no_check
       (plugin_delete_policy_rule_set P c)"

definition plugin_update_policy_rule_set ::
  "('t, 'o) plugin \<Rightarrow> ctx \<Rightarrow> string \<Rightarrow> prs_upd \<Rightarrow> (('t, 'o) world, res_dict) act" where
  "plugin_update_policy_rule_set P c i u =
     update_handler P c i (UpdPolicyRuleSet u) (super_get P c PolicyRuleSet i) no_guard
       no_update_check"

section \<open>External segment\<close>

definition plugin_delete_external_segment :: "('t, 'o) plugin \<Rightarrow> ctx \<Rightarrow> string \<Rightarrow> (('t, 'o) world, unit) act" where
  "plugin_delete_external_segment P c i = delete_handler P c ExternalSegment i segment_unused"

definition plugin_create_external_segment ::
  "('t, 'o) plugin \<Rightarrow> ctx \<Rightarrow> string \<Rightarrow> es_body \<Rightarrow> (('t, 'o) world, res_dict) act" where
  "plugin_create_external_segment P c i b =
     create_handler P c i (NewExternalSegment b) no_check (\<lambda>db d. check_routes_of P c db d None)
       (plugin_delete_external_segment P c)"

definition plugin_update_external_segment ::
  "('t, 'o) plugin \<Rightarrow> ctx \<Rightarrow> string \<Rightarrow> es_upd \<Rightarrow> (('t, 'o) world, res_dict) act" where
  "plugin_update_external_segment P c i u =
     update_handler P c i (UpdExternalSegment u) (super_get P c ExternalSegment i) no_guard
       (\<lambda>db d original. check_routes_of P c db d (Some original))"

section \<open>External policy\<close>

definition plugin_delete_external_policy :: "('t, 'o) plugin \<Rightarrow> ctx \<Rightarrow> string \<Rightarrow> (('t, 'o) world, unit) act" where
  "plugin_delete_external_policy P c i = delete_handler P c ExternalPolicy i no_delete_guard"

definition plugin_create_external_policy ::
  "('t, 'o) plugin \<Rightarrow> ctx \<Rightarrow> string \<Rightarrow> ep_body \<Rightarrow> (('t, 'o) world, res_dict) act" where
  "plugin_create_external_policy P c i b =
     create_handler P c i (NewExternalPolicy b) no_check no_check
       (plugin_delete_external_policy P c)"

definition plugin_update_external_policy ::
  "('t, 'o) plugin \<Rightarrow> ctx \<Rightarrow> string \<Rightarrow> ep_upd \<Rightarrow> (('t, 'o) world, res_dict) act" where
  "plugin_update_external_policy P c i u =
     update_handler P c i (UpdExternalPolicy u) (super_get P c ExternalPolicy i) no_guard
       no_update_check"

section \<open>Nat pool\<close>

definition plugin_delete_nat_pool :: "('t, 'o) plugin \<Rightarrow> ctx \<Rightarrow> string \<Rightarrow> (('t, 'o) world, unit) act" where
  "plugin_delete_nat_pool P c i = delete_handler P c NatPool i no_delete_guard"

definition plugin_create_nat_pool ::
  "('t, 'o) plugin \<Rightarrow> ctx \<Rightarrow> string \<Rightarrow> np_body \<Rightarrow> (('t, 'o) world, res_dict) act" where
  "plugin_create_nat_pool P c i b =
     create_handler P c i (NewNatPool b) no_check no_check
       (plugin_delete_nat_pool P c)"

definition plugin_update_nat_pool ::
  "('t, 'o) plugin \<Rightarrow> ctx \<Rightarrow> string \<Rightarrow> np_upd \<Rightarrow> (('t, 'o) world, res_dict) act" where
  "plugin_update_nat_pool P c i u =
     update_handler P c i (UpdNatPool u) (super_get P c NatPool i) no_guard
       no_update_check"

end
