(* ===== verification/Policy_Context.thy ===== *)
theory Policy_Context
  imports Plugin_Workflow
begin

text \<open>
  The policy contexts that the plugin hands to the drivers
  (\<^verbatim>\<open>services/grouppolicy/group_policy_context.py\<close>): a driver reads the resource at hand and its
  original, and changes both the database and the dictionary through the setters.  The context
  of the call is part of the state, so that the plugin sees the changes; a driver that calls the
  plugin for another resource gets back its own context afterwards (\<open>nested\<close>).
\<close>

section \<open>The context at hand\<close>

definition context_now :: "(('t, 'o) world, policy_context) act" where
  "context_now w =
     (case w_context w of None \<Rightarrow> (Inl (OtherExn ''AttributeError''), w) | Some cx \<Rightarrow> (Inr cx, w))"

definition put_current :: "res_dict \<Rightarrow> (('t, 'o) world, unit) act" where
  "put_current d w =
     (Inr (), w\<lparr> w_context := (case w_context w of None \<Rightarrow> None | Some cx \<Rightarrow> Some (cx\<lparr> cx_current := d \<rparr>)) \<rparr>)"

definition nested :: "(('t, 'o) world, 'a) act \<Rightarrow> (('t, 'o) world, 'a) act" where
  "nested m w = (case m w of (r, w') \<Rightarrow> (r, w'\<lparr> w_context := w_context w \<rparr>))"

text \<open>A setter works on the dictionary of its own kind of context.\<close>

definition on_pt :: "(ctx \<Rightarrow> ptm_dict \<Rightarrow> (('t, 'o) world, unit) act) \<Rightarrow> (('t, 'o) world, unit) act" where
  "on_pt f = act_bind context_now (\<lambda>cx.
     case cx_current cx of PtDict d \<Rightarrow> f (cx_plugin_context cx) d | _ \<Rightarrow> act_raise (OtherExn ''AttributeError''))"

definition on_ptg :: "(ctx \<Rightarrow> ptgm_dict \<Rightarrow> (('t, 'o) world, unit) act) \<Rightarrow> (('t, 'o) world, unit) act" where
  "on_ptg f = act_bind context_now (\<lambda>cx.
     case cx_current cx of PtgDict d \<Rightarrow> f (cx_plugin_context cx) d | _ \<Rightarrow> act_raise (OtherExn ''AttributeError''))"

definition on_l2p :: "(ctx \<Rightarrow> l2pm_dict \<Rightarrow> (('t, 'o) world, unit) act) \<Rightarrow> (('t, 'o) world, unit) act" where
  "on_l2p f = act_bind context_now (\<lambda>cx.
     case cx_current cx of L2pDict d \<Rightarrow> f (cx_plugin_context cx) d | _ \<Rightarrow> act_raise (OtherExn ''AttributeError''))"

definition on_l3p :: "(ctx \<Rightarrow> l3pm_dict \<Rightarrow> (('t, 'o) world, unit) act) \<Rightarrow> (('t, 'o) world, unit) act" where
  "on_l3p f = act_bind context_now (\<lambda>cx.
     case cx_current cx of L3pDict d \<Rightarrow> f (cx_plugin_context cx) d | _ \<Rightarrow> act_raise (OtherExn ''AttributeError''))"

definition on_es :: "(ctx \<Rightarrow> esm_dict \<Rightarrow> (('t, 'o) world, unit) act) \<Rightarrow> (('t, 'o) world, unit) act" where
  "on_es f = act_bind context_now (\<lambda>cx.
     case cx_current cx of EsDict d \<Rightarrow> f (cx_plugin_context cx) d | _ \<Rightarrow> act_raise (OtherExn ''AttributeError''))"

definition on_ep :: "(ctx \<Rightarrow> ep_dict \<Rightarrow> (('t, 'o) world, unit) act) \<Rightarrow> (('t, 'o) world, unit) act" where
  "on_ep f = act_bind context_now (\<lambda>cx.
     case cx_current cx of EpDict d \<Rightarrow> f (cx_plugin_context cx) d | _ \<Rightarrow> act_raise (OtherExn ''AttributeError''))"

section \<open>Policy targets and groups\<close>

definition pt_set_port_id :: "string \<Rightarrow> (('t, 'o) world, unit) act" where
  "pt_set_port_id port_id = on_pt (\<lambda>c d.
     act_bind (db_write (set_port_for_policy_target c (d_id d) (Some port_id))) (\<lambda>_.
       put_current (PtDict (d\<lparr> ptd_port_id := Some port_id \<rparr>))))"

definition ptg_set_l2_policy_id :: "string option \<Rightarrow> (('t, 'o) world, unit) act" where
  "ptg_set_l2_policy_id l2_policy_id = on_ptg (\<lambda>c d.
     act_bind (db_read (\<lambda>db. validate_shared_create c db (obj_ptg d) PolicyTargetGroup)) (\<lambda>_.
     act_bind (db_write (set_l2_policy_for_policy_target_group c (d_id d) l2_policy_id)) (\<lambda>_.
       put_current (PtgDict (d\<lparr> ptgd_l2_policy_id := l2_policy_id \<rparr>)))))"

definition ptg_set_application_policy_group_id :: "string option \<Rightarrow> (('t, 'o) world, unit) act" where
  "ptg_set_application_policy_group_id apg_id = on_ptg (\<lambda>c d.
     act_bind (db_read (\<lambda>db. validate_shared_create c db (obj_ptg d) PolicyTargetGroup)) (\<lambda>_.
     act_bind (db_write (set_application_policy_group_for_policy_target_group c (d_id d) apg_id)) (\<lambda>_.
       put_current (PtgDict (d\<lparr> ptgd_apg_id := apg_id \<rparr>)))))"

definition ptg_set_network_service_policy_id :: "string option \<Rightarrow> (('t, 'o) world, unit) act" where
  "ptg_set_network_service_policy_id nsp_id = on_ptg (\<lambda>c d.
     act_bind (db_write (set_network_service_policy_for_policy_target_group c (d_id d) nsp_id)) (\<lambda>_.
       put_current (PtgDict (d\<lparr> ptgd_nsp_id := nsp_id \<rparr>))))"

definition ptg_add_subnet :: "string \<Rightarrow> (('t, 'o) world, unit) act" where
  "ptg_add_subnet subnet_id = on_ptg (\<lambda>c d.
     act_bind (db_act (add_subnet_to_policy_target_group c (d_id d) subnet_id)) (\<lambda>subnets.
       put_current (PtgDict (d\<lparr> ptgd_subnets := subnets \<rparr>))))"

definition ptg_add_subnets :: "string list \<Rightarrow> (('t, 'o) world, unit) act" where
  "ptg_add_subnets subnet_ids = act_each ptg_add_subnet subnet_ids"

section \<open>L2 and L3 policies\<close>

definition l2p_set_l3_policy_id :: "string option \<Rightarrow> (('t, 'o) world, unit) act" where
  "l2p_set_l3_policy_id l3_policy_id = on_l2p (\<lambda>c d.
     act_bind (db_read (\<lambda>db. validate_shared_create c db (obj_l2p d) L2Policy)) (\<lambda>_.
     act_bind (db_write (set_l3_policy_for_l2_policy c (d_id d) l3_policy_id)) (\<lambda>_.
       put_current (L2pDict (d\<lparr> l2pd_l3_policy_id := l3_policy_id \<rparr>)))))"

definition l2p_set_network_id :: "string option \<Rightarrow> (('t, 'o) world, unit) act" where
  "l2p_set_network_id network_id = on_l2p (\<lambda>c d.
     act_bind (db_write (set_network_for_l2_policy c (d_id d) network_id)) (\<lambda>_.
       put_current (L2pDict (d\<lparr> l2pd_network_id := network_id \<rparr>))))"

definition l3p_set_address_scope_id :: "string option \<Rightarrow> int \<Rightarrow> (('t, 'o) world, unit) act" where
  "l3p_set_address_scope_id address_scope_id version = on_l3p (\<lambda>c d.
     act_bind (db_write (set_address_scope_for_l3_policy_by_id c (d_id d) address_scope_id version)) (\<lambda>_.
       put_current (L3pDict (if version = 4 then d\<lparr> l3pd_address_scope_v4_id := address_scope_id \<rparr>
                             else d\<lparr> l3pd_address_scope_v6_id := address_scope_id \<rparr>))))"

text \<open>\<^verbatim>\<open>_add_subnetpool_to_l3_policy_by_id\<close> answers with the pools of both versions.\<close>

definition add_subnetpool_to_l3_policy_by_id ::
  "ctx \<Rightarrow> string \<Rightarrow> string \<Rightarrow> int \<Rightarrow> gbp_db \<Rightarrow> gbp_error + gbp_db \<times> string list \<times> string list" where
  "add_subnetpool_to_l3_policy_by_id c i subnetpool_id ip_version db =
     bindE (add_subnetpools_to_l3_policy_by_id c i [subnetpool_id] ip_version db) (\<lambda>db'.
       Inr (db', targets (as_l3p_sp4 db') i, targets (as_l3p_sp6 db') i))"

definition l3p_add_subnetpool :: "string \<Rightarrow> int \<Rightarrow> (('t, 'o) world, unit) act" where
  "l3p_add_subnetpool subnetpool_id ip_version = on_l3p (\<lambda>c d.
     act_bind (db_act (add_subnetpool_to_l3_policy_by_id c (d_id d) subnetpool_id ip_version)) (\<lambda>(v4, v6).
       put_current (L3pDict (d\<lparr> l3pd_subnetpools_v4 := v4, l3pd_subnetpools_v6 := v6 \<rparr>))))"

text \<open>The method calls \<^verbatim>\<open>_remove_subnetpool_to_l3_policy\<close>, which no class defines.\<close>

definition l3p_remove_subnetpool :: "string \<Rightarrow> int \<Rightarrow> (('t, 'o) world, unit) act" where
  "l3p_remove_subnetpool subnetpool_id ip_version = on_l3p (\<lambda>c d. act_raise (OtherExn ''AttributeError''))"

definition l3p_add_router :: "string \<Rightarrow> (('t, 'o) world, unit) act" where
  "l3p_add_router router_id = on_l3p (\<lambda>c d.
     act_bind (db_act (add_router_to_l3_policy c (d_id d) router_id)) (\<lambda>routers.
       put_current (L3pDict (d\<lparr> l3pd_routers := routers \<rparr>))))"

definition l3p_remove_router :: "string \<Rightarrow> (('t, 'o) world, unit) act" where
  "l3p_remove_router router_id = on_l3p (\<lambda>c d.
     act_bind (db_act (remove_router_from_l3_policy c (d_id d) router_id)) (\<lambda>routers.
       put_current (L3pDict (d\<lparr> l3pd_routers := routers \<rparr>))))"

text \<open>The dictionary of segments changes before the database does; a key keeps its place.\<close>

definition put_key :: "string \<Rightarrow> 'v \<Rightarrow> (string \<times> 'v) list \<Rightarrow> (string \<times> 'v) list" where
  "put_key k v xs =
     (if k \<in> set (map fst xs) then map (\<lambda>(k', v'). (k', if k' = k then v else v')) xs else xs @ [(k, v)])"

definition l3p_set_external_fixed_ips :: "string \<Rightarrow> string list \<Rightarrow> (('t, 'o) world, unit) act" where
  "l3p_set_external_fixed_ips external_segment_id ips = on_l3p (\<lambda>c d.
     (let segments = put_key external_segment_id ips (l3pd_external_segments d) in
      act_bind (put_current (L3pDict (d\<lparr> l3pd_external_segments := segments \<rparr>))) (\<lambda>_.
        db_write (update_ess_for_l3p c (d_id d) (Some segments)))))"

definition l3p_set_external_segment :: "string \<Rightarrow> (('t, 'o) world, unit) act" where
  "l3p_set_external_segment external_segment_id = on_l3p (\<lambda>c d.
     act_bind (put_current (L3pDict (d\<lparr> l3pd_external_segments := [(external_segment_id, [])] \<rparr>))) (\<lambda>_.
       transaction (db_write (update_ess_for_l3p c (d_id d) (Some [(external_segment_id, [])])))))"

section \<open>External segments and policies\<close>

definition es_add_subnet :: "string \<Rightarrow> (('t, 'o) world, unit) act" where
  "es_add_subnet subnet_id = on_es (\<lambda>c d.
     act_bind (db_write (set_subnet_to_es c (d_id d) (Some subnet_id))) (\<lambda>_.
       put_current (EsDict (d\<lparr> esd_subnet_id := Some subnet_id \<rparr>))))"

text \<open>\<open>P\<close> is the plugin the context belongs to: the setter is an update request of its own.\<close>

definition ep_set_external_segment :: "('t, 'o) plugin \<Rightarrow> string \<Rightarrow> (('t, 'o) world, unit) act" where
  "ep_set_external_segment P external_segment_id = on_ep (\<lambda>c d.
     act_bind (put_current (EpDict (d\<lparr> epd_external_segments := [external_segment_id] \<rparr>))) (\<lambda>_.
     act_bind (nested (plugin_update_external_policy P c (d_id d)
        \<lparr> ud_name = None, ud_description = None, ud_status = None, ud_status_details = None,
          ud_shared = None, epu_external_segments = Some [external_segment_id],
          epu_provided = None, epu_consumed = None \<rparr>)) (\<lambda>_. act_return ())))"

end
