(* ===== verification/Implicit_Policy.thy ===== *)
theory Implicit_Policy
  imports Policy_Context Manager_Contracts
begin

text \<open>
  The implicit policy driver (\<^verbatim>\<open>drivers/implicit_policy.py\<close>) with the part of the local API
  (\<^verbatim>\<open>network/neutronv2/local_api.py\<close>) that it calls.  The driver creates an L2 policy for a group
  without one and a default L3 policy for an L2 policy without one, puts L3 policies and external
  policies on the default external segment, remembers which policies it owns and removes those
  nobody uses.  For this it calls the plugin it belongs to: \<open>implicit_plugin\<close> ties the knot, its
  number bounding the depth of the nested calls.
\<close>

section \<open>Configuration, owned policies and the local API\<close>

record implicit_config =
  default_l3_policy_name :: string
  default_ip_version :: int
  default_ip_pool :: string
  default_subnet_prefix_length :: int
  default_external_segment_name :: "string option"

text \<open>
  The tables \<^verbatim>\<open>gpm_owned_l2_policies\<close> and \<^verbatim>\<open>gpm_owned_l3_policies\<close>.  Deleting a policy deletes its
  row there; ids are never drawn twice, so a row of a deleted policy stands for no row.
\<close>

record owned_policies =
  owned_l2_policies :: "string list"
  owned_l3_policies :: "string list"

text \<open>What the local API uses of neutron: the source of ids, and quota reservations.\<close>

record 'o local_api =
  la_uuid :: "'o \<Rightarrow> string \<times> 'o"
  la_reserve :: "ctx \<Rightarrow> res_type \<Rightarrow> 'o \<Rightarrow> (py_exn + string option) \<times> 'o"
  la_commit :: "ctx \<Rightarrow> string \<Rightarrow> 'o \<Rightarrow> 'o"
  la_cancel :: "ctx \<Rightarrow> string \<Rightarrow> 'o \<Rightarrow> 'o"
  la_proxied_group_id :: "'o \<Rightarrow> string \<Rightarrow> string option"

definition outside :: "('o \<Rightarrow> (py_exn + 'a) \<times> 'o) \<Rightarrow> (('t, 'o) world, 'a) act" where
  "outside f w = (case f (w_outside w) of (r, o') \<Rightarrow> (r, w\<lparr> w_outside := o' \<rparr>))"

definition generate_uuid :: "'o local_api \<Rightarrow> (('t, 'o) world, string) act" where
  "generate_uuid A = outside (\<lambda>os. case la_uuid A os of (i, os') \<Rightarrow> (Inr i, os'))"

definition settle :: "(ctx \<Rightarrow> string \<Rightarrow> 'o \<Rightarrow> 'o) \<Rightarrow> ctx \<Rightarrow> string option \<Rightarrow> (('t, 'o) world, unit) act" where
  "settle f c reservation =
     outside (\<lambda>os. (Inr (), case ref_list reservation of [] \<Rightarrow> os | r # _ \<Rightarrow> f c r os))"

text \<open>\<^verbatim>\<open>_create_resource\<close> for a resource of the group policy plugin.\<close>

definition local_create ::
  "'o local_api \<Rightarrow> ctx \<Rightarrow> res_type \<Rightarrow> (string \<Rightarrow> (('t, 'o) world, res_dict) act) \<Rightarrow> (('t, 'o) world, res_dict) act" where
  "local_create A c rt obj_creator =
     act_bind (outside (la_reserve A c rt)) (\<lambda>reservation.
     act_bind (act_catch (act_bind (generate_uuid A) (\<lambda>i. nested (obj_creator i))) (\<lambda>e.
        act_bind (settle (la_cancel A) c reservation) (\<lambda>_. act_raise e))) (\<lambda>obj.
     act_bind (settle (la_commit A) c reservation) (\<lambda>_. act_return obj)))"

definition local_create_l2_policy ::
  "'o local_api \<Rightarrow> ('t, 'o) plugin \<Rightarrow> ctx \<Rightarrow> l2p_body \<Rightarrow> (('t, 'o) world, res_dict) act" where
  "local_create_l2_policy A P c attrs = local_create A c L2Policy (\<lambda>i. plugin_create_l2_policy P c i attrs)"

definition local_create_l3_policy ::
  "'o local_api \<Rightarrow> ('t, 'o) plugin \<Rightarrow> ctx \<Rightarrow> l3p_body \<Rightarrow> (('t, 'o) world, res_dict) act" where
  "local_create_l3_policy A P c attrs = local_create A c L3Policy (\<lambda>i. plugin_create_l3_policy P c i attrs)"

definition local_get_l3_policies ::
  "('t, 'o) plugin \<Rightarrow> ctx \<Rightarrow> (string \<times> string list) list \<Rightarrow> (('t, 'o) world, res_dict list) act" where
  "local_get_l3_policies P c filters = nested (get_resources P c L3Policy filters)"

definition local_get_external_segments ::
  "('t, 'o) plugin \<Rightarrow> ctx \<Rightarrow> (string \<times> string list) list \<Rightarrow> (('t, 'o) world, res_dict list) act" where
  "local_get_external_segments P c filters = nested (get_resources P c ExternalSegment filters)"

text \<open>\<^verbatim>\<open>_delete_l2_policy\<close>: a policy that is gone already is only logged.\<close>

definition local_delete_l2_policy :: "('t, 'o) plugin \<Rightarrow> ctx \<Rightarrow> string \<Rightarrow> (('t, 'o) world, unit) act" where
  "local_delete_l2_policy P c i =
     act_catch (nested (plugin_delete_l2_policy P c i)) (\<lambda>e.
       if e = GbpExn (NotFound L2Policy i) then act_return () else act_raise e)"

section \<open>Owned policies\<close>

definition mark_l2_policy_owned :: "string \<Rightarrow> (('x owned_policies_scheme, 'o) world, unit) act" where
  "mark_l2_policy_owned i w =
     (if i \<notin> set (table_ids L2Policy (w_db w)) then (Inl (OtherExn ''DBReferenceError''), w)
      else if i \<in> set (owned_l2_policies (w_tables w)) then (Inl (GbpExn DBDuplicateEntry), w)
      else (Inr (), w\<lparr> w_tables := (w_tables w)\<lparr> owned_l2_policies := owned_l2_policies (w_tables w) @ [i] \<rparr> \<rparr>))"

definition mark_l3_policy_owned :: "string \<Rightarrow> (('x owned_policies_scheme, 'o) world, unit) act" where
  "mark_l3_policy_owned i w =
     (if i \<notin> set (table_ids L3Policy (w_db w)) then (Inl (OtherExn ''DBReferenceError''), w)
      else if i \<in> set (owned_l3_policies (w_tables w)) then (Inl (GbpExn DBDuplicateEntry), w)
      else (Inr (), w\<lparr> w_tables := (w_tables w)\<lparr> owned_l3_policies := owned_l3_policies (w_tables w) @ [i] \<rparr> \<rparr>))"

definition l2_policy_is_owned :: "string option \<Rightarrow> (('x owned_policies_scheme, 'o) world, bool) act" where
  "l2_policy_is_owned i w =
     (Inr (case i of None \<Rightarrow> False
           | Some j \<Rightarrow> j \<in> set (owned_l2_policies (w_tables w)) \<and> j \<in> set (table_ids L2Policy (w_db w))), w)"

definition l3_policy_is_owned :: "string option \<Rightarrow> (('x owned_policies_scheme, 'o) world, bool) act" where
  "l3_policy_is_owned i w =
     (Inr (case i of None \<Rightarrow> False
           | Some j \<Rightarrow> j \<in> set (owned_l3_policies (w_tables w)) \<and> j \<in> set (table_ids L3Policy (w_db w))), w)"

definition cleanup_l3_policy :: "('x owned_policies_scheme, 'o) plugin \<Rightarrow> ctx \<Rightarrow> string option
    \<Rightarrow> (('x owned_policies_scheme, 'o) world, unit) act" where
  "cleanup_l3_policy P c l3p_id =
     act_bind (l3_policy_is_owned l3p_id) (\<lambda>res.
       case l3p_id of
         Some i \<Rightarrow> if res then act_bind (nested (plugin_delete_l3_policy P c i True)) (\<lambda>_. act_return ())
                   else act_return ()
       | None \<Rightarrow> act_return ())"

definition cleanup_l2_policy :: "('x owned_policies_scheme, 'o) plugin \<Rightarrow> ctx \<Rightarrow> string option
    \<Rightarrow> (('x owned_policies_scheme, 'o) world, unit) act" where
  "cleanup_l2_policy P c l2p_id =
     act_bind (l2_policy_is_owned l2p_id) (\<lambda>res.
       case l2p_id of
         Some i \<Rightarrow>
           if res then act_catch (local_delete_l2_policy P c i) (\<lambda>e.
             case e of GbpExn (InUse L2Policy j) \<Rightarrow> act_return () | _ \<Rightarrow> act_raise e)
           else act_return ()
       | None \<Rightarrow> act_return ())"

section \<open>Implicit policies\<close>

definition default_l3p_attrs :: "implicit_config \<Rightarrow> string \<Rightarrow> bool \<Rightarrow> l3p_body" where
  "default_l3p_attrs cfg tenant_id shared =
     \<lparr> bd_tenant_id = Some tenant_id, bd_name = default_l3_policy_name cfg,
       bd_description = ''Implicitly created L3 policy'', bd_status = None, bd_status_details = None,
       bd_shared = Some shared, l3pb_ip_version = default_ip_version cfg,
       l3pb_ip_pool = Some (default_ip_pool cfg), l3pb_subnet_prefix_length = default_subnet_prefix_length cfg,
       l3pb_address_scope_v4_id = None, l3pb_address_scope_v6_id = None, l3pb_subnetpools_v4 = [],
       l3pb_subnetpools_v6 = [], l3pb_routers = None, l3pb_external_segments = None \<rparr>"

definition implicit_l2p_attrs :: "string \<Rightarrow> string \<Rightarrow> bool \<Rightarrow> string option \<Rightarrow> l2p_body" where
  "implicit_l2p_attrs tenant_id name shared l3p_id =
     \<lparr> bd_tenant_id = Some tenant_id, bd_name = name, bd_description = ''Implicitly created L2 policy'',
       bd_status = None, bd_status_details = None, bd_shared = Some shared, l2pb_l3_policy_id = l3p_id,
       l2pb_network_id = None, l2pb_inject_default_route = None \<rparr>"

text \<open>
  The id of the tenant's default L3 policy.  Another server may create it between the query and
  the creation; then the second query finds it.  Pools of the proxy group extension are left to
  its driver.
\<close>

definition create_implicit_l3_policy ::
  "implicit_config \<Rightarrow> 'o local_api \<Rightarrow> ('x owned_policies_scheme, 'o) plugin \<Rightarrow> ctx \<Rightarrow> string \<Rightarrow> bool
    \<Rightarrow> (('x owned_policies_scheme, 'o) world, string) act" where
  "create_implicit_l3_policy cfg A P c tenant_id shared =
     (let filters = [(''tenant_id'', [tenant_id]), (''name'', [default_l3_policy_name cfg])] in
      act_bind (local_get_l3_policies P c filters) (\<lambda>l3ps.
        case l3ps of
          l3p # _ \<Rightarrow> act_return (rv_id (view_of l3p))
        | [] \<Rightarrow>
            act_catch
              (act_bind (local_create_l3_policy A P c (default_l3p_attrs cfg tenant_id shared)) (\<lambda>l3p.
               act_bind (mark_l3_policy_owned (rv_id (view_of l3p))) (\<lambda>_.
                 act_return (rv_id (view_of l3p)))))
              (\<lambda>e. case e of
                 GbpExn (DefaultL3PolicyAlreadyExists n) \<Rightarrow>
                   act_bind (local_get_l3_policies P c filters) (\<lambda>l3ps'.
                     case l3ps' of l3p # _ \<Rightarrow> act_return (rv_id (view_of l3p)) | [] \<Rightarrow> act_raise e)
               | _ \<Rightarrow> act_raise e)))"

definition use_implicit_l3_policy ::
  "implicit_config \<Rightarrow> 'o local_api \<Rightarrow> ('x owned_policies_scheme, 'o) plugin
    \<Rightarrow> (('x owned_policies_scheme, 'o) world, unit) act" where
  "use_implicit_l3_policy cfg A P = on_l2p (\<lambda>c d.
     act_bind (create_implicit_l3_policy cfg A P c (d_tenant_id d) (d_shared d)) (\<lambda>l3p_id.
     act_bind (put_current (L2pDict (d\<lparr> l2pd_l3_policy_id := Some l3p_id \<rparr>))) (\<lambda>_.
       l2p_set_l3_policy_id (Some l3p_id))))"

text \<open>The L3 policy of the implicit L2 policy: that of the proxied group, if there is one.\<close>

fun ptg_l2p :: "res_dict \<Rightarrow> string option" where
  "ptg_l2p (PtgDict d) = ptgd_l2_policy_id d"
| "ptg_l2p d = None"

fun l2p_l3p :: "res_dict \<Rightarrow> string option" where
  "l2p_l3p (L2pDict d) = l2pd_l3_policy_id d"
| "l2p_l3p d = None"

definition l3p_of_proxied_group ::
  "'o local_api \<Rightarrow> ('t, 'o) plugin \<Rightarrow> ctx \<Rightarrow> string \<Rightarrow> (('t, 'o) world, string option) act" where
  "l3p_of_proxied_group A P c ptg_id =
     act_bind (outside (\<lambda>os. (Inr (la_proxied_group_id A os ptg_id), os))) (\<lambda>proxied.
       case ref_list proxied of
         [] \<Rightarrow> act_return None
       | g # _ \<Rightarrow>
           act_bind (nested (get_resource P c PolicyTargetGroup g)) (\<lambda>group.
             case ptg_l2p group of
               None \<Rightarrow> act_raise (GbpExn (NotFound L2Policy ''None''))
             | Some j \<Rightarrow> act_bind (nested (get_resource P c L2Policy j)) (\<lambda>l2p. act_return (l2p_l3p l2p))))"

definition use_implicit_l2_policy ::
  "implicit_config \<Rightarrow> 'o local_api \<Rightarrow> ('x owned_policies_scheme, 'o) plugin
    \<Rightarrow> (('x owned_policies_scheme, 'o) world, unit) act" where
  "use_implicit_l2_policy cfg A P = on_ptg (\<lambda>c d.
     act_bind (l3p_of_proxied_group A P c (d_id d)) (\<lambda>l3p_id.
     act_bind (local_create_l2_policy A P c (implicit_l2p_attrs (d_tenant_id d) (d_name d) (d_shared d) l3p_id)) (\<lambda>l2p.
     act_bind (put_current (PtgDict (d\<lparr> ptgd_l2_policy_id := Some (rv_id (view_of l2p)) \<rparr>))) (\<lambda>_.
     act_bind (mark_l2_policy_owned (rv_id (view_of l2p))) (\<lambda>_.
       ptg_set_l2_policy_id (Some (rv_id (view_of l2p))))))))"

section \<open>The default external segment\<close>

text \<open>The tenant's own default segment, or else the first one the request sees.\<close>

definition choose_default :: "string \<Rightarrow> res_dict list \<Rightarrow> res_dict option" where
  "choose_default tenant_id ess =
     (case filter (\<lambda>es. rv_tenant (view_of es) = tenant_id) ess of
        es # _ \<Rightarrow> Some es
      | [] \<Rightarrow> (case ess of es # _ \<Rightarrow> Some es | [] \<Rightarrow> None))"

definition use_implicit_external_segment ::
  "implicit_config \<Rightarrow> ('t, 'o) plugin \<Rightarrow> (string \<Rightarrow> (('t, 'o) world, unit) act) \<Rightarrow> (('t, 'o) world, unit) act" where
  "use_implicit_external_segment cfg P set_external_segment =
     (case ref_list (default_external_segment_name cfg) of
        [] \<Rightarrow> act_return ()
      | name # _ \<Rightarrow>
          act_bind context_now (\<lambda>cx.
          act_bind (local_get_external_segments P (cx_plugin_context cx) [(''name'', [name])]) (\<lambda>ess.
            case choose_default (rv_tenant (view_of (cx_current cx))) ess of
              None \<Rightarrow> act_return ()
            | Some es \<Rightarrow> set_external_segment (rv_id (view_of es)))))"

definition validate_default_external_segment ::
  "implicit_config \<Rightarrow> ('t, 'o) plugin \<Rightarrow> (('t, 'o) world, unit) act" where
  "validate_default_external_segment cfg P =
     act_bind context_now (\<lambda>cx.
       case default_external_segment_name cfg of
         None \<Rightarrow> act_return ()
       | Some name \<Rightarrow>
           if name = dict_name (cx_current cx) then
             act_bind (nested (get_resources P (cx_plugin_context cx) ExternalSegment [(''name'', [name])])) (\<lambda>ess.
               if filter (\<lambda>x. rv_id (view_of x) \<noteq> rv_id (view_of (cx_current cx))) ess \<noteq> []
               then act_raise (GbpExn (DefaultExternalSegmentAlreadyExists name)) else act_return ())
           else act_return ())"

section \<open>The driver\<close>

definition implicit_create_policy_target_group_postcommit where
  "implicit_create_policy_target_group_postcommit cfg A P = on_ptg (\<lambda>c d.
     if ref_list (ptgd_l2_policy_id d) = [] then use_implicit_l2_policy cfg A P else act_return ())"

definition implicit_update_policy_target_group_postcommit where
  "implicit_update_policy_target_group_postcommit cfg A P =
     act_bind context_now (\<lambda>cx.
       case cx_original cx of
         None \<Rightarrow> act_raise (OtherExn ''TypeError'')
       | Some original \<Rightarrow>
           if ptg_l2p original \<noteq> ptg_l2p (cx_current cx) then
             act_bind (cleanup_l2_policy P (cx_plugin_context cx) (ptg_l2p original)) (\<lambda>_.
               if ref_list (ptg_l2p (cx_current cx)) = [] then use_implicit_l2_policy cfg A P else act_return ())
           else act_return ())"

definition implicit_delete_policy_target_group_postcommit where
  "implicit_delete_policy_target_group_postcommit P =
     act_bind context_now (\<lambda>cx. cleanup_l2_policy P (cx_plugin_context cx) (ptg_l2p (cx_current cx)))"

definition implicit_create_l2_policy_postcommit where
  "implicit_create_l2_policy_postcommit cfg A P = on_l2p (\<lambda>c d.
     if ref_list (l2pd_l3_policy_id d) = [] then use_implicit_l3_policy cfg A P else act_return ())"

definition implicit_update_l2_policy_postcommit where
  "implicit_update_l2_policy_postcommit cfg A P =
     act_bind context_now (\<lambda>cx.
       case cx_original cx of
         None \<Rightarrow> act_raise (OtherExn ''TypeError'')
       | Some original \<Rightarrow>
           if l2p_l3p original \<noteq> l2p_l3p (cx_current cx) then
             act_bind (cleanup_l3_policy P (cx_plugin_context cx) (l2p_l3p original)) (\<lambda>_.
               if ref_list (l2p_l3p (cx_current cx)) = [] then use_implicit_l3_policy cfg A P else act_return ())
           else act_return ())"

definition implicit_delete_l2_policy_postcommit where
  "implicit_delete_l2_policy_postcommit P =
     act_bind context_now (\<lambda>cx. cleanup_l3_policy P (cx_plugin_context cx) (l2p_l3p (cx_current cx)))"

definition implicit_create_external_policy_postcommit where
  "implicit_create_external_policy_postcommit cfg P = on_ep (\<lambda>c d.
     if epd_external_segments d = [] then use_implicit_external_segment cfg P (ep_set_external_segment P)
     else act_return ())"

definition implicit_create_l3_policy_precommit :: "implicit_config \<Rightarrow> ('t, 'o) plugin \<Rightarrow> (('t, 'o) world, unit) act" where
  "implicit_create_l3_policy_precommit cfg P = on_l3p (\<lambda>c d.
     if default_l3_policy_name cfg = d_name d then
       act_bind (nested (get_resources P c L3Policy
          [(''tenant_id'', [d_tenant_id d]), (''name'', [default_l3_policy_name cfg])])) (\<lambda>l3ps.
         if filter (\<lambda>x. rv_id (view_of x) \<noteq> d_id d) l3ps \<noteq> []
         then act_raise (GbpExn (DefaultL3PolicyAlreadyExists (default_l3_policy_name cfg))) else act_return ())
     else act_return ())"

definition implicit_create_l3_policy_postcommit where
  "implicit_create_l3_policy_postcommit cfg P = on_l3p (\<lambda>c d.
     if l3pd_external_segments d = [] then use_implicit_external_segment cfg P l3p_set_external_segment
     else act_return ())"

definition implicit_call ::
  "implicit_config \<Rightarrow> 'o local_api \<Rightarrow> ('x owned_policies_scheme, 'o) plugin \<Rightarrow> string
    \<Rightarrow> (('x owned_policies_scheme, 'o) world, unit) act" where
  "implicit_call cfg A P m =
     (if m = ''create_policy_target_group_postcommit'' then implicit_create_policy_target_group_postcommit cfg A P
      else if m = ''update_policy_target_group_postcommit'' then implicit_update_policy_target_group_postcommit cfg A P
      else if m = ''delete_policy_target_group_postcommit'' then implicit_delete_policy_target_group_postcommit P
      else if m = ''create_l2_policy_postcommit'' then implicit_create_l2_policy_postcommit cfg A P
      else if m = ''update_l2_policy_postcommit'' then implicit_update_l2_policy_postcommit cfg A P
      else if m = ''delete_l2_policy_postcommit'' then implicit_delete_l2_policy_postcommit P
      else if m = ''create_external_segment_precommit'' then validate_default_external_segment cfg P
      else if m = ''create_external_policy_postcommit'' then implicit_create_external_policy_postcommit cfg P
      else if m = ''create_l3_policy_precommit'' then implicit_create_l3_policy_precommit cfg P
      else if m = ''create_l3_policy_postcommit'' then implicit_create_l3_policy_postcommit cfg P
      else act_return ())"

definition implicit_driver ::
  "implicit_config \<Rightarrow> 'o local_api \<Rightarrow> ('x owned_policies_scheme, 'o) plugin
    \<Rightarrow> ('x owned_policies_scheme, 'o) world policy_driver" where
  "implicit_driver cfg A P = (noop_driver ''implicit_policy'')\<lparr> pd_call := implicit_call cfg A P \<rparr>"

text \<open>
  The plugin with the implicit policy driver before some others.  The longest chain of nested
  calls is a group's L2 policy, its L3 policy and the query for the default one; where the number
  ends, a call of the driver raises.
\<close>

fun implicit_plugin ::
  "nat \<Rightarrow> implicit_config \<Rightarrow> 'o local_api \<Rightarrow> ('x owned_policies_scheme, 'o) plugin
    \<Rightarrow> ('x owned_policies_scheme, 'o) plugin" where
  "implicit_plugin 0 cfg A P =
     P\<lparr> pl_manager := register_policy_drivers (mgr_is_retriable (pl_manager P))
          [(noop_driver ''implicit_policy'')\<lparr> pd_call := (\<lambda>m. act_raise (OtherExn ''RecursionError'')) \<rparr>] \<rparr>"
| "implicit_plugin (Suc n) cfg A P =
     P\<lparr> pl_manager := register_policy_drivers (mgr_is_retriable (pl_manager P))
          (implicit_driver cfg A (implicit_plugin n cfg A P) # ordered_policy_drivers (pl_manager P)) \<rparr>"

end
