(* ===== verification/Plugin_Contracts.thy ===== *)
theory Plugin_Contracts
  imports Plugin_Workflow
begin

text \<open>
  What holds of the plugin's request handlers whatever the drivers do: a failed transaction
  leaves the database as it was, a deletion is all or nothing, and a predicate on the database
  that its operations preserve and that the drivers and extension drivers keep is kept by every
  handler, also by one that fails (\<open>plugin_contract\<close>, interpreted with the invariant of the
  database and the drivers of the repository that do nothing).
\<close>

section \<open>All requests\<close>

fun handle_create ::
  "nat \<Rightarrow> ('t, 'o) plugin \<Rightarrow> ctx \<Rightarrow> string \<Rightarrow> fixed_ip list option \<Rightarrow> create_req
    \<Rightarrow> (('t, 'o) world, res_dict) act" where
  "handle_create fuel P c i fixed_ips (NewPolicyTarget b) = plugin_create_policy_target P c i b fixed_ips"
| "handle_create fuel P c i fixed_ips (NewPolicyTargetGroup b) = plugin_create_policy_target_group fuel P c i b"
| "handle_create fuel P c i fixed_ips (NewApplicationPolicyGroup b) = plugin_create_application_policy_group P c i b"
| "handle_create fuel P c i fixed_ips (NewL2Policy b) = plugin_create_l2_policy P c i b"
| "handle_create fuel P c i fixed_ips (NewNetworkServicePolicy b) = plugin_create_network_service_policy P c i b"
| "handle_create fuel P c i fixed_ips (NewL3Policy b) = plugin_create_l3_policy P c i b"
| "handle_create fuel P c i fixed_ips (NewPolicyClassifier b) = plugin_create_policy_classifier P c i b"
| "handle_create fuel P c i fixed_ips (NewPolicyAction b) = plugin_create_policy_action P c i b"
| "handle_create fuel P c i fixed_ips (NewPolicyRule b) = plugin_create_policy_rule P c i b"
| "handle_create fuel P c i fixed_ips (NewPolicyRuleSet b) = plugin_create_policy_rule_set P c i b"
| "handle_create fuel P c i fixed_ips (NewExternalSegment b) = plugin_create_external_segment P c i b"
| "handle_create fuel P c i fixed_ips (NewExternalPolicy b) = plugin_create_external_policy P c i b"
| "handle_create fuel P c i fixed_ips (NewNatPool b) = plugin_create_nat_pool P c i b"

fun handle_update ::
  "('t, 'o) plugin \<Rightarrow> ctx \<Rightarrow> string \<Rightarrow> update_req \<Rightarrow> (('t, 'o) world, res_dict) act" where
  "handle_update P c i (UpdPolicyTarget u) = plugin_update_policy_target P c i u"
| "handle_update P c i (UpdPolicyTargetGroup u) = plugin_update_policy_target_group P c i u"
| "handle_update P c i (UpdApplicationPolicyGroup u) = plugin_update_application_policy_group P c i u"
| "handle_update P c i (UpdL2Policy u) = plugin_update_l2_policy P c i u"
| "handle_update P c i (UpdNetworkServicePolicy u ps) = plugin_update_network_service_policy P c i u ps"
| "handle_update P c i (UpdL3Policy u) = plugin_update_l3_policy P c i u"
| "handle_update P c i (UpdPolicyClassifier u) = plugin_update_policy_classifier P c i u"
| "handle_update P c i (UpdPolicyAction u) = plugin_update_policy_action P c i u"
| "handle_update P c i (UpdPolicyRule u) = plugin_update_policy_rule P c i u"
| "handle_update P c i (UpdPolicyRuleSet u) = plugin_update_policy_rule_set P c i u"
| "handle_update P c i (UpdExternalSegment u) = plugin_update_external_segment P c i u"
| "handle_update P c i (UpdExternalPolicy u) = plugin_update_external_policy P c i u"
| "handle_update P c i (UpdNatPool u) = plugin_update_nat_pool P c i u"

fun handle_delete ::
  "nat \<Rightarrow> ('t, 'o) plugin \<Rightarrow> ctx \<Rightarrow> res_type \<Rightarrow> string \<Rightarrow> (('t, 'o) world, unit) act" where
  "handle_delete fuel P c PolicyTarget i = plugin_delete_policy_target P c i"
| "handle_delete fuel P c PolicyTargetGroup i = plugin_delete_policy_target_group fuel P c i"
| "handle_delete fuel P c ApplicationPolicyGroup i = plugin_delete_application_policy_group P c i"
| "handle_delete fuel P c L2Policy i = plugin_delete_l2_policy P c i"
| "handle_delete fuel P c NetworkServicePolicy i = plugin_delete_network_service_policy P c i"
| "handle_delete fuel P c L3Policy i = act_bind (plugin_delete_l3_policy P c i False) (\<lambda>_. act_return ())"
| "handle_delete fuel P c PolicyClassifier i = plugin_delete_policy_classifier P c i"
| "handle_delete fuel P c PolicyAction i = plugin_delete_policy_action P c i"
| "handle_delete fuel P c PolicyRule i = plugin_delete_policy_rule P c i"
| "handle_delete fuel P c PolicyRuleSet i = plugin_delete_policy_rule_set P c i"
| "handle_delete fuel P c ExternalSegment i = plugin_delete_external_segment P c i"
| "handle_delete fuel P c ExternalPolicy i = plugin_delete_external_policy P c i"
| "handle_delete fuel P c NatPool i = plugin_delete_nat_pool P c i"

lemmas create_handler_defs = plugin_create_policy_target_def plugin_create_policy_target_group_def plugin_create_application_policy_group_def plugin_create_l2_policy_def plugin_create_network_service_policy_def plugin_create_l3_policy_def plugin_create_policy_classifier_def plugin_create_policy_action_def plugin_create_policy_rule_def plugin_create_policy_rule_set_def plugin_create_external_segment_def plugin_create_external_policy_def plugin_create_nat_pool_def

lemmas update_handler_defs = plugin_update_policy_target_def plugin_update_policy_target_group_def plugin_update_application_policy_group_def plugin_update_l2_policy_def plugin_update_network_service_policy_def plugin_update_l3_policy_def plugin_update_policy_classifier_def plugin_update_policy_action_def plugin_update_policy_rule_def plugin_update_policy_rule_set_def plugin_update_external_segment_def plugin_update_external_policy_def plugin_update_nat_pool_def

lemmas delete_handler_defs = plugin_delete_policy_target_def plugin_delete_application_policy_group_def plugin_delete_l2_policy_def plugin_delete_network_service_policy_def plugin_delete_l3_policy_def plugin_delete_policy_classifier_def plugin_delete_policy_action_def plugin_delete_policy_rule_def plugin_delete_policy_rule_set_def plugin_delete_external_segment_def plugin_delete_external_policy_def plugin_delete_nat_pool_def

section \<open>Transactions\<close>

lemma transaction_Inl:
  "transaction m w = (Inl e, w') \<Longrightarrow> w_db w' = w_db w \<and> w_tables w' = w_tables w"
  by (auto simp: transaction_def split: prod.splits sum.splits)

lemma transaction_Inr: "transaction m w = (Inr x, w') \<longleftrightarrow> m w = (Inr x, w')"
  by (auto simp: transaction_def split: prod.splits sum.splits)

lemma swallowed: "act_catch m (\<lambda>e. act_return x) w = (Inl e, w') \<Longrightarrow> False"
  by (auto simp: act_catch_def split: prod.splits sum.splits)

text \<open>C31: A deletion is all or nothing whatever the drivers do: if the handler of any resource but
  a group fails, the policy database and the drivers' tables are exactly as before the request.\<close>

theorem delete_all_or_nothing:
  assumes "rt \<noteq> PolicyTargetGroup" and "handle_delete fuel P c rt i w = (Inl e, w')"
  shows "w_db w' = w_db w \<and> w_tables w' = w_tables w"
proof -
  have "w_db w1 = w_db w \<and> w_tables w1 = w_tables w"
    if "delete_handler P c rt i g w = (Inl e1, w1)" for g e1 w1
    using that
    by (auto simp: delete_handler_def act_bind_Inl dest: transaction_Inl swallowed)
  with assms show ?thesis
    by (cases rt) (auto simp: delete_handler_defs act_bind_Inl db_read_def act_bind_Inr split: if_splits)
qed

section \<open>Predicates on the database\<close>

lemma keeps_transaction:
  assumes "keeps (\<lambda>w. Q (w_db w)) m"
  shows "keeps (\<lambda>w. Q (w_db w)) (transaction m)"
proof (rule keepsI)
  fix w r w' assume q: "Q (w_db w)" and t: "transaction m w = (r, w')"
  show "Q (w_db w')"
  proof (cases r)
    case (Inl e)
    with t q transaction_Inl show ?thesis by metis
  next
    case (Inr x)
    with t have "m w = (r, w')" by (simp add: transaction_Inr)
    from keepsD[OF assms q this] show ?thesis .
  qed
qed

lemma keeps_db_act:
  assumes "\<And>db db' x. Q db \<Longrightarrow> f db = Inr (db', x) \<Longrightarrow> Q db'"
  shows "keeps (\<lambda>w. Q (w_db w)) (db_act f)"
  using assms by (auto simp: keeps_def db_act_def split: sum.splits prod.splits)

lemma keeps_db_read: "keeps (\<lambda>w. Q (w_db w)) (db_read f)"
  by (simp add: keeps_def db_read_def act_lift_def)

lemma keeps_db_write:
  assumes "\<And>db db'. Q db \<Longrightarrow> f db = Inr db' \<Longrightarrow> Q db'"
  shows "keeps (\<lambda>w. Q (w_db w)) (db_write f)"
  unfolding db_write_def using assms by (intro keeps_db_act) (auto simp: bindE_eq_Inr)

lemma keeps_set_context: "keeps (\<lambda>w. Q (w_db w)) (set_context c d orig)"
  by (simp add: keeps_def set_context_def)

lemma keeps_current_dict: "keeps (\<lambda>w. Q (w_db w)) (current_dict d)"
  by (simp add: keeps_def current_dict_def)

lemma keeps_proxy: "keeps (\<lambda>w. Q (w_db w)) (proxy_group_of P i)"
  by (simp add: keeps_def proxy_group_of_def)

lemma keeps_port: "keeps (\<lambda>w. Q (w_db w)) (is_port_bound P port)"
proof (rule keepsI)
  fix w r w' assume "Q (w_db w)" "is_port_bound P port w = (r, w')"
  then show "Q (w_db w')"
    by (cases "pl_get_port P (w_outside w) port") (auto simp: is_port_bound_def act_bind_def act_lift_def)
qed

lemma keeps_pair: "keeps P (Pair r)"
  by (simp add: keeps_def)

lemma keeps_act_map: "(\<And>x. keeps P (f x)) \<Longrightarrow> keeps P (act_map f xs)"
  by (induction xs) (auto intro!: keeps)

section \<open>The contract of the drivers, and what the handlers keep under it\<close>

locale plugin_contract = driver_contract "\<lambda>w. Q (w_db w)" "pl_manager P"
  for Q :: "gbp_db \<Rightarrow> bool" and P :: "('t, 'o) plugin" +
  assumes process_keeps: "x \<in> set (pl_extensions P) \<Longrightarrow> keeps (\<lambda>w. Q (w_db w)) (xd_process x m data)"
    and extend_keeps: "x \<in> set (pl_extensions P) \<Longrightarrow> keeps (\<lambda>w. Q (w_db w)) (xd_extend x m)"
    and create_keeps: "Q db \<Longrightarrow> create_row (pl_env P) c i r db = Inr (db', d) \<Longrightarrow> Q db'"
    and update_keeps: "Q db \<Longrightarrow> update_dict (pl_env P) c i u db = Inr (db', d) \<Longrightarrow> Q db'"
    and delete_keeps: "Q db \<Longrightarrow> exec_delete c rt i db = Inr db' \<Longrightarrow> Q db'"
begin

lemmas keeps_world =
  keeps_transaction[of Q] keeps_db_read[of Q] keeps_set_context[of Q] keeps_current_dict[of Q]
  keeps_proxy[of Q] keeps_port[of Q] keeps_act_map[of "\<lambda>w. Q (w_db w)"]

lemma keeps_db:
  "keeps (\<lambda>w. Q (w_db w)) (db_act (create_row (pl_env P) c i r))"
  "keeps (\<lambda>w. Q (w_db w)) (db_act (update_dict (pl_env P) c i u))"
  "keeps (\<lambda>w. Q (w_db w)) (db_write (exec_delete c rt i))"
  by (rule keeps_db_act, erule (1) create_keeps) (rule keeps_db_act, erule (1) update_keeps,
      rule keeps_db_write, erule (1) delete_keeps)

lemma call_on_ext_drivers_keeps: "keeps (\<lambda>w. Q (w_db w)) (call_on_ext_drivers (pl_extensions P) m d)"
  unfolding call_on_ext_drivers_def by (intro keeps) (auto intro!: keeps process_keeps)

lemma extend_dict_keeps: "keeps (\<lambda>w. Q (w_db w)) (extend_dict (pl_extensions P) m)"
  unfolding extend_dict_def by (intro keeps) (auto intro!: extend_keeps)

lemma ext_hook_keeps: "keeps (\<lambda>w. Q (w_db w)) (ext_hook_on P c rt h data d)"
proof -
  have "keeps (\<lambda>w. Q (w_db w)) (ext_manager_hook (pl_extensions P) rt h data)"
    by (cases rt; cases h) (simp_all add: call_on_ext_drivers_keeps extend_dict_keeps)
  then show ?thesis unfolding ext_hook_on_def by (intro keeps keeps_world)
qed

lemma policy_hook_keeps: "keeps (\<lambda>w. Q (w_db w)) (policy_hook P rt h)"
  unfolding policy_hook_def by (intro keeps hook_keeps)

lemma status_keeps: "keeps (\<lambda>w. Q (w_db w)) (get_status_from_drivers P c rt d)"
  unfolding get_status_from_drivers_def
  by (intro keeps keeps_world policy_hook_keeps)
    (auto intro!: keeps keeps_world keeps_db)

lemma get_resource_keeps: "keeps (\<lambda>w. Q (w_db w)) (get_resource P c rt i)"
  unfolding get_resource_def by (intro keeps keeps_world ext_hook_keeps status_keeps)

lemma get_resources_keeps: "keeps (\<lambda>w. Q (w_db w)) (get_resources P c rt flt)"
  unfolding get_resources_def by (intro keeps keeps_world ext_hook_keeps status_keeps)

lemma tenant_hook_keeps: "keeps (\<lambda>w. Q (w_db w)) (Plugin_World.ensure_tenant P c t)"
  by (cases t) (simp_all add: Plugin_World.ensure_tenant_def keeps_return ensure_tenant_keeps)

lemma original_keeps:
  "keeps (\<lambda>w. Q (w_db w)) (own_get P c rt i)" "keeps (\<lambda>w. Q (w_db w)) (super_get P c rt i)"
  by (simp_all add: own_get_def super_get_def get_resource_keeps keeps_world)

lemma delete_handler_keeps: "keeps (\<lambda>w. Q (w_db w)) (delete_handler P c rt i g)"
  unfolding delete_handler_def
  by (intro keeps keeps_world get_resource_keeps policy_hook_keeps keeps_db)

lemma update_handler_keeps:
  "keeps (\<lambda>w. Q (w_db w)) get \<Longrightarrow> keeps (\<lambda>w. Q (w_db w)) (update_handler P c i u get g ch)"
  unfolding update_handler_def Let_def
  by (intro keeps keeps_world get_resource_keeps policy_hook_keeps ext_hook_keeps keeps_db)

lemma create_handler_keeps:
  "(\<And>j. keeps (\<lambda>w. Q (w_db w)) (del j)) \<Longrightarrow> keeps (\<lambda>w. Q (w_db w)) (create_handler P c i r ch late del)"
  unfolding create_handler_def Let_def
  by (intro keeps keeps_world get_resource_keeps policy_hook_keeps ext_hook_keeps keeps_db
      tenant_hook_keeps)

lemma handle_update_keeps: "keeps (\<lambda>w. Q (w_db w)) (handle_update P c i u)"
  by (cases u) (simp_all add: update_handler_defs update_handler_keeps original_keeps)

lemma delete_group_keeps: "keeps (\<lambda>w. Q (w_db w)) (plugin_delete_policy_target_group fuel P c i)"
proof (induction fuel arbitrary: i)
  case 0
  show ?case by (simp add: keeps_pair)
next
  case (Suc fuel)
  have pre: "keeps (\<lambda>w. Q (w_db w)) (delete_ptg_precommit P c i)"
    unfolding delete_ptg_precommit_def
    by (intro keeps keeps_world get_resource_keeps get_resources_keeps policy_hook_keeps)
      (auto intro!: keeps keeps_world split: list.splits)
  have up: "keeps (\<lambda>w. Q (w_db w)) (plugin_update_policy_target_group P c i clear_rule_sets)"
    using handle_update_keeps[of c i "UpdPolicyTargetGroup clear_rule_sets"] by simp
  have proxy: "keeps (\<lambda>w. Q (w_db w))
      (case ref_list p of [] \<Rightarrow> act_return ()
       | g # _ \<Rightarrow> act_catch (plugin_delete_policy_target_group fuel P c g) (\<lambda>e.
           case e of GbpExn (NotFound PolicyTargetGroup j) \<Rightarrow> act_return () | _ \<Rightarrow> act_raise e))" for p
    using Suc by (cases "ref_list p")
      (auto intro!: keeps split: py_exn.splits gbp_error.splits res_type.splits)
  have pt: "keeps (\<lambda>w. Q (w_db w)) (plugin_delete_policy_target P c j)" for j
    by (simp add: plugin_delete_policy_target_def delete_handler_keeps)
  show ?case
    unfolding plugin_delete_policy_target_group.simps
    by (intro keeps_bind[OF pre]) (simp only: split_beta, intro keeps up proxy get_resources_keeps
      keeps_world keeps_db pt policy_hook_keeps)
qed

lemma handle_delete_keeps: "keeps (\<lambda>w. Q (w_db w)) (handle_delete fuel P c rt i)"
  by (cases rt)
     (auto simp: delete_handler_defs intro!: delete_handler_keeps delete_group_keeps keeps keeps_world)

lemma handle_create_keeps: "keeps (\<lambda>w. Q (w_db w)) (handle_create fuel P c i ips r)"
  using handle_delete_keeps[of fuel c _]
  by (cases r)
     (auto simp: create_handler_defs intro!: create_handler_keeps delete_handler_keeps delete_group_keeps keeps
       simp: delete_handler_defs keeps_world)

end

end
