(* ===== verification/Plugin_Refinement.thy ===== *)
theory Plugin_Refinement
  imports Plugin_Contracts
begin

text \<open>
  The request handlers refine the validated requests of \<open>Plugin_Safety\<close>: with drivers that leave
  the policy database and the policy context alone (they may do anything else, and fail), every
  handler, also one that fails, changes the database by validated requests only.  The integrity
  and the sharing rules of the database are then guaranteed by the handlers end to end.
\<close>

section \<open>The handlers keep the integrity of the database\<close>

lemma create_dict_obj: "create_obj e c i r db = bindE (create_dict e c i r db) (\<lambda>(db', d). Inr (db', view_of d))"
  by (cases r) (auto simp: with_obj_def with_dict_def bindE_def split: sum.splits)

lemma update_dict_obj: "update_obj e c i u db = bindE (update_dict e c i u db) (\<lambda>(db', d). Inr (db', view_of d))"
  by (cases u) (auto simp: with_obj_def with_dict_def bindE_def split: sum.splits)

lemma get_dict_obj: "get_obj e c rt i db = bindE (get_dict e c rt i db) (\<lambda>d. Inr (view_of d))"
  by (cases rt) (auto simp: bindE_def split: sum.splits)

lemma create_row_inv: "db_inv db \<Longrightarrow> create_row e c i r db = Inr (db', d) \<Longrightarrow> db_inv db'"
  using create_obj_exec[of e c i r db db' "view_of d"] exec_create_id_inv[of e c i r db db']
  by (auto simp: create_row_def create_dict_obj split: if_splits)

lemma update_dict_inv: "db_inv db \<Longrightarrow> update_dict e c i u db = Inr (db', d) \<Longrightarrow> db_inv db'"
  using update_obj_exec[of e c i u db db' "view_of d"] exec_update_inv[of e c i u db db']
  by (auto simp: update_dict_obj)

definition drivers_keep :: "(gbp_db \<Rightarrow> bool) \<Rightarrow> ('t, 'o) plugin \<Rightarrow> bool" where
  "drivers_keep Q P \<longleftrightarrow>
     (\<forall>d \<in> set (ordered_policy_drivers (pl_manager P)).
        (\<forall>m. keeps (\<lambda>w. Q (w_db w)) (pd_call d m)) \<and>
        (\<forall>c t. keeps (\<lambda>w. Q (w_db w)) (pd_ensure_tenant d c t)) \<and>
        keeps (\<lambda>w. Q (w_db w)) (pd_start_rpc_listeners d)) \<and>
     reverse_ordered_policy_drivers (pl_manager P) = rev (ordered_policy_drivers (pl_manager P)) \<and>
     (\<forall>x \<in> set (pl_extensions P).
        (\<forall>m data. keeps (\<lambda>w. Q (w_db w)) (xd_process x m data)) \<and>
        (\<forall>m. keeps (\<lambda>w. Q (w_db w)) (xd_extend x m)))"

lemma plugin_contract_inv:
  assumes "drivers_keep db_inv P"
  shows "plugin_contract db_inv P"
proof unfold_locales
  fix db c i r db' d
  assume "db_inv db" "create_row (pl_env P) c i r db = Inr (db', d)"
  then show "db_inv db'" by (rule create_row_inv)
next
  fix db c i u db' d
  assume "db_inv db" "update_dict (pl_env P) c i u db = Inr (db', d)"
  then show "db_inv db'" by (rule update_dict_inv)
next
  fix db c rt i db'
  assume "db_inv db" "exec_delete c rt i db = Inr db'"
  then show "db_inv db'" using exec_delete_inv by blast
qed (use assms in \<open>auto simp: drivers_keep_def\<close>)

datatype plugin_request =
    PluginCreate "fixed_ip list option" create_req
  | PluginUpdate string update_req
  | PluginDelete res_type string

fun handle ::
  "nat \<Rightarrow> ('t, 'o) plugin \<Rightarrow> ctx \<Rightarrow> string \<Rightarrow> plugin_request \<Rightarrow> (('t, 'o) world, unit) act" where
  "handle fuel P c i (PluginCreate ips r) = act_bind (handle_create fuel P c i ips r) (\<lambda>_. act_return ())"
| "handle fuel P c i (PluginUpdate j u) = act_bind (handle_update P c j u) (\<lambda>_. act_return ())"
| "handle fuel P c i (PluginDelete rt j) = handle_delete fuel P c rt j"

text \<open>A server that handles one request after the other; a failing one is answered and forgotten.\<close>

fun serve :: "nat \<Rightarrow> ('t, 'o) plugin \<Rightarrow> (ctx \<times> string \<times> plugin_request) list \<Rightarrow> ('t, 'o) world \<Rightarrow> ('t, 'o) world" where
  "serve fuel P [] w = w"
| "serve fuel P ((c, i, r) # rest) w = serve fuel P rest (snd (handle fuel P c i r w))"

lemma handle_keeps:
  assumes "plugin_contract Q P"
  shows "keeps (\<lambda>w. Q (w_db w)) (handle fuel P c i r)"
  by (cases r)
     (auto intro!: keeps plugin_contract.handle_create_keeps[OF assms]
       plugin_contract.handle_update_keeps[OF assms] plugin_contract.handle_delete_keeps[OF assms])

lemma serve_keeps: "plugin_contract Q P \<Longrightarrow> Q (w_db w) \<Longrightarrow> Q (w_db (serve fuel P rs w))"
proof (induction fuel P rs w rule: serve.induct)
  case (2 fuel P c i r rest w)
  from "2.prems" handle_keeps[of Q P fuel c i r] have "Q (w_db (snd (handle fuel P c i r w)))"
    by (simp add: keeps_def)
  with "2.IH" "2.prems"(1) show ?case by simp
qed simp

text \<open>As long as the drivers keep the integrity of the policy database when they change it, any
  sequence of requests, failing ones included, leaves it intact: unique ids, associations between
  existing rows, a two-level rule set hierarchy without cycles, and no external address held
  twice.\<close>

theorem handlers_keep_integrity:
  assumes "drivers_keep db_inv P" and "db_inv (w_db w)"
  shows "db_inv (w_db (serve fuel P requests w))"
  by (rule serve_keeps[OF plugin_contract_inv[OF assms(1)] assms(2)])

section \<open>Drivers that leave the policy database alone\<close>

definition still :: "(('t, 'o) world, 'a) act \<Rightarrow> bool" where
  "still m \<longleftrightarrow> (\<forall>db cx. keeps (\<lambda>w. w_db w = db \<and> w_context w = cx) m)"

lemma stillD: "still m \<Longrightarrow> m w = (r, w') \<Longrightarrow> w_db w' = w_db w \<and> w_context w' = w_context w"
  unfolding still_def keeps_def by (metis snd_conv)

definition hands_off :: "('t, 'o) plugin \<Rightarrow> bool" where
  "hands_off P \<longleftrightarrow>
     (\<forall>d \<in> set (ordered_policy_drivers (pl_manager P)).
        (\<forall>m. still (pd_call d m)) \<and> (\<forall>c t. still (pd_ensure_tenant d c t)) \<and>
        still (pd_start_rpc_listeners d)) \<and>
     reverse_ordered_policy_drivers (pl_manager P) = rev (ordered_policy_drivers (pl_manager P)) \<and>
     (\<forall>x \<in> set (pl_extensions P). (\<forall>m data. still (xd_process x m data)) \<and> (\<forall>m. still (xd_extend x m)))"

lemma hands_off_manager:
  "hands_off P \<Longrightarrow> driver_contract (\<lambda>w. w_db w = db \<and> w_context w = cx) (pl_manager P)"
  unfolding driver_contract_def hands_off_def still_def by blast

lemma policy_hook_still: "hands_off P \<Longrightarrow> still (policy_hook P rt h)"
  unfolding still_def policy_hook_def
  by (intro allI keeps driver_contract.hook_keeps[OF hands_off_manager])

lemma ensure_tenant_still: "hands_off P \<Longrightarrow> still (Plugin_World.ensure_tenant P c t)"
  unfolding still_def Plugin_World.ensure_tenant_def
  by (cases t) (auto intro!: keeps driver_contract.ensure_tenant_keeps[OF hands_off_manager])

text \<open>
  Reading only needs less: the extension drivers, and the drivers when they are asked for a status.
\<close>

definition reads_still :: "('t, 'o) plugin \<Rightarrow> bool" where
  "reads_still P \<longleftrightarrow> (\<forall>rt. still (policy_hook P rt GetStatus)) \<and>
     (\<forall>x \<in> set (pl_extensions P). (\<forall>m data. still (xd_process x m data)) \<and> (\<forall>m. still (xd_extend x m)))"

lemma hands_off_reads: "hands_off P \<Longrightarrow> reads_still P"
  using policy_hook_still[of P] unfolding reads_still_def hands_off_def by blast

lemma ext_manager_still:
  assumes "reads_still P"
  shows "still (ext_manager_hook (pl_extensions P) rt h data)"
proof -
  have "still (call_on_ext_drivers (pl_extensions P) m data)" for m
    using assms unfolding still_def call_on_ext_drivers_def reads_still_def
    by (intro allI keeps) (auto intro!: keeps simp: still_def)
  moreover have "still (extend_dict (pl_extensions P) m)" for m
    using assms unfolding still_def extend_dict_def reads_still_def
    by (intro allI keeps) (auto simp: still_def)
  ultimately show ?thesis by (cases rt; cases h) simp_all
qed

lemma ext_hook_reads:
  assumes "reads_still P" and "ext_hook_on P c rt h data d w = (r, w')"
  shows "w_db w' = w_db w \<and> (\<forall>d'. r = Inr d' \<longrightarrow> d' = d)"
proof -
  obtain r1 w1 where x: "ext_manager_hook (pl_extensions P) rt h data (snd (set_context c d None w)) = (r1, w1)"
    by (cases "ext_manager_hook (pl_extensions P) rt h data (snd (set_context c d None w))")
  from stillD[OF ext_manager_still[OF assms(1)] x] assms(2) x show ?thesis
    by (cases r1) (auto simp: ext_hook_on_def act_bind_def set_context_def current_dict_def)
qed

lemma status_reads:
  assumes "reads_still P" and "get_status_from_drivers P c rt d w = (r, w')"
  shows "w_db w' = w_db w \<and> (\<forall>d'. r = Inr d' \<longrightarrow> d' = d)"
proof -
  obtain r1 w1 where x: "policy_hook P rt GetStatus (snd (set_context c d (Some d) w)) = (r1, w1)"
    by (cases "policy_hook P rt GetStatus (snd (set_context c d (Some d) w))")
  have s: "still (policy_hook P rt GetStatus)" using assms(1) by (simp add: reads_still_def)
  from stillD[OF s x] assms(2) x show ?thesis
    by (cases r1) (auto simp: get_status_from_drivers_def act_bind_def set_context_def current_dict_def)
qed

lemma get_resource_reads:
  assumes "reads_still P" and "get_resource P c rt i w = (r, w')"
  shows "w_db w' = w_db w \<and> (\<forall>d. r = Inr d \<longrightarrow> get_dict (pl_env P) c rt i (w_db w) = Inr d)"
proof (cases r)
  case (Inl e)
  with assms(2) show ?thesis by (auto simp: get_resource_def dest: transaction_Inl)
next
  case (Inr d)
  with assms(2) obtain d1 w1 d2 w2 where
    "get_dict (pl_env P) c rt i (w_db w) = Inr d1" "w1 = w"
    and e: "ext_hook_on P c rt ExtendDict NoRequest d1 w = (Inr d2, w2)"
    and s: "get_status_from_drivers P c rt d2 w2 = (Inr d, w')"
    by (auto simp: get_resource_def transaction_Inr act_bind_Inr db_read_def act_lift_def split: sum.splits)
  with ext_hook_reads[OF assms(1) e] status_reads[OF assms(1) s] Inr show ?thesis by auto
qed

lemmas ext_hook_on_still = ext_hook_reads[OF hands_off_reads]
lemmas status_still = status_reads[OF hands_off_reads]
lemmas get_resource_still = get_resource_reads[OF hands_off_reads]

section \<open>The handlers refine the validated requests\<close>

definition quiet :: "(('t, 'o) world, 'a) act \<Rightarrow> bool" where
  "quiet m \<longleftrightarrow> (\<forall>w r w'. m w = (r, w') \<longrightarrow> w_db w' = w_db w)"

lemma quiet_keeps: "quiet m \<longleftrightarrow> (\<forall>db. keeps (\<lambda>w. w_db w = db) m)"
  unfolding quiet_def keeps_def by (metis prod.collapse snd_conv)

definition by_steps :: "db_env \<Rightarrow> ctx \<Rightarrow> (('t, 'o) world, 'a) act \<Rightarrow> bool" where
  "by_steps e c m \<longleftrightarrow> (\<forall>db. keeps (\<lambda>w. (plugin_step e c)\<^sup>*\<^sup>* db (w_db w)) m)"

lemma by_stepsD: "by_steps e c m \<Longrightarrow> m w = (r, w') \<Longrightarrow> (plugin_step e c)\<^sup>*\<^sup>* (w_db w) (w_db w')"
  unfolding by_steps_def using keepsD[of "\<lambda>v. (plugin_step e c)\<^sup>*\<^sup>* (w_db w) (w_db v)" m w r w'] by blast

lemma by_stepsI:
  assumes "\<And>w r w'. m w = (r, w') \<Longrightarrow> w_db w' = w_db w \<or> plugin_step e c (w_db w) (w_db w')"
  shows "by_steps e c m"
  unfolding by_steps_def
proof (intro allI keepsI)
  fix db w r w'
  assume "(plugin_step e c)\<^sup>*\<^sup>* db (w_db w)" and "m w = (r, w')"
  with assms[of w r w'] show "(plugin_step e c)\<^sup>*\<^sup>* db (w_db w')"
    by (auto intro: rtranclp.rtrancl_into_rtrancl)
qed

lemma by_steps_quiet: "quiet m \<Longrightarrow> by_steps e c m"
  by (rule by_stepsI) (simp add: quiet_def)

lemma by_steps_bind: "by_steps e c m \<Longrightarrow> (\<And>x. by_steps e c (f x)) \<Longrightarrow> by_steps e c (act_bind m f)"
  unfolding by_steps_def by (auto intro: keeps_bind)

lemma by_steps_catch: "by_steps e c m \<Longrightarrow> (\<And>x. by_steps e c (h x)) \<Longrightarrow> by_steps e c (act_catch m h)"
  unfolding by_steps_def by (auto intro: keeps_catch)

lemma by_steps_each: "(\<And>x. by_steps e c (f x)) \<Longrightarrow> by_steps e c (act_each f xs)"
  unfolding by_steps_def by (auto intro: keeps_each)

lemma quiet_basic:
  "quiet (act_return x)" "quiet (act_raise e)" "quiet (act_lift s)" "quiet (db_read f)"
  "quiet (set_context c d orig)" "quiet (current_dict d)" "quiet (proxy_group_of P i)"
  "quiet (is_port_bound P p)"
  unfolding quiet_keeps
  by (intro allI keeps keeps_db_read[of "\<lambda>w. w = _"] keeps_set_context[of "\<lambda>w. w = _"]
      keeps_current_dict[of "\<lambda>w. w = _"] keeps_proxy[of "\<lambda>w. w = _"] keeps_port[of "\<lambda>w. w = _"])+

lemma quiet_bind: "quiet m \<Longrightarrow> (\<And>x. quiet (f x)) \<Longrightarrow> quiet (act_bind m f)"
  unfolding quiet_keeps by (auto intro: keeps_bind)

lemma quiet_catch: "quiet m \<Longrightarrow> (\<And>x. quiet (h x)) \<Longrightarrow> quiet (act_catch m h)"
  unfolding quiet_keeps by (auto intro: keeps_catch)

lemma quiet_each: "(\<And>x. quiet (f x)) \<Longrightarrow> quiet (act_each f xs)"
  unfolding quiet_keeps by (auto intro: keeps_each)

lemma quiet_map: "(\<And>x. quiet (f x)) \<Longrightarrow> quiet (act_map f xs)"
  unfolding quiet_keeps by (auto intro: keeps_act_map)

lemma quiet_transaction: "quiet m \<Longrightarrow> quiet (transaction m)"
  unfolding quiet_keeps by (auto intro: keeps_transaction[of "\<lambda>w. w = _"])

lemma still_quiet: "still m \<Longrightarrow> quiet m"
  by (auto simp: quiet_def dest: stillD)

lemmas quiet_intros = quiet_basic quiet_bind quiet_catch quiet_each quiet_map quiet_transaction

lemma quiet_plugin:
  assumes "hands_off P"
  shows "quiet (policy_hook P rt h)" "quiet (Plugin_World.ensure_tenant P c t)"
    "quiet (ext_hook_on P c rt xh data d)" "quiet (get_status_from_drivers P c rt d)"
    "quiet (get_resource P c rt i)"
  using still_quiet[OF policy_hook_still[OF assms]] still_quiet[OF ensure_tenant_still[OF assms]]
    ext_hook_on_still[OF assms] status_still[OF assms] get_resource_still[OF assms]
  by (auto simp: quiet_def)

lemma get_resources_quiet: "hands_off P \<Longrightarrow> quiet (get_resources P c rt flt)"
  unfolding get_resources_def by (intro quiet_intros quiet_plugin)

lemma transaction_quiet_or:
  assumes "\<And>w r w'. m w = (Inr r, w') \<Longrightarrow> plugin_step e c (w_db w) (w_db w')"
  shows "by_steps e c (transaction m)"
proof (rule by_stepsI)
  fix w r w' assume t: "transaction m w = (r, w')"
  show "w_db w' = w_db w \<or> plugin_step e c (w_db w) (w_db w')"
  proof (cases r)
    case (Inl x)
    with t transaction_Inl show ?thesis by metis
  next
    case (Inr x)
    with t assms show ?thesis by (simp add: transaction_Inr)
  qed
qed

lemma hook_quietD: "hands_off P \<Longrightarrow> policy_hook P rt h w = (r, w') \<Longrightarrow> w_db w' = w_db w"
  using quiet_plugin(1)[of P rt h] unfolding quiet_def by blast

lemma ext_hookD:
  "hands_off P \<Longrightarrow> ext_hook_on P c rt h data d w = (Inr d', w') \<Longrightarrow> w_db w' = w_db w \<and> d' = d"
  using ext_hook_on_still by blast

lemma db_parts:
  "db_act f w = (Inr x, w') \<longleftrightarrow> (\<exists>db. f (w_db w) = Inr (db, x) \<and> w' = w\<lparr> w_db := db \<rparr>)"
  "db_read g w = (Inr y, w') \<longleftrightarrow> g (w_db w) = Inr y \<and> w' = w"
  "act_lift m w = (Inr y, w') \<longleftrightarrow> m = Inr y \<and> w' = w"
  "set_context c d orig w = (u, w') \<Longrightarrow> w_db w' = w_db w"
  "current_dict d w = (z, w') \<Longrightarrow> w' = w"
  by (auto simp: db_act_def db_read_def act_lift_def set_context_def current_dict_def split: sum.splits)

lemma create_handler_steps:
  assumes p: "hands_off P" and del: "\<And>j. by_steps (pl_env P) c (del j)"
  shows "by_steps (pl_env P) c (create_handler P c i r ch late del)"
proof -
  define tx where "tx = act_bind (db_act (create_row (pl_env P) c i r)) (\<lambda>created.
        act_bind (ext_hook_on P c (create_type r) ProcessCreate (CreateRequest r) created) (\<lambda>result.
        act_bind (db_read (\<lambda>db. validate_shared_create c db (view_of result) (create_type r))) (\<lambda>_.
        act_bind (db_read (\<lambda>db. ch db result)) (\<lambda>_.
        act_bind (set_context c result None) (\<lambda>_.
        act_bind (policy_hook P (create_type r) CreatePrecommit) (\<lambda>_.
        act_bind (current_dict result) (\<lambda>result'.
        act_bind (db_read (\<lambda>db. late db result')) (\<lambda>_.
          act_return result'))))))))"
  have "plugin_step (pl_env P) c (w_db w) (w_db w')" if t: "tx w = (Inr x, w')" for w x w'
  proof -
    from t obtain db1 d where "create_row (pl_env P) c i r (w_db w) = Inr (db1, d)"
      and v: "validate_shared_create c db1 (view_of d) (create_type r) = Inr ()" and w': "w_db w' = db1"
      unfolding tx_def
      by (auto simp: act_bind_Inr db_parts dest!: ext_hookD[OF p] hook_quietD[OF p] db_parts(4,5))
    then have "create_id i r \<notin> set (table_ids (create_type r) (w_db w))"
        "create_dict (pl_env P) c i r (w_db w) = Inr (db1, d)"
      by (auto simp: create_row_def split: if_splits)
    with v show ?thesis unfolding w'
      by (intro plugin_step.create[where i = i and r = r and ob = "view_of d"])
        (simp_all add: checked_create_def create_dict_obj)
  qed
  then have "by_steps (pl_env P) c (transaction tx)" by (rule transaction_quiet_or)
  then show ?thesis
    unfolding create_handler_def Let_def tx_def
    by (intro by_steps_bind by_steps_catch del) (auto intro!: by_steps_quiet quiet_plugin[OF p] quiet_basic)
qed

lemma super_get_Inr: "super_get P c rt i w = (Inr d, w') \<longleftrightarrow> get_dict (pl_env P) c rt i (w_db w) = Inr d \<and> w' = w"
  by (simp add: super_get_def db_parts)

definition reads_original :: "('t, 'o) plugin \<Rightarrow> ctx \<Rightarrow> res_type \<Rightarrow> string \<Rightarrow> (('t, 'o) world, res_dict) act \<Rightarrow> bool" where
  "reads_original P c rt i get \<longleftrightarrow>
     (\<forall>w d w'. get w = (Inr d, w') \<longrightarrow> get_dict (pl_env P) c rt i (w_db w) = Inr d \<and> w_db w' = w_db w)"

lemma reads_original_get:
  "hands_off P \<Longrightarrow> reads_original P c rt i (own_get P c rt i)"
  "reads_original P c rt i (super_get P c rt i)"
  using get_resource_still[of P c rt i] by (auto simp: reads_original_def own_get_def super_get_Inr)

lemma update_handler_steps:
  assumes p: "hands_off P" and o: "reads_original P c (update_type u) i get"
    and g: "\<And>db db' d d'. get_dict (pl_env P) c (update_type u) i db = Inr d \<Longrightarrow>
       update_dict (pl_env P) c i u db = Inr (db', d') \<Longrightarrow> guard d d' = Inr () \<Longrightarrow>
       l2p_update_guard u (view_of d) (view_of d') = Inr ()"
  shows "by_steps (pl_env P) c (update_handler P c i u get guard ch)"
proof -
  define tx where "tx = act_bind get (\<lambda>original.
        act_bind (db_act (update_dict (pl_env P) c i u)) (\<lambda>changed.
        act_bind (act_lift (guard original changed)) (\<lambda>_.
        act_bind (ext_hook_on P c (update_type u) ProcessUpdate (UpdateRequest u) changed) (\<lambda>updated.
        act_bind (db_read (\<lambda>db. validate_shared_update c db (view_of original) (view_of updated) (update_type u))) (\<lambda>_.
        act_bind (db_read (\<lambda>db. ch db updated original)) (\<lambda>_.
        act_bind (set_context c updated (Some original)) (\<lambda>_.
          policy_hook P (update_type u) UpdatePrecommit)))))))"
  have "plugin_step (pl_env P) c (w_db w) (w_db w')" if t: "tx w = (Inr x, w')" for w x w'
  proof -
    from t obtain d w1 where r: "get w = (Inr d, w1)"
      and t1: "act_bind (db_act (update_dict (pl_env P) c i u)) (\<lambda>changed.
        act_bind (act_lift (guard d changed)) (\<lambda>_.
        act_bind (ext_hook_on P c (update_type u) ProcessUpdate (UpdateRequest u) changed) (\<lambda>updated.
        act_bind (db_read (\<lambda>db. validate_shared_update c db (view_of d) (view_of updated) (update_type u))) (\<lambda>_.
        act_bind (db_read (\<lambda>db. ch db updated d)) (\<lambda>_.
        act_bind (set_context c updated (Some d)) (\<lambda>_.
          policy_hook P (update_type u) UpdatePrecommit)))))) w1 = (Inr x, w')"
      unfolding tx_def act_bind_Inr by blast
    from o r have d: "get_dict (pl_env P) c (update_type u) i (w_db w) = Inr d" and w1: "w_db w1 = w_db w"
      by (auto simp: reads_original_def)
    from t1 w1 obtain db1 d' where u: "update_dict (pl_env P) c i u (w_db w) = Inr (db1, d')"
      and gd: "guard d d' = Inr ()" and w': "w_db w' = db1"
      and v: "validate_shared_update c db1 (view_of d) (view_of d') (update_type u) = Inr ()"
      by (auto simp: act_bind_Inr db_parts dest!: ext_hookD[OF p] hook_quietD[OF p] db_parts(4,5))
    with d g[OF d u gd] show ?thesis unfolding w'
      by (intro plugin_step.update[where i = i and u = u and ob = "view_of d'"])
        (simp add: checked_update_def get_dict_obj update_dict_obj)
  qed
  then have "by_steps (pl_env P) c (transaction tx)" by (rule transaction_quiet_or)
  then show ?thesis
    unfolding update_handler_def Let_def tx_def
    by (intro by_steps_bind) (auto intro!: by_steps_quiet quiet_plugin[OF p])
qed

lemma delete_handler_steps:
  assumes p: "hands_off P"
    and g: "\<And>db d. get_dict (pl_env P) c rt i db = Inr d \<Longrightarrow> guard d = Inr () \<Longrightarrow>
       checked_delete (pl_env P) c rt i db = exec_delete c rt i db"
  shows "by_steps (pl_env P) c (delete_handler P c rt i guard)"
proof -
  define tx where "tx = act_bind (get_resource P c rt i) (\<lambda>resource.
       act_bind (act_lift (guard resource)) (\<lambda>_.
       act_bind (set_context c resource None) (\<lambda>_.
       act_bind (policy_hook P rt DeletePrecommit) (\<lambda>_.
         db_write (exec_delete c rt i)))))"
  have "plugin_step (pl_env P) c (w_db w) (w_db w')" if t: "tx w = (Inr x, w')" for w x w'
  proof -
    from t obtain d w1 where "get_dict (pl_env P) c rt i (w_db w) = Inr d" "guard d = Inr ()"
      and "exec_delete c rt i (w_db w) = Inr (w_db w')"
      unfolding tx_def
      by (auto simp: act_bind_Inr db_parts db_write_def bindE_eq_Inr
          dest!: get_resource_still[OF p] hook_quietD[OF p] db_parts(4,5))
    with g show ?thesis by (intro plugin_step.delete[where rt = rt and i = i]) simp
  qed
  then have "by_steps (pl_env P) c (transaction tx)" by (rule transaction_quiet_or)
  then show ?thesis
    unfolding delete_handler_def tx_def
    by (intro by_steps_bind by_steps_catch) (auto intro!: by_steps_quiet quiet_plugin[OF p] quiet_basic)
qed

lemma l2p_guard_other:
  "update_type u \<noteq> PolicyTargetGroup \<Longrightarrow> l2p_update_guard u a b = Inr ()"
  by (cases u) simp_all

lemma l2p_guard_group:
  assumes "get_dict e c PolicyTargetGroup i db = Inr d"
    and "update_dict e c i (UpdPolicyTargetGroup v) db = Inr (db', d')"
    and "ptg_l2p_kept d d' = Inr ()"
  shows "l2p_update_guard (UpdPolicyTargetGroup v) (view_of d) (view_of d') = Inr ()"
  using assms
  by (auto simp: bindE_eq_Inr with_dict_def obj_ptg_def obj_of_def attr_ids_def split: if_splits) metis+

lemma handle_update_steps: "hands_off P \<Longrightarrow> by_steps (pl_env P) c (handle_update P c i u)"
  by (cases u)
     (auto simp: update_handler_defs intro!: update_handler_steps reads_original_get
       intro: l2p_guard_other l2p_guard_group)

lemma checked_delete_other: "rt \<noteq> ExternalSegment \<Longrightarrow> checked_delete e c rt i db = exec_delete c rt i db"
  by (simp add: checked_delete_def)

lemma checked_delete_segment:
  "get_dict e c ExternalSegment i db = Inr d \<Longrightarrow> segment_unused d = Inr () \<Longrightarrow>
   checked_delete e c ExternalSegment i db = exec_delete c ExternalSegment i db"
  by (auto simp: checked_delete_def bindE_eq_Inr split: if_splits)

lemma delete_plain_steps:
  "hands_off P \<Longrightarrow> rt \<noteq> ExternalSegment \<Longrightarrow> by_steps (pl_env P) c (delete_handler P c rt i no_delete_guard)"
  by (rule delete_handler_steps) (simp_all add: checked_delete_other)

lemma group_row_steps:
  "by_steps (pl_env P) c (transaction (db_write (exec_delete c PolicyTargetGroup i)))"
proof (rule transaction_quiet_or)
  fix w x w'
  assume "db_write (exec_delete c PolicyTargetGroup i) w = (Inr x, w')"
  then have "checked_delete (pl_env P) c PolicyTargetGroup i (w_db w) = Inr (w_db w')"
    by (auto simp: db_write_def db_parts bindE_eq_Inr checked_delete_other)
  then show "plugin_step (pl_env P) c (w_db w) (w_db w')" by (rule plugin_step.delete)
qed

lemma delete_group_steps:
  assumes p: "hands_off P"
  shows "by_steps (pl_env P) c (plugin_delete_policy_target_group fuel P c i)"
proof (induction fuel arbitrary: i)
  case 0
  show ?case
    unfolding plugin_delete_policy_target_group.simps by (rule by_steps_quiet, rule quiet_basic)
next
  case (Suc fuel)
  have pre: "quiet (delete_ptg_precommit P c i)"
    unfolding delete_ptg_precommit_def
    by (intro quiet_intros quiet_plugin[OF p] get_resources_quiet[OF p])
      (auto intro!: quiet_intros split: list.splits)
  have up: "by_steps (pl_env P) c (plugin_update_policy_target_group P c i clear_rule_sets)"
    using handle_update_steps[OF p, of c i "UpdPolicyTargetGroup clear_rule_sets"] by simp
  have handler: "quiet (case e of GbpExn (NotFound PolicyTargetGroup j) \<Rightarrow> act_return () | _ \<Rightarrow> act_raise e)" for e
    by (auto intro: quiet_basic split: py_exn.splits gbp_error.splits res_type.splits)
  have proxy: "by_steps (pl_env P) c
      (case ref_list q of [] \<Rightarrow> act_return ()
       | g # _ \<Rightarrow> act_catch (plugin_delete_policy_target_group fuel P c g) (\<lambda>e.
           case e of GbpExn (NotFound PolicyTargetGroup j) \<Rightarrow> act_return () | _ \<Rightarrow> act_raise e))" for q
    by (cases "ref_list q")
      (simp_all only: list.case, rule by_steps_quiet, rule quiet_basic,
       intro by_steps_catch Suc by_steps_quiet[OF handler])
  have pt: "by_steps (pl_env P) c (plugin_delete_policy_target P c j)" for j
    unfolding plugin_delete_policy_target_def by (rule delete_plain_steps[OF p]) simp
  show ?case
    unfolding plugin_delete_policy_target_group.simps
    by (intro by_steps_bind[OF by_steps_quiet[OF pre]])
      (simp only: split_beta, intro by_steps_bind by_steps_each by_steps_catch up proxy pt group_row_steps
        by_steps_quiet[OF get_resources_quiet[OF p]] by_steps_quiet[OF quiet_plugin(1)[OF p]] by_steps_quiet[OF quiet_basic(1)]
        by_steps_quiet[OF quiet_basic(5)])
qed

lemma delete_l3p_steps: "hands_off P \<Longrightarrow> by_steps (pl_env P) c (plugin_delete_l3_policy P c i unused)"
  unfolding plugin_delete_l3_policy_def
  by (intro by_steps_bind) (auto intro!: by_steps_quiet[OF quiet_basic(4)] by_steps_quiet[OF quiet_basic(1)]
      by_steps_bind delete_plain_steps simp del: act_return_simps)

lemma delete_segment_steps:
  "hands_off P \<Longrightarrow> by_steps (pl_env P) c (delete_handler P c ExternalSegment i segment_unused)"
  by (rule delete_handler_steps) (assumption, rule checked_delete_segment)

lemmas plain_delete_defs =
  plugin_delete_policy_target_def plugin_delete_application_policy_group_def
  plugin_delete_l2_policy_def plugin_delete_network_service_policy_def plugin_delete_policy_classifier_def
  plugin_delete_policy_action_def plugin_delete_policy_rule_def plugin_delete_policy_rule_set_def
  plugin_delete_external_segment_def plugin_delete_external_policy_def plugin_delete_nat_pool_def

lemma handle_delete_steps: "hands_off P \<Longrightarrow> by_steps (pl_env P) c (handle_delete fuel P c rt i)"
  by (cases rt)
     (auto simp: plain_delete_defs intro!: delete_plain_steps delete_segment_steps delete_group_steps
       delete_l3p_steps by_steps_bind by_steps_quiet[OF quiet_basic(1)])

lemma handle_create_steps: "hands_off P \<Longrightarrow> by_steps (pl_env P) c (handle_create fuel P c i ips r)"
  by (cases r)
     (auto simp: create_handler_defs plain_delete_defs intro!: create_handler_steps delete_plain_steps
       delete_segment_steps delete_group_steps delete_l3p_steps by_steps_bind by_steps_quiet[OF quiet_basic(1)])

lemma handle_steps: "hands_off P \<Longrightarrow> by_steps (pl_env P) c (handle fuel P c i r)"
  by (cases r)
     (simp_all only: handle.simps, (intro by_steps_bind handle_create_steps handle_update_steps
       handle_delete_steps by_steps_quiet[OF quiet_basic(1)] | assumption)+)

text \<open>C1: With drivers and extension drivers that leave the policy database to the plugin, every
  request, also one that fails half way, changes the database by a sequence of validated
  creations, updates and deletions of the specification and in no other way.\<close>

theorem handlers_refine_steps:
  assumes "hands_off P" and "handle fuel P c i r w = (result, w')"
  shows "(plugin_step (pl_env P) c)\<^sup>*\<^sup>* (w_db w) (w_db w')"
  by (rule by_stepsD[OF handle_steps[OF assms(1)] assms(2)])

lemma steps_reachable:
  "(plugin_step e c)\<^sup>*\<^sup>* db db' \<Longrightarrow> c \<in> cs \<Longrightarrow> plugin_reachable e cs db \<Longrightarrow> plugin_reachable e cs db'"
  by (induction rule: rtranclp_induct) (auto intro: plugin_reachable.step)

lemma serve_reachable:
  "hands_off P \<Longrightarrow> fst ` set rs \<subseteq> cs \<Longrightarrow> plugin_reachable (pl_env P) cs (w_db w) \<Longrightarrow>
   plugin_reachable (pl_env P) cs (w_db (serve fuel P rs w))"
proof (induction fuel P rs w rule: serve.induct)
  case (2 fuel P c i r rest w)
  have "(plugin_step (pl_env P) c)\<^sup>*\<^sup>* (w_db w) (w_db (snd (handle fuel P c i r w)))"
    by (rule by_stepsD[OF handle_steps[OF "2.prems"(1)]]) (rule surjective_pairing)
  with "2.prems" have "plugin_reachable (pl_env P) cs (w_db (snd (handle fuel P c i r w)))"
    by (auto intro: steps_reachable)
  with "2.IH" "2.prems" show ?case by simp
qed simp

text \<open>C2: Take a server whose drivers and extension drivers leave the policy database to the plugin
  (the implicit driver does not), that starts with an empty policy database and answers any sequence
  of requests, of any tenants whose elevated context sees every row, and with any failures.  It
  keeps every reference that the plugin validates pointing to an existing resource, and a shared
  resource never refers to one that is not shared that way.  These are the attributes of the usage
  graph but the parent of a rule set, which is written by the parent's request: a parent exists and
  is another rule set, but it need not be shared.  The application policy group of a group is not in
  the usage graph and nothing is said of it.\<close>

theorem served_shared_uses_shared:
  assumes "hands_off P" and "w_db w = empty_db" and "\<forall>(c, i, r) \<in> set requests. admin_sees_all c"
    and "db = w_db (serve fuel P requests w)"
  shows "(\<forall>rt k rt' j. uses db rt k rt' j \<longrightarrow>
      j \<in> set (table_ids rt' db) \<and> (shared_in db rt k \<longrightarrow> shared_in db rt' j)) \<and>
    (\<forall>r \<in> set (tb_prss db). \<forall>p. prs_parent_id r = Some p \<longrightarrow>
      p \<noteq> row_id r \<and> p \<in> set (table_ids PolicyRuleSet db))"
proof -
  have "plugin_reachable (pl_env P) (fst ` set requests) db"
    using assms(2) unfolding assms(4)
    by (intro serve_reachable[OF assms(1)]) (auto intro: plugin_reachable.init)
  with assms(3) have inv: "db_inv db \<and> use_inv db" by (intro plugin_reachable_inv) fastforce+
  then have "use_inv db" and "prs_tree (tb_prss db)" by (auto simp: db_inv_def prs_inv_def)
  moreover have "p \<in> set (table_ids PolicyRuleSet db)" if "\<exists>q \<in> set (tb_prss db). row_id q = p" for p
    using that by (auto simp: ids_def)
  ultimately show ?thesis unfolding use_inv_def prs_tree_def by blast
qed

section \<open>The plugin with the drivers that do nothing\<close>

definition idle_plugin :: "db_env \<Rightarrow> range_parser \<Rightarrow> string list \<Rightarrow> ('t, 'o) plugin" where
  "idle_plugin e parse names =
     \<lparr> pl_env = e, pl_manager = register_policy_drivers (\<lambda>_. False) (map noop_driver names), pl_extensions = [],
       pl_parse = parse, pl_subnet_cidr = (\<lambda>_. Inl BlankPrimaryKey), pl_servicechain_spec = (\<lambda>_. Inl BlankPrimaryKey),
       pl_get_port = (\<lambda>_ _. Inl BlankPrimaryKey), pl_proxy_group_id = (\<lambda>_ _. None) \<rparr>"

lemma idle_drivers: "d \<in> set (ordered_policy_drivers (pl_manager (idle_plugin e parse names))) \<Longrightarrow> \<exists>n. d = noop_driver n"
  by (auto simp: idle_plugin_def register_policy_drivers_def)

lemma idle_reverse:
  "reverse_ordered_policy_drivers (pl_manager (idle_plugin e parse names)) =
   rev (ordered_policy_drivers (pl_manager (idle_plugin e parse names)))"
  by (simp add: idle_plugin_def register_policy_drivers_def)

lemma idle_keeps: "drivers_keep Q (idle_plugin e parse names)"
  unfolding drivers_keep_def
  by (auto simp: idle_reverse dest!: idle_drivers)
     (auto simp: noop_driver_def idle_plugin_def keeps_return)

lemma idle_hands_off: "hands_off (idle_plugin e parse names)"
  unfolding hands_off_def
  by (auto simp: idle_reverse dest!: idle_drivers)
     (auto simp: noop_driver_def idle_plugin_def still_def keeps_return)

interpretation idle: plugin_contract db_inv "idle_plugin e parse names"
  by (rule plugin_contract_inv[OF idle_keeps])

definition demo_plugin :: "(unit, unit) plugin" where
  "demo_plugin = idle_plugin demo_env demo_parse [''dummy'']"

definition demo_world :: "(unit, unit) world" where
  "demo_world = \<lparr> w_db = empty_db, w_tables = (), w_outside = (), w_context = None \<rparr>"

text \<open>The requests of the scenario, then a deletion that is refused and one that is not.\<close>

definition demo_requests :: "(ctx \<times> string \<times> plugin_request) list" where
  "demo_requests =
     map (\<lambda>(i, x). (demo_ctx, i, case x of Create r \<Rightarrow> PluginCreate None r | _ \<Rightarrow> PluginDelete L3Policy i)) demo_script
     @ [(demo_ctx, ''x1'', PluginDelete PolicyRule ''r1''), (demo_ctx, ''x2'', PluginDelete PolicyRuleSet ''s2'')]"

definition demo_served :: gbp_db where
  "demo_served = w_db (serve 3 demo_plugin demo_requests demo_world)"

lemma demo_served_ids:
  "table_ids PolicyRule demo_served = [''r1''] \<and> table_ids PolicyRuleSet demo_served = [''s1''] \<and>
   table_ids L3Policy demo_served = [''l1'']"
  by code_simp

lemma handlers_keep_integrity_witness: "db_inv demo_served"
  unfolding demo_served_def demo_plugin_def
  by (rule handlers_keep_integrity[OF idle_keeps]) (simp add: demo_world_def db_inv_empty)

lemma demo_requests_admin: "\<forall>(c, i, r) \<in> set demo_requests. admin_sees_all c"
  by (auto simp: demo_requests_def demo_admin)

lemma served_shared_uses_shared_witness:
  "''a1'' \<in> set (table_ids PolicyAction demo_served)"
proof -
  have off: "hands_off demo_plugin" by (simp add: demo_plugin_def idle_hands_off)
  have empty: "w_db demo_world = empty_db" by (simp add: demo_world_def)
  have "uses demo_served PolicyRule ''r1'' PolicyAction ''a1''" by code_simp
  with served_shared_uses_shared[OF off empty demo_requests_admin demo_served_def] show ?thesis by blast
qed

text \<open>
  The reference that no validation keeps: a shared rule set becomes the child of one that is not
  shared, by the request for the parent.
\<close>

definition demo_private_requests :: "(ctx \<times> string \<times> plugin_request) list" where
  "demo_private_requests =
     [(demo_ctx, ''s1'', PluginCreate None (NewPolicyRuleSet ((demo_rule_set [] [])\<lparr> bd_shared := Some True \<rparr>))),
      (demo_ctx, ''s2'', PluginCreate None (NewPolicyRuleSet (demo_rule_set [] [''s1''])))]"

lemma shared_child_of_private_parent:
  "let db = w_db (serve 1 demo_plugin demo_private_requests demo_world)
   in map prs_parent_id (tb_prss db) = [Some ''s2'', None] \<and>
      shared_in db PolicyRuleSet ''s1'' \<and> \<not> shared_in db PolicyRuleSet ''s2''"
  by code_simp

lemma demo_refused:
  "fst (handle 3 demo_plugin demo_ctx ''x1'' (PluginDelete PolicyRule ''r1'')
     (serve 3 demo_plugin demo_requests demo_world)) = Inl (GbpExn (InUse PolicyRule ''r1''))"
  by code_simp

lemma handlers_refine_steps_witness:
  "\<exists>w' :: (unit, unit) world. (plugin_step demo_env demo_ctx)\<^sup>*\<^sup>* demo_served (w_db w') \<and>
     fst (handle 3 demo_plugin demo_ctx ''x1'' (PluginDelete PolicyRule ''r1'')
       (serve 3 demo_plugin demo_requests demo_world)) = Inl (GbpExn (InUse PolicyRule ''r1''))"
proof -
  have off: "hands_off demo_plugin" by (simp add: demo_plugin_def idle_hands_off)
  have env: "pl_env demo_plugin = demo_env" by (simp add: demo_plugin_def idle_plugin_def)
  have "(plugin_step demo_env demo_ctx)\<^sup>*\<^sup>* demo_served
      (w_db (snd (handle 3 demo_plugin demo_ctx ''x1'' (PluginDelete PolicyRule ''r1'')
        (serve 3 demo_plugin demo_requests demo_world))))"
    unfolding demo_served_def env[symmetric]
    by (rule handlers_refine_steps[OF off surjective_pairing])
  with demo_refused show ?thesis by blast
qed

lemma delete_all_or_nothing_witness:
  "\<exists>w'. handle_delete 3 demo_plugin demo_ctx PolicyRule ''r1'' (serve 3 demo_plugin demo_requests demo_world) =
       (Inl (GbpExn (InUse PolicyRule ''r1'')), w') \<and> w_db w' = demo_served"
proof -
  obtain w' where w: "handle_delete 3 demo_plugin demo_ctx PolicyRule ''r1''
      (serve 3 demo_plugin demo_requests demo_world) = (Inl (GbpExn (InUse PolicyRule ''r1'')), w')"
    using demo_refused by (simp add: prod_eq_iff)
  have "w_db w' = demo_served"
    using delete_all_or_nothing[OF _ w] by (simp add: demo_served_def)
  with w show ?thesis by blast
qed

end
