(* ===== verification/Implicit_Contracts.thy ===== *)
theory Implicit_Contracts
  imports Implicit_Policy Plugin_Refinement
begin

text \<open>
  The implicit policy driver respects the contract of the drivers: a predicate on the policy
  database that requests and setters preserve is kept by every call of the driver, whatever
  nested requests it makes, so that the plugin with the driver, at every depth, satisfies
  \<open>plugin_contract\<close>.  The contract is interpreted with the integrity of the database.
\<close>

section \<open>Predicates on the database and the parts of the driver\<close>

lemma keeps_context_now: "keeps (\<lambda>w. Q (w_db w)) context_now"
  by (auto simp: keeps_def context_now_def split: option.splits)

lemma keeps_put_current: "keeps (\<lambda>w. Q (w_db w)) (put_current d)"
  by (simp add: keeps_def put_current_def)

lemma keeps_nested: "keeps (\<lambda>w. Q (w_db w)) m \<Longrightarrow> keeps (\<lambda>w. Q (w_db w)) (nested m)"
  by (auto simp: keeps_def nested_def split: prod.splits)

lemma keeps_outside: "keeps (\<lambda>w. Q (w_db w)) (outside f)"
  by (auto simp: keeps_def outside_def split: prod.splits)

lemma keeps_owned:
  "keeps (\<lambda>w. Q (w_db w)) (mark_l2_policy_owned i)" "keeps (\<lambda>w. Q (w_db w)) (mark_l3_policy_owned i)"
  "keeps (\<lambda>w. Q (w_db w)) (l2_policy_is_owned j)" "keeps (\<lambda>w. Q (w_db w)) (l3_policy_is_owned j)"
  by (simp_all add: keeps_def mark_l2_policy_owned_def mark_l3_policy_owned_def l2_policy_is_owned_def
      l3_policy_is_owned_def)

lemma keeps_on:
  "(\<And>c d. keeps (\<lambda>w. Q (w_db w)) (f1 c d)) \<Longrightarrow> keeps (\<lambda>w. Q (w_db w)) (on_pt f1)"
  "(\<And>c d. keeps (\<lambda>w. Q (w_db w)) (f2 c d)) \<Longrightarrow> keeps (\<lambda>w. Q (w_db w)) (on_ptg f2)"
  "(\<And>c d. keeps (\<lambda>w. Q (w_db w)) (f3 c d)) \<Longrightarrow> keeps (\<lambda>w. Q (w_db w)) (on_l2p f3)"
  "(\<And>c d. keeps (\<lambda>w. Q (w_db w)) (f4 c d)) \<Longrightarrow> keeps (\<lambda>w. Q (w_db w)) (on_l3p f4)"
  "(\<And>c d. keeps (\<lambda>w. Q (w_db w)) (f5 c d)) \<Longrightarrow> keeps (\<lambda>w. Q (w_db w)) (on_es f5)"
  "(\<And>c d. keeps (\<lambda>w. Q (w_db w)) (f6 c d)) \<Longrightarrow> keeps (\<lambda>w. Q (w_db w)) (on_ep f6)"
  unfolding on_pt_def on_ptg_def on_l2p_def on_l3p_def on_es_def on_ep_def
  by (intro keeps_bind[OF keeps_context_now[of Q]]; auto split: res_dict.splits intro: keeps_raise)+

locale setter_contract = plugin_contract Q P
  for Q :: "gbp_db \<Rightarrow> bool" and P :: "('x owned_policies_scheme, 'o) plugin" +
  assumes set_keeps: "Q db \<Longrightarrow> exec_set c s db = Inr db' \<Longrightarrow> Q db'"
begin

lemmas keeps_parts =
  keeps_context_now[of Q] keeps_put_current[of Q] keeps_nested[of Q] keeps_outside[of Q] keeps_owned[of Q]
  keeps_on[of Q]

lemma write_set: "(\<And>db. f db = exec_set c s db) \<Longrightarrow> keeps (\<lambda>w. Q (w_db w)) (db_write f)"
  by (rule keeps_db_write) (metis set_keeps)

lemmas setter_writes =
  write_set[OF exec_set.simps(1)[symmetric]] write_set[OF exec_set.simps(2)[symmetric]]
  write_set[OF exec_set.simps(3)[symmetric]] write_set[OF exec_set.simps(7)[symmetric]]
  write_set[OF exec_set.simps(8)[symmetric]] write_set[OF exec_set.simps(9)[symmetric]]
  write_set[OF exec_set.simps(10)[symmetric]] write_set[OF exec_set.simps(15)[symmetric]]
  write_set[OF exec_set.simps(16)[symmetric]]

lemma act_set:
  assumes "\<And>db db' x. f db = Inr (db', x) \<Longrightarrow> exec_set c s db = Inr db'"
  shows "keeps (\<lambda>w. Q (w_db w)) (db_act f)"
  using assms set_keeps by (intro keeps_db_act) blast

lemma setter_acts:
  "keeps (\<lambda>w. Q (w_db w)) (db_act (add_subnet_to_policy_target_group c i x))"
  "keeps (\<lambda>w. Q (w_db w)) (db_act (add_router_to_l3_policy c i x))"
  "keeps (\<lambda>w. Q (w_db w)) (db_act (remove_router_from_l3_policy c i x))"
  "keeps (\<lambda>w. Q (w_db w)) (db_act (add_subnetpool_to_l3_policy_by_id c i x v))"
  by (rule act_set[where c = c and s = "AddSubnetToPtg i x"], simp)
     (rule act_set[where c = c and s = "AddRouterToL3p i x"], simp,
      rule act_set[where c = c and s = "RemoveRouterFromL3p i x"], simp,
      rule act_set[where c = c and s = "AddSubnetpoolsToL3p i [x] v"],
      auto simp: add_subnetpool_to_l3_policy_by_id_def bindE_eq_Inr)

lemma setters_keep:
  "keeps (\<lambda>w. Q (w_db w)) (pt_set_port_id x)"
  "keeps (\<lambda>w. Q (w_db w)) (ptg_set_l2_policy_id y)"
  "keeps (\<lambda>w. Q (w_db w)) (ptg_set_application_policy_group_id y)"
  "keeps (\<lambda>w. Q (w_db w)) (ptg_set_network_service_policy_id y)"
  "keeps (\<lambda>w. Q (w_db w)) (ptg_add_subnet x)"
  "keeps (\<lambda>w. Q (w_db w)) (ptg_add_subnets xs)"
  "keeps (\<lambda>w. Q (w_db w)) (l2p_set_l3_policy_id y)"
  "keeps (\<lambda>w. Q (w_db w)) (l2p_set_network_id y)"
  "keeps (\<lambda>w. Q (w_db w)) (l3p_set_address_scope_id y v)"
  "keeps (\<lambda>w. Q (w_db w)) (l3p_add_subnetpool x v)"
  "keeps (\<lambda>w. Q (w_db w)) (l3p_add_router x)"
  "keeps (\<lambda>w. Q (w_db w)) (l3p_remove_router x)"
  "keeps (\<lambda>w. Q (w_db w)) (l3p_set_external_fixed_ips x xs)"
  "keeps (\<lambda>w. Q (w_db w)) (l3p_set_external_segment x)"
  "keeps (\<lambda>w. Q (w_db w)) (es_add_subnet x)"
  unfolding pt_set_port_id_def ptg_set_l2_policy_id_def ptg_set_application_policy_group_id_def
    ptg_set_network_service_policy_id_def ptg_add_subnet_def ptg_add_subnets_def l2p_set_l3_policy_id_def
    l2p_set_network_id_def l3p_set_address_scope_id_def l3p_add_subnetpool_def l3p_add_router_def
    l3p_remove_router_def l3p_set_external_fixed_ips_def l3p_set_external_segment_def es_add_subnet_def
    Let_def split_beta
  by (intro keeps keeps_parts keeps_world setter_writes setter_acts)+

lemma ep_setter_keeps: "keeps (\<lambda>w. Q (w_db w)) (ep_set_external_segment P x)"
  unfolding ep_set_external_segment_def
  using handle_update_keeps[of _ _ "UpdExternalPolicy _"]
  by (intro keeps keeps_parts) simp

lemma local_create_keeps:
  "(\<And>i. keeps (\<lambda>w. Q (w_db w)) (m i)) \<Longrightarrow> keeps (\<lambda>w. Q (w_db w)) (local_create A c rt m)"
  unfolding local_create_def generate_uuid_def settle_def by (intro keeps keeps_parts) simp

lemma implicit_l3_policy_keeps: "keeps (\<lambda>w. Q (w_db w)) (use_implicit_l3_policy cfg A P)"
proof -
  have create: "keeps (\<lambda>w. Q (w_db w)) (plugin_create_l3_policy P c i b)" for c i b
    using handle_create_keeps[of 0 c i None "NewL3Policy b"] by simp
  have "keeps (\<lambda>w. Q (w_db w)) (create_implicit_l3_policy cfg A P c t s)" for c t s
    unfolding create_implicit_l3_policy_def local_get_l3_policies_def local_create_l3_policy_def Let_def
    by (intro keeps_bind keeps_parts get_resources_keeps)
      (auto split: list.splits py_exn.splits gbp_error.splits
        intro!: keeps keeps_parts get_resources_keeps local_create_keeps create simp del: act_return_simps)
  then show ?thesis
    unfolding use_implicit_l3_policy_def by (intro keeps keeps_parts setters_keep)
qed

lemma implicit_l2_policy_keeps: "keeps (\<lambda>w. Q (w_db w)) (use_implicit_l2_policy cfg A P)"
proof -
  have create: "keeps (\<lambda>w. Q (w_db w)) (plugin_create_l2_policy P c i b)" for c i b
    using handle_create_keeps[of 0 c i None "NewL2Policy b"] by simp
  have "keeps (\<lambda>w. Q (w_db w)) (l3p_of_proxied_group A P c g)" for c g
    unfolding l3p_of_proxied_group_def
    by (intro keeps_bind keeps_parts)
      (auto split: list.splits option.splits intro!: keeps keeps_parts get_resource_keeps simp del: act_return_simps)
  then show ?thesis
    unfolding use_implicit_l2_policy_def local_create_l2_policy_def
    by (intro keeps keeps_parts setters_keep local_create_keeps create)
qed

lemma cleanup_keeps:
  "keeps (\<lambda>w. Q (w_db w)) (cleanup_l2_policy P c j)" "keeps (\<lambda>w. Q (w_db w)) (cleanup_l3_policy P c j)"
proof -
  have l2: "keeps (\<lambda>w. Q (w_db w)) (plugin_delete_l2_policy P c i)" for c i
    using handle_delete_keeps[of 0 c L2Policy i] by simp
  have l3: "keeps (\<lambda>w. Q (w_db w)) (plugin_delete_l3_policy P c i b)" for c i b
    unfolding plugin_delete_l3_policy_def
    by (intro keeps_bind keeps_world) (auto intro!: keeps delete_handler_keeps simp del: act_return_simps)
  show "keeps (\<lambda>w. Q (w_db w)) (cleanup_l2_policy P c j)"
    unfolding cleanup_l2_policy_def local_delete_l2_policy_def
    by (intro keeps_bind keeps_parts)
      (auto split: option.splits py_exn.splits gbp_error.splits res_type.splits
        intro!: keeps keeps_parts l2 simp del: act_return_simps)
  show "keeps (\<lambda>w. Q (w_db w)) (cleanup_l3_policy P c j)"
    unfolding cleanup_l3_policy_def
    by (intro keeps_bind keeps_parts)
      (auto split: option.splits intro!: keeps keeps_parts l3 simp del: act_return_simps)
qed

lemma implicit_segment_keeps:
  assumes "\<And>x. keeps (\<lambda>w. Q (w_db w)) (f x)"
  shows "keeps (\<lambda>w. Q (w_db w)) (use_implicit_external_segment cfg P f)"
proof (cases "ref_list (default_external_segment_name cfg)")
  case Nil
  then show ?thesis by (simp add: use_implicit_external_segment_def keeps_return)
next
  case (Cons n ns)
  then show ?thesis
    unfolding use_implicit_external_segment_def local_get_external_segments_def Cons list.case
    by (intro keeps keeps_parts get_resources_keeps) (auto split: option.splits intro!: keeps assms simp del: act_return_simps)
qed

lemma default_checks_keep:
  "keeps (\<lambda>w. Q (w_db w)) (validate_default_external_segment cfg P)"
  "keeps (\<lambda>w. Q (w_db w)) (implicit_create_l3_policy_precommit cfg P)"
  unfolding validate_default_external_segment_def implicit_create_l3_policy_precommit_def
  by (intro keeps_bind keeps_parts; auto split: option.splits
      intro!: keeps keeps_parts get_resources_keeps simp del: act_return_simps)+

lemma implicit_call_keeps: "keeps (\<lambda>w. Q (w_db w)) (implicit_call cfg A P m)"
proof -
  have *: "keeps (\<lambda>w. Q (w_db w)) (implicit_create_policy_target_group_postcommit cfg A P)"
    "keeps (\<lambda>w. Q (w_db w)) (implicit_update_policy_target_group_postcommit cfg A P)"
    "keeps (\<lambda>w. Q (w_db w)) (implicit_delete_policy_target_group_postcommit P)"
    "keeps (\<lambda>w. Q (w_db w)) (implicit_create_l2_policy_postcommit cfg A P)"
    "keeps (\<lambda>w. Q (w_db w)) (implicit_update_l2_policy_postcommit cfg A P)"
    "keeps (\<lambda>w. Q (w_db w)) (implicit_delete_l2_policy_postcommit P)"
    "keeps (\<lambda>w. Q (w_db w)) (implicit_create_external_policy_postcommit cfg P)"
    "keeps (\<lambda>w. Q (w_db w)) (implicit_create_l3_policy_postcommit cfg P)"
    unfolding implicit_create_policy_target_group_postcommit_def implicit_update_policy_target_group_postcommit_def
      implicit_delete_policy_target_group_postcommit_def implicit_create_l2_policy_postcommit_def
      implicit_update_l2_policy_postcommit_def implicit_delete_l2_policy_postcommit_def
      implicit_create_external_policy_postcommit_def implicit_create_l3_policy_postcommit_def
    by (intro keeps_bind keeps_parts; auto split: option.splits
        intro!: keeps keeps_parts implicit_l2_policy_keeps implicit_l3_policy_keeps cleanup_keeps
          implicit_segment_keeps ep_setter_keeps setters_keep simp del: act_return_simps)+
  show ?thesis
    unfolding implicit_call_def by (simp add: * default_checks_keep keeps_return del: act_return_simps)
qed

end

section \<open>The plugin with the driver, at every depth\<close>

text \<open>The contract of the plugin's other drivers, and of its database and extension drivers.\<close>

lemma implicit_plugin_fields [simp]:
  "pl_env (implicit_plugin n cfg A P) = pl_env P"
  "pl_extensions (implicit_plugin n cfg A P) = pl_extensions P"
  by (cases n; simp)+

lemma noop_driver_fields [simp]:
  "pd_ensure_tenant (noop_driver m) c t = act_return ()"
  "pd_start_rpc_listeners (noop_driver m) = act_return []"
  by (simp_all add: noop_driver_def)

lemma contract_other_manager:
  assumes "setter_contract Q P" and "pl_env P' = pl_env P" "pl_extensions P' = pl_extensions P"
    and "driver_contract (\<lambda>w. Q (w_db w)) (pl_manager P')"
  shows "setter_contract Q P'"
  using assms(1,4)
  unfolding setter_contract_def plugin_contract_def plugin_contract_axioms_def assms(2,3)
  by (elim conjE) (intro conjI; assumption)

lemma registered_contract:
  assumes "\<And>d m. d \<in> set ds \<Longrightarrow> keeps Q (pd_call d m)"
    and "\<And>d c t. d \<in> set ds \<Longrightarrow> keeps Q (pd_ensure_tenant d c t)"
    and "\<And>d. d \<in> set ds \<Longrightarrow> keeps Q (pd_start_rpc_listeners d)"
  shows "driver_contract Q (register_policy_drivers R ds)"
  by unfold_locales (use assms in \<open>simp_all add: register_policy_drivers_def\<close>)

lemma implicit_plugin_contract:
  assumes P: "setter_contract Q P"
  shows "setter_contract Q (implicit_plugin n cfg A P)"
proof (induction n)
  case 0
  show ?case
    by (rule contract_other_manager[OF P])
      (auto intro!: registered_contract keeps simp del: act_return_simps)
next
  case (Suc n)
  have d: "driver_contract (\<lambda>w. Q (w_db w)) (pl_manager P)"
    using P by (simp add: setter_contract_def plugin_contract_def)
  have i: "keeps (\<lambda>w. Q (w_db w)) (pd_call (implicit_driver cfg A (implicit_plugin n cfg A P)) m)" for m
    using setter_contract.implicit_call_keeps[OF Suc] by (simp add: implicit_driver_def)
  have j: "keeps (\<lambda>w. Q (w_db w)) (pd_ensure_tenant (implicit_driver cfg A (implicit_plugin n cfg A P)) c t)"
    "keeps (\<lambda>w. Q (w_db w)) (pd_start_rpc_listeners (implicit_driver cfg A (implicit_plugin n cfg A P)))" for c t
    by (simp_all add: implicit_driver_def keeps_return del: act_return_simps)
  show ?case
    by (rule contract_other_manager[OF P])
      (use i j driver_contract.call_keeps[OF d] driver_contract.tenant_keeps[OF d] driver_contract.rpc_keeps[OF d]
        in \<open>auto intro!: registered_contract\<close>)
qed

lemma db_setter_contract: "drivers_keep db_inv P \<Longrightarrow> setter_contract db_inv P"
  using plugin_contract_inv[of P] exec_set_inv
  unfolding setter_contract_def setter_contract_axioms_def by blast

text \<open>The contract on the model's own plugin: the implicit policy driver before drivers that do nothing.\<close>

interpretation implicit: setter_contract db_inv "implicit_plugin n cfg A (idle_plugin e parse names)"
  by (rule implicit_plugin_contract[OF db_setter_contract[OF idle_keeps]])

lemma implicit_call_integrity:
  "db_inv (w_db w) \<Longrightarrow> implicit_call cfg A (implicit_plugin n cfg A (idle_plugin e parse names)) m w = (r, w') \<Longrightarrow>
   db_inv (w_db w')"
  using keepsD[OF implicit.implicit_call_keeps] by blast

end
