(* ===== verification/Plugin_Queries.thy ===== *)
theory Plugin_Queries
  imports Plugin_Refinement
begin

text \<open>
  The query methods of the plugin (\<^verbatim>\<open>get_<resource>\<close> and \<^verbatim>\<open>get_<resources>\<close> of
  \<^verbatim>\<open>services/grouppolicy/plugin.py\<close>), each a call of \<^verbatim>\<open>_get_resource\<close> or \<^verbatim>\<open>_get_resources\<close>, and what
  they return.
\<close>

section \<open>The query methods\<close>

definition plugin_get_policy_target :: "('t, 'o) plugin \<Rightarrow> ctx \<Rightarrow> string \<Rightarrow> (('t, 'o) world, res_dict) act" where
  "plugin_get_policy_target P c i = get_resource P c PolicyTarget i"

definition plugin_get_policy_targets ::
  "('t, 'o) plugin \<Rightarrow> ctx \<Rightarrow> (string \<times> string list) list \<Rightarrow> (('t, 'o) world, res_dict list) act" where
  "plugin_get_policy_targets P c filters = get_resources P c PolicyTarget filters"

definition plugin_get_policy_target_group :: "('t, 'o) plugin \<Rightarrow> ctx \<Rightarrow> string \<Rightarrow> (('t, 'o) world, res_dict) act" where
  "plugin_get_policy_target_group P c i = get_resource P c PolicyTargetGroup i"

definition plugin_get_policy_target_groups ::
  "('t, 'o) plugin \<Rightarrow> ctx \<Rightarrow> (string \<times> string list) list \<Rightarrow> (('t, 'o) world, res_dict list) act" where
  "plugin_get_policy_target_groups P c filters = get_resources P c PolicyTargetGroup filters"

definition plugin_get_application_policy_group :: "('t, 'o) plugin \<Rightarrow> ctx \<Rightarrow> string \<Rightarrow> (('t, 'o) world, res_dict) act" where
  "plugin_get_application_policy_group P c i = get_resource P c ApplicationPolicyGroup i"

definition plugin_get_application_policy_groups ::
  "('t, 'o) plugin \<Rightarrow> ctx \<Rightarrow> (string \<times> string list) list \<Rightarrow> (('t, 'o) world, res_dict list) act" where
  "plugin_get_application_policy_groups P c filters = get_resources P c ApplicationPolicyGroup filters"

definition plugin_get_l2_policy :: "('t, 'o) plugin \<Rightarrow> ctx \<Rightarrow> string \<Rightarrow> (('t, 'o) world, res_dict) act" where
  "plugin_get_l2_policy P c i = get_resource P c L2Policy i"

definition plugin_get_l2_policies ::
  "('t, 'o) plugin \<Rightarrow> ctx \<Rightarrow> (string \<times> string list) list \<Rightarrow> (('t, 'o) world, res_dict list) act" where
  "plugin_get_l2_policies P c filters = get_resources P c L2Policy filters"

definition plugin_get_network_service_policy :: "('t, 'o) plugin \<Rightarrow> ctx \<Rightarrow> string \<Rightarrow> (('t, 'o) world, res_dict) act" where
  "plugin_get_network_service_policy P c i = get_resource P c NetworkServicePolicy i"

definition plugin_get_network_service_policies ::
  "('t, 'o) plugin \<Rightarrow> ctx \<Rightarrow> (string \<times> string list) list \<Rightarrow> (('t, 'o) world, res_dict list) act" where
  "plugin_get_network_service_policies P c filters = get_resources P c NetworkServicePolicy filters"

definition plugin_get_l3_policy :: "('t, 'o) plugin \<Rightarrow> ctx \<Rightarrow> string \<Rightarrow> (('t, 'o) world, res_dict) act" where
  "plugin_get_l3_policy P c i = get_resource P c L3Policy i"

definition plugin_get_l3_policies ::
  "('t, 'o) plugin \<Rightarrow> ctx \<Rightarrow> (string \<times> string list) list \<Rightarrow> (('t, 'o) world, res_dict list) act" where
  "plugin_get_l3_policies P c filters = get_resources P c L3Policy filters"

definition plugin_get_policy_classifier :: "('t, 'o) plugin \<Rightarrow> ctx \<Rightarrow> string \<Rightarrow> (('t, 'o) world, res_dict) act" where
  "plugin_get_policy_classifier P c i = get_resource P c PolicyClassifier i"

definition plugin_get_policy_classifiers ::
  "('t, 'o) plugin \<Rightarrow> ctx \<Rightarrow> (string \<times> string list) list \<Rightarrow> (('t, 'o) world, res_dict list) act" where
  "plugin_get_policy_classifiers P c filters = get_resources P c PolicyClassifier filters"

definition plugin_get_policy_action :: "('t, 'o) plugin \<Rightarrow> ctx \<Rightarrow> string \<Rightarrow> (('t, 'o) world, res_dict) act" where
  "plugin_get_policy_action P c i = get_resource P c PolicyAction i"

definition plugin_get_policy_actions ::
  "('t, 'o) plugin \<Rightarrow> ctx \<Rightarrow> (string \<times> string list) list \<Rightarrow> (('t, 'o) world, res_dict list) act" where
  "plugin_get_policy_actions P c filters = get_resources P c PolicyAction filters"

definition plugin_get_policy_rule :: "('t, 'o) plugin \<Rightarrow> ctx \<Rightarrow> string \<Rightarrow> (('t, 'o) world, res_dict) act" where
  "plugin_get_policy_rule P c i = get_resource P c PolicyRule i"

definition plugin_get_policy_rules ::
  "('t, 'o) plugin \<Rightarrow> ctx \<Rightarrow> (string \<times> string list) list \<Rightarrow> (('t, 'o) world, res_dict list) act" where
  "plugin_get_policy_rules P c filters = get_resources P c PolicyRule filters"

definition plugin_get_policy_rule_set :: "('t, 'o) plugin \<Rightarrow> ctx \<Rightarrow> string \<Rightarrow> (('t, 'o) world, res_dict) act" where
  "plugin_get_policy_rule_set P c i = get_resource P c PolicyRuleSet i"

definition plugin_get_policy_rule_sets ::
  "('t, 'o) plugin \<Rightarrow> ctx \<Rightarrow> (string \<times> string list) list \<Rightarrow> (('t, 'o) world, res_dict list) act" where
  "plugin_get_policy_rule_sets P c filters = get_resources P c PolicyRuleSet filters"

definition plugin_get_external_segment :: "('t, 'o) plugin \<Rightarrow> ctx \<Rightarrow> string \<Rightarrow> (('t, 'o) world, res_dict) act" where
  "plugin_get_external_segment P c i = get_resource P c ExternalSegment i"

definition plugin_get_external_segments ::
  "('t, 'o) plugin \<Rightarrow> ctx \<Rightarrow> (string \<times> string list) list \<Rightarrow> (('t, 'o) world, res_dict list) act" where
  "plugin_get_external_segments P c filters = get_resources P c ExternalSegment filters"

definition plugin_get_external_policy :: "('t, 'o) plugin \<Rightarrow> ctx \<Rightarrow> string \<Rightarrow> (('t, 'o) world, res_dict) act" where
  "plugin_get_external_policy P c i = get_resource P c ExternalPolicy i"

definition plugin_get_external_policies ::
  "('t, 'o) plugin \<Rightarrow> ctx \<Rightarrow> (string \<times> string list) list \<Rightarrow> (('t, 'o) world, res_dict list) act" where
  "plugin_get_external_policies P c filters = get_resources P c ExternalPolicy filters"

definition plugin_get_nat_pool :: "('t, 'o) plugin \<Rightarrow> ctx \<Rightarrow> string \<Rightarrow> (('t, 'o) world, res_dict) act" where
  "plugin_get_nat_pool P c i = get_resource P c NatPool i"

definition plugin_get_nat_pools ::
  "('t, 'o) plugin \<Rightarrow> ctx \<Rightarrow> (string \<times> string list) list \<Rightarrow> (('t, 'o) world, res_dict list) act" where
  "plugin_get_nat_pools P c filters = get_resources P c NatPool filters"

end
