(* ===== verification/Implicit_Effects.thy ===== *)
theory Implicit_Effects
  imports Implicit_Contracts Plugin_Queries
begin

text \<open>
  What the implicit policy driver achieves: an L2 policy always ends up with an L3 policy and a
  group with an L2 policy, whatever the request says.  The other drivers are assumed to leave the
  policy database and the context alone.  The method names behind the hooks of the driver manager
  and the chain of successful calls come first.
\<close>

section \<open>The methods behind the hooks\<close>

fun hook_method :: "res_type \<Rightarrow> hook \<Rightarrow> string" where
  "hook_method rt CreatePrecommit = ''create_'' @ type_name rt @ ''_precommit''"
| "hook_method rt CreatePostcommit = ''create_'' @ type_name rt @ ''_postcommit''"
| "hook_method rt UpdatePrecommit = ''update_'' @ type_name rt @ ''_precommit''"
| "hook_method rt UpdatePostcommit = ''update_'' @ type_name rt @ ''_postcommit''"
| "hook_method rt DeletePrecommit = ''delete_'' @ type_name rt @ ''_precommit''"
| "hook_method rt DeletePostcommit = ''delete_'' @ type_name rt @ ''_postcommit''"
| "hook_method rt GetStatus = ''get_'' @ type_name rt @ ''_status''"

lemma manager_hook_method:
  "manager_hook M rt h = call_on_drivers M (hook_method rt h) (h = DeletePostcommit)"
  by (cases rt; cases h) simp_all

lemma deletion_method: "prefix ''delete'' (hook_method rt h) \<longleftrightarrow> h = DeletePrecommit \<or> h = DeletePostcommit"
  by (cases h) simp_all

text \<open>Each of the manager's ninety-one methods calls the method of its own name on every
  driver, in the configured order or reversed for the two deletion methods, and only the
  postcommit call of a deletion goes on after a failure.\<close>

theorem manager_dispatch:
  "manager_hook M rt h =
     act_bind (call_loop (mgr_is_retriable M) (hook_method rt h) (h = DeletePostcommit)
        (if h = DeletePrecommit \<or> h = DeletePostcommit then reverse_ordered_policy_drivers M
         else ordered_policy_drivers M) False [])
       (\<lambda>(error, servers).
          if error then act_raise (GbpExn (GroupPolicyDriverError (hook_method rt h)))
          else act_return servers)"
  by (simp add: manager_hook_method call_on_drivers_def deletion_method)

section \<open>Successful calls\<close>

lemma call_loop_error:
  "call_loop R m b ds True sv s = (Inr (er, sv'), s') \<Longrightarrow> er"
  by (induction R m b ds True sv s rule: call_loop.induct)
     (auto split: prod.splits sum.splits if_splits py_exn.splits)

lemma call_loop_Inr:
  assumes "call_loop R m b (d # ds) False sv s = (Inr (False, sv'), s')"
  shows "\<exists>new s1. driver_call m d s = (Inr new, s1) \<and> call_loop R m b ds False (sv @ new) s1 = (Inr (False, sv'), s')"
  using assms
  by (auto split: prod.splits sum.splits if_splits py_exn.splits dest: call_loop_error)

lemma hook_method_calls:
  "hook_method rt h \<noteq> ''start_rpc_listeners''"
  by (cases rt; cases h) simp_all

lemma driver_call_hook:
  "driver_call (hook_method rt h) d = act_bind (pd_call d (hook_method rt h)) (\<lambda>_. act_return [])"
  by (simp add: driver_call_def hook_method_calls)

lemma rest_still:
  assumes "hands_off P" and "call_loop R m b (ordered_policy_drivers (pl_manager P)) er sv w = (r, w')"
  shows "w_db w' = w_db w \<and> w_context w' = w_context w"
  using keepsD[OF driver_contract.call_loop_keeps[OF hands_off_manager[OF assms(1)] subset_refl] _ assms(2)]
  by blast

lemma implicit_manager:
  "pl_manager (implicit_plugin (Suc n) cfg A P) = register_policy_drivers (mgr_is_retriable (pl_manager P))
     (implicit_driver cfg A (implicit_plugin n cfg A P) # ordered_policy_drivers (pl_manager P))"
  by simp

lemma implicit_hook_Inr:
  assumes p: "hands_off P" and h: "h \<noteq> DeletePrecommit" "h \<noteq> DeletePostcommit"
    and x: "policy_hook (implicit_plugin (Suc n) cfg A P) rt h w = (Inr (), w')"
  shows "\<exists>w1. implicit_call cfg A (implicit_plugin n cfg A P) (hook_method rt h) w = (Inr (), w1) \<and>
    w_db w' = w_db w1 \<and> w_context w' = w_context w1"
proof -
  from x h obtain sv where l: "call_loop (mgr_is_retriable (pl_manager P)) (hook_method rt h) False
      (implicit_driver cfg A (implicit_plugin n cfg A P) # ordered_policy_drivers (pl_manager P)) False [] w
      = (Inr (False, sv), w')"
    by (cases h) (auto simp: policy_hook_def manager_hook_method call_on_drivers_def act_bind_Inr
        register_policy_drivers_def split: if_splits)
  from call_loop_Inr[OF l] obtain new w1
    where c: "driver_call (hook_method rt h) (implicit_driver cfg A (implicit_plugin n cfg A P)) w = (Inr new, w1)"
    and r: "call_loop (mgr_is_retriable (pl_manager P)) (hook_method rt h) False
      (ordered_policy_drivers (pl_manager P)) False ([] @ new) w1 = (Inr (False, sv), w')" by blast
  from c have "implicit_call cfg A (implicit_plugin n cfg A P) (hook_method rt h) w = (Inr (), w1)"
    by (auto simp: driver_call_hook act_bind_Inr implicit_driver_def)
  with rest_still[OF p r] show ?thesis by blast
qed

section \<open>Calls that the driver does not handle\<close>

lemma implicit_call_other:
  "implicit_call cfg A P (hook_method rt GetStatus) = act_return ()"
  "implicit_call cfg A P (hook_method L2Policy CreatePrecommit) = act_return ()"
  "implicit_call cfg A P (hook_method PolicyTargetGroup CreatePrecommit) = act_return ()"
  by (cases rt) (simp_all add: implicit_call_def del: act_return_simps)

lemma implicit_hook_still:
  assumes p: "hands_off P" and m: "implicit_call cfg A (implicit_plugin n cfg A P) (hook_method rt h) = act_return ()"
  shows "still (policy_hook (implicit_plugin (Suc n) cfg A P) rt h)"
  unfolding still_def policy_hook_def manager_hook_method
proof (intro allI keeps_bind keeps_return)
  fix db cx
  have d: "driver_contract (\<lambda>w. w_db w = db \<and> w_context w = cx) (pl_manager P)" by (rule hands_off_manager[OF p])
  have k: "keeps (\<lambda>w. w_db w = db \<and> w_context w = cx) (driver_call (hook_method rt h) x)"
    if "x \<in> insert (implicit_driver cfg A (implicit_plugin n cfg A P)) (set (ordered_policy_drivers (pl_manager P)))" for x
  proof (cases "x \<in> set (ordered_policy_drivers (pl_manager P))")
    case True
    then show ?thesis by (rule driver_contract.driver_call_keeps[OF d])
  next
    case False
    with that have "pd_call x (hook_method rt h) = act_return ()" by (simp add: implicit_driver_def m)
    then show ?thesis unfolding driver_call_hook by (simp only: keeps_bind keeps_return)
  qed
  show "keeps (\<lambda>w. w_db w = db \<and> w_context w = cx) (call_on_drivers (pl_manager (implicit_plugin (Suc n) cfg A P))
      (hook_method rt h) (h = DeletePostcommit))"
    unfolding call_on_drivers_def implicit_manager
    by (intro keeps_bind loop_keeps) (auto simp: register_policy_drivers_def intro: k keeps split: if_splits simp del: act_return_simps)
qed

lemma implicit_status_still: "hands_off P \<Longrightarrow> still (policy_hook (implicit_plugin n cfg A P) rt GetStatus)"
proof (cases n)
  case 0
  have "keeps R (manager_hook (pl_manager (implicit_plugin 0 cfg A P)) rt GetStatus)" for R
    unfolding manager_hook_method call_on_drivers_def
    by (intro keeps_bind loop_keeps)
      (auto simp: register_policy_drivers_def driver_call_hook deletion_method intro!: keeps
        simp del: act_return_simps hook_method.simps)
  then show ?thesis unfolding 0 still_def policy_hook_def by (intro allI keeps_bind keeps_return)
next
  case (Suc k)
  assume "hands_off P"
  then show ?thesis unfolding Suc by (rule implicit_hook_still) (rule implicit_call_other)
qed

lemma implicit_reads: "hands_off P \<Longrightarrow> reads_still (implicit_plugin n cfg A P)"
  using hands_off_reads[of P] implicit_status_still[of P n cfg A] by (simp add: reads_still_def)

section \<open>A successful creation\<close>

lemma act_catch_reraise_Inr:
  "act_catch m (\<lambda>e. act_bind (f e) (\<lambda>_. act_raise e)) w = (Inr x, w') \<longleftrightarrow> m w = (Inr x, w')"
  by (auto simp: act_catch_def act_bind_def split: prod.splits sum.splits)

lemma create_handler_success:
  assumes r: "reads_still P" and pre: "still (policy_hook P (create_type r) CreatePrecommit)"
    and x: "create_handler P c i r ch late del w = (Inr d, w')"
  shows "\<exists>db0 db1 d1 w2 w3. create_row (pl_env P) c i r db0 = Inr (db1, d1) \<and>
    validate_shared_create c db1 (view_of d1) (create_type r) = Inr () \<and> w_db w2 = db1 \<and>
    w_context w2 = Some \<lparr> cx_plugin_context = c, cx_current = d1, cx_original = None \<rparr> \<and>
    policy_hook P (create_type r) CreatePostcommit w2 = (Inr (), w3) \<and> w_db w' = w_db w3 \<and>
    get_dict (pl_env P) c (create_type r) (rv_id (view_of d1)) (w_db w3) = Inr d"
proof -
  from x obtain w0 w1 w4 w2 w3 db1 d1 d2 d3 where
    c: "create_row (pl_env P) c i r (w_db w0) = Inr (db1, d1)"
    and e: "ext_hook_on P c (create_type r) ProcessCreate (CreateRequest r) d1 (w0\<lparr> w_db := db1 \<rparr>) = (Inr d2, w1)"
    and v: "validate_shared_create c (w_db w1) (view_of d2) (create_type r) = Inr ()"
    and h: "policy_hook P (create_type r) CreatePrecommit (snd (set_context c d2 None w1)) = (Inr (), w2)"
    and d3: "current_dict d2 w2 = (Inr d3, w2)"
    and p: "policy_hook P (create_type r) CreatePostcommit w2 = (Inr (), w3)"
    and g: "get_resource P c (create_type r) (rv_id (view_of d3)) w3 = (Inr d, w')"
    unfolding create_handler_def Let_def act_bind_Inr transaction_Inr act_catch_reraise_Inr db_parts
    by (fastforce simp: set_context_def current_dict_def)
  have d2: "d2 = d1" "w_db w1 = db1" using ext_hook_reads[OF r e] by simp_all
  have h2: "w_db w2 = db1" "w_context w2 = Some \<lparr> cx_plugin_context = c, cx_current = d1, cx_original = None \<rparr>"
    using stillD[OF pre h] d2 by (simp_all add: set_context_def)
  then have "d3 = d1" using d3 by (simp add: current_dict_def)
  with c v p h2 get_resource_reads[OF r g] d2 show ?thesis
    by (intro exI[of _ "w_db w0"] exI[of _ db1] exI[of _ d1] exI[of _ w2] exI[of _ w3] conjI) simp_all
qed

section \<open>An L2 policy has an L3 policy\<close>

lemma nested_Inr: "nested m w = (Inr x, w') \<longleftrightarrow> (\<exists>w1. m w = (Inr x, w1) \<and> w' = w1\<lparr> w_context := w_context w \<rparr>)"
  by (auto simp: nested_def split: prod.splits)

lemma view_ids: "set (map rv_id (query_by_ids c rt js db)) \<subseteq> set (table_ids rt db)"
  by (auto simp: query_by_ids_views dest: view_in_ids)

lemma get_all_set: "get_all f is = Inr xs \<Longrightarrow> x \<in> set xs \<Longrightarrow> \<exists>i \<in> set is. f i = Inr x"
  by (induction "is" arbitrary: xs) (auto simp: bindE_eq_Inr)

lemma made_dict_ids:
  "rv_id (obj_plain (make_policy_action_dict db a)) = row_id a"
  "rv_id (obj_pr (make_policy_rule_dict db b)) = row_id b"
  "rv_id (obj_prs (make_policy_rule_set_dict db s)) = row_id s"
  "rv_id (obj_pt (map_make_policy_target_dict t pa)) = row_id t"
  "rv_id (obj_ptg (map_make_policy_target_group_dict db g)) = row_id g"
  "rv_id (obj_plain (make_application_policy_group_dict db h)) = row_id h"
  "rv_id (obj_l2p (map_make_l2_policy_dict db l2)) = row_id l2"
  "rv_id (obj_plain (make_network_service_policy_dict db n)) = row_id n"
  "rv_id (obj_l3p (map_make_l3_policy_dict f db l3 ip)) = row_id l3"
  "rv_id (obj_es (map_make_external_segment_dict db es)) = row_id es"
  "rv_id (obj_ep (make_external_policy_dict db ep)) = row_id ep"
  "rv_id (obj_np (map_make_nat_pool_dict np)) = row_id np"
  by (simp_all add: obj_plain_def obj_pr_def obj_prs_def obj_pt_def obj_ptg_def obj_l2p_def obj_l3p_def obj_es_def
      obj_ep_def obj_np_def obj_of_def make_policy_action_dict_def make_policy_rule_dict_def
      make_policy_rule_set_dict_def map_make_policy_target_dict_def make_policy_target_dict_def
      map_make_policy_target_group_dict_def make_policy_target_group_dict_def
      make_application_policy_group_dict_def map_make_l2_policy_dict_def make_l2_policy_dict_def
      make_network_service_policy_dict_def map_make_l3_policy_dict_def make_l3_policy_dict_def
      map_make_external_segment_dict_def make_external_segment_dict_def make_external_policy_dict_def
      map_make_nat_pool_dict_def make_nat_pool_dict_def shared_dict.defs gbp_dict.defs pa_dict.defs pr_dict.defs
      prs_dict.defs pt_dict.defs ptm_dict.defs ptg_dict.defs ptgm_dict.defs apg_dict.defs l2p_dict.defs l2pm_dict.defs
      nsp_dict.defs l3p_dict.defs l3pm_dict.defs es_dict.defs esm_dict.defs ep_dict.defs np_dict.defs npm_dict.defs Let_def split: option.splits)

lemma make_policy_classifier_id: "make_policy_classifier_dict db r = Inr d \<Longrightarrow> rv_id (obj_plain d) = row_id r"
  by (auto simp: make_policy_classifier_dict_def bindE_eq_Inr obj_plain_def obj_of_def shared_dict.defs pc_dict.defs Let_def)

lemma get_dict_id: "get_dict e c rt i db = Inr d \<Longrightarrow> rv_id (view_of d) = i"
  by (cases rt)
     (auto simp: bindE_eq_Inr get_defs row_defs made_dict_ids dest!: get_by_id_Inr make_policy_classifier_id)

lemma act_map_status:
  assumes "reads_still P"
  shows "act_map (get_status_from_drivers P c rt) ds w = (r, w') \<Longrightarrow> w_db w' = w_db w \<and> (\<forall>ds'. r = Inr ds' \<longrightarrow> ds' = ds)"
proof (induction ds arbitrary: w r w')
  case (Cons d ds)
  show ?case
  proof (cases "get_status_from_drivers P c rt d w")
    case (Pair r1 w1)
    note s = status_reads[OF assms Pair]
    show ?thesis
    proof (cases r1)
      case Inl
      with Cons.prems Pair s show ?thesis by (auto simp: act_bind_def)
    next
      case (Inr d')
      obtain r2 w2 where m: "act_map (get_status_from_drivers P c rt) ds w1 = (r2, w2)"
        by (cases "act_map (get_status_from_drivers P c rt) ds w1")
      with Cons.IH[OF m] Cons.prems Pair Inr s show ?thesis
        by (cases r2) (auto simp: act_bind_def)
    qed
  qed
qed simp

lemma act_map_ext:
  assumes "reads_still P"
  shows "act_map (ext_hook_on P c rt h data) ds w = (r, w') \<Longrightarrow> w_db w' = w_db w \<and> (\<forall>ds'. r = Inr ds' \<longrightarrow> ds' = ds)"
proof (induction ds arbitrary: w r w')
  case (Cons d ds)
  show ?case
  proof (cases "ext_hook_on P c rt h data d w")
    case (Pair r1 w1)
    note s = ext_hook_reads[OF assms Pair]
    show ?thesis
    proof (cases r1)
      case Inl
      with Cons.prems Pair s show ?thesis by (auto simp: act_bind_def)
    next
      case (Inr d')
      obtain r2 w2 where m: "act_map (ext_hook_on P c rt h data) ds w1 = (r2, w2)"
        by (cases "act_map (ext_hook_on P c rt h data) ds w1")
      with Cons.IH[OF m] Cons.prems Pair Inr s show ?thesis
        by (cases r2) (auto simp: act_bind_def)
    qed
  qed
qed simp

lemma query_dicts_filter:
  "query_dicts e c rt flt db = Inr ds \<Longrightarrow> filter (\<lambda>d. filter_extended_result (dict_field d) flt) ds = ds"
  by (auto simp: query_dicts_def bindE_eq_Inr)

lemma get_resources_reads:
  assumes r: "reads_still P" and x: "get_resources P c rt flt w = (Inr ds, w')"
  shows "w_db w' = w_db w \<and> query_dicts (pl_env P) c rt flt (w_db w) = Inr ds"
proof -
  from x obtain ds1 ds2 w1 where q: "query_dicts (pl_env P) c rt flt (w_db w) = Inr ds1"
    and e: "act_map (ext_hook_on P c rt ExtendDict NoRequest) ds1 w = (Inr ds2, w1)"
    and s: "act_map (get_status_from_drivers P c rt)
      (filter (\<lambda>d. filter_extended_result (dict_field d) flt) ds2) w1 = (Inr ds, w')"
    unfolding get_resources_def act_bind_Inr transaction_Inr db_parts by auto
  with act_map_ext[OF r e] act_map_status[OF r s] query_dicts_filter[OF q] show ?thesis by simp
qed

text \<open>With drivers that leave the policy database and the context alone, a successful query of
  any kind of resource changes nothing in the database and returns exactly the dictionaries of
  the rows that the request sees and that pass the filter on id, tenant and name.\<close>

theorem query_exact:
  assumes "hands_off P" and "get_resources P c rt filters w = (Inr ds, w')"
  shows "w_db w' = w_db w \<and>
    (\<forall>d. d \<in> set ds \<longleftrightarrow>
       (\<exists>v \<in> set (views rt (w_db w)). sees c (rv_tenant v) (rv_shared v) \<and>
          get_dict (pl_env P) c rt (rv_id v) (w_db w) = Inr d) \<and>
       (\<forall>(field, allowed) \<in> set filters. \<forall>x. dict_field d field = Some x \<longrightarrow> x \<in> set allowed))"
proof -
  note g = get_resources_reads[OF hands_off_reads[OF assms(1)] assms(2)]
  then obtain dicts where a: "get_all (\<lambda>i. get_dict (pl_env P) c rt i (w_db w))
      (map rv_id (query_by_ids c rt (table_ids rt (w_db w)) (w_db w))) = Inr dicts"
    and ds: "ds = filter (\<lambda>d. filter_extended_result (dict_field d) filters) dicts"
    by (auto simp: query_dicts_def bindE_eq_Inr)
  have all: "get_all f is = Inr xs \<Longrightarrow> set xs = {x. \<exists>i \<in> set is. f i = Inr x}" for f :: "string \<Rightarrow> gbp_error + res_dict" and "is" xs
    by (induction "is" arbitrary: xs) (auto simp: bindE_eq_Inr)
  have "filter_extended_result (dict_field d) filters \<longleftrightarrow>
      (\<forall>(field, allowed) \<in> set filters. \<forall>x. dict_field d field = Some x \<longrightarrow> x \<in> set allowed)" for d
    by (auto simp: filter_extended_result_def list_all_iff split: option.splits)
  with g ds all[OF a] show ?thesis
    by (auto simp: query_by_ids_views dest: view_in_ids)
qed

lemma queried_l3p:
  assumes "reads_still P" and "get_resources P c L3Policy flt w = (Inr ds, w')" and "d \<in> set ds"
  shows "rv_id (view_of d) \<in> set (table_ids L3Policy (w_db w'))"
proof -
  from get_resources_reads[OF assms(1,2)] assms(3)
  obtain dicts where "get_all (\<lambda>i. get_dict (pl_env P) c L3Policy i (w_db w'))
      (map rv_id (query_by_ids c L3Policy (table_ids L3Policy (w_db w')) (w_db w'))) = Inr dicts" "d \<in> set dicts"
    by (auto simp: query_dicts_def bindE_eq_Inr)
  from get_all_set[OF this] obtain i where
    "i \<in> set (map rv_id (query_by_ids c L3Policy (table_ids L3Policy (w_db w')) (w_db w')))"
    "get_dict (pl_env P) c L3Policy i (w_db w') = Inr d" by blast
  with get_dict_id view_ids show ?thesis by blast
qed

lemma created_owned_l3p:
  assumes "act_bind (local_create_l3_policy A P c b) (\<lambda>l3p.
      act_bind (mark_l3_policy_owned (rv_id (view_of l3p))) (\<lambda>_. act_return (rv_id (view_of l3p)))) w = (Inr l, w')"
  shows "l \<in> set (table_ids L3Policy (w_db w'))"
  using assms by (auto simp: act_bind_Inr mark_l3_policy_owned_def split: if_splits)

lemma queried_first_l3p:
  assumes r: "reads_still P"
    and x: "act_bind (local_get_l3_policies P c flt) (\<lambda>l3ps.
       case l3ps of l3p # _ \<Rightarrow> act_return (rv_id (view_of l3p)) | [] \<Rightarrow> m) w = (Inr l, w')"
    and m: "\<And>v. m v = (Inr l, w') \<Longrightarrow> l \<in> set (table_ids L3Policy (w_db w'))"
  shows "l \<in> set (table_ids L3Policy (w_db w'))"
proof -
  from x obtain ds w1 where q: "get_resources P c L3Policy flt w = (Inr ds, w1)"
    and rest: "(case ds of l3p # _ \<Rightarrow> act_return (rv_id (view_of l3p)) | [] \<Rightarrow> m) (w1\<lparr> w_context := w_context w \<rparr>) = (Inr l, w')"
    by (auto simp: act_bind_Inr local_get_l3_policies_def nested_Inr)
  show ?thesis
  proof (cases ds)
    case Nil
    with rest m show ?thesis by simp
  next
    case (Cons d ds')
    with queried_l3p[OF r q, of d] rest show ?thesis by auto
  qed
qed

lemma implicit_l3p_exists:
  assumes r: "reads_still P" and x: "create_implicit_l3_policy cfg A P c t s w = (Inr l, w')"
  shows "l \<in> set (table_ids L3Policy (w_db w'))"
  using x unfolding create_implicit_l3_policy_def Let_def
proof (rule queried_first_l3p[OF r])
  fix v
  assume c: "act_catch
      (act_bind (local_create_l3_policy A P c (default_l3p_attrs cfg t s)) (\<lambda>l3p.
       act_bind (mark_l3_policy_owned (rv_id (view_of l3p))) (\<lambda>_. act_return (rv_id (view_of l3p)))))
      (\<lambda>e. case e of
         GbpExn (DefaultL3PolicyAlreadyExists n) \<Rightarrow>
           act_bind (local_get_l3_policies P c [(''tenant_id'', [t]), (''name'', [default_l3_policy_name cfg])])
             (\<lambda>l3ps'. case l3ps' of l3p # _ \<Rightarrow> act_return (rv_id (view_of l3p)) | [] \<Rightarrow> act_raise e)
       | _ \<Rightarrow> act_raise e) v = (Inr l, w')" (is "act_catch ?m ?h v = _")
  show "l \<in> set (table_ids L3Policy (w_db w'))"
  proof (cases "?m v")
    case (Pair r1 v1)
    show ?thesis
    proof (cases r1)
      case (Inr l')
      with c Pair have "?m v = (Inr l, w')" by (simp add: act_catch_def)
      then show ?thesis by (rule created_owned_l3p)
    next
      case (Inl e)
      with c Pair have h: "?h e v1 = (Inr l, w')" by (simp add: act_catch_def)
      then obtain n where e: "e = GbpExn (DefaultL3PolicyAlreadyExists n)"
        by (auto split: py_exn.splits gbp_error.splits)
      have "act_bind (local_get_l3_policies P c [(''tenant_id'', [t]), (''name'', [default_l3_policy_name cfg])])
          (\<lambda>l3ps'. case l3ps' of l3p # _ \<Rightarrow> act_return (rv_id (view_of l3p)) | [] \<Rightarrow> act_raise e) v1 = (Inr l, w')"
        using h unfolding e by simp
      then show ?thesis by (rule queried_first_l3p[OF r]) simp
    qed
  qed
qed

lemma row_in_upd: "r \<in> set (upd_row i f t) \<Longrightarrow> row_id r = i \<Longrightarrow> (\<And>q. row_id (f q) = row_id q) \<Longrightarrow> \<exists>q. r = f q"
  by (auto simp: upd_row_def split: if_splits)

lemma get_l2p_dict:
  "get_dict e c L2Policy i db = Inr d \<Longrightarrow>
   \<exists>r \<in> set (tb_l2ps db). row_id r = i \<and> d = L2pDict (map_make_l2_policy_dict db r)"
  by (auto simp: bindE_eq_Inr get_defs row_defs dest!: get_by_id_Inr)

lemma l2p_dict_fields:
  "l2pd_l3_policy_id (map_make_l2_policy_dict db r) = l2p_l3p_id r"
  "d_id (map_make_l2_policy_dict db r) = row_id r"
  by (simp_all add: map_make_l2_policy_dict_def make_l2_policy_dict_def l2p_dict.defs l2pm_dict.defs shared_dict.defs)

lemma keeps_own_context:
  "keeps (\<lambda>w. w_context w = cx) (nested m)" "keeps (\<lambda>w. w_context w = cx) (outside f)"
  "keeps (\<lambda>w. w_context w = cx) (mark_l2_policy_owned i)" "keeps (\<lambda>w. w_context w = cx) (mark_l3_policy_owned i)"
  "keeps (\<lambda>w. w_context w = cx) (generate_uuid A)" "keeps (\<lambda>w. w_context w = cx) (settle g c v)"
  by (auto simp: keeps_def nested_def outside_def generate_uuid_def settle_def mark_l2_policy_owned_def
      mark_l3_policy_owned_def split: prod.splits)

lemma local_create_context: "keeps (\<lambda>w. w_context w = cx) (local_create A c rt m)"
  unfolding local_create_def by (intro keeps keeps_own_context)

lemma create_implicit_context: "keeps (\<lambda>w. w_context w = cx) (create_implicit_l3_policy cfg A P c t s)"
  unfolding create_implicit_l3_policy_def local_get_l3_policies_def local_create_l3_policy_def Let_def
  by (intro keeps_bind keeps_own_context)
    (auto split: list.splits py_exn.splits gbp_error.splits
      intro!: keeps keeps_own_context local_create_context simp del: act_return_simps)

lemma new_l2p_row:
  assumes "create_row e c i (NewL2Policy b) db = Inr (db', d1)" and "d1 = L2pDict dd"
    and "r \<in> set (tb_l2ps db')" and "row_id r = d_id dd"
  shows "l2p_l3p_id r = l2pd_l3_policy_id dd"
  using assms
  by (auto simp: create_row_def with_dict_def bindE_eq_Inr create_l2_policy_def Let_def l2p_dict_fields
      shared_row.defs l2_policy.defs new_mapping_row_def ids_def split: if_splits)
     (drule arg_cong[where f = l2p_l3p_id], simp)

lemma implicit_l3p_written:
  assumes p: "hands_off P" and n: "ref_list (l2pd_l3_policy_id dd) = []"
    and w2: "w_context w2 = Some \<lparr> cx_plugin_context = c, cx_current = L2pDict dd, cx_original = None \<rparr>"
    and i: "implicit_create_l2_policy_postcommit cfg A (implicit_plugin n cfg A P) w2 = (Inr (), w4)"
  shows "\<exists>l db5. l \<in> set (table_ids L3Policy db5) \<and>
    w_db w4 = db5\<lparr> tb_l2ps := upd_row (d_id dd) (\<lambda>q. q\<lparr> l2p_l3p_id := Some l \<rparr>) (tb_l2ps db5) \<rparr>"
proof -
  from i n w2 have "use_implicit_l3_policy cfg A (implicit_plugin n cfg A P) w2 = (Inr (), w4)"
    by (simp add: implicit_create_l2_policy_postcommit_def on_l2p_def act_bind_def context_now_def)
  with w2 obtain l w5 where l: "create_implicit_l3_policy cfg A (implicit_plugin n cfg A P) c (d_tenant_id dd) (d_shared dd) w2 = (Inr l, w5)"
    and s: "act_bind (put_current (L2pDict (dd\<lparr> l2pd_l3_policy_id := Some l \<rparr>))) (\<lambda>_. l2p_set_l3_policy_id (Some l)) w5 = (Inr (), w4)"
    by (auto simp: use_implicit_l3_policy_def on_l2p_def act_bind_Inr context_now_def)
  have "w_context w5 = w_context w2" using keepsD[OF create_implicit_context _ l] by simp
  with s w2 have "w_db w4 = (w_db w5)\<lparr> tb_l2ps := upd_row (d_id dd) (\<lambda>q. q\<lparr> l2p_l3p_id := Some l \<rparr>) (tb_l2ps (w_db w5)) \<rparr>"
    by (auto simp: act_bind_Inr put_current_def l2p_set_l3_policy_id_def on_l2p_def context_now_def db_parts
        db_write_def bindE_eq_Inr set_l3_policy_for_l2_policy_def)
  with implicit_l3p_exists[OF implicit_reads[OF p] l] show ?thesis by blast
qed

lemma requested_l3p_validated:
  assumes c: "create_row e c i (NewL2Policy b) db0 = Inr (db1, L2pDict dd)"
    and v: "validate_shared_create c db1 (view_of (L2pDict dd)) L2Policy = Inr ()"
    and n: "ref_list (l2pd_l3_policy_id dd) \<noteq> []" and r: "r \<in> set (tb_l2ps db1)" "row_id r = d_id dd"
  shows "\<exists>l. l2p_l3p_id r = Some l \<and> l \<in> set (table_ids L3Policy db1)"
proof -
  from n obtain l where l: "ref_list (l2pd_l3_policy_id dd) = [l]" "l2pd_l3_policy_id dd = Some l"
    by (auto simp: ref_list_def split: option.splits if_splits)
  then have "l \<in> set (table_ids L3Policy db1)"
    using validated_use_inv[OF v, of L3Policy l] by (auto simp: obj_uses_def obj_l2p_def obj_of_def)
  with l(2) new_l2p_row[OF c refl r] show ?thesis by simp
qed

text \<open>C26: With the implicit policy driver, and other drivers that leave the policy database and the
  context alone: whatever L3 policy a request to create an L2 policy names, or none, if the request
  succeeds the L2 policy it answers with has an L3 policy, and that one exists.\<close>

theorem implicit_l3_policy:
  assumes p: "hands_off P"
    and x: "plugin_create_l2_policy (implicit_plugin (Suc n) cfg A P) c i b w = (Inr d, w')"
  shows "\<exists>l. l2p_l3p d = Some l \<and> l \<in> set (table_ids L3Policy (w_db w'))"
proof -
  let ?P = "implicit_plugin (Suc n) cfg A P"
  have pre: "still (policy_hook ?P (create_type (NewL2Policy b)) CreatePrecommit)"
    unfolding create_type.simps by (rule implicit_hook_still[OF p implicit_call_other(2)])
  obtain db0 db1 d1 w2 w3 where c: "create_row (pl_env ?P) c i (NewL2Policy b) db0 = Inr (db1, d1)"
    and v: "validate_shared_create c db1 (view_of d1) L2Policy = Inr ()" and w2: "w_db w2 = db1"
      "w_context w2 = Some \<lparr> cx_plugin_context = c, cx_current = d1, cx_original = None \<rparr>"
    and h: "policy_hook ?P L2Policy CreatePostcommit w2 = (Inr (), w3)" and w': "w_db w' = w_db w3"
    and g: "get_dict (pl_env ?P) c L2Policy (rv_id (view_of d1)) (w_db w3) = Inr d"
    using create_handler_success[OF implicit_reads[OF p] pre x[unfolded plugin_create_l2_policy_def]] by auto
  obtain dd where d1: "d1 = L2pDict dd"
    using c by (auto simp: create_row_def with_dict_def bindE_eq_Inr split: if_splits)
  obtain r where r: "r \<in> set (tb_l2ps (w_db w3))" "row_id r = d_id dd" "d = L2pDict (map_make_l2_policy_dict (w_db w3) r)"
    using get_l2p_dict[OF g] d1 by (auto simp: obj_l2p_def obj_of_def)
  obtain w4 where i: "implicit_create_l2_policy_postcommit cfg A (implicit_plugin n cfg A P) w2 = (Inr (), w4)"
    "w_db w3 = w_db w4"
    using implicit_hook_Inr[OF p _ _ h] by (auto simp: implicit_call_def)
  show ?thesis
  proof (cases "ref_list (l2pd_l3_policy_id dd) = []")
    case True
    from implicit_l3p_written[OF p True w2(2)[unfolded d1] i(1)] r i(2) w' row_in_upd[of r "d_id dd"]
    show ?thesis by (fastforce simp: l2p_dict_fields)
  next
    case False
    with i(1) w2(2) d1 have "w4 = w2"
      by (auto simp: implicit_create_l2_policy_postcommit_def on_l2p_def act_bind_def context_now_def split: list.splits)
    with requested_l3p_validated[OF c[unfolded d1] v[unfolded d1] False, of r] r w' i(2) w2(1)
    show ?thesis by (auto simp: l2p_dict_fields)
  qed
qed

section \<open>A group has an L2 policy\<close>

lemma get_ptg_dict:
  "get_dict e c PolicyTargetGroup i db = Inr d \<Longrightarrow>
   \<exists>r \<in> set (tb_ptgs db). row_id r = i \<and> d = PtgDict (map_make_policy_target_group_dict db r)"
  by (auto simp: bindE_eq_Inr get_defs row_defs dest!: get_by_id_Inr)

lemma ptg_dict_fields:
  "ptgd_l2_policy_id (map_make_policy_target_group_dict db r) = ptg_l2p_id r"
  "d_id (map_make_policy_target_group_dict db r) = row_id r"
  by (simp_all add: map_make_policy_target_group_dict_def make_policy_target_group_dict_def ptg_dict.defs
      ptgm_dict.defs shared_dict.defs)

lemma new_ptg_row:
  assumes "create_row e c i (NewPolicyTargetGroup b) db = Inr (db', d1)" and "d1 = PtgDict dd"
    and "r \<in> set (tb_ptgs db')" and "row_id r = d_id dd"
  shows "ptg_l2p_id r = ptgd_l2_policy_id dd"
proof -
  from assms(1,2) obtain db0 new where t: "tb_ptgs db' = tb_ptgs db @ [new]"
    and dd: "dd = map_make_policy_target_group_dict db' new" and n: "row_id new \<notin> set (ids (tb_ptgs db))"
    by (auto simp: create_row_def with_dict_def bindE_eq_Inr create_policy_target_group_def Let_def
        shared_row.defs policy_target_group.defs new_mapping_row_def dest!: opt_frames split: if_splits)
  with assms(3,4) have "r = new" by (auto simp: ptg_dict_fields ids_def) (metis imageI)
  with dd show ?thesis by (simp add: ptg_dict_fields)
qed

lemma l3p_of_proxied_context: "keeps (\<lambda>w. w_context w = cx) (l3p_of_proxied_group A P c g)"
  unfolding l3p_of_proxied_group_def
  by (intro keeps_bind keeps_own_context)
    (auto split: list.splits option.splits intro!: keeps keeps_own_context simp del: act_return_simps)

lemma implicit_l2p_written:
  assumes n: "ref_list (ptgd_l2_policy_id dd) = []"
    and w2: "w_context w2 = Some \<lparr> cx_plugin_context = c, cx_current = PtgDict dd, cx_original = None \<rparr>"
    and i: "implicit_create_policy_target_group_postcommit cfg A P w2 = (Inr (), w4)"
  shows "\<exists>l db5. l \<in> set (table_ids L2Policy db5) \<and>
    w_db w4 = db5\<lparr> tb_ptgs := upd_row (d_id dd) (\<lambda>q. q\<lparr> ptg_l2p_id := Some l \<rparr>) (tb_ptgs db5) \<rparr>"
proof -
  from i n w2 have "use_implicit_l2_policy cfg A P w2 = (Inr (), w4)"
    by (simp add: implicit_create_policy_target_group_postcommit_def on_ptg_def act_bind_def context_now_def)
  with w2 obtain l3p w5 l2p w6 where
    p3: "l3p_of_proxied_group A P c (d_id dd) w2 = (Inr l3p, w5)"
    and l: "local_create_l2_policy A P c
      (implicit_l2p_attrs (d_tenant_id dd) (d_name dd) (d_shared dd) l3p) w5 = (Inr l2p, w6)"
    and s: "act_bind (put_current (PtgDict (dd\<lparr> ptgd_l2_policy_id := Some (rv_id (view_of l2p)) \<rparr>))) (\<lambda>_.
       act_bind (mark_l2_policy_owned (rv_id (view_of l2p))) (\<lambda>_.
         ptg_set_l2_policy_id (Some (rv_id (view_of l2p))))) w6 = (Inr (), w4)"
    by (auto simp: use_implicit_l2_policy_def on_ptg_def act_bind_Inr context_now_def)
  define k where "k = rv_id (view_of l2p)"
  have "w_context w5 = w_context w2" using keepsD[OF l3p_of_proxied_context _ p3] by simp
  moreover have "w_context w6 = w_context w5"
    using keepsD[OF local_create_context _ l[unfolded local_create_l2_policy_def]] by simp
  ultimately have "k \<in> set (table_ids L2Policy (w_db w6))"
    and "w_db w4 = (w_db w6)\<lparr> tb_ptgs := upd_row (d_id dd) (\<lambda>q. q\<lparr> ptg_l2p_id := Some k \<rparr>) (tb_ptgs (w_db w6)) \<rparr>"
    using s w2 unfolding k_def
    by (auto simp: act_bind_Inr put_current_def mark_l2_policy_owned_def ptg_set_l2_policy_id_def on_ptg_def
        context_now_def db_parts db_write_def bindE_eq_Inr set_l2_policy_for_policy_target_group_def split: if_splits)
  then show ?thesis by blast
qed

lemma requested_l2p_validated:
  assumes c: "create_row e c i (NewPolicyTargetGroup b) db0 = Inr (db1, PtgDict dd)"
    and v: "validate_shared_create c db1 (view_of (PtgDict dd)) PolicyTargetGroup = Inr ()"
    and n: "ref_list (ptgd_l2_policy_id dd) \<noteq> []" and r: "r \<in> set (tb_ptgs db1)" "row_id r = d_id dd"
  shows "\<exists>l. ptg_l2p_id r = Some l \<and> l \<in> set (table_ids L2Policy db1)"
proof -
  from n obtain l where l: "ref_list (ptgd_l2_policy_id dd) = [l]" "ptgd_l2_policy_id dd = Some l"
    by (auto simp: ref_list_def split: option.splits if_splits)
  then have "l \<in> set (table_ids L2Policy db1)"
    using validated_use_inv[OF v, of L2Policy l] by (auto simp: obj_uses_def obj_ptg_def obj_of_def)
  with l(2) new_ptg_row[OF c refl r] show ?thesis by simp
qed

text \<open>C24: With the implicit policy driver, and other drivers that leave the policy database and the
  context alone: whatever L2 policy a request to create a group names, or none, if the request succeeds
  the group it answers with has an L2 policy, and that one exists.\<close>

theorem implicit_l2_policy:
  assumes p: "hands_off P"
    and x: "plugin_create_policy_target_group fuel (implicit_plugin (Suc n) cfg A P) c i b w = (Inr d, w')"
  shows "\<exists>l. ptg_l2p d = Some l \<and> l \<in> set (table_ids L2Policy (w_db w'))"
proof -
  let ?P = "implicit_plugin (Suc n) cfg A P"
  have pre: "still (policy_hook ?P (create_type (NewPolicyTargetGroup b)) CreatePrecommit)"
    unfolding create_type.simps by (rule implicit_hook_still[OF p implicit_call_other(3)])
  obtain db0 db1 d1 w2 w3 where c: "create_row (pl_env ?P) c i (NewPolicyTargetGroup b) db0 = Inr (db1, d1)"
    and v: "validate_shared_create c db1 (view_of d1) PolicyTargetGroup = Inr ()" and w2: "w_db w2 = db1"
      "w_context w2 = Some \<lparr> cx_plugin_context = c, cx_current = d1, cx_original = None \<rparr>"
    and h: "policy_hook ?P PolicyTargetGroup CreatePostcommit w2 = (Inr (), w3)" and w': "w_db w' = w_db w3"
    and g: "get_dict (pl_env ?P) c PolicyTargetGroup (rv_id (view_of d1)) (w_db w3) = Inr d"
    using create_handler_success[OF implicit_reads[OF p] pre x[unfolded plugin_create_policy_target_group_def]] by auto
  obtain dd where d1: "d1 = PtgDict dd"
    using c by (auto simp: create_row_def with_dict_def bindE_eq_Inr split: if_splits)
  obtain r where r: "r \<in> set (tb_ptgs (w_db w3))" "row_id r = d_id dd"
      "d = PtgDict (map_make_policy_target_group_dict (w_db w3) r)"
    using get_ptg_dict[OF g] d1 by (auto simp: obj_ptg_def obj_of_def)
  obtain w4 where i: "implicit_create_policy_target_group_postcommit cfg A (implicit_plugin n cfg A P) w2 = (Inr (), w4)"
    "w_db w3 = w_db w4"
    using implicit_hook_Inr[OF p _ _ h] by (auto simp: implicit_call_def)
  show ?thesis
  proof (cases "ref_list (ptgd_l2_policy_id dd) = []")
    case True
    from implicit_l2p_written[OF True w2(2)[unfolded d1] i(1)] r i(2) w' row_in_upd[of r "d_id dd"]
    show ?thesis by (fastforce simp: ptg_dict_fields)
  next
    case False
    with i(1) w2(2) d1 have "w4 = w2"
      by (auto simp: implicit_create_policy_target_group_postcommit_def on_ptg_def act_bind_def context_now_def split: list.splits)
    with requested_l2p_validated[OF c[unfolded d1] v[unfolded d1] False, of r] r w' i(2) w2(1)
    show ?thesis by (auto simp: ptg_dict_fields)
  qed
qed

section \<open>A scenario\<close>

definition demo_config :: implicit_config where
  "demo_config = \<lparr> default_l3_policy_name = ''default'', default_ip_version = 4,
     default_ip_pool = ''10.0.0.0/8'', default_subnet_prefix_length = 24,
     default_external_segment_name = Some ''default'' \<rparr>"

text \<open>Ids are runs of one character; no reservations are made.\<close>

definition demo_local :: "nat local_api" where
  "demo_local = \<lparr> la_uuid = (\<lambda>n. (replicate n CHR ''x'', Suc n)), la_reserve = (\<lambda>c rt n. (Inr None, n)),
     la_commit = (\<lambda>c r n. n), la_cancel = (\<lambda>c r n. n), la_proxied_group_id = (\<lambda>n i. None) \<rparr>"

definition demo_implicit :: "nat \<Rightarrow> (unit owned_policies_scheme, nat) plugin" where
  "demo_implicit n = implicit_plugin n demo_config demo_local (idle_plugin demo_env demo_parse [''dummy''])"

definition demo_start :: "(unit owned_policies_scheme, nat) world" where
  "demo_start = \<lparr> w_db = empty_db, w_tables = \<lparr> owned_l2_policies = [], owned_l3_policies = [] \<rparr>,
     w_outside = 1, w_context = None \<rparr>"

definition demo_ptg :: ptg_body where
  "demo_ptg = shared_body.extend (demo_body ''web'') (ptg_body.fields None None None None False None None None)"

definition demo_l2p :: l2p_body where
  "demo_l2p = shared_body.extend (demo_body ''l2'') (l2p_body.fields None None None)"

lemma demo_group_l2p:
  "case plugin_create_policy_target_group 1 (demo_implicit 4) demo_ctx ''g1'' demo_ptg demo_start of
     (Inr d, w) \<Rightarrow> ptg_l2p d = Some ''x'' \<and> table_ids L3Policy (w_db w) = [''xx'']
       \<and> owned_l2_policies (w_tables w) = [''x''] \<and> owned_l3_policies (w_tables w) = [''xx'']
   | (Inl e, w) \<Rightarrow> False"
  by code_simp

lemma demo_policy_l3p:
  "case plugin_create_l2_policy (demo_implicit 4) demo_ctx ''p1'' demo_l2p demo_start of
     (Inr d, w) \<Rightarrow> l2p_l3p d = Some ''x'' | (Inl e, w) \<Rightarrow> False"
  by code_simp

lemma implicit_l2_policy_witness:
  "\<exists>d w'. plugin_create_policy_target_group 1 (demo_implicit 4) demo_ctx ''g1'' demo_ptg demo_start = (Inr d, w') \<and>
     ''x'' \<in> set (table_ids L2Policy (w_db w'))"
proof -
  obtain d w' where x: "plugin_create_policy_target_group 1 (demo_implicit 4) demo_ctx ''g1'' demo_ptg demo_start = (Inr d, w')"
    and l: "ptg_l2p d = Some ''x''"
    using demo_group_l2p by (auto split: prod.splits sum.splits)
  have f: "demo_implicit 4 = implicit_plugin (Suc 3) demo_config demo_local (idle_plugin demo_env demo_parse [''dummy''])"
    by (simp add: demo_implicit_def eval_nat_numeral)
  from implicit_l2_policy[OF idle_hands_off x[unfolded f]] l x show ?thesis by auto
qed

lemma implicit_l3_policy_witness:
  "\<exists>d w'. plugin_create_l2_policy (demo_implicit 4) demo_ctx ''p1'' demo_l2p demo_start = (Inr d, w') \<and>
     ''x'' \<in> set (table_ids L3Policy (w_db w'))"
proof -
  obtain d w' where x: "plugin_create_l2_policy (demo_implicit 4) demo_ctx ''p1'' demo_l2p demo_start = (Inr d, w')"
    and l: "l2p_l3p d = Some ''x''"
    using demo_policy_l3p by (auto split: prod.splits sum.splits)
  have f: "demo_implicit 4 = implicit_plugin (Suc 3) demo_config demo_local (idle_plugin demo_env demo_parse [''dummy''])"
    by (simp add: demo_implicit_def eval_nat_numeral)
  from implicit_l3_policy[OF idle_hands_off x[unfolded f]] l x show ?thesis by auto
qed

lemma query_exact_witness:
  "\<exists>ds w'. get_resources demo_plugin demo_ctx PolicyRule [(''id'', [''r1''])] (serve 3 demo_plugin demo_requests demo_world) = (Inr ds, w')
     \<and> w_db w' = demo_served \<and> ds \<noteq> []"
proof -
  have "case get_resources demo_plugin demo_ctx PolicyRule [(''id'', [''r1''])] (serve 3 demo_plugin demo_requests demo_world) of
      (Inr ds, w') \<Rightarrow> ds \<noteq> [] | _ \<Rightarrow> False" by code_simp
  then obtain ds w' where x: "get_resources demo_plugin demo_ctx PolicyRule [(''id'', [''r1''])]
      (serve 3 demo_plugin demo_requests demo_world) = (Inr ds, w')" and ds: "ds \<noteq> []"
    by (auto split: prod.splits sum.splits)
  have off: "hands_off demo_plugin" by (simp add: demo_plugin_def idle_hands_off)
  from query_exact[OF off x] x ds show ?thesis by (simp add: demo_served_def)
qed

text \<open>
  The default external segment is set without the sharing validation of the plugin: a shared L3
  policy that names no segment ends up on the default one, shared or not.
\<close>

definition demo_shared_l3p :: l3p_body where
  "demo_shared_l3p = demo_l3p\<lparr> bd_shared := Some True, l3pb_external_segments := None \<rparr>"

definition demo_default_es :: es_body where
  "demo_default_es = shared_body.extend (demo_body ''default'') (es_body.fields 4 ''7.7.0.0/16'' False None None)"

text \<open>With the implicit policy driver a shared L3 policy can refer to an external segment that
  is not shared, which the plugin refuses when a request names the segment.\<close>

theorem implicit_segment_unvalidated:
  "let w1 = serve 1 (demo_implicit 4)
       [(demo_ctx, ''e1'', PluginCreate None (NewExternalSegment demo_default_es))] demo_start;
       db = w_db (serve 1 (demo_implicit 4)
         [(demo_ctx, ''l1'', PluginCreate None (NewL3Policy demo_shared_l3p))] w1)
   in uses db L3Policy ''l1'' ExternalSegment ''e1'' \<and> shared_in db L3Policy ''l1'' \<and>
      \<not> shared_in db ExternalSegment ''e1'' \<and>
      fst (handle 1 (demo_implicit 4) demo_ctx ''l1'' (PluginCreate None (NewL3Policy (demo_l3p\<lparr> bd_shared := Some True \<rparr>))) w1)
      = Inl (GbpExn (SharedResourceReferenceError L3Policy ''l1'' ''external_segment'' ''e1''))"
  by code_simp

end
