(* ===== verification/Plugin_Deletion.thy ===== *)
theory Plugin_Deletion
  imports Implicit_Effects
begin

text \<open>
  The deletion of a policy target group, the longest workflow of the plugin: it follows the chain
  of proxy groups, empties the group and removes it.  While the proxy table stays the same, the bound
  on the recursion does not matter once it exceeds the length of the chain; a successful deletion
  leaves no trace of the group; and a group with a target whose port is bound is not deleted, and
  nothing is lost in the attempt.
\<close>

section \<open>The chain of proxy groups\<close>

text \<open>\<open>f\<close> is the proxy group of each group: the chain that starts at \<open>i\<close> ends within \<open>n\<close> groups.\<close>

fun proxy_chain :: "(string \<Rightarrow> string option) \<Rightarrow> nat \<Rightarrow> string \<Rightarrow> bool" where
  "proxy_chain f 0 i \<longleftrightarrow> False"
| "proxy_chain f (Suc n) i \<longleftrightarrow> (case ref_list (f i) of [] \<Rightarrow> True | g # _ \<Rightarrow> proxy_chain f n g)"

lemma precommit_proxy:
  assumes "\<forall>t. pl_proxy_group_id P t = f" and "delete_ptg_precommit P c i w = (Inr (ptg, proxy), w')"
  shows "proxy = f i"
  using assms by (auto simp: delete_ptg_precommit_def transaction_Inr act_bind_Inr proxy_group_of_def)

lemma act_bind_cong_Inr:
  assumes "\<And>x w w'. m w = (Inr x, w') \<Longrightarrow> f x = g x"
  shows "act_bind m f = act_bind m g"
  by (rule ext) (auto simp: act_bind_def split: prod.splits sum.splits dest: assms)

text \<open>If the extension driver's table of proxy groups is the same throughout, the deletion of a group
  comes to an end when the chain of proxy groups does: from the length of the chain on, the bound on
  the recursion makes no difference to the result, so the deletion never fails for exceeding it.\<close>

lemma group_deletion_terminates:
  assumes "\<forall>t. pl_proxy_group_id P t = f" and "proxy_chain f n i" and "n \<le> m"
  shows "plugin_delete_policy_target_group m P c i = plugin_delete_policy_target_group n P c i"
  using assms(2,3)
proof (induction n arbitrary: m i)
  case (Suc n)
  then obtain k where m: "m = Suc k" "n \<le> k" by (cases m) auto
  have "(case ref_list (f i) of
          [] \<Rightarrow> act_return ()
        | g # _ \<Rightarrow> act_catch (plugin_delete_policy_target_group k P c g) h) =
      (case ref_list (f i) of
          [] \<Rightarrow> act_return ()
        | g # _ \<Rightarrow> act_catch (plugin_delete_policy_target_group n P c g) h)" for h
    using Suc.prems(1) Suc.IH[OF _ m(2)] by (auto split: list.splits)
  then show ?case
    unfolding m plugin_delete_policy_target_group.simps
    by (intro act_bind_cong_Inr) (auto dest!: precommit_proxy[OF assms(1)])
qed simp

section \<open>A successful deletion\<close>

text \<open>With drivers that leave the policy database alone, a group whose deletion succeeds is
  gone, and no policy target, association or other column holds its id any more.\<close>

lemma group_deletion_complete:
  assumes p: "hands_off P" and x: "plugin_delete_policy_target_group fuel P c i w = (Inr (), w')"
  shows "i \<notin> set (table_ids PolicyTargetGroup (w_db w')) \<and> \<not> refers PolicyTargetGroup i (w_db w')"
proof -
  obtain n where n: "fuel = Suc n" using x by (cases fuel) auto
  from x[unfolded n] obtain w1 w2 ptg where
    d: "transaction (db_write (exec_delete c PolicyTargetGroup i)) w1 = (Inr (), w2)"
    and l: "act_bind (set_context c (without_rule_sets ptg) None) (\<lambda>_.
       act_catch (policy_hook P PolicyTargetGroup DeletePostcommit) (\<lambda>e. act_return ())) w2 = (Inr (), w')"
    unfolding plugin_delete_policy_target_group.simps act_bind_Inr by (auto simp: split_beta act_bind_Inr)
  have "quiet (act_bind (set_context c (without_rule_sets ptg) None) (\<lambda>_.
       act_catch (policy_hook P PolicyTargetGroup DeletePostcommit) (\<lambda>e. act_return ())))"
    by (intro quiet_bind quiet_catch quiet_basic quiet_plugin(1)[OF p])
  with l have "w_db w' = w_db w2" by (simp add: quiet_def)
  moreover have e: "exec_delete c PolicyTargetGroup i (w_db w1) = Inr (w_db w2)"
    using d by (auto simp: transaction_Inr db_write_def db_parts bindE_eq_Inr)
  ultimately show ?thesis
    using delete_unreferred[OF e] delete_table_ids[OF e, of PolicyTargetGroup] by simp
qed

section \<open>What the check reads\<close>

lemma act_each_ran:
  "act_each f xs w = (Inr (), w') \<Longrightarrow> x \<in> set xs \<Longrightarrow> \<exists>w1 w2. f x w1 = (Inr (), w2)"
  by (induction xs arbitrary: w) (auto simp: act_bind_Inr)

lemma group_lists_targets:
  assumes "get_dict e c PolicyTargetGroup i db = Inr d" and "t \<in> set (tb_pts db)" and "pt_ptg_id t = Some i"
  shows "row_id t \<in> set (ptg_targets d)"
proof -
  from get_ptg_dict[OF assms(1)] obtain r where "row_id r = i" "d = PtgDict (map_make_policy_target_group_dict db r)" by blast
  with assms(2,3) show ?thesis
    by (auto simp: map_make_policy_target_group_dict_def make_policy_target_group_dict_def ptg_dict.defs ptgm_dict.defs
        shared_dict.defs ids_def)
qed

lemma target_dict:
  assumes "distinct (ids (tb_pts db))" and "t \<in> set (tb_pts db)" and "sees_pt c t"
  shows "\<exists>a. get_dict e c PolicyTarget (row_id t) db = Inr (PtDict (map_make_policy_target_dict t a))"
proof -
  have "get_by_id (sees_pt c) PolicyTarget (tb_pts db) (row_id t) = Inr t"
  proof (cases "get_by_id (sees_pt c) PolicyTarget (tb_pts db) (row_id t)")
    case (Inl x)
    with assms(2,3) show ?thesis by (auto simp: get_by_id_def find_None_iff split: option.splits)
  next
    case (Inr r)
    from get_by_id_Inr[OF this] assms(1,2) have "r = t" by (auto simp: ids_def distinct_map dest: inj_onD)
    with Inr show ?thesis by simp
  qed
  then show ?thesis by (auto simp: get_policy_target_def get_policy_target_row_def)
qed

lemma target_dict_fields:
  "ptd_port_id (map_make_policy_target_dict t a) = pt_port_id t"
  "dict_field (PtDict (map_make_policy_target_dict t a)) ''id'' = Some (row_id t)"
  by (simp_all add: map_make_policy_target_dict_def make_policy_target_dict_def pt_dict.defs ptm_dict.defs
      dict_field_def obj_pt_def obj_of_def)

section \<open>Groups in use\<close>

text \<open>C25: With drivers that leave the policy database and the context alone, and a context whose
  elevation sees every row: a group one of whose policy targets has a bound port is not deleted by any
  request, and the failed attempt leaves the policy database and the tables of the drivers as they were.\<close>

theorem bound_group_kept:
  assumes off: "hands_off P" and all: "admin_sees_all c" and ids: "distinct (ids (tb_pts (w_db w)))"
    and t: "t \<in> set (tb_pts (w_db w))" "pt_ptg_id t = Some i" "pt_port_id t = Some port" "port \<noteq> []"
    and bound: "\<forall>v. is_port_bound P port v = (Inr True, v)"
    and x: "plugin_delete_policy_target_group fuel P c i w = (r, w')"
  shows "isl r \<and> w_db w' = w_db w \<and> w_tables w' = w_tables w"
proof (cases fuel)
  case 0
  with x show ?thesis by (auto simp: act_raise_def)
next
  case (Suc n)
  have refused: "isl q" if p: "delete_ptg_precommit P c i w = (q, w1)" for q w1
  proof (cases q)
    case (Inr y)
    obtain ptg w2 pts w3 w4 where g: "get_resource P c PolicyTargetGroup i w = (Inr ptg, w2)"
      and q: "get_resources P (elevated c) PolicyTarget [(''id'', ptg_targets ptg)] w2 = (Inr pts, w3)"
      and l: "act_each (\<lambda>pt. case pt_port pt of [] \<Rightarrow> act_return ()
         | port # _ \<Rightarrow> act_bind (is_port_bound P port) (\<lambda>bound.
               if bound then act_raise (GbpExn (PolicyTargetGroupInUse i)) else act_return ())) pts w3 = (Inr (), w4)"
      using p[unfolded Inr delete_ptg_precommit_def transaction_Inr act_bind_Inr]
      by (auto simp: proxy_group_of_def)
    from get_resource_still[OF off g] have db: "w_db w2 = w_db w"
      and d: "get_dict (pl_env P) c PolicyTargetGroup i (w_db w) = Inr ptg" by auto
    have s: "sees_pt (elevated c) t" using sees_elevated[OF all] by (simp add: sees_pt_def)
    obtain a where a: "get_dict (pl_env P) (elevated c) PolicyTarget (row_id t) (w_db w) =
        Inr (PtDict (map_make_policy_target_dict t a))" using target_dict[OF ids t(1) s] by blast
    have "view_pt t \<in> set (views PolicyTarget (w_db w))" using t(1) by simp
    moreover have "sees (elevated c) (rv_tenant (view_pt t)) (rv_shared (view_pt t))" by (rule sees_elevated[OF all])
    moreover have "rv_id (view_pt t) = row_id t" by (simp add: view_pt_def)
    moreover have "row_id t \<in> set (ptg_targets ptg)" by (rule group_lists_targets[OF d t(1,2)])
    ultimately have "PtDict (map_make_policy_target_dict t a) \<in> set pts"
      using query_exact[OF off q] a by (auto simp: db target_dict_fields)
    from act_each_ran[OF l this] t(3,4) bound show ?thesis
      by (auto simp: target_dict_fields ref_list_def act_bind_def act_raise_def)
  qed simp
  obtain q w1 where p: "delete_ptg_precommit P c i w = (q, w1)" by (cases "delete_ptg_precommit P c i w")
  with refused obtain e where e: "q = Inl e" by (cases q) auto
  with p have "w_db w1 = w_db w \<and> w_tables w1 = w_tables w"
    unfolding delete_ptg_precommit_def by (auto dest: transaction_Inl)
  moreover have "r = Inl e \<and> w' = w1" using x p e Suc by (simp add: act_bind_def)
  ultimately show ?thesis by simp
qed

section \<open>Witnesses\<close>

definition demo_bare_group :: ptg_body where
  "demo_bare_group = shared_body.extend (demo_body ''web'') (ptg_body.fields None None None None False None None None)"

definition demo_group_requests :: "(ctx \<times> string \<times> plugin_request) list" where
  "demo_group_requests =
     [(demo_ctx, ''g1'', PluginCreate None (NewPolicyTargetGroup demo_bare_group)),
      (demo_ctx, ''t1'', PluginCreate None (NewPolicyTarget (gbp_body.extend (gbp_body.truncate (demo_body ''pt''))
         (pt_body.fields (Some ''g1'') None [] None))))]"

lemma demo_group_deleted:
  "case plugin_delete_policy_target_group 1 demo_plugin demo_ctx ''g1'' (serve 1 demo_plugin demo_group_requests demo_world) of
     (Inr u, w') \<Rightarrow> tb_pts (w_db w') = [] | _ \<Rightarrow> False"
  by code_simp

lemma group_deletion_complete_witness:
  "\<exists>w'. plugin_delete_policy_target_group 1 demo_plugin demo_ctx ''g1'' (serve 1 demo_plugin demo_group_requests demo_world)
      = (Inr (), w') \<and> \<not> refers PolicyTargetGroup ''g1'' (w_db w')"
proof -
  obtain w' where x: "plugin_delete_policy_target_group 1 demo_plugin demo_ctx ''g1''
      (serve 1 demo_plugin demo_group_requests demo_world) = (Inr (), w')"
    using demo_group_deleted by (auto split: prod.splits sum.splits)
  have off: "hands_off demo_plugin" by (simp add: demo_plugin_def idle_hands_off)
  from group_deletion_complete[OF off x] x show ?thesis by blast
qed

definition demo_proxied :: "(unit, unit) plugin" where
  "demo_proxied = demo_plugin\<lparr> pl_proxy_group_id := (\<lambda>_ i. if i = ''g1'' then Some ''g2'' else None) \<rparr>"

lemma group_deletion_terminates_witness:
  "plugin_delete_policy_target_group 9 demo_proxied demo_ctx ''g1'' = plugin_delete_policy_target_group 2 demo_proxied demo_ctx ''g1''"
proof (rule group_deletion_terminates)
  show "\<forall>t. pl_proxy_group_id demo_proxied t = (\<lambda>i. if i = ''g1'' then Some ''g2'' else None)"
    by (simp add: demo_proxied_def)
  show "proxy_chain (\<lambda>i. if i = ''g1'' then Some ''g2'' else None) 2 ''g1''"
    by (simp add: ref_list_def eval_nat_numeral)
qed simp

text \<open>A server whose ports are all bound, and a group with one target.\<close>

definition demo_bound_plugin :: "(unit, unit) plugin" where
  "demo_bound_plugin = demo_plugin\<lparr> pl_get_port := (\<lambda>_ _. Inr \<lparr> po_vif_type = Some ''ovs'', po_host_id = Some ''h'',
     po_device_owner = ''compute:nova'', po_device_id = ''vm'' \<rparr>) \<rparr>"

definition demo_bound_requests :: "(ctx \<times> string \<times> plugin_request) list" where
  "demo_bound_requests =
     [(demo_ctx, ''g1'', PluginCreate None (NewPolicyTargetGroup demo_bare_group)),
      (demo_ctx, ''t1'', PluginCreate None (NewPolicyTarget (gbp_body.extend (gbp_body.truncate (demo_body ''pt''))
         (pt_body.fields (Some ''g1'') (Some ''p1'') [] None))))]"

definition demo_bound_world :: "(unit, unit) world" where
  "demo_bound_world = serve 1 demo_plugin demo_bound_requests demo_world"

lemma demo_bound_off: "hands_off demo_bound_plugin"
  using idle_hands_off[of demo_env demo_parse "[''dummy'']"]
  by (simp add: demo_bound_plugin_def demo_plugin_def hands_off_def)

lemma demo_bound_port: "is_port_bound demo_bound_plugin ''p1'' v = (Inr True, v)"
  by (simp add: is_port_bound_def demo_bound_plugin_def act_bind_def act_lift_def act_return_def ref_list_def)

lemma bound_group_kept_witness:
  "\<exists>r w'. plugin_delete_policy_target_group 1 demo_bound_plugin demo_ctx ''g1'' demo_bound_world = (r, w') \<and> isl r \<and>
     table_ids PolicyTarget (w_db w') = [''t1'']"
proof -
  obtain r w' where x: "plugin_delete_policy_target_group 1 demo_bound_plugin demo_ctx ''g1'' demo_bound_world = (r, w')"
    by fastforce
  have t: "map (\<lambda>t. (row_id t, pt_ptg_id t, pt_port_id t)) (tb_pts (w_db demo_bound_world)) = [(''t1'', Some ''g1'', Some ''p1'')]"
    by code_simp
  then obtain t where t1: "tb_pts (w_db demo_bound_world) = [t]" "row_id t = ''t1''" "pt_ptg_id t = Some ''g1''" "pt_port_id t = Some ''p1''"
    by auto
  have "distinct (ids (tb_pts (w_db demo_bound_world)))" and m: "t \<in> set (tb_pts (w_db demo_bound_world))"
    by (simp_all add: t1 ids_def)
  from bound_group_kept[OF demo_bound_off demo_admin this t1(3,4) _ _ x] demo_bound_port
  have "isl r \<and> w_db w' = w_db demo_bound_world" by simp
  with x t1 show ?thesis by (simp add: ids_def)
qed

end
