(* ===== verification/Neutron_Tables.thy ===== *)
theory Neutron_Tables
  imports Prelude
begin

text \<open>
  The rows of the core service's tables that the queries of the mechanism driver join, and the
  two mapping tables of \<^verbatim>\<open>apic_aim/db.py\<close> that relate address scopes and networks to resources of
  the fabric.  A table is the list of its rows; a query without an order returns rows in the
  order of the table.  Only the columns the queries use are kept.
\<close>

section \<open>Core rows\<close>

record scope_row =
  scope_id :: string
  scope_ip_version :: int

record pool_row =
  pool_id :: string
  pool_scope_id :: "string option"

record subnet_row =
  subnet_id :: string
  subnet_network_id :: string
  subnet_pool_id :: "string option"
  subnet_cidr :: string
  subnet_gateway_ip :: "string option"
  subnet_ip_version :: int
  subnet_enable_dhcp :: bool

record port_row =
  port_id :: string
  port_network_id :: string
  port_device_id :: string
  port_device_owner :: string
  port_name :: string
  port_mac :: string
  port_project_id :: string
  port_admin_state_up :: bool

record alloc_row =
  alloc_port_id :: string
  alloc_subnet_id :: string
  alloc_ip :: string
  alloc_network_id :: string

record router_row =
  router_id :: string
  router_gw_port_id :: "string option"

record router_port_row =
  rp_router_id :: string
  rp_port_id :: string
  rp_type :: string

text \<open>The actions of the network's access control entries.\<close>

record network_row =
  network_id :: string
  network_tenant_id :: string
  network_rbac_actions :: "string list"
  network_mtu :: "int option"

section \<open>Mapping rows\<close>

record address_scope_mapping =
  asm_scope_id :: string
  asm_vrf_name :: "string option"
  asm_vrf_tenant_name :: "string option"
  asm_vrf_owned :: bool

record network_mapping =
  nm_network_id :: string
  nm_bd_name :: "string option"
  nm_bd_tenant_name :: "string option"
  nm_epg_name :: "string option"
  nm_epg_app_profile_name :: "string option"
  nm_epg_tenant_name :: "string option"
  nm_l3out_name :: "string option"
  nm_l3out_ext_net_name :: "string option"
  nm_l3out_tenant_name :: "string option"
  nm_vrf_name :: "string option"
  nm_vrf_tenant_name :: "string option"

record neutron_db =
  nt_scopes :: "scope_row list"
  nt_pools :: "pool_row list"
  nt_networks :: "network_row list"
  nt_subnets :: "subnet_row list"
  nt_ports :: "port_row list"
  nt_allocs :: "alloc_row list"
  nt_routers :: "router_row list"
  nt_router_ports :: "router_port_row list"
  nt_scope_mappings :: "address_scope_mapping list"
  nt_network_mappings :: "network_mapping list"

section \<open>Constants\<close>

definition device_owner_router_intf :: string where
  "device_owner_router_intf = ''network:router_interface''"

definition device_owner_router_gw :: string where
  "device_owner_router_gw = ''network:router_gateway''"

definition access_shared :: string where
  "access_shared = ''access_as_shared''"

text \<open>\<^verbatim>\<open>if x:\<close> for a string that may be missing.\<close>

definition truthy :: "string option \<Rightarrow> bool" where
  "truthy x = (case x of None \<Rightarrow> False | Some s \<Rightarrow> s \<noteq> [])"

lemma truthy_simps [simp]: "\<not> truthy None" "truthy (Some s) \<longleftrightarrow> s \<noteq> []"
  by (simp_all add: truthy_def)

text \<open>The order of strings by code points.\<close>

fun string_leq :: "string \<Rightarrow> string \<Rightarrow> bool" where
  "string_leq [] bs = True"
| "string_leq (a # as) [] = False"
| "string_leq (a # as) (b # bs) = (if a = b then string_leq as bs else (of_char a :: nat) < of_char b)"

section \<open>Relationships\<close>

text \<open>\<^verbatim>\<open>subnet.subnetpool\<close> and the address scope behind it.\<close>

definition subnet_pool :: "neutron_db \<Rightarrow> subnet_row \<Rightarrow> pool_row option" where
  "subnet_pool db s = (case subnet_pool_id s of None \<Rightarrow> None | Some p \<Rightarrow> find (\<lambda>q. pool_id q = p) (nt_pools db))"

definition subnet_scoped :: "neutron_db \<Rightarrow> subnet_row \<Rightarrow> bool" where
  "subnet_scoped db s = (case subnet_pool db s of None \<Rightarrow> False | Some p \<Rightarrow> truthy (pool_scope_id p))"

text \<open>An interface of one of the routers has an address on the subnet.\<close>

definition subnet_on_router :: "neutron_db \<Rightarrow> (string \<Rightarrow> bool) \<Rightarrow> subnet_row \<Rightarrow> bool" where
  "subnet_on_router db R s =
     list_ex (\<lambda>a. alloc_subnet_id a = subnet_id s \<and>
       list_ex (\<lambda>rp. rp_port_id rp = alloc_port_id a \<and> R (rp_router_id rp) \<and>
         rp_type rp = device_owner_router_intf) (nt_router_ports db)) (nt_allocs db)"

text \<open>One of the networks has a port that is an interface of the router behind the row.\<close>

definition router_port_on_network :: "neutron_db \<Rightarrow> (string \<Rightarrow> bool) \<Rightarrow> router_port_row \<Rightarrow> bool" where
  "router_port_on_network db N rp \<longleftrightarrow>
     rp_type rp = device_owner_router_intf \<and>
     list_ex (\<lambda>p. port_id p = rp_port_id rp \<and> N (port_network_id p)) (nt_ports db)"

end
