(* ===== verification/Topology.thy ===== *)
theory Topology
  imports Neutron_Tables
begin

text \<open>
  The networks that are routed together with a router or a network, which the mechanism driver
  finds by expanding routers and networks in turns: the two mutually recursive methods
  \<^verbatim>\<open>_expand_topology_for_routers\<close> and \<^verbatim>\<open>_expand_topology_for_networks\<close>, and what uses them.
  A router leads to the networks it has an interface on in a subnet without an address scope; a
  network leads to the routers with an interface on it.
\<close>

section \<open>Queries\<close>

text \<open>The networks and subnets with an interface of the added routers, visited networks left out.\<close>

definition networks_of_routers ::
  "neutron_db \<Rightarrow> (string \<times> network_row) list \<Rightarrow> string list \<Rightarrow> (network_row \<times> subnet_row) list" where
  "networks_of_routers db visited added =
     [(n, s). n \<leftarrow> nt_networks db, s \<leftarrow> nt_subnets db,
        subnet_network_id s = network_id n \<and> subnet_on_router db (\<lambda>r. r \<in> set added) s \<and>
        network_id n \<notin> set (map fst visited)]"

text \<open>The list comprehension that keeps the networks of subnets without an address scope.\<close>

definition unscoped_networks ::
  "neutron_db \<Rightarrow> (string \<times> network_row) list \<Rightarrow> string list \<Rightarrow> network_row list" where
  "unscoped_networks db visited added =
     [n. (n, s) \<leftarrow> networks_of_routers db visited added, \<not> subnet_scoped db s]"

text \<open>The routers with an interface on the added networks, visited routers left out.\<close>

definition routers_of_networks :: "neutron_db \<Rightarrow> string list \<Rightarrow> string list \<Rightarrow> string list" where
  "routers_of_networks db visited added =
     remdups [rp_router_id rp. rp \<leftarrow> nt_router_ports db,
        router_port_on_network db (\<lambda>n. n \<in> set added) rp \<and> rp_router_id rp \<notin> set visited]"

text \<open>The loop that visits the new networks: the dictionary grows, ids met before are skipped.\<close>

fun visit_networks ::
  "(string \<times> network_row) list \<Rightarrow> string list \<Rightarrow> network_row list \<Rightarrow> (string \<times> network_row) list \<times> string list" where
  "visit_networks visited added [] = (visited, added)"
| "visit_networks visited added (n # ns) =
     (if network_id n \<in> set (map fst visited) then visit_networks visited added ns
      else visit_networks (visited @ [(network_id n, n)]) (added @ [network_id n]) ns)"

abbreviation visited_ids :: "(string \<times> network_row) list \<Rightarrow> string set" where
  "visited_ids visited \<equiv> set (map fst visited)"

lemma visit_networks_ids:
  "visit_networks visited added ns = (visited', added') \<Longrightarrow>
   visited_ids visited' = visited_ids visited \<union> network_id ` set ns"
  by (induction visited added ns rule: visit_networks.induct) (auto split: if_splits)

lemma visit_networks_added:
  "visit_networks visited added ns = (visited', added') \<Longrightarrow>
   set added' = set added \<union> (network_id ` set ns - visited_ids visited)"
  by (induction visited added ns rule: visit_networks.induct) (auto split: if_splits)

section \<open>The two expansions\<close>

text \<open>
  What bounds the recursion: the routers with ports and the networks with ports that have not been
  visited yet.  Ids outside the tables lead nowhere.
\<close>

definition unvisited :: "neutron_db \<Rightarrow> (string \<times> network_row) list \<Rightarrow> string list \<Rightarrow> nat" where
  "unvisited db visited routers =
     card (port_network_id ` set (nt_ports db) - visited_ids visited) +
     card (rp_router_id ` set (nt_router_ports db) - set routers)"

function expand_topology_for_routers ::
    "neutron_db \<Rightarrow> (string \<times> network_row) list \<Rightarrow> string list \<Rightarrow> string list \<Rightarrow> (string \<times> network_row) list \<times> string list"
  and expand_topology_for_networks ::
    "neutron_db \<Rightarrow> (string \<times> network_row) list \<Rightarrow> string list \<Rightarrow> network_row list \<Rightarrow> (string \<times> network_row) list \<times> string list"
where
  "expand_topology_for_routers db visited routers new =
     (let added = remdups (filter (\<lambda>r. r \<notin> set routers) new)
      in if added = [] then (visited, routers)
         else expand_topology_for_networks db visited (routers @ added)
           (unscoped_networks db visited added))"
| "expand_topology_for_networks db visited routers new =
     (case visit_networks visited [] new of (visited', added) \<Rightarrow>
        if added = [] then (visited', routers)
        else expand_topology_for_routers db visited' routers (routers_of_networks db routers added))"
  by pat_completeness auto

text \<open>The size of a call: what is unvisited, and whether the call itself brings anything new.\<close>

definition call_size ::
  "neutron_db \<times> (string \<times> network_row) list \<times> string list \<times> string list +
   neutron_db \<times> (string \<times> network_row) list \<times> string list \<times> network_row list \<Rightarrow> nat" where
  "call_size c = (case c of
       Inl (db, visited, routers, new) \<Rightarrow>
         2 * unvisited db visited routers + (if set new \<subseteq> set routers then 0 else 1)
     | Inr (db, visited, routers, new) \<Rightarrow>
         2 * unvisited db visited routers + (if network_id ` set new \<subseteq> visited_ids visited then 0 else 1))"

lemma card_minus_less: "finite A \<Longrightarrow> x \<in> A \<Longrightarrow> x \<notin> B \<Longrightarrow> x \<in> C \<Longrightarrow> B \<subseteq> C \<Longrightarrow> card (A - C) < card (A - B)"
  by (intro psubset_card_mono) auto

lemma card_minus_le: "finite A \<Longrightarrow> B \<subseteq> C \<Longrightarrow> card (A - C) \<le> card (A - B)"
  by (intro card_mono) auto

lemma networks_of_routers_source:
  "(n, s) \<in> set (networks_of_routers db visited added) \<Longrightarrow>
   \<exists>r \<in> set added. r \<in> rp_router_id ` set (nt_router_ports db)"
  by (auto simp: networks_of_routers_def subnet_on_router_def list_ex_iff)

lemma routers_of_networks_source:
  "r \<in> set (routers_of_networks db visited added) \<Longrightarrow>
   \<exists>n \<in> set added. n \<in> port_network_id ` set (nt_ports db)"
  by (auto simp: routers_of_networks_def router_port_on_network_def list_ex_iff)

lemma routers_call_smaller:
  assumes "\<not> set new \<subseteq> set routers"
    and "added = remdups (filter (\<lambda>r. r \<notin> set routers) new)"
  shows "call_size (Inr (db, visited, routers @ added,
      unscoped_networks db visited added)) <
    call_size (Inl (db, visited, routers, new))"
proof (cases "networks_of_routers db visited added = []")
  case True
  then have "unscoped_networks db visited added = []" by (simp add: unscoped_networks_def)
  then show ?thesis
    using assms card_minus_le[of "rp_router_id ` set (nt_router_ports db)" "set routers" "set (routers @ added)"]
    by (simp add: call_size_def unvisited_def)
next
  case False
  then obtain r where "r \<in> set added" "r \<in> rp_router_id ` set (nt_router_ports db)"
    using networks_of_routers_source by (metis list.set_intros(1) neq_Nil_conv prod.exhaust)
  with assms have "card (rp_router_id ` set (nt_router_ports db) - set (routers @ added)) <
      card (rp_router_id ` set (nt_router_ports db) - set routers)"
    by (intro card_minus_less[of _ r]) auto
  with assms(1) show ?thesis by (simp add: call_size_def unvisited_def)
qed

lemma networks_call_smaller:
  assumes "visit_networks visited [] new = (visited', added)" and "added \<noteq> []"
  shows "call_size (Inl (db, visited', routers, routers_of_networks db routers added)) <
    call_size (Inr (db, visited, routers, new))"
proof -
  note v = visit_networks_ids[OF assms(1)] and a = visit_networks_added[OF assms(1)]
  from assms(2) a have n: "\<not> network_id ` set new \<subseteq> visited_ids visited"
    by (metis Diff_eq_empty_iff list.set(1) set_empty2 sup_bot_left)
  show ?thesis
  proof (cases "routers_of_networks db routers added = []")
    case True
    then show ?thesis
      using n card_minus_le[of "port_network_id ` set (nt_ports db)" "visited_ids visited" "visited_ids visited'"] v
      by (simp add: call_size_def unvisited_def)
  next
    case False
    then obtain m where "m \<in> set added" "m \<in> port_network_id ` set (nt_ports db)"
      using routers_of_networks_source by (metis list.set_intros(1) neq_Nil_conv)
    with v a have "card (port_network_id ` set (nt_ports db) - visited_ids visited') <
        card (port_network_id ` set (nt_ports db) - visited_ids visited)"
      by (intro card_minus_less[of _ m]) auto
    with n show ?thesis by (simp add: call_size_def unvisited_def)
  qed
qed

termination expand_topology_for_routers
proof (relation "measure call_size", goal_cases)
  case 1
  show ?case by simp
next
  case (2 db visited routers new added)
  then show ?case unfolding in_measure by (intro routers_call_smaller) (auto simp: filter_empty_conv)
next
  case (3 db visited routers new visited' added)
  then show ?case unfolding in_measure by (intro networks_call_smaller) simp_all
qed

declare expand_topology_for_routers.simps [simp del] expand_topology_for_networks.simps [simp del]

definition router_topology :: "neutron_db \<Rightarrow> string \<Rightarrow> (string \<times> network_row) list" where
  "router_topology db r = fst (expand_topology_for_routers db [] [] [r])"

definition network_topology :: "neutron_db \<Rightarrow> network_row \<Rightarrow> (string \<times> network_row) list" where
  "network_topology db n = fst (expand_topology_for_networks db [] [] [n])"

definition network_shared :: "network_row \<Rightarrow> bool" where
  "network_shared n = list_ex (\<lambda>a. a = access_shared) (network_rbac_actions n)"

text \<open>The first shared network of a topology.\<close>

definition topology_shared :: "(string \<times> network_row) list \<Rightarrow> network_row option" where
  "topology_shared topology = find network_shared (map snd topology)"

section \<open>The topology is the closure under the two links\<close>

definition network_of_router :: "neutron_db \<Rightarrow> string \<Rightarrow> string \<Rightarrow> bool" where
  "network_of_router db r n \<longleftrightarrow> n \<in> network_id ` set (nt_networks db) \<and>
     (\<exists>s \<in> set (nt_subnets db). subnet_network_id s = n \<and> subnet_on_router db (\<lambda>x. x = r) s \<and> \<not> subnet_scoped db s)"

definition router_on_network :: "neutron_db \<Rightarrow> string \<Rightarrow> string \<Rightarrow> bool" where
  "router_on_network db n r \<longleftrightarrow>
     (\<exists>rp \<in> set (nt_router_ports db). rp_router_id rp = r \<and> router_port_on_network db (\<lambda>m. m = n) rp)"

inductive reach_router and reach_network
  for db :: neutron_db and R0 :: "string set" and N0 :: "string set" where
  start_router: "r \<in> R0 \<Longrightarrow> reach_router db R0 N0 r"
| link_router: "reach_network db R0 N0 n \<Longrightarrow> router_on_network db n r \<Longrightarrow> reach_router db R0 N0 r"
| start_network: "n \<in> N0 \<Longrightarrow> reach_network db R0 N0 n"
| link_network: "reach_router db R0 N0 r \<Longrightarrow> network_of_router db r n \<Longrightarrow> reach_network db R0 N0 n"

lemma subnet_on_routers: "subnet_on_router db (\<lambda>x. x \<in> A) s \<longleftrightarrow> (\<exists>r \<in> A. subnet_on_router db (\<lambda>x. x = r) s)"
  by (auto simp: subnet_on_router_def list_ex_iff)

lemma router_port_on_networks:
  "router_port_on_network db (\<lambda>x. x \<in> A) rp \<longleftrightarrow> (\<exists>n \<in> A. router_port_on_network db (\<lambda>x. x = n) rp)"
  by (auto simp: router_port_on_network_def list_ex_iff)

lemma unscoped_networks_of_routers:
  "network_id ` set (unscoped_networks db visited added) =
   {n. n \<notin> visited_ids visited \<and> (\<exists>r \<in> set added. network_of_router db r n)}"
  by (auto simp: unscoped_networks_def networks_of_routers_def network_of_router_def subnet_on_routers image_iff)

lemma set_routers_of_networks:
  "set (routers_of_networks db visited added) =
   {r. r \<notin> set visited \<and> (\<exists>n \<in> set added. router_on_network db n r)}"
  by (auto simp: routers_of_networks_def router_on_network_def router_port_on_networks)

text \<open>What the expansions collect lies in every pair of sets that is closed under the links.\<close>

lemma expansion_within:
  assumes n: "\<And>r n. r \<in> Q \<Longrightarrow> network_of_router db r n \<Longrightarrow> n \<in> P"
    and r: "\<And>n r. n \<in> P \<Longrightarrow> router_on_network db n r \<Longrightarrow> r \<in> Q"
  shows "expand_topology_for_routers db visited routers new = (v, rs) \<Longrightarrow>
      visited_ids visited \<subseteq> P \<Longrightarrow> set routers \<subseteq> Q \<Longrightarrow> set new \<subseteq> Q \<Longrightarrow> visited_ids v \<subseteq> P"
    and "expand_topology_for_networks db visited routers ns = (v, rs) \<Longrightarrow>
      visited_ids visited \<subseteq> P \<Longrightarrow> set routers \<subseteq> Q \<Longrightarrow> network_id ` set ns \<subseteq> P \<Longrightarrow> visited_ids v \<subseteq> P"
  using assms
proof (induction db visited routers new and db visited routers ns
    arbitrary: v rs and v rs rule: expand_topology_for_routers_expand_topology_for_networks.induct)
  case (1 db visited routers new)
  note n = "1.prems"(5) and r = "1.prems"(6)
  define added where "added = remdups (filter (\<lambda>r. r \<notin> set routers) new)"
  have a: "set added \<subseteq> Q" using "1.prems"(4) by (auto simp: added_def)
  show ?case
  proof (cases "added = []")
    case True
    with "1.prems"(1,2) show ?thesis by (simp add: expand_topology_for_routers.simps added_def[symmetric] Let_def)
  next
    case False
    with "1.prems"(1) have e: "expand_topology_for_networks db visited (routers @ added)
        (unscoped_networks db visited added) = (v, rs)"
      by (simp add: expand_topology_for_routers.simps added_def[symmetric] Let_def)
    have q: "network_id ` set (unscoped_networks db visited added) \<subseteq> P"
      unfolding unscoped_networks_of_routers using n a by blast
    have "set (routers @ added) \<subseteq> Q" using "1.prems"(3) a by simp
    from "1.IH"[OF added_def False e "1.prems"(2) this q n r] show ?thesis .
  qed
next
  case (2 db visited routers ns)
  note n = "2.prems"(5) and r = "2.prems"(6)
  obtain visited' added where x: "visit_networks visited [] ns = (visited', added)" by fastforce
  note v = visit_networks_ids[OF x] and a = visit_networks_added[OF x]
  show ?case
  proof (cases "added = []")
    case True
    with "2.prems"(1,2,4) x v show ?thesis by (auto simp: expand_topology_for_networks.simps)
  next
    case False
    with "2.prems"(1) x have e: "expand_topology_for_routers db visited' routers (routers_of_networks db routers added) = (v, rs)"
      by (simp add: expand_topology_for_networks.simps)
    have "set added \<subseteq> P" using a "2.prems"(4) by auto
    then have q: "set (routers_of_networks db routers added) \<subseteq> Q"
      unfolding set_routers_of_networks using r by blast
    have "visited_ids visited' \<subseteq> P" using v "2.prems"(2,4) by simp
    from "2.IH"[OF x[symmetric] False e this "2.prems"(3) q n r] show ?thesis .
  qed
qed

text \<open>
  What the expansions collect is closed under the links: every router that is visited has its
  networks visited or about to be, and the other way round.
\<close>

definition routers_closed :: "neutron_db \<Rightarrow> string set \<Rightarrow> string set \<Rightarrow> bool" where
  "routers_closed db R N \<longleftrightarrow> (\<forall>r n. r \<in> R \<longrightarrow> network_of_router db r n \<longrightarrow> n \<in> N)"

definition networks_closed :: "neutron_db \<Rightarrow> string set \<Rightarrow> string set \<Rightarrow> bool" where
  "networks_closed db N R \<longleftrightarrow> (\<forall>n r. n \<in> N \<longrightarrow> router_on_network db n r \<longrightarrow> r \<in> R)"

lemmas closed_defs = routers_closed_def networks_closed_def

lemma expansion_closed:
  shows "expand_topology_for_routers db visited routers new = (v, rs) \<Longrightarrow>
      routers_closed db (set routers) (visited_ids visited) \<Longrightarrow>
      networks_closed db (visited_ids visited) (set routers \<union> set new) \<Longrightarrow>
      visited_ids visited \<subseteq> visited_ids v \<and> set routers \<union> set new \<subseteq> set rs \<and>
      routers_closed db (set rs) (visited_ids v) \<and> networks_closed db (visited_ids v) (set rs)"
    and "expand_topology_for_networks db visited routers ns = (v, rs) \<Longrightarrow>
      routers_closed db (set routers) (visited_ids visited \<union> network_id ` set ns) \<Longrightarrow>
      networks_closed db (visited_ids visited) (set routers) \<Longrightarrow>
      visited_ids visited \<union> network_id ` set ns \<subseteq> visited_ids v \<and> set routers \<subseteq> set rs \<and>
      routers_closed db (set rs) (visited_ids v) \<and> networks_closed db (visited_ids v) (set rs)"
proof (induction db visited routers new and db visited routers ns
    arbitrary: v rs and v rs rule: expand_topology_for_routers_expand_topology_for_networks.induct)
  case (1 db visited routers new)
  define added where "added = remdups (filter (\<lambda>r. r \<notin> set routers) new)"
  then have a: "set routers \<union> set added = set routers \<union> set new" by auto
  show ?case
  proof (cases "added = []")
    case True
    then have "set new \<subseteq> set routers" by (auto simp: added_def filter_empty_conv)
    with "1.prems" True show ?thesis
      by (auto simp: expand_topology_for_routers.simps added_def[symmetric] Let_def sup_absorb1)
  next
    case False
    with "1.prems"(1) have e: "expand_topology_for_networks db visited (routers @ added)
        (unscoped_networks db visited added) = (v, rs)"
      by (simp add: expand_topology_for_routers.simps added_def[symmetric] Let_def)
    have r: "routers_closed db (set (routers @ added))
        (visited_ids visited \<union> network_id ` set (unscoped_networks db visited added))"
      using "1.prems"(2) unfolding unscoped_networks_of_routers closed_defs by auto
    have n: "networks_closed db (visited_ids visited) (set (routers @ added))"
      using "1.prems"(3) a by simp
    from "1.IH"[OF added_def False e r n] a show ?thesis by auto
  qed
next
  case (2 db visited routers ns)
  obtain visited' added where x: "visit_networks visited [] ns = (visited', added)" by fastforce
  note v = visit_networks_ids[OF x] and a = visit_networks_added[OF x]
  show ?case
  proof (cases "added = []")
    case True
    with a have "network_id ` set ns \<subseteq> visited_ids visited" by auto
    with "2.prems" x v True show ?thesis
      by (auto simp: expand_topology_for_networks.simps sup_absorb1)
  next
    case False
    with "2.prems"(1) x have e: "expand_topology_for_routers db visited' routers (routers_of_networks db routers added) = (v, rs)"
      by (simp add: expand_topology_for_networks.simps)
    have r: "routers_closed db (set routers) (visited_ids visited')" using "2.prems"(2) v by simp
    have n: "networks_closed db (visited_ids visited') (set routers \<union> set (routers_of_networks db routers added))"
      using "2.prems"(3) v a unfolding set_routers_of_networks closed_defs by auto
    from "2.IH"[OF x[symmetric] False e r n] v show ?thesis by simp
  qed
qed

lemma reach_within:
  assumes "R0 \<subseteq> R" "N0 \<subseteq> N" "routers_closed db R N" "networks_closed db N R"
  shows "reach_router db R0 N0 r \<Longrightarrow> r \<in> R" and "reach_network db R0 N0 n \<Longrightarrow> n \<in> N"
  using assms
  by (induction rule: reach_router_reach_network.inducts) (auto simp: closed_defs)

lemma reach_subset:
  "R0 \<subseteq> R \<Longrightarrow> N0 \<subseteq> N \<Longrightarrow> routers_closed db R N \<Longrightarrow> networks_closed db N R \<Longrightarrow>
   Collect (reach_network db R0 N0) \<subseteq> N"
  using reach_within(2) by blast

lemma reach_links:
  "r \<in> Collect (reach_router db R N) \<Longrightarrow> network_of_router db r n \<Longrightarrow> n \<in> Collect (reach_network db R N)"
  "n \<in> Collect (reach_network db R N) \<Longrightarrow> router_on_network db n r \<Longrightarrow> r \<in> Collect (reach_router db R N)"
  by (auto intro: link_network link_router)

lemma router_topology_ids: "visited_ids (router_topology db r) = {n. reach_network db {r} {} n}"
proof -
  obtain v rs where e: "expand_topology_for_routers db [] [] [r] = (v, rs)" by fastforce
  have "visited_ids v \<subseteq> Collect (reach_network db {r} {})"
    by (rule expansion_within(1)[OF reach_links e]) (auto intro: start_router)
  moreover have "{r} \<subseteq> set rs \<and> routers_closed db (set rs) (visited_ids v) \<and> networks_closed db (visited_ids v) (set rs)"
    using expansion_closed(1)[OF e] by (simp add: closed_defs)
  then have "Collect (reach_network db {r} {}) \<subseteq> visited_ids v" by (intro reach_subset[of _ "set rs"]) blast+
  ultimately show ?thesis unfolding router_topology_def e fst_conv by (rule subset_antisym)
qed

lemma network_topology_ids: "visited_ids (network_topology db n) = {m. reach_network db {} {network_id n} m}"
proof -
  obtain v rs where e: "expand_topology_for_networks db [] [] [n] = (v, rs)" by fastforce
  have "visited_ids v \<subseteq> Collect (reach_network db {} {network_id n})"
    by (rule expansion_within(2)[OF reach_links e]) (auto intro: start_network)
  moreover have "{network_id n} \<subseteq> visited_ids v \<and> routers_closed db (set rs) (visited_ids v) \<and> networks_closed db (visited_ids v) (set rs)"
    using expansion_closed(2)[OF e] by (simp add: closed_defs)
  then have "Collect (reach_network db {} {network_id n}) \<subseteq> visited_ids v" by (intro reach_subset[of _ "set rs"]) blast+
  ultimately show ?thesis unfolding network_topology_def e fst_conv by (rule subset_antisym)
qed

lemma visit_networks_distinct:
  "visit_networks visited added ns = (visited', added') \<Longrightarrow> distinct (map fst visited) \<Longrightarrow>
   distinct (map fst visited')"
  by (induction visited added ns rule: visit_networks.induct) (auto split: if_splits)

lemma expansion_distinct:
  shows "expand_topology_for_routers db visited routers new = (v, rs) \<Longrightarrow> distinct (map fst visited) \<Longrightarrow>
      distinct (map fst v)"
    and "expand_topology_for_networks db visited routers ns = (v, rs) \<Longrightarrow> distinct (map fst visited) \<Longrightarrow>
      distinct (map fst v)"
proof (induction db visited routers new and db visited routers ns
    arbitrary: v rs and v rs rule: expand_topology_for_routers_expand_topology_for_networks.induct)
  case (1 db visited routers new)
  from "1.prems" "1.IH"[OF refl] show ?case
    unfolding expand_topology_for_routers.simps[of db visited routers new] Let_def by (simp split: if_splits)
next
  case (2 db visited routers ns)
  obtain visited' added where x: "visit_networks visited [] ns = (visited', added)" by fastforce
  from "2.prems" "2.IH"[OF x[symmetric]] visit_networks_distinct[OF x] show ?case
    unfolding expand_topology_for_networks.simps[of db visited routers ns] x by (simp split: if_splits)
qed

lemma router_topology_distinct: "distinct (map fst (router_topology db r))"
  unfolding router_topology_def
  by (rule expansion_distinct(1)[OF surjective_pairing]) simp

lemma network_topology_distinct: "distinct (map fst (network_topology db n))"
  unfolding network_topology_def
  by (rule expansion_distinct(2)[OF surjective_pairing]) simp

text \<open>C21: The expansion of a router always ends, and the networks it collects are exactly those
  reachable from the router by alternating between interfaces on unscoped subnets and routers
  with an interface on a network, each network once.\<close>

theorem router_topology_closure:
  "set (map fst (router_topology db r)) = {n. reach_network db {r} {} n} \<and>
   distinct (map fst (router_topology db r))"
  using router_topology_ids[of db r] router_topology_distinct by simp

text \<open>The expansion of a network collects exactly the networks reachable from it.\<close>

theorem network_topology_closure:
  "set (map fst (network_topology db n)) = {m. reach_network db {} {network_id n} m} \<and>
   distinct (map fst (network_topology db n))"
  using network_topology_ids[of db n] network_topology_distinct by simp

end
