(* ===== verification/Fabric_Tables.thy ===== *)
theory Fabric_Tables
  imports Topology
begin

text \<open>
  The mechanism driver's own tables (\<^verbatim>\<open>apic_aim/db.py\<close>): which VRF an address scope belongs to, which
  resources of the fabric a network is mapped to, which port owns a highly available address, and
  the names of virtual machines with the update of their cache.  Rows refer to each other by id; a
  foreign key that dangles and a primary key that is taken are the exceptions of the database layer.
\<close>

section \<open>Exceptions\<close>

datatype fabric_error =
    DBDuplicateEntry
  | DBReferenceError
  | AttributeError
  | TypeError
  | ValueError
  | IndexError
  | ZeroDivisionError
  | KeyError
  | AddrFormatError
  | PortNotFound string
  | InternalError string
  | InvalidInput string
  | IpAddressGenerationFailure
  | NeutronError string
  | ServiceNetworkSnatHostPoolConflict
  | ServiceNetworkReferenceInvalid string
  | ServiceNetworkMustBeExternalVlanProvider string
  | ServiceNetworkMismatchOnExternalNetwork string "string list"
  | ServiceNetworkInUse string string
  | DirectSnatModeTransitionNotSupported string
  | DistributedSnatSubnetInUse string
  | SnatPoolCannotBeUsedForFloatingIp
  | RouterGWIPPoolCannotBeUsedForFloatingIp
  | NetworkNotFound string
  | SubnetPoolNotFound string
  | UnsupportedRoutingTopology
  | UnscopedSharedNetworkProjectConflict string string string string
  | NonIsomorphicNetworkRoutingUnsupported
  | ScopeUpdateNotSupported
  | PreExistingSVICannotBeConnectedToRouter
  | ExternalSubnetNotAllowed string
  | SubnetOverlapInRoutedVRF string string
  | ActiveActiveAAPSubnetConnectedToRouter string
  | SnatPortsInUse string
  | PreExistingSVICannotUseSameL3out
  | OnlyOneSubnetPerAddressFamilyInSVINetwork
  | ExternalSubnetOverlapInL3Out string
  | AAPNotAllowedOnDifferentActiveActiveAAPSubnet "string list" "string list"
  | InvalidNetworkForExtraContracts
  | InvalidNetworkForEpgContractMaster
  | InvalidNetworkForPolicyEnforcementPref
  | InvalidNetworkForQos
  | InvalidPreexistingBdForNetwork
  | InvalidPortForErspanSession
  | InvalidNetworkForErspanSession
  | AimError string
  | UnboundLocalError
  | NoResultFound

lemma bindE_Inr_iff: "bindE m f = Inr x \<longleftrightarrow> (\<exists>y. m = Inr y \<and> f y = Inr x)"
  by (cases m) simp_all

section \<open>Resources that the tables name\<close>

record vrf =
  vrf_tenant_name :: "string option"
  vrf_name :: "string option"

record bridge_domain =
  bd_tenant :: "string option"
  bd_name :: "string option"

record endpoint_group =
  epg_tenant :: "string option"
  epg_app_profile_name :: "string option"
  epg_name :: "string option"

record l3_outside =
  l3o_tenant :: "string option"
  l3o_name :: "string option"

record external_network =
  en_tenant :: "string option"
  en_l3out_name :: "string option"
  en_name :: "string option"

record external_subnet =
  xs_tenant :: "string option"
  xs_l3out_name :: "string option"
  xs_ext_net_name :: "string option"
  xs_cidr :: string

section \<open>Address scopes\<close>

text \<open>
  The new row must refer to an address scope and be the first of that scope; the scope's own
  relationship is read through the table, so that \<^verbatim>\<open>update_scope\<close> changes nothing here.
\<close>

definition add_address_scope_mapping ::
  "string \<Rightarrow> vrf \<Rightarrow> bool \<Rightarrow> neutron_db \<Rightarrow> fabric_error + (neutron_db \<times> address_scope_mapping)" where
  "add_address_scope_mapping i v owned db =
     (let m = \<lparr> asm_scope_id = i, asm_vrf_name = vrf_name v, asm_vrf_tenant_name = vrf_tenant_name v,
                asm_vrf_owned = owned \<rparr>
      in if i \<in> set (map asm_scope_id (nt_scope_mappings db)) then Inl DBDuplicateEntry
         else if i \<notin> set (map scope_id (nt_scopes db)) then Inl DBReferenceError
         else Inr (db\<lparr> nt_scope_mappings := nt_scope_mappings db @ [m] \<rparr>, m))"

definition get_address_scope_mapping :: "string \<Rightarrow> neutron_db \<Rightarrow> address_scope_mapping option" where
  "get_address_scope_mapping i db = find (\<lambda>m. asm_scope_id m = i) (nt_scope_mappings db)"

definition get_address_scope_mappings_for_vrf :: "vrf \<Rightarrow> neutron_db \<Rightarrow> address_scope_mapping list" where
  "get_address_scope_mappings_for_vrf v db =
     filter (\<lambda>m. asm_vrf_tenant_name m = vrf_tenant_name v \<and> asm_vrf_name m = vrf_name v) (nt_scope_mappings db)"

text \<open>The scopes that own the VRF, ordered by IP version.\<close>

definition get_address_scopes_owning_vrf :: "vrf \<Rightarrow> neutron_db \<Rightarrow> scope_row list" where
  "get_address_scopes_owning_vrf v db =
     sort_key scope_ip_version
       (filter (\<lambda>s. list_ex (\<lambda>m. asm_scope_id m = scope_id s \<and> asm_vrf_owned m)
          (get_address_scope_mappings_for_vrf v db)) (nt_scopes db))"

definition get_address_scope_vrf :: "address_scope_mapping option \<Rightarrow> fabric_error + vrf" where
  "get_address_scope_vrf m =
     (case m of None \<Rightarrow> Inl AttributeError
      | Some m \<Rightarrow> Inr \<lparr> vrf_tenant_name = asm_vrf_tenant_name m, vrf_name = asm_vrf_name m \<rparr>)"

section \<open>Networks\<close>

definition bd_epg_mapping :: "string \<Rightarrow> bridge_domain \<Rightarrow> endpoint_group \<Rightarrow> vrf \<Rightarrow> network_mapping" where
  "bd_epg_mapping i bd epg v =
     \<lparr> nm_network_id = i, nm_bd_name = bd_name bd, nm_bd_tenant_name = bd_tenant bd,
       nm_epg_name = epg_name epg, nm_epg_app_profile_name = epg_app_profile_name epg,
       nm_epg_tenant_name = epg_tenant epg, nm_l3out_name = None, nm_l3out_ext_net_name = None,
       nm_l3out_tenant_name = None, nm_vrf_name = vrf_name v, nm_vrf_tenant_name = vrf_tenant_name v \<rparr>"

definition ext_net_mapping :: "string \<Rightarrow> external_network \<Rightarrow> vrf \<Rightarrow> network_mapping" where
  "ext_net_mapping i en v =
     \<lparr> nm_network_id = i, nm_bd_name = None, nm_bd_tenant_name = None, nm_epg_name = None,
       nm_epg_app_profile_name = None, nm_epg_tenant_name = None, nm_l3out_name = en_l3out_name en,
       nm_l3out_ext_net_name = en_name en, nm_l3out_tenant_name = en_tenant en,
       nm_vrf_name = vrf_name v, nm_vrf_tenant_name = vrf_tenant_name v \<rparr>"

definition add_network_mapping ::
  "string \<Rightarrow> bridge_domain \<times> endpoint_group + external_network \<Rightarrow> vrf \<Rightarrow> neutron_db \<Rightarrow>
   fabric_error + (neutron_db \<times> network_mapping)" where
  "add_network_mapping i r v db =
     (let m = (case r of Inl (bd, epg) \<Rightarrow> bd_epg_mapping i bd epg v | Inr en \<Rightarrow> ext_net_mapping i en v)
      in if i \<in> set (map nm_network_id (nt_network_mappings db)) then Inl DBDuplicateEntry
         else if i \<notin> set (map network_id (nt_networks db)) then Inl DBReferenceError
         else Inr (db\<lparr> nt_network_mappings := nt_network_mappings db @ [m] \<rparr>, m))"

definition get_network_mapping :: "string \<Rightarrow> neutron_db \<Rightarrow> network_mapping option" where
  "get_network_mapping i db = find (\<lambda>m. nm_network_id m = i) (nt_network_mappings db)"

definition get_network_mappings_for_vrf :: "vrf \<Rightarrow> neutron_db \<Rightarrow> network_mapping list" where
  "get_network_mappings_for_vrf v db =
     filter (\<lambda>m. nm_vrf_tenant_name m = vrf_tenant_name v \<and> nm_vrf_name m = vrf_name v) (nt_network_mappings db)"

definition is_vrf_used_by_networks :: "vrf \<Rightarrow> neutron_db \<Rightarrow> bool" where
  "is_vrf_used_by_networks v db =
     list_ex (\<lambda>m. nm_vrf_tenant_name m = vrf_tenant_name v \<and> nm_vrf_name m = vrf_name v) (nt_network_mappings db)"

definition get_network_bd :: "network_mapping \<Rightarrow> bridge_domain" where
  "get_network_bd m = \<lparr> bd_tenant = nm_bd_tenant_name m, bd_name = nm_bd_name m \<rparr>"

definition get_network_epg :: "network_mapping \<Rightarrow> endpoint_group" where
  "get_network_epg m = \<lparr> epg_tenant = nm_epg_tenant_name m,
     epg_app_profile_name = nm_epg_app_profile_name m, epg_name = nm_epg_name m \<rparr>"

definition get_network_l3out :: "network_mapping option \<Rightarrow> l3_outside option" where
  "get_network_l3out m =
     (case m of None \<Rightarrow> None | Some m \<Rightarrow> Some \<lparr> l3o_tenant = nm_l3out_tenant_name m, l3o_name = nm_l3out_name m \<rparr>)"

definition get_network_l3out_ext_net :: "network_mapping \<Rightarrow> external_network" where
  "get_network_l3out_ext_net m = \<lparr> en_tenant = nm_l3out_tenant_name m,
     en_l3out_name = nm_l3out_name m, en_name = nm_l3out_ext_net_name m \<rparr>"

definition get_network_l3out_default_ext_subnetv4 :: "network_mapping \<Rightarrow> external_subnet" where
  "get_network_l3out_default_ext_subnetv4 m = \<lparr> xs_tenant = nm_l3out_tenant_name m,
     xs_l3out_name = nm_l3out_name m, xs_ext_net_name = nm_l3out_ext_net_name m, xs_cidr = ''0.0.0.0/0'' \<rparr>"

definition get_network_l3out_default_ext_subnetv6 :: "network_mapping \<Rightarrow> external_subnet" where
  "get_network_l3out_default_ext_subnetv6 m = \<lparr> xs_tenant = nm_l3out_tenant_name m,
     xs_l3out_name = nm_l3out_name m, xs_ext_net_name = nm_l3out_ext_net_name m, xs_cidr = ''::/0'' \<rparr>"

definition get_network_vrf :: "network_mapping \<Rightarrow> vrf" where
  "get_network_vrf m = \<lparr> vrf_tenant_name = nm_vrf_tenant_name m, vrf_name = nm_vrf_name m \<rparr>"

definition set_network_bd :: "bridge_domain \<Rightarrow> network_mapping \<Rightarrow> network_mapping" where
  "set_network_bd bd m = m\<lparr> nm_bd_tenant_name := bd_tenant bd, nm_bd_name := bd_name bd \<rparr>"

definition set_network_epg :: "endpoint_group \<Rightarrow> network_mapping \<Rightarrow> network_mapping" where
  "set_network_epg epg m = m\<lparr> nm_epg_tenant_name := epg_tenant epg,
     nm_epg_app_profile_name := epg_app_profile_name epg, nm_epg_name := epg_name epg \<rparr>"

definition set_network_l3out :: "l3_outside \<Rightarrow> network_mapping \<Rightarrow> network_mapping" where
  "set_network_l3out l3o m = m\<lparr> nm_l3out_tenant_name := l3o_tenant l3o, nm_l3out_name := l3o_name l3o \<rparr>"

definition set_network_vrf :: "vrf \<Rightarrow> network_mapping \<Rightarrow> network_mapping" where
  "set_network_vrf v m = m\<lparr> nm_vrf_tenant_name := vrf_tenant_name v, nm_vrf_name := vrf_name v \<rparr>"

section \<open>The VRFs of a router and the routers of a VRF\<close>

text \<open>An interface of the router has an address on a subnet of the pool.\<close>

definition router_on_pool :: "neutron_db \<Rightarrow> string \<Rightarrow> pool_row \<Rightarrow> bool" where
  "router_on_pool db r p =
     list_ex (\<lambda>s. subnet_pool_id s = Some (pool_id p) \<and> subnet_on_router db (\<lambda>x. x = r) s) (nt_subnets db)"

text \<open>The address scopes of the router's scoped interfaces.\<close>

definition scopes_of_router :: "neutron_db \<Rightarrow> string \<Rightarrow> scope_row list" where
  "scopes_of_router db r =
     filter (\<lambda>s. list_ex (\<lambda>p. pool_scope_id p = Some (scope_id s) \<and> router_on_pool db r p) (nt_pools db))
       (nt_scopes db)"

text \<open>\<^verbatim>\<open>Subnet.subnetpool_id IS NULL OR SubnetPool.address_scope_id IS NULL\<close>, over the outer join.\<close>

definition subnet_without_scope :: "neutron_db \<Rightarrow> subnet_row \<Rightarrow> bool" where
  "subnet_without_scope db s =
     (case subnet_pool db s of None \<Rightarrow> True | Some p \<Rightarrow> pool_scope_id p = None)"

definition unscoped_network_of_router :: "neutron_db \<Rightarrow> string \<Rightarrow> network_row option" where
  "unscoped_network_of_router db r =
     find (\<lambda>n. list_ex (\<lambda>s. subnet_network_id s = network_id n \<and> subnet_on_router db (\<lambda>x. x = r) s \<and>
       subnet_without_scope db s) (nt_subnets db)) (nt_networks db)"

text \<open>\<^verbatim>\<open>vrfs[tuple(vrf.identity)] = vrf\<close>: a VRF is its identity here.\<close>

definition add_vrf :: "vrf \<Rightarrow> vrf list \<Rightarrow> vrf list" where
  "add_vrf v vs = (if v \<in> set vs then vs else vs @ [v])"

fun scope_vrfs :: "neutron_db \<Rightarrow> scope_row list \<Rightarrow> vrf list \<Rightarrow> fabric_error + vrf list" where
  "scope_vrfs db [] vs = Inr vs"
| "scope_vrfs db (s # ss) vs =
     bindE (get_address_scope_vrf (get_address_scope_mapping (scope_id s) db)) (\<lambda>v.
     scope_vrfs db ss (add_vrf v vs))"

definition get_vrfs_for_router :: "neutron_db \<Rightarrow> string \<Rightarrow> fabric_error + vrf list" where
  "get_vrfs_for_router db r =
     bindE (scope_vrfs db (scopes_of_router db r) []) (\<lambda>vs.
     case unscoped_network_of_router db r of
       None \<Rightarrow> Inr vs
     | Some n \<Rightarrow>
         (case get_network_mapping (network_id n) db of
            None \<Rightarrow> Inl AttributeError
          | Some m \<Rightarrow> Inr (add_vrf (get_network_vrf m) vs)))"

definition get_address_scope_ids_for_vrf :: "neutron_db \<Rightarrow> vrf \<Rightarrow> string list" where
  "get_address_scope_ids_for_vrf db v = map asm_scope_id (get_address_scope_mappings_for_vrf v db)"

definition get_network_ids_for_vrf :: "neutron_db \<Rightarrow> vrf \<Rightarrow> string list" where
  "get_network_ids_for_vrf db v = map nm_network_id (get_network_mappings_for_vrf v db)"

definition get_routers_for_vrf :: "neutron_db \<Rightarrow> vrf \<Rightarrow> router_row list" where
  "get_routers_for_vrf db v =
     (let scopes = get_address_scope_ids_for_vrf db v; nets = get_network_ids_for_vrf db v
      in if scopes \<noteq> [] then
           filter (\<lambda>r. list_ex (\<lambda>p. (case pool_scope_id p of None \<Rightarrow> False | Some s \<Rightarrow> s \<in> set scopes) \<and>
             router_on_pool db (router_id r) p) (nt_pools db)) (nt_routers db)
         else if nets = [] then []
         else filter (\<lambda>r. list_ex (\<lambda>rp. rp_router_id rp = router_id r \<and>
             router_port_on_network db (\<lambda>n. n \<in> set nets) rp) (nt_router_ports db)) (nt_routers db))"

end
