(* ===== verification/Owner_Tables.thy ===== *)
theory Owner_Tables
  imports Fabric_Tables
begin

text \<open>
  The tables of \<^verbatim>\<open>apic_aim/db.py\<close> that are not mappings: the owner of a highly available address,
  with the update that an agent sends when an address moves between ports, and the cache of the
  names of virtual machines, with its update by one controller at a time
  (\<^verbatim>\<open>_update_nova_vm_name_cache\<close> of the mechanism driver).
\<close>

section \<open>State\<close>

record ha_row =
  ha_ip_address :: string
  ha_network_id :: string
  ha_port_id :: string

record vm_row =
  vm_device_id :: string
  vm_name :: string

text \<open>Times are in the unit of the update interval; the primary key of the row is a constant.\<close>

record vm_update_row =
  vu_host_id :: string
  vu_last_incremental :: int
  vu_last_full :: "int option"

record owner_db =
  od_neutron :: neutron_db
  od_ha :: "ha_row list"
  od_vms :: "vm_row list"
  od_vm_update :: "vm_update_row option"

section \<open>Owners of addresses\<close>

abbreviation ha_key :: "ha_row \<Rightarrow> string \<times> string" where
  "ha_key x \<equiv> (ha_ip_address x, ha_network_id x)"

definition get_ha_ipaddress :: "string \<Rightarrow> string \<Rightarrow> owner_db \<Rightarrow> ha_row option" where
  "get_ha_ipaddress ip net db = find (\<lambda>x. ha_ip_address x = ip \<and> ha_network_id x = net) (od_ha db)"

text \<open>The owning port must be on the network of the address.\<close>

definition get_port_for_ha_ipaddress :: "string \<Rightarrow> string \<Rightarrow> owner_db \<Rightarrow> ha_row option" where
  "get_port_for_ha_ipaddress ip net db =
     find (\<lambda>x. ha_ip_address x = ip \<and> ha_network_id x = net \<and>
       list_ex (\<lambda>p. port_id p = ha_port_id x \<and> port_network_id p = net) (nt_ports (od_neutron db))) (od_ha db)"

text \<open>\<^verbatim>\<open>sorted\<close> on strings.\<close>

fun insert_string :: "string \<Rightarrow> string list \<Rightarrow> string list" where
  "insert_string x [] = [x]"
| "insert_string x (y # ys) = (if string_leq x y then x # y # ys else y # insert_string x ys)"

fun sort_strings :: "string list \<Rightarrow> string list" where
  "sort_strings [] = []"
| "sort_strings (x # xs) = insert_string x (sort_strings xs)"

definition get_ha_ipaddresses_for_port :: "string \<Rightarrow> owner_db \<Rightarrow> string list" where
  "get_ha_ipaddresses_for_port p db =
     sort_strings (map ha_ip_address (filter (\<lambda>x. ha_port_id x = p) (od_ha db)))"

text \<open>Every port that owns an address exists; the update by key changes at most one row.\<close>

definition update_port_id_for_ha_ipaddress ::
  "string \<Rightarrow> string \<Rightarrow> string \<Rightarrow> owner_db \<Rightarrow> fabric_error + owner_db" where
  "update_port_id_for_ha_ipaddress p ip net db =
     (if p \<notin> set (map port_id (nt_ports (od_neutron db))) then Inl DBReferenceError
      else Inr (db\<lparr> od_ha :=
        (case get_ha_ipaddress ip net db of
           Some _ \<Rightarrow> map (\<lambda>x. if ha_ip_address x = ip \<and> ha_network_id x = net then x\<lparr> ha_port_id := p \<rparr> else x) (od_ha db)
         | None \<Rightarrow> od_ha db @ [\<lparr> ha_ip_address = ip, ha_network_id = net, ha_port_id = p \<rparr>]) \<rparr>))"

definition delete_port_id_for_ha_ipaddress :: "string \<Rightarrow> string \<Rightarrow> owner_db \<Rightarrow> owner_db \<times> nat" where
  "delete_port_id_for_ha_ipaddress p ip db =
     (let hit = (\<lambda>x. ha_port_id x = p \<and> ha_ip_address x = ip)
      in (db\<lparr> od_ha := filter (\<lambda>x. \<not> hit x) (od_ha db) \<rparr>, length (filter hit (od_ha db))))"

definition get_ha_port_associations :: "owner_db \<Rightarrow> ha_row list" where
  "get_ha_port_associations db = od_ha db"

text \<open>What an agent reports; any part may be missing.\<close>

record ip_owner_info =
  io_port :: "string option"
  io_ipv4 :: "string option"
  io_ipv6 :: "string option"
  io_network_id :: "string option"

text \<open>
  One address of the report, in its own transaction.  The old owner is looked up on the network
  of the report, where it names one, and the row is written for the network of the port.
\<close>

definition take_address ::
  "string \<Rightarrow> string \<Rightarrow> string option \<Rightarrow> string \<Rightarrow> string list \<times> owner_db \<Rightarrow> string list \<times> owner_db" where
  "take_address p net reported ip s =
     (case s of (ports, db) \<Rightarrow>
        let lookup = (if truthy reported then the reported else net);
            old = map_option ha_port_id (get_port_for_ha_ipaddress ip lookup db)
        in case update_port_id_for_ha_ipaddress p ip net db of
             Inl e \<Rightarrow> (ports, db)
           | Inr db' \<Rightarrow>
               (case old of
                  None \<Rightarrow> (ports, db')
                | Some q \<Rightarrow> (if q \<noteq> [] \<and> q \<noteq> p then List.insert q ports else ports, db')))"

text \<open>
  \<open>get_port\<close> is the core plugin's: the network of a port, or its exception when there is no port.
  The result is the list of the ports to notify, without duplicates.
\<close>

definition update_ip_owner ::
  "(string \<Rightarrow> fabric_error + string) \<Rightarrow> ip_owner_info \<Rightarrow> owner_db \<Rightarrow> fabric_error + (string list \<times> owner_db)" where
  "update_ip_owner get_port i db =
     (if \<not> truthy (io_port i) \<or> (\<not> truthy (io_ipv4 i) \<and> \<not> truthy (io_ipv6 i)) then Inr ([], db)
      else
        let p = the (io_port i)
        in bindE (get_port p) (\<lambda>net.
           Inr (fold (\<lambda>ipa s. if truthy ipa then take_address p net (io_network_id i) (the ipa) s else s)
             [io_ipv4 i, io_ipv6 i] ([p], db))))"

section \<open>The name cache\<close>

definition get_vm_name :: "string \<Rightarrow> owner_db \<Rightarrow> vm_row option" where
  "get_vm_name d db = find (\<lambda>v. vm_device_id v = d) (od_vms db)"

definition get_vm_names :: "owner_db \<Rightarrow> (string \<times> string) list" where
  "get_vm_names db = map (\<lambda>v. (vm_device_id v, vm_name v)) (od_vms db)"

definition set_vm_name :: "string \<Rightarrow> string \<Rightarrow> owner_db \<Rightarrow> owner_db" where
  "set_vm_name d n db =
     db\<lparr> od_vms :=
       (case get_vm_name d db of
          Some _ \<Rightarrow> map (\<lambda>v. if vm_device_id v = d then v\<lparr> vm_name := n \<rparr> else v) (od_vms db)
        | None \<Rightarrow> od_vms db @ [\<lparr> vm_device_id = d, vm_name = n \<rparr>]) \<rparr>"

definition delete_vm_name :: "string \<Rightarrow> owner_db \<Rightarrow> owner_db" where
  "delete_vm_name d db =
     (case get_vm_name d db of
        None \<Rightarrow> db
      | Some _ \<Rightarrow> db\<lparr> od_vms := filter (\<lambda>v. vm_device_id v \<noteq> d) (od_vms db) \<rparr>)"

definition get_vm_name_update :: "owner_db \<Rightarrow> vm_update_row option" where
  "get_vm_name_update db = od_vm_update db"

text \<open>
  \<open>row\<close> is the row an earlier transaction has read.  Where it had read none, a row that another
  controller has inserted since makes the insertion fail.
\<close>

definition set_vm_name_update ::
  "vm_update_row option \<Rightarrow> string \<Rightarrow> int \<Rightarrow> int option \<Rightarrow> owner_db \<Rightarrow> fabric_error + owner_db" where
  "set_vm_name_update row h incremental full db =
     (case row of
        Some r \<Rightarrow> Inr (db\<lparr> od_vm_update := Some (r\<lparr> vu_host_id := h, vu_last_incremental := incremental,
          vu_last_full := (case full of None \<Rightarrow> vu_last_full r | Some t \<Rightarrow> Some t) \<rparr>) \<rparr>)
      | None \<Rightarrow>
          if od_vm_update db \<noteq> None then Inl DBDuplicateEntry
          else Inr (db\<lparr> od_vm_update := Some \<lparr> vu_host_id = h, vu_last_incremental = incremental,
            vu_last_full = full \<rparr> \<rparr>))"

text \<open>
  Whether this controller updates the cache now, and whether it does so in full; \<open>None\<close> is the
  early return while another controller is active.
\<close>

definition vm_update_mode :: "string \<Rightarrow> int \<Rightarrow> int \<Rightarrow> vm_update_row option \<Rightarrow> (fabric_error + bool) option" where
  "vm_update_mode h interval now row =
     (case row of
        None \<Rightarrow> Some (Inr True)
      | Some r \<Rightarrow>
          if vu_host_id r \<noteq> h then
            if now - vu_last_incremental r < interval * 2 then None else Some (Inr True)
          else
            (case vu_last_full r of
               None \<Rightarrow> Some (Inl TypeError)
             | Some t \<Rightarrow> Some (Inr (\<not> now - t < interval * 10))))"

text \<open>The pairs of the first list that are not in the second, without duplicates.\<close>

definition pairs_minus :: "(string \<times> string) list \<Rightarrow> (string \<times> string) list \<Rightarrow> (string \<times> string) list" where
  "pairs_minus xs ys = filter (\<lambda>x. x \<notin> set ys) (remdups xs)"

definition ports_of_device :: "string \<Rightarrow> owner_db \<Rightarrow> string list" where
  "ports_of_device d db = map port_id (filter (\<lambda>p. port_device_id p = d) (nt_ports (od_neutron db)))"

text \<open>The transaction that brings the cache in line with the machines \<open>nova\<close> has returned.\<close>

definition sync_vm_names :: "bool \<Rightarrow> (string \<times> string) list \<Rightarrow> owner_db \<Rightarrow> string list \<times> owner_db" where
  "sync_vm_names full nova db =
     (let cached = get_vm_names db;
          db1 = (if full then fold (\<lambda>(d, _) b. delete_vm_name d b) (pairs_minus cached nova) db else db);
          added = pairs_minus nova cached
      in (concat (map (\<lambda>(d, _). ports_of_device d db) added), fold (\<lambda>(d, n) b. set_vm_name d n b) added db1))"

text \<open>
  \<open>nova\<close> is the compute service: the machines it returns, or none when it fails, and the database
  as other controllers leave it while the call lasts.  The result is the list of the ports to notify.
\<close>

definition update_nova_vm_name_cache ::
  "string \<Rightarrow> int \<Rightarrow> (bool \<Rightarrow> int \<Rightarrow> owner_db \<Rightarrow> (string \<times> string) list option \<times> owner_db) \<Rightarrow> int \<Rightarrow> owner_db \<Rightarrow>
   fabric_error + (string list \<times> owner_db)" where
  "update_nova_vm_name_cache h interval nova now db =
     (let row = get_vm_name_update db
      in case vm_update_mode h interval now row of
           None \<Rightarrow> Inr ([], db)
         | Some (Inl e) \<Rightarrow> Inl e
         | Some (Inr full) \<Rightarrow>
             (case nova full (interval * 10) db of
                (None, db1) \<Rightarrow> Inr ([], db1)
              | (Some vms, db1) \<Rightarrow>
                  (case set_vm_name_update row h now (if full then Some now else None) db1 of
                     Inl e \<Rightarrow> Inr ([], db1)
                   | Inr db2 \<Rightarrow> Inr (sync_vm_names full vms db2))))"

section \<open>Who owns an address\<close>

definition owner_of :: "owner_db \<Rightarrow> string \<times> string \<Rightarrow> string option" where
  "owner_of db k = map_option ha_port_id (get_ha_ipaddress (fst k) (snd k) db)"

definition ha_keys_ok :: "owner_db \<Rightarrow> bool" where
  "ha_keys_ok db \<longleftrightarrow> distinct (map ha_key (od_ha db))"

lemma find_map_key:
  "(\<And>x. P (f x) = P x) \<Longrightarrow> find P (map f xs) = map_option f (find P xs)"
  by (induction xs) auto

lemma update_owner:
  assumes "update_port_id_for_ha_ipaddress p ip net db = Inr db'"
  shows "owner_of db' = (owner_of db)((ip, net) \<mapsto> p)" "ha_keys_ok db \<Longrightarrow> ha_keys_ok db'"
    "od_neutron db' = od_neutron db"
proof -
  let ?f = "\<lambda>x. if ha_ip_address x = ip \<and> ha_network_id x = net then x\<lparr> ha_port_id := p \<rparr> else x"
  let ?new = "\<lparr> ha_ip_address = ip, ha_network_id = net, ha_port_id = p \<rparr>"
  have db': "db' = db\<lparr> od_ha := (case get_ha_ipaddress ip net db of Some _ \<Rightarrow> map ?f (od_ha db) | None \<Rightarrow> od_ha db @ [?new]) \<rparr>"
    using assms by (simp add: update_port_id_for_ha_ipaddress_def split: if_splits)
  show "owner_of db' = (owner_of db)((ip, net) \<mapsto> p)"
  proof (rule ext)
    fix k
    show "owner_of db' k = ((owner_of db)((ip, net) \<mapsto> p)) k"
    proof (cases "get_ha_ipaddress ip net db")
      case None
      then show ?thesis unfolding db'
        by (cases k) (auto simp: owner_of_def get_ha_ipaddress_def find_append split: option.splits)
    next
      case (Some x)
      have "find (\<lambda>x. ha_ip_address x = fst k \<and> ha_network_id x = snd k) (map ?f (od_ha db)) =
          map_option ?f (find (\<lambda>x. ha_ip_address x = fst k \<and> ha_network_id x = snd k) (od_ha db))"
        by (rule find_map_key) simp
      with Some show ?thesis unfolding db'
        by (cases k) (auto simp: owner_of_def get_ha_ipaddress_def option.map_comp dest: find_Some_in
            split: option.splits intro!: option.map_cong)
    qed
  qed
  show "od_neutron db' = od_neutron db" unfolding db' by (auto split: option.splits)
  show "ha_keys_ok db'" if k: "ha_keys_ok db"
  proof (cases "get_ha_ipaddress ip net db")
    case None
    then have "(ip, net) \<notin> set (map ha_key (od_ha db))" by (auto simp: get_ha_ipaddress_def find_None_iff2)
    with k None show ?thesis unfolding db' by (simp add: ha_keys_ok_def)
  next
    case (Some x)
    then have "map ha_key (od_ha db') = map ha_key (od_ha db)" unfolding db' by simp
    with k show ?thesis by (simp only: ha_keys_ok_def)
  qed
qed

definition port_on :: "owner_db \<Rightarrow> string \<Rightarrow> string \<Rightarrow> bool" where
  "port_on db net q = list_ex (\<lambda>p. port_id p = q \<and> port_network_id p = net) (nt_ports (od_neutron db))"

lemma port_for_ha_owner:
  assumes "ha_keys_ok db"
  shows "map_option ha_port_id (get_port_for_ha_ipaddress ip net db) =
    (case owner_of db (ip, net) of None \<Rightarrow> None | Some q \<Rightarrow> if port_on db net q then Some q else None)"
proof (cases "get_ha_ipaddress ip net db")
  case None
  then have "get_port_for_ha_ipaddress ip net db = None"
    by (auto simp: get_ha_ipaddress_def get_port_for_ha_ipaddress_def find_None_iff2)
  with None show ?thesis by (simp add: owner_of_def)
next
  case (Some x)
  then have x: "x \<in> set (od_ha db)" "ha_key x = (ip, net)"
    by (auto simp: get_ha_ipaddress_def dest: find_Some_in)
  have unique: "y = x" if "y \<in> set (od_ha db)" "ha_ip_address y = ip" "ha_network_id y = net" for y
    using distinct_key_unique[OF assms[unfolded ha_keys_ok_def] that(1) x(1)] that(2,3) x(2) by simp
  show ?thesis
  proof (cases "port_on db net (ha_port_id x)")
    case True
    with x have "get_port_for_ha_ipaddress ip net db \<noteq> None"
      by (auto simp: get_port_for_ha_ipaddress_def port_on_def find_None_iff2)
    then obtain y where y: "get_port_for_ha_ipaddress ip net db = Some y" by blast
    then have "y = x" using unique by (auto simp: get_port_for_ha_ipaddress_def dest!: find_Some_in)
    with y True Some show ?thesis by (simp add: owner_of_def)
  next
    case False
    then have "get_port_for_ha_ipaddress ip net db = None"
      using unique by (auto simp: get_port_for_ha_ipaddress_def port_on_def find_None_iff2)
    with Some False show ?thesis by (simp add: owner_of_def)
  qed
qed

text \<open>The network on which the old owner is looked up.\<close>

definition lookup_network :: "string option \<Rightarrow> string \<Rightarrow> string" where
  "lookup_network reported net = (if truthy reported then the reported else net)"

lemma take_address_effect:
  assumes "ha_keys_ok db" and "p \<in> set (map port_id (nt_ports (od_neutron db)))"
    and "take_address p net rep ip (ports, db) = (ports', db')"
  shows "owner_of db' = (owner_of db)((ip, net) \<mapsto> p)" "ha_keys_ok db'" "od_neutron db' = od_neutron db"
    "set ports' = set ports \<union> {q. owner_of db (ip, lookup_network rep net) = Some q \<and>
       port_on db (lookup_network rep net) q \<and> q \<noteq> [] \<and> q \<noteq> p}"
proof -
  obtain db1 where u: "update_port_id_for_ha_ipaddress p ip net db = Inr db1"
    using assms(2) by (auto simp: update_port_id_for_ha_ipaddress_def)
  with assms(3) have db': "db' = db1"
    by (auto simp: take_address_def Let_def split: option.splits if_splits)
  show "owner_of db' = (owner_of db)((ip, net) \<mapsto> p)" "ha_keys_ok db'" "od_neutron db' = od_neutron db"
    using update_owner[OF u] assms(1) db' by simp_all
  show "set ports' = set ports \<union> {q. owner_of db (ip, lookup_network rep net) = Some q \<and>
      port_on db (lookup_network rep net) q \<and> q \<noteq> [] \<and> q \<noteq> p}"
    using assms(3) u
    by (auto simp: take_address_def Let_def lookup_network_def[symmetric] port_for_ha_owner[OF assms(1)]
        split: option.splits if_splits)
qed

text \<open>The addresses that a report names.\<close>

definition reported_ips :: "ip_owner_info \<Rightarrow> string list" where
  "reported_ips i = [ip. Some ip \<leftarrow> [io_ipv4 i, io_ipv6 i], ip \<noteq> []]"

lemma truthy_the: "truthy x \<Longrightarrow> x = Some (the x) \<and> the x \<noteq> []"
  by (cases x) auto

lemma update_ip_owner_folds:
  assumes "io_port i = Some p" "p \<noteq> []" "get_port p = Inr net"
  shows "update_ip_owner get_port i db =
    Inr (if reported_ips i = [] then ([], db) else fold (take_address p net (io_network_id i)) (reported_ips i) ([p], db))"
  using assms
  by (cases "io_ipv4 i"; cases "io_ipv6 i") (simp_all add: update_ip_owner_def reported_ips_def)

lemma take_addresses_effect:
  assumes "ha_keys_ok db" and "p \<in> set (map port_id (nt_ports (od_neutron db)))" and "p \<in> set ports"
    and "fold (take_address p net rep) ips (ports, db) = (ports', db')"
  shows "ha_keys_ok db' \<and> od_neutron db' = od_neutron db \<and>
    owner_of db' = (\<lambda>k. if fst k \<in> set ips \<and> snd k = net then Some p else owner_of db k) \<and>
    set ports' = set ports \<union> {q. q \<noteq> [] \<and> (\<exists>ip \<in> set ips. owner_of db (ip, lookup_network rep net) = Some q \<and>
       port_on db (lookup_network rep net) q)}"
  using assms
proof (induction ips arbitrary: ports db)
  case (Cons ip ips)
  obtain ports1 db1 where t: "take_address p net rep ip (ports, db) = (ports1, db1)" by fastforce
  note e = take_address_effect[OF Cons.prems(1,2) t]
  have p: "p \<in> set (map port_id (nt_ports (od_neutron db1)))" "p \<in> set ports1"
    using Cons.prems(2,3) e(3,4) by simp_all
  have f: "fold (take_address p net rep) ips (ports1, db1) = (ports', db')" using Cons.prems(4) t by simp
  have on: "port_on db1 = port_on db" using e(3) by (auto simp: port_on_def fun_eq_iff)
  from Cons.IH[OF e(2) p f] Cons.prems(3) show ?case unfolding e(1,3,4) on
    by (auto simp: fun_eq_iff split: if_splits)
qed auto

text \<open>C34: A report that a port has taken over addresses makes the port their owner on its network and
  changes no other entry; keys stay unique.  The ports to notify are the port itself and the ports that
  owned a reported address on the network that the report names (on the port's own network if it names
  none) and are on that network.  If the report names another network than the port's, the owner whose
  entry is overwritten need not be among them, and one that keeps its entry may be.\<close>

theorem ip_owner_taken:
  assumes "ha_keys_ok db" and "io_port i = Some p" "p \<noteq> []" "get_port p = Inr net"
    and "p \<in> set (map port_id (nt_ports (od_neutron db)))" and "reported_ips i \<noteq> []"
    and "update_ip_owner get_port i db = Inr (ports, db')"
  shows "ha_keys_ok db' \<and>
    (\<forall>ip n. owner_of db' (ip, n) = (if ip \<in> set (reported_ips i) \<and> n = net then Some p else owner_of db (ip, n))) \<and>
    set ports = insert p {q. q \<noteq> [] \<and> (\<exists>ip \<in> set (reported_ips i).
      owner_of db (ip, lookup_network (io_network_id i) net) = Some q \<and>
      port_on db (lookup_network (io_network_id i) net) q)}"
proof -
  have "fold (take_address p net (io_network_id i)) (reported_ips i) ([p], db) = (ports, db')"
    using update_ip_owner_folds[of i p get_port net db, OF assms(2-4)] assms(6,7) by simp
  from take_addresses_effect[OF assms(1,5) _ this] show ?thesis by auto
qed

section \<open>The cache mirrors the compute service\<close>

definition names :: "owner_db \<Rightarrow> string \<Rightarrow> string option" where
  "names db = map_of (get_vm_names db)"

definition vm_keys_ok :: "owner_db \<Rightarrow> bool" where
  "vm_keys_ok db \<longleftrightarrow> distinct (map vm_device_id (od_vms db))"

lemma get_vm_name_names: "map_option vm_name (get_vm_name d db) = names db d"
proof -
  have "map_option vm_name (find (\<lambda>v. vm_device_id v = d) vs) = map_of (map (\<lambda>v. (vm_device_id v, vm_name v)) vs) d" for vs
    by (induction vs) auto
  then show ?thesis by (simp add: get_vm_name_def names_def get_vm_names_def)
qed

lemma no_vm_name: "get_vm_name d db = None \<longleftrightarrow> d \<notin> set (map vm_device_id (od_vms db))"
  by (auto simp: get_vm_name_def find_None_iff2)

lemma set_vm_name_effect:
  "names (set_vm_name d n db) = (names db)(d \<mapsto> n)"
  "vm_keys_ok db \<Longrightarrow> vm_keys_ok (set_vm_name d n db)"
  "od_neutron (set_vm_name d n db) = od_neutron db"
proof -
  let ?f = "\<lambda>v. if vm_device_id v = d then v\<lparr> vm_name := n \<rparr> else v"
  have key: "(\<exists>m. map_of (map (\<lambda>v. (vm_device_id v, vm_name v)) vs) d = Some m) \<longleftrightarrow> d \<in> set (map vm_device_id vs)" for vs
    by (induction vs) auto
  have f: "map_of (map (\<lambda>v. (vm_device_id v, vm_name v)) (map ?f vs)) x =
      (if x = d then map_option (\<lambda>_. n) (map_of (map (\<lambda>v. (vm_device_id v, vm_name v)) vs) d)
       else map_of (map (\<lambda>v. (vm_device_id v, vm_name v)) vs) x)" for vs x
    by (induction vs) auto
  have upd: "d \<in> set (map vm_device_id vs) \<Longrightarrow> map_of (map (\<lambda>v. (vm_device_id v, vm_name v)) (map ?f vs)) =
      (map_of (map (\<lambda>v. (vm_device_id v, vm_name v)) vs))(d \<mapsto> n)" for vs
    using key[of vs] by (auto simp: fun_eq_iff f simp del: map_map)
  have new: "d \<notin> set (map vm_device_id vs) \<Longrightarrow> map_of (map (\<lambda>v. (vm_device_id v, vm_name v)) (vs @ [\<lparr> vm_device_id = d, vm_name = n \<rparr>])) =
      (map_of (map (\<lambda>v. (vm_device_id v, vm_name v)) vs))(d \<mapsto> n)" for vs
    by (induction vs) (auto simp: fun_eq_iff)
  show "names (set_vm_name d n db) = (names db)(d \<mapsto> n)"
    using upd[of "od_vms db"] new[of "od_vms db"] no_vm_name[of d db]
    by (cases "get_vm_name d db") (simp_all add: set_vm_name_def names_def get_vm_names_def del: map_map)
  show "vm_keys_ok (set_vm_name d n db)" if k: "vm_keys_ok db"
  proof (cases "get_vm_name d db")
    case None
    with k no_vm_name[of d db] show ?thesis by (simp add: set_vm_name_def vm_keys_ok_def)
  next
    case (Some v)
    have "map vm_device_id (map ?f (od_vms db)) = map vm_device_id (od_vms db)" by simp
    with Some have "map vm_device_id (od_vms (set_vm_name d n db)) = map vm_device_id (od_vms db)"
      by (simp add: set_vm_name_def)
    with k show ?thesis by (simp only: vm_keys_ok_def)
  qed
  show "od_neutron (set_vm_name d n db) = od_neutron db" by (simp add: set_vm_name_def)
qed

lemma delete_vm_name_effect:
  "names (delete_vm_name d db) = (names db)(d := None)"
  "vm_keys_ok db \<Longrightarrow> vm_keys_ok (delete_vm_name d db)"
  "od_neutron (delete_vm_name d db) = od_neutron db"
proof -
  have "map_of (map (\<lambda>v. (vm_device_id v, vm_name v)) (filter (\<lambda>v. vm_device_id v \<noteq> d) vs)) x =
      ((map_of (map (\<lambda>v. (vm_device_id v, vm_name v)) vs))(d := None)) x" for vs :: "vm_row list" and x
    by (induction vs) auto
  moreover have "get_vm_name d db = None \<Longrightarrow> names db d = None" using get_vm_name_names[of d db] by simp
  ultimately show "names (delete_vm_name d db) = (names db)(d := None)"
    by (cases "get_vm_name d db"; intro ext; simp add: delete_vm_name_def names_def get_vm_names_def)
  show "vm_keys_ok db \<Longrightarrow> vm_keys_ok (delete_vm_name d db)"
    by (auto simp: delete_vm_name_def vm_keys_ok_def distinct_map_filter_key split: option.splits)
  show "od_neutron (delete_vm_name d db) = od_neutron db" by (simp add: delete_vm_name_def split: option.splits)
qed

lemma delete_vm_names_effect:
  "names (fold (\<lambda>(d, _) b. delete_vm_name d b) ps db) = (\<lambda>d. if d \<in> fst ` set ps then None else names db d)"
  "vm_keys_ok db \<Longrightarrow> vm_keys_ok (fold (\<lambda>(d, _) b. delete_vm_name d b) ps db)"
  by (induction ps arbitrary: db) (auto simp: delete_vm_name_effect fun_eq_iff)

lemma set_vm_names_effect:
  "distinct (map fst ps) \<Longrightarrow> names (fold (\<lambda>(d, n) b. set_vm_name d n b) ps db) = names db ++ map_of ps"
  "vm_keys_ok db \<Longrightarrow> vm_keys_ok (fold (\<lambda>(d, n) b. set_vm_name d n b) ps db)"
proof (induction ps arbitrary: db)
  case (Cons p ps)
  {
    case 1
    then have "map_of ps (fst p) = None" by (simp add: map_of_eq_None_iff)
    with 1 show ?case using Cons.IH(1)
      by (cases p) (auto simp: set_vm_name_effect fun_eq_iff map_add_def split: option.splits)
  next
    case 2
    then show ?case using Cons.IH(2) by (cases p) (simp add: set_vm_name_effect)
  }
qed auto

lemma option_eqI: "(\<And>n. x = Some n \<longleftrightarrow> y = Some n) \<Longrightarrow> x = y"
  by (cases x; cases y) auto

lemma pairs_minus_set: "set (pairs_minus xs ys) = set xs - set ys"
  by (auto simp: pairs_minus_def)

lemma pairs_minus_distinct: "distinct (map fst xs) \<Longrightarrow> distinct (map fst (pairs_minus xs ys))"
  using distinct_map_filter_key[of fst xs] distinct_map[of fst xs]
  by (simp add: pairs_minus_def distinct_remdups_id)

lemma map_of_pairs_minus:
  assumes "distinct (map fst xs)"
  shows "map_of (pairs_minus xs ys) d = (case map_of xs d of None \<Rightarrow> None | Some n \<Rightarrow> if (d, n) \<in> set ys then None else Some n)"
proof -
  have "map_of (pairs_minus xs ys) d = Some n \<longleftrightarrow> map_of xs d = Some n \<and> (d, n) \<notin> set ys" for n
    using pairs_minus_set[of xs ys] pairs_minus_distinct[OF assms, of ys] assms by simp
  then have "map_of (pairs_minus xs ys) d = Some n \<longleftrightarrow>
      (case map_of xs d of None \<Rightarrow> None | Some n \<Rightarrow> if (d, n) \<in> set ys then None else Some n) = Some n" for n
    by (cases "map_of xs d") auto
  then show ?thesis by (rule option_eqI)
qed

lemma cached_pair:
  assumes "vm_keys_ok db"
  shows "(d, n) \<in> set (get_vm_names db) \<longleftrightarrow> names db d = Some n"
proof -
  have "distinct (map fst (get_vm_names db))"
    using assms by (simp add: vm_keys_ok_def get_vm_names_def comp_def)
  then show ?thesis by (simp add: names_def)
qed

lemma sync_names:
  assumes "vm_keys_ok db" and "distinct (map fst nova)"
  shows "names (snd (sync_vm_names full nova db)) = (if full then map_of nova else names db ++ map_of nova)"
proof (rule ext)
  fix d
  let ?added = "map_of (pairs_minus nova (get_vm_names db)) d"
  let ?db1 = "if full then fold (\<lambda>(d, _) b. delete_vm_name d b) (pairs_minus (get_vm_names db) nova) db else db"
  have s: "names (snd (sync_vm_names full nova db)) d = (case ?added of None \<Rightarrow> names ?db1 d | Some n \<Rightarrow> Some n)"
    using set_vm_names_effect(1)[OF pairs_minus_distinct[OF assms(2)], of "get_vm_names db" ?db1]
    by (simp add: sync_vm_names_def Let_def map_add_def)
  have gone: "d \<in> fst ` set (pairs_minus (get_vm_names db) nova) \<longleftrightarrow> (\<exists>n. names db d = Some n \<and> map_of nova d \<noteq> Some n)"
    using assms(2) by (force simp: pairs_minus_set cached_pair[OF assms(1)])
  have "names ?db1 d = (if full \<and> (\<exists>n. names db d = Some n \<and> map_of nova d \<noteq> Some n) then None else names db d)"
    by (auto simp: delete_vm_names_effect gone)
  then show "names (snd (sync_vm_names full nova db)) d = (if full then map_of nova else names db ++ map_of nova) d"
    unfolding s map_of_pairs_minus[OF assms(2)] cached_pair[OF assms(1)]
    by (auto simp: map_add_def split: option.splits if_splits)
qed

text \<open>C39: For a cache with unique device ids and a list of machines without repeated ids: a full update
  leaves the cache with exactly the machines that the compute service has returned, an incremental one
  overrides the cache with them; device ids stay unique, and the ports to notify are those of the
  machines in the list whose name is new or has changed, and no others.\<close>

theorem vm_cache_synced:
  assumes "vm_keys_ok db" and "distinct (map fst nova)" and "sync_vm_names full nova db = (ports, db')"
  shows "vm_keys_ok db' \<and> names db' = (if full then map_of nova else names db ++ map_of nova) \<and>
    set ports = {q. \<exists>p \<in> set (nt_ports (od_neutron db)). port_id p = q \<and>
      (\<exists>n. map_of nova (port_device_id p) = Some n \<and> names db (port_device_id p) \<noteq> Some n)}"
proof -
  have "vm_keys_ok db'"
    using assms(1,3) by (auto simp: sync_vm_names_def Let_def intro!: set_vm_names_effect(2) delete_vm_names_effect(2))
  moreover have "set ports = {q. \<exists>p \<in> set (nt_ports (od_neutron db)). port_id p = q \<and>
      (\<exists>n. (port_device_id p, n) \<in> set (pairs_minus nova (get_vm_names db)))}"
    using assms(3) by (auto simp: sync_vm_names_def Let_def ports_of_device_def image_iff) metis+
  ultimately show ?thesis
    using sync_names[OF assms(1,2), of full] assms(2,3) by (simp add: pairs_minus_set cached_pair[OF assms(1)])
qed

text \<open>While another controller has updated the cache within twice the interval, this one leaves
  everything as it is and notifies no port.\<close>

theorem vm_cache_one_updater:
  assumes "od_vm_update db = Some r" and "vu_host_id r \<noteq> h" and "now < vu_last_incremental r + interval * 2"
  shows "update_nova_vm_name_cache h interval nova now db = Inr ([], db)"
  using assms by (simp add: update_nova_vm_name_cache_def get_vm_name_update_def vm_update_mode_def)

section \<open>Witnesses\<close>

definition demo_owner_db :: owner_db where
  "demo_owner_db = \<lparr>
     od_neutron = \<lparr> nt_scopes = [], nt_pools = [], nt_networks = [], nt_subnets = [],
       nt_ports = [\<lparr> port_id = ''p'', port_network_id = ''n'', port_device_id = ''d'', port_device_owner = [], port_name = [],
           port_mac = ''fa'', port_project_id = ''t'', port_admin_state_up = True \<rparr>,
         \<lparr> port_id = ''q'', port_network_id = ''n'', port_device_id = ''e'', port_device_owner = [], port_name = [],
           port_mac = ''fb'', port_project_id = ''t'', port_admin_state_up = True \<rparr>],
       nt_allocs = [], nt_routers = [], nt_router_ports = [], nt_scope_mappings = [], nt_network_mappings = [] \<rparr>,
     od_ha = [\<lparr> ha_ip_address = ''10.0.0.9'', ha_network_id = ''n'', ha_port_id = ''q'' \<rparr>],
     od_vms = [\<lparr> vm_device_id = ''d'', vm_name = ''old'' \<rparr>], od_vm_update = None \<rparr>"

definition demo_report :: ip_owner_info where
  "demo_report = \<lparr> io_port = Some ''p'', io_ipv4 = Some ''10.0.0.9'', io_ipv6 = None, io_network_id = None \<rparr>"

lemma ip_owner_taken_witness:
  "\<exists>ports db'. update_ip_owner (\<lambda>p. Inr ''n'') demo_report demo_owner_db = Inr (ports, db') \<and>
     owner_of db' (''10.0.0.9'', ''n'') = Some ''p'' \<and> ''q'' \<in> set ports"
proof -
  have ips: "reported_ips demo_report = [''10.0.0.9'']" by code_simp
  have ok: "ha_keys_ok demo_owner_db" by (simp add: ha_keys_ok_def demo_owner_db_def)
  have port: "''p'' \<in> set (map port_id (nt_ports (od_neutron demo_owner_db)))" by (simp add: demo_owner_db_def)
  have "\<not> isl (update_ip_owner (\<lambda>p. Inr ''n'') demo_report demo_owner_db)" by code_simp
  then obtain ports db' where u: "update_ip_owner (\<lambda>p. Inr ''n'') demo_report demo_owner_db = Inr (ports, db')"
    by (cases "update_ip_owner (\<lambda>p. Inr ''n'') demo_report demo_owner_db") auto
  have q: "owner_of demo_owner_db (''10.0.0.9'', lookup_network None ''n'') = Some ''q''" "port_on demo_owner_db (lookup_network None ''n'') ''q''"
    by (code_simp, code_simp)
  have p: "io_port demo_report = Some ''p''" "io_network_id demo_report = None" by (simp_all add: demo_report_def)
  have t: "(\<forall>ip n. owner_of db' (ip, n) =
        (if ip \<in> set (reported_ips demo_report) \<and> n = ''n'' then Some ''p'' else owner_of demo_owner_db (ip, n))) \<and>
      set ports = insert ''p'' {q. q \<noteq> [] \<and> (\<exists>ip \<in> set (reported_ips demo_report).
        owner_of demo_owner_db (ip, lookup_network (io_network_id demo_report) ''n'') = Some q \<and>
        port_on demo_owner_db (lookup_network (io_network_id demo_report) ''n'') q)}"
    by (rule conjunct2[OF ip_owner_taken[OF ok p(1) _ _ port _ u]]) (simp_all add: ips)
  have "owner_of db' (''10.0.0.9'', ''n'') = Some ''p''" using t ips by simp
  moreover have "''q'' \<in> set ports" using t q ips p(2) by auto
  ultimately show ?thesis using u by blast
qed

text \<open>A report that names another network: the port that loses the address is not notified.\<close>

lemma overwritten_owner_not_notified:
  "case update_ip_owner (\<lambda>p. Inr ''n'') (demo_report\<lparr> io_network_id := Some ''other'' \<rparr>) demo_owner_db of
     Inl e \<Rightarrow> False
   | Inr (ports, db') \<Rightarrow> owner_of demo_owner_db (''10.0.0.9'', ''n'') = Some ''q'' \<and>
       owner_of db' (''10.0.0.9'', ''n'') = Some ''p'' \<and> ports = [''p'']"
  by code_simp

lemma vm_cache_synced_witness:
  "\<exists>ports db'. sync_vm_names True [(''d'', ''new'')] demo_owner_db = (ports, db') \<and> names db' ''d'' = Some ''new''"
proof -
  have ok: "vm_keys_ok demo_owner_db" by (simp add: vm_keys_ok_def demo_owner_db_def)
  obtain ports db' where s: "sync_vm_names True [(''d'', ''new'')] demo_owner_db = (ports, db')" by fastforce
  have "distinct (map fst [(''d'', ''new'')])" by simp
  from vm_cache_synced[OF ok this s] s show ?thesis by auto
qed

end
