(* ===== verification/Extension_Db.thy ===== *)
theory Extension_Db
  imports Fabric_Tables "HOL-Library.AList"
begin

text \<open>
  The tables behind the extension attributes of networks, subnets, ports and routers
  (\<^verbatim>\<open>apic_aim/extension_db.py\<close>): reading, writing the keys that a request has, the queries by
  distinguished name, and the port ranges of distributed SNAT.

  Primary keys are those that the classes declare, and an insertion with a taken key raises
  \<open>DBDuplicateEntry\<close>; a row for a resource that does not exist raises \<open>DBReferenceError\<close>.  A
  request is a dictionary: \<open>None\<close> is a missing key.  Dictionaries with the same items are one value.
\<close>

section \<open>Rows\<close>

record erspan_row =
  er_port_id :: string
  er_dest_ip :: string
  er_flow_id :: int
  er_direction :: string

record net_ext_row =
  nx_network_id :: string
  nx_external_network_dn :: "string option"
  nx_bridge_domain_dn :: "string option"
  nx_nat_type :: "string option"
  nx_svi :: "bool option"
  nx_bgp_enable :: bool
  nx_bgp_type :: string
  nx_bgp_asn :: string
  nx_policy_enforcement_pref :: string
  nx_nested_domain_name :: "string option"
  nx_nested_domain_type :: "string option"
  nx_nested_domain_infra_vlan :: "int option"
  nx_nested_domain_service_vlan :: "int option"
  nx_nested_domain_node_network_vlan :: "int option"
  nx_multi_ext_nets :: bool
  nx_service_network_enable :: bool

record net_cidr_row =
  nc_network_id :: string
  nc_cidr :: string

record net_vlan_row =
  nv_vlan :: int
  nv_network_id :: string

record contract_row =
  ec_network_id :: string
  ec_contract_name :: string
  ec_provides :: bool

record master_row =
  em_network_id :: string
  em_app_profile_name :: string
  em_name :: string

record subnet_ext_row =
  sx_subnet_id :: string
  sx_snat_host_pool :: "bool option"
  sx_active_active_aap :: "bool option"
  sx_snat_subnet_only :: "bool option"
  sx_epg_subnet :: "bool option"
  sx_advertised_externally :: "bool option"
  sx_shared_between_vrfs :: "bool option"
  sx_router_gw_ip_pool :: "bool option"
  sx_service_network_id :: "string option"
  sx_dist_snat_start_port :: "int option"
  sx_dist_snat_end_port :: "int option"
  sx_dist_snat_alloc_size :: "int option"

record snat_mapping =
  sm_snat_ip :: string
  sm_subnet_id :: string
  sm_start_port :: int
  sm_host_name :: string
  sm_end_port :: int
  sm_service_port_id :: "string option"

record router_contract_row =
  rc_router_id :: string
  rc_contract_name :: string
  rc_provides :: bool

record ext_db =
  xd_neutron :: neutron_db
  xd_erspans :: "erspan_row list"
  xd_networks :: "net_ext_row list"
  xd_cidrs :: "net_cidr_row list"
  xd_vlans :: "net_vlan_row list"
  xd_contracts :: "contract_row list"
  xd_masters :: "master_row list"
  xd_no_nat_cidrs :: "net_cidr_row list"
  xd_subnets :: "subnet_ext_row list"
  xd_snat_mappings :: "snat_mapping list"
  xd_router_contracts :: "router_contract_row list"
  xd_hpp :: "bool list"

section \<open>Bringing the rows of a resource in line with a list of values\<close>

text \<open>
  The loop over the rows: rows outside the filter stay, a row whose value is wanted stays and uses
  the value up, any other row is deleted.  The values left over are returned.
\<close>

fun keep_rows :: "('r \<Rightarrow> bool) \<Rightarrow> ('r \<Rightarrow> 'v) \<Rightarrow> 'r list \<Rightarrow> 'v list \<Rightarrow> 'r list \<times> 'v list" where
  "keep_rows F col [] new = ([], new)"
| "keep_rows F col (r # rs) new =
     (if \<not> F r then (case keep_rows F col rs new of (kept, left) \<Rightarrow> (r # kept, left))
      else if col r \<in> set new then
        (case keep_rows F col rs (removeAll (col r) new) of (kept, left) \<Rightarrow> (r # kept, left))
      else keep_rows F col rs new)"

text \<open>Insertion under a primary key, of rows for a resource that exists or not.\<close>

fun insert_rows :: "bool \<Rightarrow> ('r \<Rightarrow> 'k) \<Rightarrow> 'r list \<Rightarrow> 'r list \<Rightarrow> fabric_error + 'r list" where
  "insert_rows known pk [] t = Inr t"
| "insert_rows known pk (r # rs) t =
     (if \<not> known then Inl DBReferenceError
      else if pk r \<in> set (map pk t) then Inl DBDuplicateEntry
      else insert_rows known pk rs (t @ [r]))"

text \<open>\<open>row\<close> builds the row of a value from the filters of the call.\<close>

definition update_list_attr ::
  "bool \<Rightarrow> ('r \<Rightarrow> 'k) \<Rightarrow> ('r \<Rightarrow> bool) \<Rightarrow> ('r \<Rightarrow> 'v) \<Rightarrow> ('v \<Rightarrow> 'r) \<Rightarrow> 'v list option \<Rightarrow> 'r list \<Rightarrow> fabric_error + 'r list" where
  "update_list_attr known pk F col row new t =
     (case new of
        None \<Rightarrow> Inr t
      | Some vs \<Rightarrow> (case keep_rows F col t (remdups vs) of (kept, left) \<Rightarrow> insert_rows known pk (map row left) kept))"

text \<open>The same with the dictionary of a row's keys as its value.\<close>

definition update_dict_attr ::
  "bool \<Rightarrow> ('r \<Rightarrow> 'k) \<Rightarrow> ('r \<Rightarrow> bool) \<Rightarrow> ('r \<Rightarrow> 'v) \<Rightarrow> ('v \<Rightarrow> 'r) \<Rightarrow> 'v list option \<Rightarrow> 'r list \<Rightarrow> fabric_error + 'r list" where
  "update_dict_attr known pk F obj row new t =
     (case new of
        None \<Rightarrow> Inr t
      | Some vs \<Rightarrow> (case keep_rows F obj t (remdups vs) of (kept, left) \<Rightarrow> insert_rows known pk (map row left) kept))"

section \<open>Ports\<close>

record erspan_config =
  ers_dest_ip :: string
  ers_flow_id :: int
  ers_direction :: "string option"

definition erspan_of_row :: "erspan_row \<Rightarrow> erspan_config" where
  "erspan_of_row r = \<lparr> ers_dest_ip = er_dest_ip r, ers_flow_id = er_flow_id r, ers_direction = Some (er_direction r) \<rparr>"

definition make_port_extn_db_conf_dict :: "erspan_row list \<Rightarrow> erspan_config list option" where
  "make_port_extn_db_conf_dict rows = (if rows = [] then None else Some (map erspan_of_row rows))"

definition get_port_extn_db_bulk :: "string list \<Rightarrow> ext_db \<Rightarrow> (string \<times> erspan_config list option) list" where
  "get_port_extn_db_bulk ids db =
     (let rows = filter (\<lambda>r. er_port_id r \<in> set ids) (xd_erspans db)
      in map (\<lambda>i. (i, make_port_extn_db_conf_dict (filter (\<lambda>r. er_port_id r = i) rows)))
           (remdups (map er_port_id rows)))"

text \<open>The value of the one key, if the dictionary has it.\<close>

definition get_port_extn_db :: "string \<Rightarrow> ext_db \<Rightarrow> erspan_config list option" where
  "get_port_extn_db i db = (case map_of (get_port_extn_db_bulk [i] db) i of None \<Rightarrow> None | Some d \<Rightarrow> d)"

definition new_erspan_row :: "string \<Rightarrow> erspan_config \<Rightarrow> erspan_row" where
  "new_erspan_row i e = \<lparr> er_port_id = i, er_dest_ip = ers_dest_ip e, er_flow_id = ers_flow_id e,
     er_direction = (case ers_direction e of None \<Rightarrow> ''both'' | Some d \<Rightarrow> d) \<rparr>"

definition set_port_extn_db ::
  "string \<Rightarrow> erspan_config list option option \<Rightarrow> ext_db \<Rightarrow> fabric_error + ext_db" where
  "set_port_extn_db i config db =
     (case config of
        None \<Rightarrow> Inr db
      | Some new \<Rightarrow>
          bindE (update_dict_attr (i \<in> set (map port_id (nt_ports (xd_neutron db))))
                 (\<lambda>r. (er_port_id r, er_dest_ip r, er_flow_id r, er_direction r))
                 (\<lambda>r. er_port_id r = i) erspan_of_row (new_erspan_row i) new (xd_erspans db))
               (\<lambda>t. Inr (db\<lparr> xd_erspans := t \<rparr>)))"

section \<open>Networks\<close>

text \<open>The keys of a request for a network that this module reads.\<close>

record net_ext_request =
  nq_external_network :: "string option option"
  nq_bd :: "string option option"
  nq_nat_type :: "string option option"
  nq_svi :: "bool option option"
  nq_bgp :: "bool option"
  nq_bgp_type :: "string option"
  nq_bgp_asn :: "string option"
  nq_nested_domain_name :: "string option option"
  nq_nested_domain_type :: "string option option"
  nq_nested_domain_infra_vlan :: "int option option"
  nq_nested_domain_service_vlan :: "int option option"
  nq_nested_domain_node_network_vlan :: "int option option"
  nq_policy_enforcement_pref :: "string option"
  nq_multi_ext_nets :: "bool option"
  nq_service_network_enable :: "bool option"
  nq_external_cidrs :: "string list option option"
  nq_nested_domain_allowed_vlans :: "int list option option"
  nq_extra_provided_contracts :: "string list option option"
  nq_extra_consumed_contracts :: "string list option option"
  nq_epg_contract_masters :: "(string \<times> string) list option option"
  nq_no_nat_cidrs :: "string list option option"

text \<open>The dictionary that reading returns; a missing key is \<open>None\<close>.\<close>

record net_ext_dict =
  nd_external_network :: "string option"
  nd_bd :: "string option"
  nd_nat_type :: "string option"
  nd_svi :: "bool option"
  nd_bgp :: bool
  nd_bgp_type :: string
  nd_bgp_asn :: string
  nd_nested_domain_name :: "string option"
  nd_nested_domain_type :: "string option"
  nd_nested_domain_infra_vlan :: "int option"
  nd_nested_domain_service_vlan :: "int option"
  nd_nested_domain_node_network_vlan :: "int option"
  nd_nested_domain_allowed_vlans :: "int list"
  nd_extra_provided_contracts :: "string list"
  nd_extra_consumed_contracts :: "string list"
  nd_epg_contract_masters :: "(string \<times> string) list"
  nd_policy_enforcement_pref :: string
  nd_no_nat_cidrs :: "string list"
  nd_multi_ext_nets :: bool
  nd_service_network_enable :: bool
  nd_external_cidrs :: "string list option"

definition make_network_extn_db_conf_dict ::
  "net_ext_row \<Rightarrow> net_cidr_row list \<Rightarrow> net_vlan_row list \<Rightarrow> contract_row list \<Rightarrow> master_row list \<Rightarrow> net_cidr_row list \<Rightarrow> net_ext_dict" where
  "make_network_extn_db_conf_dict r cidrs vlans contracts masters no_nat =
     \<lparr> nd_external_network = nx_external_network_dn r,
       nd_bd = nx_bridge_domain_dn r,
       nd_nat_type = nx_nat_type r,
       nd_svi = nx_svi r,
       nd_bgp = nx_bgp_enable r,
       nd_bgp_type = nx_bgp_type r,
       nd_bgp_asn = nx_bgp_asn r,
       nd_nested_domain_name = nx_nested_domain_name r,
       nd_nested_domain_type = nx_nested_domain_type r,
       nd_nested_domain_infra_vlan = nx_nested_domain_infra_vlan r,
       nd_nested_domain_service_vlan = nx_nested_domain_service_vlan r,
       nd_nested_domain_node_network_vlan = nx_nested_domain_node_network_vlan r,
       nd_nested_domain_allowed_vlans = map nv_vlan vlans,
       nd_extra_provided_contracts = map ec_contract_name (filter ec_provides contracts),
       nd_extra_consumed_contracts = map ec_contract_name (filter (\<lambda>c. \<not> ec_provides c) contracts),
       nd_epg_contract_masters = map (\<lambda>m. (em_app_profile_name m, em_name m)) masters,
       nd_policy_enforcement_pref = nx_policy_enforcement_pref r,
       nd_no_nat_cidrs = map nc_cidr no_nat,
       nd_multi_ext_nets = nx_multi_ext_nets r,
       nd_service_network_enable = nx_service_network_enable r,
       nd_external_cidrs = (if truthy (nx_external_network_dn r) then Some (map nc_cidr cidrs) else None) \<rparr>"

definition get_network_extn_db_bulk :: "string list \<Rightarrow> ext_db \<Rightarrow> (string \<times> net_ext_dict) list" where
  "get_network_extn_db_bulk is db =
     map (\<lambda>r. let i = nx_network_id r in
        (i, make_network_extn_db_conf_dict r
              (filter (\<lambda>x. nc_network_id x = i) (xd_cidrs db))
              (filter (\<lambda>x. nv_network_id x = i) (xd_vlans db))
              (filter (\<lambda>x. ec_network_id x = i) (xd_contracts db))
              (filter (\<lambda>x. em_network_id x = i) (xd_masters db))
              (filter (\<lambda>x. nc_network_id x = i) (xd_no_nat_cidrs db))))
       (filter (\<lambda>r. nx_network_id r \<in> set is) (xd_networks db))"

definition get_network_extn_db :: "string \<Rightarrow> ext_db \<Rightarrow> net_ext_dict option" where
  "get_network_extn_db i db = map_of (get_network_extn_db_bulk [i] db) i"

text \<open>A row with the defaults of the columns.\<close>

definition new_net_ext_row :: "string \<Rightarrow> net_ext_row" where
  "new_net_ext_row i =
     \<lparr> nx_network_id = i, nx_external_network_dn = None, nx_bridge_domain_dn = None, nx_nat_type = None,
       nx_svi = None, nx_bgp_enable = False, nx_bgp_type = ''default_export'', nx_bgp_asn = ''0'',
       nx_policy_enforcement_pref = ''unenforced'', nx_nested_domain_name = None,
       nx_nested_domain_type = None, nx_nested_domain_infra_vlan = None,
       nx_nested_domain_service_vlan = None, nx_nested_domain_node_network_vlan = None,
       nx_multi_ext_nets = False, nx_service_network_enable = False \<rparr>"

definition write_net_ext :: "net_ext_request \<Rightarrow> net_ext_row \<Rightarrow> net_ext_row" where
  "write_net_ext q r =
     \<lparr> nx_network_id = nx_network_id r,
       nx_external_network_dn = upd_opt (nq_external_network q) (nx_external_network_dn r),
       nx_bridge_domain_dn = upd_opt (nq_bd q) (nx_bridge_domain_dn r),
       nx_nat_type = upd_opt (nq_nat_type q) (nx_nat_type r),
       nx_svi = upd_opt (nq_svi q) (nx_svi r),
       nx_bgp_enable = upd_opt (nq_bgp q) (nx_bgp_enable r),
       nx_bgp_type = upd_opt (nq_bgp_type q) (nx_bgp_type r),
       nx_bgp_asn = upd_opt (nq_bgp_asn q) (nx_bgp_asn r),
       nx_policy_enforcement_pref = upd_opt (nq_policy_enforcement_pref q) (nx_policy_enforcement_pref r),
       nx_nested_domain_name = upd_opt (nq_nested_domain_name q) (nx_nested_domain_name r),
       nx_nested_domain_type = upd_opt (nq_nested_domain_type q) (nx_nested_domain_type r),
       nx_nested_domain_infra_vlan = upd_opt (nq_nested_domain_infra_vlan q) (nx_nested_domain_infra_vlan r),
       nx_nested_domain_service_vlan = upd_opt (nq_nested_domain_service_vlan q) (nx_nested_domain_service_vlan r),
       nx_nested_domain_node_network_vlan =
         upd_opt (nq_nested_domain_node_network_vlan q) (nx_nested_domain_node_network_vlan r),
       nx_multi_ext_nets = upd_opt (nq_multi_ext_nets q) (nx_multi_ext_nets r),
       nx_service_network_enable = upd_opt (nq_service_network_enable q) (nx_service_network_enable r) \<rparr>"

text \<open>\<^verbatim>\<open>db_obj or Class(pk)\<close>, written and added back.\<close>

definition upsert :: "('r \<Rightarrow> bool) \<Rightarrow> ('r \<Rightarrow> 'r) \<Rightarrow> 'r \<Rightarrow> 'r list \<Rightarrow> 'r list" where
  "upsert key write new t = (if list_ex key t then map (\<lambda>r. if key r then write r else r) t else t @ [write new])"

text \<open>\<^verbatim>\<open>if KEY in res_dict: self._update_list_attr(...)\<close>.\<close>

definition if_key :: "'v option \<Rightarrow> ('v \<Rightarrow> 's \<Rightarrow> fabric_error + 's) \<Rightarrow> 's \<Rightarrow> fabric_error + 's" where
  "if_key k f s = (case k of None \<Rightarrow> Inr s | Some v \<Rightarrow> f v s)"

definition set_external_cidrs :: "string \<Rightarrow> string list option \<Rightarrow> ext_db \<Rightarrow> fabric_error + ext_db" where
  "set_external_cidrs i new db =
     bindE (update_list_attr True (\<lambda>r. (nc_network_id r, nc_cidr r)) (\<lambda>r. nc_network_id r = i) nc_cidr
       (\<lambda>v. \<lparr> nc_network_id = i, nc_cidr = v \<rparr>) new (xd_cidrs db)) (\<lambda>t. Inr (db\<lparr> xd_cidrs := t \<rparr>))"

definition set_allowed_vlans :: "string \<Rightarrow> int list option \<Rightarrow> ext_db \<Rightarrow> fabric_error + ext_db" where
  "set_allowed_vlans i new db =
     bindE (update_list_attr True nv_vlan (\<lambda>r. nv_network_id r = i) nv_vlan
       (\<lambda>v. \<lparr> nv_vlan = v, nv_network_id = i \<rparr>) new (xd_vlans db)) (\<lambda>t. Inr (db\<lparr> xd_vlans := t \<rparr>))"

definition set_extra_contracts :: "string \<Rightarrow> bool \<Rightarrow> string list option \<Rightarrow> ext_db \<Rightarrow> fabric_error + ext_db" where
  "set_extra_contracts i provides new db =
     bindE (update_list_attr True (\<lambda>r. (ec_contract_name r, ec_provides r))
       (\<lambda>r. ec_network_id r = i \<and> ec_provides r = provides) ec_contract_name
       (\<lambda>v. \<lparr> ec_network_id = i, ec_contract_name = v, ec_provides = provides \<rparr>) new (xd_contracts db))
       (\<lambda>t. Inr (db\<lparr> xd_contracts := t \<rparr>))"

definition set_contract_masters :: "string \<Rightarrow> (string \<times> string) list option \<Rightarrow> ext_db \<Rightarrow> fabric_error + ext_db" where
  "set_contract_masters i new db =
     bindE (update_dict_attr True (\<lambda>r. (em_app_profile_name r, em_name r)) (\<lambda>r. em_network_id r = i)
       (\<lambda>r. (em_app_profile_name r, em_name r))
       (\<lambda>v. \<lparr> em_network_id = i, em_app_profile_name = fst v, em_name = snd v \<rparr>) new (xd_masters db))
       (\<lambda>t. Inr (db\<lparr> xd_masters := t \<rparr>))"

definition set_no_nat_cidrs :: "string \<Rightarrow> string list option \<Rightarrow> ext_db \<Rightarrow> fabric_error + ext_db" where
  "set_no_nat_cidrs i new db =
     bindE (update_list_attr True (\<lambda>r. (nc_network_id r, nc_cidr r)) (\<lambda>r. nc_network_id r = i) nc_cidr
       (\<lambda>v. \<lparr> nc_network_id = i, nc_cidr = v \<rparr>) new (xd_no_nat_cidrs db)) (\<lambda>t. Inr (db\<lparr> xd_no_nat_cidrs := t \<rparr>))"

definition set_network_extn_db :: "string \<Rightarrow> net_ext_request \<Rightarrow> ext_db \<Rightarrow> fabric_error + ext_db" where
  "set_network_extn_db i q db =
     (if i \<notin> set (map network_id (nt_networks (xd_neutron db))) then Inl DBReferenceError
      else
        bindE (if_key (nq_external_cidrs q) (set_external_cidrs i)
          (db\<lparr> xd_networks := upsert (\<lambda>r. nx_network_id r = i) (write_net_ext q) (new_net_ext_row i) (xd_networks db) \<rparr>)) (\<lambda>db.
        bindE (if_key (nq_nested_domain_allowed_vlans q) (set_allowed_vlans i) db) (\<lambda>db.
        bindE (if_key (nq_extra_provided_contracts q) (set_extra_contracts i True) db) (\<lambda>db.
        bindE (if_key (nq_extra_consumed_contracts q) (set_extra_contracts i False) db) (\<lambda>db.
        bindE (if_key (nq_epg_contract_masters q) (set_contract_masters i) db) (\<lambda>db.
        if_key (nq_no_nat_cidrs q) (set_no_nat_cidrs i) db))))))"

section \<open>Queries by distinguished name\<close>

definition get_network_ids_by_ext_net_dn :: "string \<Rightarrow> ext_db \<Rightarrow> string list" where
  "get_network_ids_by_ext_net_dn dn db =
     map nx_network_id (filter (\<lambda>r. nx_external_network_dn r = Some dn) (xd_networks db))"

definition get_network_ids_by_ext_net_dn_filter_multi :: "string \<Rightarrow> bool \<Rightarrow> ext_db \<Rightarrow> string list" where
  "get_network_ids_by_ext_net_dn_filter_multi dn wanted db =
     map nx_network_id (filter (\<lambda>r. nx_multi_ext_nets r = wanted)
       (filter (\<lambda>r. nx_external_network_dn r = Some dn) (xd_networks db)))"

text \<open>SQL's \<^verbatim>\<open>LIKE\<close>: a percent sign stands for any string, an underscore for any character.\<close>

fun sql_like :: "string \<Rightarrow> string \<Rightarrow> bool" where
  "sql_like [] s = (s = [])"
| "sql_like (p # ps) [] = (p = CHR ''%'' \<and> sql_like ps [])"
| "sql_like (p # ps) (c # s) =
     (if p = CHR ''%'' then sql_like ps (c # s) \<or> sql_like (p # ps) s
      else (p = CHR ''_'' \<or> p = c) \<and> sql_like ps s)"

definition under_l3out :: "string \<Rightarrow> net_ext_row \<Rightarrow> bool" where
  "under_l3out dn r =
     (case nx_external_network_dn r of None \<Rightarrow> False | Some x \<Rightarrow> sql_like (dn @ ''/%'') x)"

definition get_network_ids_by_l3out_dn :: "string \<Rightarrow> ext_db \<Rightarrow> string list" where
  "get_network_ids_by_l3out_dn dn db = map nx_network_id (filter (under_l3out dn) (xd_networks db))"

definition get_network_ids_by_l3out_dn_filter_multi :: "string \<Rightarrow> bool \<Rightarrow> ext_db \<Rightarrow> string list" where
  "get_network_ids_by_l3out_dn_filter_multi dn wanted db =
     map nx_network_id (filter (\<lambda>r. nx_multi_ext_nets r = wanted) (filter (under_l3out dn) (xd_networks db)))"

definition get_svi_network_ids_by_l3out_dn :: "string \<Rightarrow> ext_db \<Rightarrow> string list" where
  "get_svi_network_ids_by_l3out_dn dn db =
     map nx_network_id (filter (\<lambda>r. under_l3out dn r \<and> nx_svi r = Some True) (xd_networks db))"

definition get_network_ids_and_multi_by_l3out_dn :: "string \<Rightarrow> ext_db \<Rightarrow> (string \<times> bool) list" where
  "get_network_ids_and_multi_by_l3out_dn dn db =
     map (\<lambda>r. (nx_network_id r, nx_multi_ext_nets r)) (filter (under_l3out dn) (xd_networks db))"

definition get_external_cidrs_by_ext_net_dn :: "string \<Rightarrow> ext_db \<Rightarrow> string list" where
  "get_external_cidrs_by_ext_net_dn dn db =
     remdups (map nc_cidr (filter (\<lambda>c. list_ex (\<lambda>r. nx_network_id r = nc_network_id c \<and>
       nx_external_network_dn r = Some dn) (xd_networks db)) (xd_cidrs db)))"

definition get_external_cidrs_by_net_id :: "string \<Rightarrow> ext_db \<Rightarrow> string list" where
  "get_external_cidrs_by_net_id i db = map nc_cidr (filter (\<lambda>c. nc_network_id c = i) (xd_cidrs db))"

section \<open>Subnets\<close>

text \<open>A key is missing or has a value, which may be none; reading drops the keys without a value.\<close>

record subnet_ext_request =
  sq_snat_host_pool :: "bool option option"
  sq_active_active_aap :: "bool option option"
  sq_snat_subnet_only :: "bool option option"
  sq_epg_subnet :: "bool option option"
  sq_advertised_externally :: "bool option option"
  sq_shared_between_vrfs :: "bool option option"
  sq_router_gw_ip_pool :: "bool option option"
  sq_service_network :: "string option option"
  sq_dist_snat_start_port :: "int option option"
  sq_dist_snat_end_port :: "int option option"
  sq_dist_snat_alloc_size :: "int option option"

record subnet_ext_dict =
  sd_snat_host_pool :: "bool option"
  sd_active_active_aap :: "bool option"
  sd_snat_subnet_only :: "bool option"
  sd_epg_subnet :: "bool option"
  sd_advertised_externally :: "bool option"
  sd_shared_between_vrfs :: "bool option"
  sd_router_gw_ip_pool :: "bool option"
  sd_service_network :: "string option"
  sd_dist_snat_start_port :: "int option"
  sd_dist_snat_end_port :: "int option"
  sd_dist_snat_alloc_size :: "int option"

definition make_subnet_ext_dict :: "subnet_ext_row \<Rightarrow> subnet_ext_dict" where
  "make_subnet_ext_dict r =
     \<lparr> sd_snat_host_pool = sx_snat_host_pool r, sd_active_active_aap = sx_active_active_aap r,
       sd_snat_subnet_only = sx_snat_subnet_only r, sd_epg_subnet = sx_epg_subnet r,
       sd_advertised_externally = sx_advertised_externally r,
       sd_shared_between_vrfs = sx_shared_between_vrfs r, sd_router_gw_ip_pool = sx_router_gw_ip_pool r,
       sd_service_network = sx_service_network_id r, sd_dist_snat_start_port = sx_dist_snat_start_port r,
       sd_dist_snat_end_port = sx_dist_snat_end_port r, sd_dist_snat_alloc_size = sx_dist_snat_alloc_size r \<rparr>"

definition no_subnet_ext :: subnet_ext_dict where
  "no_subnet_ext =
     \<lparr> sd_snat_host_pool = None, sd_active_active_aap = None, sd_snat_subnet_only = None, sd_epg_subnet = None,
       sd_advertised_externally = None, sd_shared_between_vrfs = None, sd_router_gw_ip_pool = None,
       sd_service_network = None, sd_dist_snat_start_port = None, sd_dist_snat_end_port = None,
       sd_dist_snat_alloc_size = None \<rparr>"

definition get_subnet_extn_db :: "string \<Rightarrow> ext_db \<Rightarrow> subnet_ext_dict" where
  "get_subnet_extn_db i db =
     (case find (\<lambda>r. sx_subnet_id r = i) (xd_subnets db) of
        None \<Rightarrow> no_subnet_ext
      | Some r \<Rightarrow> make_subnet_ext_dict r)"

definition new_subnet_ext_row :: "string \<Rightarrow> subnet_ext_row" where
  "new_subnet_ext_row i =
     \<lparr> sx_subnet_id = i, sx_snat_host_pool = None, sx_active_active_aap = None, sx_snat_subnet_only = None,
       sx_epg_subnet = None, sx_advertised_externally = None, sx_shared_between_vrfs = None,
       sx_router_gw_ip_pool = None, sx_service_network_id = None, sx_dist_snat_start_port = None,
       sx_dist_snat_end_port = None, sx_dist_snat_alloc_size = None \<rparr>"

definition write_subnet_ext :: "subnet_ext_request \<Rightarrow> subnet_ext_row \<Rightarrow> subnet_ext_row" where
  "write_subnet_ext q r =
     \<lparr> sx_subnet_id = sx_subnet_id r,
       sx_snat_host_pool = upd_opt (sq_snat_host_pool q) (sx_snat_host_pool r),
       sx_active_active_aap = upd_opt (sq_active_active_aap q) (sx_active_active_aap r),
       sx_snat_subnet_only = upd_opt (sq_snat_subnet_only q) (sx_snat_subnet_only r),
       sx_epg_subnet = upd_opt (sq_epg_subnet q) (sx_epg_subnet r),
       sx_advertised_externally = upd_opt (sq_advertised_externally q) (sx_advertised_externally r),
       sx_shared_between_vrfs = upd_opt (sq_shared_between_vrfs q) (sx_shared_between_vrfs r),
       sx_router_gw_ip_pool = upd_opt (sq_router_gw_ip_pool q) (sx_router_gw_ip_pool r),
       sx_service_network_id = upd_opt (sq_service_network q) (sx_service_network_id r),
       sx_dist_snat_start_port = upd_opt (sq_dist_snat_start_port q) (sx_dist_snat_start_port r),
       sx_dist_snat_end_port = upd_opt (sq_dist_snat_end_port q) (sx_dist_snat_end_port r),
       sx_dist_snat_alloc_size = upd_opt (sq_dist_snat_alloc_size q) (sx_dist_snat_alloc_size r) \<rparr>"

definition set_subnet_extn_db :: "string \<Rightarrow> subnet_ext_request \<Rightarrow> ext_db \<Rightarrow> fabric_error + ext_db" where
  "set_subnet_extn_db i q db =
     (if i \<notin> set (map subnet_id (nt_subnets (xd_neutron db))) then Inl DBReferenceError
      else Inr (db\<lparr> xd_subnets := upsert (\<lambda>r. sx_subnet_id r = i) (write_subnet_ext q) (new_subnet_ext_row i) (xd_subnets db) \<rparr>))"

section \<open>Ranges of distributed SNAT\<close>

text \<open>\<^verbatim>\<open>if x is not None: query = query.filter_by(column=x)\<close>.\<close>

definition by_opt :: "'v option \<Rightarrow> ('r \<Rightarrow> 'v) \<Rightarrow> 'r \<Rightarrow> bool" where
  "by_opt x col r = (case x of None \<Rightarrow> True | Some v \<Rightarrow> col r = v)"

definition snat_query ::
  "string option \<Rightarrow> string option \<Rightarrow> int option \<Rightarrow> string option \<Rightarrow> string option \<Rightarrow> snat_mapping \<Rightarrow> bool" where
  "snat_query ip host start sub port m \<longleftrightarrow>
     by_opt ip sm_snat_ip m \<and> by_opt host sm_host_name m \<and> by_opt start sm_start_port m \<and>
     by_opt sub sm_subnet_id m \<and> by_opt (map_option Some port) sm_service_port_id m"

definition get_dist_snat_mappings ::
  "string option \<Rightarrow> string option \<Rightarrow> int option \<Rightarrow> string option \<Rightarrow> string option \<Rightarrow> snat_mapping list \<Rightarrow> snat_mapping list" where
  "get_dist_snat_mappings ip host start sub port t = filter (snat_query ip host start sub port) t"

abbreviation snat_key :: "string \<Rightarrow> string \<Rightarrow> int \<Rightarrow> snat_mapping \<Rightarrow> bool" where
  "snat_key ip sub start m \<equiv> sm_snat_ip m = ip \<and> sm_subnet_id m = sub \<and> sm_start_port m = start"

definition set_dist_snat_mapping ::
  "string \<Rightarrow> string \<Rightarrow> int \<Rightarrow> int \<Rightarrow> string \<Rightarrow> string option \<Rightarrow> snat_mapping list \<Rightarrow>
   fabric_error + (snat_mapping \<times> snat_mapping list)" where
  "set_dist_snat_mapping ip host start end_port sub port t =
     (let new = \<lparr> sm_snat_ip = ip, sm_subnet_id = sub, sm_start_port = start, sm_host_name = host,
                  sm_end_port = end_port, sm_service_port_id = port \<rparr>
      in case find (snat_key ip sub start) t of
           None \<Rightarrow> Inr (new, t @ [new])
         | Some m \<Rightarrow>
             if sm_host_name m \<noteq> host then Inl DBDuplicateEntry
             else Inr (new, map (\<lambda>m. if snat_key ip sub start m then new else m) t))"

text \<open>Without any condition nothing is deleted.  The result counts the deleted rows.\<close>

definition delete_dist_snat_mappings ::
  "string option \<Rightarrow> string option \<Rightarrow> int option \<Rightarrow> string option \<Rightarrow> string option \<Rightarrow> snat_mapping list \<Rightarrow>
   nat \<times> snat_mapping list" where
  "delete_dist_snat_mappings ip host start sub port t =
     (if ip = None \<and> host = None \<and> start = None \<and> sub = None \<and> port = None then (0, t)
      else (length (filter (snat_query ip host start sub port) t),
            filter (\<lambda>m. \<not> snat_query ip host start sub port m) t))"

section \<open>Routers\<close>

text \<open>The provided and the consumed contracts.\<close>

definition get_router_extn_db :: "string \<Rightarrow> ext_db \<Rightarrow> string list \<times> string list" where
  "get_router_extn_db i db =
     (let rows = filter (\<lambda>c. rc_router_id c = i) (xd_router_contracts db)
      in (map rc_contract_name (filter rc_provides rows),
          map rc_contract_name (filter (\<lambda>c. \<not> rc_provides c) rows)))"

fun collect_contracts ::
  "router_contract_row list \<Rightarrow> (string \<times> string list \<times> string list) list \<Rightarrow> (string \<times> string list \<times> string list) list" where
  "collect_contracts [] d = d"
| "collect_contracts (c # cs) d =
     (let (ps, qs) = (case map_of d (rc_router_id c) of None \<Rightarrow> ([], []) | Some x \<Rightarrow> x);
          x = (if rc_provides c then (ps @ [rc_contract_name c], qs) else (ps, qs @ [rc_contract_name c]))
      in collect_contracts cs (AList.update (rc_router_id c) x d))"

definition get_router_extn_db_bulk :: "string list \<Rightarrow> ext_db \<Rightarrow> (string \<times> string list \<times> string list) list" where
  "get_router_extn_db_bulk is db =
     collect_contracts (filter (\<lambda>c. rc_router_id c \<in> set is) (xd_router_contracts db)) []"

definition set_router_contracts :: "string \<Rightarrow> bool \<Rightarrow> string list option \<Rightarrow> ext_db \<Rightarrow> fabric_error + ext_db" where
  "set_router_contracts i provides new db =
     bindE (update_list_attr (i \<in> set (map router_id (nt_routers (xd_neutron db))))
       (\<lambda>r. (rc_router_id r, rc_contract_name r, rc_provides r))
       (\<lambda>r. rc_router_id r = i \<and> rc_provides r = provides) rc_contract_name
       (\<lambda>v. \<lparr> rc_router_id = i, rc_contract_name = v, rc_provides = provides \<rparr>) new (xd_router_contracts db))
       (\<lambda>t. Inr (db\<lparr> xd_router_contracts := t \<rparr>))"

text \<open>The two keys of the request.\<close>

definition set_router_extn_db ::
  "string \<Rightarrow> string list option option \<Rightarrow> string list option option \<Rightarrow> ext_db \<Rightarrow> fabric_error + ext_db" where
  "set_router_extn_db i provided consumed db =
     bindE (if_key provided (set_router_contracts i True) db) (if_key consumed (set_router_contracts i False))"

section \<open>Remote security groups\<close>

definition get_hpp_normalized :: "ext_db \<Rightarrow> fabric_error + bool" where
  "get_hpp_normalized db = (case xd_hpp db of [] \<Rightarrow> Inl TypeError | b # _ \<Rightarrow> Inr b)"

definition set_hpp_normalized :: "bool \<Rightarrow> ext_db \<Rightarrow> fabric_error + ext_db" where
  "set_hpp_normalized b db =
     (case xd_hpp db of [] \<Rightarrow> Inl TypeError | _ # bs \<Rightarrow> Inr (db\<lparr> xd_hpp := b # bs \<rparr>))"

end
