(* ===== verification/Extension_Laws.thy ===== *)
theory Extension_Laws
  imports Extension_Db "HOL-Library.Sublist"
begin

text \<open>
  The laws of the extension tables: the rows of a resource after an update are exactly the wanted
  ones and no other row changes, stated once for any table and interpreted for each of them;
  what reading returns after writing; and what the queries by distinguished name select.
\<close>

section \<open>The loop and the insertions\<close>

text \<open>When the rows of the resource have distinct values, the loop is a filter on both sides.\<close>

lemma keep_rows_eq:
  "distinct (map col (filter F t)) \<Longrightarrow>
   keep_rows F col t vs = (filter (\<lambda>r. F r \<longrightarrow> col r \<in> set vs) t, filter (\<lambda>v. v \<notin> col ` set (filter F t)) vs)"
proof (induction t arbitrary: vs)
  case (Cons r t)
  show ?case
  proof (cases "F r \<and> col r \<in> set vs")
    case True
    then have new: "x \<in> set t \<Longrightarrow> F x \<Longrightarrow> col x \<noteq> col r" for x using Cons.prems by (auto simp: image_iff)
    then have kept: "filter (\<lambda>x. F x \<longrightarrow> col x \<in> set (removeAll (col r) vs)) t = filter (\<lambda>x. F x \<longrightarrow> col x \<in> set vs) t"
      by (intro filter_cong) auto
    have "v \<notin> col ` set (filter F (r # t)) \<longleftrightarrow> col r \<noteq> v \<and> v \<notin> col ` set (filter F t)" for v
      using True by auto
    then have left: "filter (\<lambda>v. v \<notin> col ` set (filter F t)) (removeAll (col r) vs) =
        filter (\<lambda>v. v \<notin> col ` set (filter F (r # t))) vs"
      by (simp only: filter_filter removeAll_filter_not_eq)
    have rest: "keep_rows F col t (removeAll (col r) vs) = (filter (\<lambda>x. F x \<longrightarrow> col x \<in> set vs) t,
        filter (\<lambda>v. v \<notin> col ` set (filter F (r # t))) vs)"
      unfolding kept[symmetric] left[symmetric] using Cons.prems by (intro Cons.IH) (simp split: if_splits)
    have "keep_rows F col (r # t) vs = (r # filter (\<lambda>x. F x \<longrightarrow> col x \<in> set vs) t,
        filter (\<lambda>v. v \<notin> col ` set (filter F (r # t))) vs)"
      unfolding keep_rows.simps rest using True by (simp only: prod.case if_True if_False simp_thms)
    moreover have "filter (\<lambda>x. F x \<longrightarrow> col x \<in> set vs) (r # t) = r # filter (\<lambda>x. F x \<longrightarrow> col x \<in> set vs) t"
      using True by simp
    ultimately show ?thesis by (simp only:)
  next
    case False
    then have left: "filter (\<lambda>v. v \<notin> col ` set (filter F (r # t))) vs = filter (\<lambda>v. v \<notin> col ` set (filter F t)) vs"
      by (intro filter_cong) auto
    have rest: "keep_rows F col t vs = (filter (\<lambda>x. F x \<longrightarrow> col x \<in> set vs) t,
        filter (\<lambda>v. v \<notin> col ` set (filter F t)) vs)"
      using Cons.prems by (intro Cons.IH) (simp split: if_splits)
    have "keep_rows F col (r # t) vs = (filter (\<lambda>x. F x \<longrightarrow> col x \<in> set vs) (r # t),
        filter (\<lambda>v. v \<notin> col ` set (filter F t)) vs)"
      unfolding keep_rows.simps rest using False by (cases "F r") (simp_all only: prod.case filter.simps if_True if_False simp_thms)
    then show ?thesis unfolding left .
  qed
qed simp

lemma insert_rows_eq:
  "insert_rows known pk rs t = Inr t' \<Longrightarrow> t' = t @ rs \<and> (distinct (map pk t) \<longrightarrow> distinct (map pk t'))"
proof (induction known pk rs t rule: insert_rows.induct)
  case (2 known pk r rs t)
  then have k: "known" "pk r \<notin> set (map pk t)" and t: "insert_rows known pk rs (t @ [r]) = Inr t'"
    by (simp_all split: if_splits)
  have i: "t' = (t @ [r]) @ rs" "distinct (map pk (t @ [r])) \<longrightarrow> distinct (map pk t')"
    using "2.IH" k t by blast+
  have "distinct (map pk t) \<longrightarrow> distinct (map pk (t @ [r]))" using k(2) by simp
  with i(2) have "distinct (map pk t) \<longrightarrow> distinct (map pk t')" by blast
  with i(1) show ?case by simp
qed simp

lemma update_dict_list: "update_dict_attr = update_list_attr"
  by (intro ext) (simp add: update_dict_attr_def update_list_attr_def)

text \<open>
  The contract of an attribute that is kept as rows: rows that are built belong to the resource and
  have the value they are built for, and rows of the resource with one value have one key.
\<close>

locale attr_rows =
  fixes pk :: "'r \<Rightarrow> 'k" and F :: "'r \<Rightarrow> bool" and col :: "'r \<Rightarrow> 'v" and row :: "'v \<Rightarrow> 'r"
  assumes row_of: "F (row v)" and col_row: "col (row v) = v"
    and value_key: "F r \<Longrightarrow> F r' \<Longrightarrow> col r = col r' \<Longrightarrow> pk r = pk r'"
begin

lemma values_distinct: "distinct (map pk t) \<Longrightarrow> distinct (map col (filter F t))"
proof (induction t)
  case (Cons r t)
  have "col r \<noteq> col x" if "F r" "F x" "x \<in> set t" for x
    using value_key[OF that(1,2)] Cons.prems that(3) by auto
  with Cons show ?case by auto
qed simp

lemma update_exact:
  assumes "distinct (map pk t)" and "update_list_attr known pk F col row (Some vs) t = Inr t'"
  shows "set (map col (filter F t')) = set vs" and "filter (\<lambda>r. \<not> F r) t' = filter (\<lambda>r. \<not> F r) t"
    and "distinct (map pk t')"
proof -
  let ?kept = "filter (\<lambda>r. F r \<longrightarrow> col r \<in> set vs) t"
  let ?left = "filter (\<lambda>v. v \<notin> col ` set (filter F t)) (remdups vs)"
  have "insert_rows known pk (map row ?left) ?kept = Inr t'"
    using assms(2) keep_rows_eq[OF values_distinct[OF assms(1)], of "remdups vs"] by (simp add: update_list_attr_def)
  from insert_rows_eq[OF this] have t': "t' = ?kept @ map row ?left"
    and d: "distinct (map pk ?kept) \<longrightarrow> distinct (map pk t')" by blast+
  show "distinct (map pk t')" using d distinct_map_filter_key[OF assms(1)] by blast
  have "filter F (map row ?left) = map row ?left" "filter (\<lambda>r. \<not> F r) (map row ?left) = []"
    by (simp_all add: filter_map comp_def row_of)
  then show "filter (\<lambda>r. \<not> F r) t' = filter (\<lambda>r. \<not> F r) t"
    by (auto simp: t' intro!: filter_cong)
  show "set (map col (filter F t')) = set vs"
    using \<open>filter F (map row ?left) = map row ?left\<close> by (auto simp: t' col_row comp_def simp del: filter_map)
qed

lemma update_effect:
  assumes "distinct (map pk t)" and "update_list_attr known pk F col row new t = Inr t'"
  shows "distinct (map pk t')"
    and "set (map col (filter F t')) = (case new of None \<Rightarrow> set (map col (filter F t)) | Some vs \<Rightarrow> set vs)"
    and "(\<And>r. G r \<Longrightarrow> \<not> F r) \<Longrightarrow> filter G t' = filter G t"
proof -
  have none: "new = None \<Longrightarrow> t' = t" using assms(2) by (simp add: update_list_attr_def)
  show "distinct (map pk t')" using none update_exact(3)[OF assms(1)] assms by (cases new) auto
  show "set (map col (filter F t')) = (case new of None \<Rightarrow> set (map col (filter F t)) | Some vs \<Rightarrow> set vs)"
    using none update_exact(1)[OF assms(1)] assms(2) by (cases new) auto
  assume g: "\<And>r. G r \<Longrightarrow> \<not> F r"
  have "filter G (filter (\<lambda>r. \<not> F r) u) = filter G u" for u using g by (auto intro!: filter_cong)
  moreover have "filter (\<lambda>r. \<not> F r) t' = filter (\<lambda>r. \<not> F r) t"
    using none update_exact(2)[OF assms(1)] assms(2) by (cases new) auto
  ultimately show "filter G t' = filter G t" by metis
qed

end

text \<open>The contract for each table; the resource is a parameter.\<close>

interpretation cidrs: attr_rows "\<lambda>r. (nc_network_id r, nc_cidr r)" "\<lambda>r. nc_network_id r = i" nc_cidr
  "\<lambda>v. \<lparr> nc_network_id = i, nc_cidr = v \<rparr>" for i
  by unfold_locales auto

interpretation vlans: attr_rows nv_vlan "\<lambda>r. nv_network_id r = i" nv_vlan "\<lambda>v. \<lparr> nv_vlan = v, nv_network_id = i \<rparr>" for i
  by unfold_locales auto

interpretation contracts: attr_rows "\<lambda>r. (ec_contract_name r, ec_provides r)"
  "\<lambda>r. ec_network_id r = i \<and> ec_provides r = b" ec_contract_name
  "\<lambda>v. \<lparr> ec_network_id = i, ec_contract_name = v, ec_provides = b \<rparr>" for i b
  by unfold_locales auto

interpretation masters: attr_rows "\<lambda>r. (em_app_profile_name r, em_name r)" "\<lambda>r. em_network_id r = i"
  "\<lambda>r. (em_app_profile_name r, em_name r)"
  "\<lambda>v. \<lparr> em_network_id = i, em_app_profile_name = fst v, em_name = snd v \<rparr>" for i
  by unfold_locales auto

interpretation router_contracts: attr_rows "\<lambda>r. (rc_router_id r, rc_contract_name r, rc_provides r)"
  "\<lambda>r. rc_router_id r = i \<and> rc_provides r = b" rc_contract_name
  "\<lambda>v. \<lparr> rc_router_id = i, rc_contract_name = v, rc_provides = b \<rparr>" for i b
  by unfold_locales auto

section \<open>Reading after writing: networks\<close>

text \<open>The values a key asks for: all of a list, or the old ones where it is missing or none.\<close>

definition wanted :: "'v list option option \<Rightarrow> 'v list \<Rightarrow> 'v set" where
  "wanted k old = (case k of Some (Some vs) \<Rightarrow> set vs | _ \<Rightarrow> set old)"

text \<open>The keys of every table are unique, and rows of a network come with the network's own row.\<close>

definition ext_ok :: "ext_db \<Rightarrow> bool" where
  "ext_ok db \<longleftrightarrow>
     distinct (map nx_network_id (xd_networks db)) \<and>
     distinct (map (\<lambda>r. (nc_network_id r, nc_cidr r)) (xd_cidrs db)) \<and>
     distinct (map nv_vlan (xd_vlans db)) \<and>
     distinct (map (\<lambda>r. (ec_contract_name r, ec_provides r)) (xd_contracts db)) \<and>
     distinct (map (\<lambda>r. (em_app_profile_name r, em_name r)) (xd_masters db)) \<and>
     distinct (map (\<lambda>r. (nc_network_id r, nc_cidr r)) (xd_no_nat_cidrs db)) \<and>
     distinct (map (\<lambda>r. (rc_router_id r, rc_contract_name r, rc_provides r)) (xd_router_contracts db))"

text \<open>The values of a network's rows, as reading lists them.\<close>

definition cidrs_of :: "ext_db \<Rightarrow> string \<Rightarrow> string list" where
  "cidrs_of db i = map nc_cidr (filter (\<lambda>r. nc_network_id r = i) (xd_cidrs db))"

definition vlans_of :: "ext_db \<Rightarrow> string \<Rightarrow> int list" where
  "vlans_of db i = map nv_vlan (filter (\<lambda>r. nv_network_id r = i) (xd_vlans db))"

definition contracts_of :: "ext_db \<Rightarrow> string \<Rightarrow> bool \<Rightarrow> string list" where
  "contracts_of db i b = map ec_contract_name (filter (\<lambda>r. ec_network_id r = i \<and> ec_provides r = b) (xd_contracts db))"

definition masters_of :: "ext_db \<Rightarrow> string \<Rightarrow> (string \<times> string) list" where
  "masters_of db i = map (\<lambda>r. (em_app_profile_name r, em_name r)) (filter (\<lambda>r. em_network_id r = i) (xd_masters db))"

definition no_nat_of :: "ext_db \<Rightarrow> string \<Rightarrow> string list" where
  "no_nat_of db i = map nc_cidr (filter (\<lambda>r. nc_network_id r = i) (xd_no_nat_cidrs db))"

definition row_of_network :: "ext_db \<Rightarrow> string \<Rightarrow> net_ext_row option" where
  "row_of_network db i = find (\<lambda>r. nx_network_id r = i) (xd_networks db)"

lemma map_of_map_key: "map_of (map (\<lambda>r. (key r, f r)) (filter (\<lambda>r. key r \<in> {i}) t)) i = map_option f (find (\<lambda>r. key r = i) t)"
  by (induction t) auto

lemma find_cong_Some: "(\<And>r. find P t = Some r \<Longrightarrow> f r = g r) \<Longrightarrow> map_option f (find P t) = map_option g (find P t)"
  by (cases "find P t") auto

lemma get_network_lists:
  "get_network_extn_db i db = map_option (\<lambda>r.
     \<lparr> nd_external_network = nx_external_network_dn r, nd_bd = nx_bridge_domain_dn r,
       nd_nat_type = nx_nat_type r, nd_svi = nx_svi r, nd_bgp = nx_bgp_enable r,
       nd_bgp_type = nx_bgp_type r, nd_bgp_asn = nx_bgp_asn r,
       nd_nested_domain_name = nx_nested_domain_name r, nd_nested_domain_type = nx_nested_domain_type r,
       nd_nested_domain_infra_vlan = nx_nested_domain_infra_vlan r,
       nd_nested_domain_service_vlan = nx_nested_domain_service_vlan r,
       nd_nested_domain_node_network_vlan = nx_nested_domain_node_network_vlan r,
       nd_nested_domain_allowed_vlans = vlans_of db i,
       nd_extra_provided_contracts = contracts_of db i True,
       nd_extra_consumed_contracts = contracts_of db i False,
       nd_epg_contract_masters = masters_of db i,
       nd_policy_enforcement_pref = nx_policy_enforcement_pref r,
       nd_no_nat_cidrs = no_nat_of db i, nd_multi_ext_nets = nx_multi_ext_nets r,
       nd_service_network_enable = nx_service_network_enable r,
       nd_external_cidrs = (if truthy (nx_external_network_dn r) then Some (cidrs_of db i) else None) \<rparr>)
     (row_of_network db i)"
  unfolding get_network_extn_db_def get_network_extn_db_bulk_def Let_def row_of_network_def
  by (simp only: list.set map_of_map_key)
    (auto intro!: find_cong_Some dest!: find_Some_in
      simp: make_network_extn_db_conf_dict_def cidrs_of_def vlans_of_def contracts_of_def masters_of_def no_nat_of_def)

lemmas list_defs = cidrs_of_def vlans_of_def contracts_of_def masters_of_def no_nat_of_def row_of_network_def

text \<open>The values after an update whose key is present.\<close>

abbreviation updated :: "'v list option \<Rightarrow> 'v list \<Rightarrow> 'v set" where
  "updated new old \<equiv> (case new of None \<Rightarrow> set old | Some vs \<Rightarrow> set vs)"

lemma set_external_cidrs_effect:
  assumes "ext_ok db" and "set_external_cidrs i new db = Inr db'"
  shows "\<exists>t. db' = db\<lparr> xd_cidrs := t \<rparr> \<and> ext_ok db' \<and> set (cidrs_of db' i) = updated new (cidrs_of db i) \<and>
    (\<forall>j. j \<noteq> i \<longrightarrow> cidrs_of db' j = cidrs_of db j)"
proof -
  from assms(2) obtain t where u: "update_list_attr True (\<lambda>r. (nc_network_id r, nc_cidr r)) (\<lambda>r. nc_network_id r = i) nc_cidr
      (\<lambda>v. \<lparr> nc_network_id = i, nc_cidr = v \<rparr>) new (xd_cidrs db) = Inr t" and db': "db' = db\<lparr> xd_cidrs := t \<rparr>"
    by (auto simp: set_external_cidrs_def bindE_eq_Inr)
  have "distinct (map (\<lambda>r. (nc_network_id r, nc_cidr r)) (xd_cidrs db))" using assms(1) by (simp add: ext_ok_def)
  note e = cidrs.update_effect[OF this u]
  have "j \<noteq> i \<Longrightarrow> cidrs_of db' j = cidrs_of db j" for j
    using e(3)[of "\<lambda>r. nc_network_id r = j"] by (simp add: cidrs_of_def db')
  with e(1,2) assms(1) show ?thesis by (auto simp: db' cidrs_of_def ext_ok_def split: option.splits)
qed

lemma set_no_nat_cidrs_effect:
  assumes "ext_ok db" and "set_no_nat_cidrs i new db = Inr db'"
  shows "\<exists>t. db' = db\<lparr> xd_no_nat_cidrs := t \<rparr> \<and> ext_ok db' \<and> set (no_nat_of db' i) = updated new (no_nat_of db i) \<and>
    (\<forall>j. j \<noteq> i \<longrightarrow> no_nat_of db' j = no_nat_of db j)"
proof -
  from assms(2) obtain t where u: "update_list_attr True (\<lambda>r. (nc_network_id r, nc_cidr r)) (\<lambda>r. nc_network_id r = i) nc_cidr
      (\<lambda>v. \<lparr> nc_network_id = i, nc_cidr = v \<rparr>) new (xd_no_nat_cidrs db) = Inr t" and db': "db' = db\<lparr> xd_no_nat_cidrs := t \<rparr>"
    by (auto simp: set_no_nat_cidrs_def bindE_eq_Inr)
  have "distinct (map (\<lambda>r. (nc_network_id r, nc_cidr r)) (xd_no_nat_cidrs db))" using assms(1) by (simp add: ext_ok_def)
  note e = cidrs.update_effect[OF this u]
  have "j \<noteq> i \<Longrightarrow> no_nat_of db' j = no_nat_of db j" for j
    using e(3)[of "\<lambda>r. nc_network_id r = j"] by (simp add: no_nat_of_def db')
  with e(1,2) assms(1) show ?thesis by (auto simp: db' no_nat_of_def ext_ok_def split: option.splits)
qed

lemma set_allowed_vlans_effect:
  assumes "ext_ok db" and "set_allowed_vlans i new db = Inr db'"
  shows "\<exists>t. db' = db\<lparr> xd_vlans := t \<rparr> \<and> ext_ok db' \<and> set (vlans_of db' i) = updated new (vlans_of db i) \<and>
    (\<forall>j. j \<noteq> i \<longrightarrow> vlans_of db' j = vlans_of db j)"
proof -
  from assms(2) obtain t where u: "update_list_attr True nv_vlan (\<lambda>r. nv_network_id r = i) nv_vlan
      (\<lambda>v. \<lparr> nv_vlan = v, nv_network_id = i \<rparr>) new (xd_vlans db) = Inr t" and db': "db' = db\<lparr> xd_vlans := t \<rparr>"
    by (auto simp: set_allowed_vlans_def bindE_eq_Inr)
  have "distinct (map nv_vlan (xd_vlans db))" using assms(1) by (simp add: ext_ok_def)
  note e = vlans.update_effect[OF this u]
  have "j \<noteq> i \<Longrightarrow> vlans_of db' j = vlans_of db j" for j
    using e(3)[of "\<lambda>r. nv_network_id r = j"] by (simp add: vlans_of_def db')
  with e(1,2) assms(1) show ?thesis by (auto simp: db' vlans_of_def ext_ok_def split: option.splits)
qed

lemma set_contract_masters_effect:
  assumes "ext_ok db" and "set_contract_masters i new db = Inr db'"
  shows "\<exists>t. db' = db\<lparr> xd_masters := t \<rparr> \<and> ext_ok db' \<and> set (masters_of db' i) = updated new (masters_of db i) \<and>
    (\<forall>j. j \<noteq> i \<longrightarrow> masters_of db' j = masters_of db j)"
proof -
  from assms(2) obtain t where u: "update_list_attr True (\<lambda>r. (em_app_profile_name r, em_name r)) (\<lambda>r. em_network_id r = i)
      (\<lambda>r. (em_app_profile_name r, em_name r))
      (\<lambda>v. \<lparr> em_network_id = i, em_app_profile_name = fst v, em_name = snd v \<rparr>) new (xd_masters db) = Inr t"
    and db': "db' = db\<lparr> xd_masters := t \<rparr>"
    by (auto simp: set_contract_masters_def update_dict_list bindE_eq_Inr)
  have "distinct (map (\<lambda>r. (em_app_profile_name r, em_name r)) (xd_masters db))" using assms(1) by (simp add: ext_ok_def)
  note e = masters.update_effect[OF this u]
  have "j \<noteq> i \<Longrightarrow> masters_of db' j = masters_of db j" for j
    using e(3)[of "\<lambda>r. em_network_id r = j"] by (simp add: masters_of_def db')
  with e(1,2) assms(1) show ?thesis by (auto simp: db' masters_of_def ext_ok_def split: option.splits)
qed

lemma set_extra_contracts_effect:
  assumes "ext_ok db" and "set_extra_contracts i b new db = Inr db'"
  shows "\<exists>t. db' = db\<lparr> xd_contracts := t \<rparr> \<and> ext_ok db' \<and>
    set (contracts_of db' i b) = updated new (contracts_of db i b) \<and>
    (\<forall>j c. (j, c) \<noteq> (i, b) \<longrightarrow> contracts_of db' j c = contracts_of db j c)"
proof -
  from assms(2) obtain t where u: "update_list_attr True (\<lambda>r. (ec_contract_name r, ec_provides r))
      (\<lambda>r. ec_network_id r = i \<and> ec_provides r = b) ec_contract_name
      (\<lambda>v. \<lparr> ec_network_id = i, ec_contract_name = v, ec_provides = b \<rparr>) new (xd_contracts db) = Inr t"
    and db': "db' = db\<lparr> xd_contracts := t \<rparr>"
    by (auto simp: set_extra_contracts_def bindE_eq_Inr)
  have "distinct (map (\<lambda>r. (ec_contract_name r, ec_provides r)) (xd_contracts db))" using assms(1) by (simp add: ext_ok_def)
  note e = contracts.update_effect[OF this u]
  have "(j, c) \<noteq> (i, b) \<Longrightarrow> contracts_of db' j c = contracts_of db j c" for j c
    using e(3)[of "\<lambda>r. ec_network_id r = j \<and> ec_provides r = c"] by (auto simp: contracts_of_def db')
  with e(1,2) assms(1) show ?thesis by (auto simp: db' contracts_of_def ext_ok_def split: option.splits)
qed

lemma upsert_find:
  assumes "\<And>r. f (w r) = f r" and "f new = i"
  shows "find (\<lambda>r. f r = j) (upsert (\<lambda>r. f r = i) w new t) =
    (if j = i then Some (w (case find (\<lambda>r. f r = i) t of None \<Rightarrow> new | Some r \<Rightarrow> r)) else find (\<lambda>r. f r = j) t)"
proof (cases "find (\<lambda>r. f r = i) t")
  case None
  then have "\<not> list_ex (\<lambda>r. f r = i) t" by (auto simp: find_None_iff2 list_ex_iff)
  with None assms show ?thesis by (auto simp: upsert_def find_append split: option.splits)
next
  case (Some x)
  then have l: "list_ex (\<lambda>r. f r = i) t" by (auto simp: list_ex_iff dest: find_Some_in)
  have "find (\<lambda>r. f r = j) (map (\<lambda>r. if f r = i then w r else r) t) =
      map_option (\<lambda>r. if f r = i then w r else r) (find (\<lambda>r. f r = j) t)"
    using assms(1) by (induction t) auto
  with l Some show ?thesis
    by (cases "find (\<lambda>r. f r = j) t") (auto simp: upsert_def dest: find_Some_in)
qed

lemma upsert_distinct:
  assumes "\<And>r. f (w r) = f r" and "f new = i" and "distinct (map f t)"
  shows "distinct (map f (upsert (\<lambda>r. f r = i) w new t))"
proof -
  have "map f (map (\<lambda>r. if f r = i then w r else r) t) = map f t" using assms(1) by simp
  then show ?thesis using assms by (auto simp: upsert_def list_ex_iff simp del: map_map)
qed

lemma if_key_cases: "if_key k f s = Inr s' \<Longrightarrow> (k = None \<and> s' = s) \<or> (\<exists>v. k = Some v \<and> f v s = Inr s')"
  by (cases k) (simp_all add: if_key_def)

lemma proj_upd [simp]:
  "cidrs_of (db\<lparr> xd_networks := n \<rparr>) j = cidrs_of db j" "cidrs_of (db\<lparr> xd_vlans := v \<rparr>) j = cidrs_of db j"
  "cidrs_of (db\<lparr> xd_contracts := c \<rparr>) j = cidrs_of db j" "cidrs_of (db\<lparr> xd_masters := m \<rparr>) j = cidrs_of db j"
  "cidrs_of (db\<lparr> xd_no_nat_cidrs := t \<rparr>) j = cidrs_of db j"
  "vlans_of (db\<lparr> xd_networks := n \<rparr>) j = vlans_of db j" "vlans_of (db\<lparr> xd_cidrs := t \<rparr>) j = vlans_of db j"
  "vlans_of (db\<lparr> xd_contracts := c \<rparr>) j = vlans_of db j" "vlans_of (db\<lparr> xd_masters := m \<rparr>) j = vlans_of db j"
  "vlans_of (db\<lparr> xd_no_nat_cidrs := t \<rparr>) j = vlans_of db j"
  "contracts_of (db\<lparr> xd_networks := n \<rparr>) j b = contracts_of db j b" "contracts_of (db\<lparr> xd_cidrs := t \<rparr>) j b = contracts_of db j b"
  "contracts_of (db\<lparr> xd_vlans := v \<rparr>) j b = contracts_of db j b" "contracts_of (db\<lparr> xd_masters := m \<rparr>) j b = contracts_of db j b"
  "contracts_of (db\<lparr> xd_no_nat_cidrs := t \<rparr>) j b = contracts_of db j b"
  "masters_of (db\<lparr> xd_networks := n \<rparr>) j = masters_of db j" "masters_of (db\<lparr> xd_cidrs := t \<rparr>) j = masters_of db j"
  "masters_of (db\<lparr> xd_vlans := v \<rparr>) j = masters_of db j" "masters_of (db\<lparr> xd_contracts := c \<rparr>) j = masters_of db j"
  "masters_of (db\<lparr> xd_no_nat_cidrs := t \<rparr>) j = masters_of db j"
  "no_nat_of (db\<lparr> xd_networks := n \<rparr>) j = no_nat_of db j" "no_nat_of (db\<lparr> xd_cidrs := t \<rparr>) j = no_nat_of db j"
  "no_nat_of (db\<lparr> xd_vlans := v \<rparr>) j = no_nat_of db j" "no_nat_of (db\<lparr> xd_contracts := c \<rparr>) j = no_nat_of db j"
  "no_nat_of (db\<lparr> xd_masters := m \<rparr>) j = no_nat_of db j"
  "row_of_network (db\<lparr> xd_cidrs := t \<rparr>) j = row_of_network db j" "row_of_network (db\<lparr> xd_vlans := v \<rparr>) j = row_of_network db j"
  "row_of_network (db\<lparr> xd_contracts := c \<rparr>) j = row_of_network db j" "row_of_network (db\<lparr> xd_masters := m \<rparr>) j = row_of_network db j"
  "row_of_network (db\<lparr> xd_no_nat_cidrs := t \<rparr>) j = row_of_network db j"
  by (simp_all add: list_defs)

text \<open>What one request changes: the network's row, and each list as its key asks for.\<close>

definition network_written :: "string \<Rightarrow> net_ext_request \<Rightarrow> ext_db \<Rightarrow> ext_db \<Rightarrow> bool" where
  "network_written i q db db' \<longleftrightarrow>
     (\<forall>j. row_of_network db' j =
       (if j = i then Some (write_net_ext q (case row_of_network db i of None \<Rightarrow> new_net_ext_row i | Some r \<Rightarrow> r))
        else row_of_network db j)) \<and>
     set (cidrs_of db' i) = wanted (nq_external_cidrs q) (cidrs_of db i) \<and>
     set (vlans_of db' i) = wanted (nq_nested_domain_allowed_vlans q) (vlans_of db i) \<and>
     set (contracts_of db' i True) = wanted (nq_extra_provided_contracts q) (contracts_of db i True) \<and>
     set (contracts_of db' i False) = wanted (nq_extra_consumed_contracts q) (contracts_of db i False) \<and>
     set (masters_of db' i) = wanted (nq_epg_contract_masters q) (masters_of db i) \<and>
     set (no_nat_of db' i) = wanted (nq_no_nat_cidrs q) (no_nat_of db i) \<and>
     (\<forall>j. j \<noteq> i \<longrightarrow> cidrs_of db' j = cidrs_of db j \<and> vlans_of db' j = vlans_of db j \<and>
        (\<forall>b. contracts_of db' j b = contracts_of db j b) \<and> masters_of db' j = masters_of db j \<and>
        no_nat_of db' j = no_nat_of db j)"

lemma wanted_none [simp]: "wanted None old = set old"
  by (simp add: wanted_def)

lemma wanted_some [simp]: "wanted (Some new) old = updated new old"
  by (simp add: wanted_def split: option.splits)

lemma key_cidrs:
  assumes "if_key k (set_external_cidrs i) db = Inr db'" and "ext_ok db"
  shows "\<exists>t. db' = db\<lparr> xd_cidrs := t \<rparr> \<and> ext_ok db' \<and> set (cidrs_of db' i) = wanted k (cidrs_of db i) \<and>
    (\<forall>j. j \<noteq> i \<longrightarrow> cidrs_of db' j = cidrs_of db j)"
proof (cases k)
  case None
  with assms show ?thesis by (intro exI[of _ "xd_cidrs db"]) (simp add: if_key_def)
next
  case (Some v)
  with assms set_external_cidrs_effect[OF assms(2)] show ?thesis by (auto simp: if_key_def)
qed

lemma key_vlans:
  assumes "if_key k (set_allowed_vlans i) db = Inr db'" and "ext_ok db"
  shows "\<exists>t. db' = db\<lparr> xd_vlans := t \<rparr> \<and> ext_ok db' \<and> set (vlans_of db' i) = wanted k (vlans_of db i) \<and>
    (\<forall>j. j \<noteq> i \<longrightarrow> vlans_of db' j = vlans_of db j)"
proof (cases k)
  case None
  with assms show ?thesis by (intro exI[of _ "xd_vlans db"]) (simp add: if_key_def)
next
  case (Some v)
  with assms set_allowed_vlans_effect[OF assms(2)] show ?thesis by (auto simp: if_key_def)
qed

lemma key_contracts:
  assumes "if_key k (set_extra_contracts i b) db = Inr db'" and "ext_ok db"
  shows "\<exists>t. db' = db\<lparr> xd_contracts := t \<rparr> \<and> ext_ok db' \<and> set (contracts_of db' i b) = wanted k (contracts_of db i b) \<and>
    (\<forall>j c. (j, c) \<noteq> (i, b) \<longrightarrow> contracts_of db' j c = contracts_of db j c)"
proof (cases k)
  case None
  with assms show ?thesis by (intro exI[of _ "xd_contracts db"]) (simp add: if_key_def)
next
  case (Some v)
  with assms set_extra_contracts_effect[OF assms(2)] show ?thesis by (auto simp: if_key_def)
qed

lemma key_masters:
  assumes "if_key k (set_contract_masters i) db = Inr db'" and "ext_ok db"
  shows "\<exists>t. db' = db\<lparr> xd_masters := t \<rparr> \<and> ext_ok db' \<and> set (masters_of db' i) = wanted k (masters_of db i) \<and>
    (\<forall>j. j \<noteq> i \<longrightarrow> masters_of db' j = masters_of db j)"
proof (cases k)
  case None
  with assms show ?thesis by (intro exI[of _ "xd_masters db"]) (simp add: if_key_def)
next
  case (Some v)
  with assms set_contract_masters_effect[OF assms(2)] show ?thesis by (auto simp: if_key_def)
qed

lemma key_no_nat:
  assumes "if_key k (set_no_nat_cidrs i) db = Inr db'" and "ext_ok db"
  shows "\<exists>t. db' = db\<lparr> xd_no_nat_cidrs := t \<rparr> \<and> ext_ok db' \<and> set (no_nat_of db' i) = wanted k (no_nat_of db i) \<and>
    (\<forall>j. j \<noteq> i \<longrightarrow> no_nat_of db' j = no_nat_of db j)"
proof (cases k)
  case None
  with assms show ?thesis by (intro exI[of _ "xd_no_nat_cidrs db"]) (simp add: if_key_def)
next
  case (Some v)
  with assms set_no_nat_cidrs_effect[OF assms(2)] show ?thesis by (auto simp: if_key_def)
qed

lemma set_network_written:
  assumes "ext_ok db" and "set_network_extn_db i q db = Inr db'"
  shows "ext_ok db' \<and> network_written i q db db'"
proof -
  define db0 where "db0 = db\<lparr> xd_networks := upsert (\<lambda>r. nx_network_id r = i) (write_net_ext q) (new_net_ext_row i) (xd_networks db) \<rparr>"
  have ids: "nx_network_id (write_net_ext q r) = nx_network_id r" "nx_network_id (new_net_ext_row i) = i" for r
    by (simp_all add: write_net_ext_def new_net_ext_row_def)
  from assms(2) obtain db1 db2 db3 db4 db5 where
    1: "if_key (nq_external_cidrs q) (set_external_cidrs i) db0 = Inr db1"
    and 2: "if_key (nq_nested_domain_allowed_vlans q) (set_allowed_vlans i) db1 = Inr db2"
    and 3: "if_key (nq_extra_provided_contracts q) (set_extra_contracts i True) db2 = Inr db3"
    and 4: "if_key (nq_extra_consumed_contracts q) (set_extra_contracts i False) db3 = Inr db4"
    and 5: "if_key (nq_epg_contract_masters q) (set_contract_masters i) db4 = Inr db5"
    and 6: "if_key (nq_no_nat_cidrs q) (set_no_nat_cidrs i) db5 = Inr db'"
    by (auto simp: set_network_extn_db_def db0_def[symmetric] bindE_eq_Inr split: if_splits)
  have 0: "ext_ok db0" using assms(1) upsert_distinct[where f = nx_network_id, OF ids] by (simp add: ext_ok_def db0_def)
  obtain t1 where 1: "db1 = db0\<lparr> xd_cidrs := t1 \<rparr>" "ext_ok db1"
      "set (cidrs_of db1 i) = wanted (nq_external_cidrs q) (cidrs_of db0 i)" "\<forall>j. j \<noteq> i \<longrightarrow> cidrs_of db1 j = cidrs_of db0 j"
    using key_cidrs[OF 1 0] by blast
  obtain t2 where 2: "db2 = db1\<lparr> xd_vlans := t2 \<rparr>" "ext_ok db2"
      "set (vlans_of db2 i) = wanted (nq_nested_domain_allowed_vlans q) (vlans_of db1 i)" "\<forall>j. j \<noteq> i \<longrightarrow> vlans_of db2 j = vlans_of db1 j"
    using key_vlans[OF 2 1(2)] by blast
  obtain t3 where 3: "db3 = db2\<lparr> xd_contracts := t3 \<rparr>" "ext_ok db3"
      "set (contracts_of db3 i True) = wanted (nq_extra_provided_contracts q) (contracts_of db2 i True)"
      "\<forall>j c. (j, c) \<noteq> (i, True) \<longrightarrow> contracts_of db3 j c = contracts_of db2 j c"
    using key_contracts[OF 3 2(2)] by blast
  obtain t4 where 4: "db4 = db3\<lparr> xd_contracts := t4 \<rparr>" "ext_ok db4"
      "set (contracts_of db4 i False) = wanted (nq_extra_consumed_contracts q) (contracts_of db3 i False)"
      "\<forall>j c. (j, c) \<noteq> (i, False) \<longrightarrow> contracts_of db4 j c = contracts_of db3 j c"
    using key_contracts[OF 4 3(2)] by blast
  obtain t5 where 5: "db5 = db4\<lparr> xd_masters := t5 \<rparr>" "ext_ok db5"
      "set (masters_of db5 i) = wanted (nq_epg_contract_masters q) (masters_of db4 i)" "\<forall>j. j \<noteq> i \<longrightarrow> masters_of db5 j = masters_of db4 j"
    using key_masters[OF 5 4(2)] by blast
  obtain t6 where 6: "db' = db5\<lparr> xd_no_nat_cidrs := t6 \<rparr>" "ext_ok db'"
      "set (no_nat_of db' i) = wanted (nq_no_nat_cidrs q) (no_nat_of db5 i)" "\<forall>j. j \<noteq> i \<longrightarrow> no_nat_of db' j = no_nat_of db5 j"
    using key_no_nat[OF 6 5(2)] by blast
  have lists: "cidrs_of db0 j = cidrs_of db j" "vlans_of db0 j = vlans_of db j" "contracts_of db0 j b = contracts_of db j b"
    "masters_of db0 j = masters_of db j" "no_nat_of db0 j = no_nat_of db j" for j b
    by (simp_all add: db0_def)
  have cidrs: "cidrs_of db' = cidrs_of db1" unfolding 6(1) 5(1) 4(1) 3(1) 2(1) by (rule ext) simp
  have vlans: "vlans_of db' = vlans_of db2" "vlans_of db1 = vlans_of db0"
    unfolding 6(1) 5(1) 4(1) 3(1) 1(1) by (rule ext, simp)+
  have contracts: "contracts_of db' = contracts_of db4" "contracts_of db2 = contracts_of db0"
    unfolding 6(1) 5(1) 2(1) 1(1) by ((rule ext)+, simp)+
  have masters: "masters_of db' = masters_of db5" "masters_of db4 = masters_of db0"
    unfolding 6(1) 4(1) 3(1) 2(1) 1(1) by (rule ext, simp)+
  have no_nat: "no_nat_of db5 = no_nat_of db0" unfolding 5(1) 4(1) 3(1) 2(1) 1(1) by (rule ext) simp
  have row: "row_of_network db' = row_of_network db0" unfolding 6(1) 5(1) 4(1) 3(1) 2(1) 1(1) by (rule ext) simp
  have "row_of_network db0 j = (if j = i then Some (write_net_ext q (case row_of_network db i of None \<Rightarrow> new_net_ext_row i | Some r \<Rightarrow> r))
      else row_of_network db j)" for j
    unfolding row_of_network_def db0_def using upsert_find[where f = nx_network_id, OF ids, of j] by simp
  with 6(2) show ?thesis unfolding network_written_def row cidrs vlans contracts masters
    using 1(3,4) 2(3,4) 3(3,4) 4(3,4) 5(3,4) 6(3,4) unfolding vlans contracts masters no_nat lists by auto
qed


section \<open>Contracts and networks\<close>

lemma contract_once:
  assumes "ext_ok db" and "c \<in> set (contracts_of db i b)" and "c \<in> set (contracts_of db j b)"
  shows "i = j"
proof -
  from assms(2,3) obtain r r' where r: "r \<in> set (xd_contracts db)" "ec_network_id r = i" "ec_provides r = b" "ec_contract_name r = c"
    and r': "r' \<in> set (xd_contracts db)" "ec_network_id r' = j" "ec_provides r' = b" "ec_contract_name r' = c"
    by (auto simp: contracts_of_def)
  have "distinct (map (\<lambda>r. (ec_contract_name r, ec_provides r)) (xd_contracts db))" using assms(1) by (simp add: ext_ok_def)
  from distinct_key_unique[OF this r(1) r'(1)] r r' show ?thesis by simp
qed

text \<open>Under the key that the class of extra contracts declares, the name of the contract and its
  direction without the network, a contract that one network provides makes every request fail by
  which another network is to provide it.\<close>

theorem extra_contract_exclusive:
  assumes "ext_ok db" and "c \<in> set (contracts_of db j True)" and "j \<noteq> i"
    and "nq_extra_provided_contracts q = Some (Some vs)" and "c \<in> set vs"
  shows "\<exists>e. set_network_extn_db i q db = Inl e"
proof (cases "set_network_extn_db i q db")
  case (Inr db')
  note w = set_network_written[OF assms(1) Inr, unfolded network_written_def]
  then have "c \<in> set (contracts_of db' i True)" "c \<in> set (contracts_of db' j True)"
    using assms(2-5) by (simp_all add: wanted_def)
  moreover from w have "ext_ok db'" by (elim conjE)
  ultimately have "i = j" by (intro contract_once)
  with assms(3) show ?thesis by simp
qed simp

section \<open>Queries by distinguished name\<close>

lemma like_all: "sql_like ''%'' s"
  by (induction s) auto

lemma like_plain:
  "CHR ''%'' \<notin> set p \<Longrightarrow> CHR ''_'' \<notin> set p \<Longrightarrow> sql_like (p @ ''%'') s \<longleftrightarrow> prefix p s"
proof (induction p arbitrary: s)
  case Nil
  show ?case using like_all by simp
next
  case (Cons c p)
  then show ?case by (cases s) auto
qed

text \<open>For an L3 outside whose name has no character that the pattern interprets, the query selects
  the networks whose external network lies under it.\<close>

theorem l3out_query_plain:
  assumes "CHR ''%'' \<notin> set dn" and "CHR ''_'' \<notin> set dn"
  shows "get_network_ids_by_l3out_dn dn db =
    map nx_network_id (filter (\<lambda>r. case nx_external_network_dn r of None \<Rightarrow> False | Some x \<Rightarrow> prefix (dn @ ''/'') x) (xd_networks db))"
proof -
  have "under_l3out dn r = (case nx_external_network_dn r of None \<Rightarrow> False | Some x \<Rightarrow> prefix (dn @ ''/'') x)" for r
    using like_plain[of "dn @ ''/''"] assms by (simp add: under_l3out_def split: option.splits)
  then have "under_l3out dn = (\<lambda>r. case nx_external_network_dn r of None \<Rightarrow> False | Some x \<Rightarrow> prefix (dn @ ''/'') x)"
    by (rule ext)
  then show ?thesis by (simp only: get_network_ids_by_l3out_dn_def)
qed

definition demo_ext_db :: ext_db where
  "demo_ext_db = \<lparr>
     xd_neutron = \<lparr> nt_scopes = [], nt_pools = [],
       nt_networks = [\<lparr> network_id = ''n1'', network_tenant_id = ''t'', network_rbac_actions = [], network_mtu = None \<rparr>,
         \<lparr> network_id = ''n2'', network_tenant_id = ''t'', network_rbac_actions = [], network_mtu = None \<rparr>],
       nt_subnets = [\<lparr> subnet_id = ''s1'', subnet_network_id = ''n1'', subnet_pool_id = None,
         subnet_cidr = ''10.0.0.0/24'', subnet_gateway_ip = None,
         subnet_ip_version = 4, subnet_enable_dhcp = True \<rparr>],
       nt_ports = [], nt_allocs = [], nt_routers = [], nt_router_ports = [], nt_scope_mappings = [],
       nt_network_mappings = [] \<rparr>,
     xd_erspans = [], xd_networks = [(new_net_ext_row ''n1'')\<lparr> nx_external_network_dn := Some ''a-b/x'' \<rparr>],
     xd_cidrs = [], xd_vlans = [],
     xd_contracts = [\<lparr> ec_network_id = ''n1'', ec_contract_name = ''c'', ec_provides = True \<rparr>],
     xd_masters = [], xd_no_nat_cidrs = [], xd_subnets = [], xd_snat_mappings = [], xd_router_contracts = [],
     xd_hpp = [False] \<rparr>"

text \<open>An underscore in the name of an L3 outside is taken as a pattern: the query also selects
  networks of an L3 outside whose name has another character there.\<close>

theorem l3out_query_underscore:
  "get_network_ids_by_l3out_dn ''a_b'' demo_ext_db = [''n1''] \<and>
   \<not> (\<exists>r \<in> set (xd_networks demo_ext_db). \<exists>x. nx_external_network_dn r = Some (''a_b/'' @ x))"
  by (auto simp: demo_ext_db_def get_network_ids_by_l3out_dn_def under_l3out_def new_net_ext_row_def)

section \<open>Subnets and routers\<close>

lemma subnet_ext_roundtrip:
  assumes "set_subnet_extn_db i q db = Inr db'"
  shows "get_subnet_extn_db j db' =
    (if j = i then make_subnet_ext_dict (write_subnet_ext q
        (case find (\<lambda>r. sx_subnet_id r = i) (xd_subnets db) of None \<Rightarrow> new_subnet_ext_row i | Some r \<Rightarrow> r))
     else get_subnet_extn_db j db)"
proof -
  have ids: "sx_subnet_id (write_subnet_ext q r) = sx_subnet_id r" "sx_subnet_id (new_subnet_ext_row i) = i" for r
    by (simp_all add: write_subnet_ext_def new_subnet_ext_row_def)
  from assms have "db' = db\<lparr> xd_subnets := upsert (\<lambda>r. sx_subnet_id r = i) (write_subnet_ext q) (new_subnet_ext_row i) (xd_subnets db) \<rparr>"
    by (simp add: set_subnet_extn_db_def split: if_splits)
  then show ?thesis using upsert_find[where f = sx_subnet_id, OF ids] by (simp add: get_subnet_extn_db_def)
qed

definition router_list :: "ext_db \<Rightarrow> string \<Rightarrow> bool \<Rightarrow> string list" where
  "router_list db i b = map rc_contract_name (filter (\<lambda>r. rc_router_id r = i \<and> rc_provides r = b) (xd_router_contracts db))"

lemma get_router_lists: "get_router_extn_db i db = (router_list db i True, router_list db i False)"
  by (simp add: get_router_extn_db_def router_list_def Let_def conj_commute)

lemma set_router_contracts_effect:
  assumes "if_key k (set_router_contracts i b) db = Inr db'" and "ext_ok db"
  shows "ext_ok db' \<and> set (router_list db' i b) = wanted k (router_list db i b) \<and>
    (\<forall>j c. (j, c) \<noteq> (i, b) \<longrightarrow> router_list db' j c = router_list db j c)"
proof (cases k)
  case None
  with assms show ?thesis by (simp add: if_key_def)
next
  case (Some new)
  with assms(1) obtain t known where u: "update_list_attr known (\<lambda>r. (rc_router_id r, rc_contract_name r, rc_provides r))
      (\<lambda>r. rc_router_id r = i \<and> rc_provides r = b) rc_contract_name
      (\<lambda>v. \<lparr> rc_router_id = i, rc_contract_name = v, rc_provides = b \<rparr>) new (xd_router_contracts db) = Inr t"
    and db': "db' = db\<lparr> xd_router_contracts := t \<rparr>"
    by (auto simp: if_key_def set_router_contracts_def bindE_eq_Inr)
  have "distinct (map (\<lambda>r. (rc_router_id r, rc_contract_name r, rc_provides r)) (xd_router_contracts db))"
    using assms(2) by (simp add: ext_ok_def)
  note e = router_contracts.update_effect[OF this u]
  have "(j, c) \<noteq> (i, b) \<Longrightarrow> router_list db' j c = router_list db j c" for j c
    using e(3)[of "\<lambda>r. rc_router_id r = j \<and> rc_provides r = c"] by (auto simp: router_list_def db')
  with e(1,2) assms(2) Some show ?thesis
    by (auto simp: db' router_list_def ext_ok_def wanted_def split: option.splits)
qed

text \<open>After a request for the contracts of a router, it reads exactly the requested provided and
  consumed contracts, the ones a missing key leaves alone unchanged, and no other router's change.\<close>

theorem router_ext_roundtrip:
  assumes "ext_ok db" and "set_router_extn_db i provided consumed db = Inr db'"
  shows "ext_ok db' \<and> set (fst (get_router_extn_db i db')) = wanted provided (fst (get_router_extn_db i db)) \<and>
    set (snd (get_router_extn_db i db')) = wanted consumed (snd (get_router_extn_db i db)) \<and>
    (\<forall>j. j \<noteq> i \<longrightarrow> get_router_extn_db j db' = get_router_extn_db j db)"
proof -
  from assms(2) obtain db1 where 1: "if_key provided (set_router_contracts i True) db = Inr db1"
    and 2: "if_key consumed (set_router_contracts i False) db1 = Inr db'"
    by (auto simp: set_router_extn_db_def bindE_eq_Inr)
  note e1 = set_router_contracts_effect[OF 1 assms(1)]
  then have "ext_ok db1" by blast
  note e2 = set_router_contracts_effect[OF 2 this]
  from e1 e2 show ?thesis by (simp add: get_router_lists)
qed

section \<open>Witnesses\<close>

definition demo_net_request :: net_ext_request where
  "demo_net_request = \<lparr> nq_external_network = None, nq_bd = None, nq_nat_type = Some (Some ''edge''), nq_svi = None, nq_bgp = None,
     nq_bgp_type = None, nq_bgp_asn = None, nq_nested_domain_name = None, nq_nested_domain_type = None,
     nq_nested_domain_infra_vlan = None, nq_nested_domain_service_vlan = None, nq_nested_domain_node_network_vlan = None,
     nq_policy_enforcement_pref = None, nq_multi_ext_nets = None, nq_service_network_enable = None,
     nq_external_cidrs = Some (Some [''10.0.0.0/8'']), nq_nested_domain_allowed_vlans = None,
     nq_extra_provided_contracts = Some (Some [''d'', ''c'']), nq_extra_consumed_contracts = None,
     nq_epg_contract_masters = None, nq_no_nat_cidrs = None \<rparr>"

lemma demo_ext_ok: "ext_ok demo_ext_db"
  by (simp add: ext_ok_def demo_ext_db_def)


lemma extra_contract_exclusive_witness: "\<exists>e. set_network_extn_db ''n2'' demo_net_request demo_ext_db = Inl e"
proof (rule extra_contract_exclusive[OF demo_ext_ok])
  show "''c'' \<in> set (contracts_of demo_ext_db ''n1'' True)" by code_simp
  show "nq_extra_provided_contracts demo_net_request = Some (Some [''d'', ''c''])" by (simp add: demo_net_request_def)
qed simp_all

end
