(* ===== verification/Dist_Snat.thy ===== *)
theory Dist_Snat
  imports Extension_Db Validators
begin

text \<open>
  Distributed SNAT in the mechanism driver (\<^verbatim>\<open>apic_aim/mechanism_driver.py\<close>): the validation of a
  subnet's port configuration, the gateway information that a request finds, and the reservation of
  a range of ports of the gateway address for a host, in transactions that compete with those of
  other controllers for the same table.

  The tables of ports are the core service's; creating and deleting a port is its operation and a
  parameter.  What other controllers commit between the reading and the flush of a transaction is a
  function on the table of ranges, one for every attempt.
\<close>

section \<open>Validation of the configuration\<close>

record snat_config =
  sc_service_network :: "string option"
  sc_start_port :: "port_value option"
  sc_end_port :: "port_value option"
  sc_alloc_size :: "port_value option"

text \<open>\<^verbatim>\<open>int(v)\<close>.\<close>

fun int_of_port :: "port_value \<Rightarrow> int option" where
  "int_of_port (PortInt n) = Some n"
| "int_of_port (PortStr s) = py_int s"

definition dist_snat_not_integers :: string where
  "dist_snat_not_integers = ''Distributed SNAT port values must be integers''"

definition validate_dist_snat_port_config :: "snat_config \<Rightarrow> fabric_error + unit" where
  "validate_dist_snat_port_config s =
     (if \<not> truthy (sc_service_network s) then Inr ()
      else case (sc_start_port s, sc_end_port s) of
        (Some sv, Some ev) \<Rightarrow>
          (case (int_of_port sv, int_of_port ev, map_option int_of_port (sc_alloc_size s)) of
             (None, _) \<Rightarrow> Inl (InvalidInput dist_snat_not_integers)
           | (_, None, _) \<Rightarrow> Inl (InvalidInput dist_snat_not_integers)
           | (_, _, Some None) \<Rightarrow> Inl (InvalidInput dist_snat_not_integers)
           | (Some start, Some end_port, alloc) \<Rightarrow>
               bindE (guardE (1 \<le> start \<and> start \<le> 65535)
                 (InvalidInput ''Distributed SNAT start port must be 1-65535'')) (\<lambda>_.
               bindE (guardE (1 \<le> end_port \<and> end_port \<le> 65535)
                 (InvalidInput ''Distributed SNAT end port must be 1-65535'')) (\<lambda>_.
               bindE (guardE (start < end_port)
                 (InvalidInput ''Distributed SNAT start_port must be less than end_port'')) (\<lambda>_.
               case alloc of
                 Some (Some a) \<Rightarrow>
                   bindE (guardE (0 < a)
                     (InvalidInput ''Distributed SNAT allocation size must be greater than zero'')) (\<lambda>_.
                   guardE (a \<le> end_port - start + 1)
                     (InvalidInput ''Distributed SNAT allocation size exceeds available port range''))
               | _ \<Rightarrow> Inr ()))))
      | _ \<Rightarrow> Inr ())"

section \<open>The gateway\<close>

record gw_info =
  gw_snat_ip :: string
  gw_host_snat_mac :: string
  gw_gateway_ip :: "string option"
  gw_prefixlen :: int
  gw_snat_subnet_id :: string
  gw_service_network_id :: string
  gw_start_port :: "int option"
  gw_end_port :: "int option"
  gw_alloc_size :: "int option"
  gw_service_vrf :: "string option"

text \<open>\<^verbatim>\<open>order_by(key).first()\<close>.\<close>

fun first_by :: "('a \<Rightarrow> string) \<Rightarrow> 'a list \<Rightarrow> 'a option" where
  "first_by key [] = None"
| "first_by key (x # xs) =
     (case first_by key xs of None \<Rightarrow> Some x | Some y \<Rightarrow> if string_leq (key x) (key y) then Some x else Some y)"

text \<open>An interface of the router has an address on one of the routed subnets.\<close>

definition router_reaches :: "neutron_db \<Rightarrow> string list \<Rightarrow> string \<Rightarrow> bool" where
  "router_reaches db routed r =
     list_ex (\<lambda>rp. rp_router_id rp = r \<and> rp_type rp = device_owner_router_intf \<and>
       list_ex (\<lambda>a. alloc_port_id a = rp_port_id rp \<and> alloc_subnet_id a \<in> set routed) (nt_allocs db))
       (nt_router_ports db)"

text \<open>The rows of the join: gateway address, its port, subnet and extension.\<close>

definition gateway_rows ::
  "ext_db \<Rightarrow> string \<Rightarrow> string list \<Rightarrow> (alloc_row \<times> port_row \<times> subnet_row \<times> subnet_ext_row) list" where
  "gateway_rows xdb ext_network routed =
     (let db = xd_neutron xdb in
      [(a, p, s, x). a \<leftarrow> nt_allocs db, p \<leftarrow> nt_ports db, s \<leftarrow> nt_subnets db, x \<leftarrow> xd_subnets xdb,
         port_id p = alloc_port_id a \<and> subnet_id s = alloc_subnet_id a \<and> sx_subnet_id x = subnet_id s \<and>
         port_network_id p = ext_network \<and> port_device_owner p = device_owner_router_gw \<and>
         truthy (sx_service_network_id x) \<and>
         list_ex (\<lambda>r. router_gw_port_id r = Some (port_id p) \<and> router_reaches db routed (router_id r)) (nt_routers db)])"

definition prefix_length :: "string \<Rightarrow> fabric_error + int" where
  "prefix_length cidr =
     (case py_split CHR ''/'' cidr of
        _ # n # _ \<Rightarrow> (case py_int n of None \<Rightarrow> Inl ValueError | Some k \<Rightarrow> Inr k)
      | _ \<Rightarrow> Inl IndexError)"

definition query_dist_snat_gateway_info ::
  "ext_db \<Rightarrow> string \<Rightarrow> string list \<Rightarrow> fabric_error + gw_info option" where
  "query_dist_snat_gateway_info xdb ext_network routed =
     (case first_by (\<lambda>(a, p, s, x). subnet_id s) (gateway_rows xdb ext_network routed) of
        None \<Rightarrow> Inr None
      | Some (a, p, s, x) \<Rightarrow>
          bindE (prefix_length (subnet_cidr s)) (\<lambda>n.
          let net = the (sx_service_network_id x) in
          Inr (Some \<lparr> gw_snat_ip = alloc_ip a, gw_host_snat_mac = port_mac p, gw_gateway_ip = subnet_gateway_ip s,
            gw_prefixlen = n, gw_snat_subnet_id = subnet_id s, gw_service_network_id = net,
            gw_start_port = sx_dist_snat_start_port x, gw_end_port = sx_dist_snat_end_port x,
            gw_alloc_size = sx_dist_snat_alloc_size x,
            gw_service_vrf = (case get_network_mapping net (xd_neutron xdb) of None \<Rightarrow> None | Some m \<Rightarrow> nm_vrf_name m) \<rparr>)))"

section \<open>Reservation of a range\<close>

text \<open>
  \<^verbatim>\<open>while candidate + alloc_size - 1 <= end_port\<close>: the first candidate that overlaps no range in use.
  The outer \<open>None\<close> is a loop that never ends.
\<close>

definition overlaps :: "int \<Rightarrow> int \<Rightarrow> snat_mapping \<Rightarrow> bool" where
  "overlaps lo hi m \<longleftrightarrow> lo \<le> sm_end_port m \<and> hi \<ge> sm_start_port m"

partial_function (option) free_block :: "int \<Rightarrow> int \<Rightarrow> snat_mapping list \<Rightarrow> int \<Rightarrow> int option option" where
  "free_block sz end_port used candidate =
     (if candidate + sz - 1 \<le> end_port then
        if list_ex (overlaps candidate (candidate + sz - 1)) used
        then free_block sz end_port used (candidate + sz)
        else Some (Some candidate)
      else Some None)"

declare free_block.simps [code]

fun lowest :: "snat_mapping list \<Rightarrow> snat_mapping option" where
  "lowest [] = None"
| "lowest (m # ms) =
     (case lowest ms of None \<Rightarrow> Some m | Some n \<Rightarrow> if sm_start_port m \<le> sm_start_port n then Some m else Some n)"

text \<open>The insertion of the new row into the table as it is at the flush.\<close>

definition flush_mapping :: "snat_mapping \<Rightarrow> snat_mapping list \<Rightarrow> fabric_error + snat_mapping list" where
  "flush_mapping m t =
     (if list_ex (snat_key (sm_snat_ip m) (sm_subnet_id m) (sm_start_port m)) t then Inl DBDuplicateEntry
      else Inr (t @ [m]))"

text \<open>
  One transaction: it reads the table \<open>t\<close>; \<open>others\<close> is what is committed meanwhile.  The result is
  the outcome and the table afterwards.
\<close>

definition reserve_dist_snat_port_range ::
  "gw_info \<Rightarrow> string \<Rightarrow> string \<Rightarrow> (snat_mapping list \<Rightarrow> snat_mapping list) \<Rightarrow> snat_mapping list \<Rightarrow>
   ((fabric_error + snat_mapping option) \<times> snat_mapping list) option" where
  "reserve_dist_snat_port_range gw host port others t =
     (let existing = get_dist_snat_mappings (Some (gw_snat_ip gw)) (Some host) None (Some (gw_snat_subnet_id gw)) (Some port) t;
          used = get_dist_snat_mappings (Some (gw_snat_ip gw)) None None (Some (gw_snat_subnet_id gw)) None t
      in if existing \<noteq> [] then Some (Inr (lowest existing), others t)
         else case (gw_start_port gw, gw_end_port gw, gw_alloc_size gw) of
           (Some start, Some end_port, Some sz) \<Rightarrow>
             (case free_block sz end_port used start of
                None \<Rightarrow> None
              | Some None \<Rightarrow> Some (Inr None, others t)
              | Some (Some c) \<Rightarrow>
                  (case set_dist_snat_mapping (gw_snat_ip gw) host c (c + sz - 1) (gw_snat_subnet_id gw) (Some port) t of
                     Inl e \<Rightarrow> Some (Inl e, others t)
                   | Inr (m, _) \<Rightarrow>
                       (case flush_mapping m (others t) of
                          Inl e \<Rightarrow> Some (Inl e, others t)
                        | Inr t' \<Rightarrow> Some (Inr (Some m), t'))))
         | _ \<Rightarrow> Some (Inl TypeError, others t))"

text \<open>\<^verbatim>\<open>//\<close> rounds down.\<close>

definition dist_snat_port_range_count :: "gw_info \<Rightarrow> fabric_error + int" where
  "dist_snat_port_range_count gw =
     (case (gw_start_port gw, gw_end_port gw, gw_alloc_size gw) of
        (Some start, Some end_port, Some sz) \<Rightarrow>
          if sz = 0 then Inl ZeroDivisionError else Inr ((end_port - start + 1) div sz)
      | _ \<Rightarrow> Inl TypeError)"

text \<open>The attempts; \<open>others k\<close> is what is committed during the transaction with \<open>k\<close> attempts left.\<close>

fun attempt_ranges ::
  "gw_info \<Rightarrow> string \<Rightarrow> string \<Rightarrow> (nat \<Rightarrow> snat_mapping list \<Rightarrow> snat_mapping list) \<Rightarrow> nat \<Rightarrow> snat_mapping list \<Rightarrow>
   ((fabric_error + snat_mapping option) \<times> snat_mapping list) option" where
  "attempt_ranges gw host port others 0 t = Some (Inr None, t)"
| "attempt_ranges gw host port others (Suc k) t =
     (case reserve_dist_snat_port_range gw host port (others k) t of
        None \<Rightarrow> None
      | Some (Inl e, t') \<Rightarrow>
          if e = DBDuplicateEntry then attempt_ranges gw host port others k t' else Some (Inl e, t')
      | Some (Inr m, t') \<Rightarrow> Some (Inr m, t'))"

definition get_or_allocate_dist_snat_port_range ::
  "gw_info \<Rightarrow> string \<Rightarrow> string \<Rightarrow> (nat \<Rightarrow> snat_mapping list \<Rightarrow> snat_mapping list) \<Rightarrow> snat_mapping list \<Rightarrow>
   ((fabric_error + snat_mapping option) \<times> snat_mapping list) option" where
  "get_or_allocate_dist_snat_port_range gw host port others t =
     (case dist_snat_port_range_count gw of
        Inl e \<Rightarrow> Some (Inl e, t)
      | Inr n \<Rightarrow> attempt_ranges gw host port others (nat n) t)"

end
