(* ===== verification/Snat_Service.thy ===== *)
theory Snat_Service
  imports Dist_Snat
begin

text \<open>
  SNAT addresses in the mechanism driver (\<^verbatim>\<open>apic_aim/mechanism_driver.py\<close>): the validation of
  the mode of a subnet and of its service network, the port of a host on the service network, the
  reply of the distributed SNAT request with the nodes of the other hosts, the host's address from
  an SNAT pool, the deletion of SNAT ports, and the subnets a floating address may be taken from.

  Creating and deleting a port are operations of the core plugin and parameters; they return the
  outcome and the tables afterwards.
\<close>

section \<open>Constants\<close>

definition device_owner_snat_port :: string where
  "device_owner_snat_port = ''apic:snat-pool''"

definition device_owner_dist_snat_port :: string where
  "device_owner_dist_snat_port = ''apic:dist-snat''"

definition device_owner_dhcp :: string where
  "device_owner_dhcp = ''network:dhcp''"

definition device_owner_compute_prefix :: string where
  "device_owner_compute_prefix = ''compute:''"

text \<open>\<^verbatim>\<open>s.startswith(p)\<close>.\<close>

fun starts_with :: "string \<Rightarrow> string \<Rightarrow> bool" where
  "starts_with [] s = True"
| "starts_with (a # as) [] = False"
| "starts_with (a # as) (b # bs) \<longleftrightarrow> a = b \<and> starts_with as bs"

text \<open>The exceptions that \<^verbatim>\<open>except NeutronException\<close> catches.\<close>

fun is_neutron_exception :: "fabric_error \<Rightarrow> bool" where
  "is_neutron_exception DBDuplicateEntry = False"
| "is_neutron_exception DBReferenceError = False"
| "is_neutron_exception AttributeError = False"
| "is_neutron_exception TypeError = False"
| "is_neutron_exception ValueError = False"
| "is_neutron_exception IndexError = False"
| "is_neutron_exception ZeroDivisionError = False"
| "is_neutron_exception KeyError = False"
| "is_neutron_exception AddrFormatError = False"
| "is_neutron_exception (AimError _) = False"
| "is_neutron_exception UnboundLocalError = False"
| "is_neutron_exception NoResultFound = False"
| "is_neutron_exception _ = True"

section \<open>The mode of a subnet\<close>

text \<open>The parts of a network dictionary that the validation reads.\<close>

record service_net =
  sn_id :: string
  sn_service_network_enable :: bool
  sn_router_external :: bool
  sn_provider_type :: "string option"
  sn_physical_network :: "string option"

definition validate_service_network_network :: "service_net \<Rightarrow> fabric_error + unit" where
  "validate_service_network_network n =
     guardE (sn_router_external n \<and> sn_provider_type n = Some ''vlan'' \<and> truthy (sn_physical_network n))
       (ServiceNetworkMustBeExternalVlanProvider (sn_id n))"

definition get_service_network_references :: "string \<Rightarrow> ext_db \<Rightarrow> string list" where
  "get_service_network_references n xdb =
     map sx_subnet_id (filter (\<lambda>x. sx_service_network_id x = Some n) (xd_subnets xdb))"

text \<open>The check at the deletion of a network.\<close>

definition check_service_network_unused :: "string \<Rightarrow> ext_db \<Rightarrow> fabric_error + unit" where
  "check_service_network_unused n xdb =
     (case get_service_network_references n xdb of
        [] \<Rightarrow> Inr ()
      | r # _ \<Rightarrow> Inl (ServiceNetworkInUse n r))"

definition subnet_has_router_gateway_port :: "string \<Rightarrow> neutron_db \<Rightarrow> bool" where
  "subnet_has_router_gateway_port s db =
     list_ex (\<lambda>p. port_device_owner p = device_owner_router_gw \<and>
       list_ex (\<lambda>a. alloc_port_id a = port_id p \<and> alloc_subnet_id a = s) (nt_allocs db)) (nt_ports db)"

text \<open>The service networks of the subnets of a network, but for the subnet that is validated.\<close>

definition service_networks_of :: "string \<Rightarrow> string \<Rightarrow> ext_db \<Rightarrow> string list" where
  "service_networks_of net sub xdb =
     [the (sx_service_network_id x). x \<leftarrow> xd_subnets xdb, s \<leftarrow> nt_subnets (xd_neutron xdb),
        subnet_id s = sx_subnet_id x \<and> subnet_network_id s = net \<and> truthy (sx_service_network_id x) \<and>
        (sub \<noteq> [] \<longrightarrow> subnet_id s \<noteq> sub)]"

definition validate_single_service_network_per_external_network ::
  "ext_db \<Rightarrow> string \<Rightarrow> string \<Rightarrow> string \<Rightarrow> fabric_error + unit" where
  "validate_single_service_network_per_external_network xdb net sub service_network_id =
     (let existing = service_networks_of net sub xdb
      in guardE (existing = [] \<or> service_network_id \<in> set existing)
           (ServiceNetworkMismatchOnExternalNetwork net existing))"

text \<open>
  \<open>get_network\<close> reads a network of the core plugin; the original values are \<open>None\<close> at creation.
\<close>

definition validate_subnet_snat_mode ::
  "(string \<Rightarrow> service_net option) \<Rightarrow> ext_db \<Rightarrow> string \<Rightarrow> string \<Rightarrow> bool \<Rightarrow> string option \<Rightarrow>
   bool option \<Rightarrow> string option \<Rightarrow> fabric_error + unit" where
  "validate_subnet_snat_mode get_network xdb net sub snat_pool service_network original_pool original_service =
     (let dist = truthy service_network; sn = the service_network; original_dist = truthy original_service
      in bindE (guardE (\<not> (snat_pool \<and> dist)) ServiceNetworkSnatHostPoolConflict) (\<lambda>_.
         bindE (if \<not> dist then Inr ()
                else case get_network sn of
                  None \<Rightarrow> Inl (ServiceNetworkReferenceInvalid sn)
                | Some n \<Rightarrow>
                    bindE (guardE (sn_service_network_enable n) (ServiceNetworkReferenceInvalid sn)) (\<lambda>_.
                    bindE (validate_service_network_network n) (\<lambda>_.
                    validate_single_service_network_per_external_network xdb net sub sn))) (\<lambda>_.
         if original_pool = None \<and> original_service = None then Inr ()
         else bindE (guardE (\<not> ((original_pool = Some True \<and> dist \<and> \<not> original_dist) \<or>
                             (original_dist \<and> snat_pool \<and> original_pool \<noteq> Some True)))
                (DirectSnatModeTransitionNotSupported sub)) (\<lambda>_.
              guardE (\<not> (original_dist \<and> \<not> dist \<and> subnet_has_router_gateway_port sub (xd_neutron xdb)))
                (DistributedSnatSubnetInUse sub)))))"

section \<open>Ports of the core plugin\<close>

record port_request =
  pr_device_id :: string
  pr_device_owner :: string
  pr_tenant_id :: string
  pr_name :: string
  pr_network_id :: string
  pr_subnet_id :: "string option"

record created_port =
  cp_id :: string
  cp_mac :: string
  cp_fixed_ips :: "string list"

record core_plugin =
  core_create_port :: "port_request \<Rightarrow> ext_db \<Rightarrow> (fabric_error + created_port) \<times> ext_db"
  core_delete_port :: "string \<Rightarrow> ext_db \<Rightarrow> (fabric_error + unit) \<times> ext_db"

text \<open>What the driver does to the ranges when a port is deleted (\<^verbatim>\<open>delete_port_precommit\<close>).\<close>

definition release_dist_snat_ranges :: "string \<Rightarrow> string \<Rightarrow> snat_mapping list \<Rightarrow> snat_mapping list" where
  "release_dist_snat_ranges owner port t =
     (if owner = device_owner_dist_snat_port then snd (delete_dist_snat_mappings None None None None (Some port) t) else t)"

section \<open>The port of a host on the service network\<close>

record service_port =
  sp_id :: string
  sp_mac :: string
  sp_ip :: string
  sp_created :: bool

definition service_port_name :: "string \<Rightarrow> string" where
  "service_port_name host = ''service-net-port:'' @ host"

definition query_dist_snat_service_port :: "string \<Rightarrow> string \<Rightarrow> string \<Rightarrow> neutron_db \<Rightarrow> service_port option" where
  "query_dist_snat_service_port host service_network_id name db =
     (case [(p, a). p \<leftarrow> nt_ports db, a \<leftarrow> nt_allocs db,
              alloc_port_id a = port_id p \<and> port_network_id p = service_network_id \<and> port_device_id p = host \<and>
              port_device_owner p = device_owner_dist_snat_port \<and> port_name p = name] of
        [] \<Rightarrow> None
      | (p, a) # _ \<Rightarrow> Some \<lparr> sp_id = port_id p, sp_mac = port_mac p, sp_ip = alloc_ip a, sp_created = False \<rparr>)"

definition get_or_create_dist_snat_service_port ::
  "core_plugin \<Rightarrow> string \<Rightarrow> string \<Rightarrow> string \<Rightarrow> ext_db \<Rightarrow> (fabric_error + service_port option) \<times> ext_db" where
  "get_or_create_dist_snat_service_port core host service_network_id project_id xdb =
     (case query_dist_snat_service_port host service_network_id (service_port_name host) (xd_neutron xdb) of
        Some p \<Rightarrow> (Inr (Some p), xdb)
      | None \<Rightarrow>
          (case core_create_port core
              \<lparr> pr_device_id = host, pr_device_owner = device_owner_dist_snat_port, pr_tenant_id = project_id,
                pr_name = service_port_name host, pr_network_id = service_network_id, pr_subnet_id = None \<rparr> xdb of
             (Inl e, x) \<Rightarrow> (if e = IpAddressGenerationFailure then Inr None else Inl e, x)
           | (Inr p, x) \<Rightarrow>
               (case cp_fixed_ips p of
                  [] \<Rightarrow> (Inl IndexError, x)
                | ip # _ \<Rightarrow> (Inr (Some \<lparr> sp_id = cp_id p, sp_mac = cp_mac p, sp_ip = ip, sp_created = True \<rparr>), x))))"

definition delete_dist_snat_service_port :: "core_plugin \<Rightarrow> string \<Rightarrow> ext_db \<Rightarrow> (fabric_error + unit) \<times> ext_db" where
  "delete_dist_snat_service_port core p xdb =
     (case core_delete_port core p xdb of
        (Inl e, x) \<Rightarrow> (if is_neutron_exception e then Inr () else Inl e, x)
      | (Inr u, x) \<Rightarrow> (Inr (), x))"

section \<open>The nodes of the other hosts\<close>

record service_node =
  no_host :: string
  no_service_ip :: string
  no_service_mac :: string
  no_start_port :: int
  no_end_port :: int

text \<open>The rows whose key was not seen before.\<close>

fun unseen_rows :: "('a \<Rightarrow> 'k) \<Rightarrow> 'k list \<Rightarrow> 'a list \<Rightarrow> 'a list" where
  "unseen_rows key seen [] = []"
| "unseen_rows key seen (x # xs) =
     (if key x \<in> set seen then unseen_rows key seen xs else x # unseen_rows key (key x # seen) xs)"

definition node_key :: "snat_mapping \<times> port_row \<times> alloc_row \<Rightarrow> string \<times> int \<times> int" where
  "node_key = (\<lambda>(m, p, a). (sm_host_name m, sm_start_port m, sm_end_port m))"

definition make_node :: "snat_mapping \<times> port_row \<times> alloc_row \<Rightarrow> service_node" where
  "make_node = (\<lambda>(m, p, a). \<lparr> no_host = sm_host_name m, no_service_ip = alloc_ip a, no_service_mac = port_mac p,
     no_start_port = sm_start_port m, no_end_port = sm_end_port m \<rparr>)"

definition node_rows :: "string \<Rightarrow> string \<Rightarrow> string \<Rightarrow> ext_db \<Rightarrow> (snat_mapping \<times> port_row \<times> alloc_row) list" where
  "node_rows ip sub local_host xdb =
     [(m, p, a). m \<leftarrow> xd_snat_mappings xdb, p \<leftarrow> nt_ports (xd_neutron xdb), a \<leftarrow> nt_allocs (xd_neutron xdb),
        sm_service_port_id m = Some (port_id p) \<and> alloc_port_id a = port_id p \<and>
        sm_snat_ip m = ip \<and> sm_subnet_id m = sub \<and> sm_host_name m \<noteq> local_host]"

definition query_dist_snat_service_nodes :: "string \<Rightarrow> string \<Rightarrow> string \<Rightarrow> ext_db \<Rightarrow> service_node list" where
  "query_dist_snat_service_nodes ip sub local_host xdb =
     map make_node (unseen_rows node_key [] (sort_key (\<lambda>(m, p, a). sm_start_port m) (node_rows ip sub local_host xdb)))"

section \<open>The request of a host\<close>

record dist_snat_info =
  di_host_snat_ip :: string
  di_host_snat_mac :: string
  di_gateway_ip :: "string option"
  di_prefixlen :: int
  di_start_port :: int
  di_end_port :: int
  di_service_vrf :: "string option"
  di_service_ip :: string
  di_service_mac :: string
  di_service_nodes :: "service_node list"
  di_snat_subnet_id :: string

text \<open>No distributed SNAT (\<open>None\<close> in the code), nothing left (the empty dictionary), or the information.\<close>

datatype dist_snat_reply = NoDistSnat | NoDistSnatRange | DistSnat dist_snat_info

definition get_or_allocate_distributed_snat_ip ::
  "core_plugin \<Rightarrow> string \<Rightarrow> string \<Rightarrow> string \<Rightarrow> string list \<Rightarrow>
   (nat \<Rightarrow> snat_mapping list \<Rightarrow> snat_mapping list) \<Rightarrow> ext_db \<Rightarrow>
   ((fabric_error + dist_snat_reply) \<times> ext_db) option" where
  "get_or_allocate_distributed_snat_ip core host ext_network tenant routed others xdb =
     (case query_dist_snat_gateway_info xdb ext_network routed of
        Inl e \<Rightarrow> Some (Inl e, xdb)
      | Inr None \<Rightarrow> Some (Inr NoDistSnat, xdb)
      | Inr (Some gw) \<Rightarrow>
          (case get_or_create_dist_snat_service_port core host (gw_service_network_id gw) tenant xdb of
             (Inl e, x) \<Rightarrow> Some (Inl e, x)
           | (Inr None, x) \<Rightarrow> Some (Inr NoDistSnatRange, x)
           | (Inr (Some p), x) \<Rightarrow>
               (case get_or_allocate_dist_snat_port_range gw host (sp_id p) others (xd_snat_mappings x) of
                  None \<Rightarrow> None
                | Some (Inl e, t) \<Rightarrow> Some (Inl e, x\<lparr> xd_snat_mappings := t \<rparr>)
                | Some (Inr None, t) \<Rightarrow>
                    let y = x\<lparr> xd_snat_mappings := t \<rparr>
                    in if sp_created p
                       then case delete_dist_snat_service_port core (sp_id p) y of
                              (Inl e, z) \<Rightarrow> Some (Inl e, z)
                            | (Inr u, z) \<Rightarrow> Some (Inr NoDistSnatRange, z)
                       else Some (Inr NoDistSnatRange, y)
                | Some (Inr (Some m), t) \<Rightarrow>
                    let y = x\<lparr> xd_snat_mappings := t \<rparr>
                    in Some (Inr (DistSnat \<lparr> di_host_snat_ip = gw_snat_ip gw, di_host_snat_mac = gw_host_snat_mac gw,
                         di_gateway_ip = gw_gateway_ip gw, di_prefixlen = gw_prefixlen gw, di_start_port = sm_start_port m,
                         di_end_port = sm_end_port m, di_service_vrf = gw_service_vrf gw, di_service_ip = sp_ip p,
                         di_service_mac = sp_mac p,
                         di_service_nodes = query_dist_snat_service_nodes (gw_snat_ip gw) (gw_snat_subnet_id gw) host y,
                         di_snat_subnet_id = gw_snat_subnet_id gw \<rparr>), y))))"

section \<open>The address of a host from an SNAT pool\<close>

record snat_ip_info =
  si_host_snat_ip :: string
  si_host_snat_mac :: string
  si_gateway_ip :: "string option"
  si_prefixlen :: int

definition snat_ports :: "string \<Rightarrow> string \<Rightarrow> neutron_db \<Rightarrow> (alloc_row \<times> port_row \<times> subnet_row) list" where
  "snat_ports net device db =
     [(a, p, s). a \<leftarrow> nt_allocs db, s \<leftarrow> nt_subnets db, p \<leftarrow> nt_ports db,
        subnet_id s = alloc_subnet_id a \<and> port_id p = alloc_port_id a \<and> port_network_id p = net \<and>
        port_device_id p = device \<and> port_device_owner p = device_owner_snat_port]"

definition snat_pool_subnets :: "string \<Rightarrow> ext_db \<Rightarrow> subnet_row list" where
  "snat_pool_subnets net xdb =
     [s. s \<leftarrow> nt_subnets (xd_neutron xdb), x \<leftarrow> xd_subnets xdb,
        sx_subnet_id x = subnet_id s \<and> subnet_network_id s = net \<and> sx_snat_host_pool x = Some True]"

text \<open>The loop over the subnets of the pool.\<close>

fun allocate_snat_port ::
  "core_plugin \<Rightarrow> string \<Rightarrow> string \<Rightarrow> string \<Rightarrow> subnet_row list \<Rightarrow> ext_db \<Rightarrow>
   (fabric_error + snat_ip_info option) \<times> ext_db" where
  "allocate_snat_port core host net tenant [] xdb = (Inr None, xdb)"
| "allocate_snat_port core host net tenant (s # ss) xdb =
     (case core_create_port core
         \<lparr> pr_device_id = host, pr_device_owner = device_owner_snat_port, pr_tenant_id = tenant,
           pr_name = ''snat-pool-port:'' @ host, pr_network_id = net, pr_subnet_id = Some (subnet_id s) \<rparr> xdb of
        (Inl e, x) \<Rightarrow> if e = IpAddressGenerationFailure then allocate_snat_port core host net tenant ss x else (Inl e, x)
      | (Inr p, x) \<Rightarrow>
          (case cp_fixed_ips p of
             [] \<Rightarrow> allocate_snat_port core host net tenant ss x
           | ip # _ \<Rightarrow>
               (case prefix_length (subnet_cidr s) of
                  Inl e \<Rightarrow> (Inl e, x)
                | Inr n \<Rightarrow> (Inr (Some \<lparr> si_host_snat_ip = ip, si_host_snat_mac = cp_mac p,
                    si_gateway_ip = subnet_gateway_ip s, si_prefixlen = n \<rparr>), x))))"

definition get_or_allocate_snat_ip ::
  "core_plugin \<Rightarrow> string \<Rightarrow> string \<Rightarrow> string \<Rightarrow> ext_db \<Rightarrow> (fabric_error + snat_ip_info option) \<times> ext_db" where
  "get_or_allocate_snat_ip core host net tenant xdb =
     (case snat_ports net host (xd_neutron xdb) of
        (a, p, s) # _ \<Rightarrow>
          (case prefix_length (subnet_cidr s) of
             Inl e \<Rightarrow> (Inl e, xdb)
           | Inr n \<Rightarrow> (Inr (Some \<lparr> si_host_snat_ip = alloc_ip a, si_host_snat_mac = port_mac p,
               si_gateway_ip = subnet_gateway_ip s, si_prefixlen = n \<rparr>), xdb))
      | [] \<Rightarrow>
          (case snat_pool_subnets net xdb of
             [] \<Rightarrow> (Inr None, xdb)
           | ss \<Rightarrow> allocate_snat_port core host net tenant ss xdb))"

definition has_snat_ip_ports :: "string \<Rightarrow> neutron_db \<Rightarrow> bool" where
  "has_snat_ip_ports s db =
     list_ex (\<lambda>p. port_device_owner p = device_owner_snat_port \<and>
       list_ex (\<lambda>a. alloc_port_id a = port_id p \<and> alloc_subnet_id a = s) (nt_allocs db)) (nt_ports db)"

text \<open>An interface of a router whose gateway port is on the external network.\<close>

definition router_interface_on_external :: "string \<Rightarrow> neutron_db \<Rightarrow> bool" where
  "router_interface_on_external net db =
     list_ex (\<lambda>rp. rp_type rp = device_owner_router_intf \<and>
       list_ex (\<lambda>r. router_id r = rp_router_id rp \<and>
         list_ex (\<lambda>p. router_gw_port_id r = Some (port_id p) \<and> port_network_id p = net \<and>
           port_device_owner p = device_owner_router_gw) (nt_ports db)) (nt_routers db)) (nt_router_ports db)"

text \<open>A failure to delete a port is logged and the loop goes on.\<close>

fun delete_ports :: "core_plugin \<Rightarrow> string list \<Rightarrow> ext_db \<Rightarrow> (fabric_error + unit) \<times> ext_db" where
  "delete_ports core [] xdb = (Inr (), xdb)"
| "delete_ports core (p # ps) xdb =
     (case core_delete_port core p xdb of
        (Inl e, x) \<Rightarrow> if is_neutron_exception e then delete_ports core ps x else (Inl e, x)
      | (Inr u, x) \<Rightarrow> delete_ports core ps x)"

definition delete_unneeded_snat_ip_ports :: "core_plugin \<Rightarrow> string \<Rightarrow> ext_db \<Rightarrow> (fabric_error + unit) \<times> ext_db" where
  "delete_unneeded_snat_ip_ports core net xdb =
     (let db = xd_neutron xdb
      in delete_ports core
           (if router_interface_on_external net db then []
            else map port_id (filter (\<lambda>p. port_network_id p = net \<and> port_device_owner p = device_owner_snat_port) (nt_ports db)))
           xdb)"

section \<open>Ports to notify\<close>

definition get_router_ids_from_external_net :: "string \<Rightarrow> neutron_db \<Rightarrow> string list" where
  "get_router_ids_from_external_net net db =
     [rp_router_id rp. rp \<leftarrow> nt_router_ports db, p \<leftarrow> nt_ports db,
        rp_port_id rp = port_id p \<and> rp_type rp = device_owner_router_gw \<and> port_network_id p = net]"

definition get_router_interface_subnets :: "string list \<Rightarrow> neutron_db \<Rightarrow> string list" where
  "get_router_interface_subnets routers db =
     remdups [alloc_subnet_id a. a \<leftarrow> nt_allocs db, rp \<leftarrow> nt_router_ports db,
        rp_port_id rp = alloc_port_id a \<and> rp_router_id rp \<in> set routers]"

definition get_compute_dhcp_ports_in_subnets :: "string list \<Rightarrow> neutron_db \<Rightarrow> string list" where
  "get_compute_dhcp_ports_in_subnets subnets db =
     [alloc_port_id a. a \<leftarrow> nt_allocs db, p \<leftarrow> nt_ports db,
        port_id p = alloc_port_id a \<and> alloc_subnet_id a \<in> set subnets \<and>
        (starts_with device_owner_compute_prefix (port_device_owner p) \<or> port_device_owner p = device_owner_dhcp)]"

definition existing_vm_ports :: "string \<Rightarrow> neutron_db \<Rightarrow> string list" where
  "existing_vm_ports net db =
     get_compute_dhcp_ports_in_subnets
       (get_router_interface_subnets (get_router_ids_from_external_net net db) db) db"

definition get_non_router_ports_in_networks :: "string list \<Rightarrow> neutron_db \<Rightarrow> string list" where
  "get_non_router_ports_in_networks networks db =
     map port_id (filter (\<lambda>p. port_network_id p \<in> set networks \<and> port_device_owner p \<noteq> device_owner_router_intf) (nt_ports db))"

section \<open>Floating addresses\<close>

text \<open>\<open>in_cidr\<close> is membership of an address in a set of prefixes, of the address library.\<close>

definition check_floatingip_external_address ::
  "(string \<Rightarrow> string list \<Rightarrow> bool) \<Rightarrow> string option \<Rightarrow> string option \<Rightarrow> string \<Rightarrow> ext_db \<Rightarrow> fabric_error + unit" where
  "check_floatingip_external_address in_cidr sub address net xdb =
     (if truthy sub then
        let d = get_subnet_extn_db (the sub) xdb
        in bindE (guardE (sd_snat_host_pool d \<noteq> Some True) SnatPoolCannotBeUsedForFloatingIp) (\<lambda>_.
           guardE (sd_router_gw_ip_pool d \<noteq> Some True) RouterGWIPPoolCannotBeUsedForFloatingIp)
      else if truthy address then
        let cidrs = [subnet_cidr s. s \<leftarrow> nt_subnets (xd_neutron xdb), x \<leftarrow> xd_subnets xdb,
              sx_subnet_id x = subnet_id s \<and> subnet_network_id s = net \<and>
              (sx_snat_host_pool x = Some True \<or> sx_router_gw_ip_pool x = Some True)]
        in guardE (\<not> in_cidr (the address) cidrs) SnatPoolCannotBeUsedForFloatingIp
      else Inr ())"

definition get_subnets_for_fip :: "string \<Rightarrow> ext_db \<Rightarrow> string list" where
  "get_subnets_for_fip net xdb =
     [subnet_id s. s \<leftarrow> nt_subnets (xd_neutron xdb), subnet_network_id s = net,
        b \<leftarrow> (case filter (\<lambda>x. sx_subnet_id x = subnet_id s) (xd_subnets xdb) of
               [] \<Rightarrow> [None] | xs \<Rightarrow> map sx_snat_host_pool xs), b \<noteq> Some True]"

end
