(* ===== verification/Dist_Snat_Laws.thy ===== *)
theory Dist_Snat_Laws
  imports Dist_Snat
begin

text \<open>
  What the reservation of port ranges guarantees: the search ends for a positive size and finds the
  first free block; alone, a transaction keeps the ranges of an address disjoint; against any
  transactions of other controllers that follow the same rules, the attempts keep the ranges
  aligned and disjoint and fail only when every block is taken; and a host keeps its range.
\<close>

section \<open>The search\<close>

lemma free_block_stop: "\<not> c + sz - 1 \<le> e \<Longrightarrow> free_block sz e used c = Some None"
  by (subst free_block.simps) simp

lemma free_block_free:
  "c + sz - 1 \<le> e \<Longrightarrow> \<not> list_ex (overlaps c (c + sz - 1)) used \<Longrightarrow> free_block sz e used c = Some (Some c)"
  by (subst free_block.simps) simp

lemma free_block_next:
  "c + sz - 1 \<le> e \<Longrightarrow> list_ex (overlaps c (c + sz - 1)) used \<Longrightarrow>
   free_block sz e used c = free_block sz e used (c + sz)"
  by (subst free_block.simps) simp

text \<open>The block with index \<open>k\<close>.\<close>

definition block_free :: "int \<Rightarrow> int \<Rightarrow> int \<Rightarrow> snat_mapping list \<Rightarrow> nat \<Rightarrow> bool" where
  "block_free sz e c used k \<longleftrightarrow> c + int k * sz + sz - 1 \<le> e \<and>
     \<not> list_ex (overlaps (c + int k * sz) (c + int k * sz + sz - 1)) used"

lemma free_block_first:
  assumes "0 < sz"
  shows "\<exists>r. free_block sz e used c = Some r \<and>
    (case r of None \<Rightarrow> \<forall>k. \<not> block_free sz e c used k
     | Some x \<Rightarrow> \<exists>k. x = c + int k * sz \<and> block_free sz e c used k \<and> (\<forall>j < k. \<not> block_free sz e c used j))"
proof (induction "nat (e - c + 1)" arbitrary: c rule: less_induct)
  case less
  show ?case
  proof (cases "c + sz - 1 \<le> e")
    case False
    then have "\<not> c + int k * sz + sz - 1 \<le> e" for k
      using assms by (smt (verit) mult_nonneg_nonneg of_nat_0_le_iff)
    then show ?thesis using free_block_stop[OF False] by (auto simp: block_free_def)
  next
    case True
    show ?thesis
    proof (cases "list_ex (overlaps c (c + sz - 1)) used")
      case False
      then show ?thesis using free_block_free[OF True False] True
        by (auto simp: block_free_def intro!: exI[of _ "0::nat"])
    next
      case taken: True
      have shift: "block_free sz e c used (Suc k) = block_free sz e (c + sz) used k" for k
        by (simp add: block_free_def algebra_simps)
      have zero: "\<not> block_free sz e c used 0" using taken by (simp add: block_free_def)
      have "nat (e - (c + sz) + 1) < nat (e - c + 1)" using True assms by simp
      from less[OF this] obtain r where r: "free_block sz e used (c + sz) = Some r"
        and p: "case r of None \<Rightarrow> \<forall>k. \<not> block_free sz e (c + sz) used k
          | Some x \<Rightarrow> \<exists>k. x = c + sz + int k * sz \<and> block_free sz e (c + sz) used k \<and>
              (\<forall>j < k. \<not> block_free sz e (c + sz) used j)" by blast
      show ?thesis
      proof (cases r)
        case None
        have "\<not> block_free sz e c used k" for k
          using p None zero shift by (cases k) auto
        with None r free_block_next[OF True taken] show ?thesis by simp
      next
        case (Some x)
        with p obtain k where k: "x = c + sz + int k * sz" "block_free sz e (c + sz) used k"
          "\<forall>j < k. \<not> block_free sz e (c + sz) used j" by auto
        have "\<not> block_free sz e c used j" if "j < Suc k" for j
          using that k(3) zero shift by (cases j) auto
        with k Some r free_block_next[OF True taken] shift show ?thesis
          by (auto simp: algebra_simps intro!: exI[of _ "Suc k"])
      qed
    qed
  qed
qed

section \<open>One transaction\<close>

text \<open>The ranges of the gateway's address, and tables in which those of one address are disjoint.\<close>

definition ranges :: "gw_info \<Rightarrow> snat_mapping list \<Rightarrow> snat_mapping list" where
  "ranges gw t = filter (\<lambda>m. sm_snat_ip m = gw_snat_ip gw \<and> sm_subnet_id m = gw_snat_subnet_id gw) t"

lemma used_ranges: "get_dist_snat_mappings (Some (gw_snat_ip gw)) None None (Some (gw_snat_subnet_id gw)) None t = ranges gw t"
  unfolding get_dist_snat_mappings_def ranges_def by (rule filter_cong) (auto simp: snat_query_def by_opt_def)

definition held :: "gw_info \<Rightarrow> string \<Rightarrow> string \<Rightarrow> snat_mapping list \<Rightarrow> snat_mapping list" where
  "held gw host port t = filter (\<lambda>m. sm_host_name m = host \<and> sm_service_port_id m = Some port) (ranges gw t)"

lemma existing_held:
  "get_dist_snat_mappings (Some (gw_snat_ip gw)) (Some host) None (Some (gw_snat_subnet_id gw)) (Some port) t = held gw host port t"
  unfolding get_dist_snat_mappings_def ranges_def held_def filter_filter
  by (rule filter_cong) (auto simp: snat_query_def by_opt_def)

definition new_range :: "gw_info \<Rightarrow> string \<Rightarrow> string \<Rightarrow> int \<Rightarrow> int \<Rightarrow> snat_mapping" where
  "new_range gw host port c sz = \<lparr> sm_snat_ip = gw_snat_ip gw, sm_subnet_id = gw_snat_subnet_id gw,
     sm_start_port = c, sm_host_name = host, sm_end_port = c + sz - 1, sm_service_port_id = Some port \<rparr>"

text \<open>The configuration of the gateway.\<close>

definition configured :: "gw_info \<Rightarrow> int \<Rightarrow> int \<Rightarrow> int \<Rightarrow> bool" where
  "configured gw start end_port sz \<longleftrightarrow>
     gw_start_port gw = Some start \<and> gw_end_port gw = Some end_port \<and> gw_alloc_size gw = Some sz \<and> 0 < sz"

text \<open>A range is not empty.\<close>

definition proper_ranges :: "gw_info \<Rightarrow> snat_mapping list \<Rightarrow> bool" where
  "proper_ranges gw t \<longleftrightarrow> (\<forall>m \<in> set (ranges gw t). sm_start_port m \<le> sm_end_port m)"

lemma free_key:
  assumes "proper_ranges gw t" and "0 < sz" and "\<not> list_ex (overlaps c (c + sz - 1)) (ranges gw t)"
  shows "find (snat_key (gw_snat_ip gw) (gw_snat_subnet_id gw) c) t = None"
proof -
  have "\<not> snat_key (gw_snat_ip gw) (gw_snat_subnet_id gw) c m" if "m \<in> set t" for m
    using assms that by (auto simp: proper_ranges_def ranges_def overlaps_def list_ex_iff)
  then show ?thesis by (simp add: find_None_iff2)
qed

text \<open>A transaction with a configured gateway returns the host's range, a new block or nothing.\<close>

lemma reserve_cases:
  assumes "configured gw start end_port sz" and "proper_ranges gw t"
  shows "(held gw host port t \<noteq> [] \<and>
      reserve_dist_snat_port_range gw host port others t = Some (Inr (lowest (held gw host port t)), others t)) \<or>
    (held gw host port t = [] \<and> (\<forall>k. \<not> block_free sz end_port start (ranges gw t) k) \<and>
      reserve_dist_snat_port_range gw host port others t = Some (Inr None, others t)) \<or>
    (\<exists>k. held gw host port t = [] \<and> block_free sz end_port start (ranges gw t) k \<and>
      (let m = new_range gw host port (start + int k * sz) sz
       in reserve_dist_snat_port_range gw host port others t =
         (case flush_mapping m (others t) of Inl e \<Rightarrow> Some (Inl e, others t) | Inr t' \<Rightarrow> Some (Inr (Some m), t'))))"
proof (cases "held gw host port t = []")
  case False
  then show ?thesis by (simp add: reserve_dist_snat_port_range_def existing_held)
next
  case True
  from assms(1) have sz: "0 < sz" by (simp add: configured_def)
  note r = reserve_dist_snat_port_range_def[of gw host port others t, unfolded existing_held used_ranges Let_def]
  from free_block_first[OF sz, of end_port "ranges gw t" start] obtain x where
    x: "free_block sz end_port (ranges gw t) start = Some x"
    and p: "case x of None \<Rightarrow> \<forall>k. \<not> block_free sz end_port start (ranges gw t) k
      | Some c \<Rightarrow> \<exists>k. c = start + int k * sz \<and> block_free sz end_port start (ranges gw t) k \<and>
          (\<forall>j < k. \<not> block_free sz end_port start (ranges gw t) j)" by blast
  show ?thesis
  proof (cases x)
    case None
    with p x True assms(1) show ?thesis by (simp add: r configured_def)
  next
    case (Some c)
    with p obtain k where k: "c = start + int k * sz" "block_free sz end_port start (ranges gw t) k" by auto
    then have "find (snat_key (gw_snat_ip gw) (gw_snat_subnet_id gw) c) t = None"
      by (intro free_key[OF assms(2) sz]) (simp add: block_free_def)
    then have "set_dist_snat_mapping (gw_snat_ip gw) host c (c + sz - 1) (gw_snat_subnet_id gw) (Some port) t =
        Inr (new_range gw host port c sz, t @ [new_range gw host port c sz])"
      by (simp add: set_dist_snat_mapping_def new_range_def Let_def)
    with Some x True assms(1)
    have "reserve_dist_snat_port_range gw host port others t =
        (case flush_mapping (new_range gw host port c sz) (others t) of
           Inl e \<Rightarrow> Some (Inl e, others t) | Inr t' \<Rightarrow> Some (Inr (Some (new_range gw host port c sz)), t'))"
      by (simp add: r configured_def)
    with True k show ?thesis unfolding Let_def by blast
  qed
qed

definition disjoint_ranges :: "snat_mapping list \<Rightarrow> bool" where
  "disjoint_ranges t \<longleftrightarrow>
     distinct (map (\<lambda>m. (sm_snat_ip m, sm_subnet_id m, sm_start_port m)) t) \<and>
     (\<forall>m \<in> set t. sm_start_port m \<le> sm_end_port m) \<and>
     (\<forall>m \<in> set t. \<forall>n \<in> set t. sm_snat_ip m = sm_snat_ip n \<longrightarrow> sm_subnet_id m = sm_subnet_id n \<longrightarrow> m \<noteq> n \<longrightarrow>
        sm_end_port m < sm_start_port n \<or> sm_end_port n < sm_start_port m)"

lemma disjoint_proper: "disjoint_ranges t \<Longrightarrow> proper_ranges gw t"
  by (auto simp: disjoint_ranges_def proper_ranges_def ranges_def)

lemma lowest_in: "ms \<noteq> [] \<Longrightarrow> \<exists>m \<in> set ms. lowest ms = Some m"
proof (induction ms)
  case (Cons m ms)
  show ?case
  proof (cases "ms = []")
    case False
    with Cons.IH obtain n where "n \<in> set ms" "lowest ms = Some n" by blast
    then show ?thesis by simp
  qed simp
qed simp

lemma held_in: "m \<in> set (held gw host port t) \<Longrightarrow> m \<in> set t \<and> sm_host_name m = host \<and> m \<in> set (ranges gw t)"
  by (auto simp: held_def ranges_def)

lemma disjoint_add:
  assumes "disjoint_ranges t" and "block_free sz end_port start (ranges gw t) k" and "0 < sz"
  shows "disjoint_ranges (t @ [new_range gw host port (start + int k * sz) sz])"
proof -
  let ?m = "new_range gw host port (start + int k * sz) sz"
  have apart: "sm_end_port ?m < sm_start_port n \<or> sm_end_port n < sm_start_port ?m"
    if "n \<in> set t" "sm_snat_ip n = gw_snat_ip gw" "sm_subnet_id n = gw_snat_subnet_id gw" for n
    using assms(2) that by (force simp: block_free_def list_ex_iff ranges_def overlaps_def new_range_def)
  have "sm_start_port n \<noteq> start + int k * sz"
    if n: "n \<in> set t" "sm_snat_ip n = gw_snat_ip gw" "sm_subnet_id n = gw_snat_subnet_id gw" for n
  proof -
    have "sm_start_port n \<le> sm_end_port n" using n(1) assms(1) by (simp add: disjoint_ranges_def)
    with apart[OF n] assms(3) show ?thesis by (auto simp: new_range_def)
  qed
  then have "(sm_snat_ip n, sm_subnet_id n, sm_start_port n) \<noteq> (gw_snat_ip gw, gw_snat_subnet_id gw, start + int k * sz)"
    if "n \<in> set t" for n using that by blast
  then have "(gw_snat_ip gw, gw_snat_subnet_id gw, start + int k * sz) \<notin>
      set (map (\<lambda>m. (sm_snat_ip m, sm_subnet_id m, sm_start_port m)) t)" by fastforce
  with apart assms(1,3) show ?thesis
    unfolding disjoint_ranges_def by (auto simp: new_range_def)
qed

text \<open>C38: With a start port, an end port and an allocation size configured, a transaction that no other
  one interferes with keeps the ranges of every address disjoint, whatever sizes they have, if they
  were so before; and the range that it returns is one of the host in the table, either one that was
  there or a new one of the configured size within the configured ports.\<close>

theorem reservation_disjoint:
  assumes "configured gw start end_port sz" and "disjoint_ranges t"
    and "reserve_dist_snat_port_range gw host port (\<lambda>t. t) t = Some (Inr (Some m), t')"
  shows "disjoint_ranges t' \<and> m \<in> set t' \<and> sm_host_name m = host \<and>
    (m \<in> set t \<or> t' = t @ [m] \<and> start \<le> sm_start_port m \<and> sm_end_port m = sm_start_port m + sz - 1 \<and>
      sm_end_port m \<le> end_port)"
proof -
  have sz: "0 < sz" using assms(1) by (simp add: configured_def)
  from reserve_cases[OF assms(1) disjoint_proper[OF assms(2)], of host port "\<lambda>t. t"] assms(3)
  consider "held gw host port t \<noteq> []" "lowest (held gw host port t) = Some m" "t' = t"
    | k where "block_free sz end_port start (ranges gw t) k" "m = new_range gw host port (start + int k * sz) sz"
      "t' = t @ [m]"
    by (auto simp: Let_def flush_mapping_def split: if_splits)
  then show ?thesis
  proof cases
    case 1
    with lowest_in[OF 1(1)] show ?thesis using assms(2) by (auto dest: held_in)
  next
    case 2
    have "disjoint_ranges t'" unfolding 2(3) 2(2) by (rule disjoint_add[OF assms(2) 2(1) sz])
    with 2 sz show ?thesis by (simp add: new_range_def block_free_def)
  qed
qed

section \<open>Competing transactions\<close>

text \<open>
  Every range of the address is a block.  What a controller may do to the table meanwhile (the rely
  of a transaction): keep the ranges disjoint and aligned, and remove none.
\<close>

definition aligned :: "gw_info \<Rightarrow> int \<Rightarrow> int \<Rightarrow> snat_mapping list \<Rightarrow> bool" where
  "aligned gw start sz t \<longleftrightarrow> (\<forall>m \<in> set (ranges gw t).
     \<exists>k :: nat. sm_start_port m = start + int k * sz \<and> sm_end_port m = start + int k * sz + sz - 1)"

definition well_reserved :: "gw_info \<Rightarrow> int \<Rightarrow> int \<Rightarrow> snat_mapping list \<Rightarrow> bool" where
  "well_reserved gw start sz t \<longleftrightarrow> disjoint_ranges t \<and> aligned gw start sz t"

definition reserves_only :: "gw_info \<Rightarrow> int \<Rightarrow> int \<Rightarrow> (snat_mapping list \<Rightarrow> snat_mapping list) \<Rightarrow> bool" where
  "reserves_only gw start sz f \<longleftrightarrow>
     (\<forall>t. well_reserved gw start sz t \<longrightarrow> well_reserved gw start sz (f t) \<and> set t \<subseteq> set (f t))"

lemma reserves_onlyD:
  "reserves_only gw start sz f \<Longrightarrow> well_reserved gw start sz t \<Longrightarrow> well_reserved gw start sz (f t) \<and> set t \<subseteq> set (f t)"
  by (simp add: reserves_only_def)

text \<open>In an aligned table two blocks are equal or apart, so a block is free when no range starts with it.\<close>

lemma blocks_apart:
  fixes j k :: nat and sz start :: int
  assumes "0 < sz" and "start + int j * sz \<le> start + int k * sz + sz - 1"
    and "start + int k * sz \<le> start + int j * sz + sz - 1"
  shows "j = k"
proof -
  from assms have "int j * sz < (int k + 1) * sz" "int k * sz < (int j + 1) * sz" by (simp_all add: algebra_simps)
  with assms(1) have "int j < int k + 1" "int k < int j + 1" by (simp_all add: mult_less_cancel_right)
  then show ?thesis by simp
qed

lemma aligned_free:
  assumes "aligned gw start sz t" and "0 < sz" and "start + int k * sz + sz - 1 \<le> end_port"
  shows "block_free sz end_port start (ranges gw t) k \<longleftrightarrow> (\<forall>m \<in> set (ranges gw t). sm_start_port m \<noteq> start + int k * sz)"
proof
  assume "block_free sz end_port start (ranges gw t) k"
  then have none: "\<not> list_ex (overlaps (start + int k * sz) (start + int k * sz + sz - 1)) (ranges gw t)"
    by (simp add: block_free_def)
  show "\<forall>m \<in> set (ranges gw t). sm_start_port m \<noteq> start + int k * sz"
  proof
    fix m assume m: "m \<in> set (ranges gw t)"
    with assms(1) have "sm_end_port m = sm_start_port m + sz - 1" by (auto simp: aligned_def)
    with none m assms(2) show "sm_start_port m \<noteq> start + int k * sz"
      by (auto simp: list_ex_iff overlaps_def)
  qed
next
  assume other: "\<forall>m \<in> set (ranges gw t). sm_start_port m \<noteq> start + int k * sz"
  have "\<not> overlaps (start + int k * sz) (start + int k * sz + sz - 1) m" if m: "m \<in> set (ranges gw t)" for m
  proof -
    from assms(1) m obtain j :: nat where j: "sm_start_port m = start + int j * sz"
      "sm_end_port m = start + int j * sz + sz - 1" by (auto simp: aligned_def)
    with other m have "j \<noteq> k" by blast
    with blocks_apart[OF assms(2), of start j k] j show ?thesis by (auto simp: overlaps_def)
  qed
  with assms(3) show "block_free sz end_port start (ranges gw t) k" by (simp add: block_free_def list_ex_iff)
qed

lemma ranges_mono: "set t \<subseteq> set u \<Longrightarrow> set (ranges gw t) \<subseteq> set (ranges gw u)"
  by (auto simp: ranges_def)

lemma block_free_antimono:
  "set t \<subseteq> set u \<Longrightarrow> block_free sz e c (ranges gw u) k \<Longrightarrow> block_free sz e c (ranges gw t) k"
  using ranges_mono[of t u gw] by (auto simp: block_free_def list_ex_iff)

definition free_blocks :: "gw_info \<Rightarrow> int \<Rightarrow> int \<Rightarrow> int \<Rightarrow> snat_mapping list \<Rightarrow> nat set" where
  "free_blocks gw start end_port sz t = {k. block_free sz end_port start (ranges gw t) k}"

lemma free_blocks_bound:
  assumes "0 < sz"
  shows "free_blocks gw start end_port sz t \<subseteq> {k. k < nat ((end_port - start + 1) div sz)}"
proof
  fix k assume "k \<in> free_blocks gw start end_port sz t"
  then have "(int k + 1) * sz \<le> end_port - start + 1"
    by (simp add: free_blocks_def block_free_def algebra_simps)
  then have "(int k + 1) * sz div sz \<le> (end_port - start + 1) div sz" using assms by (intro zdiv_mono1)
  then show "k \<in> {k. k < nat ((end_port - start + 1) div sz)}" using assms by simp
qed

lemma free_blocks_finite: "0 < sz \<Longrightarrow> finite (free_blocks gw start end_port sz t)"
  by (rule finite_subset[OF free_blocks_bound]) auto

lemma no_free_blocks:
  "free_blocks gw start end_port sz t = {} \<longleftrightarrow> (\<forall>k. \<not> block_free sz end_port start (ranges gw t) k)"
  by (simp add: free_blocks_def)

lemma ranges_add: "set (ranges gw (t @ [new_range gw host port c sz])) = insert (new_range gw host port c sz) (set (ranges gw t))"
  by (simp add: ranges_def new_range_def)

lemma well_reserved_add:
  assumes "well_reserved gw start sz t" and "block_free sz end_port start (ranges gw t) k" and "0 < sz"
  shows "well_reserved gw start sz (t @ [new_range gw host port (start + int k * sz) sz])"
  using assms disjoint_add[OF _ assms(2,3)] unfolding well_reserved_def aligned_def ranges_add
  by (auto simp: new_range_def)

text \<open>What one transaction does: it never loops, and it fails only when the block it chose was taken meanwhile.\<close>

lemma reserve_step:
  assumes cfg: "configured gw start end_port sz" and t: "well_reserved gw start sz t" and f: "reserves_only gw start sz others"
  shows "\<exists>r t'. reserve_dist_snat_port_range gw host port others t = Some (r, t') \<and>
    well_reserved gw start sz t' \<and> set t \<subseteq> set t' \<and>
    (case r of
       Inl e \<Rightarrow> e = DBDuplicateEntry \<and> free_blocks gw start end_port sz t' \<subset> free_blocks gw start end_port sz t
     | Inr None \<Rightarrow> free_blocks gw start end_port sz t' = {}
     | Inr (Some m) \<Rightarrow> m \<in> set (ranges gw t') \<and> sm_host_name m = host)"
proof -
  let ?u = "others t"
  from t have dt: "disjoint_ranges t" by (simp add: well_reserved_def)
  from cfg have sz: "0 < sz" by (simp add: configured_def)
  from reserves_onlyD[OF f t] have u: "well_reserved gw start sz ?u" "set t \<subseteq> set ?u" by auto
  have fewer: "free_blocks gw start end_port sz ?u \<subseteq> free_blocks gw start end_port sz t"
    using block_free_antimono[OF u(2)] by (auto simp: free_blocks_def)
  from reserve_cases[OF cfg disjoint_proper[OF dt], of host port others]
  consider (held) "held gw host port t \<noteq> []"
      "reserve_dist_snat_port_range gw host port others t = Some (Inr (lowest (held gw host port t)), ?u)"
    | (full) "\<forall>k. \<not> block_free sz end_port start (ranges gw t) k"
      "reserve_dist_snat_port_range gw host port others t = Some (Inr None, ?u)"
    | (new) k where "block_free sz end_port start (ranges gw t) k"
      "reserve_dist_snat_port_range gw host port others t =
         (case flush_mapping (new_range gw host port (start + int k * sz) sz) ?u of
            Inl e \<Rightarrow> Some (Inl e, ?u) | Inr t' \<Rightarrow> Some (Inr (Some (new_range gw host port (start + int k * sz) sz)), t'))"
    unfolding Let_def by blast
  then show ?thesis
  proof cases
    case held
    from lowest_in[OF held(1)] obtain m where m: "m \<in> set (held gw host port t)" "lowest (held gw host port t) = Some m"
      by blast
    with held_in[OF m(1)] u held(2) ranges_mono[OF u(2), of gw] show ?thesis by auto
  next
    case full
    then have "free_blocks gw start end_port sz ?u = {}" using fewer by (auto simp: free_blocks_def)
    with full(2) u show ?thesis by auto
  next
    case new
    let ?m = "new_range gw host port (start + int k * sz) sz"
    have inside: "start + int k * sz + sz - 1 \<le> end_port" using new(1) by (simp add: block_free_def)
    have au: "aligned gw start sz ?u" using u(1) by (simp add: well_reserved_def)
    note free = aligned_free[OF au sz inside]
    show ?thesis
    proof (cases "list_ex (snat_key (sm_snat_ip ?m) (sm_subnet_id ?m) (sm_start_port ?m)) ?u")
      case True
      then have "\<not> block_free sz end_port start (ranges gw ?u) k"
        unfolding free by (auto simp: list_ex_iff new_range_def ranges_def)
      with new(1) fewer have "free_blocks gw start end_port sz ?u \<subset> free_blocks gw start end_port sz t"
        by (auto simp: free_blocks_def)
      with True new(2) u show ?thesis by (simp add: flush_mapping_def)
    next
      case False
      then have "block_free sz end_port start (ranges gw ?u) k"
        unfolding free by (auto simp: list_ex_iff new_range_def ranges_def)
      from well_reserved_add[OF u(1) this sz] False new(2) u(2) show ?thesis
        by (auto simp: flush_mapping_def new_range_def ranges_def)
    qed
  qed
qed

text \<open>A transaction is itself what the others may rely on.\<close>

lemma reserve_guarantee:
  assumes "configured gw start end_port sz"
  shows "reserves_only gw start sz (\<lambda>t. snd (the (reserve_dist_snat_port_range gw host port (\<lambda>t. t) t)))"
  unfolding reserves_only_def
proof (intro allI impI)
  fix t assume t: "well_reserved gw start sz t"
  have "reserves_only gw start sz (\<lambda>t. t)" by (simp add: reserves_only_def)
  from reserve_step[OF assms t this, of host port] obtain r t' where
    "reserve_dist_snat_port_range gw host port (\<lambda>t. t) t = Some (r, t')" "well_reserved gw start sz t'" "set t \<subseteq> set t'"
    by blast
  then show "well_reserved gw start sz (snd (the (reserve_dist_snat_port_range gw host port (\<lambda>t. t) t))) \<and>
      set t \<subseteq> set (snd (the (reserve_dist_snat_port_range gw host port (\<lambda>t. t) t)))" by simp
qed

lemma attempts_settle:
  assumes "configured gw start end_port sz" and "\<forall>k. reserves_only gw start sz (others k)"
    and "well_reserved gw start sz t" and "card (free_blocks gw start end_port sz t) \<le> n"
  shows "\<exists>r t'. attempt_ranges gw host port others n t = Some (Inr r, t') \<and>
    well_reserved gw start sz t' \<and> set t \<subseteq> set t' \<and>
    (case r of None \<Rightarrow> free_blocks gw start end_port sz t' = {} | Some m \<Rightarrow> m \<in> set (ranges gw t') \<and> sm_host_name m = host)"
  using assms(3,4)
proof (induction n arbitrary: t)
  case 0
  have "0 < sz" using assms(1) by (simp add: configured_def)
  with 0 free_blocks_finite[of sz gw start end_port t] show ?case by auto
next
  case (Suc n)
  have sz: "0 < sz" using assms(1) by (simp add: configured_def)
  from reserve_step[OF assms(1) Suc.prems(1), of "others n" host port] assms(2) obtain r t' where
    r: "reserve_dist_snat_port_range gw host port (others n) t = Some (r, t')"
    and t': "well_reserved gw start sz t'" "set t \<subseteq> set t'"
    and p: "case r of
       Inl e \<Rightarrow> e = DBDuplicateEntry \<and> free_blocks gw start end_port sz t' \<subset> free_blocks gw start end_port sz t
     | Inr None \<Rightarrow> free_blocks gw start end_port sz t' = {}
     | Inr (Some m) \<Rightarrow> m \<in> set (ranges gw t') \<and> sm_host_name m = host" by blast
  show ?case
  proof (cases r)
    case (Inl e)
    with p have "e = DBDuplicateEntry" "free_blocks gw start end_port sz t' \<subset> free_blocks gw start end_port sz t" by auto
    moreover from this(2) have "card (free_blocks gw start end_port sz t') < card (free_blocks gw start end_port sz t)"
      by (intro psubset_card_mono free_blocks_finite sz)
    ultimately show ?thesis using Suc.IH[OF t'(1)] Suc.prems(2) t'(2) r Inl by fastforce
  next
    case (Inr m)
    with p t' r show ?thesis by (auto split: option.splits)
  qed
qed

lemma configured_count: "configured gw start end_port sz \<Longrightarrow> dist_snat_port_range_count gw = Inr ((end_port - start + 1) div sz)"
  by (auto simp: configured_def dist_snat_port_range_count_def)

lemma get_or_allocate_attempts:
  "configured gw start end_port sz \<Longrightarrow>
   get_or_allocate_dist_snat_port_range gw host port others t =
     attempt_ranges gw host port others (nat ((end_port - start + 1) div sz)) t"
  by (simp add: get_or_allocate_dist_snat_port_range_def configured_count)

text \<open>C17: Whatever other controllers reserve meanwhile in the table of port ranges, the allocation for
  a host returns, raises nothing, and keeps the ranges of every address disjoint and on block
  boundaries: it ends with a range of the host for the gateway's address in the table, or else every block of the configured
  ports is taken, so the number of attempts is always enough.\<close>

theorem allocation_settles:
  assumes "configured gw start end_port sz" and "well_reserved gw start sz t"
    and "\<forall>k. reserves_only gw start sz (others k)"
  shows "\<exists>r t'. get_or_allocate_dist_snat_port_range gw host port others t = Some (Inr r, t') \<and>
    well_reserved gw start sz t' \<and> set t \<subseteq> set t' \<and>
    (case r of
       Some m \<Rightarrow> m \<in> set (ranges gw t') \<and> sm_host_name m = host
     | None \<Rightarrow> \<forall>k. \<not> block_free sz end_port start (ranges gw t') k)"
proof -
  have "0 < sz" using assms(1) by (simp add: configured_def)
  from card_mono[OF _ free_blocks_bound[OF this]]
  have "card (free_blocks gw start end_port sz t) \<le> nat ((end_port - start + 1) div sz)" by simp
  from attempts_settle[OF assms(1,3,2) this, of host port] show ?thesis
    unfolding get_or_allocate_attempts[OF assms(1)] no_free_blocks .
qed

definition demo_gw :: gw_info where
  "demo_gw = \<lparr> gw_snat_ip = ''172.16.0.5'', gw_host_snat_mac = ''fa'', gw_gateway_ip = Some ''172.16.0.1'', gw_prefixlen = 24,
     gw_snat_subnet_id = ''sub'', gw_service_network_id = ''svc'', gw_start_port = Some 1000, gw_end_port = Some 1029,
     gw_alloc_size = Some 10, gw_service_vrf = None \<rparr>"

lemma demo_configured: "configured demo_gw 1000 1029 10"
  by (simp add: configured_def demo_gw_def)

lemma empty_well_reserved: "well_reserved gw start sz []"
  by (simp add: well_reserved_def disjoint_ranges_def aligned_def ranges_def)

lemma empty_disjoint: "disjoint_ranges []"
  by (simp add: disjoint_ranges_def)

lemma demo_reserve:
  "reserve_dist_snat_port_range demo_gw ''h1'' ''p1'' (\<lambda>t. t) [] =
     Some (Inr (Some (new_range demo_gw ''h1'' ''p1'' 1000 10)), [new_range demo_gw ''h1'' ''p1'' 1000 10])"
  by (simp add: reserve_dist_snat_port_range_def demo_gw_def get_dist_snat_mappings_def set_dist_snat_mapping_def
      flush_mapping_def free_block_free new_range_def Let_def)

lemma reservation_disjoint_witness:
  "sm_host_name (new_range demo_gw ''h1'' ''p1'' 1000 10) = ''h1'' \<and>
   disjoint_ranges [new_range demo_gw ''h1'' ''p1'' 1000 10]"
  using reservation_disjoint[OF demo_configured empty_disjoint demo_reserve] by blast

text \<open>Another host's transaction commits during each attempt.\<close>

lemma allocation_settles_witness:
  "\<exists>r t'. get_or_allocate_dist_snat_port_range demo_gw ''h1'' ''p1''
      (\<lambda>k t. snd (the (reserve_dist_snat_port_range demo_gw ''h2'' ''p2'' (\<lambda>t. t) t))) [] = Some (Inr r, t') \<and>
    well_reserved demo_gw 1000 10 t'"
  using allocation_settles[OF demo_configured empty_well_reserved, of
      "\<lambda>k t. snd (the (reserve_dist_snat_port_range demo_gw ''h2'' ''p2'' (\<lambda>t. t) t))" "''h1''" "''p1''"]
    reserve_guarantee[OF demo_configured, of "''h2''" "''p2''"] by blast

section \<open>Repetition and incomplete configuration\<close>

lemma held_add: "held gw host port (t @ [new_range gw host port c sz]) = held gw host port t @ [new_range gw host port c sz]"
  by (simp add: held_def ranges_def new_range_def)

text \<open>A host keeps its range: after an allocation for a host and its service port, a later
  transaction for the same pair returns the same range, whatever is committed during it, and adds
  nothing to the table.\<close>

theorem reservation_repeats:
  assumes "configured gw start end_port sz" and "disjoint_ranges t"
    and "reserve_dist_snat_port_range gw host port (\<lambda>t. t) t = Some (Inr (Some m), t')"
  shows "reserve_dist_snat_port_range gw host port others t' = Some (Inr (Some m), others t')"
proof -
  from reserve_cases[OF assms(1) disjoint_proper[OF assms(2)], of host port "\<lambda>t. t"] assms(3)
  consider "held gw host port t \<noteq> []" "lowest (held gw host port t) = Some m" "t' = t"
    | k where "held gw host port t = []" "m = new_range gw host port (start + int k * sz) sz" "t' = t @ [m]"
    by (auto simp: Let_def flush_mapping_def split: if_splits)
  then have "held gw host port t' \<noteq> [] \<and> lowest (held gw host port t') = Some m"
    by cases (simp_all add: held_add)
  then show ?thesis by (simp add: reserve_dist_snat_port_range_def existing_held)
qed

lemma reservation_repeats_witness:
  "reserve_dist_snat_port_range demo_gw ''h1'' ''p1'' (\<lambda>t. []) [new_range demo_gw ''h1'' ''p1'' 1000 10] =
     Some (Inr (Some (new_range demo_gw ''h1'' ''p1'' 1000 10)), [])"
  using reservation_repeats[OF demo_configured empty_disjoint demo_reserve] .

text \<open>The validation of a subnet accepts a distributed SNAT configuration that lacks its start
  port, or lacks its allocation size with a proper range of ports, and the allocation for a gateway
  with such a configuration then raises TypeError.\<close>

theorem incomplete_config_type_error:
  "validate_dist_snat_port_config (s\<lparr> sc_start_port := None \<rparr>) = Inr () \<and>
   validate_dist_snat_port_config
     \<lparr> sc_service_network = n, sc_start_port = Some (PortInt 1000), sc_end_port = Some (PortInt 2000), sc_alloc_size = None \<rparr> = Inr () \<and>
   get_or_allocate_dist_snat_port_range (gw\<lparr> gw_start_port := None \<rparr>) host port others t = Some (Inl TypeError, t) \<and>
   get_or_allocate_dist_snat_port_range (gw\<lparr> gw_alloc_size := None \<rparr>) host port others t = Some (Inl TypeError, t)"
  by (simp add: validate_dist_snat_port_config_def get_or_allocate_dist_snat_port_range_def
      dist_snat_port_range_count_def split: option.splits)

end
