(* ===== verification/Snat_Service_Laws.thy ===== *)
theory Snat_Service_Laws
  imports Snat_Service Dist_Snat_Laws Extension_Laws
begin

text \<open>
  The reply of a distributed SNAT request: its range is apart from those of the nodes it lists.
  The modes of subnets: the validation keeps one service network for an external network.  The
  deletion of SNAT ports and of a service port: failures do not stop the loop, and the ranges of a
  deleted service port are free again.
\<close>

section \<open>Service nodes\<close>

lemma unseen_rows_sub: "set (unseen_rows key seen xs) \<subseteq> set xs"
  by (induction key seen xs rule: unseen_rows.induct) auto

lemma unseen_rows_fresh: "x \<in> set (unseen_rows key seen xs) \<Longrightarrow> key x \<notin> set seen"
  by (induction key seen xs rule: unseen_rows.induct) (auto split: if_splits)

lemma unseen_rows_distinct: "distinct (map key (unseen_rows key seen xs))"
proof (induction key seen xs rule: unseen_rows.induct)
  case (2 key seen x xs)
  have "key y \<noteq> key x" if "y \<in> set (unseen_rows key (key x # seen) xs)" for y
    using unseen_rows_fresh[OF that] by simp
  then have "key x \<notin> key ` set (unseen_rows key (key x # seen) xs)" by force
  with 2 show ?case by simp
qed simp

lemma unseen_rows_sorted: "sorted (map f xs) \<Longrightarrow> sorted (map f (unseen_rows key seen xs))"
proof (induction key seen xs rule: unseen_rows.induct)
  case (2 key seen x xs)
  then have "\<forall>y \<in> set (unseen_rows key (key x # seen) xs). f x \<le> f y"
    using unseen_rows_sub[of key "key x # seen" xs] by auto
  with 2 show ?case by auto
qed simp

lemma node_of_mapping:
  assumes "n \<in> set (query_dist_snat_service_nodes ip sub host xdb)"
  shows "\<exists>m \<in> set (xd_snat_mappings xdb). sm_snat_ip m = ip \<and> sm_subnet_id m = sub \<and> sm_host_name m = no_host n \<and>
    no_host n \<noteq> host \<and> sm_start_port m = no_start_port n \<and> sm_end_port m = no_end_port n"
proof -
  from assms obtain r where r: "r \<in> set (node_rows ip sub host xdb)" "n = make_node r"
    using unseen_rows_sub[of node_key "[]" "sort_key (\<lambda>(m, p, a). sm_start_port m) (node_rows ip sub host xdb)"]
    unfolding query_dist_snat_service_nodes_def by auto
  obtain m p a where [simp]: "r = (m, p, a)" by (cases r) auto
  from r have "m \<in> set (xd_snat_mappings xdb) \<and> sm_snat_ip m = ip \<and> sm_subnet_id m = sub \<and> sm_host_name m \<noteq> host"
    by (auto simp: node_rows_def)
  with r show ?thesis by (auto simp: make_node_def)
qed

lemma nodes_sorted: "sorted (map no_start_port (query_dist_snat_service_nodes ip sub host xdb))"
proof -
  have "no_start_port (make_node r) = (\<lambda>(m, p, a). sm_start_port m) r" for r
    by (cases r) (simp add: make_node_def)
  then show ?thesis
    unfolding query_dist_snat_service_nodes_def map_map comp_def
    by (simp only:) (rule unseen_rows_sorted, simp)
qed

lemma nodes_distinct:
  "distinct (map (\<lambda>n. (no_host n, no_start_port n, no_end_port n)) (query_dist_snat_service_nodes ip sub host xdb))"
proof -
  have "(no_host (make_node r), no_start_port (make_node r), no_end_port (make_node r)) = node_key r" for r
    by (cases r) (simp add: make_node_def node_key_def)
  then show ?thesis
    unfolding query_dist_snat_service_nodes_def map_map comp_def by (simp add: unseen_rows_distinct)
qed

definition apart :: "int \<Rightarrow> int \<Rightarrow> service_node \<Rightarrow> bool" where
  "apart lo hi n \<longleftrightarrow> hi < no_start_port n \<or> no_end_port n < lo"

lemma nodes_apart:
  assumes "disjoint_ranges (xd_snat_mappings xdb)" and "m \<in> set (ranges gw (xd_snat_mappings xdb))" and "sm_host_name m = host"
    and "n \<in> set (query_dist_snat_service_nodes (gw_snat_ip gw) (gw_snat_subnet_id gw) host xdb)"
  shows "no_host n \<noteq> host \<and> apart (sm_start_port m) (sm_end_port m) n"
proof -
  from node_of_mapping[OF assms(4)] obtain q where q: "q \<in> set (xd_snat_mappings xdb)"
    "sm_snat_ip q = gw_snat_ip gw" "sm_subnet_id q = gw_snat_subnet_id gw" "sm_host_name q = no_host n" "no_host n \<noteq> host"
    "sm_start_port q = no_start_port n" "sm_end_port q = no_end_port n" by blast
  from assms(2) have m: "m \<in> set (xd_snat_mappings xdb)" "sm_snat_ip m = gw_snat_ip gw" "sm_subnet_id m = gw_snat_subnet_id gw"
    by (auto simp: ranges_def)
  from q(4,5) assms(3) have "m \<noteq> q" by auto
  with assms(1) m q(1,2,3) have "sm_end_port m < sm_start_port q \<or> sm_end_port q < sm_start_port m"
    unfolding disjoint_ranges_def by metis
  with q(5,6,7) show ?thesis by (simp add: apart_def)
qed

section \<open>The reply\<close>

text \<open>The core plugin does not touch the table of ranges when it creates a port.\<close>

definition keeps_ranges :: "core_plugin \<Rightarrow> bool" where
  "keeps_ranges core \<longleftrightarrow> (\<forall>r x. xd_snat_mappings (snd (core_create_port core r x)) = xd_snat_mappings x)"

lemma service_port_ranges:
  assumes "keeps_ranges core"
  shows "xd_snat_mappings (snd (get_or_create_dist_snat_service_port core host net tenant x)) = xd_snat_mappings x"
proof -
  have "xd_snat_mappings y = xd_snat_mappings x" if "core_create_port core r x = (o', y)" for r o' y
    using assms that unfolding keeps_ranges_def by (metis snd_conv)
  then show ?thesis
    by (auto simp: get_or_create_dist_snat_service_port_def split: option.splits prod.splits sum.splits list.splits)
qed

text \<open>C18: A distributed SNAT request for a properly configured gateway ends, whatever other hosts'
  requests reserve meanwhile; in the information it returns, the host's own range of ports is not
  empty, the host is not among the service nodes, the nodes are listed once each in the order of
  their ports, and the range of no node overlaps the host's range.\<close>

theorem dist_snat_reply_apart:
  assumes "query_dist_snat_gateway_info xdb ext_network routed = Inr (Some gw)"
    and "configured gw start end_port sz" and "well_reserved gw start sz (xd_snat_mappings xdb)"
    and "\<forall>k. reserves_only gw start sz (others k)" and "keeps_ranges core"
  shows "\<exists>r y. get_or_allocate_distributed_snat_ip core host ext_network tenant routed others xdb = Some (r, y) \<and>
    (\<forall>i. r = Inr (DistSnat i) \<longrightarrow>
       di_start_port i \<le> di_end_port i \<and> sorted (map no_start_port (di_service_nodes i)) \<and>
       distinct (map (\<lambda>n. (no_host n, no_start_port n, no_end_port n)) (di_service_nodes i)) \<and>
       (\<forall>n \<in> set (di_service_nodes i). no_host n \<noteq> host \<and> apart (di_start_port i) (di_end_port i) n))"
proof -
  obtain q x where p: "get_or_create_dist_snat_service_port core host (gw_service_network_id gw) tenant xdb = (q, x)"
    by (cases "get_or_create_dist_snat_service_port core host (gw_service_network_id gw) tenant xdb")
  with service_port_ranges[OF assms(5), of host "gw_service_network_id gw" tenant xdb]
  have same: "xd_snat_mappings x = xd_snat_mappings xdb" by simp
  note unf = get_or_allocate_distributed_snat_ip_def assms(1) p
  show ?thesis
  proof (cases "\<exists>s. q = Inr (Some s)")
    case False
    then show ?thesis by (auto simp: unf split: sum.splits option.splits)
  next
    case True
    then obtain s where s: "q = Inr (Some s)" by blast
    from allocation_settles[OF assms(2,3,4), of host "sp_id s"] same obtain m t where
      m: "get_or_allocate_dist_snat_port_range gw host (sp_id s) others (xd_snat_mappings x) = Some (Inr m, t)"
      and t: "well_reserved gw start sz t"
      and held: "m = Some m' \<Longrightarrow> m' \<in> set (ranges gw t) \<and> sm_host_name m' = host" for m'
      by (auto split: option.splits)
    show ?thesis
    proof (cases m)
      case None
      then show ?thesis by (auto simp: unf s m Let_def split: sum.splits prod.splits)
    next
      case (Some m')
      let ?y = "x\<lparr> xd_snat_mappings := t \<rparr>"
      have d: "disjoint_ranges (xd_snat_mappings ?y)" using t by (simp add: well_reserved_def)
      have in_y: "m' \<in> set (ranges gw (xd_snat_mappings ?y))" "sm_host_name m' = host" using held[OF Some] by auto
      have "sm_start_port m' \<le> sm_end_port m'" using d in_y(1) by (auto simp: disjoint_ranges_def ranges_def)
      then show ?thesis
        using nodes_apart[OF d in_y]
        by (simp add: unf s m Some Let_def nodes_sorted nodes_distinct)
    qed
  qed
qed

section \<open>Modes of subnets\<close>

lemma snat_mode_valid:
  assumes "validate_subnet_snat_mode get_network xdb net sub pool sn op os = Inr ()" and "truthy sn"
  shows "\<not> pool \<and> (service_networks_of net sub xdb = [] \<or> the sn \<in> set (service_networks_of net sub xdb))"
  using assms
  by (auto simp: validate_subnet_snat_mode_def bindE_Inr_iff Let_def guardE_def
      validate_single_service_network_per_external_network_def split: if_splits option.splits)

text \<open>All subnets of a network that use distributed SNAT name the same service network.\<close>

definition one_service_network :: "string \<Rightarrow> ext_db \<Rightarrow> bool" where
  "one_service_network net xdb \<longleftrightarrow>
     (\<forall>a \<in> set (service_networks_of net [] xdb). \<forall>b \<in> set (service_networks_of net [] xdb). a = b)"

lemma service_networks_in:
  "a \<in> set (service_networks_of net sub xdb) \<longleftrightarrow>
   (\<exists>x \<in> set (xd_subnets xdb). \<exists>s \<in> set (nt_subnets (xd_neutron xdb)).
      subnet_id s = sx_subnet_id x \<and> subnet_network_id s = net \<and> truthy (sx_service_network_id x) \<and>
      (sub \<noteq> [] \<longrightarrow> subnet_id s \<noteq> sub) \<and> a = the (sx_service_network_id x))"
  by (auto simp: service_networks_of_def)

lemma written_subnets:
  assumes "set_subnet_extn_db sub q xdb = Inr xdb'" and "sq_service_network q = Some sn"
  shows "xd_neutron xdb' = xd_neutron xdb"
    and "x \<in> set (xd_subnets xdb') \<Longrightarrow> (sx_subnet_id x = sub \<and> sx_service_network_id x = sn) \<or>
      (sx_subnet_id x \<noteq> sub \<and> x \<in> set (xd_subnets xdb))"
  using assms
  by (auto simp: set_subnet_extn_db_def upsert_def write_subnet_ext_def new_subnet_ext_row_def upd_opt_def list_ex_iff
      split: if_splits)

text \<open>C20: All subnets of an external network that use distributed SNAT share one service network:
  when that holds and a request writes the extension of a subnet, it still holds whenever the
  validation accepts the subnet's mode afterwards, and the subnet is then not also an SNAT pool.\<close>

theorem service_network_invariant:
  assumes "one_service_network net xdb" and "sub \<noteq> []" and "set_subnet_extn_db sub q xdb = Inr xdb'"
    and "sq_service_network q = Some sn"
    and "validate_subnet_snat_mode get_network xdb' net sub pool sn op os = Inr ()"
  shows "one_service_network net xdb' \<and> \<not> (pool \<and> truthy sn)"
proof
  note w = written_subnets[OF assms(3,4)]
  have other: "a \<in> set (service_networks_of net [] xdb)" if "a \<in> set (service_networks_of net sub xdb')" for a
    using that w assms(2) unfolding service_networks_in by fastforce
  have own: "truthy sn \<and> a = the sn"
    if "a \<in> set (service_networks_of net [] xdb')" "a \<notin> set (service_networks_of net sub xdb')" for a
    using that w(2) assms(2) unfolding service_networks_in by fastforce
  have agree: "a = b"
    if "a \<in> set (service_networks_of net sub xdb')" "b \<in> set (service_networks_of net [] xdb')" for a b
  proof (cases "b \<in> set (service_networks_of net sub xdb')")
    case True
    with that(1) other assms(1) show ?thesis unfolding one_service_network_def by blast
  next
    case False
    with own[OF that(2)] snat_mode_valid[OF assms(5)] that(1) have "b \<in> set (service_networks_of net sub xdb')" by auto
    with False show ?thesis by simp
  qed
  show "one_service_network net xdb'"
    unfolding one_service_network_def
  proof (intro ballI)
    fix a b assume ab: "a \<in> set (service_networks_of net [] xdb')" "b \<in> set (service_networks_of net [] xdb')"
    show "a = b"
    proof (cases "a \<in> set (service_networks_of net sub xdb') \<or> b \<in> set (service_networks_of net sub xdb')")
      case True
      with agree ab show ?thesis by metis
    next
      case False
      with own[OF ab(1)] own[OF ab(2)] show ?thesis by simp
    qed
  qed
  show "\<not> (pool \<and> truthy sn)" using snat_mode_valid[OF assms(5)] by blast
qed

section \<open>Release\<close>

lemma disjoint_filter: "disjoint_ranges t \<Longrightarrow> disjoint_ranges (filter P t)"
  unfolding disjoint_ranges_def by (auto simp: distinct_map inj_on_def)

lemma aligned_filter: "aligned gw start sz t \<Longrightarrow> aligned gw start sz (filter P t)"
  by (auto simp: aligned_def ranges_def)

text \<open>The deletion of a service port releases exactly the ranges of the port.\<close>

lemma release_ranges:
  "release_dist_snat_ranges device_owner_dist_snat_port p t = filter (\<lambda>m. sm_service_port_id m \<noteq> Some p) t"
  unfolding release_dist_snat_ranges_def delete_dist_snat_mappings_def
  by (auto simp: snat_query_def by_opt_def intro!: filter_cong)

lemma release_well_reserved:
  "well_reserved gw start sz t \<Longrightarrow> well_reserved gw start sz (release_dist_snat_ranges owner p t)"
  by (cases "owner = device_owner_dist_snat_port")
    (simp_all add: release_ranges well_reserved_def disjoint_filter aligned_filter, simp add: release_dist_snat_ranges_def)

text \<open>A port created for a request that finds no range is deleted; one created for a request that raises is not.\<close>

lemma service_port_created:
  assumes "query_dist_snat_service_port host net (service_port_name host) (xd_neutron xdb) = None"
    and "core_create_port core \<lparr> pr_device_id = host, pr_device_owner = device_owner_dist_snat_port, pr_tenant_id = tenant,
      pr_name = service_port_name host, pr_network_id = net, pr_subnet_id = None \<rparr> xdb = (Inr p, x)"
    and "cp_fixed_ips p = ip # ips"
  shows "get_or_create_dist_snat_service_port core host net tenant xdb =
    (Inr (Some \<lparr> sp_id = cp_id p, sp_mac = cp_mac p, sp_ip = ip, sp_created = True \<rparr>), x)"
  using assms by (simp add: get_or_create_dist_snat_service_port_def)

lemma failed_allocation_deletes_port:
  assumes "query_dist_snat_gateway_info xdb ext_network routed = Inr (Some gw)"
    and "get_or_create_dist_snat_service_port core host (gw_service_network_id gw) tenant xdb = (Inr (Some p), x)" and "sp_created p"
    and "get_or_allocate_dist_snat_port_range gw host (sp_id p) others (xd_snat_mappings x) = Some (Inr None, t)"
    and "core_delete_port core (sp_id p) (x\<lparr> xd_snat_mappings := t \<rparr>) = (Inr (), z)"
  shows "get_or_allocate_distributed_snat_ip core host ext_network tenant routed others xdb = Some (Inr NoDistSnatRange, z)"
  using assms by (simp add: get_or_allocate_distributed_snat_ip_def delete_dist_snat_service_port_def Let_def)

lemma raising_allocation_leaves_port:
  assumes "query_dist_snat_gateway_info xdb ext_network routed = Inr (Some gw)" and "gw_alloc_size gw = None"
    and "get_or_create_dist_snat_service_port core host (gw_service_network_id gw) tenant xdb = (Inr (Some p), x)"
  shows "get_or_allocate_distributed_snat_ip core host ext_network tenant routed others xdb = Some (Inl TypeError, x)"
  using assms
  by (simp add: get_or_allocate_distributed_snat_ip_def get_or_allocate_dist_snat_port_range_def
      dist_snat_port_range_count_def split: option.splits)

section \<open>Addresses from an SNAT pool\<close>

text \<open>What the pool yields is the address of the first subnet that has one; an exhausted subnet is passed over.\<close>

lemma pool_exhausted:
  assumes "\<forall>s \<in> set ss. \<forall>x. core_create_port core
      \<lparr> pr_device_id = host, pr_device_owner = device_owner_snat_port, pr_tenant_id = tenant,
        pr_name = ''snat-pool-port:'' @ host, pr_network_id = net, pr_subnet_id = Some (subnet_id s) \<rparr> x =
      (Inl IpAddressGenerationFailure, x)"
  shows "allocate_snat_port core host net tenant (ss @ ts) xdb = allocate_snat_port core host net tenant ts xdb"
  using assms by (induction ss) auto

text \<open>SNAT ports stay while a router with a gateway on the network has an interface.\<close>

lemma snat_ports_needed:
  "router_interface_on_external net (xd_neutron xdb) \<Longrightarrow> delete_unneeded_snat_ip_ports core net xdb = (Inr (), xdb)"
  by (simp add: delete_unneeded_snat_ip_ports_def Let_def)

text \<open>A plugin that deletes a port from the table, releasing its ranges, or reports that it is missing.\<close>

definition delete_port_row :: "string \<Rightarrow> ext_db \<Rightarrow> (fabric_error + unit) \<times> ext_db" where
  "delete_port_row i x =
     (if i \<in> set (map port_id (nt_ports (xd_neutron x)))
      then (Inr (), x\<lparr> xd_neutron := (xd_neutron x)\<lparr> nt_ports := filter (\<lambda>p. port_id p \<noteq> i) (nt_ports (xd_neutron x)) \<rparr>,
                       xd_snat_mappings := release_dist_snat_ranges device_owner_dist_snat_port i (xd_snat_mappings x) \<rparr>)
      else (Inl (PortNotFound i), x))"

lemma delete_ports_rows:
  assumes "core_delete_port core = delete_port_row"
  shows "\<exists>y. delete_ports core ps x = (Inr (), y) \<and>
    nt_ports (xd_neutron y) = filter (\<lambda>p. port_id p \<notin> set ps) (nt_ports (xd_neutron x))"
proof (induction ps arbitrary: x)
  case (Cons i ps)
  obtain o' z where z: "delete_port_row i x = (o', z)" by (cases "delete_port_row i x")
  have ports: "nt_ports (xd_neutron z) = filter (\<lambda>p. port_id p \<noteq> i) (nt_ports (xd_neutron x))"
    and ok: "o' = Inr () \<or> o' = Inl (PortNotFound i)"
    using z by (auto simp: delete_port_row_def filter_id_conv split: if_splits intro!: filter_True[symmetric])
  from Cons.IH[of z] obtain y where y: "delete_ports core ps z = (Inr (), y)"
    "nt_ports (xd_neutron y) = filter (\<lambda>p. port_id p \<notin> set ps) (nt_ports (xd_neutron z))" by blast
  have "delete_ports core (i # ps) x = (Inr (), y)" using ok z y(1) assms by auto
  moreover have "nt_ports (xd_neutron y) = filter (\<lambda>p. port_id p \<notin> set (i # ps)) (nt_ports (xd_neutron x))"
    unfolding y(2) ports by (auto intro!: filter_cong)
  ultimately show ?case by blast
qed simp

section \<open>Floating addresses\<close>

text \<open>No subnet of an SNAT pool is offered for a floating address; one of a gateway pool is, although
  an address that names it is refused.\<close>

lemma fip_subnets_no_pool:
  assumes "s \<in> set (get_subnets_for_fip net xdb)" and "distinct (map sx_subnet_id (xd_subnets xdb))"
  shows "\<forall>x \<in> set (xd_subnets xdb). sx_subnet_id x = s \<longrightarrow> sx_snat_host_pool x \<noteq> Some True"
proof (intro ballI impI)
  fix x assume x: "x \<in> set (xd_subnets xdb)" "sx_subnet_id x = s"
  have "y = x" if "y \<in> set (xd_subnets xdb)" "sx_subnet_id y = s" for y
    using that x assms(2) by (auto simp: distinct_map inj_on_def)
  then have same: "b = sx_snat_host_pool x"
    if "b \<in> set (map sx_snat_host_pool (filter (\<lambda>x. sx_subnet_id x = s) (xd_subnets xdb)))" for b
    using that by auto
  obtain r rs where rows: "filter (\<lambda>x. sx_subnet_id x = s) (xd_subnets xdb) = r # rs"
    using x by (cases "filter (\<lambda>x. sx_subnet_id x = s) (xd_subnets xdb)") (auto simp: filter_empty_conv)
  from assms(1) obtain b where "b \<noteq> Some True"
    "b \<in> set (case filter (\<lambda>x. sx_subnet_id x = s) (xd_subnets xdb) of [] \<Rightarrow> [None] | xs \<Rightarrow> map sx_snat_host_pool xs)"
    by (force simp: get_subnets_for_fip_def)
  with same show "sx_snat_host_pool x \<noteq> Some True" unfolding rows by simp
qed

text \<open>Witness data: two subnets of an external network, one of them in a gateway pool.\<close>

definition demo_snat_db :: ext_db where
  "demo_snat_db = demo_ext_db\<lparr>
     xd_neutron := (xd_neutron demo_ext_db)\<lparr>
       nt_subnets := [\<lparr> subnet_id = ''sub'', subnet_network_id = ''ext'', subnet_pool_id = None,
         subnet_cidr = ''172.16.0.0/24'', subnet_gateway_ip = Some ''172.16.0.1'',
         subnet_ip_version = 4, subnet_enable_dhcp = True \<rparr>],
       nt_ports := [\<lparr> port_id = ''gw'', port_network_id = ''ext'', port_device_id = ''r'',
           port_device_owner = device_owner_router_gw, port_name = [], port_mac = ''fa'', port_project_id = ''t'', port_admin_state_up = True \<rparr>,
         \<lparr> port_id = ''p2'', port_network_id = ''svc'', port_device_id = ''h2'',
           port_device_owner = device_owner_dist_snat_port, port_name = service_port_name ''h2'', port_mac = ''fb'', port_project_id = ''t'', port_admin_state_up = True \<rparr>],
       nt_allocs := [\<lparr> alloc_port_id = ''gw'', alloc_subnet_id = ''sub'', alloc_ip = ''172.16.0.5'', alloc_network_id = ''ext'' \<rparr>,
         \<lparr> alloc_port_id = ''if'', alloc_subnet_id = ''priv'', alloc_ip = ''10.0.0.1'', alloc_network_id = ''priv'' \<rparr>,
         \<lparr> alloc_port_id = ''p2'', alloc_subnet_id = ''svcsub'', alloc_ip = ''10.9.0.2'', alloc_network_id = ''svc'' \<rparr>],
       nt_routers := [\<lparr> router_id = ''r'', router_gw_port_id = Some ''gw'' \<rparr>],
       nt_router_ports := [\<lparr> rp_router_id = ''r'', rp_port_id = ''if'', rp_type = device_owner_router_intf \<rparr>] \<rparr>,
     xd_subnets := [(new_subnet_ext_row ''sub'')\<lparr> sx_service_network_id := Some ''svc'', sx_router_gw_ip_pool := Some True,
       sx_dist_snat_start_port := Some 1000, sx_dist_snat_end_port := Some 1029, sx_dist_snat_alloc_size := Some 10 \<rparr>],
     xd_snat_mappings := [new_range demo_gw ''h2'' ''p2'' 1000 10] \<rparr>"

definition demo_core :: core_plugin where
  "demo_core = \<lparr> core_create_port = (\<lambda>r x. (Inr \<lparr> cp_id = ''p1'', cp_mac = ''fc'', cp_fixed_ips = [''10.9.0.1''] \<rparr>, x)),
     core_delete_port = delete_port_row \<rparr>"

lemma fip_subnet_gateway_pool:
  "get_subnets_for_fip ''ext'' demo_snat_db = [''sub''] \<and>
   check_floatingip_external_address in_cidr (Some ''sub'') None ''ext'' demo_snat_db = Inl RouterGWIPPoolCannotBeUsedForFloatingIp"
  by code_simp

lemma demo_gateway: "query_dist_snat_gateway_info demo_snat_db ''ext'' [''priv''] = Inr (Some demo_gw)"
  by code_simp

lemma dist_snat_reply_apart_witness:
  "\<exists>r y. get_or_allocate_distributed_snat_ip demo_core ''h1'' ''ext'' ''t'' [''priv''] (\<lambda>k t. t) demo_snat_db = Some (r, y)"
proof -
  have "well_reserved demo_gw 1000 10 (xd_snat_mappings demo_snat_db)"
    by (auto simp: demo_snat_db_def well_reserved_def disjoint_ranges_def aligned_def ranges_def new_range_def intro: exI[of _ "0::nat"])
  moreover have "\<forall>k :: nat. reserves_only demo_gw 1000 10 (\<lambda>t. t)" by (simp add: reserves_only_def)
  moreover have "keeps_ranges demo_core" by (simp add: keeps_ranges_def demo_core_def)
  ultimately show ?thesis
    using dist_snat_reply_apart[OF demo_gateway demo_configured, of "\<lambda>k t. t" demo_core "''h1''" "''t''"] by blast
qed

definition demo_service_net :: "string \<Rightarrow> service_net option" where
  "demo_service_net i = (if i = ''svc'' then Some \<lparr> sn_id = ''svc'', sn_service_network_enable = True, sn_router_external = True,
     sn_provider_type = Some ''vlan'', sn_physical_network = Some ''phys'' \<rparr> else None)"

definition demo_subnet_request :: subnet_ext_request where
  "demo_subnet_request = \<lparr> sq_snat_host_pool = None, sq_active_active_aap = None, sq_snat_subnet_only = None, sq_epg_subnet = None,
     sq_advertised_externally = None, sq_shared_between_vrfs = None, sq_router_gw_ip_pool = None,
     sq_service_network = Some (Some ''svc''), sq_dist_snat_start_port = None, sq_dist_snat_end_port = None,
     sq_dist_snat_alloc_size = None \<rparr>"

lemma service_network_invariant_witness:
  "\<exists>xdb'. set_subnet_extn_db ''sub'' demo_subnet_request demo_snat_db = Inr xdb' \<and> one_service_network ''ext'' xdb'"
proof -
  have one: "one_service_network ''ext'' demo_snat_db" unfolding one_service_network_def by code_simp
  have ok: "(case set_subnet_extn_db ''sub'' demo_subnet_request demo_snat_db of Inl e \<Rightarrow> False
      | Inr x \<Rightarrow> validate_subnet_snat_mode demo_service_net x ''ext'' ''sub'' False (Some ''svc'') (Some False) None = Inr ())"
    by code_simp
  then obtain x where x: "set_subnet_extn_db ''sub'' demo_subnet_request demo_snat_db = Inr x"
    "validate_subnet_snat_mode demo_service_net x ''ext'' ''sub'' False (Some ''svc'') (Some False) None = Inr ()"
    by (auto split: sum.splits)
  with service_network_invariant[OF one _ x(1) _ x(2)] show ?thesis by (simp add: demo_subnet_request_def)
qed

end
