(* ===== verification/Endpoint_Tables.thy ===== *)
theory Endpoint_Tables
  imports Snat_Service Owner_Tables "HOL-Library.Product_Lexorder"
begin

text \<open>
  The queries of the RPC handler (\<^verbatim>\<open>apic_aim/rpc.py\<close>) that collect the state of an endpoint: its
  port with everything joined to it, its addresses, bindings, security groups, allowed address
  pairs, external networks, floating and SNAT addresses, trunk, and the subnets of its VRF.

  The rows are those of the core service's tables.  An outer join yields one row with missing
  columns where nothing matches.  A query without an order returns rows in the order of the tables.
\<close>

section \<open>Rows\<close>

record binding_row =
  bn_port_id :: string
  bn_host :: string
  bn_status :: string
  bn_vif_type :: string
  bn_vif_details :: string

record psec_row =
  ps_port_id :: string
  ps_enabled :: bool

record trunk_row =
  tk_id :: string
  tk_port_id :: string

record subport_row =
  su_port_id :: string
  su_trunk_id :: string
  su_segmentation_type :: string
  su_segmentation_id :: int

record dns_domain_row =
  dd_network_id :: string
  dd_dns_domain :: string

record nameserver_row =
  ns_subnet_id :: string
  ns_address :: string
  ns_order :: int

record route_row =
  rt_subnet_id :: string
  rt_destination :: string
  rt_nexthop :: string

record level_row =
  lv_port_id :: string
  lv_host :: string
  lv_level :: int
  lv_segment_id :: string

record segment_row =
  sg_segment_id :: string
  sg_network_type :: string
  sg_physical_network :: "string option"
  sg_segmentation_id :: "int option"

record owned_row =
  ow_id :: string
  ow_project_id :: string

record bound_row =
  bo_port_id :: string
  bo_policy_id :: string

record aap_row =
  ap_port_id :: string
  ap_mac :: string
  ap_ip :: string

record fip_row =
  fp_id :: string
  fp_address :: string
  fp_network_id :: string
  fp_fixed_port_id :: "string option"
  fp_fixed_ip :: "string option"

record dhcp_opt_row =
  do_port_id :: string
  do_name :: string
  do_value :: string

record pool_prefix_row =
  pp_cidr :: string
  pp_pool_id :: string

record endpoint_db =
  ed_ext :: ext_db
  ed_bindings :: "binding_row list"
  ed_psec :: "psec_row list"
  ed_trunks :: "trunk_row list"
  ed_subports :: "subport_row list"
  ed_dns_domains :: "dns_domain_row list"
  ed_vms :: "vm_row list"
  ed_ha :: "ha_row list"
  ed_nameservers :: "nameserver_row list"
  ed_routes :: "route_row list"
  ed_levels :: "level_row list"
  ed_segments :: "segment_row list"
  ed_sgs :: "owned_row list"
  ed_sg_bindings :: "bound_row list"
  ed_qos :: "owned_row list"
  ed_qos_bindings :: "bound_row list"
  ed_aaps :: "aap_row list"
  ed_fips :: "fip_row list"
  ed_dhcp_opts :: "dhcp_opt_row list"
  ed_pool_prefixes :: "pool_prefix_row list"

abbreviation ed_neutron :: "endpoint_db \<Rightarrow> neutron_db" where
  "ed_neutron db \<equiv> xd_neutron (ed_ext db)"

text \<open>The right side of an outer join.\<close>

definition outer :: "'a list \<Rightarrow> 'a option list" where
  "outer xs = (if xs = [] then [None] else map Some xs)"

section \<open>Information about an endpoint\<close>

record endpoint_port =
  pi_project_id :: string
  pi_port_id :: string
  pi_port_name :: string
  pi_network_id :: string
  pi_mac_address :: string
  pi_admin_state_up :: bool
  pi_device_id :: string
  pi_device_owner :: string
  pi_host :: "string option"
  pi_status :: "string option"
  pi_vif_type :: "string option"
  pi_vif_details :: "string option"
  pi_psec_enabled :: "bool option"
  pi_trunk_id :: "string option"
  pi_subport_trunk_id :: "string option"
  pi_net_mtu :: "int option"
  pi_net_dns_domain :: "string option"
  pi_nested_domain_name :: "string option"
  pi_nested_domain_type :: "string option"
  pi_nested_domain_infra_vlan :: "int option"
  pi_nested_domain_service_vlan :: "int option"
  pi_nested_domain_node_network_vlan :: "int option"
  pi_svi :: "bool option"
  pi_epg_name :: "string option"
  pi_epg_app_profile_name :: "string option"
  pi_epg_tenant_name :: "string option"
  pi_vrf_name :: "string option"
  pi_vrf_tenant_name :: "string option"
  pi_vm_name :: "string option"

record fixed_ip_info =
  fi_ip_address :: string
  fi_subnet_id :: string
  fi_ip_version :: int
  fi_cidr :: string
  fi_gateway_ip :: "string option"
  fi_enable_dhcp :: bool
  fi_dns_nameserver :: "string option"
  fi_route_destination :: "string option"
  fi_route_nexthop :: "string option"

record binding_info =
  bi_host :: string
  bi_level :: int
  bi_network_type :: string
  bi_physical_network :: "string option"
  bi_segmentation_id :: "int option"

record dhcp_ip_info =
  di_mac_address :: string
  di_ip_address :: string
  di_subnet_id :: string

record owned_ip_info =
  oi_ip_address :: string
  oi_network_id :: string
  oi_actual_port_id :: "string option"

record ext_net_info =
  en_network_id :: string
  en_project_id :: string
  en_epg_name :: "string option"
  en_epg_app_profile_name :: "string option"
  en_epg_tenant_name :: "string option"
  en_external_network_dn :: "string option"
  en_nat_type :: "string option"

record snat_info =
  sn_network_id :: string
  sn_ip_address :: string
  sn_mac_address :: string
  sn_cidr :: string
  sn_gateway_ip :: "string option"

record trunk_info =
  ti_master_port_id :: string
  ti_subport_port_id :: "string option"
  ti_segmentation_type :: "string option"
  ti_segmentation_id :: "int option"

section \<open>Queries\<close>

text \<open>The columns of one row of the join.\<close>

definition make_port_info ::
  "port_row \<Rightarrow> binding_row option \<Rightarrow> psec_row option \<Rightarrow> trunk_row option \<Rightarrow> subport_row option \<Rightarrow> network_row option \<Rightarrow>
   dns_domain_row option \<Rightarrow> net_ext_row option \<Rightarrow> network_mapping option \<Rightarrow> vm_row option \<Rightarrow> endpoint_port" where
  "make_port_info p b s t u n d x m v =
     \<lparr> pi_project_id = port_project_id p, pi_port_id = port_id p, pi_port_name = port_name p,
       pi_network_id = port_network_id p, pi_mac_address = port_mac p, pi_admin_state_up = port_admin_state_up p,
       pi_device_id = port_device_id p, pi_device_owner = port_device_owner p,
       pi_host = map_option bn_host b, pi_status = map_option bn_status b, pi_vif_type = map_option bn_vif_type b,
       pi_vif_details = map_option bn_vif_details b, pi_psec_enabled = map_option ps_enabled s,
       pi_trunk_id = map_option tk_id t, pi_subport_trunk_id = map_option su_trunk_id u,
       pi_net_mtu = Option.bind n network_mtu, pi_net_dns_domain = map_option dd_dns_domain d,
       pi_nested_domain_name = Option.bind x nx_nested_domain_name,
       pi_nested_domain_type = Option.bind x nx_nested_domain_type,
       pi_nested_domain_infra_vlan = Option.bind x nx_nested_domain_infra_vlan,
       pi_nested_domain_service_vlan = Option.bind x nx_nested_domain_service_vlan,
       pi_nested_domain_node_network_vlan = Option.bind x nx_nested_domain_node_network_vlan,
       pi_svi = Option.bind x nx_svi, pi_epg_name = Option.bind m nm_epg_name,
       pi_epg_app_profile_name = Option.bind m nm_epg_app_profile_name,
       pi_epg_tenant_name = Option.bind m nm_epg_tenant_name, pi_vrf_name = Option.bind m nm_vrf_name,
       pi_vrf_tenant_name = Option.bind m nm_vrf_tenant_name, pi_vm_name = map_option vm_name v \<rparr>"

text \<open>The port may be named by a prefix of its ID.\<close>

definition query_endpoint_port_info :: "string \<Rightarrow> endpoint_db \<Rightarrow> endpoint_port list" where
  "query_endpoint_port_info pid db =
     [make_port_info p b s t u n d x m v.
      p \<leftarrow> nt_ports (ed_neutron db), sql_like (pid @ ''%'') (port_id p),
      b \<leftarrow> outer (filter (\<lambda>b. bn_port_id b = port_id p) (ed_bindings db)),
      s \<leftarrow> outer (filter (\<lambda>s. ps_port_id s = port_id p) (ed_psec db)),
      t \<leftarrow> outer (filter (\<lambda>t. tk_port_id t = port_id p) (ed_trunks db)),
      u \<leftarrow> outer (filter (\<lambda>u. su_port_id u = port_id p) (ed_subports db)),
      n \<leftarrow> outer (filter (\<lambda>n. network_id n = port_network_id p) (nt_networks (ed_neutron db))),
      d \<leftarrow> outer (filter (\<lambda>d. dd_network_id d = port_network_id p) (ed_dns_domains db)),
      x \<leftarrow> outer (filter (\<lambda>x. nx_network_id x = port_network_id p) (xd_networks (ed_ext db))),
      m \<leftarrow> outer (filter (\<lambda>m. nm_network_id m = port_network_id p) (nt_network_mappings (ed_neutron db))),
      v \<leftarrow> outer (filter (\<lambda>v. vm_device_id v = port_device_id p) (ed_vms db))]"

text \<open>
  The rows for the cross product of the name servers and routes of the subnet of each address, by
  the order of the name servers; missing ones come first.
\<close>

definition query_endpoint_fixed_ip_info :: "string \<Rightarrow> endpoint_db \<Rightarrow> fixed_ip_info list" where
  "query_endpoint_fixed_ip_info pid db =
     map snd (sort_key (\<lambda>r. case fst r of None \<Rightarrow> (0 :: int, 0) | Some n \<Rightarrow> (1, ns_order n))
       [(n, \<lparr> fi_ip_address = alloc_ip a, fi_subnet_id = alloc_subnet_id a, fi_ip_version = subnet_ip_version s,
          fi_cidr = subnet_cidr s, fi_gateway_ip = subnet_gateway_ip s, fi_enable_dhcp = subnet_enable_dhcp s,
          fi_dns_nameserver = map_option ns_address n, fi_route_destination = map_option rt_destination r,
          fi_route_nexthop = map_option rt_nexthop r \<rparr>).
        a \<leftarrow> nt_allocs (ed_neutron db), alloc_port_id a = pid,
        s \<leftarrow> nt_subnets (ed_neutron db), subnet_id s = alloc_subnet_id a,
        n \<leftarrow> outer (filter (\<lambda>n. ns_subnet_id n = alloc_subnet_id a) (ed_nameservers db)),
        r \<leftarrow> outer (filter (\<lambda>r. rt_subnet_id r = alloc_subnet_id a) (ed_routes db))])"

definition query_endpoint_binding_info :: "string \<Rightarrow> endpoint_db \<Rightarrow> binding_info list" where
  "query_endpoint_binding_info pid db =
     sort_key bi_level
       [\<lparr> bi_host = lv_host l, bi_level = lv_level l, bi_network_type = sg_network_type s,
          bi_physical_network = sg_physical_network s, bi_segmentation_id = sg_segmentation_id s \<rparr>.
        l \<leftarrow> ed_levels db, lv_port_id l = pid, s \<leftarrow> ed_segments db, sg_segment_id s = lv_segment_id l]"

definition query_endpoint_sg_info :: "string \<Rightarrow> endpoint_db \<Rightarrow> owned_row list" where
  "query_endpoint_sg_info pid db =
     [g. g \<leftarrow> ed_sgs db, b \<leftarrow> ed_sg_bindings db, bo_policy_id b = ow_id g \<and> bo_port_id b = pid]"

definition query_endpoint_qos_info :: "string \<Rightarrow> endpoint_db \<Rightarrow> owned_row list" where
  "query_endpoint_qos_info pid db =
     [g. g \<leftarrow> ed_qos db, b \<leftarrow> ed_qos_bindings db, bo_policy_id b = ow_id g \<and> bo_port_id b = pid]"

definition query_endpoint_dhcp_ip_info :: "string \<Rightarrow> endpoint_db \<Rightarrow> dhcp_ip_info list" where
  "query_endpoint_dhcp_ip_info net db =
     [\<lparr> di_mac_address = port_mac p, di_ip_address = alloc_ip a, di_subnet_id = alloc_subnet_id a \<rparr>.
      p \<leftarrow> nt_ports (ed_neutron db), a \<leftarrow> nt_allocs (ed_neutron db),
      alloc_port_id a = port_id p \<and> port_network_id p = net \<and> port_device_owner p = device_owner_dhcp]"

definition query_endpoint_aap_info :: "string \<Rightarrow> endpoint_db \<Rightarrow> aap_row list" where
  "query_endpoint_aap_info pid db = filter (\<lambda>a. ap_port_id a = pid) (ed_aaps db)"

text \<open>The outer join is on the address alone; the network is compared after it.\<close>

definition query_endpoint_haip_owned_ip_info :: "string \<Rightarrow> string \<Rightarrow> endpoint_db \<Rightarrow> owned_ip_info list" where
  "query_endpoint_haip_owned_ip_info pid net db =
     [\<lparr> oi_ip_address = ha_ip_address h, oi_network_id = ha_network_id h, oi_actual_port_id = map_option alloc_port_id a \<rparr>.
      h \<leftarrow> ed_ha db, ha_port_id h = pid,
      a \<leftarrow> outer (filter (\<lambda>a. alloc_ip a = ha_ip_address h) (nt_allocs (ed_neutron db))),
      a = None \<or> map_option alloc_network_id a = Some net]"

text \<open>A subnet without an extension row does not count against the mode.\<close>

definition query_active_active_aap :: "string list \<Rightarrow> endpoint_db \<Rightarrow> bool" where
  "query_active_active_aap subnets db \<longleftrightarrow>
     subnets \<noteq> [] \<and>
     \<not> list_ex (\<lambda>x. sx_subnet_id x \<in> set subnets \<and> sx_active_active_aap x = Some False) (xd_subnets (ed_ext db))"

text \<open>
  The external networks behind the routers of the subnets.  The condition of the join with the
  router's ports is \<^verbatim>\<open>a == b and c == d\<close>: the operator of the language, not of the query, so that its
  value is the first comparison, which is false as a truth value, and the type of the port is not
  compared.  The dictionary has one entry for a network, of its last row.
\<close>

definition ext_net_rows :: "string list \<Rightarrow> endpoint_db \<Rightarrow> ext_net_info list" where
  "ext_net_rows subnets db =
     (let n = ed_neutron db in
      [\<lparr> en_network_id = network_id w, en_project_id = network_tenant_id w, en_epg_name = nm_epg_name m,
         en_epg_app_profile_name = nm_epg_app_profile_name m, en_epg_tenant_name = nm_epg_tenant_name m,
         en_external_network_dn = Option.bind x nx_external_network_dn, en_nat_type = Option.bind x nx_nat_type \<rparr>.
       w \<leftarrow> nt_networks n, p \<leftarrow> nt_ports n, port_network_id p = network_id w,
       r \<leftarrow> nt_routers n, router_gw_port_id r = Some (port_id p),
       q \<leftarrow> nt_router_ports n, rp_router_id q = router_id r,
       a \<leftarrow> nt_allocs n, alloc_port_id a = rp_port_id q \<and> alloc_subnet_id a \<in> set subnets,
       m \<leftarrow> nt_network_mappings n, nm_network_id m = port_network_id p,
       x \<leftarrow> outer (filter (\<lambda>x. nx_network_id x = port_network_id p) (xd_networks (ed_ext db)))])"

definition query_endpoint_ext_net_info :: "string list \<Rightarrow> endpoint_db \<Rightarrow> (string \<times> ext_net_info) list" where
  "query_endpoint_ext_net_info subnets db =
     fold (\<lambda>e. AList.update (en_network_id e) e) (remdups (ext_net_rows subnets db)) []"

definition query_endpoint_fip_info :: "string list \<Rightarrow> endpoint_db \<Rightarrow> fip_row list" where
  "query_endpoint_fip_info ports db =
     filter (\<lambda>f. case fp_fixed_port_id f of None \<Rightarrow> False | Some p \<Rightarrow> p \<in> set ports) (ed_fips db)"

definition query_endpoint_snat_info :: "string \<Rightarrow> string list \<Rightarrow> endpoint_db \<Rightarrow> (string \<times> snat_info) list" where
  "query_endpoint_snat_info host ext_nets db =
     fold (\<lambda>e. AList.update (sn_network_id e) e)
       [\<lparr> sn_network_id = port_network_id p, sn_ip_address = alloc_ip a, sn_mac_address = port_mac p,
          sn_cidr = subnet_cidr s, sn_gateway_ip = subnet_gateway_ip s \<rparr>.
        p \<leftarrow> nt_ports (ed_neutron db), a \<leftarrow> nt_allocs (ed_neutron db), s \<leftarrow> nt_subnets (ed_neutron db),
        alloc_port_id a = port_id p \<and> subnet_id s = alloc_subnet_id a \<and> port_network_id p \<in> set ext_nets \<and>
        port_device_id p = host \<and> port_device_owner p = device_owner_snat_port] []"

definition query_endpoint_trunk_info :: "string \<Rightarrow> endpoint_db \<Rightarrow> trunk_info list" where
  "query_endpoint_trunk_info trunk db =
     [\<lparr> ti_master_port_id = tk_port_id t, ti_subport_port_id = map_option su_port_id u,
        ti_segmentation_type = map_option su_segmentation_type u, ti_segmentation_id = map_option su_segmentation_id u \<rparr>.
      t \<leftarrow> ed_trunks db, tk_id t = trunk, u \<leftarrow> outer (filter (\<lambda>u. su_trunk_id u = tk_id t) (ed_subports db))]"

definition query_endpoint_extra_dhcp_opts :: "string \<Rightarrow> endpoint_db \<Rightarrow> (string \<times> string) list" where
  "query_endpoint_extra_dhcp_opts pid db =
     fold (\<lambda>o'. AList.update (do_name o') (do_value o')) (filter (\<lambda>o'. do_port_id o' = pid) (ed_dhcp_opts db)) []"

definition query_endpoint_nested_domain_allowed_vlans :: "string \<Rightarrow> endpoint_db \<Rightarrow> int list" where
  "query_endpoint_nested_domain_allowed_vlans net db =
     map nv_vlan (filter (\<lambda>v. nv_network_id v = net) (xd_vlans (ed_ext db)))"

section \<open>Subnets of a VRF\<close>

definition query_no_nat_cidrs_extension :: "string list \<Rightarrow> endpoint_db \<Rightarrow> string list" where
  "query_no_nat_cidrs_extension nets db =
     remdups [nc_cidr c. c \<leftarrow> xd_no_nat_cidrs (ed_ext db), n \<leftarrow> nt_networks (ed_neutron db),
        network_id n = nc_network_id c \<and> nc_network_id c \<in> set nets]"

definition no_nat_cidrs_behind ::
  "(string \<times> ext_net_info) list \<Rightarrow> string list \<Rightarrow> string list \<Rightarrow> endpoint_db \<Rightarrow> string list" where
  "no_nat_cidrs_behind ext_nets subs nets db =
     query_no_nat_cidrs_extension
       (nets @ map fst (if ext_nets = [] then query_endpoint_ext_net_info subs db else ext_nets)) db"

definition scope_prefixes :: "string \<Rightarrow> string \<Rightarrow> endpoint_db \<Rightarrow> (string \<times> string) list" where
  "scope_prefixes tenant name db =
     remdups [(pp_cidr x, pp_pool_id x). x \<leftarrow> ed_pool_prefixes db, p \<leftarrow> nt_pools (ed_neutron db), pool_id p = pp_pool_id x,
        m \<leftarrow> nt_scope_mappings (ed_neutron db),
        pool_scope_id p = Some (asm_scope_id m) \<and> asm_vrf_name m = Some name \<and> asm_vrf_tenant_name m = Some tenant]"

text \<open>
  A VRF of address scopes has the prefixes of their pools, any other the subnets of its networks;
  both have the prefixes without NAT of their networks and of the external networks behind them.
\<close>

definition query_vrf_subnets ::
  "string option \<Rightarrow> string option \<Rightarrow> (string \<times> ext_net_info) list \<Rightarrow> endpoint_db \<Rightarrow> string list" where
  "query_vrf_subnets tenant name ext_nets db =
     (case (tenant, name) of
        (Some t, Some v) \<Rightarrow>
          (let prefixes = scope_prefixes t v db; pools = map snd prefixes
           in if prefixes \<noteq> [] then
                let subs = [s. s \<leftarrow> nt_subnets (ed_neutron db), p \<leftarrow> nt_pools (ed_neutron db),
                      subnet_pool_id s = Some (pool_id p) \<and> pool_id p \<in> set pools]
                in map fst prefixes @ no_nat_cidrs_behind ext_nets (map subnet_id subs) (map subnet_network_id subs) db
              else
                let subs = [s. s \<leftarrow> nt_subnets (ed_neutron db), m \<leftarrow> nt_network_mappings (ed_neutron db),
                      nm_network_id m = subnet_network_id s \<and> nm_vrf_name m = Some v \<and> nm_vrf_tenant_name m = Some t]
                in map subnet_cidr subs @ no_nat_cidrs_behind ext_nets (map subnet_id subs) (map subnet_network_id subs) db)
      | _ \<Rightarrow> no_nat_cidrs_behind ext_nets [] [] db)"

end
