(* ===== verification/Apic_Names.thy ===== *)
theory Apic_Names
  imports Fabric_Tables
begin

text \<open>
  The names of the fabric's resources (\<^verbatim>\<open>apic_aim/apic_mapper.py\<close>): a resource of the cloud is
  mapped to a name built of a prefix, a tag for its type and its ID, and a name is mapped back.
  The mapper keeps no state; the session argument is not used.
\<close>

section \<open>Tags\<close>

datatype resource_kind =
    PROJECT_TYPE_TAG | NETWORK_TYPE_TAG | ADDRESS_SCOPE_TYPE_TAG | ROUTER_TYPE_TAG | L3_POLICY_TYPE_TAG
  | POLICY_RULE_SET_TYPE_TAG | POLICY_RULE_TYPE_TAG | APPLICATION_POLICY_GROUP_TYPE_TAG
  | PORT_PAIR_GROUP_TYPE_TAG | PORT_PAIR_TYPE_TAG | PORT_TYPE_TAG | FLOW_CLASSIFIER_TYPE_TAG | PORT_CHAIN_TYPE_TAG

fun type_tag :: "resource_kind \<Rightarrow> string" where
  "type_tag PROJECT_TYPE_TAG = ''prj''"
| "type_tag NETWORK_TYPE_TAG = ''net''"
| "type_tag ADDRESS_SCOPE_TYPE_TAG = ''as''"
| "type_tag ROUTER_TYPE_TAG = ''rtr''"
| "type_tag L3_POLICY_TYPE_TAG = ''l3p''"
| "type_tag POLICY_RULE_SET_TYPE_TAG = ''prs''"
| "type_tag POLICY_RULE_TYPE_TAG = ''pr''"
| "type_tag APPLICATION_POLICY_GROUP_TYPE_TAG = ''apg''"
| "type_tag PORT_PAIR_GROUP_TYPE_TAG = ''ppg''"
| "type_tag PORT_PAIR_TYPE_TAG = ''pp''"
| "type_tag PORT_TYPE_TAG = ''prt''"
| "type_tag FLOW_CLASSIFIER_TYPE_TAG = ''flc''"
| "type_tag PORT_CHAIN_TYPE_TAG = ''ptc''"

section \<open>The mapping and its inverse\<close>

definition map_name :: "string \<Rightarrow> resource_kind \<Rightarrow> string \<Rightarrow> string" where
  "map_name i k prefix = prefix @ type_tag k @ ''_'' @ i"

text \<open>A name of another type is no ID, and an internal error where the caller enforces it.\<close>

definition unmap_name :: "string \<Rightarrow> resource_kind \<Rightarrow> string \<Rightarrow> bool \<Rightarrow> fabric_error + string option" where
  "unmap_name nm k prefix enforce =
     (let pos = length prefix + length (type_tag k) + 1
      in if map_name [] k prefix = take pos nm then Inr (Some (drop pos nm))
         else if enforce then Inl (InternalError (''Attempted to reverse-map invalid APIC name '' @ nm))
         else Inr None)"

section \<open>The types\<close>

text \<open>The project named common is the fabric's common tenant.\<close>

definition project_name :: "string \<Rightarrow> string \<Rightarrow> string" where
  "project_name i prefix = (if i = ''common'' then i else map_name i PROJECT_TYPE_TAG prefix)"

definition network_name :: "string \<Rightarrow> string \<Rightarrow> string" where
  "network_name i prefix = map_name i NETWORK_TYPE_TAG prefix"

definition reverse_network :: "string \<Rightarrow> string \<Rightarrow> bool \<Rightarrow> fabric_error + string option" where
  "reverse_network nm prefix enforce = unmap_name nm NETWORK_TYPE_TAG prefix enforce"

definition address_scope_name :: "string \<Rightarrow> string \<Rightarrow> string" where
  "address_scope_name i prefix = map_name i ADDRESS_SCOPE_TYPE_TAG prefix"

definition reverse_address_scope :: "string \<Rightarrow> string \<Rightarrow> bool \<Rightarrow> fabric_error + string option" where
  "reverse_address_scope nm prefix enforce = unmap_name nm ADDRESS_SCOPE_TYPE_TAG prefix enforce"

definition router_name :: "string \<Rightarrow> string \<Rightarrow> string" where
  "router_name i prefix = map_name i ROUTER_TYPE_TAG prefix"

definition reverse_router :: "string \<Rightarrow> string \<Rightarrow> bool \<Rightarrow> fabric_error + string option" where
  "reverse_router nm prefix enforce = unmap_name nm ROUTER_TYPE_TAG prefix enforce"

definition l3_policy_name :: "string \<Rightarrow> string \<Rightarrow> string" where
  "l3_policy_name i prefix = map_name i L3_POLICY_TYPE_TAG prefix"

definition reverse_l3_policy :: "string \<Rightarrow> string \<Rightarrow> bool \<Rightarrow> fabric_error + string option" where
  "reverse_l3_policy nm prefix enforce = unmap_name nm L3_POLICY_TYPE_TAG prefix enforce"

definition policy_rule_set_name :: "string \<Rightarrow> string \<Rightarrow> string" where
  "policy_rule_set_name i prefix = map_name i POLICY_RULE_SET_TYPE_TAG prefix"

definition reverse_policy_rule_set :: "string \<Rightarrow> string \<Rightarrow> bool \<Rightarrow> fabric_error + string option" where
  "reverse_policy_rule_set nm prefix enforce = unmap_name nm POLICY_RULE_SET_TYPE_TAG prefix enforce"

definition policy_rule_name :: "string \<Rightarrow> string \<Rightarrow> string" where
  "policy_rule_name i prefix = map_name i POLICY_RULE_TYPE_TAG prefix"

definition reverse_policy_rule :: "string \<Rightarrow> string \<Rightarrow> bool \<Rightarrow> fabric_error + string option" where
  "reverse_policy_rule nm prefix enforce = unmap_name nm POLICY_RULE_TYPE_TAG prefix enforce"

definition application_policy_group :: "string \<Rightarrow> string \<Rightarrow> string" where
  "application_policy_group i prefix = map_name i APPLICATION_POLICY_GROUP_TYPE_TAG prefix"

definition reverse_application_policy_group :: "string \<Rightarrow> string \<Rightarrow> bool \<Rightarrow> fabric_error + string option" where
  "reverse_application_policy_group nm prefix enforce = unmap_name nm APPLICATION_POLICY_GROUP_TYPE_TAG prefix enforce"

definition port_pair_group :: "string \<Rightarrow> string \<Rightarrow> string" where
  "port_pair_group i prefix = map_name i PORT_PAIR_GROUP_TYPE_TAG prefix"

definition reverse_port_pair_group :: "string \<Rightarrow> string \<Rightarrow> bool \<Rightarrow> fabric_error + string option" where
  "reverse_port_pair_group nm prefix enforce = unmap_name nm PORT_PAIR_GROUP_TYPE_TAG prefix enforce"

definition port_pair :: "string \<Rightarrow> string \<Rightarrow> string" where
  "port_pair i prefix = map_name i PORT_PAIR_TYPE_TAG prefix"

definition reverse_port_pair :: "string \<Rightarrow> string \<Rightarrow> bool \<Rightarrow> fabric_error + string option" where
  "reverse_port_pair nm prefix enforce = unmap_name nm PORT_PAIR_TYPE_TAG prefix enforce"

definition port_name_of :: "string \<Rightarrow> string \<Rightarrow> string" where
  "port_name_of i prefix = map_name i PORT_TYPE_TAG prefix"

definition reverse_port :: "string \<Rightarrow> string \<Rightarrow> bool \<Rightarrow> fabric_error + string option" where
  "reverse_port nm prefix enforce = unmap_name nm PORT_TYPE_TAG prefix enforce"

definition flow_classifier :: "string \<Rightarrow> string \<Rightarrow> string" where
  "flow_classifier i prefix = map_name i FLOW_CLASSIFIER_TYPE_TAG prefix"

definition reverse_flow_classifier :: "string \<Rightarrow> string \<Rightarrow> bool \<Rightarrow> fabric_error + string option" where
  "reverse_flow_classifier nm prefix enforce = unmap_name nm FLOW_CLASSIFIER_TYPE_TAG prefix enforce"

definition port_chain :: "string \<Rightarrow> string \<Rightarrow> string" where
  "port_chain i prefix = map_name i PORT_CHAIN_TYPE_TAG prefix"

definition reverse_port_chain :: "string \<Rightarrow> string \<Rightarrow> bool \<Rightarrow> fabric_error + string option" where
  "reverse_port_chain nm prefix enforce = unmap_name nm PORT_CHAIN_TYPE_TAG prefix enforce"

section \<open>Properties\<close>

lemma tag_no_underscore: "CHR ''_'' \<notin> set (type_tag k)"
  by (cases k) simp_all

lemma tag_inj: "type_tag k = type_tag l \<longleftrightarrow> k = l"
  by (cases k; cases l) simp_all

text \<open>Words without a separator are determined by what they are followed by.\<close>

lemma word_inj:
  assumes "c \<notin> set a" and "c \<notin> set b" and "a @ c # x = b @ c # y"
  shows "a = b \<and> x = y"
  using assms
proof (induction a arbitrary: b)
  case Nil
  then show ?case by (cases b) auto
next
  case (Cons u a)
  then show ?case by (cases b) auto
qed

lemma map_name_prefix: "map_name [] k prefix = take (length prefix + length (type_tag k) + 1) nm \<longleftrightarrow>
  (\<exists>i. nm = map_name i k prefix)"
proof
  assume eq: "map_name [] k prefix = take (length prefix + length (type_tag k) + 1) nm"
  have "nm = take (length prefix + length (type_tag k) + 1) nm @ drop (length prefix + length (type_tag k) + 1) nm" by simp
  then have "nm = map_name [] k prefix @ drop (length prefix + length (type_tag k) + 1) nm" unfolding eq .
  then show "\<exists>i. nm = map_name i k prefix" by (auto simp: map_name_def)
qed (auto simp: map_name_def)

text \<open>C35: Names of resources can be mapped back: a name of a type yields an ID exactly when it is the
  name of that ID under the same prefix, any other name is refused where the caller enforces it,
  and no two resources share a name, be it of one type or of two.\<close>

theorem apic_names_roundtrip:
  "(unmap_name nm k prefix enforce = Inr (Some i) \<longleftrightarrow> nm = map_name i k prefix) \<and>
   (isl (unmap_name nm k prefix enforce) \<longleftrightarrow> enforce \<and> (\<nexists>i. nm = map_name i k prefix)) \<and>
   (map_name i k prefix = map_name j l prefix \<longleftrightarrow> i = j \<and> k = l) \<and>
   (project_name i prefix = project_name j prefix \<longleftrightarrow> i = j)"
proof (intro conjI)
  have inj: "map_name i k prefix = map_name j l prefix \<longleftrightarrow> i = j \<and> k = l" for i j k l
    using word_inj[OF tag_no_underscore[of k] tag_no_underscore[of l], of i j] tag_inj[of k l]
    by (auto simp: map_name_def)
  then show "map_name i k prefix = map_name j l prefix \<longleftrightarrow> i = j \<and> k = l" .
  show "unmap_name nm k prefix enforce = Inr (Some i) \<longleftrightarrow> nm = map_name i k prefix"
    unfolding unmap_name_def Let_def map_name_prefix by (auto simp: inj) (simp add: map_name_def)+
  show "isl (unmap_name nm k prefix enforce) \<longleftrightarrow> enforce \<and> (\<nexists>i. nm = map_name i k prefix)"
    unfolding unmap_name_def Let_def map_name_prefix by auto
  have no: "map_name i k prefix \<noteq> ''common''" for i k
  proof
    assume "map_name i k prefix = ''common''"
    then have "CHR ''_'' \<in> set ''common''" by (metis map_name_def in_set_conv_decomp append_assoc append_Cons)
    then show False by simp
  qed
  show "project_name i prefix = project_name j prefix \<longleftrightarrow> i = j"
    using no[of i PROJECT_TYPE_TAG] no[of j PROJECT_TYPE_TAG] inj[of i PROJECT_TYPE_TAG j PROJECT_TYPE_TAG]
    by (simp only: project_name_def) (metis (full_types))
qed

end
