(* ===== verification/Endpoint_Details.thy ===== *)
theory Endpoint_Details
  imports Endpoint_Tables Apic_Names
begin

text \<open>
  The handler of the agents' requests (\<^verbatim>\<open>apic_aim/rpc.py\<close>): the loop that finds the port, checks the
  host and binds the port where it must, and the details that are built from what was queried.

  Sets and dictionaries are lists without duplicate elements or keys; the order in which a set is
  enumerated is that in which its elements were added, where the language leaves it open.  The
  prefixes of addresses are the address library's, binding a port is the core plugin's, and what the
  policy driver adds to a response is a function on it: parameters of the definitions.
\<close>

section \<open>Configuration and environment\<close>

record endpoint_config =
  ec_optimized_dhcp_lease_time :: int
  ec_enable_dhcp_opt :: bool
  ec_enable_metadata_opt :: bool
  ec_advertise_mtu :: bool
  ec_nested_host_vlan :: int
  ec_default_sg_name :: string

text \<open>A parsed prefix: its version, length and membership.\<close>

record ip_network =
  in_version :: int
  in_prefixlen :: int
  in_has :: "string \<Rightarrow> bool"

definition ipv4_any_cidr :: string where
  "ipv4_any_cidr = ''0.0.0.0/0''"

definition ipv4_metadata_cidr :: string where
  "ipv4_metadata_cidr = ''169.254.0.0/16''"

definition add_new :: "'a \<Rightarrow> 'a list \<Rightarrow> 'a list" where
  "add_new x xs = (if x \<in> set xs then xs else xs @ [x])"

section \<open>What was queried\<close>

record endpoint_info =
  ei_device :: string
  ei_port :: endpoint_port
  ei_ips :: "fixed_ip_info list"
  ei_bindings :: "binding_info list"
  ei_sgs :: "owned_row list"
  ei_qos :: "owned_row list"
  ei_dhcp_ips :: "dhcp_ip_info list"
  ei_aaps :: "aap_row list"
  ei_owned_ips :: "owned_ip_info list"
  ei_ext_nets :: "(string \<times> ext_net_info) list"
  ei_active_active_aap :: bool
  ei_fips :: "fip_row list"
  ei_snats :: "(string \<times> snat_info) list"
  ei_trunk :: "trunk_info list"
  ei_dhcp_opts :: "(string \<times> string) list"
  ei_nested_domain_allowed_vlans :: "int list"
  ei_vrf_subnets :: "string list"

section \<open>Details of the port\<close>

text \<open>The first row of each address.\<close>

definition build_fixed_ips :: "endpoint_info \<Rightarrow> (string \<times> string) list" where
  "build_fixed_ips info =
     fold (\<lambda>i acc. if fi_ip_address i \<in> set (map fst acc) then acc else acc @ [(fi_ip_address i, fi_subnet_id i)])
       (ei_ips info) []"

record neutron_details =
  nd_admin_state_up :: bool
  nd_device_owner :: string
  nd_fixed_ips :: "(string \<times> string) list"
  nd_network_id :: string
  nd_network_type :: string
  nd_physical_network :: "string option"
  nd_segmentation_id :: "int option"
  nd_port_id :: string

definition build_endpoint_neutron_details :: "endpoint_info \<Rightarrow> fabric_error + neutron_details" where
  "build_endpoint_neutron_details info =
     (let p = ei_port info in
      if ei_bindings info = [] then Inl IndexError
      else let b = List.last (ei_bindings info)
        in Inr \<lparr> nd_admin_state_up = pi_admin_state_up p, nd_device_owner = pi_device_owner p,
             nd_fixed_ips = build_fixed_ips info, nd_network_id = pi_network_id p, nd_network_type = bi_network_type b,
             nd_physical_network = bi_physical_network b, nd_segmentation_id = bi_segmentation_id b,
             nd_port_id = pi_port_id p \<rparr>)"

section \<open>Allowed address pairs\<close>

record aap_detail =
  aa_ip_address :: string
  aa_mac_address :: string
  aa_active :: bool

text \<open>
  The dictionary of pairs by address.  Whether an owned address lies in a prefix is a total test here;
  the library would raise for an owned address that it cannot parse, and that exception is left out.
\<close>

type_synonym aap_dict = "(string \<times> aap_detail) list"

definition owned_ips :: "endpoint_info \<Rightarrow> string list" where
  "owned_ips info = (if ei_active_active_aap info then [] else remdups (map oi_ip_address (ei_owned_ips info)))"

definition whole_address :: "ip_network \<Rightarrow> bool" where
  "whole_address n \<longleftrightarrow> \<not> ((in_version n = 4 \<and> in_prefixlen n \<noteq> 32) \<or> (in_version n = 6 \<and> in_prefixlen n \<noteq> 128))"

definition add_aap :: "(string \<Rightarrow> fabric_error + ip_network) \<Rightarrow> string list \<Rightarrow> aap_row \<Rightarrow> aap_dict \<Rightarrow> fabric_error + aap_dict" where
  "add_aap parse owned a d =
     (let ip = ap_ip a; d1 = AList.update ip \<lparr> aa_ip_address = ip, aa_mac_address = ap_mac a, aa_active = False \<rparr> d
      in bindE (parse ip) (\<lambda>n.
         if \<not> whole_address n then
           Inr (fold (\<lambda>o' d. if in_has n o' \<and> o' \<notin> fst ` set d
              then AList.update o' \<lparr> aa_ip_address = o', aa_mac_address = ap_mac a, aa_active = True \<rparr> d else d) owned d1)
         else if ip \<in> set owned then
           Inr (AList.update ip \<lparr> aa_ip_address = ip, aa_mac_address = ap_mac a, aa_active = True \<rparr> d1)
         else Inr d1))"

definition build_aaps :: "(string \<Rightarrow> fabric_error + ip_network) \<Rightarrow> endpoint_info \<Rightarrow> fabric_error + aap_detail list" where
  "build_aaps parse info = bindE (foldE (add_aap parse (owned_ips info)) (ei_aaps info) []) (\<lambda>d. Inr (map snd d))"

section \<open>Floating addresses\<close>

record nat_epg =
  ne_app_profile :: "string option"
  ne_name :: "string option"
  ne_tenant :: "string option"

record fip_detail =
  fd_id :: string
  fd_fixed_ip_address :: "string option"
  fd_floating_ip_address :: string
  fd_nat :: "(nat_epg \<times> string) option"

definition distributed :: "ext_net_info \<Rightarrow> bool" where
  "distributed e \<longleftrightarrow> truthy (en_external_network_dn e) \<and> en_nat_type e = Some ''distributed''"

definition nat_epg_of :: "ext_net_info \<Rightarrow> nat_epg" where
  "nat_epg_of e = \<lparr> ne_app_profile = en_epg_app_profile_name e, ne_name = en_epg_name e, ne_tenant = en_epg_tenant_name e \<rparr>"

definition build_fips :: "endpoint_info \<Rightarrow> fip_detail list" where
  "build_fips info =
     map (\<lambda>f. \<lparr> fd_id = fp_id f, fd_fixed_ip_address = fp_fixed_ip f, fd_floating_ip_address = fp_address f,
         fd_nat = (case map_of (ei_ext_nets info) (fp_network_id f) of
            None \<Rightarrow> None
          | Some e \<Rightarrow> if distributed e then Some (nat_epg_of e, fp_network_id f) else None) \<rparr>) (ei_fips info)"

section \<open>SNAT addresses\<close>

datatype snat_kind = HostSnat snat_ip_info | DistributedSnat dist_snat_info

record host_snat =
  hs_info :: snat_kind
  hs_ext_net_id :: string
  hs_external_segment_name :: string

definition replace_char :: "char \<Rightarrow> char \<Rightarrow> string \<Rightarrow> string" where
  "replace_char a b s = map (\<lambda>c. if c = a then b else c) s"

text \<open>\<^verbatim>\<open>external_network_dn.replace('/', ':')\<close>.\<close>

definition segment_name :: "ext_net_info \<Rightarrow> fabric_error + string" where
  "segment_name e =
     (case en_external_network_dn e of None \<Rightarrow> Inl AttributeError | Some dn \<Rightarrow> Inr (replace_char CHR ''/'' CHR '':'' dn))"

text \<open>An address of the endpoint has no floating address on the external network.\<close>

definition need_snat :: "fip_detail list \<Rightarrow> string list \<Rightarrow> string \<Rightarrow> bool" where
  "need_snat fips ips net =
     list_ex (\<lambda>ip. \<not> list_ex (\<lambda>f. fd_fixed_ip_address f = Some ip \<and> map_option snd (fd_nat f) = Some net) fips) ips"

record snat_env =
  se_core :: core_plugin
  se_others :: "nat \<Rightarrow> snat_mapping list \<Rightarrow> snat_mapping list"

text \<open>One external network: its SNAT information, or none.\<close>

definition snat_for_network ::
  "snat_env \<Rightarrow> string \<Rightarrow> string list \<Rightarrow> (string \<times> snat_info) list \<Rightarrow> ext_net_info \<Rightarrow> ext_db \<Rightarrow>
   ((fabric_error + snat_kind option) \<times> ext_db) option" where
  "snat_for_network env host routed snats e xdb =
     (case get_or_allocate_distributed_snat_ip (se_core env) host (en_network_id e) (en_project_id e) routed (se_others env) xdb of
        None \<Rightarrow> None
      | Some (Inl er, x) \<Rightarrow> Some (Inl er, x)
      | Some (Inr (DistSnat i), x) \<Rightarrow> Some (Inr (Some (DistributedSnat i)), x)
      | Some (Inr NoDistSnatRange, x) \<Rightarrow> Some (Inr None, x)
      | Some (Inr NoDistSnat, x) \<Rightarrow>
          (case map_of snats (en_network_id e) of
             Some s \<Rightarrow>
               (case prefix_length (sn_cidr s) of
                  Inl er \<Rightarrow> Some (Inl er, x)
                | Inr n \<Rightarrow> Some (Inr (Some (HostSnat \<lparr> si_host_snat_ip = sn_ip_address s, si_host_snat_mac = sn_mac_address s,
                    si_gateway_ip = sn_gateway_ip s, si_prefixlen = n \<rparr>)), x))
           | None \<Rightarrow>
               (case get_or_allocate_snat_ip (se_core env) host (en_network_id e) (en_project_id e) x of
                  (Inl er, y) \<Rightarrow> Some (Inl er, y)
                | (Inr i, y) \<Rightarrow> Some (Inr (map_option HostSnat i), y))))"

fun snats_for_networks ::
  "snat_env \<Rightarrow> string \<Rightarrow> string list \<Rightarrow> (string \<times> snat_info) list \<Rightarrow> fip_detail list \<Rightarrow> string list \<Rightarrow> ext_net_info list \<Rightarrow>
   ext_db \<Rightarrow> ((fabric_error + host_snat list) \<times> ext_db) option" where
  "snats_for_networks env host routed snats fips ips [] xdb = Some (Inr [], xdb)"
| "snats_for_networks env host routed snats fips ips (e # es) xdb =
     (if \<not> need_snat fips ips (en_network_id e) then snats_for_networks env host routed snats fips ips es xdb
      else case snat_for_network env host routed snats e xdb of
        None \<Rightarrow> None
      | Some (Inl er, x) \<Rightarrow> Some (Inl er, x)
      | Some (Inr None, x) \<Rightarrow> snats_for_networks env host routed snats fips ips es x
      | Some (Inr (Some i), x) \<Rightarrow>
          (case segment_name e of
             Inl er \<Rightarrow> Some (Inl er, x)
           | Inr s \<Rightarrow>
               (case snats_for_networks env host routed snats fips ips es x of
                  None \<Rightarrow> None
                | Some (Inl er, y) \<Rightarrow> Some (Inl er, y)
                | Some (Inr hs, y) \<Rightarrow>
                    Some (Inr (\<lparr> hs_info = i, hs_ext_net_id = en_network_id e, hs_external_segment_name = s \<rparr> # hs), y))))"

definition build_host_snat_ips ::
  "snat_env \<Rightarrow> endpoint_info \<Rightarrow> fip_detail list \<Rightarrow> aap_detail list \<Rightarrow> neutron_details \<Rightarrow> ext_db \<Rightarrow>
   ((fabric_error + host_snat list) \<times> ext_db) option" where
  "build_host_snat_ips env info fips aaps neutron xdb =
     snats_for_networks env (the (pi_host (ei_port info)))
       (remdups (filter (\<lambda>s. s \<noteq> []) (map fi_subnet_id (ei_ips info)))) (ei_snats info) fips
       (map fst (nd_fixed_ips neutron) @ map aa_ip_address (filter aa_active aaps))
       (map snd (ei_ext_nets info)) xdb"

definition get_interface_mtu :: "endpoint_config \<Rightarrow> endpoint_info \<Rightarrow> int option" where
  "get_interface_mtu cfg info =
     (if \<not> ec_advertise_mtu cfg then None
      else let opts = ei_dhcp_opts info;
               v = (if truthy (map_of opts ''interface-mtu'') then map_of opts ''interface-mtu'' else map_of opts ''26'')
        in case (if truthy v then py_int (the v) else None) of
             Some n \<Rightarrow> Some n
           | None \<Rightarrow> pi_net_mtu (ei_port info))"

definition build_ipms :: "endpoint_info \<Rightarrow> host_snat list \<Rightarrow> (string \<times> nat_epg) list" where
  "build_ipms info snats =
     map (\<lambda>e. (replace_char CHR ''/'' CHR '':'' (the (en_external_network_dn e)), nat_epg_of e))
       (filter (\<lambda>e. distributed e \<and> en_network_id e \<in> set (map hs_ext_net_id snats)) (map snd (ei_ext_nets info)))"

definition ends_with :: "string \<Rightarrow> string \<Rightarrow> bool" where
  "ends_with suffix s \<longleftrightarrow> starts_with (rev suffix) (rev s)"

definition get_promiscuous_mode :: "endpoint_info \<Rightarrow> bool" where
  "get_promiscuous_mode info \<longleftrightarrow>
     (let p = ei_port info
      in pi_device_owner p = device_owner_dhcp \<or> ends_with ''promiscuous'' (pi_port_name p) \<or> pi_psec_enabled p = Some False)"

text \<open>A policy space and a name.\<close>

definition build_sg_details :: "endpoint_config \<Rightarrow> endpoint_info \<Rightarrow> (string \<times> string) list" where
  "build_sg_details cfg info =
     map (\<lambda>g. (project_name (ow_project_id g) [], ow_id g)) (ei_sgs info) @ [(''common'', ec_default_sg_name cfg)]"

definition build_qos_details :: "endpoint_info \<Rightarrow> string \<times> string" where
  "build_qos_details info = hd (map (\<lambda>q. (project_name (ow_project_id q) [], ow_id q)) (ei_qos info))"

section \<open>Subnets\<close>

record subnet_detail =
  sd_cidr :: string
  sd_enable_dhcp :: bool
  sd_gateway_ip :: "string option"
  sd_id :: string
  sd_ip_version :: int
  sd_dhcp_server_ips :: "string list"
  sd_dhcp_server_ports :: "(string \<times> string list) list"
  sd_dns_nameservers :: "string list"
  sd_host_routes :: "(string \<times> string option) list"

text \<open>The rows that determine the subnets: the first of each subnet.\<close>

fun first_rows :: "fixed_ip_info list \<Rightarrow> string list \<Rightarrow> fixed_ip_info list" where
  "first_rows [] seen = []"
| "first_rows (i # is) seen =
     (if fi_subnet_id i \<in> set seen then first_rows is seen else i # first_rows is (fi_subnet_id i # seen))"

definition subnet_dns_nameservers :: "fixed_ip_info list \<Rightarrow> string \<Rightarrow> string list" where
  "subnet_dns_nameservers ips s =
     fold (\<lambda>i acc. if fi_subnet_id i = s \<and> truthy (fi_dns_nameserver i) then add_new (the (fi_dns_nameserver i)) acc else acc) ips []"

definition subnet_routes :: "fixed_ip_info list \<Rightarrow> string \<Rightarrow> (string \<times> string option) list" where
  "subnet_routes ips s =
     fold (\<lambda>i acc. if fi_subnet_id i = s \<and> truthy (fi_route_destination i)
       then add_new (the (fi_route_destination i), fi_route_nexthop i) acc else acc) ips []"

text \<open>The addresses of each agent's port, by its MAC address.\<close>

definition dhcp_ports_of :: "dhcp_ip_info list \<Rightarrow> (string \<times> string list) list" where
  "dhcp_ports_of is =
     fold (\<lambda>i d. AList.update (di_mac_address i)
       ((case map_of d (di_mac_address i) of None \<Rightarrow> [] | Some xs \<Rightarrow> xs) @ [di_ip_address i]) d) is []"

text \<open>The routes of an IPv4 subnet: the gateway and the first agent's addresses where no route is given.\<close>

definition complete_routes ::
  "endpoint_config \<Rightarrow> string option \<Rightarrow> (string \<times> string list) list \<Rightarrow> (string \<times> string option) list \<Rightarrow> (string \<times> string option) list" where
  "complete_routes cfg gateway_ip dhcp_ports routes =
     (let default_routes = filter (\<lambda>r. fst r = ipv4_any_cidr) routes;
          metadata_routes = filter (\<lambda>r. fst r = ipv4_metadata_cidr) routes;
          routes1 = (if default_routes = [] \<and> truthy gateway_ip then add_new (ipv4_any_cidr, gateway_ip) routes else routes)
      in if metadata_routes = [] \<and> dhcp_ports \<noteq> [] \<and>
            (\<not> ec_enable_metadata_opt cfg \<or> (ec_enable_metadata_opt cfg \<and> default_routes = []))
         then fold (\<lambda>ip. add_new (ipv4_metadata_cidr, Some ip)) (snd (hd dhcp_ports)) routes1
         else routes1)"

definition subnet_detail_of :: "endpoint_config \<Rightarrow> endpoint_info \<Rightarrow> fixed_ip_info \<Rightarrow> subnet_detail" where
  "subnet_detail_of cfg info i =
     (let s = fi_subnet_id i;
          agents = filter (\<lambda>d. di_subnet_id d = s) (ei_dhcp_ips info);
          dhcp_ips = remdups (map di_ip_address agents);
          dhcp_ports = dhcp_ports_of agents;
          dns = subnet_dns_nameservers (ei_ips info) s;
          routes = subnet_routes (ei_ips info) s
      in \<lparr> sd_cidr = fi_cidr i, sd_enable_dhcp = fi_enable_dhcp i, sd_gateway_ip = fi_gateway_ip i, sd_id = s,
           sd_ip_version = fi_ip_version i, sd_dhcp_server_ips = dhcp_ips, sd_dhcp_server_ports = dhcp_ports,
           sd_dns_nameservers = (if dns \<noteq> [] then dns else dhcp_ips),
           sd_host_routes = (if fi_ip_version i = 4 then complete_routes cfg (fi_gateway_ip i) dhcp_ports routes else routes) \<rparr>)"

definition build_subnet_details :: "endpoint_config \<Rightarrow> endpoint_info \<Rightarrow> subnet_detail list" where
  "build_subnet_details cfg info = map (subnet_detail_of cfg info) (first_rows (ei_ips info) [])"

end
