(* ===== verification/Endpoint_Rpc.thy ===== *)
theory Endpoint_Rpc
  imports Endpoint_Details Validators
begin

text \<open>
  The response to an agent and the handlers of its calls (\<^verbatim>\<open>apic_aim/rpc.py\<close>).  The loop that reads
  the endpoint's state ends when the port is bound to the host that asks; else it binds the port and
  reads again, so it may run for ever where binding succeeds and the tables do not show it.
\<close>

section \<open>Details of the policy\<close>

record gbp_details =
  gd_allowed_address_pairs :: "aap_detail list"
  gd_active_active_aap :: bool
  gd_app_profile_name :: "string option"
  gd_device :: string
  gd_dhcp_lease_time :: "int option"
  gd_dns_domain :: string
  gd_enable_dhcp_optimization :: bool
  gd_enable_metadata_optimization :: bool
  gd_endpoint_group_name :: "string option"
  gd_svi :: bool
  gd_floating_ip :: "fip_detail list"
  gd_host :: "string option"
  gd_host_snat_ips :: "host_snat list"
  gd_interface_mtu :: "int option"
  gd_ip_mapping :: "(string \<times> nat_epg) list"
  gd_l3_policy_id :: string
  gd_mac_address :: string
  gd_nested_domain_allowed_vlans :: "int list"
  gd_nested_domain_infra_vlan :: "int option"
  gd_nested_domain_name :: "string option"
  gd_nested_domain_node_network_vlan :: "int option"
  gd_nested_domain_service_vlan :: "int option"
  gd_nested_domain_type :: "string option"
  gd_nested_host_vlan :: "int option"
  gd_port_id :: string
  gd_promiscuous_mode :: bool
  gd_ptg_tenant :: "string option"
  gd_security_group :: "(string \<times> string) list option"
  gd_qos_policy :: "(string \<times> string) option"
  gd_subnets :: "subnet_detail list"
  gd_vm_name :: string
  gd_vrf_name :: "string option"
  gd_vrf_subnets :: "string list"
  gd_vrf_tenant :: "string option"

text \<open>\<^verbatim>\<open>s.rstrip('.')\<close> and \<^verbatim>\<open>'%s' % x\<close>.\<close>

definition rstrip_dots :: "string \<Rightarrow> string" where
  "rstrip_dots s = rev (dropWhile (\<lambda>c. c = CHR ''.'') (rev s))"

definition py_str_option :: "string option \<Rightarrow> string" where
  "py_str_option x = (case x of None \<Rightarrow> ''None'' | Some s \<Rightarrow> s)"

definition truthy_int :: "int option \<Rightarrow> bool" where
  "truthy_int x = (case x of None \<Rightarrow> False | Some n \<Rightarrow> n \<noteq> 0)"

text \<open>
  Security groups are left out for a port of a legacy virtual machine; \<open>loads\<close> parses the details of
  its interface.
\<close>

definition legacy_port :: "(string \<Rightarrow> fabric_error + pyval) \<Rightarrow> string option \<Rightarrow> fabric_error + bool" where
  "legacy_port loads vif_details =
     (if \<not> truthy vif_details then Inr False
      else bindE (loads (the vif_details)) (\<lambda>d.
        let flag = (\<lambda>k. case py_get d k of None \<Rightarrow> False | Some v \<Rightarrow> py_truthy v)
        in Inr (py_truthy d \<and> flag ''port_filter'' \<and> flag ''ovs_hybrid_plug'')))"

text \<open>The parameters of the handler.\<close>

record rpc_env =
  re_config :: endpoint_config
  re_snat :: snat_env
  re_parse :: "string \<Rightarrow> fabric_error + ip_network"
  re_loads :: "string \<Rightarrow> fabric_error + pyval"
  re_device_to_port_id :: "string \<Rightarrow> string"
  re_bind :: "string \<Rightarrow> string \<Rightarrow> endpoint_db \<Rightarrow> (fabric_error + string) \<times> endpoint_db"

definition build_endpoint_gbp_details ::
  "rpc_env \<Rightarrow> endpoint_info \<Rightarrow> neutron_details \<Rightarrow> endpoint_db \<Rightarrow> ((fabric_error + gbp_details) \<times> endpoint_db) option" where
  "build_endpoint_gbp_details env info neutron db =
     (let p = ei_port info; cfg = re_config env; fips = build_fips info
      in case build_aaps (re_parse env) info of
        Inl e \<Rightarrow> Some (Inl e, db)
      | Inr aaps \<Rightarrow>
      (case build_host_snat_ips (re_snat env) info fips aaps neutron (ed_ext db) of
        None \<Rightarrow> None
      | Some (Inl e, x) \<Rightarrow> Some (Inl e, db\<lparr> ed_ext := x \<rparr>)
      | Some (Inr snats, x) \<Rightarrow>
      (let mtu = get_interface_mtu cfg info;
           svi = pi_svi p = Some True
       in Some (bindE (if ei_sgs info = [] then Inr None
                 else bindE (legacy_port (re_loads env) (pi_vif_details p)) (\<lambda>legacy.
                   Inr (if legacy then None else Some (build_sg_details cfg info)))) (\<lambda>sgs.
        Inr \<lparr> gd_allowed_address_pairs = aaps, gd_active_active_aap = ei_active_active_aap info,
          gd_app_profile_name = pi_epg_app_profile_name p, gd_device = ei_device info,
          gd_dhcp_lease_time =
            (if ec_optimized_dhcp_lease_time cfg > 0 then Some (ec_optimized_dhcp_lease_time cfg) else None),
          gd_dns_domain = rstrip_dots (if truthy (pi_net_dns_domain p) then the (pi_net_dns_domain p) else []),
          gd_enable_dhcp_optimization = ec_enable_dhcp_opt cfg,
          gd_enable_metadata_optimization = ec_enable_metadata_opt cfg,
          gd_endpoint_group_name = (if svi then Some (pi_network_id p) else pi_epg_name p), gd_svi = svi,
          gd_floating_ip = fips, gd_host = pi_host p, gd_host_snat_ips = snats,
          gd_interface_mtu = (if truthy_int mtu then mtu else None),
          gd_ip_mapping = build_ipms info snats,
          gd_l3_policy_id = py_str_option (pi_vrf_tenant_name p) @ '' '' @ py_str_option (pi_vrf_name p),
          gd_mac_address = pi_mac_address p, gd_nested_domain_allowed_vlans = ei_nested_domain_allowed_vlans info,
          gd_nested_domain_infra_vlan = pi_nested_domain_infra_vlan p, gd_nested_domain_name = pi_nested_domain_name p,
          gd_nested_domain_node_network_vlan = pi_nested_domain_node_network_vlan p,
          gd_nested_domain_service_vlan = pi_nested_domain_service_vlan p,
          gd_nested_domain_type = pi_nested_domain_type p,
          gd_nested_host_vlan = (if truthy_int (pi_nested_domain_infra_vlan p) then Some (ec_nested_host_vlan cfg) else None),
          gd_port_id = pi_port_id p, gd_promiscuous_mode = get_promiscuous_mode info, gd_ptg_tenant = pi_epg_tenant_name p,
          gd_security_group = sgs,
          gd_qos_policy = (if ei_qos info = [] then None else Some (build_qos_details info)),
          gd_subnets = build_subnet_details cfg info,
          gd_vm_name = (if starts_with device_owner_compute_prefix (pi_device_owner p) \<and> truthy (pi_vm_name p)
             then the (pi_vm_name p) else pi_device_id p),
          gd_vrf_name = pi_vrf_name p, gd_vrf_subnets = ei_vrf_subnets info, gd_vrf_tenant = pi_vrf_tenant_name p \<rparr>),
        db\<lparr> ed_ext := x \<rparr>))))"

record trunk_details =
  td_trunk_id :: "string option"
  td_master_port_id :: string
  td_subports :: "(string \<times> string option \<times> int option) list"

definition either :: "string option \<Rightarrow> string option \<Rightarrow> string option" where
  "either a b = (if truthy a then a else b)"

definition build_endpoint_trunk_details :: "endpoint_info \<Rightarrow> trunk_details option" where
  "build_endpoint_trunk_details info =
     (case ei_trunk info of
        [] \<Rightarrow> None
      | t # _ \<Rightarrow> Some \<lparr> td_trunk_id = either (pi_trunk_id (ei_port info)) (pi_subport_trunk_id (ei_port info)),
          td_master_port_id = ti_master_port_id t,
          td_subports = [(p, ti_segmentation_type u, ti_segmentation_id u).
            u \<leftarrow> ei_trunk info, p \<leftarrow> (case ti_subport_port_id u of None \<Rightarrow> [] | Some p \<Rightarrow> [p])] \<rparr>)"

section \<open>Reading the endpoint's state\<close>

definition vif_type_unbound :: string where
  "vif_type_unbound = ''unbound''"

definition vif_type_binding_failed :: string where
  "vif_type_binding_failed = ''binding_failed''"

definition port_status_active :: string where
  "port_status_active = ''ACTIVE''"

text \<open>\<^verbatim>\<open>for port in port_infos[::-1]: if ...: port_infos.remove(port)\<close>, where there are several.\<close>

definition ports_on_host :: "string \<Rightarrow> endpoint_port list \<Rightarrow> endpoint_port list" where
  "ports_on_host host ps =
     (if length ps > 1 then
        fold (\<lambda>p acc. if pi_host p \<noteq> Some host \<or> pi_status p \<noteq> Some port_status_active then remove1 p acc else acc) (rev ps) ps
      else ps)"

definition neutron_internal_port :: "string \<Rightarrow> bool" where
  "neutron_internal_port owner \<longleftrightarrow> owner \<in> {device_owner_router_intf, device_owner_router_gw}"

definition collect_endpoint :: "string \<Rightarrow> string \<Rightarrow> endpoint_port \<Rightarrow> endpoint_db \<Rightarrow> endpoint_info" where
  "collect_endpoint device host p db =
     (let i = pi_port_id p; net = pi_network_id p;
          ips = query_endpoint_fixed_ip_info i db;
          subnets = remdups (map fi_subnet_id ips);
          owned = query_endpoint_haip_owned_ip_info i net db;
          ext_nets = query_endpoint_ext_net_info subnets db;
          trunk = either (pi_trunk_id p) (pi_subport_trunk_id p)
      in \<lparr> ei_device = device, ei_port = p, ei_ips = ips, ei_bindings = query_endpoint_binding_info i db,
           ei_sgs = query_endpoint_sg_info i db,
           ei_qos = (if neutron_internal_port (pi_device_owner p) then [] else query_endpoint_qos_info i db),
           ei_dhcp_ips = query_endpoint_dhcp_ip_info net db, ei_aaps = query_endpoint_aap_info i db,
           ei_owned_ips = owned, ei_ext_nets = ext_nets,
           ei_active_active_aap = query_active_active_aap subnets db,
           ei_fips = query_endpoint_fip_info (i # List.map_filter oi_actual_port_id owned) db,
           ei_snats = query_endpoint_snat_info host (map fst ext_nets) db,
           ei_trunk = (if truthy trunk then query_endpoint_trunk_info (the trunk) db else []),
           ei_dhcp_opts = query_endpoint_extra_dhcp_opts i db,
           ei_nested_domain_allowed_vlans = query_endpoint_nested_domain_allowed_vlans net db,
           ei_vrf_subnets = query_vrf_subnets (pi_vrf_tenant_name p) (pi_vrf_name p) ext_nets db \<rparr>)"

datatype read_step = Nothing | Unbound | Collected endpoint_info

definition read_endpoint :: "string \<Rightarrow> string \<Rightarrow> string \<Rightarrow> endpoint_db \<Rightarrow> read_step" where
  "read_endpoint device host pid db =
     (case ports_on_host host (query_endpoint_port_info pid db) of
        [] \<Rightarrow> Nothing
      | p # _ \<Rightarrow>
          if pi_vif_type p \<in> {Some vif_type_unbound, Some vif_type_binding_failed} then Unbound
          else if pi_host p \<noteq> Some host then Nothing
          else Collected (collect_endpoint device host p db))"

text \<open>No information, or that of the port; the outer \<open>None\<close> is a loop that never ends.\<close>

partial_function (option) endpoint_loop ::
  "rpc_env \<Rightarrow> string \<Rightarrow> string \<Rightarrow> endpoint_db \<Rightarrow> ((fabric_error + endpoint_info option) \<times> endpoint_db) option" where
  "endpoint_loop env device host db =
     (let pid = re_device_to_port_id env device in
      case read_endpoint device host pid db of
        Nothing \<Rightarrow> Some (Inr None, db)
      | Collected info \<Rightarrow> Some (Inr (Some info), db)
      | Unbound \<Rightarrow>
          (case re_bind env pid host db of
             (Inl e, db') \<Rightarrow> Some (Inl e, db')
           | (Inr vif, db') \<Rightarrow>
               if vif = vif_type_unbound \<or> vif = vif_type_binding_failed then Some (Inr None, db')
               else endpoint_loop env device host db'))"

declare endpoint_loop.simps [code]

section \<open>The response\<close>

record rpc_response =
  rr_device :: string
  rr_request_id :: "string option"
  rr_timestamp :: "string option"
  rr_neutron_details :: "neutron_details option"
  rr_gbp_details :: "gbp_details option"
  rr_trunk_details :: "trunk_details option"

record rpc_request =
  rq_device :: "string option"
  rq_request_id :: "string option"
  rq_timestamp :: "string option"

definition empty_response :: "string \<Rightarrow> rpc_request \<Rightarrow> rpc_response" where
  "empty_response device req =
     \<lparr> rr_device = device, rr_request_id = rq_request_id req, rr_timestamp = rq_timestamp req,
       rr_neutron_details = None, rr_gbp_details = None, rr_trunk_details = None \<rparr>"

text \<open>\<open>driver\<close> is what the policy driver adds, where there is one.\<close>

definition request_endpoint_details_body ::
  "rpc_env \<Rightarrow> (endpoint_info \<Rightarrow> endpoint_db \<Rightarrow> rpc_response \<Rightarrow> rpc_response) option \<Rightarrow> string \<Rightarrow> rpc_request \<Rightarrow> string \<Rightarrow>
   endpoint_db \<Rightarrow> ((fabric_error + rpc_response) \<times> endpoint_db) option" where
  "request_endpoint_details_body env driver device req host db =
     (case endpoint_loop env device host db of
        None \<Rightarrow> None
      | Some (Inl e, db1) \<Rightarrow> Some (Inl e, db1)
      | Some (Inr None, db1) \<Rightarrow> Some (Inr (empty_response device req), db1)
      | Some (Inr (Some info), db1) \<Rightarrow>
          (case build_endpoint_neutron_details info of
             Inl e \<Rightarrow> Some (Inl e, db1)
           | Inr neutron \<Rightarrow>
               (case build_endpoint_gbp_details env info neutron db1 of
                  None \<Rightarrow> None
                | Some (Inl e, db2) \<Rightarrow> Some (Inl e, db2)
                | Some (Inr gbp, db2) \<Rightarrow>
                    (let r = (empty_response device req)\<lparr> rr_neutron_details := Some neutron, rr_gbp_details := Some gbp,
                       rr_trunk_details := build_endpoint_trunk_details info \<rparr>
                     in Some (Inr (case driver of None \<Rightarrow> r | Some f \<Rightarrow> f info db1 r), db2)))))"

section \<open>Handlers\<close>

text \<open>No reply, the device alone after an exception, or the response.\<close>

datatype rpc_reply = NoReply | DeviceReply string | Reply rpc_response

definition request_endpoint_details ::
  "rpc_env \<Rightarrow> (endpoint_info \<Rightarrow> endpoint_db \<Rightarrow> rpc_response \<Rightarrow> rpc_response) option \<Rightarrow> rpc_request option \<Rightarrow> string option \<Rightarrow>
   endpoint_db \<Rightarrow> (rpc_reply \<times> endpoint_db) option" where
  "request_endpoint_details env driver req host db =
     (case req of
        None \<Rightarrow> Some (NoReply, db)
      | Some r \<Rightarrow>
          if \<not> truthy (rq_device r) then Some (NoReply, db)
          else if \<not> truthy host then Some (NoReply, db)
          else case request_endpoint_details_body env driver (the (rq_device r)) r (the host) db of
            None \<Rightarrow> None
          | Some (Inl e, db') \<Rightarrow> Some (DeviceReply (the (rq_device r)), db')
          | Some (Inr x, db') \<Rightarrow> Some (Reply x, db'))"

text \<open>The older call: the policy details where there are any.\<close>

datatype gbp_reply = GbpDetails gbp_details | GbpReply rpc_reply

definition get_gbp_details ::
  "rpc_env \<Rightarrow> (endpoint_info \<Rightarrow> endpoint_db \<Rightarrow> rpc_response \<Rightarrow> rpc_response) option \<Rightarrow> string option \<Rightarrow> string option \<Rightarrow>
   endpoint_db \<Rightarrow> ((fabric_error + gbp_reply) \<times> endpoint_db) option" where
  "get_gbp_details env driver device host db =
     (case request_endpoint_details env driver
         (Some \<lparr> rq_device = device, rq_request_id = None, rq_timestamp = None \<rparr>) host db of
        None \<Rightarrow> None
      | Some (NoReply, db') \<Rightarrow> Some (Inl AttributeError, db')
      | Some (DeviceReply d, db') \<Rightarrow> Some (Inr (GbpReply (DeviceReply d)), db')
      | Some (Reply r, db') \<Rightarrow>
          Some (Inr (case rr_gbp_details r of None \<Rightarrow> GbpReply (Reply r) | Some g \<Rightarrow> GbpDetails g), db'))"

record vrf_details =
  vd_l3_policy_id :: string
  vd_vrf_tenant :: string
  vd_vrf_name :: string
  vd_vrf_subnets :: "string list"

datatype vrf_reply = NoVrfReply | VrfIdReply string | VrfReply vrf_details

definition vrf_details_body :: "string \<Rightarrow> endpoint_db \<Rightarrow> fabric_error + vrf_details" where
  "vrf_details_body vrf_id db =
     (case py_split CHR '' '' vrf_id of
        [tenant, name] \<Rightarrow> Inr \<lparr> vd_l3_policy_id = vrf_id, vd_vrf_tenant = tenant, vd_vrf_name = name,
          vd_vrf_subnets = query_vrf_subnets (Some tenant) (Some name) [] db \<rparr>
      | _ \<Rightarrow> Inl ValueError)"

definition get_vrf_details :: "string option \<Rightarrow> endpoint_db \<Rightarrow> vrf_reply" where
  "get_vrf_details vrf_id db =
     (if \<not> truthy vrf_id then NoVrfReply
      else case vrf_details_body (the vrf_id) db of
        Inl e \<Rightarrow> VrfIdReply (the vrf_id)
      | Inr d \<Rightarrow> VrfReply d)"

definition request_vrf_details :: "string option \<Rightarrow> endpoint_db \<Rightarrow> vrf_reply" where
  "request_vrf_details vrf_id db = get_vrf_details vrf_id db"

text \<open>The ports to notify after a change of the owner of an address.\<close>

definition ip_address_owner_update ::
  "(string \<Rightarrow> fabric_error + string) \<Rightarrow> ip_owner_info option \<Rightarrow> owner_db \<Rightarrow> fabric_error + (string list \<times> owner_db)" where
  "ip_address_owner_update get_port info db =
     (case info of None \<Rightarrow> Inr ([], db) | Some i \<Rightarrow> update_ip_owner get_port i db)"

end
