(* ===== verification/Endpoint_Laws.thy ===== *)
theory Endpoint_Laws
  imports Endpoint_Rpc
begin

text \<open>
  What an agent is told: details of a port only where the port is bound to the agent's host; the
  subnets with their routes and name servers; the allowed address pairs with those that are active;
  and which addresses count as owned by the port.
\<close>

section \<open>Only the bound host\<close>

lemma remove1_all: "fold (\<lambda>p acc. if P p then remove1 p acc else acc) ps (xs @ filter P ps) = xs"
  if "\<And>p. p \<in> set xs \<Longrightarrow> \<not> P p" for P :: "'a \<Rightarrow> bool" and xs ps
proof (induction ps)
  case (Cons p ps)
  then show ?case using that[of p] by (auto simp: remove1_append)
qed simp

lemma remove_some_sub: "set (fold (\<lambda>p acc. if P p then remove1 p acc else acc) qs ps) \<subseteq> set ps"
proof (induction qs arbitrary: ps)
  case (Cons q qs)
  have "set (if P q then remove1 q ps else ps) \<subseteq> set ps" using set_remove1_subset[of q ps] by simp
  with Cons[of "if P q then remove1 q ps else ps"] show ?case by (simp add: subset_trans)
qed simp

lemma ports_on_host_sub: "set (ports_on_host host ps) \<subseteq> set ps"
  by (simp add: ports_on_host_def remove_some_sub)

lemma outer_in: "Some x \<in> set (outer xs) \<longleftrightarrow> x \<in> set xs"
  by (auto simp: outer_def)

lemma port_info_row:
  assumes "i \<in> set (query_endpoint_port_info pid db)"
  shows "\<exists>p b s t u n d x m v. i = make_port_info p b s t u n d x m v \<and> p \<in> set (nt_ports (ed_neutron db)) \<and>
    sql_like (pid @ ''%'') (port_id p) \<and> b \<in> set (outer (filter (\<lambda>b. bn_port_id b = port_id p) (ed_bindings db)))"
  using assms unfolding query_endpoint_port_info_def by (fastforce split: if_splits)

lemma port_info_binding:
  assumes "i \<in> set (query_endpoint_port_info pid db)" and "pi_host i = Some h"
  shows "\<exists>b \<in> set (ed_bindings db). bn_port_id b = pi_port_id i \<and> bn_host b = h \<and> pi_vif_type i = Some (bn_vif_type b)"
proof -
  from port_info_row[OF assms(1)] obtain p b s t u n d x m v where
    i: "i = make_port_info p b s t u n d x m v" and b: "b \<in> set (outer (filter (\<lambda>b. bn_port_id b = port_id p) (ed_bindings db)))"
    by blast
  from assms(2) i obtain r where r: "b = Some r" "bn_host r = h" by (auto simp: make_port_info_def)
  with b have "r \<in> set (ed_bindings db)" "bn_port_id r = port_id p" by (simp_all add: outer_in)
  with r i show ?thesis by (auto simp: make_port_info_def)
qed

lemma read_collected:
  assumes "read_endpoint device host pid db = Collected info"
  shows "ei_device info = device \<and> pi_host (ei_port info) = Some host \<and>
    (\<exists>b \<in> set (ed_bindings db). bn_port_id b = pi_port_id (ei_port info) \<and> bn_host b = host \<and>
      bn_vif_type b \<notin> {vif_type_unbound, vif_type_binding_failed})"
proof -
  from assms obtain p ps where p: "ports_on_host host (query_endpoint_port_info pid db) = p # ps"
    "pi_vif_type p \<notin> {Some vif_type_unbound, Some vif_type_binding_failed}" "pi_host p = Some host"
    "info = collect_endpoint device host p db"
    by (auto simp: read_endpoint_def split: list.splits if_splits)
  with ports_on_host_sub[of host "query_endpoint_port_info pid db"] have "p \<in> set (query_endpoint_port_info pid db)" by auto
  from port_info_binding[OF this p(3)] p show ?thesis by (auto simp: collect_endpoint_def Let_def)
qed

lemma endpoint_loop_collected:
  assumes "endpoint_loop env device host db = Some (Inr (Some info), db')"
  shows "read_endpoint device host (re_device_to_port_id env device) db' = Collected info"
proof -
  have "\<forall>info db'. r = (Inr (Some info), db') \<longrightarrow>
      read_endpoint device host (re_device_to_port_id env device) db' = Collected info"
    if "endpoint_loop env device host db = Some r" for r
  proof (rule endpoint_loop.raw_induct[OF _ that, where P = "\<lambda>env device host db r. \<forall>info db'. r = (Inr (Some info), db') \<longrightarrow>
      read_endpoint device host (re_device_to_port_id env device) db' = Collected info"], goal_cases)
    case (1 loop env device host db r)
    then show ?case
      by (auto simp: Let_def split: read_step.splits prod.splits sum.splits if_splits option.splits)
  qed
  with assms show ?thesis by blast
qed

lemma gbp_details_of:
  assumes "build_endpoint_gbp_details env info neutron db = Some (Inr g, db')"
  shows "gd_host g = pi_host (ei_port info) \<and> gd_port_id g = pi_port_id (ei_port info) \<and> gd_device g = ei_device info \<and>
    ed_bindings db' = ed_bindings db"
  using assms unfolding build_endpoint_gbp_details_def Let_def
  by (auto simp: bindE_Inr_iff split: sum.splits option.splits prod.splits)

lemma response_details:
  assumes "request_endpoint_details env None req host db = Some (Reply r, db')" and "rr_gbp_details r = Some g"
  shows "\<exists>q info db1 h. req = Some q \<and> host = Some h \<and>
    endpoint_loop env (the (rq_device q)) h db = Some (Inr (Some info), db1) \<and>
    gd_host g = pi_host (ei_port info) \<and> gd_port_id g = pi_port_id (ei_port info) \<and> ed_bindings db' = ed_bindings db1"
proof -
  from assms(1) obtain q h where q: "req = Some q" "host = Some h"
    "request_endpoint_details_body env None (the (rq_device q)) q h db = Some (Inr r, db')"
    by (auto simp: request_endpoint_details_def truthy_def split: option.splits if_splits sum.splits prod.splits)
  obtain o' db1 where l: "endpoint_loop env (the (rq_device q)) h db = Some (o', db1)"
    using q(3) by (auto simp: request_endpoint_details_body_def split: option.splits)
  show ?thesis
  proof (cases o')
    case (Inl e)
    with q(3) l show ?thesis by (simp add: request_endpoint_details_body_def)
  next
    case (Inr i)
    show ?thesis
    proof (cases i)
      case None
      with q(3) l Inr have "rr_gbp_details r = None" by (auto simp: request_endpoint_details_body_def empty_response_def)
      with assms(2) show ?thesis by simp
    next
      case (Some info)
      with q(3) l Inr obtain neutron gb where n: "build_endpoint_neutron_details info = Inr neutron"
        "build_endpoint_gbp_details env info neutron db1 = Some (Inr gb, db')" "rr_gbp_details r = Some gb"
        by (auto simp: request_endpoint_details_body_def Let_def split: sum.splits option.splits prod.splits)
      with assms(2) gbp_details_of[OF n(2)] q l Inr Some show ?thesis by auto
    qed
  qed
qed

text \<open>C19: Without what a policy driver may add to a response, an agent is given the policy details of a
  port only when the port is bound to the host the agent names: a response with such details is for that host, and the tables hold a binding of the
  port on that host that is neither unbound nor failed, whatever was bound while the request ran.\<close>

theorem details_only_for_bound_host:
  assumes "request_endpoint_details env None req host db = Some (Reply r, db')" and "rr_gbp_details r = Some g"
  shows "host \<noteq> None \<and> gd_host g = host \<and>
    (\<exists>b \<in> set (ed_bindings db'). bn_port_id b = gd_port_id g \<and> Some (bn_host b) = host \<and>
      bn_vif_type b \<notin> {vif_type_unbound, vif_type_binding_failed})"
proof -
  from response_details[OF assms] obtain q info db1 h where q: "req = Some q" "host = Some h"
    "endpoint_loop env (the (rq_device q)) h db = Some (Inr (Some info), db1)"
    "gd_host g = pi_host (ei_port info)" "gd_port_id g = pi_port_id (ei_port info)" "ed_bindings db' = ed_bindings db1" by blast
  from read_collected[OF endpoint_loop_collected[OF q(3)]] q show ?thesis by auto
qed

text \<open>The loop ends where the tables show what the core plugin has bound.\<close>

definition binding_shows :: "rpc_env \<Rightarrow> string \<Rightarrow> string \<Rightarrow> bool" where
  "binding_shows env device host \<longleftrightarrow>
     (\<forall>db vif db'. re_bind env (re_device_to_port_id env device) host db = (Inr vif, db') \<longrightarrow>
        vif \<noteq> vif_type_unbound \<longrightarrow> vif \<noteq> vif_type_binding_failed \<longrightarrow>
        read_endpoint device host (re_device_to_port_id env device) db' \<noteq> Unbound)"

lemma endpoint_loop_ready:
  "read_endpoint device host (re_device_to_port_id env device) db \<noteq> Unbound \<Longrightarrow> \<exists>r. endpoint_loop env device host db = Some r"
  by (subst endpoint_loop.simps) (auto simp: Let_def split: read_step.splits)

lemma endpoint_loop_ends:
  assumes "binding_shows env device host"
  shows "\<exists>r. endpoint_loop env device host db = Some r"
proof (cases "read_endpoint device host (re_device_to_port_id env device) db = Unbound")
  case False
  then show ?thesis by (rule endpoint_loop_ready)
next
  case True
  obtain o' db' where b: "re_bind env (re_device_to_port_id env device) host db = (o', db')"
    by (cases "re_bind env (re_device_to_port_id env device) host db")
  show ?thesis
  proof (cases "\<exists>vif. o' = Inr vif \<and> vif \<noteq> vif_type_unbound \<and> vif \<noteq> vif_type_binding_failed")
    case False
    with True b show ?thesis by (subst endpoint_loop.simps) (auto simp: Let_def split: sum.splits)
  next
    case ok: True
    with assms b have "read_endpoint device host (re_device_to_port_id env device) db' \<noteq> Unbound"
      unfolding binding_shows_def by blast
    from endpoint_loop_ready[OF this] ok True b show ?thesis
      by (subst endpoint_loop.simps) (auto simp: Let_def)
  qed
qed

section \<open>Owned addresses\<close>

text \<open>C33: An address that a port has claimed counts as owned by it exactly when no port at all has been
  allocated that address or some port of the same network has: an allocation of an equal address
  on another network alone hides the claim.\<close>

theorem owned_address_shown:
  "ip \<in> set (map oi_ip_address (query_endpoint_haip_owned_ip_info pid net db)) \<longleftrightarrow>
   (\<exists>h \<in> set (ed_ha db). ha_port_id h = pid \<and> ha_ip_address h = ip) \<and>
   (ip \<notin> set (map alloc_ip (nt_allocs (ed_neutron db))) \<or>
    (\<exists>a \<in> set (nt_allocs (ed_neutron db)). alloc_ip a = ip \<and> alloc_network_id a = net))"
  unfolding query_endpoint_haip_owned_ip_info_def
  by (force simp: outer_def filter_empty_conv split: if_splits)

section \<open>Subnets\<close>

lemma first_rows_ids: "set (map fi_subnet_id (first_rows is seen)) = set (map fi_subnet_id is) - set seen"
  by (induction "is" seen rule: first_rows.induct) auto

lemma first_rows_distinct: "distinct (map fi_subnet_id (first_rows is seen)) \<and> set (map fi_subnet_id (first_rows is seen)) \<inter> set seen = {}"
  by (induction "is" seen rule: first_rows.induct) (auto simp: first_rows_ids)

lemma add_new_set [simp]: "set (add_new x xs) = insert x (set xs)"
  by (auto simp: add_new_def)

lemma fold_add_new: "set (fold (\<lambda>ip. add_new (f ip)) ips acc) = set acc \<union> f ` set ips"
  by (induction ips arbitrary: acc) auto

lemma fold_add_if: "set (fold (\<lambda>i acc. if P i then add_new (f i) acc else acc) is acc) = set acc \<union> f ` {i \<in> set is. P i}"
  by (induction "is" arbitrary: acc) auto

lemma subnet_routes_set:
  "set (subnet_routes ips s) = {(the (fi_route_destination i), fi_route_nexthop i) | i.
     i \<in> set ips \<and> fi_subnet_id i = s \<and> truthy (fi_route_destination i)}"
  by (auto simp: subnet_routes_def fold_add_if)

lemma complete_routes_set:
  "set (complete_routes cfg gw ports routes) = set routes \<union>
     {r. r = (ipv4_any_cidr, gw) \<and> truthy gw \<and> ipv4_any_cidr \<notin> fst ` set routes} \<union>
     {r. \<exists>ip \<in> set (snd (hd ports)). r = (ipv4_metadata_cidr, Some ip) \<and> ports \<noteq> [] \<and>
        ipv4_metadata_cidr \<notin> fst ` set routes \<and> \<not> (ec_enable_metadata_opt cfg \<and> ipv4_any_cidr \<in> fst ` set routes)}"
proof -
  have "filter (\<lambda>r. fst r = c) routes = [] \<longleftrightarrow> c \<notin> fst ` set routes" for c
    by (auto simp: filter_empty_conv)
  then show ?thesis
    unfolding complete_routes_def Let_def by (simp add: fold_add_new) auto
qed

text \<open>What a subnet of the response must have.\<close>

definition subnet_complete :: "fixed_ip_info list \<Rightarrow> subnet_detail \<Rightarrow> bool" where
  "subnet_complete ips d \<longleftrightarrow>
     (let given = set (subnet_routes ips (sd_id d)); told = set (sd_host_routes d); any = (\<lambda>R. {r \<in> R. fst r = ipv4_any_cidr})
      in given \<subseteq> told \<and>
         (sd_ip_version d = 4 \<longrightarrow>
            any told = (if any given \<noteq> {} then any given
                        else if truthy (sd_gateway_ip d) then {(ipv4_any_cidr, sd_gateway_ip d)} else {})) \<and>
         (sd_ip_version d \<noteq> 4 \<longrightarrow> told = given) \<and>
         sd_dns_nameservers d =
           (if subnet_dns_nameservers ips (sd_id d) \<noteq> [] then subnet_dns_nameservers ips (sd_id d) else sd_dhcp_server_ips d))"

lemma complete_routes_any:
  "{r \<in> set (complete_routes cfg gw ports routes). fst r = ipv4_any_cidr} =
   (if {r \<in> set routes. fst r = ipv4_any_cidr} \<noteq> {} then {r \<in> set routes. fst r = ipv4_any_cidr}
    else if truthy gw then {(ipv4_any_cidr, gw)} else {})"
proof -
  have other: "ipv4_metadata_cidr \<noteq> ipv4_any_cidr" by (simp add: ipv4_any_cidr_def ipv4_metadata_cidr_def)
  show ?thesis
  proof (cases "ipv4_any_cidr \<in> fst ` set routes")
    case True
    then show ?thesis unfolding complete_routes_set using other by auto
  next
    case False
    then have none: "{r \<in> set routes. fst r = ipv4_any_cidr} = {}" by force
    show ?thesis unfolding complete_routes_set none using other none False by auto
  qed
qed

lemma complete_routes_keep: "set routes \<subseteq> set (complete_routes cfg gw ports routes)"
  by (auto simp: complete_routes_set)

lemma subnet_detail_complete: "subnet_complete (ei_ips info) (subnet_detail_of cfg info i)"
proof (cases "fi_ip_version i = 4")
  case True
  then show ?thesis
    unfolding subnet_complete_def subnet_detail_of_def Let_def
    by (simp add: complete_routes_any complete_routes_keep)
next
  case False
  then show ?thesis by (simp add: subnet_complete_def subnet_detail_of_def Let_def)
qed

text \<open>The subnets an agent is told are those of the port's addresses, each once, and each is
  complete: every route of the subnet is passed on; an IPv4 subnet has the given default routes, or
  else one over its gateway; other subnets have the given routes only; and the name servers are the
  given ones in their order, or else the DHCP agents.\<close>

theorem subnet_details_complete:
  "distinct (map sd_id (build_subnet_details cfg info)) \<and>
   set (map sd_id (build_subnet_details cfg info)) = set (map fi_subnet_id (ei_ips info)) \<and>
   list_all (subnet_complete (ei_ips info)) (build_subnet_details cfg info)"
proof (intro conjI)
  have ids: "map sd_id (build_subnet_details cfg info) = map fi_subnet_id (first_rows (ei_ips info) [])"
    by (simp add: build_subnet_details_def subnet_detail_of_def Let_def comp_def)
  show "distinct (map sd_id (build_subnet_details cfg info))" unfolding ids using first_rows_distinct by blast
  show "set (map sd_id (build_subnet_details cfg info)) = set (map fi_subnet_id (ei_ips info))"
    unfolding ids first_rows_ids by simp
  show "list_all (subnet_complete (ei_ips info)) (build_subnet_details cfg info)"
    by (simp add: build_subnet_details_def list_all_iff subnet_detail_complete)
qed

section \<open>Allowed address pairs\<close>

text \<open>
  Over the pairs handled so far: the keys are their addresses and the owned addresses inside the
  prefixes, and an entry is active when its address is owned and no pair names it as a prefix.
\<close>

definition is_prefix :: "(string \<Rightarrow> fabric_error + ip_network) \<Rightarrow> aap_row \<Rightarrow> bool" where
  "is_prefix parse a = (case parse (ap_ip a) of Inl e \<Rightarrow> False | Inr n \<Rightarrow> \<not> whole_address n)"

definition covers :: "(string \<Rightarrow> fabric_error + ip_network) \<Rightarrow> aap_row \<Rightarrow> string \<Rightarrow> bool" where
  "covers parse a ip = (case parse (ap_ip a) of Inl e \<Rightarrow> False | Inr n \<Rightarrow> \<not> whole_address n \<and> in_has n ip)"

definition aap_spec :: "(string \<Rightarrow> fabric_error + ip_network) \<Rightarrow> string list \<Rightarrow> aap_row set \<Rightarrow> aap_dict \<Rightarrow> bool" where
  "aap_spec parse owned A d \<longleftrightarrow>
     distinct (map fst d) \<and> (\<forall>(k, v) \<in> set d. aa_ip_address v = k) \<and>
     fst ` set d = ap_ip ` A \<union> {ip \<in> set owned. \<exists>a \<in> A. covers parse a ip} \<and>
     (\<forall>(k, v) \<in> set d. aa_active v \<longleftrightarrow> k \<in> set owned \<and> \<not> (\<exists>a \<in> A. ap_ip a = k \<and> is_prefix parse a))"

lemma update_entries:
  "distinct (map fst d) \<Longrightarrow> set (AList.update k v d) = insert (k, v) {e \<in> set d. fst e \<noteq> k}"
  by (induction d) (auto simp: image_iff)

lemma owned_fold:
  assumes "distinct (map fst d)"
  shows "set (fold (\<lambda>o' d. if P o' \<and> o' \<notin> fst ` set d then AList.update o' (mk o') d else d) os d) =
      set d \<union> {(o', mk o') | o'. o' \<in> set os \<and> P o' \<and> o' \<notin> fst ` set d} \<and>
    distinct (map fst (fold (\<lambda>o' d. if P o' \<and> o' \<notin> fst ` set d then AList.update o' (mk o') d else d) os d))"
  using assms
proof (induction os arbitrary: d)
  case (Cons x os)
  show ?case
  proof (cases "P x \<and> x \<notin> fst ` set d")
    case True
    then have new: "set (AList.update x (mk x) d) = insert (x, mk x) (set d)"
      using update_entries[OF Cons.prems, of x "mk x"] by force
    have "distinct (map fst (AList.update x (mk x) d))" using Cons.prems by (rule distinct_update)
    from Cons.IH[OF this] True show ?thesis unfolding new by auto
  next
    case False
    with Cons.IH[OF Cons.prems] show ?thesis by auto
  qed
qed simp

lemma updated_keys: "fst ` set (AList.update k v d) = insert k (fst ` set d)"
  by (induction d) auto

lemma fst_pairs: "fst ` {(x, g x) | x. Q x} = {x. Q x}"
  by force

lemma aap_specD:
  assumes "aap_spec parse owned A d" and "(k, v) \<in> set d"
  shows "aa_ip_address v = k \<and> (aa_active v \<longleftrightarrow> k \<in> set owned \<and> \<not> (\<exists>a \<in> A. ap_ip a = k \<and> is_prefix parse a))"
proof -
  have "\<forall>(k, v) \<in> set d. aa_ip_address v = k" using assms(1) unfolding aap_spec_def by (elim conjE)
  moreover have "\<forall>(k, v) \<in> set d. aa_active v \<longleftrightarrow> k \<in> set owned \<and> \<not> (\<exists>a \<in> A. ap_ip a = k \<and> is_prefix parse a)"
    using assms(1) unfolding aap_spec_def by (elim conjE)
  ultimately have "case (k, v) of (k, v) \<Rightarrow> aa_ip_address v = k"
    "case (k, v) of (k, v) \<Rightarrow> aa_active v \<longleftrightarrow> k \<in> set owned \<and> \<not> (\<exists>a \<in> A. ap_ip a = k \<and> is_prefix parse a)"
    using assms(2) by (blast, blast)
  then show ?thesis by simp
qed

lemma update_twice: "AList.update k v (AList.update k w d) = AList.update k v d"
  by (induction d) auto

lemma aap_spec_step:
  assumes spec: "aap_spec parse owned A d" and step: "add_aap parse owned a d = Inr d'"
  shows "aap_spec parse owned (insert a A) d'"
proof -
  let ?e = "\<lambda>b. \<lparr> aa_ip_address = ap_ip a, aa_mac_address = ap_mac a, aa_active = b \<rparr>"
  let ?d1 = "AList.update (ap_ip a) (?e False) d"
  from step obtain n where n: "parse (ap_ip a) = Inr n" by (auto simp: add_aap_def Let_def bindE_Inr_iff)
  from spec have dist: "distinct (map fst d)" by (simp add: aap_spec_def)
  then have dist1: "distinct (map fst ?d1)" by (rule distinct_update)
  note ent = update_entries[OF dist, of "ap_ip a"]
  have pre: "is_prefix parse b \<longleftrightarrow> \<not> whole_address n" if "ap_ip b = ap_ip a" for b using n that by (simp add: is_prefix_def)
  have cov: "covers parse a ip \<longleftrightarrow> \<not> whole_address n \<and> in_has n ip" for ip using n by (simp add: covers_def)
  show ?thesis
  proof (cases "whole_address n")
    case True
    then have "d' = AList.update (ap_ip a) (?e (ap_ip a \<in> set owned)) d"
      using step n by (auto simp: add_aap_def Let_def update_twice split: if_splits)
    with ent updated_keys[of "ap_ip a" "?e (ap_ip a \<in> set owned)" d] distinct_update[OF dist]
    have set': "set d' = insert (ap_ip a, ?e (ap_ip a \<in> set owned)) {e \<in> set d. fst e \<noteq> ap_ip a}"
      and keys: "fst ` set d' = insert (ap_ip a) (fst ` set d)" and dist': "distinct (map fst d')" by simp_all
    have "fst ` set d' = ap_ip ` insert a A \<union> {ip \<in> set owned. \<exists>b \<in> insert a A. covers parse b ip}"
      using spec True unfolding keys aap_spec_def by (auto simp: cov)
    moreover have "\<forall>(k, v) \<in> set d'. aa_active v \<longleftrightarrow> k \<in> set owned \<and> \<not> (\<exists>b \<in> insert a A. ap_ip b = k \<and> is_prefix parse b)"
      using spec pre True unfolding set' aap_spec_def by auto
    moreover have "\<forall>(k, v) \<in> set d'. aa_ip_address v = k" using spec unfolding set' aap_spec_def by auto
    ultimately show ?thesis using dist' unfolding aap_spec_def by simp
  next
    case False
    let ?mk = "\<lambda>o'. \<lparr> aa_ip_address = o', aa_mac_address = ap_mac a, aa_active = True \<rparr>"
    have d': "d' = fold (\<lambda>o' d. if in_has n o' \<and> o' \<notin> fst ` set d then AList.update o' (?mk o') d else d) owned ?d1"
      using step n False by (simp add: add_aap_def Let_def)
    note f = owned_fold[OF dist1, of "in_has n" ?mk owned, folded d']
    have set': "set d' = insert (ap_ip a, ?e False) {e \<in> set d. fst e \<noteq> ap_ip a} \<union>
        {(o', ?mk o') | o'. o' \<in> set owned \<and> in_has n o' \<and> o' \<notin> insert (ap_ip a) (fst ` set d)}"
      using conjunct1[OF f] unfolding updated_keys unfolding ent .
    have keys: "fst ` set d' = insert (ap_ip a) (fst ` set d) \<union> {o' \<in> set owned. in_has n o'}"
      unfolding conjunct1[OF f] image_Un fst_pairs unfolding updated_keys by blast
    have "fst ` set d' = ap_ip ` insert a A \<union> {ip \<in> set owned. \<exists>b \<in> insert a A. covers parse b ip}"
      using spec False unfolding keys aap_spec_def by (auto simp: cov)
    moreover have "\<forall>(k, v) \<in> set d'. aa_active v \<longleftrightarrow> k \<in> set owned \<and> \<not> (\<exists>b \<in> insert a A. ap_ip b = k \<and> is_prefix parse b)"
    proof (intro ballI, clarify)
      fix k v assume kv: "(k, v) \<in> set d'"
      consider "k = ap_ip a" "v = ?e False" | "(k, v) \<in> set d" "k \<noteq> ap_ip a"
        | "k \<in> set owned" "v = ?mk k" "k \<noteq> ap_ip a" "k \<notin> fst ` set d"
        using kv unfolding set' by auto
      then show "aa_active v \<longleftrightarrow> k \<in> set owned \<and> \<not> (\<exists>b \<in> insert a A. ap_ip b = k \<and> is_prefix parse b)"
      proof cases
        case 1
        then show ?thesis using pre[of a] False by auto
      next
        case 2
        then show ?thesis using spec unfolding aap_spec_def by auto
      next
        case 3
        have "ap_ip ` A \<subseteq> fst ` set d" using spec unfolding aap_spec_def by auto
        with 3 show ?thesis by auto
      qed
    qed
    moreover have "\<forall>(k, v) \<in> set d'. aa_ip_address v = k" using spec unfolding set' aap_spec_def by auto
    ultimately show ?thesis using f unfolding aap_spec_def by simp
  qed
qed

lemma aap_spec_all:
  assumes "foldE (add_aap parse owned) as d = Inr d'" and "aap_spec parse owned A d"
  shows "aap_spec parse owned (A \<union> set as) d'"
  using assms
proof (induction as arbitrary: A d)
  case (Cons a as)
  from Cons.prems(1) obtain d1 where d1: "add_aap parse owned a d = Inr d1" "foldE (add_aap parse owned) as d1 = Inr d'"
    by (auto simp: bindE_Inr_iff)
  from Cons.IH[OF d1(2) aap_spec_step[OF Cons.prems(2) d1(1)]] show ?case by simp
qed simp

text \<open>C23: The allowed address pairs an agent is told have one entry for an address: one for every pair
  of the port, and one for every address that the port owns inside a pair's prefix; and an entry is
  active exactly when its address is owned and no pair names it as a prefix.\<close>

theorem aap_entries:
  assumes "build_aaps parse info = Inr ds"
  shows "distinct (map aa_ip_address ds) \<and>
    set (map aa_ip_address ds) = ap_ip ` set (ei_aaps info) \<union>
      {ip \<in> set (owned_ips info). \<exists>a \<in> set (ei_aaps info). covers parse a ip} \<and>
    (\<forall>d \<in> set ds. aa_active d \<longleftrightarrow> aa_ip_address d \<in> set (owned_ips info) \<and>
      \<not> (\<exists>a \<in> set (ei_aaps info). ap_ip a = aa_ip_address d \<and> is_prefix parse a))"
proof -
  from assms obtain d where d: "foldE (add_aap parse (owned_ips info)) (ei_aaps info) [] = Inr d" "ds = map snd d"
    by (auto simp: build_aaps_def bindE_Inr_iff)
  have "aap_spec parse (owned_ips info) {} []" by (simp add: aap_spec_def)
  from aap_spec_all[OF d(1) this] have spec: "aap_spec parse (owned_ips info) (set (ei_aaps info)) d" by simp
  note entry = aap_specD[OF spec]
  have "aa_ip_address (snd e) = fst e" if "e \<in> set d" for e using entry[of "fst e" "snd e"] that by simp
  then have keys: "map aa_ip_address ds = map fst d" by (simp add: d(2))
  have active: "\<forall>e \<in> set ds. aa_active e \<longleftrightarrow> aa_ip_address e \<in> set (owned_ips info) \<and>
      \<not> (\<exists>a \<in> set (ei_aaps info). ap_ip a = aa_ip_address e \<and> is_prefix parse a)"
  proof
    fix e assume "e \<in> set ds"
    then obtain k where "(k, e) \<in> set d" unfolding d(2) by auto
    with entry show "aa_active e \<longleftrightarrow> aa_ip_address e \<in> set (owned_ips info) \<and>
      \<not> (\<exists>a \<in> set (ei_aaps info). ap_ip a = aa_ip_address e \<and> is_prefix parse a)" by blast
  qed
  have "distinct (map fst d) \<and> fst ` set d = ap_ip ` set (ei_aaps info) \<union>
      {ip \<in> set (owned_ips info). \<exists>a \<in> set (ei_aaps info). covers parse a ip}"
    using spec unfolding aap_spec_def by simp
  with active show ?thesis unfolding keys set_map by simp
qed

section \<open>External networks\<close>

lemma fold_update_in:
  "x \<in> set (fold (\<lambda>e. AList.update (k e) e) es d) \<Longrightarrow> x \<in> set d \<or> (\<exists>e \<in> set es. x = (k e, e))"
proof (induction es arbitrary: d)
  case (Cons e es)
  then have "x \<in> set (AList.update (k e) e d) \<or> (\<exists>e \<in> set es. x = (k e, e))" by simp
  moreover have "set (AList.update (k e) e d) \<subseteq> insert (k e, e) (set d)" by (induction d) auto
  ultimately show ?case by auto
qed simp

text \<open>No SNAT information for a network where every address has a floating address on it.\<close>

lemma no_snat_needed:
  "(\<And>e. e \<in> set es \<Longrightarrow> \<not> need_snat fips ips (en_network_id e)) \<Longrightarrow>
   snats_for_networks env host routed snats fips ips es xdb = Some (Inr [], xdb)"
  by (induction es) auto

text \<open>Only networks that are behind the endpoint's subnets and need it get SNAT information.\<close>

lemma snats_sound:
  "snats_for_networks env host routed snats fips ips es xdb = Some (Inr hs, y) \<Longrightarrow>
   (\<forall>h \<in> set hs. need_snat fips ips (hs_ext_net_id h) \<and> hs_ext_net_id h \<in> en_network_id ` set es)"
proof (induction es arbitrary: xdb hs)
  case (Cons e es)
  show ?case
  proof (cases "need_snat fips ips (en_network_id e)")
    case False
    with Cons show ?thesis by auto
  next
    case True
    with Cons.prems show ?thesis
      using Cons.IH by (auto split: option.splits prod.splits sum.splits)
  qed
qed simp

section \<open>Witnesses\<close>

text \<open>A port on a private network, bound to its host, behind no router, and one on the external
  network's own subnet, where a router has its gateway.\<close>

definition demo_endpoint_db :: endpoint_db where
  "demo_endpoint_db = \<lparr>
     ed_ext = \<lparr> xd_neutron = \<lparr> nt_scopes = [], nt_pools = [],
         nt_networks = [\<lparr> network_id = ''ext'', network_tenant_id = ''t'', network_rbac_actions = [], network_mtu = None \<rparr>],
         nt_subnets = [\<lparr> subnet_id = ''s1'', subnet_network_id = ''n1'', subnet_pool_id = None, subnet_cidr = ''10.0.0.0/24'',
             subnet_gateway_ip = Some ''10.0.0.1'', subnet_ip_version = 4, subnet_enable_dhcp = True \<rparr>],
         nt_ports = [\<lparr> port_id = ''p1'', port_network_id = ''n1'', port_device_id = ''vm'', port_device_owner = ''compute:nova'',
             port_name = [], port_mac = ''fa'', port_project_id = ''t'', port_admin_state_up = True \<rparr>,
           \<lparr> port_id = ''gw'', port_network_id = ''ext'', port_device_id = ''r'', port_device_owner = device_owner_router_gw,
             port_name = [], port_mac = ''fb'', port_project_id = ''t'', port_admin_state_up = True \<rparr>],
         nt_allocs = [\<lparr> alloc_port_id = ''p1'', alloc_subnet_id = ''s1'', alloc_ip = ''10.0.0.5'', alloc_network_id = ''n1'' \<rparr>,
           \<lparr> alloc_port_id = ''gw'', alloc_subnet_id = ''es'', alloc_ip = ''172.16.0.5'', alloc_network_id = ''ext'' \<rparr>],
         nt_routers = [\<lparr> router_id = ''r'', router_gw_port_id = Some ''gw'' \<rparr>],
         nt_router_ports = [\<lparr> rp_router_id = ''r'', rp_port_id = ''gw'', rp_type = device_owner_router_gw \<rparr>],
         nt_scope_mappings = [],
         nt_network_mappings = [\<lparr> nm_network_id = ''ext'', nm_bd_name = None, nm_bd_tenant_name = None, nm_epg_name = Some ''e'',
             nm_epg_app_profile_name = None, nm_epg_tenant_name = None, nm_l3out_name = None, nm_l3out_ext_net_name = None,
             nm_l3out_tenant_name = None, nm_vrf_name = None, nm_vrf_tenant_name = None \<rparr>] \<rparr>,
       xd_erspans = [], xd_networks = [], xd_cidrs = [], xd_vlans = [], xd_contracts = [], xd_masters = [], xd_no_nat_cidrs = [],
       xd_subnets = [], xd_snat_mappings = [], xd_router_contracts = [], xd_hpp = [False] \<rparr>,
     ed_bindings = [\<lparr> bn_port_id = ''p1'', bn_host = ''h1'', bn_status = port_status_active, bn_vif_type = ''ovs'', bn_vif_details = [] \<rparr>],
     ed_psec = [], ed_trunks = [], ed_subports = [], ed_dns_domains = [], ed_vms = [], ed_ha = [], ed_nameservers = [], ed_routes = [],
     ed_levels = [\<lparr> lv_port_id = ''p1'', lv_host = ''h1'', lv_level = 0, lv_segment_id = ''seg'' \<rparr>],
     ed_segments = [\<lparr> sg_segment_id = ''seg'', sg_network_type = ''opflex'', sg_physical_network = None, sg_segmentation_id = None \<rparr>],
     ed_sgs = [], ed_sg_bindings = [], ed_qos = [], ed_qos_bindings = [], ed_aaps = [], ed_fips = [], ed_dhcp_opts = [],
     ed_pool_prefixes = [] \<rparr>"

definition demo_rpc_env :: rpc_env where
  "demo_rpc_env = \<lparr>
     re_config = \<lparr> ec_optimized_dhcp_lease_time = 0, ec_enable_dhcp_opt = True, ec_enable_metadata_opt = True,
       ec_advertise_mtu = False, ec_nested_host_vlan = 4094, ec_default_sg_name = ''default'' \<rparr>,
     re_snat = \<lparr> se_core = \<lparr> core_create_port = (\<lambda>r x. (Inl IpAddressGenerationFailure, x)), core_delete_port = (\<lambda>i x. (Inr (), x)) \<rparr>,
       se_others = (\<lambda>k t. t) \<rparr>,
     re_parse = (\<lambda>ip. Inr \<lparr> in_version = 4, in_prefixlen = 32, in_has = (\<lambda>x. x = ip) \<rparr>),
     re_loads = (\<lambda>s. Inr (PyDict [])), re_device_to_port_id = (\<lambda>d. d), re_bind = (\<lambda>p h db. (Inl (PortNotFound p), db)) \<rparr>"

definition demo_rpc_request :: rpc_request where
  "demo_rpc_request = \<lparr> rq_device = Some ''p1'', rq_request_id = None, rq_timestamp = None \<rparr>"

definition demo_bound_port :: "(rpc_reply \<times> endpoint_db) option \<Rightarrow> bool" where
  "demo_bound_port x = (case x of Some (Reply r, db) \<Rightarrow> rr_gbp_details r \<noteq> None | _ \<Rightarrow> False)"

text \<open>The external network counts as being behind a port on its own subnet, although no router has an
  interface there: the join compares the router, and the type of the port is lost.\<close>

lemma gateway_port_taken_for_interface:
  "map fst (query_endpoint_ext_net_info [''es''] demo_endpoint_db) = [''ext''] \<and>
   \<not> (\<exists>q \<in> set (nt_router_ports (ed_neutron demo_endpoint_db)). rp_type q = device_owner_router_intf)"
  by code_simp

definition demo_owned_db :: endpoint_db where
  "demo_owned_db = demo_endpoint_db \<lparr> ed_ha :=
     [\<lparr> ha_ip_address = ''10.0.0.9'', ha_network_id = ''n1'', ha_port_id = ''p1'' \<rparr>,
      \<lparr> ha_ip_address = ''172.16.0.5'', ha_network_id = ''n1'', ha_port_id = ''p1'' \<rparr>] \<rparr>"

lemma demo_owned_claims:
  "(\<exists>h \<in> set (ed_ha demo_owned_db). ha_port_id h = ''p1'' \<and> ha_ip_address h = ''172.16.0.5'') \<and>
   ''172.16.0.5'' \<in> set (map alloc_ip (nt_allocs (ed_neutron demo_owned_db))) \<and>
   \<not> (\<exists>a \<in> set (nt_allocs (ed_neutron demo_owned_db)). alloc_ip a = ''172.16.0.5'' \<and> alloc_network_id a = ''n1'')"
  by code_simp

text \<open>The port has claimed the address on its network, and a port of the external network has it too.\<close>

lemma owned_address_shown_witness:
  "''172.16.0.5'' \<notin> set (map oi_ip_address (query_endpoint_haip_owned_ip_info ''p1'' ''n1'' demo_owned_db))"
  using demo_owned_claims owned_address_shown[of "''172.16.0.5''" "''p1''" "''n1''" demo_owned_db]
  by (meson)

lemma demo_endpoint_found:
  "demo_bound_port (request_endpoint_details demo_rpc_env None (Some demo_rpc_request) (Some ''h1'') demo_endpoint_db)"
  by code_simp

lemma details_only_for_bound_host_witness:
  "\<exists>r (g :: gbp_details) db'. request_endpoint_details demo_rpc_env None (Some demo_rpc_request) (Some ''h1'') demo_endpoint_db = Some (Reply r, db') \<and>
    gd_host g = Some ''h1''"
proof -
  from demo_endpoint_found obtain r db' g where
    r: "request_endpoint_details demo_rpc_env None (Some demo_rpc_request) (Some ''h1'') demo_endpoint_db = Some (Reply r, db')"
    and g: "rr_gbp_details r = Some g"
    by (auto simp: demo_bound_port_def split: option.splits rpc_reply.splits prod.splits)
  from details_only_for_bound_host[OF r g] have h: "gd_host g = Some ''h1''" by simp
  show ?thesis by (rule exI[of _ r], rule exI[of _ g], rule exI[of _ db'], rule conjI[OF r h])
qed

definition demo_prefixes :: "string \<Rightarrow> fabric_error + ip_network" where
  "demo_prefixes ip = Inr (if ip = ''10.0.0.0/24'' then \<lparr> in_version = 4, in_prefixlen = 24, in_has = (\<lambda>x. x = ''10.0.0.9'') \<rparr>
     else \<lparr> in_version = 4, in_prefixlen = 32, in_has = (\<lambda>x. x = ip) \<rparr>)"

definition demo_info :: endpoint_info where
  "demo_info = (collect_endpoint ''p1'' ''h1''
       (make_port_info (hd (nt_ports (ed_neutron demo_endpoint_db))) None None None None None None None None None) demo_endpoint_db)
     \<lparr> ei_active_active_aap := False, ei_aaps := [\<lparr> ap_port_id = ''p1'', ap_mac = ''fa'', ap_ip = ''10.0.0.0/24'' \<rparr>],
       ei_owned_ips := [\<lparr> oi_ip_address = ''10.0.0.9'', oi_network_id = ''n1'', oi_actual_port_id = None \<rparr>] \<rparr>"

lemma demo_aaps:
  "build_aaps demo_prefixes demo_info = Inr [\<lparr> aa_ip_address = ''10.0.0.0/24'', aa_mac_address = ''fa'', aa_active = False \<rparr>,
     \<lparr> aa_ip_address = ''10.0.0.9'', aa_mac_address = ''fa'', aa_active = True \<rparr>]"
  by code_simp

lemma aap_entries_witness:
  "''10.0.0.9'' \<in> ap_ip ` set (ei_aaps demo_info) \<union>
      {ip \<in> set (owned_ips demo_info). \<exists>a \<in> set (ei_aaps demo_info). covers demo_prefixes a ip}"
proof -
  have eq: "set (map aa_ip_address [\<lparr> aa_ip_address = ''10.0.0.0/24'', aa_mac_address = ''fa'', aa_active = False \<rparr>,
        \<lparr> aa_ip_address = ''10.0.0.9'', aa_mac_address = ''fa'', aa_active = True \<rparr>]) =
      ap_ip ` set (ei_aaps demo_info) \<union> {ip \<in> set (owned_ips demo_info). \<exists>a \<in> set (ei_aaps demo_info). covers demo_prefixes a ip}"
    using aap_entries[OF demo_aaps] by (elim conjE)
  show ?thesis unfolding eq[symmetric] by simp
qed

text \<open>Subnets without an extension row count as having the mode of active pairs enabled.\<close>

lemma active_active_without_rows: "query_active_active_aap [''s1''] demo_endpoint_db \<and> xd_subnets (ed_ext demo_endpoint_db) = []"
  by code_simp

end
