(* ===== verification/Aim_Store.thy ===== *)
theory Aim_Store
  imports Snat_Service Apic_Names
begin

text \<open>
  What the mechanism driver's handlers work with: the state of a transaction (the tables, the store
  of fabric resources, the notifications that wait for the commit), operations that may raise, and
  the interface of the fabric library.  The library is not part of the repository: its manager and its
  NAT strategies are parameters, records of functions over a store of any type.

  A resource is its class and its attributes.  An exception ends the transaction, which is rolled
  back: an operation that raises has no state after it.
\<close>

section \<open>Operations that may raise\<close>

type_synonym ('s, 'r) drv = "'s \<Rightarrow> fabric_error + ('r \<times> 's)"

definition dret :: "'r \<Rightarrow> ('s, 'r) drv" where
  "dret x s = Inr (x, s)"

definition draise :: "fabric_error \<Rightarrow> ('s, 'r) drv" where
  "draise e s = Inl e"

definition dbind :: "('s, 'a) drv \<Rightarrow> ('a \<Rightarrow> ('s, 'b) drv) \<Rightarrow> ('s, 'b) drv" where
  "dbind m f s = bindE (m s) (\<lambda>(x, s'). f x s')"

definition dread :: "('s \<Rightarrow> 'r) \<Rightarrow> ('s, 'r) drv" where
  "dread f s = Inr (f s, s)"

definition dmodify :: "('s \<Rightarrow> 's) \<Rightarrow> ('s, unit) drv" where
  "dmodify f s = Inr ((), f s)"

definition dlift :: "fabric_error + 'r \<Rightarrow> ('s, 'r) drv" where
  "dlift m s = bindE m (\<lambda>x. Inr (x, s))"

definition dguard :: "bool \<Rightarrow> fabric_error \<Rightarrow> ('s, unit) drv" where
  "dguard b e = (if b then dret () else draise e)"

definition dwhen :: "bool \<Rightarrow> ('s, unit) drv \<Rightarrow> ('s, unit) drv" where
  "dwhen b m = (if b then m else dret ())"

fun deach :: "('a \<Rightarrow> ('s, unit) drv) \<Rightarrow> 'a list \<Rightarrow> ('s, unit) drv" where
  "deach f [] = dret ()"
| "deach f (x # xs) = dbind (f x) (\<lambda>_. deach f xs)"

text \<open>The attribute of a value that may be missing.\<close>

definition dthe :: "'r option \<Rightarrow> ('s, 'r) drv" where
  "dthe x = (case x of None \<Rightarrow> draise AttributeError | Some y \<Rightarrow> dret y)"

lemma drv_Inr [simp]:
  "dret x s = Inr (y, t) \<longleftrightarrow> y = x \<and> t = s"
  "draise e s \<noteq> Inr z"
  "dread f s = Inr (r, t) \<longleftrightarrow> r = f s \<and> t = s"
  "dmodify g s = Inr (u, t) \<longleftrightarrow> t = g s"
  by (auto simp: dret_def draise_def dread_def dmodify_def)

lemma dbind_Inr: "dbind m f s = Inr (y, t) \<longleftrightarrow> (\<exists>x u. m s = Inr (x, u) \<and> f x u = Inr (y, t))"
  by (auto simp: dbind_def bindE_Inr_iff)

lemma dlift_Inr [simp]: "dlift m s = Inr (y, t) \<longleftrightarrow> m = Inr y \<and> t = s"
  by (cases m) (auto simp: dlift_def)

lemma dguard_Inr [simp]: "dguard b e s = Inr (u, t) \<longleftrightarrow> b \<and> t = s"
  by (auto simp: dguard_def)

lemma dthe_Inr [simp]: "dthe x s = Inr (y, t) \<longleftrightarrow> x = Some y \<and> t = s"
  by (cases x) (auto simp: dthe_def)

lemma dwhen_True [simp]: "dwhen True m = m" and dwhen_False [simp]: "dwhen False m = dret ()"
  by (simp_all add: dwhen_def)

named_theorems drv_rules \<open>rules for the operations that may raise\<close>

text \<open>What an operation leaves alone.\<close>

definition drv_keeps :: "('s \<Rightarrow> 'v) \<Rightarrow> ('s, 'r) drv \<Rightarrow> bool" where
  "drv_keeps f m \<longleftrightarrow> (\<forall>s x t. m s = Inr (x, t) \<longrightarrow> f t = f s)"

lemma drv_keepsD: "drv_keeps f m \<Longrightarrow> m s = Inr (x, t) \<Longrightarrow> f t = f s"
  by (auto simp: drv_keeps_def)

lemma drv_keeps_basic [drv_rules]:
  "drv_keeps f (dret x)" "drv_keeps f (draise e)" "drv_keeps f (dread g)" "drv_keeps f (dlift m)" "drv_keeps f (dguard b e)" "drv_keeps f (dthe y)"
  by (auto simp: drv_keeps_def)

lemma drv_keeps_bind [drv_rules]: "drv_keeps f m \<Longrightarrow> (\<And>x. drv_keeps f (g x)) \<Longrightarrow> drv_keeps f (dbind m g)"
  unfolding drv_keeps_def dbind_Inr by metis

lemma drv_keeps_when [drv_rules]: "drv_keeps f m \<Longrightarrow> drv_keeps f (dwhen b m)"
  by (auto simp: dwhen_def drv_keeps_basic)

lemma drv_keeps_each [drv_rules]: "(\<And>x. x \<in> set xs \<Longrightarrow> drv_keeps f (g x)) \<Longrightarrow> drv_keeps f (deach g xs)"
  by (induction xs) (auto intro: drv_keeps_basic drv_keeps_bind)

lemma drv_keeps_if [drv_rules]: "(b \<Longrightarrow> drv_keeps f m) \<Longrightarrow> (\<not> b \<Longrightarrow> drv_keeps f n) \<Longrightarrow> drv_keeps f (if b then m else n)"
  by simp

lemma drv_keeps_option [drv_rules]:
  "drv_keeps f m \<Longrightarrow> (\<And>x. drv_keeps f (g x)) \<Longrightarrow> drv_keeps f (case y of None \<Rightarrow> m | Some x \<Rightarrow> g x)"
  by (simp split: option.split)

section \<open>Resources of the fabric\<close>

datatype aim_class =
    Tenant | VRF | BridgeDomain | ApplicationProfile | EndpointGroup | Subnet | EPGSubnet
  | Contract | ContractSubject | L3Outside | ExternalNetwork
  | ExternalNetworkProvidedContract | ExternalNetworkConsumedContract | OtherClass string

datatype aim_value = AStr "string option" | ABool bool | AInt int | AStrs "string list" | APairs "(string \<times> string) list"
  | ADicts "(string \<times> string) list list" | AOther

record aim_res =
  ar_class :: aim_class
  ar_attrs :: "string \<Rightarrow> aim_value option"

text \<open>Reading an attribute as text, as a list of names, and writing one.\<close>

definition attr_str :: "aim_res \<Rightarrow> string \<Rightarrow> string option" where
  "attr_str r k = (case ar_attrs r k of Some (AStr v) \<Rightarrow> v | _ \<Rightarrow> None)"

definition attr_strs :: "aim_res \<Rightarrow> string \<Rightarrow> string list" where
  "attr_strs r k = (case ar_attrs r k of Some (AStrs vs) \<Rightarrow> vs | _ \<Rightarrow> [])"

definition set_attr :: "string \<Rightarrow> aim_value \<Rightarrow> aim_res \<Rightarrow> aim_res" where
  "set_attr k v r = r\<lparr> ar_attrs := (ar_attrs r)(k \<mapsto> v) \<rparr>"

definition aim_res_of :: "aim_class \<Rightarrow> (string \<times> aim_value) list \<Rightarrow> aim_res" where
  "aim_res_of c as = \<lparr> ar_class = c, ar_attrs = map_of as \<rparr>"

lemma set_attr_class [simp]: "ar_class (set_attr k v r) = ar_class r"
  by (simp add: set_attr_def)

lemma attr_str_set [simp]: "attr_str (set_attr k (AStr v) r) k' = (if k' = k then v else attr_str r k')"
  by (simp add: attr_str_def set_attr_def)

lemma attr_str_set_bool [simp]: "k' \<noteq> k \<Longrightarrow> attr_str (set_attr k v r) k' = attr_str r k'"
  by (simp add: attr_str_def set_attr_def)

text \<open>The resources behind the identities that the mapping tables hold.\<close>

definition vrf_res :: "vrf \<Rightarrow> aim_res" where
  "vrf_res v = aim_res_of VRF [(''tenant_name'', AStr (vrf_tenant_name v)), (''name'', AStr (vrf_name v))]"

definition bd_res :: "bridge_domain \<Rightarrow> aim_res" where
  "bd_res b = aim_res_of BridgeDomain [(''tenant_name'', AStr (bd_tenant b)), (''name'', AStr (bd_name b))]"

definition epg_res :: "endpoint_group \<Rightarrow> aim_res" where
  "epg_res e = aim_res_of EndpointGroup [(''tenant_name'', AStr (epg_tenant e)),
     (''app_profile_name'', AStr (epg_app_profile_name e)), (''name'', AStr (epg_name e))]"

definition l3out_res :: "l3_outside \<Rightarrow> aim_res" where
  "l3out_res l = aim_res_of L3Outside [(''tenant_name'', AStr (l3o_tenant l)), (''name'', AStr (l3o_name l))]"

definition ext_net_res :: "external_network \<Rightarrow> aim_res" where
  "ext_net_res n = aim_res_of ExternalNetwork [(''tenant_name'', AStr (en_tenant n)),
     (''l3out_name'', AStr (en_l3out_name n)), (''name'', AStr (en_name n))]"

text \<open>And the identities of resources.\<close>

definition res_vrf :: "aim_res \<Rightarrow> vrf" where
  "res_vrf r = \<lparr> vrf_tenant_name = attr_str r ''tenant_name'', vrf_name = attr_str r ''name'' \<rparr>"

definition res_bd :: "aim_res \<Rightarrow> bridge_domain" where
  "res_bd r = \<lparr> bd_tenant = attr_str r ''tenant_name'', bd_name = attr_str r ''name'' \<rparr>"

definition res_epg :: "aim_res \<Rightarrow> endpoint_group" where
  "res_epg r = \<lparr> epg_tenant = attr_str r ''tenant_name'',
     epg_app_profile_name = attr_str r ''app_profile_name'', epg_name = attr_str r ''name'' \<rparr>"

definition res_l3out :: "aim_res \<Rightarrow> l3_outside" where
  "res_l3out r = \<lparr> l3o_tenant = attr_str r ''tenant_name'', l3o_name = attr_str r ''name'' \<rparr>"

definition res_ext_net :: "aim_res \<Rightarrow> external_network" where
  "res_ext_net r = \<lparr> en_tenant = attr_str r ''tenant_name'', en_l3out_name = attr_str r ''l3out_name'',
     en_name = attr_str r ''name'' \<rparr>"

lemma res_of_identity [simp]:
  "res_vrf (vrf_res v) = v" "res_bd (bd_res b) = b" "res_epg (epg_res e) = e"
  "res_l3out (l3out_res l) = l" "res_ext_net (ext_net_res n) = n"
  by (simp_all add: res_vrf_def vrf_res_def res_bd_def bd_res_def res_epg_def epg_res_def res_l3out_def l3out_res_def
      res_ext_net_def ext_net_res_def aim_res_of_def attr_str_def)

section \<open>The fabric library\<close>

datatype subnet_scope = SCOPE_PUBLIC | SCOPE_SHARED | SCOPE_PUBLIC_SHARED | SCOPE_PRIVATE

datatype nat_strategy = DistributedNatStrategy | EdgeNatStrategy | NoNatStrategy

text \<open>
  The manager's operations; some are also called with nothing, the result of a lookup that found
  nothing or an endpoint group that a network does not have.  The strategies get the contracts as lists of names.
\<close>

record 'a aim_lib =
  aim_get :: "aim_res \<Rightarrow> 'a \<Rightarrow> aim_res option"
  aim_get_nothing :: "'a \<Rightarrow> fabric_error + aim_res option"
  aim_find :: "aim_class \<Rightarrow> (string \<times> aim_value) list \<Rightarrow> 'a \<Rightarrow> aim_res list"
  aim_get_subtree :: "aim_res \<Rightarrow> 'a \<Rightarrow> aim_res list"
  aim_create :: "aim_res \<Rightarrow> bool \<Rightarrow> 'a \<Rightarrow> fabric_error + (aim_res \<times> 'a)"
  aim_update :: "aim_res \<Rightarrow> (string \<times> aim_value) list \<Rightarrow> 'a \<Rightarrow> fabric_error + (aim_res option \<times> 'a)"
  aim_delete :: "aim_res option \<Rightarrow> 'a \<Rightarrow> fabric_error + 'a"
  ns_connect_vrf :: "nat_strategy \<Rightarrow> external_network \<Rightarrow> vrf \<Rightarrow> string list \<Rightarrow> string list \<Rightarrow> string option \<Rightarrow> 'a \<Rightarrow>
    fabric_error + 'a"
  ns_disconnect_vrf :: "nat_strategy \<Rightarrow> external_network \<Rightarrow> vrf \<Rightarrow> string option \<Rightarrow> 'a \<Rightarrow> fabric_error + 'a"
  ns_set_bd_l3out :: "nat_strategy \<Rightarrow> aim_res option \<Rightarrow> l3_outside \<Rightarrow> 'a \<Rightarrow> fabric_error + 'a"
  ns_unset_bd_l3out :: "nat_strategy \<Rightarrow> aim_res option \<Rightarrow> l3_outside \<Rightarrow> 'a \<Rightarrow> fabric_error + 'a"
  ext_net_from_dn :: "string \<Rightarrow> fabric_error + external_network"
  ext_net_dn :: "external_network \<Rightarrow> string"
  sanitize_display_name :: "string \<Rightarrow> string"
  subnet_scope_value :: "subnet_scope \<Rightarrow> string"

section \<open>The state of a transaction\<close>

record 'a drv_state =
  ds_ext :: ext_db
  ds_aim :: 'a
  ds_external :: "string list"
  ds_ports_to_notify :: "string set"
  ds_vrfs_to_notify :: "string set"
  ds_published :: "string list"

abbreviation ds_neutron :: "'a drv_state \<Rightarrow> neutron_db" where
  "ds_neutron s \<equiv> xd_neutron (ds_ext s)"

abbreviation ds_mappings :: "'a drv_state \<Rightarrow> network_mapping list" where
  "ds_mappings s \<equiv> nt_network_mappings (ds_neutron s)"

definition set_neutron :: "neutron_db \<Rightarrow> 'a drv_state \<Rightarrow> 'a drv_state" where
  "set_neutron n s = s\<lparr> ds_ext := (ds_ext s)\<lparr> xd_neutron := n \<rparr> \<rparr>"

definition lift_aim :: "('a \<Rightarrow> fabric_error + ('r \<times> 'a)) \<Rightarrow> ('a drv_state, 'r) drv" where
  "lift_aim f s = bindE (f (ds_aim s)) (\<lambda>(r, a). Inr (r, s\<lparr> ds_aim := a \<rparr>))"

definition lift_aim0 :: "('a \<Rightarrow> fabric_error + 'a) \<Rightarrow> ('a drv_state, unit) drv" where
  "lift_aim0 f s = bindE (f (ds_aim s)) (\<lambda>a. Inr ((), s\<lparr> ds_aim := a \<rparr>))"

lemma lift_aim_Inr: "lift_aim f s = Inr (r, t) \<longleftrightarrow> (\<exists>a. f (ds_aim s) = Inr (r, a) \<and> t = s\<lparr> ds_aim := a \<rparr>)"
  by (auto simp: lift_aim_def bindE_Inr_iff)

lemma lift_aim0_Inr: "lift_aim0 f s = Inr (u, t) \<longleftrightarrow> (\<exists>a. f (ds_aim s) = Inr a \<and> t = s\<lparr> ds_aim := a \<rparr>)"
  by (auto simp: lift_aim0_def bindE_Inr_iff)

text \<open>The whole state but the store of resources.\<close>

definition but_aim :: "'a drv_state \<Rightarrow> ext_db \<times> string list \<times> string set \<times> string set \<times> string list" where
  "but_aim s = (ds_ext s, ds_external s, ds_ports_to_notify s, ds_vrfs_to_notify s, ds_published s)"

lemma drv_keeps_lift_aim [drv_rules]: "drv_keeps but_aim (lift_aim f)" "drv_keeps but_aim (lift_aim0 g)"
  by (auto simp: drv_keeps_def lift_aim_Inr lift_aim0_Inr but_aim_def)

definition d_get :: "'a aim_lib \<Rightarrow> aim_res \<Rightarrow> ('a drv_state, aim_res option) drv" where
  "d_get A r = dread (\<lambda>s. aim_get A r (ds_aim s))"

definition d_create :: "'a aim_lib \<Rightarrow> aim_res \<Rightarrow> ('a drv_state, aim_res) drv" where
  "d_create A r = lift_aim (aim_create A r False)"

definition d_create_over :: "'a aim_lib \<Rightarrow> aim_res \<Rightarrow> ('a drv_state, aim_res) drv" where
  "d_create_over A r = lift_aim (aim_create A r True)"

definition d_update :: "'a aim_lib \<Rightarrow> aim_res \<Rightarrow> (string \<times> aim_value) list \<Rightarrow> ('a drv_state, aim_res option) drv" where
  "d_update A r as = lift_aim (aim_update A r as)"

definition d_delete :: "'a aim_lib \<Rightarrow> aim_res option \<Rightarrow> ('a drv_state, unit) drv" where
  "d_delete A r = lift_aim0 (aim_delete A r)"

lemma drv_keeps_d [drv_rules]:
  "drv_keeps but_aim (d_get A r)" "drv_keeps but_aim (d_create A r)" "drv_keeps but_aim (d_create_over A r)"
  "drv_keeps but_aim (d_update A r as)" "drv_keeps but_aim (d_delete A x)"
  unfolding d_get_def d_create_def d_create_over_def d_update_def d_delete_def by (intro drv_rules)+

section \<open>Notifications\<close>

text \<open>\<^verbatim>\<open>str\<close> of a name that may be missing.\<close>

definition none_str :: "string option \<Rightarrow> string" where
  "none_str x = (case x of None \<Rightarrow> ''None'' | Some s \<Rightarrow> s)"

definition vrf_str :: "vrf \<Rightarrow> string" where
  "vrf_str v = none_str (vrf_tenant_name v) @ '' '' @ none_str (vrf_name v)"

definition add_postcommit_port_notifications :: "string set \<Rightarrow> ('a drv_state, unit) drv" where
  "add_postcommit_port_notifications ports = dmodify (\<lambda>s. s\<lparr> ds_ports_to_notify := ds_ports_to_notify s \<union> ports \<rparr>)"

definition add_postcommit_vrf_notification :: "vrf \<Rightarrow> ('a drv_state, unit) drv" where
  "add_postcommit_vrf_notification v = dmodify (\<lambda>s. s\<lparr> ds_vrfs_to_notify := insert (vrf_str v) (ds_vrfs_to_notify s) \<rparr>)"

definition publish_network_vrf :: "string \<Rightarrow> ('a drv_state, unit) drv" where
  "publish_network_vrf n = dmodify (\<lambda>s. s\<lparr> ds_published := ds_published s @ [n] \<rparr>)"

end
