(* ===== verification/Vrf_Moves.thy ===== *)
theory Vrf_Moves
  imports Aim_Store
begin

text \<open>
  How the mechanism driver moves networks between VRFs: the resources that networks, address scopes
  and routers are mapped to, the default VRF of a project, associating a network with a VRF at its
  first router interface, taking it out at its last one, and moving a whole topology.
\<close>

section \<open>Names\<close>

definition common_tenant_name :: string where
  "common_tenant_name = ''common''"

definition default_vrf_name :: string where
  "default_vrf_name = ''DefaultVRF''"

definition unrouted_vrf_name :: string where
  "unrouted_vrf_name = ''UnroutedVRF''"

definition router_subject_name :: string where
  "router_subject_name = ''route''"

definition ap_name :: string where
  "ap_name = ''OpenStack''"

definition any_filter_name :: "string \<Rightarrow> string" where
  "any_filter_name system_id = system_id @ ''_AnyFilter''"

section \<open>Resources of networks, scopes and routers\<close>

text \<open>\<open>pre\<close> is the bridge domain behind the name of a pre-existing one.\<close>

definition map_network_resources :: "network_row \<Rightarrow> vrf option \<Rightarrow> bridge_domain option \<Rightarrow> bridge_domain \<times> endpoint_group" where
  "map_network_resources n v pre =
     (let tenant = (case v of
            Some w \<Rightarrow> if vrf_tenant_name w \<noteq> Some ''common'' then vrf_tenant_name w
                      else Some (project_name (network_tenant_id n) [])
          | None \<Rightarrow> Some (project_name (network_tenant_id n) []));
        aname = Some (network_name (network_id n) [])
      in ((case pre of Some bd \<Rightarrow> bd | None \<Rightarrow> \<lparr> bd_tenant = tenant, bd_name = aname \<rparr>),
          \<lparr> epg_tenant = tenant, epg_app_profile_name = Some ap_name, epg_name = aname \<rparr>))"

text \<open>\<^verbatim>\<open>cidr.split('/')[1]\<close> and the address with that prefix length; a missing address is no text.\<close>

definition gw_ip_mask :: "string \<Rightarrow> string option \<Rightarrow> fabric_error + string" where
  "gw_ip_mask cidr ip =
     (case py_split (CHR ''/'') cidr of
        _ # prefix # _ \<Rightarrow> (case ip of None \<Rightarrow> Inl TypeError | Some a \<Rightarrow> Inr (a @ ''/'' @ prefix))
      | _ \<Rightarrow> Inl IndexError)"

definition map_subnet :: "string \<Rightarrow> string option \<Rightarrow> bridge_domain \<Rightarrow> fabric_error + aim_res" where
  "map_subnet cidr ip bd = bindE (gw_ip_mask cidr ip) (\<lambda>mask. Inr (aim_res_of Subnet
     [(''tenant_name'', AStr (bd_tenant bd)), (''bd_name'', AStr (bd_name bd)), (''gw_ip_mask'', AStr (Some mask))]))"

definition map_epg_subnet :: "string \<Rightarrow> string option \<Rightarrow> endpoint_group \<Rightarrow> fabric_error + aim_res" where
  "map_epg_subnet cidr ip epg = bindE (gw_ip_mask cidr ip) (\<lambda>mask. Inr (aim_res_of EPGSubnet
     [(''tenant_name'', AStr (epg_tenant epg)), (''app_profile_name'', AStr (epg_app_profile_name epg)),
      (''epg_name'', AStr (epg_name epg)), (''gw_ip_mask'', AStr (Some mask))]))"

definition map_address_scope :: "string \<Rightarrow> string \<Rightarrow> vrf" where
  "map_address_scope i tenant =
     \<lparr> vrf_tenant_name = Some (project_name tenant []), vrf_name = Some (address_scope_name i []) \<rparr>"

definition router_contract_name :: "string \<Rightarrow> string" where
  "router_contract_name i = router_name i []"

definition map_router :: "string \<Rightarrow> aim_res \<times> aim_res" where
  "map_router i =
     (aim_res_of Contract [(''tenant_name'', AStr (Some common_tenant_name)), (''name'', AStr (Some (router_contract_name i)))],
      aim_res_of ContractSubject [(''tenant_name'', AStr (Some common_tenant_name)),
        (''contract_name'', AStr (Some (router_contract_name i))), (''name'', AStr (Some router_subject_name))])"

definition map_default_vrf :: "network_row \<Rightarrow> vrf" where
  "map_default_vrf n =
     \<lparr> vrf_tenant_name = Some (project_name (network_tenant_id n) []), vrf_name = Some default_vrf_name \<rparr>"

definition map_unrouted_vrf :: "string \<Rightarrow> vrf" where
  "map_unrouted_vrf system_id =
     \<lparr> vrf_tenant_name = Some common_tenant_name, vrf_name = Some (system_id @ ''_'' @ unrouted_vrf_name) \<rparr>"

definition is_unrouted_vrf :: "string \<Rightarrow> vrf \<Rightarrow> bool" where
  "is_unrouted_vrf system_id v \<longleftrightarrow> vrf_tenant_name v = Some common_tenant_name \<and>
     vrf_name v = Some (system_id @ ''_'' @ unrouted_vrf_name)"

definition is_default_vrf :: "vrf \<Rightarrow> bool" where
  "is_default_vrf v \<longleftrightarrow> vrf_name v = Some default_vrf_name"

text \<open>The extension row of a network, and what it says of its external side.\<close>

definition net_ext_of :: "string \<Rightarrow> 'a drv_state \<Rightarrow> net_ext_row option" where
  "net_ext_of i s = find (\<lambda>x. nx_network_id x = i) (xd_networks (ds_ext s))"

definition is_svi_db :: "string \<Rightarrow> 'a drv_state \<Rightarrow> bool" where
  "is_svi_db i s = (case net_ext_of i s of None \<Rightarrow> False | Some x \<Rightarrow> nx_svi x = Some True)"

definition is_preexisting_svi_db :: "string \<Rightarrow> 'a drv_state \<Rightarrow> bool" where
  "is_preexisting_svi_db i s = (case net_ext_of i s of None \<Rightarrow> False
     | Some x \<Rightarrow> nx_svi x = Some True \<and> truthy (nx_external_network_dn x))"

section \<open>Mapping rows in a transaction\<close>

definition network_mapping_of :: "string \<Rightarrow> ('a drv_state, network_mapping) drv" where
  "network_mapping_of i = dbind (dread (\<lambda>s. get_network_mapping i (ds_neutron s))) dthe"

definition change_mapping :: "string \<Rightarrow> (network_mapping \<Rightarrow> network_mapping) \<Rightarrow> neutron_db \<Rightarrow> neutron_db" where
  "change_mapping i f db = db\<lparr> nt_network_mappings :=
     map (\<lambda>m. if nm_network_id m = i then f m else m) (nt_network_mappings db) \<rparr>"

definition write_mapping :: "string \<Rightarrow> (network_mapping \<Rightarrow> network_mapping) \<Rightarrow> ('a drv_state, unit) drv" where
  "write_mapping i f = dmodify (\<lambda>s. set_neutron (change_mapping i f (ds_neutron s)) s)"

definition set_network_epg_and_notify :: "string \<Rightarrow> endpoint_group \<Rightarrow> ('a drv_state, unit) drv" where
  "set_network_epg_and_notify i epg = dbind (write_mapping i (set_network_epg epg)) (\<lambda>_. publish_network_vrf i)"

definition set_network_vrf_and_notify :: "string \<Rightarrow> vrf \<Rightarrow> ('a drv_state, unit) drv" where
  "set_network_vrf_and_notify i v = dbind (write_mapping i (set_network_vrf v)) (\<lambda>_. publish_network_vrf i)"

section \<open>Default VRFs\<close>

definition ensure_default_vrf :: "'a aim_lib \<Rightarrow> vrf \<Rightarrow> ('a drv_state, vrf) drv" where
  "ensure_default_vrf A v =
     dbind (d_get A (vrf_res v)) (\<lambda>r.
     case r of
       Some x \<Rightarrow> dret (res_vrf x)
     | None \<Rightarrow>
         dbind (d_create A (set_attr ''display_name'' (AStr (Some (sanitize_display_name A ''DefaultRoutedVRF''))) (vrf_res v)))
           (\<lambda>x. dret (res_vrf x)))"

definition ensure_unrouted_vrf :: "'a aim_lib \<Rightarrow> string \<Rightarrow> ('a drv_state, vrf) drv" where
  "ensure_unrouted_vrf A system_id =
     dbind (d_get A (vrf_res (map_unrouted_vrf system_id))) (\<lambda>r.
     case r of
       Some x \<Rightarrow> dret (res_vrf x)
     | None \<Rightarrow>
         dbind (d_create A (set_attr ''display_name'' (AStr (Some (sanitize_display_name A ''CommonUnroutedVRF'')))
             (vrf_res (map_unrouted_vrf system_id)))) (\<lambda>x. dret (res_vrf x)))"

definition cleanup_default_vrf :: "'a aim_lib \<Rightarrow> vrf \<Rightarrow> ('a drv_state, unit) drv" where
  "cleanup_default_vrf A v =
     dbind (dread (\<lambda>s. is_vrf_used_by_networks v (ds_neutron s))) (\<lambda>used.
     dwhen (\<not> used) (d_delete A (Some (vrf_res v))))"

section \<open>Moving one network to a tenant\<close>

text \<open>Deleting the bridge domain, changing it, and creating it again under the other tenant.\<close>

definition move_bd :: "'a aim_lib \<Rightarrow> string \<Rightarrow> bool \<Rightarrow> string option \<Rightarrow> string option \<Rightarrow> ('a drv_state, aim_res) drv" where
  "move_bd A i routing tenant vname =
     dbind (network_mapping_of i) (\<lambda>m.
     dbind (d_get A (bd_res (get_network_bd m))) (\<lambda>old.
     dbind (d_delete A old) (\<lambda>_.
     dbind (dthe old) (\<lambda>bd.
     dbind (d_create A (set_attr ''vrf_name'' (AStr vname)
              (set_attr ''enable_routing'' (ABool routing) (set_attr ''tenant_name'' (AStr tenant) bd)))) (\<lambda>new.
     dbind (write_mapping i (set_network_bd (res_bd new))) (\<lambda>_. dret new))))))"

definition move_epg :: "'a aim_lib \<Rightarrow> string \<Rightarrow> (('a drv_state, unit) drv) \<Rightarrow> string option \<Rightarrow> ('a drv_state, aim_res) drv" where
  "move_epg A i before_create tenant =
     dbind (network_mapping_of i) (\<lambda>m.
     dbind (d_get A (epg_res (get_network_epg m))) (\<lambda>old.
     dbind (d_delete A old) (\<lambda>_.
     dbind before_create (\<lambda>_.
     dbind (dthe old) (\<lambda>epg.
     dbind (d_create A (set_attr ''tenant_name'' (AStr tenant) epg)) (\<lambda>new.
     dbind (set_network_epg_and_notify i (res_epg new)) (\<lambda>_. dret new)))))))"

text \<open>The L3Out under the other tenant, then its children one by one, then the old one goes.\<close>

definition move_l3out :: "'a aim_lib \<Rightarrow> string \<Rightarrow> string option \<Rightarrow> string option \<Rightarrow> ('a drv_state, aim_res) drv" where
  "move_l3out A i tenant vname =
     dbind (network_mapping_of i) (\<lambda>m.
     dbind (dthe (get_network_l3out (Some m))) (\<lambda>l.
     dbind (d_get A (l3out_res l)) (\<lambda>r.
     dbind (dthe r) (\<lambda>old.
     dbind (d_create A (set_attr ''vrf_name'' (AStr vname) (set_attr ''tenant_name'' (AStr tenant) old))) (\<lambda>new.
     dbind (write_mapping i (set_network_l3out (res_l3out new))) (\<lambda>_.
     dbind (dread (\<lambda>s. aim_get_subtree A old (ds_aim s))) (\<lambda>children.
     dbind (deach (\<lambda>child. dbind (d_create A (set_attr ''tenant_name'' (AStr tenant) child)) (\<lambda>_.
                           d_delete A (Some child))) children) (\<lambda>_.
     dbind (d_delete A (Some old)) (\<lambda>_. dret new)))))))))"

text \<open>The application profile must exist in the tenant.\<close>

definition ensure_app_profile :: "'a aim_lib \<Rightarrow> string option \<Rightarrow> ('a drv_state, unit) drv" where
  "ensure_app_profile A tenant =
     (let ap = aim_res_of ApplicationProfile [(''tenant_name'', AStr tenant), (''name'', AStr (Some ap_name))]
      in dbind (d_get A ap) (\<lambda>r. dwhen (r = None) (dbind (d_create A ap) (\<lambda>_. dret ()))))"

section \<open>Associating and taking out\<close>

text \<open>
  The result is the network's bridge domain (or L3Out), \<open>None\<close> when the update found none, and its
  endpoint group (or external network).  The old VRF is read after the new one was written.
\<close>

definition associate_network_with_vrf ::
  "'a aim_lib \<Rightarrow> network_row \<Rightarrow> vrf \<Rightarrow> string set \<Rightarrow> ('a drv_state, (aim_res option \<times> aim_res) \<times> string set) drv" where
  "associate_network_with_vrf A n new_vrf nets =
     (let i = network_id n in
      dbind (dread (is_svi_db i)) (\<lambda>svi.
      dbind (network_mapping_of i) (\<lambda>m.
      let tenant = (if svi then nm_l3out_tenant_name m else nm_bd_tenant_name m);
          move = (vrf_tenant_name new_vrf \<noteq> Some common_tenant_name \<and> tenant \<noteq> vrf_tenant_name new_vrf)
      in dbind (if svi then
             (if move then dbind (move_l3out A i (vrf_tenant_name new_vrf) (vrf_name new_vrf)) (\<lambda>l. dret (Some l, epg_res (get_network_epg m)))
              else dbind (d_update A (l3out_res \<lparr> l3o_tenant = nm_l3out_tenant_name m, l3o_name = nm_l3out_name m \<rparr>)
                          [(''vrf_name'', AStr (vrf_name new_vrf))]) (\<lambda>l. dret (l, epg_res (get_network_epg m))))
           else
             (if move then
                dbind (move_bd A i True (vrf_tenant_name new_vrf) (vrf_name new_vrf)) (\<lambda>bd.
                dbind (move_epg A i (ensure_app_profile A (vrf_tenant_name new_vrf)) (vrf_tenant_name new_vrf)) (\<lambda>epg.
                dret (Some bd, epg)))
              else dbind (d_update A (bd_res (get_network_bd m))
                          [(''enable_routing'', ABool True), (''vrf_name'', AStr (vrf_name new_vrf))]) (\<lambda>bd.
                   dret (bd, epg_res (get_network_epg m))))) (\<lambda>(res, epg).
         dbind (set_network_vrf_and_notify i new_vrf) (\<lambda>_.
         dbind (network_mapping_of i) (\<lambda>m'.
         let old_vrf = get_network_vrf m'
         in dbind (dwhen (is_default_vrf new_vrf) (add_postcommit_vrf_notification new_vrf)) (\<lambda>_.
            dbind (add_postcommit_vrf_notification old_vrf) (\<lambda>_.
            dret ((res, if svi then ext_net_res (get_network_l3out_ext_net m') else epg), insert i nets)))))))))"

definition dissassociate_network_from_vrf ::
  "'a aim_lib \<Rightarrow> string \<Rightarrow> network_row \<Rightarrow> vrf \<Rightarrow> string set \<Rightarrow> ('a drv_state, string set) drv" where
  "dissassociate_network_from_vrf A system_id n old_vrf nets =
     (let i = network_id n; new_tenant = Some (project_name (network_tenant_id n) []) in
      dbind (dread (is_svi_db i)) (\<lambda>svi.
      let new_vrf = (if svi then map_default_vrf n else map_unrouted_vrf system_id);
          move = (vrf_tenant_name old_vrf \<noteq> Some common_tenant_name \<and> vrf_tenant_name old_vrf \<noteq> new_tenant)
      in dbind (if move then
             (if svi then dbind (move_l3out A i new_tenant (vrf_name new_vrf)) (\<lambda>_. dret ())
              else dbind (move_bd A i False new_tenant (vrf_name new_vrf)) (\<lambda>_.
                   dbind (move_epg A i (dret ()) new_tenant) (\<lambda>_. dret ())))
           else
             dbind (network_mapping_of i) (\<lambda>m.
             if svi then dbind (d_update A (l3out_res \<lparr> l3o_tenant = nm_l3out_tenant_name m, l3o_name = nm_l3out_name m \<rparr>)
                          [(''vrf_name'', AStr (vrf_name new_vrf))]) (\<lambda>_. dret ())
             else dbind (d_update A (bd_res (get_network_bd m))
                          [(''enable_routing'', ABool False), (''vrf_name'', AStr (vrf_name new_vrf))]) (\<lambda>_. dret ()))) (\<lambda>_.
         dbind (set_network_vrf_and_notify i new_vrf) (\<lambda>_.
         dbind (dwhen (is_default_vrf old_vrf) (add_postcommit_vrf_notification old_vrf)) (\<lambda>_.
         dbind (add_postcommit_vrf_notification new_vrf) (\<lambda>_.
         dret (insert i nets)))))))"

section \<open>Moving a topology\<close>

text \<open>A bridge domain between tenants: the copy is created first, the subnets follow one by one.\<close>

definition move_bd_with_subnets :: "'a aim_lib \<Rightarrow> string \<Rightarrow> vrf \<Rightarrow> ('a drv_state, unit) drv" where
  "move_bd_with_subnets A i new_vrf =
     dbind (network_mapping_of i) (\<lambda>m.
     dbind (d_get A (bd_res (get_network_bd m))) (\<lambda>r.
     dbind (dthe r) (\<lambda>old.
     dbind (d_create A (set_attr ''vrf_name'' (AStr (vrf_name new_vrf))
              (set_attr ''tenant_name'' (AStr (vrf_tenant_name new_vrf)) old))) (\<lambda>bd.
     dbind (write_mapping i (set_network_bd (res_bd bd))) (\<lambda>_.
     dbind (dread (\<lambda>s. aim_find A Subnet [(''tenant_name'', AStr (attr_str old ''tenant_name'')),
                                          (''bd_name'', AStr (attr_str old ''name''))] (ds_aim s))) (\<lambda>subnets.
     dbind (deach (\<lambda>sn. dbind (d_delete A (Some sn)) (\<lambda>_.
                        dbind (d_create A (set_attr ''tenant_name'' (AStr (attr_str bd ''tenant_name'')) sn)) (\<lambda>_. dret ()))) subnets) (\<lambda>_.
     d_delete A (Some old))))))))"

definition move_network :: "'a aim_lib \<Rightarrow> vrf \<Rightarrow> vrf \<Rightarrow> network_row \<Rightarrow> ('a drv_state, unit) drv" where
  "move_network A old_vrf new_vrf n =
     (let i = network_id n in
      dbind (network_mapping_of i) (\<lambda>m.
      dbind (if vrf_tenant_name old_vrf \<noteq> vrf_tenant_name new_vrf then
               (if truthy (nm_epg_name m) then
                  dbind (move_bd_with_subnets A i new_vrf) (\<lambda>_.
                  dbind (move_epg A i (dret ()) (vrf_tenant_name new_vrf)) (\<lambda>_. dret ()))
                else if truthy (nm_l3out_name m) then
                  dbind (move_l3out A i (vrf_tenant_name new_vrf) (vrf_name new_vrf)) (\<lambda>_. dret ())
                else dret ())
             else if truthy (nm_epg_name m) then
               dbind (d_update A (bd_res (get_network_bd m)) [(''vrf_name'', AStr (vrf_name new_vrf))]) (\<lambda>_. dret ())
             else if truthy (nm_l3out_name m) then
               dbind (d_update A (l3out_res \<lparr> l3o_tenant = nm_l3out_tenant_name m, l3o_name = nm_l3out_name m \<rparr>)
                 [(''vrf_name'', AStr (vrf_name new_vrf))]) (\<lambda>_. dret ())
             else dret ()) (\<lambda>_.
      set_network_vrf_and_notify i new_vrf)))"

definition move_topology ::
  "'a aim_lib \<Rightarrow> (string \<times> network_row) list \<Rightarrow> vrf \<Rightarrow> vrf \<Rightarrow> string set \<Rightarrow> ('a drv_state, string set) drv" where
  "move_topology A topology old_vrf new_vrf nets =
     dbind (deach (\<lambda>(_, n). move_network A old_vrf new_vrf n) topology) (\<lambda>_.
     dbind (add_postcommit_vrf_notification old_vrf) (\<lambda>_.
     dbind (add_postcommit_vrf_notification new_vrf) (\<lambda>_.
     dret (nets \<union> set (map fst topology)))))"

end
