(* ===== verification/External_Connectivity.thy ===== *)
theory External_Connectivity
  imports Vrf_Moves Owner_Tables
begin

text \<open>
  How the mechanism driver connects VRFs to external networks: the fabric objects behind an external
  network, the contracts of the routers of a VRF, connecting and disconnecting, counting the
  interfaces of a router, and the check that the subnets of a VRF do not overlap.
\<close>

section \<open>External networks\<close>

text \<open>The parts of the dictionary of a network that are read here; the core plugin makes it.\<close>

record net_dict =
  nd_id :: string
  nd_external :: bool
  nd_ext_net_dn :: "string option"
  nd_nat_type :: "string option"
  nd_multi_ext_nets :: bool

record drv_config =
  dc_apic_system_id :: string
  dc_allow_overlap :: bool
  dc_get_network :: "string \<Rightarrow> ext_db \<Rightarrow> fabric_error + net_dict"

definition nat_type_to_strategy :: "string option \<Rightarrow> nat_strategy" where
  "nat_type_to_strategy t =
     (if t = Some [] then NoNatStrategy else if t = Some ''edge'' then EdgeNatStrategy else DistributedNatStrategy)"

definition get_aim_external_objects ::
  "'a aim_lib \<Rightarrow> net_dict \<Rightarrow> fabric_error + (l3_outside \<times> external_network \<times> nat_strategy) option" where
  "get_aim_external_objects A net =
     (if \<not> truthy (nd_ext_net_dn net) then Inr None
      else bindE (ext_net_from_dn A (the (nd_ext_net_dn net))) (\<lambda>en.
        Inr (Some (\<lparr> l3o_tenant = en_tenant en, l3o_name = en_l3out_name en \<rparr>, en, nat_type_to_strategy (nd_nat_type net)))))"

definition get_aim_nat_strategy ::
  "'a aim_lib \<Rightarrow> net_dict \<Rightarrow> fabric_error + (l3_outside \<times> external_network \<times> nat_strategy) option" where
  "get_aim_nat_strategy A net = (if nd_external net then get_aim_external_objects A net else Inr None)"

definition determine_epg_name :: "bool \<Rightarrow> string \<Rightarrow> string option" where
  "determine_epg_name multi_ext_nets net_id = (if multi_ext_nets then Some net_id else None)"

section \<open>Contracts of routers\<close>

text \<open>\<^verbatim>\<open>router.gw_port.network_id\<close> of a router with a gateway.\<close>

definition gw_network :: "neutron_db \<Rightarrow> router_row \<Rightarrow> string option" where
  "gw_network db r = (if truthy (router_gw_port_id r)
     then map_option port_network_id (find (\<lambda>p. port_id p = the (router_gw_port_id r)) (nt_ports db)) else None)"

definition gw_in :: "neutron_db \<Rightarrow> string list \<Rightarrow> router_row \<Rightarrow> bool" where
  "gw_in db nets r = (case gw_network db r of None \<Rightarrow> False | Some n \<Rightarrow> n \<in> set nets)"

text \<open>
  The dictionaries that \<^verbatim>\<open>update_contracts\<close> fills, as the sorted names they end up with: the contract
  of each router and the contracts that the router provides (or consumes) externally.
\<close>

definition contracts_of_routers :: "(string \<Rightarrow> string list) \<Rightarrow> string list \<Rightarrow> string list" where
  "contracts_of_routers extra routers =
     sort_strings (remdups (concat (map (\<lambda>r. router_contract_name r # extra r) routers)))"

definition provided_contracts :: "ext_db \<Rightarrow> string list \<Rightarrow> string list" where
  "provided_contracts xdb = contracts_of_routers (\<lambda>r. fst (get_router_extn_db r xdb))"

definition consumed_contracts :: "ext_db \<Rightarrow> string list \<Rightarrow> string list" where
  "consumed_contracts xdb = contracts_of_routers (\<lambda>r. snd (get_router_extn_db r xdb))"

text \<open>The routers of the VRF with a gateway on a network of the same external network of the fabric.\<close>

definition connected_routers :: "'a aim_lib \<Rightarrow> external_network \<Rightarrow> vrf \<Rightarrow> ext_db \<Rightarrow> string list" where
  "connected_routers A en v xdb =
     map router_id (filter (gw_in (xd_neutron xdb) (get_network_ids_by_ext_net_dn (ext_net_dn A en) xdb))
       (get_routers_for_vrf (xd_neutron xdb) v))"

text \<open>The part for the old network and the part for the new one.\<close>

definition disconnect_old :: "'a aim_lib \<Rightarrow> net_dict \<Rightarrow> vrf \<Rightarrow> ('a drv_state, unit) drv" where
  "disconnect_old A net v =
     dbind (dlift (get_aim_nat_strategy A net)) (\<lambda>x.
     case x of
       None \<Rightarrow> dret ()
     | Some (_, en, ns) \<Rightarrow>
         dbind (dread ds_ext) (\<lambda>xdb.
         let routers = connected_routers A en v xdb;
             epg = determine_epg_name (nd_multi_ext_nets net) (nd_id net)
         in if routers \<noteq> [] then
              lift_aim0 (ns_connect_vrf A ns en v (provided_contracts xdb routers) (consumed_contracts xdb routers) epg)
            else lift_aim0 (ns_disconnect_vrf A ns en v epg)))"

definition connect_new :: "'a aim_lib \<Rightarrow> string \<Rightarrow> net_dict \<Rightarrow> vrf \<Rightarrow> ('a drv_state, unit) drv" where
  "connect_new A router net v =
     dbind (dlift (get_aim_nat_strategy A net)) (\<lambda>x.
     case x of
       None \<Rightarrow> dret ()
     | Some (_, en, ns) \<Rightarrow>
         dbind (dread ds_ext) (\<lambda>xdb.
         let routers = connected_routers A en v xdb @ [router]
         in lift_aim0 (ns_connect_vrf A ns en v (provided_contracts xdb routers) (consumed_contracts xdb routers)
              (determine_epg_name (nd_multi_ext_nets net) (nd_id net)))))"

definition manage_external_connectivity ::
  "'a aim_lib \<Rightarrow> string \<Rightarrow> net_dict option \<Rightarrow> net_dict option \<Rightarrow> vrf \<Rightarrow> ('a drv_state, unit) drv" where
  "manage_external_connectivity A router old_network new_network v =
     dbind (case old_network of None \<Rightarrow> dret () | Some n \<Rightarrow> disconnect_old A n v) (\<lambda>_.
     case new_network of None \<Rightarrow> dret () | Some n \<Rightarrow> connect_new A router n v)"

section \<open>Interfaces of a router\<close>

text \<open>Which interfaces count: all of them, those outside all scopes, or those of a scope's VRF.\<close>

datatype scope_filter = AllScopes | NoAddrScope | InScope string

definition interface_ports :: "neutron_db \<Rightarrow> string \<Rightarrow> router_port_row list" where
  "interface_ports db r = filter (\<lambda>rp. rp_router_id rp = r \<and> rp_type rp = device_owner_router_intf) (nt_router_ports db)"

definition interface_subnets :: "neutron_db \<Rightarrow> string \<Rightarrow> subnet_row list" where
  "interface_subnets db r =
     [s. rp \<leftarrow> interface_ports db r, a \<leftarrow> nt_allocs db, s \<leftarrow> nt_subnets db,
         alloc_port_id a = rp_port_id rp \<and> subnet_id s = alloc_subnet_id a]"

definition get_router_intf_count :: "neutron_db \<Rightarrow> string \<Rightarrow> scope_filter \<Rightarrow> fabric_error + nat" where
  "get_router_intf_count db r f =
     (case f of
        AllScopes \<Rightarrow> Inr (length (interface_ports db r))
      | NoAddrScope \<Rightarrow> Inr (length (filter (subnet_without_scope db) (interface_subnets db r)))
      | InScope i \<Rightarrow>
          bindE (get_address_scope_vrf (get_address_scope_mapping i db)) (\<lambda>v.
          let scopes = map asm_scope_id (get_address_scope_mappings_for_vrf v db)
          in if scopes = [] then Inr 0
             else Inr (length (filter (\<lambda>s. case subnet_pool db s of None \<Rightarrow> False
                 | Some p \<Rightarrow> (case pool_scope_id p of None \<Rightarrow> False | Some x \<Rightarrow> x \<in> set scopes)) (interface_subnets db r)))))"

text \<open>What a request says of a subnet.\<close>

record router_subnet =
  rs_id :: string
  rs_name :: string
  rs_cidr :: string
  rs_subnetpool_id :: "string option"
  rs_ip_version :: int
  rs_active_active_aap :: bool

text \<open>The scope of the first subnet, IPv4 before IPv6; \<open>None\<close> is no scope.\<close>

definition get_address_scope_id_for_subnets :: "neutron_db \<Rightarrow> router_subnet list \<Rightarrow> fabric_error + string option" where
  "get_address_scope_id_for_subnets db subnets =
     (case sort_key rs_ip_version subnets of
        [] \<Rightarrow> Inr None
      | s # _ \<Rightarrow>
          if truthy (rs_subnetpool_id s) then
            (case find (\<lambda>p. pool_id p = the (rs_subnetpool_id s)) (nt_pools db) of
               None \<Rightarrow> Inl (SubnetPoolNotFound (the (rs_subnetpool_id s)))
             | Some p \<Rightarrow> Inr (if truthy (pool_scope_id p) then pool_scope_id p else None))
          else Inr None)"

definition scope_filter_of :: "string option \<Rightarrow> scope_filter" where
  "scope_filter_of s = (case s of None \<Rightarrow> NoAddrScope | Some i \<Rightarrow> InScope i)"

section \<open>Overlapping subnets\<close>

text \<open>The address library: parsing a prefix, its order on networks, and \<^verbatim>\<open>x in y\<close>.\<close>

record 'n net_lib =
  nl_parse :: "string \<Rightarrow> fabric_error + 'n"
  nl_le :: "'n \<Rightarrow> 'n \<Rightarrow> bool"
  nl_in :: "'n \<Rightarrow> 'n \<Rightarrow> bool"

text \<open>\<^verbatim>\<open>list.sort\<close>, which is stable.\<close>

fun insert_net :: "('n \<Rightarrow> 'n \<Rightarrow> bool) \<Rightarrow> 'i \<times> 'n \<Rightarrow> ('i \<times> 'n) list \<Rightarrow> ('i \<times> 'n) list" where
  "insert_net le x [] = [x]"
| "insert_net le x (y # ys) = (if le (snd x) (snd y) then x # y # ys else y # insert_net le x ys)"

fun sort_nets :: "('n \<Rightarrow> 'n \<Rightarrow> bool) \<Rightarrow> ('i \<times> 'n) list \<Rightarrow> ('i \<times> 'n) list" where
  "sort_nets le [] = []"
| "sort_nets le (x # xs) = insert_net le x (sort_nets le xs)"

fun parse_nets :: "'n net_lib \<Rightarrow> (string \<times> string) list \<Rightarrow> fabric_error + (string \<times> 'n) list" where
  "parse_nets L [] = Inr []"
| "parse_nets L ((i, cidr) # xs) =
     bindE (nl_parse L cidr) (\<lambda>n. bindE (parse_nets L xs) (\<lambda>ns. Inr ((i, n) # ns)))"

text \<open>The subnets with a router interface on the networks of the VRF, once per interface address.\<close>

definition routed_subnets_of_vrf :: "vrf \<Rightarrow> neutron_db \<Rightarrow> (string \<times> string) list" where
  "routed_subnets_of_vrf v db =
     [(subnet_id s, subnet_cidr s). s \<leftarrow> nt_subnets db, a \<leftarrow> nt_allocs db, rp \<leftarrow> nt_router_ports db, m \<leftarrow> nt_network_mappings db,
        alloc_subnet_id a = subnet_id s \<and> rp_port_id rp = alloc_port_id a \<and> nm_network_id m = subnet_network_id s \<and>
        rp_type rp = device_owner_router_intf \<and> nm_vrf_name m = vrf_name v \<and> nm_vrf_tenant_name m = vrf_tenant_name v]"

text \<open>The loop over neighbours.\<close>

fun neighbour_overlap :: "'n net_lib \<Rightarrow> (string \<times> 'n) list \<Rightarrow> (string \<times> string) option" where
  "neighbour_overlap L [] = None"
| "neighbour_overlap L [x] = None"
| "neighbour_overlap L ((id1, c1) # (id2, c2) # xs) =
     (if id2 \<noteq> id1 \<and> nl_in L c2 c1 then Some (id1, id2) else neighbour_overlap L ((id2, c2) # xs))"

definition check_vrf_for_overlap ::
  "'n net_lib \<Rightarrow> bool \<Rightarrow> vrf \<Rightarrow> router_subnet list \<Rightarrow> neutron_db \<Rightarrow> fabric_error + unit" where
  "check_vrf_for_overlap L allow v new_subnets db =
     (if allow then Inr ()
      else bindE (parse_nets L (routed_subnets_of_vrf v db)) (\<lambda>old.
           bindE (parse_nets L (map (\<lambda>s. (rs_id s, rs_cidr s)) new_subnets)) (\<lambda>new.
           case neighbour_overlap L (sort_nets (nl_le L) (old @ new)) of
             None \<Rightarrow> Inr ()
           | Some (id1, id2) \<Rightarrow> Inl (SubnetOverlapInRoutedVRF id1 id2))))"

end
