(* ===== verification/Router_Interfaces.thy ===== *)
theory Router_Interfaces
  imports External_Connectivity
begin

text \<open>
  Routers in the mechanism driver: creating, updating and deleting a router, and the two long
  handlers that add subnets to a router and remove them, with the routing topologies that are
  refused, the choice of the VRF, the moves of topologies, the subnets and contracts of the fabric,
  the external connectivity and the ports to notify.
\<close>

section \<open>Requests\<close>

record router_obj =
  ro_id :: string
  ro_name :: string

record interface_port =
  ip_network_id :: string
  ip_fixed_ips :: "(string \<times> string) list"

definition ip_for_subnet :: "string \<Rightarrow> (string \<times> string) list \<Rightarrow> string option" where
  "ip_for_subnet s fixed_ips = map_of fixed_ips s"

definition determine_subnet_scope :: "bool \<Rightarrow> bool \<Rightarrow> subnet_scope" where
  "determine_subnet_scope advertised_externally shared_between_vrfs =
     (if advertised_externally \<and> \<not> shared_between_vrfs then SCOPE_PUBLIC
      else if \<not> advertised_externally \<and> shared_between_vrfs then SCOPE_SHARED
      else if advertised_externally \<and> shared_between_vrfs then SCOPE_PUBLIC_SHARED
      else SCOPE_PRIVATE)"

text \<open>\<^verbatim>\<open>d.get(key, default)\<close> of an extension dictionary.\<close>

definition flag_or :: "bool option \<Rightarrow> bool \<Rightarrow> bool" where
  "flag_or x d = (case x of None \<Rightarrow> d | Some b \<Rightarrow> b)"

definition network_of :: "string \<Rightarrow> ('a drv_state, network_row) drv" where
  "network_of i = dbind (dread (\<lambda>s. find (\<lambda>n. network_id n = i) (nt_networks (ds_neutron s)))) (\<lambda>x.
     case x of None \<Rightarrow> draise (NetworkNotFound i) | Some n \<Rightarrow> dret n)"

definition scope_vrf :: "string \<Rightarrow> ('a drv_state, vrf) drv" where
  "scope_vrf i = dbind (dread ds_neutron) (\<lambda>db.
     dbind (dthe (find (\<lambda>s. scope_id s = i) (nt_scopes db))) (\<lambda>_.
     dlift (get_address_scope_vrf (get_address_scope_mapping i db))))"

section \<open>Routing topologies that are refused\<close>

text \<open>Up to two existing interfaces of the network, each with its router and subnet.\<close>

definition existing_interfaces :: "string \<Rightarrow> neutron_db \<Rightarrow> (string \<times> subnet_row) list" where
  "existing_interfaces net db =
     [(rp_router_id rp, s). rp \<leftarrow> nt_router_ports db, a \<leftarrow> nt_allocs db, s \<leftarrow> nt_subnets db,
        alloc_port_id a = rp_port_id rp \<and> subnet_id s = alloc_subnet_id a \<and> subnet_network_id s = net \<and>
        rp_type rp = device_owner_router_intf]"

definition net_interfaces :: "string \<Rightarrow> neutron_db \<Rightarrow> (string \<times> subnet_row) list" where
  "net_interfaces net db = take 2 (existing_interfaces net db)"

definition different_router :: "string \<Rightarrow> (string \<times> subnet_row) list \<Rightarrow> bool" where
  "different_router r intfs = list_ex (\<lambda>(r', _). r \<noteq> r') intfs"

definition different_subnet :: "string list \<Rightarrow> (string \<times> subnet_row) list \<Rightarrow> bool" where
  "different_subnet subnets intfs = list_ex (\<lambda>(_, s). list_ex (\<lambda>i. i \<noteq> subnet_id s) subnets) intfs"

text \<open>The scope of the first existing interface must have the same VRF.\<close>

definition check_isomorphic :: "string option \<Rightarrow> (string \<times> subnet_row) list \<Rightarrow> ('a drv_state, unit) drv" where
  "check_isomorphic scope intfs =
     (case intfs of
        [] \<Rightarrow> dret ()
      | (_, s) # _ \<Rightarrow>
          dbind (dread ds_neutron) (\<lambda>db.
          let existing = (case subnet_pool db s of None \<Rightarrow> None
                | Some p \<Rightarrow> if truthy (pool_scope_id p) then pool_scope_id p else None)
          in if scope = existing then dret ()
             else (case (scope, existing) of
                 (Some i, Some j) \<Rightarrow>
                   dbind (scope_vrf i) (\<lambda>v. dbind (scope_vrf j) (\<lambda>w. dguard (v = w) NonIsomorphicNetworkRoutingUnsupported))
               | _ \<Rightarrow> draise NonIsomorphicNetworkRoutingUnsupported)))"

text \<open>All checks before anything is changed; the result is the scope and the number of interfaces in it.\<close>

definition check_new_interface ::
  "bool \<Rightarrow> string \<Rightarrow> network_row \<Rightarrow> router_subnet list \<Rightarrow> ('a drv_state, string option \<times> nat) drv" where
  "check_new_interface override_validation r n subnets =
     (let i = network_id n in
      dbind (dread (is_preexisting_svi_db i)) (\<lambda>svi.
      dbind (dguard (\<not> svi) PreExistingSVICannotBeConnectedToRouter) (\<lambda>_.
      dbind (dread ds_external) (\<lambda>ext.
      dbind (dguard (i \<notin> set ext) (ExternalSubnetNotAllowed i)) (\<lambda>_.
      dbind (deach (\<lambda>s. dguard (\<not> rs_active_active_aap s) (ActiveActiveAAPSubnetConnectedToRouter (rs_id s))) subnets) (\<lambda>_.
      dbind (dread ds_neutron) (\<lambda>db.
      dbind (dlift (get_address_scope_id_for_subnets db subnets)) (\<lambda>scope.
      dbind (dlift (get_router_intf_count db r (scope_filter_of scope))) (\<lambda>intf_count.
      let intfs = net_interfaces i db
      in dbind (dguard (override_validation \<or> \<not> (different_router r intfs \<and> different_subnet (map rs_id subnets) intfs))
           UnsupportedRoutingTopology) (\<lambda>_.
         dbind (check_isomorphic scope intfs) (\<lambda>_. dret (scope, intf_count))))))))))))"

section \<open>Choosing the VRF\<close>

text \<open>
  The VRF, the VRF that the router's topology had, whether that topology was moved, and the
  networks to notify.
\<close>

record vrf_choice =
  vc_vrf :: vrf
  vc_router_vrf :: "vrf option"
  vc_router_topo_moved :: bool
  vc_nets :: "string set"

definition topology_vrf :: "(string \<times> network_row) list \<Rightarrow> vrf option" where
  "topology_vrf topology =
     (case topology of
        [] \<Rightarrow> None
      | (_, n) # _ \<Rightarrow> Some (map_default_vrf (case topology_shared topology of Some m \<Rightarrow> m | None \<Rightarrow> n)))"

definition choose_unscoped_vrf ::
  "'a aim_lib \<Rightarrow> string \<Rightarrow> network_row \<Rightarrow> bool \<Rightarrow> ('a drv_state, vrf_choice) drv" where
  "choose_unscoped_vrf A r n routed =
     dbind (dread ds_neutron) (\<lambda>db.
     let intf_topology = network_topology db n;
         router_topology = router_topology db r;
         intf_shared_net = topology_shared intf_topology;
         router_shared_net = topology_shared router_topology;
         intf_vrf = map_default_vrf (case intf_shared_net of Some m \<Rightarrow> m | None \<Rightarrow> n);
         router_vrf = topology_vrf router_topology
     in case router_vrf of
          Some rv \<Rightarrow>
            if intf_vrf \<noteq> rv then
              (case (intf_shared_net, router_shared_net) of
                 (Some a, Some b) \<Rightarrow> draise (UnscopedSharedNetworkProjectConflict (network_id a) (network_tenant_id a)
                     (network_id b) (network_tenant_id b))
               | (Some _, None) \<Rightarrow>
                   dbind (ensure_default_vrf A intf_vrf) (\<lambda>v.
                   dbind (move_topology A router_topology rv v {}) (\<lambda>nets.
                   dbind (cleanup_default_vrf A rv) (\<lambda>_.
                   dret \<lparr> vc_vrf = v, vc_router_vrf = Some rv, vc_router_topo_moved = True, vc_nets = nets \<rparr>)))
               | (None, Some _) \<Rightarrow>
                   if routed then
                     dbind (move_topology A intf_topology intf_vrf rv {}) (\<lambda>nets.
                     dbind (cleanup_default_vrf A intf_vrf) (\<lambda>_.
                     dret \<lparr> vc_vrf = rv, vc_router_vrf = Some rv, vc_router_topo_moved = False, vc_nets = nets \<rparr>))
                   else dret \<lparr> vc_vrf = rv, vc_router_vrf = Some rv, vc_router_topo_moved = False, vc_nets = {} \<rparr>
               | (None, None) \<Rightarrow> draise (InternalError []))
            else dbind (ensure_default_vrf A intf_vrf) (\<lambda>v.
                 dret \<lparr> vc_vrf = v, vc_router_vrf = Some rv, vc_router_topo_moved = False, vc_nets = {} \<rparr>)
        | None \<Rightarrow> dbind (ensure_default_vrf A intf_vrf) (\<lambda>v.
                  dret \<lparr> vc_vrf = v, vc_router_vrf = None, vc_router_topo_moved = False, vc_nets = {} \<rparr>))"

definition choose_vrf ::
  "'a aim_lib \<Rightarrow> string option \<Rightarrow> string \<Rightarrow> network_row \<Rightarrow> bool \<Rightarrow> ('a drv_state, vrf_choice) drv" where
  "choose_vrf A scope r n routed =
     (case scope of
        Some i \<Rightarrow> dbind (scope_vrf i) (\<lambda>v.
          dret \<lparr> vc_vrf = v, vc_router_vrf = None, vc_router_topo_moved = False, vc_nets = {} \<rparr>)
      | None \<Rightarrow> choose_unscoped_vrf A r n routed)"

section \<open>Subnets and contracts of the fabric\<close>

text \<open>What the handler knows of the network's resources: \<open>None\<close> is a variable that was never set.\<close>

record net_resources =
  nr_bd :: "aim_res option option"
  nr_epg :: "aim_res option"

definition create_subnet :: "'a aim_lib \<Rightarrow> router_obj \<Rightarrow> interface_port \<Rightarrow> net_resources \<Rightarrow> router_subnet \<Rightarrow> ('a drv_state, unit) drv" where
  "create_subnet A r p x sn =
     dbind (dread ds_ext) (\<lambda>xdb.
     let gw_ip = ip_for_subnet (rs_id sn) (ip_fixed_ips p);
         dname = sanitize_display_name A (ro_name r @ ''-'' @ (if rs_name sn \<noteq> [] then rs_name sn else rs_cidr sn));
         ext = get_subnet_extn_db (rs_id sn) xdb;
         scope = subnet_scope_value A (determine_subnet_scope (flag_or (sd_advertised_externally ext) True)
           (flag_or (sd_shared_between_vrfs ext) False));
         finish = (\<lambda>res. set_attr ''scope'' (AStr (Some scope)) (set_attr ''display_name'' (AStr (Some dname)) res))
     in if flag_or (sd_epg_subnet ext) False then
          dbind (dthe (nr_epg x)) (\<lambda>epg.
          dbind (dlift (map_epg_subnet (rs_cidr sn) gw_ip (res_epg epg))) (\<lambda>res.
          dbind (d_create A (finish res)) (\<lambda>_. dret ())))
        else
          dbind (case nr_bd x of None \<Rightarrow> draise UnboundLocalError | Some b \<Rightarrow> dthe b) (\<lambda>bd.
          dbind (dlift (map_subnet (rs_cidr sn) gw_ip (res_bd bd))) (\<lambda>res.
          dbind (d_create A (finish res)) (\<lambda>_. dret ()))))"

definition delete_subnet :: "'a aim_lib \<Rightarrow> interface_port \<Rightarrow> network_mapping \<Rightarrow> router_subnet \<Rightarrow> ('a drv_state, unit) drv" where
  "delete_subnet A p m sn =
     dbind (dread ds_ext) (\<lambda>xdb.
     let gw_ip = ip_for_subnet (rs_id sn) (ip_fixed_ips p)
     in if flag_or (sd_epg_subnet (get_subnet_extn_db (rs_id sn) xdb)) False then
          dbind (dlift (map_epg_subnet (rs_cidr sn) gw_ip (get_network_epg m))) (\<lambda>res. d_delete A (Some res))
        else dbind (dlift (map_subnet (rs_cidr sn) gw_ip (get_network_bd m))) (\<lambda>res. d_delete A (Some res)))"

definition external_epg_contract :: "aim_class \<Rightarrow> aim_res \<Rightarrow> string \<Rightarrow> aim_res" where
  "external_epg_contract c ext_net contract = aim_res_of c
     [(''tenant_name'', AStr (attr_str ext_net ''tenant_name'')), (''l3out_name'', AStr (attr_str ext_net ''l3out_name'')),
      (''ext_net_name'', AStr (attr_str ext_net ''name'')), (''name'', AStr (Some contract))]"

definition create_external_epg_contract :: "'a aim_lib \<Rightarrow> aim_class \<Rightarrow> aim_res \<Rightarrow> string \<Rightarrow> ('a drv_state, unit) drv" where
  "create_external_epg_contract A c ext_net contract =
     dbind (d_create_over A (external_epg_contract c ext_net contract)) (\<lambda>_. dret ())"

definition delete_external_epg_contract :: "'a aim_lib \<Rightarrow> aim_class \<Rightarrow> aim_res \<Rightarrow> string \<Rightarrow> ('a drv_state, unit) drv" where
  "delete_external_epg_contract A c ext_net contract =
     dbind (d_get A (external_epg_contract c ext_net contract)) (\<lambda>old. dwhen (old \<noteq> None) (d_delete A old))"

text \<open>Adding the name of a contract to one of the two lists of an endpoint group.\<close>

definition add_epg_contract :: "'a aim_lib \<Rightarrow> string \<Rightarrow> string \<Rightarrow> aim_res option \<Rightarrow> ('a drv_state, aim_res option) drv" where
  "add_epg_contract A key contract epg =
     dbind (dthe epg) (\<lambda>e.
     if contract \<notin> set (attr_strs e key) then d_update A e [(key, AStrs (attr_strs e key @ [contract]))]
     else dret epg)"

definition remove_epg_contract :: "'a aim_lib \<Rightarrow> string \<Rightarrow> string \<Rightarrow> aim_res option \<Rightarrow> ('a drv_state, aim_res option) drv" where
  "remove_epg_contract A key contract epg =
     dbind (dthe epg) (\<lambda>e. d_update A e [(key, AStrs (filter (\<lambda>c. c \<noteq> contract) (attr_strs e key)))])"

definition get_epg :: "'a aim_lib \<Rightarrow> aim_res option \<Rightarrow> ('a drv_state, aim_res option) drv" where
  "get_epg A epg = (case epg of
       None \<Rightarrow> lift_aim (\<lambda>a. bindE (aim_get_nothing A a) (\<lambda>r. Inr (r, a)))
     | Some e \<Rightarrow> d_get A e)"

definition connect_epg :: "'a aim_lib \<Rightarrow> string \<Rightarrow> aim_res option \<Rightarrow> ('a drv_state, unit) drv" where
  "connect_epg A contract epg =
     dbind (get_epg A epg) (\<lambda>x.
     case x of
       None \<Rightarrow> dret ()
     | Some e \<Rightarrow>
         if ar_class e = ExternalNetwork then
           dbind (create_external_epg_contract A ExternalNetworkProvidedContract e contract) (\<lambda>_.
           create_external_epg_contract A ExternalNetworkConsumedContract e contract)
         else
           dbind (add_epg_contract A ''consumed_contract_names'' contract (Some e)) (\<lambda>e'.
           dbind (add_epg_contract A ''provided_contract_names'' contract e') (\<lambda>_. dret ())))"

definition disconnect_epg :: "'a aim_lib \<Rightarrow> string \<Rightarrow> aim_res \<Rightarrow> ('a drv_state, unit) drv" where
  "disconnect_epg A contract epg =
     dbind (d_get A epg) (\<lambda>x.
     case x of
       None \<Rightarrow> draise AttributeError
     | Some e \<Rightarrow>
         if ar_class e = ExternalNetwork then
           dbind (delete_external_epg_contract A ExternalNetworkProvidedContract e contract) (\<lambda>_.
           delete_external_epg_contract A ExternalNetworkConsumedContract e contract)
         else
           dbind (remove_epg_contract A ''consumed_contract_names'' contract (Some e)) (\<lambda>e'.
           dbind (remove_epg_contract A ''provided_contract_names'' contract e') (\<lambda>_. dret ())))"

section \<open>Adding subnets to a router\<close>

definition router_gateway :: "string \<Rightarrow> neutron_db \<Rightarrow> string option" where
  "router_gateway r db = (case find (\<lambda>x. router_id x = r) (nt_routers db) of None \<Rightarrow> None | Some x \<Rightarrow> gw_network db x)"

text \<open>The network's resources, after it was associated or as they are mapped.\<close>

definition associate_or_map ::
  "'a aim_lib \<Rightarrow> network_row \<Rightarrow> vrf \<Rightarrow> bool \<Rightarrow> string set \<Rightarrow> ('a drv_state, net_resources \<times> string set) drv" where
  "associate_or_map A n v routed nets =
     dbind (network_mapping_of (network_id n)) (\<lambda>m.
     if \<not> routed then
       (if truthy (nm_epg_name m) then
          dbind (associate_network_with_vrf A n v nets) (\<lambda>((bd, epg), nets').
          dret (\<lparr> nr_bd = Some bd, nr_epg = Some epg \<rparr>, nets'))
        else if truthy (nm_l3out_name m) then
          dbind (associate_network_with_vrf A n v nets) (\<lambda>((_, epg), nets').
          dret (\<lparr> nr_bd = None, nr_epg = Some epg \<rparr>, nets'))
        else dret (\<lparr> nr_bd = None, nr_epg = None \<rparr>, nets))
     else if truthy (nm_epg_name m) then
       dret (\<lparr> nr_bd = Some (Some (bd_res (get_network_bd m))), nr_epg = Some (epg_res (get_network_epg m)) \<rparr>, nets)
     else if truthy (nm_l3out_name m) then
       dret (\<lparr> nr_bd = None, nr_epg = Some (ext_net_res (get_network_l3out_ext_net m)) \<rparr>, nets)
     else dret (\<lparr> nr_bd = None, nr_epg = None \<rparr>, nets))"

text \<open>The external side when the router has a gateway; the ports whose SNAT changes are the result.\<close>

definition connect_gateway ::
  "'a aim_lib \<Rightarrow> drv_config \<Rightarrow> string \<Rightarrow> string \<Rightarrow> nat \<Rightarrow> vrf_choice \<Rightarrow> net_resources \<Rightarrow> router_subnet list \<Rightarrow>
   ('a drv_state, string set) drv" where
  "connect_gateway A C r i intf_count vc x subnets =
     dbind (dread (\<lambda>s. (router_gateway r (ds_neutron s), is_svi_db i s))) (\<lambda>(gw, svi).
     case gw of
       None \<Rightarrow> dret {}
     | Some g \<Rightarrow>
         if svi then dret {}
         else
           dbind (dread ds_ext) (\<lambda>xdb.
           dbind (dlift (dc_get_network C g xdb)) (\<lambda>net.
           dbind (if intf_count = 0 then manage_external_connectivity A r None (Some net) (vc_vrf vc)
                  else if vc_router_topo_moved vc then
                    dbind (dthe (vc_router_vrf vc)) (\<lambda>rv.
                    dbind (manage_external_connectivity A r (Some net) None rv) (\<lambda>_.
                    manage_external_connectivity A r None (Some net) (vc_vrf vc)))
                  else dret ()) (\<lambda>_.
           dbind (dlift (get_aim_nat_strategy A net)) (\<lambda>ns.
           dbind (case ns of
                None \<Rightarrow> dret ()
              | Some (l3out, _, strategy) \<Rightarrow>
                  (case nr_bd x of None \<Rightarrow> draise UnboundLocalError
                   | Some bd \<Rightarrow> lift_aim0 (ns_set_bd_l3out A strategy bd l3out))) (\<lambda>_.
           dread (\<lambda>s. set (get_compute_dhcp_ports_in_subnets (map rs_id subnets) (ds_neutron s)))))))))"

definition notify_ports :: "string set \<Rightarrow> string set \<Rightarrow> ('a drv_state, unit) drv" where
  "notify_ports nets ports =
     dbind (dread ds_neutron) (\<lambda>db.
     let all_ports = ports \<union> port_id ` {p \<in> set (nt_ports db). port_network_id p \<in> nets \<and> port_device_owner p \<noteq> device_owner_router_intf}
     in dwhen (all_ports \<noteq> {}) (add_postcommit_port_notifications all_ports))"

definition add_router_interface ::
  "'a aim_lib \<Rightarrow> 'n net_lib \<Rightarrow> drv_config \<Rightarrow> bool \<Rightarrow> router_obj \<Rightarrow> interface_port \<Rightarrow> router_subnet list \<Rightarrow>
   ('a drv_state, unit) drv" where
  "add_router_interface A L C override_validation r p subnets =
     (let i = ip_network_id p in
      dbind (network_of i) (\<lambda>n.
      dbind (check_new_interface override_validation (ro_id r) n subnets) (\<lambda>(scope, intf_count).
      dbind (dread ds_neutron) (\<lambda>db.
      let routed = (net_interfaces i db \<noteq> [])
      in dbind (choose_vrf A scope (ro_id r) n routed) (\<lambda>vc.
         dbind (associate_or_map A n (vc_vrf vc) routed (vc_nets vc)) (\<lambda>(x, nets).
         dbind (dread ds_neutron) (\<lambda>db'.
         dbind (if scope = None then dlift (check_vrf_for_overlap L (dc_allow_overlap C) (vc_vrf vc) subnets db') else dret ()) (\<lambda>_.
         dbind (network_mapping_of i) (\<lambda>m.
         dbind (dwhen (truthy (nm_epg_name m)) (deach (create_subnet A r p x) subnets)) (\<lambda>_.
         dbind (connect_epg A (router_contract_name (ro_id r)) (nr_epg x)) (\<lambda>_.
         dbind (connect_gateway A C (ro_id r) i intf_count vc x subnets) (\<lambda>ports.
         notify_ports nets ports))))))))))))"

section \<open>Removing subnets from a router\<close>

definition remaining_routers :: "string \<Rightarrow> neutron_db \<Rightarrow> string list" where
  "remaining_routers i db =
     remdups [rp_router_id rp. rp \<leftarrow> nt_router_ports db, q \<leftarrow> nt_ports db,
        port_id q = rp_port_id rp \<and> port_network_id q = i \<and> rp_type rp = device_owner_router_intf]"

text \<open>A topology that the removal split off moves to its own default VRF.\<close>

definition move_if_split ::
  "'a aim_lib \<Rightarrow> 'n net_lib \<Rightarrow> drv_config \<Rightarrow> (string \<times> network_row) list \<Rightarrow> vrf \<Rightarrow> vrf \<Rightarrow> string set \<Rightarrow>
   ('a drv_state, vrf option \<times> string set) drv" where
  "move_if_split A L C topology old_vrf wanted nets =
     (if old_vrf = wanted then dret (None, nets)
      else dbind (ensure_default_vrf A wanted) (\<lambda>v.
           dbind (move_topology A topology old_vrf v nets) (\<lambda>nets'.
           dbind (dread ds_neutron) (\<lambda>db.
           dbind (dlift (check_vrf_for_overlap L (dc_allow_overlap C) v [] db)) (\<lambda>_. dret (Some v, nets'))))))"

definition split_topologies ::
  "'a aim_lib \<Rightarrow> 'n net_lib \<Rightarrow> drv_config \<Rightarrow> string \<Rightarrow> network_row \<Rightarrow> vrf \<Rightarrow> bool \<Rightarrow> ('a drv_state, vrf option \<times> string set) drv" where
  "split_topologies A L C r n old_vrf routed =
     dbind (dread ds_neutron) (\<lambda>db.
     dbind (if routed then
              (let topology = network_topology db n
               in move_if_split A L C topology old_vrf
                    (map_default_vrf (case topology_shared topology of Some m \<Rightarrow> m | None \<Rightarrow> n)) {})
            else dret (None, {})) (\<lambda>(_, nets).
     dbind (dread ds_neutron) (\<lambda>db'.
     let topology = router_topology db' r
     in case topology_vrf topology of
          None \<Rightarrow> dret (None, nets)
        | Some v \<Rightarrow> move_if_split A L C topology old_vrf v nets)))"

definition disconnect_gateway ::
  "'a aim_lib \<Rightarrow> drv_config \<Rightarrow> string \<Rightarrow> string \<Rightarrow> string option \<Rightarrow> vrf \<Rightarrow> vrf option \<Rightarrow> bool \<Rightarrow> aim_res option option \<Rightarrow>
   router_subnet list \<Rightarrow> ('a drv_state, string set) drv" where
  "disconnect_gateway A C r i scope old_vrf moved_to still bd subnets =
     dbind (dread (\<lambda>s. (router_gateway r (ds_neutron s), is_svi_db i s))) (\<lambda>(gw, svi).
     case gw of
       None \<Rightarrow> dret {}
     | Some g \<Rightarrow>
         if svi then dret {}
         else
           dbind (dread ds_ext) (\<lambda>xdb.
           dbind (dlift (dc_get_network C g xdb)) (\<lambda>net.
           dbind (dlift (get_router_intf_count (xd_neutron xdb) r (scope_filter_of scope))) (\<lambda>intf_count.
           dbind (if intf_count = 0 then manage_external_connectivity A r (Some net) None old_vrf
                  else (case moved_to of
                      None \<Rightarrow> dret ()
                    | Some v \<Rightarrow>
                        dbind (manage_external_connectivity A r (Some net) None old_vrf) (\<lambda>_.
                        manage_external_connectivity A r None (Some net) v))) (\<lambda>_.
           dbind (if still then dret ()
                  else dbind (dlift (get_aim_nat_strategy A net)) (\<lambda>ns.
                    case ns of
                      None \<Rightarrow> dret ()
                    | Some (l3out, _, strategy) \<Rightarrow>
                        (case bd of None \<Rightarrow> draise UnboundLocalError
                         | Some b \<Rightarrow> lift_aim0 (ns_unset_bd_l3out A strategy b l3out)))) (\<lambda>_.
           dread (\<lambda>s. set (get_compute_dhcp_ports_in_subnets (map rs_id subnets) (ds_neutron s)))))))))"

text \<open>The bridge domain is the one the network was mapped to when the handler began.\<close>

definition remove_router_interface ::
  "'a aim_lib \<Rightarrow> 'n net_lib \<Rightarrow> drv_config \<Rightarrow> string \<Rightarrow> interface_port \<Rightarrow> router_subnet list \<Rightarrow> ('a drv_state, unit) drv" where
  "remove_router_interface A L C r p subnets =
     (let i = ip_network_id p in
      dbind (network_of i) (\<lambda>n.
      dbind (dread ds_neutron) (\<lambda>db.
      dbind (dlift (get_address_scope_id_for_subnets db subnets)) (\<lambda>scope.
      dbind (dguard (r \<in> set (map router_id (nt_routers db))) NoResultFound) (\<lambda>_.
      dbind (network_mapping_of i) (\<lambda>m.
      let old_vrf = get_network_vrf m;
          contract = router_contract_name r;
          bd = (if truthy (nm_epg_name m) then Some (Some (bd_res (get_network_bd m))) else None);
          epg = (if truthy (nm_epg_name m) then Some (epg_res (get_network_epg m))
                 else if truthy (nm_l3out_name m) then Some (ext_net_res (get_network_l3out_ext_net m)) else None);
          routers = remaining_routers i db
      in dbind (dwhen (truthy (nm_epg_name m)) (deach (delete_subnet A p m) subnets)) (\<lambda>_.
         dbind (case epg of
              None \<Rightarrow> dret ()
            | Some e \<Rightarrow> dwhen (r \<notin> set routers) (disconnect_epg A contract e)) (\<lambda>_.
         dbind (if scope = None then split_topologies A L C r n old_vrf (routers \<noteq> []) else dret (None, {})) (\<lambda>(moved_to, nets).
         dbind (if routers = [] then
                  dbind (dissassociate_network_from_vrf A (dc_apic_system_id C) n old_vrf nets) (\<lambda>nets'.
                  dbind (dwhen (scope = None) (cleanup_default_vrf A old_vrf)) (\<lambda>_. dret nets'))
                else dret nets) (\<lambda>nets'.
         dbind (disconnect_gateway A C r i scope old_vrf moved_to (r \<in> set routers) bd subnets) (\<lambda>ports.
         notify_ports nets' ports)))))))))))"

section \<open>Routers themselves\<close>

definition create_router_precommit ::
  "'a aim_lib \<Rightarrow> drv_config \<Rightarrow> router_obj \<Rightarrow> string list option option \<Rightarrow> string list option option \<Rightarrow> ('a drv_state, unit) drv" where
  "create_router_precommit A C r provided consumed =
     dbind (dread ds_ext) (\<lambda>xdb.
     dbind (dlift (set_router_extn_db (ro_id r) provided consumed xdb)) (\<lambda>xdb'.
     dbind (dmodify (\<lambda>s. s\<lparr> ds_ext := xdb' \<rparr>)) (\<lambda>_.
     let (contract, subject) = map_router (ro_id r);
         dname = AStr (Some (sanitize_display_name A (ro_name r)))
     in dbind (d_create A (set_attr ''display_name'' dname contract)) (\<lambda>_.
        dbind (d_create A (set_attr ''bi_filters'' (AStrs [any_filter_name (dc_apic_system_id C)])
          (set_attr ''display_name'' dname subject))) (\<lambda>_. dret ())))))"

definition delete_router_precommit :: "'a aim_lib \<Rightarrow> string \<Rightarrow> ('a drv_state, unit) drv" where
  "delete_router_precommit A r =
     (let (contract, subject) = map_router r
      in dbind (d_delete A (Some subject)) (\<lambda>_. d_delete A (Some contract)))"

text \<open>All VRFs of the router follow a change of its gateway or its external contracts.\<close>

definition update_router_external_connectivity ::
  "'a aim_lib \<Rightarrow> drv_config \<Rightarrow> string \<Rightarrow> string \<Rightarrow> bool \<Rightarrow> bool \<Rightarrow> ('a drv_state, unit) drv" where
  "update_router_external_connectivity A C r ext_net notify removing =
     dbind (dread ds_ext) (\<lambda>xdb.
     let db = xd_neutron xdb
     in dbind (dlift (get_router_intf_count db r AllScopes)) (\<lambda>intf_count.
        if intf_count = 0 then dret ()
        else
          let ports = (if notify then set (get_compute_dhcp_ports_in_subnets (get_router_interface_subnets [r] db) db) else {})
          in dbind (dlift (dc_get_network C ext_net xdb)) (\<lambda>net.
             dbind (dlift (get_vrfs_for_router db r)) (\<lambda>vrfs.
             dbind (deach (manage_external_connectivity A r (if removing then Some net else None)
                      (if removing then None else Some net)) vrfs) (\<lambda>_.
             add_postcommit_port_notifications ports)))))"

text \<open>
  The update of a router: \<open>subnet_name\<close> is the column of that name.  A new name goes to the contract, its
  subject and the fabric's subnets of all interfaces; other external contracts to the external side.
\<close>

record router_dict =
  rd_id :: string
  rd_name :: string
  rd_gateway_network :: "string option"
  rd_provided :: "string list"
  rd_consumed :: "string list"

definition rename_interface :: "'a aim_lib \<Rightarrow> (string \<Rightarrow> string) \<Rightarrow> string \<Rightarrow> alloc_row \<Rightarrow> ('a drv_state, unit) drv" where
  "rename_interface A subnet_name nm a =
     dbind (dread ds_neutron) (\<lambda>db.
     case find (\<lambda>s. subnet_id s = alloc_subnet_id a) (nt_subnets db) of
       None \<Rightarrow> draise NoResultFound
     | Some s \<Rightarrow>
         dbind (dguard (subnet_network_id s \<in> set (map network_id (nt_networks db))) NoResultFound) (\<lambda>_.
         case get_network_mapping (subnet_network_id s) db of
           None \<Rightarrow> dret ()
         | Some m \<Rightarrow>
             if \<not> truthy (nm_bd_name m) then dret ()
             else
               let dname = sanitize_display_name A (nm @ ''-'' @
                     (if subnet_name (subnet_id s) \<noteq> [] then subnet_name (subnet_id s) else subnet_cidr s))
               in dbind (dlift (map_subnet (subnet_cidr s) (Some (alloc_ip a)) (get_network_bd m))) (\<lambda>sn.
                  dbind (d_update A sn [(''display_name'', AStr (Some dname))]) (\<lambda>_. dret ()))))"

definition update_router_precommit ::
  "'a aim_lib \<Rightarrow> drv_config \<Rightarrow> (string \<Rightarrow> string) \<Rightarrow> string list option option \<Rightarrow> string list option option \<Rightarrow>
   router_dict \<Rightarrow> router_dict \<Rightarrow> ('a drv_state, unit) drv" where
  "update_router_precommit A C subnet_name provided consumed original current =
     dbind (dread ds_ext) (\<lambda>xdb.
     dbind (dlift (set_router_extn_db (rd_id current) provided consumed xdb)) (\<lambda>xdb'.
     dbind (dmodify (\<lambda>s. s\<lparr> ds_ext := xdb' \<rparr>)) (\<lambda>_.
     dbind (dwhen (rd_name current \<noteq> rd_name original)
         (let (contract, subject) = map_router (rd_id current);
              dname = AStr (Some (sanitize_display_name A (rd_name current)));
              allocs = [a. a \<leftarrow> nt_allocs (xd_neutron xdb'), rp \<leftarrow> interface_ports (xd_neutron xdb') (rd_id current),
                           rp_port_id rp = alloc_port_id a]
          in dbind (d_update A contract [(''display_name'', dname)]) (\<lambda>_.
             dbind (d_update A subject [(''display_name'', dname)]) (\<lambda>_.
             deach (rename_interface A subnet_name (rd_name current)) allocs)))) (\<lambda>_.
     if \<not> truthy (rd_gateway_network current) then dret ()
     else dwhen (sort_strings (rd_provided original) \<noteq> sort_strings (rd_provided current) \<or>
                 sort_strings (rd_consumed original) \<noteq> sort_strings (rd_consumed current))
            (update_router_external_connectivity A C (rd_id current) (the (rd_gateway_network current)) False False)))))"

end
