(* ===== verification/Vrf_Move_Laws.thy ===== *)
theory Vrf_Move_Laws
  imports Vrf_Moves
begin

text \<open>
  What moving networks between VRFs does to the mapping tables, whatever the fabric library does
  with its store: the rows of the moved networks name the new VRF, and where its tenant differs also
  the new tenant; all other rows stay; the VRFs and networks concerned are noted.
\<close>

section \<open>What is assumed of the library\<close>

text \<open>
  A lookup finds a resource of the identity asked for, and a creation returns the resource with the
  identity it was given.
\<close>

definition aim_lookup_ok :: "'a aim_lib \<Rightarrow> bool" where
  "aim_lookup_ok A \<longleftrightarrow>
     (\<forall>b a r. aim_get A (bd_res b) a = Some r \<longrightarrow> res_bd r = b) \<and>
     (\<forall>e a r. aim_get A (epg_res e) a = Some r \<longrightarrow> res_epg r = e) \<and>
     (\<forall>l a r. aim_get A (l3out_res l) a = Some r \<longrightarrow> res_l3out r = l) \<and>
     (\<forall>v a r. aim_get A (vrf_res v) a = Some r \<longrightarrow> res_vrf r = v) \<and>
     (\<forall>r ow a r' a'. aim_create A r ow a = Inr (r', a') \<longrightarrow>
        attr_str r' ''tenant_name'' = attr_str r ''tenant_name'' \<and> attr_str r' ''name'' = attr_str r ''name'' \<and>
        attr_str r' ''app_profile_name'' = attr_str r ''app_profile_name'')"

lemma lookup_bd: "aim_lookup_ok A \<Longrightarrow> aim_get A (bd_res b) a = Some r \<Longrightarrow> res_bd r = b"
  and lookup_epg: "aim_lookup_ok A \<Longrightarrow> aim_get A (epg_res e) a = Some r \<Longrightarrow> res_epg r = e"
  and lookup_l3out: "aim_lookup_ok A \<Longrightarrow> aim_get A (l3out_res l) a = Some r \<Longrightarrow> res_l3out r = l"
  and lookup_vrf: "aim_lookup_ok A \<Longrightarrow> aim_get A (vrf_res v) a = Some r \<Longrightarrow> res_vrf r = v"
  and create_identity: "aim_lookup_ok A \<Longrightarrow> aim_create A x ow a = Inr (r', a') \<Longrightarrow>
    attr_str r' ''tenant_name'' = attr_str x ''tenant_name'' \<and> attr_str r' ''name'' = attr_str x ''name'' \<and>
    attr_str r' ''app_profile_name'' = attr_str x ''app_profile_name''"
  unfolding aim_lookup_ok_def by blast+

section \<open>Operations on the store alone\<close>

abbreviation aim_only :: "('a drv_state, 'r) drv \<Rightarrow> bool" where
  "aim_only m \<equiv> drv_keeps but_aim m"

lemma but_aim_eq: "but_aim t = but_aim s \<Longrightarrow> t = s\<lparr> ds_aim := ds_aim t \<rparr>"
  by (cases s, cases t) (simp add: but_aim_def)

lemma aim_onlyD: "aim_only m \<Longrightarrow> m s = Inr (r, t) \<Longrightarrow> \<exists>a. t = s\<lparr> ds_aim := a \<rparr>"
  by (rule exI[of _ "ds_aim t"], rule but_aim_eq, erule (1) drv_keepsD)

lemma ensure_app_profile_aim [drv_rules]: "aim_only (ensure_app_profile A v)"
  unfolding ensure_app_profile_def Let_def by (intro drv_rules)

lemma cleanup_default_vrf_aim [drv_rules]: "aim_only (cleanup_default_vrf A v)"
  unfolding cleanup_default_vrf_def by (intro drv_rules)

lemma ensure_default_vrf_aim [drv_rules]: "aim_only (ensure_default_vrf A v)"
  unfolding ensure_default_vrf_def by (intro drv_rules)

lemma vrf_res_attrs [simp]:
  "attr_str (vrf_res v) ''tenant_name'' = vrf_tenant_name v" "attr_str (vrf_res v) ''name'' = vrf_name v"
  by (simp_all add: vrf_res_def aim_res_of_def attr_str_def)

lemma d_get_Inr [simp]: "d_get A r s = Inr (x, t) \<longleftrightarrow> x = aim_get A r (ds_aim s) \<and> t = s"
  by (simp add: d_get_def)

lemma d_create_Inr: "d_create A r s = Inr (x, t) \<longleftrightarrow> (\<exists>a. aim_create A r False (ds_aim s) = Inr (x, a) \<and> t = s\<lparr> ds_aim := a \<rparr>)"
  by (simp add: d_create_def lift_aim_Inr)

lemma ensure_default_vrf_same:
  assumes "aim_lookup_ok A" and "ensure_default_vrf A v s = Inr (w, t)"
  shows "w = v"
proof (cases "aim_get A (vrf_res v) (ds_aim s)")
  case None
  with assms(2) obtain r a where r: "w = res_vrf r"
    and c: "aim_create A (set_attr ''display_name'' (AStr (Some (sanitize_display_name A ''DefaultRoutedVRF''))) (vrf_res v))
      False (ds_aim s) = Inr (r, a)"
    by (auto simp: ensure_default_vrf_def dbind_Inr d_create_Inr)
  show ?thesis using create_identity[OF assms(1) c] by (simp add: r res_vrf_def)
next
  case (Some r)
  with assms(2) have "w = res_vrf r" by (auto simp: ensure_default_vrf_def dbind_Inr)
  with Some show ?thesis using lookup_vrf[OF assms(1)] by simp
qed

section \<open>The row of a network\<close>

lemma get_network_mapping_id: "get_network_mapping i db = Some m \<Longrightarrow> nm_network_id m = i \<and> m \<in> set (nt_network_mappings db)"
  unfolding get_network_mapping_def by (auto simp: find_Some_iff)

abbreviation mapping_keys :: "neutron_db \<Rightarrow> string list" where
  "mapping_keys db \<equiv> map nm_network_id (nt_network_mappings db)"

lemma change_mapping_cong:
  assumes "distinct (mapping_keys db)" and "get_network_mapping i db = Some m" and "f m = g m"
  shows "change_mapping i f db = change_mapping i g db"
proof -
  have "f x = g x" if "x \<in> set (nt_network_mappings db)" "nm_network_id x = i" for x
  proof -
    have "x = m" using assms(1) that get_network_mapping_id[OF assms(2)]
      by (intro inj_onD[of nm_network_id "set (nt_network_mappings db)"]) (auto simp: distinct_map)
    with assms(3) show ?thesis by simp
  qed
  then have "map (\<lambda>x. if nm_network_id x = i then f x else x) (nt_network_mappings db) =
      map (\<lambda>x. if nm_network_id x = i then g x else x) (nt_network_mappings db)" by auto
  then show ?thesis unfolding change_mapping_def by simp
qed

lemma change_mapping_twice:
  "(\<And>m. nm_network_id (f m) = nm_network_id m) \<Longrightarrow>
   change_mapping i g (change_mapping i f db) = change_mapping i (g \<circ> f) db"
  unfolding change_mapping_def by (auto intro!: arg_cong[where f = "\<lambda>x. db\<lparr> nt_network_mappings := x \<rparr>"])

lemma mapping_keys_change: "(\<And>m. nm_network_id (f m) = nm_network_id m) \<Longrightarrow> mapping_keys (change_mapping i f db) = mapping_keys db"
  unfolding change_mapping_def by (auto intro!: map_cong)

lemma find_map_if: "(\<And>m. key (f m) = key m) \<Longrightarrow>
   find (\<lambda>m. key m = i) (map (\<lambda>m. if key m = i then f m else m) xs) = map_option f (find (\<lambda>m. key m = i) xs)"
  by (induction xs) auto

lemma get_change_mapping: "(\<And>m. nm_network_id (f m) = nm_network_id m) \<Longrightarrow>
   get_network_mapping i (change_mapping i f db) = map_option f (get_network_mapping i db)"
  unfolding get_network_mapping_def change_mapping_def by (simp add: find_map_if)

lemma network_mapping_of_Inr [simp]:
  "network_mapping_of i s = Inr (m, t) \<longleftrightarrow> get_network_mapping i (ds_neutron s) = Some m \<and> t = s"
  by (auto simp: network_mapping_of_def dbind_Inr)

lemma write_mapping_Inr [simp]:
  "write_mapping i f s = Inr (u, t) \<longleftrightarrow> t = set_neutron (change_mapping i f (ds_neutron s)) s"
  by (simp add: write_mapping_def)

lemma set_neutron_aim [simp]:
  "set_neutron d (s\<lparr> ds_aim := a \<rparr>) = (set_neutron d s)\<lparr> ds_aim := a \<rparr>"
  "set_neutron d (s\<lparr> ds_published := p \<rparr>) = (set_neutron d s)\<lparr> ds_published := p \<rparr>"
  "xd_neutron (ds_ext (set_neutron d s)) = d" "set_neutron d (set_neutron e s) = set_neutron d s"
  "ds_published (set_neutron d s) = ds_published s" "ds_aim (set_neutron d s) = ds_aim s"
  "ds_vrfs_to_notify (set_neutron d s) = ds_vrfs_to_notify s"
  by (simp_all add: set_neutron_def)

text \<open>What happened to the state, up to the store: the tables were changed and events published.\<close>

definition moved_state :: "string \<Rightarrow> (network_mapping \<Rightarrow> network_mapping) \<Rightarrow> 'a drv_state \<Rightarrow> 'a drv_state \<Rightarrow> bool" where
  "moved_state i f s t \<longleftrightarrow> (\<exists>a ev. set ev \<subseteq> {i} \<and>
     t = (set_neutron (change_mapping i f (ds_neutron s)) s)\<lparr> ds_aim := a, ds_published := ds_published s @ ev \<rparr>)"

lemma moved_state_trans:
  assumes "moved_state i f s t" and "moved_state i g t u" and "\<And>m. nm_network_id (f m) = nm_network_id m"
  shows "moved_state i (g \<circ> f) s u"
proof -
  from assms(1) obtain a ev where ev: "set ev \<subseteq> {i}" and t: "t = (set_neutron (change_mapping i f (ds_neutron s)) s)
      \<lparr> ds_aim := a, ds_published := ds_published s @ ev \<rparr>" by (auto simp: moved_state_def)
  from assms(2) obtain b ev' where ev': "set ev' \<subseteq> {i}" and u: "u = (set_neutron (change_mapping i g (ds_neutron t)) t)
      \<lparr> ds_aim := b, ds_published := ds_published t @ ev' \<rparr>" by (auto simp: moved_state_def)
  show ?thesis unfolding moved_state_def
    by (rule exI[of _ b], rule exI[of _ "ev @ ev'"])
      (use ev ev' in \<open>simp add: t u change_mapping_twice[OF assms(3)]\<close>)
qed

section \<open>Moving one network\<close>

lemma moved_stateI: "set ev \<subseteq> {i} \<Longrightarrow>
   t = (set_neutron (change_mapping i f (ds_neutron s)) s)\<lparr> ds_aim := a, ds_published := ds_published s @ ev \<rparr> \<Longrightarrow>
   moved_state i f s t"
  by (auto simp: moved_state_def)

lemma moved_state_keys:
  "moved_state i f s t \<Longrightarrow> (\<And>m. nm_network_id (f m) = nm_network_id m) \<Longrightarrow> mapping_keys (ds_neutron t) = mapping_keys (ds_neutron s)"
  by (auto simp: moved_state_def mapping_keys_change)

lemma moved_state_mapping:
  "moved_state i f s t \<Longrightarrow> (\<And>m. nm_network_id (f m) = nm_network_id m) \<Longrightarrow>
   get_network_mapping i (ds_neutron t) = map_option f (get_network_mapping i (ds_neutron s))"
  by (auto simp: moved_state_def get_change_mapping)

lemma moved_state_aim1: "moved_state i f (s\<lparr> ds_aim := a \<rparr>) t \<Longrightarrow> moved_state i f s t"
  unfolding moved_state_def by auto

lemma moved_state_aim2: "moved_state i f s t \<Longrightarrow> moved_state i f s (t\<lparr> ds_aim := a \<rparr>)"
  unfolding moved_state_def by (elim exE conjE) (rule exI[of _ a], rule exI, rule conjI, assumption, simp)

lemmas moved_state_aim = moved_state_aim1 moved_state_aim2

lemma moved_state_after_aim: "moved_state i f s t \<Longrightarrow> aim_only m \<Longrightarrow> m t = Inr (r, u) \<Longrightarrow> moved_state i f s u"
  using aim_onlyD moved_state_aim2 by metis

lemma moved_state_before_aim: "aim_only m \<Longrightarrow> m s = Inr (r, t) \<Longrightarrow> moved_state i f t u \<Longrightarrow> moved_state i f s u"
  using aim_onlyD moved_state_aim1 by metis

text \<open>Writing a row when the row is known.\<close>

lemma write_mapping_moved:
  assumes "distinct (mapping_keys (ds_neutron s))" and "get_network_mapping i (ds_neutron s) = Some m" and "f m = g m"
  shows "moved_state i g s (set_neutron (change_mapping i f (ds_neutron s)) s)"
proof -
  have "change_mapping i f (ds_neutron s) = change_mapping i g (ds_neutron s)"
    by (rule change_mapping_cong[OF assms(1,2)]) (rule assms(3))
  then show ?thesis
    by (elim ssubst) (rule moved_stateI[where ev = "[]" and a = "ds_aim s"], simp, cases s, simp add: set_neutron_def)
qed

lemma published_moved:
  assumes "change_mapping i f (ds_neutron s) = change_mapping i g (ds_neutron s)"
  shows "moved_state i g s ((set_neutron (change_mapping i f (ds_neutron s)) s)\<lparr> ds_published := ds_published s @ [i] \<rparr>)"
  unfolding assms
  by (rule moved_stateI[where ev = "[i]" and a = "ds_aim s"], simp) (cases s, simp add: set_neutron_def)

lemma set_network_epg_and_notify_eq:
  "set_network_epg_and_notify i epg s = Inr (u, t) \<longleftrightarrow>
   t = (set_neutron (change_mapping i (set_network_epg epg) (ds_neutron s)) s)\<lparr> ds_published := ds_published s @ [i] \<rparr>"
  by (simp add: set_network_epg_and_notify_def dbind_Inr publish_network_vrf_def)

lemma set_network_vrf_and_notify_eq:
  "set_network_vrf_and_notify i v s = Inr (u, t) \<longleftrightarrow>
   t = (set_neutron (change_mapping i (set_network_vrf v) (ds_neutron s)) s)\<lparr> ds_published := ds_published s @ [i] \<rparr>"
  by (simp add: set_network_vrf_and_notify_def dbind_Inr publish_network_vrf_def)

lemma set_network_epg_and_notify_moved:
  assumes "set_network_epg_and_notify i epg s = Inr (u, t)"
    and "distinct (mapping_keys (ds_neutron s))" and "get_network_mapping i (ds_neutron s) = Some m"
    and "set_network_epg epg m = g m"
  shows "moved_state i g s t"
  using published_moved[OF change_mapping_cong[OF assms(2,3), of "set_network_epg epg" g]] assms(1,4)
  by (simp add: set_network_epg_and_notify_eq)

lemma set_network_vrf_and_notify_moved:
  "set_network_vrf_and_notify i v s = Inr (u, t) \<Longrightarrow> moved_state i (set_network_vrf v) s t"
  using published_moved[OF refl] by (simp add: set_network_vrf_and_notify_eq)

lemma move_bd_moved:
  assumes A: "aim_lookup_ok A" and d: "distinct (mapping_keys (ds_neutron s))"
    and run: "move_bd A i routing ten v s = Inr (r, t)"
  shows "moved_state i (nm_bd_tenant_name_update (\<lambda>_. ten)) s t"
proof -
  from run obtain m old a b where m: "get_network_mapping i (ds_neutron s) = Some m"
    and old: "aim_get A (bd_res (get_network_bd m)) (ds_aim s) = Some old"
    and c: "aim_create A (set_attr ''vrf_name'' (AStr v) (set_attr ''enable_routing'' (ABool routing)
        (set_attr ''tenant_name'' (AStr ten) old))) False a = Inr (r, b)"
    and t: "t = set_neutron (change_mapping i (set_network_bd (res_bd r)) (ds_neutron s)) s\<lparr> ds_aim := b \<rparr>"
    by (auto simp: move_bd_def dbind_Inr d_create_Inr dest!: aim_onlyD[OF drv_keeps_d(5)])
  have "set_network_bd (res_bd r) m = m\<lparr> nm_bd_tenant_name := ten \<rparr>"
    using create_identity[OF A c] lookup_bd[OF A old]
    by (simp add: res_bd_def set_network_bd_def get_network_bd_def)
  from write_mapping_moved[where f = "set_network_bd (res_bd r)" and g = "nm_bd_tenant_name_update (\<lambda>_. ten)", OF d m this]
  show ?thesis unfolding t by (simp add: moved_state_aim)
qed

lemma move_epg_moved:
  assumes A: "aim_lookup_ok A" and d: "distinct (mapping_keys (ds_neutron s))" and B: "aim_only before"
    and run: "move_epg A i before ten s = Inr (r, t)"
  shows "moved_state i (nm_epg_tenant_name_update (\<lambda>_. ten)) s t"
proof -
  from run obtain m old a b where m: "get_network_mapping i (ds_neutron s) = Some m"
    and old: "aim_get A (epg_res (get_network_epg m)) (ds_aim s) = Some old"
    and c: "aim_create A (set_attr ''tenant_name'' (AStr ten) old) False a = Inr (r, b)"
    and t: "set_network_epg_and_notify i (res_epg r) (s\<lparr> ds_aim := b \<rparr>) = Inr ((), t)"
    by (auto simp: move_epg_def dbind_Inr d_create_Inr dest!: aim_onlyD[OF drv_keeps_d(5)] aim_onlyD[OF B])
  have "set_network_epg (res_epg r) m = m\<lparr> nm_epg_tenant_name := ten \<rparr>"
    using create_identity[OF A c] lookup_epg[OF A old]
    by (simp add: res_epg_def set_network_epg_def get_network_epg_def)
  from set_network_epg_and_notify_moved[where g = "nm_epg_tenant_name_update (\<lambda>_. ten)", OF t _ _ this] d m
  have "moved_state i (nm_epg_tenant_name_update (\<lambda>_. ten)) (s\<lparr> ds_aim := b \<rparr>) t" by simp
  then show ?thesis by (rule moved_state_aim1)
qed

lemma move_l3out_moved:
  assumes A: "aim_lookup_ok A" and d: "distinct (mapping_keys (ds_neutron s))"
    and run: "move_l3out A i ten v s = Inr (r, t)"
  shows "moved_state i (nm_l3out_tenant_name_update (\<lambda>_. ten)) s t"
proof -
  let ?child = "\<lambda>child. dbind (d_create A (set_attr ''tenant_name'' (AStr ten) child)) (\<lambda>_. d_delete A (Some child))"
  from run obtain m old b u w cs x where m: "get_network_mapping i (ds_neutron s) = Some m"
    and old: "aim_get A (l3out_res \<lparr> l3o_tenant = nm_l3out_tenant_name m, l3o_name = nm_l3out_name m \<rparr>) (ds_aim s) = Some old"
    and c: "aim_create A (set_attr ''vrf_name'' (AStr v) (set_attr ''tenant_name'' (AStr ten) old)) False (ds_aim s) = Inr (r, b)"
    and u: "u = set_neutron (change_mapping i (set_network_l3out (res_l3out r)) (ds_neutron s)) s\<lparr> ds_aim := b \<rparr>"
    and w: "deach ?child cs u = Inr ((), w)" and x: "d_delete A (Some old) w = Inr ((), t)"
    by (auto simp: move_l3out_def dbind_Inr d_create_Inr get_network_l3out_def)
  have "set_network_l3out (res_l3out r) m = m\<lparr> nm_l3out_tenant_name := ten \<rparr>"
    using create_identity[OF A c] lookup_l3out[OF A old]
    by (simp add: res_l3out_def set_network_l3out_def)
  from write_mapping_moved[where f = "set_network_l3out (res_l3out r)" and g = "nm_l3out_tenant_name_update (\<lambda>_. ten)", OF d m this]
  have "moved_state i (nm_l3out_tenant_name_update (\<lambda>_. ten)) s u" unfolding u by (simp add: moved_state_aim)
  moreover have "aim_only (deach ?child cs)" by (intro drv_rules)
  ultimately have "moved_state i (nm_l3out_tenant_name_update (\<lambda>_. ten)) s w" using w by (rule moved_state_after_aim)
  then show ?thesis using x by (rule moved_state_after_aim[OF _ drv_keeps_d(5)])
qed

section \<open>Moving a topology\<close>

definition moved_mapping :: "vrf \<Rightarrow> vrf \<Rightarrow> network_mapping \<Rightarrow> network_mapping" where
  "moved_mapping old new m = set_network_vrf new
     (if vrf_tenant_name old = vrf_tenant_name new then m
      else if truthy (nm_epg_name m) then
        m\<lparr> nm_bd_tenant_name := vrf_tenant_name new, nm_epg_tenant_name := vrf_tenant_name new \<rparr>
      else if truthy (nm_l3out_name m) then m\<lparr> nm_l3out_tenant_name := vrf_tenant_name new \<rparr>
      else m)"

lemma set_network_vrf_id [simp]: "nm_network_id (set_network_vrf v m) = nm_network_id m"
  by (simp add: set_network_vrf_def)

lemma moved_mapping_id [simp]: "nm_network_id (moved_mapping old new m) = nm_network_id m"
  by (simp add: moved_mapping_def)

lemma moved_mapping_twice [simp]: "moved_mapping old new (moved_mapping old new m) = moved_mapping old new m"
  by (cases m) (simp add: moved_mapping_def set_network_vrf_def)

lemma moved_mapping_vrf [simp]: "get_network_vrf (moved_mapping old new m) = new"
  by (simp add: moved_mapping_def set_network_vrf_def get_network_vrf_def)

lemma moved_state_cong:
  "moved_state i f s t \<Longrightarrow> distinct (mapping_keys (ds_neutron s)) \<Longrightarrow> get_network_mapping i (ds_neutron s) = Some m \<Longrightarrow>
   f m = g m \<Longrightarrow> moved_state i g s t"
  unfolding moved_state_def using change_mapping_cong[of "ds_neutron s" i m f g] by simp

lemma moved_state_then:
  assumes "moved_state i f s t" and "moved_state i g t u" and "\<And>m. nm_network_id (f m) = nm_network_id m"
    and "distinct (mapping_keys (ds_neutron s))" and "get_network_mapping i (ds_neutron s) = Some m" and "g (f m) = h m"
  shows "moved_state i h s u"
  by (rule moved_state_cong[OF moved_state_trans[OF assms(1,2,3)] assms(4,5)]) (simp add: assms(6))

lemma moved_state_refl: "moved_state i id s s"
proof -
  have "change_mapping i id (ds_neutron s) = ds_neutron s"
    by (simp add: change_mapping_def if_distrib[of _ _ id] cong: if_cong)
  then show ?thesis
    by (intro moved_stateI[where ev = "[]" and a = "ds_aim s"]) (cases s, simp_all add: set_neutron_def)
qed

lemma move_bd_with_subnets_moved:
  assumes A: "aim_lookup_ok A" and d: "distinct (mapping_keys (ds_neutron s))"
    and run: "move_bd_with_subnets A i v s = Inr (r, t)"
  shows "moved_state i (nm_bd_tenant_name_update (\<lambda>_. vrf_tenant_name v)) s t"
proof -
  let ?ten = "vrf_tenant_name v"
  let ?child = "\<lambda>bd sn. dbind (d_delete A (Some sn)) (\<lambda>_.
        dbind (d_create A (set_attr ''tenant_name'' (AStr (attr_str bd ''tenant_name'')) sn)) (\<lambda>_. dret ()))"
  from run obtain m old b bd u w cs where m: "get_network_mapping i (ds_neutron s) = Some m"
    and old: "aim_get A (bd_res (get_network_bd m)) (ds_aim s) = Some old"
    and c: "aim_create A (set_attr ''vrf_name'' (AStr (vrf_name v)) (set_attr ''tenant_name'' (AStr ?ten) old)) False (ds_aim s) = Inr (bd, b)"
    and u: "u = set_neutron (change_mapping i (set_network_bd (res_bd bd)) (ds_neutron s)) s\<lparr> ds_aim := b \<rparr>"
    and w: "deach (?child bd) cs u = Inr ((), w)"
    and x: "d_delete A (Some old) w = Inr ((), t)"
    by (auto simp: move_bd_with_subnets_def dbind_Inr d_create_Inr)
  have "set_network_bd (res_bd bd) m = m\<lparr> nm_bd_tenant_name := ?ten \<rparr>"
    using create_identity[OF A c] lookup_bd[OF A old]
    by (simp add: res_bd_def set_network_bd_def get_network_bd_def)
  from write_mapping_moved[where f = "set_network_bd (res_bd bd)" and g = "nm_bd_tenant_name_update (\<lambda>_. ?ten)", OF d m this]
  have "moved_state i (nm_bd_tenant_name_update (\<lambda>_. ?ten)) s u" unfolding u by (simp add: moved_state_aim)
  moreover have "aim_only (deach (?child bd) cs)" by (intro drv_rules)
  ultimately have "moved_state i (nm_bd_tenant_name_update (\<lambda>_. ?ten)) s w" using w by (rule moved_state_after_aim)
  then show ?thesis using x by (rule moved_state_after_aim[OF _ drv_keeps_d(5)])
qed

lemma move_network_moved:
  assumes A: "aim_lookup_ok A" and d: "distinct (mapping_keys (ds_neutron s))"
    and run: "move_network A old new n s = Inr (r, t)"
  shows "moved_state (network_id n) (moved_mapping old new) s t"
proof -
  let ?i = "network_id n"
  let ?ten = "vrf_tenant_name new"
  from run obtain m u where m: "get_network_mapping ?i (ds_neutron s) = Some m"
    and u: "(if vrf_tenant_name old \<noteq> ?ten then
               (if truthy (nm_epg_name m) then
                  dbind (move_bd_with_subnets A ?i new) (\<lambda>_. dbind (move_epg A ?i (dret ()) ?ten) (\<lambda>_. dret ()))
                else if truthy (nm_l3out_name m) then dbind (move_l3out A ?i ?ten (vrf_name new)) (\<lambda>_. dret ())
                else dret ())
             else if truthy (nm_epg_name m) then
               dbind (d_update A (bd_res (get_network_bd m)) [(''vrf_name'', AStr (vrf_name new))]) (\<lambda>_. dret ())
             else if truthy (nm_l3out_name m) then
               dbind (d_update A (l3out_res \<lparr> l3o_tenant = nm_l3out_tenant_name m, l3o_name = nm_l3out_name m \<rparr>)
                 [(''vrf_name'', AStr (vrf_name new))]) (\<lambda>_. dret ())
             else dret ()) s = Inr ((), u)"
    and t: "set_network_vrf_and_notify ?i new u = Inr ((), t)"
    by (auto simp: move_network_def dbind_Inr Let_def)
  define f :: "network_mapping \<Rightarrow> network_mapping" where "f = (if vrf_tenant_name old = ?ten then id
      else if truthy (nm_epg_name m) then nm_epg_tenant_name_update (\<lambda>_. ?ten) \<circ> nm_bd_tenant_name_update (\<lambda>_. ?ten)
      else if truthy (nm_l3out_name m) then nm_l3out_tenant_name_update (\<lambda>_. ?ten) else id)"
  have "moved_state ?i f s u"
  proof (cases "vrf_tenant_name old = ?ten")
    case True
    then have "aim_only (\<lambda>x. if truthy (nm_epg_name m) then
        dbind (d_update A (bd_res (get_network_bd m)) [(''vrf_name'', AStr (vrf_name new))]) (\<lambda>_. dret ()) x
      else if truthy (nm_l3out_name m) then
        dbind (d_update A (l3out_res \<lparr> l3o_tenant = nm_l3out_tenant_name m, l3o_name = nm_l3out_name m \<rparr>)
                 [(''vrf_name'', AStr (vrf_name new))]) (\<lambda>_. dret ()) x
      else dret () x)"
      by (cases "truthy (nm_epg_name m)"; cases "truthy (nm_l3out_name m)") (simp_all add: drv_rules)
    from moved_state_after_aim[OF moved_state_refl this] True u show ?thesis by (simp add: f_def split: if_splits)
  next
    case False
    consider (bd) "truthy (nm_epg_name m)" | (l3out) "\<not> truthy (nm_epg_name m)" "truthy (nm_l3out_name m)"
      | (none) "\<not> truthy (nm_epg_name m)" "\<not> truthy (nm_l3out_name m)" by blast
    then show ?thesis
    proof cases
      case bd
      with False u obtain x y where x: "move_bd_with_subnets A ?i new s = Inr ((), x)"
        and y: "move_epg A ?i (dret ()) ?ten x = Inr (y, u)" by (auto simp: dbind_Inr)
      note 1 = move_bd_with_subnets_moved[OF A d x]
      have "distinct (mapping_keys (ds_neutron x))" using d moved_state_keys[OF 1] by simp
      from moved_state_trans[OF 1 move_epg_moved[OF A this drv_keeps_basic(1) y]] show ?thesis using False bd by (simp add: f_def)
    next
      case l3out
      with False u show ?thesis by (auto simp: f_def dbind_Inr dest: move_l3out_moved[OF A d])
    next
      case none
      with False u show ?thesis by (simp add: f_def moved_state_refl)
    qed
  qed
  from this set_network_vrf_and_notify_moved[OF t] show ?thesis
    by (rule moved_state_then[OF _ _ _ d m]) (auto simp: f_def moved_mapping_def)
qed

section \<open>Moving all networks of a topology\<close>

definition change_mappings :: "string set \<Rightarrow> (network_mapping \<Rightarrow> network_mapping) \<Rightarrow> neutron_db \<Rightarrow> neutron_db" where
  "change_mappings I f db = db\<lparr> nt_network_mappings :=
     map (\<lambda>m. if nm_network_id m \<in> I then f m else m) (nt_network_mappings db) \<rparr>"

lemma change_mappings_empty [simp]: "change_mappings {} f db = db"
  by (simp add: change_mappings_def)

lemma change_mappings_insert:
  assumes "\<And>m. nm_network_id (f m) = nm_network_id m" and "\<And>m. f (f m) = f m"
  shows "change_mappings I f (change_mapping i f db) = change_mappings (insert i I) f db"
  unfolding change_mappings_def change_mapping_def using assms
  by (auto intro!: arg_cong[where f = "\<lambda>x. db\<lparr> nt_network_mappings := x \<rparr>"])

lemma move_networks_moved:
  assumes "aim_lookup_ok A" and "distinct (mapping_keys (ds_neutron s))"
    and "deach (\<lambda>(_, n). move_network A old new n) topology s = Inr (u, t)"
  shows "\<exists>a ev. set ev \<subseteq> network_id ` snd ` set topology \<and>
     t = (set_neutron (change_mappings (network_id ` snd ` set topology) (moved_mapping old new) (ds_neutron s)) s)
       \<lparr> ds_aim := a, ds_published := ds_published s @ ev \<rparr>"
  using assms(2,3)
proof (induction topology arbitrary: s)
  case Nil
  then show ?case by (intro exI[of _ "ds_aim s"] exI[of _ "[]"]) (cases s, simp add: set_neutron_def)
next
  case (Cons kn topology)
  obtain k n where kn: "kn = (k, n)" by fastforce
  from Cons.prems(2) obtain v where v: "move_network A old new n s = Inr ((), v)"
    and t: "deach (\<lambda>(_, n). move_network A old new n) topology v = Inr (u, t)" by (auto simp: dbind_Inr kn)
  note 1 = move_network_moved[OF assms(1) Cons.prems(1) v]
  have "distinct (mapping_keys (ds_neutron v))" using Cons.prems(1) moved_state_keys[OF 1] by simp
  from Cons.IH[OF this t] obtain a ev where ev: "set ev \<subseteq> network_id ` snd ` set topology"
    and t: "t = (set_neutron (change_mappings (network_id ` snd ` set topology) (moved_mapping old new) (ds_neutron v)) v)
       \<lparr> ds_aim := a, ds_published := ds_published v @ ev \<rparr>" by blast
  from 1 obtain b ev' where ev': "set ev' \<subseteq> {network_id n}" and v: "v = (set_neutron (change_mapping (network_id n) (moved_mapping old new) (ds_neutron s)) s)
       \<lparr> ds_aim := b, ds_published := ds_published s @ ev' \<rparr>" by (auto simp: moved_state_def)
  show ?case
    by (rule exI[of _ a], rule exI[of _ "ev' @ ev"])
      (use ev ev' in \<open>auto simp: t v kn change_mappings_insert\<close>)
qed

lemma move_topology_effect:
  assumes "aim_lookup_ok A" and "distinct (mapping_keys (ds_neutron s))"
    and "move_topology A topology old new nets s = Inr (nets', t)"
  shows "ds_neutron t = change_mappings (network_id ` snd ` set topology) (moved_mapping old new) (ds_neutron s)"
    and "ds_vrfs_to_notify t = {vrf_str new, vrf_str old} \<union> ds_vrfs_to_notify s"
    and "nets' = nets \<union> fst ` set topology"
    and "ds_ext t = (ds_ext s)\<lparr> xd_neutron := ds_neutron t \<rparr>"
proof -
  from assms(3) obtain u where u: "deach (\<lambda>(_, n). move_network A old new n) topology s = Inr ((), u)"
    and t: "t = u\<lparr> ds_vrfs_to_notify := insert (vrf_str new) (insert (vrf_str old) (ds_vrfs_to_notify u)) \<rparr>"
    and n: "nets' = nets \<union> set (map fst topology)"
    by (auto simp: move_topology_def dbind_Inr add_postcommit_vrf_notification_def)
  from move_networks_moved[OF assms(1,2) u] obtain a ev where
    u: "u = (set_neutron (change_mappings (network_id ` snd ` set topology) (moved_mapping old new) (ds_neutron s)) s)
       \<lparr> ds_aim := a, ds_published := ds_published s @ ev \<rparr>" by blast
  show "ds_neutron t = change_mappings (network_id ` snd ` set topology) (moved_mapping old new) (ds_neutron s)" by (simp add: t u)
  show "ds_vrfs_to_notify t = {vrf_str new, vrf_str old} \<union> ds_vrfs_to_notify s" by (simp add: t u)
  show "nets' = nets \<union> fst ` set topology" by (simp add: n)
  show "ds_ext t = (ds_ext s)\<lparr> xd_neutron := ds_neutron t \<rparr>" by (simp add: t u set_neutron_def)
qed

section \<open>The topology of a router after the move\<close>

definition keyed :: "(string \<times> network_row) list \<Rightarrow> bool" where
  "keyed topology \<longleftrightarrow> list_all (\<lambda>(k, n). k = network_id n) topology"

lemma visit_networks_keyed:
  "visit_networks visited added ns = (visited', added') \<Longrightarrow> keyed visited \<Longrightarrow> keyed visited'"
  by (induction visited added ns rule: visit_networks.induct) (auto simp: keyed_def split: if_splits)

lemma expansion_keyed:
  shows "expand_topology_for_routers db visited routers new = (v, rs) \<Longrightarrow> keyed visited \<Longrightarrow> keyed v"
    and "expand_topology_for_networks db visited routers ns = (v, rs) \<Longrightarrow> keyed visited \<Longrightarrow> keyed v"
proof (induction db visited routers new and db visited routers ns
    arbitrary: v rs and v rs rule: expand_topology_for_routers_expand_topology_for_networks.induct)
  case (1 db visited routers new)
  from "1.prems" "1.IH"[OF refl] show ?case
    unfolding expand_topology_for_routers.simps[of db visited routers new] Let_def by (simp split: if_splits)
next
  case (2 db visited routers ns)
  obtain visited' added where x: "visit_networks visited [] ns = (visited', added)" by fastforce
  from "2.prems" "2.IH"[OF x[symmetric]] visit_networks_keyed[OF x] show ?case
    unfolding expand_topology_for_networks.simps[of db visited routers ns] x by (simp split: if_splits)
qed

lemma keyed_ids: "keyed topology \<Longrightarrow> network_id ` snd ` set topology = fst ` set topology"
  unfolding keyed_def by (induction topology) auto

lemma router_topology_keyed: "keyed (router_topology db r)"
  unfolding router_topology_def by (rule expansion_keyed(1)[OF surjective_pairing]) (simp add: keyed_def)

lemma network_topology_keyed: "keyed (network_topology db n)"
  unfolding network_topology_def by (rule expansion_keyed(2)[OF surjective_pairing]) (simp add: keyed_def)

text \<open>C9: Moving the topology of a router between VRFs gives every network that can be reached
  from the router the new VRF (and, between tenants, the new tenant), leaves the rows of all other
  networks and every other table as they are, and notes both VRFs and all the networks reached.\<close>

theorem router_topology_moved:
  assumes "aim_lookup_ok A" and "distinct (map nm_network_id (ds_mappings s))"
    and "move_topology A (router_topology (ds_neutron s) r) old_vrf new_vrf nets s = Inr (nets', t)"
  shows "ds_mappings t = map (\<lambda>m. if reach_network (ds_neutron s) {r} {} (nm_network_id m)
           then moved_mapping old_vrf new_vrf m else m) (ds_mappings s) \<and>
    ds_ext t = (ds_ext s)\<lparr> xd_neutron := (ds_neutron s)\<lparr> nt_network_mappings := ds_mappings t \<rparr> \<rparr> \<and>
    nets' = nets \<union> {n. reach_network (ds_neutron s) {r} {} n} \<and>
    ds_vrfs_to_notify t = {vrf_str new_vrf, vrf_str old_vrf} \<union> ds_vrfs_to_notify s"
proof -
  note e = move_topology_effect[OF assms]
  have ids: "fst ` set (router_topology (ds_neutron s) r) = {n. reach_network (ds_neutron s) {r} {} n}"
    using router_topology_ids[of "ds_neutron s" r] by simp
  have n: "ds_neutron t = change_mappings {n. reach_network (ds_neutron s) {r} {} n} (moved_mapping old_vrf new_vrf) (ds_neutron s)"
    using e(1) unfolding keyed_ids[OF router_topology_keyed] ids .
  show ?thesis using e(2,3,4) unfolding ids by (simp add: n change_mappings_def)
qed

section \<open>Associating a network and taking it out\<close>

definition in_tenant :: "bool \<Rightarrow> string option \<Rightarrow> network_mapping \<Rightarrow> network_mapping" where
  "in_tenant svi ten m = (if svi then m\<lparr> nm_l3out_tenant_name := ten \<rparr>
     else m\<lparr> nm_bd_tenant_name := ten, nm_epg_tenant_name := ten \<rparr>)"

definition associated_mapping :: "bool \<Rightarrow> vrf \<Rightarrow> network_mapping \<Rightarrow> network_mapping" where
  "associated_mapping svi v m = set_network_vrf v
     (if vrf_tenant_name v \<noteq> Some common_tenant_name \<and>
         (if svi then nm_l3out_tenant_name m else nm_bd_tenant_name m) \<noteq> vrf_tenant_name v
      then in_tenant svi (vrf_tenant_name v) m else m)"

definition taken_out_mapping :: "bool \<Rightarrow> vrf \<Rightarrow> vrf \<Rightarrow> string option \<Rightarrow> network_mapping \<Rightarrow> network_mapping" where
  "taken_out_mapping svi old new ten m = set_network_vrf new
     (if vrf_tenant_name old \<noteq> Some common_tenant_name \<and> vrf_tenant_name old \<noteq> ten then in_tenant svi ten m else m)"

lemma in_tenant_id [simp]: "nm_network_id (in_tenant svi ten m) = nm_network_id m"
  by (simp add: in_tenant_def)

lemma associated_mapping_id [simp]: "nm_network_id (associated_mapping svi v m) = nm_network_id m"
  by (simp add: associated_mapping_def)

lemma taken_out_mapping_id [simp]: "nm_network_id (taken_out_mapping svi old new ten m) = nm_network_id m"
  by (simp add: taken_out_mapping_def)

lemma associated_mapping_vrf [simp]: "get_network_vrf (associated_mapping svi v m) = v"
  by (simp add: associated_mapping_def set_network_vrf_def get_network_vrf_def)

lemma taken_out_mapping_vrf [simp]: "get_network_vrf (taken_out_mapping svi old new ten m) = new"
  by (simp add: taken_out_mapping_def set_network_vrf_def get_network_vrf_def)

lemma move_bd_epg_moved:
  assumes A: "aim_lookup_ok A" and d: "distinct (mapping_keys (ds_neutron s))" and B: "aim_only before"
    and bd: "move_bd A i routing ten v s = Inr (x, u)" and epg: "move_epg A i before ten u = Inr (y, t)"
  shows "moved_state i (in_tenant False ten) s t"
proof -
  note 1 = move_bd_moved[OF A d bd]
  have "distinct (mapping_keys (ds_neutron u))" using d moved_state_keys[OF 1] by simp
  from moved_state_trans[OF 1 move_epg_moved[OF A this B epg]]
  have "moved_state i (nm_epg_tenant_name_update (\<lambda>_. ten) \<circ> nm_bd_tenant_name_update (\<lambda>_. ten)) s t" by simp
  moreover have "nm_epg_tenant_name_update (\<lambda>_. ten) \<circ> nm_bd_tenant_name_update (\<lambda>_. ten) = in_tenant False ten"
    by (rule ext) (simp add: in_tenant_def)
  ultimately show ?thesis by simp
qed

lemma move_l3out_in_tenant:
  "aim_lookup_ok A \<Longrightarrow> distinct (mapping_keys (ds_neutron s)) \<Longrightarrow> move_l3out A i ten v s = Inr (r, t) \<Longrightarrow>
   moved_state i (in_tenant True ten) s t"
  using move_l3out_moved[of A s i ten v r t] unfolding in_tenant_def by simp

lemma update_moved: "d_update A r as s = Inr (x, t) \<Longrightarrow> moved_state i id s t"
  using moved_state_after_aim[OF moved_state_refl drv_keeps_d(4)] .

lemma moved_state_vrfs: "moved_state i f s t \<Longrightarrow> ds_vrfs_to_notify t = ds_vrfs_to_notify s"
  by (auto simp: moved_state_def)

lemma associate_inner:
  assumes A: "aim_lookup_ok A" and d: "distinct (mapping_keys (ds_neutron s))"
    and run: "associate_network_with_vrf A n v nets s = Inr ((x, nets'), t)"
  shows "\<exists>u. moved_state (network_id n) (associated_mapping (is_svi_db (network_id n) s) v) s u \<and> nets' = insert (network_id n) nets \<and>
    t = u\<lparr> ds_vrfs_to_notify := insert (vrf_str v) (ds_vrfs_to_notify u) \<rparr>"
proof -
  let ?i = "network_id n"
  let ?svi = "is_svi_db ?i s"
  let ?ten = "vrf_tenant_name v"
  let ?move = "\<lambda>m. ?ten \<noteq> Some common_tenant_name \<and> (if ?svi then nm_l3out_tenant_name m else nm_bd_tenant_name m) \<noteq> ?ten"
  from run obtain m res epg w u m' where m: "get_network_mapping ?i (ds_neutron s) = Some m"
    and w: "(if ?svi then
        (if ?move m then dbind (move_l3out A ?i ?ten (vrf_name v)) (\<lambda>l. dret (Some l, epg_res (get_network_epg m)))
         else dbind (d_update A (l3out_res \<lparr> l3o_tenant = nm_l3out_tenant_name m, l3o_name = nm_l3out_name m \<rparr>)
                          [(''vrf_name'', AStr (vrf_name v))]) (\<lambda>l. dret (l, epg_res (get_network_epg m))))
      else
        (if ?move m then dbind (move_bd A ?i True ?ten (vrf_name v)) (\<lambda>bd.
            dbind (move_epg A ?i (ensure_app_profile A ?ten) ?ten) (\<lambda>epg. dret (Some bd, epg)))
         else dbind (d_update A (bd_res (get_network_bd m)) [(''enable_routing'', ABool True), (''vrf_name'', AStr (vrf_name v))]) (\<lambda>bd.
                   dret (bd, epg_res (get_network_epg m))))) s = Inr ((res, epg), w)"
    and u: "set_network_vrf_and_notify ?i v w = Inr ((), u)"
    and m': "get_network_mapping ?i (ds_neutron u) = Some m'"
    and t: "t = u\<lparr> ds_vrfs_to_notify := insert (vrf_str (get_network_vrf m')) ((if is_default_vrf v then insert (vrf_str v) else id) (ds_vrfs_to_notify u)) \<rparr>"
    and n: "nets' = insert ?i nets"
    unfolding associate_network_with_vrf_def Let_def
    by (auto simp: dbind_Inr dwhen_def add_postcommit_vrf_notification_def split: if_splits)
  have "moved_state ?i (if ?move m then in_tenant ?svi ?ten else id) s w"
    using w by (auto simp: dbind_Inr split: if_splits
      intro: update_moved move_l3out_in_tenant[OF A d] move_bd_epg_moved[OF A d ensure_app_profile_aim])
  from moved_state_then[OF this set_network_vrf_and_notify_moved[OF u] _ d m, of "associated_mapping ?svi v"]
  have su: "moved_state ?i (associated_mapping ?svi v) s u" by (auto simp: associated_mapping_def)
  have "get_network_vrf m' = v" using moved_state_mapping[OF su] m m' by auto
  with t have "t = u\<lparr> ds_vrfs_to_notify := insert (vrf_str v) (ds_vrfs_to_notify u) \<rparr>" by auto
  with su n show ?thesis by blast
qed

text \<open>C27: Associating a network with a VRF changes the row of that network alone: the row names the VRF,
  and a BD or L3Out of another tenant is moved to the tenant of a VRF outside the common one.  The new VRF
  is noted, whether it is a default VRF or not, and the VRF that the network leaves is not.\<close>

theorem associate_network_effect:
  assumes "aim_lookup_ok A" and "distinct (map nm_network_id (ds_mappings s))"
    and "associate_network_with_vrf A n new_vrf nets s = Inr ((x, nets'), t)"
  shows "ds_neutron t = change_mapping (network_id n) (associated_mapping (is_svi_db (network_id n) s) new_vrf) (ds_neutron s) \<and>
    nets' = insert (network_id n) nets \<and>
    ds_vrfs_to_notify t = insert (vrf_str new_vrf) (ds_vrfs_to_notify s)"
proof -
  from associate_inner[OF assms] obtain u where
    u: "moved_state (network_id n) (associated_mapping (is_svi_db (network_id n) s) new_vrf) s u"
    and n: "nets' = insert (network_id n) nets"
    and t: "t = u\<lparr> ds_vrfs_to_notify := insert (vrf_str new_vrf) (ds_vrfs_to_notify u) \<rparr>" by blast
  from u have "ds_neutron u = change_mapping (network_id n) (associated_mapping (is_svi_db (network_id n) s) new_vrf) (ds_neutron s)"
    by (auto simp: moved_state_def)
  with t n moved_state_vrfs[OF u] show ?thesis by simp
qed

lemma dissassociate_inner:
  assumes A: "aim_lookup_ok A" and d: "distinct (mapping_keys (ds_neutron s))"
    and m: "get_network_mapping (network_id n) (ds_neutron s) = Some m"
    and run: "dissassociate_network_from_vrf A system_id n old nets s = Inr (nets', t)"
    and new: "new = (if is_svi_db (network_id n) s then map_default_vrf n else map_unrouted_vrf system_id)"
  shows "\<exists>u. moved_state (network_id n) (taken_out_mapping (is_svi_db (network_id n) s) old new
        (Some (project_name (network_tenant_id n) []))) s u \<and> nets' = insert (network_id n) nets \<and>
    t = u\<lparr> ds_vrfs_to_notify := insert (vrf_str new) ((if is_default_vrf old then insert (vrf_str old) else id) (ds_vrfs_to_notify u)) \<rparr>"
proof -
  let ?i = "network_id n"
  let ?svi = "is_svi_db ?i s"
  let ?ten = "Some (project_name (network_tenant_id n) [])"
  let ?move = "vrf_tenant_name old \<noteq> Some common_tenant_name \<and> vrf_tenant_name old \<noteq> ?ten"
  from run m obtain w u where
    w: "(if ?move then
          (if ?svi then dbind (move_l3out A ?i ?ten (vrf_name new)) (\<lambda>_. dret ())
           else dbind (move_bd A ?i False ?ten (vrf_name new)) (\<lambda>_. dbind (move_epg A ?i (dret ()) ?ten) (\<lambda>_. dret ())))
         else
          (if ?svi then dbind (d_update A (l3out_res \<lparr> l3o_tenant = nm_l3out_tenant_name m, l3o_name = nm_l3out_name m \<rparr>)
                          [(''vrf_name'', AStr (vrf_name new))]) (\<lambda>_. dret ())
           else dbind (d_update A (bd_res (get_network_bd m))
                          [(''enable_routing'', ABool False), (''vrf_name'', AStr (vrf_name new))]) (\<lambda>_. dret ()))) s = Inr ((), w)"
    and u: "set_network_vrf_and_notify ?i new w = Inr ((), u)"
    and t: "t = u\<lparr> ds_vrfs_to_notify := insert (vrf_str new) ((if is_default_vrf old then insert (vrf_str old) else id) (ds_vrfs_to_notify u)) \<rparr>"
    and n: "nets' = insert ?i nets"
    unfolding dissassociate_network_from_vrf_def Let_def new
    by (auto simp: dbind_Inr dwhen_def add_postcommit_vrf_notification_def split: if_splits)
  have "moved_state ?i (if ?move then in_tenant ?svi ?ten else id) s w"
    using w by (auto simp: dbind_Inr split: if_splits
      intro: update_moved move_l3out_in_tenant[OF A d] move_bd_epg_moved[OF A d drv_keeps_basic(1)])
  from moved_state_then[OF this set_network_vrf_and_notify_moved[OF u] _ d m, of "taken_out_mapping ?svi old new ?ten"]
  have "moved_state ?i (taken_out_mapping ?svi old new ?ten) s u" by (auto simp: taken_out_mapping_def)
  with t n show ?thesis by blast
qed

text \<open>Taking a network out of its VRF changes its row alone: the row names the unrouted VRF (for
  an SVI network the default VRF of its project), and leaves a foreign tenant for the project's own.\<close>

theorem dissassociate_network_effect:
  assumes "aim_lookup_ok A" and "distinct (map nm_network_id (ds_mappings s))"
    and "network_id n \<in> set (map nm_network_id (ds_mappings s))"
    and "dissassociate_network_from_vrf A system_id n old_vrf nets s = Inr (nets', t)"
  shows "ds_neutron t = change_mapping (network_id n) (taken_out_mapping (is_svi_db (network_id n) s) old_vrf
      (if is_svi_db (network_id n) s then map_default_vrf n else map_unrouted_vrf system_id)
      (Some (project_name (network_tenant_id n) []))) (ds_neutron s) \<and> nets' = insert (network_id n) nets"
proof -
  from assms(3) obtain m where "get_network_mapping (network_id n) (ds_neutron s) = Some m"
    unfolding get_network_mapping_def by (cases "find (\<lambda>m. nm_network_id m = network_id n) (ds_mappings s)") (auto simp: find_None_iff)
  from dissassociate_inner[OF assms(1,2) this assms(4) refl] show ?thesis by (auto simp: moved_state_def)
qed

section \<open>The tenants of resources and of their VRFs\<close>

text \<open>A BD or L3Out can use a VRF of its own tenant or of the common one.\<close>

definition vrf_visible :: "network_mapping \<Rightarrow> bool" where
  "vrf_visible m \<longleftrightarrow> nm_vrf_tenant_name m = Some common_tenant_name \<or>
     (if truthy (nm_epg_name m) then nm_bd_tenant_name m = nm_vrf_tenant_name m
      else if truthy (nm_l3out_name m) then nm_l3out_tenant_name m = nm_vrf_tenant_name m else True)"

definition all_visible :: "neutron_db \<Rightarrow> bool" where
  "all_visible db \<longleftrightarrow> list_all vrf_visible (nt_network_mappings db)"

text \<open>What tells an SVI network from another in the two tables.\<close>

definition svi_rows_ok :: "'a drv_state \<Rightarrow> bool" where
  "svi_rows_ok s \<longleftrightarrow> list_all (\<lambda>m. is_svi_db (nm_network_id m) s = (\<not> truthy (nm_epg_name m))) (ds_mappings s)"

lemma change_mapping_visible:
  "all_visible db \<Longrightarrow> (\<And>m. m \<in> set (nt_network_mappings db) \<Longrightarrow> nm_network_id m = i \<Longrightarrow> vrf_visible m \<Longrightarrow> vrf_visible (f m)) \<Longrightarrow>
   all_visible (change_mapping i f db)"
  by (auto simp: all_visible_def change_mapping_def list_all_iff)

lemma associated_visible:
  "svi = (\<not> truthy (nm_epg_name m)) \<Longrightarrow> vrf_visible (associated_mapping svi v m)"
  by (auto simp: vrf_visible_def associated_mapping_def in_tenant_def set_network_vrf_def)

lemma moved_visible:
  "vrf_visible m \<Longrightarrow> nm_vrf_tenant_name m = vrf_tenant_name old \<Longrightarrow> vrf_visible (moved_mapping old new m)"
  by (auto simp: vrf_visible_def moved_mapping_def set_network_vrf_def)

text \<open>C40: In tables with one mapping row for each network, where exactly the SVI networks have no endpoint
  group and every BD and L3Out uses a VRF of its own tenant or of the common tenant, this is still so
  after any network was associated with any VRF.\<close>

theorem associate_keeps_visible:
  assumes "aim_lookup_ok A" and "distinct (map nm_network_id (ds_mappings s))" and "svi_rows_ok s"
    and "all_visible (ds_neutron s)"
    and "associate_network_with_vrf A n new_vrf nets s = Inr ((x, nets'), t)"
  shows "all_visible (ds_neutron t)"
proof -
  from associate_inner[OF assms(1,2,5)] have
    t: "ds_neutron t = change_mapping (network_id n) (associated_mapping (is_svi_db (network_id n) s) new_vrf) (ds_neutron s)"
    by (auto simp: moved_state_def)
  have "is_svi_db (network_id n) s = (\<not> truthy (nm_epg_name m))"
    if "m \<in> set (ds_mappings s)" and "nm_network_id m = network_id n" for m
    using assms(3) that(1) unfolding that(2)[symmetric] svi_rows_ok_def list_all_iff by (rule bspec)
  then show ?thesis unfolding t by (intro change_mapping_visible[OF assms(4)] associated_visible)
qed

theorem move_topology_keeps_visible:
  assumes "aim_lookup_ok A" and "distinct (map nm_network_id (ds_mappings s))"
    and "all_visible (ds_neutron s)"
    and "list_all (\<lambda>m. nm_network_id m \<in> network_id ` snd ` set topology \<longrightarrow> nm_vrf_tenant_name m = vrf_tenant_name old_vrf) (ds_mappings s)"
    and "move_topology A topology old_vrf new_vrf nets s = Inr (nets', t)"
  shows "all_visible (ds_neutron t)"
  using assms(3,4) moved_visible[of _ old_vrf new_vrf]
  unfolding move_topology_effect(1)[OF assms(1,2,5)]
  by (auto simp: all_visible_def change_mappings_def list_all_iff)

end
