(* ===== verification/Connectivity_Laws.thy ===== *)
theory Connectivity_Laws
  imports External_Connectivity
begin

text \<open>
  The overlap check looks at neighbours in the order of the networks only, and still finds every
  overlap; the contracts that a VRF is connected with.
\<close>

section \<open>The order of networks\<close>

text \<open>
  What the check relies on: a total order of networks in which a network comes before the networks
  inside it, with nothing in between that is not inside it too.
\<close>

definition net_order_ok :: "'n net_lib \<Rightarrow> bool" where
  "net_order_ok L \<longleftrightarrow>
     (\<forall>x y. nl_le L x y \<or> nl_le L y x) \<and>
     (\<forall>x y z. nl_le L x y \<longrightarrow> nl_le L y z \<longrightarrow> nl_le L x z) \<and>
     (\<forall>x y. nl_le L x y \<longrightarrow> nl_in L x y \<longrightarrow> nl_in L y x) \<and>
     (\<forall>x y z. nl_le L x y \<longrightarrow> nl_le L y z \<longrightarrow> nl_in L z x \<longrightarrow> nl_in L y x)"

lemma order_total: "net_order_ok L \<Longrightarrow> nl_le L x y \<or> nl_le L y x"
  and order_trans_net: "net_order_ok L \<Longrightarrow> nl_le L x y \<Longrightarrow> nl_le L y z \<Longrightarrow> nl_le L x z"
  and order_larger_first: "net_order_ok L \<Longrightarrow> nl_le L x y \<Longrightarrow> nl_in L x y \<Longrightarrow> nl_in L y x"
  and order_between: "net_order_ok L \<Longrightarrow> nl_le L x y \<Longrightarrow> nl_le L y z \<Longrightarrow> nl_in L z x \<Longrightarrow> nl_in L y x"
  unfolding net_order_ok_def by blast+

fun sorted_nets :: "'n net_lib \<Rightarrow> ('i \<times> 'n) list \<Rightarrow> bool" where
  "sorted_nets L [] \<longleftrightarrow> True"
| "sorted_nets L (x # xs) \<longleftrightarrow> list_all (\<lambda>y. nl_le L (snd x) (snd y)) xs \<and> sorted_nets L xs"

lemma insert_net_set: "set (insert_net le x xs) = insert x (set xs)"
  by (induction xs) auto

lemma sort_nets_set [simp]: "set (sort_nets le xs) = set xs"
  by (induction xs) (auto simp: insert_net_set)

lemma insert_net_sorted:
  assumes "net_order_ok L"
  shows "sorted_nets L xs \<Longrightarrow> sorted_nets L (insert_net (nl_le L) x xs)"
proof (induction xs)
  case Nil
  show ?case by simp
next
  case (Cons y ys)
  show ?case
  proof (cases "nl_le L (snd x) (snd y)")
    case True
    then show ?thesis using Cons.prems order_trans_net[OF assms True]
      by (auto simp: list_all_iff)
  next
    case False
    then have "nl_le L (snd y) (snd x)" using order_total[OF assms] by blast
    then show ?thesis using Cons False by (auto simp: list_all_iff insert_net_set)
  qed
qed

lemma sort_nets_sorted: "net_order_ok L \<Longrightarrow> sorted_nets L (sort_nets (nl_le L) xs)"
  by (induction xs) (auto intro: insert_net_sorted)

section \<open>Neighbours are enough\<close>

definition ids_name_nets :: "('i \<times> 'n) list \<Rightarrow> bool" where
  "ids_name_nets xs \<longleftrightarrow> (\<forall>(i, x) \<in> set xs. \<forall>(j, y) \<in> set xs. i = j \<longrightarrow> x = y)"

lemma ids_name_netsD: "ids_name_nets xs \<Longrightarrow> (i, x) \<in> set xs \<Longrightarrow> (i, y) \<in> set xs \<Longrightarrow> x = y"
  unfolding ids_name_nets_def by fastforce

text \<open>No later network of another subnet lies inside the first one.\<close>

lemma neighbours_first:
  assumes "net_order_ok L"
  shows "neighbour_overlap L ((i, x) # xs) = None \<Longrightarrow> sorted_nets L ((i, x) # xs) \<Longrightarrow> ids_name_nets ((i, x) # xs) \<Longrightarrow>
    (j, z) \<in> set xs \<Longrightarrow> j \<noteq> i \<Longrightarrow> \<not> nl_in L z x"
proof (induction xs)
  case Nil
  then show ?case by simp
next
  case (Cons ky ys)
  obtain k y where ky: "ky = (k, y)" by fastforce
  have le: "nl_le L x y" "list_all (\<lambda>w. nl_le L x (snd w)) ys" "list_all (\<lambda>w. nl_le L y (snd w)) ys"
    using Cons.prems(2) by (simp_all add: ky)
  show ?case
  proof (cases "k = i")
    case True
    then have "y = x" using ids_name_netsD[OF Cons.prems(3), of i y x] by (simp add: ky)
    with True Cons show ?thesis by (auto simp: ky ids_name_nets_def)
  next
    case False
    with Cons.prems(1) have n: "\<not> nl_in L y x" by (simp add: ky split: if_splits)
    show ?thesis
    proof (cases "(j, z) = ky")
      case True
      with n show ?thesis by (simp add: ky)
    next
      case False
      then have "(j, z) \<in> set ys" using Cons.prems(4) by simp
      then have "nl_le L y z" using le(3) by (auto simp: list_all_iff)
      with n show ?thesis using order_between[OF assms le(1)] by blast
    qed
  qed
qed

lemma neighbour_overlap_tail:
  "neighbour_overlap L (x # xs) = None \<Longrightarrow> neighbour_overlap L xs = None"
  by (cases x; cases xs) (auto split: if_splits)

lemma ids_name_nets_tail: "ids_name_nets (x # xs) \<Longrightarrow> ids_name_nets xs"
  unfolding ids_name_nets_def by fastforce

definition no_overlap :: "'n net_lib \<Rightarrow> ('i \<times> 'n) list \<Rightarrow> bool" where
  "no_overlap L xs \<longleftrightarrow> (\<forall>(i, x) \<in> set xs. \<forall>(j, y) \<in> set xs. i \<noteq> j \<longrightarrow> \<not> nl_in L x y)"

lemma no_overlapD: "no_overlap L xs \<Longrightarrow> (i, x) \<in> set xs \<Longrightarrow> (j, y) \<in> set xs \<Longrightarrow> i \<noteq> j \<Longrightarrow> \<not> nl_in L x y"
  unfolding no_overlap_def by fastforce

lemma no_overlapI: "(\<And>i x j y. (i, x) \<in> set xs \<Longrightarrow> (j, y) \<in> set xs \<Longrightarrow> i \<noteq> j \<Longrightarrow> \<not> nl_in L x y) \<Longrightarrow> no_overlap L xs"
  unfolding no_overlap_def by auto

lemma neighbours_complete:
  assumes "net_order_ok L"
  shows "neighbour_overlap L xs = None \<Longrightarrow> sorted_nets L xs \<Longrightarrow> ids_name_nets xs \<Longrightarrow> no_overlap L xs"
proof (induction xs)
  case Nil
  show ?case by (simp add: no_overlap_def)
next
  case (Cons ix xs)
  obtain i x where ix: "ix = (i, x)" by fastforce
  have IH: "no_overlap L xs"
    using Cons.IH neighbour_overlap_tail[OF Cons.prems(1)] Cons.prems(2) ids_name_nets_tail[OF Cons.prems(3)] by simp
  have first: "\<not> nl_in L z x" if "(j, z) \<in> set xs" "j \<noteq> i" for j z
    using neighbours_first[OF assms] Cons.prems that unfolding ix by blast
  have "\<not> nl_in L x z" if "(j, z) \<in> set xs" "j \<noteq> i" for j z
  proof -
    have "nl_le L x z" using Cons.prems(2) that by (auto simp: ix list_all_iff)
    with first[OF that] show ?thesis using order_larger_first[OF assms] by blast
  qed
  with first show ?case by (intro no_overlapI) (auto simp: ix dest: no_overlapD[OF IH])
qed

lemma neighbour_overlap_sound:
  "neighbour_overlap L xs = Some (i, j) \<Longrightarrow> \<exists>x y. (i, x) \<in> set xs \<and> (j, y) \<in> set xs \<and> i \<noteq> j \<and> nl_in L y x"
proof (induction L xs rule: neighbour_overlap.induct)
  case (3 L id1 c1 id2 c2 xs)
  then show ?case by (cases "id2 \<noteq> id1 \<and> nl_in L c2 c1") auto
qed auto

lemma overlap_check_Inr:
  assumes "net_order_ok L" and "check_vrf_for_overlap L False v new_subnets db = Inr ()"
  obtains old new where "parse_nets L (routed_subnets_of_vrf v db) = Inr old"
    and "parse_nets L (map (\<lambda>s. (rs_id s, rs_cidr s)) new_subnets) = Inr new"
    and "ids_name_nets (old @ new) \<Longrightarrow> no_overlap L (old @ new)"
proof -
  from assms(2) obtain old new where o: "parse_nets L (routed_subnets_of_vrf v db) = Inr old"
    and n: "parse_nets L (map (\<lambda>s. (rs_id s, rs_cidr s)) new_subnets) = Inr new"
    and c: "(case neighbour_overlap L (sort_nets (nl_le L) (old @ new)) of None \<Rightarrow> Inr ()
       | Some (id1, id2) \<Rightarrow> Inl (SubnetOverlapInRoutedVRF id1 id2)) = Inr ()"
    unfolding check_vrf_for_overlap_def if_False bindE_eq_Inr by blast
  from c have c: "neighbour_overlap L (sort_nets (nl_le L) (old @ new)) = None"
    by (simp split: option.splits prod.splits) 
  have "no_overlap L (old @ new)" if "ids_name_nets (old @ new)"
  proof -
    have "ids_name_nets (sort_nets (nl_le L) (old @ new))" using that by (simp add: ids_name_nets_def)
    then have "no_overlap L (sort_nets (nl_le L) (old @ new))"
      using neighbours_complete[OF assms(1) c] sort_nets_sorted[OF assms(1)] by blast
    then show ?thesis by (simp add: no_overlap_def)
  qed
  with o n that show ?thesis by blast
qed

text \<open>C8: The check of a VRF passes exactly when no two different subnets overlap, among those with a
  router interface in the VRF and the new ones, although it compares neighbours in the sorted list only.\<close>

theorem overlap_check_exact:
  assumes "net_order_ok L" and "parse_nets L (routed_subnets_of_vrf v db) = Inr old"
    and "parse_nets L (map (\<lambda>s. (rs_id s, rs_cidr s)) new_subnets) = Inr new"
    and "ids_name_nets (old @ new)"
  shows "check_vrf_for_overlap L False v new_subnets db = Inr () \<longleftrightarrow> no_overlap L (old @ new)"
proof
  assume "check_vrf_for_overlap L False v new_subnets db = Inr ()"
  from overlap_check_Inr[OF assms(1) this] assms(2,3,4) show "no_overlap L (old @ new)" by auto
next
  let ?xs = "sort_nets (nl_le L) (old @ new)"
  assume n: "no_overlap L (old @ new)"
  have "neighbour_overlap L ?xs = None"
  proof (cases "neighbour_overlap L ?xs")
    case (Some ij)
    then obtain i j where "neighbour_overlap L ?xs = Some (i, j)" by (cases ij) auto
    from neighbour_overlap_sound[OF this] obtain x y where
      "(i, x) \<in> set (old @ new)" "(j, y) \<in> set (old @ new)" "i \<noteq> j" "nl_in L y x" by auto
    with no_overlapD[OF n] show ?thesis by blast
  qed
  then show "check_vrf_for_overlap L False v new_subnets db = Inr ()"
    using assms(2,3) by (simp add: check_vrf_for_overlap_def)
qed

section \<open>A concrete address library\<close>

text \<open>For the examples a network is the list of its leading bits.\<close>

fun demo_le :: "bool list \<Rightarrow> bool list \<Rightarrow> bool" where
  "demo_le [] y \<longleftrightarrow> True"
| "demo_le (a # x) [] \<longleftrightarrow> False"
| "demo_le (a # x) (b # y) \<longleftrightarrow> (if a = b then demo_le x y else \<not> a)"

fun demo_in :: "bool list \<Rightarrow> bool list \<Rightarrow> bool" where
  "demo_in y [] \<longleftrightarrow> True"
| "demo_in [] (b # x) \<longleftrightarrow> False"
| "demo_in (a # y) (b # x) \<longleftrightarrow> a = b \<and> demo_in y x"

definition demo_nets :: "bool list net_lib" where
  "demo_nets = \<lparr> nl_parse = (\<lambda>s. Inr (map (\<lambda>c. c = CHR ''1'') s)), nl_le = demo_le, nl_in = demo_in \<rparr>"

lemma demo_le_total: "demo_le x y \<or> demo_le y x"
  by (induction x y rule: demo_le.induct) auto

lemma demo_le_trans: "demo_le x y \<Longrightarrow> demo_le y z \<Longrightarrow> demo_le x z"
proof (induction x y arbitrary: z rule: demo_le.induct)
  case (3 a x b y)
  then show ?case by (cases z) (auto split: if_splits)
qed auto

lemma demo_larger_first: "demo_le x y \<Longrightarrow> demo_in x y \<Longrightarrow> demo_in y x"
  by (induction x y rule: demo_le.induct) (auto split: if_splits)

lemma demo_between: "demo_le x y \<Longrightarrow> demo_le y z \<Longrightarrow> demo_in z x \<Longrightarrow> demo_in y x"
proof (induction x y arbitrary: z rule: demo_le.induct)
  case (3 a x b y)
  then show ?case by (cases z) (auto split: if_splits)
qed auto

lemma demo_nets_ok: "net_order_ok demo_nets"
  unfolding net_order_ok_def demo_nets_def
  by (auto intro: demo_le_trans demo_larger_first demo_between) (use demo_le_total in blast)

definition demo_overlap_db :: neutron_db where
  "demo_overlap_db = \<lparr> nt_scopes = [], nt_pools = [], nt_networks = [],
     nt_subnets = [\<lparr> subnet_id = ''s1'', subnet_network_id = ''n1'', subnet_pool_id = None, subnet_cidr = ''01'',
         subnet_gateway_ip = None, subnet_ip_version = 4, subnet_enable_dhcp = True \<rparr>],
     nt_ports = [], nt_allocs = [\<lparr> alloc_port_id = ''p1'', alloc_subnet_id = ''s1'', alloc_ip = ''0110'', alloc_network_id = ''n1'' \<rparr>],
     nt_routers = [], nt_router_ports = [\<lparr> rp_router_id = ''r1'', rp_port_id = ''p1'', rp_type = device_owner_router_intf \<rparr>],
     nt_scope_mappings = [],
     nt_network_mappings = [\<lparr> nm_network_id = ''n1'', nm_bd_name = None, nm_bd_tenant_name = None, nm_epg_name = None,
             nm_epg_app_profile_name = None, nm_epg_tenant_name = None, nm_l3out_name = None, nm_l3out_ext_net_name = None,
             nm_l3out_tenant_name = None, nm_vrf_name = Some ''v'', nm_vrf_tenant_name = Some ''t'' \<rparr>] \<rparr>"

definition demo_new_subnet :: "string \<Rightarrow> router_subnet" where
  "demo_new_subnet cidr = \<lparr> rs_id = ''s2'', rs_name = [], rs_cidr = cidr, rs_subnetpool_id = None, rs_ip_version = 4,
     rs_active_active_aap = False \<rparr>"

lemma demo_parsed:
  "parse_nets demo_nets (routed_subnets_of_vrf \<lparr> vrf_tenant_name = Some ''t'', vrf_name = Some ''v'' \<rparr> demo_overlap_db)
    = Inr [(''s1'', [False, True])]"
  "parse_nets demo_nets (map (\<lambda>s. (rs_id s, rs_cidr s)) [demo_new_subnet ''011'']) = Inr [(''s2'', [False, True, True])]"
  by code_simp+

lemma overlap_check_exact_witness:
  "check_vrf_for_overlap demo_nets False \<lparr> vrf_tenant_name = Some ''t'', vrf_name = Some ''v'' \<rparr> [demo_new_subnet ''011''] demo_overlap_db \<noteq> Inr ()"
proof -
  have "\<not> no_overlap demo_nets ([(''s1'', [False, True])] @ [(''s2'', [False, True, True])])"
    by (simp add: no_overlap_def demo_nets_def)
  moreover have "ids_name_nets ([(''s1'', [False, True])] @ [(''s2'', [False, True, True])])"
    by (simp add: ids_name_nets_def)
  ultimately show ?thesis using overlap_check_exact[OF demo_nets_ok demo_parsed] by blast
qed

section \<open>The contracts of a VRF\<close>

lemma insert_string_set: "set (insert_string x xs) = insert x (set xs)"
  by (induction xs) auto

lemma sort_strings_set: "set (sort_strings xs) = set xs"
  by (induction xs) (auto simp: insert_string_set)

text \<open>A gateway change connects the VRF with the contract of every router that has an interface in
  the VRF and its gateway on a network of the same external network of the fabric, together with
  their external contracts, and with those of the changed router.\<close>

lemma connected_contracts:
  "set (provided_contracts xdb (connected_routers A en v xdb @ [r])) =
   {c. \<exists>q \<in> insert r (router_id ` {x \<in> set (get_routers_for_vrf (xd_neutron xdb) v).
          gw_in (xd_neutron xdb) (get_network_ids_by_ext_net_dn (ext_net_dn A en) xdb) x}).
        c = router_contract_name q \<or> c \<in> set (fst (get_router_extn_db q xdb))}"
  by (auto simp: provided_contracts_def contracts_of_routers_def connected_routers_def sort_strings_set)

end
