(* ===== verification/Router_Interface_Laws.thy ===== *)
theory Router_Interface_Laws
  imports Router_Interfaces Vrf_Move_Laws Connectivity_Laws
begin

text \<open>
  What adding subnets to a router and removing them guarantee: which requests are refused, that the
  supported routing topologies stay supported, that all networks routed together end up in one VRF
  without overlapping subnets, and that the contract of the router is in both lists of the endpoint
  group exactly while the network is connected.
\<close>

section \<open>What is refused\<close>

lemma dguard_each_Inr: "deach (\<lambda>x. dguard (P x) (e x)) xs s = Inr (u, t) \<longleftrightarrow> list_all P xs \<and> t = s"
  by (induction xs) (auto simp: dbind_Inr)

lemma check_isomorphic_state: "check_isomorphic scope intfs s = Inr (u, t) \<Longrightarrow> t = s"
  by (auto simp: check_isomorphic_def scope_vrf_def dbind_Inr Let_def
      split: list.splits option.splits prod.splits if_splits)

lemma check_new_interface_Inr:
  assumes "check_new_interface ov r n subnets s = Inr ((scope, k), t)"
  shows "t = s" and "\<not> is_preexisting_svi_db (network_id n) s" and "network_id n \<notin> set (ds_external s)"
    and "list_all (\<lambda>x. \<not> rs_active_active_aap x) subnets"
    and "get_address_scope_id_for_subnets (ds_neutron s) subnets = Inr scope"
    and "ov \<or> \<not> (different_router r (net_interfaces (network_id n) (ds_neutron s)) \<and>
      different_subnet (map rs_id subnets) (net_interfaces (network_id n) (ds_neutron s)))"
  using assms check_isomorphic_state
  unfolding check_new_interface_def Let_def
  by (auto simp: dbind_Inr dguard_each_Inr)

lemma network_of_Inr: "network_of i s = Inr (n, t) \<longleftrightarrow> find (\<lambda>n. network_id n = i) (nt_networks (ds_neutron s)) = Some n \<and> t = s"
  by (auto simp: network_of_def dbind_Inr split: option.splits)

lemma found_network: "find (\<lambda>n. network_id n = i) ns = Some n \<Longrightarrow> network_id n = i"
  by (auto simp: find_Some_iff)

section \<open>Supported routing topologies\<close>

text \<open>The interfaces of a network share a router or share a subnet.\<close>

definition shared_routing :: "(string \<times> string) list \<Rightarrow> bool" where
  "shared_routing intfs \<longleftrightarrow> (\<exists>r. \<forall>x \<in> set intfs. fst x = r) \<or> (\<exists>s. \<forall>x \<in> set intfs. snd x = s)"

definition interface_pairs :: "string \<Rightarrow> neutron_db \<Rightarrow> (string \<times> string) list" where
  "interface_pairs net db = map (\<lambda>(r, s). (r, subnet_id s)) (existing_interfaces net db)"

lemma shared_two:
  assumes "shared_routing (a # b # rest)" and "distinct (a # b # rest)"
  shows "(fst a = fst b \<and> snd a \<noteq> snd b \<and> (\<forall>x \<in> set rest. fst x = fst a)) \<or>
    (snd a = snd b \<and> fst a \<noteq> fst b \<and> (\<forall>x \<in> set rest. snd x = snd a))"
proof -
  from assms(2) have "fst a \<noteq> fst b \<or> snd a \<noteq> snd b" by (auto simp: prod_eq_iff)
  with assms(1) show ?thesis by (auto simp: shared_routing_def)
qed

text \<open>Two of the interfaces suffice to decide whether a new one fits.\<close>

lemma two_interfaces_enough:
  assumes "shared_routing intfs" and "distinct intfs"
    and "\<not> (list_ex (\<lambda>(r', _). r \<noteq> r') (take 2 intfs) \<and> list_ex (\<lambda>(_, s). list_ex (\<lambda>i. i \<noteq> s) subnets) (take 2 intfs))"
  shows "shared_routing (intfs @ map (Pair r) subnets)"
proof (cases intfs)
  case Nil
  then show ?thesis by (auto simp: shared_routing_def)
next
  case (Cons a xs)
  show ?thesis
  proof (cases xs)
    case Nil
    with Cons assms(3) show ?thesis by (cases a) (auto simp: shared_routing_def list_ex_iff)
  next
    case (Cons b rest)
    note intfs = \<open>intfs = a # xs\<close> Cons
    from shared_two[of a b rest] assms(1,2) consider
      (router) "fst a = fst b" "snd a \<noteq> snd b" "\<forall>x \<in> set rest. fst x = fst a"
      | (subnet) "snd a = snd b" "fst a \<noteq> fst b" "\<forall>x \<in> set rest. snd x = snd a"
      unfolding intfs by blast
    then show ?thesis
    proof cases
      case router
      have "subnets = [] \<or> r = fst a"
      proof (cases subnets)
        case (Cons i others)
        then have "list_ex (\<lambda>(_, s). list_ex (\<lambda>i. i \<noteq> s) subnets) [a, b]"
          using router(2) by (cases a; cases b) auto
        with assms(3) show ?thesis by (cases a; cases b) (auto simp: intfs)
      qed simp
      with router show ?thesis unfolding shared_routing_def
        by (intro disjI1 exI[of _ "fst a"]) (auto simp: intfs)
    next
      case subnet
      have "list_ex (\<lambda>(r', _). r \<noteq> r') [a, b]" using subnet(2) by (cases a; cases b) auto
      with assms(3) have "\<forall>i \<in> set subnets. i = snd a"
        using subnet(1) by (cases a; cases b) (auto simp: intfs list_ex_iff)
      with subnet show ?thesis unfolding shared_routing_def
        by (intro disjI2 exI[of _ "snd a"]) (auto simp: intfs)
    qed
  qed
qed

lemma different_pairs:
  "different_router r (net_interfaces i db) = list_ex (\<lambda>(r', _). r \<noteq> r') (take 2 (interface_pairs i db))"
  "different_subnet subnets (net_interfaces i db) = list_ex (\<lambda>(_, s). list_ex (\<lambda>i. i \<noteq> s) subnets) (take 2 (interface_pairs i db))"
  by (auto simp: different_router_def different_subnet_def net_interfaces_def interface_pairs_def list_ex_iff
      take_map split: prod.splits)

lemma add_interface_check:
  assumes "add_router_interface A L C ov r p subnets s = Inr (u, t)"
  obtains n scope k where "network_of (ip_network_id p) s = Inr (n, s)"
    and "check_new_interface ov (ro_id r) n subnets s = Inr ((scope, k), s)" and "network_id n = ip_network_id p"
proof -
  from assms obtain n scope k v where n: "network_of (ip_network_id p) s = Inr (n, s)"
    and c: "check_new_interface ov (ro_id r) n subnets s = Inr ((scope, k), v)"
    unfolding add_router_interface_def Let_def by (auto simp: dbind_Inr network_of_Inr)
  moreover have "v = s" using check_new_interface_Inr(1)[OF c] .
  moreover have "network_id n = ip_network_id p" using n found_network by (auto simp: network_of_Inr)
  ultimately show ?thesis using that by blast
qed

text \<open>C7: Whatever the override flag, an interface is added only to a network that is neither external nor
  an SVI network with an L3Out of its own, with no subnet of an active pair.  Without the flag, if the
  interfaces of the network, all on different pairs of a router and a subnet, share a router or a subnet
  before, they still do with the new ones, although only two of them are looked at.  (With the flag the code
  does not check this.)\<close>

theorem added_interface_supported:
  assumes "add_router_interface A L C override_validation r p subnets s = Inr (u, t)"
  shows "\<not> is_preexisting_svi_db (ip_network_id p) s \<and> ip_network_id p \<notin> set (ds_external s) \<and>
    list_all (\<lambda>x. \<not> rs_active_active_aap x) subnets \<and>
    (\<not> override_validation \<and> distinct (interface_pairs (ip_network_id p) (ds_neutron s)) \<and>
       shared_routing (interface_pairs (ip_network_id p) (ds_neutron s)) \<longrightarrow>
     shared_routing (interface_pairs (ip_network_id p) (ds_neutron s) @ map (\<lambda>x. (ro_id r, rs_id x)) subnets))"
proof -
  from add_interface_check[OF assms(1)] obtain n scope k where
    c: "check_new_interface override_validation (ro_id r) n subnets s = Inr ((scope, k), s)"
    and i: "network_id n = ip_network_id p" by blast
  have "shared_routing (interface_pairs (ip_network_id p) (ds_neutron s) @ map (Pair (ro_id r)) (map rs_id subnets))"
    if "\<not> override_validation" "shared_routing (interface_pairs (ip_network_id p) (ds_neutron s))"
      "distinct (interface_pairs (ip_network_id p) (ds_neutron s))"
    by (rule two_interfaces_enough[OF that(2,3)])
      (use check_new_interface_Inr(6)[OF c] that(1) in \<open>simp add: different_pairs i\<close>)
  with check_new_interface_Inr(2,3,4)[OF c] show ?thesis by (simp add: i comp_def)
qed

section \<open>One VRF for all networks that are routed together\<close>

definition rows_use :: "vrf \<Rightarrow> string set \<Rightarrow> neutron_db \<Rightarrow> bool" where
  "rows_use v I db \<longleftrightarrow> (\<forall>m \<in> set (nt_network_mappings db). nm_network_id m \<in> I \<longrightarrow> get_network_vrf m = v)"

lemma rows_use_empty [simp]: "rows_use v {} db"
  by (simp add: rows_use_def)

lemma rows_use_Un: "rows_use v (I \<union> J) db \<longleftrightarrow> rows_use v I db \<and> rows_use v J db"
  by (auto simp: rows_use_def)

lemma rows_use_moved: "rows_use v I (change_mappings I (moved_mapping w v) db)"
  by (auto simp: rows_use_def change_mappings_def)

lemma rows_use_move: "rows_use v I db \<Longrightarrow> rows_use v I (change_mappings J (moved_mapping w v) db)"
  by (auto simp: rows_use_def change_mappings_def)

lemma rows_use_associated: "rows_use v {i} (change_mapping i (associated_mapping svi v) db)"
  unfolding rows_use_def
proof (intro ballI impI)
  fix m
  assume m: "m \<in> set (nt_network_mappings (change_mapping i (associated_mapping svi v) db))" and i: "nm_network_id m \<in> {i}"
  from m obtain x where "m = (if nm_network_id x = i then associated_mapping svi v x else x)"
    unfolding change_mapping_def by (auto simp del: if_image_distrib)
  with i show "get_network_vrf m = v" by (cases "nm_network_id x = i") auto
qed

lemma rows_use_associate: "rows_use v I db \<Longrightarrow> rows_use v I (change_mapping i (associated_mapping svi v) db)"
  by (auto simp: rows_use_def change_mapping_def split: if_splits)

lemma drv_keeps_neutron: "aim_only m \<Longrightarrow> drv_keeps ds_neutron m"
  by (auto simp: drv_keeps_def but_aim_def)

lemma keeps_neutron_rules [drv_rules]:
  "drv_keeps ds_neutron (d_get A r)" "drv_keeps ds_neutron (d_create A r)" "drv_keeps ds_neutron (d_create_over A r)"
  "drv_keeps ds_neutron (d_update A r as)" "drv_keeps ds_neutron (d_delete A x)" "drv_keeps ds_neutron (lift_aim f)" "drv_keeps ds_neutron (lift_aim0 g)"
  by (rule drv_keeps_neutron, rule drv_rules)+

lemma drv_keeps_prod [drv_rules]: "(\<And>x y. z = (x, y) \<Longrightarrow> drv_keeps f (g x y)) \<Longrightarrow> drv_keeps f (case z of (x, y) \<Rightarrow> g x y)"
  by (cases z) simp

lemma drv_keeps_notify [drv_rules]: "drv_keeps ds_neutron (add_postcommit_port_notifications ports)"
  by (auto simp: drv_keeps_def add_postcommit_port_notifications_def)

lemma network_mapping_of_keeps [drv_rules]: "drv_keeps f (network_mapping_of i)"
  by (auto simp: drv_keeps_def)

lemma create_subnet_keeps: "drv_keeps ds_neutron (create_subnet A r p x sn)"
  unfolding create_subnet_def Let_def by (intro drv_rules)

lemma connect_epg_keeps: "drv_keeps ds_neutron (connect_epg A c epg)"
  unfolding connect_epg_def get_epg_def create_external_epg_contract_def add_epg_contract_def by (intro drv_rules)

lemma manage_external_connectivity_keeps: "drv_keeps ds_neutron (manage_external_connectivity A r x y v)"
  unfolding manage_external_connectivity_def disconnect_old_def connect_new_def Let_def
  by (intro drv_rules)

lemma connect_gateway_keeps: "drv_keeps ds_neutron (connect_gateway A C r i k vc x subnets)"
  unfolding connect_gateway_def by (intro drv_rules manage_external_connectivity_keeps)

lemma notify_ports_keeps: "drv_keeps ds_neutron (notify_ports nets ports)"
  unfolding notify_ports_def Let_def by (intro drv_rules)

text \<open>The choice of the VRF: afterwards both topologies use the VRF that was chosen.\<close>

definition router_nets :: "neutron_db \<Rightarrow> string \<Rightarrow> string set" where
  "router_nets db r = fst ` set (router_topology db r)"

definition network_nets :: "neutron_db \<Rightarrow> network_row \<Rightarrow> string set" where
  "network_nets db n = fst ` set (network_topology db n)"

definition network_default_vrf :: "neutron_db \<Rightarrow> network_row \<Rightarrow> vrf" where
  "network_default_vrf db n = map_default_vrf (case topology_shared (network_topology db n) of Some m \<Rightarrow> m | None \<Rightarrow> n)"

lemma topology_vrf_None [simp]: "topology_vrf topology = None \<longleftrightarrow> topology = []"
  by (auto simp: topology_vrf_def split: list.splits)

lemma move_router_topology:
  assumes "aim_lookup_ok A" and "distinct (mapping_keys (ds_neutron s))"
    and "move_topology A (router_topology (ds_neutron s) r) old new nets s = Inr (nets', t)"
  shows "ds_neutron t = change_mappings (router_nets (ds_neutron s) r) (moved_mapping old new) (ds_neutron s)"
  using move_topology_effect(1)[OF assms] unfolding keyed_ids[OF router_topology_keyed] router_nets_def .

lemma move_network_topology:
  assumes "aim_lookup_ok A" and "distinct (mapping_keys (ds_neutron s))"
    and "move_topology A (network_topology (ds_neutron s) n) old new nets s = Inr (nets', t)"
  shows "ds_neutron t = change_mappings (network_nets (ds_neutron s) n) (moved_mapping old new) (ds_neutron s)"
  using move_topology_effect(1)[OF assms] unfolding keyed_ids[OF network_topology_keyed] network_nets_def .

lemma aim_only_neutron: "aim_only m \<Longrightarrow> m s = Inr (x, t) \<Longrightarrow> ds_neutron t = ds_neutron s"
  by (rule drv_keepsD[OF drv_keeps_neutron])

definition mapping_names :: "neutron_db \<Rightarrow> (string \<times> string option \<times> string option) list" where
  "mapping_names db = map (\<lambda>m. (nm_network_id m, nm_epg_name m, nm_l3out_name m)) (nt_network_mappings db)"

definition unified :: "vrf \<Rightarrow> neutron_db \<Rightarrow> string \<Rightarrow> network_row \<Rightarrow> bool \<Rightarrow> neutron_db \<Rightarrow> bool" where
  "unified v db r n routed db' \<longleftrightarrow> rows_use v (router_nets db r) db' \<and> (routed \<longrightarrow> rows_use v (network_nets db n) db') \<and>
     mapping_names db' = mapping_names db"

lemma mapping_names_changes: "mapping_names (change_mappings I (moved_mapping v w) db) = mapping_names db"
  by (auto simp: mapping_names_def change_mappings_def moved_mapping_def set_network_vrf_def)

lemma mapping_names_keys: "mapping_keys db = map fst (mapping_names db)"
  by (simp add: mapping_names_def)

lemma mapping_names_mapped:
  "list_all (\<lambda>m. nm_network_id m = i \<longrightarrow> truthy (nm_epg_name m) \<or> truthy (nm_l3out_name m)) (nt_network_mappings db) \<longleftrightarrow>
   list_all (\<lambda>(k, e, l). k = i \<longrightarrow> truthy e \<or> truthy l) (mapping_names db)"
  by (simp add: mapping_names_def list_all_iff)

lemma choose_unscoped_unified:
  assumes A: "aim_lookup_ok A" and d: "distinct (mapping_keys (ds_neutron s))"
    and R: "\<And>v. topology_vrf (router_topology (ds_neutron s) r) = Some v \<Longrightarrow> rows_use v (router_nets (ds_neutron s) r) (ds_neutron s)"
    and N: "routed \<Longrightarrow> rows_use (network_default_vrf (ds_neutron s) n) (network_nets (ds_neutron s) n) (ds_neutron s)"
    and run: "choose_unscoped_vrf A r n routed s = Inr (vc, t)"
  shows "unified (vc_vrf vc) (ds_neutron s) r n routed (ds_neutron t)"
proof -
  let ?db = "ds_neutron s"
  let ?iv = "network_default_vrf ?db n"
  show ?thesis
  proof (cases "topology_vrf (router_topology ?db r)")
    case None
    with run obtain v where v: "ensure_default_vrf A ?iv s = Inr (v, t)" and vc: "vc_vrf vc = v"
      unfolding choose_unscoped_vrf_def network_default_vrf_def Let_def by (auto simp: dbind_Inr split: if_splits option.splits)
    have "v = ?iv" and "ds_neutron t = ?db"
      using ensure_default_vrf_same[OF A v] aim_only_neutron[OF ensure_default_vrf_aim v] by auto
    moreover have "router_nets ?db r = {}" using None by (simp add: router_nets_def)
    ultimately show ?thesis using N by (simp add: unified_def vc)
  next
    case (Some rv)
    note R = R[OF Some]
    consider (same) "?iv = rv" | (intf) a where "?iv \<noteq> rv" "topology_shared (network_topology ?db n) = Some a"
        "topology_shared (router_topology ?db r) = None"
      | (router) b where "?iv \<noteq> rv" "topology_shared (network_topology ?db n) = None" "topology_shared (router_topology ?db r) = Some b"
      using run Some unfolding choose_unscoped_vrf_def network_default_vrf_def Let_def
      by (auto simp: dbind_Inr split: if_splits option.splits)
    then show ?thesis
    proof cases
      case same
      with run Some obtain v where v: "ensure_default_vrf A ?iv s = Inr (v, t)" and vc: "vc_vrf vc = v"
        unfolding choose_unscoped_vrf_def network_default_vrf_def Let_def by (auto simp: dbind_Inr split: if_splits option.splits)
      have "v = ?iv" and "ds_neutron t = ?db"
        using ensure_default_vrf_same[OF A v] aim_only_neutron[OF ensure_default_vrf_aim v] by auto
      with N R same show ?thesis by (simp add: unified_def vc)
    next
      case intf
      with run Some obtain v u w nets where v: "ensure_default_vrf A ?iv s = Inr (v, u)" and vc: "vc_vrf vc = v"
        and m: "move_topology A (router_topology ?db r) rv v {} u = Inr (nets, w)"
        and c: "cleanup_default_vrf A rv w = Inr ((), t)"
        unfolding choose_unscoped_vrf_def network_default_vrf_def Let_def by (auto simp: dbind_Inr split: if_splits option.splits)
      have v': "v = ?iv" and u: "ds_neutron u = ?db"
        using ensure_default_vrf_same[OF A v] aim_only_neutron[OF ensure_default_vrf_aim v] by auto
      have "ds_neutron w = change_mappings (router_nets ?db r) (moved_mapping rv v) ?db"
        using move_router_topology[OF A, of u r rv v "{}" nets w] m d by (simp add: u)
      then have "ds_neutron t = change_mappings (router_nets ?db r) (moved_mapping rv v) ?db"
        using aim_only_neutron[OF cleanup_default_vrf_aim c] by simp
      then show ?thesis using N by (simp add: unified_def vc v' rows_use_moved rows_use_move mapping_names_changes)
    next
      case router
      show ?thesis
      proof (cases routed)
        case True
        with run Some router obtain w nets where vc: "vc_vrf vc = rv"
          and m: "move_topology A (network_topology ?db n) ?iv rv {} s = Inr (nets, w)"
          and c: "cleanup_default_vrf A ?iv w = Inr ((), t)"
          unfolding choose_unscoped_vrf_def network_default_vrf_def Let_def by (auto simp: dbind_Inr split: if_splits option.splits)
        have "ds_neutron t = change_mappings (network_nets ?db n) (moved_mapping ?iv rv) ?db"
          using move_network_topology[OF A d m] aim_only_neutron[OF cleanup_default_vrf_aim c] by simp
        then show ?thesis using R by (simp add: unified_def vc rows_use_moved rows_use_move mapping_names_changes)
      next
        case False
        with run Some router have "vc_vrf vc = rv" "t = s"
          unfolding choose_unscoped_vrf_def network_default_vrf_def Let_def by (auto simp: dbind_Inr split: if_splits option.splits)
        with R False show ?thesis by (simp add: unified_def)
      qed
    qed
  qed
qed

lemma associate_or_map_unified:
  assumes A: "aim_lookup_ok A" and d: "distinct (mapping_keys (ds_neutron s))"
    and mapped: "list_all (\<lambda>m. nm_network_id m = network_id n \<longrightarrow> truthy (nm_epg_name m) \<or> truthy (nm_l3out_name m)) (ds_mappings s)"
    and run: "associate_or_map A n v routed nets s = Inr ((x, nets'), t)"
  shows "(rows_use v I (ds_neutron s) \<longrightarrow> rows_use v I (ds_neutron t)) \<and> (\<not> routed \<longrightarrow> rows_use v {network_id n} (ds_neutron t))"
proof (cases routed)
  case True
  with run show ?thesis unfolding associate_or_map_def by (auto simp: dbind_Inr split: if_splits)
next
  case False
  from run obtain m where m: "get_network_mapping (network_id n) (ds_neutron s) = Some m"
    unfolding associate_or_map_def by (auto simp: dbind_Inr)
  then have "truthy (nm_epg_name m) \<or> truthy (nm_l3out_name m)"
    using mapped get_network_mapping_id[OF m] by (auto simp: list_all_iff)
  with run m False obtain y nets'' where "associate_network_with_vrf A n v nets s = Inr ((y, nets''), t)"
    unfolding associate_or_map_def by (auto simp: dbind_Inr split: if_splits prod.splits)
  from associate_inner[OF A d this] have
    "ds_neutron t = change_mapping (network_id n) (associated_mapping (is_svi_db (network_id n) s) v) (ds_neutron s)"
    by (auto simp: moved_state_def)
  then show ?thesis using False by (simp add: rows_use_associate rows_use_associated)
qed

text \<open>C6: Suppose an interface is added whose subnets have no address scope, while the networks of the
  router's topology all use the VRF of that topology and, where the network has interfaces already, those
  of its topology all use that topology's default VRF.  (With address scopes a topology has a VRF per scope,
  and the theorem does not apply.)  When the request succeeds, all these networks and the network itself
  use one VRF; and unless overlaps are allowed, no two different subnets overlap among those that then
  have an interface in that VRF and the new ones.\<close>

theorem added_interface_unified:
  assumes "aim_lookup_ok A" and "net_order_ok L" and "distinct (map nm_network_id (ds_mappings s))"
    and "find (\<lambda>n. network_id n = ip_network_id p) (nt_networks (ds_neutron s)) = Some n"
    and "get_address_scope_id_for_subnets (ds_neutron s) subnets = Inr None"
    and "list_all (\<lambda>m. nm_network_id m = ip_network_id p \<longrightarrow> truthy (nm_epg_name m) \<or> truthy (nm_l3out_name m)) (ds_mappings s)"
    and "\<And>v. topology_vrf (router_topology (ds_neutron s) (ro_id r)) = Some v \<Longrightarrow>
           rows_use v (router_nets (ds_neutron s) (ro_id r)) (ds_neutron s)"
    and "net_interfaces (ip_network_id p) (ds_neutron s) \<noteq> [] \<Longrightarrow>
           rows_use (network_default_vrf (ds_neutron s) n) (network_nets (ds_neutron s) n) (ds_neutron s)"
    and "add_router_interface A L C override_validation r p subnets s = Inr (u, t)"
  shows "\<exists>v. rows_use v (router_nets (ds_neutron s) (ro_id r) \<union>
            (if net_interfaces (ip_network_id p) (ds_neutron s) = [] then {ip_network_id p} else network_nets (ds_neutron s) n))
          (ds_neutron t) \<and>
        (\<not> dc_allow_overlap C \<longrightarrow>
          (\<exists>old new. parse_nets L (routed_subnets_of_vrf v (ds_neutron t)) = Inr old \<and>
             parse_nets L (map (\<lambda>x. (rs_id x, rs_cidr x)) subnets) = Inr new \<and>
             (ids_name_nets (old @ new) \<longrightarrow> no_overlap L (old @ new))))"
proof -
  let ?db = "ds_neutron s"
  let ?i = "ip_network_id p"
  let ?routed = "net_interfaces ?i ?db \<noteq> []"
  have n: "network_of ?i s = Inr (n, s)" using assms(4) by (simp add: network_of_Inr)
  have i: "network_id n = ?i" using assms(4) by (rule found_network)
  from add_interface_check[OF assms(9)] obtain n' scope k where n': "network_of ?i s = Inr (n', s)"
    and c: "check_new_interface override_validation (ro_id r) n' subnets s = Inr ((scope, k), s)" by blast
  from n n' have nn: "n' = n" by (simp add: network_of_Inr)
  have scope: "scope = None" using check_new_interface_Inr(5)[OF c] assms(5) by simp
  from assms(9) c obtain vc w x nets y m z where
    vc: "choose_unscoped_vrf A (ro_id r) n ?routed s = Inr (vc, w)"
    and x: "associate_or_map A n (vc_vrf vc) ?routed (vc_nets vc) w = Inr ((x, nets), y)"
    and o: "check_vrf_for_overlap L (dc_allow_overlap C) (vc_vrf vc) subnets (ds_neutron y) = Inr ()"
    and rest: "dbind (network_mapping_of ?i) (\<lambda>m.
         dbind (dwhen (truthy (nm_epg_name m)) (deach (create_subnet A r p x) subnets)) (\<lambda>_.
         dbind (connect_epg A (router_contract_name (ro_id r)) (nr_epg x)) (\<lambda>_.
         dbind (connect_gateway A C (ro_id r) ?i k vc x subnets) (\<lambda>ports.
         notify_ports nets ports)))) y = Inr ((), t)"
    unfolding add_router_interface_def Let_def choose_vrf_def scope
    by (auto simp: dbind_Inr n nn split: option.splits)
  have keep: "drv_keeps ds_neutron (dbind (network_mapping_of ?i) (\<lambda>m.
         dbind (dwhen (truthy (nm_epg_name m)) (deach (create_subnet A r p x) subnets)) (\<lambda>_.
         dbind (connect_epg A (router_contract_name (ro_id r)) (nr_epg x)) (\<lambda>_.
         dbind (connect_gateway A C (ro_id r) ?i k vc x subnets) (\<lambda>ports.
         notify_ports nets ports)))))"
    by (intro drv_rules create_subnet_keeps connect_epg_keeps connect_gateway_keeps notify_ports_keeps)
  have t: "ds_neutron t = ds_neutron y" by (rule drv_keepsD[OF keep rest])
  have un: "unified (vc_vrf vc) ?db (ro_id r) n ?routed (ds_neutron w)"
    by (rule choose_unscoped_unified[OF assms(1,3) _ _ vc]) (use assms(7,8) in auto)
  have names: "mapping_names (ds_neutron w) = mapping_names ?db" using un by (simp add: unified_def)
  have "distinct (mapping_keys (ds_neutron w))" using assms(3) unfolding mapping_names_keys names .
  moreover have "list_all (\<lambda>m. nm_network_id m = network_id n \<longrightarrow> truthy (nm_epg_name m) \<or> truthy (nm_l3out_name m)) (ds_mappings w)"
    using assms(6) unfolding i mapping_names_mapped names .
  ultimately have "(rows_use (vc_vrf vc) I (ds_neutron w) \<longrightarrow> rows_use (vc_vrf vc) I (ds_neutron y)) \<and>
      (\<not> ?routed \<longrightarrow> rows_use (vc_vrf vc) {network_id n} (ds_neutron y))" for I
    using x by (rule associate_or_map_unified[OF assms(1)])
  with un have "rows_use (vc_vrf vc) (router_nets ?db (ro_id r) \<union>
      (if net_interfaces ?i ?db = [] then {?i} else network_nets ?db n)) (ds_neutron t)"
    by (simp add: unified_def rows_use_Un t i)
  moreover have "\<exists>old new. parse_nets L (routed_subnets_of_vrf (vc_vrf vc) (ds_neutron t)) = Inr old \<and>
      parse_nets L (map (\<lambda>x. (rs_id x, rs_cidr x)) subnets) = Inr new \<and>
      (ids_name_nets (old @ new) \<longrightarrow> no_overlap L (old @ new))" if "\<not> dc_allow_overlap C"
  proof -
    from o that have "check_vrf_for_overlap L False (vc_vrf vc) subnets (ds_neutron t) = Inr ()" unfolding t by simp
    from overlap_check_Inr[OF assms(2) this] show ?thesis by metis
  qed
  ultimately show ?thesis by blast
qed

section \<open>The contract of a router in an endpoint group\<close>

text \<open>
  An update of the contract lists of a resource that was looked up returns it with these lists, and
  the next lookup finds the same.
\<close>

abbreviation contract_key :: "string \<Rightarrow> bool" where
  "contract_key k \<equiv> k = ''consumed_contract_names'' \<or> k = ''provided_contract_names''"

definition aim_update_ok :: "'a aim_lib \<Rightarrow> bool" where
  "aim_update_ok A \<longleftrightarrow> (\<forall>q a e k cs x a'. contract_key k \<longrightarrow> aim_get A q a = Some e \<longrightarrow> aim_update A e [(k, AStrs cs)] a = Inr (x, a') \<longrightarrow>
     aim_get A q a' = x \<and> (\<exists>e'. x = Some e' \<and> ar_class e' = ar_class e \<and> attr_strs e' k = cs \<and>
       (\<forall>k'. k' \<noteq> k \<longrightarrow> attr_strs e' k' = attr_strs e k')))"

lemma update_contracts:
  assumes "aim_update_ok A" and "contract_key k" and "aim_get A q (ds_aim s) = Some e"
    and "d_update A e [(k, AStrs cs)] s = Inr (x, t)"
  obtains e' where "x = Some e'" and "aim_get A q (ds_aim t) = Some e'" and "ar_class e' = ar_class e"
    and "attr_strs e' k = cs" and "\<And>k'. k' \<noteq> k \<Longrightarrow> attr_strs e' k' = attr_strs e k'"
proof -
  from assms(4) have "aim_update A e [(k, AStrs cs)] (ds_aim s) = Inr (x, ds_aim t)"
    by (auto simp: d_update_def lift_aim_Inr)
  with assms(1,2,3) have "aim_get A q (ds_aim t) = x \<and> (\<exists>e'. x = Some e' \<and> ar_class e' = ar_class e \<and> attr_strs e' k = cs \<and>
       (\<forall>k'. k' \<noteq> k \<longrightarrow> attr_strs e' k' = attr_strs e k'))"
    unfolding aim_update_ok_def by blast
  with that show ?thesis by blast
qed

lemma add_epg_contract_effect:
  assumes "aim_update_ok A" and "contract_key k" and "aim_get A q (ds_aim s) = Some e"
    and "add_epg_contract A k c (Some e) s = Inr (x, t)"
  obtains e' where "x = Some e'" and "aim_get A q (ds_aim t) = Some e'" and "ar_class e' = ar_class e"
    and "set (attr_strs e' k) = insert c (set (attr_strs e k))" and "filter (\<lambda>d. d \<noteq> c) (attr_strs e' k) = filter (\<lambda>d. d \<noteq> c) (attr_strs e k)"
    and "\<And>k'. k' \<noteq> k \<Longrightarrow> attr_strs e' k' = attr_strs e k'"
proof (cases "c \<in> set (attr_strs e k)")
  case True
  with assms(3,4) that[of e] show ?thesis by (auto simp: add_epg_contract_def dbind_Inr)
next
  case False
  with assms(4) have "d_update A e [(k, AStrs (attr_strs e k @ [c]))] s = Inr (x, t)"
    by (auto simp: add_epg_contract_def dbind_Inr)
  from update_contracts[OF assms(1,2,3) this] obtain e' where e': "x = Some e'" "aim_get A q (ds_aim t) = Some e'"
    "ar_class e' = ar_class e" "attr_strs e' k = attr_strs e k @ [c]" "\<And>k'. k' \<noteq> k \<Longrightarrow> attr_strs e' k' = attr_strs e k'" by blast
  show ?thesis by (rule that[OF e'(1,2,3) _ _ e'(5)]) (simp_all add: e'(4))
qed

lemma remove_epg_contract_effect:
  assumes "aim_update_ok A" and "contract_key k" and "aim_get A q (ds_aim s) = Some e"
    and "remove_epg_contract A k c (Some e) s = Inr (x, t)"
  obtains e' where "x = Some e'" and "aim_get A q (ds_aim t) = Some e'" and "ar_class e' = ar_class e"
    and "attr_strs e' k = filter (\<lambda>d. d \<noteq> c) (attr_strs e k)"
    and "\<And>k'. k' \<noteq> k \<Longrightarrow> attr_strs e' k' = attr_strs e k'"
proof -
  from assms(4) have "d_update A e [(k, AStrs (filter (\<lambda>d. d \<noteq> c) (attr_strs e k)))] s = Inr (x, t)"
    by (simp add: remove_epg_contract_def dbind_Inr)
  from update_contracts[OF assms(1,2,3) this] that show ?thesis by blast
qed

abbreviation consumed_of :: "aim_res \<Rightarrow> string list" where
  "consumed_of e \<equiv> attr_strs e ''consumed_contract_names''"

abbreviation provided_of :: "aim_res \<Rightarrow> string list" where
  "provided_of e \<equiv> attr_strs e ''provided_contract_names''"

lemma connect_epg_effect:
  assumes A: "aim_update_ok A" and g: "aim_get A q (ds_aim s) = Some e" and c: "ar_class e \<noteq> ExternalNetwork"
    and run: "connect_epg A c (Some q) s = Inr (u, t)"
  obtains e' where "aim_get A q (ds_aim t) = Some e'" and "ar_class e' = ar_class e"
    and "set (consumed_of e') = insert c (set (consumed_of e))" and "set (provided_of e') = insert c (set (provided_of e))"
    and "filter (\<lambda>d. d \<noteq> c) (consumed_of e') = filter (\<lambda>d. d \<noteq> c) (consumed_of e)"
    and "filter (\<lambda>d. d \<noteq> c) (provided_of e') = filter (\<lambda>d. d \<noteq> c) (provided_of e)"
proof -
  from run g c obtain x v y where 1: "add_epg_contract A ''consumed_contract_names'' c (Some e) s = Inr (x, v)"
    and 2: "add_epg_contract A ''provided_contract_names'' c x v = Inr (y, t)"
    by (auto simp: connect_epg_def get_epg_def dbind_Inr)
  from add_epg_contract_effect[OF A _ g 1] obtain e1 where e1: "x = Some e1" "aim_get A q (ds_aim v) = Some e1" "ar_class e1 = ar_class e"
    "set (consumed_of e1) = insert c (set (consumed_of e))" "filter (\<lambda>d. d \<noteq> c) (consumed_of e1) = filter (\<lambda>d. d \<noteq> c) (consumed_of e)"
    "\<And>k'. k' \<noteq> ''consumed_contract_names'' \<Longrightarrow> attr_strs e1 k' = attr_strs e k'" by blast
  from add_epg_contract_effect[OF A _ e1(2), of _ c y t] 2 e1(1) obtain e2 where e2: "aim_get A q (ds_aim t) = Some e2" "ar_class e2 = ar_class e1"
    "set (provided_of e2) = insert c (set (provided_of e1))" "filter (\<lambda>d. d \<noteq> c) (provided_of e2) = filter (\<lambda>d. d \<noteq> c) (provided_of e1)"
    "\<And>k'. k' \<noteq> ''provided_contract_names'' \<Longrightarrow> attr_strs e2 k' = attr_strs e1 k'" by blast
  show ?thesis by (rule that[OF e2(1)]) (use e1 e2 in simp_all)
qed

lemma disconnect_epg_effect:
  assumes A: "aim_update_ok A" and g: "aim_get A q (ds_aim s) = Some e" and c: "ar_class e \<noteq> ExternalNetwork"
    and run: "disconnect_epg A c q s = Inr (u, t)"
  obtains e' where "aim_get A q (ds_aim t) = Some e'"
    and "consumed_of e' = filter (\<lambda>d. d \<noteq> c) (consumed_of e)" and "provided_of e' = filter (\<lambda>d. d \<noteq> c) (provided_of e)"
proof -
  from run g c obtain x v y where 1: "remove_epg_contract A ''consumed_contract_names'' c (Some e) s = Inr (x, v)"
    and 2: "remove_epg_contract A ''provided_contract_names'' c x v = Inr (y, t)"
    by (auto simp: disconnect_epg_def dbind_Inr)
  from remove_epg_contract_effect[OF A _ g 1] obtain e1 where e1: "x = Some e1" "aim_get A q (ds_aim v) = Some e1"
    "consumed_of e1 = filter (\<lambda>d. d \<noteq> c) (consumed_of e)"
    "\<And>k'. k' \<noteq> ''consumed_contract_names'' \<Longrightarrow> attr_strs e1 k' = attr_strs e k'" by blast
  from remove_epg_contract_effect[OF A _ e1(2), of _ c y t] 2 e1(1) obtain e2 where e2: "aim_get A q (ds_aim t) = Some e2"
    "provided_of e2 = filter (\<lambda>d. d \<noteq> c) (provided_of e1)"
    "\<And>k'. k' \<noteq> ''provided_contract_names'' \<Longrightarrow> attr_strs e2 k' = attr_strs e1 k'" by blast
  show ?thesis by (rule that[OF e2(1)]) (use e1 e2 in simp_all)
qed

text \<open>C28: While a network is connected the contract of the router is in both lists of its endpoint group,
  and disconnecting restores both lists, whatever other contracts are in them.\<close>

theorem epg_contract_roundtrip:
  assumes "aim_update_ok A" and "aim_get A q (ds_aim s) = Some e" and "ar_class e \<noteq> ExternalNetwork"
    and "c \<notin> set (consumed_of e) \<union> set (provided_of e)"
    and "connect_epg A c (Some q) s = Inr (u, t)" and "disconnect_epg A c q t = Inr (u', t')"
  shows "(\<exists>e1. aim_get A q (ds_aim t) = Some e1 \<and> c \<in> set (consumed_of e1) \<inter> set (provided_of e1)) \<and>
    (\<exists>e2. aim_get A q (ds_aim t') = Some e2 \<and> consumed_of e2 = consumed_of e \<and> provided_of e2 = provided_of e)"
proof -
  from connect_epg_effect[OF assms(1,2,3,5)] obtain e1 where e1: "aim_get A q (ds_aim t) = Some e1" "ar_class e1 = ar_class e"
    "set (consumed_of e1) = insert c (set (consumed_of e))" "set (provided_of e1) = insert c (set (provided_of e))"
    "filter (\<lambda>d. d \<noteq> c) (consumed_of e1) = filter (\<lambda>d. d \<noteq> c) (consumed_of e)"
    "filter (\<lambda>d. d \<noteq> c) (provided_of e1) = filter (\<lambda>d. d \<noteq> c) (provided_of e)" .
  have "ar_class e1 \<noteq> ExternalNetwork" using e1(2) assms(3) by simp
  from disconnect_epg_effect[OF assms(1) e1(1) this assms(6)] obtain e2 where e2: "aim_get A q (ds_aim t') = Some e2"
    "consumed_of e2 = filter (\<lambda>d. d \<noteq> c) (consumed_of e1)" "provided_of e2 = filter (\<lambda>d. d \<noteq> c) (provided_of e1)" .
  have "filter (\<lambda>d. d \<noteq> c) (consumed_of e) = consumed_of e" "filter (\<lambda>d. d \<noteq> c) (provided_of e) = provided_of e"
    using assms(4) by (auto simp: filter_id_conv)
  with e1 e2 show ?thesis by simp
qed

end
