(* ===== verification/Fabric_Example.thy ===== *)
theory Fabric_Example
  imports Aim_Store
begin

text \<open>
  A concrete fabric library, a list of resources looked up by their identity, to which the theorems
  that assume laws of the library are applied.
\<close>

section \<open>A library\<close>

definition other_keys :: "string list" where
  "other_keys = [''tenant_name'', ''name'', ''app_profile_name'', ''bd_name'', ''epg_name'', ''gw_ip_mask'',
     ''l3out_name'', ''ext_net_name'', ''external_network_name'', ''cidr'', ''contract_name'', ''security_group_name'',
     ''security_group_subject_name'', ''addr'', ''filter_name'', ''service_graph_name'']"

definition identity_keys :: "aim_class \<Rightarrow> string list" where
  "identity_keys c = (if c = BridgeDomain then [''tenant_name'', ''name'']
     else if c = EndpointGroup then [''tenant_name'', ''app_profile_name'', ''name''] else other_keys)"

definition same_id :: "aim_res \<Rightarrow> aim_res \<Rightarrow> bool" where
  "same_id r q \<longleftrightarrow> ar_class r = ar_class q \<and> list_all (\<lambda>k. attr_str r k = attr_str q k) (identity_keys (ar_class r))"

text \<open>Attributes that are not part of the identity.\<close>

lemma same_id_attr: "k \<notin> set (identity_keys (ar_class r)) \<Longrightarrow> same_id q (set_attr k v r) = same_id q r"
  unfolding same_id_def list_all_iff set_attr_class by (metis (mono_tags, lifting) attr_str_set_bool)

definition demo_get :: "aim_res \<Rightarrow> aim_res list \<Rightarrow> aim_res option" where
  "demo_get r a = find (same_id r) a"

definition demo_aim :: "aim_res list aim_lib" where
  "demo_aim = \<lparr>
     aim_get = demo_get,
     aim_get_nothing = (\<lambda>a. Inr None),
     aim_find = (\<lambda>c ps a. filter (\<lambda>r. ar_class r = c \<and> list_all (\<lambda>(k, v). ar_attrs r k = Some v) ps) a),
     aim_get_subtree = (\<lambda>r a. []),
     aim_create = (\<lambda>r ow a. Inr (r, filter (\<lambda>q. \<not> same_id r q) a @ [r])),
     aim_update = (\<lambda>r as a. case demo_get r a of None \<Rightarrow> Inr (None, a)
       | Some x \<Rightarrow> (let y = fold (\<lambda>(k, v). set_attr k v) as x in Inr (Some y, map (\<lambda>q. if same_id r q then y else q) a))),
     aim_delete = (\<lambda>r a. case r of None \<Rightarrow> Inl (AimError ''nothing'') | Some x \<Rightarrow> Inr (filter (\<lambda>q. \<not> same_id x q) a)),
     ns_connect_vrf = (\<lambda>ns en v ps cs e a. Inr a),
     ns_disconnect_vrf = (\<lambda>ns en v e a. Inr a),
     ns_set_bd_l3out = (\<lambda>ns bd l a. Inr a),
     ns_unset_bd_l3out = (\<lambda>ns bd l a. case bd of None \<Rightarrow> Inr a
       | Some b \<Rightarrow> Inr (map (\<lambda>q. if same_id b q then set_attr ''l3out_names'' (AStrs []) q else q) a)),
     ext_net_from_dn = (\<lambda>dn. Inr \<lparr> en_tenant = Some ''common'', en_l3out_name = Some ''l3o'', en_name = Some dn \<rparr>),
     ext_net_dn = (\<lambda>en. none_str (en_name en)),
     sanitize_display_name = id,
     subnet_scope_value = (\<lambda>x. ''public'') \<rparr>"

lemma find_same_id: "demo_get r a = Some q \<Longrightarrow> same_id r q"
  by (auto simp: demo_get_def find_Some_iff)

lemma same_id_attrs: "same_id r q \<Longrightarrow> attr_str q ''tenant_name'' = attr_str r ''tenant_name'' \<and>
    attr_str q ''name'' = attr_str r ''name'' \<and>
    (ar_class r = EndpointGroup \<longrightarrow> attr_str q ''app_profile_name'' = attr_str r ''app_profile_name'')"
  by (simp add: same_id_def identity_keys_def other_keys_def split: if_splits)

lemma same_id_sym: "same_id r q \<longleftrightarrow> same_id q r"
  by (auto simp: same_id_def list_all_iff)

lemma same_id_trans: "same_id r q \<Longrightarrow> same_id q x \<Longrightarrow> same_id r x"
  by (auto simp: same_id_def list_all_iff)

lemma attr_strs_set [simp]: "attr_strs (set_attr k (AStrs cs) q) k' = (if k' = k then cs else attr_strs q k')"
  by (simp add: attr_strs_def set_attr_def)

text \<open>Looking up after a creation, a change and a deletion.\<close>

lemma same_id_cong: "same_id r q \<Longrightarrow> same_id x r = same_id x q"
  using same_id_trans same_id_sym by blast

lemma same_id_refl [simp]: "same_id r r"
  by (simp add: same_id_def list_all_iff)

lemma same_id_eq: "same_id q r \<Longrightarrow> same_id q = same_id r"
  using same_id_trans same_id_sym by blast

lemma same_id_not: "\<not> same_id q r \<Longrightarrow> same_id r x \<Longrightarrow> \<not> same_id q x"
  using same_id_trans same_id_sym by blast

lemma demo_get_deleted: "demo_get q (filter (\<lambda>x. \<not> same_id r x) a) = (if same_id q r then None else demo_get q a)"
proof (cases "same_id q r")
  case True
  then show ?thesis unfolding demo_get_def same_id_eq[OF True] by (induction a) simp_all
next
  case False
  then show ?thesis unfolding demo_get_def by (induction a) (auto dest: same_id_not)
qed

lemma demo_get_created:
  "demo_get q (filter (\<lambda>x. \<not> same_id r x) a @ [r]) = (if same_id q r then Some r else demo_get q a)"
proof -
  have "demo_get q (xs @ [r]) = (case demo_get q xs of None \<Rightarrow> if same_id q r then Some r else None | Some x \<Rightarrow> Some x)" for xs
    unfolding demo_get_def by (induction xs) simp_all
  then show ?thesis by (simp add: demo_get_deleted split: option.split)
qed

lemma demo_get_changed:
  assumes "same_id r y"
  shows "demo_get q (map (\<lambda>x. if same_id r x then y else x) a) =
     (if same_id q r then (case demo_get q a of None \<Rightarrow> None | Some _ \<Rightarrow> Some y) else demo_get q a)"
proof (cases "same_id q r")
  case True
  show ?thesis unfolding demo_get_def same_id_eq[OF True] using assms by (induction a) auto
next
  case False
  have "\<not> same_id q y" by (rule same_id_not[OF False assms])
  then show ?thesis using False unfolding demo_get_def by (induction a) (auto dest: same_id_not)
qed

section \<open>Running a request\<close>

definition after :: "'e + ('r \<times> 's) \<Rightarrow> 's \<Rightarrow> 's" where
  "after m s = (case m of Inl _ \<Rightarrow> s | Inr (_, t) \<Rightarrow> t)"

definition succeeds :: "'e + 'r \<Rightarrow> bool" where
  "succeeds m = (case m of Inl _ \<Rightarrow> False | Inr _ \<Rightarrow> True)"

lemma after_succeeds: "succeeds m \<Longrightarrow> \<exists>x. m = Inr (x, after m s)"
  by (cases m) (auto simp: succeeds_def after_def)

end
