(* ===== verification/Routing_Witnesses.thy ===== *)
theory Routing_Witnesses
  imports Router_Interface_Laws Fabric_Example
begin

text \<open>
  The library of the example keeps the laws that are assumed, and a cloud with a
  shared network behind a router: the theorems on moves of networks and on router interfaces applied
  to them, and the removal of an interface that leaves a bridge domain with its L3Out.
\<close>

section \<open>The laws of the library\<close>

lemma demo_lookup_ok: "aim_lookup_ok demo_aim"
  unfolding aim_lookup_ok_def
proof (intro conjI allI impI)
  fix b a r
  assume "aim_get demo_aim (bd_res b) a = Some r"
  then have "res_bd r = res_bd (bd_res b)"
    using same_id_attrs[OF find_same_id] by (auto simp: demo_aim_def res_bd_def)
  then show "res_bd r = b" by simp
next
  fix e a r
  assume "aim_get demo_aim (epg_res e) a = Some r"
  then have "res_epg r = res_epg (epg_res e)"
    using same_id_attrs[OF find_same_id, of "epg_res e" a r] by (simp add: demo_aim_def res_epg_def) (simp add: epg_res_def aim_res_of_def)
  then show "res_epg r = e" by simp
next
  fix l a r
  assume "aim_get demo_aim (l3out_res l) a = Some r"
  then have "res_l3out r = res_l3out (l3out_res l)"
    using same_id_attrs[OF find_same_id] by (auto simp: demo_aim_def res_l3out_def)
  then show "res_l3out r = l" by simp
next
  fix v a r
  assume "aim_get demo_aim (vrf_res v) a = Some r"
  then have "res_vrf r = res_vrf (vrf_res v)"
    using same_id_attrs[OF find_same_id] by (auto simp: demo_aim_def res_vrf_def)
  then show "res_vrf r = v" by simp
next
  fix r ow a r' a'
  assume "aim_create demo_aim r ow a = Inr (r', a')"
  then have "r' = r" by (simp add: demo_aim_def)
  then show "attr_str r' ''tenant_name'' = attr_str r ''tenant_name''" "attr_str r' ''name'' = attr_str r ''name''"
    "attr_str r' ''app_profile_name'' = attr_str r ''app_profile_name''" by simp_all
qed

lemma same_id_contracts: "contract_key k \<Longrightarrow> same_id r (set_attr k (AStrs cs) q) \<longleftrightarrow> same_id r q"
  by (rule same_id_attr) (auto simp: identity_keys_def other_keys_def)

lemma demo_update_ok: "aim_update_ok demo_aim"
  unfolding aim_update_ok_def
proof (intro allI impI)
  fix q a e k cs x a'
  assume k: "contract_key k" and g: "aim_get demo_aim q a = Some e" and u: "aim_update demo_aim e [(k, AStrs cs)] a = Inr (x, a')"
  have ge: "demo_get q a = Some e" using g by (simp add: demo_aim_def)
  then have qe: "same_id q e" by (rule find_same_id)
  have same: "same_id e y = same_id q y" for y using qe same_id_sym same_id_trans by blast
  then have "same_id e = same_id q" by (intro ext)
  then have "demo_get e a = Some e" using ge by (simp add: demo_get_def)
  with u have x: "x = Some (set_attr k (AStrs cs) e)" and a': "a' = map (\<lambda>y. if same_id q y then set_attr k (AStrs cs) e else y) a"
    by (simp_all add: demo_aim_def same Let_def)
  have "demo_get q (map (\<lambda>y. if same_id q y then set_attr k (AStrs cs) e else y) a) = Some (set_attr k (AStrs cs) e)"
    using ge unfolding demo_get_def by (induction a) (use qe same_id_contracts[OF k] in \<open>auto split: if_splits\<close>)
  then show "aim_get demo_aim q a' = x \<and> (\<exists>e'. x = Some e' \<and> ar_class e' = ar_class e \<and> attr_strs e' k = cs \<and>
       (\<forall>k'. k' \<noteq> k \<longrightarrow> attr_strs e' k' = attr_strs e k'))"
    by (simp add: a' x) (simp add: demo_aim_def)
qed

section \<open>A cloud\<close>

text \<open>Project \<open>S\<close> shares network \<open>n2\<close>, which router \<open>r\<close> has an interface on; network \<open>n1\<close> belongs to project \<open>A\<close>.\<close>

definition demo_mapping :: "string \<Rightarrow> string \<Rightarrow> vrf \<Rightarrow> network_mapping" where
  "demo_mapping i tenant v = \<lparr> nm_network_id = i, nm_bd_name = Some (''net_'' @ i), nm_bd_tenant_name = Some tenant,
     nm_epg_name = Some (''net_'' @ i), nm_epg_app_profile_name = Some ''OpenStack'', nm_epg_tenant_name = Some tenant,
     nm_l3out_name = None, nm_l3out_ext_net_name = None, nm_l3out_tenant_name = None,
     nm_vrf_name = vrf_name v, nm_vrf_tenant_name = vrf_tenant_name v \<rparr>"

definition demo_vrf_s :: vrf where
  "demo_vrf_s = \<lparr> vrf_tenant_name = Some ''prj_S'', vrf_name = Some ''DefaultVRF'' \<rparr>"

definition demo_vrf_a :: vrf where
  "demo_vrf_a = \<lparr> vrf_tenant_name = Some ''prj_A'', vrf_name = Some ''DefaultVRF'' \<rparr>"

definition demo_subnet :: "string \<Rightarrow> string \<Rightarrow> string \<Rightarrow> subnet_row" where
  "demo_subnet i net cidr = \<lparr> subnet_id = i, subnet_network_id = net, subnet_pool_id = None, subnet_cidr = cidr,
     subnet_gateway_ip = None, subnet_ip_version = 4, subnet_enable_dhcp = True \<rparr>"

definition demo_port_row :: "string \<Rightarrow> string \<Rightarrow> string \<Rightarrow> port_row" where
  "demo_port_row i net owner = \<lparr> port_id = i, port_network_id = net, port_device_id = ''r'', port_device_owner = owner,
     port_name = [], port_mac = ''fa'', port_project_id = ''S'', port_admin_state_up = True \<rparr>"

definition demo_neutron :: neutron_db where
  "demo_neutron = \<lparr> nt_scopes = [], nt_pools = [],
     nt_networks = [\<lparr> network_id = ''n1'', network_tenant_id = ''A'', network_rbac_actions = [], network_mtu = None \<rparr>,
                    \<lparr> network_id = ''n2'', network_tenant_id = ''S'', network_rbac_actions = [access_shared], network_mtu = None \<rparr>],
     nt_subnets = [demo_subnet ''s1'' ''n1'' ''00/2'', demo_subnet ''s2'' ''n2'' ''01/2''],
     nt_ports = [demo_port_row ''p2'' ''n2'' device_owner_router_intf, demo_port_row ''vm'' ''n1'' ''compute:nova'',
                 demo_port_row ''gw'' ''ext'' device_owner_router_gw],
     nt_allocs = [\<lparr> alloc_port_id = ''p2'', alloc_subnet_id = ''s2'', alloc_ip = ''0101'', alloc_network_id = ''n2'' \<rparr>,
                  \<lparr> alloc_port_id = ''vm'', alloc_subnet_id = ''s1'', alloc_ip = ''0011'', alloc_network_id = ''n1'' \<rparr>],
     nt_routers = [\<lparr> router_id = ''r'', router_gw_port_id = Some ''gw'' \<rparr>],
     nt_router_ports = [\<lparr> rp_router_id = ''r'', rp_port_id = ''p2'', rp_type = device_owner_router_intf \<rparr>],
     nt_scope_mappings = [],
     nt_network_mappings = [demo_mapping ''n1'' ''prj_A'' (map_unrouted_vrf ''sys''), demo_mapping ''n2'' ''prj_S'' demo_vrf_s] \<rparr>"

definition demo_resources :: "aim_res list" where
  "demo_resources = [vrf_res demo_vrf_s, bd_res (get_network_bd (demo_mapping ''n1'' ''prj_A'' demo_vrf_s)),
     epg_res (get_network_epg (demo_mapping ''n1'' ''prj_A'' demo_vrf_s)),
     bd_res (get_network_bd (demo_mapping ''n2'' ''prj_S'' demo_vrf_s)),
     epg_res (get_network_epg (demo_mapping ''n2'' ''prj_S'' demo_vrf_s))]"

definition demo_state :: "aim_res list drv_state" where
  "demo_state = \<lparr>
     ds_ext = \<lparr> xd_neutron = demo_neutron, xd_erspans = [], xd_networks = [], xd_cidrs = [], xd_vlans = [], xd_contracts = [],
       xd_masters = [], xd_no_nat_cidrs = [], xd_subnets = [], xd_snat_mappings = [], xd_router_contracts = [], xd_hpp = [False] \<rparr>,
     ds_aim = demo_resources, ds_external = [''ext''], ds_ports_to_notify = {}, ds_vrfs_to_notify = {}, ds_published = [] \<rparr>"

definition demo_drv_config :: drv_config where
  "demo_drv_config = \<lparr> dc_apic_system_id = ''sys'', dc_allow_overlap = False,
     dc_get_network = (\<lambda>i xdb. Inr \<lparr> nd_id = i, nd_external = True, nd_ext_net_dn = Some ''dn'', nd_nat_type = None,
       nd_multi_ext_nets = False \<rparr>) \<rparr>"

definition demo_new_router_subnet :: router_subnet where
  "demo_new_router_subnet = \<lparr> rs_id = ''s1'', rs_name = [], rs_cidr = ''00/2'', rs_subnetpool_id = None, rs_ip_version = 4,
     rs_active_active_aap = False \<rparr>"

definition demo_interface :: interface_port where
  "demo_interface = \<lparr> ip_network_id = ''n1'', ip_fixed_ips = [(''s1'', ''0001'')] \<rparr>"

definition demo_added :: "fabric_error + (unit \<times> aim_res list drv_state)" where
  "demo_added = add_router_interface demo_aim demo_nets demo_drv_config False \<lparr> ro_id = ''r'', ro_name = ''rtr'' \<rparr> demo_interface
     [demo_new_router_subnet] demo_state"

definition ends :: "'e + 'r \<Rightarrow> bool" where
  "ends m = (case m of Inl _ \<Rightarrow> False | Inr _ \<Rightarrow> True)"

lemma ends_iff: "ends m \<longleftrightarrow> (\<exists>x. m = Inr x)"
  by (cases m) (auto simp: ends_def)

lemma demo_added_ends: "ends demo_added"
  by code_simp

lemma demo_state_neutron: "ds_neutron demo_state = demo_neutron"
  by (simp add: demo_state_def)

lemma demo_cloud_facts:
  "distinct (map nm_network_id (ds_mappings demo_state))"
  "find (\<lambda>n. network_id n = ip_network_id demo_interface) (nt_networks (ds_neutron demo_state)) =
     Some \<lparr> network_id = ''n1'', network_tenant_id = ''A'', network_rbac_actions = [], network_mtu = None \<rparr>"
  "get_address_scope_id_for_subnets (ds_neutron demo_state) [demo_new_router_subnet] = Inr None"
  "list_all (\<lambda>m. nm_network_id m = ip_network_id demo_interface \<longrightarrow> truthy (nm_epg_name m) \<or> truthy (nm_l3out_name m)) (ds_mappings demo_state)"
  "topology_vrf (router_topology (ds_neutron demo_state) ''r'') = Some demo_vrf_s"
  "rows_use demo_vrf_s (router_nets (ds_neutron demo_state) ''r'') (ds_neutron demo_state)"
  "net_interfaces (ip_network_id demo_interface) (ds_neutron demo_state) = []"
  "interface_pairs (ip_network_id demo_interface) (ds_neutron demo_state) = []"
  "router_nets (ds_neutron demo_state) ''r'' = {''n2''}"
  by code_simp+

lemma added_interface_supported_witness:
  "\<exists>t. demo_added = Inr ((), t) \<and> ip_network_id demo_interface \<notin> set (ds_external demo_state) \<and>
     shared_routing (interface_pairs (ip_network_id demo_interface) (ds_neutron demo_state) @ [(''r'', ''s1'')])"
proof -
  from demo_added_ends obtain u t where t: "demo_added = Inr (u, t)" by (auto simp: ends_iff)
  have "distinct (interface_pairs (ip_network_id demo_interface) (ds_neutron demo_state))"
    "shared_routing (interface_pairs (ip_network_id demo_interface) (ds_neutron demo_state))"
    by (simp_all add: demo_cloud_facts(8) shared_routing_def)
  with added_interface_supported[OF t[unfolded demo_added_def]]
  have "ip_network_id demo_interface \<notin> set (ds_external demo_state) \<and>
     shared_routing (interface_pairs (ip_network_id demo_interface) (ds_neutron demo_state) @ [(''r'', ''s1'')])"
    by (simp add: demo_new_router_subnet_def)
  with t show ?thesis by auto
qed

lemma added_interface_unified_witness:
  "\<exists>t v. demo_added = Inr ((), t) \<and> rows_use v {''n1'', ''n2''} (ds_neutron t)"
proof -
  let ?r = "\<lparr> ro_id = ''r'', ro_name = ''rtr'' \<rparr>"
  from demo_added_ends obtain u t where t: "demo_added = Inr (u, t)" by (auto simp: ends_iff)
  have R: "rows_use v (router_nets (ds_neutron demo_state) (ro_id ?r)) (ds_neutron demo_state)"
    if "topology_vrf (router_topology (ds_neutron demo_state) (ro_id ?r)) = Some v" for v
    using that demo_cloud_facts(5,6) by simp
  have N: "rows_use (network_default_vrf (ds_neutron demo_state) n) (network_nets (ds_neutron demo_state) n) (ds_neutron demo_state)"
    if "net_interfaces (ip_network_id demo_interface) (ds_neutron demo_state) \<noteq> []" for n
    using that demo_cloud_facts(7) by simp
  from added_interface_unified[OF demo_lookup_ok demo_nets_ok demo_cloud_facts(1-4) R N t[unfolded demo_added_def]]
  obtain v where v: "rows_use v (router_nets (ds_neutron demo_state) (ro_id ?r) \<union>
      (if net_interfaces (ip_network_id demo_interface) (ds_neutron demo_state) = [] then {ip_network_id demo_interface}
       else network_nets (ds_neutron demo_state) \<lparr> network_id = ''n1'', network_tenant_id = ''A'', network_rbac_actions = [], network_mtu = None \<rparr>))
      (ds_neutron t)" by blast
  have "rows_use v {''n1'', ''n2''} (ds_neutron t)"
    using v demo_cloud_facts(7,9) by (simp add: demo_interface_def insert_commute)
  with t show ?thesis by auto
qed

section \<open>Moves\<close>

definition demo_moved :: "fabric_error + (string set \<times> aim_res list drv_state)" where
  "demo_moved = move_topology demo_aim (router_topology (ds_neutron demo_state) ''r'') demo_vrf_s demo_vrf_a {} demo_state"

lemma demo_moved_ends: "ends demo_moved"
  by code_simp

lemma router_topology_moved_witness:
  "\<exists>nets t. demo_moved = Inr (nets, t) \<and> ds_vrfs_to_notify t = {''prj_A DefaultVRF'', ''prj_S DefaultVRF''}"
proof -
  from demo_moved_ends obtain nets t where t: "demo_moved = Inr (nets, t)" by (auto simp: ends_iff)
  have "vrf_str demo_vrf_a = ''prj_A DefaultVRF''" "vrf_str demo_vrf_s = ''prj_S DefaultVRF''" "ds_vrfs_to_notify demo_state = {}"
    by code_simp+
  with router_topology_moved[OF demo_lookup_ok demo_cloud_facts(1) t[unfolded demo_moved_def]]
  have n: "ds_vrfs_to_notify t = {''prj_A DefaultVRF'', ''prj_S DefaultVRF''}" by simp
  show ?thesis by (rule exI[of _ nets], rule exI[of _ t]) (intro conjI t n)
qed

definition demo_network :: network_row where
  "demo_network = \<lparr> network_id = ''n1'', network_tenant_id = ''A'', network_rbac_actions = [], network_mtu = None \<rparr>"

definition demo_associated :: "fabric_error + (((aim_res option \<times> aim_res) \<times> string set) \<times> aim_res list drv_state)" where
  "demo_associated = associate_network_with_vrf demo_aim demo_network demo_vrf_s {} demo_state"

lemma demo_associated_ends: "ends demo_associated"
  by code_simp

text \<open>The unrouted VRF that the network leaves is not among the VRFs noted.\<close>

lemma associate_network_effect_witness:
  "\<exists>y t. demo_associated = Inr (y, t) \<and> ds_vrfs_to_notify t = {''prj_S DefaultVRF''} \<and>
     map get_network_vrf (ds_mappings demo_state) = [map_unrouted_vrf ''sys'', demo_vrf_s]"
proof -
  from demo_associated_ends obtain x nets t where t: "demo_associated = Inr ((x, nets), t)" by (auto simp: ends_iff)
  have v: "vrf_str demo_vrf_s = ''prj_S DefaultVRF''" "ds_vrfs_to_notify demo_state = {}"
    and m: "map get_network_vrf (ds_mappings demo_state) = [map_unrouted_vrf ''sys'', demo_vrf_s]"
    by code_simp+
  have "ds_vrfs_to_notify t = insert (vrf_str demo_vrf_s) (ds_vrfs_to_notify demo_state)"
    using associate_network_effect[OF demo_lookup_ok demo_cloud_facts(1) t[unfolded demo_associated_def]] by (elim conjE)
  then have n: "ds_vrfs_to_notify t = {''prj_S DefaultVRF''}" unfolding v .
  show ?thesis by (rule exI[of _ "(x, nets)"], rule exI[of _ t]) (intro conjI t n m)
qed

lemma demo_svi_rows: "svi_rows_ok demo_state"
  by (simp add: svi_rows_ok_def is_svi_db_def net_ext_of_def demo_state_def demo_neutron_def demo_mapping_def)

lemma demo_visible: "all_visible (ds_neutron demo_state)"
  by (simp add: all_visible_def vrf_visible_def demo_state_def demo_neutron_def demo_mapping_def demo_vrf_s_def
      map_unrouted_vrf_def)

lemma associate_keeps_visible_witness:
  "\<exists>y t. demo_associated = Inr (y, t) \<and> all_visible (ds_neutron t)"
proof -
  from demo_associated_ends obtain x nets t where t: "demo_associated = Inr ((x, nets), t)" by (auto simp: ends_iff)
  from associate_keeps_visible[OF demo_lookup_ok demo_cloud_facts(1) demo_svi_rows demo_visible t[unfolded demo_associated_def]] t
  show ?thesis by blast
qed

definition demo_connected :: "fabric_error + (unit \<times> aim_res list drv_state)" where
  "demo_connected = connect_epg demo_aim ''rtr_r'' (Some (epg_res (get_network_epg (demo_mapping ''n1'' ''prj_A'' demo_vrf_s)))) demo_state"

lemma epg_contract_roundtrip_witness:
  "\<exists>t t' e2. demo_connected = Inr ((), t) \<and>
     disconnect_epg demo_aim ''rtr_r'' (epg_res (get_network_epg (demo_mapping ''n1'' ''prj_A'' demo_vrf_s))) t = Inr ((), t') \<and>
     aim_get demo_aim (epg_res (get_network_epg (demo_mapping ''n1'' ''prj_A'' demo_vrf_s))) (ds_aim t') = Some e2 \<and> consumed_of e2 = []"
proof -
  let ?q = "epg_res (get_network_epg (demo_mapping ''n1'' ''prj_A'' demo_vrf_s))"
  let ?run = "case demo_connected of Inl _ \<Rightarrow> False | Inr (_, t) \<Rightarrow> ends (disconnect_epg demo_aim ''rtr_r'' ?q t)"
  have "?run" by code_simp
  then obtain u t u' t' where t: "demo_connected = Inr (u, t)" and t': "disconnect_epg demo_aim ''rtr_r'' ?q t = Inr (u', t')"
    by (auto simp: ends_iff split: sum.splits)
  have "case aim_get demo_aim ?q (ds_aim demo_state) of None \<Rightarrow> False
      | Some e \<Rightarrow> ar_class e = EndpointGroup \<and> consumed_of e = [] \<and> provided_of e = []" by code_simp
  then obtain e where e: "aim_get demo_aim ?q (ds_aim demo_state) = Some e" "ar_class e \<noteq> ExternalNetwork"
    "''rtr_r'' \<notin> set (consumed_of e) \<union> set (provided_of e)" "consumed_of e = []" by (auto split: option.splits)
  from epg_contract_roundtrip[OF demo_update_ok e(1,2,3) t[unfolded demo_connected_def] t'] e(4) t t' show ?thesis by auto
qed

section \<open>Removing the interface again\<close>

text \<open>
  The port of the new interface, and the handler that removes it after the port is gone.  The
  network's BD was in tenant \<open>S\<close> and is moved back to tenant \<open>A\<close>; the L3Out is taken from the old BD.
\<close>

definition demo_routed_state :: "aim_res list drv_state" where
  "demo_routed_state = demo_state\<lparr>
     ds_ext := (ds_ext demo_state)\<lparr> xd_neutron := demo_neutron\<lparr> nt_network_mappings :=
       [demo_mapping ''n1'' ''prj_S'' demo_vrf_s, demo_mapping ''n2'' ''prj_S'' demo_vrf_s] \<rparr> \<rparr>,
     ds_aim := [vrf_res demo_vrf_s,
       set_attr ''l3out_names'' (AStrs [''l3o'']) (bd_res (get_network_bd (demo_mapping ''n1'' ''prj_S'' demo_vrf_s))),
       epg_res (get_network_epg (demo_mapping ''n1'' ''prj_S'' demo_vrf_s))] \<rparr>"

definition demo_removed :: "fabric_error + (unit \<times> aim_res list drv_state)" where
  "demo_removed = remove_router_interface demo_aim demo_nets demo_drv_config ''r'' demo_interface [demo_new_router_subnet] demo_routed_state"

definition demo_bd_l3outs :: "string \<Rightarrow> string list option" where
  "demo_bd_l3outs tenant = (case demo_removed of Inl _ \<Rightarrow> None
     | Inr (_, t) \<Rightarrow> map_option (\<lambda>b. attr_strs b ''l3out_names'')
         (aim_get demo_aim (bd_res (get_network_bd (demo_mapping ''n1'' tenant demo_vrf_s))) (ds_aim t)))"

lemma removed_interface_keeps_l3out: "demo_bd_l3outs ''prj_A'' = Some [''l3o''] \<and> demo_bd_l3outs ''prj_S'' = None"
  by code_simp

end
