(* ===== verification/Address_Scopes.thy ===== *)
theory Address_Scopes
  imports Vrf_Moves
begin

text \<open>
  Address scopes and subnet pools in the mechanism driver: every scope is mapped to a VRF of the
  fabric, one of its own or one that the request names, which two scopes of different IP versions
  may share.  The VRF goes with the last scope that owns it.
\<close>

section \<open>Status\<close>

datatype aim_status = StatusError | StatusBuild | StatusOther

datatype sync_state = SYNC_SYNCED | SYNC_BUILD | SYNC_ERROR | SYNC_NOT_APPLICABLE

text \<open>What else the driver asks the library: the status of a resource, its name, and the VRF behind a name.\<close>

record 'a aim_info =
  ai_status :: "aim_res \<Rightarrow> 'a \<Rightarrow> aim_status option"
  ai_vrf_dn :: "vrf \<Rightarrow> string"
  ai_vrf_from_dn :: "string \<Rightarrow> vrf option"

definition merge_status :: "aim_status option \<Rightarrow> sync_state \<Rightarrow> sync_state" where
  "merge_status status sync =
     (case status of
        None \<Rightarrow> sync
      | Some st \<Rightarrow>
          (let sync' = (if st = StatusError then SYNC_ERROR
                        else if st = StatusBuild \<and> sync \<noteq> SYNC_ERROR then SYNC_BUILD else sync)
           in if sync' = SYNC_NOT_APPLICABLE then SYNC_SYNCED else sync'))"

section \<open>Address scopes\<close>

text \<open>The request; the names of all scopes are the column of that name.\<close>

record scope_req =
  sc_id :: string
  sc_name :: string
  sc_tenant_id :: string
  sc_ip_version :: int

definition scopes_display_name :: "(string \<Rightarrow> string) \<Rightarrow> scope_row list \<Rightarrow> string" where
  "scopes_display_name names scopes =
     (case map (\<lambda>s. names (scope_id s)) scopes of
        [] \<Rightarrow> []
      | [n] \<Rightarrow> n
      | n1 # n2 # _ \<Rightarrow> if n2 = [] \<or> n1 = n2 then n1 else if n1 = [] then n2 else n1 @ ''-'' @ n2)"

definition update_vrf_display_name ::
  "'a aim_lib \<Rightarrow> (string \<Rightarrow> string) \<Rightarrow> vrf \<Rightarrow> scope_row list \<Rightarrow> ('a drv_state, unit) drv" where
  "update_vrf_display_name A names v scopes =
     (if scopes = [] then dret ()
      else dbind (d_update A (vrf_res v)
             [(''display_name'', AStr (Some (sanitize_display_name A (scopes_display_name names scopes))))]) (\<lambda>_. dret ()))"

definition scopes_owning :: "vrf \<Rightarrow> ('a drv_state, scope_row list) drv" where
  "scopes_owning v = dread (\<lambda>s. get_address_scopes_owning_vrf v (ds_neutron s))"

text \<open>Changing the tables with an operation of the mixin.\<close>

definition lift_neutron :: "(neutron_db \<Rightarrow> fabric_error + (neutron_db \<times> 'r)) \<Rightarrow> ('a drv_state, 'r) drv" where
  "lift_neutron f s = bindE (f (ds_neutron s)) (\<lambda>(n, r). Inr (r, set_neutron n s))"

text \<open>
  The extension driver maps the scope of a request that names a VRF, before the mechanism driver
  sees it.  Another scope may use the VRF for the other IP version; the flag is that of the last row.
\<close>

definition process_create_address_scope :: "'a aim_info \<Rightarrow> string option \<Rightarrow> scope_req \<Rightarrow> ('a drv_state, unit) drv" where
  "process_create_address_scope I dn r =
     (if \<not> truthy dn then dret ()
      else (case ai_vrf_from_dn I (the dn) of
          None \<Rightarrow> draise (InvalidInput (the dn @ '' is not valid VRF DN''))
        | Some v \<Rightarrow>
            dbind (dread ds_neutron) (\<lambda>db.
            let mappings = get_address_scope_mappings_for_vrf v db;
                version = (\<lambda>m. map_option scope_ip_version (find (\<lambda>s. scope_id s = asm_scope_id m) (nt_scopes db)))
            in case find (\<lambda>m. version m = Some (sc_ip_version r)) mappings of
                 Some m \<Rightarrow> draise (InvalidInput (''VRF '' @ the dn @ '' is already in use by address-scope '' @ asm_scope_id m))
               | None \<Rightarrow>
                   dbind (lift_neutron (add_address_scope_mapping (sc_id r) v
                     (if mappings = [] then False else asm_vrf_owned (last mappings)))) (\<lambda>_. dret ()))))"

text \<open>The result is what the dictionary of the scope gets: the name of the VRF and its state.\<close>

definition create_address_scope_precommit ::
  "'a aim_lib \<Rightarrow> 'a aim_info \<Rightarrow> (string \<Rightarrow> string) \<Rightarrow> scope_req \<Rightarrow> ('a drv_state, string \<times> sync_state) drv" where
  "create_address_scope_precommit A I names r =
     dbind (dread (\<lambda>s. get_address_scope_mapping (sc_id r) (ds_neutron s))) (\<lambda>m.
     dbind (case m of
          Some m \<Rightarrow>
            dbind (dlift (get_address_scope_vrf (Some m))) (\<lambda>v.
            dbind (scopes_owning v) (\<lambda>scopes.
            dbind (update_vrf_display_name A names v scopes) (\<lambda>_. dret v)))
        | None \<Rightarrow>
            (let v = map_address_scope (sc_id r) (sc_tenant_id r)
             in dbind (d_create A (set_attr ''display_name'' (AStr (Some (sanitize_display_name A (sc_name r)))) (vrf_res v))) (\<lambda>_.
                dbind (lift_neutron (add_address_scope_mapping (sc_id r) v True)) (\<lambda>_. dret v)))) (\<lambda>v.
     dread (\<lambda>s. (ai_vrf_dn I v, merge_status (ai_status I (vrf_res v) (ds_aim s)) SYNC_SYNCED))))"

definition update_address_scope_precommit ::
  "'a aim_lib \<Rightarrow> (string \<Rightarrow> string) \<Rightarrow> scope_req \<Rightarrow> scope_req \<Rightarrow> ('a drv_state, unit) drv" where
  "update_address_scope_precommit A names original current =
     dbind (dread (\<lambda>s. get_address_scope_mapping (sc_id current) (ds_neutron s))) (\<lambda>m.
     if sc_name current = sc_name original then dret ()
     else dbind (dthe m) (\<lambda>m.
       if \<not> asm_vrf_owned m then dret ()
       else dbind (dlift (get_address_scope_vrf (Some m))) (\<lambda>v.
            dbind (scopes_owning v) (update_vrf_display_name A names v))))"

definition delete_scope_mapping :: "string \<Rightarrow> neutron_db \<Rightarrow> neutron_db" where
  "delete_scope_mapping i db =
     db\<lparr> nt_scope_mappings := filter (\<lambda>m. asm_scope_id m \<noteq> i) (nt_scope_mappings db) \<rparr>"

definition delete_address_scope_precommit ::
  "'a aim_lib \<Rightarrow> (string \<Rightarrow> string) \<Rightarrow> string \<Rightarrow> ('a drv_state, unit) drv" where
  "delete_address_scope_precommit A names i =
     dbind (dread (\<lambda>s. get_address_scope_mapping i (ds_neutron s))) (\<lambda>m.
     case m of
       None \<Rightarrow> dret ()
     | Some m \<Rightarrow>
         if \<not> asm_vrf_owned m then dret ()
         else
           dbind (dlift (get_address_scope_vrf (Some m))) (\<lambda>v.
           dbind (dmodify (\<lambda>s. set_neutron (delete_scope_mapping i (ds_neutron s)) s)) (\<lambda>_.
           dbind (scopes_owning v) (\<lambda>scopes.
           dbind (update_vrf_display_name A names v scopes) (\<lambda>_.
           dwhen (scopes = []) (d_delete A (Some (vrf_res v))))))))"

text \<open>
  A request as the plugin runs it: the core service stores the scope, the extension driver and the
  mechanism driver follow; at the deletion the mechanism driver comes first, and the row of the
  scope takes its mapping with it.
\<close>

definition add_scope_row :: "scope_req \<Rightarrow> 'a drv_state \<Rightarrow> 'a drv_state" where
  "add_scope_row r s = set_neutron ((ds_neutron s)\<lparr> nt_scopes := nt_scopes (ds_neutron s) @
     [\<lparr> scope_id = sc_id r, scope_ip_version = sc_ip_version r \<rparr>] \<rparr>) s"

definition drop_scope_row :: "string \<Rightarrow> 'a drv_state \<Rightarrow> 'a drv_state" where
  "drop_scope_row i s = set_neutron ((delete_scope_mapping i (ds_neutron s))\<lparr>
     nt_scopes := filter (\<lambda>x. scope_id x \<noteq> i) (nt_scopes (ds_neutron s)) \<rparr>) s"

definition create_address_scope ::
  "'a aim_lib \<Rightarrow> 'a aim_info \<Rightarrow> (string \<Rightarrow> string) \<Rightarrow> string option \<Rightarrow> scope_req \<Rightarrow> ('a drv_state, string \<times> sync_state) drv" where
  "create_address_scope A I names dn r =
     dbind (dmodify (add_scope_row r)) (\<lambda>_.
     dbind (process_create_address_scope I dn r) (\<lambda>_.
     create_address_scope_precommit A I names r))"

definition delete_address_scope :: "'a aim_lib \<Rightarrow> (string \<Rightarrow> string) \<Rightarrow> string \<Rightarrow> ('a drv_state, unit) drv" where
  "delete_address_scope A names i =
     dbind (delete_address_scope_precommit A names i) (\<lambda>_. dmodify (drop_scope_row i))"

text \<open>The name of the VRF that the dictionary of a scope shows, and its state.\<close>

definition extend_address_scope_dict ::
  "'a aim_info \<Rightarrow> string \<Rightarrow> 'a drv_state \<Rightarrow> fabric_error + (string option \<times> sync_state)" where
  "extend_address_scope_dict I i s =
     (case get_address_scope_mapping i (ds_neutron s) of
        None \<Rightarrow> Inr (None, SYNC_SYNCED)
      | Some m \<Rightarrow>
          bindE (get_address_scope_vrf (Some m)) (\<lambda>v.
          Inr (Some (ai_vrf_dn I v), merge_status (ai_status I (vrf_res v) (ds_aim s)) SYNC_SYNCED)))"

section \<open>Subnet pools\<close>

text \<open>A request: \<open>sp_scope\<close> is missing when the caller asked for other fields only.\<close>

record pool_req =
  pq_id :: string
  pq_scope :: "string option option"
  pq_prefixes :: "string list"

definition notify_vrf_for_scope :: "string option \<Rightarrow> ('a drv_state, unit) drv" where
  "notify_vrf_for_scope scope =
     dbind (dread ds_neutron) (\<lambda>db.
     case scope of
       None \<Rightarrow> dret ()
     | Some i \<Rightarrow>
         (case get_address_scope_mapping i db of
            None \<Rightarrow> dret ()
          | Some m \<Rightarrow> dbind (dlift (get_address_scope_vrf (Some m))) add_postcommit_vrf_notification))"

text \<open>\<^verbatim>\<open>current['address_scope_id']\<close>\<close>

definition scope_key :: "pool_req \<Rightarrow> ('a drv_state, string option) drv" where
  "scope_key r = (case pq_scope r of None \<Rightarrow> draise KeyError | Some s \<Rightarrow> dret s)"

definition create_subnetpool_precommit :: "pool_req \<Rightarrow> ('a drv_state, unit) drv" where
  "create_subnetpool_precommit r = dbind (scope_key r) notify_vrf_for_scope"

definition delete_subnetpool_precommit :: "pool_req \<Rightarrow> ('a drv_state, unit) drv" where
  "delete_subnetpool_precommit r = dbind (scope_key r) notify_vrf_for_scope"

text \<open>The router interfaces with an address on a subnet of the pool.\<close>

definition pool_router_interfaces :: "string \<Rightarrow> neutron_db \<Rightarrow> router_port_row list" where
  "pool_router_interfaces pool db =
     [rp. rp \<leftarrow> nt_router_ports db, p \<leftarrow> nt_ports db, a \<leftarrow> nt_allocs db, s \<leftarrow> nt_subnets db,
        port_id p = rp_port_id rp \<and> alloc_port_id a = port_id p \<and> subnet_id s = alloc_subnet_id a \<and>
        subnet_pool_id s = Some pool \<and> rp_type rp = device_owner_router_intf]"

definition update_subnetpool_precommit :: "pool_req \<Rightarrow> pool_req \<Rightarrow> ('a drv_state, unit) drv" where
  "update_subnetpool_precommit original current =
     (case pq_scope current of
        None \<Rightarrow> dret ()
      | Some scope \<Rightarrow>
          dbind (scope_key original) (\<lambda>original_scope.
          dbind (dread (\<lambda>s. pool_router_interfaces (pq_id current) (ds_neutron s))) (\<lambda>rps.
          dbind (dguard (scope = original_scope \<or> rps = []) ScopeUpdateNotSupported) (\<lambda>_.
          dwhen (truthy scope \<and> set (pq_prefixes current) \<noteq> set (pq_prefixes original)) (notify_vrf_for_scope scope)))))"

section \<open>Tenants\<close>

text \<open>
  What every request of a project first ensures in the fabric; \<open>details\<close> is what the cache knows of
  the project, its name and its description.
\<close>

definition ensure_resource :: "'a aim_lib \<Rightarrow> aim_res \<Rightarrow> (string \<times> aim_value) list \<Rightarrow> ('a drv_state, unit) drv" where
  "ensure_resource A r as =
     dbind (d_get A r) (\<lambda>x. dwhen (x = None)
       (dbind (d_create A (fold (\<lambda>(k, v). set_attr k v) as r)) (\<lambda>_. dret ())))"

definition ensure_tenant ::
  "'a aim_lib \<Rightarrow> (string \<Rightarrow> string) \<Rightarrow> (string \<Rightarrow> string \<times> string) \<Rightarrow> string \<Rightarrow> ('a drv_state, unit) drv" where
  "ensure_tenant A sanitize_description details project =
     (if project = [] then dret ()
      else
        let tenant = Some (project_name project []); (name, descr) = details project
        in dbind (ensure_resource A (aim_res_of Tenant [(''name'', AStr tenant)])
             [(''descr'', AStr (Some (sanitize_description descr))),
              (''display_name'', AStr (Some (sanitize_display_name A name)))]) (\<lambda>_.
           ensure_resource A (aim_res_of ApplicationProfile [(''tenant_name'', AStr tenant), (''name'', AStr (Some ap_name))])
             [(''display_name'', AStr (Some (sanitize_display_name A ap_name)))]))"

end
