(* ===== verification/Address_Scope_Laws.thy ===== *)
theory Address_Scope_Laws
  imports Address_Scopes Fabric_Example
begin

text \<open>
  The mapping of address scopes to VRFs: which states creations, renamings and deletions of scopes
  reach, what holds in all of them, and what the deletion of a scope does to the fabric.
\<close>

section \<open>What is assumed of the library\<close>

text \<open>Creating, changing and deleting one VRF changes which VRFs exist in the obvious way.\<close>

definition fabric_vrfs :: "'a aim_lib \<Rightarrow> 'a \<Rightarrow> vrf set" where
  "fabric_vrfs A a = {v. aim_get A (vrf_res v) a \<noteq> None}"

definition aim_vrfs_ok :: "'a aim_lib \<Rightarrow> bool" where
  "aim_vrfs_ok A \<longleftrightarrow>
     (\<forall>v x ow a r a'. aim_create A (set_attr ''display_name'' (AStr x) (vrf_res v)) ow a = Inr (r, a') \<longrightarrow>
        fabric_vrfs A a' = insert v (fabric_vrfs A a)) \<and>
     (\<forall>v x a r a'. aim_update A (vrf_res v) [(''display_name'', AStr x)] a = Inr (r, a') \<longrightarrow>
        fabric_vrfs A a' = fabric_vrfs A a) \<and>
     (\<forall>v a a'. aim_delete A (Some (vrf_res v)) a = Inr a' \<longrightarrow> fabric_vrfs A a' = fabric_vrfs A a - {v})"

lemma created_vrf:
  assumes "aim_vrfs_ok A" "d_create A (set_attr ''display_name'' (AStr x) (vrf_res v)) s = Inr (r, t)"
  shows "fabric_vrfs A (ds_aim t) = insert v (fabric_vrfs A (ds_aim s)) \<and> ds_ext t = ds_ext s"
  using assms unfolding aim_vrfs_ok_def d_create_def lift_aim_Inr by auto

lemma deleted_vrf:
  assumes "aim_vrfs_ok A" "d_delete A (Some (vrf_res v)) s = Inr (r, t)"
  shows "fabric_vrfs A (ds_aim t) = fabric_vrfs A (ds_aim s) - {v} \<and> ds_ext t = ds_ext s"
  using assms unfolding aim_vrfs_ok_def d_delete_def lift_aim0_Inr by auto

lemma renamed_vrf:
  assumes "aim_vrfs_ok A" "update_vrf_display_name A names v scopes s = Inr (r, t)"
  shows "fabric_vrfs A (ds_aim t) = fabric_vrfs A (ds_aim s) \<and> ds_ext t = ds_ext s"
  using assms unfolding aim_vrfs_ok_def update_vrf_display_name_def d_update_def lift_aim_Inr dbind_Inr
  by (auto simp: dbind_Inr lift_aim_Inr split: if_splits)

section \<open>The invariant\<close>

definition mapped_vrf :: "address_scope_mapping \<Rightarrow> vrf" where
  "mapped_vrf m = \<lparr> vrf_tenant_name = asm_vrf_tenant_name m, vrf_name = asm_vrf_name m \<rparr>"

definition version_of :: "neutron_db \<Rightarrow> address_scope_mapping \<Rightarrow> int option" where
  "version_of db m = map_option scope_ip_version (find (\<lambda>s. scope_id s = asm_scope_id m) (nt_scopes db))"

text \<open>
  A scope has one row; the scopes of one VRF have different IP versions and agree on whether they
  own it.
\<close>

definition scope_rows_ok :: "neutron_db \<Rightarrow> bool" where
  "scope_rows_ok db \<longleftrightarrow>
     distinct (map scope_id (nt_scopes db)) \<and> distinct (map asm_scope_id (nt_scope_mappings db)) \<and>
     set (map asm_scope_id (nt_scope_mappings db)) \<subseteq> set (map scope_id (nt_scopes db)) \<and>
     (\<forall>m \<in> set (nt_scope_mappings db). \<forall>n \<in> set (nt_scope_mappings db).
        m \<noteq> n \<and> mapped_vrf m = mapped_vrf n \<longrightarrow>
        version_of db m \<noteq> version_of db n \<and> asm_vrf_owned m = asm_vrf_owned n)"

text \<open>Every scope is mapped, and the VRFs that scopes own exist in the fabric.\<close>

definition scopes_mapped :: "'a aim_lib \<Rightarrow> 'a drv_state \<Rightarrow> bool" where
  "scopes_mapped A s \<longleftrightarrow>
     set (map scope_id (nt_scopes (ds_neutron s))) = set (map asm_scope_id (nt_scope_mappings (ds_neutron s))) \<and>
     (\<forall>m \<in> set (nt_scope_mappings (ds_neutron s)). asm_vrf_owned m \<longrightarrow> mapped_vrf m \<in> fabric_vrfs A (ds_aim s))"

text \<open>The ID of a new scope is drawn at random: no VRF is named after it yet.\<close>

definition fresh_scope :: "scope_req \<Rightarrow> 'a drv_state \<Rightarrow> bool" where
  "fresh_scope r s \<longleftrightarrow> sc_id r \<notin> set (map scope_id (nt_scopes (ds_neutron s))) \<and>
     map_address_scope (sc_id r) (sc_tenant_id r) \<notin> mapped_vrf ` set (nt_scope_mappings (ds_neutron s))"

inductive scope_state :: "'a aim_lib \<Rightarrow> 'a aim_info \<Rightarrow> 'a drv_state \<Rightarrow> bool" for A I where
  scope_start: "nt_scopes (ds_neutron s) = [] \<Longrightarrow> nt_scope_mappings (ds_neutron s) = [] \<Longrightarrow> scope_state A I s"
| scope_create: "scope_state A I s \<Longrightarrow> fresh_scope r s \<Longrightarrow> create_address_scope A I names dn r s = Inr (x, t) \<Longrightarrow>
    scope_state A I t"
| scope_update: "scope_state A I s \<Longrightarrow> update_address_scope_precommit A names original current s = Inr (u, t) \<Longrightarrow>
    scope_state A I t"
| scope_delete: "scope_state A I s \<Longrightarrow> delete_address_scope A names i s = Inr (u, t) \<Longrightarrow> scope_state A I t"

section \<open>Rows\<close>

lemma sort_key_Nil: "sort_key f xs = [] \<longleftrightarrow> xs = []"
  by (metis length_0_conv length_sort)

lemma mapping_of_scope:
  assumes "scope_rows_ok db" "m \<in> set (nt_scope_mappings db)"
  obtains s where "s \<in> set (nt_scopes db)" "scope_id s = asm_scope_id m"
proof -
  have "asm_scope_id m \<in> scope_id ` set (nt_scopes db)"
    using assms unfolding scope_rows_ok_def by auto
  then show ?thesis using that by auto
qed

lemma mapped_vrf_iff: "mapped_vrf m = v \<longleftrightarrow> asm_vrf_tenant_name m = vrf_tenant_name v \<and> asm_vrf_name m = vrf_name v"
  by (cases v) (simp add: mapped_vrf_def)

lemma owning_empty:
  assumes "scope_rows_ok db"
  shows "get_address_scopes_owning_vrf v db = [] \<longleftrightarrow>
    (\<forall>m \<in> set (nt_scope_mappings db). mapped_vrf m = v \<longrightarrow> \<not> asm_vrf_owned m)"
  unfolding get_address_scopes_owning_vrf_def get_address_scope_mappings_for_vrf_def sort_key_Nil filter_empty_conv
    list_ex_iff set_filter mapped_vrf_iff
  using mapping_of_scope[OF assms] by (smt (verit, best) mem_Collect_eq)

lemma mapping_found:
  "scope_rows_ok db \<Longrightarrow> get_address_scope_mapping i db = Some m \<longleftrightarrow> m \<in> set (nt_scope_mappings db) \<and> asm_scope_id m = i"
  unfolding get_address_scope_mapping_def scope_rows_ok_def
  by (auto simp: find_Some_iff in_set_conv_nth distinct_conv_nth)

section \<open>What a creation does\<close>

definition with_scope :: "scope_req \<Rightarrow> address_scope_mapping \<Rightarrow> neutron_db \<Rightarrow> neutron_db" where
  "with_scope r m db = db\<lparr> nt_scopes := nt_scopes db @ [\<lparr> scope_id = sc_id r, scope_ip_version = sc_ip_version r \<rparr>],
     nt_scope_mappings := nt_scope_mappings db @ [m] \<rparr>"

text \<open>The row of a scope with a VRF of its own, and of one that names a VRF.\<close>

definition own_mapping :: "scope_req \<Rightarrow> address_scope_mapping \<Rightarrow> bool" where
  "own_mapping r m \<longleftrightarrow> asm_scope_id m = sc_id r \<and> mapped_vrf m = map_address_scope (sc_id r) (sc_tenant_id r) \<and> asm_vrf_owned m"

definition joining_mapping :: "scope_req \<Rightarrow> neutron_db \<Rightarrow> address_scope_mapping \<Rightarrow> bool" where
  "joining_mapping r db m \<longleftrightarrow> asm_scope_id m = sc_id r \<and>
     (let ms = filter (\<lambda>n. mapped_vrf n = mapped_vrf m) (nt_scope_mappings db)
      in asm_vrf_owned m = (ms \<noteq> [] \<and> asm_vrf_owned (last ms)) \<and> (\<forall>n \<in> set ms. version_of db n \<noteq> Some (sc_ip_version r)))"

lemma mappings_for_vrf: "get_address_scope_mappings_for_vrf v db = filter (\<lambda>n. mapped_vrf n = v) (nt_scope_mappings db)"
  unfolding get_address_scope_mappings_for_vrf_def mapped_vrf_iff ..

lemma vrf_of_mapping: "get_address_scope_vrf (Some m) = Inr (mapped_vrf m)"
  by (simp add: get_address_scope_vrf_def mapped_vrf_def)

lemma lift_neutron_Inr: "lift_neutron f s = Inr (x, t) \<longleftrightarrow> (\<exists>n. f (ds_neutron s) = Inr (n, x) \<and> t = set_neutron n s)"
  by (auto simp: lift_neutron_def bindE_Inr_iff)

lemma set_neutron_neutron [simp]: "ds_neutron (set_neutron n s) = n" "ds_aim (set_neutron n s) = ds_aim s"
  by (simp_all add: set_neutron_def)

lemma add_mapping_Inr:
  "add_address_scope_mapping i v owned db = Inr (db', m) \<Longrightarrow>
   asm_scope_id m = i \<and> mapped_vrf m = v \<and> asm_vrf_owned m = owned \<and>
   db' = db\<lparr> nt_scope_mappings := nt_scope_mappings db @ [m] \<rparr>"
  by (cases v) (auto simp: add_address_scope_mapping_def Let_def mapped_vrf_def split: if_splits)

lemma add_scope_row_eq:
  "ds_neutron (add_scope_row r s) =
     (ds_neutron s)\<lparr> nt_scopes := nt_scopes (ds_neutron s) @ [\<lparr> scope_id = sc_id r, scope_ip_version = sc_ip_version r \<rparr>] \<rparr>"
  "ds_aim (add_scope_row r s) = ds_aim s"
  by (simp_all add: add_scope_row_def)

lemma version_of_added:
  assumes "scope_rows_ok (ds_neutron s)" "fresh_scope r s" "n \<in> set (nt_scope_mappings (ds_neutron s))"
  shows "version_of (with_scope r m (ds_neutron s)) n = version_of (ds_neutron s) n"
    and "version_of (ds_neutron (add_scope_row r s)) n = version_of (ds_neutron s) n"
proof -
  obtain x where "x \<in> set (nt_scopes (ds_neutron s))" "scope_id x = asm_scope_id n"
    using mapping_of_scope[OF assms(1,3)] .
  then have "find (\<lambda>x. scope_id x = asm_scope_id n) (nt_scopes (ds_neutron s)) \<noteq> None"
    by (auto simp: find_None_iff)
  then show "version_of (with_scope r m (ds_neutron s)) n = version_of (ds_neutron s) n"
    and "version_of (ds_neutron (add_scope_row r s)) n = version_of (ds_neutron s) n"
    by (auto simp: version_of_def with_scope_def add_scope_row_eq find_append)
qed

lemma process_create_effect:
  assumes ok: "scope_rows_ok (ds_neutron s)" and fresh: "fresh_scope r s"
    and p: "process_create_address_scope I dn r (add_scope_row r s) = Inr (x, t)"
  shows "ds_aim t = ds_aim s \<and> (t = add_scope_row r s \<or>
    (\<exists>m. joining_mapping r (ds_neutron s) m \<and> ds_neutron t = with_scope r m (ds_neutron s)))"
proof (cases "truthy dn")
  case False
  with p show ?thesis by (simp add: process_create_address_scope_def add_scope_row_eq)
next
  case True
  then obtain d v where d: "dn = Some d" and v: "ai_vrf_from_dn I d = Some v"
    using p by (cases dn) (auto simp: process_create_address_scope_def split: option.splits)
  let ?db = "ds_neutron (add_scope_row r s)"
  let ?ms = "filter (\<lambda>n. mapped_vrf n = v) (nt_scope_mappings (ds_neutron s))"
  have ms: "get_address_scope_mappings_for_vrf v ?db = ?ms" by (simp add: mappings_for_vrf add_scope_row_eq)
  have none: "find (\<lambda>m. version_of ?db m = Some (sc_ip_version r)) ?ms = None"
    and add: "\<exists>y. lift_neutron (add_address_scope_mapping (sc_id r) v (if ?ms = [] then False else asm_vrf_owned (last ?ms)))
      (add_scope_row r s) = Inr (y, t)"
    using p True d v by (auto simp: process_create_address_scope_def dbind_Inr Let_def ms version_of_def split: option.splits)
  from add obtain m db' where m: "asm_scope_id m = sc_id r" "mapped_vrf m = v"
      "asm_vrf_owned m = (if ?ms = [] then False else asm_vrf_owned (last ?ms))"
    and db': "db' = ?db\<lparr> nt_scope_mappings := nt_scope_mappings ?db @ [m] \<rparr>" "t = set_neutron db' (add_scope_row r s)"
    unfolding lift_neutron_Inr using add_mapping_Inr by blast
  have "version_of (ds_neutron s) n \<noteq> Some (sc_ip_version r)" if "n \<in> set ?ms" for n
    using none that version_of_added(2)[OF ok fresh, of n] by (auto simp: find_None_iff)
  then have "joining_mapping r (ds_neutron s) m"
    using m by (auto simp: joining_mapping_def Let_def)
  moreover have "ds_neutron t = with_scope r m (ds_neutron s)" "ds_aim t = ds_aim s"
    using db' by (simp_all add: with_scope_def add_scope_row_eq)
  ultimately show ?thesis by blast
qed

lemma scope_create_effect:
  assumes A: "aim_vrfs_ok A" and ok: "scope_rows_ok (ds_neutron s)" and fresh: "fresh_scope r s"
    and c: "create_address_scope A I names dn r s = Inr (x, t)"
  obtains (own) m where "own_mapping r m" "ds_neutron t = with_scope r m (ds_neutron s)"
      "fabric_vrfs A (ds_aim t) = insert (mapped_vrf m) (fabric_vrfs A (ds_aim s))"
    | (joins) m where "joining_mapping r (ds_neutron s) m" "ds_neutron t = with_scope r m (ds_neutron s)"
      "fabric_vrfs A (ds_aim t) = fabric_vrfs A (ds_aim s)"
proof -
  from c obtain u where u: "process_create_address_scope I dn r (add_scope_row r s) = Inr ((), u)"
    and t: "create_address_scope_precommit A I names r u = Inr (x, t)"
    by (auto simp: create_address_scope_def dbind_Inr)
  have no: "get_address_scope_mapping (sc_id r) (ds_neutron s) = None"
  proof (rule ccontr)
    assume "get_address_scope_mapping (sc_id r) (ds_neutron s) \<noteq> None"
    then obtain n where n: "n \<in> set (nt_scope_mappings (ds_neutron s))" "asm_scope_id n = sc_id r"
      by (auto simp: mapping_found[OF ok])
    obtain y where "y \<in> set (nt_scopes (ds_neutron s))" "scope_id y = asm_scope_id n"
      using mapping_of_scope[OF ok n(1)] .
    then show False using n(2) fresh unfolding fresh_scope_def by (metis image_eqI list.set_map)
  qed
  consider "u = add_scope_row r s" | m where "joining_mapping r (ds_neutron s) m" "ds_neutron u = with_scope r m (ds_neutron s)"
      "ds_aim u = ds_aim s"
    using process_create_effect[OF ok fresh u] by blast
  then show ?thesis
  proof cases
    case 1
    let ?v = "map_address_scope (sc_id r) (sc_tenant_id r)"
    have "get_address_scope_mapping (sc_id r) (ds_neutron u) = None"
      using no by (simp add: 1 add_scope_row_eq get_address_scope_mapping_def)
    with t obtain y w z where w: "d_create A (set_attr ''display_name'' (AStr (Some (sanitize_display_name A (sc_name r)))) (vrf_res ?v)) u = Inr (y, w)"
      and z: "lift_neutron (add_address_scope_mapping (sc_id r) ?v True) w = Inr (z, t)"
      by (auto simp: create_address_scope_precommit_def dbind_Inr Let_def)
    from z obtain db' where db': "add_address_scope_mapping (sc_id r) ?v True (ds_neutron w) = Inr (db', z)" "t = set_neutron db' w"
      by (auto simp: lift_neutron_Inr)
    have cv: "fabric_vrfs A (ds_aim w) = insert ?v (fabric_vrfs A (ds_aim u))" "ds_ext w = ds_ext u"
      using created_vrf[OF A w] by auto
    from add_mapping_Inr[OF db'(1)] have z': "asm_scope_id z = sc_id r" "mapped_vrf z = ?v" "asm_vrf_owned z"
      "ds_neutron t = (ds_neutron u)\<lparr> nt_scope_mappings := nt_scope_mappings (ds_neutron u) @ [z] \<rparr>"
      using db'(2) cv(2) by auto
    show ?thesis
      by (rule own[of z]) (use z' cv db'(2) 1 in \<open>simp_all add: own_mapping_def with_scope_def add_scope_row_eq\<close>)
  next
    case 2
    have "get_address_scope_mapping (sc_id r) (ds_neutron u) = Some m"
      using no 2 by (auto simp: get_address_scope_mapping_def with_scope_def find_append joining_mapping_def)
    with t obtain y where y: "update_vrf_display_name A names (mapped_vrf m)
        (get_address_scopes_owning_vrf (mapped_vrf m) (ds_neutron u)) u = Inr (y, t)"
      by (auto simp: create_address_scope_precommit_def dbind_Inr vrf_of_mapping scopes_owning_def)
    show ?thesis by (rule joins[of m]) (use 2 renamed_vrf[OF A y] in auto)
  qed
qed

section \<open>What a deletion does\<close>

definition without_scope :: "string \<Rightarrow> neutron_db \<Rightarrow> neutron_db" where
  "without_scope i db = (delete_scope_mapping i db)\<lparr> nt_scopes := filter (\<lambda>x. scope_id x \<noteq> i) (nt_scopes db) \<rparr>"

text \<open>The VRFs that no scope but this one is mapped to, and that it owns.\<close>

definition last_owned :: "string \<Rightarrow> neutron_db \<Rightarrow> vrf set" where
  "last_owned i db = {mapped_vrf m | m. m \<in> set (nt_scope_mappings db) \<and> asm_scope_id m = i \<and> asm_vrf_owned m \<and>
     (\<forall>n \<in> set (nt_scope_mappings db). mapped_vrf n = mapped_vrf m \<longrightarrow> asm_scope_id n = i)}"

lemma without_mapping_twice: "delete_scope_mapping i (delete_scope_mapping i db) = delete_scope_mapping i db"
  by (simp add: delete_scope_mapping_def)

lemma scope_rows_sub:
  assumes "scope_rows_ok db" "nt_scopes db' = filter P (nt_scopes db)" "nt_scope_mappings db' = filter Q (nt_scope_mappings db)"
    and keep: "\<And>m x. m \<in> set (nt_scope_mappings db') \<Longrightarrow> x \<in> set (nt_scopes db) \<Longrightarrow> scope_id x = asm_scope_id m \<Longrightarrow> P x"
  shows "scope_rows_ok db'"
proof -
  have found: "version_of db' m = version_of db m" if m: "m \<in> set (nt_scope_mappings db')" for m
  proof -
    have "find (\<lambda>x. scope_id x = asm_scope_id m) (filter P xs) = find (\<lambda>x. scope_id x = asm_scope_id m) xs"
      if "set xs \<subseteq> set (nt_scopes db)" for xs
      using that by (induction xs) (auto dest: keep[OF m])
    then show ?thesis by (simp add: version_of_def assms(2))
  qed
  have sub: "set (nt_scope_mappings db') \<subseteq> set (nt_scope_mappings db)" using assms(3) by auto
  have "asm_scope_id m \<in> scope_id ` set (nt_scopes db')" if m: "m \<in> set (nt_scope_mappings db')" for m
  proof -
    obtain x where "x \<in> set (nt_scopes db)" "scope_id x = asm_scope_id m"
      using mapping_of_scope[OF assms(1), of m] m sub by auto
    then show ?thesis using keep[OF m] by (auto simp: assms(2) image_iff intro!: bexI[of _ x])
  qed
  moreover have "distinct (map scope_id (nt_scopes db'))" "distinct (map asm_scope_id (nt_scope_mappings db'))"
    using assms(1) by (simp_all add: assms(2,3) scope_rows_ok_def distinct_map_filter)
  ultimately show ?thesis
    using assms(1) sub found unfolding scope_rows_ok_def by (auto simp: subset_eq)
qed

lemma scope_delete_effect:
  assumes A: "aim_vrfs_ok A" and ok: "scope_rows_ok (ds_neutron s)" and d: "delete_address_scope A names i s = Inr (x, t)"
  shows "ds_neutron t = without_scope i (ds_neutron s)"
    and "fabric_vrfs A (ds_aim t) = fabric_vrfs A (ds_aim s) - last_owned i (ds_neutron s)"
proof -
  from d obtain u where u: "delete_address_scope_precommit A names i s = Inr ((), u)" and t: "t = drop_scope_row i u"
    by (auto simp: delete_address_scope_def dbind_Inr)
  let ?owned = "{m \<in> set (nt_scope_mappings (ds_neutron s)). asm_scope_id m = i \<and> asm_vrf_owned m}"
  have "(ds_neutron u = ds_neutron s \<or> ds_neutron u = delete_scope_mapping i (ds_neutron s)) \<and>
    fabric_vrfs A (ds_aim u) = fabric_vrfs A (ds_aim s) - last_owned i (ds_neutron s)"
  proof (cases "\<exists>m. get_address_scope_mapping i (ds_neutron s) = Some m \<and> asm_vrf_owned m")
    case False
    then have "last_owned i (ds_neutron s) = {}"
      using mapping_found[OF ok, of i] by (auto simp: last_owned_def)
    with False u show ?thesis
      by (auto simp: delete_address_scope_precommit_def dbind_Inr split: option.splits)
  next
    case True
    then obtain m where m: "get_address_scope_mapping i (ds_neutron s) = Some m" "asm_vrf_owned m" by blast
    let ?s1 = "set_neutron (delete_scope_mapping i (ds_neutron s)) s"
    let ?db = "delete_scope_mapping i (ds_neutron s)"
    let ?scopes = "get_address_scopes_owning_vrf (mapped_vrf m) ?db"
    from u m obtain y w where y: "update_vrf_display_name A names (mapped_vrf m) ?scopes ?s1 = Inr (y, w)"
      and w: "dwhen (?scopes = []) (d_delete A (Some (vrf_res (mapped_vrf m)))) w = Inr ((), u)"
      by (auto simp: delete_address_scope_precommit_def dbind_Inr vrf_of_mapping scopes_owning_def)
    have rows: "scope_rows_ok ?db"
      by (rule scope_rows_sub[OF ok, of _ "\<lambda>_. True" "\<lambda>m. asm_scope_id m \<noteq> i"]) (simp_all add: delete_scope_mapping_def)
    have mi: "m \<in> set (nt_scope_mappings (ds_neutron s))" "asm_scope_id m = i"
      using m(1) by (simp_all add: mapping_found[OF ok])
    have only: "n = m" if "n \<in> set (nt_scope_mappings (ds_neutron s))" "asm_scope_id n = i" for n
      using m(1) mapping_found[OF ok, of i n] that by simp
    have agree: "asm_vrf_owned n" if "n \<in> set (nt_scope_mappings (ds_neutron s))" "mapped_vrf n = mapped_vrf m" for n
      using ok mi m(2) that unfolding scope_rows_ok_def by metis
    have empty: "?scopes = [] \<longleftrightarrow> mapped_vrf m \<in> last_owned i (ds_neutron s)"
      unfolding owning_empty[OF rows] last_owned_def using mi m(2) agree
      by (auto simp: delete_scope_mapping_def)
    have last: "last_owned i (ds_neutron s) \<subseteq> {mapped_vrf m}"
      using only by (auto simp: last_owned_def)
    from renamed_vrf[OF A y] have r: "fabric_vrfs A (ds_aim w) = fabric_vrfs A (ds_aim s)" "ds_ext w = ds_ext ?s1" by auto
    show ?thesis
    proof (cases "?scopes = []")
      case True
      then have "d_delete A (Some (vrf_res (mapped_vrf m))) w = Inr ((), u)" using w by simp
      from deleted_vrf[OF A this] r True empty last show ?thesis by auto
    next
      case False
      with w r empty last show ?thesis by auto
    qed
  qed
  then show "ds_neutron t = without_scope i (ds_neutron s)"
    "fabric_vrfs A (ds_aim t) = fabric_vrfs A (ds_aim s) - last_owned i (ds_neutron s)"
    by (auto simp: t drop_scope_row_def without_scope_def without_mapping_twice) (simp_all add: delete_scope_mapping_def)
qed

lemma rename_effect:
  assumes A: "aim_vrfs_ok A" and u: "update_address_scope_precommit A names original current s = Inr (x, t)"
  shows "ds_neutron t = ds_neutron s \<and> fabric_vrfs A (ds_aim t) = fabric_vrfs A (ds_aim s)"
  using u renamed_vrf[OF A]
  by (auto simp: update_address_scope_precommit_def dbind_Inr scopes_owning_def split: if_splits)

section \<open>The invariant holds\<close>

lemma with_scope_rows:
  assumes ok: "scope_rows_ok (ds_neutron s)" and fresh: "fresh_scope r s"
    and m: "own_mapping r m \<or> joining_mapping r (ds_neutron s) m"
  shows "scope_rows_ok (with_scope r m (ds_neutron s))"
proof -
  let ?db = "ds_neutron s" and ?db' = "with_scope r m (ds_neutron s)"
  have id: "asm_scope_id m = sc_id r" using m by (auto simp: own_mapping_def joining_mapping_def)
  have new: "sc_id r \<notin> scope_id ` set (nt_scopes ?db)" using fresh by (simp add: fresh_scope_def)
  have newm: "sc_id r \<notin> asm_scope_id ` set (nt_scope_mappings ?db)"
    using ok new unfolding scope_rows_ok_def by auto
  have vm: "version_of ?db' m = Some (sc_ip_version r)"
  proof -
    have "find (\<lambda>s. scope_id s = sc_id r) (nt_scopes ?db) = None" using new by (force simp: find_None_iff)
    then show ?thesis by (simp add: version_of_def with_scope_def find_append id)
  qed
  have vn: "version_of ?db' n = version_of ?db n" if "n \<in> set (nt_scope_mappings ?db)" for n
    by (rule version_of_added(1)[OF ok fresh that])
  have apart: "version_of ?db n \<noteq> Some (sc_ip_version r) \<and> asm_vrf_owned n = asm_vrf_owned m"
    if n: "n \<in> set (nt_scope_mappings ?db)" "mapped_vrf n = mapped_vrf m" for n
    using m
  proof
    assume "own_mapping r m"
    then show ?thesis using n fresh by (auto simp: own_mapping_def fresh_scope_def image_iff)
  next
    assume j: "joining_mapping r ?db m"
    let ?ms = "filter (\<lambda>n. mapped_vrf n = mapped_vrf m) (nt_scope_mappings ?db)"
    have nm: "n \<in> set ?ms" using n by simp
    then have ne: "?ms \<noteq> []" by (metis empty_iff list.set(1))
    then have "last ?ms \<in> set ?ms" by (rule last_in_set)
    then have "asm_vrf_owned n = asm_vrf_owned (last ?ms)"
      using ok n unfolding scope_rows_ok_def by (metis (mono_tags, lifting) mem_Collect_eq set_filter)
    then show ?thesis using j nm ne unfolding joining_mapping_def Let_def by blast
  qed
  have pair: "version_of ?db' x \<noteq> version_of ?db' y \<and> asm_vrf_owned x = asm_vrf_owned y"
    if xy: "x \<in> insert m (set (nt_scope_mappings ?db))" "y \<in> insert m (set (nt_scope_mappings ?db))"
      "x \<noteq> y" "mapped_vrf x = mapped_vrf y" for x y
  proof -
    consider "x = m" "y \<in> set (nt_scope_mappings ?db)" | "y = m" "x \<in> set (nt_scope_mappings ?db)"
      | "x \<in> set (nt_scope_mappings ?db)" "y \<in> set (nt_scope_mappings ?db)" using xy by auto
    then show ?thesis
    proof cases
      case 1
      then show ?thesis using apart[of y] vn[of y] vm xy(4) by metis
    next
      case 2
      then show ?thesis using apart[of x] vn[of x] vm xy(4) by metis
    next
      case 3
      then show ?thesis using ok xy(3,4) vn[of x] vn[of y] unfolding scope_rows_ok_def by metis
    qed
  qed
  have maps: "set (nt_scope_mappings ?db') = insert m (set (nt_scope_mappings ?db))"
    by (auto simp: with_scope_def)
  have "\<forall>x \<in> set (nt_scope_mappings ?db'). \<forall>y \<in> set (nt_scope_mappings ?db'). x \<noteq> y \<and> mapped_vrf x = mapped_vrf y \<longrightarrow>
      version_of ?db' x \<noteq> version_of ?db' y \<and> asm_vrf_owned x = asm_vrf_owned y"
    unfolding maps using pair by (intro ballI impI) (elim conjE)
  moreover have "distinct (map scope_id (nt_scopes ?db'))" "distinct (map asm_scope_id (nt_scope_mappings ?db'))"
    "set (map asm_scope_id (nt_scope_mappings ?db')) \<subseteq> set (map scope_id (nt_scopes ?db'))"
    using ok new newm id unfolding scope_rows_ok_def by (auto simp: with_scope_def)
  ultimately show ?thesis unfolding scope_rows_ok_def by blast
qed

lemma scope_state_ok:
  assumes A: "aim_vrfs_ok A" and s: "scope_state A I s"
  shows "scope_rows_ok (ds_neutron s) \<and> scopes_mapped A s"
  using s
proof (induction rule: scope_state.induct)
  case (scope_start s)
  then show ?case by (simp add: scope_rows_ok_def scopes_mapped_def)
next
  case (scope_create s r names dn x t)
  then have ok: "scope_rows_ok (ds_neutron s)" and sm: "scopes_mapped A s" by auto
  show ?case
    using A ok scope_create.hyps(2,3)
  proof (cases rule: scope_create_effect)
    case (own m)
    then show ?thesis
      using with_scope_rows[OF ok scope_create.hyps(2)] sm
      by (auto simp: scopes_mapped_def with_scope_def own_mapping_def)
  next
    case (joins m)
    let ?ms = "filter (\<lambda>n. mapped_vrf n = mapped_vrf m) (nt_scope_mappings (ds_neutron s))"
    have "mapped_vrf m \<in> fabric_vrfs A (ds_aim s)" if "asm_vrf_owned m"
    proof -
      have "?ms \<noteq> []" "asm_vrf_owned (last ?ms)" using joins(1) that by (auto simp: joining_mapping_def Let_def)
      moreover from this(1) have "last ?ms \<in> set ?ms" by (rule last_in_set)
      ultimately show ?thesis using sm unfolding scopes_mapped_def by (metis (mono_tags, lifting) filter_is_subset mem_Collect_eq set_filter)
    qed
    then show ?thesis
      using joins with_scope_rows[OF ok scope_create.hyps(2)] sm
      by (auto simp: scopes_mapped_def with_scope_def joining_mapping_def)
  qed
next
  case (scope_update s names original current u t)
  then show ?case using rename_effect[OF A scope_update.hyps(2)] by (simp add: scopes_mapped_def)
next
  case (scope_delete s names i u t)
  then have ok: "scope_rows_ok (ds_neutron s)" and sm: "scopes_mapped A s" by auto
  note e = scope_delete_effect[OF A ok scope_delete.hyps(2)]
  have rows: "scope_rows_ok (without_scope i (ds_neutron s))"
    by (rule scope_rows_sub[OF ok, of _ "\<lambda>x. scope_id x \<noteq> i" "\<lambda>m. asm_scope_id m \<noteq> i"])
      (auto simp: without_scope_def delete_scope_mapping_def)
  have keep: "mapped_vrf m \<notin> last_owned i (ds_neutron s)"
    if "m \<in> set (nt_scope_mappings (ds_neutron s))" "asm_scope_id m \<noteq> i" for m
    using that by (auto simp: last_owned_def)
  have "scopes_mapped A t"
    using sm keep by (auto simp: scopes_mapped_def e without_scope_def delete_scope_mapping_def image_iff set_eq_iff)
  then show ?case using rows by (simp add: e)
qed

section \<open>The properties\<close>

text \<open>C11: In every state that creating, renaming and deleting address scopes reaches, each scope is mapped
  to one VRF, two scopes of a VRF have different IP versions and agree on owning it, and every VRF
  that scopes own exists in the fabric.
\<close>

theorem scope_vrfs_invariant:
  assumes "aim_vrfs_ok A" and "scope_state A I s"
  shows "scope_rows_ok (ds_neutron s) \<and> scopes_mapped A s"
  using assms by (rule scope_state_ok)

text \<open>C29: Deleting a scope takes away its row and its mapping, and exactly the VRF that it owned and that no
  other scope is mapped to; every other VRF stays.
\<close>

theorem scope_deletion_exact:
  assumes "aim_vrfs_ok A" and "scope_state A I s" and "delete_address_scope A names i s = Inr (u, t)"
  shows "ds_neutron t = without_scope i (ds_neutron s) \<and>
    fabric_vrfs A (ds_aim t) = fabric_vrfs A (ds_aim s) - last_owned i (ds_neutron s)"
  using scope_delete_effect[OF assms(1) _ assms(3)] scope_state_ok[OF assms(1,2)] by blast

section \<open>Two scopes of one VRF\<close>

lemma fabric_vrfs_demo: "fabric_vrfs demo_aim a = {v. \<exists>q \<in> set a. same_id (vrf_res v) q}"
  by (auto simp: fabric_vrfs_def demo_aim_def demo_get_def find_None_iff)

lemma same_id_display: "same_id (set_attr ''display_name'' x r) q \<longleftrightarrow> same_id r q"
  "same_id q (set_attr ''display_name'' x r) \<longleftrightarrow> same_id q r"
  by (simp_all add: same_id_def identity_keys_def other_keys_def)

lemma same_id_vrf: "same_id (vrf_res v) (vrf_res w) \<longleftrightarrow> v = w"
  by (cases v, cases w) (auto simp: same_id_def identity_keys_def other_keys_def vrf_res_def aim_res_of_def attr_str_def)

lemma same_id_vrf_other: "same_id (vrf_res v) q \<Longrightarrow> same_id (vrf_res w) q \<longleftrightarrow> w = v"
  by (metis same_id_trans same_id_sym same_id_vrf)

lemma demo_vrfs_ok: "aim_vrfs_ok demo_aim"
  unfolding aim_vrfs_ok_def
proof (intro conjI allI impI)
  fix v x ow a r a'
  assume "aim_create demo_aim (set_attr ''display_name'' (AStr x) (vrf_res v)) ow a = Inr (r, a')"
  then have a': "a' = filter (\<lambda>q. \<not> same_id (vrf_res v) q) a @ [set_attr ''display_name'' (AStr x) (vrf_res v)]"
    by (simp add: demo_aim_def same_id_display) metis
  have "(\<exists>q \<in> set a'. same_id (vrf_res w) q) \<longleftrightarrow> w = v \<or> (\<exists>q \<in> set a. same_id (vrf_res w) q)" for w
    unfolding a' using same_id_vrf_other[of v _ w] by (auto simp: same_id_display same_id_vrf)
  then show "fabric_vrfs demo_aim a' = insert v (fabric_vrfs demo_aim a)"
    unfolding fabric_vrfs_demo by auto
next
  fix v x a r a'
  assume u: "aim_update demo_aim (vrf_res v) [(''display_name'', AStr x)] a = Inr (r, a')"
  have "(\<exists>q \<in> set a'. same_id (vrf_res w) q) \<longleftrightarrow> (\<exists>q \<in> set a. same_id (vrf_res w) q)" for w
  proof (cases "demo_get (vrf_res v) a")
    case None
    then show ?thesis using u by (simp add: demo_aim_def)
  next
    case (Some y)
    then have a': "a' = map (\<lambda>q. if same_id (vrf_res v) q then set_attr ''display_name'' (AStr x) y else q) a"
      using u by (simp add: demo_aim_def Let_def)
    have "same_id (vrf_res v) y" by (rule find_same_id[OF Some])
    then have "same_id (vrf_res w) (if same_id (vrf_res v) q then set_attr ''display_name'' (AStr x) y else q) = same_id (vrf_res w) q" for q
      using same_id_vrf_other[of v _ w] by (auto simp: same_id_display)
    then show ?thesis by (simp only: a' list.set_map bex_simps)
  qed
  then show "fabric_vrfs demo_aim a' = fabric_vrfs demo_aim a" unfolding fabric_vrfs_demo by simp
next
  fix v a a'
  assume "aim_delete demo_aim (Some (vrf_res v)) a = Inr a'"
  then have "a' = filter (\<lambda>q. \<not> same_id (vrf_res v) q) a" by (simp add: demo_aim_def)
  then show "fabric_vrfs demo_aim a' = fabric_vrfs demo_aim a - {v}"
    unfolding fabric_vrfs_demo by (auto simp: same_id_vrf_other)
qed

definition demo_info :: "aim_res list aim_info" where
  "demo_info = \<lparr> ai_status = (\<lambda>r a. None), ai_vrf_dn = (\<lambda>v. none_str (vrf_name v)),
     ai_vrf_from_dn = (\<lambda>dn. Some \<lparr> vrf_tenant_name = Some ''prj_T'', vrf_name = Some dn \<rparr>) \<rparr>"

definition demo_empty_db :: neutron_db where
  "demo_empty_db = \<lparr> nt_scopes = [], nt_pools = [], nt_networks = [], nt_subnets = [], nt_ports = [], nt_allocs = [],
     nt_routers = [], nt_router_ports = [], nt_scope_mappings = [], nt_network_mappings = [] \<rparr>"

definition demo_empty_ext :: ext_db where
  "demo_empty_ext = \<lparr> xd_neutron = demo_empty_db, xd_erspans = [], xd_networks = [], xd_cidrs = [], xd_vlans = [],
     xd_contracts = [], xd_masters = [], xd_no_nat_cidrs = [], xd_subnets = [], xd_snat_mappings = [], xd_router_contracts = [], xd_hpp = [] \<rparr>"

definition demo_no_scopes :: "aim_res list drv_state" where
  "demo_no_scopes = \<lparr> ds_ext = demo_empty_ext, ds_aim = [], ds_external = [], ds_ports_to_notify = {},
     ds_vrfs_to_notify = {}, ds_published = [] \<rparr>"

definition demo_scope :: "string \<Rightarrow> int \<Rightarrow> scope_req" where
  "demo_scope i v = \<lparr> sc_id = i, sc_name = ''corp'', sc_tenant_id = ''T'', sc_ip_version = v \<rparr>"

definition demo_one_scope :: "aim_res list drv_state" where
  "demo_one_scope = after (create_address_scope demo_aim demo_info (\<lambda>_. ''corp'') None (demo_scope ''a'' 4) demo_no_scopes) demo_no_scopes"

definition demo_two_scopes :: "aim_res list drv_state" where
  "demo_two_scopes = after (create_address_scope demo_aim demo_info (\<lambda>_. ''corp'') (Some ''as_a'') (demo_scope ''b'' 6) demo_one_scope)
     demo_one_scope"

lemma demo_scopes_created:
  "succeeds (create_address_scope demo_aim demo_info (\<lambda>_. ''corp'') None (demo_scope ''a'' 4) demo_no_scopes)"
  "succeeds (create_address_scope demo_aim demo_info (\<lambda>_. ''corp'') (Some ''as_a'') (demo_scope ''b'' 6) demo_one_scope)"
  "succeeds (delete_address_scope demo_aim (\<lambda>_. ''corp'') ''a'' demo_two_scopes)"
  by code_simp+

lemma demo_scopes_fresh: "fresh_scope (demo_scope ''a'' 4) demo_no_scopes" "fresh_scope (demo_scope ''b'' 6) demo_one_scope"
  by code_simp+

lemma demo_two_scopes_state: "scope_state demo_aim demo_info demo_two_scopes"
proof -
  have "scope_state demo_aim demo_info demo_no_scopes"
    by (rule scope_start) (simp_all add: demo_no_scopes_def demo_empty_ext_def demo_empty_db_def)
  then have one: "scope_state demo_aim demo_info demo_one_scope"
    using scope_create demo_scopes_fresh(1) after_succeeds[OF demo_scopes_created(1)] unfolding demo_one_scope_def by metis
  then show ?thesis
    using scope_create demo_scopes_fresh(2) after_succeeds[OF demo_scopes_created(2)] unfolding demo_two_scopes_def by metis
qed

theorem scope_vrfs_invariant_witness:
  "scope_rows_ok (ds_neutron demo_two_scopes) \<and> scopes_mapped demo_aim demo_two_scopes \<and>
   length (nt_scope_mappings (ds_neutron demo_two_scopes)) = 2"
proof -
  have "length (nt_scope_mappings (ds_neutron demo_two_scopes)) = 2" by code_simp
  then show ?thesis using scope_vrfs_invariant[OF demo_vrfs_ok demo_two_scopes_state] by blast
qed

text \<open>The VRF stays when the first scope goes: the second one owns it too.\<close>

theorem scope_deletion_exact_witness:
  "\<exists>t. delete_address_scope demo_aim (\<lambda>_. ''corp'') ''a'' demo_two_scopes = Inr ((), t) \<and>
     ds_neutron t = without_scope ''a'' (ds_neutron demo_two_scopes) \<and>
     fabric_vrfs demo_aim (ds_aim t) = fabric_vrfs demo_aim (ds_aim demo_two_scopes) \<and>
     map_address_scope ''a'' ''T'' \<in> fabric_vrfs demo_aim (ds_aim t)"
proof -
  obtain t where t: "delete_address_scope demo_aim (\<lambda>_. ''corp'') ''a'' demo_two_scopes = Inr ((), t)"
    using after_succeeds[OF demo_scopes_created(3)] by auto
  have none: "last_owned ''a'' (ds_neutron demo_two_scopes) = {}"
  proof -
    have "list_all (\<lambda>m. asm_scope_id m = ''a'' \<longrightarrow>
        list_ex (\<lambda>n. mapped_vrf n = mapped_vrf m \<and> asm_scope_id n \<noteq> ''a'') (nt_scope_mappings (ds_neutron demo_two_scopes)))
      (nt_scope_mappings (ds_neutron demo_two_scopes))" by code_simp
    then show ?thesis by (auto simp: last_owned_def list_all_iff list_ex_iff)
  qed
  have "aim_get demo_aim (vrf_res (map_address_scope ''a'' ''T'')) (ds_aim demo_two_scopes) \<noteq> None" by code_simp
  then have "map_address_scope ''a'' ''T'' \<in> fabric_vrfs demo_aim (ds_aim demo_two_scopes)" by (simp add: fabric_vrfs_def)
  then show ?thesis
    using scope_deletion_exact[OF demo_vrfs_ok demo_two_scopes_state t] none t by auto
qed

end
