(* ===== verification/Security_Groups.thy ===== *)
theory Security_Groups
  imports Aim_Store
begin

text \<open>
  Security groups in the mechanism driver.  A rule whose remote side is another group lists, in the fabric,
  the addresses of the ports of that group; every port that comes, goes or changes updates these
  lists (or, in the normalized form, one container of addresses per group).
\<close>

section \<open>Tables of the core service\<close>

record sg_rule_row =
  sr_id :: string
  sr_group_id :: string
  sr_direction :: string
  sr_ethertype :: string
  sr_protocol :: "string option"
  sr_port_min :: "int option"
  sr_port_max :: "int option"
  sr_remote_ip_prefix :: "string option"
  sr_remote_group_id :: "string option"
  sr_remote_address_group_id :: "string option"

text \<open>Groups with their tenants, rules, ports with their groups, address groups and their addresses.\<close>

record sg_db =
  sg_groups :: "(string \<times> string) list"
  sg_rules :: "sg_rule_row list"
  sg_bindings :: "(string \<times> string) list"
  sg_address_groups :: "string list"
  sg_addresses :: "(string \<times> string) list"

text \<open>
  The version of an address (\<^verbatim>\<open>netaddr.IPAddress\<close>), the name of a group's container in the fabric,
  and the numbers of protocols (\<^verbatim>\<open>IP_PROTOCOL_MAP\<close>).
\<close>

record sg_lib =
  sl_ip_version :: "string \<Rightarrow> fabric_error + int"
  sl_container_dn :: "string \<Rightarrow> string \<Rightarrow> string"
  sl_protocol_map :: "string \<Rightarrow> string option"

text \<open>\<^verbatim>\<open>query.first()[0]\<close>\<close>

definition get_sg_tenant_id :: "sg_db \<Rightarrow> string \<Rightarrow> ('s, string) drv" where
  "get_sg_tenant_id G i = (case map_of (sg_groups G) i of None \<Rightarrow> draise TypeError | Some t \<Rightarrow> dret t)"

definition sg_tenant_aname :: "sg_db \<Rightarrow> string \<Rightarrow> ('s, string option) drv" where
  "sg_tenant_aname G i = dbind (get_sg_tenant_id G i) (\<lambda>t. dret (Some (project_name t [])))"

definition sg_rule_res :: "string option \<Rightarrow> string \<Rightarrow> string \<Rightarrow> aim_res" where
  "sg_rule_res tenant sg i = aim_res_of (OtherClass ''SecurityGroupRule'')
     [(''tenant_name'', AStr tenant), (''security_group_name'', AStr (Some sg)),
      (''security_group_subject_name'', AStr (Some ''default'')), (''name'', AStr (Some i))]"

definition sg_res :: "string option \<Rightarrow> string \<Rightarrow> aim_res" where
  "sg_res tenant sg = aim_res_of (OtherClass ''SecurityGroup'') [(''tenant_name'', AStr tenant), (''name'', AStr (Some sg))]"

definition sg_remote_ip_res :: "string option \<Rightarrow> string \<Rightarrow> string \<Rightarrow> aim_res" where
  "sg_remote_ip_res tenant sg ip = aim_res_of (OtherClass ''SecurityGroupRemoteIp'')
     [(''tenant_name'', AStr tenant), (''security_group_name'', AStr (Some sg)), (''addr'', AStr (Some ip))]"

definition with_attrs :: "(string \<times> aim_value) list \<Rightarrow> aim_res \<Rightarrow> aim_res" where
  "with_attrs as r = fold (\<lambda>(k, v). set_attr k v) as r"

text \<open>The number that the ethertype stands for, and the addresses of that version.\<close>

definition ethertype_version :: "string \<Rightarrow> int" where
  "ethertype_version e = (if e = ''IPv4'' then 4 else if e = ''IPv6'' then 6 else 0)"

fun ips_of_version :: "sg_lib \<Rightarrow> int \<Rightarrow> string list \<Rightarrow> fabric_error + string list" where
  "ips_of_version L v [] = Inr []"
| "ips_of_version L v (ip # ips) =
     bindE (sl_ip_version L ip) (\<lambda>w. bindE (ips_of_version L v ips) (\<lambda>r. Inr (if w = v then ip # r else r)))"

text \<open>The ports of a group, once per binding, and their addresses.\<close>

definition sg_ports :: "sg_db \<Rightarrow> neutron_db \<Rightarrow> string \<Rightarrow> string list" where
  "sg_ports G db g = [port_id p. p \<leftarrow> nt_ports db, b \<leftarrow> sg_bindings G, fst b = port_id p \<and> snd b = g]"

definition fixed_ips_of :: "neutron_db \<Rightarrow> string \<Rightarrow> string list" where
  "fixed_ips_of db p = map alloc_ip (filter (\<lambda>a. alloc_port_id a = p) (nt_allocs db))"

definition group_ips :: "sg_db \<Rightarrow> neutron_db \<Rightarrow> string \<Rightarrow> string list" where
  "group_ips G db g = concat (map (fixed_ips_of db) (sg_ports G db g))"

section \<open>Groups\<close>

text \<open>\<^verbatim>\<open>x if x else 'unspecified'\<close>\<close>

definition or_unspecified :: "int option \<Rightarrow> aim_value" where
  "or_unspecified x = (case x of None \<Rightarrow> AStr (Some ''unspecified'')
     | Some n \<Rightarrow> if n = 0 then AStr (Some ''unspecified'') else AInt n)"

definition or_empty :: "string option \<Rightarrow> aim_value" where
  "or_empty x = AStr (Some (case x of None \<Rightarrow> [] | Some s \<Rightarrow> s))"

definition implicit_rule_res :: "string option \<Rightarrow> string \<Rightarrow> sg_rule_row \<Rightarrow> aim_res" where
  "implicit_rule_res tenant sg r = with_attrs
     [(''direction'', AStr (Some (sr_direction r))), (''ethertype'', AStr (Some (py_lower (sr_ethertype r)))),
      (''ip_protocol'', AStr (Some (if truthy (sr_protocol r) then the (sr_protocol r) else ''unspecified''))),
      (''remote_ips'', or_empty (sr_remote_ip_prefix r)),
      (''from_port'', or_unspecified (sr_port_min r)), (''to_port'', or_unspecified (sr_port_max r)),
      (''remote_group_id'', or_empty (sr_remote_group_id r))] (sg_rule_res tenant sg (sr_id r))"

definition create_security_group_precommit ::
  "'a aim_lib \<Rightarrow> string \<Rightarrow> string \<Rightarrow> string \<Rightarrow> sg_rule_row list \<Rightarrow> ('a drv_state, unit) drv" where
  "create_security_group_precommit A sg name tenant_id rules =
     (let tenant = Some (project_name tenant_id []) in
      dbind (d_create A (set_attr ''display_name'' (AStr (Some (sanitize_display_name A name))) (sg_res tenant sg))) (\<lambda>_.
      dbind (d_create A (aim_res_of (OtherClass ''SecurityGroupSubject'') [(''tenant_name'', AStr tenant),
         (''security_group_name'', AStr (Some sg)), (''name'', AStr (Some ''default''))])) (\<lambda>_.
      dbind (dread (\<lambda>s. get_hpp_normalized (ds_ext s))) (\<lambda>x.
      dbind (dlift x) (\<lambda>hpp.
      dbind (dwhen hpp (dbind (d_create A (aim_res_of (OtherClass ''SecurityGroupRemoteIpContainer'')
         [(''tenant_name'', AStr tenant), (''security_group_name'', AStr (Some sg)), (''remote_group_id'', AStr (Some sg))]))
         (\<lambda>_. dret ()))) (\<lambda>_.
      deach (\<lambda>r. dbind (d_create A (implicit_rule_res tenant sg r)) (\<lambda>_. dret ())) rules))))))"

definition update_security_group_precommit ::
  "'a aim_lib \<Rightarrow> string \<Rightarrow> string \<Rightarrow> string \<Rightarrow> string \<Rightarrow> ('a drv_state, unit) drv" where
  "update_security_group_precommit A sg old_name name tenant_id =
     (if name = old_name then dret ()
      else dbind (d_update A (sg_res (Some (project_name tenant_id [])) sg)
             [(''display_name'', AStr (Some (sanitize_display_name A name)))]) (\<lambda>_. dret ()))"

text \<open>\<open>cascade\<close> is the manager's deletion of a resource with everything below it.\<close>

definition delete_security_group_precommit ::
  "(aim_res \<Rightarrow> 'a \<Rightarrow> fabric_error + 'a) \<Rightarrow> string \<Rightarrow> string \<Rightarrow> ('a drv_state, unit) drv" where
  "delete_security_group_precommit cascade sg tenant_id = lift_aim0 (cascade (sg_res (Some (project_name tenant_id [])) sg))"

section \<open>Rules\<close>

definition get_aim_protocol :: "sg_lib \<Rightarrow> string option \<Rightarrow> string" where
  "get_aim_protocol L p =
     (if truthy p then (case sl_protocol_map L (the p) of None \<Rightarrow> the p | Some q \<Rightarrow> q) else ''unspecified'')"

text \<open>The ICMP code and type: an ICMP rule with the number, which must not be zero.\<close>

definition icmp_value :: "sg_rule_row \<Rightarrow> int option \<Rightarrow> fabric_error + aim_value" where
  "icmp_value r x =
     (case x of
        None \<Rightarrow> Inr (AStr (Some ''unspecified''))
      | Some n \<Rightarrow>
          if n = 0 then Inr (AStr (Some ''unspecified''))
          else (case sr_protocol r of
              None \<Rightarrow> Inl AttributeError
            | Some p \<Rightarrow> Inr (if py_lower p = ''icmp'' \<or> p = ''1'' then AInt n else AStr (Some ''unspecified''))))"

text \<open>What is remote: the list of addresses, the name of the container, and the group.\<close>

definition remote_side ::
  "sg_lib \<Rightarrow> sg_db \<Rightarrow> sg_rule_row \<Rightarrow> ('a drv_state, aim_value \<times> string \<times> string) drv" where
  "remote_side L G r =
     dbind (dread ds_neutron) (\<lambda>db.
     if truthy (sr_remote_group_id r) then
       let g = the (sr_remote_group_id r)
       in dbind (dread (\<lambda>s. get_hpp_normalized (ds_ext s))) (\<lambda>x.
          dbind (dlift x) (\<lambda>hpp.
          if hpp then
            if group_ips G db g = [] then dret (AStrs [], [], g)
            else dbind (get_sg_tenant_id G g) (\<lambda>t. dret (AStrs [], sl_container_dn L (project_name t []) g, g))
          else
            dbind (dlift (ips_of_version L (ethertype_version (sr_ethertype r)) (group_ips G db g))) (\<lambda>ips.
            dret (AStrs ips, [], g))))
     else if truthy (sr_remote_address_group_id r) then
       let ag = the (sr_remote_address_group_id r);
           addresses = (if list_ex (\<lambda>q. sr_remote_address_group_id q = Some ag) (sg_rules G)
                        then map snd (filter (\<lambda>x. fst x = ag) (sg_addresses G)) else [])
       in dbind (dlift (ips_of_version L (ethertype_version (sr_ethertype r)) (map (\<lambda>a. hd (py_split (CHR ''/'') a)) addresses))) (\<lambda>_.
          dret (AStrs (filter (\<lambda>a. sl_ip_version L (hd (py_split (CHR ''/'') a)) = Inr (ethertype_version (sr_ethertype r))) addresses), [], []))
     else dret (if truthy (sr_remote_ip_prefix r) then AStrs [the (sr_remote_ip_prefix r)] else AStr (Some []), [], []))"

definition create_security_group_rule_precommit ::
  "'a aim_lib \<Rightarrow> sg_lib \<Rightarrow> sg_db \<Rightarrow> sg_rule_row \<Rightarrow> ('a drv_state, unit) drv" where
  "create_security_group_rule_precommit A L G r =
     dbind (sg_tenant_aname G (sr_group_id r)) (\<lambda>tenant.
     dbind (remote_side L G r) (\<lambda>(ips, dn, g).
     dbind (dlift (icmp_value r (sr_port_max r))) (\<lambda>code.
     dbind (dlift (icmp_value r (sr_port_min r))) (\<lambda>type.
     dbind (d_create A (with_attrs
       [(''direction'', AStr (Some (sr_direction r))), (''ethertype'', AStr (Some (py_lower (sr_ethertype r)))),
        (''ip_protocol'', AStr (Some (get_aim_protocol L (sr_protocol r)))), (''remote_ips'', ips),
        (''icmp_code'', code), (''icmp_type'', type),
        (''from_port'', or_unspecified (sr_port_min r)), (''to_port'', or_unspecified (sr_port_max r)),
        (''tDn'', AStr (Some dn)), (''remote_group_id'', AStr (Some g))] (sg_rule_res tenant (sr_group_id r) (sr_id r)))) (\<lambda>_.
     dret ())))))"

definition delete_security_group_rule_precommit ::
  "'a aim_lib \<Rightarrow> sg_db \<Rightarrow> sg_rule_row \<Rightarrow> ('a drv_state, unit) drv" where
  "delete_security_group_rule_precommit A G r =
     dbind (sg_tenant_aname G (sr_group_id r)) (\<lambda>tenant.
     d_delete A (Some (sg_rule_res tenant (sr_group_id r) (sr_id r))))"

section \<open>Ports in groups\<close>

text \<open>One rule of the fabric: \<^verbatim>\<open>list.remove\<close> takes the first occurrence away.\<close>

definition remove_ip :: "string \<Rightarrow> string list \<Rightarrow> string list" where
  "remove_ip ip ips = (if ip \<in> set ips then remove1 ip ips else ips)"

fun change_remote_ips :: "sg_lib \<Rightarrow> bool \<Rightarrow> int \<Rightarrow> string list \<Rightarrow> string list \<Rightarrow> fabric_error + string list" where
  "change_remote_ips L is_delete v [] ips = Inr ips"
| "change_remote_ips L is_delete v (ip # rest) ips =
     (if is_delete then change_remote_ips L is_delete v rest (remove_ip ip ips)
      else bindE (sl_ip_version L ip) (\<lambda>w.
           change_remote_ips L is_delete v rest (if v = w \<and> ip \<notin> set ips then ips @ [ip] else ips)))"

definition update_remote_rule ::
  "'a aim_lib \<Rightarrow> sg_lib \<Rightarrow> sg_db \<Rightarrow> string list \<Rightarrow> bool \<Rightarrow> sg_rule_row \<Rightarrow> ('a drv_state, unit) drv" where
  "update_remote_rule A L G fixed_ips is_delete r =
     dbind (sg_tenant_aname G (sr_group_id r)) (\<lambda>tenant.
     let res = sg_rule_res tenant (sr_group_id r) (sr_id r)
     in dbind (d_get A res) (\<lambda>x.
        case x of
          None \<Rightarrow> dret ()
        | Some q \<Rightarrow>
            dbind (dlift (change_remote_ips L is_delete (ethertype_version (sr_ethertype r)) fixed_ips (attr_strs q ''remote_ips''))) (\<lambda>ips.
            dbind (d_update A res [(''remote_ips'', AStrs ips)]) (\<lambda>_. dret ()))))"

definition really_update_sg_rule_with_remote_group_set ::
  "'a aim_lib \<Rightarrow> sg_lib \<Rightarrow> sg_db \<Rightarrow> string list \<Rightarrow> string list \<Rightarrow> bool \<Rightarrow> ('a drv_state, unit) drv" where
  "really_update_sg_rule_with_remote_group_set A L G fixed_ips groups is_delete =
     (if groups = [] then dret ()
      else deach (update_remote_rule A L G fixed_ips is_delete)
             (filter (\<lambda>r. case sr_remote_group_id r of None \<Rightarrow> False | Some g \<Rightarrow> g \<in> set groups) (sg_rules G)))"

text \<open>The normalized form: one resource per address of a group, and rules that name the container.\<close>

definition change_remote_ip :: "'a aim_lib \<Rightarrow> string option \<Rightarrow> string \<Rightarrow> bool \<Rightarrow> string \<Rightarrow> ('a drv_state, unit) drv" where
  "change_remote_ip A tenant sg is_delete ip =
     (let res = sg_remote_ip_res tenant sg ip
      in dbind (d_get A res) (\<lambda>x.
         if is_delete then dwhen (x \<noteq> None) (d_delete A (Some res))
         else dwhen (x = None) (dbind (d_create A res) (\<lambda>_. dret ()))))"

definition name_container ::
  "'a aim_lib \<Rightarrow> sg_lib \<Rightarrow> sg_db \<Rightarrow> string option \<Rightarrow> bool \<Rightarrow> string \<Rightarrow> sg_rule_row \<Rightarrow> ('a drv_state, unit) drv" where
  "name_container A L G tenant is_delete sg r =
     dbind (sg_tenant_aname G (sr_group_id r)) (\<lambda>rule_tenant.
     dbind (d_update A (sg_rule_res rule_tenant (sr_group_id r) (sr_id r))
       [(''tDn'', AStr (Some (if is_delete then [] else sl_container_dn L (none_str tenant) sg)))]) (\<lambda>_. dret ()))"

definition really_update_sg_remote_groups ::
  "'a aim_lib \<Rightarrow> sg_lib \<Rightarrow> sg_db \<Rightarrow> string list \<Rightarrow> string list \<Rightarrow> bool \<Rightarrow> ('a drv_state, unit) drv" where
  "really_update_sg_remote_groups A L G fixed_ips groups is_delete =
     deach (\<lambda>sg.
       dbind (sg_tenant_aname G sg) (\<lambda>tenant.
       dbind (deach (change_remote_ip A tenant sg is_delete) fixed_ips) (\<lambda>_.
       dbind (dread ds_neutron) (\<lambda>db.
       dwhen (fixed_ips \<noteq> [] \<and> set (group_ips G db sg) \<subseteq> set fixed_ips)
         (deach (name_container A L G tenant is_delete sg) (filter (\<lambda>r. sr_remote_group_id r = Some sg) (sg_rules G))))))) groups"

definition update_sg_of_port ::
  "'a aim_lib \<Rightarrow> sg_lib \<Rightarrow> sg_db \<Rightarrow> string list \<Rightarrow> string list \<Rightarrow> bool \<Rightarrow> ('a drv_state, unit) drv" where
  "update_sg_of_port A L G fixed_ips groups is_delete =
     dbind (dread (\<lambda>s. get_hpp_normalized (ds_ext s))) (\<lambda>x.
     dbind (dlift x) (\<lambda>hpp.
     if hpp then really_update_sg_remote_groups A L G fixed_ips groups is_delete
     else really_update_sg_rule_with_remote_group_set A L G fixed_ips groups is_delete))"

text \<open>The groups and addresses of a port; what the three port handlers do about them.\<close>

record sg_port =
  sp_groups :: "string list"
  sp_fixed_ips :: "string list"

definition list_minus :: "string list \<Rightarrow> string list \<Rightarrow> string list" where
  "list_minus xs ys = filter (\<lambda>x. x \<notin> set ys) (remdups xs)"

definition port_created_groups :: "'a aim_lib \<Rightarrow> sg_lib \<Rightarrow> sg_db \<Rightarrow> sg_port \<Rightarrow> ('a drv_state, unit) drv" where
  "port_created_groups A L G p = update_sg_of_port A L G (sp_fixed_ips p) (sp_groups p) False"

definition port_deleted_groups :: "'a aim_lib \<Rightarrow> sg_lib \<Rightarrow> sg_db \<Rightarrow> sg_port \<Rightarrow> ('a drv_state, unit) drv" where
  "port_deleted_groups A L G p = update_sg_of_port A L G (sp_fixed_ips p) (sp_groups p) True"

definition port_updated_groups :: "'a aim_lib \<Rightarrow> sg_lib \<Rightarrow> sg_db \<Rightarrow> sg_port \<Rightarrow> sg_port \<Rightarrow> ('a drv_state, unit) drv" where
  "port_updated_groups A L G orig port =
     (let removed_sgs = list_minus (sp_groups orig) (sp_groups port);
          added_sgs = list_minus (sp_groups port) (sp_groups orig)
      in dbind (update_sg_of_port A L G (sp_fixed_ips port) removed_sgs True) (\<lambda>_.
         dbind (update_sg_of_port A L G (sp_fixed_ips port) added_sgs False) (\<lambda>_.
         dwhen (set (sp_fixed_ips orig) \<noteq> set (sp_fixed_ips port))
           (dbind (update_sg_of_port A L G (sp_fixed_ips orig) (sp_groups port) True) (\<lambda>_.
            update_sg_of_port A L G (sp_fixed_ips port) (sp_groups port) False)))))"

section \<open>Address groups\<close>

text \<open>
  The handler of a change of an address group: the query joins every rule with its address group
  and takes the first row.
\<close>

fun remove_addresses :: "string list \<Rightarrow> string list \<Rightarrow> fabric_error + string list" where
  "remove_addresses [] ips = Inr ips"
| "remove_addresses (a # as) ips = (if a \<in> set ips then remove_addresses as (remove1 a ips) else Inl ValueError)"

definition update_addresses_in_address_group ::
  "'a aim_lib \<Rightarrow> sg_db \<Rightarrow> string \<Rightarrow> string list \<Rightarrow> string list \<Rightarrow> ('a drv_state, unit) drv" where
  "update_addresses_in_address_group A G tenant_id previous updated =
     (if previous = updated then dret ()
      else (case find (\<lambda>r. case sr_remote_address_group_id r of None \<Rightarrow> False | Some ag \<Rightarrow> ag \<in> set (sg_address_groups G)) (sg_rules G) of
          None \<Rightarrow> dret ()
        | Some r \<Rightarrow>
            (let res = sg_rule_res (Some (''prj_'' @ tenant_id)) (sr_group_id r) (sr_id r)
             in dbind (d_get A res) (\<lambda>x.
                dbind (dthe x) (\<lambda>q.
                dbind (dlift (remove_addresses (filter (\<lambda>a. a \<notin> set updated) previous) (attr_strs q ''remote_ips''))) (\<lambda>ips.
                dbind (d_update A res [(''remote_ips'', AStrs (ips @ filter (\<lambda>a. a \<notin> set previous) updated))]) (\<lambda>_.
                dret ())))))))"

end
