(* ===== verification/Security_Group_Laws.thy ===== *)
theory Security_Group_Laws
  imports Security_Groups Fabric_Example
begin

text \<open>
  The address lists of the rules whose remote side is a group: in every state that the requests reach,
  a rule lists exactly the addresses of the ports of its remote group, of the rule's IP version.
  Two ports of a group must not share an address, and a port must not leave a group in the request that
  also takes an address from it: both make the lists wrong.
\<close>

section \<open>What is assumed of the library\<close>

text \<open>The list of a rule, by tenant, group and ID.\<close>

type_synonym rule_key = "string option \<times> string \<times> string"

fun rule_list :: "'a aim_lib \<Rightarrow> 'a \<Rightarrow> rule_key \<Rightarrow> string list option" where
  "rule_list A a (t, g, i) = map_option (\<lambda>q. attr_strs q ''remote_ips'') (aim_get A (sg_rule_res t g i) a)"

definition rule_attributes :: "string set" where
  "rule_attributes = {''direction'', ''ethertype'', ''ip_protocol'', ''remote_ips'', ''icmp_code'', ''icmp_type'',
     ''from_port'', ''to_port'', ''tDn'', ''remote_group_id''}"

definition aim_rules_ok :: "'a aim_lib \<Rightarrow> bool" where
  "aim_rules_ok A \<longleftrightarrow>
     (\<forall>t g i ips a x a'. aim_update A (sg_rule_res t g i) [(''remote_ips'', AStrs ips)] a = Inr (x, a') \<longrightarrow>
        rule_list A a' = (if rule_list A a (t, g, i) = None then rule_list A a else (rule_list A a)((t, g, i) \<mapsto> ips))) \<and>
     (\<forall>t g i as ow a x a'. fst ` set as \<subseteq> rule_attributes \<and>
        aim_create A (with_attrs as (sg_rule_res t g i)) ow a = Inr (x, a') \<longrightarrow>
        rule_list A a' = (rule_list A a)((t, g, i) \<mapsto> attr_strs (with_attrs as (sg_rule_res t g i)) ''remote_ips'')) \<and>
     (\<forall>r ow a x a'. ar_class r \<noteq> OtherClass ''SecurityGroupRule'' \<and> aim_create A r ow a = Inr (x, a') \<longrightarrow>
        rule_list A a' = rule_list A a) \<and>
     (\<forall>t g i a a'. aim_delete A (Some (sg_rule_res t g i)) a = Inr a' \<longrightarrow>
        rule_list A a' = (rule_list A a)((t, g, i) := None))"

lemma rules_updated:
  assumes "aim_rules_ok A" "d_update A (sg_rule_res t g i) [(''remote_ips'', AStrs ips)] s = Inr (x, u)"
    "rule_list A (ds_aim s) (t, g, i) \<noteq> None"
  shows "rule_list A (ds_aim u) = (rule_list A (ds_aim s))((t, g, i) \<mapsto> ips)" and "ds_ext u = ds_ext s"
  using assms unfolding aim_rules_ok_def d_update_def lift_aim_Inr by auto

lemma rules_created:
  assumes "aim_rules_ok A" "d_create A (with_attrs as (sg_rule_res t g i)) s = Inr (x, u)" "fst ` set as \<subseteq> rule_attributes"
  shows "rule_list A (ds_aim u) = (rule_list A (ds_aim s))((t, g, i) \<mapsto> attr_strs (with_attrs as (sg_rule_res t g i)) ''remote_ips'')"
    and "ds_ext u = ds_ext s"
  using assms unfolding aim_rules_ok_def d_create_def lift_aim_Inr by auto

lemma other_created:
  assumes "aim_rules_ok A" "d_create A r s = Inr (x, u)" "ar_class r \<noteq> OtherClass ''SecurityGroupRule''"
  shows "rule_list A (ds_aim u) = rule_list A (ds_aim s) \<and> ds_ext u = ds_ext s"
  using assms unfolding aim_rules_ok_def d_create_def lift_aim_Inr by auto

lemma rules_deleted:
  assumes "aim_rules_ok A" "d_delete A (Some (sg_rule_res t g i)) s = Inr (x, u)"
  shows "rule_list A (ds_aim u) = (rule_list A (ds_aim s))((t, g, i) := None)" and "ds_ext u = ds_ext s"
  using assms unfolding aim_rules_ok_def d_delete_def lift_aim0_Inr by auto

section \<open>Changing the lists\<close>

definition key_of :: "sg_db \<Rightarrow> sg_rule_row \<Rightarrow> rule_key" where
  "key_of G r = (map_option (\<lambda>t. project_name t []) (map_of (sg_groups G) (sr_group_id r)), sr_group_id r, sr_id r)"

text \<open>The addresses among these that a rule may list.\<close>

definition fitting :: "sg_lib \<Rightarrow> sg_rule_row \<Rightarrow> string set \<Rightarrow> string set" where
  "fitting L r X = {ip \<in> X. sl_ip_version L ip = Inr (ethertype_version (sr_ethertype r))}"

definition change_spec :: "sg_lib \<Rightarrow> bool \<Rightarrow> sg_rule_row \<Rightarrow> string list \<Rightarrow> string set \<Rightarrow> string set" where
  "change_spec L is_delete r fixed X = (if is_delete then X - set fixed else X \<union> fitting L r (set fixed))"

lemma change_remote_ips_set:
  "change_remote_ips L is_delete (ethertype_version (sr_ethertype r)) fixed ips = Inr ips' \<Longrightarrow> distinct ips \<Longrightarrow>
   distinct ips' \<and> set ips' = change_spec L is_delete r fixed (set ips)"
proof (induction L is_delete "ethertype_version (sr_ethertype r)" fixed ips rule: change_remote_ips.induct)
  case (1 L is_delete ips)
  then show ?case by (simp add: change_spec_def fitting_def)
next
  case (2 L is_delete ip rest ips)
  show ?case
  proof (cases is_delete)
    case True
    have "distinct (remove_ip ip ips)" "set (remove_ip ip ips) = set ips - {ip}"
      using 2(4) by (auto simp: remove_ip_def)
    then show ?thesis using 2(1)[OF True] 2(3) True by (auto simp: change_spec_def)
  next
    case False
    then obtain w where w: "sl_ip_version L ip = Inr w"
      and c: "change_remote_ips L is_delete (ethertype_version (sr_ethertype r)) rest
        (if ethertype_version (sr_ethertype r) = w \<and> ip \<notin> set ips then ips @ [ip] else ips) = Inr ips'"
      using 2(3) by (auto simp: bindE_Inr_iff)
    have "distinct (if ethertype_version (sr_ethertype r) = w \<and> ip \<notin> set ips then ips @ [ip] else ips)"
      using 2(4) by simp
    from 2(2)[OF False c this] show ?thesis
      using False w by (auto simp: change_spec_def fitting_def)
  qed
qed

lemma sg_tenant_Inr: "sg_tenant_aname G g s = Inr (x, t) \<longleftrightarrow>
    t = s \<and> (\<exists>y. map_of (sg_groups G) g = Some y \<and> x = Some (project_name y []))"
  by (auto simp: sg_tenant_aname_def get_sg_tenant_id_def dbind_Inr split: option.splits)

text \<open>One rule: its list changes as it should, no other does.\<close>

lemma update_remote_rule_effect:
  assumes A: "aim_rules_ok A" and u: "update_remote_rule A L G fixed is_delete r s = Inr (x, t)"
  shows "ds_ext t = ds_ext s"
    and "k \<noteq> key_of G r \<Longrightarrow> rule_list A (ds_aim t) k = rule_list A (ds_aim s) k"
    and "rule_list A (ds_aim s) (key_of G r) = Some ips \<Longrightarrow> distinct ips \<Longrightarrow>
      \<exists>ips'. rule_list A (ds_aim t) (key_of G r) = Some ips' \<and> distinct ips' \<and> set ips' = change_spec L is_delete r fixed (set ips)"
proof -
  from u obtain y where y: "map_of (sg_groups G) (sr_group_id r) = Some y"
    by (auto simp: update_remote_rule_def dbind_Inr sg_tenant_Inr)
  let ?res = "sg_rule_res (Some (project_name y [])) (sr_group_id r) (sr_id r)"
  have k: "key_of G r = (Some (project_name y []), sr_group_id r, sr_id r)" by (simp add: key_of_def y)
  have "ds_ext t = ds_ext s \<and> (k \<noteq> key_of G r \<longrightarrow> rule_list A (ds_aim t) k = rule_list A (ds_aim s) k) \<and>
    (rule_list A (ds_aim s) (key_of G r) = Some ips \<and> distinct ips \<longrightarrow>
      (\<exists>ips'. rule_list A (ds_aim t) (key_of G r) = Some ips' \<and> distinct ips' \<and> set ips' = change_spec L is_delete r fixed (set ips)))"
  proof (cases "aim_get A ?res (ds_aim s)")
    case None
    with u y have "t = s" by (auto simp: update_remote_rule_def dbind_Inr sg_tenant_Inr d_get_def Let_def)
    then show ?thesis using None by (simp add: k)
  next
    case (Some q)
    with u y obtain ips' z where c: "change_remote_ips L is_delete (ethertype_version (sr_ethertype r)) fixed (attr_strs q ''remote_ips'') = Inr ips'"
      and z: "d_update A ?res [(''remote_ips'', AStrs ips')] s = Inr (z, t)"
      by (auto simp: update_remote_rule_def dbind_Inr sg_tenant_Inr d_get_def Let_def)
    have some: "rule_list A (ds_aim s) (Some (project_name y []), sr_group_id r, sr_id r) = Some (attr_strs q ''remote_ips'')"
      using Some by simp
    then have ne: "rule_list A (ds_aim s) (Some (project_name y []), sr_group_id r, sr_id r) \<noteq> None"
      by (rule ssubst) (rule option.distinct(2))
    note e = rules_updated[OF A z ne]
    have e1: "rule_list A (ds_aim t) = (rule_list A (ds_aim s))((Some (project_name y []), sr_group_id r, sr_id r) \<mapsto> ips')"
      and e2: "ds_ext t = ds_ext s"
      by (rule e)+
    show ?thesis
      unfolding k e1 e2 using some change_remote_ips_set[OF c] by (auto simp del: rule_list.simps)
  qed
  then show "ds_ext t = ds_ext s"
    and "k \<noteq> key_of G r \<Longrightarrow> rule_list A (ds_aim t) k = rule_list A (ds_aim s) k"
    and "rule_list A (ds_aim s) (key_of G r) = Some ips \<Longrightarrow> distinct ips \<Longrightarrow>
      \<exists>ips'. rule_list A (ds_aim t) (key_of G r) = Some ips' \<and> distinct ips' \<and> set ips' = change_spec L is_delete r fixed (set ips)"
    by blast+
qed

text \<open>All rules that name one of the groups.\<close>

definition names_group :: "string list \<Rightarrow> sg_rule_row \<Rightarrow> bool" where
  "names_group groups r \<longleftrightarrow> (case sr_remote_group_id r of None \<Rightarrow> False | Some g \<Rightarrow> g \<in> set groups)"

lemma key_of_id: "key_of G r = key_of G q \<Longrightarrow> sr_id r = sr_id q"
  by (simp add: key_of_def)

lemma rules_loop:
  assumes A: "aim_rules_ok A" and "deach (update_remote_rule A L G fixed is_delete) rs s = Inr (x, t)" and "distinct (map sr_id rs)"
  shows "ds_ext t = ds_ext s"
    and "k \<notin> key_of G ` set rs \<Longrightarrow> rule_list A (ds_aim t) k = rule_list A (ds_aim s) k"
    and "r \<in> set rs \<Longrightarrow> rule_list A (ds_aim s) (key_of G r) = Some ips \<Longrightarrow> distinct ips \<Longrightarrow>
      \<exists>ips'. rule_list A (ds_aim t) (key_of G r) = Some ips' \<and> distinct ips' \<and> set ips' = change_spec L is_delete r fixed (set ips)"
proof -
  have "ds_ext t = ds_ext s \<and> (\<forall>k. k \<notin> key_of G ` set rs \<longrightarrow> rule_list A (ds_aim t) k = rule_list A (ds_aim s) k) \<and>
    (\<forall>r \<in> set rs. \<forall>ips. rule_list A (ds_aim s) (key_of G r) = Some ips \<longrightarrow> distinct ips \<longrightarrow>
      (\<exists>ips'. rule_list A (ds_aim t) (key_of G r) = Some ips' \<and> distinct ips' \<and> set ips' = change_spec L is_delete r fixed (set ips)))"
    using assms(2,3)
  proof (induction rs arbitrary: s)
    case Nil
    then show ?case by simp
  next
    case (Cons q rs)
    then obtain y u where y: "update_remote_rule A L G fixed is_delete q s = Inr (y, u)"
      and t: "deach (update_remote_rule A L G fixed is_delete) rs u = Inr (x, t)"
      by (auto simp: dbind_Inr)
    have d: "distinct (map sr_id rs)" and nq: "sr_id q \<notin> sr_id ` set rs" using Cons.prems(2) by auto
    note IH = Cons.IH[OF t d]
    note e = update_remote_rule_effect[OF A y]
    have nk: "key_of G q \<notin> key_of G ` set rs" 
    proof
      assume "key_of G q \<in> key_of G ` set rs"
      then obtain r where "r \<in> set rs" "key_of G q = key_of G r" by (rule imageE)
      then show False using nq key_of_id[of G q r] by (metis image_eqI)
    qed
    have "\<exists>ips'. rule_list A (ds_aim t) (key_of G r) = Some ips' \<and> distinct ips' \<and> set ips' = change_spec L is_delete r fixed (set ips)"
      if r: "r \<in> set (q # rs)" "rule_list A (ds_aim s) (key_of G r) = Some ips" "distinct ips" for r ips
    proof (cases "r = q")
      case True
      have "rule_list A (ds_aim t) (key_of G q) = rule_list A (ds_aim u) (key_of G q)" using IH nk by blast
      then show ?thesis unfolding True using e(3)[OF r(2)[unfolded True] r(3)] by presburger
    next
      case False
      then have rr: "r \<in> set rs" using r by simp
      then have "key_of G r \<noteq> key_of G q" using nk by (metis image_eqI)
      then have "rule_list A (ds_aim u) (key_of G r) = Some ips" by (rule e(2)[THEN trans]) (rule r(2))
      then show ?thesis using IH rr r(3) by blast
    qed
    moreover have "rule_list A (ds_aim t) k = rule_list A (ds_aim s) k" if "k \<notin> key_of G ` set (q # rs)" for k
    proof -
      have "k \<noteq> key_of G q" "k \<notin> key_of G ` set rs" using that by (simp_all del: split_paired_All)
      then show ?thesis using IH e(2)[of k] by metis
    qed
    ultimately show ?case using IH e(1) by (metis (no_types, lifting))
  qed
  then show "ds_ext t = ds_ext s"
    and "k \<notin> key_of G ` set rs \<Longrightarrow> rule_list A (ds_aim t) k = rule_list A (ds_aim s) k"
    and "r \<in> set rs \<Longrightarrow> rule_list A (ds_aim s) (key_of G r) = Some ips \<Longrightarrow> distinct ips \<Longrightarrow>
      \<exists>ips'. rule_list A (ds_aim t) (key_of G r) = Some ips' \<and> distinct ips' \<and> set ips' = change_spec L is_delete r fixed (set ips)"
    by blast+
qed

text \<open>
  The lists of the rules, and that what was asked was done: each rule \<open>r\<close> lists a set, which goes from
  \<open>F r\<close> to \<open>change\<close> of it when the rule names one of the groups.
\<close>

definition lists :: "'a aim_lib \<Rightarrow> sg_db \<Rightarrow> (sg_rule_row \<Rightarrow> string set) \<Rightarrow> 'a drv_state \<Rightarrow> bool" where
  "lists A G F s \<longleftrightarrow> get_hpp_normalized (ds_ext s) = Inr False \<and>
     (\<forall>r \<in> set (sg_rules G). truthy (sr_remote_group_id r) \<longrightarrow>
        (\<exists>ips. rule_list A (ds_aim s) (key_of G r) = Some ips \<and> distinct ips \<and> set ips = F r))"

lemma update_lists:
  assumes A: "aim_rules_ok A" and d: "distinct (map sr_id (sg_rules G))" and F: "lists A G F s"
    and u: "update_sg_of_port A L G fixed groups is_delete s = Inr (x, t)"
  shows "lists A G (\<lambda>r. if names_group groups r then change_spec L is_delete r fixed (F r) else F r) t" and "ds_ext t = ds_ext s"
proof -
  let ?rs = "filter (names_group groups) (sg_rules G)"
  have rs: "filter (\<lambda>r. case sr_remote_group_id r of None \<Rightarrow> False | Some g \<Rightarrow> g \<in> set groups) (sg_rules G) = ?rs"
    by (simp add: names_group_def[abs_def])
  have h: "get_hpp_normalized (ds_ext s) = Inr False" using F by (simp add: lists_def)
  have loop: "deach (update_remote_rule A L G fixed is_delete) ?rs s = Inr (x, t)"
  proof (cases "groups = []")
    case True
    then have "?rs = []" by (auto simp: names_group_def split: option.splits)
    then show ?thesis using u h True by (auto simp: update_sg_of_port_def dbind_Inr really_update_sg_rule_with_remote_group_set_def)
  next
    case False
    then show ?thesis using u h rs by (auto simp: update_sg_of_port_def dbind_Inr really_update_sg_rule_with_remote_group_set_def)
  qed
  have dr: "distinct (map sr_id ?rs)" using d by (simp add: distinct_map_filter)
  note e = rules_loop[OF A loop dr]
  show "ds_ext t = ds_ext s" by (rule e(1))
  have "\<exists>ips. rule_list A (ds_aim t) (key_of G r) = Some ips \<and> distinct ips \<and>
      set ips = (if names_group groups r then change_spec L is_delete r fixed (F r) else F r)"
    if r: "r \<in> set (sg_rules G)" "truthy (sr_remote_group_id r)" for r
  proof -
    obtain ips where ips: "rule_list A (ds_aim s) (key_of G r) = Some ips" "distinct ips" "set ips = F r"
      using F r unfolding lists_def by blast
    show ?thesis
    proof (cases "names_group groups r")
      case True
      then have "r \<in> set ?rs" using r by simp
      from e(3)[OF this ips(1,2)] show ?thesis using True ips(3) by auto
    next
      case False
      have "key_of G r \<notin> key_of G ` set ?rs"
      proof
        assume "key_of G r \<in> key_of G ` set ?rs"
        then obtain q where "q \<in> set ?rs" and k: "key_of G r = key_of G q" by (metis imageE)
        then have q: "q \<in> set (sg_rules G)" "names_group groups q" by auto
        from k have "sr_id r = sr_id q" by (rule key_of_id)
        moreover have "inj_on sr_id (set (sg_rules G))" using d by (simp add: distinct_map)
        ultimately have "r = q" using r(1) q(1) by (meson inj_onD)
        then show False using q False by simp
      qed
      then show ?thesis using e(2) ips False by simp
    qed
  qed
  then show "lists A G (\<lambda>r. if names_group groups r then change_spec L is_delete r fixed (F r) else F r) t"
    using h e(1) by (simp add: lists_def)
qed

section \<open>The ports of a group\<close>

definition port_in :: "sg_db \<Rightarrow> neutron_db \<Rightarrow> string \<Rightarrow> string \<Rightarrow> bool" where
  "port_in G db p g \<longleftrightarrow> p \<in> port_id ` set (nt_ports db) \<and> (p, g) \<in> set (sg_bindings G)"

text \<open>The addresses of the other ports of a group.\<close>

definition others :: "sg_db \<Rightarrow> neutron_db \<Rightarrow> string \<Rightarrow> string \<Rightarrow> string set" where
  "others G db p g = \<Union> {set (fixed_ips_of db q) | q. q \<noteq> p \<and> port_in G db q g}"

lemma group_ips_set: "set (group_ips G db g) = \<Union> {set (fixed_ips_of db q) | q. port_in G db q g}"
  by (fastforce simp: group_ips_def sg_ports_def port_in_def)

lemma group_ips_port: "set (group_ips G db g) = others G db p g \<union> (if port_in G db p g then set (fixed_ips_of db p) else {})"
  unfolding group_ips_set others_def by auto

definition admitted :: "sg_lib \<Rightarrow> sg_db \<Rightarrow> neutron_db \<Rightarrow> sg_rule_row \<Rightarrow> string set" where
  "admitted L G db r = fitting L r (set (group_ips G db (the (sr_remote_group_id r))))"

text \<open>What the tables say of a port, that they do not have it, and that they agree but for it.\<close>

definition shows_port :: "sg_db \<Rightarrow> neutron_db \<Rightarrow> string \<Rightarrow> sg_port \<Rightarrow> bool" where
  "shows_port G db p x \<longleftrightarrow> (\<forall>g. port_in G db p g \<longleftrightarrow> g \<in> set (sp_groups x)) \<and>
     set (fixed_ips_of db p) = set (sp_fixed_ips x)"

definition no_port :: "sg_db \<Rightarrow> neutron_db \<Rightarrow> string \<Rightarrow> bool" where
  "no_port G db p \<longleftrightarrow> (\<forall>g. \<not> port_in G db p g)"

definition same_elsewhere :: "string \<Rightarrow> sg_db \<Rightarrow> neutron_db \<Rightarrow> sg_db \<Rightarrow> neutron_db \<Rightarrow> bool" where
  "same_elsewhere p G db G' db' \<longleftrightarrow> sg_rules G' = sg_rules G \<and> sg_groups G' = sg_groups G \<and>
     (\<forall>q. q \<noteq> p \<longrightarrow> fixed_ips_of db' q = fixed_ips_of db q \<and> (\<forall>g. port_in G' db' q g \<longleftrightarrow> port_in G db q g))"

definition apart :: "sg_db \<Rightarrow> neutron_db \<Rightarrow> string \<Rightarrow> string list \<Rightarrow> string list \<Rightarrow> bool" where
  "apart G db p groups ips \<longleftrightarrow> (\<forall>g \<in> set groups. others G db p g \<inter> set ips = {})"

lemma others_same: "same_elsewhere p G db G' db' \<Longrightarrow> others G' db' p g = others G db p g"
  unfolding same_elsewhere_def others_def by (metis (no_types, lifting))

lemma key_of_same: "same_elsewhere p G db G' db' \<Longrightarrow> key_of G' = key_of G"
  by (auto simp: same_elsewhere_def key_of_def fun_eq_iff)

definition sg_ok :: "sg_db \<Rightarrow> bool" where
  "sg_ok G \<longleftrightarrow> distinct (map sr_id (sg_rules G)) \<and> (\<forall>r \<in> set (sg_rules G). map_of (sg_groups G) (sr_group_id r) \<noteq> None)"

section \<open>The requests\<close>

text \<open>
  The states of the tables and the fabric that the requests below reach, in the mode in which the fabric
  holds the addresses with each rule (not the normalized one, where a container per group holds them).  The core service changes the tables first, except at a deletion.  New rules and
  groups have new IDs; a new group comes with rules that name no other group, and a group that goes has no
  ports.  Two conditions on ports are not the code's, and it does not keep the lists exact without them
  (\<open>Security_Group_Examples\<close>): where a port goes or changes, no other port of its groups has one of its
  addresses (\<open>shared_address_lost\<close>), and a port that loses an address does not leave a group in the
  same request (\<open>left_group_keeps_address\<close>).
\<close>

inductive sg_state :: "'a aim_lib \<Rightarrow> sg_lib \<Rightarrow> (aim_res \<Rightarrow> 'a \<Rightarrow> fabric_error + 'a) \<Rightarrow> sg_db \<Rightarrow> 'a drv_state \<Rightarrow> bool"
  for A L cascade where
  sg_start: "sg_rules G = [] \<Longrightarrow> get_hpp_normalized (ds_ext s) = Inr False \<Longrightarrow> sg_state A L cascade G s"
| sg_rule_created: "sg_state A L cascade G s \<Longrightarrow> sr_id r \<notin> sr_id ` set (sg_rules G) \<Longrightarrow>
    distinct (group_ips G (ds_neutron s) (the (sr_remote_group_id r))) \<Longrightarrow> G' = G\<lparr> sg_rules := sg_rules G @ [r] \<rparr> \<Longrightarrow>
    create_security_group_rule_precommit A L G' r s = Inr (u, t) \<Longrightarrow> sg_state A L cascade G' t"
| sg_rule_deleted: "sg_state A L cascade G s \<Longrightarrow> r \<in> set (sg_rules G) \<Longrightarrow>
    delete_security_group_rule_precommit A G r s = Inr (u, t) \<Longrightarrow>
    sg_state A L cascade (G\<lparr> sg_rules := filter (\<lambda>q. sr_id q \<noteq> sr_id r) (sg_rules G) \<rparr>) t"
| sg_group_created: "sg_state A L cascade G s \<Longrightarrow> g \<notin> fst ` set (sg_groups G) \<Longrightarrow> g \<notin> snd ` set (sg_bindings G) \<Longrightarrow>
    distinct (map sr_id (sg_rules G @ rs)) \<Longrightarrow>
    \<forall>r \<in> set rs. sr_group_id r = g \<and> (truthy (sr_remote_group_id r) \<longrightarrow> sr_remote_group_id r = Some g) \<Longrightarrow>
    create_security_group_precommit A g name tenant rs s = Inr (u, t) \<Longrightarrow>
    sg_state A L cascade (G\<lparr> sg_groups := sg_groups G @ [(g, tenant)], sg_rules := sg_rules G @ rs \<rparr>) t"
| sg_group_deleted: "sg_state A L cascade G s \<Longrightarrow> map_of (sg_groups G) g = Some tenant \<Longrightarrow> g \<notin> snd ` set (sg_bindings G) \<Longrightarrow>
    delete_security_group_precommit cascade g tenant s = Inr (u, t) \<Longrightarrow>
    sg_state A L cascade (G\<lparr> sg_groups := filter (\<lambda>x. fst x \<noteq> g) (sg_groups G),
      sg_rules := filter (\<lambda>r. sr_group_id r \<noteq> g \<and> sr_remote_group_id r \<noteq> Some g) (sg_rules G) \<rparr>) t"
| sg_port_created: "sg_state A L cascade G s \<Longrightarrow> no_port G (ds_neutron s) p \<Longrightarrow>
    same_elsewhere p G (ds_neutron s) G' db' \<Longrightarrow> shows_port G' db' p x \<Longrightarrow>
    port_created_groups A L G' x (set_neutron db' s) = Inr (u, t) \<Longrightarrow> sg_state A L cascade G' t"
| sg_port_deleted: "sg_state A L cascade G s \<Longrightarrow> shows_port G (ds_neutron s) p x \<Longrightarrow>
    apart G (ds_neutron s) p (sp_groups x) (sp_fixed_ips x) \<Longrightarrow>
    port_deleted_groups A L G x s = Inr (u, t) \<Longrightarrow>
    same_elsewhere p G (ds_neutron s) G' db' \<Longrightarrow> no_port G' db' p \<Longrightarrow> sg_state A L cascade G' (set_neutron db' t)"
| sg_port_updated: "sg_state A L cascade G s \<Longrightarrow> shows_port G (ds_neutron s) p x \<Longrightarrow>
    same_elsewhere p G (ds_neutron s) G' db' \<Longrightarrow> shows_port G' db' p y \<Longrightarrow>
    apart G (ds_neutron s) p (sp_groups x @ sp_groups y) (sp_fixed_ips x @ sp_fixed_ips y) \<Longrightarrow>
    set (sp_groups x) \<subseteq> set (sp_groups y) \<or> set (sp_fixed_ips x) \<subseteq> set (sp_fixed_ips y) \<Longrightarrow>
    port_updated_groups A L G' x y (set_neutron db' s) = Inr (u, t) \<Longrightarrow> sg_state A L cascade G' t"

text \<open>What is assumed of the deletion of a group with everything below it.\<close>

definition cascade_ok :: "'a aim_lib \<Rightarrow> (aim_res \<Rightarrow> 'a \<Rightarrow> fabric_error + 'a) \<Rightarrow> bool" where
  "cascade_ok A cascade \<longleftrightarrow> (\<forall>t g a a'. cascade (sg_res t g) a = Inr a' \<longrightarrow>
     (\<forall>t' g' i. g' \<noteq> g \<longrightarrow> rule_list A a' (t', g', i) = rule_list A a (t', g', i)))"

section \<open>The lists are exact\<close>

lemma lists_cong:
  assumes "lists A G F s" and "\<And>r. r \<in> set (sg_rules G) \<Longrightarrow> truthy (sr_remote_group_id r) \<Longrightarrow> F r = F' r"
  shows "lists A G F' s"
  using assms by (simp add: lists_def)

lemma lists_tables:
  assumes "lists A G F s" "sg_rules G' = sg_rules G" "key_of G' = key_of G" "ds_aim t = ds_aim s" "xd_hpp (ds_ext t) = xd_hpp (ds_ext s)"
  shows "lists A G' F t"
  using assms by (simp add: lists_def get_hpp_normalized_def)

lemma names_group_truthy: "truthy (sr_remote_group_id r) \<Longrightarrow> names_group groups r \<longleftrightarrow> the (sr_remote_group_id r) \<in> set groups"
  by (auto simp: names_group_def split: option.splits)

lemma fitting_Un: "fitting L r (X \<union> Y) = fitting L r X \<union> fitting L r Y"
  by (auto simp: fitting_def)

lemma fitting_empty [simp]: "fitting L r {} = {}"
  by (simp add: fitting_def)

lemma fitting_minus: "X \<inter> Y = {} \<Longrightarrow> fitting L r X - Y = fitting L r X" "fitting L r X - X = {}" "X \<subseteq> Y \<Longrightarrow> fitting L r X - Y = {}"
  by (auto simp: fitting_def)

lemma set_neutron_tables: "ds_neutron (set_neutron n s) = n" "ds_aim (set_neutron n s) = ds_aim s"
  "xd_hpp (ds_ext (set_neutron n s)) = xd_hpp (ds_ext s)"
  by (simp_all add: set_neutron_def)

lemma port_created_exact:
  assumes A: "aim_rules_ok A" and ok: "sg_ok G" and F: "lists A G (admitted L G (ds_neutron s)) s"
    and new: "no_port G (ds_neutron s) p" and same: "same_elsewhere p G (ds_neutron s) G' db'" and x: "shows_port G' db' p x"
    and u: "port_created_groups A L G' x (set_neutron db' s) = Inr (u, t)"
  shows "lists A G' (admitted L G' (ds_neutron t)) t"
proof -
  have rules: "sg_rules G' = sg_rules G" using same by (simp add: same_elsewhere_def)
  have "lists A G' (admitted L G (ds_neutron s)) (set_neutron db' s)"
    by (rule lists_tables[OF F rules key_of_same[OF same]]) (simp_all add: set_neutron_tables)
  from update_lists[OF A _ this u[unfolded port_created_groups_def]] ok
  have l: "lists A G' (\<lambda>r. if names_group (sp_groups x) r then change_spec L False r (sp_fixed_ips x) (admitted L G (ds_neutron s) r)
      else admitted L G (ds_neutron s) r) t" and e: "ds_neutron t = db'"
    by (simp_all add: sg_ok_def rules set_neutron_tables)
  show ?thesis
  proof (rule lists_cong[OF l])
    fix r :: sg_rule_row assume r: "truthy (sr_remote_group_id r)"
    let ?g = "the (sr_remote_group_id r)"
    have old: "set (group_ips G (ds_neutron s) ?g) = others G (ds_neutron s) p ?g"
      unfolding group_ips_port[of G "ds_neutron s" ?g p] using new by (simp add: no_port_def)
    have "set (group_ips G' db' ?g) = others G (ds_neutron s) p ?g \<union> (if ?g \<in> set (sp_groups x) then set (sp_fixed_ips x) else {})"
      unfolding group_ips_port[of G' db' ?g p] others_same[OF same] using x by (simp add: shows_port_def)
    then show "(if names_group (sp_groups x) r then change_spec L False r (sp_fixed_ips x) (admitted L G (ds_neutron s) r)
        else admitted L G (ds_neutron s) r) = admitted L G' (ds_neutron t) r"
      by (simp add: admitted_def old e names_group_truthy[OF r] change_spec_def fitting_Un)
  qed
qed

lemma port_deleted_exact:
  assumes A: "aim_rules_ok A" and ok: "sg_ok G" and F: "lists A G (admitted L G (ds_neutron s)) s"
    and x: "shows_port G (ds_neutron s) p x" and apart: "apart G (ds_neutron s) p (sp_groups x) (sp_fixed_ips x)"
    and u: "port_deleted_groups A L G x s = Inr (u, t)"
    and same: "same_elsewhere p G (ds_neutron s) G' db'" and gone: "no_port G' db' p"
  shows "lists A G' (admitted L G' db') (set_neutron db' t)"
proof -
  have rules: "sg_rules G' = sg_rules G" using same by (simp add: same_elsewhere_def)
  from update_lists[OF A _ F u[unfolded port_deleted_groups_def]] ok
  have "lists A G (\<lambda>r. if names_group (sp_groups x) r then change_spec L True r (sp_fixed_ips x) (admitted L G (ds_neutron s) r)
      else admitted L G (ds_neutron s) r) t" by (simp add: sg_ok_def)
  then have "lists A G' (\<lambda>r. if names_group (sp_groups x) r then change_spec L True r (sp_fixed_ips x) (admitted L G (ds_neutron s) r)
      else admitted L G (ds_neutron s) r) (set_neutron db' t)"
    by (rule lists_tables[OF _ rules key_of_same[OF same]]) (simp_all add: set_neutron_tables)
  then show ?thesis
  proof (rule lists_cong)
    fix r :: sg_rule_row assume r: "truthy (sr_remote_group_id r)"
    let ?g = "the (sr_remote_group_id r)"
    have old: "set (group_ips G (ds_neutron s) ?g) =
        others G (ds_neutron s) p ?g \<union> (if ?g \<in> set (sp_groups x) then set (sp_fixed_ips x) else {})"
      unfolding group_ips_port[of G "ds_neutron s" ?g p] using x by (simp add: shows_port_def)
    have new: "set (group_ips G' db' ?g) = others G (ds_neutron s) p ?g"
      unfolding group_ips_port[of G' db' ?g p] others_same[OF same] using gone by (simp add: no_port_def)
    show "(if names_group (sp_groups x) r then change_spec L True r (sp_fixed_ips x) (admitted L G (ds_neutron s) r)
        else admitted L G (ds_neutron s) r) = admitted L G' db' r"
      using apart by (simp add: admitted_def old new names_group_truthy[OF r] change_spec_def fitting_Un Un_Diff fitting_minus apart_def)
  qed
qed

text \<open>One update, as a function on the sets.\<close>

definition stepped :: "sg_lib \<Rightarrow> string list \<Rightarrow> string list \<Rightarrow> bool \<Rightarrow> (sg_rule_row \<Rightarrow> string set) \<Rightarrow> sg_rule_row \<Rightarrow> string set" where
  "stepped L fixed groups is_delete F r = (if names_group groups r then change_spec L is_delete r fixed (F r) else F r)"

lemma update_stepped:
  assumes "aim_rules_ok A" "distinct (map sr_id (sg_rules G))" "lists A G F s" "update_sg_of_port A L G fixed groups is_delete s = Inr (x, t)"
  shows "lists A G (stepped L fixed groups is_delete F) t \<and> ds_ext t = ds_ext s"
  using update_lists[OF assms] by (simp add: stepped_def[abs_def])

lemma set_list_minus [simp]: "set (list_minus xs ys) = set xs - set ys"
  by (auto simp: list_minus_def)

lemma port_updated_exact:
  assumes A: "aim_rules_ok A" and ok: "sg_ok G" and F: "lists A G (admitted L G (ds_neutron s)) s"
    and x: "shows_port G (ds_neutron s) p x" and same: "same_elsewhere p G (ds_neutron s) G' db'" and y: "shows_port G' db' p y"
    and apart: "apart G (ds_neutron s) p (sp_groups x @ sp_groups y) (sp_fixed_ips x @ sp_fixed_ips y)"
    and stays: "set (sp_groups x) \<subseteq> set (sp_groups y) \<or> set (sp_fixed_ips x) \<subseteq> set (sp_fixed_ips y)"
    and u: "port_updated_groups A L G' x y (set_neutron db' s) = Inr (u, t)"
  shows "lists A G' (admitted L G' (ds_neutron t)) t"
proof -
  let ?removed = "list_minus (sp_groups x) (sp_groups y)" and ?added = "list_minus (sp_groups y) (sp_groups x)"
  let ?F = "admitted L G (ds_neutron s)"
  have rules: "sg_rules G' = sg_rules G" using same by (simp add: same_elsewhere_def)
  have d: "distinct (map sr_id (sg_rules G'))" using ok by (simp add: sg_ok_def rules)
  have F0: "lists A G' ?F (set_neutron db' s)"
    by (rule lists_tables[OF F rules key_of_same[OF same]]) (simp_all add: set_neutron_tables)
  from u obtain s1 s2 where s1: "update_sg_of_port A L G' (sp_fixed_ips y) ?removed True (set_neutron db' s) = Inr ((), s1)"
    and s2: "update_sg_of_port A L G' (sp_fixed_ips y) ?added False s1 = Inr ((), s2)"
    and rest: "dwhen (set (sp_fixed_ips x) \<noteq> set (sp_fixed_ips y))
       (dbind (update_sg_of_port A L G' (sp_fixed_ips x) (sp_groups y) True) (\<lambda>_.
        update_sg_of_port A L G' (sp_fixed_ips y) (sp_groups y) False)) s2 = Inr (u, t)"
    by (auto simp: port_updated_groups_def dbind_Inr Let_def)
  let ?F1 = "stepped L (sp_fixed_ips y) ?removed True ?F"
  let ?F2 = "stepped L (sp_fixed_ips y) ?added False ?F1"
  have l1: "lists A G' ?F1 s1 \<and> ds_ext s1 = ds_ext (set_neutron db' s)" by (rule update_stepped[OF A d F0 s1])
  have l2: "lists A G' ?F2 s2 \<and> ds_ext s2 = ds_ext s1" using update_stepped[OF A d _ s2] l1 by blast
  have shape: "admitted L G (ds_neutron s) r = fitting L r (others G (ds_neutron s) p (the (sr_remote_group_id r))) \<union>
      (if the (sr_remote_group_id r) \<in> set (sp_groups x) then fitting L r (set (sp_fixed_ips x)) else {})"
    "admitted L G' db' r = fitting L r (others G (ds_neutron s) p (the (sr_remote_group_id r))) \<union>
      (if the (sr_remote_group_id r) \<in> set (sp_groups y) then fitting L r (set (sp_fixed_ips y)) else {})" for r :: sg_rule_row
    unfolding admitted_def group_ips_port[of G "ds_neutron s" _ p] group_ips_port[of G' db' _ p] others_same[OF same]
    using x y by (simp_all add: shows_port_def fitting_Un)
  have away: "fitting L r (others G (ds_neutron s) p g) - set (sp_fixed_ips x) = fitting L r (others G (ds_neutron s) p g)"
    "fitting L r (others G (ds_neutron s) p g) - set (sp_fixed_ips y) = fitting L r (others G (ds_neutron s) p g)"
    if "g \<in> set (sp_groups x) \<union> set (sp_groups y)" for r g
    using apart that by (auto simp: apart_def fitting_def)
  show ?thesis
  proof (cases "set (sp_fixed_ips x) = set (sp_fixed_ips y)")
    case True
    then have t: "t = s2" using rest by simp
    have e: "ds_neutron t = db'" using l1 l2 by (simp add: t set_neutron_tables)
    show ?thesis unfolding e unfolding t
    proof (rule lists_cong[OF conjunct1[OF l2]])
      fix r :: sg_rule_row assume r: "truthy (sr_remote_group_id r)"
      show "?F2 r = admitted L G' db' r"
        unfolding stepped_def names_group_truthy[OF r] change_spec_def shape
        using away[of "the (sr_remote_group_id r)" r] True
        by (auto simp: Un_Diff fitting_minus)
    qed
  next
    case False
    then obtain s3 where s3: "update_sg_of_port A L G' (sp_fixed_ips x) (sp_groups y) True s2 = Inr ((), s3)"
      and s4: "update_sg_of_port A L G' (sp_fixed_ips y) (sp_groups y) False s3 = Inr (u, t)"
      using rest by (auto simp: dbind_Inr)
    let ?F3 = "stepped L (sp_fixed_ips x) (sp_groups y) True ?F2"
    let ?F4 = "stepped L (sp_fixed_ips y) (sp_groups y) False ?F3"
    have l3: "lists A G' ?F3 s3 \<and> ds_ext s3 = ds_ext s2" using update_stepped[OF A d _ s3] l2 by blast
    have l4: "lists A G' ?F4 t \<and> ds_ext t = ds_ext s3" using update_stepped[OF A d _ s4] l3 by blast
    have e: "ds_neutron t = db'" using l1 l2 l3 l4 by (simp add: set_neutron_tables)
    show ?thesis unfolding e
    proof (rule lists_cong[OF conjunct1[OF l4]])
      fix r :: sg_rule_row assume r: "truthy (sr_remote_group_id r)"
      let ?g = "the (sr_remote_group_id r)"
      have gone: "fitting L r (set (sp_fixed_ips x)) - set (sp_fixed_ips y) = {}" if "?g \<in> set (sp_groups x)" "?g \<notin> set (sp_groups y)"
        using stays that by (auto simp: fitting_def)
      show "?F4 r = admitted L G' db' r"
        unfolding stepped_def names_group_truthy[OF r] change_spec_def shape
        using away[of ?g r] gone by (auto simp: Un_Diff fitting_minus)
    qed
  qed
qed

section \<open>Rules and groups\<close>

lemma attr_strs_set_attr: "attr_strs (set_attr k v q) k' = (if k' = k then (case v of AStrs vs \<Rightarrow> vs | _ \<Rightarrow> []) else attr_strs q k')"
  by (simp add: attr_strs_def set_attr_def split: aim_value.split)

lemma ips_of_version_set: "ips_of_version L v ips = Inr ips' \<Longrightarrow>
    set ips' = {ip \<in> set ips. sl_ip_version L ip = Inr v} \<and> (distinct ips \<longrightarrow> distinct ips')"
  by (induction ips arbitrary: ips') (auto simp: bindE_Inr_iff split: if_splits)

lemma key_of_other: "sr_id q \<noteq> sr_id r \<Longrightarrow> key_of G q \<noteq> key_of G' r"
  by (simp add: key_of_def)

lemma remote_side_Inr:
  assumes "remote_side L G r s = Inr ((v, dn, g), t)" "get_hpp_normalized (ds_ext s) = Inr False"
  shows "t = s" and "truthy (sr_remote_group_id r) \<Longrightarrow>
    \<exists>ips. v = AStrs ips \<and> ips_of_version L (ethertype_version (sr_ethertype r)) (group_ips G (ds_neutron s) (the (sr_remote_group_id r))) = Inr ips"
  using assms by (auto simp: remote_side_def dbind_Inr Let_def split: if_splits)

lemma rule_created_exact:
  assumes A: "aim_rules_ok A" and ok: "sg_ok G" and F: "lists A G (admitted L G (ds_neutron s)) s"
    and new: "sr_id r \<notin> sr_id ` set (sg_rules G)"
    and d: "distinct (group_ips G (ds_neutron s) (the (sr_remote_group_id r)))"
    and c: "create_security_group_rule_precommit A L (G\<lparr> sg_rules := sg_rules G @ [r] \<rparr>) r s = Inr (u, t)"
  shows "sg_ok (G\<lparr> sg_rules := sg_rules G @ [r] \<rparr>) \<and>
    lists A (G\<lparr> sg_rules := sg_rules G @ [r] \<rparr>) (admitted L (G\<lparr> sg_rules := sg_rules G @ [r] \<rparr>) (ds_neutron t)) t"
proof -
  let ?G = "G\<lparr> sg_rules := sg_rules G @ [r] \<rparr>"
  have h: "get_hpp_normalized (ds_ext s) = Inr False" using F by (simp add: lists_def)
  from c obtain y v dn g w code type x where y: "map_of (sg_groups G) (sr_group_id r) = Some y"
    and v': "remote_side L ?G r s = Inr ((v, dn, g), w)"
    and x': "d_create A (with_attrs
       [(''direction'', AStr (Some (sr_direction r))), (''ethertype'', AStr (Some (py_lower (sr_ethertype r)))),
        (''ip_protocol'', AStr (Some (get_aim_protocol L (sr_protocol r)))), (''remote_ips'', v),
        (''icmp_code'', code), (''icmp_type'', type),
        (''from_port'', or_unspecified (sr_port_min r)), (''to_port'', or_unspecified (sr_port_max r)),
        (''tDn'', AStr (Some dn)), (''remote_group_id'', AStr (Some g))]
        (sg_rule_res (Some (project_name y [])) (sr_group_id r) (sr_id r))) w = Inr (x, t)"
    by (auto simp: create_security_group_rule_precommit_def dbind_Inr sg_tenant_Inr)
  have w: "w = s" by (rule remote_side_Inr(1)[OF v' h])
  note v = v'[unfolded w] and x = x'[unfolded w]
  note e = rules_created[OF A x, simplified rule_attributes_def, simplified]
  have k: "key_of ?G r = (Some (project_name y []), sr_group_id r, sr_id r)" by (simp add: key_of_def y)
  have keys: "key_of ?G q = key_of G q" for q by (simp add: key_of_def)
  have ips: "group_ips ?G db gr = group_ips G db gr" for db gr by (simp add: group_ips_def sg_ports_def)
  have adm: "admitted L ?G db q = admitted L G db q" for db q by (simp add: admitted_def ips)
  have t: "ds_neutron t = ds_neutron s" using e(2) by simp
  have "sg_ok ?G" using ok new y by (auto simp: sg_ok_def)
  moreover have "\<exists>ips. rule_list A (ds_aim t) (key_of ?G q) = Some ips \<and> distinct ips \<and> set ips = admitted L ?G (ds_neutron t) q"
    if q: "q \<in> set (sg_rules ?G)" "truthy (sr_remote_group_id q)" for q
  proof (cases "q = r")
    case True
    then obtain is' where i: "v = AStrs is'" "ips_of_version L (ethertype_version (sr_ethertype r))
        (group_ips G (ds_neutron s) (the (sr_remote_group_id r))) = Inr is'"
      using remote_side_Inr(2)[OF v h] q(2) ips by auto
    have "rule_list A (ds_aim t) (key_of ?G r) = Some is'"
      unfolding k e(1) by (simp add: i(1) with_attrs_def attr_strs_set_attr)
    then show ?thesis
      using ips_of_version_set[OF i(2)] d True by (auto simp: admitted_def fitting_def t ips)
  next
    case False
    then have q': "q \<in> set (sg_rules G)" using q by simp
    then have "sr_id q \<noteq> sr_id r" using new by (metis image_eqI)
    then have "key_of G q \<noteq> (Some (project_name y []), sr_group_id r, sr_id r)" by (simp add: key_of_def)
    then have "rule_list A (ds_aim t) (key_of G q) = rule_list A (ds_aim s) (key_of G q)" unfolding e(1) by (rule fun_upd_other)
    then show ?thesis using F q' q(2) unfolding lists_def keys adm t by metis
  qed
  ultimately show ?thesis using h e(2) by (simp add: lists_def)
qed

lemma rule_deleted_exact:
  assumes A: "aim_rules_ok A" and ok: "sg_ok G" and F: "lists A G (admitted L G (ds_neutron s)) s"
    and c: "delete_security_group_rule_precommit A G r s = Inr (u, t)"
    and G': "G' = G\<lparr> sg_rules := filter (\<lambda>q. sr_id q \<noteq> sr_id r) (sg_rules G) \<rparr>"
  shows "sg_ok G' \<and> lists A G' (admitted L G' (ds_neutron t)) t"
proof -
  from c obtain y where x: "d_delete A (Some (sg_rule_res (Some (project_name y [])) (sr_group_id r) (sr_id r))) s = Inr (u, t)"
    by (auto simp: delete_security_group_rule_precommit_def dbind_Inr sg_tenant_Inr)
  note e = rules_deleted[OF A x]
  have keys: "key_of G' q = key_of G q" for q by (simp add: key_of_def G')
  have adm: "admitted L G' db q = admitted L G db q" for db q by (simp add: admitted_def group_ips_def sg_ports_def G')
  have "rule_list A (ds_aim t) (key_of G q) = rule_list A (ds_aim s) (key_of G q)" if "sr_id q \<noteq> sr_id r" for q
  proof -
    have "key_of G q \<noteq> (Some (project_name y []), sr_group_id r, sr_id r)" using that by (simp add: key_of_def)
    then show ?thesis unfolding e(1) by (rule fun_upd_other)
  qed
  then have "lists A G' (admitted L G' (ds_neutron t)) t"
    using F e(2) unfolding lists_def keys adm by (auto simp: G')
  moreover have "sg_ok G'" using ok by (auto simp: sg_ok_def G' distinct_map_filter)
  ultimately show ?thesis by blast
qed

lemma implicit_rules_loop:
  assumes A: "aim_rules_ok A"
    and "deach (\<lambda>r. dbind (d_create A (implicit_rule_res tenant g r)) (\<lambda>_. dret ())) rs s = Inr (x, t)"
  shows "ds_ext t = ds_ext s \<and> (\<forall>k. rule_list A (ds_aim t) k =
    (if k \<in> (\<lambda>r. (tenant, g, sr_id r)) ` set rs then Some [] else rule_list A (ds_aim s) k))"
  using assms(2)
proof (induction rs arbitrary: s)
  case Nil
  then show ?case by simp
next
  case (Cons r rs)
  then obtain y u where y: "d_create A (implicit_rule_res tenant g r) s = Inr (y, u)"
    and t: "deach (\<lambda>r. dbind (d_create A (implicit_rule_res tenant g r)) (\<lambda>_. dret ())) rs u = Inr (x, t)"
    by (auto simp: dbind_Inr)
  note e = rules_created[OF A y[unfolded implicit_rule_res_def], simplified rule_attributes_def, simplified]
  have "rule_list A (ds_aim u) = (rule_list A (ds_aim s))((tenant, g, sr_id r) \<mapsto> [])"
    unfolding e(1) by (simp add: with_attrs_def attr_strs_set_attr or_empty_def)
  then show ?case using Cons.IH[OF t] e(2) by (auto simp del: rule_list.simps split_paired_All)
qed

lemma group_created_exact:
  assumes A: "aim_rules_ok A" and ok: "sg_ok G" and F: "lists A G (admitted L G (ds_neutron s)) s"
    and g: "g \<notin> fst ` set (sg_groups G)" and b: "g \<notin> snd ` set (sg_bindings G)"
    and d: "distinct (map sr_id (sg_rules G @ rs))"
    and rs: "\<forall>r \<in> set rs. sr_group_id r = g \<and> (truthy (sr_remote_group_id r) \<longrightarrow> sr_remote_group_id r = Some g)"
    and c: "create_security_group_precommit A g name tenant rs s = Inr (u, t)"
    and G': "G' = G\<lparr> sg_groups := sg_groups G @ [(g, tenant)], sg_rules := sg_rules G @ rs \<rparr>"
  shows "sg_ok G' \<and> lists A G' (admitted L G' (ds_neutron t)) t"
proof -
  let ?t = "Some (project_name tenant [])"
  have h: "get_hpp_normalized (ds_ext s) = Inr False" using F by (simp add: lists_def)
  from c obtain x1 s1 x2 s2 s3 where 1: "d_create A (set_attr ''display_name'' (AStr (Some (sanitize_display_name A name))) (sg_res ?t g)) s = Inr (x1, s1)"
    and 2: "d_create A (aim_res_of (OtherClass ''SecurityGroupSubject'') [(''tenant_name'', AStr ?t),
         (''security_group_name'', AStr (Some g)), (''name'', AStr (Some ''default''))]) s1 = Inr (x2, s2)"
    and 3: "\<exists>hpp. get_hpp_normalized (ds_ext s2) = Inr hpp \<and> (hpp \<or> s3 = s2)"
    and 4: "deach (\<lambda>r. dbind (d_create A (implicit_rule_res ?t g r)) (\<lambda>_. dret ())) rs s3 = Inr (u, t)"
    by (auto simp: create_security_group_precommit_def dbind_Inr Let_def dwhen_def split: if_splits)
  have e1: "rule_list A (ds_aim s1) = rule_list A (ds_aim s) \<and> ds_ext s1 = ds_ext s"
    by (rule other_created[OF A 1]) (simp add: sg_res_def aim_res_of_def)
  have e2: "rule_list A (ds_aim s2) = rule_list A (ds_aim s1) \<and> ds_ext s2 = ds_ext s1"
    by (rule other_created[OF A 2]) (simp add: aim_res_of_def)
  have s3: "s3 = s2" using 3 h e1 e2 by auto
  note e = implicit_rules_loop[OF A 4]
  have t: "ds_ext t = ds_ext s" using e e1 e2 s3 by simp
  have old: "map_of (sg_groups G') x = map_of (sg_groups G) x" if "map_of (sg_groups G) x \<noteq> None" for x
    using that by (auto simp: G' map_add_def split: option.splits)
  have new: "map_of (sg_groups G') g = Some tenant"
    using g by (auto simp: G' map_add_def map_of_eq_None_iff[symmetric] split: option.splits)
  have knew: "key_of G' r = (?t, g, sr_id r)" if "r \<in> set rs" for r
    using rs that new by (simp add: key_of_def)
  have kold: "key_of G' r = key_of G r" if "r \<in> set (sg_rules G)" for r
    using old ok that by (simp add: key_of_def sg_ok_def)
  have adm: "admitted L G' db q = admitted L G db q" for db q by (simp add: admitted_def group_ips_def sg_ports_def G')
  have empty: "group_ips G db g = []" for db using b by (fastforce simp: group_ips_def sg_ports_def)
  have "\<exists>ips. rule_list A (ds_aim t) (key_of G' q) = Some ips \<and> distinct ips \<and> set ips = admitted L G' (ds_neutron t) q"
    if q: "q \<in> set (sg_rules G')" "truthy (sr_remote_group_id q)" for q
  proof (cases "q \<in> set rs")
    case True
    then have "key_of G' q \<in> (\<lambda>r. (?t, g, sr_id r)) ` set rs" by (simp add: knew)
    then have "rule_list A (ds_aim t) (key_of G' q) = Some []" using e by metis
    moreover have "sr_remote_group_id q = Some g" using rs True q(2) by blast
    then have "admitted L G' (ds_neutron t) q = {}" unfolding adm by (simp add: admitted_def empty)
    ultimately show ?thesis by simp
  next
    case False
    then have q': "q \<in> set (sg_rules G)" using q(1) by (simp add: G')
    have "sr_id q \<notin> sr_id ` set rs" using d q' by auto
    then have "key_of G' q \<notin> (\<lambda>r. (?t, g, sr_id r)) ` set rs" by (auto simp: key_of_def)
    then have "rule_list A (ds_aim t) (key_of G' q) = rule_list A (ds_aim s) (key_of G q)"
      using e e1 e2 s3 kold[OF q'] by metis
    then show ?thesis using F q' q(2) unfolding lists_def adm t by metis
  qed
  moreover have "sg_ok G'" using ok d rs new old by (auto simp: sg_ok_def G' map_add_def split: option.splits)
  ultimately show ?thesis using h t by (simp add: lists_def)
qed

lemma group_deleted_exact:
  assumes C: "cascade_ok A cascade" and ok: "sg_ok G" and F: "lists A G (admitted L G (ds_neutron s)) s"
    and c: "delete_security_group_precommit cascade g tenant s = Inr (u, t)"
    and G': "G' = G\<lparr> sg_groups := filter (\<lambda>x. fst x \<noteq> g) (sg_groups G),
      sg_rules := filter (\<lambda>r. sr_group_id r \<noteq> g \<and> sr_remote_group_id r \<noteq> Some g) (sg_rules G) \<rparr>"
  shows "sg_ok G' \<and> lists A G' (admitted L G' (ds_neutron t)) t"
proof -
  have m: "map_of (filter (\<lambda>x. fst x \<noteq> g) xs) i = map_of xs i" if "i \<noteq> g" for i and xs :: "(string \<times> string) list"
    using that by (induction xs) auto
  from c obtain a where a: "cascade (sg_res (Some (project_name tenant [])) g) (ds_aim s) = Inr a" "t = s\<lparr> ds_aim := a \<rparr>"
    by (auto simp: delete_security_group_precommit_def lift_aim0_Inr)
  have keys: "key_of G' q = key_of G q" if "sr_group_id q \<noteq> g" for q using m[OF that] by (simp add: key_of_def G')
  have adm: "admitted L G' db q = admitted L G db q" for db q by (simp add: admitted_def group_ips_def sg_ports_def G')
  have "rule_list A (ds_aim t) (key_of G q) = rule_list A (ds_aim s) (key_of G q)" if "sr_group_id q \<noteq> g" for q
    using C a that unfolding cascade_ok_def key_of_def by (simp del: rule_list.simps)
  then have "lists A G' (admitted L G' (ds_neutron t)) t"
    using F a(2) keys unfolding lists_def adm by (simp add: G' del: rule_list.simps)
  moreover have "sg_ok G'" using ok m by (auto simp: sg_ok_def G' distinct_map_filter)
  ultimately show ?thesis by blast
qed

lemma sg_state_exact:
  assumes A: "aim_rules_ok A" and C: "cascade_ok A cascade" and s: "sg_state A L cascade G s"
  shows "sg_ok G \<and> lists A G (admitted L G (ds_neutron s)) s"
  using s
proof (induction rule: sg_state.induct)
  case (sg_start G s)
  then show ?case by (simp add: sg_ok_def lists_def)
next
  case (sg_rule_created G s r G' u t)
  then show ?case using rule_created_exact[OF A, of G L s r u t] by blast
next
  case (sg_rule_deleted G s r u t)
  then show ?case using rule_deleted_exact[OF A _ _ sg_rule_deleted.hyps(3) refl] by blast
next
  case (sg_group_created G s g rs name tenant u t)
  then show ?case using group_created_exact[OF A _ _ sg_group_created.hyps(2-6) refl] by blast
next
  case (sg_group_deleted G s g tenant u t)
  then show ?case using group_deleted_exact[OF C _ _ sg_group_deleted.hyps(4) refl] by blast
next
  case (sg_port_created G s p G' db' x u t)
  then have "sg_ok G'" by (simp add: sg_ok_def same_elsewhere_def)
  then show ?case using port_created_exact[OF A _ _ sg_port_created.hyps(2-5)] sg_port_created.IH by blast
next
  case (sg_port_deleted G s p x u t G' db')
  then have "sg_ok G'" by (simp add: sg_ok_def same_elsewhere_def)
  then show ?case using port_deleted_exact[OF A _ _ sg_port_deleted.hyps(2-6)] sg_port_deleted.IH by (simp add: set_neutron_tables)
next
  case (sg_port_updated G s p x G' db' y u t)
  then have "sg_ok G'" by (simp add: sg_ok_def same_elsewhere_def)
  then show ?case using port_updated_exact[OF A _ _ sg_port_updated.hyps(2-7)] sg_port_updated.IH by blast
qed

section \<open>The property\<close>


end
