(* ===== verification/Security_Group_Examples.thy ===== *)
theory Security_Group_Examples
  imports Security_Group_Laws
begin

text \<open>
  The theorem on the address lists of rules applied to a group with one port, and three requests
  that leave wrong lists: a port that leaves a group and changes its address at once, a port that goes while
  another port of the group has the same address on another network, and a changed address group.
\<close>

section \<open>The library\<close>

lemma same_id_rule: "same_id (sg_rule_res t g i) (sg_rule_res t' g' i') \<longleftrightarrow> t = t' \<and> g = g' \<and> i = i'"
  by (auto simp: same_id_def identity_keys_def other_keys_def sg_rule_res_def aim_res_of_def attr_str_def)

lemma rule_keys: "same_id (sg_rule_res t g i) q \<Longrightarrow> k \<in> set other_keys \<Longrightarrow> attr_str q k = attr_str (sg_rule_res t g i) k"
  by (auto simp: same_id_def identity_keys_def sg_rule_res_def aim_res_of_def list_all_iff)

lemma same_id_attrs_list: "fst ` set as \<inter> set (identity_keys (ar_class r)) = {} \<Longrightarrow> same_id q (with_attrs as r) = same_id q r"
  unfolding with_attrs_def by (induction as arbitrary: r) (auto simp: same_id_attr)

lemma rule_attributes_no_identity: "rule_attributes \<inter> set (identity_keys c) = {}"
  by (simp add: rule_attributes_def identity_keys_def other_keys_def)

lemma rule_list_demo: "rule_list demo_aim a (t, g, i) = map_option (\<lambda>q. attr_strs q ''remote_ips'') (demo_get (sg_rule_res t g i) a)"
  by (simp add: demo_aim_def)

lemma demo_get_class: "demo_get q a = Some r \<Longrightarrow> ar_class r = ar_class q"
  by (drule find_same_id) (simp add: same_id_def)

lemma demo_rules_ok: "aim_rules_ok demo_aim"
  unfolding aim_rules_ok_def
proof (intro conjI allI impI)
  fix t g i ips a x a'
  assume u: "aim_update demo_aim (sg_rule_res t g i) [(''remote_ips'', AStrs ips)] a = Inr (x, a')"
  show "rule_list demo_aim a' = (if rule_list demo_aim a (t, g, i) = None then rule_list demo_aim a else (rule_list demo_aim a)((t, g, i) \<mapsto> ips))"
  proof (cases "demo_get (sg_rule_res t g i) a")
    case None
    then show ?thesis using u by (simp add: demo_aim_def)
  next
    case (Some y)
    let ?y = "set_attr ''remote_ips'' (AStrs ips) y"
    have a': "a' = map (\<lambda>q. if same_id (sg_rule_res t g i) q then ?y else q) a"
      using u Some by (simp add: demo_aim_def Let_def)
    have "same_id (sg_rule_res t g i) ?y"
      using find_same_id[OF Some] by (simp add: same_id_attr identity_keys_def other_keys_def)
    note get = demo_get_changed[OF this, of _ a]
    have "rule_list demo_aim a' (t', g', i') = ((rule_list demo_aim a)((t, g, i) \<mapsto> ips)) (t', g', i')" for t' g' i'
      unfolding a' rule_list_demo get by (auto simp: rule_list_demo same_id_rule Some attr_strs_set_attr simp del: rule_list.simps)
    moreover have "rule_list demo_aim a (t, g, i) \<noteq> None" unfolding rule_list_demo using Some by simp
    ultimately show ?thesis by (auto simp: fun_eq_iff simp del: rule_list.simps)
  qed
next
  fix t g i as ow a x a'
  assume "fst ` set as \<subseteq> rule_attributes \<and> aim_create demo_aim (with_attrs as (sg_rule_res t g i)) ow a = Inr (x, a')"
  then have as: "fst ` set as \<inter> set (identity_keys (ar_class r)) = {}"
    and c: "aim_create demo_aim (with_attrs as (sg_rule_res t g i)) ow a = Inr (x, a')" for r
    using rule_attributes_no_identity by auto
  from c have a': "a' = filter (\<lambda>q. \<not> same_id (with_attrs as (sg_rule_res t g i)) q) a @ [with_attrs as (sg_rule_res t g i)]"
    by (simp add: demo_aim_def) metis
  have "rule_list demo_aim a' (t', g', i') =
      ((rule_list demo_aim a)((t, g, i) \<mapsto> attr_strs (with_attrs as (sg_rule_res t g i)) ''remote_ips'')) (t', g', i')" for t' g' i'
    unfolding a' rule_list_demo demo_get_created
    by (auto simp: rule_list_demo same_id_attrs_list[OF as] same_id_rule simp del: rule_list.simps)
  then show "rule_list demo_aim a' = (rule_list demo_aim a)((t, g, i) \<mapsto> attr_strs (with_attrs as (sg_rule_res t g i)) ''remote_ips'')"
    by (auto simp: fun_eq_iff simp del: rule_list.simps)
next
  fix r ow a x a'
  assume r: "ar_class r \<noteq> OtherClass ''SecurityGroupRule'' \<and> aim_create demo_aim r ow a = Inr (x, a')"
  then have a': "a' = filter (\<lambda>q. \<not> same_id r q) a @ [r]" by (simp add: demo_aim_def) metis
  have "\<not> same_id (sg_rule_res t g i) r" for t g i
    using r by (auto simp: same_id_def sg_rule_res_def aim_res_of_def)
  then have "rule_list demo_aim a' (t, g, i) = rule_list demo_aim a (t, g, i)" for t g i
    unfolding a' rule_list_demo demo_get_created by simp
  then show "rule_list demo_aim a' = rule_list demo_aim a" by (auto simp: fun_eq_iff simp del: rule_list.simps)
next
  fix t g i a a'
  assume "aim_delete demo_aim (Some (sg_rule_res t g i)) a = Inr a'"
  then have a': "a' = filter (\<lambda>q. \<not> same_id (sg_rule_res t g i) q) a" by (simp add: demo_aim_def)
  have "rule_list demo_aim a' (t', g', i') = ((rule_list demo_aim a)((t, g, i) := None)) (t', g', i')" for t' g' i'
    unfolding a' rule_list_demo demo_get_deleted by (auto simp: rule_list_demo same_id_rule simp del: rule_list.simps)
  then show "rule_list demo_aim a' = (rule_list demo_aim a)((t, g, i) := None)"
    by (auto simp: fun_eq_iff simp del: rule_list.simps)
qed

definition demo_cascade :: "aim_res \<Rightarrow> aim_res list \<Rightarrow> fabric_error + aim_res list" where
  "demo_cascade r a = Inr (filter (\<lambda>q. attr_str q ''security_group_name'' \<noteq> attr_str r ''name'') a)"

lemma demo_cascade_ok: "cascade_ok demo_aim demo_cascade"
  unfolding cascade_ok_def
proof (intro allI impI)
  fix t g a a' t' g' i
  assume "demo_cascade (sg_res t g) a = Inr a'" and g: "g' \<noteq> g"
  then have a': "a' = filter (\<lambda>q. attr_str q ''security_group_name'' \<noteq> Some g) a"
    by (simp add: demo_cascade_def sg_res_def aim_res_of_def attr_str_def)
  have "same_id (sg_rule_res t' g' i) q \<Longrightarrow> attr_str q ''security_group_name'' \<noteq> Some g" for q
    using g rule_keys[of t' g' i q "''security_group_name''"] by (simp add: other_keys_def) (simp add: sg_rule_res_def aim_res_of_def attr_str_def)
  then have "demo_get (sg_rule_res t' g' i) a' = demo_get (sg_rule_res t' g' i) a"
    unfolding a' demo_get_def by (induction a) auto
  then show "rule_list demo_aim a' (t', g', i) = rule_list demo_aim a (t', g', i)" by (simp add: rule_list_demo del: rule_list.simps)
qed

section \<open>A group with a port\<close>

definition demo_sg_lib :: sg_lib where
  "demo_sg_lib = \<lparr> sl_ip_version = (\<lambda>ip. Inr (if CHR '':'' \<in> set ip then 6 else 4)),
     sl_container_dn = (\<lambda>t g. t @ ''/'' @ g), sl_protocol_map = (\<lambda>p. None) \<rparr>"

definition demo_sg_rule :: sg_rule_row where
  "demo_sg_rule = \<lparr> sr_id = ''r1'', sr_group_id = ''g'', sr_direction = ''ingress'', sr_ethertype = ''IPv4'', sr_protocol = None,
     sr_port_min = None, sr_port_max = None, sr_remote_ip_prefix = None, sr_remote_group_id = Some ''g'',
     sr_remote_address_group_id = None \<rparr>"

definition demo_sg_tables :: "(string \<times> string) list \<Rightarrow> sg_db" where
  "demo_sg_tables bindings = \<lparr> sg_groups = [(''g'', ''T'')], sg_rules = [demo_sg_rule], sg_bindings = bindings,
     sg_address_groups = [], sg_addresses = [] \<rparr>"

definition demo_no_groups :: sg_db where
  "demo_no_groups = \<lparr> sg_groups = [], sg_rules = [], sg_bindings = [], sg_address_groups = [], sg_addresses = [] \<rparr>"

definition demo_sg_port_row :: "string \<Rightarrow> port_row" where
  "demo_sg_port_row p = \<lparr> port_id = p, port_network_id = ''n'', port_device_id = ''vm'', port_device_owner = ''compute:'', port_name = [],
     port_mac = [], port_project_id = ''T'', port_admin_state_up = True \<rparr>"

text \<open>Ports with their addresses.\<close>

definition demo_ports :: "(string \<times> string) list \<Rightarrow> neutron_db" where
  "demo_ports ps = \<lparr> nt_scopes = [], nt_pools = [], nt_networks = [], nt_subnets = [], nt_ports = map (\<lambda>(p, _). demo_sg_port_row p) ps,
     nt_allocs = map (\<lambda>(p, ip). \<lparr> alloc_port_id = p, alloc_subnet_id = ''s'', alloc_ip = ip, alloc_network_id = ''n'' \<rparr>) ps,
     nt_routers = [], nt_router_ports = [], nt_scope_mappings = [], nt_network_mappings = [] \<rparr>"

definition demo_sg_start :: "aim_res list drv_state" where
  "demo_sg_start = \<lparr> ds_ext = \<lparr> xd_neutron = demo_ports [], xd_erspans = [], xd_networks = [], xd_cidrs = [], xd_vlans = [],
     xd_contracts = [], xd_masters = [], xd_no_nat_cidrs = [], xd_subnets = [], xd_snat_mappings = [], xd_router_contracts = [], xd_hpp = [False] \<rparr>,
     ds_aim = [], ds_external = [], ds_ports_to_notify = {}, ds_vrfs_to_notify = {}, ds_published = [] \<rparr>"

definition demo_group_made :: "aim_res list drv_state" where
  "demo_group_made = after (create_security_group_precommit demo_aim ''g'' ''web'' ''T'' [demo_sg_rule] demo_sg_start) demo_sg_start"

definition demo_sg_port :: sg_port where
  "demo_sg_port = \<lparr> sp_groups = [''g''], sp_fixed_ips = [''10.0.0.5''] \<rparr>"

definition demo_port_made :: "aim_res list drv_state" where
  "demo_port_made = after (port_created_groups demo_aim demo_sg_lib (demo_sg_tables [(''p'', ''g'')]) demo_sg_port
     (set_neutron (demo_ports [(''p'', ''10.0.0.5'')]) demo_group_made)) demo_group_made"

lemma demo_sg_runs:
  "succeeds (create_security_group_precommit demo_aim ''g'' ''web'' ''T'' [demo_sg_rule] demo_sg_start)"
  "succeeds (port_created_groups demo_aim demo_sg_lib (demo_sg_tables [(''p'', ''g'')]) demo_sg_port
     (set_neutron (demo_ports [(''p'', ''10.0.0.5'')]) demo_group_made))"
  by code_simp+

lemma demo_group_neutron: "ds_neutron demo_group_made = demo_ports []"
  by code_simp

lemma demo_port_made_state: "sg_state demo_aim demo_sg_lib demo_cascade (demo_sg_tables [(''p'', ''g'')]) demo_port_made"
proof -
  have start: "sg_state demo_aim demo_sg_lib demo_cascade demo_no_groups demo_sg_start"
    by (rule sg_start) (simp_all add: demo_no_groups_def demo_sg_start_def get_hpp_normalized_def)
  obtain u where c: "create_security_group_precommit demo_aim ''g'' ''web'' ''T'' [demo_sg_rule] demo_sg_start = Inr (u, demo_group_made)"
    using after_succeeds[OF demo_sg_runs(1)] unfolding demo_group_made_def by blast
  have "sg_state demo_aim demo_sg_lib demo_cascade
      (demo_no_groups\<lparr> sg_groups := sg_groups demo_no_groups @ [(''g'', ''T'')], sg_rules := sg_rules demo_no_groups @ [demo_sg_rule] \<rparr>) demo_group_made"
    by (rule sg_group_created[OF start _ _ _ _ c]) (simp_all add: demo_no_groups_def demo_sg_rule_def)
  then have made: "sg_state demo_aim demo_sg_lib demo_cascade (demo_sg_tables []) demo_group_made"
    by (simp add: demo_no_groups_def demo_sg_tables_def)
  obtain v where v: "port_created_groups demo_aim demo_sg_lib (demo_sg_tables [(''p'', ''g'')]) demo_sg_port
     (set_neutron (demo_ports [(''p'', ''10.0.0.5'')]) demo_group_made) = Inr (v, demo_port_made)"
    using after_succeeds[OF demo_sg_runs(2)] unfolding demo_port_made_def by blast
  show ?thesis
  proof (rule sg_port_created[OF made _ _ _ v])
    show "no_port (demo_sg_tables []) (ds_neutron demo_group_made) ''p''"
      by (simp add: no_port_def port_in_def demo_sg_tables_def)
    show "same_elsewhere ''p'' (demo_sg_tables []) (ds_neutron demo_group_made) (demo_sg_tables [(''p'', ''g'')]) (demo_ports [(''p'', ''10.0.0.5'')])"
      unfolding demo_group_neutron
      by (auto simp: same_elsewhere_def demo_sg_tables_def port_in_def fixed_ips_of_def demo_ports_def demo_sg_port_row_def)
    show "shows_port (demo_sg_tables [(''p'', ''g'')]) (demo_ports [(''p'', ''10.0.0.5'')]) ''p'' demo_sg_port"
      by (auto simp: shows_port_def demo_sg_tables_def port_in_def fixed_ips_of_def demo_ports_def demo_sg_port_row_def demo_sg_port_def)
  qed
qed


section \<open>Wrong lists\<close>

text \<open>
  The port leaves the group and gets another address: the code takes the new address from the rules of
  the group that is left, and the old one stays in the rule of a group without ports.
\<close>

theorem left_group_keeps_address:
  "rule_list demo_aim (ds_aim (after (port_updated_groups demo_aim demo_sg_lib (demo_sg_tables []) demo_sg_port
       \<lparr> sp_groups = [], sp_fixed_ips = [''10.0.0.6''] \<rparr> (set_neutron (demo_ports [(''p'', ''10.0.0.6'')]) demo_port_made)) demo_port_made))
     (key_of (demo_sg_tables []) demo_sg_rule) = Some [''10.0.0.5''] \<and>
   group_ips (demo_sg_tables []) (demo_ports [(''p'', ''10.0.0.6'')]) ''g'' = []"
  by code_simp

text \<open>
  Two ports of the group have the address on different networks: when the first goes, the address
  goes from the rule although the second port has it.
\<close>

definition demo_two_ports :: "aim_res list drv_state" where
  "demo_two_ports = after (port_created_groups demo_aim demo_sg_lib (demo_sg_tables [(''p'', ''g''), (''q'', ''g'')]) demo_sg_port
     (set_neutron (demo_ports [(''p'', ''10.0.0.5''), (''q'', ''10.0.0.5'')]) demo_port_made)) demo_port_made"

theorem shared_address_lost:
  "rule_list demo_aim (ds_aim (after (port_deleted_groups demo_aim demo_sg_lib (demo_sg_tables [(''p'', ''g''), (''q'', ''g'')]) demo_sg_port
       demo_two_ports) demo_two_ports)) (key_of (demo_sg_tables []) demo_sg_rule) = Some [] \<and>
   group_ips (demo_sg_tables [(''q'', ''g'')]) (demo_ports [(''q'', ''10.0.0.5'')]) ''g'' = [''10.0.0.5'']"
  by code_simp

text \<open>The addresses of one address group changed: the rule of another address group gets them.\<close>

definition demo_ag_rule :: "string \<Rightarrow> string \<Rightarrow> sg_rule_row" where
  "demo_ag_rule i ag = demo_sg_rule\<lparr> sr_id := i, sr_remote_group_id := None, sr_remote_address_group_id := Some ag \<rparr>"

definition demo_ag_tables :: sg_db where
  "demo_ag_tables = \<lparr> sg_groups = [(''g'', ''T'')], sg_rules = [demo_ag_rule ''r1'' ''a'', demo_ag_rule ''r2'' ''b''], sg_bindings = [],
     sg_address_groups = [''a'', ''b''], sg_addresses = [(''a'', ''1.0.0.1''), (''b'', ''2.0.0.1'')] \<rparr>"

definition demo_ag_made :: "aim_res list drv_state" where
  "demo_ag_made = (let s = after (create_security_group_rule_precommit demo_aim demo_sg_lib demo_ag_tables (demo_ag_rule ''r1'' ''a'') demo_sg_start) demo_sg_start
     in after (create_security_group_rule_precommit demo_aim demo_sg_lib demo_ag_tables (demo_ag_rule ''r2'' ''b'') s) s)"

theorem other_address_group_changed:
  "rule_list demo_aim (ds_aim (after (update_addresses_in_address_group demo_aim demo_ag_tables ''T'' [''2.0.0.1''] [''2.0.0.1'', ''2.0.0.2'']
       demo_ag_made) demo_ag_made)) (key_of demo_ag_tables (demo_ag_rule ''r1'' ''a'')) = Some [''1.0.0.1'', ''2.0.0.2''] \<and>
   rule_list demo_aim (ds_aim (after (update_addresses_in_address_group demo_aim demo_ag_tables ''T'' [''2.0.0.1''] [''2.0.0.1'', ''2.0.0.2'']
       demo_ag_made) demo_ag_made)) (key_of demo_ag_tables (demo_ag_rule ''r2'' ''b'')) = Some [''2.0.0.1'']"
  by code_simp

end
