(* ===== verification/Fabric_Networks.thy ===== *)
theory Fabric_Networks
  imports Router_Interfaces
begin

text \<open>
  Networks in the mechanism driver.  A private network becomes a bridge domain and an endpoint group of
  its tenant in the unrouted VRF, an SVI network an L3Out with its external network and subnets, an
  external network what its NAT strategy makes of the fabric's external network.  Policies for quality of
  service are resources of their own.
\<close>

section \<open>What else is used of the library\<close>

text \<open>
  The operations of a NAT strategy on whole external networks, deleting a resource with everything
  below it, names of resources, the type of the domains for virtual machines, the network of an
  address with its prefix, and the configured domain of L3Outs.  A domain is its type and name.
\<close>

record 'a net_fabric =
  nf_create_l3outside :: "nat_strategy \<Rightarrow> l3_outside \<Rightarrow> (string option \<times> string option) list \<Rightarrow> string option \<Rightarrow> 'a \<Rightarrow> fabric_error + 'a"
  nf_create_external_network :: "nat_strategy \<Rightarrow> aim_res \<Rightarrow> string option \<Rightarrow> 'a \<Rightarrow> fabric_error + 'a"
  nf_update_external_cidrs :: "nat_strategy \<Rightarrow> external_network \<Rightarrow> string list \<Rightarrow> 'a \<Rightarrow> fabric_error + 'a"
  nf_l3outside_resources :: "nat_strategy \<Rightarrow> l3_outside \<Rightarrow> string option \<Rightarrow> 'a \<Rightarrow> aim_res list"
  nf_delete_external_network :: "nat_strategy \<Rightarrow> external_network \<Rightarrow> string option \<Rightarrow> string list option \<Rightarrow> 'a \<Rightarrow> fabric_error + 'a"
  nf_delete_l3outside :: "nat_strategy \<Rightarrow> l3_outside \<Rightarrow> string option \<Rightarrow> string list \<Rightarrow> 'a \<Rightarrow> fabric_error + 'a"
  nf_update_nothing :: "(string \<times> aim_value) list \<Rightarrow> 'a \<Rightarrow> fabric_error + 'a"
  nf_delete_cascade :: "aim_res option \<Rightarrow> 'a \<Rightarrow> fabric_error + 'a"
  nf_bd_from_dn :: "string \<Rightarrow> fabric_error + bridge_domain"
  nf_l3out_dn :: "l3_outside \<Rightarrow> string"
  nf_openstack_vmm_type :: string
  nf_network_of_address :: "string option \<Rightarrow> fabric_error + string"
  nf_l3_domain_dn :: string

definition attr_bool :: "aim_res \<Rightarrow> string \<Rightarrow> bool" where
  "attr_bool r k = (case ar_attrs r k of Some (ABool b) \<Rightarrow> b | _ \<Rightarrow> False)"

definition with_values :: "(string \<times> aim_value) list \<Rightarrow> aim_res \<Rightarrow> aim_res" where
  "with_values as r = fold (\<lambda>(k, v). set_attr k v) as r"

section \<open>Requests\<close>

text \<open>The dictionary of a network: \<open>fn_dict\<close> is the part that External_Connectivity reads; \<open>None\<close> is a missing key.\<close>

record network_req =
  fn_dict :: net_dict
  fn_name :: string
  fn_tenant_id :: string
  fn_description :: string
  fn_svi :: bool
  fn_bgp :: "bool option"
  fn_bgp_type :: "string option"
  fn_bgp_asn :: "string option"
  fn_service_network_enable :: bool
  fn_provider_type :: "string option"
  fn_physical_network :: "string option"
  fn_extra_provided :: "string list"
  fn_extra_consumed :: "string list"
  fn_contract_masters :: "(string \<times> string) list"
  fn_enforcement_pref :: string
  fn_qos_policy_id :: "string option"
  fn_no_nat_cidrs :: "string list"
  fn_external_cidrs :: "string list"
  fn_bd_dn :: "string option"

abbreviation fn_id :: "network_req \<Rightarrow> string" where
  "fn_id n \<equiv> nd_id (fn_dict n)"

abbreviation fn_external :: "network_req \<Rightarrow> bool" where
  "fn_external n \<equiv> nd_external (fn_dict n)"

definition req_row :: "network_req \<Rightarrow> network_row" where
  "req_row n = \<lparr> network_id = fn_id n, network_tenant_id = fn_tenant_id n, network_rbac_actions = [], network_mtu = None \<rparr>"

definition is_bgp_enabled :: "network_req \<Rightarrow> bool" where
  "is_bgp_enabled n \<longleftrightarrow> fn_bgp n = Some True"

definition bgp_value :: "network_req \<Rightarrow> aim_value" where
  "bgp_value n = (case fn_bgp n of None \<Rightarrow> AStr None | Some b \<Rightarrow> ABool b)"

section \<open>Service networks\<close>

text \<open>\<^verbatim>\<open>c.isalnum()\<close> holds for some characters beyond ASCII too.\<close>

definition is_alnum :: "char \<Rightarrow> bool" where
  "is_alnum c \<longleftrightarrow>
     (let n = of_char c :: nat
      in (48 \<le> n \<and> n \<le> 57) \<or> (65 \<le> n \<and> n \<le> 90) \<or> (97 \<le> n \<and> n \<le> 122) \<or>
         n \<in> set [170, 178, 179, 181, 185, 186, 188, 189, 190] \<or> (192 \<le> n \<and> n \<noteq> 215 \<and> n \<noteq> 247))"

definition sanitize_snat_char :: "char \<Rightarrow> char" where
  "sanitize_snat_char c = (if is_alnum c \<or> c \<in> set ''-_.'' then c else CHR ''_'')"

definition sanitize_snat_name :: "string \<Rightarrow> string" where
  "sanitize_snat_name s = map sanitize_snat_char s"

definition service_network_bd_name :: "string \<Rightarrow> string" where
  "service_network_bd_name i = ''svc_'' @ sanitize_snat_name i"

definition network_display_name :: "network_req \<Rightarrow> string \<Rightarrow> string" where
  "network_display_name n fallback =
     (if fn_description n \<noteq> [] then fn_description n else if fn_name n \<noteq> [] then fn_name n else fallback)"

definition unrouted_vrf_of :: "string \<Rightarrow> string" where
  "unrouted_vrf_of system_id = (if system_id \<noteq> [] then system_id @ ''_'' @ unrouted_vrf_name else unrouted_vrf_name)"

definition service_bd_res :: "string \<Rightarrow> aim_res" where
  "service_bd_res i = bd_res \<lparr> bd_tenant = Some common_tenant_name, bd_name = Some (service_network_bd_name i) \<rparr>"

definition create_service_network_bd :: "'a aim_lib \<Rightarrow> string \<Rightarrow> network_req \<Rightarrow> ('a drv_state, unit) drv" where
  "create_service_network_bd A system_id n =
     dbind (d_create A (with_values
       [(''display_name'', AStr (Some (network_display_name n (service_network_bd_name (fn_id n))))),
        (''vrf_name'', AStr (Some (unrouted_vrf_of system_id))), (''enable_routing'', ABool False), (''enable_arp_flood'', ABool True)]
       (service_bd_res (fn_id n)))) (\<lambda>_. dret ())"

definition reparent_service_network_bd :: "'a aim_lib \<Rightarrow> string \<Rightarrow> string option \<Rightarrow> bool \<Rightarrow> ('a drv_state, unit) drv" where
  "reparent_service_network_bd A service_network vname routing =
     dbind (d_update A (service_bd_res service_network) [(''vrf_name'', AStr vname), (''enable_routing'', ABool routing)]) (\<lambda>_. dret ())"

definition delete_service_network_resources :: "'a aim_lib \<Rightarrow> string \<Rightarrow> ('a drv_state, unit) drv" where
  "delete_service_network_resources A i = d_delete A (Some (service_bd_res i))"

section \<open>Domains\<close>

fun get_unique_domains :: "(string option \<times> string option) list \<Rightarrow> string option list \<Rightarrow> (string option \<times> string option) list" where
  "get_unique_domains [] seen = []"
| "get_unique_domains ((t, n) # ms) seen =
     (if n \<in> set seen then get_unique_domains ms seen else (t, n) # get_unique_domains ms (n # seen))"

definition get_aim_vmm_domains :: "'a aim_lib \<Rightarrow> 'a net_fabric \<Rightarrow> 'a \<Rightarrow> (string option \<times> string option) list" where
  "get_aim_vmm_domains A N a =
     map (\<lambda>r. (attr_str r ''type'', attr_str r ''name''))
       (filter (\<lambda>r. attr_str r ''type'' = Some (nf_openstack_vmm_type N)) (aim_find A (OtherClass ''VMMDomain'') [] a))"

definition get_vmm_domains :: "'a aim_lib \<Rightarrow> 'a net_fabric \<Rightarrow> nat_strategy \<Rightarrow> 'a \<Rightarrow> (string option \<times> string option) list" where
  "get_vmm_domains A N ns a =
     (if ns = NoNatStrategy then []
      else
        let mappings = aim_find A (OtherClass ''HostDomainMappingV2'') [(''domain_type'', AStr (Some (nf_openstack_vmm_type N)))] a;
            domains = get_unique_domains (map (\<lambda>r. (attr_str r ''domain_type'', attr_str r ''domain_name'')) mappings) []
        in if domains = [] then get_aim_vmm_domains A N a else domains)"

section \<open>Creating a network\<close>

definition check_valid_preexisting_bd :: "'a aim_lib \<Rightarrow> 'a net_fabric \<Rightarrow> string \<Rightarrow> ('a drv_state, aim_res) drv" where
  "check_valid_preexisting_bd A N dn =
     dbind (dlift (nf_bd_from_dn N dn)) (\<lambda>bd.
     dbind (d_get A (bd_res bd)) (\<lambda>r.
     case r of
       None \<Rightarrow> draise InvalidPreexistingBdForNetwork
     | Some x \<Rightarrow> if attr_bool x ''monitored'' then dret x else draise InvalidPreexistingBdForNetwork))"

text \<open>Which settings an external or SVI network must not have.\<close>

definition check_network_settings :: "network_req \<Rightarrow> fabric_error + unit" where
  "check_network_settings n =
     (let special = (fn_external n \<or> fn_svi n) in
      bindE (guardE (\<not> ((fn_extra_provided n \<noteq> [] \<or> fn_extra_consumed n \<noteq> []) \<and> special)) InvalidNetworkForExtraContracts) (\<lambda>_.
      bindE (guardE (\<not> (fn_contract_masters n \<noteq> [] \<and> special)) InvalidNetworkForEpgContractMaster) (\<lambda>_.
      bindE (guardE (\<not> (fn_enforcement_pref n = ''enforced'' \<and> fn_svi n)) InvalidNetworkForPolicyEnforcementPref) (\<lambda>_.
      guardE (\<not> (truthy (fn_qos_policy_id n) \<and> special)) InvalidNetworkForQos))))"

definition add_mapping :: "string \<Rightarrow> bridge_domain \<times> endpoint_group + external_network \<Rightarrow> vrf \<Rightarrow> ('a drv_state, unit) drv" where
  "add_mapping i r v = dbind (dread (\<lambda>s. add_network_mapping i r v (ds_neutron s))) (\<lambda>x.
     dbind (dlift x) (\<lambda>(db, _). dmodify (set_neutron db)))"

definition add_network_mapping_and_notify :: "string \<Rightarrow> bridge_domain \<Rightarrow> endpoint_group \<Rightarrow> vrf \<Rightarrow> ('a drv_state, unit) drv" where
  "add_network_mapping_and_notify i bd epg v = dbind (add_mapping i (Inl (bd, epg)) v) (\<lambda>_. publish_network_vrf i)"

text \<open>The last resource of each class that the strategy lists; without one the name is unbound.\<close>

definition last_of_class :: "aim_class \<Rightarrow> aim_res list \<Rightarrow> aim_res option" where
  "last_of_class c rs = find (\<lambda>r. ar_class r = c) (rev rs)"

definition create_external_network_objects ::
  "'a aim_lib \<Rightarrow> 'a net_fabric \<Rightarrow> network_req \<Rightarrow> l3_outside \<times> external_network \<times> nat_strategy \<Rightarrow> ('a drv_state, unit) drv" where
  "create_external_network_objects A N n x =
     (case x of (l3out, en, ns) \<Rightarrow>
      let epg_name = determine_epg_name (nd_multi_ext_nets (fn_dict n)) (fn_id n) in
      dbind (dread (\<lambda>s. get_vmm_domains A N ns (ds_aim s))) (\<lambda>domains.
      dbind (lift_aim0 (nf_create_l3outside N ns l3out domains epg_name)) (\<lambda>_.
      dbind (lift_aim0 (nf_create_external_network N ns (ext_net_res en) epg_name)) (\<lambda>_.
      dbind (dread (\<lambda>s. sort_strings (get_external_cidrs_by_ext_net_dn (ext_net_dn A en) (ds_ext s)))) (\<lambda>cidrs.
      dbind (lift_aim0 (nf_update_external_cidrs N ns en cidrs)) (\<lambda>_.
      dbind (dread (\<lambda>s. nf_l3outside_resources N ns l3out epg_name (ds_aim s))) (\<lambda>rs.
      case (last_of_class BridgeDomain rs, last_of_class EndpointGroup rs, last_of_class VRF rs) of
        (Some bd, Some epg, Some v) \<Rightarrow> add_network_mapping_and_notify (fn_id n) (res_bd bd) (res_epg epg) (res_vrf v)
      | _ \<Rightarrow> draise UnboundLocalError)))))))"

definition l3out_node_profile :: "string option \<Rightarrow> string option \<Rightarrow> aim_res" where
  "l3out_node_profile tenant l3out = aim_res_of (OtherClass ''L3OutNodeProfile'')
     [(''tenant_name'', AStr tenant), (''l3out_name'', AStr l3out), (''name'', AStr (Some ''NodeProfile''))]"

definition ext_subnet_res :: "external_subnet \<Rightarrow> aim_res" where
  "ext_subnet_res x = aim_res_of (OtherClass ''ExternalSubnet'') [(''tenant_name'', AStr (xs_tenant x)),
     (''l3out_name'', AStr (xs_l3out_name x)), (''external_network_name'', AStr (xs_ext_net_name x)), (''cidr'', AStr (Some (xs_cidr x)))]"

definition default_export :: "network_req \<Rightarrow> bool" where
  "default_export n \<longleftrightarrow> fn_bgp_type n = Some ''default_export''"

text \<open>The subnets of a new SVI network: two halves of IPv4 and all of IPv6; only the last gets the aggregate.\<close>

definition new_svi_subnets :: "network_req \<Rightarrow> external_network \<Rightarrow> aim_res list" where
  "new_svi_subnets n en =
     (let export = (is_bgp_enabled n \<and> default_export n);
          scope = AStr (Some (if export then ''export-rtctrl,import-security'' else ''import-security''));
          subnet = (\<lambda>cidr aggregate. with_values [(''scope'', scope), (''aggregate'', AStr (Some aggregate))]
            (ext_subnet_res \<lparr> xs_tenant = en_tenant en, xs_l3out_name = en_l3out_name en, xs_ext_net_name = en_name en, xs_cidr = cidr \<rparr>))
      in [subnet ''0.0.0.0/1'' [], subnet ''128.0.0.0/1'' [], subnet ''::/0'' (if export then ''export-rtctrl'' else [])])"

definition create_svi_network_objects ::
  "'a aim_lib \<Rightarrow> 'a net_fabric \<Rightarrow> network_req \<Rightarrow> (l3_outside \<times> external_network \<times> nat_strategy) option \<Rightarrow> ('a drv_state, unit) drv" where
  "create_svi_network_objects A N n x =
     (case x of
        Some (l3out, en, _) \<Rightarrow>
          dbind (dread (\<lambda>s. get_svi_network_ids_by_l3out_dn (nf_l3out_dn N l3out) (ds_ext s))) (\<lambda>nets.
          dbind (dguard (set nets \<subseteq> {fn_id n}) PreExistingSVICannotUseSameL3out) (\<lambda>_.
          dbind (d_create_over A (l3out_node_profile (l3o_tenant l3out) (l3o_name l3out))) (\<lambda>_. dret ())))
      | None \<Rightarrow>
          (let tenant = Some (project_name (fn_tenant_id n) []); aname = Some (network_name (fn_id n) []);
               en = \<lparr> en_tenant = tenant, en_l3out_name = aname, en_name = Some ''ExtEpg'' \<rparr>
           in dbind (ensure_default_vrf A (map_default_vrf (req_row n))) (\<lambda>v.
              dbind (d_create A (with_values [(''display_name'', AStr (Some (sanitize_display_name A (fn_name n)))),
                  (''vrf_name'', AStr (vrf_name v)), (''l3_domain_dn'', AStr (Some (nf_l3_domain_dn N))),
                  (''bgp_enable'', bgp_value n)] (l3out_res \<lparr> l3o_tenant = tenant, l3o_name = aname \<rparr>))) (\<lambda>_.
              dbind (d_create A (l3out_node_profile tenant aname)) (\<lambda>_.
              dbind (d_create A (ext_net_res en)) (\<lambda>_.
              dbind (deach (\<lambda>r. dbind (d_create A r) (\<lambda>_. dret ())) (new_svi_subnets n en)) (\<lambda>_.
              add_mapping (fn_id n) (Inr en) v)))))))"

definition bd_settings :: "'a aim_lib \<Rightarrow> string \<Rightarrow> network_req \<Rightarrow> (string \<times> aim_value) list" where
  "bd_settings A system_id n =
     [(''display_name'', AStr (Some (sanitize_display_name A (fn_name n)))), (''vrf_name'', AStr (vrf_name (map_unrouted_vrf system_id))),
      (''enable_arp_flood'', ABool True), (''enable_routing'', ABool False), (''limit_ip_learn_to_subnets'', ABool True)]"

text \<open>The bridge domain of a new network and the name that its endpoint group is given.\<close>

definition take_bd :: "'a aim_lib \<Rightarrow> 'a net_fabric \<Rightarrow> string \<Rightarrow> network_req \<Rightarrow> bridge_domain \<Rightarrow> ('a drv_state, bridge_domain \<times> string option) drv" where
  "take_bd A N system_id n bd =
     (if truthy (fn_bd_dn n) then
        dbind (check_valid_preexisting_bd A N (the (fn_bd_dn n))) (\<lambda>pre.
        dbind (d_update A pre (bd_settings A system_id n @ [(''monitored'', ABool False)])) (\<lambda>r.
        dbind (dthe r) (\<lambda>b. dret (res_bd b, bd_name (res_bd pre)))))
      else dbind (d_create A (with_values (bd_settings A system_id n) (bd_res bd))) (\<lambda>b. dret (res_bd b, bd_name (res_bd b))))"

definition epg_settings :: "'a aim_lib \<Rightarrow> network_req \<Rightarrow> string option \<Rightarrow> (string \<times> aim_value) list" where
  "epg_settings A n bname =
     [(''bd_name'', AStr bname), (''display_name'', AStr (Some (sanitize_display_name A (fn_name n)))),
      (''provided_contract_names'', AStrs (fn_extra_provided n)),
      (''consumed_contract_names'', AStrs (fn_extra_consumed n)), (''epg_contract_masters'', APairs (fn_contract_masters n)),
      (''policy_enforcement_pref'', AStr (Some (fn_enforcement_pref n))), (''qos_name'', AStr (fn_qos_policy_id n))]"

definition create_private_network_objects ::
  "'a aim_lib \<Rightarrow> 'a net_fabric \<Rightarrow> string \<Rightarrow> network_req \<Rightarrow> ('a drv_state, unit) drv" where
  "create_private_network_objects A N system_id n =
     (let (bd, epg) = map_network_resources (req_row n) None None in
      dbind (take_bd A N system_id n bd) (\<lambda>(bd', bname).
      dbind (d_create A (with_values (epg_settings A n bname) (epg_res epg))) (\<lambda>_.
      add_network_mapping_and_notify (fn_id n) bd' epg (map_unrouted_vrf system_id))))"

definition create_network_precommit ::
  "'a aim_lib \<Rightarrow> 'a net_fabric \<Rightarrow> string \<Rightarrow> network_req \<Rightarrow> ('a drv_state, unit) drv" where
  "create_network_precommit A N system_id n =
     dbind (dwhen (fn_service_network_enable n)
       (dbind (dlift (validate_service_network_network \<lparr> sn_id = fn_id n, sn_service_network_enable = True, sn_router_external = fn_external n,
           sn_provider_type = fn_provider_type n, sn_physical_network = fn_physical_network n \<rparr>)) (\<lambda>_.
        create_service_network_bd A system_id n))) (\<lambda>_.
     dbind (dlift (check_network_settings n)) (\<lambda>_.
     if fn_external n then
       dbind (dlift (get_aim_nat_strategy A (fn_dict n))) (\<lambda>x.
       case x of None \<Rightarrow> dret () | Some y \<Rightarrow> create_external_network_objects A N n y)
     else if fn_svi n then
       dbind (dlift (get_aim_external_objects A (fn_dict n))) (create_svi_network_objects A N n)
     else create_private_network_objects A N system_id n))"

section \<open>Changing a network\<close>

text \<open>The name, the quality of service, the contracts and the settings of the endpoint group.\<close>

definition update_network_name :: "'a aim_lib \<Rightarrow> network_mapping option \<Rightarrow> network_req \<Rightarrow> network_req \<Rightarrow> ('a drv_state, unit) drv" where
  "update_network_name A m n old =
     (let dname = [(''display_name'', AStr (Some (sanitize_display_name A (fn_name n))))]
      in dwhen (\<not> fn_external n \<and> fn_name n \<noteq> fn_name old)
           (if \<not> fn_svi n then
              dbind (dthe m) (\<lambda>x.
              dbind (d_update A (bd_res (get_network_bd x)) dname) (\<lambda>_.
              dbind (d_update A (epg_res (get_network_epg x)) dname) (\<lambda>_. dret ())))
            else (case get_network_l3out m of
                None \<Rightarrow> dret ()
              | Some l \<Rightarrow> dbind (d_update A (l3out_res l) dname) (\<lambda>_. dret ()))))"

definition update_network_qos :: "'a aim_lib \<Rightarrow> network_mapping option \<Rightarrow> network_req \<Rightarrow> network_req \<Rightarrow> ('a drv_state, unit) drv" where
  "update_network_qos A m n old =
     dwhen (fn_qos_policy_id n \<noteq> fn_qos_policy_id old)
       (dbind (dthe m) (\<lambda>x.
        dbind (d_update A (epg_res (get_network_epg x)) [(''qos_name'', AStr (fn_qos_policy_id n))]) (\<lambda>_. dret ())))"

text \<open>\<^verbatim>\<open>(set(present) | added) - removed\<close>, as a list without duplicates.\<close>

definition changed_names :: "string list \<Rightarrow> string list \<Rightarrow> string list \<Rightarrow> string list" where
  "changed_names present cur old =
     filter (\<lambda>c. \<not> (c \<in> set old \<and> c \<notin> set cur)) (remdups (present @ filter (\<lambda>c. c \<notin> set old) cur))"

definition update_epg_names :: "'a aim_lib \<Rightarrow> string \<Rightarrow> aim_res option \<Rightarrow> string list \<Rightarrow> string list \<Rightarrow> ('a drv_state, unit) drv" where
  "update_epg_names A key epg cur old =
     dwhen (set cur \<noteq> set old)
       (dbind (dthe epg) (\<lambda>e.
        dbind (d_update A e [(key, AStrs (changed_names (attr_strs e key) cur old))]) (\<lambda>_. dret ())))"

definition update_network_contracts :: "'a aim_lib \<Rightarrow> network_mapping option \<Rightarrow> network_req \<Rightarrow> network_req \<Rightarrow> ('a drv_state, unit) drv" where
  "update_network_contracts A m n old =
     dwhen (set (fn_extra_provided n) \<noteq> set (fn_extra_provided old) \<or> set (fn_extra_consumed n) \<noteq> set (fn_extra_consumed old))
       (dbind (dguard (\<not> (fn_external n \<or> fn_svi n)) InvalidNetworkForExtraContracts) (\<lambda>_.
        dbind (dthe m) (\<lambda>x.
        dbind (d_get A (epg_res (get_network_epg x))) (\<lambda>epg.
        dbind (update_epg_names A ''provided_contract_names'' epg (fn_extra_provided n) (fn_extra_provided old)) (\<lambda>_.
        update_epg_names A ''consumed_contract_names'' epg (fn_extra_consumed n) (fn_extra_consumed old))))))"

text \<open>Setting an attribute of the endpoint group; the library is also called when there is none.\<close>

definition update_epg_attr :: "'a aim_lib \<Rightarrow> 'a net_fabric \<Rightarrow> network_mapping option \<Rightarrow> string \<times> aim_value \<Rightarrow> ('a drv_state, unit) drv" where
  "update_epg_attr A N m a =
     dbind (dthe m) (\<lambda>x.
     dbind (d_get A (epg_res (get_network_epg x))) (\<lambda>epg.
     case epg of
       None \<Rightarrow> lift_aim0 (nf_update_nothing N [a])
     | Some e \<Rightarrow> dbind (d_update A e [a]) (\<lambda>_. dret ())))"

definition update_network_settings ::
  "'a aim_lib \<Rightarrow> 'a net_fabric \<Rightarrow> network_mapping option \<Rightarrow> network_req \<Rightarrow> network_req \<Rightarrow> ('a drv_state, unit) drv" where
  "update_network_settings A N m n old =
     dbind (dwhen (fn_contract_masters n \<noteq> fn_contract_masters old)
       (dbind (dguard (\<not> (fn_external n \<or> fn_svi n)) InvalidNetworkForEpgContractMaster) (\<lambda>_.
        update_epg_attr A N m (''epg_contract_masters'', APairs (fn_contract_masters n))))) (\<lambda>_.
     dwhen (fn_enforcement_pref n \<noteq> fn_enforcement_pref old)
       (dbind (dguard (\<not> (fn_enforcement_pref n = ''enforced'' \<and> fn_svi n)) InvalidNetworkForPolicyEnforcementPref) (\<lambda>_.
        update_epg_attr A N m (''policy_enforcement_pref'', AStr (Some (fn_enforcement_pref n))))))"

definition notify_no_nat_ports :: "network_req \<Rightarrow> network_req \<Rightarrow> ('a drv_state, unit) drv" where
  "notify_no_nat_ports n old =
     dwhen (fn_no_nat_cidrs n \<noteq> fn_no_nat_cidrs old)
       (dbind (dread (\<lambda>s. set (get_non_router_ports_in_networks [fn_id n] (ds_neutron s)))) (\<lambda>ports.
        dwhen (ports \<noteq> {}) (add_postcommit_port_notifications ports)))"

definition update_external_cidrs ::
  "'a aim_lib \<Rightarrow> 'a net_fabric \<Rightarrow> network_req \<Rightarrow> network_req \<Rightarrow> ('a drv_state, unit) drv" where
  "update_external_cidrs A N n old =
     dbind (dlift (get_aim_nat_strategy A (fn_dict n))) (\<lambda>x.
     case x of
       None \<Rightarrow> dret ()
     | Some (_, en, ns) \<Rightarrow>
         dwhen (sort_strings (fn_external_cidrs old) \<noteq> sort_strings (fn_external_cidrs n))
           (dbind (dread (\<lambda>s. sort_strings (get_external_cidrs_by_ext_net_dn (ext_net_dn A en) (ds_ext s)))) (\<lambda>cidrs.
            lift_aim0 (nf_update_external_cidrs N ns en cidrs))))"

subsection \<open>Routing of an SVI network\<close>

abbreviation bgp_peer_class :: aim_class where
  "bgp_peer_class \<equiv> OtherClass ''L3OutInterfaceBgpPeerP''"

text \<open>Where the network's L3Out is: that of the external network the user named, or its own.\<close>

datatype svi_place = Preexisting external_network | OwnL3out network_mapping

fun place_l3out :: "svi_place \<Rightarrow> string option \<times> string option" where
  "place_l3out (Preexisting en) = (en_tenant en, en_l3out_name en)"
| "place_l3out (OwnL3out m) = (nm_l3out_tenant_name m, nm_l3out_name m)"

definition l3out_filter :: "svi_place \<Rightarrow> (string \<times> aim_value) list" where
  "l3out_filter p = [(''tenant_name'', AStr (fst (place_l3out p))), (''l3out_name'', AStr (snd (place_l3out p)))]"

text \<open>The default subnets of the network's own L3Out get a scope and an aggregate.\<close>

fun update_default_subnets :: "'a aim_lib \<Rightarrow> svi_place \<Rightarrow> string \<Rightarrow> string \<Rightarrow> ('a drv_state, unit) drv" where
  "update_default_subnets A (Preexisting en) scope aggregate = dret ()"
| "update_default_subnets A (OwnL3out m) scope aggregate =
     (let as = [(''scope'', AStr (Some scope)), (''aggregate'', AStr (Some aggregate))]
      in dbind (d_update A (ext_subnet_res (get_network_l3out_default_ext_subnetv4 m)) as) (\<lambda>_.
         dbind (d_update A (ext_subnet_res (get_network_l3out_default_ext_subnetv6 m)) as) (\<lambda>_. dret ())))"

definition delete_bgp_peers :: "'a aim_lib \<Rightarrow> svi_place \<Rightarrow> ('a drv_state, unit) drv" where
  "delete_bgp_peers A p =
     dbind (dread (\<lambda>s. aim_find A bgp_peer_class (l3out_filter p) (ds_aim s))) (\<lambda>peers.
     deach (\<lambda>r. dwhen (\<not> attr_bool r ''monitored'') (d_delete A (Some r))) peers)"

definition update_bgp_peers_asn :: "'a aim_lib \<Rightarrow> svi_place \<Rightarrow> string \<Rightarrow> ('a drv_state, unit) drv" where
  "update_bgp_peers_asn A p asn =
     dbind (dread (\<lambda>s. aim_find A bgp_peer_class (l3out_filter p) (ds_aim s))) (\<lambda>peers.
     deach (\<lambda>r. dbind (d_update A r [(''asn'', AStr (Some asn))]) (\<lambda>_. dret ())) peers)"

definition bgp_peer_of :: "aim_res \<Rightarrow> string \<Rightarrow> string \<Rightarrow> aim_res" where
  "bgp_peer_of r addr asn = aim_res_of bgp_peer_class
     (map (\<lambda>k. (k, AStr (attr_str r k))) [''tenant_name'', ''l3out_name'', ''node_profile_name'', ''interface_profile_name'', ''interface_path'']
      @ [(''addr'', AStr (Some addr)), (''asn'', AStr (Some asn))])"

definition create_bgp_peers :: "'a aim_lib \<Rightarrow> 'a net_fabric \<Rightarrow> svi_place \<Rightarrow> string \<Rightarrow> ('a drv_state, unit) drv" where
  "create_bgp_peers A N p asn =
     dbind (dread (\<lambda>s. aim_find A (OtherClass ''L3OutInterface'') (l3out_filter p) (ds_aim s))) (\<lambda>ifs.
     deach (\<lambda>r. dwhen (\<not> attr_bool r ''monitored'')
       (dbind (dlift (nf_network_of_address N (attr_str r ''primary_addr_a''))) (\<lambda>addr.
        dbind (d_create_over A (bgp_peer_of r addr asn)) (\<lambda>_. dret ())))) ifs)"

text \<open>The key of the request, or else of the network before it.\<close>

definition request_asn :: "network_req \<Rightarrow> network_req \<Rightarrow> fabric_error + string" where
  "request_asn n old = (case fn_bgp_asn n of Some a \<Rightarrow> Inr a
     | None \<Rightarrow> (case fn_bgp_asn old of Some a \<Rightarrow> Inr a | None \<Rightarrow> Inl KeyError))"

definition update_bgp_peers ::
  "'a aim_lib \<Rightarrow> 'a net_fabric \<Rightarrow> svi_place \<Rightarrow> network_req \<Rightarrow> network_req \<Rightarrow> bool \<Rightarrow> ('a drv_state, unit) drv" where
  "update_bgp_peers A N p n old trigger =
     dbind (dlift (request_asn n old)) (\<lambda>asn.
     dbind (dwhen (fn_bgp_asn n \<noteq> fn_bgp_asn old) (update_bgp_peers_asn A p asn)) (\<lambda>_.
     dwhen (fn_bgp_type n \<noteq> fn_bgp_type old \<or> trigger)
       (if default_export n then
          dbind (create_bgp_peers A N p asn) (\<lambda>_. update_default_subnets A p ''export-rtctrl,import-security'' ''export-rtctrl'')
        else
          dbind (dwhen (fn_bgp_type n = Some []) (delete_bgp_peers A p)) (\<lambda>_. update_default_subnets A p ''import-security'' []))))"

definition svi_place_of :: "'a aim_lib \<Rightarrow> network_mapping option \<Rightarrow> net_ext_row \<Rightarrow> fabric_error + svi_place option" where
  "svi_place_of A m x =
     (if truthy (nx_external_network_dn x)
      then bindE (ext_net_from_dn A (the (nx_external_network_dn x))) (\<lambda>en. Inr (Some (Preexisting en)))
      else Inr (map_option OwnL3out m))"

definition update_svi_network ::
  "'a aim_lib \<Rightarrow> 'a net_fabric \<Rightarrow> network_mapping option \<Rightarrow> network_req \<Rightarrow> network_req \<Rightarrow> ('a drv_state, unit) drv" where
  "update_svi_network A N m n old =
     dbind (dread (\<lambda>s. find (\<lambda>x. nx_network_id x = fn_id n) (xd_networks (ds_ext s)))) (\<lambda>row.
     dbind (dthe row) (\<lambda>x.
     dbind (dlift (svi_place_of A m x)) (\<lambda>place.
     case place of
       None \<Rightarrow> dbind (dwhen (fn_bgp n \<noteq> fn_bgp old) (lift_aim0 (nf_update_nothing N [(''bgp_enable'', bgp_value n)]))) (\<lambda>_.
         draise AttributeError)
     | Some p \<Rightarrow>
     dbind (dwhen (fn_bgp n \<noteq> fn_bgp old) (case p of
         Preexisting _ \<Rightarrow> dret ()
       | OwnL3out m' \<Rightarrow> dbind (dthe (get_network_l3out (Some m'))) (\<lambda>l.
           dbind (d_update A (l3out_res l) [(''bgp_enable'', bgp_value n)]) (\<lambda>_. dret ())))) (\<lambda>_.
     if is_bgp_enabled n then update_bgp_peers A N p n old (fn_bgp n \<noteq> fn_bgp old)
     else dwhen (is_bgp_enabled old)
       (dbind (update_default_subnets A p ''import-security'' []) (\<lambda>_. delete_bgp_peers A p))))))"

definition update_network_precommit ::
  "'a aim_lib \<Rightarrow> 'a net_fabric \<Rightarrow> network_req \<Rightarrow> network_req \<Rightarrow> ('a drv_state, unit) drv" where
  "update_network_precommit A N n old =
     dbind (dread (\<lambda>s. get_network_mapping (fn_id n) (ds_neutron s))) (\<lambda>m.
     dbind (dguard (\<not> (truthy (fn_qos_policy_id n) \<and> (fn_external n \<or> fn_svi n))) InvalidNetworkForQos) (\<lambda>_.
     dbind (update_network_name A m n old) (\<lambda>_.
     dbind (update_network_qos A m n old) (\<lambda>_.
     dbind (update_network_contracts A m n old) (\<lambda>_.
     dbind (update_network_settings A N m n old) (\<lambda>_.
     dbind (notify_no_nat_ports n old) (\<lambda>_.
     if fn_external n then update_external_cidrs A N n old
     else dwhen (fn_svi n) (update_svi_network A N m n old))))))))"

section \<open>Deleting a network\<close>

definition has_monitored_l3outside_resources :: "'a aim_lib \<Rightarrow> l3_outside \<Rightarrow> 'a \<Rightarrow> bool" where
  "has_monitored_l3outside_resources A l a \<longleftrightarrow>
     (case aim_get A (l3out_res l) a of None \<Rightarrow> False | Some r \<Rightarrow> attr_bool r ''monitored'') \<or>
     list_ex (\<lambda>c. aim_find A (OtherClass c) [(''tenant_name'', AStr (l3o_tenant l)), (''l3out_name'', AStr (l3o_name l)),
         (''monitored'', ABool True)] a \<noteq> [])
       [''L3OutNodeProfile'', ''L3OutNode'', ''L3OutStaticRoute'', ''L3OutInterfaceProfile'', ''L3OutInterface'', ''L3OutInterfaceBgpPeerP'']"

definition delete_l3outside_if_unused ::
  "'a aim_lib \<Rightarrow> 'a net_fabric \<Rightarrow> nat_strategy \<Rightarrow> l3_outside \<Rightarrow> string \<Rightarrow> string option \<Rightarrow> string list \<Rightarrow> ('a drv_state, unit) drv" where
  "delete_l3outside_if_unused A N ns l3out i wanted_epg cidrs =
     dbind (dread (\<lambda>s. set (get_network_ids_by_l3out_dn (nf_l3out_dn N l3out) (ds_ext s)) \<subseteq> {i} \<and>
       \<not> has_monitored_l3outside_resources A l3out (ds_aim s))) (\<lambda>unused.
     dwhen unused (lift_aim0 (nf_delete_l3outside N ns l3out wanted_epg cidrs)))"

definition delete_external_network_objects ::
  "'a aim_lib \<Rightarrow> 'a net_fabric \<Rightarrow> network_req \<Rightarrow> l3_outside \<times> external_network \<times> nat_strategy \<Rightarrow> ('a drv_state, unit) drv" where
  "delete_external_network_objects A N n x =
     (case x of (l3out, en, ns) \<Rightarrow>
      dbind (dread ds_ext) (\<lambda>xdb.
      let cidrs = get_external_cidrs_by_net_id (fn_id n) xdb
      in if nd_multi_ext_nets (fn_dict n) then
           dbind (lift_aim0 (nf_delete_external_network N ns en (Some (fn_id n)) (Some cidrs))) (\<lambda>_.
           delete_l3outside_if_unused A N ns l3out (fn_id n) (Some (fn_id n)) cidrs)
         else
           dbind (dwhen (set (get_network_ids_by_ext_net_dn_filter_multi (ext_net_dn A en) False xdb) \<subseteq> {fn_id n})
             (lift_aim0 (nf_delete_external_network N ns en None (Some cidrs)))) (\<lambda>_.
           delete_l3outside_if_unused A N ns l3out (fn_id n) None cidrs)))"

text \<open>The L3Out that the dictionary names, if it names one.\<close>

definition delete_svi_network_objects ::
  "'a aim_lib \<Rightarrow> 'a net_fabric \<Rightarrow> string \<Rightarrow> network_req \<Rightarrow> l3_outside option \<Rightarrow> ('a drv_state, unit) drv" where
  "delete_svi_network_objects A N system_id n l3out =
     dbind (get_epg A (map_option l3out_res l3out)) (\<lambda>r.
     case r of
       None \<Rightarrow> dret ()
     | Some x \<Rightarrow>
         if attr_bool x ''monitored'' then
           dbind (dthe l3out) (\<lambda>l. lift_aim0 (nf_delete_cascade N (Some (l3out_node_profile (l3o_tenant l) (l3o_name l)))))
         else
           dbind (lift_aim0 (nf_delete_cascade N (map_option l3out_res l3out))) (\<lambda>_.
           dbind (write_mapping (fn_id n) (set_network_vrf (map_unrouted_vrf system_id))) (\<lambda>_.
           cleanup_default_vrf A (map_default_vrf (req_row n)))))"

definition delete_mapping_row :: "string \<Rightarrow> neutron_db \<Rightarrow> neutron_db" where
  "delete_mapping_row i db = db\<lparr> nt_network_mappings := filter (\<lambda>m. nm_network_id m \<noteq> i) (nt_network_mappings db) \<rparr>"

definition delete_private_network_objects :: "'a aim_lib \<Rightarrow> string \<Rightarrow> ('a drv_state, unit) drv" where
  "delete_private_network_objects A i =
     dbind (dread (\<lambda>s. get_network_mapping i (ds_neutron s))) (\<lambda>m.
     case m of
       None \<Rightarrow> dret ()
     | Some m \<Rightarrow>
         dbind (d_delete A (Some (bd_res (get_network_bd m)))) (\<lambda>_.
         dbind (d_delete A (Some (epg_res (get_network_epg m)))) (\<lambda>_.
         dmodify (\<lambda>s. set_neutron (delete_mapping_row i (ds_neutron s)) s))))"

definition delete_network_precommit ::
  "'a aim_lib \<Rightarrow> 'a net_fabric \<Rightarrow> string \<Rightarrow> network_req \<Rightarrow> ('a drv_state, unit) drv" where
  "delete_network_precommit A N system_id n =
     dbind (dread (\<lambda>s. check_service_network_unused (fn_id n) (ds_ext s))) (\<lambda>refs.
     dbind (dlift refs) (\<lambda>_.
     dbind (dwhen (fn_service_network_enable n) (delete_service_network_resources A (fn_id n))) (\<lambda>_.
     if fn_external n then
       dbind (dlift (get_aim_nat_strategy A (fn_dict n))) (\<lambda>x.
       case x of None \<Rightarrow> dret () | Some y \<Rightarrow> delete_external_network_objects A N n y)
     else if fn_svi n then
       dbind (dlift (get_aim_external_objects A (fn_dict n))) (\<lambda>x.
       delete_svi_network_objects A N system_id n (map_option fst x))
     else delete_private_network_objects A (fn_id n))))"

section \<open>Quality of service\<close>

text \<open>A rule of a policy: the marking, or a limit of a direction; other rules are ignored.\<close>

datatype qos_direction = Egress | Ingress | OtherDirection

datatype qos_rule =
    DscpMarking int
  | BandwidthLimit string qos_direction int int
  | OtherRule

record qos_policy =
  qp_id :: string
  qp_name :: string
  qp_rules :: "qos_rule list"

record qos_parts =
  qs_dscp :: "int option"
  qs_egress :: "string option"
  qs_ingress :: "string option"
  qs_limits :: "aim_res list"

definition dpp_res :: "string \<Rightarrow> string option \<Rightarrow> aim_res" where
  "dpp_res tenant i = aim_res_of (OtherClass ''QosDppPol'') [(''tenant_name'', AStr (Some tenant)), (''name'', AStr i)]"

definition dpp_limit :: "string \<Rightarrow> string \<Rightarrow> string \<Rightarrow> bool \<Rightarrow> int \<Rightarrow> int \<Rightarrow> aim_res" where
  "dpp_limit tenant pname i egress burst rate = with_values
     [(''egress'', ABool egress), (''burst'', AStr (Some (py_str_int burst))), (''burst_unit'', AStr (Some ''kilo'')),
      (''display_name'', AStr (Some (pname @ (if egress then ''_egress'' else ''_ingress'')))),
      (''rate_unit'', AStr (Some ''kilo'')), (''rate'', AInt rate)] (dpp_res tenant (Some i))"

text \<open>One turn of the loop over the rules.\<close>

fun qos_step :: "string \<Rightarrow> string \<Rightarrow> qos_rule \<Rightarrow> qos_parts \<Rightarrow> qos_parts" where
  "qos_step tenant pname (DscpMarking d) p = p\<lparr> qs_dscp := Some d \<rparr>"
| "qos_step tenant pname (BandwidthLimit i Egress burst rate) p =
     p\<lparr> qs_egress := Some i, qs_limits := qs_limits p @ [dpp_limit tenant pname i True burst rate] \<rparr>"
| "qos_step tenant pname (BandwidthLimit i Ingress burst rate) p =
     p\<lparr> qs_ingress := Some i, qs_limits := qs_limits p @ [dpp_limit tenant pname i False burst rate] \<rparr>"
| "qos_step tenant pname (BandwidthLimit i OtherDirection burst rate) p = p"
| "qos_step tenant pname OtherRule p = p"

definition qos_parts_of :: "string \<Rightarrow> qos_policy \<Rightarrow> qos_parts" where
  "qos_parts_of tenant q = fold (qos_step tenant (qp_name q)) (qp_rules q)
     \<lparr> qs_dscp = None, qs_egress = None, qs_ingress = None, qs_limits = [] \<rparr>"

definition qos_res :: "string \<Rightarrow> string \<Rightarrow> aim_res" where
  "qos_res tenant i = aim_res_of (OtherClass ''QosRequirement'') [(''tenant_name'', AStr (Some tenant)), (''name'', AStr (Some i))]"

text \<open>A limit that the stored policy refers to and the changed one does not.\<close>

definition delete_dpp_unless :: "'a aim_lib \<Rightarrow> string \<Rightarrow> aim_res option \<Rightarrow> string \<Rightarrow> string option \<Rightarrow> ('a drv_state, unit) drv" where
  "delete_dpp_unless A tenant q key keep =
     (case q of None \<Rightarrow> dret () | Some r \<Rightarrow>
        dwhen (truthy (attr_str r key) \<and> attr_str r key \<noteq> keep) (d_delete A (Some (dpp_res tenant (attr_str r key)))))"

definition handle_qos_policy :: "'a aim_lib \<Rightarrow> string \<Rightarrow> qos_policy \<Rightarrow> bool \<Rightarrow> ('a drv_state, unit) drv" where
  "handle_qos_policy A tenant q is_update =
     (let p = qos_parts_of tenant q in
      dbind (dwhen is_update
        (dbind (d_get A (qos_res tenant (qp_id q))) (\<lambda>old.
         dbind (delete_dpp_unless A tenant old ''egress_dpp_pol'' (qs_egress p)) (\<lambda>_.
         delete_dpp_unless A tenant old ''ingress_dpp_pol'' (qs_ingress p))))) (\<lambda>_.
      dbind (d_create_over A (with_values
        [(''display_name'', AStr (Some (qp_name q))), (''dscp'', case qs_dscp p of None \<Rightarrow> AStr None | Some d \<Rightarrow> AInt d),
         (''egress_dpp_pol'', AStr (qs_egress p)), (''ingress_dpp_pol'', AStr (qs_ingress p))] (qos_res tenant (qp_id q)))) (\<lambda>_.
      deach (\<lambda>r. dbind (d_create_over A r) (\<lambda>_. dret ())) (qs_limits p))))"

text \<open>The project is that of the request's user.\<close>

definition create_qos_policy_precommit :: "'a aim_lib \<Rightarrow> string \<Rightarrow> qos_policy \<Rightarrow> ('a drv_state, unit) drv" where
  "create_qos_policy_precommit A tenant_id q = handle_qos_policy A (project_name tenant_id []) q False"

definition update_qos_policy_precommit :: "'a aim_lib \<Rightarrow> string \<Rightarrow> qos_policy \<Rightarrow> ('a drv_state, unit) drv" where
  "update_qos_policy_precommit A tenant_id q = handle_qos_policy A (project_name tenant_id []) q True"

definition delete_qos_policy_precommit :: "'a aim_lib \<Rightarrow> 'a net_fabric \<Rightarrow> string \<Rightarrow> string \<Rightarrow> ('a drv_state, unit) drv" where
  "delete_qos_policy_precommit A N tenant_id i =
     (let tenant = project_name tenant_id [] in
      dbind (d_get A (qos_res tenant i)) (\<lambda>old.
      dbind (delete_dpp_unless A tenant old ''egress_dpp_pol'' None) (\<lambda>_.
      dbind (delete_dpp_unless A tenant old ''ingress_dpp_pol'' None) (\<lambda>_.
      lift_aim0 (nf_delete_cascade N (Some (qos_res tenant i)))))))"

end
