(* ===== verification/Dist_Snat_Policy.thy ===== *)
theory Dist_Snat_Policy
  imports Fabric_Networks
begin

text \<open>
  The policy resources of distributed SNAT (\<^verbatim>\<open>distributed_snat_helper.py\<close>): for a subnet an external
  network, filters for its ports and a contract, for its network a service graph with a node, for a
  physical domain a cluster of devices, and the gateway addresses of routers.
\<close>

section \<open>Subnets\<close>

text \<open>The dictionary of a subnet; \<open>None\<close> is a missing key, or no value.\<close>

record snat_subnet =
  ss_id :: string
  ss_name :: string
  ss_description :: string
  ss_network_id :: string
  ss_tenant_id :: string
  ss_cidr :: string
  ss_gateway_ip :: "string option"
  ss_service_network :: "string option"
  ss_start_port :: "port_value option"
  ss_end_port :: "port_value option"
  ss_alloc_size :: "port_value option"
  ss_snat_host_pool :: "bool option"
  ss_epg_subnet :: "bool option"
  ss_advertised_externally :: "bool option"
  ss_shared_between_vrfs :: "bool option"
  ss_host_routes :: "(string \<times> string) list"
  ss_dns_nameservers :: "string list"

definition subnet_display_name :: "snat_subnet \<Rightarrow> string \<Rightarrow> string" where
  "subnet_display_name s fallback =
     (if ss_description s \<noteq> [] then ss_description s else if ss_name s \<noteq> [] then ss_name s else fallback)"

definition generate_snat_resource_name :: "string \<Rightarrow> string" where
  "generate_snat_resource_name i = take 12 (sanitize_snat_name i)"

definition snat_contract_name :: "string \<Rightarrow> string" where
  "snat_contract_name i = ''snat_'' @ sanitize_snat_name i"

definition service_graph_name :: "string \<Rightarrow> string" where
  "service_graph_name i = ''sg_'' @ sanitize_snat_name i"

definition device_cluster_name :: "string \<Rightarrow> string" where
  "device_cluster_name i = ''svc_'' @ sanitize_snat_name i"

definition snat_external_network_name :: "string \<Rightarrow> string" where
  "snat_external_network_name i = ''snat_epg_'' @ generate_snat_resource_name i"

definition display :: "string \<Rightarrow> string \<times> aim_value" where
  "display s = (''display_name'', AStr (Some s))"

text \<open>A resource by its class, its identity and its other attributes, and its creation.\<close>

definition named_res :: "string \<Rightarrow> (string \<times> string) list \<Rightarrow> (string \<times> aim_value) list \<Rightarrow> aim_res" where
  "named_res c ids as = with_values as (aim_res_of (OtherClass c) (map (\<lambda>(k, v). (k, AStr (Some v))) ids))"

definition d_make :: "'a aim_lib \<Rightarrow> aim_res \<Rightarrow> ('a drv_state, unit) drv" where
  "d_make A r = dbind (d_create A r) (\<lambda>_. dret ())"

section \<open>Policy of a subnet\<close>

definition service_subnet_res :: "snat_subnet \<Rightarrow> bridge_domain \<Rightarrow> aim_res" where
  "service_subnet_res s bd = with_values [display (subnet_display_name s (ss_id s)), (''scope'', AStr (Some ''private''))]
     (aim_res_of Subnet [(''tenant_name'', AStr (bd_tenant bd)), (''bd_name'', AStr (bd_name bd)), (''gw_ip_mask'', AStr (Some (ss_cidr s)))])"

definition create_service_subnet_bd_subnet :: "'a aim_lib \<Rightarrow> snat_subnet \<Rightarrow> bridge_domain \<Rightarrow> ('a drv_state, unit) drv" where
  "create_service_subnet_bd_subnet A s bd = d_make A (service_subnet_res s bd)"

definition snat_ext_net :: "l3_outside \<Rightarrow> snat_subnet \<Rightarrow> external_network" where
  "snat_ext_net l s = \<lparr> en_tenant = l3o_tenant l, en_l3out_name = l3o_name l, en_name = Some (snat_external_network_name (ss_id s)) \<rparr>"

definition create_snat_external_network ::
  "'a aim_lib \<Rightarrow> 'a net_fabric \<Rightarrow> snat_subnet \<Rightarrow> network_req \<Rightarrow> ('a drv_state, unit) drv" where
  "create_snat_external_network A N s n =
     dbind (dlift (get_aim_nat_strategy A (fn_dict n))) (\<lambda>x.
     case x of
       None \<Rightarrow> dret ()
     | Some (l3out, _, ns) \<Rightarrow>
         lift_aim0 (nf_create_external_network N ns
           (with_values [display (network_display_name n (subnet_display_name s (ss_id s)))] (ext_net_res (snat_ext_net l3out s)))
           (Some (snat_external_network_name (ss_id s)))))"

definition default_snat_port_max :: int where
  "default_snat_port_max = 65535"

fun port_attr :: "port_value \<Rightarrow> aim_value" where
  "port_attr (PortInt n) = AInt n"
| "port_attr (PortStr s) = AStr (Some s)"

definition port_or :: "port_value option \<Rightarrow> int \<Rightarrow> aim_value" where
  "port_or p d = (case p of None \<Rightarrow> AInt d | Some v \<Rightarrow> port_attr v)"

definition filter_name :: "string \<Rightarrow> snat_subnet \<Rightarrow> string" where
  "filter_name side s = ''snat_'' @ side @ ''_'' @ generate_snat_resource_name (ss_id s)"

definition filter_res :: "string \<Rightarrow> string \<Rightarrow> snat_subnet \<Rightarrow> aim_res" where
  "filter_res side tenant s = named_res ''Filter'' [(''tenant_name'', tenant), (''name'', filter_name side s)] []"

text \<open>The configured ports are those of the \<open>own\<close> side, destination or source.\<close>

definition filter_entry :: "string \<Rightarrow> string \<Rightarrow> string \<Rightarrow> string \<Rightarrow> string \<Rightarrow> snat_subnet \<Rightarrow> aim_res" where
  "filter_entry side own other proto tenant s =
     named_res ''FilterEntry'' [(''tenant_name'', tenant), (''filter_name'', filter_name side s), (''name'', side @ ''_'' @ proto @ ''_port_range'')]
       [(''ip_protocol'', AStr (Some proto)), (own @ ''_from_port'', port_or (ss_start_port s) 0),
        (own @ ''_to_port'', port_or (ss_end_port s) default_snat_port_max), (other @ ''_from_port'', AInt 0),
        (other @ ''_to_port'', AInt default_snat_port_max), (''stateful'', ABool True)]"

definition snat_filter_resources :: "string \<Rightarrow> snat_subnet \<Rightarrow> aim_res list" where
  "snat_filter_resources tenant s =
     (let shown = (\<lambda>side. with_values [display (''SNAT '' @ side @ '' filter '' @ subnet_display_name s (ss_id s))] (filter_res side tenant s))
      in [shown ''provider'', filter_entry ''provider'' ''dest'' ''source'' ''tcp'' tenant s, filter_entry ''provider'' ''dest'' ''source'' ''udp'' tenant s,
          shown ''consumer'', filter_entry ''consumer'' ''source'' ''dest'' ''tcp'' tenant s, filter_entry ''consumer'' ''source'' ''dest'' ''udp'' tenant s])"

definition create_snat_filters :: "'a aim_lib \<Rightarrow> snat_subnet \<Rightarrow> string \<Rightarrow> ('a drv_state, unit) drv" where
  "create_snat_filters A s tenant = deach (d_make A) (snat_filter_resources tenant s)"

definition snat_contract :: "string \<Rightarrow> snat_subnet \<Rightarrow> aim_res" where
  "snat_contract tenant s = aim_res_of Contract [(''tenant_name'', AStr (Some tenant)), (''name'', AStr (Some (snat_contract_name (ss_id s))))]"

definition snat_subject :: "string \<Rightarrow> snat_subnet \<Rightarrow> network_req \<Rightarrow> aim_res" where
  "snat_subject tenant s n =
     (let graph = AStr (Some (service_graph_name (fn_id n)))
      in with_values [display (''SNAT subject for subnet '' @ subnet_display_name s (ss_id s)), (''in_service_graph_name'', graph),
           (''out_service_graph_name'', graph), (''bi_filters'', AStrs [filter_name ''provider'' s, filter_name ''consumer'' s])]
         (aim_res_of ContractSubject [(''tenant_name'', AStr (Some tenant)),
           (''contract_name'', AStr (Some (snat_contract_name (ss_id s)))), (''name'', AStr (Some ''snat_subj''))]))"

definition create_snat_contract :: "'a aim_lib \<Rightarrow> snat_subnet \<Rightarrow> network_req \<Rightarrow> string \<Rightarrow> ('a drv_state, unit) drv" where
  "create_snat_contract A s n tenant =
     dbind (d_make A (with_values [display (''SNAT contract for subnet '' @ subnet_display_name s (ss_id s))] (snat_contract tenant s))) (\<lambda>_.
     d_make A (snat_subject tenant s n))"

section \<open>The service graph of a network\<close>

text \<open>What is there is written again, as it is or as given; what is not is created.\<close>

definition graph_res :: "string \<Rightarrow> string \<Rightarrow> aim_res" where
  "graph_res tenant i = named_res ''ServiceGraph'' [(''tenant_name'', tenant), (''name'', service_graph_name i)] []"

definition write_existing :: "'a aim_lib \<Rightarrow> aim_res \<Rightarrow> ('a drv_state, aim_res) drv" where
  "write_existing A r =
     dbind (d_get A r) (\<lambda>x.
     case x of
       Some y \<Rightarrow> dbind (d_create_over A y) (\<lambda>_. dret y)
     | None \<Rightarrow> dbind (d_create A r) (\<lambda>_. dret r))"

definition write_given :: "'a aim_lib \<Rightarrow> aim_res \<Rightarrow> ('a drv_state, unit) drv" where
  "write_given A r = dbind (d_get A r) (\<lambda>x.
     dbind (if x = None then d_create A r else d_create_over A r) (\<lambda>_. dret ()))"

definition graph_connection :: "string \<Rightarrow> string \<Rightarrow> string \<Rightarrow> aim_res" where
  "graph_connection side tenant i =
     named_res ''ServiceGraphConnection'' [(''tenant_name'', tenant), (''service_graph_name'', service_graph_name i), (''name'', side)]
       [(''connector_direction'', AStr (Some side)), (''connector_type'', AStr (Some ''external'')), (''adjacency_type'', AStr (Some ''L3''))]"

definition create_service_graph :: "'a aim_lib \<Rightarrow> network_req \<Rightarrow> string \<Rightarrow> ('a drv_state, aim_res) drv" where
  "create_service_graph A n tenant =
     dbind (write_existing A (with_values [display (network_display_name n (fn_id n)), (''linear_chain_nodes'', ADicts [])]
       (graph_res tenant (fn_id n)))) (\<lambda>sg.
     dbind (write_given A (graph_connection ''provider'' tenant (fn_id n))) (\<lambda>_.
     dbind (write_given A (graph_connection ''consumer'' tenant (fn_id n))) (\<lambda>_.
     dret sg)))"

text \<open>A cluster of devices is its name and its tenant.\<close>

definition create_service_graph_node ::
  "'a aim_lib \<Rightarrow> aim_res \<Rightarrow> (string \<times> string) option \<Rightarrow> string \<Rightarrow> ('a drv_state, unit) drv" where
  "create_service_graph_node A sg cluster tenant =
     (let (cname, ctenant) = (case cluster of None \<Rightarrow> ([], []) | Some c \<Rightarrow> c);
          node = with_values [display ''SNAT loadbalancer node'', (''function_type'', AStr (Some ''GoTo'')), (''routing_mode'', AStr (Some ''Redirect'')),
            (''managed'', ABool False), (''connectors'', AStrs [''provider'', ''consumer'']), (''device_cluster_name'', AStr (Some cname)),
            (''device_cluster_tenant_name'', AStr (Some ctenant)), (''sequence_number'', AStr (Some ''0''))]
            (aim_res_of (OtherClass ''ServiceGraphNode'') [(''tenant_name'', AStr (Some tenant)),
              (''service_graph_name'', AStr (attr_str sg ''name'')), (''name'', AStr (Some ''snat_lb_node''))])
      in dbind (write_existing A node) (\<lambda>_.
         dbind (d_create_over A (set_attr ''linear_chain_nodes'' (ADicts [[(''name'', ''snat_lb_node''),
           (''device_cluster_name'', cname), (''device_cluster_tenant_name'', ctenant)]]) sg)) (\<lambda>_. dret ())))"

section \<open>Clusters of devices\<close>

definition cluster_res :: "string \<Rightarrow> string \<Rightarrow> aim_res" where
  "cluster_res physdom tenant = named_res ''DeviceCluster'' [(''tenant_name'', tenant), (''name'', device_cluster_name physdom)] []"

definition create_device_cluster :: "'a aim_lib \<Rightarrow> string \<Rightarrow> string \<Rightarrow> ('a drv_state, unit) drv" where
  "create_device_cluster A physdom tenant =
     d_make A (with_values [display (''SNAT device cluster for domain '' @ physdom), (''device_type'', AStr (Some ''PHYSICAL'')),
       (''service_type'', AStr (Some ''OTHERS'')), (''context_aware'', AStr (Some ''Single-Context'')),
       (''physical_domain_name'', AStr (Some physdom)), (''managed'', ABool False), (''devices'', AStrs [])] (cluster_res physdom tenant))"

definition device_res :: "string \<Rightarrow> string \<Rightarrow> string \<Rightarrow> aim_res" where
  "device_res tenant cluster host = named_res ''ConcreteDevice'' [(''tenant_name'', tenant), (''device_cluster_name'', cluster), (''name'', host)] []"

definition create_concrete_device :: "'a aim_lib \<Rightarrow> string \<times> string \<Rightarrow> string \<Rightarrow> ('a drv_state, unit) drv" where
  "create_concrete_device A c host =
     d_make A (with_values [display (''Concrete device for host '' @ host)] (device_res (snd c) (fst c) host))"

definition create_concrete_interface ::
  "'a aim_lib \<Rightarrow> string \<Rightarrow> string \<Rightarrow> string \<Rightarrow> string \<Rightarrow> string \<Rightarrow> string \<Rightarrow> ('a drv_state, unit) drv" where
  "create_concrete_interface A tenant cluster device name path host =
     d_make A (named_res ''ConcreteDeviceInterface'' [(''tenant_name'', tenant), (''device_cluster_name'', cluster), (''device_name'', device),
       (''name'', name)] [display (''Interface for '' @ host), (''path'', AStr (Some path)), (''host'', AStr (Some host))])"

definition create_device_cluster_interface ::
  "'a aim_lib \<Rightarrow> string \<times> string \<Rightarrow> string \<Rightarrow> string list \<Rightarrow> string option \<Rightarrow> ('a drv_state, unit) drv" where
  "create_device_cluster_interface A c name ifs encap =
     d_make A (named_res ''DeviceClusterInterface'' [(''tenant_name'', snd c), (''device_cluster_name'', fst c), (''name'', name)]
       [display (''Logical interface '' @ name), (''encap'', AStr (Some (if truthy encap then the encap else ''unknown''))),
        (''concrete_interfaces'', AStrs ifs)])"

text \<open>A service port is its ID, address and hardware address, empty when missing.\<close>

definition create_pbr :: "string \<Rightarrow> string \<Rightarrow> 'a aim_lib \<Rightarrow> snat_subnet \<Rightarrow> string \<Rightarrow> (string \<times> string \<times> string) list \<Rightarrow> ('a drv_state, unit) drv" where
  "create_pbr prefix shown A s tenant ports =
     d_make A (named_res ''ServiceRedirectPolicy'' [(''tenant_name'', tenant), (''name'', prefix @ generate_snat_resource_name (ss_id s))]
       [display (shown @ subnet_display_name s (ss_id s)),
        (''destinations'', ADicts (map (\<lambda>(i, ip, mac). [(''name'', i), (''ip'', ip), (''mac'', mac)]) ports))])"

definition create_provider_pbr :: "'a aim_lib \<Rightarrow> snat_subnet \<Rightarrow> string \<Rightarrow> (string \<times> string \<times> string) list \<Rightarrow> ('a drv_state, unit) drv" where
  "create_provider_pbr = create_pbr ''provider_pbr_'' ''Provider PBR for subnet ''"

definition create_consumer_pbr :: "'a aim_lib \<Rightarrow> snat_subnet \<Rightarrow> string \<Rightarrow> (string \<times> string \<times> string) list \<Rightarrow> ('a drv_state, unit) drv" where
  "create_consumer_pbr = create_pbr ''consumer_pbr_'' ''Consumer PBR for subnet ''"

definition remove_concrete_device_for_host :: "'a aim_lib \<Rightarrow> string \<Rightarrow> string \<Rightarrow> string \<Rightarrow> ('a drv_state, unit) drv" where
  "remove_concrete_device_for_host A physdom host tenant = d_delete A (Some (device_res tenant (device_cluster_name physdom) host))"

definition cleanup_device_cluster_for_last_host :: "'a aim_lib \<Rightarrow> string \<Rightarrow> string \<Rightarrow> ('a drv_state, unit) drv" where
  "cleanup_device_cluster_for_last_host A physdom tenant = d_delete A (Some (cluster_res physdom tenant))"

section \<open>Gateways\<close>

text \<open>A gateway port: its ID and its addresses by subnet.\<close>

definition gateway_subnet :: "string \<Rightarrow> string \<Rightarrow> external_network \<Rightarrow> aim_res" where
  "gateway_subnet ip pid en = set_attr ''name'' (AStr (Some (''gw_'' @ generate_snat_resource_name pid)))
     (ext_subnet_res \<lparr> xs_tenant = en_tenant en, xs_l3out_name = en_l3out_name en, xs_ext_net_name = en_name en, xs_cidr = ip @ ''/32'' \<rparr>)"

definition handle_dist_snat_gateway_add ::
  "'a aim_lib \<Rightarrow> string \<times> (string \<times> string) list \<Rightarrow> snat_subnet \<Rightarrow> external_network \<Rightarrow> ('a drv_state, unit) drv" where
  "handle_dist_snat_gateway_add A port s en =
     (let ip = map_of (snd port) (ss_id s)
      in dwhen (truthy ip) (d_make A (with_values [display (''Gateway IP for '' @ subnet_display_name s (fst port))]
           (gateway_subnet (the ip) (fst port) en))))"

definition handle_dist_snat_gateway_remove ::
  "'a aim_lib \<Rightarrow> string \<times> (string \<times> string) list \<Rightarrow> snat_subnet \<Rightarrow> external_network \<Rightarrow> ('a drv_state, unit) drv" where
  "handle_dist_snat_gateway_remove A port s en =
     (let ip = map_of (snd port) (ss_id s)
      in dwhen (truthy ip) (d_delete A (Some (gateway_subnet (the ip) (fst port) en))))"

text \<open>\<open>subnets\<close> are those of the port's network, from the core plugin.\<close>

definition handle_dist_snat_gateway_ports ::
  "'a aim_lib \<Rightarrow> string \<times> (string \<times> string) list \<Rightarrow> bool \<Rightarrow> network_req \<Rightarrow> snat_subnet list \<Rightarrow> ('a drv_state, unit) drv" where
  "handle_dist_snat_gateway_ports A port adding n subnets =
     dbind (dlift (get_aim_nat_strategy A (fn_dict n))) (\<lambda>x.
     case x of
       None \<Rightarrow> dret ()
     | Some (_, en, _) \<Rightarrow>
         deach (\<lambda>s. if adding then handle_dist_snat_gateway_add A port s en else handle_dist_snat_gateway_remove A port s en)
           (filter (\<lambda>s. truthy (ss_service_network s)) subnets))"

section \<open>Taking the policy away\<close>

definition delete_snat_resources :: "'a aim_lib \<Rightarrow> 'a net_fabric \<Rightarrow> snat_subnet \<Rightarrow> network_req \<Rightarrow> string \<Rightarrow> ('a drv_state, unit) drv" where
  "delete_snat_resources A N s n tenant =
     dbind (dwhen (ss_network_id s \<noteq> []) (d_delete A (Some (graph_res tenant (ss_network_id s))))) (\<lambda>_.
     dbind (d_delete A (Some (snat_contract tenant s))) (\<lambda>_.
     dbind (d_delete A (Some (filter_res ''provider'' tenant s))) (\<lambda>_.
     dbind (d_delete A (Some (filter_res ''consumer'' tenant s))) (\<lambda>_.
     dbind (dlift (get_aim_nat_strategy A (fn_dict n))) (\<lambda>x.
     case x of
       None \<Rightarrow> dret ()
     | Some (l3out, _, ns) \<Rightarrow> lift_aim0 (nf_delete_external_network N ns (snat_ext_net l3out s)
         (Some (snat_external_network_name (ss_id s))) None))))))"

end
