(* ===== verification/Fabric_Subnets.thy ===== *)
theory Fabric_Subnets
  imports Dist_Snat_Policy
begin

text \<open>
  Subnets in the mechanism driver: those of external networks become subnets of what their NAT strategy
  manages, an SVI network gets an interface profile for each address family, and a subnet with a
  service network gets the policy of distributed SNAT.
\<close>

section \<open>What else is used of the libraries\<close>

text \<open>
  The NAT strategies' operations on subnets, the mask of a gateway address, the VRF that an L3Out
  object has when it is made from a name, the overlap of a prefix with others, the IP version of a
  prefix, and the names of routers.
\<close>

record 'a subnet_lib =
  sl_create_subnet :: "nat_strategy \<Rightarrow> l3_outside \<Rightarrow> string \<Rightarrow> string \<Rightarrow> string option \<Rightarrow> 'a \<Rightarrow> fabric_error + 'a"
  sl_create_epg_subnet :: "nat_strategy \<Rightarrow> l3_outside \<Rightarrow> string \<Rightarrow> string \<Rightarrow> string option \<Rightarrow> 'a \<Rightarrow> fabric_error + 'a"
  sl_delete_subnet :: "nat_strategy \<Rightarrow> l3_outside \<Rightarrow> string \<Rightarrow> string option \<Rightarrow> 'a \<Rightarrow> fabric_error + 'a"
  sl_delete_epg_subnet :: "nat_strategy \<Rightarrow> l3_outside \<Rightarrow> string \<Rightarrow> string option \<Rightarrow> 'a \<Rightarrow> fabric_error + 'a"
  sl_gw_ip_mask :: "string \<Rightarrow> int \<Rightarrow> string"
  sl_new_l3out_vrf :: "string option"
  sl_overlap :: "string list \<Rightarrow> string \<Rightarrow> fabric_error + bool"
  sl_version :: "string \<Rightarrow> fabric_error + int"
  sl_router_name :: "string \<Rightarrow> fabric_error + string"

definition subnet_to_gw_ip_mask :: "'a subnet_lib \<Rightarrow> snat_subnet \<Rightarrow> fabric_error + string" where
  "subnet_to_gw_ip_mask L s =
     (case py_split (CHR ''/'') (ss_cidr s) of
        addr # prefix # _ \<Rightarrow>
          (case py_int prefix of
             None \<Rightarrow> Inl ValueError
           | Some k \<Rightarrow> Inr (sl_gw_ip_mask L (if truthy (ss_gateway_ip s) then the (ss_gateway_ip s) else addr) k))
      | _ \<Rightarrow> Inl IndexError)"

text \<open>The objects behind an external network as the tables have it.\<close>

definition get_aim_external_objects_db ::
  "'a aim_lib \<Rightarrow> string \<Rightarrow> 'a drv_state \<Rightarrow> fabric_error + (l3_outside \<times> external_network \<times> nat_strategy) option" where
  "get_aim_external_objects_db A i s =
     (case net_ext_of i s of
        None \<Rightarrow> Inr None
      | Some x \<Rightarrow> (case nx_external_network_dn x of
          None \<Rightarrow> Inr None
        | Some dn \<Rightarrow> bindE (ext_net_from_dn A dn) (\<lambda>en.
            Inr (Some (\<lparr> l3o_tenant = en_tenant en, l3o_name = en_l3out_name en \<rparr>, en, nat_type_to_strategy (nx_nat_type x))))))"

definition get_aim_nat_strategy_db ::
  "'a aim_lib \<Rightarrow> string \<Rightarrow> 'a drv_state \<Rightarrow> fabric_error + (l3_outside \<times> external_network \<times> nat_strategy) option" where
  "get_aim_nat_strategy_db A i s = (if i \<in> set (ds_external s) then get_aim_external_objects_db A i s else Inr None)"

definition subnet_epg_name :: "string \<Rightarrow> ('a drv_state, string option) drv" where
  "subnet_epg_name i = dbind (dread (net_ext_of i)) (\<lambda>x. dbind (dthe x) (\<lambda>e. dret (determine_epg_name (nx_multi_ext_nets e) i)))"

definition wanted_scope :: "'a aim_lib \<Rightarrow> snat_subnet \<Rightarrow> string" where
  "wanted_scope A s = subnet_scope_value A
     (determine_subnet_scope (flag_or (ss_advertised_externally s) True) (flag_or (ss_shared_between_vrfs s) False))"

definition snat_config_of :: "snat_subnet \<Rightarrow> snat_config" where
  "snat_config_of s = \<lparr> sc_service_network = ss_service_network s, sc_start_port = ss_start_port s,
     sc_end_port = ss_end_port s, sc_alloc_size = ss_alloc_size s \<rparr>"

definition notify_existing_vm_ports :: "string \<Rightarrow> ('a drv_state, unit) drv" where
  "notify_existing_vm_ports i = dbind (dread (\<lambda>s. set (existing_vm_ports i (ds_neutron s)))) add_postcommit_port_notifications"

text \<open>The VRF of an unscoped private network is noted.\<close>

definition notify_subnet_vrf :: "string \<Rightarrow> string \<Rightarrow> ('a drv_state, unit) drv" where
  "notify_subnet_vrf system_id i =
     dbind (dread (\<lambda>s. (get_network_mapping i (ds_neutron s), i \<in> set (ds_external s)))) (\<lambda>(m, ext).
     case m of
       None \<Rightarrow> dret ()
     | Some x \<Rightarrow> (let v = get_network_vrf x in
         dwhen ((is_unrouted_vrf system_id v \<or> is_default_vrf v) \<and> \<not> ext) (add_postcommit_vrf_notification v)))"

section \<open>Creating a subnet\<close>

definition create_dist_snat_policy ::
  "'a aim_lib \<Rightarrow> 'a net_fabric \<Rightarrow> 'a subnet_lib \<Rightarrow> snat_subnet \<Rightarrow> network_req \<Rightarrow> ('a drv_state, unit) drv" where
  "create_dist_snat_policy A N L s n =
     dwhen (truthy (ss_service_network s))
       (let tenant = project_name (ss_tenant_id s) [] in
        dbind (dread (get_aim_nat_strategy_db A (ss_network_id s))) (\<lambda>x.
        dbind (dlift x) (\<lambda>objects.
        dbind (create_snat_external_network A N s n) (\<lambda>_.
        dbind (create_snat_filters A s tenant) (\<lambda>_.
        dbind (create_snat_contract A s n tenant) (\<lambda>_.
        dbind (create_service_graph A n tenant) (\<lambda>sg.
        dbind (create_service_graph_node A sg None tenant) (\<lambda>_.
        dwhen (objects \<noteq> None) (reparent_service_network_bd A (the (ss_service_network s)) (sl_new_l3out_vrf L) True)))))))))"

definition check_l3out_overlap :: "'a net_fabric \<Rightarrow> 'a subnet_lib \<Rightarrow> l3_outside \<Rightarrow> snat_subnet \<Rightarrow> ('a drv_state, unit) drv" where
  "check_l3out_overlap N L l3out s =
     dbind (dread ds_ext) (\<lambda>xdb.
     let others = filter (\<lambda>i. i \<noteq> ss_network_id s) (get_network_ids_by_l3out_dn (nf_l3out_dn N l3out) xdb);
         cidrs = map subnet_cidr (filter (\<lambda>x. subnet_network_id x \<in> set others) (nt_subnets (xd_neutron xdb)))
     in dwhen (others \<noteq> [])
          (dbind (dlift (sl_overlap L cidrs (ss_cidr s))) (\<lambda>b. dguard (\<not> b) (ExternalSubnetOverlapInL3Out (ss_cidr s)))))"

text \<open>\<open>False\<close> is the early end of the handler, for an external network that is not managed.\<close>

definition create_external_subnet ::
  "'a aim_lib \<Rightarrow> 'a net_fabric \<Rightarrow> 'a subnet_lib \<Rightarrow> snat_subnet \<Rightarrow> string option \<Rightarrow> ('a drv_state, bool) drv" where
  "create_external_subnet A N L s wanted_epg =
     dbind (dread (\<lambda>st. (ss_network_id s \<in> set (ds_external st), get_aim_nat_strategy_db A (ss_network_id s) st))) (\<lambda>(ext, x).
     if \<not> (ext \<and> truthy (ss_gateway_ip s)) then dret True
     else dbind (dlift x) (\<lambda>objects.
     case objects of
       None \<Rightarrow> dret False
     | Some (l3out, en, ns) \<Rightarrow>
         dbind (check_l3out_overlap N L l3out s) (\<lambda>_.
         dbind (dlift (subnet_to_gw_ip_mask L s)) (\<lambda>mask.
         dbind (lift_aim0 ((if ss_epg_subnet s = Some True then sl_create_epg_subnet L else sl_create_subnet L)
           ns l3out mask (wanted_scope A s) wanted_epg)) (\<lambda>_.
         dbind (dwhen (ss_snat_host_pool s = Some True) (notify_existing_vm_ports (ss_network_id s))) (\<lambda>_. dret True))))))"

definition create_svi_interface_profile ::
  "'a aim_lib \<Rightarrow> 'a subnet_lib \<Rightarrow> snat_subnet \<Rightarrow> ('a drv_state, unit) drv" where
  "create_svi_interface_profile A L s =
     (let i = ss_network_id s in
      dbind (dread (is_svi_db i)) (\<lambda>svi.
      dwhen svi
        (dbind (dlift (sl_version L (ss_cidr s))) (\<lambda>version.
         dbind (dread (\<lambda>st. length (filter (\<lambda>x. subnet_network_id x = i \<and> subnet_ip_version x = version) (nt_subnets (ds_neutron st))))) (\<lambda>k.
         dbind (dguard (k \<le> 1) OnlyOneSubnetPerAddressFamilyInSVINetwork) (\<lambda>_.
         dbind (dread (\<lambda>st. (is_preexisting_svi_db i st, get_aim_external_objects_db A i st, get_network_mapping i (ds_neutron st)))) (\<lambda>(pre, x, m).
         dbind (if pre then dbind (dlift x) (\<lambda>objects. dbind (dthe objects) (\<lambda>(l3out, _, _). dret l3out))
                else dbind (get_epg A (map_option l3out_res (get_network_l3out m))) (\<lambda>r. dbind (dthe r) (\<lambda>y. dret (res_l3out y)))) (\<lambda>l3out.
         dbind (d_create_over A (aim_res_of (OtherClass ''L3OutInterfaceProfile'')
           [(''tenant_name'', AStr (l3o_tenant l3out)), (''l3out_name'', AStr (l3o_name l3out)), (''node_profile_name'', AStr (Some ''NodeProfile'')),
            (''name'', AStr (Some (if version = 4 then ''IfProfile'' else ''IfProfile6'')))])) (\<lambda>_. dret ())))))))))"

text \<open>\<open>get_network\<close> reads a network of the core plugin; \<open>n\<close> is the dictionary of the subnet's network.\<close>

definition create_subnet_precommit ::
  "'a aim_lib \<Rightarrow> 'a net_fabric \<Rightarrow> 'a subnet_lib \<Rightarrow> string \<Rightarrow> (string \<Rightarrow> service_net option) \<Rightarrow> network_req \<Rightarrow> snat_subnet \<Rightarrow> ('a drv_state, unit) drv" where
  "create_subnet_precommit A N L system_id get_network n s =
     dbind (network_of (ss_network_id s)) (\<lambda>_.
     dbind (dlift (validate_dist_snat_port_config (snat_config_of s))) (\<lambda>_.
     dbind (dread ds_ext) (\<lambda>xdb.
     dbind (dlift (validate_subnet_snat_mode get_network xdb (ss_network_id s) (ss_id s) (flag_or (ss_snat_host_pool s) False)
       (ss_service_network s) None None)) (\<lambda>_.
     dbind (subnet_epg_name (ss_network_id s)) (\<lambda>wanted_epg.
     dbind (create_dist_snat_policy A N L s n) (\<lambda>_.
     dbind (dwhen (fn_service_network_enable n) (create_service_subnet_bd_subnet A s
       \<lparr> bd_tenant = Some common_tenant_name, bd_name = Some (service_network_bd_name (ss_network_id s)) \<rparr>)) (\<lambda>_.
     dbind (create_external_subnet A N L s wanted_epg) (\<lambda>managed.
     dwhen managed
       (dbind (create_svi_interface_profile A L s) (\<lambda>_.
        notify_subnet_vrf system_id (ss_network_id s)))))))))))"

section \<open>Changing a subnet\<close>

definition update_subnet_scope :: "'a aim_lib \<Rightarrow> snat_subnet \<Rightarrow> snat_subnet \<Rightarrow> ('a drv_state, unit) drv" where
  "update_subnet_scope A old s =
     dwhen (ss_advertised_externally old \<noteq> ss_advertised_externally s \<or> ss_shared_between_vrfs old \<noteq> ss_shared_between_vrfs s)
       (dbind (dread (\<lambda>st. get_network_mapping (ss_network_id s) (ds_neutron st))) (\<lambda>x.
        dbind (dthe x) (\<lambda>m.
        dbind (dlift (if flag_or (ss_epg_subnet s) False then map_epg_subnet (ss_cidr s) (ss_gateway_ip s) (get_network_epg m)
          else map_subnet (ss_cidr s) (ss_gateway_ip s) (get_network_bd m))) (\<lambda>sn.
        dbind (d_update A sn [(''scope'', AStr (Some (wanted_scope A s)))]) (\<lambda>_. dret ())))))"

definition notify_subnet_ports :: "snat_subnet \<Rightarrow> snat_subnet \<Rightarrow> ('a drv_state, unit) drv" where
  "notify_subnet_ports old s =
     dwhen (ss_host_routes s \<noteq> ss_host_routes old \<or> ss_dns_nameservers s \<noteq> ss_dns_nameservers old)
       (dbind (dread (\<lambda>st. set (get_compute_dhcp_ports_in_subnets [ss_id s] (ds_neutron st)))) add_postcommit_port_notifications)"

definition change_gateway ::
  "'a aim_lib \<Rightarrow> 'a subnet_lib \<Rightarrow> snat_subnet \<Rightarrow> snat_subnet \<Rightarrow> string option \<Rightarrow> ('a drv_state, unit) drv" where
  "change_gateway A L old s wanted_epg =
     dwhen (ss_gateway_ip s \<noteq> ss_gateway_ip old)
       (dbind (dread (get_aim_nat_strategy_db A (ss_network_id s))) (\<lambda>x.
        dbind (dlift x) (\<lambda>objects.
        case objects of
          None \<Rightarrow> dret ()
        | Some (l3out, _, ns) \<Rightarrow>
            dbind (dwhen (truthy (ss_gateway_ip old)) (dbind (dlift (subnet_to_gw_ip_mask L old)) (\<lambda>mask.
              lift_aim0 (sl_delete_subnet L ns l3out mask wanted_epg)))) (\<lambda>_.
            dwhen (truthy (ss_gateway_ip s)) (dbind (dlift (subnet_to_gw_ip_mask L s)) (\<lambda>mask.
              lift_aim0 (sl_create_subnet L ns l3out mask (wanted_scope A s) wanted_epg)))))))"

definition update_external_subnet ::
  "'a aim_lib \<Rightarrow> 'a subnet_lib \<Rightarrow> snat_subnet \<Rightarrow> snat_subnet \<Rightarrow> string option \<Rightarrow> ('a drv_state, unit) drv" where
  "update_external_subnet A L old s wanted_epg =
     dbind (dwhen (ss_snat_host_pool old \<noteq> ss_snat_host_pool s)
       (dbind (dread (\<lambda>st. ss_snat_host_pool old = Some True \<and> has_snat_ip_ports (ss_id s) (ds_neutron st))) (\<lambda>used.
        dbind (dguard (\<not> used) (SnatPortsInUse (ss_id s))) (\<lambda>_.
        notify_existing_vm_ports (ss_network_id s))))) (\<lambda>_.
     change_gateway A L old s wanted_epg)"

text \<open>The interfaces of routers on the subnet: address and router.\<close>

definition subnet_router_ips :: "string \<Rightarrow> neutron_db \<Rightarrow> (string \<times> string) list" where
  "subnet_router_ips i db =
     [(alloc_ip a, rp_router_id rp). a \<leftarrow> nt_allocs db, rp \<leftarrow> nt_router_ports db,
        rp_port_id rp = alloc_port_id a \<and> alloc_subnet_id a = i \<and> rp_type rp = device_owner_router_intf]"

definition rename_subnet :: "'a aim_lib \<Rightarrow> 'a subnet_lib \<Rightarrow> snat_subnet \<Rightarrow> ('a drv_state, unit) drv" where
  "rename_subnet A L s =
     dbind (dread (\<lambda>st. (get_network_mapping (ss_network_id s) (ds_neutron st), subnet_router_ips (ss_id s) (ds_neutron st)))) (\<lambda>(x, ips).
     dbind (dthe x) (\<lambda>m.
     deach (\<lambda>(ip, r).
       dbind (dlift (sl_router_name L r)) (\<lambda>nm.
       dbind (dlift (map_subnet (ss_cidr s) (Some ip) (get_network_bd m))) (\<lambda>sn.
       dbind (d_update A sn [display (sanitize_display_name A (nm @ ''-'' @ (if ss_name s \<noteq> [] then ss_name s else ss_cidr s)))]) (\<lambda>_.
       dret ())))) ips))"

definition update_subnet_precommit ::
  "'a aim_lib \<Rightarrow> 'a subnet_lib \<Rightarrow> (string \<Rightarrow> service_net option) \<Rightarrow> network_req \<Rightarrow> snat_subnet \<Rightarrow> snat_subnet \<Rightarrow> ('a drv_state, unit) drv" where
  "update_subnet_precommit A L get_network n old s =
     dbind (network_of (ss_network_id s)) (\<lambda>_.
     dbind (dlift (validate_dist_snat_port_config (snat_config_of s))) (\<lambda>_.
     dbind (dread ds_ext) (\<lambda>xdb.
     dbind (dlift (validate_subnet_snat_mode get_network xdb (ss_network_id s) (ss_id s) (flag_or (ss_snat_host_pool s) False)
       (ss_service_network s) (Some (flag_or (ss_snat_host_pool old) False)) (ss_service_network old))) (\<lambda>_.
     dbind (subnet_epg_name (ss_network_id s)) (\<lambda>wanted_epg.
     dbind (update_subnet_scope A old s) (\<lambda>_.
     dbind (notify_subnet_ports old s) (\<lambda>_.
     dbind (dread (\<lambda>st. ss_network_id s \<in> set (ds_external st))) (\<lambda>ext.
     if ext then update_external_subnet A L old s wanted_epg
     else dwhen (ss_name s \<noteq> ss_name old \<and> \<not> fn_svi n) (rename_subnet A L s)))))))))"

section \<open>Deleting a subnet\<close>

definition delete_external_subnet ::
  "'a aim_lib \<Rightarrow> 'a subnet_lib \<Rightarrow> snat_subnet \<Rightarrow> string option \<Rightarrow> ('a drv_state, bool) drv" where
  "delete_external_subnet A L s wanted_epg =
     dbind (dread (\<lambda>st. (ss_network_id s \<in> set (ds_external st), get_aim_nat_strategy_db A (ss_network_id s) st))) (\<lambda>(ext, x).
     if \<not> (ext \<and> truthy (ss_gateway_ip s)) then dret True
     else dbind (dlift x) (\<lambda>objects.
     case objects of
       None \<Rightarrow> dret False
     | Some (l3out, _, ns) \<Rightarrow>
         dbind (dlift (subnet_to_gw_ip_mask L s)) (\<lambda>mask.
         dbind (lift_aim0 ((if ss_epg_subnet s = Some True then sl_delete_epg_subnet L else sl_delete_subnet L) ns l3out mask wanted_epg)) (\<lambda>_.
         dbind (dwhen (ss_snat_host_pool s = Some True) (notify_existing_vm_ports (ss_network_id s))) (\<lambda>_. dret True)))))"

definition delete_dist_snat_policy ::
  "'a aim_lib \<Rightarrow> 'a net_fabric \<Rightarrow> string \<Rightarrow> network_req \<Rightarrow> snat_subnet \<Rightarrow> ('a drv_state, unit) drv" where
  "delete_dist_snat_policy A N system_id n s =
     dwhen (truthy (ss_service_network s))
       (dbind (dread (\<lambda>st. get_service_network_references (the (ss_service_network s)) (ds_ext st))) (\<lambda>refs.
        dbind (delete_snat_resources A N s n (project_name (ss_tenant_id s) [])) (\<lambda>_.
        dwhen (length refs = 1)
          (reparent_service_network_bd A (the (ss_service_network s)) (Some (unrouted_vrf_of system_id)) False))))"

definition delete_subnet_precommit ::
  "'a aim_lib \<Rightarrow> 'a net_fabric \<Rightarrow> 'a subnet_lib \<Rightarrow> string \<Rightarrow> network_req \<Rightarrow> snat_subnet \<Rightarrow> ('a drv_state, unit) drv" where
  "delete_subnet_precommit A N L system_id n s =
     dbind (network_of (ss_network_id s)) (\<lambda>_.
     dbind (subnet_epg_name (ss_network_id s)) (\<lambda>wanted_epg.
     dbind (delete_external_subnet A L s wanted_epg) (\<lambda>managed.
     dwhen managed
       (dbind (notify_subnet_vrf system_id (ss_network_id s)) (\<lambda>_.
        delete_dist_snat_policy A N system_id n s)))))"

end
