(* ===== verification/Fabric_Network_Laws.thy ===== *)
theory Fabric_Network_Laws
  imports Fabric_Networks Vrf_Move_Laws
begin

text \<open>
  Private networks and their resources: in every state that requests on them reach, each mapped network
  has a bridge domain and an endpoint group of its own in the fabric, and deleting a network undoes its
  creation.
\<close>

section \<open>What is assumed of the library\<close>

text \<open>
  The identity of a bridge domain or an endpoint group, and a store as a map from identities: a
  creation without overwriting refuses an identity that is taken and keeps the attributes, an update
  of other attributes sets them and returns what it has stored, a deletion removes one resource.
\<close>

definition net_class :: "aim_res \<Rightarrow> bool" where
  "net_class r \<longleftrightarrow> ar_class r = BridgeDomain \<or> ar_class r = EndpointGroup"

definition ident :: "aim_res \<Rightarrow> aim_res" where
  "ident r = (if ar_class r = BridgeDomain then bd_res (res_bd r) else epg_res (res_epg r))"

definition aim_view :: "'a aim_lib \<Rightarrow> 'a \<Rightarrow> aim_res \<Rightarrow> aim_res option" where
  "aim_view A a q = (if net_class q \<and> ident q = q then aim_get A q a else None)"

definition plain_keys :: "(string \<times> aim_value) list \<Rightarrow> bool" where
  "plain_keys as \<longleftrightarrow> list_all (\<lambda>(k, _). k \<notin> {''tenant_name'', ''name'', ''app_profile_name''}) as"

definition aim_store_ok :: "'a aim_lib \<Rightarrow> bool" where
  "aim_store_ok A \<longleftrightarrow>
     (\<forall>a q r. aim_view A a q = Some r \<longrightarrow> net_class r \<and> ident r = q) \<and>
     (\<forall>a r r' a'. net_class r \<longrightarrow> aim_create A r False a = Inr (r', a') \<longrightarrow>
        aim_view A a (ident r) = None \<and> net_class r' \<and> ident r' = ident r \<and>
        attr_bool r' ''monitored'' = attr_bool r ''monitored'' \<and> aim_view A a' = (aim_view A a)(ident r \<mapsto> r')) \<and>
     (\<forall>a r as x a'. net_class r \<longrightarrow> plain_keys as \<longrightarrow> aim_update A r as a = Inr (x, a') \<longrightarrow>
        x = map_option (with_values as) (aim_view A a (ident r)) \<and> aim_view A a' = (aim_view A a)(ident r := x)) \<and>
     (\<forall>a r a'. net_class r \<longrightarrow> aim_delete A (Some r) a = Inr a' \<longrightarrow> aim_view A a' = (aim_view A a)(ident r := None))"

section \<open>Identities\<close>

lemma set_attr_ident: "net_class r \<Longrightarrow> k \<notin> {''tenant_name'', ''name'', ''app_profile_name''} \<Longrightarrow> ident (set_attr k v r) = ident r"
  by (auto simp: ident_def net_class_def res_bd_def res_epg_def attr_str_def set_attr_def)

lemma with_values_simps [simp]:
  "with_values [] r = r" "with_values ((k, v) # as) r = with_values as (set_attr k v r)"
  by (simp_all add: with_values_def)

lemma net_class_set [simp]: "net_class (set_attr k v r) = net_class r"
  by (simp add: net_class_def)

lemma with_values_ident: "net_class r \<Longrightarrow> plain_keys as \<Longrightarrow> net_class (with_values as r) \<and> ident (with_values as r) = ident r"
  by (induction as arbitrary: r) (auto simp: plain_keys_def set_attr_ident)

lemma attr_bool_set [simp]: "attr_bool (set_attr k v r) k' = (if k' = k then (case v of ABool b \<Rightarrow> b | _ \<Rightarrow> False) else attr_bool r k')"
  by (auto simp: attr_bool_def set_attr_def split: aim_value.splits)

lemma with_values_bool: "k \<notin> fst ` set as \<Longrightarrow> attr_bool (with_values as r) k = attr_bool r k"
  by (induction as arbitrary: r) auto

lemma ident_basic [simp]:
  "net_class (bd_res b)" "net_class (epg_res e)" "ident (bd_res b) = bd_res b" "ident (epg_res e) = epg_res e"
  "bd_res b \<noteq> epg_res e" "epg_res e \<noteq> bd_res b" "attr_bool (bd_res b) ''monitored'' = False"
  "attr_bool (epg_res e) ''monitored'' = False"
  by (simp_all add: net_class_def ident_def) (simp_all add: bd_res_def epg_res_def aim_res_of_def attr_bool_def)

lemma res_inj [simp]: "bd_res b = bd_res b' \<longleftrightarrow> b = b'" "epg_res e = epg_res e' \<longleftrightarrow> e = e'"
  by (metis res_of_identity(2)) (metis res_of_identity(3))

lemma ident_bd: "ar_class r = BridgeDomain \<Longrightarrow> ident r = bd_res (res_bd r)"
  by (simp add: ident_def)

text \<open>The resource with an identity of bridge domains is one.\<close>

lemma ident_eq_bd: "net_class r \<Longrightarrow> ident r = bd_res b \<Longrightarrow> res_bd r = b"
  by (auto simp: ident_def split: if_splits)

lemma ident_eq_epg: "net_class r \<Longrightarrow> ident r = epg_res e \<Longrightarrow> res_epg r = e"
  by (auto simp: ident_def split: if_splits)

section \<open>Operations as changes of the map\<close>

abbreviation view :: "'a aim_lib \<Rightarrow> 'a drv_state \<Rightarrow> aim_res \<Rightarrow> aim_res option" where
  "view A s \<equiv> aim_view A (ds_aim s)"

lemma view_get: "aim_get A (bd_res b) a = aim_view A a (bd_res b)" "aim_get A (epg_res e) a = aim_view A a (epg_res e)"
  by (simp_all add: aim_view_def)

lemma view_ident:
  assumes "aim_store_ok A" and "aim_view A a q = Some r"
  shows "net_class r \<and> ident r = q"
  using assms unfolding aim_store_ok_def by blast

lemma d_create_view:
  assumes "aim_store_ok A" and "net_class r" and "d_create A r s = Inr (r', t)"
  shows "view A s (ident r) = None \<and> net_class r' \<and> ident r' = ident r \<and>
     attr_bool r' ''monitored'' = attr_bool r ''monitored'' \<and> view A t = (view A s)(ident r \<mapsto> r') \<and> ds_ext t = ds_ext s"
proof -
  from assms(3) obtain a where c: "aim_create A r False (ds_aim s) = Inr (r', a)" and t: "t = s\<lparr> ds_aim := a \<rparr>"
    by (auto simp: d_create_Inr)
  from assms(1,2) c have "aim_view A (ds_aim s) (ident r) = None \<and> net_class r' \<and> ident r' = ident r \<and>
     attr_bool r' ''monitored'' = attr_bool r ''monitored'' \<and> aim_view A a = (aim_view A (ds_aim s))(ident r \<mapsto> r')"
    unfolding aim_store_ok_def by blast
  then show ?thesis by (simp add: t)
qed

lemma d_update_view:
  assumes "aim_store_ok A" and "net_class r" and "plain_keys as" and "d_update A r as s = Inr (x, t)"
  shows "x = map_option (with_values as) (view A s (ident r)) \<and> view A t = (view A s)(ident r := x) \<and> ds_ext t = ds_ext s"
proof -
  from assms(4) obtain a where c: "aim_update A r as (ds_aim s) = Inr (x, a)" and t: "t = s\<lparr> ds_aim := a \<rparr>"
    by (auto simp: d_update_def lift_aim_Inr)
  from assms(1-3) c have "x = map_option (with_values as) (aim_view A (ds_aim s) (ident r)) \<and>
     aim_view A a = (aim_view A (ds_aim s))(ident r := x)"
    unfolding aim_store_ok_def by blast
  then show ?thesis by (simp add: t)
qed

lemma d_delete_view:
  assumes "aim_store_ok A" and "net_class r" and "d_delete A (Some r) s = Inr (u, t)"
  shows "view A t = (view A s)(ident r := None) \<and> ds_ext t = ds_ext s"
proof -
  from assms(3) obtain a where c: "aim_delete A (Some r) (ds_aim s) = Inr a" and t: "t = s\<lparr> ds_aim := a \<rparr>"
    by (auto simp: d_delete_def lift_aim0_Inr)
  from assms(1,2) c have "aim_view A a = (aim_view A (ds_aim s))(ident r := None)"
    unfolding aim_store_ok_def by blast
  then show ?thesis by (simp add: t)
qed

section \<open>Private networks\<close>

definition private_network :: "network_req \<Rightarrow> bool" where
  "private_network n \<longleftrightarrow> \<not> fn_external n \<and> \<not> fn_svi n \<and> \<not> fn_service_network_enable n"

abbreviation mapped_bd :: "network_mapping \<Rightarrow> aim_res" where
  "mapped_bd m \<equiv> bd_res (get_network_bd m)"

abbreviation mapped_epg :: "network_mapping \<Rightarrow> aim_res" where
  "mapped_epg m \<equiv> epg_res (get_network_epg m)"

abbreviation mapping_ids :: "'a drv_state \<Rightarrow> string list" where
  "mapping_ids s \<equiv> map nm_network_id (ds_mappings s)"

text \<open>No resource of an identity, or one from outside, which is what a network may take over as its bridge
  domain: the fabric holds nothing of the cloud's own there.\<close>

definition bd_free :: "aim_res option \<Rightarrow> bool" where
  "bd_free x \<longleftrightarrow> (case x of None \<Rightarrow> True | Some b \<Rightarrow> attr_bool b ''monitored'')"

lemma mapping_resources [simp]:
  "get_network_bd (bd_epg_mapping i bd epg v) = bd" "get_network_epg (bd_epg_mapping i bd epg v) = epg"
  "nm_network_id (bd_epg_mapping i bd epg v) = i"
  by (simp_all add: get_network_bd_def get_network_epg_def bd_epg_mapping_def)

lemma net_mapping_Inr:
  "add_network_mapping_and_notify i bd epg v s = Inr (u, t) \<Longrightarrow>
   i \<notin> set (mapping_ids s) \<and> ds_mappings t = ds_mappings s @ [bd_epg_mapping i bd epg v] \<and> ds_aim t = ds_aim s"
  by (auto simp: add_network_mapping_and_notify_def add_mapping_def add_network_mapping_def publish_network_vrf_def
      dbind_Inr set_neutron_def Let_def split: if_splits)

lemma preexisting_bd:
  assumes "aim_store_ok A" and "check_valid_preexisting_bd A N dn s = Inr (x, t)"
  shows "t = s \<and> (\<exists>bd. ident x = bd_res bd \<and> view A s (bd_res bd) = Some x) \<and> net_class x \<and> attr_bool x ''monitored''"
  using assms(2) view_ident[OF assms(1)]
  by (auto simp: check_valid_preexisting_bd_def dbind_Inr view_get split: option.splits if_splits)

lemma settings_plain: "plain_keys (bd_settings A i n)" "plain_keys (bd_settings A i n @ [(''monitored'', ABool False)])"
  "''monitored'' \<notin> fst ` set (bd_settings A i n)" "plain_keys (epg_settings A n nm)"
  "''monitored'' \<notin> fst ` set (epg_settings A n nm)"
  by (simp_all add: plain_keys_def bd_settings_def epg_settings_def)

lemma take_bd_view:
  assumes A: "aim_store_ok A" and "take_bd A N i n bd s = Inr ((bd', nm), t)"
  shows "(\<exists>b. view A t = (view A s)(bd_res bd' \<mapsto> b) \<and> \<not> attr_bool b ''monitored'') \<and> bd_free (view A s (bd_res bd')) \<and>
    (\<not> truthy (fn_bd_dn n) \<longrightarrow> bd' = bd \<and> view A s (bd_res bd') = None) \<and> ds_ext t = ds_ext s"
proof (cases "truthy (fn_bd_dn n)")
  case True
  let ?as = "bd_settings A i n @ [(''monitored'', ABool False)]"
  from assms(2) True obtain pre b where p: "check_valid_preexisting_bd A N (the (fn_bd_dn n)) s = Inr (pre, s)"
    and u: "d_update A pre ?as s = Inr (Some b, t)" and bd': "bd' = res_bd b"
    using preexisting_bd[OF A] by (auto simp: take_bd_def dbind_Inr split: if_splits) metis
  obtain x where x: "ident pre = bd_res x" "view A s (bd_res x) = Some pre" and pre: "net_class pre" "attr_bool pre ''monitored''"
    using preexisting_bd[OF A p] by blast
  have v: "Some b = map_option (with_values ?as) (view A s (ident pre)) \<and> view A t = (view A s)(ident pre \<mapsto> b) \<and> ds_ext t = ds_ext s"
    by (rule d_update_view[OF A pre(1) settings_plain(2) u])
  then have b: "b = with_values ?as pre" using x by simp
  have "net_class b \<and> ident b = ident pre" unfolding b by (rule with_values_ident[OF pre(1) settings_plain(2)])
  then have "bd' = x" using ident_eq_bd x(1) bd' by metis
  moreover have "\<not> attr_bool b ''monitored''" by (simp add: b with_values_def)
  ultimately show ?thesis using v x pre True by (auto simp: bd_free_def)
next
  case False
  let ?r = "with_values (bd_settings A i n) (bd_res bd)"
  have r: "net_class ?r" "ident ?r = bd_res bd"
    by (simp_all add: with_values_ident settings_plain(1))
  from assms(2) False obtain b where c: "d_create A ?r s = Inr (b, t)" and bd': "bd' = res_bd b"
    by (auto simp: take_bd_def dbind_Inr)
  note v = d_create_view[OF A r(1) c]
  then have "bd' = bd" using ident_eq_bd r(2) bd' by metis
  then show ?thesis using v r(2) False by (auto simp: bd_free_def with_values_bool settings_plain(3))
qed

lemma create_network_view:
  assumes A: "aim_store_ok A" and p: "private_network n" and "create_network_precommit A N i n s = Inr (u, t)"
  obtains bd epg b e v where "view A t = (view A s)(bd_res bd \<mapsto> b, epg_res epg \<mapsto> e)"
    and "\<not> attr_bool b ''monitored'' \<and> \<not> attr_bool e ''monitored''"
    and "bd_free (view A s (bd_res bd))" and "view A s (epg_res epg) = None"
    and "\<not> truthy (fn_bd_dn n) \<Longrightarrow> view A s (bd_res bd) = None"
    and "ds_mappings t = ds_mappings s @ [bd_epg_mapping (fn_id n) bd epg v]" and "fn_id n \<notin> set (mapping_ids s)"
proof -
  from assms(3) p have "create_private_network_objects A N i n s = Inr (u, t)"
    by (simp add: create_network_precommit_def private_network_def dbind_Inr)
  then obtain bd0 epg bd nm s1 e s2 where m: "map_network_resources (req_row n) None None = (bd0, epg)"
    and tb: "take_bd A N i n bd0 s = Inr ((bd, nm), s1)"
    and ce: "d_create A (with_values (epg_settings A n nm) (epg_res epg)) s1 = Inr (e, s2)"
    and am: "add_network_mapping_and_notify (fn_id n) bd epg (map_unrouted_vrf i) s2 = Inr (u, t)"
    by (auto simp: create_private_network_objects_def dbind_Inr split: prod.splits)
  obtain b where b: "view A s1 = (view A s)(bd_res bd \<mapsto> b)" "\<not> attr_bool b ''monitored''"
    and fb: "bd_free (view A s (bd_res bd))" "\<not> truthy (fn_bd_dn n) \<Longrightarrow> view A s (bd_res bd) = None" and x1: "ds_ext s1 = ds_ext s"
    using take_bd_view[OF A tb] by blast
  let ?r = "with_values (epg_settings A n nm) (epg_res epg)"
  have r: "net_class ?r" "ident ?r = epg_res epg" by (simp_all add: with_values_ident settings_plain(4))
  note ve = d_create_view[OF A r(1) ce]
  have em: "\<not> attr_bool e ''monitored''" using ve by (simp add: with_values_bool settings_plain(5))
  note ma = net_mapping_Inr[OF am]
  show ?thesis
    by (rule that[of bd b epg e "map_unrouted_vrf i"]) (use b fb ve em r(2) ma x1 in auto)
qed

lemma mapping_of_id: "get_network_mapping i db = Some m \<Longrightarrow> m \<in> set (nt_network_mappings db) \<and> nm_network_id m = i"
  by (auto simp: get_network_mapping_def find_Some_iff)

lemma delete_network_view:
  assumes A: "aim_store_ok A" and p: "private_network n" and "delete_network_precommit A N i n s = Inr (u, t)"
  shows "ds_mappings t = filter (\<lambda>m. nm_network_id m \<noteq> fn_id n) (ds_mappings s) \<and>
    view A t = (case get_network_mapping (fn_id n) (ds_neutron s) of None \<Rightarrow> view A s
      | Some m \<Rightarrow> (view A s)(mapped_bd m := None, mapped_epg m := None))"
proof -
  from assms(3) p have d: "delete_private_network_objects A (fn_id n) s = Inr (u, t)"
    by (simp add: delete_network_precommit_def private_network_def dbind_Inr)
  show ?thesis
  proof (cases "get_network_mapping (fn_id n) (ds_neutron s)")
    case None
    then have "filter (\<lambda>m. nm_network_id m \<noteq> fn_id n) (ds_mappings s) = ds_mappings s"
      by (auto simp: get_network_mapping_def find_None_iff intro: filter_True)
    with None d show ?thesis by (simp add: delete_private_network_objects_def dbind_Inr)
  next
    case (Some m)
    with d obtain s1 s2 where 1: "d_delete A (Some (mapped_bd m)) s = Inr ((), s1)" and 2: "d_delete A (Some (mapped_epg m)) s1 = Inr ((), s2)"
      and t: "t = set_neutron (delete_mapping_row (fn_id n) (ds_neutron s2)) s2"
      by (auto simp: delete_private_network_objects_def dbind_Inr)
    note v1 = d_delete_view[OF A ident_basic(1) 1] and v2 = d_delete_view[OF A ident_basic(2) 2]
    show ?thesis using v1 v2 Some by (simp add: t set_neutron_def delete_mapping_row_def)
  qed
qed

subsection \<open>Changes keep the resources\<close>

text \<open>The same resources, as much from outside as before, and the same rows.\<close>

definition same_shape :: "aim_res option \<Rightarrow> aim_res option \<Rightarrow> bool" where
  "same_shape x y \<longleftrightarrow> map_option (\<lambda>r. attr_bool r ''monitored'') x = map_option (\<lambda>r. attr_bool r ''monitored'') y"

definition shape_kept :: "'a aim_lib \<Rightarrow> ('a drv_state, 'r) drv \<Rightarrow> bool" where
  "shape_kept A m \<longleftrightarrow> drv_keeps (\<lambda>s. (ds_mappings s, \<lambda>q. map_option (\<lambda>r. attr_bool r ''monitored'') (view A s q))) m"

named_theorems shape_rules

lemma shape_kept_basic [shape_rules]:
  "shape_kept A (dret x)" "shape_kept A (draise e)" "shape_kept A (dread g)" "shape_kept A (dlift m)" "shape_kept A (dguard b e)"
  "shape_kept A (dthe y)"
  by (simp_all add: shape_kept_def drv_rules)

lemma shape_kept_bind [shape_rules]: "shape_kept A m \<Longrightarrow> (\<And>x. shape_kept A (g x)) \<Longrightarrow> shape_kept A (dbind m g)"
  unfolding shape_kept_def by (rule drv_keeps_bind)

lemma shape_kept_when [shape_rules]: "(b \<Longrightarrow> shape_kept A m) \<Longrightarrow> shape_kept A (dwhen b m)"
  by (auto simp: dwhen_def intro: shape_rules)

lemma shape_kept_notify [shape_rules]: "shape_kept A (add_postcommit_port_notifications ports)"
  by (auto simp: shape_kept_def drv_keeps_def add_postcommit_port_notifications_def)

lemma shape_kept_get [shape_rules]: "shape_kept A (d_get A r)"
  by (auto simp: shape_kept_def drv_keeps_def)

lemma shape_kept_update:
  assumes A: "aim_store_ok A" and "net_class r" and "plain_keys as" and k: "''monitored'' \<notin> fst ` set as"
  shows "shape_kept A (d_update A r as)"
  unfolding shape_kept_def drv_keeps_def
proof (intro allI impI)
  fix s x t
  assume "d_update A r as s = Inr (x, t)"
  note v = d_update_view[OF A assms(2,3) this]
  show "(ds_mappings t, \<lambda>q. map_option (\<lambda>r. attr_bool r ''monitored'') (view A t q)) =
    (ds_mappings s, \<lambda>q. map_option (\<lambda>r. attr_bool r ''monitored'') (view A s q))"
    using v by (auto simp: option.map_comp o_def with_values_bool[OF k])
qed

text \<open>Calling the library with nothing to update changes nothing.\<close>

definition nothing_kept :: "'a aim_lib \<Rightarrow> 'a net_fabric \<Rightarrow> bool" where
  "nothing_kept A N \<longleftrightarrow> (\<forall>as a a'. nf_update_nothing N as a = Inr a' \<longrightarrow> aim_view A a' = aim_view A a)"

lemma shape_kept_nothing: "nothing_kept A N \<Longrightarrow> shape_kept A (lift_aim0 (nf_update_nothing N as))"
  by (auto simp: shape_kept_def drv_keeps_def lift_aim0_Inr nothing_kept_def)

lemma shape_kept_update_found:
  assumes A: "aim_store_ok A" and u: "\<And>e. net_class e \<Longrightarrow> shape_kept A (g (Some e))" and gn: "shape_kept A (g None)"
  shows "shape_kept A (dbind (d_get A (epg_res x)) g)"
  unfolding shape_kept_def drv_keeps_def
proof (intro allI impI)
  fix s y t
  assume "dbind (d_get A (epg_res x)) g s = Inr (y, t)"
  then have gs: "g (view A s (epg_res x)) s = Inr (y, t)" by (simp add: dbind_Inr view_get)
  have "shape_kept A (g (view A s (epg_res x)))"
    using gn u view_ident[OF A] by (cases "view A s (epg_res x)") auto
  then show "(ds_mappings t, \<lambda>q. map_option (\<lambda>r. attr_bool r ''monitored'') (view A t q)) =
    (ds_mappings s, \<lambda>q. map_option (\<lambda>r. attr_bool r ''monitored'') (view A s q))"
    using gs unfolding shape_kept_def drv_keeps_def by blast
qed

lemma plain_keys_one: "plain_keys [(k, v)] \<longleftrightarrow> k \<notin> {''tenant_name'', ''name'', ''app_profile_name''}"
  by (simp add: plain_keys_def)

lemma shape_kept_set:
  "aim_store_ok A \<Longrightarrow> net_class r \<Longrightarrow> k \<notin> {''tenant_name'', ''name'', ''app_profile_name'', ''monitored''} \<Longrightarrow> shape_kept A (d_update A r [(k, v)])"
  by (rule shape_kept_update) (auto simp: plain_keys_one)

lemma dbind_dthe: "dbind (dthe x) f = (case x of None \<Rightarrow> draise AttributeError | Some y \<Rightarrow> f y)"
  by (auto simp: dthe_def dbind_def draise_def dret_def split: option.split)

lemma update_epg_names_shape:
  assumes "aim_store_ok A" and "\<And>e. epg = Some e \<Longrightarrow> net_class e" and "k \<notin> {''tenant_name'', ''name'', ''app_profile_name'', ''monitored''}"
  shows "shape_kept A (update_epg_names A k epg cur old)"
  unfolding update_epg_names_def dbind_dthe
  by (rule shape_kept_when) (use assms in \<open>auto intro!: shape_rules shape_kept_set split: option.split\<close>)

lemma update_network_shape:
  assumes A: "aim_store_ok A" and N: "nothing_kept A N" and p: "private_network n"
  shows "shape_kept A (update_network_precommit A N n old)"
proof -
  have name: "shape_kept A (update_network_name A m n old)" for m
    using p by (auto simp: update_network_name_def private_network_def Let_def intro!: shape_rules shape_kept_set[OF A])
  have qos: "shape_kept A (update_network_qos A m n old)" for m
    by (auto simp: update_network_qos_def intro!: shape_rules shape_kept_set[OF A])
  have contracts: "shape_kept A (update_network_contracts A m n old)" for m
    unfolding update_network_contracts_def
    by (intro shape_rules shape_kept_update_found[OF A] update_epg_names_shape[OF A]) auto
  have attr: "shape_kept A (update_epg_attr A N m (k, v))"
    if "k \<notin> {''tenant_name'', ''name'', ''app_profile_name'', ''monitored''}" for m k v
    unfolding update_epg_attr_def
    by (intro shape_rules shape_kept_update_found[OF A]) (auto intro!: shape_rules shape_kept_set[OF A] shape_kept_nothing[OF N] that)
  have settings: "shape_kept A (update_network_settings A N m n old)" for m
    unfolding update_network_settings_def by (intro shape_rules attr) auto
  have nat: "shape_kept A (notify_no_nat_ports n old)"
    unfolding notify_no_nat_ports_def by (intro shape_rules)
  show ?thesis
    unfolding update_network_precommit_def using p
    by (auto simp: private_network_def intro!: shape_rules name qos contracts settings nat)
qed

section \<open>Reachable states\<close>

text \<open>
  Requests on private networks; in between, the other tables and other resources of the fabric may
  change, but the mapping rows and the bridge domains and groups they name stay.  Router interfaces, which
  move rows and resources to another VRF and tenant, are therefore not among these steps
  (\<open>Vrf_Move_Laws\<close> and \<open>Router_Interface_Laws\<close> are about them).
\<close>

inductive net_state :: "'a aim_lib \<Rightarrow> 'a net_fabric \<Rightarrow> string \<Rightarrow> 'a drv_state \<Rightarrow> bool"
  for A N sys where
  net_start: "ds_mappings s = [] \<Longrightarrow> net_state A N sys s"
| net_create: "net_state A N sys s \<Longrightarrow> private_network n \<Longrightarrow> create_network_precommit A N sys n s = Inr (u, t) \<Longrightarrow> net_state A N sys t"
| net_update: "net_state A N sys s \<Longrightarrow> private_network n \<Longrightarrow> update_network_precommit A N n old s = Inr (u, t) \<Longrightarrow> net_state A N sys t"
| net_delete: "net_state A N sys s \<Longrightarrow> private_network n \<Longrightarrow> delete_network_precommit A N sys n s = Inr (u, t) \<Longrightarrow> net_state A N sys t"
| net_other: "net_state A N sys s \<Longrightarrow> ds_mappings t = ds_mappings s \<Longrightarrow>
    (\<And>m. m \<in> set (ds_mappings s) \<Longrightarrow> view A t (mapped_bd m) = view A s (mapped_bd m) \<and> view A t (mapped_epg m) = view A s (mapped_epg m)) \<Longrightarrow>
    net_state A N sys t"

definition networks_backed :: "'a aim_lib \<Rightarrow> 'a drv_state \<Rightarrow> bool" where
  "networks_backed A s \<longleftrightarrow>
     distinct (mapping_ids s) \<and> distinct (map get_network_bd (ds_mappings s)) \<and> distinct (map get_network_epg (ds_mappings s)) \<and>
     (\<forall>m \<in> set (ds_mappings s). \<not> bd_free (aim_get A (mapped_bd m) (ds_aim s)) \<and> \<not> bd_free (aim_get A (mapped_epg m) (ds_aim s)))"

lemma backed_view:
  "networks_backed A s \<longleftrightarrow>
     distinct (mapping_ids s) \<and> distinct (map get_network_bd (ds_mappings s)) \<and> distinct (map get_network_epg (ds_mappings s)) \<and>
     (\<forall>m \<in> set (ds_mappings s). \<not> bd_free (view A s (mapped_bd m)) \<and> \<not> bd_free (view A s (mapped_epg m)))"
  by (simp add: networks_backed_def view_get)

lemma backed_create:
  assumes A: "aim_store_ok A" and b: "networks_backed A s" and "private_network n" and "create_network_precommit A N i n s = Inr (u, t)"
  shows "networks_backed A t"
proof -
  obtain bd epg b e v where v: "view A t = (view A s)(bd_res bd \<mapsto> b, epg_res epg \<mapsto> e)"
      "\<not> attr_bool b ''monitored'' \<and> \<not> attr_bool e ''monitored''"
    and f: "bd_free (view A s (bd_res bd))" "view A s (epg_res epg) = None"
    and m: "ds_mappings t = ds_mappings s @ [bd_epg_mapping (fn_id n) bd epg v]" "fn_id n \<notin> set (mapping_ids s)"
    using create_network_view[OF A assms(3,4)] by metis
  have "get_network_bd x \<noteq> bd" "get_network_epg x \<noteq> epg" if "x \<in> set (ds_mappings s)" for x
    using b f that by (auto simp: backed_view bd_free_def)
  then show ?thesis using b v m by (auto simp: backed_view bd_free_def)
qed

lemma backed_delete:
  assumes A: "aim_store_ok A" and b: "networks_backed A s" and "private_network n" and "delete_network_precommit A N i n s = Inr (u, t)"
  shows "networks_backed A t"
proof -
  note d = delete_network_view[OF A assms(3,4)]
  show ?thesis
  proof (cases "get_network_mapping (fn_id n) (ds_neutron s)")
    case None
    then show ?thesis using d b by (auto simp: backed_view distinct_map intro: inj_on_subset)
  next
    case (Some m)
    note mm = mapping_of_id[OF Some]
    have "get_network_bd x \<noteq> get_network_bd m" "get_network_epg x \<noteq> get_network_epg m"
      if "x \<in> set (ds_mappings s)" "nm_network_id x \<noteq> fn_id n" for x
      using b that mm by (auto simp: backed_view distinct_map dest: inj_onD)
    then show ?thesis using d b Some by (auto simp: backed_view distinct_map intro: inj_on_subset)
  qed
qed

lemma backed_same:
  assumes "networks_backed A s" and "ds_mappings t = ds_mappings s"
    and "\<And>m. m \<in> set (ds_mappings s) \<Longrightarrow> bd_free (view A t (mapped_bd m)) = bd_free (view A s (mapped_bd m)) \<and>
      bd_free (view A t (mapped_epg m)) = bd_free (view A s (mapped_epg m))"
  shows "networks_backed A t"
  using assms by (auto simp: backed_view)

lemma backed_update:
  assumes A: "aim_store_ok A" and N: "nothing_kept A N" and b: "networks_backed A s" and "private_network n"
    and "update_network_precommit A N n old s = Inr (u, t)"
  shows "networks_backed A t"
proof -
  have eq: "(ds_mappings t, \<lambda>q. map_option (\<lambda>r. attr_bool r ''monitored'') (view A t q)) =
      (ds_mappings s, \<lambda>q. map_option (\<lambda>r. attr_bool r ''monitored'') (view A s q))"
    using update_network_shape[OF A N assms(4)] assms(5) unfolding shape_kept_def by (rule drv_keepsD)
  then have sh: "map_option (\<lambda>r. attr_bool r ''monitored'') (view A t q) = map_option (\<lambda>r. attr_bool r ''monitored'') (view A s q)" for q
    by (metis prod.inject)
  have "bd_free (view A t q) = bd_free (view A s q)" for q
    using sh[of q] by (auto simp: bd_free_def split: option.splits)
  then show ?thesis using eq by (intro backed_same[OF b]) simp_all
qed

lemma net_state_backed:
  assumes A: "aim_store_ok A" and N: "nothing_kept A N" and "net_state A N sys s"
  shows "networks_backed A s"
  using assms(3)
proof induction
  case (net_start s)
  then show ?case by (simp add: backed_view)
next
  case (net_create s n u t)
  then show ?case using backed_create[OF A] by blast
next
  case (net_update s n old u t)
  then show ?case using backed_update[OF A N] by blast
next
  case (net_delete s n u t)
  then show ?case using backed_delete[OF A] by blast
next
  case (net_other s t)
  then show ?case using backed_same by metis
qed

section \<open>The properties\<close>

text \<open>C12: In every state that creating, changing and deleting private networks reaches, while nothing else,
  a router interface in particular, touches the mapping rows and what they name, each network is mapped
  once, to a bridge domain and an endpoint group that exist in the fabric, that no other network is mapped
  to, and that are not from outside; that is so of the bridge domain even if the network took it over.
\<close>

theorem private_networks_backed:
  assumes "aim_store_ok A" and "nothing_kept A N" and "net_state A N system_id s"
  shows "networks_backed A s"
  using assms by (rule net_state_backed)

text \<open>C30: Creating a private network that does not take over an existing bridge domain, and deleting it
  again, restores the mapping table and every bridge domain and endpoint group of the fabric, whatever else
  the two requests say.  (A bridge domain that was taken over does not come back: the deletion removes it.)
\<close>

theorem private_network_roundtrip:
  assumes A: "aim_store_ok A" and n: "private_network n" and d: "private_network d" "fn_id d = fn_id n" and "\<not> truthy (fn_bd_dn n)"
    and c: "create_network_precommit A N system_id n s = Inr (u, t)" and e: "delete_network_precommit A N system_id d t = Inr (v, w)"
  shows "ds_mappings w = ds_mappings s \<and>
    (\<forall>b. aim_get A (bd_res b) (ds_aim w) = aim_get A (bd_res b) (ds_aim s)) \<and>
    (\<forall>g. aim_get A (epg_res g) (ds_aim w) = aim_get A (epg_res g) (ds_aim s))"
proof -
  obtain bd epg b g v where v: "view A t = (view A s)(bd_res bd \<mapsto> b, epg_res epg \<mapsto> g)"
    and f: "view A s (bd_res bd) = None" "view A s (epg_res epg) = None"
    and m: "ds_mappings t = ds_mappings s @ [bd_epg_mapping (fn_id n) bd epg v]" and i: "fn_id n \<notin> set (mapping_ids s)"
    using create_network_view[OF A n c] assms(5) by metis
  have none: "find (\<lambda>x. nm_network_id x = fn_id n) (ds_mappings s) = None" using i by (auto simp: find_None_iff image_iff)
  have gm: "get_network_mapping (fn_id d) (ds_neutron t) = Some (bd_epg_mapping (fn_id n) bd epg v)"
    using none by (simp add: get_network_mapping_def m d(2) find_append)
  have keep: "filter (\<lambda>x. nm_network_id x \<noteq> fn_id n) (ds_mappings s) = ds_mappings s"
    using i by (auto simp: filter_id_conv image_iff)
  note x = delete_network_view[OF A d(1) e]
  have "view A w = view A s" using x gm v f by (auto simp: fun_eq_iff)
  moreover have "ds_mappings w = ds_mappings s" using x keep by (simp add: m d(2))
  ultimately show ?thesis by (simp add: view_get)
qed

end
