(* ===== verification/Fabric_Network_Examples.thy ===== *)
theory Fabric_Network_Examples
  imports Fabric_Network_Laws Fabric_Example
begin

text \<open>
  The theorems on private networks at concrete requests, one of which takes over a bridge domain from
  outside, and an SVI network whose change of routing misses its IPv4 subnets.
\<close>

section \<open>A library that keeps the laws\<close>

definition demo_strict :: "aim_res list aim_lib" where
  "demo_strict = demo_aim\<lparr> aim_create := (\<lambda>r ow a. if \<not> ow \<and> demo_get r a \<noteq> None then Inl (AimError ''exists'')
     else Inr (r, filter (\<lambda>q. \<not> same_id r q) a @ [r])) \<rparr>"

lemma demo_strict_fields [simp]:
  "aim_get demo_strict = demo_get" "aim_create demo_strict r False a =
     (if demo_get r a \<noteq> None then Inl (AimError ''exists'') else Inr (r, filter (\<lambda>q. \<not> same_id r q) a @ [r]))"
  "aim_update demo_strict = aim_update demo_aim" "aim_delete demo_strict = aim_delete demo_aim"
  by (simp_all add: demo_strict_def demo_aim_def)

lemma same_id_bd: "ar_class q = BridgeDomain \<Longrightarrow> same_id q r \<longleftrightarrow> ar_class r = BridgeDomain \<and> res_bd q = res_bd r"
  by (auto simp: same_id_def identity_keys_def res_bd_def)

lemma same_id_epg: "ar_class q = EndpointGroup \<Longrightarrow> same_id q r \<longleftrightarrow> ar_class r = EndpointGroup \<and> res_epg q = res_epg r"
  by (auto simp: same_id_def identity_keys_def res_epg_def)

lemma same_id_ident: "net_class q \<Longrightarrow> ar_class r = BridgeDomain \<or> ar_class r = EndpointGroup \<Longrightarrow> same_id q r \<longleftrightarrow> ident q = ident r"
  by (cases "ar_class q = BridgeDomain"; cases "ar_class r = BridgeDomain")
    (auto simp: net_class_def ident_def same_id_bd same_id_epg)

lemma ident_ident: "net_class (ident r) \<and> ident (ident r) = ident r"
  by (cases "ar_class r = BridgeDomain") (simp_all add: ident_def[of r])

lemma demo_get_ident:
  assumes "net_class r"
  shows "demo_get (ident r) a = demo_get r a"
proof -
  have "same_id (ident r) r"
    using assms same_id_ident[of "ident r" r] ident_ident[of r] by (simp add: net_class_def[of r])
  from same_id_eq[OF this] show ?thesis unfolding demo_get_def by simp
qed

lemma demo_view: "net_class r \<Longrightarrow> aim_view demo_strict a (ident r) = demo_get r a"
  by (simp add: aim_view_def demo_get_ident ident_ident)

lemma demo_view_eqI:
  assumes "net_class r" and "\<And>q. net_class q \<Longrightarrow> ident q = q \<Longrightarrow> demo_get q a' = (if same_id q r then x else demo_get q a)"
  shows "aim_view demo_strict a' = (aim_view demo_strict a)(ident r := x)"
proof
  fix q
  show "aim_view demo_strict a' q = ((aim_view demo_strict a)(ident r := x)) q"
    using assms same_id_ident[of q r] ident_ident[of r] by (auto simp: aim_view_def net_class_def)
qed

lemma demo_store_ok: "aim_store_ok demo_strict"
  unfolding aim_store_ok_def
proof (intro conjI allI impI)
  fix a q r
  assume v: "aim_view demo_strict a q = Some r"
  then have q: "net_class q" "ident q = q" and "demo_get q a = Some r"
    by (simp_all add: aim_view_def split: if_splits)
  then have s: "same_id q r" by (simp add: find_same_id)
  then show "net_class r" using q by (simp add: same_id_def net_class_def)
  then show "ident r = q" using s q same_id_ident by (simp add: net_class_def)
next
  fix a r r' a'
  assume r: "net_class r" and c: "aim_create demo_strict r False a = Inr (r', a')"
  then have n: "demo_get r a = None" and r': "r' = r" and a': "a' = filter (\<lambda>q. \<not> same_id r q) a @ [r]"
    by (auto split: if_splits)
  show "aim_view demo_strict a (ident r) = None" by (simp add: demo_view[OF r] n)
  show "net_class r'" "ident r' = ident r" "attr_bool r' ''monitored'' = attr_bool r ''monitored''" by (simp_all add: r r')
  show "aim_view demo_strict a' = (aim_view demo_strict a)(ident r \<mapsto> r')"
    unfolding a' r' by (rule demo_view_eqI[OF r]) (simp add: demo_get_created)
next
  fix a r as x a'
  assume r: "net_class r" and p: "plain_keys as" and "aim_update demo_strict r as a = Inr (x, a')"
  then have u: "aim_update demo_aim r as a = Inr (x, a')" by simp
  have "x = map_option (with_values as) (demo_get r a) \<and> aim_view demo_strict a' = (aim_view demo_strict a)(ident r := x)"
  proof (cases "demo_get r a")
    case None
    then have "x = None" "a' = a" using u by (simp_all add: demo_aim_def)
    then show ?thesis using None demo_view[OF r, of a] by (auto simp: fun_eq_iff)
  next
    case (Some y)
    have x: "x = Some (with_values as y)" and a': "a' = map (\<lambda>q. if same_id r q then with_values as y else q) a"
      using u Some by (auto simp: demo_aim_def Let_def with_values_def)
    have y: "same_id r y" using Some by (rule find_same_id)
    then have cy: "net_class y" using r by (simp add: same_id_def net_class_def)
    then have "same_id r (with_values as y)"
      using y with_values_ident[OF cy p] same_id_ident[OF r] by (simp add: net_class_def)
    note get = demo_get_changed[OF this]
    have some: "demo_get q a = Some y" if "same_id q r" for q
      using Some same_id_eq[OF that] by (simp add: demo_get_def)
    show ?thesis unfolding x a' using Some
      by (intro conjI demo_view_eqI[OF r]) (simp_all add: get some)
  qed
  then show "x = map_option (with_values as) (aim_view demo_strict a (ident r))"
    and "aim_view demo_strict a' = (aim_view demo_strict a)(ident r := x)"
    by (simp_all add: demo_view[OF r])
next
  fix a r a'
  assume r: "net_class r" and "aim_delete demo_strict (Some r) a = Inr a'"
  then have a': "a' = filter (\<lambda>q. \<not> same_id r q) a" by (simp add: demo_aim_def)
  show "aim_view demo_strict a' = (aim_view demo_strict a)(ident r := None)"
    unfolding a' by (rule demo_view_eqI[OF r]) (simp add: demo_get_deleted)
qed

section \<open>A cloud\<close>

definition demo_net_fabric :: "aim_res list net_fabric" where
  "demo_net_fabric = \<lparr> nf_create_l3outside = (\<lambda>ns l ds e a. Inr a), nf_create_external_network = (\<lambda>ns en e a. Inr a),
     nf_update_external_cidrs = (\<lambda>ns en cs a. Inr a), nf_l3outside_resources = (\<lambda>ns l e a. []),
     nf_delete_external_network = (\<lambda>ns en e cs a. Inr a), nf_delete_l3outside = (\<lambda>ns l e cs a. Inr a),
     nf_update_nothing = (\<lambda>as a. Inl (AimError ''nothing'')),
     nf_delete_cascade = (\<lambda>r a. case r of None \<Rightarrow> Inl (AimError ''nothing'') | Some x \<Rightarrow> Inr (filter (\<lambda>q. \<not> same_id x q) a)),
     nf_bd_from_dn = (\<lambda>dn. Inr \<lparr> bd_tenant = Some ''common'', bd_name = Some dn \<rparr>), nf_l3out_dn = (\<lambda>l. none_str (l3o_name l)),
     nf_openstack_vmm_type = ''OpenStack'', nf_network_of_address = (\<lambda>x. Inr (none_str x)), nf_l3_domain_dn = ''dom'' \<rparr>"

lemma demo_nothing: "nothing_kept demo_strict demo_net_fabric"
  by (simp add: nothing_kept_def demo_net_fabric_def)

definition demo_net :: "string \<Rightarrow> network_req" where
  "demo_net i = \<lparr> fn_dict = \<lparr> nd_id = i, nd_external = False, nd_ext_net_dn = None, nd_nat_type = None, nd_multi_ext_nets = False \<rparr>,
     fn_name = ''net'', fn_tenant_id = ''T'', fn_description = [], fn_svi = False, fn_bgp = Some False, fn_bgp_type = Some ''default_export'',
     fn_bgp_asn = Some ''1'', fn_service_network_enable = False, fn_provider_type = None, fn_physical_network = None,
     fn_extra_provided = [''web''], fn_extra_consumed = [], fn_contract_masters = [], fn_enforcement_pref = ''unenforced'',
     fn_qos_policy_id = None, fn_no_nat_cidrs = [], fn_external_cidrs = [], fn_bd_dn = None \<rparr>"

definition demo_row :: "string \<Rightarrow> network_row" where
  "demo_row i = \<lparr> network_id = i, network_tenant_id = ''T'', network_rbac_actions = [], network_mtu = None \<rparr>"

definition demo_svi_row :: net_ext_row where
  "demo_svi_row = \<lparr> nx_network_id = ''v1'', nx_external_network_dn = None, nx_bridge_domain_dn = None, nx_nat_type = None, nx_svi = Some True,
     nx_bgp_enable = False, nx_bgp_type = ''default_export'', nx_bgp_asn = ''1'', nx_policy_enforcement_pref = ''unenforced'',
     nx_nested_domain_name = None, nx_nested_domain_type = None, nx_nested_domain_infra_vlan = None, nx_nested_domain_service_vlan = None,
     nx_nested_domain_node_network_vlan = None, nx_multi_ext_nets = False, nx_service_network_enable = False \<rparr>"

text \<open>The fabric has a bridge domain from outside.\<close>

definition demo_net_start :: "aim_res list drv_state" where
  "demo_net_start = \<lparr> ds_ext = \<lparr> xd_neutron = \<lparr> nt_scopes = [], nt_pools = [], nt_networks = [demo_row ''n1'', demo_row ''n2'', demo_row ''v1''],
       nt_subnets = [], nt_ports = [], nt_allocs = [], nt_routers = [], nt_router_ports = [], nt_scope_mappings = [], nt_network_mappings = [] \<rparr>,
       xd_erspans = [], xd_networks = [demo_svi_row], xd_cidrs = [], xd_vlans = [], xd_contracts = [], xd_masters = [], xd_no_nat_cidrs = [],
       xd_subnets = [], xd_snat_mappings = [], xd_router_contracts = [], xd_hpp = [] \<rparr>,
     ds_aim = [set_attr ''monitored'' (ABool True) (bd_res \<lparr> bd_tenant = Some ''common'', bd_name = Some ''outside'' \<rparr>)],
     ds_external = [], ds_ports_to_notify = {}, ds_vrfs_to_notify = {}, ds_published = [] \<rparr>"

definition demo_create_1 :: "fabric_error + (unit \<times> aim_res list drv_state)" where
  "demo_create_1 = create_network_precommit demo_strict demo_net_fabric [] (demo_net ''n1'') demo_net_start"

definition demo_net_1 :: "aim_res list drv_state" where
  "demo_net_1 = after demo_create_1 demo_net_start"

definition demo_create_2 :: "fabric_error + (unit \<times> aim_res list drv_state)" where
  "demo_create_2 = create_network_precommit demo_strict demo_net_fabric [] (demo_net ''n2''\<lparr> fn_bd_dn := Some ''outside'' \<rparr>) demo_net_1"

definition demo_net_2 :: "aim_res list drv_state" where
  "demo_net_2 = after demo_create_2 demo_net_1"

definition demo_update_1 :: "fabric_error + (unit \<times> aim_res list drv_state)" where
  "demo_update_1 = update_network_precommit demo_strict demo_net_fabric (demo_net ''n1''\<lparr> fn_name := ''new'', fn_extra_provided := [''db''] \<rparr>)
     (demo_net ''n1'') demo_net_2"

definition demo_net_3 :: "aim_res list drv_state" where
  "demo_net_3 = after demo_update_1 demo_net_2"

lemma demo_net_requests: "succeeds demo_create_1" "succeeds demo_create_2" "succeeds demo_update_1"
  by code_simp+

lemma demo_net_private: "private_network (demo_net i)" "private_network (demo_net i\<lparr> fn_bd_dn := x \<rparr>)"
  "private_network (demo_net i\<lparr> fn_name := y, fn_extra_provided := z \<rparr>)"
  by (simp_all add: private_network_def demo_net_def)

lemma demo_net_state: "net_state demo_strict demo_net_fabric [] demo_net_3"
proof -
  obtain u where 1: "create_network_precommit demo_strict demo_net_fabric [] (demo_net ''n1'') demo_net_start = Inr (u, demo_net_1)"
    using after_succeeds[OF demo_net_requests(1)] unfolding demo_net_1_def demo_create_1_def by blast
  obtain v where 2: "create_network_precommit demo_strict demo_net_fabric [] (demo_net ''n2''\<lparr> fn_bd_dn := Some ''outside'' \<rparr>) demo_net_1 =
      Inr (v, demo_net_2)"
    using after_succeeds[OF demo_net_requests(2)] unfolding demo_net_2_def demo_create_2_def by blast
  obtain w where 3: "update_network_precommit demo_strict demo_net_fabric (demo_net ''n1''\<lparr> fn_name := ''new'', fn_extra_provided := [''db''] \<rparr>)
      (demo_net ''n1'') demo_net_2 = Inr (w, demo_net_3)"
    using after_succeeds[OF demo_net_requests(3)] unfolding demo_net_3_def demo_update_1_def by blast
  have "net_state demo_strict demo_net_fabric [] demo_net_start" by (rule net_start) (simp add: demo_net_start_def)
  then have "net_state demo_strict demo_net_fabric [] demo_net_1" by (rule net_create[OF _ demo_net_private(1) 1])
  then have "net_state demo_strict demo_net_fabric [] demo_net_2" by (rule net_create[OF _ demo_net_private(2) 2])
  then show ?thesis by (rule net_update[OF _ demo_net_private(3) 3])
qed

theorem private_networks_backed_witness:
  "networks_backed demo_strict demo_net_3 \<and> mapping_ids demo_net_3 = [''n1'', ''n2'']"
proof -
  have "mapping_ids demo_net_3 = [''n1'', ''n2'']" by code_simp
  then show ?thesis using private_networks_backed[OF demo_store_ok demo_nothing demo_net_state] by blast
qed

definition demo_delete_1 :: "fabric_error + (unit \<times> aim_res list drv_state)" where
  "demo_delete_1 = delete_network_precommit demo_strict demo_net_fabric [] (demo_net ''n1'') demo_net_1"

lemma demo_net_deleted: "succeeds demo_delete_1"
  by code_simp

theorem private_network_roundtrip_witness:
  "\<exists>w. delete_network_precommit demo_strict demo_net_fabric [] (demo_net ''n1'') demo_net_1 = Inr ((), w) \<and>
     ds_mappings demo_net_1 \<noteq> ds_mappings demo_net_start \<and> ds_mappings w = ds_mappings demo_net_start \<and>
     (\<forall>b. aim_get demo_strict (bd_res b) (ds_aim w) = aim_get demo_strict (bd_res b) (ds_aim demo_net_start))"
proof -
  obtain u where c: "create_network_precommit demo_strict demo_net_fabric [] (demo_net ''n1'') demo_net_start = Inr (u, demo_net_1)"
    using after_succeeds[OF demo_net_requests(1)] unfolding demo_net_1_def demo_create_1_def by blast
  obtain v w where d: "delete_network_precommit demo_strict demo_net_fabric [] (demo_net ''n1'') demo_net_1 = Inr (v, w)"
    using after_succeeds[OF demo_net_deleted] unfolding demo_delete_1_def by blast
  have "length (ds_mappings demo_net_1) = 1" "length (ds_mappings demo_net_start) = 0" by code_simp+
  then have "ds_mappings demo_net_1 \<noteq> ds_mappings demo_net_start" by auto
  moreover have "\<not> truthy (fn_bd_dn (demo_net ''n1''))" by (simp add: demo_net_def)
  ultimately show ?thesis
    using private_network_roundtrip[OF demo_store_ok demo_net_private(1) demo_net_private(1) refl _ c d] d by auto
qed

section \<open>An SVI network\<close>

text \<open>
  The network is created without BGP, and then BGP is enabled with default export: the subnet
  \<open>0.0.0.0/0\<close> that the change is written to was never created, and the two halves that were keep their
  scope, unlike the IPv6 subnet.
\<close>

definition demo_svi_off :: network_req where
  "demo_svi_off = demo_net ''v1''\<lparr> fn_svi := True, fn_extra_provided := [] \<rparr>"

definition demo_svi_on :: network_req where
  "demo_svi_on = demo_svi_off\<lparr> fn_bgp := Some True \<rparr>"

definition demo_svi_1 :: "fabric_error + (unit \<times> aim_res list drv_state)" where
  "demo_svi_1 = create_network_precommit demo_strict demo_net_fabric [] demo_svi_off demo_net_start"

definition demo_svi_2 :: "fabric_error + (unit \<times> aim_res list drv_state)" where
  "demo_svi_2 = update_network_precommit demo_strict demo_net_fabric demo_svi_on demo_svi_off (after demo_svi_1 demo_net_start)"

definition demo_svi_created_on :: "fabric_error + (unit \<times> aim_res list drv_state)" where
  "demo_svi_created_on = create_network_precommit demo_strict demo_net_fabric [] demo_svi_on demo_net_start"

definition svi_scopes :: "fabric_error + (unit \<times> aim_res list drv_state) \<Rightarrow> (string option \<times> string option) list" where
  "svi_scopes m = map (\<lambda>r. (attr_str r ''cidr'', attr_str r ''scope''))
     (aim_find demo_strict (OtherClass ''ExternalSubnet'') [] (ds_aim (after m demo_net_start)))"

lemma svi_update_misses_ipv4:
  "svi_scopes demo_svi_1 = [(Some ''0.0.0.0/1'', Some ''import-security''), (Some ''128.0.0.0/1'', Some ''import-security''),
     (Some ''::/0'', Some ''import-security'')]"
  "succeeds demo_svi_2"
  "svi_scopes demo_svi_2 = [(Some ''0.0.0.0/1'', Some ''import-security''), (Some ''128.0.0.0/1'', Some ''import-security''),
     (Some ''::/0'', Some ''export-rtctrl,import-security'')]"
  "svi_scopes demo_svi_created_on = [(Some ''0.0.0.0/1'', Some ''export-rtctrl,import-security''),
     (Some ''128.0.0.0/1'', Some ''export-rtctrl,import-security''), (Some ''::/0'', Some ''export-rtctrl,import-security'')]"
  by code_simp+

end
