(* ===== verification/Fabric_Subnet_Examples.thy ===== *)
theory Fabric_Subnet_Examples
  imports Fabric_Subnets Fabric_Network_Examples
begin

text \<open>
  Two subnets with distributed SNAT on one external network, and what happens to their policy; a subnet
  of an endpoint group whose gateway changes.
\<close>

section \<open>A cloud\<close>

text \<open>Subnets are resources of the store that the strategy's operations add and remove.\<close>

definition demo_strategy_subnet :: "string \<Rightarrow> string \<Rightarrow> aim_res" where
  "demo_strategy_subnet c m = named_res c [(''name'', m)] []"

definition demo_subnets :: "aim_res list subnet_lib" where
  "demo_subnets = \<lparr> sl_create_subnet = (\<lambda>ns l m sc e a. Inr (a @ [demo_strategy_subnet ''NatSubnet'' m])),
     sl_create_epg_subnet = (\<lambda>ns l m sc e a. Inr (a @ [demo_strategy_subnet ''NatEpgSubnet'' m])),
     sl_delete_subnet = (\<lambda>ns l m e a. Inr (filter (\<lambda>q. \<not> same_id (demo_strategy_subnet ''NatSubnet'' m) q) a)),
     sl_delete_epg_subnet = (\<lambda>ns l m e a. Inr (filter (\<lambda>q. \<not> same_id (demo_strategy_subnet ''NatEpgSubnet'' m) q) a)),
     sl_gw_ip_mask = (\<lambda>ip k. ip @ ''/'' @ py_str_int k), sl_new_l3out_vrf = Some [],
     sl_overlap = (\<lambda>cs c. Inr False), sl_version = (\<lambda>c. Inr 4), sl_router_name = (\<lambda>r. Inr r) \<rparr>"

definition demo_ext_net :: network_req where
  "demo_ext_net = demo_net ''e1''\<lparr> fn_dict := \<lparr> nd_id = ''e1'', nd_external = True, nd_ext_net_dn = Some ''x'', nd_nat_type = None,
     nd_multi_ext_nets = False \<rparr> \<rparr>"

definition demo_ext_row :: net_ext_row where
  "demo_ext_row = demo_svi_row\<lparr> nx_network_id := ''e1'', nx_external_network_dn := Some ''x'', nx_svi := Some False \<rparr>"

definition demo_subnet_row :: "string \<Rightarrow> subnet_ext_row" where
  "demo_subnet_row i = \<lparr> sx_subnet_id = i, sx_snat_host_pool = None, sx_active_active_aap = None, sx_snat_subnet_only = None, sx_epg_subnet = None,
     sx_advertised_externally = None, sx_shared_between_vrfs = None, sx_router_gw_ip_pool = None, sx_service_network_id = Some ''sv'',
     sx_dist_snat_start_port = None, sx_dist_snat_end_port = None, sx_dist_snat_alloc_size = None \<rparr>"

definition demo_subnet :: "string \<Rightarrow> snat_subnet" where
  "demo_subnet i = \<lparr> ss_id = i, ss_name = i, ss_description = [], ss_network_id = ''e1'', ss_tenant_id = ''T'', ss_cidr = ''10.0.0.0/24'',
     ss_gateway_ip = Some ''10.0.0.1'', ss_service_network = None, ss_start_port = Some (PortInt 1), ss_end_port = Some (PortInt 9),
     ss_alloc_size = None, ss_snat_host_pool = Some False, ss_epg_subnet = Some False, ss_advertised_externally = Some True,
     ss_shared_between_vrfs = Some False, ss_host_routes = [], ss_dns_nameservers = [] \<rparr>"

abbreviation demo_dist_subnet :: "string \<Rightarrow> snat_subnet" where
  "demo_dist_subnet i \<equiv> demo_subnet i\<lparr> ss_service_network := Some ''sv'' \<rparr>"

definition demo_get_network :: "string \<Rightarrow> service_net option" where
  "demo_get_network i = Some \<lparr> sn_id = i, sn_service_network_enable = True, sn_router_external = True, sn_provider_type = Some ''vlan'',
     sn_physical_network = Some ''phys'' \<rparr>"

text \<open>The L3Out of the external network is in VRF \<open>routed\<close>; the bridge domain of the service network is there.\<close>

definition demo_sub_start :: "aim_res list drv_state" where
  "demo_sub_start = demo_net_start\<lparr>
     ds_ext := (ds_ext demo_net_start)\<lparr>
       xd_neutron := (ds_neutron demo_net_start)\<lparr> nt_networks := [demo_row ''e1'', demo_row ''sv''] \<rparr>,
       xd_networks := [demo_ext_row], xd_subnets := [demo_subnet_row ''s1'', demo_subnet_row ''s2''] \<rparr>,
     ds_aim := [service_bd_res ''sv'',
       set_attr ''vrf_name'' (AStr (Some ''routed'')) (l3out_res \<lparr> l3o_tenant = Some ''common'', l3o_name = Some ''l3o'' \<rparr>)],
     ds_external := [''e1''] \<rparr>"

definition demo_create_subnet :: "snat_subnet \<Rightarrow> aim_res list drv_state \<Rightarrow> fabric_error + (unit \<times> aim_res list drv_state)" where
  "demo_create_subnet s st = create_subnet_precommit demo_strict demo_net_fabric demo_subnets [] demo_get_network demo_ext_net s st"

definition demo_update_subnet :: "snat_subnet \<Rightarrow> snat_subnet \<Rightarrow> aim_res list drv_state \<Rightarrow> fabric_error + (unit \<times> aim_res list drv_state)" where
  "demo_update_subnet old s st = update_subnet_precommit demo_strict demo_subnets demo_get_network demo_ext_net old s st"

definition demo_delete_subnet :: "snat_subnet \<Rightarrow> aim_res list drv_state \<Rightarrow> fabric_error + (unit \<times> aim_res list drv_state)" where
  "demo_delete_subnet s st = delete_subnet_precommit demo_strict demo_net_fabric demo_subnets [] demo_ext_net s st"

section \<open>One service graph for two subnets\<close>

text \<open>
  Both subnets' contracts name the service graph of the network; deleting one subnet deletes the graph,
  and the subject of the other's contract keeps naming it.
\<close>

text \<open>The contracts of both subnets and the graph, without the filters.\<close>

definition demo_policies :: "(aim_res list drv_state, unit) drv" where
  "demo_policies = (let tenant = project_name ''T'' [] in
     dbind (create_snat_contract demo_strict (demo_dist_subnet ''s1'') demo_ext_net tenant) (\<lambda>_.
     dbind (create_snat_contract demo_strict (demo_dist_subnet ''s2'') demo_ext_net tenant) (\<lambda>_.
     dbind (create_service_graph demo_strict demo_ext_net tenant) (\<lambda>sg.
     create_service_graph_node demo_strict sg None tenant))))"

definition demo_sub_2 :: "aim_res list drv_state" where
  "demo_sub_2 = after (demo_policies demo_sub_start) demo_sub_start"

definition demo_sub_3 :: "aim_res list drv_state" where
  "demo_sub_3 = after (demo_delete_subnet (demo_dist_subnet ''s1'') demo_sub_2) demo_sub_2"

definition demo_graph_of :: "string \<Rightarrow> aim_res list drv_state \<Rightarrow> string option option" where
  "demo_graph_of i st = map_option (\<lambda>r. attr_str r ''in_service_graph_name'')
     (aim_get demo_strict (snat_subject (project_name ''T'' []) (demo_subnet i) demo_ext_net) (ds_aim st))"

definition demo_graph_exists :: "aim_res list drv_state \<Rightarrow> bool" where
  "demo_graph_exists st \<longleftrightarrow> aim_get demo_strict (graph_res (project_name ''T'' []) ''e1'') (ds_aim st) \<noteq> None"

lemma shared_graph_deleted:
  "demo_graph_exists demo_sub_2" "succeeds (demo_delete_subnet (demo_dist_subnet ''s1'') demo_sub_2)"
  "\<not> demo_graph_exists demo_sub_3" "demo_graph_of ''s2'' demo_sub_3 = Some (Some ''sg_e1'')"
  by code_simp+

text \<open>
  The bridge domain of the service network goes to the VRF that a new L3Out object has, not to that of
  the L3Out in the fabric.
\<close>

definition demo_sub_1 :: "aim_res list drv_state" where
  "demo_sub_1 = after (demo_create_subnet (demo_dist_subnet ''s1'') demo_sub_start) demo_sub_start"

lemma service_network_vrf_lost:
  "map_option (\<lambda>r. attr_str r ''vrf_name'') (aim_get demo_strict (service_bd_res ''sv'') (ds_aim demo_sub_1)) = Some (sl_new_l3out_vrf demo_subnets)"
  "map_option (\<lambda>r. attr_str r ''vrf_name'') (aim_get demo_strict (l3out_res \<lparr> l3o_tenant = Some ''common'', l3o_name = Some ''l3o'' \<rparr>)
     (ds_aim demo_sub_1)) = Some (Some ''routed'')"
  by code_simp+

section \<open>A service network that is set later\<close>

text \<open>The request passes all checks, and nothing is written to the fabric.\<close>

definition demo_summary :: "aim_res list drv_state \<Rightarrow> (aim_class \<times> string option \<times> string option) list" where
  "demo_summary st = map (\<lambda>r. (ar_class r, attr_str r ''name'', attr_str r ''vrf_name'')) (ds_aim st)"

lemma later_service_network_no_policy:
  "succeeds (demo_update_subnet (demo_subnet ''s1'') (demo_dist_subnet ''s1'') demo_sub_start)"
  "demo_summary (after (demo_update_subnet (demo_subnet ''s1'') (demo_dist_subnet ''s1'') demo_sub_start) demo_net_start) =
     demo_summary demo_sub_start"
  by code_simp+

section \<open>A new gateway of an endpoint group's subnet\<close>

text \<open>The old subnet stays with the endpoint group, and the new one becomes one of the bridge domain.\<close>

abbreviation demo_epg_subnet :: snat_subnet where
  "demo_epg_subnet \<equiv> demo_subnet ''s1''\<lparr> ss_epg_subnet := Some True \<rparr>"

definition demo_epg_1 :: "aim_res list drv_state" where
  "demo_epg_1 = after (demo_create_subnet demo_epg_subnet demo_sub_start) demo_sub_start"

definition demo_epg_2 :: "aim_res list drv_state" where
  "demo_epg_2 = after (demo_update_subnet demo_epg_subnet (demo_epg_subnet\<lparr> ss_gateway_ip := Some ''10.0.0.9'' \<rparr>) demo_epg_1) demo_epg_1"

definition demo_strategy_subnets :: "aim_res list drv_state \<Rightarrow> (aim_class \<times> string option) list" where
  "demo_strategy_subnets st = map (\<lambda>r. (ar_class r, attr_str r ''name''))
     (filter (\<lambda>r. ar_class r \<in> {OtherClass ''NatSubnet'', OtherClass ''NatEpgSubnet''}) (ds_aim st))"

lemma epg_subnet_gateway_changed:
  "demo_strategy_subnets demo_epg_1 = [(OtherClass ''NatEpgSubnet'', Some ''10.0.0.1/24'')]"
  "demo_strategy_subnets demo_epg_2 = [(OtherClass ''NatEpgSubnet'', Some ''10.0.0.1/24''), (OtherClass ''NatSubnet'', Some ''10.0.0.9/24'')]"
  by code_simp+

end
