(* ===== verification/Spec2Isabelle.thy ===== *)
theory Spec2Isabelle
  imports Plugin_Deletion Topology Owner_Tables Extension_Laws Snat_Service_Laws Endpoint_Laws
    Routing_Witnesses Address_Scope_Laws Security_Group_Examples Fabric_Subnet_Examples
begin

text \<open>
  Group Based Policy: the policy database, the service plugin, and the state the mechanism driver keeps.

  The program is a service plugin of neutron.  A request for one of thirteen kinds of resource
  (policy classifiers, actions, rules and rule sets; policy targets and their groups,
  application policy groups, L2 policies and network service policies; L3 policies, external
  segments, external policies and NAT pools) is validated by the API layer
  (\<^verbatim>\<open>extensions/group_policy.py\<close>), handled by the plugin (\<^verbatim>\<open>services/grouppolicy/plugin.py\<close>) and stored
  by the database mixins (\<^verbatim>\<open>db/grouppolicy/group_policy_db.py\<close>, \<^verbatim>\<open>group_policy_mapping_db.py\<close>).

  Theories:
  \<^item> \<open>Prelude\<close>: the error monad on sums, checked loops and the Python string operations.
  \<^item> \<open>Validators\<close>: converters and validators of the API attributes, pool and port conversions.
  \<^item> \<open>Schema\<close>, \<open>Db_Common\<close>: tables, rows, exceptions, request context and scoped queries.
  \<^item> \<open>Policy_Db\<close>, \<open>Group_Db\<close>, \<open>External_Db\<close>: the operations of the two database mixins.
  \<^item> \<open>Db_Invariants\<close>, \<open>Db_Preserve\<close>, \<open>Db_Steps\<close>: the invariant of the database, its preservation
    by every operation, and the reachable databases.
  \<^item> \<open>Db_Ownership\<close>, \<open>Db_Contracts\<close>: which ids an operation adds or removes, and the interface of a
    resource's table, interpreted for each kind of resource.
  \<^item> \<open>Db_Safety\<close>, \<open>Db_Relations\<close>: the properties of the database.
  \<^item> \<open>Plugin_Sharing\<close>, \<open>Plugin_Requests\<close>, \<open>Plugin_Frame\<close>, \<open>Plugin_Invariant\<close>: the sharing validations of
    the plugin, the requests they guard and what an operation changes of the references.
  \<^item> \<open>Plugin_Safety\<close>: the databases that validated requests reach, and the sharing rule they obey.
  \<^item> \<open>Effects\<close>, \<open>Driver_Manager\<close>, \<open>Manager_Contracts\<close>: code with effects and exceptions, the managers
    of the policy drivers (\<^verbatim>\<open>policy_driver_manager.py\<close>) and of the extension drivers
    (\<^verbatim>\<open>extension_manager.py\<close>), and the contract of a driver, interpreted for the driver that does
    nothing (\<^verbatim>\<open>drivers/dummy_driver.py\<close>).
  \<^item> \<open>Plugin_Routes\<close>: the plugin's validations of external segments, their routes and the L3
    policies on them, and of redirect actions.
  \<^item> \<open>Plugin_World\<close>, \<open>Plugin_Workflow\<close>: the state of a request, reading with status, and every
    create, update and delete handler of the plugin.
  \<^item> \<open>Plugin_Contracts\<close>, \<open>Plugin_Refinement\<close>: what the handlers guarantee whatever the drivers do,
    and that they refine the validated requests of \<open>Plugin_Safety\<close> when the drivers leave the
    policy database alone.
  \<^item> \<open>Plugin_Queries\<close>, \<open>Plugin_Deletion\<close>: the get methods of the plugin for every resource, and the
    deletion of a group with its proxies, which ends, removes what it should, and refuses a group
    with a target whose port is bound.
  \<^item> \<open>Policy_Context\<close>, \<open>Implicit_Policy\<close>: the setters that policy contexts offer the drivers
    (\<^verbatim>\<open>group_policy_context.py\<close>), the driver's way back into the plugin (\<^verbatim>\<open>common/local_api.py\<close>) and
    the implicit policy driver (\<^verbatim>\<open>drivers/implicit_policy.py\<close>) with its tables of owned policies.
  \<^item> \<open>Implicit_Contracts\<close>, \<open>Implicit_Effects\<close>: the driver keeps what requests and setters keep, and
    what it achieves: every L2 policy has an L3 policy and every group an L2 policy.

  The mechanism driver for the APIC fabric (\<^verbatim>\<open>plugins/ml2plus/drivers/apic_aim/\<close>) keeps tables of its
  own beside those of the core service, computes how networks hang together, hands out ranges of
  ports and answers the agents on the hosts:
  \<^item> \<open>Neutron_Tables\<close>: the rows of the core service that the driver's queries join.
  \<^item> \<open>Topology\<close>: the networks that are connected over routers (\<^verbatim>\<open>_router_topology\<close>,
    \<^verbatim>\<open>_network_topology\<close>), which the driver computes before it moves networks between VRFs.
  \<^item> \<open>Fabric_Tables\<close>, \<open>Owner_Tables\<close>: the mapping tables and the other tables of \<^verbatim>\<open>db.py\<close>: owners of
    highly available addresses, and the names of virtual machines with their update.
  \<^item> \<open>Extension_Db\<close>, \<open>Extension_Laws\<close>: the extension attributes of networks, subnets, ports and
    routers (\<^verbatim>\<open>extension_db.py\<close>), an interface for the tables of list attributes, and round trips.
  \<^item> \<open>Dist_Snat\<close>, \<open>Dist_Snat_Laws\<close>: the allocation of port ranges for distributed SNAT, alone and
    against the transactions of other controllers.
  \<^item> \<open>Snat_Service\<close>, \<open>Snat_Service_Laws\<close>: the modes of subnets, service ports and nodes, SNAT pools.
  \<^item> \<open>Apic_Names\<close>: the names of the fabric's resources (\<^verbatim>\<open>apic_mapper.py\<close>).
  \<^item> \<open>Endpoint_Tables\<close>, \<open>Endpoint_Details\<close>, \<open>Endpoint_Rpc\<close>, \<open>Endpoint_Laws\<close>: the handler of the agents'
    requests (\<^verbatim>\<open>rpc.py\<close>): what it queries, what it builds, and to whom it tells it.

  The handlers of the mechanism driver (\<^verbatim>\<open>mechanism_driver.py\<close>) run in the transaction of a request
  of the core plugin and write resources of the fabric through a library that is not in the repository:
  \<^item> \<open>Aim_Store\<close>: operations that may raise on the state of a transaction, resources as classes with
    attributes, and the interface of the library; \<open>Fabric_Example\<close> is a library for the witnesses.
  \<^item> \<open>Vrf_Moves\<close>, \<open>Vrf_Move_Laws\<close>: the VRFs of networks, and moving a topology to another VRF.
  \<^item> \<open>External_Connectivity\<close>, \<open>Connectivity_Laws\<close>: the contracts of routers with external networks,
    and the overlap of subnets in a VRF, which looks at neighbours in sorted order only.
  \<^item> \<open>Router_Interfaces\<close>, \<open>Router_Interface_Laws\<close>, \<open>Routing_Witnesses\<close>: adding and removing router
    interfaces and changing routers; networks that are routed together share a VRF.
  \<^item> \<open>Address_Scopes\<close>, \<open>Address_Scope_Laws\<close>: address scopes and the VRFs they own, subnet pools.
  \<^item> \<open>Security_Groups\<close>, \<open>Security_Group_Laws\<close>, \<open>Security_Group_Examples\<close>: security groups and the
    address lists of rules with a remote group, which ports keep up to date.
  \<^item> \<open>Fabric_Networks\<close>, \<open>Fabric_Network_Laws\<close>, \<open>Fabric_Network_Examples\<close>: private, SVI and external
    networks and quality of service; each private network has resources of its own.
  \<^item> \<open>Dist_Snat_Policy\<close>, \<open>Fabric_Subnets\<close>, \<open>Fabric_Subnet_Examples\<close>: subnets, and the policy of
    distributed SNAT (\<^verbatim>\<open>distributed_snat_helper.py\<close>).

  Correspondence.  A table is a list of rows in the order of insertion, an association table a list
  of pairs; a database operation takes the request context, the id that the code draws with
  \<^verbatim>\<open>generate_uuid\<close>, the request body and the database, and returns the new database and the result
  dictionary or an exception.  A handler is an action on the plugin's state: the policy database,
  the tables that drivers keep in the same database and that roll back with it, the world outside,
  and the policy context at hand.  A result, normal or exceptional, comes with the state it leaves.

  Bounds.  In the plugin the only recursion that is not structural is the deletion of a group, which follows
  proxy groups; it takes fuel and raises \<^verbatim>\<open>RecursionError\<close> at its end, as the interpreter does.
  A driver calls the plugin that calls the drivers: \<open>implicit_plugin n\<close> allows \<open>n\<close> nested requests.
  Four are enough for the implicit policy driver (a group creates an L2 policy, which creates an L3
  policy, whose creation queries L3 policies); the theorems hold at every depth.

  The search for free ports and the loop that binds a port before it reads the endpoint's state may
  run for ever; they are partial functions into an option, and the theorems that they end say when.
  What other controllers commit during a transaction is a function on the table; the theorems on
  competing transactions assume of it what a transaction of the program itself does.

  Parameters.  The visibility of rows to a request (\<^verbatim>\<open>neutron_lib\<close>'s model query), \<^verbatim>\<open>netaddr\<close>,
  neutron's subnets and ports, the service chain plugin, the policy drivers and the extension
  drivers are parameters of the definitions that use them; so are the core plugin's creation,
  deletion and binding of ports and the compute service's list of machines.  The fabric library (its
  manager, its NAT strategies and the identities of its resources) is a record of functions on a store
  of any type.  The theorems name what they assume of it: a lookup returns a resource of the identity
  asked for (\<open>aim_lookup_ok\<close>), an update returns what the next lookup finds (\<open>aim_update_ok\<close>), creations
  and deletions of VRFs, of rules and of a network's resources change these alone (\<open>aim_vrfs_ok\<close>,
  \<open>aim_rules_ok\<close>, \<open>cascade_ok\<close>, \<open>aim_store_ok\<close>, \<open>nothing_kept\<close>), and prefixes are ordered as the
  address library orders them (\<open>net_order_ok\<close>).  The witnesses prove each of them for a list of resources.

  Not modelled: pagination and the selection of fields in queries, quotas, logging and the retry
  decorators (a handler is one attempt); of the mechanism driver, its start, the dictionaries it
  extends, the binding of ports and the clean-up of hosts; the fabric library itself; the policy
  drivers for particular back ends; service function chaining; migrations and command line tools.
  The foreign keys that the database engine enforces are not modelled either, nor those of other
  modules' tables into the policy database that have no cascade (\<^verbatim>\<open>apic_reuse_bd_db.py\<close>,
  \<^verbatim>\<open>nsp_manager.py\<close>, \<^verbatim>\<open>group_proxy_db.py\<close>): a row of one of these makes the engine refuse a deletion that
  the model lets pass.
\<close>

end
